(* ===== verification/Portal_Prelude.thy ===== *)
theory Portal_Prelude
  imports Main "HOL-Library.Char_ord" "HOL-Library.List_Lexorder"
begin

section \<open>Prelude: Python values, time, errors and tables\<close>

text \<open>
  What the components share: the types that name identifiers and instants, the dynamic
  values the services exchange as dictionaries, the exceptions they raise, and the table
  operations the queries are written with.

  \<^item> A UUID is its canonical text, so \<open>str(row.id)\<close> in the source is the identifier itself.
  \<^item> A \<open>datetime\<close> is the integer number of microseconds since the epoch, in UTC:
    \<open>ensure_utc\<close> is the identity on such instants, and \<open>timedelta(seconds=n)\<close> is
    \<open>seconds n\<close>.
  \<^item> Text is a list of 8-bit characters; case mapping acts on A-Z, which is exact for ASCII.
  \<^item> \<open>pyval\<close> is a Python object as it travels in JSON and audit metadata. \<open>PTime t\<close> is the
    string \<open>t.isoformat()\<close>: a string that holds such a text is always written \<open>PTime\<close>.
    \<open>PFloat\<close> carries the \<open>repr\<close> of a float and \<open>POther\<close> the \<open>str()\<close> of any other object.
\<close>

type_synonym uuid = string
type_synonym instant = int

named_theorems row_simps "equations of the table operations"
named_theorems check_defs "definitions of the CHECK constraints"

subsection \<open>Time\<close>

definition seconds :: "int \<Rightarrow> instant" where
  "seconds n = n * 1000000"

text \<open>\<open>int(delta.total_seconds())\<close>: truncation towards zero.\<close>

definition whole_seconds :: "int \<Rightarrow> int" where
  "whole_seconds d = (if 0 \<le> d then d div 1000000 else - ((- d) div 1000000))"

lemma seconds_simps [simp]:
  "seconds 0 = 0" "seconds (a + b) = seconds a + seconds b"
  "seconds a < seconds b \<longleftrightarrow> a < b" "seconds a \<le> seconds b \<longleftrightarrow> a \<le> b"
  "seconds a = seconds b \<longleftrightarrow> a = b"
  by (auto simp: seconds_def)

lemma seconds_pos [simp]: "0 < seconds n \<longleftrightarrow> 0 < n" "0 \<le> seconds n \<longleftrightarrow> 0 \<le> n"
  by (auto simp: seconds_def)

lemma whole_seconds_seconds [simp]: "whole_seconds (seconds n) = n"
  by (auto simp: whole_seconds_def seconds_def)

lemma whole_seconds_pos: "0 < whole_seconds d \<longleftrightarrow> seconds 1 \<le> d"
  by (simp add: whole_seconds_def seconds_def pos_imp_zdiv_pos_iff div_nonneg_neg_le0) linarith

lemma whole_seconds_le: "0 \<le> n \<Longrightarrow> whole_seconds d \<le> n \<longleftrightarrow> d < seconds (n + 1)"
  unfolding whole_seconds_def seconds_def by (auto; presburger)

subsection \<open>Decimal text\<close>

fun digits_nat :: "nat \<Rightarrow> string" where
  "digits_nat n = (if n < 10 then [char_of (48 + n)]
     else digits_nat (n div 10) @ [char_of (48 + n mod 10)])"

declare digits_nat.simps [simp del]

definition str_int :: "int \<Rightarrow> string" where
  "str_int n = (if n < 0 then ''-'' @ digits_nat (nat (- n)) else digits_nat (nat n))"

text \<open>Reading the decimal text back recovers the number, so \<open>str\<close> is injective on integers.\<close>

definition digit_val :: "char \<Rightarrow> nat" where
  "digit_val c = of_char c - 48"

definition read_nat :: "string \<Rightarrow> nat" where
  "read_nat s = foldl (\<lambda>a c. 10 * a + digit_val c) 0 s"

lemma digit_val_digit [simp]: "d < 10 \<Longrightarrow> digit_val (char_of (48 + d)) = d"
  by (simp add: digit_val_def)

lemma read_digits_nat: "read_nat (digits_nat n) = n"
proof (induction n rule: digits_nat.induct)
  case (1 n)
  show ?case
  proof (cases "n < 10")
    case True
    then show ?thesis by (subst digits_nat.simps) (simp add: read_nat_def)
  next
    case False
    with 1 have "read_nat (digits_nat (n div 10)) = n div 10" by simp
    with False show ?thesis by (subst digits_nat.simps) (simp add: read_nat_def)
  qed
qed

lemma digits_nat_inj: "digits_nat m = digits_nat n \<Longrightarrow> m = n"
  by (metis read_digits_nat)

lemma digits_nat_chars: "c \<in> set (digits_nat n) \<Longrightarrow> 48 \<le> (of_char c :: nat) \<and> (of_char c :: nat) \<le> 57"
proof (induction n rule: digits_nat.induct)
  case (1 n)
  show ?case
  proof (cases "n < 10")
    case True
    with "1.prems" show ?thesis by (simp add: digits_nat.simps [of n])
  next
    case False
    with "1.prems" consider "c \<in> set (digits_nat (n div 10))" | "c = char_of (48 + n mod 10)"
      by (auto simp: digits_nat.simps [of n])
    then show ?thesis
    proof cases
      case 1
      with False "1.IH" show ?thesis by simp
    next
      case 2
      then show ?thesis by simp
    qed
  qed
qed

lemma digits_nat_nonempty [simp]: "digits_nat n \<noteq> []"
  by (subst digits_nat.simps) simp

text \<open>\<open>str_int\<close> on a closed positive numeral, for evaluation by \<open>simp\<close>.\<close>

lemma str_int_nonneg: "0 \<le> n \<Longrightarrow> str_int n = digits_nat (nat n)"
  by (simp add: str_int_def)

lemma str_int_inj_nonneg: "0 \<le> m \<Longrightarrow> 0 \<le> n \<Longrightarrow> str_int m = str_int n \<Longrightarrow> m = n"
  by (auto simp: str_int_def dest: digits_nat_inj)

subsection \<open>Python values\<close>

datatype pyval =
    PNone
  | PBool bool
  | PInt int
  | PFloat string
  | PStr string
  | PTime instant
  | PList "pyval list"
  | PTuple "pyval list"
  | PDict "(string \<times> pyval) list"
  | POther string

text \<open>\<open>d.get(key, default)\<close> and \<open>d.get(key)\<close>. A value that is not a dictionary has no keys;
  the services test \<open>isinstance(d, dict)\<close> (\<open>is_dict\<close>) before they call \<open>get\<close>.\<close>

fun dict_items :: "pyval \<Rightarrow> (string \<times> pyval) list" where
  "dict_items (PDict kvs) = kvs"
| "dict_items _ = []"

definition dget_or :: "pyval \<Rightarrow> string \<Rightarrow> pyval \<Rightarrow> pyval" where
  "dget_or d k dflt = (case map_of (dict_items d) k of None \<Rightarrow> dflt | Some v \<Rightarrow> v)"

definition dget :: "pyval \<Rightarrow> string \<Rightarrow> pyval" where
  "dget d k = dget_or d k PNone"

fun is_dict :: "pyval \<Rightarrow> bool" where
  "is_dict (PDict _) = True"
| "is_dict _ = False"

fun is_list :: "pyval \<Rightarrow> bool" where
  "is_list (PList _) = True"
| "is_list _ = False"

fun list_items :: "pyval \<Rightarrow> pyval list" where
  "list_items (PList xs) = xs"
| "list_items _ = []"

text \<open>\<open>isinstance(v, int)\<close> holds for booleans too, and \<open>True\<close> is the integer 1.\<close>

fun py_int :: "pyval \<Rightarrow> int option" where
  "py_int (PInt n) = Some n"
| "py_int (PBool b) = Some (if b then 1 else 0)"
| "py_int _ = None"

text \<open>\<open>{**d, **new}\<close>: a key of \<open>new\<close> replaces the value in place, other keys are appended.\<close>

fun dict_put :: "(string \<times> pyval) list \<Rightarrow> string \<Rightarrow> pyval \<Rightarrow> (string \<times> pyval) list" where
  "dict_put [] k v = [(k, v)]"
| "dict_put ((k', v') # kvs) k v =
     (if k = k' then (k', v) # kvs else (k', v') # dict_put kvs k v)"

fun dict_update :: "(string \<times> pyval) list \<Rightarrow> (string \<times> pyval) list \<Rightarrow> (string \<times> pyval) list" where
  "dict_update d [] = d"
| "dict_update d ((k, v) # new) = dict_update (dict_put d k v) new"

text \<open>The same on a dictionary of other values, in insertion order.\<close>

fun assoc_put :: "(string \<times> 'a) list \<Rightarrow> uuid \<Rightarrow> 'a \<Rightarrow> (string \<times> 'a) list" where
  "assoc_put [] k v = [(k, v)]"
| "assoc_put ((k', v') # kvs) k v = (if k = k' then (k, v) # kvs else (k', v') # assoc_put kvs k v)"

lemma assoc_put_new: "k \<notin> fst ` set kvs \<Longrightarrow> assoc_put kvs k v = kvs @ [(k, v)]"
  by (induction kvs k v rule: assoc_put.induct) auto

lemma map_of_assoc_put [simp]: "map_of (assoc_put kvs k v) = (map_of kvs)(k \<mapsto> v)"
  by (induction kvs k v rule: assoc_put.induct) auto

lemma set_assoc_put: "set (assoc_put kvs k v) \<subseteq> insert (k, v) (set kvs)"
  by (induction kvs k v rule: assoc_put.induct) auto

lemma keys_assoc_put [simp]: "fst ` set (assoc_put kvs k v) = insert k (fst ` set kvs)"
  by (induction kvs k v rule: assoc_put.induct) auto

lemma map_of_dict_put [simp]: "map_of (dict_put d k v) = (map_of d)(k \<mapsto> v)"
  by (induction d k v rule: dict_put.induct) auto

lemma dget_PDict [simp]:
  "dget (PDict ((k, v) # kvs)) k' = (if k = k' then v else dget (PDict kvs) k')"
  "dget (PDict []) k' = PNone"
  by (auto simp: dget_def dget_or_def)

lemma dget_dict_put [simp]:
  "dget (PDict (dict_put d k v)) k' = (if k' = k then v else dget (PDict d) k')"
  by (simp add: dget_def dget_or_def)

text \<open>A column that may be null, as a value of a dictionary.\<close>

definition opt_val :: "('a \<Rightarrow> pyval) \<Rightarrow> 'a option \<Rightarrow> pyval" where
  "opt_val f x = (case x of None \<Rightarrow> PNone | Some v \<Rightarrow> f v)"

text \<open>A dictionary compared with one of string values: Python compares keys and values, not order.\<close>

fun py_dict_eq :: "pyval \<Rightarrow> (string \<times> string) list \<Rightarrow> bool" where
  "py_dict_eq (PDict kvs) es =
     list_all (\<lambda>k. map_of kvs k = map_option PStr (map_of es k)) (map fst kvs @ map fst es)"
| "py_dict_eq _ es = False"

subsection \<open>\<open>str()\<close> and \<open>isoformat()\<close>\<close>

definition hex_digit :: "nat \<Rightarrow> char" where
  "hex_digit n = (if n < 10 then char_of (48 + n) else char_of (87 + n))"

definition pad :: "nat \<Rightarrow> int \<Rightarrow> string" where
  "pad w n = (let s = str_int n in replicate (w - length s) (CHR ''0'') @ s)"

definition civil_of_days :: "int \<Rightarrow> int \<times> int \<times> int" where
  "civil_of_days days =
     (let z = days + 719468; era = z div 146097; doe = z mod 146097;
          yoe = (doe - doe div 1460 + doe div 36524 - doe div 146096) div 365;
          doy = doe - (365 * yoe + yoe div 4 - yoe div 100);
          mp = (5 * doy + 2) div 153;
          d = doy - (153 * mp + 2) div 5 + 1;
          m = (if mp < 10 then mp + 3 else mp - 9)
      in (yoe + era * 400 + (if m \<le> 2 then 1 else 0), m, d))"

definition isoformat :: "instant \<Rightarrow> string" where
  "isoformat t =
     (let us = t mod 1000000; s = t div 1000000; sod = s mod 86400;
          (y, m, d) = civil_of_days (s div 86400)
      in pad 4 y @ ''-'' @ pad 2 m @ ''-'' @ pad 2 d @ ''T''
         @ pad 2 (sod div 3600) @ '':'' @ pad 2 (sod mod 3600 div 60) @ '':'' @ pad 2 (sod mod 60)
         @ (if us = 0 then [] else ''.'' @ pad 6 us) @ ''+00:00'')"

definition repr_char :: "char \<Rightarrow> char \<Rightarrow> string" where
  "repr_char q c =
     (let n = (of_char c :: nat) in
      if c = q \<or> n = 92 then [char_of (92 :: nat), c]
      else if n = 10 then [char_of (92 :: nat), CHR ''n'']
      else if n = 13 then [char_of (92 :: nat), CHR ''r'']
      else if n = 9 then [char_of (92 :: nat), CHR ''t'']
      else if n < 32 \<or> n = 127
        then [char_of (92 :: nat), CHR ''x'', hex_digit (n div 16), hex_digit (n mod 16)]
      else [c])"

definition repr_str :: "string \<Rightarrow> string" where
  "repr_str s =
     (let single = char_of (39 :: nat); double = char_of (34 :: nat);
          q = (if single \<in> set s \<and> double \<notin> set s then double else single)
      in [q] @ concat (map (repr_char q) s) @ [q])"

fun join :: "string \<Rightarrow> string list \<Rightarrow> string" where
  "join sep [] = []"
| "join sep [x] = x"
| "join sep (x # y # xs) = x @ sep @ join sep (y # xs)"

fun py_repr :: "pyval \<Rightarrow> string" where
  "py_repr PNone = ''None''"
| "py_repr (PBool b) = (if b then ''True'' else ''False'')"
| "py_repr (PInt n) = str_int n"
| "py_repr (PFloat s) = s"
| "py_repr (PStr s) = repr_str s"
| "py_repr (PTime t) = repr_str (isoformat t)"
| "py_repr (PList xs) = ''['' @ join '', '' (map py_repr xs) @ '']''"
| "py_repr (PTuple xs) =
     ''('' @ join '', '' (map py_repr xs) @ (if length xs = 1 then '',)'' else '')'')"
| "py_repr (PDict kvs) =
     ''{'' @ join '', '' (map (\<lambda>kv. repr_str (fst kv) @ '': '' @ py_repr (snd kv)) kvs) @ ''}''"
| "py_repr (POther s) = s"

text \<open>\<open>str(v)\<close>, which for strings is the string itself.\<close>

definition py_str :: "pyval \<Rightarrow> string" where
  "py_str v = (case v of PStr s \<Rightarrow> s | PTime t \<Rightarrow> isoformat t | _ \<Rightarrow> py_repr v)"

lemma py_str_PStr [simp]: "py_str (PStr s) = s"
  by (simp add: py_str_def)

subsection \<open>Exceptions\<close>

text \<open>
  What the services raise. An \<open>HTTPException\<close> carries the status and the stable error code of
  its detail (the human text beside the code is not modelled); \<open>IntegrityError\<close> is what a flush
  raises on a UNIQUE constraint, named by its columns. A function that may raise and
  that changes rows returns the error together with the rows as it left them: whether they are
  committed is the caller's decision.
\<close>

datatype exn =
    HTTPException int string
  | ValueError string
  | RuntimeError string
  | IntegrityError string
  | RenewalLeaseExpiredError
  | WorkerClientError string
  | TerminalServiceError string
  | SshPublicKeyValidationError string
  | DelegatedTestAuthError string
  | OperationPayloadError string
  | PayloadValidationError string
  | OverflowError string
  | AttributeError string
  | TypeError string

type_synonym 'a result = "exn + 'a"
type_synonym ('db, 'a) action = "'db \<Rightarrow> 'a result \<times> 'db"

subsection \<open>Queries over tables\<close>

text \<open>
  A table is the list of its rows, in the order the database returns them. \<open>scalar\<close> is
  \<open>db.scalar(select(...).where(...))\<close>: the first row that matches, if any.
\<close>

definition scalar :: "('r \<Rightarrow> bool) \<Rightarrow> 'r list \<Rightarrow> 'r option" where
  "scalar p rows = List.find p rows"

definition order_asc :: "('r \<Rightarrow> 'k :: linorder) \<Rightarrow> 'r list \<Rightarrow> 'r list" where
  "order_asc key rows = sort_key key rows"

definition order_desc :: "('r \<Rightarrow> int) \<Rightarrow> 'r list \<Rightarrow> 'r list" where
  "order_desc key rows = sort_key (\<lambda>r. - key r) rows"

definition update_where :: "('r \<Rightarrow> bool) \<Rightarrow> ('r \<Rightarrow> 'r) \<Rightarrow> 'r list \<Rightarrow> 'r list" where
  "update_where p f rows = map (\<lambda>r. if p r then f r else r) rows"

lemma scalar_simps [simp]:
  "scalar p [] = None"
  "scalar p (r # rows) = (if p r then Some r else scalar p rows)"
  by (auto simp: scalar_def)

lemma scalar_SomeD: "scalar p rows = Some r \<Longrightarrow> r \<in> set rows \<and> p r"
  by (induction rows) (auto split: if_splits)

lemma scalar_NoneD: "scalar p rows = None \<Longrightarrow> r \<in> set rows \<Longrightarrow> \<not> p r"
  by (induction rows) (auto split: if_splits)

lemma scalar_None_iff: "scalar p rows = None \<longleftrightarrow> (\<forall>r \<in> set rows. \<not> p r)"
  by (induction rows) auto

lemma scalar_append: "scalar p (xs @ ys) = (case scalar p xs of None \<Rightarrow> scalar p ys | Some r \<Rightarrow> Some r)"
  by (induction xs) auto

lemma scalar_cong: "(\<And>r. r \<in> set rows \<Longrightarrow> p r = q r) \<Longrightarrow> scalar p rows = scalar q rows"
  by (induction rows) auto

lemma scalar_filter: "scalar p (filter q rows) = scalar (\<lambda>r. q r \<and> p r) rows"
  by (induction rows) auto

lemma set_order [simp]: "set (order_desc key rows) = set rows" "set (order_asc k rows) = set rows"
  by (auto simp: order_desc_def order_asc_def)

lemma update_where_simps [simp]:
  "update_where p f [] = []"
  "update_where p f (r # rows) = (if p r then f r else r) # update_where p f rows"
  by (auto simp: update_where_def)

lemma length_update_where [simp]: "length (update_where p f rows) = length rows"
  by (simp add: update_where_def)

lemma set_update_where: "set (update_where p f rows) = (\<lambda>r. if p r then f r else r) ` set rows"
  by (simp add: update_where_def)

lemma map_update_where:
  "(\<And>r. p r \<Longrightarrow> g (f r) = g r) \<Longrightarrow> map g (update_where p f rows) = map g rows"
  by (induction rows) auto

lemma update_where_id: "(\<And>r. r \<in> set rows \<Longrightarrow> p r \<Longrightarrow> f r = r) \<Longrightarrow> update_where p f rows = rows"
  by (induction rows) auto

lemma list_all2_update_where:
  assumes "\<And>r. r \<in> set rows \<Longrightarrow> p r \<Longrightarrow> R r (f r)" and "\<And>r. R r r"
  shows "list_all2 R rows (update_where p f rows)"
  using assms(1) by (induction rows) (auto simp: assms(2))

lemma length_filter_list_all2:
  assumes "list_all2 R xs ys" and "\<And>x y. R x y \<Longrightarrow> q y \<Longrightarrow> p x"
  shows "length (filter q ys) \<le> length (filter p xs)"
  using assms(1) by (induction rule: list_all2_induct) (auto dest: assms(2))

lemma update_where_append [simp]:
  "update_where p f (xs @ ys) = update_where p f xs @ update_where p f ys"
  by (simp add: update_where_def)

text \<open>The first row of a descending order is the greatest of the matching rows.\<close>

lemma scalar_sorted_least:
  assumes "sorted (map k rows)" and "scalar p rows = Some r" and "r' \<in> set rows" and "p r'"
  shows "k r \<le> k r'"
  using assms by (induction rows) (auto split: if_splits)

lemma scalar_order_desc:
  assumes "scalar p (order_desc key rows) = Some r" and "r' \<in> set rows" and "p r'"
  shows "key r' \<le> key r"
proof -
  have "sorted (map (\<lambda>r. - key r) (order_desc key rows))"
    by (simp add: order_desc_def)
  from scalar_sorted_least [OF this assms(1)] assms(2,3) have "- key r \<le> - key r'" by simp
  then show ?thesis by simp
qed

lemma hd_order_desc:
  assumes "order_desc key rows = r # rest" and "r' \<in> set rows"
  shows "key r' \<le> key r"
proof -
  have "scalar (\<lambda>_. True) (order_desc key rows) = Some r"
    using assms(1) by simp
  then show ?thesis using assms(2) by (rule scalar_order_desc) simp
qed

subsection \<open>Row stores\<close>

text \<open>
  What a service relies on when it reads a row by its primary key and writes it back: a write
  is seen under its own key, and under no other. \<open>content\<close> is the database without the table
  the store keeps, which no write of the store touches.
\<close>

locale row_store =
  fixes lookup :: "'db \<Rightarrow> uuid \<Rightarrow> 'r option"
    and modify :: "uuid \<Rightarrow> ('r \<Rightarrow> 'r) \<Rightarrow> 'db \<Rightarrow> 'db"
    and pk :: "'r \<Rightarrow> uuid"
  assumes lookup_pk: "lookup db i = Some r \<Longrightarrow> pk r = i"
    and lookup_modify: "(\<And>r. pk (f r) = pk r) \<Longrightarrow>
      lookup (modify i f db) j = (if i = j then map_option f (lookup db j) else lookup db j)"
    and modify_absent: "lookup db i = None \<Longrightarrow> modify i f db = db"
begin

lemma lookup_modify_same:
  "(\<And>r. pk (f r) = pk r) \<Longrightarrow> lookup db i = Some r \<Longrightarrow> lookup (modify i f db) i = Some (f r)"
  by (simp add: lookup_modify)

lemma lookup_modify_other:
  "(\<And>r. pk (f r) = pk r) \<Longrightarrow> i \<noteq> j \<Longrightarrow> lookup (modify i f db) j = lookup db j"
  by (simp add: lookup_modify)

lemma lookup_modify_None [simp]:
  "(\<And>r. pk (f r) = pk r) \<Longrightarrow> lookup (modify i f db) j = None \<longleftrightarrow> lookup db j = None"
  by (simp add: lookup_modify)

text \<open>A property of the rows that the written value keeps holds of every row afterwards.\<close>

lemma modify_all:
  assumes "\<And>r. pk (f r) = pk r"
    and "\<And>j r. lookup db j = Some r \<Longrightarrow> P r"
    and "\<And>r. lookup db i = Some r \<Longrightarrow> P (f r)"
    and "lookup (modify i f db) j = Some r"
  shows "P r"
  using assms by (auto simp: lookup_modify split: if_splits)

text \<open>A loop that writes each of a list of rows.\<close>

lemma lookup_fold_modify:
  assumes "\<And>r. pk (f r) = pk r" and "\<And>r. f (f r) = f r"
  shows "lookup (fold (\<lambda>i. modify i f) is db) j =
    (if j \<in> set is then map_option f (lookup db j) else lookup db j)"
  using assms
  by (induction "is" arbitrary: db) (auto simp: lookup_modify option.map_comp comp_def)

end

end
