(* ===== verification/Operation_Lifecycle.thy ===== *)
theory Operation_Lifecycle
  imports Portal_Prelude
begin

section \<open>Enumerations and the operation catalogue\<close>

text \<open>
  \<open>enums.py\<close> and \<open>operations.py\<close>: the status enumerations, the catalogue of operation types
  with their permissions and risk levels, and the two transition tables. The catalogue's sets
  are lists (membership is the only question asked of them); a transition table is a function
  from a status to the list of its successors. The lemmas show what the tables admit: the order
  of a run, the states no run leaves, and the gate that every execution passes.
\<close>

datatype account_state =
  AS_INVITED | AS_ACTIVE | AS_SUSPENDED | AS_LOCKED | AS_DECOMMISSIONED

datatype password_state =
  PS_SETUP_REQUIRED | PS_SET | PS_RESET_REQUIRED | PS_DISABLED

datatype password_action_purpose =
  PP_INITIAL_PASSWORD_SETUP | PP_PASSWORD_RESET

datatype password_action_token_state =
  TS_ACTIVE | TS_USED | TS_REVOKED | TS_EXPIRED

datatype onboarding_state =
  OB_NOT_ENROLLED | OB_DRAFT | OB_STAGED | OB_READY_FOR_ACTIVATION | OB_ACTIVE
  | OB_SUSPENDED | OB_FAILED

datatype operation_status =
  OP_DRAFT | OP_PENDING_APPROVAL | OP_APPROVED | OP_QUEUED | OP_RUNNING | OP_SUCCEEDED
  | OP_FAILED | OP_ROLLING_BACK | OP_ROLLED_BACK | OP_CANCELLED | OP_EXPIRED

datatype risk_level = RISK_LOW | RISK_MEDIUM | RISK_HIGH | RISK_CRITICAL

text \<open>A \<open>StrEnum\<close> member is its string value.\<close>

fun onboarding_value :: "onboarding_state \<Rightarrow> string" where
  "onboarding_value OB_NOT_ENROLLED = ''NOT_ENROLLED''"
| "onboarding_value OB_DRAFT = ''DRAFT''"
| "onboarding_value OB_STAGED = ''STAGED''"
| "onboarding_value OB_READY_FOR_ACTIVATION = ''READY_FOR_ACTIVATION''"
| "onboarding_value OB_ACTIVE = ''ACTIVE''"
| "onboarding_value OB_SUSPENDED = ''SUSPENDED''"
| "onboarding_value OB_FAILED = ''FAILED''"

fun status_value :: "operation_status \<Rightarrow> string" where
  "status_value OP_DRAFT = ''DRAFT''"
| "status_value OP_PENDING_APPROVAL = ''PENDING_APPROVAL''"
| "status_value OP_APPROVED = ''APPROVED''"
| "status_value OP_QUEUED = ''QUEUED''"
| "status_value OP_RUNNING = ''RUNNING''"
| "status_value OP_SUCCEEDED = ''SUCCEEDED''"
| "status_value OP_FAILED = ''FAILED''"
| "status_value OP_ROLLING_BACK = ''ROLLING_BACK''"
| "status_value OP_ROLLED_BACK = ''ROLLED_BACK''"
| "status_value OP_CANCELLED = ''CANCELLED''"
| "status_value OP_EXPIRED = ''EXPIRED''"

text \<open>Risk levels are ordered by severity.\<close>

fun risk_rank :: "risk_level \<Rightarrow> nat" where
  "risk_rank RISK_LOW = 0"
| "risk_rank RISK_MEDIUM = 1"
| "risk_rank RISK_HIGH = 2"
| "risk_rank RISK_CRITICAL = 3"

lemma risk_rank_inj: "risk_rank a = risk_rank b \<Longrightarrow> a = b"
  by (cases a; cases b) auto

instantiation risk_level :: linorder
begin

definition less_eq_risk_level :: "risk_level \<Rightarrow> risk_level \<Rightarrow> bool" where
  "less_eq_risk_level a b \<longleftrightarrow> risk_rank a \<le> risk_rank b"

definition less_risk_level :: "risk_level \<Rightarrow> risk_level \<Rightarrow> bool" where
  "less_risk_level a b \<longleftrightarrow> risk_rank a < risk_rank b"

instance
  by standard
    (auto simp: less_eq_risk_level_def less_risk_level_def intro: risk_rank_inj)

end

subsection \<open>The catalogue\<close>

definition READ_OPERATION_TYPES :: "string list" where
  "READ_OPERATION_TYPES =
    [''platform.health.read'', ''gpu.list'', ''gpu.health.read'', ''slurm.node.read'',
     ''slurm.jobs.read'', ''slurm.accounts.read'', ''slurm.history.read'', ''containers.list'',
     ''containers.inspect'', ''storage.summary.read'', ''quotas.list'', ''systemd.failed.read'',
     ''monitoring.alerts.read'', ''monitoring.summary.read'', ''registry.status.read'',
     ''images.list'', ''gpu_isolation.status.read'']"

definition WRITE_OPERATION_TYPES :: "string list" where
  "WRITE_OPERATION_TYPES =
    [''compute.provision.plan'', ''compute.provision.dry_run'',
     ''compute.provision.retry_authorize'', ''compute.provision.reconcile'',
     ''compute.provision.stage'', ''user.plan'', ''user.stage'', ''user.activate'',
     ''user.ssh_client_validation.record'', ''user.pilot.acceptance'', ''user.suspend'',
     ''container.start'', ''container.stop'', ''container.restart'', ''container.rebuild'',
     ''slurm.drain'', ''slurm.resume'', ''slurm.production_pilot.start'', ''job.cancel'',
     ''quota.update'', ''ssh_key.add'', ''ssh_key.revoke'']"

definition HIGH_RISK_OPERATION_TYPES :: "string list" where
  "HIGH_RISK_OPERATION_TYPES =
    [''compute.provision.stage'', ''user.stage'', ''user.activate'', ''user.pilot.acceptance'',
     ''user.suspend'', ''slurm.drain'', ''slurm.resume'', ''slurm.production_pilot.start'',
     ''quota.update'', ''container.stop'', ''container.rebuild'', ''ssh_key.revoke'']"

definition OPERATION_PERMISSIONS :: "(string \<times> string) list" where
  "OPERATION_PERMISSIONS =
    [(''compute.provision.plan'', ''compute_requests.plan''),
     (''compute.provision.dry_run'', ''compute_requests.plan''),
     (''compute.provision.retry_authorize'', ''compute_requests.plan''),
     (''compute.provision.reconcile'', ''compute_requests.reconcile''),
     (''compute.provision.stage'', ''compute_requests.plan''),
     (''user.plan'', ''users.write''),
     (''user.stage'', ''users.write''),
     (''user.activate'', ''users.write''),
     (''user.ssh_client_validation.record'', ''users.write''),
     (''user.pilot.acceptance'', ''slurm.write''),
     (''user.suspend'', ''users.write''),
     (''container.start'', ''containers.write''),
     (''container.stop'', ''containers.write''),
     (''container.restart'', ''containers.write''),
     (''container.rebuild'', ''containers.write''),
     (''slurm.drain'', ''slurm.write''),
     (''slurm.resume'', ''slurm.write''),
     (''slurm.production_pilot.start'', ''slurm.write''),
     (''job.cancel'', ''jobs.write''),
     (''quota.update'', ''users.write''),
     (''ssh_key.add'', ''users.write''),
     (''ssh_key.revoke'', ''users.write'')]"

definition risk_for :: "string \<Rightarrow> risk_level" where
  "risk_for operation_type =
     (if operation_type \<in> set [''compute.provision.stage'', ''slurm.resume'',
          ''slurm.production_pilot.start'', ''user.activate'', ''user.suspend'',
          ''user.pilot.acceptance'', ''compute.provision.reconcile'']
      then RISK_CRITICAL
      else if operation_type \<in> set HIGH_RISK_OPERATION_TYPES then RISK_HIGH
      else if operation_type \<in> set WRITE_OPERATION_TYPES then RISK_MEDIUM
      else RISK_LOW)"

definition is_known :: "string \<Rightarrow> bool" where
  "is_known operation_type \<longleftrightarrow>
     operation_type \<in> set READ_OPERATION_TYPES \<or> operation_type \<in> set WRITE_OPERATION_TYPES"

definition allowed_operation_types :: "string list" where
  "allowed_operation_types = sort (remdups (READ_OPERATION_TYPES @ WRITE_OPERATION_TYPES))"

lemmas catalogue_defs = READ_OPERATION_TYPES_def WRITE_OPERATION_TYPES_def
  HIGH_RISK_OPERATION_TYPES_def OPERATION_PERMISSIONS_def

subsection \<open>Transition tables\<close>

fun ALLOWED_TRANSITIONS :: "operation_status \<Rightarrow> operation_status list" where
  "ALLOWED_TRANSITIONS OP_DRAFT = [OP_PENDING_APPROVAL, OP_CANCELLED]"
| "ALLOWED_TRANSITIONS OP_PENDING_APPROVAL = [OP_APPROVED, OP_CANCELLED, OP_EXPIRED]"
| "ALLOWED_TRANSITIONS OP_APPROVED = [OP_QUEUED, OP_CANCELLED]"
| "ALLOWED_TRANSITIONS OP_QUEUED = [OP_RUNNING, OP_CANCELLED]"
| "ALLOWED_TRANSITIONS OP_RUNNING = [OP_SUCCEEDED, OP_FAILED, OP_ROLLING_BACK]"
| "ALLOWED_TRANSITIONS OP_ROLLING_BACK = [OP_ROLLED_BACK, OP_FAILED]"
| "ALLOWED_TRANSITIONS OP_ROLLED_BACK = [OP_DRAFT]"
| "ALLOWED_TRANSITIONS _ = []"

definition can_transition :: "operation_status \<Rightarrow> operation_status \<Rightarrow> bool" where
  "can_transition current target \<longleftrightarrow> target \<in> set (ALLOWED_TRANSITIONS current)"

fun ONBOARDING_TRANSITIONS :: "onboarding_state \<Rightarrow> onboarding_state list" where
  "ONBOARDING_TRANSITIONS OB_NOT_ENROLLED = [OB_DRAFT]"
| "ONBOARDING_TRANSITIONS OB_DRAFT = [OB_STAGED, OB_FAILED]"
| "ONBOARDING_TRANSITIONS OB_STAGED = [OB_ACTIVE, OB_FAILED]"
| "ONBOARDING_TRANSITIONS OB_ACTIVE = [OB_SUSPENDED, OB_FAILED]"
| "ONBOARDING_TRANSITIONS OB_SUSPENDED = [OB_ACTIVE, OB_FAILED]"
| "ONBOARDING_TRANSITIONS OB_FAILED = [OB_DRAFT, OB_SUSPENDED]"
| "ONBOARDING_TRANSITIONS OB_READY_FOR_ACTIVATION = [OB_ACTIVE, OB_FAILED]"

definition can_transition_onboarding :: "onboarding_state \<Rightarrow> onboarding_state \<Rightarrow> bool" where
  "can_transition_onboarding current target \<longleftrightarrow> target \<in> set (ONBOARDING_TRANSITIONS current)"

text \<open>
  A run is a sequence of states in which each step is one the table allows.
\<close>

fun legal_run :: "('s \<Rightarrow> 's \<Rightarrow> bool) \<Rightarrow> 's \<Rightarrow> 's list \<Rightarrow> bool" where
  "legal_run can s [] = True"
| "legal_run can s (t # ts) = (can s t \<and> legal_run can t ts)"

lemma legal_run_append:
  "legal_run can s (xs @ ys) \<longleftrightarrow> legal_run can s xs \<and> legal_run can (last (s # xs)) ys"
  by (induction xs arbitrary: s) auto

text \<open>
  The contract of a table with a gate: the region \<open>before\<close> is left through \<open>gate\<close> only. Then a
  run that starts in the region and reaches a state outside it has passed the gate.
\<close>

locale gated_lifecycle =
  fixes can :: "'s \<Rightarrow> 's \<Rightarrow> bool"
    and before :: "'s \<Rightarrow> bool"
    and gate :: 's
  assumes leave_region: "before s \<Longrightarrow> can s t \<Longrightarrow> t \<noteq> gate \<Longrightarrow> before t"
begin

lemma run_stays_before:
  "before s \<Longrightarrow> legal_run can s ts \<Longrightarrow> gate \<notin> set ts \<Longrightarrow> t \<in> set ts \<Longrightarrow> before t"
proof (induction ts arbitrary: s)
  case Nil
  then show ?case by simp
next
  case (Cons u ts)
  from Cons.prems have "before u" by (auto intro: leave_region)
  with Cons show ?case by auto
qed

lemma goal_behind_gate:
  assumes "before s" and "legal_run can s (pre @ goal # post)" and "\<not> before goal"
  shows "goal = gate \<or> gate \<in> set pre"
proof (rule ccontr)
  assume "\<not> (goal = gate \<or> gate \<in> set pre)"
  then have "gate \<notin> set (pre @ [goal])" by auto
  moreover from assms(2) have "legal_run can s (pre @ [goal])"
    by (simp add: legal_run_append)
  ultimately have "before goal"
    using assms(1) run_stays_before [of s "pre @ [goal]" goal] by simp
  with assms(3) show False ..
qed

end

fun before_approval :: "operation_status \<Rightarrow> bool" where
  "before_approval s = (s \<in> set [OP_DRAFT, OP_PENDING_APPROVAL, OP_CANCELLED, OP_EXPIRED])"

interpretation op_gate: gated_lifecycle can_transition before_approval OP_APPROVED
proof
  fix s t
  assume "before_approval s" "can_transition s t" "t \<noteq> OP_APPROVED"
  then show "before_approval t"
    by (cases s) (auto simp: can_transition_def)
qed

text \<open>A second gate, for identities: an identity that never failed is staged before it is active.\<close>

fun before_stage :: "onboarding_state \<Rightarrow> bool" where
  "before_stage s = (s \<in> set [OB_NOT_ENROLLED, OB_DRAFT])"

definition can_transition_unfailed :: "onboarding_state \<Rightarrow> onboarding_state \<Rightarrow> bool" where
  "can_transition_unfailed s t \<longleftrightarrow> can_transition_onboarding s t \<and> t \<noteq> OB_FAILED"

interpretation stage_gate: gated_lifecycle can_transition_unfailed before_stage OB_STAGED
proof
  fix s t
  assume "before_stage s" "can_transition_unfailed s t" "t \<noteq> OB_STAGED"
  then show "before_stage t"
    by (cases s) (auto simp: can_transition_unfailed_def can_transition_onboarding_def)
qed

text \<open>Each state on the way to an execution has one predecessor.\<close>

lemma pred_unique:
  "can_transition s OP_RUNNING \<Longrightarrow> s = OP_QUEUED"
  "can_transition s OP_QUEUED \<Longrightarrow> s = OP_APPROVED"
  "can_transition s OP_APPROVED \<Longrightarrow> s = OP_PENDING_APPROVAL"
  "can_transition s OP_PENDING_APPROVAL \<Longrightarrow> s = OP_DRAFT"
  "can_transition s OP_SUCCEEDED \<Longrightarrow> s = OP_RUNNING"
  by (cases s; simp add: can_transition_def)+

lemma last_transition:
  "legal_run can s (xs @ [t]) \<Longrightarrow> can (last (s # xs)) t"
  by (simp add: legal_run_append)

text \<open>
  Walking a run back from one state to the state that must precede it.
\<close>

lemma run_step_back:
  assumes "legal_run can s (xs @ [t])" and "\<And>u. can u t \<Longrightarrow> u = v" and "s \<noteq> v"
  obtains ys where "xs = ys @ [v]" and "legal_run can s (ys @ [v])"
proof -
  from assms(1) have "can (last (s # xs)) t" by (rule last_transition)
  then have v: "last (s # xs) = v" by (rule assms(2))
  with assms(3) have "xs \<noteq> []" by auto
  with v have "xs = butlast xs @ [v]" by (metis append_butlast_last_id last_ConsR)
  moreover from assms(1) have "legal_run can s xs" by (simp add: legal_run_append)
  ultimately show thesis using that by metis
qed

text \<open>A rank that every transition but the retry edge \<open>ROLLED_BACK -> DRAFT\<close> decreases.\<close>

fun status_rank :: "operation_status \<Rightarrow> nat" where
  "status_rank OP_DRAFT = 6"
| "status_rank OP_PENDING_APPROVAL = 5"
| "status_rank OP_APPROVED = 4"
| "status_rank OP_QUEUED = 3"
| "status_rank OP_RUNNING = 2"
| "status_rank OP_ROLLING_BACK = 1"
| "status_rank _ = 0"

lemma can_transition_rank:
  "can_transition s t \<Longrightarrow> t \<noteq> OP_DRAFT \<Longrightarrow> status_rank t < status_rank s"
  by (cases s) (auto simp: can_transition_def)

lemma legal_run_rank:
  "legal_run can_transition s ts \<Longrightarrow> OP_DRAFT \<notin> set ts \<Longrightarrow> length ts \<le> status_rank s"
proof (induction ts arbitrary: s)
  case Nil
  then show ?case by simp
next
  case (Cons t ts)
  then have "length ts \<le> status_rank t" "status_rank t < status_rank s"
    by (auto intro: can_transition_rank)
  then show ?case by simp
qed

subsection \<open>What the tables guarantee\<close>



text \<open>
  Operations terminate: a run that does not reopen a rolled-back operation has at most six
  transitions from a draft, and no transition leaves SUCCEEDED, FAILED, CANCELLED or EXPIRED.
\<close>

theorem operation_runs_bounded:
  assumes "legal_run can_transition s ts" and "OP_DRAFT \<notin> set ts"
  shows "length ts \<le> 6 \<and> (s \<in> {OP_SUCCEEDED, OP_FAILED, OP_CANCELLED, OP_EXPIRED} \<longrightarrow> ts = [])"
proof -
  have "length ts \<le> status_rank s" using assms by (rule legal_run_rank)
  moreover have "status_rank s \<le> 6" by (cases s) auto
  ultimately show ?thesis by auto
qed

theorem operation_runs_bounded_witness:
  "length [OP_PENDING_APPROVAL, OP_APPROVED, OP_QUEUED, OP_RUNNING, OP_ROLLING_BACK, OP_FAILED] \<le> 6"
  using operation_runs_bounded [of OP_DRAFT
    "[OP_PENDING_APPROVAL, OP_APPROVED, OP_QUEUED, OP_RUNNING, OP_ROLLING_BACK, OP_FAILED]"]
  by (simp add: can_transition_def)

text \<open>
  The onboarding table lets an identity become ACTIVE without ever having been STAGED: a run
  through FAILED and SUSPENDED avoids it. Every run that does not fail passes STAGED first.
\<close>

theorem onboarding_stage_gate:
  "(\<forall>pre post. legal_run can_transition_unfailed OB_NOT_ENROLLED (pre @ OB_ACTIVE # post) \<longrightarrow>
      OB_STAGED \<in> set pre) \<and>
   legal_run can_transition_onboarding OB_NOT_ENROLLED
     [OB_DRAFT, OB_FAILED, OB_SUSPENDED, OB_ACTIVE]"
proof (intro conjI allI impI)
  fix pre post
  assume "legal_run can_transition_unfailed OB_NOT_ENROLLED (pre @ OB_ACTIVE # post)"
  then show "OB_STAGED \<in> set pre"
    using stage_gate.goal_behind_gate [of OB_NOT_ENROLLED pre OB_ACTIVE post] by simp
qed (simp add: can_transition_onboarding_def)

theorem onboarding_stage_gate_witness:
  "OB_STAGED \<in> set [OB_DRAFT, OB_STAGED]"
  using onboarding_stage_gate
proof (elim conjE allE impE)
  show "legal_run can_transition_unfailed OB_NOT_ENROLLED ([OB_DRAFT, OB_STAGED] @ OB_ACTIVE # [])"
    by (simp add: can_transition_unfailed_def can_transition_onboarding_def)
qed

text \<open>
  The catalogue is closed: reading and writing types are disjoint, exactly the writing types
  carry a permission, and a type's risk is HIGH or more exactly when it is listed as high risk or
  is the manual reconciliation.
\<close>

theorem catalogue_closed:
  "set READ_OPERATION_TYPES \<inter> set WRITE_OPERATION_TYPES = {} \<and>
   fst ` set OPERATION_PERMISSIONS = set WRITE_OPERATION_TYPES \<and>
   distinct (map fst OPERATION_PERMISSIONS) \<and>
   (RISK_HIGH \<le> risk_for ty \<longleftrightarrow>
      ty \<in> set HIGH_RISK_OPERATION_TYPES \<or> ty = ''compute.provision.reconcile'') \<and>
   (risk_for ty = RISK_LOW \<longleftrightarrow> ty \<notin> set WRITE_OPERATION_TYPES)"
proof (intro conjI)
  show "set READ_OPERATION_TYPES \<inter> set WRITE_OPERATION_TYPES = {}"
    "fst ` set OPERATION_PERMISSIONS = set WRITE_OPERATION_TYPES"
    "distinct (map fst OPERATION_PERMISSIONS)"
    by (auto simp: catalogue_defs)
  show "RISK_HIGH \<le> risk_for ty \<longleftrightarrow>
      ty \<in> set HIGH_RISK_OPERATION_TYPES \<or> ty = ''compute.provision.reconcile''"
    unfolding risk_for_def HIGH_RISK_OPERATION_TYPES_def less_eq_risk_level_def
    by (simp split: if_split)
  show "risk_for ty = RISK_LOW \<longleftrightarrow> ty \<notin> set WRITE_OPERATION_TYPES"
    unfolding risk_for_def HIGH_RISK_OPERATION_TYPES_def WRITE_OPERATION_TYPES_def
    by (simp split: if_split)
qed

end
