(* ===== verification/Portal_Models.thy ===== *)
theory Portal_Models
  imports Operation_Lifecycle
begin

section \<open>Rows of the Portal database\<close>

text \<open>
  \<open>models.py\<close>: one record per table the services touch, with every column in the order the
  class declares it (a prefix per table keeps the field names apart), and per table the
  conjunction of its CHECK constraints as a predicate on rows (\<open>..._checks\<close>). A nullable column
  is an option, a JSON column is a \<open>pyval\<close> (\<open>PNone\<close> for NULL). The string state columns stay
  strings: that a state is one of the listed values is a CHECK constraint like the others, and
  the component theories prove that their operations keep it.
\<close>

record portal_role =
  role_id :: int
  role_name :: string
  role_description :: string
  role_permissions :: pyval
  role_created_at :: instant

record portal_user =
  user_id :: uuid
  user_login_name :: string
  user_normalized_login :: string
  user_display_name :: string
  user_note :: "string option"
  user_unix_username :: "string option"
  user_account_state :: account_state
  user_password_state :: password_state
  user_resource_onboarding_state :: onboarding_state
  user_created_at :: instant
  user_activated_at :: "instant option"
  user_last_login_at :: "instant option"
  user_failed_login_count :: int
  user_locked_until :: "instant option"
  user_roles :: "portal_role list"

record portal_password_setup_token =
  ptok_id :: uuid
  ptok_user_id :: uuid
  ptok_token_hash :: string
  ptok_purpose :: password_action_purpose
  ptok_state :: password_action_token_state
  ptok_created_at :: instant
  ptok_expires_at :: instant
  ptok_used_at :: "instant option"
  ptok_revoked_at :: "instant option"
  ptok_created_by :: "uuid option"
  ptok_request_ip_digest :: "string option"
  ptok_challenge_hash :: "string option"
  ptok_challenge_expires_at :: "instant option"
  ptok_exchanged_at :: "instant option"

record portal_session =
  sess_id :: uuid
  sess_user_id :: uuid
  sess_owner_managed_user_id :: "uuid option"
  sess_session_hash :: string
  sess_csrf_hash :: string
  sess_source_ip :: string
  sess_user_agent_digest :: string
  sess_created_at :: instant
  sess_last_seen_at :: instant
  sess_idle_expires_at :: instant
  sess_absolute_expires_at :: instant
  sess_reauthenticated_at :: "instant option"
  sess_revoked_at :: "instant option"

record portal_cli_token =
  cli_id :: uuid
  cli_user_id :: uuid
  cli_token_hash :: string
  cli_label :: string
  cli_created_at :: instant
  cli_expires_at :: "instant option"
  cli_last_used_at :: "instant option"
  cli_revoked_at :: "instant option"

record portal_delegated_test_session =
  deleg_id :: uuid
  deleg_actor_user_id :: uuid
  deleg_effective_user_id :: uuid
  deleg_token_hash :: string
  deleg_scopes :: pyval
  deleg_ttl_seconds :: int
  deleg_created_at :: instant
  deleg_expires_at :: instant
  deleg_last_seen_at :: "instant option"
  deleg_revoked_at :: "instant option"

record portal_operation =
  oper_id :: uuid
  oper_operation_type :: string
  oper_target_type :: string
  oper_target_id :: string
  oper_requested_by :: uuid
  oper_owner_managed_user_id :: "uuid option"
  oper_approved_by :: "uuid option"
  oper_request_summary :: string
  oper_validated_payload :: pyval
  oper_idempotency_key :: string
  oper_risk_level :: risk_level
  oper_status :: operation_status
  oper_created_at :: instant
  oper_approved_at :: "instant option"
  oper_started_at :: "instant option"
  oper_finished_at :: "instant option"
  oper_worker_execution_id :: "string option"
  oper_dry_run_result :: pyval
  oper_result_summary :: "string option"
  oper_error_code :: "string option"
  oper_rollback_status :: "string option"
  oper_related_report :: "string option"
  oper_related_git_commit :: "string option"

record portal_operation_approval =
  oapp_id :: uuid
  oapp_operation_id :: uuid
  oapp_approver_id :: uuid
  oapp_decision :: string
  oapp_safe_comment :: "string option"
  oapp_decided_at :: instant

record portal_operation_event =
  oev_id :: uuid
  oev_operation_id :: uuid
  oev_from_status :: "string option"
  oev_to_status :: string
  oev_safe_message :: string
  oev_created_at :: instant

record portal_audit_event =
  aud_event_id :: uuid
  aud_event_type :: string
  aud_actor :: string
  aud_actor_role :: string
  aud_source_ip :: string
  aud_user_agent_digest :: string
  aud_object_type :: string
  aud_object_id :: string
  aud_operation_id :: "uuid option"
  aud_result :: string
  aud_timestamp :: instant
  aud_safe_metadata :: pyval

record portal_managed_user =
  mu_id :: uuid
  mu_portal_user_id :: uuid
  mu_unix_username :: string
  mu_uid :: int
  mu_gid :: int
  mu_shell :: string
  mu_host_access_state :: string
  mu_compute_environment_state :: string
  mu_host_access_revoked_at :: "instant option"
  mu_gpu_isolation_state :: string
  mu_slurm_account :: "string option"
  mu_slurm_qos :: "string option"
  mu_project_id :: "int option"
  mu_quota_bytes :: "int option"
  mu_lease_renewal_approval_required :: bool
  mu_container_name :: "string option"
  mu_container_port :: "int option"
  mu_onboarding_state :: onboarding_state
  mu_ssh_key_state :: string
  mu_ssh_key_count :: int
  mu_staged_at :: "instant option"
  mu_compute_activated_at :: "instant option"
  mu_created_at :: instant
  mu_updated_at :: instant

record portal_compute_resource_request =
  crr_id :: uuid
  crr_portal_account_id :: uuid
  crr_requested_by :: uuid
  crr_managed_user_id :: "uuid option"
  crr_username :: string
  crr_status :: string
  crr_active_slot :: "int option"
  crr_requested_gpu_max :: int
  crr_requested_storage_bytes :: int
  crr_requested_container_profile :: string
  crr_requested_lease_seconds :: int
  crr_purpose :: string
  crr_user_note :: "string option"
  crr_submitted_at :: "instant option"
  crr_reviewed_at :: "instant option"
  crr_reviewed_by :: "uuid option"
  crr_review_note :: "string option"
  crr_approved_at :: "instant option"
  crr_rejected_at :: "instant option"
  crr_cancelled_at :: "instant option"
  crr_provision_plan_id :: "uuid option"
  crr_created_at :: instant
  crr_updated_at :: instant
  crr_version :: int

record portal_provision_plan =
  plan_id :: uuid
  plan_request_id :: uuid
  plan_attempt_number :: int
  plan_attempt_reason :: string
  plan_previous_plan_id :: "uuid option"
  plan_failed_stage_operation_id :: "uuid option"
  plan_retry_authorization_operation_id :: "uuid option"
  plan_portal_account_id :: uuid
  plan_state :: string
  plan_username :: string
  plan_uid :: int
  plan_gid :: int
  plan_project_id :: int
  plan_container_name :: string
  plan_container_ssh_port :: int
  plan_storage_bytes :: int
  plan_container_profile :: string
  plan_container_cpus :: int
  plan_container_memory_gb :: int
  plan_container_pids_limit :: int
  plan_container_gpu :: int
  plan_slurm_account :: string
  plan_slurm_qos :: string
  plan_gpu_max :: int
  plan_lease_seconds :: int
  plan_lease_state :: string
  plan_host_ssh_enabled :: bool
  plan_shell :: string
  plan_password_state :: string
  plan_execution_enabled :: bool
  plan_reservation_expires_at :: instant
  plan_allocator_result :: pyval
  plan_dry_run_result :: pyval
  plan_dry_run_at :: "instant option"
  plan_created_by :: uuid
  plan_created_at :: instant
  plan_updated_at :: instant
  plan_version :: int

record portal_resource_reservation =
  resv_id :: uuid
  resv_plan_id :: uuid
  resv_request_id :: uuid
  resv_portal_account_id :: uuid
  resv_resource_type :: string
  resv_resource_value :: string
  resv_active_key :: "string option"
  resv_state :: string
  resv_reserved_at :: instant
  resv_expires_at :: instant
  resv_consumed_at :: "instant option"
  resv_released_at :: "instant option"

record portal_ssh_key =
  key_id :: uuid
  key_managed_user_id :: uuid
  key_owner_managed_user_id :: uuid
  key_key_type :: string
  key_fingerprint_sha256 :: string
  key_public_key :: "string option"
  key_comment :: string
  key_scope :: string
  key_state :: string
  key_host_install_state :: string
  key_container_install_state :: string
  key_generation_method :: string
  key_created_by :: uuid
  key_enrollment_operation_id :: "uuid option"
  key_staging_file_name :: "string option"
  key_content_sha256 :: "string option"
  key_approved_by :: "uuid option"
  key_approved_at :: "instant option"
  key_validated_at :: "instant option"
  key_installed_at :: "instant option"
  key_active :: bool
  key_created_at :: instant
  key_revoked_at :: "instant option"

record portal_container =
  cont_id :: uuid
  cont_managed_user_id :: uuid
  cont_owner_managed_user_id :: uuid
  cont_name :: string
  cont_image_digest :: string
  cont_ssh_port :: "int option"
  cont_desired_state :: string
  cont_observed_state :: string
  cont_development_profile :: string
  cont_gpu_count :: int
  cont_gpu_allocation_job_id :: "int option"
  cont_gpu_allocation_uuid :: "string option"
  cont_safe_spec :: pyval
  cont_created_at :: instant
  cont_last_rebuilt_at :: "instant option"

record portal_compute_lease =
  lease_id :: uuid
  lease_managed_user_id :: uuid
  lease_owner_managed_user_id :: uuid
  lease_state :: string
  lease_gpu_count :: int
  lease_starts_at :: instant
  lease_expires_at :: instant
  lease_duration_seconds :: int
  lease_max_duration_seconds :: int
  lease_renewal_window_seconds :: int
  lease_created_at :: instant
  lease_approved_at :: "instant option"
  lease_approved_by :: "uuid option"
  lease_renewed_at :: "instant option"
  lease_previous_lease_id :: "uuid option"
  lease_expired_at :: "instant option"
  lease_recycled_at :: "instant option"
  lease_restored_at :: "instant option"
  lease_version :: int

record portal_lease_renewal_request =
  renew_id :: uuid
  renew_owner_managed_user_id :: uuid
  renew_lease_id :: uuid
  renew_state :: string
  renew_approval_required :: bool
  renew_requested_duration_seconds :: int
  renew_idempotency_key :: string
  renew_requested_at :: instant
  renew_decided_at :: "instant option"
  renew_decided_by :: "uuid option"
  renew_resulting_lease_id :: "uuid option"
  renew_decision_comment :: "string option"

record portal_job_gpu_approval =
  gpua_id :: uuid
  gpua_portal_job_id :: uuid
  gpua_state :: string
  gpua_requested_gpu_count :: int
  gpua_approved_gpu_count :: "int option"
  gpua_model_name :: string
  gpua_model_architecture :: string
  gpua_framework :: string
  gpua_framework_version :: string
  gpua_parameter_count :: string
  gpua_workload_description :: string
  gpua_dataset_description :: string
  gpua_parallel_strategy :: string
  gpua_scaling_justification :: string
  gpua_script_content :: string
  gpua_script_sha256 :: string
  gpua_requested_at :: instant
  gpua_reviewed_at :: "instant option"
  gpua_reviewed_by :: "uuid option"
  gpua_decision_comment :: "string option"
  gpua_decision_idempotency_key :: "string option"
  gpua_version :: int

record portal_job_memory_approval =
  mema_id :: uuid
  mema_portal_job_id :: uuid
  mema_state :: string
  mema_requested_memory_mb :: int
  mema_approved_memory_mb :: "int option"
  mema_workload_description :: string
  mema_memory_breakdown :: string
  mema_memory_justification :: string
  mema_script_content :: string
  mema_script_sha256 :: string
  mema_requested_at :: instant
  mema_reviewed_at :: "instant option"
  mema_reviewed_by :: "uuid option"
  mema_decision_comment :: "string option"
  mema_decision_idempotency_key :: "string option"
  mema_version :: int

record portal_job =
  job_id :: uuid
  job_owner_managed_user_id :: uuid
  job_lease_id :: uuid
  job_operation_id :: uuid
  job_slurm_job_id :: "int option"
  job_name :: string
  job_state :: string
  job_state_reason :: "string option"
  job_script_relative_path :: string
  job_source_path :: "string option"
  job_workdir_relative_path :: string
  job_stdout_relative_path :: string
  job_stderr_relative_path :: string
  job_requested_cpus :: int
  job_memory_mb :: int
  job_gpu_count :: int
  job_time_limit_seconds :: int
  job_image_ref :: "string option"
  job_lease_deadline_at :: instant
  job_created_at :: instant
  job_submitted_at :: "instant option"
  job_started_at :: "instant option"
  job_finished_at :: "instant option"
  job_elapsed_seconds :: "int option"
  job_exit_code :: "string option"
  job_gpu_approval :: "portal_job_gpu_approval option"
  job_memory_approval :: "portal_job_memory_approval option"

record portal_storage_resource =
  stor_id :: uuid
  stor_owner_managed_user_id :: uuid
  stor_root_path :: string
  stor_quota_bytes :: int
  stor_state :: string
  stor_created_at :: instant

record portal_resource_recycle_item =
  item_id :: uuid
  item_owner_managed_user_id :: uuid
  item_lease_id :: uuid
  item_container_id :: uuid
  item_state :: string
  item_resource_name :: string
  item_image_digest :: string
  item_retained_spec :: pyval
  item_connection_state :: string
  item_data_preserved :: bool
  item_auto_permanent_delete :: bool
  item_expires_at :: instant
  item_recycled_at :: instant
  item_restored_at :: "instant option"

record portal_resource_restore_request =
  rest_id :: uuid
  rest_owner_managed_user_id :: uuid
  rest_recycle_item_id :: uuid
  rest_state :: string
  rest_approval_required :: bool
  rest_requested_duration_seconds :: int
  rest_idempotency_key :: string
  rest_requested_at :: instant
  rest_decided_at :: "instant option"
  rest_decided_by :: "uuid option"
  rest_restored_lease_id :: "uuid option"
  rest_decision_comment :: "string option"

subsection \<open>CHECK constraints\<close>

definition delegated_test_session_checks :: "portal_delegated_test_session \<Rightarrow> bool" where
  "delegated_test_session_checks d \<longleftrightarrow>
     deleg_actor_user_id d \<noteq> deleg_effective_user_id d \<and>
     600 \<le> deleg_ttl_seconds d \<and> deleg_ttl_seconds d \<le> 900 \<and>
     deleg_created_at d < deleg_expires_at d"

definition cli_token_checks :: "portal_cli_token \<Rightarrow> bool" where
  "cli_token_checks t \<longleftrightarrow>
     (case cli_expires_at t of None \<Rightarrow> True | Some e \<Rightarrow> cli_created_at t < e)"

definition managed_user_checks :: "portal_managed_user \<Rightarrow> bool" where
  "managed_user_checks m \<longleftrightarrow>
     0 \<le> mu_ssh_key_count m \<and> mu_ssh_key_count m \<le> 5 \<and>
     (mu_onboarding_state m \<noteq> OB_ACTIVE \<or>
        (0 < mu_ssh_key_count m \<and> mu_compute_activated_at m \<noteq> None \<and>
         mu_host_access_state m \<in> set [''ENABLED'', ''DISABLED_BY_PLATFORM_POLICY''])) \<and>
     (mu_onboarding_state m \<notin> set [OB_DRAFT, OB_STAGED] \<or> mu_ssh_key_state m \<noteq> ''SSH_READY'') \<and>
     mu_compute_environment_state m \<in> set [''STAGED'', ''ACTIVE'', ''RECYCLED'',
       ''RESTORE_PENDING'', ''SUSPENDED'', ''FAILED''] \<and>
     ((mu_host_access_state m = ''DISABLED_BY_PLATFORM_POLICY'' \<and> mu_shell m = ''/usr/sbin/nologin'') \<or>
      mu_host_access_state m \<noteq> ''DISABLED_BY_PLATFORM_POLICY'')"

definition in_flight_request_states :: "string list" where
  "in_flight_request_states = [''DRAFT'', ''REQUESTED'', ''UNDER_REVIEW'', ''APPROVED'',
     ''RETRY_AUTHORIZED'', ''PROVISION_PLAN_READY'', ''PROVISIONING'']"

definition compute_resource_request_checks :: "portal_compute_resource_request \<Rightarrow> bool" where
  "compute_resource_request_checks r \<longleftrightarrow>
     crr_status r \<in> set [''DRAFT'', ''REQUESTED'', ''UNDER_REVIEW'', ''APPROVED'', ''REJECTED'',
       ''CANCELLED'', ''RETRY_AUTHORIZED'', ''PROVISION_PLAN_READY'', ''PROVISIONING'', ''STAGED'',
       ''KEY_ENROLLMENT_PENDING'', ''ACTIVE'', ''FAILED''] \<and>
     0 \<le> crr_requested_gpu_max r \<and> crr_requested_gpu_max r \<le> 1 \<and>
     crr_requested_storage_bytes r = 322122547200 \<and>
     crr_requested_container_profile r \<in> set [''STANDARD_8CPU_32GB'', ''GPU_1_8CPU_32GB''] \<and>
     (crr_requested_container_profile r \<noteq> ''GPU_1_8CPU_32GB'' \<or> crr_requested_gpu_max r = 1) \<and>
     crr_requested_lease_seconds r = 345600 \<and>
     crr_portal_account_id r = crr_requested_by r \<and>
     ((crr_status r \<in> set in_flight_request_states \<and> crr_active_slot r = Some 1) \<or>
      (crr_status r \<notin> set in_flight_request_states \<and> crr_active_slot r = None))"

definition provision_plan_checks :: "portal_provision_plan \<Rightarrow> bool" where
  "provision_plan_checks p \<longleftrightarrow>
     plan_state p \<in> set [''RESERVED'', ''READY_FOR_PROVISION'', ''PROVISIONING'', ''STAGED'',
       ''CONSUMED'', ''RELEASED'', ''EXPIRED'', ''FAILED''] \<and>
     0 \<le> plan_gpu_max p \<and> plan_gpu_max p \<le> 1 \<and>
     plan_storage_bytes p = 322122547200 \<and>
     plan_container_profile p \<in> set [''STANDARD_8CPU_32GB'', ''GPU_1_8CPU_32GB''] \<and>
     plan_container_cpus p = 8 \<and> plan_container_memory_gb p = 32 \<and>
     plan_container_pids_limit p = 4096 \<and>
     ((plan_container_profile p = ''STANDARD_8CPU_32GB'' \<and> plan_container_gpu p = 0) \<or>
      (plan_container_profile p = ''GPU_1_8CPU_32GB'' \<and> plan_container_gpu p = 1 \<and>
       plan_gpu_max p = 1)) \<and>
     plan_lease_seconds p = 345600 \<and> plan_lease_state p = ''NOT_STARTED'' \<and>
     plan_host_ssh_enabled p = False \<and> plan_shell p = ''/usr/sbin/nologin'' \<and>
     plan_password_state p = ''LOCKED'' \<and>
     ((plan_state p \<in> set [''RESERVED'', ''READY_FOR_PROVISION''] \<and> \<not> plan_execution_enabled p) \<or>
      (plan_state p \<in> set [''PROVISIONING'', ''STAGED''] \<and> plan_execution_enabled p) \<or>
      plan_state p \<in> set [''CONSUMED'', ''RELEASED'', ''EXPIRED'', ''FAILED'']) \<and>
     1 \<le> plan_attempt_number p \<and>
     plan_attempt_reason p \<in> set [''INITIAL'', ''RESERVATION_EXPIRED'', ''STAGE_RETRY''] \<and>
     ((plan_attempt_number p = 1 \<and> plan_attempt_reason p = ''INITIAL'' \<and>
       plan_previous_plan_id p = None \<and> plan_failed_stage_operation_id p = None \<and>
       plan_retry_authorization_operation_id p = None) \<or>
      (1 < plan_attempt_number p \<and> plan_previous_plan_id p \<noteq> None \<and>
       ((plan_attempt_reason p = ''RESERVATION_EXPIRED'' \<and> plan_failed_stage_operation_id p = None \<and>
         plan_retry_authorization_operation_id p = None) \<or>
        (plan_attempt_reason p = ''STAGE_RETRY'' \<and> plan_failed_stage_operation_id p \<noteq> None \<and>
         plan_retry_authorization_operation_id p \<noteq> None)))) \<and>
     plan_previous_plan_id p \<noteq> Some (plan_id p)"

definition resource_reservation_checks :: "portal_resource_reservation \<Rightarrow> bool" where
  "resource_reservation_checks r \<longleftrightarrow>
     resv_resource_type r \<in> set [''UID'', ''GID'', ''PROJECT_ID'', ''SSH_PORT'', ''CONTAINER_NAME''] \<and>
     resv_state r \<in> set [''RESERVED'', ''CONSUMED'', ''RELEASED'', ''EXPIRED'', ''FAILED_HOLD''] \<and>
     ((resv_state r = ''RESERVED'' \<and> resv_active_key r \<noteq> None \<and> resv_consumed_at r = None \<and>
       resv_released_at r = None) \<or>
      (resv_state r = ''CONSUMED'' \<and> resv_active_key r = None \<and> resv_consumed_at r \<noteq> None \<and>
       resv_released_at r = None) \<or>
      (resv_state r \<in> set [''RELEASED'', ''EXPIRED''] \<and> resv_active_key r = None \<and>
       resv_consumed_at r = None \<and> resv_released_at r \<noteq> None) \<or>
      (resv_state r = ''FAILED_HOLD'' \<and> resv_active_key r \<noteq> None \<and> resv_consumed_at r = None \<and>
       resv_released_at r = None))"

definition ssh_key_checks :: "portal_ssh_key \<Rightarrow> bool" where
  "ssh_key_checks k \<longleftrightarrow>
     key_scope k \<in> set [''HOST'', ''CONTAINER'', ''BOTH''] \<and>
     key_state k \<in> set [''VALIDATED'', ''INSTALLED'', ''REVOKED''] \<and>
     key_generation_method k \<in> set [''BROWSER_GENERATED'', ''IMPORTED''] \<and>
     ((key_state k = ''REVOKED'' \<and> \<not> key_active k \<and> key_revoked_at k \<noteq> None) \<or>
      (key_state k \<in> set [''VALIDATED'', ''INSTALLED''] \<and> key_active k \<and> key_revoked_at k = None)) \<and>
     (key_state k \<noteq> ''INSTALLED'' \<or> key_installed_at k \<noteq> None) \<and>
     (key_state k = ''REVOKED'' \<or>
       (key_public_key k \<noteq> None \<and> key_validated_at k \<noteq> None \<and> key_staging_file_name k \<noteq> None \<and>
        key_content_sha256 k \<noteq> None \<and> key_enrollment_operation_id k \<noteq> None)) \<and>
     key_owner_managed_user_id k = key_managed_user_id k \<and>
     key_host_install_state k \<in> set [''NOT_INSTALLED'', ''INSTALLED'', ''REMOVED_BY_POLICY''] \<and>
     key_container_install_state k \<in> set [''NOT_INSTALLED'', ''INSTALLED'', ''SUSPENDED_BY_RECYCLE'']"

definition container_checks :: "portal_container \<Rightarrow> bool" where
  "container_checks c \<longleftrightarrow>
     cont_owner_managed_user_id c = cont_managed_user_id c \<and>
     ((cont_development_profile c = ''STANDARD_8CPU_32GB'' \<and> cont_gpu_count c = 0 \<and>
       cont_gpu_allocation_job_id c = None \<and> cont_gpu_allocation_uuid c = None) \<or>
      (cont_development_profile c = ''GPU_1_8CPU_32GB'' \<and> cont_gpu_count c = 1)) \<and>
     ((cont_gpu_allocation_job_id c = None \<and> cont_gpu_allocation_uuid c = None) \<or>
      (cont_gpu_allocation_job_id c \<noteq> None \<and> cont_gpu_allocation_uuid c \<noteq> None))"

definition compute_lease_checks :: "portal_compute_lease \<Rightarrow> bool" where
  "compute_lease_checks l \<longleftrightarrow>
     lease_owner_managed_user_id l = lease_managed_user_id l \<and>
     0 \<le> lease_gpu_count l \<and> lease_gpu_count l \<le> 1 \<and>
     1 \<le> lease_duration_seconds l \<and> lease_duration_seconds l \<le> 345600 \<and>
     lease_max_duration_seconds l = 345600 \<and> lease_renewal_window_seconds l = 86400 \<and>
     lease_state l \<in> set [''REQUESTED'', ''APPROVED'', ''ACTIVE'', ''RENEWAL_WINDOW'',
       ''RENEWAL_PENDING'', ''EXPIRED'', ''RECYCLE_BIN'', ''RESTORE_PENDING'', ''RESTORING'',
       ''SUSPENDED'', ''FAILED''] \<and>
     lease_starts_at l < lease_expires_at l \<and>
     lease_expires_at l = lease_starts_at l + seconds (lease_duration_seconds l)"

definition lease_renewal_request_checks :: "portal_lease_renewal_request \<Rightarrow> bool" where
  "lease_renewal_request_checks r \<longleftrightarrow>
     renew_state r \<in> set [''REQUESTED'', ''APPROVED'', ''REJECTED'', ''CANCELLED''] \<and>
     1 \<le> renew_requested_duration_seconds r \<and> renew_requested_duration_seconds r \<le> 345600"

definition storage_resource_checks :: "portal_storage_resource \<Rightarrow> bool" where
  "storage_resource_checks s \<longleftrightarrow>
     0 < stor_quota_bytes s \<and>
     stor_state s \<in> set [''STAGED'', ''ACTIVE'', ''PRESERVED'', ''RESTORING'', ''FAILED'']"

definition resource_recycle_item_checks :: "portal_resource_recycle_item \<Rightarrow> bool" where
  "resource_recycle_item_checks i \<longleftrightarrow>
     item_state i \<in> set [''RECYCLE_BIN'', ''RESTORE_PENDING'', ''RESTORING'', ''RESTORED'', ''FAILED''] \<and>
     item_data_preserved i \<and> \<not> item_auto_permanent_delete i"

definition resource_restore_request_checks :: "portal_resource_restore_request \<Rightarrow> bool" where
  "resource_restore_request_checks r \<longleftrightarrow>
     rest_state r \<in> set [''REQUESTED'', ''APPROVED'', ''REJECTED'', ''CANCELLED'', ''RESTORING'',
       ''RESTORED'', ''FAILED''] \<and>
     1 \<le> rest_requested_duration_seconds r \<and> rest_requested_duration_seconds r \<le> 345600"

definition portal_job_checks :: "portal_job \<Rightarrow> bool" where
  "portal_job_checks j \<longleftrightarrow>
     0 \<le> job_gpu_count j \<and> job_gpu_count j \<le> 4 \<and>
     1 \<le> job_requested_cpus j \<and> job_requested_cpus j \<le> 32 \<and>
     256 \<le> job_memory_mb j \<and> job_memory_mb j \<le> 486377 \<and>
     60 \<le> job_time_limit_seconds j \<and> job_time_limit_seconds j \<le> 345600 \<and>
     job_state j \<in> set [''APPROVAL_PENDING'', ''REJECTED'', ''SUBMITTING'', ''PENDING'',
       ''CONFIGURING'', ''RUNNING'', ''SUSPENDED'', ''STOPPED'', ''COMPLETING'', ''REQUEUED'',
       ''RESIZING'', ''BOOT_FAIL'', ''CANCELLED'', ''COMPLETED'', ''DEADLINE'', ''FAILED'',
       ''NODE_FAIL'', ''OUT_OF_MEMORY'', ''PREEMPTED'', ''REVOKED'', ''TIMEOUT'', ''UNKNOWN'']"

lemmas table_checks [check_defs] =
  delegated_test_session_checks_def cli_token_checks_def managed_user_checks_def
  compute_resource_request_checks_def provision_plan_checks_def resource_reservation_checks_def
  ssh_key_checks_def container_checks_def compute_lease_checks_def
  lease_renewal_request_checks_def storage_resource_checks_def resource_recycle_item_checks_def
  resource_restore_request_checks_def portal_job_checks_def in_flight_request_states_def

end
