(* ===== verification/Portal_Store.thy ===== *)
theory Portal_Store
  imports Portal_Models
begin

section \<open>The database and its row stores\<close>

text \<open>
  The state the services share: the tables, each the list of its rows. \<open>get_X db i\<close> is
  \<open>db.get(X, i)\<close>, \<open>modify_X i f db\<close> is an assignment to attributes of the row with key \<open>i\<close>, and
  \<open>add_X\<close> is \<open>db.add\<close> of a new row. A session of the source runs with \<open>autoflush=False\<close>:
  a query sees the rows as they were last flushed. Where a modelled function queries after an
  unflushed assignment, the assigned columns do not change which rows the query matches, so
  one state stands for the flushed rows and the pending attributes alike. Every table with a primary key is a \<open>row_store\<close>.
\<close>

record portal_db =
  t_users :: "portal_user list"
  t_setup_tokens :: "portal_password_setup_token list"
  t_sessions :: "portal_session list"
  t_cli_tokens :: "portal_cli_token list"
  t_delegated_sessions :: "portal_delegated_test_session list"
  t_operations :: "portal_operation list"
  t_operation_approvals :: "portal_operation_approval list"
  t_operation_events :: "portal_operation_event list"
  t_audit_events :: "portal_audit_event list"
  t_managed_users :: "portal_managed_user list"
  t_resource_requests :: "portal_compute_resource_request list"
  t_provision_plans :: "portal_provision_plan list"
  t_reservations :: "portal_resource_reservation list"
  t_ssh_keys :: "portal_ssh_key list"
  t_containers :: "portal_container list"
  t_leases :: "portal_compute_lease list"
  t_renewal_requests :: "portal_lease_renewal_request list"
  t_jobs :: "portal_job list"
  t_storage_resources :: "portal_storage_resource list"
  t_recycle_items :: "portal_resource_recycle_item list"
  t_restore_requests :: "portal_resource_restore_request list"

definition empty_db :: portal_db where
  "empty_db = \<lparr>t_users = [], t_setup_tokens = [], t_sessions = [], t_cli_tokens = [], t_delegated_sessions = [],
     t_operations = [], t_operation_approvals = [], t_operation_events = [], t_audit_events = [],
     t_managed_users = [], t_resource_requests = [], t_provision_plans = [], t_reservations = [],
     t_ssh_keys = [], t_containers = [], t_leases = [], t_renewal_requests = [], t_jobs = [],
     t_storage_resources = [], t_recycle_items = [], t_restore_requests = []\<rparr>"

definition get_user :: "portal_db \<Rightarrow> uuid \<Rightarrow> portal_user option" where
  "get_user db i = scalar (\<lambda>r. user_id r = i) (t_users db)"

definition modify_user :: "uuid \<Rightarrow> (portal_user \<Rightarrow> portal_user) \<Rightarrow> portal_db \<Rightarrow> portal_db" where
  "modify_user i f db = db\<lparr>t_users := update_where (\<lambda>r. user_id r = i) f (t_users db)\<rparr>"

definition get_setup_token :: "portal_db \<Rightarrow> uuid \<Rightarrow> portal_password_setup_token option" where
  "get_setup_token db i = scalar (\<lambda>r. ptok_id r = i) (t_setup_tokens db)"

definition modify_setup_token :: "uuid \<Rightarrow> (portal_password_setup_token \<Rightarrow> portal_password_setup_token) \<Rightarrow> portal_db \<Rightarrow> portal_db" where
  "modify_setup_token i f db = db\<lparr>t_setup_tokens := update_where (\<lambda>r. ptok_id r = i) f (t_setup_tokens db)\<rparr>"

definition get_session :: "portal_db \<Rightarrow> uuid \<Rightarrow> portal_session option" where
  "get_session db i = scalar (\<lambda>r. sess_id r = i) (t_sessions db)"

definition modify_session :: "uuid \<Rightarrow> (portal_session \<Rightarrow> portal_session) \<Rightarrow> portal_db \<Rightarrow> portal_db" where
  "modify_session i f db = db\<lparr>t_sessions := update_where (\<lambda>r. sess_id r = i) f (t_sessions db)\<rparr>"

definition get_cli_token :: "portal_db \<Rightarrow> uuid \<Rightarrow> portal_cli_token option" where
  "get_cli_token db i = scalar (\<lambda>r. cli_id r = i) (t_cli_tokens db)"

definition modify_cli_token :: "uuid \<Rightarrow> (portal_cli_token \<Rightarrow> portal_cli_token) \<Rightarrow> portal_db \<Rightarrow> portal_db" where
  "modify_cli_token i f db = db\<lparr>t_cli_tokens := update_where (\<lambda>r. cli_id r = i) f (t_cli_tokens db)\<rparr>"

definition get_delegated_session :: "portal_db \<Rightarrow> uuid \<Rightarrow> portal_delegated_test_session option" where
  "get_delegated_session db i = scalar (\<lambda>r. deleg_id r = i) (t_delegated_sessions db)"

definition modify_delegated_session :: "uuid \<Rightarrow> (portal_delegated_test_session \<Rightarrow> portal_delegated_test_session) \<Rightarrow> portal_db \<Rightarrow> portal_db" where
  "modify_delegated_session i f db = db\<lparr>t_delegated_sessions := update_where (\<lambda>r. deleg_id r = i) f (t_delegated_sessions db)\<rparr>"

definition get_operation :: "portal_db \<Rightarrow> uuid \<Rightarrow> portal_operation option" where
  "get_operation db i = scalar (\<lambda>r. oper_id r = i) (t_operations db)"

definition modify_operation :: "uuid \<Rightarrow> (portal_operation \<Rightarrow> portal_operation) \<Rightarrow> portal_db \<Rightarrow> portal_db" where
  "modify_operation i f db = db\<lparr>t_operations := update_where (\<lambda>r. oper_id r = i) f (t_operations db)\<rparr>"

definition get_managed :: "portal_db \<Rightarrow> uuid \<Rightarrow> portal_managed_user option" where
  "get_managed db i = scalar (\<lambda>r. mu_id r = i) (t_managed_users db)"

definition modify_managed :: "uuid \<Rightarrow> (portal_managed_user \<Rightarrow> portal_managed_user) \<Rightarrow> portal_db \<Rightarrow> portal_db" where
  "modify_managed i f db = db\<lparr>t_managed_users := update_where (\<lambda>r. mu_id r = i) f (t_managed_users db)\<rparr>"

definition get_request :: "portal_db \<Rightarrow> uuid \<Rightarrow> portal_compute_resource_request option" where
  "get_request db i = scalar (\<lambda>r. crr_id r = i) (t_resource_requests db)"

definition modify_request :: "uuid \<Rightarrow> (portal_compute_resource_request \<Rightarrow> portal_compute_resource_request) \<Rightarrow> portal_db \<Rightarrow> portal_db" where
  "modify_request i f db = db\<lparr>t_resource_requests := update_where (\<lambda>r. crr_id r = i) f (t_resource_requests db)\<rparr>"

definition get_plan :: "portal_db \<Rightarrow> uuid \<Rightarrow> portal_provision_plan option" where
  "get_plan db i = scalar (\<lambda>r. plan_id r = i) (t_provision_plans db)"

definition modify_plan :: "uuid \<Rightarrow> (portal_provision_plan \<Rightarrow> portal_provision_plan) \<Rightarrow> portal_db \<Rightarrow> portal_db" where
  "modify_plan i f db = db\<lparr>t_provision_plans := update_where (\<lambda>r. plan_id r = i) f (t_provision_plans db)\<rparr>"

definition get_reservation :: "portal_db \<Rightarrow> uuid \<Rightarrow> portal_resource_reservation option" where
  "get_reservation db i = scalar (\<lambda>r. resv_id r = i) (t_reservations db)"

definition modify_reservation :: "uuid \<Rightarrow> (portal_resource_reservation \<Rightarrow> portal_resource_reservation) \<Rightarrow> portal_db \<Rightarrow> portal_db" where
  "modify_reservation i f db = db\<lparr>t_reservations := update_where (\<lambda>r. resv_id r = i) f (t_reservations db)\<rparr>"

definition get_ssh_key :: "portal_db \<Rightarrow> uuid \<Rightarrow> portal_ssh_key option" where
  "get_ssh_key db i = scalar (\<lambda>r. key_id r = i) (t_ssh_keys db)"

definition modify_ssh_key :: "uuid \<Rightarrow> (portal_ssh_key \<Rightarrow> portal_ssh_key) \<Rightarrow> portal_db \<Rightarrow> portal_db" where
  "modify_ssh_key i f db = db\<lparr>t_ssh_keys := update_where (\<lambda>r. key_id r = i) f (t_ssh_keys db)\<rparr>"

definition get_container :: "portal_db \<Rightarrow> uuid \<Rightarrow> portal_container option" where
  "get_container db i = scalar (\<lambda>r. cont_id r = i) (t_containers db)"

definition modify_container :: "uuid \<Rightarrow> (portal_container \<Rightarrow> portal_container) \<Rightarrow> portal_db \<Rightarrow> portal_db" where
  "modify_container i f db = db\<lparr>t_containers := update_where (\<lambda>r. cont_id r = i) f (t_containers db)\<rparr>"

definition get_lease :: "portal_db \<Rightarrow> uuid \<Rightarrow> portal_compute_lease option" where
  "get_lease db i = scalar (\<lambda>r. lease_id r = i) (t_leases db)"

definition modify_lease :: "uuid \<Rightarrow> (portal_compute_lease \<Rightarrow> portal_compute_lease) \<Rightarrow> portal_db \<Rightarrow> portal_db" where
  "modify_lease i f db = db\<lparr>t_leases := update_where (\<lambda>r. lease_id r = i) f (t_leases db)\<rparr>"

definition get_renewal :: "portal_db \<Rightarrow> uuid \<Rightarrow> portal_lease_renewal_request option" where
  "get_renewal db i = scalar (\<lambda>r. renew_id r = i) (t_renewal_requests db)"

definition modify_renewal :: "uuid \<Rightarrow> (portal_lease_renewal_request \<Rightarrow> portal_lease_renewal_request) \<Rightarrow> portal_db \<Rightarrow> portal_db" where
  "modify_renewal i f db = db\<lparr>t_renewal_requests := update_where (\<lambda>r. renew_id r = i) f (t_renewal_requests db)\<rparr>"

definition get_job :: "portal_db \<Rightarrow> uuid \<Rightarrow> portal_job option" where
  "get_job db i = scalar (\<lambda>r. job_id r = i) (t_jobs db)"

definition modify_job :: "uuid \<Rightarrow> (portal_job \<Rightarrow> portal_job) \<Rightarrow> portal_db \<Rightarrow> portal_db" where
  "modify_job i f db = db\<lparr>t_jobs := update_where (\<lambda>r. job_id r = i) f (t_jobs db)\<rparr>"

definition get_storage :: "portal_db \<Rightarrow> uuid \<Rightarrow> portal_storage_resource option" where
  "get_storage db i = scalar (\<lambda>r. stor_id r = i) (t_storage_resources db)"

definition modify_storage :: "uuid \<Rightarrow> (portal_storage_resource \<Rightarrow> portal_storage_resource) \<Rightarrow> portal_db \<Rightarrow> portal_db" where
  "modify_storage i f db = db\<lparr>t_storage_resources := update_where (\<lambda>r. stor_id r = i) f (t_storage_resources db)\<rparr>"

definition get_recycle_item :: "portal_db \<Rightarrow> uuid \<Rightarrow> portal_resource_recycle_item option" where
  "get_recycle_item db i = scalar (\<lambda>r. item_id r = i) (t_recycle_items db)"

definition modify_recycle_item :: "uuid \<Rightarrow> (portal_resource_recycle_item \<Rightarrow> portal_resource_recycle_item) \<Rightarrow> portal_db \<Rightarrow> portal_db" where
  "modify_recycle_item i f db = db\<lparr>t_recycle_items := update_where (\<lambda>r. item_id r = i) f (t_recycle_items db)\<rparr>"

definition get_restore_request :: "portal_db \<Rightarrow> uuid \<Rightarrow> portal_resource_restore_request option" where
  "get_restore_request db i = scalar (\<lambda>r. rest_id r = i) (t_restore_requests db)"

definition modify_restore_request :: "uuid \<Rightarrow> (portal_resource_restore_request \<Rightarrow> portal_resource_restore_request) \<Rightarrow> portal_db \<Rightarrow> portal_db" where
  "modify_restore_request i f db = db\<lparr>t_restore_requests := update_where (\<lambda>r. rest_id r = i) f (t_restore_requests db)\<rparr>"

definition add_session :: "portal_session \<Rightarrow> portal_db \<Rightarrow> portal_db" where
  "add_session r db = db\<lparr>t_sessions := t_sessions db @ [r]\<rparr>"

definition add_cli_token :: "portal_cli_token \<Rightarrow> portal_db \<Rightarrow> portal_db" where
  "add_cli_token r db = db\<lparr>t_cli_tokens := t_cli_tokens db @ [r]\<rparr>"

definition add_delegated_session :: "portal_delegated_test_session \<Rightarrow> portal_db \<Rightarrow> portal_db" where
  "add_delegated_session r db = db\<lparr>t_delegated_sessions := t_delegated_sessions db @ [r]\<rparr>"

definition add_operation :: "portal_operation \<Rightarrow> portal_db \<Rightarrow> portal_db" where
  "add_operation r db = db\<lparr>t_operations := t_operations db @ [r]\<rparr>"

definition add_operation_approval :: "portal_operation_approval \<Rightarrow> portal_db \<Rightarrow> portal_db" where
  "add_operation_approval r db = db\<lparr>t_operation_approvals := t_operation_approvals db @ [r]\<rparr>"

definition add_operation_event :: "portal_operation_event \<Rightarrow> portal_db \<Rightarrow> portal_db" where
  "add_operation_event r db = db\<lparr>t_operation_events := t_operation_events db @ [r]\<rparr>"

definition add_audit_event :: "portal_audit_event \<Rightarrow> portal_db \<Rightarrow> portal_db" where
  "add_audit_event r db = db\<lparr>t_audit_events := t_audit_events db @ [r]\<rparr>"

definition add_request :: "portal_compute_resource_request \<Rightarrow> portal_db \<Rightarrow> portal_db" where
  "add_request r db = db\<lparr>t_resource_requests := t_resource_requests db @ [r]\<rparr>"

definition add_plan :: "portal_provision_plan \<Rightarrow> portal_db \<Rightarrow> portal_db" where
  "add_plan r db = db\<lparr>t_provision_plans := t_provision_plans db @ [r]\<rparr>"

definition add_reservation :: "portal_resource_reservation \<Rightarrow> portal_db \<Rightarrow> portal_db" where
  "add_reservation r db = db\<lparr>t_reservations := t_reservations db @ [r]\<rparr>"

definition add_ssh_key :: "portal_ssh_key \<Rightarrow> portal_db \<Rightarrow> portal_db" where
  "add_ssh_key r db = db\<lparr>t_ssh_keys := t_ssh_keys db @ [r]\<rparr>"

definition add_managed :: "portal_managed_user \<Rightarrow> portal_db \<Rightarrow> portal_db" where
  "add_managed r db = db\<lparr>t_managed_users := t_managed_users db @ [r]\<rparr>"

definition add_container :: "portal_container \<Rightarrow> portal_db \<Rightarrow> portal_db" where
  "add_container r db = db\<lparr>t_containers := t_containers db @ [r]\<rparr>"

definition add_lease :: "portal_compute_lease \<Rightarrow> portal_db \<Rightarrow> portal_db" where
  "add_lease r db = db\<lparr>t_leases := t_leases db @ [r]\<rparr>"

definition add_renewal :: "portal_lease_renewal_request \<Rightarrow> portal_db \<Rightarrow> portal_db" where
  "add_renewal r db = db\<lparr>t_renewal_requests := t_renewal_requests db @ [r]\<rparr>"

definition add_job :: "portal_job \<Rightarrow> portal_db \<Rightarrow> portal_db" where
  "add_job r db = db\<lparr>t_jobs := t_jobs db @ [r]\<rparr>"

definition add_storage :: "portal_storage_resource \<Rightarrow> portal_db \<Rightarrow> portal_db" where
  "add_storage r db = db\<lparr>t_storage_resources := t_storage_resources db @ [r]\<rparr>"

definition add_recycle_item :: "portal_resource_recycle_item \<Rightarrow> portal_db \<Rightarrow> portal_db" where
  "add_recycle_item r db = db\<lparr>t_recycle_items := t_recycle_items db @ [r]\<rparr>"

definition add_restore_request :: "portal_resource_restore_request \<Rightarrow> portal_db \<Rightarrow> portal_db" where
  "add_restore_request r db = db\<lparr>t_restore_requests := t_restore_requests db @ [r]\<rparr>"

lemmas get_defs [row_simps] =
  get_user_def get_setup_token_def get_session_def get_cli_token_def
  get_delegated_session_def get_operation_def get_managed_def get_request_def get_plan_def
  get_reservation_def get_ssh_key_def get_container_def get_lease_def get_renewal_def
  get_job_def get_storage_def get_recycle_item_def get_restore_request_def

lemmas modify_defs [row_simps] =
  modify_user_def modify_setup_token_def modify_session_def modify_cli_token_def
  modify_delegated_session_def modify_operation_def modify_managed_def modify_request_def
  modify_plan_def modify_reservation_def modify_ssh_key_def modify_container_def
  modify_lease_def modify_renewal_def modify_job_def modify_storage_def
  modify_recycle_item_def modify_restore_request_def

lemmas add_defs [row_simps] =
  add_operation_approval_def add_operation_event_def add_audit_event_def add_operation_def
  add_renewal_def add_lease_def add_recycle_item_def add_session_def add_delegated_session_def
  add_cli_token_def add_storage_def add_restore_request_def add_job_def add_request_def
  add_plan_def add_reservation_def add_ssh_key_def add_container_def add_managed_def

subsection \<open>Every table is a row store\<close>

lemma scalar_update_where_pk:
  assumes "\<And>r. pk (f r) = pk r"
  shows "scalar (\<lambda>r. pk r = j) (update_where (\<lambda>r. pk r = i) f rows) =
    (if i = j then map_option f (scalar (\<lambda>r. pk r = j) rows) else scalar (\<lambda>r. pk r = j) rows)"
  using assms by (induction rows) auto

lemma update_where_pk_absent:
  "scalar (\<lambda>r. pk r = i) rows = None \<Longrightarrow> update_where (\<lambda>r. pk r = i) f rows = rows"
  by (rule update_where_id) (auto simp: scalar_None_iff)

lemma row_store_table:
  assumes "\<And>db i. lookup db i = scalar (\<lambda>r. pk r = i) (tbl db)"
    and "\<And>i f db. modify i f db = upd (update_where (\<lambda>r. pk r = i) f (tbl db)) db"
    and "\<And>rows db. tbl (upd rows db) = rows" and "\<And>db. upd (tbl db) db = db"
  shows "row_store lookup modify pk"
proof
  fix db i r
  assume "lookup db i = Some r"
  then show "pk r = i" using scalar_SomeD [of "\<lambda>r. pk r = i" "tbl db" r] by (simp add: assms(1))
next
  fix f :: "'b \<Rightarrow> 'b" and i j db
  assume "\<And>r. pk (f r) = pk r"
  then show "lookup (modify i f db) j = (if i = j then map_option f (lookup db j) else lookup db j)"
    by (simp add: assms(1-3) scalar_update_where_pk [of pk])
next
  fix db i and f :: "'b \<Rightarrow> 'b"
  assume "lookup db i = None"
  then show "modify i f db = db"
    using update_where_pk_absent [of pk i "tbl db"] by (simp add: assms)
qed


interpretation user_store: row_store get_user modify_user user_id
  by (rule row_store_table [where tbl = t_users and upd = "\<lambda>rows. t_users_update (\<lambda>_. rows)"])
    (simp_all add: get_user_def modify_user_def)

interpretation setup_token_store: row_store get_setup_token modify_setup_token ptok_id
  by (rule row_store_table [where tbl = t_setup_tokens and upd = "\<lambda>rows. t_setup_tokens_update (\<lambda>_. rows)"])
    (simp_all add: get_setup_token_def modify_setup_token_def)

interpretation session_store: row_store get_session modify_session sess_id
  by (rule row_store_table [where tbl = t_sessions and upd = "\<lambda>rows. t_sessions_update (\<lambda>_. rows)"])
    (simp_all add: get_session_def modify_session_def)

interpretation cli_token_store: row_store get_cli_token modify_cli_token cli_id
  by (rule row_store_table [where tbl = t_cli_tokens and upd = "\<lambda>rows. t_cli_tokens_update (\<lambda>_. rows)"])
    (simp_all add: get_cli_token_def modify_cli_token_def)

interpretation delegated_session_store: row_store get_delegated_session modify_delegated_session deleg_id
  by (rule row_store_table [where tbl = t_delegated_sessions and upd = "\<lambda>rows. t_delegated_sessions_update (\<lambda>_. rows)"])
    (simp_all add: get_delegated_session_def modify_delegated_session_def)

interpretation operation_store: row_store get_operation modify_operation oper_id
  by (rule row_store_table [where tbl = t_operations and upd = "\<lambda>rows. t_operations_update (\<lambda>_. rows)"])
    (simp_all add: get_operation_def modify_operation_def)

interpretation managed_store: row_store get_managed modify_managed mu_id
  by (rule row_store_table [where tbl = t_managed_users and upd = "\<lambda>rows. t_managed_users_update (\<lambda>_. rows)"])
    (simp_all add: get_managed_def modify_managed_def)

interpretation request_store: row_store get_request modify_request crr_id
  by (rule row_store_table [where tbl = t_resource_requests and upd = "\<lambda>rows. t_resource_requests_update (\<lambda>_. rows)"])
    (simp_all add: get_request_def modify_request_def)

interpretation plan_store: row_store get_plan modify_plan plan_id
  by (rule row_store_table [where tbl = t_provision_plans and upd = "\<lambda>rows. t_provision_plans_update (\<lambda>_. rows)"])
    (simp_all add: get_plan_def modify_plan_def)

interpretation reservation_store: row_store get_reservation modify_reservation resv_id
  by (rule row_store_table [where tbl = t_reservations and upd = "\<lambda>rows. t_reservations_update (\<lambda>_. rows)"])
    (simp_all add: get_reservation_def modify_reservation_def)

interpretation ssh_key_store: row_store get_ssh_key modify_ssh_key key_id
  by (rule row_store_table [where tbl = t_ssh_keys and upd = "\<lambda>rows. t_ssh_keys_update (\<lambda>_. rows)"])
    (simp_all add: get_ssh_key_def modify_ssh_key_def)

interpretation container_store: row_store get_container modify_container cont_id
  by (rule row_store_table [where tbl = t_containers and upd = "\<lambda>rows. t_containers_update (\<lambda>_. rows)"])
    (simp_all add: get_container_def modify_container_def)

interpretation lease_store: row_store get_lease modify_lease lease_id
  by (rule row_store_table [where tbl = t_leases and upd = "\<lambda>rows. t_leases_update (\<lambda>_. rows)"])
    (simp_all add: get_lease_def modify_lease_def)

interpretation renewal_store: row_store get_renewal modify_renewal renew_id
  by (rule row_store_table [where tbl = t_renewal_requests and upd = "\<lambda>rows. t_renewal_requests_update (\<lambda>_. rows)"])
    (simp_all add: get_renewal_def modify_renewal_def)

interpretation job_store: row_store get_job modify_job job_id
  by (rule row_store_table [where tbl = t_jobs and upd = "\<lambda>rows. t_jobs_update (\<lambda>_. rows)"])
    (simp_all add: get_job_def modify_job_def)

interpretation storage_store: row_store get_storage modify_storage stor_id
  by (rule row_store_table [where tbl = t_storage_resources and upd = "\<lambda>rows. t_storage_resources_update (\<lambda>_. rows)"])
    (simp_all add: get_storage_def modify_storage_def)

interpretation recycle_item_store: row_store get_recycle_item modify_recycle_item item_id
  by (rule row_store_table [where tbl = t_recycle_items and upd = "\<lambda>rows. t_recycle_items_update (\<lambda>_. rows)"])
    (simp_all add: get_recycle_item_def modify_recycle_item_def)

interpretation restore_request_store: row_store get_restore_request modify_restore_request rest_id
  by (rule row_store_table [where tbl = t_restore_requests and upd = "\<lambda>rows. t_restore_requests_update (\<lambda>_. rows)"])
    (simp_all add: get_restore_request_def modify_restore_request_def)

end
