(* ===== verification/Rbac.thy ===== *)
theory Rbac
  imports Portal_Store
begin

section \<open>Role-based access control\<close>

text \<open>
  \<open>rbac.py\<close>: the permission sets of the five roles (an association list from role to the list
  of its permissions), and the questions the routes ask of them. The lemmas show that the
  roles are separated: what ordinary users may do and what administrators may do is disjoint,
  the administrators form a chain, and nobody can assign a role of their own rank.
\<close>

definition PERMISSIONS :: "(string \<times> string list) list" where
  "PERMISSIONS = [
    (''platform_owner'',
      [''platform.read'', ''users.read'', ''users.write'', ''containers.read'',
       ''containers.write'', ''slurm.read'', ''slurm.write'', ''jobs.read'', ''jobs.write'',
       ''jobs.gpu_approval.read'', ''jobs.gpu_approval.review'', ''jobs.memory_approval.read'',
       ''jobs.memory_approval.review'', ''gpu.read'', ''storage.read'', ''images.read'',
       ''images.write'', ''monitoring.read'', ''operations.read'', ''operations.write'',
       ''audit.read'', ''settings.read'', ''settings.write'', ''owner.manage'',
       ''compute_requests.read'', ''compute_requests.review'', ''compute_requests.plan'',
       ''compute_requests.reconcile'', ''lease.renewals.read'', ''lease.renewals.review'',
       ''lease.recovery'']),
    (''platform_admin'',
      [''platform.read'', ''users.read'', ''users.write'', ''containers.read'',
       ''containers.write'', ''slurm.read'', ''slurm.write'', ''jobs.read'', ''jobs.write'',
       ''jobs.gpu_approval.read'', ''jobs.gpu_approval.review'', ''jobs.memory_approval.read'',
       ''jobs.memory_approval.review'', ''gpu.read'', ''storage.read'', ''images.read'',
       ''images.write'', ''monitoring.read'', ''operations.read'', ''operations.write'',
       ''audit.read'', ''compute_requests.read'', ''compute_requests.review'',
       ''compute_requests.plan'', ''lease.renewals.read'', ''lease.renewals.review'']),
    (''operator'',
      [''platform.read'', ''containers.read'', ''containers.write'', ''slurm.read'',
       ''jobs.read'', ''jobs.write'', ''gpu.read'', ''storage.read'', ''images.read'',
       ''monitoring.read'', ''operations.read'']),
    (''auditor'',
      [''platform.read'', ''users.read'', ''containers.read'', ''slurm.read'', ''jobs.read'',
       ''gpu.read'', ''storage.read'', ''images.read'', ''monitoring.read'',
       ''operations.read'', ''audit.read'', ''lease.renewals.read'']),
    (''user'',
      [''self.compute.activate'', ''self.environment.read'', ''self.lease.read'',
       ''self.lease.renew.request'', ''self.recycle.read'', ''self.restore.request'',
       ''self.jobs.submit'', ''self.jobs.read'', ''self.jobs.cancel'', ''self.container.read'',
       ''self.container.start'', ''self.container.stop'', ''self.container.restart'',
       ''self.container.terminal'', ''self.ssh_keys.read'', ''self.ssh_keys.write'',
       ''self.storage.read'', ''self.connection.read'', ''self.compute_requests.read'',
       ''self.compute_requests.create'', ''self.compute_requests.cancel''])]"

definition role_permissions_of :: "string \<Rightarrow> string list" where
  "role_permissions_of role = (case map_of PERMISSIONS role of None \<Rightarrow> [] | Some ps \<Rightarrow> ps)"

definition role_names :: "portal_user \<Rightarrow> string list" where
  "role_names user = sort (map role_name (user_roles user))"

definition has_permission :: "portal_user \<Rightarrow> string \<Rightarrow> bool" where
  "has_permission user permission \<longleftrightarrow>
     list_ex (\<lambda>role. permission \<in> set (role_permissions_of role)) (role_names user)"

definition require_permission :: "portal_user \<Rightarrow> string \<Rightarrow> unit result" where
  "require_permission user permission =
     (if has_permission user permission then Inr () else Inl (HTTPException 403 ''FORBIDDEN''))"

definition role_order :: "string list" where
  "role_order = [''platform_owner'', ''platform_admin'', ''operator'', ''auditor'', ''user'']"

definition highest_role :: "portal_user \<Rightarrow> string" where
  "highest_role user =
     (case List.find (\<lambda>role. role \<in> set (role_names user)) role_order of
        None \<Rightarrow> ''user'' | Some role \<Rightarrow> role)"

definition assignable_roles :: "portal_user \<Rightarrow> string list" where
  "assignable_roles actor =
     (let role = highest_role actor in
      if role = ''platform_owner'' then map fst PERMISSIONS
      else if role = ''platform_admin'' then [''operator'', ''auditor'', ''user'']
      else [])"

lemma set_role_names: "set (role_names user) = role_name ` set (user_roles user)"
  by (simp add: role_names_def)

lemma has_permission_iff:
  "has_permission user p \<longleftrightarrow> (\<exists>r \<in> set (user_roles user). p \<in> set (role_permissions_of (role_name r)))"
  by (auto simp: has_permission_def list_ex_iff set_role_names)

lemma role_permissions_eval:
  "role_permissions_of ''platform_owner'' = snd (PERMISSIONS ! 0)"
  "role_permissions_of ''platform_admin'' = snd (PERMISSIONS ! 1)"
  "role_permissions_of ''operator'' = snd (PERMISSIONS ! 2)"
  "role_permissions_of ''auditor'' = snd (PERMISSIONS ! 3)"
  "role_permissions_of ''user'' = snd (PERMISSIONS ! 4)"
  by (simp_all add: role_permissions_of_def PERMISSIONS_def)

lemma role_permissions_other:
  "role \<notin> set role_order \<Longrightarrow> role_permissions_of role = []"
  by (auto simp: role_permissions_of_def PERMISSIONS_def role_order_def)

text \<open>
  The questions about roles reduce to the five rows of the table: a granted permission comes
  from a named role, and the highest role ranks at least as high as that role.
\<close>

lemma has_permissionE:
  assumes "has_permission user p"
  obtains role where "role \<in> set (role_names user)" and "role \<in> set role_order"
    and "p \<in> set (role_permissions_of role)"
  using assms role_permissions_other by (fastforce simp: has_permission_def list_ex_iff)

lemma highest_role_eq:
  "highest_role user =
    (if ''platform_owner'' \<in> set (role_names user) then ''platform_owner''
     else if ''platform_admin'' \<in> set (role_names user) then ''platform_admin''
     else if ''operator'' \<in> set (role_names user) then ''operator''
     else if ''auditor'' \<in> set (role_names user) then ''auditor'' else ''user'')"
  unfolding highest_role_def role_order_def by simp

lemma highest_role_ranks:
  "''platform_owner'' \<in> set (role_names user) \<Longrightarrow> highest_role user = ''platform_owner''"
  "''platform_admin'' \<in> set (role_names user) \<Longrightarrow>
     highest_role user \<in> {''platform_owner'', ''platform_admin''}"
  "''operator'' \<in> set (role_names user) \<Longrightarrow>
     highest_role user \<in> {''platform_owner'', ''platform_admin'', ''operator''}"
  by (simp_all add: highest_role_eq)

lemma highest_role_named:
  "highest_role user = role \<Longrightarrow> role \<noteq> ''user'' \<Longrightarrow> role \<in> set (role_names user)"
  by (auto simp: highest_role_eq split: if_splits)

definition self_scoped :: "string \<Rightarrow> bool" where
  "self_scoped p \<longleftrightarrow> take 5 p = ''self.''"

lemma self_scoped_table:
  "role \<in> set role_order \<Longrightarrow> p \<in> set (role_permissions_of role) \<Longrightarrow>
   self_scoped p \<longleftrightarrow> role = ''user''"
  by (auto simp: role_order_def role_permissions_eval PERMISSIONS_def self_scoped_def)

lemma permission_chain:
  "set (role_permissions_of ''platform_admin'') \<subseteq> set (role_permissions_of ''platform_owner'')"
  "set (role_permissions_of ''operator'') \<subseteq> set (role_permissions_of ''platform_admin'')"
  "set (role_permissions_of ''auditor'') \<subseteq> set (role_permissions_of ''platform_admin'')"
  by (simp_all add: role_permissions_eval PERMISSIONS_def)

subsection \<open>What the roles guarantee\<close>

text \<open>
  The self-service permissions and the platform permissions are separated: a permission that
  is granted is self-scoped exactly when the role that grants it is the ordinary-user role, so a
  user with only that role holds self-scoped permissions only, and a user without it holds none.
\<close>

theorem role_separation:
  assumes "has_permission user p"
  shows "(self_scoped p \<longrightarrow> ''user'' \<in> set (role_names user)) \<and>
    (\<not> self_scoped p \<longrightarrow> (\<exists>role \<in> set (role_names user). role \<noteq> ''user'' \<and>
        p \<in> set (role_permissions_of ''platform_owner'')))"
proof -
  obtain role where role: "role \<in> set (role_names user)" "role \<in> set role_order"
      "p \<in> set (role_permissions_of role)"
    using assms by (rule has_permissionE)
  show ?thesis
  proof (cases "role = ''user''")
    case True
    with role self_scoped_table [of role p] show ?thesis by simp
  next
    case False
    with role(2) have "role \<in> {''platform_owner'', ''platform_admin'', ''operator'', ''auditor''}"
      by (simp add: role_order_def)
    with role(3) permission_chain have "p \<in> set (role_permissions_of ''platform_owner'')" by blast
    moreover have "\<not> self_scoped p" using False role self_scoped_table [of role p] by simp
    ultimately show ?thesis using role(1) False by blast
  qed
qed

definition sample_user :: "string \<Rightarrow> portal_user" where
  "sample_user role = \<lparr>user_id = ''u1'', user_login_name = ''Ops'', user_normalized_login = ''ops'',
      user_display_name = ''Ops'', user_note = None, user_unix_username = None,
      user_account_state = AS_ACTIVE, user_password_state = PS_SET,
      user_resource_onboarding_state = OB_NOT_ENROLLED, user_created_at = 0,
      user_activated_at = None, user_last_login_at = None, user_failed_login_count = 0,
      user_locked_until = None,
      user_roles = [\<lparr>role_id = 3, role_name = role, role_description = [],
        role_permissions = PList [], role_created_at = 0\<rparr>]\<rparr>"

lemma sample_user_roles [simp]: "set (role_names (sample_user role)) = {role}"
  by (simp add: sample_user_def set_role_names)

lemma sample_user_permission:
  "has_permission (sample_user role) p \<longleftrightarrow> p \<in> set (role_permissions_of role)"
  by (simp add: has_permission_iff sample_user_def)

theorem role_separation_witness:
  "''user'' \<in> set (role_names (sample_user ''user''))"
proof (rule role_separation [THEN conjunct1, THEN mp])
  show "has_permission (sample_user ''user'') ''self.jobs.read''"
    by (simp add: sample_user_permission role_permissions_eval PERMISSIONS_def)
  show "self_scoped ''self.jobs.read''" by (simp add: self_scoped_def)
qed

text \<open>
  Nobody can hand out authority they do not have: every permission of a role the actor may
  assign is self-scoped or held by the actor, and an administrator below the owner cannot assign
  an administrator role at all.
\<close>

theorem assignable_roles_no_escalation:
  assumes "role \<in> set (assignable_roles actor)" and "p \<in> set (role_permissions_of role)"
  shows "(self_scoped p \<or> has_permission actor p) \<and>
    (highest_role actor = ''platform_owner'' \<or>
     highest_role actor = ''platform_admin'' \<and> role \<notin> {''platform_owner'', ''platform_admin''})"
proof -
  from assms(1) consider
      (owner) "highest_role actor = ''platform_owner''" "role \<in> set role_order"
    | (admin) "highest_role actor = ''platform_admin''"
        "role = ''operator'' \<or> role = ''auditor'' \<or> role = ''user''"
    by (auto simp: assignable_roles_def PERMISSIONS_def role_order_def Let_def split: if_splits)
  then show ?thesis
  proof cases
    case owner
    have "self_scoped p \<or> p \<in> set (role_permissions_of ''platform_owner'')"
    proof (cases "role = ''user''")
      case True
      with owner assms(2) self_scoped_table [of role p] show ?thesis by simp
    next
      case False
      with owner have "role \<in> {''platform_owner'', ''platform_admin'', ''operator'', ''auditor''}"
        by (simp add: role_order_def)
      with assms(2) permission_chain show ?thesis by blast
    qed
    with owner highest_role_named [OF owner(1)] show ?thesis by (auto simp: has_permission_def list_ex_iff)
  next
    case admin
    then have "self_scoped p \<or> p \<in> set (role_permissions_of ''platform_admin'')"
      using assms(2) permission_chain self_scoped_table [of role p]
      by (auto simp: role_order_def)
    with admin highest_role_named [OF admin(1)] show ?thesis by (auto simp: has_permission_def list_ex_iff)
  qed
qed

theorem assignable_roles_no_escalation_witness:
  "self_scoped ''jobs.write'' \<or> has_permission (sample_user ''platform_admin'') ''jobs.write''"
  by (rule assignable_roles_no_escalation [where role = "''operator''", THEN conjunct1])
    (simp_all add: assignable_roles_def highest_role_eq role_permissions_eval PERMISSIONS_def)

lemma write_permission_table:
  assumes "role \<in> set role_order"
    and "perm \<in> {''compute_requests.plan'', ''compute_requests.reconcile'', ''users.write'',
      ''slurm.write'', ''containers.write'', ''jobs.write''}"
    and "perm \<in> set (role_permissions_of role)"
  shows "role = ''platform_owner'' \<or>
    role = ''platform_admin'' \<and> perm \<noteq> ''compute_requests.reconcile'' \<or>
    role = ''operator'' \<and> perm \<in> {''containers.write'', ''jobs.write''}"
proof -
  from assms(1) have "role = ''platform_owner'' \<or> role = ''platform_admin'' \<or>
      role = ''operator'' \<or> role = ''auditor'' \<or> role = ''user''"
    by (simp add: role_order_def)
  then show ?thesis
  proof (elim disjE)
    assume "role = ''platform_admin''"
    with assms(2,3) show ?thesis
      by (elim insertE emptyE) (simp_all add: role_permissions_eval PERMISSIONS_def)
  next
    assume "role = ''operator''"
    with assms(2,3) show ?thesis
      by (elim insertE emptyE) (simp_all add: role_permissions_eval PERMISSIONS_def)
  next
    assume "role = ''auditor''"
    with assms(2,3) show ?thesis
      by (elim insertE emptyE) (simp_all add: role_permissions_eval PERMISSIONS_def)
  next
    assume "role = ''user''"
    with assms(2,3) show ?thesis
      by (elim insertE emptyE) (simp_all add: role_permissions_eval PERMISSIONS_def)
  qed simp
qed

text \<open>
  The operation catalogue against the roles: whoever holds the permission of a writing
  operation is an operator or above, CRITICAL operations are reserved to the administrators, and
  the manual reconciliation to the platform owner. The operator's share is the container
  operations and job cancellation.
\<close>

theorem operation_authority:
  assumes "map_of OPERATION_PERMISSIONS ty = Some perm" and "has_permission user perm"
  shows "highest_role user \<in> {''platform_owner'', ''platform_admin'', ''operator''} \<and>
    (risk_for ty = RISK_CRITICAL \<longrightarrow> highest_role user \<in> {''platform_owner'', ''platform_admin''}) \<and>
    (ty = ''compute.provision.reconcile'' \<longrightarrow> highest_role user = ''platform_owner'') \<and>
    (highest_role user = ''operator'' \<longrightarrow> perm \<in> {''containers.write'', ''jobs.write''})"
proof -
  have perm: "perm \<in> {''compute_requests.plan'', ''compute_requests.reconcile'', ''users.write'',
      ''slurm.write'', ''containers.write'', ''jobs.write''}"
    using map_of_SomeD [OF assms(1)] by (auto simp: OPERATION_PERMISSIONS_def)
  have critical: "risk_for ty = RISK_CRITICAL \<Longrightarrow> perm \<notin> {''containers.write'', ''jobs.write''}"
    using map_of_SomeD [OF assms(1)]
    by (auto simp: OPERATION_PERMISSIONS_def risk_for_def HIGH_RISK_OPERATION_TYPES_def
        WRITE_OPERATION_TYPES_def)
  have reconcile: "ty = ''compute.provision.reconcile'' \<Longrightarrow> perm = ''compute_requests.reconcile''"
    using assms(1) by (simp add: OPERATION_PERMISSIONS_def)
  obtain role where role: "role \<in> set (role_names user)" "role \<in> set role_order"
      "perm \<in> set (role_permissions_of role)"
    using assms(2) by (rule has_permissionE)
  have rank: "role = ''platform_owner'' \<or> role = ''platform_admin'' \<and> perm \<noteq> ''compute_requests.reconcile'' \<or>
      role = ''operator'' \<and> perm \<in> {''containers.write'', ''jobs.write''}"
    using role(2) perm role(3) by (rule write_permission_table)
  from rank show ?thesis
  proof (elim disjE conjE)
    assume "role = ''platform_owner''"
    with role(1) have "highest_role user = ''platform_owner''" by (simp only: highest_role_ranks(1))
    then show ?thesis by simp
  next
    assume "role = ''platform_admin''" and "perm \<noteq> ''compute_requests.reconcile''"
    with role(1) reconcile show ?thesis using highest_role_ranks(2) [of user] by auto
  next
    assume "role = ''operator''" and "perm \<in> {''containers.write'', ''jobs.write''}"
    moreover from this have "risk_for ty \<noteq> RISK_CRITICAL" "ty \<noteq> ''compute.provision.reconcile''"
      using critical reconcile by auto
    ultimately show ?thesis using role(1) highest_role_ranks(3) [of user] by auto
  qed
qed

theorem operation_authority_witness:
  "highest_role (sample_user ''operator'') \<in> {''platform_owner'', ''platform_admin'', ''operator''}"
  by (rule operation_authority [where ty = "''container.stop''" and perm = "''containers.write''",
        THEN conjunct1])
    (simp_all add: OPERATION_PERMISSIONS_def sample_user_permission role_permissions_eval PERMISSIONS_def)

end
