(* ===== verification/Lease_Service.thy ===== *)
theory Lease_Service
  imports Portal_Store
begin

section \<open>Compute leases and renewals\<close>

text \<open>
  \<open>lease_service.py\<close>. A lease is a row with a period; a renewal appends a successor that starts
  when its predecessor ends, so a user's entitlement is a chain of leases. Every function takes
  the trusted clock \<open>now\<close>; a new row's identifier, and the second clock reading of \<open>create_lease\<close>,
  are arguments. \<open>with_for_update\<close> locks rows and does not change a sequential run; the version
  column that SQLAlchemy counts on each UPDATE is left at its value.
\<close>

definition MAX_LEASE_DURATION_SECONDS :: int where
  "MAX_LEASE_DURATION_SECONDS = 96 * 60 * 60"

definition RENEWAL_WINDOW_SECONDS :: int where
  "RENEWAL_WINDOW_SECONDS = 24 * 60 * 60"

definition REMINDER_WINDOW_SECONDS :: int where
  "REMINDER_WINDOW_SECONDS = 48 * 60 * 60"

definition ACTIVE_LEASE_STATES :: "string list" where
  "ACTIVE_LEASE_STATES = [''ACTIVE'', ''RENEWAL_WINDOW'', ''RENEWAL_PENDING'']"

lemmas lease_consts = MAX_LEASE_DURATION_SECONDS_def RENEWAL_WINDOW_SECONDS_def
  REMINDER_WINDOW_SECONDS_def

abbreviation active_state :: "portal_compute_lease \<Rightarrow> bool" where
  "active_state l \<equiv> lease_state l \<in> set ACTIVE_LEASE_STATES"

definition managed_identity_for_user :: "portal_db \<Rightarrow> portal_user \<Rightarrow> portal_managed_user result" where
  "managed_identity_for_user db user =
     (case scalar (\<lambda>m. mu_portal_user_id m = user_id user) (t_managed_users db) of
        None \<Rightarrow> Inl (HTTPException 404 ''MANAGED_IDENTITY_NOT_FOUND'')
      | Some managed \<Rightarrow> Inr managed)"

definition active_query :: "portal_db \<Rightarrow> uuid \<Rightarrow> instant \<Rightarrow> portal_compute_lease list" where
  "active_query db owner now =
     order_desc lease_starts_at
       (filter (\<lambda>l. lease_owner_managed_user_id l = owner \<and> active_state l \<and>
                    lease_starts_at l \<le> now) (t_leases db))"

definition expired_query :: "portal_db \<Rightarrow> uuid \<Rightarrow> instant \<Rightarrow> portal_compute_lease list" where
  "expired_query db owner now =
     order_desc lease_expires_at
       (filter (\<lambda>l. lease_owner_managed_user_id l = owner \<and> active_state l \<and>
                    lease_expires_at l \<le> now) (t_leases db))"

definition expire_row :: "instant \<Rightarrow> portal_compute_lease \<Rightarrow> portal_compute_lease" where
  "expire_row now l = l\<lparr>lease_state := ''EXPIRED'', lease_expired_at := Some now\<rparr>"

definition activate_row :: "instant \<Rightarrow> portal_compute_lease \<Rightarrow> portal_compute_lease" where
  "activate_row now l = l\<lparr>lease_state := ''ACTIVE'',
     lease_approved_at := Some (case lease_approved_at l of Some t \<Rightarrow> t | None \<Rightarrow> now)\<rparr>"

definition promote_successor ::
    "portal_db \<Rightarrow> portal_compute_lease \<Rightarrow> instant \<Rightarrow> portal_compute_lease result \<times> portal_db" where
  "promote_successor db expired now =
     (case scalar (\<lambda>l. lease_previous_lease_id l = Some (lease_id expired) \<and>
                       lease_state l = ''APPROVED'' \<and> lease_starts_at l \<le> now \<and>
                       lease_expires_at l > now) (t_leases db) of
        None \<Rightarrow> (Inl (HTTPException 409 ''LEASE_INACTIVE''), db)
      | Some successor \<Rightarrow>
          (Inr (activate_row now successor),
           modify_lease (lease_id successor) (activate_row now)
             (modify_lease (lease_id expired) (expire_row now) db)))"

definition ensure_active_lease ::
    "portal_db \<Rightarrow> uuid \<Rightarrow> instant \<Rightarrow> portal_compute_lease result \<times> portal_db" where
  "ensure_active_lease db owner now =
     (case scalar (\<lambda>_. True) (active_query db owner now) of
        Some lease \<Rightarrow>
          if now < lease_expires_at lease then (Inr lease, db)
          else promote_successor db lease now
      | None \<Rightarrow>
          (case scalar (\<lambda>_. True) (expired_query db owner now) of
             Some expired \<Rightarrow> promote_successor db expired now
           | None \<Rightarrow> (Inl (HTTPException 409 ''LEASE_INACTIVE''), db)))"

text \<open>
  The loop of \<open>lease_chain_terminal\<close>: it adds a row not seen before on every turn, so it ends
  on any table, also one whose links form a cycle.
\<close>

definition approved_successor ::
    "portal_compute_lease list \<Rightarrow> portal_compute_lease \<Rightarrow> portal_compute_lease option" where
  "approved_successor rows current =
     scalar (\<lambda>l. lease_previous_lease_id l = Some (lease_id current) \<and> lease_state l = ''APPROVED'')
       rows"

function chain_loop ::
    "portal_compute_lease list \<Rightarrow> portal_compute_lease \<Rightarrow> uuid list \<Rightarrow> portal_compute_lease result" where
  "chain_loop rows current seen =
     (case approved_successor rows current of
        None \<Rightarrow> Inr current
      | Some successor \<Rightarrow>
          if lease_id successor \<in> set seen \<or> lease_starts_at successor \<noteq> lease_expires_at current
          then Inl (HTTPException 409 ''LEASE_CHAIN_INVALID'')
          else chain_loop rows successor (lease_id successor # seen))"
  by pat_completeness auto

lemma length_filter_smaller:
  assumes "x \<in> set xs" and "P x" and "\<not> Q x" and "\<And>y. Q y \<Longrightarrow> P y"
  shows "length (filter Q xs) < length (filter P xs)"
proof -
  have "filter Q xs = filter Q (filter P xs)"
    using assms(4) by (simp add: filter_filter) (metis)
  then show ?thesis
    using assms length_filter_less [of x "filter P xs" Q] by simp
qed

termination chain_loop
proof (relation "measure (\<lambda>(rows, current, seen). length (filter (\<lambda>l. lease_id l \<notin> set seen) rows))")
  fix rows current seen successor
  assume "approved_successor rows current = Some successor"
    and "\<not> (lease_id successor \<in> set seen \<or> lease_starts_at successor \<noteq> lease_expires_at current)"
  then show "((rows, successor, lease_id successor # seen), (rows, current, seen))
      \<in> measure (\<lambda>(rows, current, seen). length (filter (\<lambda>l. lease_id l \<notin> set seen) rows))"
    by (auto simp: approved_successor_def dest!: scalar_SomeD
        intro!: length_filter_smaller [where x = successor])
qed simp

declare chain_loop.simps [simp del]

definition lease_chain_terminal ::
    "portal_db \<Rightarrow> portal_compute_lease \<Rightarrow> portal_compute_lease result" where
  "lease_chain_terminal db lease = chain_loop (t_leases db) lease [lease_id lease]"

definition entitlement :: "portal_db \<Rightarrow> uuid \<Rightarrow> instant \<Rightarrow>
    (portal_compute_lease \<times> portal_compute_lease) result \<times> portal_db" where
  "entitlement db owner now =
     (case ensure_active_lease db owner now of
        (Inl e, db1) \<Rightarrow> (Inl e, db1)
      | (Inr active, db1) \<Rightarrow>
          (case lease_chain_terminal db1 active of
             Inl e \<Rightarrow> (Inl e, db1)
           | Inr terminal \<Rightarrow> (Inr (active, terminal), db1)))"

definition pending_renewal_of :: "portal_db \<Rightarrow> uuid \<Rightarrow> uuid \<Rightarrow> portal_lease_renewal_request option" where
  "pending_renewal_of db owner lease =
     scalar (\<lambda>r. renew_owner_managed_user_id r = owner \<and> renew_lease_id r = lease \<and>
                 renew_state r = ''REQUESTED'') (t_renewal_requests db)"

definition lease_view :: "portal_db \<Rightarrow> uuid \<Rightarrow> instant \<Rightarrow> pyval \<times> portal_db" where
  "lease_view db owner now =
     (let approval_required =
            (case get_managed db owner of
               Some managed \<Rightarrow> mu_lease_renewal_approval_required managed | None \<Rightarrow> True)
      in case entitlement db owner now of
        (Inl e, db1) \<Rightarrow>
          ((case scalar (\<lambda>_. True) (order_desc lease_expires_at
                   (filter (\<lambda>l. lease_owner_managed_user_id l = owner) (t_leases db1))) of
              None \<Rightarrow> PDict [
                (''state'', PStr ''NOT_CREATED''), (''active'', PBool False),
                (''renewal_available'', PBool False),
                (''max_duration_seconds'', PInt MAX_LEASE_DURATION_SECONDS),
                (''renewal_window_seconds'', PInt RENEWAL_WINDOW_SECONDS),
                (''renewal_approval_required'', PBool approval_required),
                (''auto_renew'', PBool False)]
            | Some latest \<Rightarrow> PDict [
                (''id'', PStr (lease_id latest)),
                (''state'', PStr (if lease_expires_at latest \<le> now then ''EXPIRED''
                                  else lease_state latest)),
                (''active'', PBool False),
                (''starts_at'', PTime (lease_starts_at latest)),
                (''expires_at'', PTime (lease_expires_at latest)),
                (''remaining_seconds'', PInt 0), (''renewal_available'', PBool False),
                (''restore_required'', PBool True), (''gpu_count'', PInt (lease_gpu_count latest)),
                (''max_duration_seconds'', PInt MAX_LEASE_DURATION_SECONDS),
                (''renewal_window_seconds'', PInt RENEWAL_WINDOW_SECONDS),
                (''renewal_approval_required'', PBool approval_required),
                (''auto_renew'', PBool False)]), db1)
      | (Inr (active, terminal), db1) \<Rightarrow>
          (let effective_expiry = lease_expires_at terminal;
               remaining = max 0 (whole_seconds (effective_expiry - now));
               pending = pending_renewal_of db1 owner (lease_id terminal);
               renewal_available =
                 (0 < remaining \<and> remaining \<le> RENEWAL_WINDOW_SECONDS \<and> pending = None);
               display_state =
                 (if pending \<noteq> None then ''RENEWAL_PENDING''
                  else if remaining \<le> RENEWAL_WINDOW_SECONDS then ''RENEWAL_WINDOW''
                  else ''ACTIVE'')
           in (PDict [
                (''id'', PStr (lease_id active)),
                (''terminal_lease_id'', PStr (lease_id terminal)),
                (''state'', PStr display_state), (''active'', PBool True),
                (''starts_at'', PTime (lease_starts_at active)),
                (''expires_at'', PTime effective_expiry),
                (''current_period_expires_at'', PTime (lease_expires_at active)),
                (''remaining_seconds'', PInt remaining),
                (''renewal_available'', PBool renewal_available),
                (''renewal_available_from'',
                  PTime (effective_expiry - seconds RENEWAL_WINDOW_SECONDS)),
                (''reminder_48h'', PBool (remaining \<le> REMINDER_WINDOW_SECONDS)),
                (''gpu_count'', PInt (lease_gpu_count active)),
                (''max_duration_seconds'', PInt MAX_LEASE_DURATION_SECONDS),
                (''renewal_window_seconds'', PInt RENEWAL_WINDOW_SECONDS),
                (''maximum_renewal_seconds'', PInt MAX_LEASE_DURATION_SECONDS),
                (''pending_renewal_id'',
                  case pending of Some r \<Rightarrow> PStr (renew_id r) | None \<Rightarrow> PNone),
                (''renewal_approval_required'', PBool approval_required),
                (''auto_renew'', PBool False)], db1)))"

definition create_lease :: "uuid \<Rightarrow> instant \<Rightarrow> uuid \<Rightarrow> instant \<Rightarrow> int \<Rightarrow> int \<Rightarrow> uuid option \<Rightarrow>
    string \<Rightarrow> uuid option \<Rightarrow> bool \<Rightarrow> portal_compute_lease result" where
  "create_lease new_id clock managed_user starts_at duration gpu_count approved_by state previous restored =
     (if \<not> (1 \<le> duration \<and> duration \<le> MAX_LEASE_DURATION_SECONDS)
      then Inl (ValueError ''lease duration must be between 1 and 345600 seconds'')
      else if gpu_count \<notin> set [0, 1]
      then Inl (ValueError ''lease GPU count must be 0 or 1'')
      else Inr \<lparr>lease_id = new_id, lease_managed_user_id = managed_user,
        lease_owner_managed_user_id = managed_user, lease_state = state,
        lease_gpu_count = gpu_count, lease_starts_at = starts_at,
        lease_expires_at = starts_at + seconds duration, lease_duration_seconds = duration,
        lease_max_duration_seconds = MAX_LEASE_DURATION_SECONDS,
        lease_renewal_window_seconds = RENEWAL_WINDOW_SECONDS, lease_created_at = clock,
        lease_approved_at = Some clock, lease_approved_by = approved_by, lease_renewed_at = None,
        lease_previous_lease_id = previous, lease_expired_at = None, lease_recycled_at = None,
        lease_restored_at = (if restored then Some clock else None), lease_version = 1\<rparr>)"

text \<open>\<open>request_renewal\<close>: an idempotency key of the owner is answered with the request it made.\<close>

definition renewal_by_key ::
    "portal_db \<Rightarrow> uuid \<Rightarrow> string \<Rightarrow> portal_lease_renewal_request option" where
  "renewal_by_key db owner key =
     scalar (\<lambda>r. renew_owner_managed_user_id r = owner \<and> renew_idempotency_key r = key)
       (t_renewal_requests db)"

definition request_renewal :: "portal_db \<Rightarrow> uuid \<Rightarrow> uuid \<Rightarrow> int \<Rightarrow> string \<Rightarrow> bool \<Rightarrow> instant \<Rightarrow>
    portal_lease_renewal_request result \<times> portal_db" where
  "request_renewal db new_id owner duration key approval_required now =
     (if \<not> (1 \<le> duration \<and> duration \<le> MAX_LEASE_DURATION_SECONDS)
      then (Inl (HTTPException 422 ''LEASE_DURATION_EXCEEDED''), db)
      else case renewal_by_key db owner key of
        Some existing \<Rightarrow>
          (if renew_requested_duration_seconds existing \<noteq> duration
           then (Inl (HTTPException 409 ''IDEMPOTENCY_CONFLICT''), db) else (Inr existing, db))
      | None \<Rightarrow>
        (case entitlement db owner now of
           (Inl e, db1) \<Rightarrow>
             (if e = HTTPException 409 ''LEASE_INACTIVE''
              then (Inl (HTTPException 409 ''LEASE_EXPIRED_RESTORE_REQUIRED''), db1)
              else (Inl e, db1))
         | (Inr (active, terminal), db1) \<Rightarrow>
             (let remaining = whole_seconds (lease_expires_at terminal - now) in
              if remaining \<le> 0
              then (Inl (HTTPException 409 ''LEASE_EXPIRED_RESTORE_REQUIRED''), db1)
              else if remaining > RENEWAL_WINDOW_SECONDS
              then (Inl (HTTPException 409 ''RENEWAL_WINDOW_NOT_OPEN''), db1)
              else if scalar (\<lambda>r. renew_owner_managed_user_id r = owner \<and>
                        renew_state r = ''REQUESTED'') (t_renewal_requests db1) \<noteq> None
              then (Inl (HTTPException 409 ''RENEWAL_ALREADY_PENDING''), db1)
              else
                (let request = \<lparr>renew_id = new_id, renew_owner_managed_user_id = owner,
                       renew_lease_id = lease_id terminal, renew_state = ''REQUESTED'',
                       renew_approval_required = approval_required,
                       renew_requested_duration_seconds = duration,
                       renew_idempotency_key = key, renew_requested_at = now,
                       renew_decided_at = None, renew_decided_by = None,
                       renew_resulting_lease_id = None, renew_decision_comment = None\<rparr>
                 in (Inr request,
                     modify_lease (lease_id active) (\<lambda>l. l\<lparr>lease_state := ''RENEWAL_PENDING''\<rparr>)
                       (add_renewal request db1))))))"

text \<open>
  \<open>decide_renewal\<close>. The first flush of an approval inserts the successor: the table has a UNIQUE
  constraint on \<open>previous_lease_id\<close>, and a violation rolls the transaction back.
\<close>

definition record_decision :: "instant \<Rightarrow> uuid option \<Rightarrow> string option \<Rightarrow>
    portal_lease_renewal_request \<Rightarrow> portal_lease_renewal_request" where
  "record_decision now decided_by comment r =
     r\<lparr>renew_decided_at := Some now, renew_decided_by := decided_by, renew_decision_comment := comment\<rparr>"

definition decide_renewal :: "portal_db \<Rightarrow> uuid \<Rightarrow> instant \<Rightarrow> uuid \<Rightarrow> string \<Rightarrow> uuid option \<Rightarrow>
    string option \<Rightarrow> instant \<Rightarrow>
    (portal_lease_renewal_request \<times> portal_compute_lease option) result \<times> portal_db" where
  "decide_renewal db new_id clock request_id decision decided_by comment now =
     (case get_renewal db request_id of
        None \<Rightarrow> (Inl (HTTPException 404 ''RENEWAL_REQUEST_NOT_FOUND''), db)
      | Some request \<Rightarrow>
        if renew_state request \<noteq> ''REQUESTED''
        then (Inl (HTTPException 409 ''RENEWAL_ALREADY_DECIDED''), db)
        else case get_lease db (renew_lease_id request) of
          None \<Rightarrow> (Inl (HTTPException 409 ''LEASE_NOT_FOUND''), db)
        | Some lease \<Rightarrow>
          if lease_expires_at lease \<le> now
          then (Inl RenewalLeaseExpiredError,
             modify_renewal request_id
               (\<lambda>r. record_decision now decided_by comment (r\<lparr>renew_state := ''CANCELLED''\<rparr>))
               (if active_state lease
                then modify_lease (lease_id lease)
                  (\<lambda>l. l\<lparr>lease_state := ''EXPIRED'', lease_expired_at :=
                      Some (case lease_expired_at l of Some t \<Rightarrow> t | None \<Rightarrow> now)\<rparr>) db
                else db))
          else let db1 = modify_renewal request_id (record_decision now decided_by comment) db;
                   window = (\<lambda>l. l\<lparr>lease_state := ''RENEWAL_WINDOW''\<rparr>)
            in if decision = ''REJECT''
            then (Inr (record_decision now decided_by comment request
                        \<lparr>renew_state := ''REJECTED''\<rparr>, None),
                  modify_lease (lease_id lease) window
                    (modify_renewal request_id (\<lambda>r. r\<lparr>renew_state := ''REJECTED''\<rparr>) db1))
            else if decision \<noteq> ''APPROVE''
            then (Inl (HTTPException 422 ''INVALID_DECISION''), db1)
            else case create_lease new_id clock (renew_owner_managed_user_id request)
                   (lease_expires_at lease) (renew_requested_duration_seconds request)
                   (lease_gpu_count lease) decided_by ''APPROVED'' (Some (lease_id lease)) False of
              Inl e \<Rightarrow> (Inl e, db1)
            | Inr created \<Rightarrow>
              (let successor = created\<lparr>lease_renewed_at := Some now\<rparr> in
               if scalar (\<lambda>l. lease_previous_lease_id l = Some (lease_id lease)) (t_leases db1) \<noteq> None
               then (Inl (IntegrityError ''previous_lease_id''), db)
               else (Inr (record_decision now decided_by comment request
                      \<lparr>renew_state := ''APPROVED'', renew_resulting_lease_id := Some new_id\<rparr>,
                      Some successor),
                 modify_lease (lease_id lease) window
                   (modify_renewal request_id
                     (\<lambda>r. r\<lparr>renew_state := ''APPROVED'', renew_resulting_lease_id := Some new_id\<rparr>)
                     (add_lease successor db1)))))"

subsection \<open>The invariant of the lease and renewal tables\<close>

text \<open>
  Leases satisfy their CHECK constraints, a successor belongs to its predecessor's owner and
  starts when the predecessor ends, and no lease has two successors. A renewal request names
  a lease of its owner, and an owner has at most one request that waits for a decision.
\<close>

definition leases_ok :: "portal_compute_lease list \<Rightarrow> bool" where
  "leases_ok ls \<longleftrightarrow>
     distinct (map lease_id ls) \<and>
     (\<forall>l \<in> set ls. compute_lease_checks l) \<and>
     (\<forall>l \<in> set ls. \<forall>p \<in> set ls. lease_previous_lease_id l = Some (lease_id p) \<longrightarrow>
        lease_owner_managed_user_id l = lease_owner_managed_user_id p \<and>
        lease_starts_at l = lease_expires_at p) \<and>
     (\<forall>l \<in> set ls. \<forall>m \<in> set ls. lease_previous_lease_id l \<noteq> None \<longrightarrow>
        lease_previous_lease_id l = lease_previous_lease_id m \<longrightarrow> lease_id l = lease_id m)"

definition renewals_ok ::
    "portal_compute_lease list \<Rightarrow> portal_lease_renewal_request list \<Rightarrow> bool" where
  "renewals_ok ls rs \<longleftrightarrow>
     distinct (map renew_id rs) \<and>
     (\<forall>r \<in> set rs. lease_renewal_request_checks r \<and>
        (\<exists>l \<in> set ls. lease_id l = renew_lease_id r \<and>
           lease_owner_managed_user_id l = renew_owner_managed_user_id r)) \<and>
     (\<forall>r \<in> set rs. \<forall>q \<in> set rs. renew_state r = ''REQUESTED'' \<longrightarrow> renew_state q = ''REQUESTED'' \<longrightarrow>
        renew_owner_managed_user_id r = renew_owner_managed_user_id q \<longrightarrow> renew_id r = renew_id q)"

definition lease_inv :: "portal_db \<Rightarrow> bool" where
  "lease_inv db \<longleftrightarrow> leases_ok (t_leases db) \<and> renewals_ok (t_leases db) (t_renewal_requests db)"

definition lease_state_values :: "string list" where
  "lease_state_values = [''REQUESTED'', ''APPROVED'', ''ACTIVE'', ''RENEWAL_WINDOW'',
     ''RENEWAL_PENDING'', ''EXPIRED'', ''RECYCLE_BIN'', ''RESTORE_PENDING'', ''RESTORING'',
     ''SUSPENDED'', ''FAILED'']"

lemma active_not_approved: "active_state l \<Longrightarrow> lease_state l \<noteq> ''APPROVED''"
  by (auto simp: ACTIVE_LEASE_STATES_def)

lemma checks_leaseD:
  assumes "compute_lease_checks l"
  shows "lease_starts_at l < lease_expires_at l"
    "lease_owner_managed_user_id l = lease_managed_user_id l"
    "lease_expires_at l = lease_starts_at l + seconds (lease_duration_seconds l)"
    "0 \<le> lease_gpu_count l" "lease_gpu_count l \<le> 1"
  using assms unfolding compute_lease_checks_def by blast+

lemma checks_lease_update:
  assumes "compute_lease_checks l" and "s \<in> set lease_state_values"
  shows "compute_lease_checks (l\<lparr>lease_state := s, lease_expired_at := e, lease_approved_at := a,
    lease_recycled_at := c\<rparr>)"
  using assms unfolding compute_lease_checks_def lease_state_values_def by simp

lemma leases_okD:
  assumes "leases_ok ls" and "l \<in> set ls"
  shows "compute_lease_checks l" "lease_starts_at l < lease_expires_at l"
    "lease_owner_managed_user_id l = lease_managed_user_id l"
    "lease_expires_at l = lease_starts_at l + seconds (lease_duration_seconds l)"
    "0 \<le> lease_gpu_count l" "lease_gpu_count l \<le> 1"
proof -
  show c: "compute_lease_checks l" using assms by (simp add: leases_ok_def)
  show "lease_starts_at l < lease_expires_at l"
    "lease_owner_managed_user_id l = lease_managed_user_id l"
    "lease_expires_at l = lease_starts_at l + seconds (lease_duration_seconds l)"
    "0 \<le> lease_gpu_count l" "lease_gpu_count l \<le> 1"
    by (rule checks_leaseD [OF c])+
qed

lemma leases_ok_link:
  assumes "leases_ok ls" and "l \<in> set ls" and "p \<in> set ls"
    and "lease_previous_lease_id l = Some (lease_id p)"
  shows "lease_owner_managed_user_id l = lease_owner_managed_user_id p"
    "lease_starts_at l = lease_expires_at p"
  using assms unfolding leases_ok_def by blast+

lemma leases_ok_same_id:
  "leases_ok ls \<Longrightarrow> l \<in> set ls \<Longrightarrow> m \<in> set ls \<Longrightarrow> lease_id l = lease_id m \<Longrightarrow> l = m"
  unfolding leases_ok_def distinct_map inj_on_def by blast

lemma leases_ok_update:
  assumes ok: "leases_ok ls"
    and f: "\<And>l. f l = l\<lparr>lease_state := s, lease_expired_at := e l, lease_approved_at := a l,
      lease_recycled_at := c l\<rparr>"
    and s: "s \<in> set lease_state_values"
  shows "leases_ok (update_where p f ls)"
proof -
  define g where "g l = (if p l then f l else l)" for l
  have fields [simp]: "lease_id (g l) = lease_id l"
    "lease_owner_managed_user_id (g l) = lease_owner_managed_user_id l"
    "lease_previous_lease_id (g l) = lease_previous_lease_id l"
    "lease_starts_at (g l) = lease_starts_at l" "lease_expires_at (g l) = lease_expires_at l" for l
    by (simp_all add: g_def f)
  have checks: "compute_lease_checks (g l)" if "compute_lease_checks l" for l
    using checks_lease_update [OF that s] that by (simp add: g_def f)
  have upd: "update_where p f ls = map g ls"
    by (simp add: update_where_def g_def)
  have ids: "map lease_id (map g ls) = map lease_id ls" by simp
  show ?thesis
    using ok checks unfolding leases_ok_def upd ids set_map ball_simps fields by blast
qed

lemma update_lease_ids:
  "(\<And>l. lease_id (f l) = lease_id l \<and>
      lease_owner_managed_user_id (f l) = lease_owner_managed_user_id l) \<Longrightarrow>
   (\<exists>l \<in> set (update_where p f ls). lease_id l = i \<and> lease_owner_managed_user_id l = owner)
   \<longleftrightarrow> (\<exists>l \<in> set ls. lease_id l = i \<and> lease_owner_managed_user_id l = owner)"
  by (induction ls) auto

lemma renewals_ok_update_lease:
  assumes "renewals_ok ls rs"
    and "\<And>l. lease_id (f l) = lease_id l \<and>
          lease_owner_managed_user_id (f l) = lease_owner_managed_user_id l"
  shows "renewals_ok (update_where p f ls) rs"
  using assms(1) unfolding renewals_ok_def update_lease_ids [OF assms(2)] .

text \<open>An assignment to a lease's state, and to its expiry or approval time, keeps the invariant.\<close>

lemma lease_inv_modify_lease:
  assumes inv: "lease_inv db"
    and f: "\<And>l. f l = l\<lparr>lease_state := s, lease_expired_at := e l, lease_approved_at := a l,
      lease_recycled_at := c l\<rparr>"
    and s: "s \<in> set lease_state_values"
  shows "lease_inv (modify_lease i f db)"
proof -
  have "leases_ok (t_leases (modify_lease i f db))"
    using leases_ok_update [OF _ f s] inv by (simp add: lease_inv_def modify_lease_def)
  moreover have "renewals_ok (t_leases (modify_lease i f db)) (t_renewal_requests db)"
    using inv renewals_ok_update_lease [of _ _ f] by (simp add: lease_inv_def modify_lease_def f)
  ultimately show ?thesis by (simp add: lease_inv_def modify_lease_def)
qed

lemma lease_inv_expire: "lease_inv db \<Longrightarrow> lease_inv (modify_lease i (expire_row now) db)"
  by (rule lease_inv_modify_lease [where s = "''EXPIRED''" and e = "\<lambda>_. Some now"
        and a = lease_approved_at and c = lease_recycled_at]) (simp_all add: expire_row_def lease_state_values_def)

lemma lease_inv_activate: "lease_inv db \<Longrightarrow> lease_inv (modify_lease i (activate_row now) db)"
  by (rule lease_inv_modify_lease [where s = "''ACTIVE''" and e = lease_expired_at
        and a = "\<lambda>l. Some (case lease_approved_at l of Some t \<Rightarrow> t | None \<Rightarrow> now)" and c = lease_recycled_at])
    (simp_all add: activate_row_def lease_state_values_def)

lemma lease_inv_state:
  "lease_inv db \<Longrightarrow> s \<in> set lease_state_values \<Longrightarrow>
   lease_inv (modify_lease i (\<lambda>l. l\<lparr>lease_state := s\<rparr>) db)"
  by (rule lease_inv_modify_lease [where e = lease_expired_at and a = lease_approved_at
        and c = lease_recycled_at]) simp_all

lemma lease_inv_promote: "lease_inv db \<Longrightarrow> lease_inv (snd (promote_successor db l now))"
  by (auto simp: promote_successor_def lease_inv_expire lease_inv_activate split: option.splits)

lemma lease_inv_ensure: "lease_inv db \<Longrightarrow> lease_inv (snd (ensure_active_lease db owner now))"
  by (auto simp: ensure_active_lease_def lease_inv_promote split: option.splits)

lemma lease_inv_entitlement: "lease_inv db \<Longrightarrow> lease_inv (snd (entitlement db owner now))"
  using lease_inv_ensure [of db owner now]
  by (auto simp: entitlement_def split: prod.splits sum.splits)

lemma renewals_ok_update:
  assumes ok: "renewals_ok ls rs"
    and f: "\<And>r. renew_id (f r) = renew_id r \<and> renew_lease_id (f r) = renew_lease_id r \<and>
      renew_owner_managed_user_id (f r) = renew_owner_managed_user_id r \<and>
      renew_requested_duration_seconds (f r) = renew_requested_duration_seconds r"
    and st: "\<And>r. renew_state (f r) = renew_state r \<or>
      renew_state (f r) \<in> set [''APPROVED'', ''REJECTED'', ''CANCELLED'']"
  shows "renewals_ok ls (update_where p f rs)"
proof -
  define g where "g r = (if p r then f r else r)" for r
  have fields: "renew_id (g r) = renew_id r" "renew_lease_id (g r) = renew_lease_id r"
    "renew_owner_managed_user_id (g r) = renew_owner_managed_user_id r"
    "renew_requested_duration_seconds (g r) = renew_requested_duration_seconds r" for r
    using f by (simp_all add: g_def)
  have checks: "lease_renewal_request_checks (g r)" if "lease_renewal_request_checks r" for r
    using st [of r] that fields [of r]
    by (auto simp: g_def lease_renewal_request_checks_def split: if_splits)
  have waits: "renew_state r = ''REQUESTED''" if "renew_state (g r) = ''REQUESTED''" for r
    using st [of r] that by (auto simp: g_def split: if_splits)
  have ids: "map renew_id (map g rs) = map renew_id rs" by (simp add: fields)
  have upd: "update_where p f rs = map g rs" by (simp add: update_where_def g_def)
  show ?thesis
    using ok checks waits unfolding renewals_ok_def upd ids set_map ball_simps fields by blast
qed

lemma lease_inv_modify_renewal:
  assumes "lease_inv db"
    and "\<And>r. renew_id (f r) = renew_id r \<and> renew_lease_id (f r) = renew_lease_id r \<and>
      renew_owner_managed_user_id (f r) = renew_owner_managed_user_id r \<and>
      renew_requested_duration_seconds (f r) = renew_requested_duration_seconds r"
    and "\<And>r. renew_state (f r) = renew_state r \<or>
      renew_state (f r) \<in> set [''APPROVED'', ''REJECTED'', ''CANCELLED'']"
  shows "lease_inv (modify_renewal i f db)"
  using assms(1) renewals_ok_update [OF _ assms(2,3)] by (simp add: lease_inv_def modify_renewal_def)

lemma lease_inv_record_decision:
  "lease_inv db \<Longrightarrow> lease_inv (modify_renewal i (record_decision now by comment) db)"
  by (rule lease_inv_modify_renewal) (simp_all add: record_decision_def)

lemma lease_inv_add_renewal:
  assumes inv: "lease_inv db" and new: "renew_id r \<notin> renew_id ` set (t_renewal_requests db)"
    and checks: "lease_renewal_request_checks r"
    and lease: "l \<in> set (t_leases db)" "lease_id l = renew_lease_id r"
      "lease_owner_managed_user_id l = renew_owner_managed_user_id r"
    and alone: "\<And>q. q \<in> set (t_renewal_requests db) \<Longrightarrow>
      renew_owner_managed_user_id q = renew_owner_managed_user_id r \<Longrightarrow>
      renew_state q \<noteq> ''REQUESTED''"
  shows "lease_inv (add_renewal r db)"
proof -
  have ok: "renewals_ok (t_leases db) (t_renewal_requests db)"
    using inv by (simp add: lease_inv_def)
  have "renewals_ok (t_leases db) (t_renewal_requests db @ [r])"
    unfolding renewals_ok_def
  proof (intro conjI)
    show "distinct (map renew_id (t_renewal_requests db @ [r]))"
      using ok new by (simp add: renewals_ok_def)
    show "\<forall>q \<in> set (t_renewal_requests db @ [r]). lease_renewal_request_checks q \<and>
        (\<exists>l \<in> set (t_leases db). lease_id l = renew_lease_id q \<and>
           lease_owner_managed_user_id l = renew_owner_managed_user_id q)"
      using ok checks lease unfolding renewals_ok_def by auto
    show "\<forall>q \<in> set (t_renewal_requests db @ [r]). \<forall>q' \<in> set (t_renewal_requests db @ [r]).
        renew_state q = ''REQUESTED'' \<longrightarrow> renew_state q' = ''REQUESTED'' \<longrightarrow>
        renew_owner_managed_user_id q = renew_owner_managed_user_id q' \<longrightarrow> renew_id q = renew_id q'"
      using ok alone alone [OF _ sym] unfolding renewals_ok_def set_append list.set ball_Un ball_simps
      by blast
  qed
  then show ?thesis using inv by (simp add: lease_inv_def add_renewal_def)
qed

definition fresh_lease_id :: "portal_db \<Rightarrow> uuid \<Rightarrow> bool" where
  "fresh_lease_id db i \<longleftrightarrow>
     (\<forall>l \<in> set (t_leases db). lease_id l \<noteq> i \<and> lease_previous_lease_id l \<noteq> Some i)"

lemma lease_inv_add_lease:
  assumes inv: "lease_inv db" and new: "fresh_lease_id db (lease_id l)"
    and checks: "compute_lease_checks l"
    and prev: "lease_previous_lease_id l = Some (lease_id p)" "p \<in> set (t_leases db)"
      "lease_owner_managed_user_id l = lease_owner_managed_user_id p"
      "lease_starts_at l = lease_expires_at p"
    and alone: "\<And>m. m \<in> set (t_leases db) \<Longrightarrow> lease_previous_lease_id m \<noteq> Some (lease_id p)"
  shows "lease_inv (add_lease l db)"
proof -
  have ok: "leases_ok (t_leases db)"
    using inv by (simp add: lease_inv_def)
  have ids: "distinct (map lease_id (t_leases db))"
    and all_checks: "\<forall>m \<in> set (t_leases db). compute_lease_checks m"
    using ok unfolding leases_ok_def by blast+
  have not_self: "lease_id p \<noteq> lease_id l"
    using new prev(2) by (auto simp: fresh_lease_id_def)
  have links: "\<forall>m \<in> set (t_leases db). \<forall>q \<in> set (t_leases db).
      lease_previous_lease_id m = Some (lease_id q) \<longrightarrow>
      lease_owner_managed_user_id m = lease_owner_managed_user_id q \<and>
      lease_starts_at m = lease_expires_at q"
    using ok unfolding leases_ok_def by blast
  have new_link: "\<forall>q \<in> set (t_leases db). lease_previous_lease_id l = Some (lease_id q) \<longrightarrow>
      lease_owner_managed_user_id l = lease_owner_managed_user_id q \<and>
      lease_starts_at l = lease_expires_at q"
    using prev leases_ok_same_id [OF ok _ prev(2)] by fastforce
  have no_link: "\<forall>m \<in> set (t_leases db). lease_previous_lease_id m \<noteq> Some (lease_id l)"
    using new unfolding fresh_lease_id_def by blast
  have no_self: "lease_previous_lease_id l \<noteq> Some (lease_id l)"
    using prev(1) not_self by simp
  have not_prev: "lease_previous_lease_id m \<noteq> lease_previous_lease_id l"
    if "m \<in> set (t_leases db)" for m
    using alone [OF that] prev(1) by simp
  have "leases_ok (t_leases db @ [l])"
    unfolding leases_ok_def
    apply (intro conjI)
    subgoal using ids new by (auto simp: fresh_lease_id_def)
    subgoal using all_checks checks by simp
    subgoal using links new_link no_link no_self
      unfolding set_append list.set ball_Un ball_simps by blast
    subgoal using ok not_prev not_prev [THEN not_sym]
      unfolding leases_ok_def set_append list.set ball_Un ball_simps by blast
    done
  moreover have "renewals_ok (t_leases db @ [l]) (t_renewal_requests db)"
    using inv unfolding lease_inv_def renewals_ok_def set_append by blast
  ultimately show ?thesis by (simp add: lease_inv_def add_lease_def)
qed

lemma create_lease_Inr:
  assumes "create_lease i clock m start d g by st prev restored = Inr l"
  shows "lease_id l = i" "lease_owner_managed_user_id l = m" "lease_starts_at l = start"
    "lease_expires_at l = start + seconds d" "lease_duration_seconds l = d" "lease_state l = st"
    "lease_previous_lease_id l = prev" "lease_gpu_count l = g"
    "1 \<le> d" "d \<le> 345600" "g = 0 \<or> g = 1"
  using assms by (auto simp: create_lease_def lease_consts split: if_splits)

lemma create_lease_checks:
  assumes "create_lease i clock m start d g by st prev restored = Inr l"
    and "st \<in> set lease_state_values"
  shows "compute_lease_checks l"
proof -
  note fields = create_lease_Inr [OF assms(1)]
  have "lease_managed_user_id l = m" "lease_max_duration_seconds l = 345600"
    "lease_renewal_window_seconds l = 86400"
    using assms(1) by (auto simp: create_lease_def lease_consts split: if_splits)
  moreover have "start < start + seconds d" using fields(9) by simp
  moreover have "0 \<le> g" "g \<le> 1" using fields(11) by auto
  ultimately show ?thesis
    unfolding compute_lease_checks_def fields(2-8)
    using fields(9,10) assms(2) [unfolded lease_state_values_def] by blast
qed

lemma checks_renewed_at [simp]:
  "compute_lease_checks (l\<lparr>lease_renewed_at := t\<rparr>) = compute_lease_checks l"
  unfolding compute_lease_checks_def by simp

subsection \<open>What the active lease and the chain are\<close>

lemma promote_successor_Inr:
  assumes "promote_successor db e now = (Inr l, db')"
  obtains s where "s \<in> set (t_leases db)" "lease_previous_lease_id s = Some (lease_id e)"
    "lease_state s = ''APPROVED''" "lease_starts_at s \<le> now" "now < lease_expires_at s"
    "l = activate_row now s"
    "db' = modify_lease (lease_id s) (activate_row now) (modify_lease (lease_id e) (expire_row now) db)"
  using assms by (auto simp: promote_successor_def split: option.splits dest!: scalar_SomeD)

lemma active_query_SomeD:
  "scalar (\<lambda>_. True) (active_query db owner now) = Some l \<Longrightarrow>
   l \<in> set (t_leases db) \<and> lease_owner_managed_user_id l = owner \<and> active_state l \<and>
   lease_starts_at l \<le> now"
  by (drule scalar_SomeD) (simp add: active_query_def)

lemma expired_query_SomeD:
  "scalar (\<lambda>_. True) (expired_query db owner now) = Some l \<Longrightarrow>
   l \<in> set (t_leases db) \<and> lease_owner_managed_user_id l = owner \<and> active_state l \<and>
   lease_expires_at l \<le> now"
  by (drule scalar_SomeD) (simp add: expired_query_def)

lemma ensure_active_lease_Inr:
  assumes "ensure_active_lease db owner now = (Inr l, db')"
  obtains
    (current) "db' = db" "l \<in> set (t_leases db)" "lease_owner_managed_user_id l = owner"
      "active_state l" "lease_starts_at l \<le> now" "now < lease_expires_at l"
  | (promoted) e where "e \<in> set (t_leases db)" "lease_owner_managed_user_id e = owner"
      "active_state e" "lease_expires_at e \<le> now" "promote_successor db e now = (Inr l, db')"
  using assms
  by (auto simp: ensure_active_lease_def not_less split: option.splits if_splits
      dest!: active_query_SomeD expired_query_SomeD)

lemma activate_row_simps [simp]:
  "lease_id (activate_row now l) = lease_id l" "lease_state (activate_row now l) = ''ACTIVE''"
  "lease_owner_managed_user_id (activate_row now l) = lease_owner_managed_user_id l"
  "lease_starts_at (activate_row now l) = lease_starts_at l"
  "lease_expires_at (activate_row now l) = lease_expires_at l"
  "lease_gpu_count (activate_row now l) = lease_gpu_count l"
  "lease_previous_lease_id (activate_row now l) = lease_previous_lease_id l"
  by (simp_all add: activate_row_def)

lemma expire_row_simps [simp]:
  "lease_id (expire_row now l) = lease_id l" "lease_state (expire_row now l) = ''EXPIRED''"
  "lease_owner_managed_user_id (expire_row now l) = lease_owner_managed_user_id l"
  "lease_starts_at (expire_row now l) = lease_starts_at l"
  "lease_expires_at (expire_row now l) = lease_expires_at l"
  "lease_previous_lease_id (expire_row now l) = lease_previous_lease_id l"
  by (simp_all add: expire_row_def)

lemma update_where_member:
  "l \<in> set ls \<Longrightarrow> \<not> p l \<Longrightarrow> l \<in> set (update_where p f ls)"
  "l \<in> set ls \<Longrightarrow> p l \<Longrightarrow> f l \<in> set (update_where p f ls)"
  by (force simp: set_update_where image_iff)+

lemma ensure_sound:
  assumes inv: "lease_inv db" and ensure: "ensure_active_lease db owner now = (Inr l, db')"
  shows "l \<in> set (t_leases db')" "lease_owner_managed_user_id l = owner" "active_state l"
    "lease_starts_at l \<le> now" "now < lease_expires_at l"
proof -
  have ok: "leases_ok (t_leases db)" using inv by (simp add: lease_inv_def)
  from ensure have "l \<in> set (t_leases db') \<and> lease_owner_managed_user_id l = owner \<and>
    active_state l \<and> lease_starts_at l \<le> now \<and> now < lease_expires_at l"
  proof (cases rule: ensure_active_lease_Inr)
    case (promoted e)
    obtain s where s: "s \<in> set (t_leases db)" "lease_previous_lease_id s = Some (lease_id e)"
      "lease_state s = ''APPROVED''" "lease_starts_at s \<le> now" "now < lease_expires_at s"
      "l = activate_row now s" "db' = modify_lease (lease_id s) (activate_row now)
         (modify_lease (lease_id e) (expire_row now) db)"
      using promoted(5) by (rule promote_successor_Inr)
    have "s \<noteq> e" using s(3) promoted(3) active_not_approved by blast
    then have ids: "lease_id s \<noteq> lease_id e" using leases_ok_same_id [OF ok] s(1) promoted(1) by blast
    have "l \<in> set (t_leases db')"
      unfolding s(6,7) modify_lease_def using s(1) ids by (simp add: update_where_member)
    moreover have "lease_owner_managed_user_id s = owner"
      using leases_ok_link(1) [OF ok s(1) promoted(1) s(2)] promoted(2) by simp
    ultimately show ?thesis using s(4-6) by (simp add: ACTIVE_LEASE_STATES_def)
  qed simp
  then show "l \<in> set (t_leases db')" "lease_owner_managed_user_id l = owner" "active_state l"
    "lease_starts_at l \<le> now" "now < lease_expires_at l" by blast+
qed

text \<open>A chain of approved renewals, each starting when its predecessor ends.\<close>

inductive renewal_chain ::
    "portal_compute_lease list \<Rightarrow> portal_compute_lease \<Rightarrow> portal_compute_lease \<Rightarrow> bool"
    for rows where
  chain_here: "renewal_chain rows l l"
| chain_next: "approved_successor rows l = Some s \<Longrightarrow> lease_starts_at s = lease_expires_at l \<Longrightarrow>
    renewal_chain rows s t \<Longrightarrow> renewal_chain rows l t"

lemma approved_successor_SomeD:
  "approved_successor rows l = Some s \<Longrightarrow>
   s \<in> set rows \<and> lease_previous_lease_id s = Some (lease_id l) \<and> lease_state s = ''APPROVED''"
  by (auto simp: approved_successor_def dest!: scalar_SomeD)

lemma chain_loop_Inr:
  "chain_loop rows l seen = Inr t \<Longrightarrow>
   renewal_chain rows l t \<and> approved_successor rows t = None"
proof (induction rows l seen rule: chain_loop.induct)
  case (1 rows l seen)
  from "1.prems" show ?case
    by (subst (asm) chain_loop.simps)
      (auto split: option.splits if_splits intro: renewal_chain.intros dest: "1.IH")
qed

lemma renewal_chain_facts:
  assumes "renewal_chain rows l t" and ok: "leases_ok rows" and "l \<in> set rows"
  shows "t \<in> set rows \<and> lease_owner_managed_user_id t = lease_owner_managed_user_id l \<and>
    lease_expires_at l \<le> lease_expires_at t"
  using assms(1,3)
proof induction
  case (chain_next l s t)
  have s: "s \<in> set rows" "lease_previous_lease_id s = Some (lease_id l)"
    using chain_next.hyps(1) by (auto dest: approved_successor_SomeD)
  have "lease_owner_managed_user_id s = lease_owner_managed_user_id l"
    using leases_ok_link(1) [OF ok s(1) chain_next.prems s(2)] .
  moreover have "lease_starts_at s < lease_expires_at s" using leases_okD(2) [OF ok s(1)] .
  ultimately show ?case using chain_next.IH [OF s(1)] chain_next.hyps(2) by simp
qed simp

lemma chain_loop_succeeds:
  "leases_ok rows \<Longrightarrow> l \<in> set rows \<Longrightarrow>
   \<forall>i \<in> set seen. \<exists>m \<in> set rows. lease_id m = i \<and> lease_starts_at m \<le> lease_starts_at l \<Longrightarrow>
   \<exists>t. chain_loop rows l seen = Inr t"
proof (induction rows l seen rule: chain_loop.induct)
  case (1 rows l seen)
  show ?case
  proof (cases "approved_successor rows l")
    case None
    then show ?thesis by (subst chain_loop.simps) simp
  next
    case (Some s)
    then have s: "s \<in> set rows" "lease_previous_lease_id s = Some (lease_id l)"
      by (auto dest: approved_successor_SomeD)
    have adj: "lease_starts_at s = lease_expires_at l"
      using leases_ok_link(2) [OF "1.prems"(1) s(1) "1.prems"(2) s(2)] .
    have later: "lease_starts_at l < lease_starts_at s"
      using leases_okD(2) [OF "1.prems"(1,2)] adj by simp
    have new: "lease_id s \<notin> set seen"
      using "1.prems"(3) leases_ok_same_id [OF "1.prems"(1) _ s(1)] later by fastforce
    have "\<forall>i \<in> set (lease_id s # seen).
        \<exists>m \<in> set rows. lease_id m = i \<and> lease_starts_at m \<le> lease_starts_at s"
      using "1.prems"(3) later s(1) by fastforce
    then have "\<exists>t. chain_loop rows s (lease_id s # seen) = Inr t"
      using "1.IH" [OF Some _ "1.prems"(1) s(1)] new adj by simp
    then show ?thesis using Some new adj by (subst chain_loop.simps) simp
  qed
qed

lemma lease_chain_total:
  assumes "leases_ok (t_leases db)" and "l \<in> set (t_leases db)"
  obtains t where "lease_chain_terminal db l = Inr t"
  using chain_loop_succeeds [OF assms, of "[lease_id l]"] assms(2)
  by (auto simp: lease_chain_terminal_def)

lemma entitlement_Inr:
  assumes inv: "lease_inv db" and ent: "entitlement db owner now = (Inr (active, terminal), db')"
  shows "ensure_active_lease db owner now = (Inr active, db')"
    "lease_chain_terminal db' active = Inr terminal" "lease_inv db'"
    "terminal \<in> set (t_leases db')" "lease_owner_managed_user_id terminal = owner"
    "lease_expires_at active \<le> lease_expires_at terminal"
proof -
  show ens: "ensure_active_lease db owner now = (Inr active, db')"
    and ter: "lease_chain_terminal db' active = Inr terminal"
    using ent by (auto simp: entitlement_def split: prod.splits sum.splits)
  show inv': "lease_inv db'" using lease_inv_ensure [OF inv, of owner now] ens by simp
  have "renewal_chain (t_leases db') active terminal"
    using ter by (auto simp: lease_chain_terminal_def dest: chain_loop_Inr)
  from renewal_chain_facts [OF this _ ensure_sound(1) [OF inv ens]] inv' ensure_sound(2) [OF inv ens]
  show "terminal \<in> set (t_leases db')" "lease_owner_managed_user_id terminal = owner"
    "lease_expires_at active \<le> lease_expires_at terminal" by (auto simp: lease_inv_def)
qed

subsection \<open>Runs of the service\<close>

lemma ensure_keeps_renewals [simp]:
  "t_renewal_requests (snd (ensure_active_lease db owner now)) = t_renewal_requests db"
  by (auto simp: ensure_active_lease_def promote_successor_def modify_lease_def split: option.splits)

lemma entitlement_snd: "snd (entitlement db owner now) = snd (ensure_active_lease db owner now)"
  by (auto simp: entitlement_def split: prod.splits sum.splits)

lemma lease_view_snd: "snd (lease_view db owner now) = snd (ensure_active_lease db owner now)"
  by (auto simp: lease_view_def Let_def entitlement_snd [symmetric] split: prod.splits sum.splits)

text \<open>A request is accepted exactly when the window is open and none of the owner's waits.\<close>

lemma request_renewal_created:
  assumes "request_renewal db i owner d key appr now = (Inr r, db')"
    and "renewal_by_key db owner key = None"
  obtains active terminal db1 where
    "entitlement db owner now = (Inr (active, terminal), db1)"
    "1 \<le> d" "d \<le> 345600"
    "0 < whole_seconds (lease_expires_at terminal - now)"
    "whole_seconds (lease_expires_at terminal - now) \<le> RENEWAL_WINDOW_SECONDS"
    "scalar (\<lambda>r. renew_owner_managed_user_id r = owner \<and> renew_state r = ''REQUESTED'')
       (t_renewal_requests db1) = None"
    "r = \<lparr>renew_id = i, renew_owner_managed_user_id = owner, renew_lease_id = lease_id terminal,
       renew_state = ''REQUESTED'', renew_approval_required = appr,
       renew_requested_duration_seconds = d, renew_idempotency_key = key,
       renew_requested_at = now, renew_decided_at = None, renew_decided_by = None,
       renew_resulting_lease_id = None, renew_decision_comment = None\<rparr>"
    "db' = modify_lease (lease_id active) (\<lambda>l. l\<lparr>lease_state := ''RENEWAL_PENDING''\<rparr>)
       (add_renewal r db1)"
  using assms
  by (auto simp: request_renewal_def Let_def MAX_LEASE_DURATION_SECONDS_def
      split: if_splits prod.splits sum.splits)

lemma request_renewal_other:
  assumes "request_renewal db i owner d key appr now = (res, db')"
    and "\<And>r. res = Inr r \<Longrightarrow> renewal_by_key db owner key \<noteq> None"
  shows "db' = db \<or> db' = snd (entitlement db owner now)"
  using assms
  by (auto simp: request_renewal_def Let_def split: if_splits prod.splits sum.splits option.splits)

lemma lease_inv_request:
  assumes inv: "lease_inv db" and new: "i \<notin> renew_id ` set (t_renewal_requests db)"
  shows "lease_inv (snd (request_renewal db i owner d key appr now))"
proof (cases "request_renewal db i owner d key appr now")
  case (Pair res db')
  show ?thesis
  proof (cases "\<exists>r. res = Inr r \<and> renewal_by_key db owner key = None")
    case False
    then have "db' = db \<or> db' = snd (entitlement db owner now)"
      using request_renewal_other [OF Pair] by auto
    then show ?thesis using Pair inv lease_inv_entitlement [OF inv] by auto
  next
    case True
    then obtain r where res: "res = Inr r" "renewal_by_key db owner key = None" by blast
    from Pair [unfolded res(1)] res(2) show ?thesis
    proof (rule request_renewal_created)
      fix active terminal db1
      assume ent: "entitlement db owner now = (Inr (active, terminal), db1)"
        and d: "1 \<le> d" "d \<le> 345600"
        and none: "scalar (\<lambda>r. renew_owner_managed_user_id r = owner \<and>
          renew_state r = ''REQUESTED'') (t_renewal_requests db1) = None"
        and r: "r = \<lparr>renew_id = i, renew_owner_managed_user_id = owner,
          renew_lease_id = lease_id terminal, renew_state = ''REQUESTED'',
          renew_approval_required = appr, renew_requested_duration_seconds = d,
          renew_idempotency_key = key, renew_requested_at = now, renew_decided_at = None,
          renew_decided_by = None, renew_resulting_lease_id = None, renew_decision_comment = None\<rparr>"
        and db': "db' = modify_lease (lease_id active)
          (\<lambda>l. l\<lparr>lease_state := ''RENEWAL_PENDING''\<rparr>) (add_renewal r db1)"
      have same: "t_renewal_requests db1 = t_renewal_requests db"
        using ent entitlement_snd [of db owner now] ensure_keeps_renewals [of db owner now] by simp
      have "lease_inv (add_renewal r db1)"
        by (rule lease_inv_add_renewal [OF entitlement_Inr(3) [OF inv ent] _ _
              entitlement_Inr(4) [OF inv ent]])
          (use new none same d entitlement_Inr(5) [OF inv ent] in
            \<open>auto simp: r lease_renewal_request_checks_def scalar_None_iff\<close>)
      then show ?thesis
        unfolding Pair db' snd_conv by (rule lease_inv_state) (simp add: lease_state_values_def)
    qed
  qed
qed

lemma renewal_of_lease:
  assumes inv: "lease_inv db" and "get_renewal db i = Some r"
    and "get_lease db (renew_lease_id r) = Some l"
  shows "l \<in> set (t_leases db)" "lease_id l = renew_lease_id r"
    "lease_owner_managed_user_id l = renew_owner_managed_user_id r"
proof -
  have ok: "leases_ok (t_leases db)" using inv by (simp add: lease_inv_def)
  have r: "r \<in> set (t_renewal_requests db)"
    using assms(2) by (auto simp: get_renewal_def dest!: scalar_SomeD)
  show l: "l \<in> set (t_leases db)" and i: "lease_id l = renew_lease_id r"
    using assms(3) by (auto simp: get_lease_def dest!: scalar_SomeD)
  obtain m where "m \<in> set (t_leases db)" "lease_id m = renew_lease_id r"
    "lease_owner_managed_user_id m = renew_owner_managed_user_id r"
    using inv r unfolding lease_inv_def renewals_ok_def by blast
  then show "lease_owner_managed_user_id l = renew_owner_managed_user_id r"
    using leases_ok_same_id [OF ok _ l] i by metis
qed

text \<open>What an approval and a rejection write.\<close>

lemma decide_renewal_approved:
  assumes "decide_renewal db i clock req decision by comment now = (Inr (r, Some s), db')"
  obtains request lease created where
    "decision = ''APPROVE''" "get_renewal db req = Some request" "renew_state request = ''REQUESTED''"
    "get_lease db (renew_lease_id request) = Some lease" "now < lease_expires_at lease"
    "create_lease i clock (renew_owner_managed_user_id request) (lease_expires_at lease)
       (renew_requested_duration_seconds request) (lease_gpu_count lease) by ''APPROVED''
       (Some (lease_id lease)) False = Inr created"
    "s = created\<lparr>lease_renewed_at := Some now\<rparr>"
    "\<forall>l \<in> set (t_leases db). lease_previous_lease_id l \<noteq> Some (lease_id lease)"
    "r = record_decision now by comment request
       \<lparr>renew_state := ''APPROVED'', renew_resulting_lease_id := Some i\<rparr>"
    "db' = modify_lease (lease_id lease) (\<lambda>l. l\<lparr>lease_state := ''RENEWAL_WINDOW''\<rparr>)
       (modify_renewal req (\<lambda>r. r\<lparr>renew_state := ''APPROVED'', renew_resulting_lease_id := Some i\<rparr>)
         (add_lease s (modify_renewal req (record_decision now by comment) db)))"
  using assms
  by (auto simp: decide_renewal_def Let_def not_le scalar_None_iff modify_renewal_def
      split: option.splits if_splits sum.splits)

lemma decide_renewal_other:
  assumes "decide_renewal db i clock req decision by comment now = (res, db')"
    and "\<And>r s. res \<noteq> Inr (r, Some s)"
  obtains (unchanged) "db' = db"
  | (recorded) "db' = modify_renewal req (record_decision now by comment) db"
  | (rejected) lease where "db' = modify_lease lease (\<lambda>l. l\<lparr>lease_state := ''RENEWAL_WINDOW''\<rparr>)
      (modify_renewal req (\<lambda>r. r\<lparr>renew_state := ''REJECTED''\<rparr>)
        (modify_renewal req (record_decision now by comment) db))"
  | (cancelled) db1 lease where
      "db' = modify_renewal req
         (\<lambda>r. record_decision now by comment (r\<lparr>renew_state := ''CANCELLED''\<rparr>)) db1"
      "db1 = db \<or> db1 = modify_lease lease (\<lambda>l. l\<lparr>lease_state := ''EXPIRED'', lease_expired_at :=
         Some (case lease_expired_at l of Some t \<Rightarrow> t | None \<Rightarrow> now)\<rparr>) db"
proof -
  have "db' = db \<or> db' = modify_renewal req (record_decision now by comment) db \<or>
    (\<exists>lease. db' = modify_lease lease (\<lambda>l. l\<lparr>lease_state := ''RENEWAL_WINDOW''\<rparr>)
      (modify_renewal req (\<lambda>r. r\<lparr>renew_state := ''REJECTED''\<rparr>)
        (modify_renewal req (record_decision now by comment) db))) \<or>
    (\<exists>db1 lease. db' = modify_renewal req
         (\<lambda>r. record_decision now by comment (r\<lparr>renew_state := ''CANCELLED''\<rparr>)) db1 \<and>
       (db1 = db \<or> db1 = modify_lease lease (\<lambda>l. l\<lparr>lease_state := ''EXPIRED'', lease_expired_at :=
         Some (case lease_expired_at l of Some t \<Rightarrow> t | None \<Rightarrow> now)\<rparr>) db))"
    using assms unfolding decide_renewal_def Let_def
    by (force split: option.splits if_splits sum.splits)
  then show thesis using unchanged recorded rejected cancelled by blast
qed

lemma t_leases_modify_renewal [simp]:
  "t_leases (modify_renewal i f db) = t_leases db"
  "t_renewal_requests (modify_lease j g db) = t_renewal_requests db"
  "t_leases (add_renewal r db) = t_leases db"
  "t_leases (add_lease l db) = t_leases db @ [l]"
  "t_renewal_requests (add_lease l db) = t_renewal_requests db"
  "t_renewal_requests (add_renewal r db) = t_renewal_requests db @ [r]"
  by (simp_all add: row_simps)

lemma lease_inv_decide:
  assumes inv: "lease_inv db" and new: "fresh_lease_id db i"
  shows "lease_inv (snd (decide_renewal db i clock req decision by comment now))"
proof (cases "decide_renewal db i clock req decision by comment now")
  case (Pair res db')
  let ?rec = "record_decision now by comment"
  show ?thesis
  proof (cases "\<exists>r s. res = Inr (r, Some s)")
    case False
    then have "\<And>r s. res \<noteq> Inr (r, Some s)" by blast
    with Pair show ?thesis
    proof (cases rule: decide_renewal_other)
      case unchanged
      then show ?thesis using Pair inv by simp
    next
      case recorded
      then show ?thesis using Pair lease_inv_record_decision [OF inv] by simp
    next
      case (rejected lease)
      have "lease_inv (modify_renewal req (\<lambda>r. r\<lparr>renew_state := ''REJECTED''\<rparr>)
          (modify_renewal req ?rec db))"
        by (rule lease_inv_modify_renewal [OF lease_inv_record_decision [OF inv]]) simp_all
      then show ?thesis
        unfolding Pair rejected snd_conv by (rule lease_inv_state) (simp add: lease_state_values_def)
    next
      case (cancelled db1 lease)
      have "lease_inv db1"
        using cancelled(2)
      proof
        assume db1: "db1 = modify_lease lease (\<lambda>l. l\<lparr>lease_state := ''EXPIRED'', lease_expired_at :=
           Some (case lease_expired_at l of Some t \<Rightarrow> t | None \<Rightarrow> now)\<rparr>) db"
        show ?thesis unfolding db1
          by (rule lease_inv_modify_lease [OF inv, where s = "''EXPIRED''" and a = lease_approved_at
                and c = lease_recycled_at])
            (simp_all add: lease_state_values_def)
      qed (use inv in simp)
      then show ?thesis
        unfolding Pair cancelled(1) snd_conv
        by (rule lease_inv_modify_renewal) (simp_all add: record_decision_def)
    qed
  next
    case True
    then obtain r s where "res = Inr (r, Some s)" by blast
    from Pair [unfolded this] show ?thesis
    proof (rule decide_renewal_approved)
      fix request lease created
      assume r: "get_renewal db req = Some request"
        and l: "get_lease db (renew_lease_id request) = Some lease"
        and c: "create_lease i clock (renew_owner_managed_user_id request) (lease_expires_at lease)
          (renew_requested_duration_seconds request) (lease_gpu_count lease) by ''APPROVED''
          (Some (lease_id lease)) False = Inr created"
        and s: "s = created\<lparr>lease_renewed_at := Some now\<rparr>"
        and alone: "\<forall>l \<in> set (t_leases db). lease_previous_lease_id l \<noteq> Some (lease_id lease)"
        and db': "db' = modify_lease (lease_id lease) (\<lambda>l. l\<lparr>lease_state := ''RENEWAL_WINDOW''\<rparr>)
          (modify_renewal req (\<lambda>r. r\<lparr>renew_state := ''APPROVED'', renew_resulting_lease_id := Some i\<rparr>)
            (add_lease s (modify_renewal req ?rec db)))"
      note lease = renewal_of_lease [OF inv r l]
      have "lease_inv (add_lease s (modify_renewal req ?rec db))"
      proof (rule lease_inv_add_lease [where p = lease])
        show "compute_lease_checks s"
          using create_lease_checks [OF c] by (simp add: s lease_state_values_def)
        show "fresh_lease_id (modify_renewal req ?rec db) (lease_id s)"
          using new create_lease_Inr(1) [OF c] by (simp add: s fresh_lease_id_def)
      qed (use lease_inv_record_decision [OF inv] lease alone create_lease_Inr [OF c] in
            \<open>simp_all add: s\<close>)
      then have "lease_inv (modify_renewal req
          (\<lambda>r. r\<lparr>renew_state := ''APPROVED'', renew_resulting_lease_id := Some i\<rparr>)
          (add_lease s (modify_renewal req ?rec db)))"
        by (rule lease_inv_modify_renewal) simp_all
      then show ?thesis
        unfolding Pair db' snd_conv by (rule lease_inv_state) (simp add: lease_state_values_def)
    qed
  qed
qed

text \<open>The service as a step relation: any caller, any clock, any order.\<close>

inductive lease_step :: "portal_db \<Rightarrow> portal_db \<Rightarrow> bool" where
  step_ensure: "lease_step db (snd (ensure_active_lease db owner now))"
| step_view: "lease_step db (snd (lease_view db owner now))"
| step_request: "i \<notin> renew_id ` set (t_renewal_requests db) \<Longrightarrow>
    lease_step db (snd (request_renewal db i owner d key appr now))"
| step_decide: "fresh_lease_id db i \<Longrightarrow>
    lease_step db (snd (decide_renewal db i clock req decision by comment now))"

lemma lease_inv_step: "lease_step db db' \<Longrightarrow> lease_inv db \<Longrightarrow> lease_inv db'"
  by (induction rule: lease_step.induct)
    (simp_all add: lease_inv_ensure lease_view_snd lease_inv_request lease_inv_decide)

subsection \<open>Properties of the service\<close>

text \<open>A lease of one day and its approved successor, for the concrete runs.\<close>

definition sample_lease :: "uuid \<Rightarrow> string \<Rightarrow> int \<Rightarrow> int \<Rightarrow> uuid option \<Rightarrow> portal_compute_lease" where
  "sample_lease i st start duration previous =
     \<lparr>lease_id = i, lease_managed_user_id = ''M'', lease_owner_managed_user_id = ''M'',
      lease_state = st, lease_gpu_count = 1, lease_starts_at = seconds start,
      lease_expires_at = seconds (start + duration), lease_duration_seconds = duration,
      lease_max_duration_seconds = 345600, lease_renewal_window_seconds = 86400,
      lease_created_at = 0, lease_approved_at = Some 0, lease_approved_by = None,
      lease_renewed_at = None, lease_previous_lease_id = previous, lease_expired_at = None,
      lease_recycled_at = None, lease_restored_at = None, lease_version = 1\<rparr>"

definition sample_renewal :: "uuid \<Rightarrow> uuid \<Rightarrow> portal_lease_renewal_request" where
  "sample_renewal i lease =
     \<lparr>renew_id = i, renew_owner_managed_user_id = ''M'', renew_lease_id = lease,
      renew_state = ''REQUESTED'', renew_approval_required = True,
      renew_requested_duration_seconds = 3600, renew_idempotency_key = ''k'',
      renew_requested_at = 0, renew_decided_at = None, renew_decided_by = None,
      renew_resulting_lease_id = None, renew_decision_comment = None\<rparr>"

definition sample_lease_db :: portal_db where
  "sample_lease_db = empty_db\<lparr>t_leases := [sample_lease ''L1'' ''ACTIVE'' 0 86400 None]\<rparr>"

definition sample_chain_db :: portal_db where
  "sample_chain_db = empty_db\<lparr>t_leases := [sample_lease ''L1'' ''ACTIVE'' 0 86400 None,
       sample_lease ''L2'' ''APPROVED'' 86400 3600 (Some ''L1'')],
     t_renewal_requests := [sample_renewal ''R2'' ''L2'']\<rparr>"

lemmas sample_lease_defs = sample_lease_db_def sample_chain_db_def sample_lease_def
  sample_renewal_def empty_db_def

lemma sample_lease_db_inv: "lease_inv sample_lease_db"
  by (simp add: lease_inv_def leases_ok_def renewals_ok_def sample_lease_defs
      compute_lease_checks_def seconds_def)

lemma sample_chain_db_inv: "lease_inv sample_chain_db"
  by (simp add: lease_inv_def leases_ok_def renewals_ok_def sample_lease_defs
      compute_lease_checks_def lease_renewal_request_checks_def seconds_def)

text \<open>
  C1. However the lease operations are interleaved, and whatever clock readings and arguments
  they run with, the lease and renewal tables keep their invariant: every lease satisfies its
  CHECK constraints and continues its predecessor for the same owner without gap or overlap,
  no lease has two successors, and an owner has at most one renewal request that waits.
\<close>

theorem lease_tables_invariant:
  assumes "lease_inv db" and "rtranclp lease_step db db'"
  shows "lease_inv db'"
  using assms(2,1) by induction (auto intro: lease_inv_step)

theorem lease_tables_invariant_witness:
  "lease_inv (snd (request_renewal sample_lease_db ''R1'' ''M'' 3600 ''k'' True (seconds 3600)))"
proof -
  have "lease_step sample_lease_db
      (snd (request_renewal sample_lease_db ''R1'' ''M'' 3600 ''k'' True (seconds 3600)))"
    by (rule step_request) (simp add: sample_lease_defs)
  then show ?thesis
    by (intro lease_tables_invariant [OF sample_lease_db_inv] r_into_rtranclp)
qed

text \<open>
  C28. \<open>ensure_active_lease\<close> answers with a lease of the owner that is in an active state and covers
  the clock, promoting an approved successor when the current period has ended. It refuses, and
  then changes nothing, only when no lease covers the clock, or every one that does is shadowed
  by an overdue lease that started later.
\<close>

theorem active_lease_exact:
  assumes "lease_inv db"
  shows "case ensure_active_lease db owner now of
      (Inr l, db') \<Rightarrow> l \<in> set (t_leases db') \<and> lease_owner_managed_user_id l = owner \<and>
        active_state l \<and> lease_starts_at l \<le> now \<and> now < lease_expires_at l
    | (Inl e, db') \<Rightarrow> db' = db \<and> e = HTTPException 409 ''LEASE_INACTIVE'' \<and>
        (\<forall>l \<in> set (t_leases db). lease_owner_managed_user_id l = owner \<longrightarrow> active_state l \<longrightarrow>
           lease_starts_at l \<le> now \<longrightarrow> now < lease_expires_at l \<longrightarrow>
           (\<exists>m \<in> set (t_leases db). lease_owner_managed_user_id m = owner \<and> active_state m \<and>
              lease_starts_at l \<le> lease_starts_at m \<and> lease_expires_at m \<le> now))"
proof (cases "ensure_active_lease db owner now")
  case (Pair res db')
  show ?thesis
  proof (cases res)
    case (Inr l)
    then show ?thesis using ensure_sound [OF assms] Pair by simp
  next
    case (Inl e)
    have refused: "db' = db \<and> e = HTTPException 409 ''LEASE_INACTIVE''"
      using Pair Inl by (auto simp: ensure_active_lease_def promote_successor_def
          split: option.splits if_splits)
    have "\<exists>m \<in> set (t_leases db). lease_owner_managed_user_id m = owner \<and> active_state m \<and>
        lease_starts_at l \<le> lease_starts_at m \<and> lease_expires_at m \<le> now"
      if l: "l \<in> set (t_leases db)" "lease_owner_managed_user_id l = owner" "active_state l"
        "lease_starts_at l \<le> now" for l
    proof (cases "scalar (\<lambda>_. True) (active_query db owner now)")
      case None
      then show ?thesis using l by (auto simp: active_query_def scalar_None_iff)
    next
      case (Some m)
      then have "lease_starts_at l \<le> lease_starts_at m"
        unfolding active_query_def by (rule scalar_order_desc) (use l in simp_all)
      moreover have "lease_expires_at m \<le> now"
        using Pair Inl Some by (auto simp: ensure_active_lease_def split: if_splits)
      ultimately show ?thesis using active_query_SomeD [OF Some] by blast
    qed
    then show ?thesis using Pair Inl refused by simp
  qed
qed

lemma sample_chain_ensure:
  "\<exists>l db'. ensure_active_lease sample_chain_db ''M'' (seconds 87000) = (Inr l, db') \<and>
     lease_id l = ''L2''"
  by (simp add: sample_lease_defs ensure_active_lease_def active_query_def expired_query_def
      promote_successor_def order_desc_def ACTIVE_LEASE_STATES_def seconds_def)

theorem active_lease_exact_witness:
  "\<exists>l db'. ensure_active_lease sample_chain_db ''M'' (seconds 87000) = (Inr l, db') \<and>
     lease_id l = ''L2'' \<and> l \<in> set (t_leases db') \<and> active_state l \<and> seconds 87000 < lease_expires_at l"
  using active_lease_exact [OF sample_chain_db_inv, of "''M''" "seconds 87000"] sample_chain_ensure
  by fastforce

text \<open>
  C29. Whenever there is an active lease, \<open>entitlement\<close> returns it together with the end of its
  chain of approved renewals: the walk always terminates and never reports a broken chain, every
  period starts when the previous one ends, and the chain has no further approved successor.
\<close>

theorem entitlement_is_chain_end:
  assumes "lease_inv db" and "ensure_active_lease db owner now = (Inr active, db')"
  shows "\<exists>terminal. entitlement db owner now = (Inr (active, terminal), db') \<and>
    renewal_chain (t_leases db') active terminal \<and>
    approved_successor (t_leases db') terminal = None \<and>
    lease_owner_managed_user_id terminal = owner \<and>
    now < lease_expires_at active \<and> lease_expires_at active \<le> lease_expires_at terminal"
proof -
  have inv': "lease_inv db'" using lease_inv_ensure [OF assms(1), of owner now] assms(2) by simp
  then have ok': "leases_ok (t_leases db')" by (simp add: lease_inv_def)
  note sound = ensure_sound [OF assms]
  obtain terminal where ter: "lease_chain_terminal db' active = Inr terminal"
    using lease_chain_total [OF ok' sound(1)] .
  then have "renewal_chain (t_leases db') active terminal"
    "approved_successor (t_leases db') terminal = None"
    by (auto simp: lease_chain_terminal_def dest: chain_loop_Inr)
  moreover have "entitlement db owner now = (Inr (active, terminal), db')"
    using assms(2) ter by (simp add: entitlement_def)
  ultimately show ?thesis
    using renewal_chain_facts [OF _ ok' sound(1)] sound(2,5) by auto
qed

lemma sample_chain_active:
  "ensure_active_lease sample_chain_db ''M'' (seconds 10) =
     (Inr (sample_lease ''L1'' ''ACTIVE'' 0 86400 None), sample_chain_db)"
  by (simp add: sample_lease_defs ensure_active_lease_def active_query_def
      order_desc_def ACTIVE_LEASE_STATES_def seconds_def)

theorem entitlement_is_chain_end_witness:
  "\<exists>terminal. entitlement sample_chain_db ''M'' (seconds 10) =
     (Inr (sample_lease ''L1'' ''ACTIVE'' 0 86400 None, terminal), sample_chain_db) \<and>
     approved_successor (t_leases sample_chain_db) terminal = None"
  using entitlement_is_chain_end [OF sample_chain_db_inv sample_chain_active] by blast

text \<open>
  The portal offers a renewal exactly when it would accept one: for an owner without a
  waiting request, a new key and an admissible duration, \<open>request_renewal\<close> succeeds if and only
  if \<open>lease_view\<close> says \<open>renewal_available\<close>.
\<close>

lemma lease_view_available:
  "dget (fst (lease_view db owner now)) ''renewal_available'' =
     PBool (case entitlement db owner now of
        (Inl e, db1) \<Rightarrow> False
      | (Inr (active, terminal), db1) \<Rightarrow>
          0 < whole_seconds (lease_expires_at terminal - now) \<and>
          whole_seconds (lease_expires_at terminal - now) \<le> RENEWAL_WINDOW_SECONDS \<and>
          pending_renewal_of db1 owner (lease_id terminal) = None)"
  by (auto simp: lease_view_def Let_def split: prod.splits sum.splits option.splits)

theorem offered_renewal_is_accepted:
  assumes "1 \<le> duration" and "duration \<le> MAX_LEASE_DURATION_SECONDS"
    and "renewal_by_key db owner key = None"
    and "\<forall>r \<in> set (t_renewal_requests db). renew_owner_managed_user_id r = owner \<longrightarrow>
           renew_state r \<noteq> ''REQUESTED''"
  shows "(\<exists>r db'. request_renewal db i owner duration key approval now = (Inr r, db')) \<longleftrightarrow>
     dget (fst (lease_view db owner now)) ''renewal_available'' = PBool True"
proof (cases "entitlement db owner now")
  case (Pair res db1)
  have same: "t_renewal_requests db1 = t_renewal_requests db"
    using Pair entitlement_snd [of db owner now] ensure_keeps_renewals [of db owner now] by simp
  have none: "scalar (\<lambda>r. renew_owner_managed_user_id r = owner \<and> renew_state r = ''REQUESTED'')
      (t_renewal_requests db1) = None"
    "pending_renewal_of db1 owner l = None" for l
    using assms(4) by (auto simp: pending_renewal_of_def scalar_None_iff same)
  show ?thesis
    using assms(1-3) none Pair unfolding lease_view_available request_renewal_def Let_def
    by (cases res) (auto split: prod.splits)
qed

theorem offered_renewal_is_accepted_witness:
  "\<exists>r db'. request_renewal sample_lease_db ''R1'' ''M'' 7200 ''k1'' True (seconds 3600) = (Inr r, db')"
proof -
  have "dget (fst (lease_view sample_lease_db ''M'' (seconds 3600))) ''renewal_available'' = PBool True"
    unfolding lease_view_available entitlement_def
    by (simp add: sample_lease_defs ensure_active_lease_def active_query_def order_desc_def
        ACTIVE_LEASE_STATES_def seconds_def lease_chain_terminal_def chain_loop.simps
        approved_successor_def whole_seconds_def RENEWAL_WINDOW_SECONDS_def pending_renewal_of_def)
  then show ?thesis
    by (subst offered_renewal_is_accepted)
      (simp_all add: sample_lease_db_def empty_db_def renewal_by_key_def MAX_LEASE_DURATION_SECONDS_def)
qed

text \<open>
  Retrying a renewal request is safe: after an accepted request, the same key and duration
  return the same request and change nothing, at any later clock and for any policy, and the
  same key with another duration is refused as a conflict.
\<close>

theorem renewal_request_idempotent:
  assumes "request_renewal db i owner duration key approval now = (Inr r, db')"
    and "1 \<le> other" and "other \<le> MAX_LEASE_DURATION_SECONDS"
  shows "request_renewal db' j owner duration key approval' later = (Inr r, db') \<and>
    (other \<noteq> duration \<longrightarrow> request_renewal db' j owner other key approval' later =
       (Inl (HTTPException 409 ''IDEMPOTENCY_CONFLICT''), db'))"
proof -
  have d: "1 \<le> duration" "duration \<le> MAX_LEASE_DURATION_SECONDS"
    using assms(1) by (auto simp: request_renewal_def split: if_splits)
  have "renewal_by_key db' owner key = Some r \<and> renew_requested_duration_seconds r = duration"
  proof (cases "renewal_by_key db owner key")
    case (Some q)
    then show ?thesis using assms(1) d by (auto simp: request_renewal_def split: if_splits)
  next
    case None
    from assms(1) None show ?thesis
    proof (rule request_renewal_created)
      fix active terminal db1
      assume ent: "entitlement db owner now = (Inr (active, terminal), db1)"
        and r: "r = \<lparr>renew_id = i, renew_owner_managed_user_id = owner,
          renew_lease_id = lease_id terminal, renew_state = ''REQUESTED'',
          renew_approval_required = approval, renew_requested_duration_seconds = duration,
          renew_idempotency_key = key, renew_requested_at = now, renew_decided_at = None,
          renew_decided_by = None, renew_resulting_lease_id = None, renew_decision_comment = None\<rparr>"
        and db': "db' = modify_lease (lease_id active)
          (\<lambda>l. l\<lparr>lease_state := ''RENEWAL_PENDING''\<rparr>) (add_renewal r db1)"
      have "t_renewal_requests db1 = t_renewal_requests db"
        using ent entitlement_snd [of db owner now] ensure_keeps_renewals [of db owner now] by simp
      then show ?thesis using None by (simp add: renewal_by_key_def db' scalar_append) (simp add: r)
    qed
  qed
  then show ?thesis using d assms(2,3) by (simp add: request_renewal_def)
qed

lemma sample_request:
  "\<exists>r db'. request_renewal sample_lease_db ''R1'' ''M'' 7200 ''k1'' True (seconds 3600) = (Inr r, db')"
  by (simp add: request_renewal_def renewal_by_key_def entitlement_def sample_lease_defs
      ensure_active_lease_def active_query_def order_desc_def ACTIVE_LEASE_STATES_def seconds_def
      lease_chain_terminal_def chain_loop.simps approved_successor_def whole_seconds_def
      lease_consts Let_def)

theorem renewal_request_idempotent_witness:
  "\<exists>r db'. request_renewal sample_lease_db ''R1'' ''M'' 7200 ''k1'' True (seconds 3600) = (Inr r, db') \<and>
     request_renewal db' ''R2'' ''M'' 7200 ''k1'' False (seconds 9999) = (Inr r, db') \<and>
     request_renewal db' ''R3'' ''M'' 60 ''k1'' True 0 =
       (Inl (HTTPException 409 ''IDEMPOTENCY_CONFLICT''), db')"
proof -
  obtain r db' where "request_renewal sample_lease_db ''R1'' ''M'' 7200 ''k1'' True (seconds 3600) = (Inr r, db')"
    using sample_request by blast
  moreover note renewal_request_idempotent [OF this, of 60 "''R2''" False "seconds 9999"]
    renewal_request_idempotent [OF this, of 60 "''R3''" True 0]
  ultimately show ?thesis by (simp add: MAX_LEASE_DURATION_SECONDS_def)
qed

text \<open>
  An approved renewal appends a successor to the requested lease of the same owner: it
  starts exactly when the lease ends, which is still ahead, lasts the requested duration,
  satisfies the CHECK constraints, is stored as an approved lease, and the request records it.
\<close>

theorem approved_renewal_extends:
  assumes "lease_inv db" and "fresh_lease_id db i"
    and "decide_renewal db i clock req ''APPROVE'' by comment now = (Inr (r, Some s), db')"
  shows "\<exists>lease. get_lease db (renew_lease_id r) = Some lease \<and> now < lease_expires_at lease \<and>
      lease_starts_at s = lease_expires_at lease \<and>
      lease_expires_at s = lease_expires_at lease + seconds (renew_requested_duration_seconds r) \<and>
      lease_owner_managed_user_id s = lease_owner_managed_user_id lease \<and>
      lease_gpu_count s = lease_gpu_count lease \<and>
      lease_previous_lease_id s = Some (lease_id lease) \<and> lease_state s = ''APPROVED'' \<and>
      compute_lease_checks s \<and> get_lease db' (lease_id s) = Some s \<and>
      renew_state r = ''APPROVED'' \<and> renew_resulting_lease_id r = Some (lease_id s) \<and>
      get_renewal db' req = Some r"
proof (rule decide_renewal_approved [OF assms(3)])
  fix request lease created
  assume q: "get_renewal db req = Some request" "get_lease db (renew_lease_id request) = Some lease"
    and ahead: "now < lease_expires_at lease"
    and c: "create_lease i clock (renew_owner_managed_user_id request) (lease_expires_at lease)
      (renew_requested_duration_seconds request) (lease_gpu_count lease) by ''APPROVED''
      (Some (lease_id lease)) False = Inr created"
    and s: "s = created\<lparr>lease_renewed_at := Some now\<rparr>"
    and r: "r = record_decision now by comment request
      \<lparr>renew_state := ''APPROVED'', renew_resulting_lease_id := Some i\<rparr>"
    and db': "db' = modify_lease (lease_id lease) (\<lambda>l. l\<lparr>lease_state := ''RENEWAL_WINDOW''\<rparr>)
      (modify_renewal req (\<lambda>r. r\<lparr>renew_state := ''APPROVED'', renew_resulting_lease_id := Some i\<rparr>)
        (add_lease s (modify_renewal req (record_decision now by comment) db)))"
  note lease = renewal_of_lease [OF assms(1) q] and fields = create_lease_Inr [OF c]
  have lease_renew: "renew_lease_id r = renew_lease_id request"
    "renew_requested_duration_seconds r = renew_requested_duration_seconds request"
    by (simp_all add: r record_decision_def)
  have other: "lease_id lease \<noteq> i" using assms(2) lease(1) by (auto simp: fresh_lease_id_def)
  have "get_lease db' i = Some s"
  proof -
    have "scalar (\<lambda>l. lease_id l = i) (t_leases db) = None"
      using assms(2) by (auto simp: scalar_None_iff fresh_lease_id_def)
    then have "get_lease (add_lease s db) i = Some s"
      using fields(1) by (simp add: row_simps scalar_append s)
    moreover have "get_lease db' i = get_lease (add_lease s db) i"
      unfolding db' using other by (simp add: lease_store.lookup_modify_other) (simp add: get_lease_def)
    ultimately show ?thesis by simp
  qed
  moreover have "get_renewal db' req = Some r"
    using q(1) unfolding db' r
    by (simp add: get_renewal_def modify_renewal_def scalar_update_where_pk record_decision_def)
  moreover have "compute_lease_checks s"
    using create_lease_checks [OF c] by (simp add: s lease_state_values_def)
  moreover have "renew_state r = ''APPROVED''" "renew_resulting_lease_id r = Some i"
    by (simp_all add: r)
  ultimately show ?thesis
    using q(2) ahead lease(3) fields unfolding lease_renew by (simp add: s)
qed

lemma sample_approval:
  "\<exists>r s db'. decide_renewal sample_chain_db ''L3'' 0 ''R2'' ''APPROVE'' (Some ''A'') None (seconds 4000) =
     (Inr (r, Some s), db') \<and> renew_lease_id r = ''L2''"
  by (simp add: decide_renewal_def create_lease_def record_decision_def sample_lease_defs row_simps
      lease_consts seconds_def Let_def)

lemma sample_fresh: "fresh_lease_id sample_chain_db ''L3''"
  by (simp add: fresh_lease_id_def sample_lease_defs)

theorem approved_renewal_extends_witness:
  "\<exists>r s db'. decide_renewal sample_chain_db ''L3'' 0 ''R2'' ''APPROVE'' (Some ''A'') None (seconds 4000) =
     (Inr (r, Some s), db') \<and> get_lease db' (lease_id s) = Some s \<and> compute_lease_checks s"
  using approved_renewal_extends [OF sample_chain_db_inv sample_fresh] sample_approval by blast

text \<open>
  A decision that arrives after the lease ended closes the request as cancelled and extends
  nothing: it creates no lease, and a lease that the recycling has moved on (any state that is
  not an active one) is left exactly as it is.
\<close>

theorem late_decision_cancels:
  assumes "get_renewal db req = Some r" and "renew_state r = ''REQUESTED''"
    and "get_lease db (renew_lease_id r) = Some lease" and "lease_expires_at lease \<le> now"
  shows "\<exists>db'. decide_renewal db i clock req decision by comment now = (Inl RenewalLeaseExpiredError, db') \<and>
    map lease_id (t_leases db') = map lease_id (t_leases db) \<and>
    map_option renew_state (get_renewal db' req) = Some ''CANCELLED'' \<and>
    (\<forall>j l. get_lease db j = Some l \<longrightarrow>
       get_lease db' j = Some l \<or> (j = lease_id lease \<and> active_state l \<and>
         map_option lease_state (get_lease db' j) = Some ''EXPIRED''))"
proof -
  let ?f = "\<lambda>l. l\<lparr>lease_state := ''EXPIRED'', lease_expired_at :=
      Some (case lease_expired_at l of Some t \<Rightarrow> t | None \<Rightarrow> now)\<rparr>"
  let ?db1 = "if active_state lease then modify_lease (lease_id lease) ?f db else db"
  let ?db' = "modify_renewal req (\<lambda>r. record_decision now by comment (r\<lparr>renew_state := ''CANCELLED''\<rparr>)) ?db1"
  have id: "lease_id lease = renew_lease_id r" using assms(3) by (rule lease_store.lookup_pk)
  have same: "get_lease ?db' j = get_lease ?db1 j" for j by (simp add: get_lease_def)
  have "decide_renewal db i clock req decision by comment now = (Inl RenewalLeaseExpiredError, ?db')"
    using assms by (simp add: decide_renewal_def)
  moreover have "map lease_id (t_leases ?db') = map lease_id (t_leases db)"
    by (simp add: modify_lease_def map_update_where)
  moreover have "map_option renew_state (get_renewal ?db' req) = Some ''CANCELLED''"
  proof -
    have "get_renewal ?db1 req = Some r" using assms(1) by (simp add: get_renewal_def)
    then show ?thesis by (simp add: renewal_store.lookup_modify_same record_decision_def)
  qed
  moreover have "get_lease ?db' j = Some l \<or> (j = lease_id lease \<and> active_state l \<and>
      map_option lease_state (get_lease ?db' j) = Some ''EXPIRED'')"
    if "get_lease db j = Some l" for j l
    unfolding same using that assms(3) id by (auto simp: lease_store.lookup_modify)
  ultimately show ?thesis by blast
qed

theorem late_decision_cancels_witness:
  "\<exists>db'. decide_renewal sample_chain_db ''L3'' 0 ''R2'' ''APPROVE'' None None (seconds 100000) =
     (Inl RenewalLeaseExpiredError, db') \<and>
     map_option renew_state (get_renewal db' ''R2'') = Some ''CANCELLED''"
  using late_decision_cancels [of sample_chain_db "''R2''" "sample_renewal ''R2'' ''L2''"
      "sample_lease ''L2'' ''APPROVED'' 86400 3600 (Some ''L1'')" "seconds 100000" "''L3''" 0
      "''APPROVE''" None None]
  by (auto simp: sample_lease_defs get_renewal_def get_lease_def seconds_def)

text \<open>
  Approving the renewal of a lease that is itself an approved successor still waiting to
  start takes it out of its predecessor's chain: the approval sets its state to
  RENEWAL_WINDOW, and the chain of the predecessor, which had reached the waiting lease, then ends
  at the predecessor. The portal so reports a shorter entitlement after the approval.
\<close>

theorem approval_cuts_waiting_chain:
  assumes "lease_inv db" and "fresh_lease_id db i"
    and "p \<in> set (t_leases db)" and "approved_successor (t_leases db) p = Some waiting"
    and "decide_renewal db i clock req ''APPROVE'' by comment now = (Inr (r, Some s), db')"
    and "renew_lease_id r = lease_id waiting"
  shows "lease_chain_terminal db' p = Inr p \<and> lease_expires_at p < lease_expires_at waiting"
proof (rule decide_renewal_approved [OF assms(5)])
  fix request lease created
  assume q: "get_renewal db req = Some request" "get_lease db (renew_lease_id request) = Some lease"
    and c: "create_lease i clock (renew_owner_managed_user_id request) (lease_expires_at lease)
      (renew_requested_duration_seconds request) (lease_gpu_count lease) by ''APPROVED''
      (Some (lease_id lease)) False = Inr created"
    and s: "s = created\<lparr>lease_renewed_at := Some now\<rparr>"
    and r: "r = record_decision now by comment request
      \<lparr>renew_state := ''APPROVED'', renew_resulting_lease_id := Some i\<rparr>"
    and db': "db' = modify_lease (lease_id lease) (\<lambda>l. l\<lparr>lease_state := ''RENEWAL_WINDOW''\<rparr>)
      (modify_renewal req (\<lambda>r. r\<lparr>renew_state := ''APPROVED'', renew_resulting_lease_id := Some i\<rparr>)
        (add_lease s (modify_renewal req (record_decision now by comment) db)))"
  have ok: "leases_ok (t_leases db)" using assms(1) by (simp add: lease_inv_def)
  note lease = renewal_of_lease [OF assms(1) q]
  have w: "waiting \<in> set (t_leases db)" "lease_previous_lease_id waiting = Some (lease_id p)"
    using assms(4) by (auto dest: approved_successor_SomeD)
  have adj: "lease_starts_at waiting = lease_expires_at p"
    using leases_ok_link(2) [OF ok w(1) assms(3) w(2)] .
  have earlier: "lease_expires_at p < lease_expires_at waiting"
    using leases_okD(2) [OF ok w(1)] adj by simp
  have "lease_id waiting = lease_id lease"
    using assms(6) lease(2) by (simp add: r record_decision_def)
  then have is_lease: "lease = waiting"
    using leases_ok_same_id [OF ok w(1) lease(1)] by simp
  have "p \<noteq> waiting" using earlier by auto
  then have "lease_id p \<noteq> lease_id waiting"
    using leases_ok_same_id [OF ok assms(3) w(1)] by blast
  then have s_other: "lease_previous_lease_id s \<noteq> Some (lease_id p)"
    using create_lease_Inr(7) [OF c] by (simp add: s is_lease)
  have only: "lease_id l = lease_id waiting"
    if "l \<in> set (t_leases db)" "lease_previous_lease_id l = Some (lease_id p)" for l
    using ok w that unfolding leases_ok_def by (metis option.distinct(1))
  have "approved_successor (t_leases db') p = None"
    unfolding approved_successor_def db' modify_lease_def scalar_None_iff
    using only s_other by (auto simp: is_lease set_update_where)
  then show ?thesis
    using earlier by (simp add: lease_chain_terminal_def chain_loop.simps)
qed

theorem approval_cuts_waiting_chain_witness:
  "\<exists>r s db'. decide_renewal sample_chain_db ''L3'' 0 ''R2'' ''APPROVE'' (Some ''A'') None (seconds 4000) =
     (Inr (r, Some s), db') \<and>
     lease_chain_terminal db' (sample_lease ''L1'' ''ACTIVE'' 0 86400 None) =
       Inr (sample_lease ''L1'' ''ACTIVE'' 0 86400 None)"
proof -
  obtain r s db' where d: "decide_renewal sample_chain_db ''L3'' 0 ''R2'' ''APPROVE'' (Some ''A'') None
      (seconds 4000) = (Inr (r, Some s), db')" and r: "renew_lease_id r = ''L2''"
    using sample_approval by blast
  have "lease_chain_terminal db' (sample_lease ''L1'' ''ACTIVE'' 0 86400 None) =
      Inr (sample_lease ''L1'' ''ACTIVE'' 0 86400 None)"
    by (rule conjunct1 [OF approval_cuts_waiting_chain [OF sample_chain_db_inv sample_fresh _ _ d,
            where waiting = "sample_lease ''L2'' ''APPROVED'' 86400 3600 (Some ''L1'')"]])
      (simp_all add: r, simp_all add: sample_lease_defs approved_successor_def)
  with d show ?thesis by blast
qed

end
