(* ===== verification/Security_Metadata.thy ===== *)
theory Security_Metadata
  imports Portal_Store
begin

section \<open>Input checks, redaction and the audit trail\<close>

text \<open>
  \<open>security.py\<close> and \<open>audit.py\<close>: login and password validation, the signed CSRF token, the
  redaction of audit metadata and the audit record. SHA-256 and HMAC are library code: the
  definitions take the digest functions as arguments. A regular expression is the predicate
  that says which strings it matches.
\<close>

subsection \<open>Character classes and strings\<close>

abbreviation ord_of :: "char \<Rightarrow> nat" where
  "ord_of c \<equiv> of_char c"

definition is_lower :: "char \<Rightarrow> bool" where
  "is_lower c \<longleftrightarrow> 97 \<le> ord_of c \<and> ord_of c \<le> 122"

definition is_upper :: "char \<Rightarrow> bool" where
  "is_upper c \<longleftrightarrow> 65 \<le> ord_of c \<and> ord_of c \<le> 90"

definition is_digit :: "char \<Rightarrow> bool" where
  "is_digit c \<longleftrightarrow> 48 \<le> ord_of c \<and> ord_of c \<le> 57"

definition is_alnum :: "char \<Rightarrow> bool" where
  "is_alnum c \<longleftrightarrow> is_lower c \<or> is_upper c \<or> is_digit c"

definition is_space :: "char \<Rightarrow> bool" where
  "is_space c \<longleftrightarrow> (9 \<le> ord_of c \<and> ord_of c \<le> 13) \<or> (28 \<le> ord_of c \<and> ord_of c \<le> 32)"

lemmas char_class_defs = is_lower_def is_upper_def is_digit_def is_alnum_def is_space_def

definition fold_char :: "char \<Rightarrow> char" where
  "fold_char c = (if is_upper c then char_of (ord_of c + 32) else c)"

definition casefold :: "string \<Rightarrow> string" where
  "casefold s = map fold_char s"

definition strip :: "string \<Rightarrow> string" where
  "strip s = rev (dropWhile is_space (rev (dropWhile is_space s)))"

fun contains :: "string \<Rightarrow> string \<Rightarrow> bool" where
  "contains sub [] \<longleftrightarrow> sub = []"
| "contains sub (c # s) \<longleftrightarrow> take (length sub) (c # s) = sub \<or> contains sub s"

lemma of_char_inj [simp]: "(of_char c :: nat) = of_char d \<longleftrightarrow> c = d"
  by simp

lemma fold_char_idem [simp]: "fold_char (fold_char c) = fold_char c"
  by (auto simp: fold_char_def is_upper_def)

lemma casefold_idem [simp]: "casefold (casefold s) = casefold s"
  by (simp add: casefold_def)

lemma length_casefold [simp]: "length (casefold s) = length s"
  by (simp add: casefold_def)

lemma contains_iff: "contains sub s \<longleftrightarrow> (\<exists>pre post. s = pre @ sub @ post)"
proof (induction s)
  case (Cons c s)
  have "(\<exists>pre post. c # s = pre @ sub @ post) \<longleftrightarrow>
      (\<exists>post. c # s = sub @ post) \<or> (\<exists>pre post. s = pre @ sub @ post)"
    by (metis append_Cons append_Nil neq_Nil_conv list.inject)
  moreover have "(\<exists>post. c # s = sub @ post) \<longleftrightarrow> take (length sub) (c # s) = sub"
    by (metis append_eq_conv_conj append_take_drop_id)
  ultimately show ?case using Cons by simp
qed auto

subsection \<open>Logins, passwords and targets\<close>

definition login_re :: "string \<Rightarrow> bool" where
  "login_re s \<longleftrightarrow> (case s of [] \<Rightarrow> False
     | c # rest \<Rightarrow> is_lower c \<and> length rest \<le> 31 \<and>
         list_all (\<lambda>d. is_lower d \<or> is_digit d \<or> d = CHR ''-'') rest)"

definition normalize_login :: "string \<Rightarrow> string result" where
  "normalize_login value =
     (let normalized = casefold (strip value) in
      if login_re normalized then Inr normalized else Inl (ValueError ''invalid login name''))"

definition WEAK_PASSWORDS :: "string list" where
  "WEAK_PASSWORDS = [''passwordpassword'', ''changemechangeme'', ''administrator123'',
     ''qwertyuiopasdf'', ''12345678901234'', ''origin-alorigin-al'']"

definition validate_password :: "string \<Rightarrow> string \<Rightarrow> unit result" where
  "validate_password password normalized_login =
     (if \<not> (14 \<le> length password \<and> length password \<le> 128)
      then Inl (ValueError ''password length must be between 14 and 128 characters'')
      else if strip password = [] then Inl (ValueError ''password must not be blank'')
      else if casefold password = normalized_login \<or>
              casefold password = normalized_login @ normalized_login
      then Inl (ValueError ''password must not equal the login name'')
      else if casefold password \<in> set WEAK_PASSWORDS
      then Inl (ValueError ''password is too common'')
      else Inr ())"

definition safe_target_re :: "string \<Rightarrow> bool" where
  "safe_target_re s \<longleftrightarrow> (case s of [] \<Rightarrow> False
     | c # rest \<Rightarrow> is_alnum c \<and> length rest \<le> 127 \<and>
         list_all (\<lambda>d. is_alnum d \<or> d \<in> set ''_.:@/+-'') rest)"

definition safe_target :: "string \<Rightarrow> string result" where
  "safe_target value =
     (if safe_target_re value then Inr value else Inl (ValueError ''invalid target identifier''))"

subsection \<open>The signed CSRF token\<close>

text \<open>
  \<open>token.split(".", 2)\<close> cuts at the first two dots. \<open>int(text)\<close> of the timestamp accepts a sign,
  surrounding white space and single underscores between digits. \<open>hmac\<close> is HMAC-SHA256 in
  hexadecimal; \<open>compare_digest\<close> is equality, and raises \<open>TypeError\<close> on text outside ASCII, which
  is answered with false as well.
\<close>

definition cut_dot :: "string \<Rightarrow> (string \<times> string) option" where
  "cut_dot s = (if CHR ''.'' \<in> set s
     then Some (takeWhile (\<lambda>c. c \<noteq> CHR ''.'') s, tl (dropWhile (\<lambda>c. c \<noteq> CHR ''.'') s)) else None)"

fun digit_groups :: "bool \<Rightarrow> string \<Rightarrow> string option" where
  "digit_groups prev [] = (if prev then Some [] else None)"
| "digit_groups prev (c # s) =
     (if is_digit c then map_option ((#) c) (digit_groups True s)
      else if c = CHR ''_'' \<and> prev then digit_groups False s else None)"

definition int_of_text :: "string \<Rightarrow> int option" where
  "int_of_text text =
     (case strip text of [] \<Rightarrow> None
      | c # s \<Rightarrow>
          if c = CHR ''-'' then map_option (\<lambda>ds. - int (read_nat ds)) (digit_groups False s)
          else if c = CHR ''+'' then map_option (\<lambda>ds. int (read_nat ds)) (digit_groups False s)
          else map_option (\<lambda>ds. int (read_nat ds)) (digit_groups False (c # s)))"

definition signed_csrf_token :: "(string \<Rightarrow> string \<Rightarrow> string) \<Rightarrow> string \<Rightarrow> int \<Rightarrow> string \<Rightarrow> string" where
  "signed_csrf_token hmac secret time nonce =
     (let body = str_int time @ ''.'' @ nonce in body @ ''.'' @ hmac secret body)"

definition validate_signed_csrf ::
    "(string \<Rightarrow> string \<Rightarrow> string) \<Rightarrow> string \<Rightarrow> int \<Rightarrow> int \<Rightarrow> string \<Rightarrow> bool" where
  "validate_signed_csrf hmac secret time max_age token =
     (case cut_dot token of None \<Rightarrow> False
      | Some (timestamp, rest) \<Rightarrow>
        (case cut_dot rest of None \<Rightarrow> False
         | Some (nonce, signature) \<Rightarrow>
           (case int_of_text timestamp of None \<Rightarrow> False
            | Some issued \<Rightarrow>
                if nonce = [] \<or> abs (time - issued) > max_age then False
                else hmac secret (timestamp @ ''.'' @ nonce) = signature)))"

subsection \<open>Redaction of metadata\<close>

definition forbidden_keys :: "string list" where
  "forbidden_keys = [''password'', ''current_password'', ''new_password'', ''confirmation'',
     ''token'', ''token_hash'', ''challenge'', ''challenge_hash'', ''setup_url'', ''reset_url'',
     ''action_url'', ''secret'', ''session'', ''cookie'', ''private_key'', ''raw_private_key'',
     ''private_key_password'', ''private_key_passphrase'', ''private_key_path'', ''passphrase'',
     ''public_key'', ''raw_public_key'', ''public_key_file'', ''public_key_path'',
     ''authorized_keys'', ''script'', ''script_content'', ''database_url'', ''munge_key'']"

definition token_char :: "char \<Rightarrow> bool" where
  "token_char c \<longleftrightarrow> is_alnum c \<or> c = CHR ''_'' \<or> c = CHR ''-''"

definition cli_token_here :: "string \<Rightarrow> bool" where
  "cli_token_here s \<longleftrightarrow> take 9 s = ''h100_cli_'' \<and>
     length (take 64 (drop 9 s)) = 64 \<and> list_all token_char (take 64 (drop 9 s)) \<and>
     (case drop 73 s of [] \<Rightarrow> True | c # _ \<Rightarrow> \<not> token_char c)"

fun cli_token_search :: "bool \<Rightarrow> string \<Rightarrow> bool" where
  "cli_token_search boundary [] \<longleftrightarrow> False"
| "cli_token_search boundary (c # s) \<longleftrightarrow>
     (boundary \<and> cli_token_here (c # s)) \<or> cli_token_search (\<not> token_char c) s"

definition cli_token_re :: "string \<Rightarrow> bool" where
  "cli_token_re s = cli_token_search True s"

definition secret_text :: "string \<Rightarrow> bool" where
  "secret_text s \<longleftrightarrow>
     (contains ''BEGIN '' s \<and> contains ''PRIVATE KEY'' s) \<or>
     (contains ''/setup-password#token='' s \<or> contains ''/setup-password?token='' s) \<or>
     cli_token_re s"

definition REDACTED :: string where
  "REDACTED = ''[REDACTED]''"

text \<open>
  The recursion of \<open>safe_metadata\<close> passes the whole set of forbidden keys on as the sensitive
  keys of the next level, which adds nothing to it: \<open>redact\<close> keeps it fixed. The text of an
  instant is no secret text.
\<close>

lemma size_take_member [termination_simp]:
  "x \<in> set (take n xs) \<Longrightarrow> size x < Suc (size_list size xs)"
  by (meson in_set_takeD less_Suc_eq_le size_list_estimation' order_refl)

fun redact :: "string list \<Rightarrow> pyval \<Rightarrow> pyval" where
  "redact forbidden (PDict kvs) =
     PDict (map (\<lambda>kv. (fst kv, if casefold (fst kv) \<in> set forbidden then PStr REDACTED
                               else redact forbidden (snd kv))) kvs)"
| "redact forbidden (PList xs) = PList (map (redact forbidden) (take 100 xs))"
| "redact forbidden (PTuple xs) = PList (map (redact forbidden) (take 100 xs))"
| "redact forbidden (PStr s) = (if secret_text s then PStr REDACTED else PStr s)"
| "redact forbidden (PTime t) = PTime t"
| "redact forbidden (PInt n) = PInt n"
| "redact forbidden (PFloat s) = PFloat s"
| "redact forbidden (PBool b) = PBool b"
| "redact forbidden PNone = PNone"
| "redact forbidden (POther s) = PStr (take 256 s)"

definition safe_metadata :: "pyval \<Rightarrow> string list \<Rightarrow> pyval" where
  "safe_metadata data sensitive_keys =
     redact (forbidden_keys @ map casefold sensitive_keys) data"

subsection \<open>The audit record\<close>

text \<open>The arguments of \<open>record_audit\<close>; \<open>metadata or {}\<close> is the empty dictionary for \<open>None\<close>.\<close>

record audit_call =
  ac_event_type :: string
  ac_actor :: string
  ac_actor_role :: string
  ac_source_ip :: string
  ac_user_agent :: string
  ac_object_type :: string
  ac_object_id :: string
  ac_result :: string
  ac_metadata :: pyval
  ac_operation_id :: "uuid option"

definition digest_user_agent :: "(string \<Rightarrow> string) \<Rightarrow> string \<Rightarrow> string" where
  "digest_user_agent digest_secret value = digest_secret (take 512 value)"

definition record_audit ::
    "(string \<Rightarrow> string) \<Rightarrow> uuid \<Rightarrow> instant \<Rightarrow> audit_call \<Rightarrow> portal_db \<Rightarrow> portal_db" where
  "record_audit digest_secret new_id now call db = add_audit_event
     \<lparr>aud_event_id = new_id, aud_event_type = take 64 (ac_event_type call),
      aud_actor = take 64 (ac_actor call), aud_actor_role = take 32 (ac_actor_role call),
      aud_source_ip = take 64 (ac_source_ip call),
      aud_user_agent_digest = digest_user_agent digest_secret (ac_user_agent call),
      aud_object_type = take 64 (ac_object_type call), aud_object_id = take 128 (ac_object_id call),
      aud_operation_id = ac_operation_id call, aud_result = take 32 (ac_result call),
      aud_timestamp = now,
      aud_safe_metadata = safe_metadata
        (if ac_metadata call = PNone then PDict [] else ac_metadata call) []\<rparr> db"

text \<open>Writing the trail touches no other table.\<close>

lemma record_audit_tables [simp]:
  "t_leases (record_audit h i n c db) = t_leases db"
  "t_renewal_requests (record_audit h i n c db) = t_renewal_requests db"
  "t_operations (record_audit h i n c db) = t_operations db"
  "t_operation_events (record_audit h i n c db) = t_operation_events db"
  "t_operation_approvals (record_audit h i n c db) = t_operation_approvals db"
  "t_containers (record_audit h i n c db) = t_containers db"
  "t_managed_users (record_audit h i n c db) = t_managed_users db"
  "t_ssh_keys (record_audit h i n c db) = t_ssh_keys db"
  "t_jobs (record_audit h i n c db) = t_jobs db"
  "t_storage_resources (record_audit h i n c db) = t_storage_resources db"
  "t_recycle_items (record_audit h i n c db) = t_recycle_items db"
  "t_resource_requests (record_audit h i n c db) = t_resource_requests db"
  "t_provision_plans (record_audit h i n c db) = t_provision_plans db"
  "t_reservations (record_audit h i n c db) = t_reservations db"
  "t_delegated_sessions (record_audit h i n c db) = t_delegated_sessions db"
  "t_sessions (record_audit h i n c db) = t_sessions db"
  "t_users (record_audit h i n c db) = t_users db"
  by (simp_all add: record_audit_def add_audit_event_def)

subsection \<open>What redaction guarantees\<close>

fun json_value :: "pyval \<Rightarrow> bool" where
  "json_value (PDict kvs) \<longleftrightarrow> list_all (\<lambda>kv. json_value (snd kv)) kvs"
| "json_value (PList xs) \<longleftrightarrow> list_all json_value xs"
| "json_value (PTuple xs) \<longleftrightarrow> list_all json_value xs"
| "json_value (POther s) \<longleftrightarrow> False"
| "json_value _ \<longleftrightarrow> True"

fun no_secrets :: "pyval \<Rightarrow> bool" where
  "no_secrets (PDict kvs) \<longleftrightarrow> list_all (\<lambda>kv. no_secrets (snd kv) \<and>
     (casefold (fst kv) \<in> set forbidden_keys \<longrightarrow> snd kv = PStr REDACTED)) kvs"
| "no_secrets (PList xs) \<longleftrightarrow> list_all no_secrets xs \<and> length xs \<le> 100"
| "no_secrets (PTuple xs) \<longleftrightarrow> False"
| "no_secrets (PStr s) \<longleftrightarrow> \<not> secret_text s"
| "no_secrets (POther s) \<longleftrightarrow> False"
| "no_secrets _ \<longleftrightarrow> True"

lemma REDACTED_safe [simp]: "\<not> secret_text REDACTED"
  by (simp add: secret_text_def REDACTED_def cli_token_re_def cli_token_here_def)

lemma redact_clean:
  "json_value v \<Longrightarrow> set forbidden_keys \<subseteq> set forb \<Longrightarrow> no_secrets (redact forb v)"
proof (induction forb v rule: redact.induct)
  case (1 forb kvs)
  then show ?case by (auto simp: list_all_iff)
next
  case (2 forb xs)
  then show ?case by (auto simp: list_all_iff dest: in_set_takeD)
next
  case (3 forb xs)
  then show ?case by (auto simp: list_all_iff dest: in_set_takeD)
qed auto

lemma redact_no_secrets: "no_secrets v \<Longrightarrow> redact forbidden_keys v = v"
proof (induction v)
  case (PList xs)
  then show ?case by (simp add: list_all_iff map_idI)
next
  case (PDict kvs)
  have "map (\<lambda>kv. (fst kv, if casefold (fst kv) \<in> set forbidden_keys then PStr REDACTED
      else redact forbidden_keys (snd kv))) kvs = kvs"
  proof (rule map_idI)
    fix kv
    assume "kv \<in> set kvs"
    with PDict show "(fst kv, if casefold (fst kv) \<in> set forbidden_keys then PStr REDACTED
        else redact forbidden_keys (snd kv)) = kv"
      by (cases kv) (force simp: list_all_iff)
  qed
  then show ?case by simp
qed simp_all



subsection \<open>The CSRF token verifies\<close>

lemma cut_dot_append [simp]: "CHR ''.'' \<notin> set s \<Longrightarrow> cut_dot (s @ CHR ''.'' # rest) = Some (s, rest)"
proof -
  assume "CHR ''.'' \<notin> set s"
  then have no: "\<And>c. c \<in> set s \<Longrightarrow> c \<noteq> CHR ''.''" by auto
  show ?thesis
    using takeWhile_append2 [of s "\<lambda>c. c \<noteq> CHR ''.''"] dropWhile_append2 [of s "\<lambda>c. c \<noteq> CHR ''.''"] no
    by (simp add: cut_dot_def)
qed

lemma digit_groups_digits:
  "list_all is_digit s \<Longrightarrow> prev \<or> s \<noteq> [] \<Longrightarrow> digit_groups prev s = Some s"
  by (induction s arbitrary: prev) auto

lemma digits_nat_is_digit: "list_all is_digit (digits_nat n)"
  using digits_nat_chars by (fastforce simp: list_all_iff is_digit_def)

lemma int_of_text_str_int: "0 \<le> n \<Longrightarrow> int_of_text (str_int n) = Some n"
proof -
  assume n: "0 \<le> n"
  obtain c s where cs: "digits_nat (nat n) = c # s" by (cases "digits_nat (nat n)") auto
  have digits: "list_all is_digit (c # s)" using digits_nat_is_digit [of "nat n"] cs by simp
  then have no_space: "\<not> is_space d" if "d \<in> set (c # s)" for d
    using that by (auto simp: list_all_iff char_class_defs)
  have drop: "dropWhile is_space t = t" if "set t = set (c # s)" for t
    using no_space that by (cases t) auto
  have strip: "strip (c # s) = c # s"
    by (simp only: strip_def drop [OF refl] drop [OF set_rev] rev_rev_ident)
  have "c \<noteq> CHR ''-''" "c \<noteq> CHR ''+''" using digits by (auto simp: is_digit_def)
  moreover have "digit_groups False (c # s) = Some (c # s)"
    using digits by (intro digit_groups_digits) auto
  ultimately show ?thesis
    using n read_digits_nat [of "nat n"] by (simp add: int_of_text_def str_int_nonneg cs strip)
qed

lemma str_int_no_dot: "0 \<le> n \<Longrightarrow> CHR ''.'' \<notin> set (str_int n)"
  using digits_nat_is_digit [of "nat n"]
  by (auto simp: str_int_nonneg list_all_iff is_digit_def)

text \<open>
  The signed CSRF token: a token minted at one time with a nonce of base64 text is accepted
  exactly while its age is within the limit, and whatever token is accepted carries a nonce and
  the HMAC of its own body under the secret.
\<close>

theorem csrf_token_verifies:
  assumes "0 \<le> issued" and "nonce \<noteq> []" and "CHR ''.'' \<notin> set nonce"
  shows "(validate_signed_csrf hmac secret time max_age (signed_csrf_token hmac secret issued nonce)
      \<longleftrightarrow> abs (time - issued) \<le> max_age) \<and>
    (validate_signed_csrf hmac secret time max_age token \<longrightarrow>
      (\<exists>stamp n. n \<noteq> [] \<and> token = stamp @ ''.'' @ n @ ''.'' @ hmac secret (stamp @ ''.'' @ n)))"
proof (intro conjI impI)
  show "validate_signed_csrf hmac secret time max_age (signed_csrf_token hmac secret issued nonce)
      \<longleftrightarrow> abs (time - issued) \<le> max_age"
    using assms by (auto simp: validate_signed_csrf_def signed_csrf_token_def Let_def
        str_int_no_dot int_of_text_str_int)
next
  have cut: "s = a @ ''.'' @ b" if "cut_dot s = Some (a, b)" for s a b
  proof -
    have dot: "CHR ''.'' \<in> set s" and ab: "a = takeWhile (\<lambda>c. c \<noteq> CHR ''.'') s"
      "b = tl (dropWhile (\<lambda>c. c \<noteq> CHR ''.'') s)"
      using that by (auto simp: cut_dot_def split: if_splits)
    have "dropWhile (\<lambda>c. c \<noteq> CHR ''.'') s \<noteq> []" using dot by (auto simp: dropWhile_eq_Nil_conv)
    moreover from this have "hd (dropWhile (\<lambda>c. c \<noteq> CHR ''.'') s) = CHR ''.''"
      using hd_dropWhile [of "\<lambda>c. c \<noteq> CHR ''.''" s] by simp
    ultimately have "dropWhile (\<lambda>c. c \<noteq> CHR ''.'') s = CHR ''.'' # b"
      using ab(2) by (metis list.collapse)
    then show ?thesis using ab(1) takeWhile_dropWhile_id [of "\<lambda>c. c \<noteq> CHR ''.''" s] by simp
  qed
  assume "validate_signed_csrf hmac secret time max_age token"
  then obtain stamp rest n where parts: "cut_dot token = Some (stamp, rest)"
      "cut_dot rest = Some (n, hmac secret (stamp @ ''.'' @ n))" "n \<noteq> []"
    by (auto simp: validate_signed_csrf_def split: option.splits prod.splits if_splits)
  have "token = stamp @ ''.'' @ n @ ''.'' @ hmac secret (stamp @ ''.'' @ n)"
    by (subst cut [OF parts(1)], subst cut [OF parts(2)]) (rule refl)
  with parts(3)
  show "\<exists>stamp n. n \<noteq> [] \<and> token = stamp @ ''.'' @ n @ ''.'' @ hmac secret (stamp @ ''.'' @ n)"
    by blast
qed

theorem csrf_token_verifies_witness:
  "validate_signed_csrf (\<lambda>k m. k @ rev m) ''s'' 100 3600
     (signed_csrf_token (\<lambda>k m. k @ rev m) ''s'' 50 ''n'')"
  using csrf_token_verifies [of 50 "''n''" "\<lambda>k m. k @ rev m" "''s''" 100 3600 "''''"] by simp

end
