(* ===== verification/Workspace_Contract.thy ===== *)
theory Workspace_Contract
  imports Rbac Lease_Service Security_Metadata
begin

section \<open>Owner-bound workspaces\<close>

text \<open>
  \<open>h100_portal_contracts/workspace.py\<close>, \<open>workspace_service.py\<close> and \<open>self_resources.py\<close>: the
  paths a managed identity owns, the logical paths of its jobs, and the two resolutions that
  turn an authenticated user into workspace and compute coordinates. A \<open>PurePosixPath\<close> is its
  root and its list of parts, as \<open>pathlib\<close> parses it.
\<close>

subsection \<open>Posix paths\<close>

record posix_path =
  path_root :: string
  path_parts :: "string list"

fun split_on :: "char \<Rightarrow> string \<Rightarrow> string list" where
  "split_on d [] = [[]]"
| "split_on d (c # s) =
     (if c = d then [] # split_on d s
      else (case split_on d s of [] \<Rightarrow> [[c]] | p # ps \<Rightarrow> (c # p) # ps))"

definition root_of :: "string \<Rightarrow> string" where
  "root_of s = (if take 2 s = ''//'' \<and> take 3 s \<noteq> ''///'' then ''//''
     else if take 1 s = ''/'' then ''/'' else '''')"

definition parse_path :: "string \<Rightarrow> posix_path" where
  "parse_path s = \<lparr>path_root = root_of s,
     path_parts = filter (\<lambda>p. p \<noteq> '''' \<and> p \<noteq> ''.'') (split_on (CHR ''/'') s)\<rparr>"

definition path_str :: "posix_path \<Rightarrow> string" where
  "path_str p = (if path_root p = [] \<and> path_parts p = [] then ''.''
     else path_root p @ join ''/'' (path_parts p))"

definition path_join :: "posix_path \<Rightarrow> string \<Rightarrow> posix_path" where
  "path_join p s = (let q = parse_path s in
     if path_root q \<noteq> [] then q else p\<lparr>path_parts := path_parts p @ path_parts q\<rparr>)"

definition inside_path :: "posix_path \<Rightarrow> posix_path \<Rightarrow> bool" where
  "inside_path p q \<longleftrightarrow> path_root p = path_root q \<and>
     take (length (path_parts q)) (path_parts p) = path_parts q"

lemma split_on_nonempty [simp]: "split_on d s \<noteq> []"
  by (induction s) (auto split: list.splits)

lemma split_on_plain [simp]: "d \<notin> set s \<Longrightarrow> split_on d s = [s]"
  by (induction s) auto

lemma split_on_append: "d \<notin> set p \<Longrightarrow> split_on d (p @ d # s) = p # split_on d s"
  by (induction p) auto

lemma split_on_parts: "p \<in> set (split_on d s) \<Longrightarrow> d \<notin> set p"
  by (induction s arbitrary: p) (auto split: list.splits if_splits)

lemma split_on_join:
  "ps \<noteq> [] \<Longrightarrow> \<forall>p \<in> set ps. d \<notin> set p \<Longrightarrow> split_on d (join [d] ps) = ps"
  by (induction "[d]" ps rule: join.induct) (auto simp: split_on_append)

subsection \<open>The contract's constants\<close>

definition MANAGED_UID_MIN :: int where "MANAGED_UID_MIN = 20000"

definition MANAGED_UID_MAX :: int where "MANAGED_UID_MAX = 60000"

definition WORKSPACE_ROOT :: posix_path where
  "WORKSPACE_ROOT = \<lparr>path_root = ''/'', path_parts = [''storage'', ''users'']\<rparr>"

definition HOME_ALIAS_ROOT :: posix_path where
  "HOME_ALIAS_ROOT = \<lparr>path_root = ''/'', path_parts = [''storage'', ''homes'']\<rparr>"

definition LEGACY_STORAGE_ROOT :: posix_path where
  "LEGACY_STORAGE_ROOT = \<lparr>path_root = ''/'', path_parts = [''srv'', ''gpu-platform'', ''users'']\<rparr>"

definition WORKSPACE_CONTAINER_PATH :: posix_path where
  "WORKSPACE_CONTAINER_PATH = \<lparr>path_root = ''/'', path_parts = [''workspace'']\<rparr>"

definition WORKSPACE_COMPUTE_PATH :: posix_path where
  "WORKSPACE_COMPUTE_PATH = \<lparr>path_root = ''/'', path_parts = [''workspace'']\<rparr>"

definition WORKSPACE_DEFAULT_WORKDIR :: string where
  "WORKSPACE_DEFAULT_WORKDIR = ''projects''"

definition WORKSPACE_LOGICAL_ROOT :: posix_path where
  "WORKSPACE_LOGICAL_ROOT = \<lparr>path_root = '''', path_parts = [''workspace'']\<rparr>"

definition WORKSPACE_MOUNT_CONTRACT_VERSION :: int where
  "WORKSPACE_MOUNT_CONTRACT_VERSION = 2"

definition WORKSPACE_QUOTA_BYTES :: int where
  "WORKSPACE_QUOTA_BYTES = 300 * 1024 ^ 3"

definition CPU_DEVELOPMENT_PROFILE :: string where
  "CPU_DEVELOPMENT_PROFILE = ''STANDARD_8CPU_32GB''"

definition GPU_DEVELOPMENT_PROFILE :: string where
  "GPU_DEVELOPMENT_PROFILE = ''GPU_1_8CPU_32GB''"

lemmas workspace_constants = MANAGED_UID_MIN_def MANAGED_UID_MAX_def WORKSPACE_ROOT_def
  HOME_ALIAS_ROOT_def LEGACY_STORAGE_ROOT_def WORKSPACE_CONTAINER_PATH_def
  WORKSPACE_COMPUTE_PATH_def WORKSPACE_QUOTA_BYTES_def CPU_DEVELOPMENT_PROFILE_def
  GPU_DEVELOPMENT_PROFILE_def

datatype workspace_layout = LEGACY_BIND_ALIAS | CANONICAL_NATIVE

fun layout_value :: "workspace_layout \<Rightarrow> string" where
  "layout_value LEGACY_BIND_ALIAS = ''LEGACY_BIND_ALIAS''"
| "layout_value CANONICAL_NATIVE = ''CANONICAL_NATIVE''"

record workspace_coordinates =
  wb_username :: string
  wb_uid :: int
  wb_gid :: int
  wb_layout :: workspace_layout
  wb_quota_root :: posix_path
  wb_backing_home :: posix_path
  wb_canonical_home :: posix_path
  wb_backing_workspace :: posix_path
  wb_canonical_workspace :: posix_path
  wb_compute_home :: posix_path
  wb_container_workspace :: posix_path
  wb_compute_workspace :: posix_path

subsection \<open>Operations of the contract\<close>

text \<open>\<open>MANAGED_USERNAME_PATTERN\<close> is the expression of login names.\<close>

definition managed_id :: "int \<Rightarrow> string \<Rightarrow> int result" where
  "managed_id value label =
     (if MANAGED_UID_MIN \<le> value \<and> value \<le> MANAGED_UID_MAX then Inr value
      else Inl (ValueError (''managed '' @ label @ '' is outside the platform range'')))"

definition legacy_storage_path :: "string \<Rightarrow> posix_path result" where
  "legacy_storage_path username =
     (if login_re username then Inr (path_join LEGACY_STORAGE_ROOT username)
      else Inl (ValueError ''managed username is invalid''))"

definition workspace_path :: "int \<Rightarrow> posix_path result" where
  "workspace_path uid =
     (case managed_id uid ''UID'' of Inl e \<Rightarrow> Inl e
      | Inr v \<Rightarrow> Inr (path_join WORKSPACE_ROOT (str_int v)))"

definition binding_of_roots :: "string \<Rightarrow> int \<Rightarrow> int \<Rightarrow> workspace_layout \<Rightarrow> posix_path \<Rightarrow>
    posix_path \<Rightarrow> posix_path \<Rightarrow> workspace_coordinates" where
  "binding_of_roots username uid gid layout canonical quota_root backing =
     \<lparr>wb_username = username, wb_uid = uid, wb_gid = gid, wb_layout = layout,
      wb_quota_root = quota_root, wb_backing_home = path_join quota_root ''home'',
      wb_canonical_home = path_join HOME_ALIAS_ROOT (str_int uid),
      wb_backing_workspace = backing, wb_canonical_workspace = canonical,
      wb_compute_home = path_join (parse_path ''/home'') username,
      wb_container_workspace = WORKSPACE_CONTAINER_PATH,
      wb_compute_workspace = WORKSPACE_COMPUTE_PATH\<rparr>"

definition workspace_binding ::
    "string \<Rightarrow> int \<Rightarrow> int \<Rightarrow> workspace_layout \<Rightarrow> workspace_coordinates result" where
  "workspace_binding username uid gid layout =
     (case managed_id uid ''UID'' of Inl e \<Rightarrow> Inl e
      | Inr validated_uid \<Rightarrow>
        (case managed_id gid ''GID'' of Inl e \<Rightarrow> Inl e
         | Inr validated_gid \<Rightarrow>
           (case workspace_path validated_uid of Inl e \<Rightarrow> Inl e
            | Inr canonical \<Rightarrow>
              (case layout of
                 LEGACY_BIND_ALIAS \<Rightarrow>
                   (case legacy_storage_path username of Inl e \<Rightarrow> Inl e
                    | Inr quota_root \<Rightarrow>
                        Inr (binding_of_roots username validated_uid validated_gid layout canonical
                              quota_root (path_join quota_root ''workspace'')))
               | CANONICAL_NATIVE \<Rightarrow>
                   Inr (binding_of_roots username validated_uid validated_gid layout canonical
                         canonical canonical)))))"

definition default_job_workdir :: "workspace_coordinates \<Rightarrow> posix_path" where
  "default_job_workdir b = path_join (wb_canonical_workspace b) WORKSPACE_DEFAULT_WORKDIR"

text \<open>
  \<open>workspace_relative_parts\<close> takes a string or a path; \<open>relative_parts_of\<close> is its body for the
  text and the path of the argument. The parts of an absolute path begin with its root.
\<close>

definition relative_parts_of :: "string \<Rightarrow> posix_path \<Rightarrow> string list result" where
  "relative_parts_of raw path =
     (if path_root path \<noteq> [] \<or> path_parts path = [] \<or> raw \<noteq> path_str path \<or>
         hd (path_parts path) \<noteq> path_str WORKSPACE_LOGICAL_ROOT \<or>
         list_ex (\<lambda>part. part \<in> set ['''', ''.'', ''..'']) (path_parts path) \<or>
         path_str WORKSPACE_LOGICAL_ROOT \<in> set (tl (path_parts path))
      then Inl (ValueError ''logical workspace path is invalid'')
      else Inr (tl (path_parts path)))"

definition workspace_relative_parts :: "string \<Rightarrow> string list result" where
  "workspace_relative_parts value = relative_parts_of value (parse_path value)"

definition logical_workspace_path :: "string list \<Rightarrow> posix_path result" where
  "logical_workspace_path relative_parts =
     (let path = foldl path_join WORKSPACE_LOGICAL_ROOT relative_parts in
      case relative_parts_of (path_str path) path of Inl e \<Rightarrow> Inl e | Inr _ \<Rightarrow> Inr path)"

definition profile_gpu_count :: "string \<Rightarrow> int result" where
  "profile_gpu_count profile =
     (if profile = CPU_DEVELOPMENT_PROFILE then Inr 0
      else if profile = GPU_DEVELOPMENT_PROFILE then Inr 1
      else Inl (ValueError ''development profile is not approved''))"

definition container_runtime_gpu_state :: "int option \<Rightarrow> string option \<Rightarrow> string result" where
  "container_runtime_gpu_state allocation_job_id allocation_uuid =
     (if (allocation_job_id = None) \<noteq> (allocation_uuid = None)
      then Inl (ValueError ''container GPU allocation coordinates are incomplete'')
      else Inr (if allocation_job_id \<noteq> None then ''SLURM_ALLOCATED_1'' else ''NONE''))"

subsection \<open>Resolving a workspace\<close>

text \<open>
  \<open>workspace_service.py\<close>. The evidence is the worker's answer; \<open>py_eq_int\<close> is Python's \<open>==\<close>
  between a JSON value and an integer, where a boolean is a number and an integral float (below
  its first exponent) equals the integer.
\<close>

record workspace_resolution =
  wr_workspace_id :: uuid
  wr_managed :: portal_managed_user
  wr_storage :: portal_storage_resource
  wr_binding :: workspace_coordinates

definition py_eq_int :: "pyval \<Rightarrow> int \<Rightarrow> bool" where
  "py_eq_int v n = (case v of PFloat s \<Rightarrow> s = str_int n @ ''.0'' | _ \<Rightarrow> py_int v = Some n)"

definition quota_reference :: "workspace_resolution \<Rightarrow> string" where
  "quota_reference r = ''xfs-project:'' @
     (case mu_project_id (wr_managed r) of Some n \<Rightarrow> str_int n | None \<Rightarrow> ''None'')"

definition worker_payload :: "workspace_resolution \<Rightarrow> pyval result" where
  "worker_payload r =
     (let managed = wr_managed r in
      case mu_project_id managed of
        None \<Rightarrow> Inl (HTTPException 409 ''WORKSPACE_METADATA_REJECTED'')
      | Some project_id \<Rightarrow> Inr (PDict [
          (''managed_user_id'', PStr (mu_id managed)),
          (''username'', PStr (mu_unix_username managed)),
          (''uid'', PInt (mu_uid managed)), (''gid'', PInt (mu_gid managed)),
          (''workspace_path'', PStr (path_str (wb_canonical_workspace (wr_binding r)))),
          (''quota_root'', PStr (path_str (wb_quota_root (wr_binding r)))),
          (''project_id'', PInt project_id),
          (''quota_bytes'', PInt (stor_quota_bytes (wr_storage r)))]))"

definition required_true :: "string list" where
  "required_true = [''ownership_verified'', ''writable'', ''same_inode'', ''quota_mapping_valid'',
     ''quota_enforced'', ''required_directories_ready'']"

definition required_pass :: "string list" where
  "required_pass = [''mount_status'', ''permission_status'', ''storage_status'']"

definition public_contract :: "workspace_resolution \<Rightarrow> pyval \<Rightarrow> pyval result" where
  "public_contract r evidence =
     (let managed = wr_managed r; storage = wr_storage r; binding = wr_binding r in
      if dget evidence ''username'' \<noteq> PStr (mu_unix_username managed) \<or>
         \<not> py_eq_int (dget evidence ''uid'') (mu_uid managed) \<or>
         \<not> py_eq_int (dget evidence ''gid'') (mu_gid managed)
      then Inl (HTTPException 409 ''WORKSPACE_POSTCONDITION_FAILED'')
      else if list_ex (\<lambda>key. dget evidence key \<noteq> PBool True) required_true
      then Inl (HTTPException 409 ''WORKSPACE_NOT_READY'')
      else if list_ex (\<lambda>key. dget evidence key \<noteq> PStr ''PASS'') required_pass
      then Inl (HTTPException 409 ''WORKSPACE_NOT_READY'')
      else Inr (PDict [
        (''workspace_id'', PStr (wr_workspace_id r)), (''owner_id'', PStr (mu_id managed)),
        (''username'', PStr (mu_unix_username managed)),
        (''uid'', PInt (mu_uid managed)), (''gid'', PInt (mu_gid managed)),
        (''canonical_path'', PStr (path_str (wb_canonical_workspace binding))),
        (''container_path'', PStr (path_str (wb_container_workspace binding))),
        (''compute_runtime_path'', PStr (path_str (wb_compute_workspace binding))),
        (''container_home_path'', PStr (path_str (wb_compute_home binding))),
        (''compute_home_path'', PStr (path_str (wb_compute_home binding))),
        (''persistent_paths'', PList [PStr (path_str (wb_container_workspace binding)),
                                     PStr (path_str (wb_compute_home binding))]),
        (''backing_layout'', PStr (layout_value (wb_layout binding))),
        (''mount_contract_version'', PInt WORKSPACE_MOUNT_CONTRACT_VERSION),
        (''quota'', PDict [(''bytes'', PInt (stor_quota_bytes storage)),
           (''gib'', PInt (stor_quota_bytes storage div 1024 ^ 3)),
           (''reference'', PStr (quota_reference r)), (''mapping_valid'', PBool True),
           (''enforced'', PBool True)]),
        (''ownership_verified'', PBool True), (''writable'', PBool True),
        (''same_inode'', PBool True), (''required_directories_ready'', PBool True),
        (''lifecycle_state'', PStr (stor_state storage)), (''readiness'', PStr ''READY'')]))"

definition resolve_workspace :: "portal_db \<Rightarrow> portal_user \<Rightarrow> workspace_resolution result" where
  "resolve_workspace db user =
     (case managed_identity_for_user db user of Inl e \<Rightarrow> Inl e
      | Inr managed \<Rightarrow>
        (case scalar (\<lambda>s. stor_owner_managed_user_id s = mu_id managed) (t_storage_resources db) of
           None \<Rightarrow> Inl (HTTPException 409 ''WORKSPACE_METADATA_MISSING'')
         | Some storage \<Rightarrow>
           (case workspace_binding (mu_unix_username managed) (mu_uid managed) (mu_gid managed)
                   LEGACY_BIND_ALIAS of
              Inl _ \<Rightarrow> Inl (HTTPException 409 ''WORKSPACE_IDENTITY_REJECTED'')
            | Inr binding \<Rightarrow>
              if mu_portal_user_id managed \<noteq> user_id user \<or>
                 stor_owner_managed_user_id storage \<noteq> mu_id managed \<or>
                 stor_root_path storage \<noteq> path_str (wb_canonical_workspace binding) \<or>
                 mu_project_id managed = None \<or>
                 mu_quota_bytes managed \<noteq> Some WORKSPACE_QUOTA_BYTES \<or>
                 stor_quota_bytes storage \<noteq> WORKSPACE_QUOTA_BYTES \<or>
                 Some (stor_quota_bytes storage) \<noteq> mu_quota_bytes managed \<or>
                 stor_state storage \<notin> set [''STAGED'', ''ACTIVE'', ''PRESERVED'', ''RESTORING'']
              then Inl (HTTPException 409 ''WORKSPACE_METADATA_REJECTED'')
              else Inr \<lparr>wr_workspace_id = stor_id storage, wr_managed = managed,
                     wr_storage = storage, wr_binding = binding\<rparr>)))"

subsection \<open>Resolving the compute environment\<close>

text \<open>
  \<open>self_resources.py\<close>. The condition \<open>binding_valid\<close> is evaluated from left to right, so the
  workspace path, which raises for an identifier out of range, is reached only when every test
  before it holds.
\<close>

record self_resource_context =
  src_portal_user_id :: uuid
  src_owner_login :: string
  src_managed :: portal_managed_user
  src_container :: portal_container
  src_active_lease :: portal_compute_lease
  src_terminal_lease :: portal_compute_lease
  src_storage :: portal_storage_resource

definition max_gpu :: "self_resource_context \<Rightarrow> int" where
  "max_gpu c = min 1 (lease_gpu_count (src_active_lease c))"

definition worker_identity :: "self_resource_context \<Rightarrow> pyval" where
  "worker_identity c = PDict [
     (''managed_user_id'', PStr (mu_id (src_managed c))),
     (''username'', PStr (mu_unix_username (src_managed c))),
     (''uid'', PInt (mu_uid (src_managed c))), (''gid'', PInt (mu_gid (src_managed c)))]"

definition identity_valid :: "portal_user \<Rightarrow> portal_managed_user \<Rightarrow> portal_container \<Rightarrow>
    portal_compute_lease \<Rightarrow> portal_compute_lease \<Rightarrow> portal_storage_resource \<Rightarrow> bool" where
  "identity_valid user managed container active terminal storage \<longleftrightarrow>
     mu_portal_user_id managed = user_id user \<and>
     mu_compute_environment_state managed = ''ACTIVE'' \<and>
     mu_host_access_state managed = ''DISABLED_BY_PLATFORM_POLICY'' \<and>
     mu_shell managed = ''/usr/sbin/nologin'' \<and>
     mu_slurm_account managed \<noteq> None \<and> mu_slurm_qos managed \<noteq> None \<and>
     cont_managed_user_id container = mu_id managed \<and>
     cont_owner_managed_user_id container = mu_id managed \<and>
     Some (cont_name container) = mu_container_name managed \<and>
     mu_container_name managed = Some (''gpu-dev-'' @ mu_unix_username managed) \<and>
     lease_managed_user_id active = mu_id managed \<and>
     lease_owner_managed_user_id active = mu_id managed \<and>
     lease_owner_managed_user_id terminal = mu_id managed \<and>
     stor_owner_managed_user_id storage = mu_id managed"

definition profile_valid :: "portal_container \<Rightarrow> bool" where
  "profile_valid container \<longleftrightarrow>
     cont_development_profile container \<in> set [CPU_DEVELOPMENT_PROFILE, GPU_DEVELOPMENT_PROFILE] \<and>
     cont_gpu_count container =
       (if cont_development_profile container = GPU_DEVELOPMENT_PROFILE then 1 else 0) \<and>
     (cont_gpu_allocation_job_id container = None) = (cont_gpu_allocation_uuid container = None) \<and>
     (cont_development_profile container = GPU_DEVELOPMENT_PROFILE \<or>
      (cont_gpu_allocation_job_id container = None \<and> cont_gpu_allocation_uuid container = None))"

definition resolve_self_compute_context :: "portal_db \<Rightarrow> portal_user \<Rightarrow> bool \<Rightarrow> instant \<Rightarrow>
    self_resource_context result \<times> portal_db" where
  "resolve_self_compute_context db user require_running now =
     (case managed_identity_for_user db user of Inl e \<Rightarrow> (Inl e, db)
      | Inr managed \<Rightarrow>
        (case entitlement db (mu_id managed) now of
           (Inl e, db1) \<Rightarrow> (Inl e, db1)
         | (Inr (active, terminal), db1) \<Rightarrow>
           (case scalar (\<lambda>c. cont_owner_managed_user_id c = mu_id managed) (t_containers db1) of
              None \<Rightarrow> (Inl (HTTPException 404 ''MANAGED_CONTAINER_NOT_FOUND''), db1)
            | Some container \<Rightarrow>
              (case scalar (\<lambda>s. stor_owner_managed_user_id s = mu_id managed)
                      (t_storage_resources db1) of
                 None \<Rightarrow> (Inl (HTTPException 409 ''SELF_COMPUTE_CONTEXT_INVALID''), db1)
               | Some storage \<Rightarrow>
                 if \<not> identity_valid user managed container active terminal storage
                 then (Inl (HTTPException 409 ''SELF_COMPUTE_CONTEXT_INVALID''), db1)
                 else (case workspace_path (mu_uid managed) of
                     Inl e \<Rightarrow> (Inl e, db1)
                   | Inr workspace \<Rightarrow>
                     if stor_root_path storage \<noteq> path_str workspace \<or> \<not> profile_valid container
                     then (Inl (HTTPException 409 ''SELF_COMPUTE_CONTEXT_INVALID''), db1)
                     else if require_running \<and> cont_observed_state container \<noteq> ''RUNNING''
                     then (Inl (HTTPException 409 ''CONTAINER_STATE_REJECTED''), db1)
                     else (Inr \<lparr>src_portal_user_id = user_id user,
                         src_owner_login = user_normalized_login user, src_managed = managed,
                         src_container = container, src_active_lease = active,
                         src_terminal_lease = terminal, src_storage = storage\<rparr>, db1))))))"

subsection \<open>Logical job paths\<close>

definition path_component :: "string \<Rightarrow> bool" where
  "path_component p \<longleftrightarrow> p \<notin> set ['''', ''.'', ''..'', ''workspace''] \<and> CHR ''/'' \<notin> set p"

lemma join_split_on: "join [d] (split_on d s) = s"
proof (induction s)
  case (Cons c s)
  obtain p ps where ps: "split_on d s = p # ps" by (cases "split_on d s") auto
  show ?case
  proof (cases "c = d")
    case True
    then show ?thesis using Cons ps by simp
  next
    case False
    have "join [d] ((c # p) # ps) = c # join [d] (p # ps)" by (cases ps) auto
    then show ?thesis using Cons ps False by simp
  qed
qed simp

lemma join_parts_head: "c # p \<noteq> [] \<Longrightarrow> take 1 (join sep ((c # p) # ps)) = [c]"
  by (cases ps) auto

lemma logical_root_str: "path_str WORKSPACE_LOGICAL_ROOT = ''workspace''"
  by (simp add: WORKSPACE_LOGICAL_ROOT_def path_str_def)

text \<open>
  A logical job path names exactly one list of components, and nothing else is accepted:
  the parser succeeds with some parts if and only if the text is \<open>workspace\<close> and the parts joined
  by slashes, where no part is empty, a dot, a double dot, a nested \<open>workspace\<close>, or contains a
  slash. So no accepted path climbs out of the workspace, and every path has one spelling.
\<close>

theorem logical_path_exact:
  "workspace_relative_parts raw = Inr ps \<longleftrightarrow>
     raw = join ''/'' (''workspace'' # ps) \<and> list_all path_component ps"
proof
  let ?path = "parse_path raw"
  assume "workspace_relative_parts raw = Inr ps"
  then have path: "path_root ?path = []" "path_parts ?path \<noteq> []" "raw = path_str ?path"
    "hd (path_parts ?path) = ''workspace''" "ps = tl (path_parts ?path)"
    "\<not> list_ex (\<lambda>part. part \<in> set ['''', ''.'', ''..'']) (path_parts ?path)" "''workspace'' \<notin> set ps"
    by (auto simp: workspace_relative_parts_def relative_parts_of_def logical_root_str
        simp del: list.set split: if_splits)
  have parts: "path_parts ?path = ''workspace'' # ps"
    using path(2,4,5) by (cases "path_parts ?path") simp_all
  have "raw = join ''/'' (''workspace'' # ps)"
    using path(1,3) parts by (simp add: path_str_def)
  moreover have "path_component p" if p: "p \<in> set ps" for p
  proof -
    have "p \<in> set (path_parts ?path)" using p parts by simp
    then have "CHR ''/'' \<notin> set p"
      by (auto simp: parse_path_def dest: split_on_parts)
    moreover have "p \<notin> set ['''', ''.'', ''..'']" "p \<noteq> ''workspace''"
      using path(6,7) p parts by (auto simp: list_ex_iff)
    ultimately show ?thesis by (auto simp: path_component_def)
  qed
  ultimately show "raw = join ''/'' (''workspace'' # ps) \<and> list_all path_component ps"
    by (simp add: list_all_iff)
next
  assume raw: "raw = join ''/'' (''workspace'' # ps) \<and> list_all path_component ps"
  have head: "raw = ''workspace'' @ (if ps = [] then [] else ''/'' @ join ''/'' ps)"
    using raw by (cases ps) auto
  have root: "root_of raw = []"
    unfolding head root_of_def by simp
  have "split_on (CHR ''/'') raw = ''workspace'' # ps"
    using raw split_on_join [of "''workspace'' # ps" "CHR ''/''"]
    by (auto simp: path_component_def list_all_iff)
  then have "path_parts (parse_path raw) = ''workspace'' # ps"
    using raw by (auto simp: parse_path_def path_component_def list_all_iff filter_id_conv)
  moreover have "path_root (parse_path raw) = []" using root by (simp add: parse_path_def)
  moreover have "\<not> list_ex (\<lambda>part. part \<in> set ['''', ''.'', ''..'']) (''workspace'' # ps)"
    "''workspace'' \<notin> set ps"
    using raw by (auto simp: path_component_def list_all_iff list_ex_iff)
  ultimately show "workspace_relative_parts raw = Inr ps"
    using raw unfolding workspace_relative_parts_def relative_parts_of_def logical_root_str
    by (simp add: path_str_def)
qed

subsection \<open>Workspaces do not overlap\<close>

lemma plain_component:
  assumes "CHR ''/'' \<notin> set s" and "s \<noteq> ''''" and "s \<noteq> ''.''"
  shows "path_join p s = p\<lparr>path_parts := path_parts p @ [s]\<rparr>"
proof -
  obtain c t where "s = c # t" "c \<noteq> CHR ''/''" using assms by (cases s) auto
  then have "root_of s = []" by (simp add: root_of_def)
  then show ?thesis using assms by (simp add: path_join_def parse_path_def)
qed

lemma login_re_chars:
  assumes "login_re s" and "c \<in> set s"
  shows "is_lower c \<or> is_digit c \<or> c = CHR ''-''"
  using assms by (cases s) (auto simp: login_re_def list_all_iff)

lemma login_re_component: "login_re s \<Longrightarrow> path_join p s = p\<lparr>path_parts := path_parts p @ [s]\<rparr>"
proof (rule plain_component)
  assume s: "login_re s"
  show "CHR ''/'' \<notin> set s"
    using login_re_chars [OF s, of "CHR ''/''"] by (auto simp: char_class_defs)
  show "s \<noteq> ''''" using s by (auto simp: login_re_def)
  show "s \<noteq> ''.''" using login_re_chars [OF s, of "CHR ''.''"] by (auto simp: char_class_defs)
qed

lemma str_int_component:
  "0 \<le> n \<Longrightarrow> path_join p (str_int n) = p\<lparr>path_parts := path_parts p @ [str_int n]\<rparr>"
proof (rule plain_component)
  assume n: "0 \<le> n"
  have digits: "list_all is_digit (str_int n)" using n digits_nat_is_digit by (simp add: str_int_nonneg)
  then show "CHR ''/'' \<notin> set (str_int n)" "str_int n \<noteq> ''.''"
    by (auto simp: list_all_iff is_digit_def)
  show "str_int n \<noteq> ''''" using n by (simp add: str_int_nonneg)
qed

lemma literal_component [simp]:
  "path_join p ''home'' = p\<lparr>path_parts := path_parts p @ [''home'']\<rparr>"
  "path_join p ''workspace'' = p\<lparr>path_parts := path_parts p @ [''workspace'']\<rparr>"
  by (simp_all add: plain_component)

lemma workspace_path_Inr:
  "workspace_path uid = Inr p \<longleftrightarrow> MANAGED_UID_MIN \<le> uid \<and> uid \<le> MANAGED_UID_MAX \<and>
     p = \<lparr>path_root = ''/'', path_parts = [''storage'', ''users'', str_int uid]\<rparr>"
  by (auto simp: workspace_path_def managed_id_def str_int_component workspace_constants)

definition storage_paths :: "workspace_coordinates \<Rightarrow> posix_path list" where
  "storage_paths b = [wb_quota_root b, wb_backing_home b, wb_backing_workspace b,
     wb_canonical_workspace b, wb_canonical_home b]"

definition owned_storage :: "string \<Rightarrow> int \<Rightarrow> posix_path \<Rightarrow> bool" where
  "owned_storage u uid p \<longleftrightarrow> path_root p = ''/'' \<and>
     (take 3 (path_parts p) = [''storage'', ''users'', str_int uid] \<or>
      take 3 (path_parts p) = [''storage'', ''homes'', str_int uid] \<or>
      take 4 (path_parts p) = [''srv'', ''gpu-platform'', ''users'', u])"

lemma workspace_binding_paths:
  assumes "workspace_binding u uid gid layout = Inr b"
  shows "0 \<le> uid" "\<forall>p \<in> set (storage_paths b). owned_storage u uid p"
proof -
  show uid: "0 \<le> uid"
    using assms by (auto simp: workspace_binding_def managed_id_def workspace_constants
        split: if_splits sum.splits)
  show "\<forall>p \<in> set (storage_paths b). owned_storage u uid p"
    using assms uid
    by (auto simp: workspace_binding_def managed_id_def legacy_storage_path_def storage_paths_def
        binding_of_roots_def login_re_component str_int_component LEGACY_STORAGE_ROOT_def
        HOME_ALIAS_ROOT_def workspace_path_Inr owned_storage_def
        split: if_splits sum.splits workspace_layout.splits)
qed

lemma inside_path_take:
  "inside_path p q \<Longrightarrow> take n (path_parts q) = xs \<Longrightarrow> length xs = n \<Longrightarrow> take n (path_parts p) = xs"
  unfolding inside_path_def by (metis length_take min.absorb_iff2 min.commute take_take)

lemma take_4_3: "take 4 xs = [a, b, c, d] \<Longrightarrow> take 3 xs = [a, b, c]"
  by (drule arg_cong [where f = "take 3"]) simp

text \<open>
  Two managed identities with different user names and different UIDs never share storage:
  no quota root, home or workspace path of one lies inside a path of the other, whatever the
  backing layouts.
\<close>

theorem workspaces_disjoint:
  assumes "workspace_binding u1 uid1 gid1 layout1 = Inr b1"
    and "workspace_binding u2 uid2 gid2 layout2 = Inr b2"
    and "u1 \<noteq> u2" and "uid1 \<noteq> uid2"
    and "p \<in> set (storage_paths b1)" and "q \<in> set (storage_paths b2)"
  shows "\<not> inside_path p q"
proof -
  have "str_int uid1 \<noteq> str_int uid2"
    using assms(4) workspace_binding_paths(1) [OF assms(1)] workspace_binding_paths(1) [OF assms(2)]
      str_int_inj_nonneg by blast
  moreover have "owned_storage u1 uid1 p"
    using workspace_binding_paths(2) [OF assms(1)] assms(5) by blast
  moreover have "owned_storage u2 uid2 q"
    using workspace_binding_paths(2) [OF assms(2)] assms(6) by blast
  ultimately show ?thesis
    using assms(3) inside_path_take [of p q 3] inside_path_take [of p q 4]
      take_4_3 [of "path_parts p"]
    by (auto simp: owned_storage_def)
qed

text \<open>A bound pair of users for the concrete run.\<close>

theorem workspaces_disjoint_witness:
  "\<exists>b1 b2. workspace_binding ''alice'' 20001 20001 LEGACY_BIND_ALIAS = Inr b1 \<and>
     workspace_binding ''bob'' 20002 20002 CANONICAL_NATIVE = Inr b2 \<and>
     \<not> inside_path (wb_quota_root b1) (wb_quota_root b2)"
proof -
  obtain b1 where b1: "workspace_binding ''alice'' 20001 20001 LEGACY_BIND_ALIAS = Inr b1"
    by (simp add: workspace_binding_def managed_id_def workspace_path_def legacy_storage_path_def
        login_re_def char_class_defs workspace_constants)
  obtain b2 where b2: "workspace_binding ''bob'' 20002 20002 CANONICAL_NATIVE = Inr b2"
    by (simp add: workspace_binding_def managed_id_def workspace_path_def workspace_constants)
  have "\<not> inside_path (wb_quota_root b1) (wb_quota_root b2)"
    by (rule workspaces_disjoint [OF b1 b2]) (simp_all add: storage_paths_def)
  with b1 b2 show ?thesis by blast
qed

subsection \<open>What a resolution guarantees\<close>

definition sample_managed :: portal_managed_user where
  "sample_managed = \<lparr>mu_id = ''M'', mu_portal_user_id = ''u'', mu_unix_username = ''alice'',
     mu_uid = 20001, mu_gid = 20001, mu_shell = ''/usr/sbin/nologin'',
     mu_host_access_state = ''DISABLED_BY_PLATFORM_POLICY'',
     mu_compute_environment_state = ''ACTIVE'', mu_host_access_revoked_at = None,
     mu_gpu_isolation_state = ''READY'', mu_slurm_account = Some ''acc'', mu_slurm_qos = Some ''qos'',
     mu_project_id = Some 7, mu_quota_bytes = Some 322122547200,
     mu_lease_renewal_approval_required = True, mu_container_name = Some ''gpu-dev-alice'',
     mu_container_port = None, mu_onboarding_state = OB_ACTIVE, mu_ssh_key_state = ''SSH_READY'',
     mu_ssh_key_count = 1, mu_staged_at = Some 0, mu_compute_activated_at = Some 0,
     mu_created_at = 0, mu_updated_at = 0\<rparr>"

definition sample_container :: portal_container where
  "sample_container = \<lparr>cont_id = ''C'', cont_managed_user_id = ''M'',
     cont_owner_managed_user_id = ''M'', cont_name = ''gpu-dev-alice'', cont_image_digest = ''d'',
     cont_ssh_port = None, cont_desired_state = ''RUNNING'', cont_observed_state = ''RUNNING'',
     cont_development_profile = ''GPU_1_8CPU_32GB'', cont_gpu_count = 1,
     cont_gpu_allocation_job_id = None, cont_gpu_allocation_uuid = None, cont_safe_spec = PNone,
     cont_created_at = 0, cont_last_rebuilt_at = None\<rparr>"

definition sample_storage :: portal_storage_resource where
  "sample_storage = \<lparr>stor_id = ''S'', stor_owner_managed_user_id = ''M'',
     stor_root_path = ''/storage/users/20001'', stor_quota_bytes = 322122547200,
     stor_state = ''ACTIVE'', stor_created_at = 0\<rparr>"

definition sample_account :: portal_user where
  "sample_account = (sample_user ''user'')\<lparr>user_id := ''u'', user_normalized_login := ''alice''\<rparr>"

definition sample_env_db :: portal_db where
  "sample_env_db = sample_lease_db\<lparr>t_managed_users := [sample_managed],
     t_containers := [sample_container], t_storage_resources := [sample_storage]\<rparr>"

lemma sample_env_db_inv: "lease_inv sample_env_db"
  using sample_lease_db_inv by (simp add: lease_inv_def sample_env_db_def)

lemma str_int_20001: "str_int 20001 = ''20001''"
  by (simp add: str_int_def digits_nat.simps char_of_def bit_0)

lemma sample_workspace_path: "workspace_path 20001 =
    Inr \<lparr>path_root = ''/'', path_parts = [''storage'', ''users'', ''20001'']\<rparr>"
  by (simp add: workspace_path_Inr str_int_20001 MANAGED_UID_MIN_def MANAGED_UID_MAX_def)

lemmas sample_env_defs = sample_env_db_def sample_managed_def sample_container_def
  sample_storage_def sample_account_def

lemma managed_identity_Inr:
  "managed_identity_for_user db user = Inr m \<Longrightarrow>
   m \<in> set (t_managed_users db) \<and> mu_portal_user_id m = user_id user"
  by (auto simp: managed_identity_for_user_def split: option.splits dest!: scalar_SomeD)

text \<open>
  A user who resolves the compute environment gets his own: the identity is bound to the
  account, has no host access, and owns the container, the storage and both leases; the active
  lease covers the clock and grants at most one GPU; the storage root is the canonical workspace
  of the identity's UID; and the container runs when that is required.
\<close>

theorem self_context_owned:
  assumes "lease_inv db"
    and "resolve_self_compute_context db user require_running now = (Inr c, db')"
  shows "src_portal_user_id c = user_id user \<and>
    mu_portal_user_id (src_managed c) = user_id user \<and>
    mu_host_access_state (src_managed c) = ''DISABLED_BY_PLATFORM_POLICY'' \<and>
    cont_owner_managed_user_id (src_container c) = mu_id (src_managed c) \<and>
    stor_owner_managed_user_id (src_storage c) = mu_id (src_managed c) \<and>
    lease_owner_managed_user_id (src_active_lease c) = mu_id (src_managed c) \<and>
    lease_owner_managed_user_id (src_terminal_lease c) = mu_id (src_managed c) \<and>
    lease_starts_at (src_active_lease c) \<le> now \<and> now < lease_expires_at (src_active_lease c) \<and>
    0 \<le> max_gpu c \<and> max_gpu c \<le> 1 \<and>
    stor_root_path (src_storage c) = ''/storage/users/'' @ str_int (mu_uid (src_managed c)) \<and>
    (require_running \<longrightarrow> cont_observed_state (src_container c) = ''RUNNING'')"
proof -
  obtain managed active terminal container storage workspace where
    m: "managed_identity_for_user db user = Inr managed" and
    ent: "entitlement db (mu_id managed) now = (Inr (active, terminal), db')" and
    ids: "identity_valid user managed container active terminal storage" and
    ws: "workspace_path (mu_uid managed) = Inr workspace"
      "stor_root_path storage = path_str workspace" and
    run: "require_running \<longrightarrow> cont_observed_state container = ''RUNNING''" and
    c: "c = \<lparr>src_portal_user_id = user_id user, src_owner_login = user_normalized_login user,
         src_managed = managed, src_container = container, src_active_lease = active,
         src_terminal_lease = terminal, src_storage = storage\<rparr>"
    using assms(2)
    by (auto simp: resolve_self_compute_context_def
        split: sum.splits prod.splits option.splits if_splits)
  note ens = entitlement_Inr(1) [OF assms(1) ent]
  note sound = ensure_sound [OF assms(1) ens]
  have "0 \<le> lease_gpu_count active"
    using leases_okD(5) [OF _ sound(1)] entitlement_Inr(3) [OF assms(1) ent] by (simp add: lease_inv_def)
  then show ?thesis
    using ids ws run sound(4,5)
    by (simp add: c identity_valid_def max_gpu_def workspace_path_Inr path_str_def)
qed

theorem self_context_owned_witness:
  "\<exists>c db'. resolve_self_compute_context sample_env_db sample_account True (seconds 10) = (Inr c, db') \<and>
     mu_portal_user_id (src_managed c) = ''u'' \<and> max_gpu c \<le> 1"
proof -
  have ens: "ensure_active_lease sample_env_db ''M'' (seconds 10) =
      (Inr (sample_lease ''L1'' ''ACTIVE'' 0 86400 None), sample_env_db)"
    by (simp add: sample_env_db_def sample_lease_defs ensure_active_lease_def active_query_def
        order_desc_def ACTIVE_LEASE_STATES_def seconds_def)
  have "lease_chain_terminal sample_env_db (sample_lease ''L1'' ''ACTIVE'' 0 86400 None) =
      Inr (sample_lease ''L1'' ''ACTIVE'' 0 86400 None)"
    by (simp add: lease_chain_terminal_def chain_loop.simps approved_successor_def
        sample_env_db_def sample_lease_defs)
  with ens have "entitlement sample_env_db ''M'' (seconds 10) =
      (Inr (sample_lease ''L1'' ''ACTIVE'' 0 86400 None, sample_lease ''L1'' ''ACTIVE'' 0 86400 None),
       sample_env_db)"
    by (simp add: entitlement_def)
  then obtain c db' where c: "resolve_self_compute_context sample_env_db sample_account True (seconds 10) =
      (Inr c, db')"
    by (simp add: resolve_self_compute_context_def managed_identity_for_user_def sample_env_defs
        identity_valid_def profile_valid_def workspace_constants sample_lease_def
        sample_workspace_path path_str_def)
  have "user_id sample_account = ''u''" by (simp add: sample_account_def)
  with self_context_owned [OF sample_env_db_inv c] c show ?thesis by metis
qed

text \<open>
  A workspace is reported READY only on complete evidence: the resolution is the
  authenticated owner's, its quota and root path are the contract's, and the worker's evidence
  names that user, has every readiness flag true and every status PASS.
\<close>

theorem ready_contract_sound:
  assumes "resolve_workspace db user = Inr r" and "public_contract r evidence = Inr contract"
  shows "mu_portal_user_id (wr_managed r) = user_id user \<and>
    stor_owner_managed_user_id (wr_storage r) = mu_id (wr_managed r) \<and>
    stor_quota_bytes (wr_storage r) = WORKSPACE_QUOTA_BYTES \<and>
    stor_root_path (wr_storage r) = ''/storage/users/'' @ str_int (mu_uid (wr_managed r)) \<and>
    dget evidence ''username'' = PStr (mu_unix_username (wr_managed r)) \<and>
    (\<forall>key \<in> set required_true. dget evidence key = PBool True) \<and>
    (\<forall>key \<in> set required_pass. dget evidence key = PStr ''PASS'') \<and>
    dget contract ''canonical_path'' = PStr (stor_root_path (wr_storage r)) \<and>
    dget contract ''readiness'' = PStr ''READY''"
proof -
  have evidence: "dget evidence ''username'' = PStr (mu_unix_username (wr_managed r)) \<and>
    (\<forall>key \<in> set required_true. dget evidence key = PBool True) \<and>
    (\<forall>key \<in> set required_pass. dget evidence key = PStr ''PASS'') \<and>
    dget contract ''canonical_path'' = PStr (path_str (wb_canonical_workspace (wr_binding r))) \<and>
    dget contract ''readiness'' = PStr ''READY''"
    using assms(2) by (auto simp: public_contract_def Let_def list_ex_iff split: if_splits)
  obtain managed storage binding where
    m: "managed_identity_for_user db user = Inr managed" and
    s: "scalar (\<lambda>s. stor_owner_managed_user_id s = mu_id managed) (t_storage_resources db) = Some storage" and
    b: "workspace_binding (mu_unix_username managed) (mu_uid managed) (mu_gid managed)
          LEGACY_BIND_ALIAS = Inr binding" and
    ok: "stor_root_path storage = path_str (wb_canonical_workspace binding)"
      "stor_quota_bytes storage = WORKSPACE_QUOTA_BYTES" and
    r: "r = \<lparr>wr_workspace_id = stor_id storage, wr_managed = managed, wr_storage = storage,
         wr_binding = binding\<rparr>"
    using assms(1) by (auto simp: resolve_workspace_def split: sum.splits option.splits if_splits)
  have "path_str (wb_canonical_workspace binding) = ''/storage/users/'' @ str_int (mu_uid managed)"
    using b by (auto simp: workspace_binding_def workspace_path_Inr managed_id_def binding_of_roots_def
        path_str_def split: sum.splits if_splits)
  then show ?thesis
    using managed_identity_Inr [OF m] scalar_SomeD [OF s] ok evidence by (simp add: r)
qed

definition sample_evidence :: pyval where
  "sample_evidence = PDict ([(''username'', PStr ''alice''), (''uid'', PInt 20001), (''gid'', PInt 20001)]
     @ map (\<lambda>k. (k, PBool True)) required_true @ map (\<lambda>k. (k, PStr ''PASS'')) required_pass)"

theorem ready_contract_sound_witness:
  "\<exists>r contract. resolve_workspace sample_env_db sample_account = Inr r \<and>
     public_contract r sample_evidence = Inr contract \<and>
     dget contract ''readiness'' = PStr ''READY''"
proof -
  obtain b where b: "workspace_binding ''alice'' 20001 20001 LEGACY_BIND_ALIAS = Inr b"
    and canonical: "wb_canonical_workspace b =
      \<lparr>path_root = ''/'', path_parts = [''storage'', ''users'', ''20001'']\<rparr>"
    by (simp add: workspace_binding_def managed_id_def legacy_storage_path_def binding_of_roots_def
        login_re_def char_class_defs MANAGED_UID_MIN_def MANAGED_UID_MAX_def sample_workspace_path)
  have r: "resolve_workspace sample_env_db sample_account = Inr \<lparr>wr_workspace_id = ''S'',
      wr_managed = sample_managed, wr_storage = sample_storage, wr_binding = b\<rparr>" (is "_ = Inr ?r")
    using b canonical by (simp add: resolve_workspace_def managed_identity_for_user_def sample_env_defs
        WORKSPACE_QUOTA_BYTES_def path_str_def)
  obtain contract where "public_contract ?r sample_evidence = Inr contract"
    by (simp add: public_contract_def sample_evidence_def required_true_def required_pass_def
        py_eq_int_def sample_env_defs Let_def)
  then show ?thesis using ready_contract_sound [OF r] r by blast
qed

end
