(* ===== verification/Expiry_Service.thy ===== *)
theory Expiry_Service
  imports Workspace_Contract
begin

section \<open>The expiry worker\<close>

text \<open>
  \<open>expiry_service.py\<close>: closing renewal requests that can no longer be granted, choosing the due
  leases, and recycling the resources of each with bounded retries. A run reads its environment
  from a \<open>run_env\<close>: the SHA-256 digest, the supply of new identifiers, the clock when a step
  begins (the readings before the worker call are one instant) and the clock after the worker
  answered. The privileged worker is an argument: a function from the payload and the
  idempotency key to its answer, or to the code of a \<open>WorkerClientError\<close>. Chinese summary texts
  are written in English.
\<close>

record run_env =
  env_digest :: "string \<Rightarrow> string"
  env_ids :: "nat \<Rightarrow> uuid"
  env_now :: instant
  env_done :: instant

type_synonym worker = "pyval \<Rightarrow> string \<Rightarrow> string + pyval"

definition DUE_STATES :: "string list" where
  "DUE_STATES = [''ACTIVE'', ''RENEWAL_WINDOW'', ''RENEWAL_PENDING'', ''EXPIRED'']"

definition RECYCLE_EVIDENCE_VERSION :: string where
  "RECYCLE_EVIDENCE_VERSION = ''lease-recycle-cleanup-v1''"

definition MAX_AUTOMATIC_ATTEMPTS :: int where
  "MAX_AUTOMATIC_ATTEMPTS = 3"

definition AUTOMATIC_RETRY_DELAYS_SECONDS :: "int list" where
  "AUTOMATIC_RETRY_DELAYS_SECONDS = [60, 300]"

datatype cleanup_mode = AUTOMATIC | PLATFORM_OWNER_RECOVERY

fun mode_value :: "cleanup_mode \<Rightarrow> string" where
  "mode_value AUTOMATIC = ''AUTOMATIC''"
| "mode_value PLATFORM_OWNER_RECOVERY = ''PLATFORM_OWNER_RECOVERY''"

subsection \<open>Renewal requests of ended leases\<close>

definition expired_renewals :: "portal_db \<Rightarrow> instant \<Rightarrow> portal_lease_renewal_request list" where
  "expired_renewals db now =
     filter (\<lambda>r. renew_state r = ''REQUESTED'' \<and>
       list_ex (\<lambda>l. lease_id l = renew_lease_id r \<and> lease_expires_at l \<le> now) (t_leases db))
       (t_renewal_requests db)"

definition close_renewal :: "instant \<Rightarrow> portal_lease_renewal_request \<Rightarrow> portal_lease_renewal_request" where
  "close_renewal now r = r\<lparr>renew_state := ''CANCELLED'', renew_decided_at := Some now,
     renew_decided_by := None, renew_decision_comment := Some ''LEASE_EXPIRED_RESTORE_REQUIRED''\<rparr>"

definition worker_audit :: "string \<Rightarrow> string \<Rightarrow> string \<Rightarrow> string \<Rightarrow> string \<Rightarrow> string \<Rightarrow> string \<Rightarrow>
    pyval \<Rightarrow> uuid option \<Rightarrow> audit_call" where
  "worker_audit event actor role object_type object_id result agent metadata operation =
     \<lparr>ac_event_type = event, ac_actor = actor, ac_actor_role = role,
      ac_source_ip = ''local-worker-socket'', ac_user_agent = agent,
      ac_object_type = object_type, ac_object_id = object_id, ac_result = result,
      ac_metadata = metadata, ac_operation_id = operation\<rparr>"

fun close_renewals ::
    "run_env \<Rightarrow> nat \<Rightarrow> portal_lease_renewal_request list \<Rightarrow> portal_db \<Rightarrow> portal_db" where
  "close_renewals env k [] db = db"
| "close_renewals env k (r # rs) db =
     close_renewals env (Suc k) rs
       (record_audit (env_digest env) (env_ids env k) (env_now env)
         (worker_audit ''LEASE_RENEWAL_CANCELLED'' ''portal-lease-worker'' ''system''
            ''lease_renewal_request'' (renew_id r) ''SUCCESS'' ''h100-portal-lease-expiry''
            (PDict [(''reason'', PStr ''LEASE_EXPIRED_RESTORE_REQUIRED''),
                    (''lease_id'', PStr (renew_lease_id r)),
                    (''automatic_reconciliation'', PBool True)]) None)
         (modify_renewal (renew_id r) (close_renewal (env_now env)) db))"

definition reconcile_expired_renewal_requests ::
    "run_env \<Rightarrow> nat \<Rightarrow> portal_db \<Rightarrow> nat \<times> portal_db" where
  "reconcile_expired_renewal_requests env limit db =
     (let rows = take limit (order_asc renew_requested_at (expired_renewals db (env_now env)))
      in (length rows, close_renewals env 0 rows db))"

subsection \<open>Which leases are due\<close>

definition has_successor :: "portal_db \<Rightarrow> portal_compute_lease \<Rightarrow> bool" where
  "has_successor db l = list_ex (\<lambda>s. lease_previous_lease_id s = Some (lease_id l)) (t_leases db)"

definition has_activatable_successor :: "portal_db \<Rightarrow> instant \<Rightarrow> portal_compute_lease \<Rightarrow> bool" where
  "has_activatable_successor db now l =
     list_ex (\<lambda>s. lease_previous_lease_id s = Some (lease_id l) \<and> lease_state s = ''APPROVED'' \<and>
       lease_starts_at s \<le> now \<and> lease_expires_at s > now) (t_leases db)"

definition due_predicate :: "portal_db \<Rightarrow> instant \<Rightarrow> portal_compute_lease \<Rightarrow> bool" where
  "due_predicate db now l \<longleftrightarrow>
     lease_state l \<in> set DUE_STATES \<and> lease_expires_at l \<le> now \<and> lease_recycled_at l = None \<and>
     (\<not> has_successor db l \<or> has_activatable_successor db now l)"

subsection \<open>Evidence and the operation of a cleanup\<close>

definition cleanup_evidence :: "portal_operation \<Rightarrow> pyval option" where
  "cleanup_evidence operation =
     (let result = oper_dry_run_result operation in
      if \<not> is_dict result then None
      else let val = dget result ''recycle_cleanup'' in
        if \<not> is_dict val \<or> dget val ''version'' \<noteq> PStr RECYCLE_EVIDENCE_VERSION
        then None else Some val)"

definition operation_event :: "uuid \<Rightarrow> instant \<Rightarrow> uuid \<Rightarrow> operation_status option \<Rightarrow>
    operation_status \<Rightarrow> string \<Rightarrow> portal_db \<Rightarrow> portal_db" where
  "operation_event new_id now operation from_status to_status message db = add_operation_event
     \<lparr>oev_id = new_id, oev_operation_id = operation,
      oev_from_status = map_option status_value from_status,
      oev_to_status = status_value to_status, oev_safe_message = message,
      oev_created_at = now\<rparr> db"

definition running_evidence :: "cleanup_mode \<Rightarrow> int \<Rightarrow> pyval" where
  "running_evidence mode attempt_count = PDict [(''recycle_cleanup'', PDict [
     (''version'', PStr RECYCLE_EVIDENCE_VERSION), (''mode'', PStr (mode_value mode)),
     (''attempt_count'', PInt attempt_count), (''status'', PStr ''RUNNING''),
     (''lease_entitlement'', PStr ''EXPIRED''), (''raw_argv_recorded'', PBool False),
     (''data_delete_allowed'', PBool False)])]"

text \<open>
  \<open>int(v)\<close>: of a float the digits before the point (a float in exponent notation is outside the
  range of attempts the caller accepts, like the values on which \<open>int\<close> raises). A stored text
  is one that \<open>isoformat\<close> wrote, a \<open>PTime\<close>, or no ISO date.
\<close>

definition int_of :: "pyval \<Rightarrow> int option" where
  "int_of v = (case v of PStr s \<Rightarrow> int_of_text s
     | PFloat s \<Rightarrow> int_of_text (takeWhile (\<lambda>c. c \<noteq> CHR ''.'') s) | _ \<Rightarrow> py_int v)"

definition from_isoformat :: "pyval \<Rightarrow> instant option" where
  "from_isoformat v = (case v of PTime t \<Rightarrow> Some t | _ \<Rightarrow> None)"

definition expire_key :: "portal_compute_lease \<Rightarrow> string" where
  "expire_key lease = ''lease-expire:'' @ lease_id lease"

definition new_expire_operation ::
    "uuid \<Rightarrow> portal_managed_user \<Rightarrow> portal_compute_lease \<Rightarrow> instant \<Rightarrow> portal_operation" where
  "new_expire_operation new_id managed lease now =
     \<lparr>oper_id = new_id, oper_operation_type = ''lease.expire'', oper_target_type = ''compute_lease'',
      oper_target_id = lease_id lease, oper_requested_by = mu_portal_user_id managed,
      oper_owner_managed_user_id = Some (mu_id managed), oper_approved_by = None,
      oper_request_summary = ''trusted server clock triggered lease expiry recycling'',
      oper_validated_payload = PDict [(''managed_user_id'', PStr (mu_id managed)),
        (''lease_id'', PStr (lease_id lease)), (''expires_at'', PTime (lease_expires_at lease))],
      oper_idempotency_key = expire_key lease, oper_risk_level = RISK_HIGH,
      oper_status = OP_RUNNING, oper_created_at = now, oper_approved_at = None,
      oper_started_at = Some now, oper_finished_at = None, oper_worker_execution_id = None,
      oper_dry_run_result = running_evidence AUTOMATIC 1, oper_result_summary = None,
      oper_error_code = None, oper_rollback_status = None, oper_related_report = None,
      oper_related_git_commit = None\<rparr>"

definition restart_operation :: "instant \<Rightarrow> int \<Rightarrow> portal_operation \<Rightarrow> portal_operation" where
  "restart_operation now attempt_count o1 = o1\<lparr>oper_status := OP_RUNNING,
     oper_started_at := Some now, oper_finished_at := None, oper_error_code := None,
     oper_result_summary := None,
     oper_dry_run_result := running_evidence AUTOMATIC attempt_count\<rparr>"

text \<open>The attempt that a failed operation still allows at a time, if any.\<close>

definition next_attempt :: "portal_operation \<Rightarrow> instant \<Rightarrow> int option" where
  "next_attempt operation now =
     (if oper_status operation \<noteq> OP_FAILED then None
      else case cleanup_evidence operation of None \<Rightarrow> None
      | Some evidence \<Rightarrow>
        if dget evidence ''manual_review_required'' = PBool True then None
        else case int_of (dget_or evidence ''attempt_count'' (PInt 0)) of None \<Rightarrow> None
        | Some previous_attempts \<Rightarrow>
          if previous_attempts < 1 \<or> previous_attempts \<ge> MAX_AUTOMATIC_ATTEMPTS then None
          else case from_isoformat (dget evidence ''next_retry_at'') of None \<Rightarrow> None
          | Some next_retry \<Rightarrow> if now < next_retry then None else Some (previous_attempts + 1))"

definition automatic_operation :: "run_env \<Rightarrow> portal_db \<Rightarrow> portal_managed_user \<Rightarrow>
    portal_compute_lease \<Rightarrow> (uuid \<times> int) option \<times> portal_db" where
  "automatic_operation env db managed lease =
     (let now = env_now env in
      case scalar (\<lambda>r. oper_requested_by r = mu_portal_user_id managed \<and>
                       oper_idempotency_key r = expire_key lease) (t_operations db) of
        None \<Rightarrow>
          (Some (env_ids env 0, 1),
           operation_event (env_ids env 1) now (env_ids env 0) None OP_RUNNING
             ''expiry cleanup started''
             (add_operation (new_expire_operation (env_ids env 0) managed lease now) db))
      | Some operation \<Rightarrow>
        (case next_attempt operation now of
           None \<Rightarrow> (None, db)
         | Some attempt_count \<Rightarrow>
             (Some (oper_id operation, attempt_count),
              operation_event (env_ids env 1) now (oper_id operation) (Some OP_FAILED) OP_RUNNING
                (''automatic cleanup retry '' @ str_int attempt_count @ '' started'')
                (modify_operation (oper_id operation) (restart_operation now attempt_count) db))))"

definition activate_successor ::
    "portal_db \<Rightarrow> portal_compute_lease \<Rightarrow> instant \<Rightarrow> portal_compute_lease option \<times> portal_db" where
  "activate_successor db lease now =
     (case scalar (\<lambda>l. lease_previous_lease_id l = Some (lease_id lease) \<and>
                       lease_state l = ''APPROVED'') (t_leases db) of
        None \<Rightarrow> (None, db)
      | Some successor \<Rightarrow>
          if lease_expires_at successor \<le> now then (None, db)
          else (Some (successor\<lparr>lease_state := ''ACTIVE''\<rparr>),
                modify_lease (lease_id successor) (\<lambda>l. l\<lparr>lease_state := ''ACTIVE''\<rparr>)
                  (modify_lease (lease_id lease) (expire_row now) db)))"

text \<open>\<open>sorted({...})\<close> of the positive integers in a list; \<open>True\<close> counts as the integer 1.\<close>

definition safe_job_ids :: "pyval \<Rightarrow> int list" where
  "safe_job_ids v =
     (if \<not> is_list v then []
      else sort (remdups (filter (\<lambda>n. 0 < n) (List.map_filter py_int (list_items v)))))"

definition update_cancelled_jobs :: "portal_db \<Rightarrow> portal_managed_user \<Rightarrow> pyval \<Rightarrow> instant \<Rightarrow>
    (int list \<times> int list) \<times> portal_db" where
  "update_cancelled_jobs db managed result now =
     (let pending = safe_job_ids (dget result ''cancelled_pending_job_ids'');
          running = safe_job_ids (dget result ''cancelled_running_job_ids'');
          cancelled = pending @ running
      in ((pending, running),
          if cancelled = [] then db
          else db\<lparr>t_jobs := update_where
            (\<lambda>j. job_owner_managed_user_id j = mu_id managed \<and>
                 (case job_slurm_job_id j of None \<Rightarrow> False | Some n \<Rightarrow> n \<in> set cancelled))
            (\<lambda>j. j\<lparr>job_state := ''CANCELLED'', job_finished_at := Some now\<rparr>) (t_jobs db)\<rparr>))"

subsection \<open>Recording the outcome\<close>

definition job_id_list :: "int list \<Rightarrow> pyval" where
  "job_id_list ns = PList (map PInt ns)"

definition next_retry_time :: "cleanup_mode \<Rightarrow> int \<Rightarrow> pyval option \<Rightarrow> instant \<Rightarrow> instant option" where
  "next_retry_time mode attempt_count result now =
     (let worker_retryable = (case result of None \<Rightarrow> True
            | Some r \<Rightarrow> dget r ''cleanup_retryable'' = PBool True);
          automatic_retry = (mode = AUTOMATIC \<and> worker_retryable);
          retry_index = attempt_count - 1;
          has_retry_delay = (0 \<le> retry_index \<and>
            retry_index < int (length AUTOMATIC_RETRY_DELAYS_SECONDS))
      in if automatic_retry \<and> has_retry_delay
         then Some (now + seconds (AUTOMATIC_RETRY_DELAYS_SECONDS ! nat retry_index)) else None)"

definition failure_evidence ::
    "cleanup_mode \<Rightarrow> int \<Rightarrow> string \<Rightarrow> pyval option \<Rightarrow> instant \<Rightarrow> pyval" where
  "failure_evidence mode attempt_count error_code result now =
     (let worker_result = (case result of None \<Rightarrow> PDict [] | Some r \<Rightarrow> r);
          next_retry = next_retry_time mode attempt_count result now
      in PDict [(''recycle_cleanup'', PDict [
        (''version'', PStr RECYCLE_EVIDENCE_VERSION), (''mode'', PStr (mode_value mode)),
        (''attempt_count'', PInt attempt_count), (''status'', PStr ''FAILED''),
        (''error_code'', PStr error_code),
        (''first_failed_step'', PStr (take 64 (py_str
           (dget_or worker_result ''first_failed_step'' (PStr ''WORKER_TRANSPORT''))))),
        (''lease_entitlement'', PStr ''EXPIRED''),
        (''new_access'', PStr (take 32 (py_str
           (dget_or worker_result ''new_access'' (PStr ''NOT_VERIFIED''))))),
        (''container_stop'', PStr ''FAILED''),
        (''container_key_state'', PStr (take 32 (py_str
           (dget_or worker_result ''container_key_state'' (PStr ''NOT_VERIFIED''))))),
        (''cancelled_pending_job_ids'',
           job_id_list (safe_job_ids (dget worker_result ''cancelled_pending_job_ids''))),
        (''cancelled_running_job_ids'',
           job_id_list (safe_job_ids (dget worker_result ''cancelled_running_job_ids''))),
        (''data_preserved'', PBool (dget worker_result ''data_preserved'' = PBool True)),
        (''quota_preserved'', PBool True), (''linux_identity_preserved'', PBool True),
        (''slurm_history_preserved'', PBool True), (''auto_permanent_delete'', PBool False),
        (''automatic_retry'', PBool (next_retry \<noteq> None)),
        (''next_retry_at'', case next_retry of Some t \<Rightarrow> PTime t | None \<Rightarrow> PNone),
        (''manual_review_required'', PBool (next_retry = None)),
        (''raw_argv_recorded'', PBool False)])])"

definition expire_lease_row :: "instant \<Rightarrow> portal_compute_lease \<Rightarrow> portal_compute_lease" where
  "expire_lease_row now l = l\<lparr>lease_state := ''EXPIRED'', lease_expired_at :=
     Some (case lease_expired_at l of Some t \<Rightarrow> t | None \<Rightarrow> now)\<rparr>"

definition preserve_storage :: "uuid \<Rightarrow> portal_db \<Rightarrow> portal_db" where
  "preserve_storage owner db =
     (case scalar (\<lambda>s. stor_owner_managed_user_id s = owner) (t_storage_resources db) of
        None \<Rightarrow> db
      | Some storage \<Rightarrow> modify_storage (stor_id storage) (\<lambda>s. s\<lparr>stor_state := ''PRESERVED''\<rparr>) db)"

definition suspend_keys :: "portal_ssh_key list \<Rightarrow> portal_db \<Rightarrow> portal_db" where
  "suspend_keys keys db = fold (\<lambda>i. modify_ssh_key i
     (\<lambda>k. k\<lparr>key_container_install_state := ''SUSPENDED_BY_RECYCLE''\<rparr>)) (map key_id keys) db"

definition key_suspension_verified :: "pyval \<Rightarrow> string list \<Rightarrow> bool" where
  "key_suspension_verified result expected \<longleftrightarrow>
     dget result ''container_key_state'' = PStr ''SUSPENDED_BY_RECYCLE'' \<and>
     is_list (dget result ''container_key_fingerprints'') \<and>
     sort (map py_str (list_items (dget result ''container_key_fingerprints''))) = expected"

definition or_none :: "string \<Rightarrow> string option" where
  "or_none s = (if s = [] then None else Some s)"

definition fail_operation_row :: "instant \<Rightarrow> string \<Rightarrow> pyval \<Rightarrow> pyval \<Rightarrow>
    portal_operation \<Rightarrow> portal_operation" where
  "fail_operation_row now error_code worker_result evidence o1 =
     o1\<lparr>oper_status := OP_FAILED, oper_finished_at := Some now,
        oper_error_code := Some (take 64 error_code),
        oper_worker_execution_id :=
          (case or_none (take 64 (py_str (dget_or worker_result ''request_id'' (PStr '''')))) of
             Some i \<Rightarrow> Some i | None \<Rightarrow> oper_worker_execution_id o1),
        oper_dry_run_result := evidence,
        oper_result_summary := Some
          (if dget (dget evidence ''recycle_cleanup'') ''automatic_retry'' = PBool True
           then ''Lease entitlement expired; cleanup incomplete; automatic retry scheduled''
           else ''Lease entitlement expired; cleanup incomplete; platform_owner recovery required'')\<rparr>"

definition record_failure :: "run_env \<Rightarrow> portal_compute_lease \<Rightarrow> portal_managed_user \<Rightarrow>
    portal_container \<Rightarrow> portal_ssh_key list \<Rightarrow> string list \<Rightarrow> uuid \<Rightarrow> cleanup_mode \<Rightarrow> int \<Rightarrow>
    string \<Rightarrow> string \<Rightarrow> string \<Rightarrow> pyval option \<Rightarrow> portal_db \<Rightarrow> portal_db" where
  "record_failure env lease managed container keys expected operation mode attempt_count actor
       actor_role error_code result db =
     (let now = env_done env;
          worker_result = (case result of None \<Rightarrow> PDict [] | Some r \<Rightarrow> r);
          evidence = failure_evidence mode attempt_count error_code result now;
          shown = dget evidence ''recycle_cleanup'';
          db1 = modify_container (cont_id container) (\<lambda>c. c\<lparr>cont_desired_state := ''STOPPED''\<rparr>)
            (modify_managed (mu_id managed) (\<lambda>m. m\<lparr>mu_compute_environment_state := ''SUSPENDED''\<rparr>)
              (modify_lease (lease_id lease) (expire_lease_row now) db));
          db2 = (if dget worker_result ''gpu_allocation_revoked'' = PBool True
            then modify_container (cont_id container) (\<lambda>c. c\<lparr>cont_gpu_allocation_job_id := None,
                   cont_gpu_allocation_uuid := None, cont_observed_state := ''STOPPED''\<rparr>) db1
            else db1);
          db3 = (if key_suspension_verified worker_result expected then suspend_keys keys db2 else db2);
          db4 = snd (update_cancelled_jobs db3 managed worker_result now);
          db5 = preserve_storage (mu_id managed) db4;
          db6 = modify_operation operation (fail_operation_row now error_code worker_result evidence) db5;
          db7 = operation_event (env_ids env 3) now operation (Some OP_RUNNING) OP_FAILED
            (''cleanup failed safely: '' @ take 64 error_code) db6
      in record_audit (env_digest env) (env_ids env 4) now
           (worker_audit ''LEASE_EXPIRY_CLEANUP_FAILED'' actor actor_role ''compute_lease''
              (lease_id lease) ''FAILED'' ''h100-portal-lease-expiry''
              (PDict [(''error_code'', PStr (take 64 error_code)),
                 (''attempt_count'', PInt attempt_count), (''new_access'', dget shown ''new_access''),
                 (''next_retry_at'', dget shown ''next_retry_at''),
                 (''manual_review_required'', dget shown ''manual_review_required''),
                 (''data_preserved'', PBool True)]) (Some operation)) db7)"

definition success_evidence :: "cleanup_mode \<Rightarrow> int \<Rightarrow> int list \<Rightarrow> int list \<Rightarrow> pyval" where
  "success_evidence mode attempt_count pending running = PDict [(''recycle_cleanup'', PDict [
     (''version'', PStr RECYCLE_EVIDENCE_VERSION), (''mode'', PStr (mode_value mode)),
     (''attempt_count'', PInt attempt_count), (''status'', PStr ''SUCCEEDED''),
     (''lease_entitlement'', PStr ''EXPIRED''), (''new_access'', PStr ''DENIED''),
     (''container_stop'', PStr ''SUCCEEDED''),
     (''container_key_state'', PStr ''SUSPENDED_BY_RECYCLE''),
     (''cancelled_pending_job_ids'', job_id_list pending),
     (''cancelled_running_job_ids'', job_id_list running),
     (''data_preserved'', PBool True), (''quota_preserved'', PBool True),
     (''linux_identity_preserved'', PBool True), (''slurm_history_preserved'', PBool True),
     (''auto_permanent_delete'', PBool False), (''manual_review_required'', PBool False),
     (''raw_argv_recorded'', PBool False)])]"

definition new_recycle_item :: "uuid \<Rightarrow> portal_managed_user \<Rightarrow> portal_compute_lease \<Rightarrow>
    portal_container \<Rightarrow> instant \<Rightarrow> portal_resource_recycle_item" where
  "new_recycle_item new_id managed lease container now =
     \<lparr>item_id = new_id, item_owner_managed_user_id = mu_id managed, item_lease_id = lease_id lease,
      item_container_id = cont_id container, item_state = ''RECYCLE_BIN'',
      item_resource_name = cont_name container, item_image_digest = cont_image_digest container,
      item_retained_spec = cont_safe_spec container, item_connection_state = ''DISABLED'',
      item_data_preserved = True, item_auto_permanent_delete = False,
      item_expires_at = lease_expires_at lease, item_recycled_at = now, item_restored_at = None\<rparr>"

definition recycle_lease_row :: "instant \<Rightarrow> portal_compute_lease \<Rightarrow> portal_compute_lease" where
  "recycle_lease_row now l = l\<lparr>lease_state := ''RECYCLE_BIN'',
     lease_expired_at := Some (case lease_expired_at l of Some t \<Rightarrow> t | None \<Rightarrow> now),
     lease_recycled_at := Some now\<rparr>"

definition stop_container_row :: "portal_container \<Rightarrow> portal_container" where
  "stop_container_row c = c\<lparr>cont_observed_state := ''STOPPED'', cont_desired_state := ''STOPPED'',
     cont_gpu_allocation_job_id := None, cont_gpu_allocation_uuid := None\<rparr>"

definition succeed_operation_row :: "instant \<Rightarrow> pyval \<Rightarrow> pyval \<Rightarrow> portal_operation \<Rightarrow> portal_operation" where
  "succeed_operation_row now result evidence o1 =
     o1\<lparr>oper_status := OP_SUCCEEDED, oper_finished_at := Some now, oper_error_code := None,
        oper_worker_execution_id :=
          or_none (take 64 (py_str (dget_or result ''request_id'' (PStr '''')))),
        oper_result_summary :=
          Some ''Lease expired; jobs cancelled; container stopped and recoverable'',
        oper_dry_run_result := evidence\<rparr>"

definition record_success :: "run_env \<Rightarrow> portal_compute_lease \<Rightarrow> portal_managed_user \<Rightarrow>
    portal_container \<Rightarrow> portal_ssh_key list \<Rightarrow> uuid \<Rightarrow> pyval \<Rightarrow> cleanup_mode \<Rightarrow> int \<Rightarrow>
    string \<Rightarrow> string \<Rightarrow> portal_db \<Rightarrow> portal_db" where
  "record_success env lease managed container keys operation result mode attempt_count actor
       actor_role db =
     (let now = env_done env;
          (item, db1) = (case scalar (\<lambda>i. item_lease_id i = lease_id lease) (t_recycle_items db) of
              Some item \<Rightarrow> (item_id item, db)
            | None \<Rightarrow> (env_ids env 2,
                add_recycle_item (new_recycle_item (env_ids env 2) managed lease container now) db));
          db2 = modify_lease (lease_id lease) (recycle_lease_row now) db1;
          db3 = modify_managed (mu_id managed)
            (\<lambda>m. m\<lparr>mu_compute_environment_state := ''RECYCLED''\<rparr>) db2;
          db4 = modify_container (cont_id container) stop_container_row db3;
          db5 = preserve_storage (mu_id managed) (suspend_keys keys db4);
          ((pending, running), db6) = update_cancelled_jobs db5 managed result now;
          db7 = modify_operation operation (succeed_operation_row now result
            (success_evidence mode attempt_count pending running)) db6;
          db8 = operation_event (env_ids env 3) now operation (Some OP_RUNNING) OP_SUCCEEDED
            ''lease cleanup completed into recycle bin'' db7;
          db9 = record_audit (env_digest env) (env_ids env 4) now
            (worker_audit ''LEASE_EXPIRED'' actor actor_role ''compute_lease'' (lease_id lease)
               ''SUCCESS'' ''h100-portal-lease-expiry''
               (PDict [(''container_stopped'', PBool True), (''data_preserved'', PBool True)])
               (Some operation)) db8
      in record_audit (env_digest env) (env_ids env 5) now
           (worker_audit ''RESOURCE_RECYCLED'' actor actor_role ''resource_recycle_item'' item
              ''SUCCESS'' ''h100-portal-lease-expiry''
              (PDict [(''auto_permanent_delete'', PBool False)]) (Some operation)) db9)"

subsection \<open>One cleanup\<close>

definition retained_keys :: "portal_db \<Rightarrow> portal_managed_user \<Rightarrow> portal_ssh_key list" where
  "retained_keys db managed =
     filter (\<lambda>k. key_owner_managed_user_id k = mu_id managed \<and> key_active k \<and>
       key_scope k = ''CONTAINER'' \<and>
       key_container_install_state k \<in> set [''INSTALLED'', ''SUSPENDED_BY_RECYCLE'']) (t_ssh_keys db)"

definition recycle_payload :: "portal_compute_lease \<Rightarrow> portal_managed_user \<Rightarrow> portal_container \<Rightarrow>
    string list \<Rightarrow> pyval result" where
  "recycle_payload lease managed container expected =
     (case workspace_path (mu_uid managed) of Inl e \<Rightarrow> Inl e
      | Inr workspace \<Rightarrow>
        (case container_runtime_gpu_state (cont_gpu_allocation_job_id container)
                (cont_gpu_allocation_uuid container) of Inl e \<Rightarrow> Inl e
         | Inr expected_gpu \<Rightarrow> Inr (PDict [
            (''lease_id'', PStr (lease_id lease)), (''managed_user_id'', PStr (mu_id managed)),
            (''username'', PStr (mu_unix_username managed)), (''uid'', PInt (mu_uid managed)),
            (''gid'', PInt (mu_gid managed)), (''container_name'', PStr (cont_name container)),
            (''workspace_path'', PStr (path_str workspace)),
            (''development_profile'', PStr (cont_development_profile container)),
            (''container_gpu'', PInt (cont_gpu_count container)),
            (''gpu_allocation_job_id'', opt_val PInt (cont_gpu_allocation_job_id container)),
            (''gpu_allocation_uuid'', opt_val PStr (cont_gpu_allocation_uuid container)),
            (''slurm_account'', opt_val PStr (mu_slurm_account managed)),
            (''slurm_qos'', opt_val PStr (mu_slurm_qos managed)),
            (''expires_at'', PTime (lease_expires_at lease)), (''expected_gpu'', PStr expected_gpu),
            (''host_access'', PStr ''DISABLED_BY_PLATFORM_POLICY''),
            (''expected_key_fingerprints'', PList (map PStr expected))])))"

definition recycle_key :: "cleanup_mode \<Rightarrow> portal_compute_lease \<Rightarrow> uuid \<Rightarrow> string" where
  "recycle_key mode lease operation =
     (if mode = AUTOMATIC then ''resource-recycle:'' @ lease_id lease
      else ''resource-recycle-recovery:'' @ lease_id lease @ '':'' @ operation)"

definition cleanup_succeeded :: "pyval \<Rightarrow> string list \<Rightarrow> bool" where
  "cleanup_succeeded result expected \<longleftrightarrow>
     dget result ''status'' = PStr ''SUCCEEDED'' \<and>
     dget result ''container_state'' = PStr ''STOPPED'' \<and>
     dget result ''container_gpu'' = PStr ''NONE'' \<and>
     dget result ''gpu_allocation_job_id'' = PNone \<and>
     dget result ''gpu_allocation_uuid'' = PNone \<and>
     dget result ''container_key_state'' = PStr ''SUSPENDED_BY_RECYCLE'' \<and>
     is_list (dget result ''container_key_fingerprints'') \<and>
     sort (map py_str (list_items (dget result ''container_key_fingerprints''))) = expected \<and>
     dget result ''data_preserved'' = PBool True"

definition worker_error_code :: "pyval \<Rightarrow> string" where
  "worker_error_code result =
     (let error_value = dget result ''error'';
          error = (if is_dict error_value then error_value else PDict [])
      in take 64 (py_str (dget_or error ''code'' (PStr ''RECYCLE_FAILED''))))"

definition execute_cleanup :: "run_env \<Rightarrow> worker \<Rightarrow> portal_compute_lease \<Rightarrow> portal_managed_user \<Rightarrow>
    uuid \<Rightarrow> cleanup_mode \<Rightarrow> int \<Rightarrow> string \<Rightarrow> string \<Rightarrow> (portal_db, bool) action" where
  "execute_cleanup env worker lease managed operation mode attempt_count actor actor_role db =
     (case scalar (\<lambda>c. cont_owner_managed_user_id c = mu_id managed) (t_containers db) of
        None \<Rightarrow> (Inl (RuntimeError ''managed container for due lease is missing''), db)
      | Some container \<Rightarrow>
        (let keys = retained_keys db managed;
             expected = sort (map key_fingerprint_sha256 keys)
         in if expected = []
         then (Inl (RuntimeError ''managed container has no retained Portal SSH key''), db)
         else
          (let db1 = modify_container (cont_id container) (\<lambda>c. c\<lparr>cont_desired_state := ''STOPPED''\<rparr>)
             (modify_managed (mu_id managed) (\<lambda>m. m\<lparr>mu_compute_environment_state := ''SUSPENDED''\<rparr>)
               (modify_lease (lease_id lease) (expire_lease_row (env_now env)) db))
           in case recycle_payload lease managed container expected of
             Inl e \<Rightarrow> (Inl e, db1)
           | Inr payload \<Rightarrow>
             (case worker payload (recycle_key mode lease operation) of
                Inl code \<Rightarrow> (Inr False, record_failure env lease managed container keys expected
                  operation mode attempt_count actor actor_role code None db1)
              | Inr result \<Rightarrow>
                if cleanup_succeeded result expected
                then (Inr True, record_success env lease managed container keys operation result
                  mode attempt_count actor actor_role db1)
                else (Inr False, record_failure env lease managed container keys expected
                  operation mode attempt_count actor actor_role (worker_error_code result)
                  (Some result) db1)))))"

definition recycle_one ::
    "run_env \<Rightarrow> worker \<Rightarrow> portal_compute_lease \<Rightarrow> (portal_db, bool) action" where
  "recycle_one env worker lease db =
     (case get_managed db (lease_owner_managed_user_id lease) of
        None \<Rightarrow> (Inl (RuntimeError ''managed identity for due lease is missing''), db)
      | Some managed \<Rightarrow>
        (case activate_successor db lease (env_now env) of
           (Some successor, db1) \<Rightarrow>
             (Inr False, record_audit (env_digest env) (env_ids env 6) (env_now env)
                (worker_audit ''LEASE_RENEWAL_ACTIVATED'' ''portal-lease-worker'' ''system''
                   ''compute_lease'' (lease_id lease) ''SUCCESS'' ''h100-portal-lease-expiry''
                   (PDict [(''recycled'', PBool False)]) None) db1)
         | (None, db1) \<Rightarrow>
             (case automatic_operation env db1 managed lease of
                (None, db2) \<Rightarrow> (Inr False, db2)
              | (Some (operation, attempt_count), db2) \<Rightarrow>
                  execute_cleanup env worker lease managed operation AUTOMATIC attempt_count
                    ''portal-lease-worker'' ''system'' db2)))"

definition retry_failed_recycle :: "run_env \<Rightarrow> worker \<Rightarrow> portal_compute_lease \<Rightarrow> portal_operation \<Rightarrow>
    string \<Rightarrow> (portal_db, bool) action" where
  "retry_failed_recycle env worker lease operation actor db =
     (if lease_expires_at lease > env_now env \<or> lease_recycled_at lease \<noteq> None
      then (Inl (ValueError ''lease is not an expired unrecycled recovery target''), db)
      else case get_managed db (lease_owner_managed_user_id lease) of
        None \<Rightarrow> (Inl (ValueError ''managed identity for recovery is missing''), db)
      | Some managed \<Rightarrow>
        execute_cleanup env worker lease managed (oper_id operation) PLATFORM_OWNER_RECOVERY 1
          actor ''platform_owner''
          (operation_event (env_ids env 1) (env_now env) (oper_id operation) None OP_RUNNING
             ''platform_owner recycle recovery started''
             (modify_operation (oper_id operation)
               (\<lambda>o1. o1\<lparr>oper_status := OP_RUNNING, oper_started_at := Some (env_now env),
                  oper_dry_run_result := running_evidence PLATFORM_OWNER_RECOVERY 1\<rparr>) db)))"

subsection \<open>A run over the due leases\<close>

text \<open>
  \<open>process_due_leases\<close>: each due lease is handled in a session of its own, so the database at an
  exception is the one of the last commit. \<open>envs 0\<close> is the environment of the selection and
  \<open>envs (Suc n)\<close> that of the lease at position \<open>n\<close>.
\<close>

definition due_ids :: "portal_db \<Rightarrow> instant \<Rightarrow> nat \<Rightarrow> uuid list" where
  "due_ids db now limit =
     map lease_id (take limit (order_asc lease_expires_at (filter (due_predicate db now) (t_leases db))))"

fun process_loop :: "(nat \<Rightarrow> run_env) \<Rightarrow> worker \<Rightarrow> nat \<Rightarrow> uuid list \<Rightarrow> nat \<times> nat \<Rightarrow>
    (portal_db, nat \<times> nat) action" where
  "process_loop envs worker n [] counts db = (Inr counts, db)"
| "process_loop envs worker n (i # is) (processed, recycled) db =
     (case scalar (\<lambda>l. lease_id l = i \<and> due_predicate db (env_now (envs n)) l) (t_leases db) of
        None \<Rightarrow> process_loop envs worker (Suc n) is (processed, recycled) db
      | Some lease \<Rightarrow>
        (case recycle_one (envs n) worker lease db of
           (Inl e, _) \<Rightarrow> (Inl e, db)
         | (Inr ok, db1) \<Rightarrow>
             process_loop envs worker (Suc n) is
               (Suc processed, recycled + (if ok then 1 else 0)) db1))"

definition process_due_leases :: "(nat \<Rightarrow> run_env) \<Rightarrow> worker \<Rightarrow> nat \<Rightarrow> (portal_db, nat \<times> nat) action" where
  "process_due_leases envs worker limit db =
     (let db1 = snd (reconcile_expired_renewal_requests (envs 0) (max limit 128) db)
      in process_loop envs worker 1 (due_ids db1 (env_now (envs 0)) limit) (0, 0) db1)"

definition expiry_main :: "(nat \<Rightarrow> run_env) \<Rightarrow> worker \<Rightarrow> portal_db \<Rightarrow> int \<times> portal_db" where
  "expiry_main envs worker db =
     (case process_due_leases envs worker 32 db of
        (Inl e, db1) \<Rightarrow> (1, db1)
      | (Inr _, db1) \<Rightarrow> (0, db1))"

subsection \<open>What each step writes\<close>

lemma lease_inv_cong:
  "t_leases db' = t_leases db \<Longrightarrow> t_renewal_requests db' = t_renewal_requests db \<Longrightarrow>
   lease_inv db' = lease_inv db"
  by (simp add: lease_inv_def)

lemma suspend_keys_tables [simp]:
  "t_leases (suspend_keys keys db) = t_leases db"
  "t_renewal_requests (suspend_keys keys db) = t_renewal_requests db"
  "t_containers (suspend_keys keys db) = t_containers db"
  "t_operations (suspend_keys keys db) = t_operations db"
  "t_recycle_items (suspend_keys keys db) = t_recycle_items db"
  unfolding suspend_keys_def by (induction keys arbitrary: db) (simp_all add: modify_ssh_key_def)

lemma step_tables [simp]:
  "t_leases (preserve_storage u db) = t_leases db"
  "t_renewal_requests (preserve_storage u db) = t_renewal_requests db"
  "t_containers (preserve_storage u db) = t_containers db"
  "t_ssh_keys (preserve_storage u db) = t_ssh_keys db"
  "t_operations (preserve_storage u db) = t_operations db"
  "t_recycle_items (preserve_storage u db) = t_recycle_items db"
  "t_leases (snd (update_cancelled_jobs db m r n)) = t_leases db"
  "t_renewal_requests (snd (update_cancelled_jobs db m r n)) = t_renewal_requests db"
  "t_containers (snd (update_cancelled_jobs db m r n)) = t_containers db"
  "t_ssh_keys (snd (update_cancelled_jobs db m r n)) = t_ssh_keys db"
  "t_operations (snd (update_cancelled_jobs db m r n)) = t_operations db"
  "t_recycle_items (snd (update_cancelled_jobs db m r n)) = t_recycle_items db"
  by (simp_all add: preserve_storage_def modify_storage_def update_cancelled_jobs_def Let_def
      split: option.splits)

lemma write_tables [simp]:
  "t_leases (operation_event i n j f t m db) = t_leases db"
  "t_renewal_requests (operation_event i n j f t m db) = t_renewal_requests db"
  "t_containers (operation_event i n j f t m db) = t_containers db"
  "t_ssh_keys (operation_event i n j f t m db) = t_ssh_keys db"
  "t_operations (operation_event i n j f t m db) = t_operations db"
  "t_recycle_items (operation_event i n j f t m db) = t_recycle_items db"
  "t_managed_users (operation_event i n j f t m db) = t_managed_users db"
  "t_leases (modify_container i f1 db) = t_leases db"
  "t_renewal_requests (modify_container i f1 db) = t_renewal_requests db"
  "t_ssh_keys (modify_container i f1 db) = t_ssh_keys db"
  "t_operations (modify_container i f1 db) = t_operations db"
  "t_recycle_items (modify_container i f1 db) = t_recycle_items db"
  "t_leases (modify_managed i f2 db) = t_leases db"
  "t_renewal_requests (modify_managed i f2 db) = t_renewal_requests db"
  "t_containers (modify_managed i f2 db) = t_containers db"
  "t_ssh_keys (modify_managed i f2 db) = t_ssh_keys db"
  "t_operations (modify_managed i f2 db) = t_operations db"
  "t_recycle_items (modify_managed i f2 db) = t_recycle_items db"
  "t_leases (modify_operation i f3 db) = t_leases db"
  "t_renewal_requests (modify_operation i f3 db) = t_renewal_requests db"
  "t_containers (modify_operation i f3 db) = t_containers db"
  "t_ssh_keys (modify_operation i f3 db) = t_ssh_keys db"
  "t_recycle_items (modify_operation i f3 db) = t_recycle_items db"
  "t_managed_users (modify_operation i f3 db) = t_managed_users db"
  by (simp_all add: operation_event_def row_simps)

lemma add_tables [simp]:
  "t_leases (add_operation r db) = t_leases db"
  "t_renewal_requests (add_operation r db) = t_renewal_requests db"
  "t_containers (add_operation r db) = t_containers db"
  "t_ssh_keys (add_operation r db) = t_ssh_keys db"
  "t_managed_users (add_operation r db) = t_managed_users db"
  "t_leases (add_recycle_item item db) = t_leases db"
  "t_renewal_requests (add_recycle_item item db) = t_renewal_requests db"
  "t_containers (add_recycle_item item db) = t_containers db"
  "t_ssh_keys (add_recycle_item item db) = t_ssh_keys db"
  "t_containers (modify_lease i f db) = t_containers db"
  "t_ssh_keys (modify_lease i f db) = t_ssh_keys db"
  "t_recycle_items (modify_lease i f db) = t_recycle_items db"
  "t_operations (modify_lease i f db) = t_operations db"
  "t_managed_users (modify_lease i f db) = t_managed_users db"
  by (simp_all add: row_simps)

lemma modify_lease_cong:
  "t_leases db = t_leases db' \<Longrightarrow> t_leases (modify_lease i f db) = t_leases (modify_lease i f db')"
  by (simp add: modify_lease_def)

lemma modify_container_cong:
  "t_containers db = t_containers db' \<Longrightarrow>
   t_containers (modify_container i f db) = t_containers (modify_container i f db')"
  by (simp add: modify_container_def)

lemma update_cancelled_jobs_pair:
  assumes "update_cancelled_jobs db m r n = (x, db')"
  shows "t_leases db' = t_leases db" "t_renewal_requests db' = t_renewal_requests db"
    "t_containers db' = t_containers db" "t_ssh_keys db' = t_ssh_keys db"
    "t_recycle_items db' = t_recycle_items db"
proof -
  have db': "db' = snd (update_cancelled_jobs db m r n)" using assms by simp
  show "t_leases db' = t_leases db" "t_renewal_requests db' = t_renewal_requests db"
    "t_containers db' = t_containers db" "t_ssh_keys db' = t_ssh_keys db"
    "t_recycle_items db' = t_recycle_items db"
    by (simp_all add: db')
qed

lemma record_failure_leases [simp]:
  "t_leases (record_failure env l m c ks x o1 mode n a r e res db) =
     t_leases (modify_lease (lease_id l) (expire_lease_row (env_done env)) db)"
  "t_renewal_requests (record_failure env l m c ks x o1 mode n a r e res db) = t_renewal_requests db"
  by (simp_all add: record_failure_def Let_def)

lemma record_success_tables [simp]:
  "t_leases (record_success env l m c ks o1 res mode n a r db) =
     t_leases (modify_lease (lease_id l) (recycle_lease_row (env_done env)) db)"
  "t_renewal_requests (record_success env l m c ks o1 res mode n a r db) = t_renewal_requests db"
  "t_containers (record_success env l m c ks o1 res mode n a r db) =
     t_containers (modify_container (cont_id c) stop_container_row db)"
  by (auto simp: record_success_def Let_def update_cancelled_jobs_pair
      split: prod.splits option.splits intro: modify_lease_cong modify_container_cong)

subsection \<open>Retries\<close>

lemma cleanup_evidence_failure:
  "oper_dry_run_result o1 = failure_evidence mode n code result now \<Longrightarrow>
   cleanup_evidence o1 = Some (dget (failure_evidence mode n code result now) ''recycle_cleanup'')"
  by (simp add: cleanup_evidence_def failure_evidence_def Let_def)

text \<open>
  Automatic cleanup is bounded: after a failure at attempt \<open>n\<close> is recorded, the worker tries
  again exactly when the cleanup was automatic and retryable, \<open>n\<close> is 1 or 2, and 60 or 300 seconds
  have passed; the next attempt is then \<open>n + 1\<close>. So a lease is retried at most twice, and every
  other failure waits for an administrator.
\<close>

theorem automatic_retries_bounded:
  "next_attempt (fail_operation_row now code worker_result
       (failure_evidence mode n code result now) o1) t =
     (if mode = AUTOMATIC \<and>
         (case result of None \<Rightarrow> True | Some r \<Rightarrow> dget r ''cleanup_retryable'' = PBool True) \<and>
         (n = 1 \<or> n = 2) \<and> now + seconds (if n = 1 then 60 else 300) \<le> t
      then Some (n + 1) else None)"
proof -
  let ?o = "fail_operation_row now code worker_result (failure_evidence mode n code result now) o1"
  let ?e = "dget (failure_evidence mode n code result now) ''recycle_cleanup''"
  let ?retryable = "case result of None \<Rightarrow> True | Some r \<Rightarrow> dget r ''cleanup_retryable'' = PBool True"
  have status: "oper_status ?o = OP_FAILED"
    and evidence: "cleanup_evidence ?o = Some ?e"
    by (simp_all add: fail_operation_row_def cleanup_evidence_failure)
  have fields: "dget_or ?e ''attempt_count'' (PInt 0) = PInt n"
    "dget ?e ''manual_review_required'' = PBool (next_retry_time mode n result now = None)"
    "dget ?e ''next_retry_at'' =
       (case next_retry_time mode n result now of Some t \<Rightarrow> PTime t | None \<Rightarrow> PNone)"
    by (simp_all add: failure_evidence_def Let_def dget_or_def)
  have retry: "next_retry_time mode n result now =
      (if mode = AUTOMATIC \<and> ?retryable \<and> (n = 1 \<or> n = 2)
       then Some (now + seconds (if n = 1 then 60 else 300)) else None)"
    by (auto simp: next_retry_time_def AUTOMATIC_RETRY_DELAYS_SECONDS_def nth_Cons' split: option.splits)
  show ?thesis
    unfolding next_attempt_def status evidence option.case fields retry
    by (auto simp: int_of_def from_isoformat_def MAX_AUTOMATIC_ATTEMPTS_def)
qed

subsection \<open>Leases that are never due\<close>

text \<open>
  A renewal whose whole period passes before the worker or the user activates it strands
  the lease: from then on, as long as the two rows are as they are, neither the lease nor its
  successor is ever due, so the resources are not recycled, and the owner's active lease cannot
  be promoted to the successor either. Renewals may be as short as one second, and the worker
  runs once a minute.
\<close>

theorem missed_successor_strands_lease:
  assumes "leases_ok (t_leases db)" and "l \<in> set (t_leases db)" and "s \<in> set (t_leases db)"
    and "lease_previous_lease_id s = Some (lease_id l)" and "lease_state s = ''APPROVED''"
    and "lease_expires_at s \<le> now" and "now \<le> t"
  shows "\<not> due_predicate db t l \<and> \<not> due_predicate db t s \<and>
    fst (activate_successor db l t) = None \<and>
    promote_successor db l t = (Inl (HTTPException 409 ''LEASE_INACTIVE''), db)"
proof -
  have only: "m = s" if "m \<in> set (t_leases db)" "lease_previous_lease_id m = Some (lease_id l)" for m
  proof -
    have "lease_id m = lease_id s"
      using assms(1,3,4) that unfolding leases_ok_def by (metis option.distinct(1))
    then show ?thesis using leases_ok_same_id [OF assms(1) that(1) assms(3)] by blast
  qed
  have late: "lease_expires_at m \<le> t"
    if "m \<in> set (t_leases db)" "lease_previous_lease_id m = Some (lease_id l)" for m
    using only [OF that] assms(6,7) by simp
  have "has_successor db l" using assms(3,4) by (auto simp: has_successor_def list_ex_iff)
  moreover have "\<not> has_activatable_successor db t l"
    using late by (force simp: has_activatable_successor_def list_ex_iff)
  ultimately have "\<not> due_predicate db t l" by (simp add: due_predicate_def)
  moreover have "\<not> due_predicate db t s" using assms(5) by (simp add: due_predicate_def DUE_STATES_def)
  moreover have "fst (activate_successor db l t) = None"
    using late by (auto simp: activate_successor_def split: option.splits dest!: scalar_SomeD)
  moreover have "scalar (\<lambda>m. lease_previous_lease_id m = Some (lease_id l) \<and>
      lease_state m = ''APPROVED'' \<and> lease_starts_at m \<le> t \<and> lease_expires_at m > t) (t_leases db) = None"
    unfolding scalar_None_iff using late by force
  then have "promote_successor db l t = (Inl (HTTPException 409 ''LEASE_INACTIVE''), db)"
    by (simp add: promote_successor_def)
  ultimately show ?thesis by blast
qed

theorem missed_successor_strands_lease_witness:
  "\<not> due_predicate sample_chain_db (seconds 100000) (sample_lease ''L1'' ''ACTIVE'' 0 86400 None) \<and>
   \<not> due_predicate sample_chain_db (seconds 100000)
      (sample_lease ''L2'' ''APPROVED'' 86400 3600 (Some ''L1''))"
proof -
  have ok: "leases_ok (t_leases sample_chain_db)" using sample_chain_db_inv by (simp add: lease_inv_def)
  show ?thesis
    using missed_successor_strands_lease [OF ok, of "sample_lease ''L1'' ''ACTIVE'' 0 86400 None"
        "sample_lease ''L2'' ''APPROVED'' 86400 3600 (Some ''L1'')" "seconds 90000" "seconds 100000"]
    by (simp add: sample_chain_db_def) (simp add: sample_lease_def)
qed

subsection \<open>A failing lease stops the run\<close>

lemma retained_keys_cong:
  "t_ssh_keys db' = t_ssh_keys db \<Longrightarrow> retained_keys db' managed = retained_keys db managed"
  by (simp add: retained_keys_def)

text \<open>
  One lease whose container has no retained key stops the worker: its cleanup raises, the
  run ends with that error, and every due lease behind it in the order of expiry stays as it
  was. The rolled-back run leaves the lease due, so the next run meets it again.
\<close>

theorem failing_lease_blocks_queue:
  assumes "due_ids (snd (reconcile_expired_renewal_requests (envs 0) (max limit 128) db))
      (env_now (envs 0)) limit = i # rest"
    and "db1 = snd (reconcile_expired_renewal_requests (envs 0) (max limit 128) db)"
    and "scalar (\<lambda>l. lease_id l = i \<and> due_predicate db1 (env_now (envs 1)) l) (t_leases db1) = Some lease"
    and "get_managed db1 (lease_owner_managed_user_id lease) = Some managed"
    and "\<not> has_successor db1 lease"
    and "\<not> list_ex (\<lambda>r. oper_idempotency_key r = expire_key lease) (t_operations db1)"
    and "scalar (\<lambda>c. cont_owner_managed_user_id c = mu_id managed) (t_containers db1) = Some container"
    and "retained_keys db1 managed = []"
  shows "process_due_leases envs worker limit db =
    (Inl (RuntimeError ''managed container has no retained Portal SSH key''), db1) \<and>
    due_predicate db1 (env_now (envs 1)) lease"
proof -
  have none: "activate_successor db1 lease (env_now (envs 1)) = (None, db1)"
    using assms(5) by (auto simp: activate_successor_def has_successor_def list_ex_iff
        split: option.splits dest!: scalar_SomeD)
  have "scalar (\<lambda>r. oper_requested_by r = mu_portal_user_id managed \<and>
      oper_idempotency_key r = expire_key lease) (t_operations db1) = None"
    using assms(6) by (auto simp: list_ex_iff scalar_None_iff)
  then obtain db2 where op: "automatic_operation (envs 1) db1 managed lease =
      (Some (env_ids (envs 1) 0, 1), db2)" and same: "t_containers db2 = t_containers db1"
      "t_ssh_keys db2 = t_ssh_keys db1"
    by (simp add: automatic_operation_def Let_def)
  have "retained_keys db2 managed = []"
    using assms(8) retained_keys_cong [OF same(2)] by simp
  then have "fst (recycle_one (envs 1) worker lease db1) =
      Inl (RuntimeError ''managed container has no retained Portal SSH key'')"
    using assms(4,7) none op same(1) by (simp add: recycle_one_def execute_cleanup_def)
  then obtain db3 where "recycle_one (envs 1) worker lease db1 =
      (Inl (RuntimeError ''managed container has no retained Portal SSH key''), db3)"
    by (cases "recycle_one (envs 1) worker lease db1") simp
  then have "process_loop envs worker 1 (i # rest) (0, 0) db1 =
      (Inl (RuntimeError ''managed container has no retained Portal SSH key''), db1)"
    using assms(3) by simp
  moreover have "due_predicate db1 (env_now (envs 1)) lease"
    using scalar_SomeD [OF assms(3)] by simp
  ultimately show ?thesis
    using assms(1) unfolding process_due_leases_def Let_def assms(2) by simp
qed

definition sample_env :: run_env where
  "sample_env = \<lparr>env_digest = (\<lambda>s. s), env_ids = (\<lambda>n. ''id-'' @ replicate n (CHR ''x'')),
     env_now = seconds 90000, env_done = seconds 90010\<rparr>"

theorem failing_lease_blocks_queue_witness:
  "fst (process_due_leases (\<lambda>_. sample_env) (\<lambda>p k. Inl ''UNREACHABLE'') 32 sample_env_db) =
     Inl (RuntimeError ''managed container has no retained Portal SSH key'')"
proof -
  have rec: "snd (reconcile_expired_renewal_requests sample_env 128 sample_env_db) = sample_env_db"
    by (simp add: reconcile_expired_renewal_requests_def expired_renewals_def order_asc_def Let_def
        sample_env_db_def sample_lease_db_def empty_db_def)
  have due: "due_predicate sample_env_db (seconds 90000) (sample_lease ''L1'' ''ACTIVE'' 0 86400 None)"
    by (simp add: due_predicate_def has_successor_def DUE_STATES_def sample_env_db_def sample_lease_defs
        seconds_def)
  have "due_ids sample_env_db (seconds 90000) 32 = [''L1'']"
    using due by (simp add: due_ids_def order_asc_def sample_env_db_def sample_lease_db_def
        sample_lease_def)
  then show ?thesis
    using failing_lease_blocks_queue [of "\<lambda>_. sample_env" 32 sample_env_db "''L1''" "[]" sample_env_db
        "sample_lease ''L1'' ''ACTIVE'' 0 86400 None" sample_managed sample_container
        "\<lambda>p k. Inl ''UNREACHABLE''"] rec due
    by (simp add: sample_env_def sample_env_defs get_managed_def has_successor_def retained_keys_def
        sample_lease_defs)
qed

subsection \<open>Closing requests, and the invariant of a run\<close>

lemma close_renewal_idem [simp]: "close_renewal now (close_renewal now r) = close_renewal now r"
  by (simp add: close_renewal_def)

lemma close_renewal_id [simp]: "renew_id (close_renewal now r) = renew_id r"
  by (simp add: close_renewal_def)

lemma close_renewals_tables:
  "t_leases (close_renewals env k rs db) = t_leases db"
  "t_renewal_requests (close_renewals env k rs db) =
     map (\<lambda>r. if renew_id r \<in> renew_id ` set rs then close_renewal (env_now env) r else r)
       (t_renewal_requests db)"
  by (induction rs arbitrary: k db) (auto simp: modify_renewal_def update_where_def)

text \<open>
  The reconciliation closes exactly the renewal requests that wait although their lease has
  ended: when the limit suffices it reports their number, cancels each without a decider, keeps
  every other request and all leases, and a second run at the same time finds nothing.
\<close>

theorem expired_renewals_closed:
  assumes "distinct (map renew_id (t_renewal_requests db))"
    and "length (expired_renewals db (env_now env)) \<le> limit"
    and "reconcile_expired_renewal_requests env limit db = (n, db')"
  shows "n = length (expired_renewals db (env_now env)) \<and> t_leases db' = t_leases db \<and>
    t_renewal_requests db' = map (\<lambda>r. if r \<in> set (expired_renewals db (env_now env))
      then close_renewal (env_now env) r else r) (t_renewal_requests db) \<and>
    reconcile_expired_renewal_requests env limit db' = (0, db')"
proof -
  let ?now = "env_now env"
  let ?rows = "order_asc renew_requested_at (expired_renewals db ?now)"
  have rows: "take limit ?rows = ?rows" using assms(2) by (simp add: order_asc_def)
  have n: "n = length (expired_renewals db ?now)" and db': "db' = close_renewals env 0 ?rows db"
    using assms(3) unfolding reconcile_expired_renewal_requests_def Let_def rows
    by (simp_all add: order_asc_def)
  have same_id: "r = q" if "r \<in> set (t_renewal_requests db)" "q \<in> set (t_renewal_requests db)"
      "renew_id r = renew_id q" for r q
    using assms(1) that by (auto simp: distinct_map dest: inj_onD)
  have closed: "renew_id r \<in> renew_id ` set ?rows \<longleftrightarrow> r \<in> set (expired_renewals db ?now)"
    if "r \<in> set (t_renewal_requests db)" for r
    using same_id [OF that] that by (auto simp: expired_renewals_def image_iff)
  have table: "t_renewal_requests db' = map (\<lambda>r. if r \<in> set (expired_renewals db ?now)
      then close_renewal ?now r else r) (t_renewal_requests db)"
    unfolding db' close_renewals_tables using closed by (intro map_cong) simp_all
  have leases: "t_leases db' = t_leases db" unfolding db' by (rule close_renewals_tables)
  have "r \<notin> set (expired_renewals db' ?now)" for r
  proof
    assume "r \<in> set (expired_renewals db' ?now)"
    then have r: "r \<in> set (t_renewal_requests db')" "renew_state r = ''REQUESTED''"
      "list_ex (\<lambda>l. lease_id l = renew_lease_id r \<and> lease_expires_at l \<le> ?now) (t_leases db)"
      by (auto simp: expired_renewals_def leases)
    from r(1) obtain q where q: "q \<in> set (t_renewal_requests db)"
      "r = (if q \<in> set (expired_renewals db ?now) then close_renewal ?now q else q)"
      unfolding table by auto
    show False
    proof (cases "q \<in> set (expired_renewals db ?now)")
      case True
      then show False using q(2) r(2) by (simp add: close_renewal_def)
    next
      case False
      then have "r = q" using q(2) by simp
      then show False using False q(1) r(2,3) by (simp add: expired_renewals_def)
    qed
  qed
  then have "expired_renewals db' ?now = []" by (metis list.set_intros(1) neq_Nil_conv)
  then have "reconcile_expired_renewal_requests env limit db' = (0, db')"
    by (simp add: reconcile_expired_renewal_requests_def order_asc_def)
  with n leases table show ?thesis by blast
qed

theorem expired_renewals_closed_witness:
  "fst (reconcile_expired_renewal_requests sample_env 128 sample_chain_db) = 1 \<and>
   map renew_state (t_renewal_requests
     (snd (reconcile_expired_renewal_requests sample_env 128 sample_chain_db))) = [''CANCELLED'']"
proof -
  have e: "expired_renewals sample_chain_db (env_now sample_env) = [sample_renewal ''R2'' ''L2'']"
    by (simp add: expired_renewals_def sample_lease_defs sample_env_def seconds_def)
  obtain n db' where r: "reconcile_expired_renewal_requests sample_env 128 sample_chain_db = (n, db')"
    by (cases "reconcile_expired_renewal_requests sample_env 128 sample_chain_db")
  have "n = 1" "t_renewal_requests db' = [close_renewal (env_now sample_env) (sample_renewal ''R2'' ''L2'')]"
    using expired_renewals_closed [OF _ _ r]
    by (simp_all add: e) (simp_all add: sample_chain_db_def)
  then show ?thesis by (simp add: r close_renewal_def)
qed

lemma lease_inv_expire_row: "lease_inv db \<Longrightarrow> lease_inv (modify_lease i (expire_lease_row now) db)"
  by (rule lease_inv_modify_lease [where s = "''EXPIRED''" and a = lease_approved_at
        and c = lease_recycled_at]) (simp_all add: expire_lease_row_def lease_state_values_def)

lemma lease_inv_recycle_row: "lease_inv db \<Longrightarrow> lease_inv (modify_lease i (recycle_lease_row now) db)"
  by (rule lease_inv_modify_lease [where s = "''RECYCLE_BIN''" and a = lease_approved_at
        and c = "\<lambda>_. Some now"]) (simp_all add: recycle_lease_row_def lease_state_values_def)

lemma lease_inv_audit [simp]: "lease_inv (record_audit h i n c db) = lease_inv db"
  by (rule lease_inv_cong) simp_all

lemma lease_inv_close: "lease_inv db \<Longrightarrow> lease_inv (close_renewals env k rs db)"
proof (induction rs arbitrary: k db)
  case (Cons r rs)
  have "lease_inv (modify_renewal (renew_id r) (close_renewal (env_now env)) db)"
    by (rule lease_inv_modify_renewal [OF Cons.prems]) (simp_all add: close_renewal_def)
  then show ?case by (simp add: Cons.IH)
qed simp

lemma lease_inv_record_failure:
  "lease_inv db \<Longrightarrow> lease_inv (record_failure env l m c ks x o1 mode n a r e res db)"
  using lease_inv_expire_row [of db "lease_id l" "env_done env"] by (simp add: lease_inv_def)

lemma lease_inv_record_success:
  "lease_inv db \<Longrightarrow> lease_inv (record_success env l m c ks o1 res mode n a r db)"
  using lease_inv_recycle_row [of db "lease_id l" "env_done env"] by (simp add: lease_inv_def)

lemma lease_inv_execute:
  assumes inv: "lease_inv db"
  shows "lease_inv (snd (execute_cleanup env worker l m o1 mode n a role db))"
proof -
  have started: "lease_inv (modify_container i f1 (modify_managed j f2
      (modify_lease (lease_id l) (expire_lease_row (env_now env)) db)))" for i f1 j f2
    using lease_inv_expire_row [OF inv, of "lease_id l" "env_now env"] by (simp add: lease_inv_def)
  show ?thesis
    unfolding execute_cleanup_def Let_def
    by (auto split: option.splits sum.splits
        simp: inv started intro!: lease_inv_record_failure lease_inv_record_success)
qed

lemma lease_inv_recycle_one:
  assumes inv: "lease_inv db"
  shows "lease_inv (snd (recycle_one env worker l db))"
proof -
  have activate: "lease_inv (snd (activate_successor db l (env_now env)))"
    using inv by (auto simp: activate_successor_def lease_state_values_def
        intro!: lease_inv_state lease_inv_expire split: option.splits)
  have op: "lease_inv (snd (automatic_operation env db1 m l))" if "lease_inv db1" for db1 m
    using that by (auto simp: automatic_operation_def Let_def lease_inv_def split: option.splits)
  show ?thesis
    using inv activate op
    by (auto simp: recycle_one_def lease_inv_execute split: option.splits prod.splits)
      (metis lease_inv_execute snd_conv)+
qed

text \<open>
  C30. A run of the expiry worker over any due leases, whatever the privileged worker answers and
  also when it is cut short by an exception, keeps the invariant of the lease and renewal tables.
\<close>

theorem expiry_run_keeps_invariant:
  assumes "lease_inv db"
  shows "lease_inv (snd (process_due_leases envs worker limit db))"
proof -
  have loop: "lease_inv (snd (process_loop envs worker n is counts db1))" if "lease_inv db1" for n "is" counts db1
    using that
  proof (induction envs worker n "is" counts db1 rule: process_loop.induct)
    case (2 envs worker n i "is" processed recycled db1)
    have "lease_inv db2" if "recycle_one (envs n) worker l db1 = (x, db2)" for l x db2
      using lease_inv_recycle_one [OF "2.prems", of "envs n" worker l] that by simp
    then show ?case using 2 by (auto split: option.splits prod.splits sum.splits)
  qed simp
  have "lease_inv (snd (reconcile_expired_renewal_requests (envs 0) (max limit 128) db))"
    using assms by (simp add: reconcile_expired_renewal_requests_def Let_def lease_inv_close)
  then show ?thesis by (simp add: process_due_leases_def Let_def loop)
qed

theorem expiry_run_keeps_invariant_witness:
  "lease_inv (snd (process_due_leases (\<lambda>_. sample_env) (\<lambda>p k. Inl ''UNREACHABLE'') 32 sample_chain_db))"
  by (rule expiry_run_keeps_invariant [OF sample_chain_db_inv])

subsection \<open>Evidence before recycling\<close>

lemma get_lease_cong: "t_leases db' = t_leases db \<Longrightarrow> get_lease db' i = get_lease db i"
  by (simp add: get_lease_def)

lemma get_container_cong: "t_containers db' = t_containers db \<Longrightarrow> get_container db' i = get_container db i"
  by (simp add: get_container_def)

lemma get_lease_modify:
  "(\<And>l. lease_id (f l) = lease_id l) \<Longrightarrow> get_lease (modify_lease i f db) i = map_option f (get_lease db i)"
  by (simp add: lease_store.lookup_modify)

lemma get_lease_outcome:
  "get_lease (record_failure env l m c ks x o1 mode n a r e res db) (lease_id l) =
     map_option (expire_lease_row (env_done env)) (get_lease db (lease_id l))"
  "get_lease (record_success env l m c ks o1 rs mode n a r db) (lease_id l) =
     map_option (recycle_lease_row (env_done env)) (get_lease db (lease_id l))"
  "get_lease (modify_container j f1 (modify_managed k f2 db)) i = get_lease db i"
  using get_lease_modify [of "expire_lease_row (env_done env)" "lease_id l" db]
    get_lease_modify [of "recycle_lease_row (env_done env)" "lease_id l" db]
  by (simp_all add: get_lease_def expire_lease_row_def recycle_lease_row_def)

text \<open>
  C31. A lease enters the recycle bin only on verified evidence: the worker was called with the
  payload of the lease, its owner and the owner's container, and answered that the container
  stopped without a GPU, that exactly the retained keys are suspended, and that the data is
  preserved. Then the container is recorded as stopped and without GPU. In every other case the
  lease is expired and stays unrecycled.
\<close>

theorem recycled_only_with_evidence:
  assumes "get_lease db (lease_id lease) = Some row"
    and "execute_cleanup env worker lease managed operation mode n actor role db = (Inr ok, db')"
  shows "\<exists>container payload row'.
    scalar (\<lambda>c. cont_owner_managed_user_id c = mu_id managed) (t_containers db) = Some container \<and>
    recycle_payload lease managed container
      (sort (map key_fingerprint_sha256 (retained_keys db managed))) = Inr payload \<and>
    get_lease db' (lease_id lease) = Some row' \<and>
    (if ok
     then retained_keys db managed \<noteq> [] \<and>
       (\<exists>result. worker payload (recycle_key mode lease operation) = Inr result \<and>
          cleanup_succeeded result (sort (map key_fingerprint_sha256 (retained_keys db managed)))) \<and>
       lease_state row' = ''RECYCLE_BIN'' \<and> lease_recycled_at row' = Some (env_done env) \<and>
       (\<exists>c. get_container db' (cont_id container) = Some c \<and> cont_observed_state c = ''STOPPED'' \<and>
          cont_gpu_allocation_job_id c = None \<and> cont_gpu_allocation_uuid c = None)
     else lease_state row' = ''EXPIRED'' \<and> lease_recycled_at row' = lease_recycled_at row)"
proof -
  let ?expected = "sort (map key_fingerprint_sha256 (retained_keys db managed))"
  obtain container payload where
    c: "scalar (\<lambda>c. cont_owner_managed_user_id c = mu_id managed) (t_containers db) = Some container" and
    keys: "?expected \<noteq> []" and
    p: "recycle_payload lease managed container ?expected = Inr payload"
    using assms(2) by (auto simp: execute_cleanup_def Let_def split: option.splits if_splits sum.splits)
  define db1 where "db1 = modify_container (cont_id container) (\<lambda>c. c\<lparr>cont_desired_state := ''STOPPED''\<rparr>)
    (modify_managed (mu_id managed) (\<lambda>m. m\<lparr>mu_compute_environment_state := ''SUSPENDED''\<rparr>)
      (modify_lease (lease_id lease) (expire_lease_row (env_now env)) db))"
  have outcome: "(Inr ok :: bool result, db') = (case worker payload (recycle_key mode lease operation) of
      Inl code \<Rightarrow> (Inr False, record_failure env lease managed container (retained_keys db managed)
        ?expected operation mode n actor role code None db1)
    | Inr result \<Rightarrow>
        if cleanup_succeeded result ?expected
        then (Inr True, record_success env lease managed container (retained_keys db managed)
          operation result mode n actor role db1)
        else (Inr False, record_failure env lease managed container (retained_keys db managed)
          ?expected operation mode n actor role (worker_error_code result) (Some result) db1))"
    using assms(2) [symmetric] c keys p unfolding execute_cleanup_def db1_def by (simp add: Let_def)
  have row1: "get_lease db1 (lease_id lease) = Some (expire_lease_row (env_now env) row)"
    unfolding db1_def get_lease_outcome(3)
    using get_lease_modify [of "expire_lease_row (env_now env)"] assms(1)
    by (simp add: expire_lease_row_def)
  have cont: "scalar (\<lambda>r. cont_id r = cont_id container) (t_containers db) \<noteq> None"
    using scalar_SomeD [OF c] by (auto simp: scalar_None_iff)
  have cont1: "get_container db1 (cont_id container) \<noteq> None"
    using cont unfolding db1_def
    by (simp add: container_store.lookup_modify_None) (simp add: get_container_def)
  show ?thesis
  proof (cases ok)
    case True
    then obtain result where res: "worker payload (recycle_key mode lease operation) = Inr result"
      "cleanup_succeeded result ?expected"
      and db': "db' = record_success env lease managed container (retained_keys db managed)
        operation result mode n actor role db1"
      using outcome by (auto split: sum.splits if_splits)
    have "get_container db' (cont_id container) =
        map_option stop_container_row (get_container db1 (cont_id container))"
      unfolding db'
      by (subst get_container_cong [OF record_success_tables(3)])
        (simp add: container_store.lookup_modify stop_container_row_def)
    then have stopped: "\<exists>c. get_container db' (cont_id container) = Some c \<and>
        cont_observed_state c = ''STOPPED'' \<and> cont_gpu_allocation_job_id c = None \<and>
        cont_gpu_allocation_uuid c = None"
      using cont1 by (auto simp: stop_container_row_def)
    have "get_lease db' (lease_id lease) =
        Some (recycle_lease_row (env_done env) (expire_lease_row (env_now env) row))"
      unfolding db' get_lease_outcome row1 by simp
    moreover have "retained_keys db managed \<noteq> []" using keys by auto
    ultimately show ?thesis
      using c p res stopped True by (auto simp: recycle_lease_row_def)
  next
    case False
    then obtain code r where db': "db' = record_failure env lease managed container
        (retained_keys db managed) ?expected operation mode n actor role code r db1"
      using outcome by (auto split: sum.splits if_splits)
    have "get_lease db' (lease_id lease) =
        Some (expire_lease_row (env_done env) (expire_lease_row (env_now env) row))"
      unfolding db' get_lease_outcome row1 by simp
    then show ?thesis using c p False by (auto simp: expire_lease_row_def)
  qed
qed

definition sample_key :: portal_ssh_key where
  "sample_key = \<lparr>key_id = ''K'', key_managed_user_id = ''M'', key_owner_managed_user_id = ''M'',
     key_key_type = ''ssh-ed25519'', key_fingerprint_sha256 = ''SHA256:f'', key_public_key = None,
     key_comment = [], key_scope = ''CONTAINER'', key_state = ''INSTALLED'',
     key_host_install_state = ''NOT_INSTALLED'', key_container_install_state = ''INSTALLED'',
     key_generation_method = ''IMPORTED'', key_created_by = ''u'', key_enrollment_operation_id = None,
     key_staging_file_name = None, key_content_sha256 = None, key_approved_by = None,
     key_approved_at = None, key_validated_at = None, key_installed_at = None, key_active = True,
     key_created_at = 0, key_revoked_at = None\<rparr>"

definition sample_answer :: pyval where
  "sample_answer = PDict [(''status'', PStr ''SUCCEEDED''), (''container_state'', PStr ''STOPPED''),
     (''container_gpu'', PStr ''NONE''), (''container_key_state'', PStr ''SUSPENDED_BY_RECYCLE''),
     (''container_key_fingerprints'', PList [PStr ''SHA256:f'']), (''data_preserved'', PBool True)]"

theorem recycled_only_with_evidence_witness:
  "\<exists>db' row'. execute_cleanup sample_env (\<lambda>p k. Inr sample_answer)
     (sample_lease ''L1'' ''ACTIVE'' 0 86400 None) sample_managed ''O'' AUTOMATIC 1 ''w'' ''system''
     (sample_env_db\<lparr>t_ssh_keys := [sample_key]\<rparr>) = (Inr True, db') \<and>
     get_lease db' ''L1'' = Some row' \<and> lease_state row' = ''RECYCLE_BIN''"
proof -
  let ?db = "sample_env_db\<lparr>t_ssh_keys := [sample_key]\<rparr>"
  let ?lease = "sample_lease ''L1'' ''ACTIVE'' 0 86400 None"
  have keys: "retained_keys ?db sample_managed = [sample_key]"
    by (simp add: retained_keys_def sample_key_def sample_managed_def)
  have cont: "scalar (\<lambda>c. cont_owner_managed_user_id c = mu_id sample_managed) (t_containers sample_env_db) =
      Some sample_container"
    by (simp add: sample_env_db_def sample_container_def sample_managed_def)
  have pay: "\<exists>payload. recycle_payload ?lease sample_managed sample_container [''SHA256:f''] = Inr payload"
    by (simp add: recycle_payload_def container_runtime_gpu_state_def sample_container_def
        sample_managed_def sample_workspace_path)
  have fp: "key_fingerprint_sha256 sample_key = ''SHA256:f''" by (simp add: sample_key_def)
  have good: "cleanup_succeeded sample_answer [''SHA256:f'']"
    by (simp add: cleanup_succeeded_def sample_answer_def)
  obtain db' where ex: "execute_cleanup sample_env (\<lambda>p k. Inr sample_answer) ?lease sample_managed ''O''
      AUTOMATIC 1 ''w'' ''system'' ?db = (Inr True, db')"
    using pay good by (auto simp: execute_cleanup_def keys cont fp Let_def)
  have row: "get_lease ?db (lease_id ?lease) = Some ?lease"
    by (simp add: get_lease_def sample_env_db_def sample_lease_defs)
  have id: "lease_id ?lease = ''L1''" by (simp add: sample_lease_def)
  show ?thesis
    using recycled_only_with_evidence [OF row ex] ex unfolding id by auto
qed

end
