(* ===== verification/Provision_Reconciliation.thy ===== *)
theory Provision_Reconciliation
  imports Expiry_Service
begin

section \<open>Reconciling failed provisioning attempts\<close>

text \<open>
  \<open>provision_reconciliation.py\<close>: a failed attempt holds its reservations until the worker and the
  Portal's own tables show that nothing of it is left. The worker is the same argument as in the
  expiry worker, and \<open>run_env\<close> supplies the clock, the digest and new identifiers.
\<close>

definition RECONCILER_ACTOR :: string where
  "RECONCILER_ACTOR = ''portal-provision-reconciler''"

record zero_residue_result =
  zr_status :: string
  zr_portal_residue :: "string list"
  zr_host_residue :: "string list"
  zr_unknown_resource_state :: "string list"
  zr_script_integrity :: string

definition all_absent :: "zero_residue_result \<Rightarrow> bool" where
  "all_absent z \<longleftrightarrow> zr_status z = ''VERIFIED'' \<and> zr_portal_residue z = [] \<and>
     zr_host_residue z = [] \<and> zr_unknown_resource_state z = [] \<and> zr_script_integrity z = ''PASS''"

definition evidence_of :: "zero_residue_result \<Rightarrow> instant \<Rightarrow> pyval" where
  "evidence_of z now = PDict [(''status'', PStr (zr_status z)),
     (''portal_residue'', PList (map PStr (zr_portal_residue z))),
     (''host_residue'', PList (map PStr (zr_host_residue z))),
     (''unknown_resource_state'', PList (map PStr (zr_unknown_resource_state z))),
     (''script_integrity'', PStr (zr_script_integrity z)), (''checked_at'', PTime now),
     (''authoritative'', PBool True)]"

record reconciliation_result =
  rr_status :: string
  rr_changed :: bool
  rr_plan_id :: uuid
  rr_stage_operation_id :: "uuid option"
  rr_verification :: "zero_residue_result option"

subsection \<open>The verification\<close>

definition portal_residue :: "portal_db \<Rightarrow> uuid \<Rightarrow> string list" where
  "portal_residue db account =
     (let managed_ids = map mu_id (filter (\<lambda>m. mu_portal_user_id m = account) (t_managed_users db));
          checks = [(''PORTAL_COMPUTE_IDENTITY'', managed_ids \<noteq> []),
            (''PORTAL_CONTAINER'', list_ex (\<lambda>c. cont_managed_user_id c \<in> set managed_ids) (t_containers db)),
            (''PORTAL_STORAGE'', list_ex (\<lambda>s. stor_owner_managed_user_id s \<in> set managed_ids)
               (t_storage_resources db)),
            (''PORTAL_LEASE'', list_ex (\<lambda>l. lease_managed_user_id l \<in> set managed_ids) (t_leases db)),
            (''PORTAL_SSH_KEY'', list_ex (\<lambda>k. key_owner_managed_user_id k \<in> set managed_ids)
               (t_ssh_keys db))]
      in sort (map fst (filter snd checks)))"

definition verification_payload ::
    "portal_compute_resource_request \<Rightarrow> portal_provision_plan \<Rightarrow> portal_operation \<Rightarrow> pyval" where
  "verification_payload item plan failed_stage = PDict [
     (''request_id'', PStr (crr_id item)), (''plan_id'', PStr (plan_id plan)),
     (''stage_operation_id'', PStr (oper_id failed_stage)),
     (''portal_account_id'', PStr (crr_portal_account_id item)),
     (''username'', PStr (plan_username plan)), (''uid'', PInt (plan_uid plan)),
     (''gid'', PInt (plan_gid plan)), (''project_id'', PInt (plan_project_id plan)),
     (''ssh_port'', PInt (plan_container_ssh_port plan)),
     (''container_name'', PStr (plan_container_name plan))]"

definition reconcile_key :: "portal_operation \<Rightarrow> instant \<Rightarrow> string" where
  "reconcile_key failed_stage now =
     ''compute-auto-reconcile:'' @ oper_id failed_stage @ '':'' @ str_int (now div 1000000)"

definition residue_list :: "pyval \<Rightarrow> string list" where
  "residue_list raw = (if is_list raw then sort (map (\<lambda>v. take 128 (py_str v)) (list_items raw)) else [])"

definition judge_residue :: "string list \<Rightarrow> pyval \<Rightarrow> zero_residue_result" where
  "judge_residue portal worker =
     (let raw_host = dget worker ''resource_residue'';
          raw_unknown = dget worker ''unknown_resource_state'';
          host = residue_list raw_host;
          unknown_values = residue_list raw_unknown;
          unknown = (if is_list raw_host \<and> is_list raw_unknown then unknown_values
            else sort (remdups (unknown_values @ [''ROOT_WORKER_RESULT''])));
          script_integrity = take 16 (py_str (dget_or worker ''script_integrity'' (PStr ''UNKNOWN'')));
          verified = (portal = [] \<and> dget worker ''status'' = PStr ''DRY_RUN'' \<and>
            dget worker ''handler'' = PStr ''compute.provision.retry_verify'' \<and>
            dget worker ''retry_verification_status'' = PStr ''VERIFIED_ZERO_RESIDUE'' \<and>
            script_integrity = ''PASS'' \<and> host = [] \<and> unknown = [])
      in \<lparr>zr_status = (if verified then ''VERIFIED'' else ''MANUAL_REVIEW''),
          zr_portal_residue = portal, zr_host_residue = host, zr_unknown_resource_state = unknown,
          zr_script_integrity = script_integrity\<rparr>)"

definition authoritative_zero_residue :: "worker \<Rightarrow> portal_db \<Rightarrow> portal_compute_resource_request \<Rightarrow>
    portal_provision_plan \<Rightarrow> portal_operation \<Rightarrow> instant \<Rightarrow> zero_residue_result" where
  "authoritative_zero_residue worker db item plan failed_stage now =
     (let portal = portal_residue db (crr_portal_account_id item) in
      case worker (verification_payload item plan failed_stage) (reconcile_key failed_stage now) of
        Inl code \<Rightarrow> \<lparr>zr_status = ''MANUAL_REVIEW'', zr_portal_residue = portal, zr_host_residue = [],
          zr_unknown_resource_state = [take 128 (''ROOT_WORKER:'' @ code)],
          zr_script_integrity = ''UNKNOWN''\<rparr>
      | Inr answer \<Rightarrow> judge_residue portal answer)"

subsection \<open>Eligibility\<close>

definition failed_stage_for_plan :: "portal_db \<Rightarrow> portal_provision_plan \<Rightarrow> portal_operation option" where
  "failed_stage_for_plan db plan =
     scalar (\<lambda>o1. is_dict (oper_validated_payload o1) \<and>
         dget (oper_validated_payload o1) ''plan_id'' = PStr (plan_id plan))
       (order_desc oper_created_at
         (filter (\<lambda>o1. oper_target_type o1 = ''compute_resource_request'' \<and>
            oper_target_id o1 = plan_request_id plan \<and> oper_status o1 = OP_FAILED \<and>
            oper_operation_type o1 \<in> set [''compute.provision.stage'', ''compute.provision'',
              ''compute.provision.retry'']) (t_operations db)))"

definition dict_or_empty :: "pyval \<Rightarrow> pyval" where
  "dict_or_empty v = (if is_dict v then v else PDict [])"

definition expected_values :: "portal_provision_plan \<Rightarrow> (string \<times> string) list" where
  "expected_values plan = [(''UID'', str_int (plan_uid plan)), (''GID'', str_int (plan_gid plan)),
     (''PROJECT_ID'', str_int (plan_project_id plan)),
     (''SSH_PORT'', str_int (plan_container_ssh_port plan)),
     (''CONTAINER_NAME'', plan_container_name plan)]"

text \<open>\<open>{row.resource_type: str(row.id) ...}\<close>: a later row of a type replaces an earlier one.\<close>

definition expected_ids :: "portal_resource_reservation list \<Rightarrow> (string \<times> string) list" where
  "expected_ids rows = rev (map (\<lambda>r. (resv_resource_type r, resv_id r)) rows)"

definition attempt_bound :: "portal_compute_resource_request \<Rightarrow> portal_provision_plan \<Rightarrow>
    portal_operation \<Rightarrow> portal_resource_reservation list \<Rightarrow> bool" where
  "attempt_bound item plan failed_stage rows \<longleftrightarrow>
     (let payload = dict_or_empty (oper_validated_payload failed_stage) in
     crr_status item = ''FAILED'' \<and> crr_active_slot item = None \<and> crr_managed_user_id item = None \<and>
     crr_provision_plan_id item = Some (plan_id plan) \<and> plan_request_id plan = crr_id item \<and>
     plan_portal_account_id plan = crr_portal_account_id item \<and> plan_state plan = ''FAILED'' \<and>
     oper_target_id failed_stage = crr_id item \<and> oper_status failed_stage = OP_FAILED \<and>
     dget payload ''request_id'' = PStr (crr_id item) \<and>
     dget payload ''plan_id'' = PStr (plan_id plan) \<and>
     py_dict_eq (dget payload ''reservation_ids'') (expected_ids rows) \<and> length rows = 5 \<and>
     set (map (\<lambda>r. (resv_resource_type r, resv_resource_value r)) rows) = set (expected_values plan) \<and>
     list_all (\<lambda>r. resv_request_id r = crr_id item \<and>
       resv_portal_account_id r = crr_portal_account_id item) rows)"

definition held_row :: "portal_resource_reservation \<Rightarrow> bool" where
  "held_row r \<longleftrightarrow> resv_state r = ''FAILED_HOLD'' \<and>
     resv_active_key r = Some (resv_resource_type r @ '':'' @ resv_resource_value r) \<and>
     resv_consumed_at r = None \<and> resv_released_at r = None"

definition released_row :: "portal_resource_reservation \<Rightarrow> bool" where
  "released_row r \<longleftrightarrow> resv_state r = ''RELEASED'' \<and> resv_active_key r = None \<and>
     resv_consumed_at r = None \<and> resv_released_at r \<noteq> None"

definition eligible_bindings :: "portal_compute_resource_request \<Rightarrow> portal_provision_plan \<Rightarrow>
    portal_operation \<Rightarrow> portal_resource_reservation list \<Rightarrow> bool" where
  "eligible_bindings item plan failed_stage rows \<longleftrightarrow>
     attempt_bound item plan failed_stage rows \<and>
     oper_rollback_status failed_stage = Some ''REQUIRES_MANUAL_REVIEW'' \<and> list_all held_row rows"

definition already_reconciled_bindings :: "portal_compute_resource_request \<Rightarrow> portal_provision_plan \<Rightarrow>
    portal_operation \<Rightarrow> portal_resource_reservation list \<Rightarrow> bool" where
  "already_reconciled_bindings item plan failed_stage rows \<longleftrightarrow>
     (let evidence = dict_or_empty (oper_dry_run_result failed_stage);
          verified = dict_or_empty (dget evidence ''automatic_reconciliation'')
      in attempt_bound item plan failed_stage rows \<and>
         oper_rollback_status failed_stage = Some ''ROLLED_BACK'' \<and>
         dget evidence ''rollback_status'' = PStr ''ROLLED_BACK'' \<and>
         dget verified ''status'' = PStr ''VERIFIED'' \<and>
         dget verified ''portal_residue'' = PList [] \<and> dget verified ''host_residue'' = PList [] \<and>
         dget verified ''unknown_resource_state'' = PList [] \<and>
         dget verified ''script_integrity'' = PStr ''PASS'' \<and> list_all released_row rows)"

subsection \<open>Reconciling one plan\<close>

definition plan_reservations :: "portal_db \<Rightarrow> portal_provision_plan \<Rightarrow> portal_resource_reservation list" where
  "plan_reservations db plan = filter (\<lambda>r. resv_plan_id r = plan_id plan) (t_reservations db)"

definition release_row :: "instant \<Rightarrow> portal_resource_reservation \<Rightarrow> portal_resource_reservation" where
  "release_row now r = r\<lparr>resv_state := ''RELEASED'', resv_active_key := None,
     resv_consumed_at := None, resv_released_at := Some now\<rparr>"

definition release_rows :: "instant \<Rightarrow> portal_resource_reservation list \<Rightarrow> portal_db \<Rightarrow> portal_db" where
  "release_rows now rows db = fold (\<lambda>i. modify_reservation i (release_row now)) (map resv_id rows) db"

definition verified_evidence :: "pyval \<Rightarrow> pyval \<Rightarrow> pyval" where
  "verified_evidence previous with_check =
     (let initial = take 64 (py_str (dget_or previous ''side_effect_classification''
                                       (PStr ''PARTIAL_UNKNOWN'')))
      in PDict (dict_update (dict_items with_check)
           [(''side_effect_classification'', PStr (if initial = ''NO_SIDE_EFFECT''
               then ''NO_SIDE_EFFECT'' else ''PARTIAL_ROLLED_BACK'')),
            (''rollback_status'', PStr ''ROLLED_BACK'')]))"

definition not_eligible :: "uuid \<Rightarrow> uuid option \<Rightarrow> reconciliation_result" where
  "not_eligible plan stage = \<lparr>rr_status = ''NOT_ELIGIBLE'', rr_changed = False, rr_plan_id = plan,
     rr_stage_operation_id = stage, rr_verification = None\<rparr>"

definition reconcile_plan :: "run_env \<Rightarrow> worker \<Rightarrow> string \<Rightarrow> string \<Rightarrow> portal_db \<Rightarrow> uuid \<Rightarrow>
    reconciliation_result \<times> portal_db" where
  "reconcile_plan env worker actor actor_role db pid =
     (case get_plan db pid of
        None \<Rightarrow> (not_eligible pid None, db)
      | Some plan \<Rightarrow>
        (let rows = plan_reservations db plan; now = env_now env in
         case (get_request db (plan_request_id plan), failed_stage_for_plan db plan) of
           (None, stage) \<Rightarrow> (not_eligible pid (map_option oper_id stage), db)
         | (_, None) \<Rightarrow> (not_eligible pid None, db)
         | (Some item, Some failed_stage) \<Rightarrow>
           if already_reconciled_bindings item plan failed_stage rows
           then (\<lparr>rr_status = ''VERIFIED'', rr_changed = False, rr_plan_id = plan_id plan,
                   rr_stage_operation_id = Some (oper_id failed_stage), rr_verification = None\<rparr>, db)
           else if \<not> eligible_bindings item plan failed_stage rows
           then (not_eligible (plan_id plan) (Some (oper_id failed_stage)), db)
           else
            (let verification = authoritative_zero_residue worker db item plan failed_stage now;
                 previous = dict_or_empty (oper_dry_run_result failed_stage);
                 checked = PDict (dict_put (dict_items previous) ''automatic_reconciliation''
                             (evidence_of verification now))
             in if \<not> all_absent verification
             then (\<lparr>rr_status = ''MANUAL_REVIEW'', rr_changed = False, rr_plan_id = plan_id plan,
                     rr_stage_operation_id = Some (oper_id failed_stage),
                     rr_verification = Some verification\<rparr>,
                   modify_operation (oper_id failed_stage)
                     (\<lambda>o1. o1\<lparr>oper_dry_run_result := checked,
                        oper_rollback_status := Some ''REQUIRES_MANUAL_REVIEW''\<rparr>) db)
             else (\<lparr>rr_status = ''VERIFIED'', rr_changed = True, rr_plan_id = plan_id plan,
                     rr_stage_operation_id = Some (oper_id failed_stage),
                     rr_verification = Some verification\<rparr>,
                   record_audit (env_digest env) (env_ids env 1) now
                     \<lparr>ac_event_type = ''COMPUTE_PROVISION_ROLLBACK_AUTO_VERIFIED'', ac_actor = actor,
                      ac_actor_role = actor_role, ac_source_ip = ''local-worker-socket'',
                      ac_user_agent = ''h100-portal-provision-reconciler'',
                      ac_object_type = ''provision_plan'', ac_object_id = plan_id plan,
                      ac_result = ''SUCCESS'',
                      ac_metadata = PDict [(''request_id'', PStr (crr_id item)),
                        (''stage_operation_id'', PStr (oper_id failed_stage)),
                        (''rollback_result'', PStr ''VERIFIED''),
                        (''reservation_state'', PStr ''RELEASED''),
                        (''attempt_state'', PStr ''FAILED''), (''attempt_created'', PBool False)],
                      ac_operation_id = Some (oper_id failed_stage)\<rparr>
                     (operation_event (env_ids env 0) now (oper_id failed_stage) (Some OP_FAILED)
                        OP_FAILED ''Automatic reconciliation verified all resources absent; attempt remains failed''
                        (release_rows now rows
                          (modify_operation (oper_id failed_stage)
                            (\<lambda>o1. o1\<lparr>oper_rollback_status := Some ''ROLLED_BACK'',
                               oper_dry_run_result := verified_evidence previous checked,
                               oper_result_summary := Some ''Failed Provision preserved; authoritative zero-residue verification completed; FAILED_HOLD reservations released''\<rparr>)
                            db)))))))"

text \<open>
  The plans that still hold reservations, and the run over them. The join with the request keeps
  a plan whose request exists and failed.
\<close>

definition pending_plan_ids :: "portal_db \<Rightarrow> nat \<Rightarrow> uuid list" where
  "pending_plan_ids db limit =
     map plan_id (take limit (order_asc plan_created_at (order_asc plan_id
       (filter (\<lambda>p. plan_state p = ''FAILED'' \<and>
          list_ex (\<lambda>r. crr_id r = plan_request_id p \<and> crr_status r = ''FAILED'') (t_resource_requests db) \<and>
          list_ex (\<lambda>r. resv_plan_id r = plan_id p \<and> resv_state r = ''FAILED_HOLD'') (t_reservations db))
        (t_provision_plans db)))))"

fun reconcile_loop :: "(nat \<Rightarrow> run_env) \<Rightarrow> worker \<Rightarrow> nat \<Rightarrow> uuid list \<Rightarrow> nat \<times> nat \<Rightarrow> portal_db \<Rightarrow>
    (nat \<times> nat) \<times> portal_db" where
  "reconcile_loop envs worker n [] counts db = (counts, db)"
| "reconcile_loop envs worker n (pid # pids) (verified, manual) db =
     (case reconcile_plan (envs n) worker RECONCILER_ACTOR ''system'' db pid of (result, db1) \<Rightarrow>
        reconcile_loop envs worker (Suc n) pids
          (if rr_status result = ''VERIFIED'' then (Suc verified, manual)
           else if rr_status result = ''MANUAL_REVIEW'' then (verified, Suc manual)
           else (verified, manual)) db1)"

definition process_pending :: "(nat \<Rightarrow> run_env) \<Rightarrow> worker \<Rightarrow> nat \<Rightarrow> portal_db \<Rightarrow>
    (nat \<times> nat \<times> nat) \<times> portal_db" where
  "process_pending envs worker limit db =
     (let plan_ids = pending_plan_ids db limit;
          ((verified, manual), db1) = reconcile_loop envs worker 0 plan_ids (0, 0) db
      in ((length plan_ids, verified, manual), db1))"

text \<open>The exact mode of the command line: a result bound to other identifiers is rolled back.\<close>

definition reconcile_exact :: "run_env \<Rightarrow> worker \<Rightarrow> uuid \<Rightarrow> uuid \<Rightarrow> uuid \<Rightarrow> portal_db \<Rightarrow> int \<times> portal_db" where
  "reconcile_exact env worker request_id pid stage_operation_id db =
     (case reconcile_plan env worker RECONCILER_ACTOR ''system'' db pid of (result, db1) \<Rightarrow>
        if rr_stage_operation_id result \<noteq> Some stage_operation_id then (2, db)
        else case get_plan db1 pid of None \<Rightarrow> (2, db)
        | Some plan \<Rightarrow>
          if plan_request_id plan \<noteq> request_id then (2, db)
          else (if rr_status result \<in> set [''VERIFIED'', ''MANUAL_REVIEW''] then 0 else 2, db1))"

subsection \<open>What a reconciliation changes\<close>

lemma release_rows_tables [simp]:
  "t_operations (release_rows now rows db) = t_operations db"
  "t_provision_plans (release_rows now rows db) = t_provision_plans db"
  "t_resource_requests (release_rows now rows db) = t_resource_requests db"
  unfolding release_rows_def by (induction rows arbitrary: db) (simp_all add: modify_reservation_def)

lemma release_row_simps [simp]:
  "release_row now (release_row now r) = release_row now r" "resv_id (release_row now r) = resv_id r"
  "resv_plan_id (release_row now r) = resv_plan_id r"
  "resv_resource_type (release_row now r) = resv_resource_type r"
  "resv_resource_value (release_row now r) = resv_resource_value r"
  "resv_request_id (release_row now r) = resv_request_id r"
  "resv_portal_account_id (release_row now r) = resv_portal_account_id r"
  by (simp_all add: release_row_def)

lemma release_rows_table:
  "t_reservations (release_rows now rows db) =
     map (\<lambda>r. if resv_id r \<in> resv_id ` set rows then release_row now r else r) (t_reservations db)"
  unfolding release_rows_def
  by (induction rows arbitrary: db) (auto simp: modify_reservation_def update_where_def)

lemma release_plan_rows:
  assumes "distinct (map resv_id (t_reservations db))"
  shows "t_reservations (release_rows now (plan_reservations db plan) db) =
     map (\<lambda>r. if resv_plan_id r = plan_id plan then release_row now r else r) (t_reservations db)"
proof -
  have "resv_id r \<in> resv_id ` set (plan_reservations db plan) \<longleftrightarrow> resv_plan_id r = plan_id plan"
    if "r \<in> set (t_reservations db)" for r
    using assms that by (auto simp: plan_reservations_def distinct_map dest: inj_onD)
  then show ?thesis unfolding release_rows_table by (intro map_cong) simp_all
qed

lemma judge_residue_absent:
  assumes "all_absent (judge_residue portal answer)"
  shows "portal = [] \<and> dget answer ''retry_verification_status'' = PStr ''VERIFIED_ZERO_RESIDUE'' \<and>
    dget answer ''resource_residue'' = PList [] \<and> dget answer ''unknown_resource_state'' = PList []"
proof -
  have empty: "raw = PList []" if "is_list raw" "residue_list raw = []" for raw
  proof -
    have "list_items raw = []"
      using that by (simp add: residue_list_def) (metis Nil_is_map_conv set_empty set_sort)
    then show ?thesis using that(1) by (cases raw) simp_all
  qed
  let ?h = "dget answer ''resource_residue''" and ?u = "dget answer ''unknown_resource_state''"
  have host: "residue_list ?h = []"
    and unknown: "(if is_list ?h \<and> is_list ?u then residue_list ?u
      else sort (remdups (residue_list ?u @ [''ROOT_WORKER_RESULT'']))) = []"
    and rest: "portal = []" "dget answer ''retry_verification_status'' = PStr ''VERIFIED_ZERO_RESIDUE''"
    using assms by (auto simp: all_absent_def judge_residue_def Let_def split: if_splits)
  have "is_list ?h \<and> is_list ?u"
  proof (rule ccontr)
    assume "\<not> ?thesis"
    then have "set (sort (remdups (residue_list ?u @ [''ROOT_WORKER_RESULT'']))) = {}"
      using unknown by (metis list.set(1))
    then show False by simp
  qed
  then show ?thesis using host unknown rest empty by simp
qed

lemma reconcile_plan_changed:
  assumes "reconcile_plan env worker actor role db pid = (res, db')" and "rr_changed res"
  obtains plan item stage where "get_plan db pid = Some plan"
    "get_request db (plan_request_id plan) = Some item" "failed_stage_for_plan db plan = Some stage"
    "eligible_bindings item plan stage (plan_reservations db plan)"
    "all_absent (authoritative_zero_residue worker db item plan stage (env_now env))"
    "rr_status res = ''VERIFIED''" "rr_stage_operation_id res = Some (oper_id stage)"
    "t_provision_plans db' = t_provision_plans db" "t_resource_requests db' = t_resource_requests db"
    "t_reservations db' =
       t_reservations (release_rows (env_now env) (plan_reservations db plan) db)"
    "t_operations db' = t_operations (modify_operation (oper_id stage)
       (\<lambda>o1. o1\<lparr>oper_rollback_status := Some ''ROLLED_BACK'',
          oper_dry_run_result := verified_evidence (dict_or_empty (oper_dry_run_result stage))
            (PDict (dict_put (dict_items (dict_or_empty (oper_dry_run_result stage)))
               ''automatic_reconciliation''
               (evidence_of (authoritative_zero_residue worker db item plan stage (env_now env)) (env_now env)))),
          oper_result_summary := Some ''Failed Provision preserved; authoritative zero-residue verification completed; FAILED_HOLD reservations released''\<rparr>) db)"
proof -
  have same: "t_reservations (release_rows now rows (modify_operation i f d)) =
      t_reservations (release_rows now rows d)" for now rows i f d
    by (simp add: release_rows_table modify_operation_def)
  have tables: "t_provision_plans (operation_event i n j fr t m d) = t_provision_plans d"
    "t_resource_requests (operation_event i n j fr t m d) = t_resource_requests d"
    "t_reservations (operation_event i n j fr t m d) = t_reservations d"
    "t_provision_plans (modify_operation i f d) = t_provision_plans d"
    "t_resource_requests (modify_operation i f d) = t_resource_requests d" for i n j fr t m d f
    by (simp_all add: operation_event_def row_simps)
  show thesis
    using assms
    by (auto simp: reconcile_plan_def Let_def not_eligible_def same tables
        split: option.splits if_splits intro: that)
qed

lemma reconcile_plan_unchanged:
  assumes "reconcile_plan env worker actor role db pid = (res, db')" and "\<not> rr_changed res"
  shows "t_reservations db' = t_reservations db"
  using assms by (auto simp: reconcile_plan_def Let_def not_eligible_def modify_operation_def
      split: option.splits if_splits)

text \<open>
  C32. Reservations of a failed attempt are released only when nothing of the attempt is left: a
  reconciliation changes reservations exactly when it reports a change, and then the attempt was
  eligible, the Portal's tables hold no resource of the account, and the worker answered with
  verified zero residue and empty lists. It releases exactly the reservations of the plan, and
  every reservation keeps its life cycle constraint.
\<close>

theorem release_only_when_absent:
  assumes "distinct (map resv_id (t_reservations db))"
    and "\<forall>r \<in> set (t_reservations db). resource_reservation_checks r"
    and "reconcile_plan env worker actor role db pid = (res, db')"
  shows "(\<forall>r \<in> set (t_reservations db'). resource_reservation_checks r) \<and>
    (if rr_changed res
     then \<exists>plan item stage answer. get_plan db pid = Some plan \<and>
       get_request db (plan_request_id plan) = Some item \<and>
       eligible_bindings item plan stage (plan_reservations db plan) \<and>
       portal_residue db (crr_portal_account_id item) = [] \<and>
       worker (verification_payload item plan stage) (reconcile_key stage (env_now env)) = Inr answer \<and>
       dget answer ''retry_verification_status'' = PStr ''VERIFIED_ZERO_RESIDUE'' \<and>
       dget answer ''resource_residue'' = PList [] \<and>
       dget answer ''unknown_resource_state'' = PList [] \<and>
       t_reservations db' = map (\<lambda>r. if resv_plan_id r = plan_id plan
         then release_row (env_now env) r else r) (t_reservations db)
     else t_reservations db' = t_reservations db)"
proof (cases "rr_changed res")
  case False
  then show ?thesis using reconcile_plan_unchanged [OF assms(3)] assms(2) by simp
next
  case True
  then obtain plan item stage where p: "get_plan db pid = Some plan"
      "get_request db (plan_request_id plan) = Some item"
      "eligible_bindings item plan stage (plan_reservations db plan)"
    and absent: "all_absent (authoritative_zero_residue worker db item plan stage (env_now env))"
    and table: "t_reservations db' =
       t_reservations (release_rows (env_now env) (plan_reservations db plan) db)"
    using reconcile_plan_changed [OF assms(3)] by metis
  obtain answer where answer: "worker (verification_payload item plan stage)
        (reconcile_key stage (env_now env)) = Inr answer"
      "all_absent (judge_residue (portal_residue db (crr_portal_account_id item)) answer)"
    using absent by (auto simp: authoritative_zero_residue_def Let_def all_absent_def split: sum.splits)
  have released: "t_reservations db' = map (\<lambda>r. if resv_plan_id r = plan_id plan
      then release_row (env_now env) r else r) (t_reservations db)"
    unfolding table by (rule release_plan_rows [OF assms(1)])
  have "resource_reservation_checks (release_row now r)" if "resource_reservation_checks r" for now r
    using that by (simp add: resource_reservation_checks_def release_row_def)
  then have "\<forall>r \<in> set (t_reservations db'). resource_reservation_checks r"
    using assms(2) by (auto simp: released)
  then show ?thesis
    using True p answer(1) judge_residue_absent [OF answer(2)] released by auto
qed

subsection \<open>A failed attempt, concretely\<close>

definition sample_plan :: portal_provision_plan where
  "sample_plan = \<lparr>plan_id = ''P'', plan_request_id = ''Q'', plan_attempt_number = 1,
     plan_attempt_reason = ''INITIAL'', plan_previous_plan_id = None,
     plan_failed_stage_operation_id = None, plan_retry_authorization_operation_id = None,
     plan_portal_account_id = ''u'', plan_state = ''FAILED'', plan_username = ''alice'',
     plan_uid = 20001, plan_gid = 20001, plan_project_id = 7, plan_container_name = ''gpu-dev-alice'',
     plan_container_ssh_port = 22001, plan_storage_bytes = 322122547200,
     plan_container_profile = ''STANDARD_8CPU_32GB'', plan_container_cpus = 8,
     plan_container_memory_gb = 32, plan_container_pids_limit = 4096, plan_container_gpu = 0,
     plan_slurm_account = ''a'', plan_slurm_qos = ''q'', plan_gpu_max = 0, plan_lease_seconds = 345600,
     plan_lease_state = ''NOT_STARTED'', plan_host_ssh_enabled = False,
     plan_shell = ''/usr/sbin/nologin'', plan_password_state = ''LOCKED'',
     plan_execution_enabled = False, plan_reservation_expires_at = 0, plan_allocator_result = PNone,
     plan_dry_run_result = PNone, plan_dry_run_at = None, plan_created_by = ''A'',
     plan_created_at = 0, plan_updated_at = 0, plan_version = 1\<rparr>"

definition sample_item :: portal_compute_resource_request where
  "sample_item = \<lparr>crr_id = ''Q'', crr_portal_account_id = ''u'', crr_requested_by = ''u'',
     crr_managed_user_id = None, crr_username = ''alice'', crr_status = ''FAILED'',
     crr_active_slot = None, crr_requested_gpu_max = 0, crr_requested_storage_bytes = 322122547200,
     crr_requested_container_profile = ''STANDARD_8CPU_32GB'', crr_requested_lease_seconds = 345600,
     crr_purpose = [], crr_user_note = None, crr_submitted_at = None, crr_reviewed_at = None,
     crr_reviewed_by = None, crr_review_note = None, crr_approved_at = None,
     crr_rejected_at = None, crr_cancelled_at = None, crr_provision_plan_id = Some ''P'',
     crr_created_at = 0, crr_updated_at = 0, crr_version = 1\<rparr>"

definition sample_stage :: portal_operation where
  "sample_stage = \<lparr>oper_id = ''O'', oper_operation_type = ''compute.provision.stage'',
     oper_target_type = ''compute_resource_request'', oper_target_id = ''Q'',
     oper_requested_by = ''A'', oper_owner_managed_user_id = None, oper_approved_by = Some ''A'',
     oper_request_summary = [], oper_validated_payload = PDict [(''request_id'', PStr ''Q''),
       (''plan_id'', PStr ''P''), (''reservation_ids'', PDict [(''UID'', PStr ''1''), (''GID'', PStr ''2''),
         (''PROJECT_ID'', PStr ''3''), (''SSH_PORT'', PStr ''4''), (''CONTAINER_NAME'', PStr ''5'')])],
     oper_idempotency_key = ''k'', oper_risk_level = RISK_CRITICAL, oper_status = OP_FAILED,
     oper_created_at = 0, oper_approved_at = Some 0, oper_started_at = Some 0,
     oper_finished_at = Some 0, oper_worker_execution_id = None, oper_dry_run_result = PNone,
     oper_result_summary = None, oper_error_code = None,
     oper_rollback_status = Some ''REQUIRES_MANUAL_REVIEW'', oper_related_report = None,
     oper_related_git_commit = None\<rparr>"

definition sample_hold :: "uuid \<Rightarrow> string \<Rightarrow> string \<Rightarrow> portal_resource_reservation" where
  "sample_hold i ty v = \<lparr>resv_id = i, resv_plan_id = ''P'', resv_request_id = ''Q'',
     resv_portal_account_id = ''u'', resv_resource_type = ty, resv_resource_value = v,
     resv_active_key = Some (ty @ '':'' @ v), resv_state = ''FAILED_HOLD'', resv_reserved_at = 0,
     resv_expires_at = 0, resv_consumed_at = None, resv_released_at = None\<rparr>"

definition sample_holds :: "portal_resource_reservation list" where
  "sample_holds = [sample_hold ''1'' ''UID'' (str_int 20001), sample_hold ''2'' ''GID'' (str_int 20001),
     sample_hold ''3'' ''PROJECT_ID'' (str_int 7), sample_hold ''4'' ''SSH_PORT'' (str_int 22001),
     sample_hold ''5'' ''CONTAINER_NAME'' ''gpu-dev-alice'']"

definition sample_failed_db :: portal_db where
  "sample_failed_db = empty_db\<lparr>t_provision_plans := [sample_plan], t_resource_requests := [sample_item],
     t_operations := [sample_stage], t_reservations := sample_holds\<rparr>"

definition sample_zero :: pyval where
  "sample_zero = PDict [(''status'', PStr ''DRY_RUN''),
     (''handler'', PStr ''compute.provision.retry_verify''),
     (''retry_verification_status'', PStr ''VERIFIED_ZERO_RESIDUE''),
     (''script_integrity'', PStr ''PASS''), (''resource_residue'', PList []),
     (''unknown_resource_state'', PList [])]"

lemma sample_plan_rows: "plan_reservations sample_failed_db sample_plan = sample_holds"
  by (simp add: plan_reservations_def sample_failed_db_def sample_holds_def sample_hold_def sample_plan_def)

lemma sample_failed_rows:
  "get_plan sample_failed_db ''P'' = Some sample_plan"
  "get_request sample_failed_db (plan_request_id sample_plan) = Some sample_item"
  "failed_stage_for_plan sample_failed_db sample_plan = Some sample_stage"
  by (simp_all add: get_plan_def get_request_def failed_stage_for_plan_def sample_failed_db_def
      order_desc_def sample_plan_def sample_item_def sample_stage_def)

lemma sample_eligible:
  "eligible_bindings sample_item sample_plan sample_stage sample_holds"
  "\<not> already_reconciled_bindings sample_item sample_plan sample_stage sample_holds"
proof -
  have "attempt_bound sample_item sample_plan sample_stage sample_holds"
    by (simp add: attempt_bound_def Let_def dict_or_empty_def expected_ids_def expected_values_def
        sample_item_def sample_plan_def sample_stage_def sample_holds_def sample_hold_def)
  moreover have "list_all held_row sample_holds"
    by (simp add: held_row_def sample_holds_def sample_hold_def)
  moreover have "oper_rollback_status sample_stage = Some ''REQUIRES_MANUAL_REVIEW''"
    by (simp add: sample_stage_def)
  ultimately show "eligible_bindings sample_item sample_plan sample_stage sample_holds"
    by (simp add: eligible_bindings_def)
  show "\<not> already_reconciled_bindings sample_item sample_plan sample_stage sample_holds"
    by (simp add: already_reconciled_bindings_def Let_def) (simp add: sample_stage_def)
qed

lemma sample_absent:
  "all_absent (authoritative_zero_residue (\<lambda>p k. Inr sample_zero) sample_failed_db sample_item
     sample_plan sample_stage now)"
  by (simp add: authoritative_zero_residue_def judge_residue_def portal_residue_def all_absent_def
      residue_list_def sample_zero_def dget_or_def Let_def sample_failed_db_def empty_db_def)

lemma sample_reconciled:
  "\<exists>res db'. reconcile_plan sample_env (\<lambda>p k. Inr sample_zero) RECONCILER_ACTOR ''system''
     sample_failed_db ''P'' = (res, db') \<and> rr_changed res"
  using sample_eligible sample_absent
  by (simp add: reconcile_plan_def Let_def sample_failed_rows sample_plan_rows)

lemma sample_failed_tables:
  "distinct (map resv_id (t_reservations sample_failed_db))"
  "distinct (map oper_id (t_operations sample_failed_db))"
  "\<forall>r \<in> set (t_reservations sample_failed_db). resource_reservation_checks r"
  by (simp_all add: sample_failed_db_def sample_holds_def sample_hold_def resource_reservation_checks_def)

theorem release_only_when_absent_witness:
  "\<exists>res db'. reconcile_plan sample_env (\<lambda>p k. Inr sample_zero) RECONCILER_ACTOR ''system''
     sample_failed_db ''P'' = (res, db') \<and> rr_changed res \<and>
     (\<forall>r \<in> set (t_reservations db'). resource_reservation_checks r)"
  using sample_reconciled release_only_when_absent [OF sample_failed_tables(1,3)] by blast

subsection \<open>A second reconciliation\<close>

lemma sort_key_map: "(\<And>x. k (g x) = k x) \<Longrightarrow> sort_key k (map g xs) = map g (sort_key k xs)"
proof (induction xs)
  case (Cons x xs)
  have "insort_key k (g x) (map g ys) = map g (insort_key k x ys)" for ys
    using Cons.prems by (induction ys) auto
  with Cons show ?case by simp
qed simp

lemma scalar_map: "(\<And>x. p (g x) = p x) \<Longrightarrow> scalar p (map g xs) = map_option g (scalar p xs)"
  by (induction xs) auto

text \<open>The choice of the failed stage does not see the columns a reconciliation writes.\<close>

lemma failed_stage_after:
  assumes "\<And>o1. oper_created_at (f o1) = oper_created_at o1 \<and> oper_status (f o1) = oper_status o1 \<and>
      oper_target_type (f o1) = oper_target_type o1 \<and> oper_target_id (f o1) = oper_target_id o1 \<and>
      oper_operation_type (f o1) = oper_operation_type o1 \<and>
      oper_validated_payload (f o1) = oper_validated_payload o1"
    and "failed_stage_for_plan db plan = Some stage"
    and "t_operations db' = t_operations (modify_operation (oper_id stage) f db)"
  shows "failed_stage_for_plan db' plan = Some (f stage)"
proof -
  let ?g = "\<lambda>o1. if oper_id o1 = oper_id stage then f o1 else o1"
  have "failed_stage_for_plan db' plan = map_option ?g (failed_stage_for_plan db plan)"
    using assms(1)
    by (simp add: failed_stage_for_plan_def assms(3) modify_operation_def update_where_def
        filter_map comp_def order_desc_def sort_key_map scalar_map if_distrib [of oper_created_at])
  then show ?thesis using assms(2) by simp
qed

lemma filter_map_if:
  "(\<And>x. p (g x) = p x) \<Longrightarrow> filter p (map (\<lambda>x. if p x then g x else x) xs) = map g (filter p xs)"
  by (induction xs) auto

lemma verified_evidence_fields:
  "dget (verified_evidence previous checked) ''rollback_status'' = PStr ''ROLLED_BACK''"
  "is_dict (verified_evidence previous checked)"
  "dget (verified_evidence previous (PDict (dict_put d ''automatic_reconciliation'' v)))
     ''automatic_reconciliation'' = v"
  by (simp_all add: verified_evidence_def Let_def)

text \<open>
  Reconciliation is idempotent: once an attempt was reconciled, running it again, at any
  later time and with any worker, reports it as verified, calls no change and leaves the
  database as it is.
\<close>

theorem reconciliation_idempotent:
  assumes "distinct (map resv_id (t_reservations db))"
    and "reconcile_plan env worker actor role db pid = (res, db')" and "rr_changed res"
  shows "reconcile_plan env' worker' actor' role' db' pid =
    (\<lparr>rr_status = ''VERIFIED'', rr_changed = False, rr_plan_id = pid,
      rr_stage_operation_id = rr_stage_operation_id res, rr_verification = None\<rparr>, db')"
proof (rule reconcile_plan_changed [OF assms(2,3)])
  fix plan item stage
  let ?z = "authoritative_zero_residue worker db item plan stage (env_now env)"
  let ?previous = "dict_or_empty (oper_dry_run_result stage)"
  let ?f = "\<lambda>o1. o1\<lparr>oper_rollback_status := Some ''ROLLED_BACK'',
    oper_dry_run_result := verified_evidence ?previous (PDict (dict_put (dict_items ?previous)
      ''automatic_reconciliation'' (evidence_of ?z (env_now env)))),
    oper_result_summary := Some ''Failed Provision preserved; authoritative zero-residue verification completed; FAILED_HOLD reservations released''\<rparr>"
  assume p: "get_plan db pid = Some plan" "get_request db (plan_request_id plan) = Some item"
    and stage: "failed_stage_for_plan db plan = Some stage"
    and eligible: "eligible_bindings item plan stage (plan_reservations db plan)"
    and absent: "all_absent ?z"
    and op: "rr_stage_operation_id res = Some (oper_id stage)"
    and same: "t_provision_plans db' = t_provision_plans db" "t_resource_requests db' = t_resource_requests db"
    and table: "t_reservations db' =
      t_reservations (release_rows (env_now env) (plan_reservations db plan) db)"
    and ops: "t_operations db' = t_operations (modify_operation (oper_id stage) ?f db)"
  have p': "get_plan db' pid = Some plan" "get_request db' (plan_request_id plan) = Some item"
    using p same by (simp_all add: get_plan_def get_request_def)
  have stage': "failed_stage_for_plan db' plan = Some (?f stage)"
    by (rule failed_stage_after [OF _ stage ops]) simp
  have rows': "plan_reservations db' plan =
      map (release_row (env_now env)) (plan_reservations db plan)"
    using table release_plan_rows [OF assms(1), of "env_now env" plan]
    by (simp add: plan_reservations_def filter_map_if)
  have bound: "attempt_bound item plan (?f stage) (map (release_row (env_now env)) (plan_reservations db plan))"
    using eligible by (simp add: eligible_bindings_def attempt_bound_def Let_def expected_ids_def
        list_all_iff comp_def image_image del: set_map) (simp add: image_image)
  have "already_reconciled_bindings item plan (?f stage)
      (map (release_row (env_now env)) (plan_reservations db plan))"
    using bound absent unfolding already_reconciled_bindings_def Let_def
    by (simp add: verified_evidence_fields dict_or_empty_def evidence_of_def all_absent_def
        list_all_iff released_row_def release_row_def)
  moreover have "plan_id plan = pid" using plan_store.lookup_pk [OF p(1)] .
  ultimately show ?thesis
    using p' stage' op by (simp add: reconcile_plan_def Let_def rows')
qed

theorem reconciliation_idempotent_witness:
  "\<exists>res db'. reconcile_plan sample_env (\<lambda>p k. Inr sample_zero) RECONCILER_ACTOR ''system''
     sample_failed_db ''P'' = (res, db') \<and>
     snd (reconcile_plan sample_env (\<lambda>p k. Inl ''UNREACHABLE'') ''x'' ''y'' db' ''P'') = db'"
proof -
  obtain res db' where r: "reconcile_plan sample_env (\<lambda>p k. Inr sample_zero) RECONCILER_ACTOR ''system''
      sample_failed_db ''P'' = (res, db')" "rr_changed res"
    using sample_reconciled by blast
  then show ?thesis
    using reconciliation_idempotent [OF sample_failed_tables(1) r] by simp
qed

end
