(* ===== verification/Wire_Format.thy ===== *)
theory Wire_Format
  imports Portal_Prelude "HOL-Library.Word"
begin

section \<open>Byte strings on the wire\<close>

text \<open>
  What \<open>struct\<close>, \<open>base64\<close> and the sockets do for the frames of \<open>worker_client.py\<close>,
  \<open>terminal_service.py\<close> and \<open>protocol.py\<close> and for the key blobs of \<open>ssh_keys.py\<close>: a byte is
  an \<open>8 word\<close>; the length prefix is the big-endian \<open>!I\<close> of \<open>struct\<close>; Base64 is the strict
  decoder of \<open>b64decode(validate=True)\<close>, which rejects every character outside the alphabet and
  padding that is not the one the length calls for, and ignores the unused low bits of the last
  character. The locale \<open>length_prefixed\<close> is the contract of a field format; \<open>Ssh_Keys\<close> and
  \<open>Worker_Frame\<close> provide it.
\<close>

type_synonym byte = "8 word"
type_synonym bytes = "byte list"

definition byte_of :: "nat \<Rightarrow> byte" where
  "byte_of n = word_of_nat n"

lemma unat_byte_of [simp]: "unat (byte_of n) = n mod 256"
  by (simp add: byte_of_def unat_of_nat)

lemma byte_of_unat [simp]: "byte_of (unat b) = b"
  by (simp add: byte_of_def)

lemma byte_lt [simp]: "unat (b :: byte) < 256"
  using unsigned_less [of b] by simp

lemma byte_eq_iff: "(a :: byte) = b \<longleftrightarrow> unat a = unat b"
  by (simp add: word_unat_eq_iff)

text \<open>ASCII text and its bytes.\<close>

definition ascii_bytes :: "string \<Rightarrow> bytes" where
  "ascii_bytes s = map (\<lambda>c. byte_of (of_char c)) s"

definition is_ascii_char :: "char \<Rightarrow> bool" where
  "is_ascii_char c \<longleftrightarrow> (of_char c :: nat) < 128"

definition bytes_text :: "bytes \<Rightarrow> string" where
  "bytes_text bs = map (\<lambda>b. char_of (unat b)) bs"

definition decode_ascii :: "bytes \<Rightarrow> string option" where
  "decode_ascii bs = (if list_all (\<lambda>b. unat b < 128) bs then Some (bytes_text bs) else None)"

lemma length_ascii_bytes [simp]: "length (ascii_bytes s) = length s"
  by (simp add: ascii_bytes_def)

lemma of_char_lt [simp]: "(of_char c :: nat) < 256"
  using mod_less_divisor [of 256 "of_char c :: nat"] by (simp only: of_char_mod_256)

lemma bytes_text_ascii_bytes [simp]: "bytes_text (ascii_bytes s) = s"
  by (induction s) (simp_all add: bytes_text_def ascii_bytes_def)

lemma ascii_bytes_text [simp]: "ascii_bytes (bytes_text bs) = bs"
  by (induction bs) (simp_all add: bytes_text_def ascii_bytes_def)

lemma list_all_ascii_bytes [simp]:
  "list_all (\<lambda>b. unat b < 128) (ascii_bytes s) \<longleftrightarrow> list_all is_ascii_char s"
  by (induction s) (simp_all add: ascii_bytes_def is_ascii_char_def)

lemma decode_ascii_Some_iff:
  "decode_ascii bs = Some s \<longleftrightarrow> bs = ascii_bytes s \<and> list_all is_ascii_char s"
proof
  assume *: "decode_ascii bs = Some s"
  then have "bs = ascii_bytes s" by (auto simp: decode_ascii_def split: if_splits)
  with * show "bs = ascii_bytes s \<and> list_all is_ascii_char s"
    by (simp add: decode_ascii_def split: if_splits)
qed (simp add: decode_ascii_def)

subsection \<open>The length prefix\<close>

definition be32 :: "nat \<Rightarrow> bytes" where
  "be32 n = [byte_of (n div 16777216), byte_of (n div 65536), byte_of (n div 256), byte_of n]"

definition be32_val :: "bytes \<Rightarrow> nat" where
  "be32_val bs = foldl (\<lambda>a b. 256 * a + unat b) 0 bs"

lemma length_be32 [simp]: "length (be32 n) = 4"
  by (simp add: be32_def)

text \<open>Peeling the least significant byte off a number.\<close>

lemma byte_digit: "(256 * m + unat (d :: byte)) div 256 = m" "(256 * m + unat (d :: byte)) mod 256 = unat d"
  by simp_all

lemma byte_step: "x < k \<Longrightarrow> 256 * x + unat (d :: byte) < 256 * k"
  using byte_lt [of d] by linarith

lemma byte_join: "256 * (n div 256) + n mod 256 = (n :: nat)"
  by (rule mult_div_mod_eq)

lemma be32_val_be32 [simp]:
  assumes "n < 4294967296"
  shows "be32_val (be32 n) = n"
proof -
  have d: "n div 65536 = n div 256 div 256" "n div 16777216 = n div 65536 div 256"
    by (simp_all flip: div_mult2_eq)
  have top: "n div 16777216 < 256" using assms by linarith
  have "be32_val (be32 n) =
      256 * (256 * (256 * (n div 16777216) + n div 65536 mod 256) + n div 256 mod 256) + n mod 256"
    using top by (simp add: be32_def be32_val_def)
  also have "256 * (n div 16777216) + n div 65536 mod 256 = n div 65536"
    unfolding d(2) by (rule byte_join)
  also have "256 * (n div 65536) + n div 256 mod 256 = n div 256"
    unfolding d(1) by (rule byte_join)
  finally show ?thesis by (simp only: byte_join)
qed

lemma four_bytes: "length bs = 4 \<Longrightarrow> \<exists>a b c d. bs = [a, b, c, d]"
  by (auto simp: length_Suc_conv numeral_eq_Suc)

lemma be32_val_four: "be32_val [a, b, c, d] = 256 * (256 * (256 * unat a + unat b) + unat c) + unat d"
  by (simp add: be32_val_def)

lemma be32_be32_val [simp]:
  assumes "length bs = 4"
  shows "be32 (be32_val bs) = bs"
proof -
  obtain a b c d where bs: "bs = [a, b, c, d]" using four_bytes [OF assms] by blast
  let ?v = "be32_val bs"
  have v: "?v = 256 * (256 * (256 * unat a + unat b) + unat c) + unat d"
    by (simp only: bs be32_val_four)
  have d1: "?v div 256 = 256 * (256 * unat a + unat b) + unat c" by (simp only: v byte_digit)
  have "?v div 65536 = ?v div 256 div 256" by (simp flip: div_mult2_eq)
  then have d2: "?v div 65536 = 256 * unat a + unat b" by (simp only: d1 byte_digit)
  have "?v div 16777216 = ?v div 65536 div 256" by (simp flip: div_mult2_eq)
  then have d3: "?v div 16777216 = unat a" by (simp only: d2 byte_digit)
  have "byte_of ?v = d" by (simp only: v byte_eq_iff unat_byte_of byte_digit)
  moreover have "byte_of (256 * m + unat x) = x" for m x
    by (simp only: byte_eq_iff unat_byte_of byte_digit)
  ultimately show ?thesis
    unfolding be32_def d1 d2 d3 by (simp only: bs byte_of_unat)
qed

lemma be32_val_lt:
  assumes "length bs = 4"
  shows "be32_val bs < 4294967296"
proof -
  obtain a b c d where bs: "bs = [a, b, c, d]" using four_bytes [OF assms] by blast
  have "be32_val bs < 256 * (256 * (256 * 256))"
    unfolding bs be32_val_four by (intro byte_step byte_lt)
  then show ?thesis by simp
qed

subsection \<open>Base64\<close>

definition b64_char :: "nat \<Rightarrow> char" where
  "b64_char n = (if n < 26 then char_of (65 + n) else if n < 52 then char_of (71 + n)
     else if n < 62 then char_of (n - 4) else if n = 62 then CHR ''+'' else CHR ''/'')"

definition b64_value :: "char \<Rightarrow> nat option" where
  "b64_value c = (let n = (of_char c :: nat) in
     if 65 \<le> n \<and> n \<le> 90 then Some (n - 65) else if 97 \<le> n \<and> n \<le> 122 then Some (n - 71)
     else if 48 \<le> n \<and> n \<le> 57 then Some (n + 4) else if n = 43 then Some 62
     else if n = 47 then Some 63 else None)"

fun sextets :: "nat list \<Rightarrow> nat list" where
  "sextets [] = []"
| "sextets [a] = [a div 4, a mod 4 * 16]"
| "sextets [a, b] = [a div 4, a mod 4 * 16 + b div 16, b mod 16 * 4]"
| "sextets (a # b # c # rest) =
     [a div 4, a mod 4 * 16 + b div 16, b mod 16 * 4 + c div 64, c mod 64] @ sextets rest"

fun octets :: "nat list \<Rightarrow> nat list option" where
  "octets [] = Some []"
| "octets [x] = None"
| "octets [x, y] = Some [x * 4 + y div 16]"
| "octets [x, y, z] = Some [x * 4 + y div 16, y mod 16 * 16 + z div 4]"
| "octets (x # y # z # w # rest) =
     map_option ((@) [x * 4 + y div 16, y mod 16 * 16 + z div 4, z mod 4 * 64 + w]) (octets rest)"

definition b64_encode :: "bytes \<Rightarrow> string" where
  "b64_encode bs = map b64_char (sextets (map unat bs)) @
     replicate ((3 - length bs mod 3) mod 3) (CHR ''='')"

definition b64_decode :: "string \<Rightarrow> bytes option" where
  "b64_decode s =
     (let body = takeWhile (\<lambda>c. c \<noteq> CHR ''='') s; padding = dropWhile (\<lambda>c. c \<noteq> CHR ''='') s in
      case those (map b64_value body) of None \<Rightarrow> None
      | Some vs \<Rightarrow> if padding = replicate ((4 - length vs mod 4) mod 4) (CHR ''='')
                  then map_option (map byte_of) (octets vs) else None)"

lemma b64_char_props:
  assumes "n < 64"
  shows "b64_value (b64_char n) = Some n" and "b64_char n \<noteq> CHR ''=''"
    and "33 \<le> (of_char (b64_char n) :: nat)" and "(of_char (b64_char n) :: nat) < 127"
proof -
  have "of_char (b64_char n) = (if n < 26 then 65 + n else if n < 52 then 71 + n
      else if n < 62 then n - 4 else if n = 62 then 43 else 47)"
    using assms by (simp add: b64_char_def)
  then show "b64_value (b64_char n) = Some n" and "b64_char n \<noteq> CHR ''=''"
    and "33 \<le> (of_char (b64_char n) :: nat)" and "(of_char (b64_char n) :: nat) < 127"
    using assms by (auto simp: b64_value_def Let_def split: if_splits)
qed

lemma sextets_lt: "list_all (\<lambda>n. n < 256) ns \<Longrightarrow> list_all (\<lambda>n. n < 64) (sextets ns)"
proof (induction ns rule: sextets.induct)
  case (4 a b c rest)
  then have "a div 4 < 64" "b div 16 < 16" "c div 64 < 4" by auto
  moreover have "a mod 4 < 4" "b mod 16 < 16" by simp_all
  ultimately have "a mod 4 * 16 + b div 16 < 64" "b mod 16 * 4 + c div 64 < 64" by linarith+
  with 4 \<open>a div 4 < 64\<close> show ?case by simp
next
  case (3 a b)
  then have "a div 4 < 64" "b div 16 < 16" by auto
  moreover have "a mod 4 < 4" "b mod 16 < 16" by simp_all
  ultimately have "a mod 4 * 16 + b div 16 < 64" "b mod 16 * 4 < 64" by linarith+
  with \<open>a div 4 < 64\<close> show ?case by simp
qed auto

lemma octets_sextets: "list_all (\<lambda>n. n < 256) ns \<Longrightarrow> octets (sextets ns) = Some ns"
proof (induction ns rule: sextets.induct)
  case (4 a b c rest)
  have "(a mod 4 * 16 + b div 16) div 16 = a mod 4" "(a mod 4 * 16 + b div 16) mod 16 = b div 16"
    "(b mod 16 * 4 + c div 64) div 4 = b mod 16" "(b mod 16 * 4 + c div 64) mod 4 = c div 64"
    using 4 by auto
  with 4 show ?case by (simp add: div_mult_mod_eq)
next
  case (3 a b)
  have "(a mod 4 * 16 + b div 16) div 16 = a mod 4" "(a mod 4 * 16 + b div 16) mod 16 = b div 16"
    using 3 by auto
  then show ?case by (simp add: div_mult_mod_eq)
qed (simp_all add: div_mult_mod_eq)

lemma length_sextets: "(4 - length (sextets ns) mod 4) mod 4 = (3 - length ns mod 3) mod 3"
proof (induction ns rule: sextets.induct)
  case (4 a b c rest)
  have "Suc (Suc (Suc (Suc m))) mod 4 = m mod 4" "Suc (Suc (Suc m)) mod 3 = m mod 3" for m :: nat
    by presburger+
  with 4 show ?case by simp
qed simp_all

lemma those_map_Some: "(\<And>x. x \<in> set xs \<Longrightarrow> f x = Some (g x)) \<Longrightarrow> those (map f xs) = Some (map g xs)"
  by (induction xs) auto

text \<open>Decoding is a left inverse of encoding, for every byte string.\<close>

lemma b64_decode_encode [simp]: "b64_decode (b64_encode bs) = Some bs"
proof -
  let ?vs = "sextets (map unat bs)"
  let ?pad = "replicate ((3 - length bs mod 3) mod 3) (CHR ''='')"
  have lt: "list_all (\<lambda>n. n < 256) (map unat bs)" by (simp add: list_all_iff)
  then have v: "\<And>n. n \<in> set ?vs \<Longrightarrow> n < 64" using sextets_lt [OF lt] by (simp only: list_all_iff)
  have cut: "takeWhile (\<lambda>c. c \<noteq> CHR ''='') (map b64_char ?vs @ ?pad) = map b64_char ?vs"
    "dropWhile (\<lambda>c. c \<noteq> CHR ''='') (map b64_char ?vs @ ?pad) = ?pad"
    using v b64_char_props(2)
    by (subst takeWhile_append2 dropWhile_append2; auto simp: takeWhile_eq_Nil_iff dropWhile_eq_self_iff hd_replicate)+
  have "those (map b64_value (map b64_char ?vs)) = Some ?vs"
    using those_map_Some [of ?vs "\<lambda>n. b64_value (b64_char n)" id] v b64_char_props(1)
    by (simp add: comp_def)
  moreover have "map byte_of (map unat bs) = bs" by (simp add: comp_def)
  ultimately show ?thesis
    using octets_sextets [OF lt] length_sextets [of "map unat bs"]
    by (simp add: b64_decode_def b64_encode_def cut comp_def)
qed

lemma b64_encode_chars:
  assumes "c \<in> set (b64_encode bs)"
  shows "33 \<le> (of_char c :: nat) \<and> (of_char c :: nat) < 127"
proof -
  have "list_all (\<lambda>n. n < 64) (sextets (map unat bs))" by (rule sextets_lt) (simp add: list_all_iff)
  with assms show ?thesis
    using b64_char_props(3,4) by (auto simp: b64_encode_def list_all_iff in_set_replicate)
qed

subsection \<open>Reading from a socket\<close>

text \<open>
  A connection is the list of chunks the peer's bytes arrive in; \<open>recv(n)\<close> returns at most \<open>n\<close>
  bytes of the first one, and the empty string once the peer has closed. \<open>recv_exact\<close> is the
  read loop that \<open>_recv_exact\<close> and the two \<open>_read_exact\<close> functions share; \<open>eof\<close> is the error
  each of them raises. A time-out of the socket ends the loop the same way for the callers
  modelled here.
\<close>

function recv_exact :: "exn \<Rightarrow> bytes list \<Rightarrow> nat \<Rightarrow> (bytes \<times> bytes list) result" where
  "recv_exact eof conn remaining =
     (if remaining = 0 then Inr ([], conn)
      else case conn of [] \<Rightarrow> Inl eof
      | chunk # later \<Rightarrow>
          if chunk = [] then Inl eof
          else if length chunk \<le> remaining
          then (case recv_exact eof later (remaining - length chunk) of
                  Inl e \<Rightarrow> Inl e | Inr (bs, conn') \<Rightarrow> Inr (chunk @ bs, conn'))
          else Inr (take remaining chunk, drop remaining chunk # later))"
  by pat_completeness auto

termination
  by (relation "measure (\<lambda>(_, conn, _). length conn)") auto

declare recv_exact.simps [simp del]

definition open_stream :: "bytes list \<Rightarrow> bool" where
  "open_stream conn \<longleftrightarrow> [] \<notin> set conn"

text \<open>However the bytes were cut into chunks, the loop returns the next \<open>n\<close> bytes of the stream.\<close>

lemma recv_exact_stream:
  assumes "open_stream conn" and "n \<le> length (concat conn)"
  shows "\<exists>conn'. recv_exact eof conn n = Inr (take n (concat conn), conn') \<and>
    concat conn' = drop n (concat conn) \<and> open_stream conn'"
  using assms
proof (induction conn arbitrary: n)
  case Nil
  then show ?case by (simp add: recv_exact.simps)
next
  case (Cons c cs)
  show ?case
  proof (cases "n = 0 \<or> n < length c")
    case True
    with Cons.prems show ?thesis
      by (auto simp: recv_exact.simps [of _ _ n] open_stream_def)
  next
    case False
    have "open_stream cs" and "n - length c \<le> length (concat cs)"
      using False Cons.prems by (auto simp: open_stream_def)
    then obtain conn' where
      "recv_exact eof cs (n - length c) = Inr (take (n - length c) (concat cs), conn')"
      "concat conn' = drop (n - length c) (concat cs)" "open_stream conn'"
      using Cons.IH by blast
    with False Cons.prems show ?thesis
      by (auto simp: recv_exact.simps [of _ _ n] open_stream_def)
  qed
qed

lemma recv_exact_short:
  "length (concat conn) < n \<Longrightarrow> recv_exact eof conn n = Inl eof"
proof (induction conn arbitrary: n)
  case (Cons c cs)
  then show ?case by (cases "c = []") (auto simp: recv_exact.simps [of _ _ n])
qed (simp add: recv_exact.simps)

lemma recv_exact_sound:
  assumes "open_stream conn" and "recv_exact eof conn n = Inr (bs, conn')"
  shows "length bs = n \<and> concat conn = bs @ concat conn' \<and> open_stream conn'"
proof (cases "n \<le> length (concat conn)")
  case True
  from recv_exact_stream [OF assms(1) this, of eof] assms(2) True show ?thesis
    by (auto simp: min_def)
next
  case False
  with recv_exact_short [of conn n eof] assms(2) show ?thesis by simp
qed

subsection \<open>Length-prefixed fields\<close>

text \<open>
  The contract of a format whose reader consumes one field at a time: the reader returns what
  the writer wrote and leaves the rest of the stream, and it returns nothing the writer would
  not have written. A reader's state is what it has not consumed yet, in whatever form: an
  offset into a blob, or the chunks of a connection.
\<close>

locale length_prefixed =
  fixes put :: "bytes \<Rightarrow> bytes"
    and get :: "'s \<Rightarrow> (bytes \<times> 's) result"
    and rest :: "'s \<Rightarrow> bytes"
    and valid :: "'s \<Rightarrow> bool"
    and fits :: "bytes \<Rightarrow> bool"
  assumes reads_written: "valid s \<Longrightarrow> fits x \<Longrightarrow> rest s = put x @ r \<Longrightarrow>
      \<exists>s'. get s = Inr (x, s') \<and> rest s' = r \<and> valid s'"
    and read_was_written: "valid s \<Longrightarrow> get s = Inr (x, s') \<Longrightarrow>
      fits x \<and> rest s = put x @ rest s' \<and> valid s'"
    and stream_of: "\<exists>s. valid s \<and> rest s = b"
    and put_nonempty: "put x \<noteq> []"
begin

lemma get_iff:
  assumes "valid s"
  shows "(\<exists>s'. get s = Inr (x, s') \<and> rest s' = r) \<longleftrightarrow> fits x \<and> rest s = put x @ r"
  using reads_written [OF assms] read_was_written [OF assms] by metis

text \<open>Two streams with the same bytes give the same field and the same remaining bytes.\<close>

lemma get_view:
  assumes "valid s" and "valid t" and "rest s = rest t" and "get s = Inr (x, s')"
  shows "\<exists>t'. get t = Inr (x, t') \<and> rest t' = rest s' \<and> valid t'"
  using read_was_written [OF assms(1,4)] reads_written [OF assms(2)] assms(3) by metis

text \<open>The encoding is prefix-free, hence a sequence of fields is uniquely decodable.\<close>

lemma put_prefix_free:
  assumes "fits x" and "fits y" and "put x @ r = put y @ r'"
  shows "x = y \<and> r = r'"
proof -
  obtain s where s: "valid s" "rest s = put x @ r" using stream_of by blast
  obtain s' where "get s = Inr (x, s')" "rest s' = r" using reads_written [OF s(1) assms(1) s(2)] by blast
  moreover obtain s'' where "get s = Inr (y, s'')" "rest s'' = r'"
    using reads_written [OF s(1) assms(2)] s(2) assms(3) by metis
  ultimately show ?thesis by simp
qed

lemma put_sequence_inj:
  assumes "list_all fits xs" and "list_all fits ys" and "concat (map put xs) = concat (map put ys)"
  shows "xs = ys"
  using assms
proof (induction xs arbitrary: ys)
  case Nil
  then show ?case by (cases ys) (auto simp: put_nonempty)
next
  case (Cons x xs)
  obtain y ys' where ys: "ys = y # ys'"
    using Cons.prems(3) put_nonempty by (cases ys) auto
  with Cons.prems have "x = y \<and> concat (map put xs) = concat (map put ys')"
    by (intro put_prefix_free) auto
  with Cons ys show ?case by auto
qed

end

end
