(* ===== verification/Ssh_Keys.thy ===== *)
theory Ssh_Keys
  imports Security_Metadata Wire_Format
begin

section \<open>Validation of SSH public keys\<close>

text \<open>
  \<open>ssh_keys.py\<close>: a submitted line is accepted only when it names an approved key type, its
  Base64 decodes to the blob of exactly that type, and its comment is printable; what is stored
  is the canonical line. \<open>ssh-keygen\<close> and SHA-256 are programs outside the repository: the
  definitions take what they answer as arguments (\<open>None\<close> when the process cannot be run or times
  out, otherwise its exit code and output). Text is 8-bit characters, so the Unicode category \<open>C\<close>
  is the control characters and the soft hyphen, and the UTF-8 form of a character is one or
  two bytes.
\<close>

subsection \<open>The fields of a key blob\<close>

definition MAX_PUBLIC_KEY_BYTES :: nat where
  "MAX_PUBLIC_KEY_BYTES = 16 * 1024"

definition PRIVATE_KEY_MARKERS :: "string list" where
  "PRIVATE_KEY_MARKERS = [''PRIVATE KEY'']"

definition ALLOWED_KEY_TYPES :: "string list" where
  "ALLOWED_KEY_TYPES = [''ssh-ed25519'', ''ecdsa-sha2-nistp256'', ''sk-ssh-ed25519@openssh.com'']"

definition upper_char :: "char \<Rightarrow> char" where
  "upper_char c = (if is_lower c then char_of (ord_of c - 32) else c)"

definition contains_private_key_material :: "pyval \<Rightarrow> bool" where
  "contains_private_key_material value =
     (case value of PStr s \<Rightarrow> list_ex (\<lambda>marker. contains marker (map upper_char s)) PRIVATE_KEY_MARKERS
      | _ \<Rightarrow> False)"

definition malformed :: exn where
  "malformed = SshPublicKeyValidationError ''SSH_PUBLIC_KEY_MALFORMED''"

definition read_ssh_string :: "bytes \<Rightarrow> nat \<Rightarrow> (bytes \<times> nat) result" where
  "read_ssh_string blob offset =
     (if length blob < offset + 4 then Inl malformed
      else let size = be32_val (take 4 (drop offset blob)); start = offset + 4; stop = start + size
           in if MAX_PUBLIC_KEY_BYTES < size \<or> length blob < stop then Inl malformed
              else Inr (take size (drop start blob), stop))"

definition validate_blob :: "string \<Rightarrow> bytes \<Rightarrow> unit result" where
  "validate_blob key_type blob =
    (let trailing = (\<lambda>offset. if offset \<noteq> length blob then Inl malformed else Inr ()) in
     case read_ssh_string blob 0 of Inl e \<Rightarrow> Inl e
     | Inr (encoded_type, offset) \<Rightarrow>
       (case decode_ascii encoded_type of None \<Rightarrow> Inl malformed
        | Some embedded_type \<Rightarrow>
          if embedded_type \<noteq> key_type
          then Inl (SshPublicKeyValidationError ''SSH_PUBLIC_KEY_TYPE_MISMATCH'')
          else if key_type = ''ssh-ed25519'' then
            (case read_ssh_string blob offset of Inl e \<Rightarrow> Inl e
             | Inr (public_bytes, offset) \<Rightarrow>
                 if length public_bytes \<noteq> 32 then Inl malformed else trailing offset)
          else if key_type = ''ecdsa-sha2-nistp256'' then
            (case read_ssh_string blob offset of Inl e \<Rightarrow> Inl e
             | Inr (curve, offset) \<Rightarrow>
              (case read_ssh_string blob offset of Inl e \<Rightarrow> Inl e
               | Inr (point, offset) \<Rightarrow>
                   if curve \<noteq> ascii_bytes ''nistp256'' \<or> length point \<noteq> 65 \<or> take 1 point \<noteq> [4]
                   then Inl malformed else trailing offset))
          else if key_type = ''sk-ssh-ed25519@openssh.com'' then
            (case read_ssh_string blob offset of Inl e \<Rightarrow> Inl e
             | Inr (public_bytes, offset) \<Rightarrow>
              (case read_ssh_string blob offset of Inl e \<Rightarrow> Inl e
               | Inr (application, offset) \<Rightarrow>
                   if length public_bytes \<noteq> 32 \<or> application = []
                   then Inl malformed else trailing offset))
          else Inl (SshPublicKeyValidationError ''SSH_PUBLIC_KEY_TYPE_REJECTED'')))"

text \<open>The writer's side of the format, and the reader's state: the blob and the offset.\<close>

definition ssh_string :: "bytes \<Rightarrow> bytes" where
  "ssh_string x = be32 (length x) @ x"

definition ssh_fits :: "bytes \<Rightarrow> bool" where
  "ssh_fits x \<longleftrightarrow> length x \<le> MAX_PUBLIC_KEY_BYTES"

definition blob_reader :: "bytes \<times> nat \<Rightarrow> (bytes \<times> bytes \<times> nat) result" where
  "blob_reader s = (case read_ssh_string (fst s) (snd s) of Inl e \<Rightarrow> Inl e
     | Inr (x, offset) \<Rightarrow> Inr (x, fst s, offset))"

definition blob_rest :: "bytes \<times> nat \<Rightarrow> bytes" where
  "blob_rest s = drop (snd s) (fst s)"

definition blob_valid :: "bytes \<times> nat \<Rightarrow> bool" where
  "blob_valid s \<longleftrightarrow> snd s \<le> length (fst s)"

lemma read_ssh_string_written:
  assumes "drop offset blob = ssh_string x @ r" and "ssh_fits x" and "offset \<le> length blob"
  shows "read_ssh_string blob offset = Inr (x, offset + 4 + length x)"
    and "drop (offset + 4 + length x) blob = r" and "offset + 4 + length x \<le> length blob"
proof -
  have len: "length blob = offset + (4 + length x + length r)"
    using arg_cong [OF assms(1), of length] assms(3) by (simp add: ssh_string_def)
  have "drop (offset + 4) blob = drop 4 (drop offset blob)" by (simp add: add.commute)
  then have body: "drop (offset + 4) blob = x @ r" by (simp add: assms(1) ssh_string_def)
  have "take 4 (drop offset blob) = be32 (length x)" by (simp add: assms(1) ssh_string_def)
  moreover have "length x < 4294967296"
    using assms(2) by (simp add: ssh_fits_def MAX_PUBLIC_KEY_BYTES_def)
  ultimately show "read_ssh_string blob offset = Inr (x, offset + 4 + length x)"
    using len body assms(2) by (simp add: read_ssh_string_def Let_def ssh_fits_def)
  have "drop (offset + 4 + length x) blob = drop (length x) (drop (offset + 4) blob)"
    by (simp add: add.commute)
  then show "drop (offset + 4 + length x) blob = r" by (simp add: body)
  show "offset + 4 + length x \<le> length blob" using len by simp
qed

lemma read_ssh_string_sound:
  assumes "read_ssh_string blob offset = Inr (x, stop)"
  shows "ssh_fits x \<and> drop offset blob = ssh_string x @ drop stop blob \<and> stop \<le> length blob"
proof -
  let ?size = "be32_val (take 4 (drop offset blob))"
  have *: "offset + 4 \<le> length blob" "?size \<le> MAX_PUBLIC_KEY_BYTES"
    "offset + 4 + ?size \<le> length blob" "x = take ?size (drop (offset + 4) blob)"
    "stop = offset + 4 + ?size"
    using assms by (auto simp: read_ssh_string_def Let_def split: if_splits)
  then have len: "length x = ?size" by simp
  have "be32 ?size = take 4 (drop offset blob)" using *(1) by simp
  then have "ssh_string x @ drop stop blob =
      take 4 (drop offset blob) @ take ?size (drop 4 (drop offset blob)) @
      drop ?size (drop 4 (drop offset blob))"
    using * len by (simp add: ssh_string_def add.commute add.left_commute)
  also have "... = drop offset blob" by (simp only: append_take_drop_id)
  finally have "drop offset blob = ssh_string x @ drop stop blob" by (rule sym)
  moreover have "ssh_fits x" "stop \<le> length blob" using * len by (simp_all add: ssh_fits_def)
  ultimately show ?thesis by blast
qed

interpretation blob: length_prefixed ssh_string blob_reader blob_rest blob_valid ssh_fits
proof unfold_locales
  fix s x r
  assume "blob_valid s" "ssh_fits x" "blob_rest s = ssh_string x @ r"
  then show "\<exists>s'. blob_reader s = Inr (x, s') \<and> blob_rest s' = r \<and> blob_valid s'"
    using read_ssh_string_written [of "snd s" "fst s" x r]
    by (auto simp: blob_reader_def blob_rest_def blob_valid_def)
next
  fix s x s'
  assume "blob_valid s" "blob_reader s = Inr (x, s')"
  then show "ssh_fits x \<and> blob_rest s = ssh_string x @ blob_rest s' \<and> blob_valid s'"
    using read_ssh_string_sound [of "fst s" "snd s" x "snd s'"]
    by (auto simp: blob_reader_def blob_rest_def blob_valid_def split: sum.splits)
next
  show "\<exists>s. blob_valid s \<and> blob_rest s = b" for b
    by (rule exI [of _ "(b, 0)"]) (simp add: blob_valid_def blob_rest_def)
  show "ssh_string x \<noteq> []" for x by (simp add: ssh_string_def be32_def)
qed

subsection \<open>The accepted blobs\<close>

text \<open>What a blob of a key type is: the type's name and its fields, and nothing after them.\<close>

definition approved_blob :: "string \<Rightarrow> bytes \<Rightarrow> bool" where
  "approved_blob key_type blob \<longleftrightarrow>
     (\<exists>pub. key_type = ''ssh-ed25519'' \<and> length pub = 32 \<and>
        blob = ssh_string (ascii_bytes key_type) @ ssh_string pub) \<or>
     (\<exists>xy. key_type = ''ecdsa-sha2-nistp256'' \<and> length xy = 64 \<and>
        blob = ssh_string (ascii_bytes key_type) @ ssh_string (ascii_bytes ''nistp256'') @
               ssh_string (4 # xy)) \<or>
     (\<exists>pub application. key_type = ''sk-ssh-ed25519@openssh.com'' \<and> length pub = 32 \<and>
        application \<noteq> [] \<and> ssh_fits application \<and>
        blob = ssh_string (ascii_bytes key_type) @ ssh_string pub @ ssh_string application)"

text \<open>A field at the front of what is left of the blob is read, and read off.\<close>

lemma read_front:
  assumes "drop offset blob = ssh_string x @ r" and "length x \<le> 1024" and "offset \<le> length blob"
  shows "\<exists>stop. read_ssh_string blob offset = Inr (x, stop) \<and> drop stop blob = r \<and> stop \<le> length blob"
  using read_ssh_string_written [OF assms(1) _ assms(3)] assms(2)
  by (auto simp: ssh_fits_def MAX_PUBLIC_KEY_BYTES_def)

lemma read_last:
  assumes "drop offset blob = ssh_string x" and "ssh_fits x" and "offset \<le> length blob"
  shows "read_ssh_string blob offset = Inr (x, length blob)"
proof -
  have *: "drop offset blob = ssh_string x @ []" using assms(1) by simp
  from read_ssh_string_written(2,3) [OF * assms(2,3)]
  have "offset + 4 + length x = length blob" by simp
  with read_ssh_string_written(1) [OF * assms(2,3)] show ?thesis by simp
qed

lemma decode_key_type_names [simp]:
  "decode_ascii (ascii_bytes ''ssh-ed25519'') = Some ''ssh-ed25519''"
  "decode_ascii (ascii_bytes ''ecdsa-sha2-nistp256'') = Some ''ecdsa-sha2-nistp256''"
  "decode_ascii (ascii_bytes ''sk-ssh-ed25519@openssh.com'') = Some ''sk-ssh-ed25519@openssh.com''"
  by (simp_all add: decode_ascii_Some_iff is_ascii_char_def)

lemma validate_blob_complete:
  assumes "approved_blob key_type blob"
  shows "validate_blob key_type blob = Inr ()"
proof -
  let ?name = "ascii_bytes key_type"
  from assms consider
    (ed) pub where "key_type = ''ssh-ed25519''" "length pub = 32" "blob = ssh_string ?name @ ssh_string pub"
  | (ec) xy where "key_type = ''ecdsa-sha2-nistp256''" "length xy = 64"
      "blob = ssh_string ?name @ ssh_string (ascii_bytes ''nistp256'') @ ssh_string (4 # xy)"
  | (sk) pub application where "key_type = ''sk-ssh-ed25519@openssh.com''" "length pub = 32"
      "application \<noteq> []" "ssh_fits application"
      "blob = ssh_string ?name @ ssh_string pub @ ssh_string application"
    unfolding approved_blob_def by blast
  then show ?thesis
  proof cases
    case ed
    obtain o1 where o1: "read_ssh_string blob 0 = Inr (?name, o1)" "drop o1 blob = ssh_string pub" "o1 \<le> length blob"
      using read_front [of 0 blob ?name "ssh_string pub"] ed by auto
    have "read_ssh_string blob o1 = Inr (pub, length blob)"
      using read_last [OF o1(2) _ o1(3)] ed by (simp add: ssh_fits_def MAX_PUBLIC_KEY_BYTES_def)
    with o1(1) ed(1,2) show ?thesis by (simp add: validate_blob_def)
  next
    case ec
    obtain o1 where o1: "read_ssh_string blob 0 = Inr (?name, o1)"
      "drop o1 blob = ssh_string (ascii_bytes ''nistp256'') @ ssh_string (4 # xy)" "o1 \<le> length blob"
      using read_front [of 0 blob ?name] ec by auto
    obtain o2 where o2: "read_ssh_string blob o1 = Inr (ascii_bytes ''nistp256'', o2)"
      "drop o2 blob = ssh_string (4 # xy)" "o2 \<le> length blob"
      using read_front [OF o1(2) _ o1(3)] by auto
    have "read_ssh_string blob o2 = Inr (4 # xy, length blob)"
      using read_last [OF o2(2) _ o2(3)] ec by (simp add: ssh_fits_def MAX_PUBLIC_KEY_BYTES_def)
    with o1(1) o2(1) ec(1,2) show ?thesis by (simp add: validate_blob_def)
  next
    case sk
    obtain o1 where o1: "read_ssh_string blob 0 = Inr (?name, o1)"
      "drop o1 blob = ssh_string pub @ ssh_string application" "o1 \<le> length blob"
      using read_front [of 0 blob ?name] sk by auto
    obtain o2 where o2: "read_ssh_string blob o1 = Inr (pub, o2)"
      "drop o2 blob = ssh_string application" "o2 \<le> length blob"
      using read_front [OF o1(2) _ o1(3)] sk by auto
    have "read_ssh_string blob o2 = Inr (application, length blob)"
      using read_last [OF o2(2) sk(4) o2(3)] .
    with o1(1) o2(1) sk(1,2,3) show ?thesis by (simp add: validate_blob_def)
  qed
qed

lemma point_shape: "length point = 65 \<Longrightarrow> take 1 point = [4] \<Longrightarrow> \<exists>xy. length xy = 64 \<and> point = 4 # xy"
  by (cases point) auto

lemma read_prefix:
  "read_ssh_string blob offset = Inr (x, stop) \<Longrightarrow> drop offset blob = ssh_string x @ drop stop blob"
  "read_ssh_string blob offset = Inr (x, stop) \<Longrightarrow> ssh_fits x"
  using read_ssh_string_sound by blast+

lemma validate_blob_sound:
  assumes "validate_blob key_type blob = Inr ()"
  shows "approved_blob key_type blob"
proof -
  obtain et o1 where r1: "read_ssh_string blob 0 = Inr (et, o1)" and "decode_ascii et = Some key_type"
    using assms by (auto simp: validate_blob_def Let_def split: sum.splits option.splits if_splits)
  then have et: "et = ascii_bytes key_type" by (simp add: decode_ascii_Some_iff)
  have b1: "blob = ssh_string (ascii_bytes key_type) @ drop o1 blob"
    using read_prefix(1) [OF r1] et by simp
  from assms r1 \<open>decode_ascii et = Some key_type\<close> consider
    (ed) pub where "key_type = ''ssh-ed25519''" "read_ssh_string blob o1 = Inr (pub, length blob)"
      "length pub = 32"
  | (ec) o2 point where "key_type = ''ecdsa-sha2-nistp256''"
      "read_ssh_string blob o1 = Inr (ascii_bytes ''nistp256'', o2)"
      "read_ssh_string blob o2 = Inr (point, length blob)" "length point = 65" "take 1 point = [4]"
  | (sk) pub o2 application where "key_type = ''sk-ssh-ed25519@openssh.com''"
      "read_ssh_string blob o1 = Inr (pub, o2)" "read_ssh_string blob o2 = Inr (application, length blob)"
      "length pub = 32" "application \<noteq> []"
    by (simp add: validate_blob_def Let_def split: sum.splits if_splits prod.splits)
  then show ?thesis
  proof cases
    case ed
    with b1 read_prefix(1) [OF ed(2)] show ?thesis by (auto simp: approved_blob_def)
  next
    case ec
    then obtain xy where xy: "length xy = 64" "point = 4 # xy" using point_shape by blast
    with ec(1) b1 read_prefix(1) [OF ec(2)] read_prefix(1) [OF ec(3)]
    have "blob = ssh_string (ascii_bytes key_type) @ ssh_string (ascii_bytes ''nistp256'') @
        ssh_string (4 # xy)" by simp
    with ec(1) xy(1) show ?thesis unfolding approved_blob_def by blast
  next
    case sk
    with b1 read_prefix(1) [OF sk(2)] read_prefix(1) [OF sk(3)]
    have "blob = ssh_string (ascii_bytes key_type) @ ssh_string pub @ ssh_string application" by simp
    with sk read_prefix(2) [OF sk(3)] show ?thesis unfolding approved_blob_def by blast
  qed
qed

subsection \<open>Lines, words and comments\<close>

text \<open>\<open>str.splitlines\<close>: the separators of ASCII and NEL, with CR LF as one of them.\<close>

definition line_break :: "char \<Rightarrow> bool" where
  "line_break c \<longleftrightarrow> ord_of c \<in> set [10, 11, 12, 13, 28, 29, 30, 133]"

function splitlines_from :: "string \<Rightarrow> string \<Rightarrow> string list" where
  "splitlines_from line [] = (if line = [] then [] else [line])"
| "splitlines_from line (c # s) =
     (if ord_of c = 13 \<and> s \<noteq> [] \<and> ord_of (hd s) = 10 then line # splitlines_from [] (tl s)
      else if line_break c then line # splitlines_from [] s
      else splitlines_from (line @ [c]) s)"
  by pat_completeness auto

termination
  by (relation "measure (\<lambda>(_, s). length s)") (auto simp: le_imp_less_Suc)

definition splitlines :: "string \<Rightarrow> string list" where
  "splitlines s = splitlines_from [] s"

text \<open>\<open>s.split(maxsplit=n)\<close>, at runs of white space; the last piece keeps the rest of the text.\<close>

fun split_max :: "nat \<Rightarrow> string \<Rightarrow> string list" where
  "split_max n s =
     (let t = dropWhile is_space s in
      if t = [] then []
      else case n of 0 \<Rightarrow> [t]
        | Suc m \<Rightarrow> takeWhile (\<lambda>c. \<not> is_space c) t # split_max m (dropWhile (\<lambda>c. \<not> is_space c) t))"

declare split_max.simps [simp del]

definition split_words :: "string \<Rightarrow> string list" where
  "split_words s = split_max (length s) s"

definition utf8_length :: "string \<Rightarrow> nat" where
  "utf8_length s = sum_list (map (\<lambda>c. if is_ascii_char c then 1 else 2) s)"

definition control_char :: "char \<Rightarrow> bool" where
  "control_char c \<longleftrightarrow> ord_of c < 32 \<or> (127 \<le> ord_of c \<and> ord_of c \<le> 159) \<or> ord_of c = 173"

definition safe_comment :: "string \<Rightarrow> string result" where
  "safe_comment value =
     (let comment = strip value in
      if 128 < length comment \<or> list_ex control_char comment
      then Inl (SshPublicKeyValidationError ''SSH_PUBLIC_KEY_COMMENT_REJECTED'') else Inr comment)"

subsection \<open>The canonical key\<close>

record validated_ssh_public_key =
  vk_key_type :: string
  vk_fingerprint_sha256 :: string
  vk_public_key :: string
  vk_comment :: string
  vk_content_sha256 :: string

type_synonym keygen = "string \<Rightarrow> (int \<times> string) option"

definition fingerprint_with_ssh_keygen :: "keygen \<Rightarrow> string \<Rightarrow> string result" where
  "fingerprint_with_ssh_keygen run public_key =
     (case run (public_key @ [char_of (10 :: nat)]) of
        None \<Rightarrow> Inl (SshPublicKeyValidationError ''SSH_PUBLIC_KEY_VALIDATION_UNAVAILABLE'')
      | Some (returncode, stdout) \<Rightarrow>
          if returncode \<noteq> 0 then Inl malformed
          else let fields = split_words stdout in
            if length fields < 2 \<or> take 7 (fields ! 1) \<noteq> ''SHA256:''
            then Inl (SshPublicKeyValidationError ''SSH_PUBLIC_KEY_FINGERPRINT_FAILED'')
            else Inr (fields ! 1))"

definition canonical_key :: "string \<Rightarrow> bytes \<Rightarrow> string \<Rightarrow> string" where
  "canonical_key key_type blob comment =
     (let canonical = key_type @ '' '' @ b64_encode blob in
      if comment = [] then canonical else canonical @ '' '' @ comment)"

definition validate_ssh_public_key ::
    "keygen \<Rightarrow> (string \<Rightarrow> string) \<Rightarrow> string \<Rightarrow> string \<Rightarrow> validated_ssh_public_key result" where
  "validate_ssh_public_key run sha256 raw_public_key requested_comment =
    (if contains_private_key_material (PStr raw_public_key)
     then Inl (SshPublicKeyValidationError ''SSH_PRIVATE_KEY_UPLOAD_REJECTED'')
     else if \<not> (0 < utf8_length raw_public_key \<and> utf8_length raw_public_key \<le> MAX_PUBLIC_KEY_BYTES)
     then Inl (SshPublicKeyValidationError ''SSH_PUBLIC_KEY_SIZE_REJECTED'')
     else case filter (\<lambda>line. line \<noteq> []) (map strip (splitlines raw_public_key)) of
       [line] \<Rightarrow>
         (let parts = split_max 2 line in
          if length parts < 2 \<or> parts ! 0 \<notin> set ALLOWED_KEY_TYPES
          then Inl (SshPublicKeyValidationError ''SSH_PUBLIC_KEY_TYPE_REJECTED'')
          else case b64_decode (parts ! 1) of
            None \<Rightarrow> Inl malformed
          | Some blob \<Rightarrow>
            (case validate_blob (parts ! 0) blob of Inl e \<Rightarrow> Inl e
             | Inr _ \<Rightarrow>
               let inline_comment = (if length parts = 3 then parts ! 2 else []) in
               case safe_comment (if requested_comment \<noteq> [] then requested_comment else inline_comment) of
                 Inl e \<Rightarrow> Inl e
               | Inr comment \<Rightarrow>
                 let canonical = canonical_key (parts ! 0) blob comment in
                 case fingerprint_with_ssh_keygen run canonical of Inl e \<Rightarrow> Inl e
                 | Inr fingerprint \<Rightarrow> Inr
                     \<lparr>vk_key_type = parts ! 0, vk_fingerprint_sha256 = fingerprint,
                      vk_public_key = canonical, vk_comment = comment,
                      vk_content_sha256 = sha256 (canonical @ [char_of (10 :: nat)])\<rparr>))
     | _ \<Rightarrow> Inl (SshPublicKeyValidationError ''SSH_PUBLIC_KEY_COUNT_REJECTED''))"

definition ssh_key_response :: "portal_ssh_key \<Rightarrow> pyval" where
  "ssh_key_response k = PDict
     [(''id'', PStr (key_id k)), (''managed_user_id'', PStr (key_managed_user_id k)),
      (''key_type'', PStr (key_key_type k)), (''fingerprint_sha256'', PStr (key_fingerprint_sha256 k)),
      (''comment'', PStr (key_comment k)), (''scope'', PStr (key_scope k)),
      (''state'', PStr (key_state k)), (''generation_method'', PStr (key_generation_method k)),
      (''created_at'', PTime (key_created_at k)), (''created_by'', PStr (key_created_by k)),
      (''validated_at'', opt_val PTime (key_validated_at k)),
      (''installed_at'', opt_val PTime (key_installed_at k)),
      (''revoked_at'', opt_val PTime (key_revoked_at k))]"

definition ssh_enrollment_status :: "portal_db \<Rightarrow> portal_user \<Rightarrow> pyval" where
  "ssh_enrollment_status db user =
     (case scalar (\<lambda>m. mu_portal_user_id m = user_id user) (t_managed_users db) of
        None \<Rightarrow> PDict [(''required'', PBool False), (''managed_user_id'', PNone),
          (''compute_identity'', PNone), (''compute_state'', PStr ''NOT_ENROLLED''),
          (''validated_key_count'', PInt 0), (''ssh_key_state'', PStr ''NOT_APPLICABLE''),
          (''setup_path'', PNone)]
      | Some managed \<Rightarrow>
          let validated_count = length (filter (\<lambda>k. key_managed_user_id k = mu_id managed \<and>
                key_state k \<in> set [''VALIDATED'', ''INSTALLED''] \<and> key_active k) (t_ssh_keys db));
              state = onboarding_value (mu_onboarding_state managed)
          in PDict [(''required'', PBool (state = ''STAGED'' \<and> validated_count = 0)),
            (''managed_user_id'', PStr (mu_id managed)),
            (''compute_identity'', PStr (mu_unix_username managed)),
            (''compute_state'', PStr state), (''validated_key_count'', PInt (int validated_count)),
            (''ssh_key_state'', PStr (mu_ssh_key_state managed)),
            (''setup_path'', PStr (if list_ex (\<lambda>role. role_name role = ''user'') (user_roles user)
               then ''/ssh-keys'' else ''/users/'' @ user_id user @ ''?tab=ssh''))])"

subsection \<open>The canonical key is a fixed point\<close>

lemma strip_ends:
  assumes "strip s \<noteq> []"
  shows "\<not> is_space (hd (strip s))" and "\<not> is_space (last (strip s))"
proof -
  let ?t = "dropWhile is_space s"
  let ?u = "dropWhile is_space (rev ?t)"
  have u: "?u \<noteq> []" using assms by (simp add: strip_def)
  then have "\<not> is_space (hd ?u)" using hd_dropWhile by blast
  then show "\<not> is_space (last (strip s))" using u by (simp add: strip_def last_rev)
  have "?t \<noteq> []" using u by (metis dropWhile.simps(1) rev.simps(1))
  then have t: "\<not> is_space (hd ?t)" using hd_dropWhile by blast
  have "rev ?t = takeWhile is_space (rev ?t) @ ?u" by simp
  then have "?t = rev ?u @ rev (takeWhile is_space (rev ?t))" by (metis rev_append rev_rev_ident)
  with u have "hd ?t = hd (rev ?u)" by (metis hd_append2 rev_is_Nil_conv)
  then show "\<not> is_space (hd (strip s))" using t by (simp add: strip_def)
qed

lemma strip_same:
  assumes "s \<noteq> []" and "\<not> is_space (hd s)" and "\<not> is_space (last s)"
  shows "strip s = s"
proof -
  have "dropWhile is_space s = s" using assms by (cases s) auto
  moreover have "dropWhile is_space (rev s) = rev s"
    using assms by (cases s rule: rev_cases) auto
  ultimately show ?thesis by (simp add: strip_def)
qed

lemma strip_idem [simp]: "strip (strip s) = strip s"
proof (cases "strip s = []")
  case True
  have "strip [] = []" by (simp add: strip_def)
  then show ?thesis by (simp only: True)
next
  case False
  then show ?thesis using strip_ends [OF False] by (intro strip_same)
qed

lemma splitlines_from_one:
  "(\<forall>c \<in> set s. \<not> line_break c) \<Longrightarrow> line @ s \<noteq> [] \<Longrightarrow> splitlines_from line s = [line @ s]"
  by (induction s arbitrary: line) (auto simp: line_break_def)

lemma splitlines_one: "(\<forall>c \<in> set s. \<not> line_break c) \<Longrightarrow> s \<noteq> [] \<Longrightarrow> splitlines s = [s]"
  using splitlines_from_one [of s "[]"] by (simp add: splitlines_def)

text \<open>A word: nothing in it is white space.\<close>

definition is_word :: "string \<Rightarrow> bool" where
  "is_word w \<longleftrightarrow> w \<noteq> [] \<and> (\<forall>c \<in> set w. \<not> is_space c)"

lemma word_cut:
  assumes "is_word w"
  shows "dropWhile is_space (w @ t) = w @ t"
    and "takeWhile (\<lambda>c. \<not> is_space c) (w @ CHR '' '' # t) = w"
    and "dropWhile (\<lambda>c. \<not> is_space c) (w @ CHR '' '' # t) = CHR '' '' # t"
    and "takeWhile (\<lambda>c. \<not> is_space c) w = w" and "dropWhile (\<lambda>c. \<not> is_space c) w = []"
proof -
  have sp: "is_space (CHR '' '')" by (simp add: is_space_def)
  have w: "\<forall>c \<in> set w. \<not> is_space c" and ne: "w \<noteq> []" using assms by (auto simp: is_word_def)
  show "dropWhile is_space (w @ t) = w @ t" using w ne by (cases w) auto
  show "takeWhile (\<lambda>c. \<not> is_space c) (w @ CHR '' '' # t) = w"
    using w sp by (subst takeWhile_append2) auto
  show "dropWhile (\<lambda>c. \<not> is_space c) (w @ CHR '' '' # t) = CHR '' '' # t"
    using w sp by (subst dropWhile_append2) auto
  show "takeWhile (\<lambda>c. \<not> is_space c) w = w" using w by (simp add: takeWhile_eq_all_conv)
  show "dropWhile (\<lambda>c. \<not> is_space c) w = []" using w by (simp add: dropWhile_eq_Nil_conv)
qed

lemma split_max_skip: "split_max n (CHR '' '' # s) = split_max n s"
proof -
  have "is_space (CHR '' '')" by (simp add: is_space_def)
  then have "dropWhile is_space (CHR '' '' # s) = dropWhile is_space s" by simp
  then show ?thesis by (simp only: split_max.simps [of n])
qed

lemma split_max_word:
  assumes "is_word w"
  shows "split_max (Suc n) (w @ CHR '' '' # t) = w # split_max n t"
    and "split_max (Suc n) w = [w]"
proof -
  have ne: "w \<noteq> []" using assms by (simp add: is_word_def)
  show "split_max (Suc n) (w @ CHR '' '' # t) = w # split_max n t"
    unfolding split_max.simps [of "Suc n"] Let_def word_cut [OF assms]
    using ne by (simp add: word_cut [OF assms] split_max_skip)
  show "split_max (Suc n) w = [w]"
    unfolding split_max.simps [of "Suc n"] Let_def
    using ne word_cut(1) [OF assms, of "[]"]
    by (simp add: word_cut [OF assms] split_max.simps [of n "[]"])
qed

lemma split_max_rest: "t \<noteq> [] \<Longrightarrow> \<not> is_space (hd t) \<Longrightarrow> split_max 0 t = [t]"
  by (cases t) (simp_all add: split_max.simps)

lemma key_type_words:
  "kt \<in> set ALLOWED_KEY_TYPES \<Longrightarrow> is_word kt \<and> (\<forall>c \<in> set kt. \<not> line_break c)"
  by (auto simp: ALLOWED_KEY_TYPES_def is_word_def is_space_def line_break_def)

lemma b64_word: "bs \<noteq> [] \<Longrightarrow> is_word (b64_encode bs)"
proof -
  assume "bs \<noteq> []"
  then have "sextets (map unat bs) \<noteq> []" by (cases "map unat bs" rule: sextets.cases) auto
  then show ?thesis
    using b64_encode_chars [of _ bs] by (fastforce simp: is_word_def is_space_def b64_encode_def)
qed

lemma b64_no_break: "c \<in> set (b64_encode bs) \<Longrightarrow> \<not> line_break c"
  using b64_encode_chars [of c bs] by (auto simp: line_break_def)

lemma control_breaks: "\<not> control_char c \<Longrightarrow> \<not> line_break c"
  by (auto simp: control_char_def line_break_def)

lemma approved_nonempty: "approved_blob kt blob \<Longrightarrow> blob \<noteq> []"
  by (auto simp: approved_blob_def ssh_string_def be32_def)

lemma canonical_line:
  assumes "kt \<in> set ALLOWED_KEY_TYPES" and "approved_blob kt blob" and "safe_comment v = Inr comment"
  shows "canonical_key kt blob comment \<noteq> []"
    and "\<forall>c \<in> set (canonical_key kt blob comment). \<not> line_break c"
    and "strip (canonical_key kt blob comment) = canonical_key kt blob comment"
    and "split_max 2 (canonical_key kt blob comment) =
      (if comment = [] then [kt, b64_encode blob] else [kt, b64_encode blob, comment])"
    and "safe_comment comment = Inr comment"
proof -
  let ?line = "canonical_key kt blob comment"
  have kt: "is_word kt" "\<forall>c \<in> set kt. \<not> line_break c" using key_type_words [OF assms(1)] by auto
  have b: "is_word (b64_encode blob)" by (rule b64_word [OF approved_nonempty [OF assms(2)]])
  have c: "comment = strip v" "\<forall>c \<in> set comment. \<not> control_char c" "length comment \<le> 128"
    using assms(3) by (auto simp: safe_comment_def Let_def list_ex_iff split: if_splits)
  show ne: "?line \<noteq> []" by (simp add: canonical_key_def Let_def)
  show "\<forall>c \<in> set ?line. \<not> line_break c"
    using kt(2) c(2) b64_no_break control_breaks
    by (auto simp: canonical_key_def Let_def line_break_def)
  show "safe_comment comment = Inr comment"
    using assms(3) c by (simp add: safe_comment_def Let_def split: if_splits)
  have "\<not> is_space (hd ?line)"
    using kt(1) by (cases kt) (auto simp: canonical_key_def Let_def is_word_def)
  moreover have "\<not> is_space (last ?line)"
    using b c(1) strip_ends(2) [of v] by (auto simp: canonical_key_def Let_def is_word_def)
  ultimately show "strip ?line = ?line" using ne by (intro strip_same)
  have end_c: "comment \<noteq> [] \<Longrightarrow> split_max 0 comment = [comment]"
    using strip_ends(1) [of v] c(1) by (intro split_max_rest) auto
  show "split_max 2 ?line =
      (if comment = [] then [kt, b64_encode blob] else [kt, b64_encode blob, comment])"
    using split_max_word [OF kt(1), of 1] split_max_word [OF b, of 0] end_c
    by (simp add: canonical_key_def Let_def numeral_2_eq_2)
qed

text \<open>What a successful validation has checked, and what it returns.\<close>

lemma validate_InrD:
  assumes "validate_ssh_public_key run sha256 raw requested = Inr v"
  obtains kt blob given where "kt \<in> set ALLOWED_KEY_TYPES" "approved_blob kt blob"
    "safe_comment given = Inr (vk_comment v)" "vk_key_type v = kt"
    "vk_public_key v = canonical_key kt blob (vk_comment v)"
    "fingerprint_with_ssh_keygen run (vk_public_key v) = Inr (vk_fingerprint_sha256 v)"
    "vk_content_sha256 v = sha256 (vk_public_key v @ [char_of (10 :: nat)])"
    "\<not> contains_private_key_material (PStr raw)"
proof -
  note prem = assms [unfolded validate_ssh_public_key_def]
  obtain line where l: "filter (\<lambda>line. line \<noteq> []) (map strip (splitlines raw)) = [line]"
    using prem by (auto simp: Let_def split: if_splits list.splits)
  have p: "split_max 2 line ! 0 \<in> set ALLOWED_KEY_TYPES" "\<not> contains_private_key_material (PStr raw)"
    using prem by (auto simp: l Let_def split: if_splits)
  obtain blob where blob: "b64_decode (split_max 2 line ! 1) = Some blob"
    "validate_blob (split_max 2 line ! 0) blob = Inr ()"
    using prem by (auto simp: l Let_def split: if_splits option.splits sum.splits)
  let ?text = "if requested \<noteq> [] then requested
    else if length (split_max 2 line) = 3 then split_max 2 line ! 2 else []"
  obtain comment fp where c: "safe_comment ?text = Inr comment"
    "fingerprint_with_ssh_keygen run (canonical_key (split_max 2 line ! 0) blob comment) = Inr fp"
    "v = \<lparr>vk_key_type = split_max 2 line ! 0, vk_fingerprint_sha256 = fp,
       vk_public_key = canonical_key (split_max 2 line ! 0) blob comment, vk_comment = comment,
       vk_content_sha256 = sha256 (canonical_key (split_max 2 line ! 0) blob comment @ [char_of (10 :: nat)])\<rparr>"
    using prem unfolding l Let_def
    by (auto simp: blob [unfolded One_nat_def] split: if_split_asm sum.splits)
  show ?thesis
    using that [of "split_max 2 line ! 0" blob ?text] p c validate_blob_sound [OF blob(2)] by simp
qed

subsection \<open>Properties\<close>

text \<open>
  C35. The blob check is exact: a blob is accepted for a key type iff it is the encoding of that
  approved type's name and fields - 32 bytes of key, the P-256 curve name with an uncompressed
  point, or a security key with its application - with nothing truncated and nothing after it.
\<close>

theorem key_blob_exact:
  "validate_blob key_type blob = Inr () \<longleftrightarrow> approved_blob key_type blob"
  using validate_blob_sound validate_blob_complete by blast

text \<open>
  C36. Validation canonicalises: the line it returns validates again to the very same record
  (type, fingerprint, line, comment and digest), for whatever program computes fingerprints,
  provided the line keeps within the size limit and the comment brings in no private-key marker.
\<close>

theorem canonical_key_revalidates:
  assumes "validate_ssh_public_key run sha256 raw requested = Inr v"
    and "utf8_length (vk_public_key v) \<le> MAX_PUBLIC_KEY_BYTES"
    and "\<not> contains_private_key_material (PStr (vk_public_key v))"
  shows "validate_ssh_public_key run sha256 (vk_public_key v) [] = Inr v"
proof -
  from validate_InrD [OF assms(1)] obtain kt blob given where
    kt: "kt \<in> set ALLOWED_KEY_TYPES" and b: "approved_blob kt blob"
    and c: "safe_comment given = Inr (vk_comment v)" and v: "vk_key_type v = kt"
      "vk_public_key v = canonical_key kt blob (vk_comment v)"
      "fingerprint_with_ssh_keygen run (vk_public_key v) = Inr (vk_fingerprint_sha256 v)"
      "vk_content_sha256 v = sha256 (vk_public_key v @ [char_of (10 :: nat)])"
    by metis
  note line = canonical_line [OF kt b c]
  have "0 < utf8_length (vk_public_key v)"
    using line(1) unfolding v(2) by (cases "canonical_key kt blob (vk_comment v)") (auto simp: utf8_length_def)
  moreover have "filter (\<lambda>line. line \<noteq> []) (map strip (splitlines (vk_public_key v))) = [vk_public_key v]"
    using line(1,2,3) by (simp add: splitlines_one v(2))
  ultimately show ?thesis
    using assms(2,3) kt line(4,5) v validate_blob_complete [OF b]
    by (cases "vk_comment v = []")
      (simp_all add: validate_ssh_public_key_def Let_def)
qed

definition sample_ed25519 :: string where
  "sample_ed25519 = canonical_key ''ssh-ed25519''
     (ssh_string (ascii_bytes ''ssh-ed25519'') @ ssh_string (replicate 32 7)) ''laptop''"

lemma sample_ed25519_approved:
  "approved_blob ''ssh-ed25519'' (ssh_string (ascii_bytes ''ssh-ed25519'') @ ssh_string (replicate 32 7))"
  unfolding approved_blob_def by (intro disjI1 exI [of _ "replicate 32 7"]) simp

lemma replicate_32: "replicate 32 x = [x, x, x, x, x, x, x, x, x, x, x, x, x, x, x, x, x, x, x, x, x, x, x, x, x, x, x, x, x, x, x, x]"
  by (simp add: numeral_eq_Suc)

lemma sample_blob_octets:
  "map unat (ssh_string (ascii_bytes ''ssh-ed25519'') @ ssh_string (replicate 32 7)) =
   [0, 0, 0, 11, 115, 115, 104, 45, 101, 100, 50, 53, 53, 49, 57, 0, 0, 0, 32] @ replicate 32 7"
  by (simp add: ssh_string_def be32_def ascii_bytes_def)

lemma sample_b64_chars:
  "b64_char (Suc 0) = CHR ''B''"
  "b64_char (Suc (Suc 0)) = CHR ''C''"
  "b64_char 0 = CHR ''A''"
  "b64_char 1 = CHR ''B''"
  "b64_char 2 = CHR ''C''"
  "b64_char 3 = CHR ''D''"
  "b64_char 4 = CHR ''E''"
  "b64_char 7 = CHR ''H''"
  "b64_char 8 = CHR ''I''"
  "b64_char 13 = CHR ''N''"
  "b64_char 19 = CHR ''T''"
  "b64_char 25 = CHR ''Z''"
  "b64_char 26 = CHR ''a''"
  "b64_char 28 = CHR ''c''"
  "b64_char 37 = CHR ''l''"
  "b64_char 48 = CHR ''w''"
  "b64_char 51 = CHR ''z''"
  "b64_char 53 = CHR ''1''"
  "b64_char 55 = CHR ''3''"
  "b64_char 57 = CHR ''5''"
  by (simp_all add: b64_char_def char_of_def bit_0)

lemma sample_blob_b64:
  "b64_encode (ssh_string (ascii_bytes ''ssh-ed25519'') @ ssh_string (replicate 32 7)) =
   ''AAAAC3NzaC1lZDI1NTE5AAAAIAcHBwcHBwcHBwcHBwcHBwcHBwcHBwcHBwcHBwcHBwcH''"
proof -
  have "length (ssh_string (ascii_bytes ''ssh-ed25519'') @ ssh_string (replicate 32 7)) mod 3 = 0"
    by (simp add: ssh_string_def)
  moreover have "sextets ([0, 0, 0, 11, 115, 115, 104, 45, 101, 100, 50, 53, 53, 49, 57, 0, 0, 0, 32] @
      replicate 32 7) = [0, 0, 0, 0, 2, 55, 13, 51, 26, 2, 53, 37, 25, 3, 8, 53, 13, 19, 4, 57, 0, 0, 0, 0, 8, 0, 28, 7, 1, 48, 28, 7, 1, 48, 28, 7, 1, 48, 28, 7, 1, 48, 28, 7, 1, 48, 28, 7, 1, 48, 28, 7, 1, 48, 28, 7, 1, 48, 28, 7, 1, 48, 28, 7, 1, 48, 28, 7]"
    by (simp add: replicate_32)
  ultimately show ?thesis unfolding b64_encode_def sample_blob_octets by (simp add: sample_b64_chars)
qed

lemma sample_ed25519_line:
  "sample_ed25519 =
   ''ssh-ed25519 AAAAC3NzaC1lZDI1NTE5AAAAIAcHBwcHBwcHBwcHBwcHBwcHBwcHBwcHBwcHBwcHBwcH laptop''"
  by (simp add: sample_ed25519_def canonical_key_def sample_blob_b64)

definition sample_keygen :: keygen where
  "sample_keygen line = Some (0, ''256 SHA256:q2Uw laptop'')"

definition sample_key :: validated_ssh_public_key where
  "sample_key = \<lparr>vk_key_type = ''ssh-ed25519'', vk_fingerprint_sha256 = ''SHA256:q2Uw'',
     vk_public_key = sample_ed25519, vk_comment = ''laptop'',
     vk_content_sha256 = sample_ed25519 @ [char_of (10 :: nat)]\<rparr>"

lemma sample_ed25519_sizes:
  "utf8_length sample_ed25519 = 87"
  "\<not> contains_private_key_material (PStr sample_ed25519)"
proof -
  show "utf8_length sample_ed25519 = 87"
    unfolding sample_ed25519_line by (simp add: utf8_length_def is_ascii_char_def)
  show "\<not> contains_private_key_material (PStr sample_ed25519)"
    unfolding sample_ed25519_line contains_private_key_material_def PRIVATE_KEY_MARKERS_def
    by (simp add: upper_char_def is_lower_def)
qed

lemma sample_ed25519_accepted:
  "validate_ssh_public_key sample_keygen id sample_ed25519 [] = Inr sample_key"
proof -
  have c: "safe_comment ''laptop'' = Inr ''laptop''"
    by (simp add: safe_comment_def strip_def is_space_def control_char_def)
  have kt: "''ssh-ed25519'' \<in> set ALLOWED_KEY_TYPES" by (simp add: ALLOWED_KEY_TYPES_def)
  note line = canonical_line [OF kt sample_ed25519_approved c, folded sample_ed25519_def]
  have "filter (\<lambda>line. line \<noteq> []) (map strip (splitlines sample_ed25519)) = [sample_ed25519]"
    using line(1,2,3) by (simp add: splitlines_one)
  moreover have "fingerprint_with_ssh_keygen sample_keygen sample_ed25519 = Inr ''SHA256:q2Uw''"
    by (simp add: fingerprint_with_ssh_keygen_def sample_keygen_def split_words_def split_max.simps is_space_def)
  ultimately show ?thesis
    using sample_ed25519_sizes line(4) c kt validate_blob_complete [OF sample_ed25519_approved]
    by (simp add: validate_ssh_public_key_def Let_def sample_key_def MAX_PUBLIC_KEY_BYTES_def
        flip: sample_ed25519_def)
qed

theorem canonical_key_revalidates_witness:
  "validate_ssh_public_key sample_keygen id (vk_public_key sample_key) [] = Inr sample_key"
  by (rule canonical_key_revalidates [OF sample_ed25519_accepted])
    (simp_all add: sample_key_def sample_ed25519_sizes MAX_PUBLIC_KEY_BYTES_def)

end
