(* ===== verification/Worker_Frame.thy ===== *)
theory Worker_Frame
  imports Wire_Format
begin

section \<open>Frames between the portal and its worker\<close>

text \<open>
  The portal and the root worker exchange JSON objects over a Unix socket, each preceded by its
  length: \<open>protocol.py\<close> and \<open>server.py\<close> on the worker's side, \<open>worker_client.py\<close> and the frame
  functions of \<open>terminal_service.py\<close> on the portal's. \<open>json.dumps\<close> and \<open>json.loads\<close> are arguments
  (\<open>dumps\<close>, \<open>loads\<close>), as are the request model that validates an envelope, the handler that runs a
  request, and the peer: what comes back on the connection for the bytes that were sent, \<open>None\<close>
  when an \<open>OSError\<close> or a time-out ends the exchange. \<open>json.loads\<close> of bytes has three
  outcomes: a value, a \<open>JSONDecodeError\<close>, and a \<open>UnicodeDecodeError\<close> for bytes that are no text.
\<close>

datatype json_outcome = Json pyval | JsonDecodeError | JsonUnicodeError

definition MAX_FRAME :: nat where
  "MAX_FRAME = 64 * 1024"

definition frame :: "bytes \<Rightarrow> bytes" where
  "frame encoded = be32 (length encoded) @ encoded"

definition frame_fits :: "bytes \<Rightarrow> bool" where
  "frame_fits body \<longleftrightarrow> 0 < length body \<and> length body \<le> MAX_FRAME"

text \<open>The length is read first, and nothing else when it is out of bounds.\<close>

definition receive_body :: "exn \<Rightarrow> exn \<Rightarrow> bytes list \<Rightarrow> (bytes \<times> bytes list) result" where
  "receive_body eof bad_length conn =
     (case recv_exact eof conn 4 of Inl e \<Rightarrow> Inl e
      | Inr (header, conn) \<Rightarrow>
          let len = be32_val header in
          if len \<le> 0 \<or> MAX_FRAME < len then Inl bad_length else recv_exact eof conn len)"

lemma frame_fits_small: "frame_fits x \<Longrightarrow> length x < 4294967296"
  by (simp add: frame_fits_def MAX_FRAME_def)

lemma receive_body_frame:
  assumes "open_stream conn" and "frame_fits x" and "concat conn = frame x @ r"
  shows "\<exists>conn'. receive_body eof bad conn = Inr (x, conn') \<and> concat conn' = r \<and> open_stream conn'"
proof -
  have "4 \<le> length (concat conn)" by (simp add: assms(3) frame_def)
  then obtain c1 where c1: "recv_exact eof conn 4 = Inr (take 4 (concat conn), c1)"
      "concat c1 = drop 4 (concat conn)" "open_stream c1"
    using recv_exact_stream [OF assms(1)] by blast
  then have body: "concat c1 = x @ r" by (simp add: assms(3) frame_def)
  have "take 4 (concat conn) = be32 (length x)" by (simp add: assms(3) frame_def)
  moreover obtain c2 where "recv_exact eof c1 (length x) = Inr (x, c2)" "concat c2 = r" "open_stream c2"
    using recv_exact_stream [OF c1(3), of "length x" eof] by (auto simp: body)
  ultimately show ?thesis
    using c1(1) assms(2) frame_fits_small [OF assms(2)]
    by (auto simp: receive_body_def frame_fits_def)
qed

lemma receive_body_sound:
  assumes "open_stream conn" and "receive_body eof bad conn = Inr (x, conn')"
  shows "frame_fits x \<and> concat conn = frame x @ concat conn' \<and> open_stream conn'"
proof -
  obtain header c1 where h: "recv_exact eof conn 4 = Inr (header, c1)"
    "recv_exact eof c1 (be32_val header) = Inr (x, conn')" "0 < be32_val header" "be32_val header \<le> MAX_FRAME"
    using assms(2) by (auto simp: receive_body_def Let_def split: sum.splits if_splits)
  from recv_exact_sound [OF assms(1) h(1)]
  have h4: "length header = 4" "concat conn = header @ concat c1" "open_stream c1" by auto
  from recv_exact_sound [OF h4(3) h(2)]
  have "length x = be32_val header" "concat c1 = x @ concat conn'" "open_stream conn'" by auto
  with h h4 show ?thesis by (simp add: frame_def frame_fits_def)
qed

interpretation frames: length_prefixed frame "receive_body eof bad" concat open_stream frame_fits
  for eof bad
proof unfold_locales
  show "\<exists>s. open_stream s \<and> concat s = b" for b
    by (rule exI [of _ "if b = [] then [] else [b]"]) (simp add: open_stream_def)
  show "frame x \<noteq> []" for x by (simp add: frame_def be32_def)
qed (use receive_body_frame receive_body_sound in blast)+

subsection \<open>\<open>protocol.py\<close>\<close>

definition protocol_error :: "string \<Rightarrow> exn" where
  "protocol_error message = ValueError message"

definition encode_frame :: "(pyval \<Rightarrow> bytes) \<Rightarrow> pyval \<Rightarrow> bytes result" where
  "encode_frame dumps value =
     (let encoded = dumps value in
      if MAX_FRAME < length encoded then Inl (protocol_error ''frame exceeds maximum size'')
      else Inr (be32 (length encoded) @ encoded))"

definition decode_frame :: "(bytes \<Rightarrow> json_outcome) \<Rightarrow> bytes \<Rightarrow> pyval result" where
  "decode_frame loads data =
     (if length data < 4 then Inl (protocol_error ''missing frame length'')
      else let len = be32_val (take 4 data) in
        if len \<le> 0 \<or> MAX_FRAME < len \<or> length data \<noteq> len + 4
        then Inl (protocol_error ''invalid frame length'')
        else case loads (drop 4 data) of
          JsonDecodeError \<Rightarrow> Inl (ValueError ''JSONDecodeError'')
        | JsonUnicodeError \<Rightarrow> Inl (ValueError ''UnicodeDecodeError'')
        | Json value \<Rightarrow> if is_dict value then Inr value
            else Inl (protocol_error ''frame must contain an object''))"

subsection \<open>The portal's call\<close>

text \<open>
  The arguments of \<open>call_worker\<close>. \<open>d.setdefault(k, v)\<close> adds the key only when it is absent.
\<close>

record worker_call =
  wcall_operation_type :: string
  wcall_payload :: "(string \<times> pyval) list"
  wcall_requested_by :: string
  wcall_approved_by :: "string option"
  wcall_idempotency_key :: string
  wcall_dry_run :: bool

definition setdefault :: "pyval \<Rightarrow> string \<Rightarrow> pyval \<Rightarrow> pyval" where
  "setdefault d k v = (if map_of (dict_items d) k = None then PDict (dict_put (dict_items d) k v) else d)"

definition worker_envelope :: "uuid \<Rightarrow> string \<Rightarrow> worker_call \<Rightarrow> pyval" where
  "worker_envelope request_id fresh_key call = PDict
     [(''protocol_version'', PInt 1), (''request_id'', PStr request_id),
      (''operation_type'', PStr (wcall_operation_type call)),
      (''payload'', PDict (wcall_payload call)), (''requested_by'', PStr (wcall_requested_by call)),
      (''approved_by'', opt_val PStr (wcall_approved_by call)),
      (''idempotency_key'', PStr (if wcall_idempotency_key call = [] then fresh_key
                              else wcall_idempotency_key call)),
      (''dry_run'', PBool (wcall_dry_run call))]"

type_synonym peer = "bytes \<Rightarrow> bytes list option"

definition call_worker :: "(pyval \<Rightarrow> bytes) \<Rightarrow> (bytes \<Rightarrow> json_outcome) \<Rightarrow> peer \<Rightarrow> uuid \<Rightarrow> string \<Rightarrow>
    instant \<Rightarrow> worker_call \<Rightarrow> pyval result" where
  "call_worker dumps loads peer request_id fresh_key now call =
     (let encoded = dumps (worker_envelope request_id fresh_key call);
          eof = WorkerClientError ''WORKER_EOF'' in
      if MAX_FRAME < length encoded then Inl (WorkerClientError ''WORKER_REQUEST_TOO_LARGE'')
      else case peer (be32 (length encoded) @ encoded) of
        None \<Rightarrow> Inl (WorkerClientError ''WORKER_UNAVAILABLE'')
      | Some conn \<Rightarrow>
        (case receive_body eof (WorkerClientError ''WORKER_RESPONSE_TOO_LARGE'') conn of
          Inl e \<Rightarrow> Inl e
        | Inr (body, _) \<Rightarrow>
          (case loads body of
            JsonDecodeError \<Rightarrow> Inl (WorkerClientError ''WORKER_UNAVAILABLE'')
          | JsonUnicodeError \<Rightarrow> Inl (ValueError ''UnicodeDecodeError'')
          | Json response \<Rightarrow>
              if \<not> is_dict response then Inl (WorkerClientError ''WORKER_PROTOCOL_ERROR'')
              else Inr (setdefault response ''captured_at'' (PTime now)))))"

subsection \<open>The worker's side of a connection\<close>

text \<open>
  \<open>process_connection\<close>: \<open>validate\<close> is the request model (\<open>None\<close> for a \<open>ValidationError\<close>), \<open>handle\<close>
  the dispatcher of the operations, which may raise. The outcome is the bytes of the one reply, a
  terminal stream, or nothing at all when the exception of the final \<open>encode_frame\<close>, which stands
  outside the \<open>try\<close>, ends the connection.
\<close>

record worker_request =
  wreq_request_id :: string
  wreq_operation_type :: string
  wreq_payload :: pyval
  wreq_requested_by :: string
  wreq_approved_by :: "string option"
  wreq_idempotency_key :: string
  wreq_dry_run :: bool

datatype handled = Handled "(string \<times> pyval) list" | RaisedProtocol | RaisedOther

datatype served = Reply bytes | TerminalStream worker_request | Closed

definition worker_error :: "string \<Rightarrow> string option \<Rightarrow> pyval" where
  "worker_error code message = PDict [(''status'', PStr ''ERROR''),
     (''error'', PDict ((''code'', PStr code) # (case message of None \<Rightarrow> []
        | Some m \<Rightarrow> [(''message'', PStr m)])))]"

definition protocol_rejected :: pyval where
  "protocol_rejected =
     worker_error ''PROTOCOL_REJECTED'' (Some ''request rejected by fixed Worker protocol'')"

definition worker_exception :: pyval where
  "worker_exception =
     worker_error ''WORKER_EXCEPTION'' (Some ''Worker failed closed while processing the request'')"

definition send_reply :: "(pyval \<Rightarrow> bytes) \<Rightarrow> pyval \<Rightarrow> served" where
  "send_reply dumps value = (case encode_frame dumps value of Inl _ \<Rightarrow> Closed | Inr bs \<Rightarrow> Reply bs)"

definition run_request :: "(worker_request \<Rightarrow> handled) \<Rightarrow> instant \<Rightarrow> worker_request \<Rightarrow> pyval" where
  "run_request handle now request =
     (case handle request of
        RaisedProtocol \<Rightarrow> protocol_rejected
      | RaisedOther \<Rightarrow> worker_exception
      | Handled answer \<Rightarrow> setdefault
          (setdefault (PDict answer) ''request_id'' (PStr (wreq_request_id request)))
          ''captured_at'' (PTime now))"

definition process_connection :: "(pyval \<Rightarrow> bytes) \<Rightarrow> (bytes \<Rightarrow> json_outcome) \<Rightarrow>
    (pyval \<Rightarrow> worker_request option) \<Rightarrow> (worker_request \<Rightarrow> handled) \<Rightarrow> bool \<Rightarrow> bool \<Rightarrow> instant \<Rightarrow>
    bytes list \<Rightarrow> served" where
  "process_connection dumps loads validate handle peer_is_api terminal_slot_free now conn =
     (if \<not> peer_is_api then send_reply dumps (worker_error ''PEER_REJECTED'' None)
      else case receive_body (protocol_error ''connection closed before frame completed'')
                  (protocol_error ''invalid request length'') conn of
        Inl _ \<Rightarrow> send_reply dumps protocol_rejected
      | Inr (body, _) \<Rightarrow>
        (case loads body of
          JsonDecodeError \<Rightarrow> send_reply dumps protocol_rejected
        | JsonUnicodeError \<Rightarrow> send_reply dumps worker_exception
        | Json value \<Rightarrow>
          (case validate value of
            None \<Rightarrow> send_reply dumps protocol_rejected
          | Some request \<Rightarrow>
              if wreq_operation_type request = ''self.container.terminal'' then
                (if terminal_slot_free then TerminalStream request
                 else send_reply dumps (worker_error ''TERMINAL_LIMIT_REACHED''
                   (Some ''controlled terminal stream limit reached'')))
              else send_reply dumps (run_request handle now request))))"

text \<open>The worker as the peer of a call: it sees the request in the chunks \<open>cut_in\<close> makes of it,
and the portal sees the reply in the chunks \<open>cut_out\<close> makes of it.\<close>

definition worker_peer :: "(pyval \<Rightarrow> bytes) \<Rightarrow> (bytes \<Rightarrow> json_outcome) \<Rightarrow>
    (pyval \<Rightarrow> worker_request option) \<Rightarrow> (worker_request \<Rightarrow> handled) \<Rightarrow> bool \<Rightarrow> bool \<Rightarrow> instant \<Rightarrow>
    (bytes \<Rightarrow> bytes list) \<Rightarrow> (bytes \<Rightarrow> bytes list) \<Rightarrow> peer" where
  "worker_peer dumps loads validate handle peer_is_api terminal_slot_free now cut_in cut_out sent =
     (case process_connection dumps loads validate handle peer_is_api terminal_slot_free now (cut_in sent) of
        Reply bs \<Rightarrow> Some (cut_out bs) | TerminalStream _ \<Rightarrow> Some [] | Closed \<Rightarrow> Some [])"

definition cuts :: "(bytes \<Rightarrow> bytes list) \<Rightarrow> bool" where
  "cuts f \<longleftrightarrow> (\<forall>bs. concat (f bs) = bs \<and> open_stream (f bs))"

lemma encode_frame_ok: "length (dumps v) \<le> MAX_FRAME \<Longrightarrow> encode_frame dumps v = Inr (frame (dumps v))"
  by (simp add: encode_frame_def frame_def Let_def)

lemma receive_own_frame:
  assumes "cuts f" and "frame_fits x"
  shows "\<exists>conn'. receive_body eof bad (f (frame x)) = Inr (x, conn')"
  using receive_body_frame [of "f (frame x)" x "[]" eof bad] assms by (auto simp: cuts_def)

lemma process_valid_request:
  assumes "cuts cut_in" and "frame_fits (dumps envelope)" and "loads (dumps envelope) = Json envelope"
    and "validate envelope = Some request"
    and "wreq_operation_type request \<noteq> ''self.container.terminal''"
  shows "process_connection dumps loads validate handle True slot now (cut_in (frame (dumps envelope))) =
    send_reply dumps (run_request handle now request)"
proof -
  obtain conn' where "receive_body (protocol_error ''connection closed before frame completed'')
      (protocol_error ''invalid request length'') (cut_in (frame (dumps envelope))) =
      Inr (dumps envelope, conn')"
    using receive_own_frame [OF assms(1,2)] by blast
  with assms(3-5) show ?thesis by (simp add: process_connection_def)
qed

lemma is_dict_setdefault [simp]: "is_dict d \<Longrightarrow> is_dict (setdefault d k v)"
  by (simp add: setdefault_def)

lemma dget_setdefault:
  "is_dict d \<Longrightarrow> dget (setdefault d k v) k' =
    (if k' = k \<and> map_of (dict_items d) k = None then v else dget d k')"
  by (cases d) (auto simp: setdefault_def)

lemma setdefault_present: "map_of (dict_items d) k = Some v \<Longrightarrow> setdefault d k w = d"
  by (simp add: setdefault_def)

lemma setdefault_twice: "is_dict d \<Longrightarrow> setdefault (setdefault d k v) k w = setdefault d k v"
  by (cases d) (auto simp: setdefault_def)

subsection \<open>Properties\<close>

text \<open>
  C33. Request and reply arrive intact: whatever the sizes of the chunks the two byte streams are
  cut into, a call to a worker that runs the request returns the handler's answer, with the
  request id and the capture time the worker adds when the handler left them out.
\<close>

theorem worker_call_end_to_end:
  assumes "cuts cut_in" and "cuts cut_out"
    and "envelope = worker_envelope request_id fresh_key call"
    and "frame_fits (dumps envelope)" and "loads (dumps envelope) = Json envelope"
    and "validate envelope = Some request"
    and "wreq_operation_type request \<noteq> ''self.container.terminal''"
    and "reply = run_request handle worker_now request"
    and "frame_fits (dumps reply)" and "loads (dumps reply) = Json reply"
    and "handle request = Handled answer"
  shows "call_worker dumps loads
      (worker_peer dumps loads validate handle True slot worker_now cut_in cut_out)
      request_id fresh_key now call =
    Inr (setdefault (setdefault (PDict answer) ''request_id'' (PStr (wreq_request_id request)))
      ''captured_at'' (PTime worker_now))"
proof -
  have reply: "reply = setdefault (setdefault (PDict answer) ''request_id'' (PStr (wreq_request_id request)))
      ''captured_at'' (PTime worker_now)"
    using assms(8,11) by (simp add: run_request_def)
  have le: "length (dumps reply) \<le> MAX_FRAME" "length (dumps envelope) \<le> MAX_FRAME"
    using assms(4,9) by (simp_all add: frame_fits_def)
  have "process_connection dumps loads validate handle True slot worker_now
      (cut_in (frame (dumps envelope))) = Reply (frame (dumps reply))"
    using process_valid_request [where dumps = dumps and loads = loads and validate = validate and
        envelope = envelope and request = request, OF assms(1,4-7)] assms(8)
      encode_frame_ok [of dumps reply, OF le(1)]
    by (simp add: send_reply_def)
  then have peer: "worker_peer dumps loads validate handle True slot worker_now cut_in cut_out
      (frame (dumps envelope)) = Some (cut_out (frame (dumps reply)))"
    by (simp add: worker_peer_def)
  have "is_dict reply" and same: "setdefault reply ''captured_at'' (PTime now) = reply"
    by (simp_all add: reply setdefault_twice)
  obtain conn' where "receive_body (WorkerClientError ''WORKER_EOF'')
      (WorkerClientError ''WORKER_RESPONSE_TOO_LARGE'') (cut_out (frame (dumps reply))) =
      Inr (dumps reply, conn')"
    using receive_own_frame [OF assms(2,9)] by blast
  then show ?thesis
    using peer le(2) assms(3,10) \<open>is_dict reply\<close> same
    by (simp add: call_worker_def Let_def frame_def reply [symmetric])
qed

lemma protocol_roundtrip:
  assumes "frame_fits (dumps v)" and "loads (dumps v) = Json v" and "is_dict v"
  shows "encode_frame dumps v = Inr (frame (dumps v))" and "decode_frame loads (frame (dumps v)) = Inr v"
  using assms frame_fits_small [OF assms(1)]
  by (simp_all add: encode_frame_ok decode_frame_def frame_def frame_fits_def Let_def)

text \<open>
  A reply that does not fit a frame is lost without an error frame: the operation has run,
  and the portal sees the connection close before a single byte of an answer.
\<close>

theorem oversized_answer_is_lost:
  assumes "cuts cut_in" and "cuts cut_out"
    and "envelope = worker_envelope request_id fresh_key call"
    and "frame_fits (dumps envelope)" and "loads (dumps envelope) = Json envelope"
    and "validate envelope = Some request"
    and "wreq_operation_type request \<noteq> ''self.container.terminal''"
    and "MAX_FRAME < length (dumps (run_request handle worker_now request))"
  shows "process_connection dumps loads validate handle True slot worker_now
      (cut_in (frame (dumps envelope))) = Closed \<and>
    call_worker dumps loads
      (worker_peer dumps loads validate handle True slot worker_now cut_in cut_out)
      request_id fresh_key now call = Inl (WorkerClientError ''WORKER_EOF'')"
proof -
  have "encode_frame dumps (run_request handle worker_now request) =
      Inl (protocol_error ''frame exceeds maximum size'')"
    using assms(8) by (simp add: encode_frame_def)
  then have closed: "process_connection dumps loads validate handle True slot worker_now
      (cut_in (frame (dumps envelope))) = Closed"
    using process_valid_request [where dumps = dumps and loads = loads and validate = validate and
        envelope = envelope and request = request, OF assms(1,4-7)]
    by (simp add: send_reply_def)
  have "receive_body (WorkerClientError ''WORKER_EOF'') bad [] = Inl (WorkerClientError ''WORKER_EOF'')"
    for bad by (simp add: receive_body_def recv_exact.simps)
  moreover have "length (dumps envelope) \<le> MAX_FRAME" using assms(4) by (simp add: frame_fits_def)
  ultimately show ?thesis
    using closed assms(3)
    by (simp add: call_worker_def Let_def worker_peer_def frame_def)
qed

subsection \<open>A sample exchange\<close>

definition sample_call :: worker_call where
  "sample_call = \<lparr>wcall_operation_type = ''gpu.read'', wcall_payload = [],
     wcall_requested_by = ''portal'', wcall_approved_by = None,
     wcall_idempotency_key = ''gpu-read-0001'', wcall_dry_run = False\<rparr>"

definition sample_request :: worker_request where
  "sample_request = \<lparr>wreq_request_id = ''r1'', wreq_operation_type = ''gpu.read'',
     wreq_payload = PDict [], wreq_requested_by = ''portal'', wreq_approved_by = None,
     wreq_idempotency_key = ''gpu-read-0001'', wreq_dry_run = False\<rparr>"

definition sample_envelope :: pyval where
  "sample_envelope = worker_envelope ''r1'' ''k'' sample_call"

definition sample_reply :: pyval where
  "sample_reply = PDict [(''status'', PStr ''OK''), (''request_id'', PStr ''r1''),
     (''captured_at'', PTime 7)]"

text \<open>A codec of the two values of the exchange.\<close>

definition sample_dumps :: "pyval \<Rightarrow> bytes" where
  "sample_dumps v = (if dget v ''status'' = PNone then [1, 2] else [3])"

definition sample_loads :: "bytes \<Rightarrow> json_outcome" where
  "sample_loads bs = (if bs = [1, 2] then Json sample_envelope
     else if bs = [3] then Json sample_reply else JsonDecodeError)"

definition bytewise :: "bytes \<Rightarrow> bytes list" where
  "bytewise bs = map (\<lambda>b. [b]) bs"

lemma cuts_bytewise: "cuts bytewise"
  by (auto simp: cuts_def bytewise_def open_stream_def)

lemma sample_exchange:
  "dget sample_envelope ''status'' = PNone"
  "run_request (\<lambda>_. Handled [(''status'', PStr ''OK'')]) 7 sample_request = sample_reply"
  "dget sample_reply ''status'' = PStr ''OK''"
  by (simp_all add: sample_envelope_def worker_envelope_def run_request_def sample_request_def
      sample_reply_def setdefault_def)

theorem worker_call_end_to_end_witness:
  "call_worker sample_dumps sample_loads
      (worker_peer sample_dumps sample_loads (\<lambda>_. Some sample_request)
        (\<lambda>_. Handled [(''status'', PStr ''OK'')]) True True 7 bytewise bytewise)
      ''r1'' ''k'' 9 sample_call = Inr sample_reply"
proof -
  have "sample_reply = setdefault (setdefault (PDict [(''status'', PStr ''OK'')]) ''request_id''
      (PStr (wreq_request_id sample_request))) ''captured_at'' (PTime 7)"
    using sample_exchange(2) by (simp add: run_request_def)
  then show ?thesis
    using worker_call_end_to_end [OF cuts_bytewise cuts_bytewise sample_envelope_def, of
        sample_dumps sample_loads "\<lambda>_. Some sample_request" sample_request sample_reply
        "\<lambda>_. Handled [(''status'', PStr ''OK'')]" 7 "[(''status'', PStr ''OK'')]" True 9]
    by (simp add: sample_dumps_def sample_loads_def sample_exchange frame_fits_def MAX_FRAME_def)
      (simp add: sample_request_def)
qed

theorem oversized_answer_is_lost_witness:
  "call_worker (\<lambda>v. if dget v ''status'' = PNone then [1, 2] else replicate (Suc MAX_FRAME) 0) sample_loads
      (worker_peer (\<lambda>v. if dget v ''status'' = PNone then [1, 2] else replicate (Suc MAX_FRAME) 0)
        sample_loads (\<lambda>_. Some sample_request) (\<lambda>_. Handled [(''status'', PStr ''OK'')])
        True True 7 bytewise bytewise)
      ''r1'' ''k'' 9 sample_call = Inl (WorkerClientError ''WORKER_EOF'')"
  using oversized_answer_is_lost [OF cuts_bytewise cuts_bytewise sample_envelope_def, of
      "\<lambda>v. if dget v ''status'' = PNone then [1, 2] else replicate (Suc MAX_FRAME) 0" sample_loads
      "\<lambda>_. Some sample_request" sample_request "\<lambda>_. Handled [(''status'', PStr ''OK'')]" 7 True 9]
  by (simp add: sample_loads_def sample_exchange frame_fits_def MAX_FRAME_def)
    (simp add: sample_request_def)

end
