(* ===== verification/Terminal_Service.thy ===== *)
theory Terminal_Service
  imports Worker_Frame Security_Metadata
begin

section \<open>Web terminals\<close>

text \<open>
  \<open>terminal_service.py\<close>: the portal's side of a container terminal. A terminal keeps the last
  output of the container in a bounded buffer of chunks; a browser polls it with the position it
  has read up to. The registry keeps the open terminals and limits their number. Positions and
  sizes are byte counts from the start of the session; the monotonic clock is in microseconds.
  A thread is a list of atomic steps: a block under one lock is one definition.
\<close>

definition OUTPUT_BUFFER_BYTES :: nat where
  "OUTPUT_BUFFER_BYTES = 1024 * 1024"

definition OUTPUT_RESPONSE_BYTES :: nat where
  "OUTPUT_RESPONSE_BYTES = 256 * 1024"

definition MAX_TERMINALS_PER_MANAGED_USER :: nat where
  "MAX_TERMINALS_PER_MANAGED_USER = 2"

definition MAX_TERMINALS_GLOBAL :: nat where
  "MAX_TERMINALS_GLOBAL = 8"

definition ENDED_SESSION_RETENTION :: instant where
  "ENDED_SESSION_RETENTION = seconds (5 * 60)"

subsection \<open>Frames\<close>

definition terminal_eof :: exn where
  "terminal_eof = TerminalServiceError ''TERMINAL_WORKER_EOF''"

definition terminal_protocol_error :: exn where
  "terminal_protocol_error = TerminalServiceError ''TERMINAL_PROTOCOL_ERROR''"

definition receive_frame :: "(bytes \<Rightarrow> json_outcome) \<Rightarrow> bytes list \<Rightarrow> (pyval \<times> bytes list) result" where
  "receive_frame loads conn =
     (case receive_body terminal_eof terminal_protocol_error conn of Inl e \<Rightarrow> Inl e
      | Inr (body, conn') \<Rightarrow>
        (case loads body of
          JsonDecodeError \<Rightarrow> Inl terminal_protocol_error
        | JsonUnicodeError \<Rightarrow> Inl (ValueError ''UnicodeDecodeError'')
        | Json value \<Rightarrow> if is_dict value then Inr (value, conn') else Inl terminal_protocol_error))"

text \<open>\<open>sent\<close> says whether \<open>sendall\<close> succeeded; the result is the bytes on the wire.\<close>

definition send_frame :: "(pyval \<Rightarrow> bytes) \<Rightarrow> bool \<Rightarrow> pyval \<Rightarrow> bytes result" where
  "send_frame dumps sent value =
     (let encoded = dumps value in
      if encoded = [] \<or> MAX_FRAME < length encoded then Inl terminal_protocol_error
      else if sent then Inr (be32 (length encoded) @ encoded) else Inl terminal_eof)"

lemma receive_sent_frame:
  assumes "send_frame dumps True value = Inr sent" and "cuts f"
    and "loads (dumps value) = Json value" and "is_dict value"
  shows "\<exists>conn'. receive_frame loads (f sent) = Inr (value, conn')"
proof -
  have fits: "frame_fits (dumps value)" and sent: "sent = frame (dumps value)"
    using assms(1) by (auto simp: send_frame_def frame_fits_def frame_def Let_def split: if_splits)
  from receive_own_frame [OF assms(2) fits, of terminal_eof terminal_protocol_error]
  show ?thesis using assms(3,4) by (auto simp: receive_frame_def sent)
qed

subsection \<open>One terminal\<close>

record worker_terminal =
  wt_ready :: pyval
  wt_chunks :: "(nat \<times> bytes) list"
  wt_buffer_bytes :: nat
  wt_buffer_start :: nat
  wt_cursor :: nat
  wt_state :: string
  wt_reason :: "string option"
  wt_exit_code :: "int option"
  wt_ended_monotonic :: "instant option"
  wt_reading :: bool

definition new_terminal :: "pyval \<Rightarrow> worker_terminal" where
  "new_terminal ready = \<lparr>wt_ready = ready, wt_chunks = [], wt_buffer_bytes = 0, wt_buffer_start = 0,
     wt_cursor = 0, wt_state = ''RUNNING'', wt_reason = None, wt_exit_code = None,
     wt_ended_monotonic = None, wt_reading = True\<rparr>"

definition finish_terminal :: "string \<Rightarrow> string \<Rightarrow> int option \<Rightarrow> instant \<Rightarrow> worker_terminal \<Rightarrow> worker_terminal" where
  "finish_terminal state reason exit_code now t =
     (if wt_state t \<in> set [''CLOSED'', ''ERROR''] then t
      else t\<lparr>wt_state := state, wt_reason := Some (take 64 reason), wt_exit_code := exit_code,
             wt_ended_monotonic := Some now\<rparr>)"

text \<open>The loop that drops the oldest chunks, on the chunks, the buffered size and its start.\<close>

fun evict :: "nat \<Rightarrow> (nat \<times> bytes) list \<Rightarrow> nat \<Rightarrow> nat \<Rightarrow> (nat \<times> bytes) list \<times> nat \<times> nat" where
  "evict limit [] buffered start = ([], buffered, start)"
| "evict limit ((old_start, old) # chunks) buffered start =
     (if limit < buffered
      then evict limit chunks (buffered - length old) (old_start + length old)
      else ((old_start, old) # chunks, buffered, start))"

definition append_output :: "bytes \<Rightarrow> worker_terminal \<Rightarrow> worker_terminal" where
  "append_output out t =
     (let (chunks, buffered, start) = evict OUTPUT_BUFFER_BYTES
            (wt_chunks t @ [(wt_cursor t, out)]) (wt_buffer_bytes t + length out) (wt_buffer_start t)
      in t\<lparr>wt_chunks := chunks, wt_cursor := wt_cursor t + length out,
            wt_buffer_bytes := buffered, wt_buffer_start := start\<rparr>)"

text \<open>
  One turn of the reader thread: what \<open>receive_frame\<close> gave, or an \<open>OSError\<close> of the socket. A
  \<open>UnicodeDecodeError\<close> is caught by neither handler and ends the thread where it is.
\<close>

datatype received = Received pyval | ReceiveFailed exn | SocketFailed

definition dict_keys :: "pyval \<Rightarrow> string set" where
  "dict_keys v = set (map fst (dict_items v))"

definition reader_failed :: "string \<Rightarrow> instant \<Rightarrow> worker_terminal \<Rightarrow> worker_terminal" where
  "reader_failed code now t =
     (let state = (if wt_state t = ''CLOSING'' then ''CLOSED'' else ''ERROR'');
          reason = (if state = ''CLOSED'' then ''CLIENT_CLOSED'' else code)
      in (finish_terminal state reason None now t)\<lparr>wt_reading := False\<rparr>)"

definition output_of_frame :: "pyval \<Rightarrow> bytes option" where
  "output_of_frame fr =
     (case dget fr ''data_b64'' of
        PStr encoded \<Rightarrow>
          if 24 * 1024 < length encoded then None
          else (case b64_decode encoded of None \<Rightarrow> None
            | Some out \<Rightarrow> if out = [] \<or> 16 * 1024 < length out then None else Some out)
      | _ \<Rightarrow> None)"

definition read_frame :: "pyval \<Rightarrow> instant \<Rightarrow> worker_terminal \<Rightarrow> worker_terminal" where
  "read_frame fr now t =
     (if dget fr ''type'' = PStr ''output'' \<and> dict_keys fr = {''type'', ''data_b64''} then
        (case output_of_frame fr of
           None \<Rightarrow> reader_failed ''TERMINAL_PROTOCOL_ERROR'' now t
         | Some out \<Rightarrow> append_output out t)
      else if dget fr ''type'' = PStr ''exit'' \<and> dict_keys fr = {''type'', ''reason'', ''exit_code''} then
        (finish_terminal ''CLOSED'' (py_str (dget_or fr ''reason'' (PStr ''PROCESS_EXITED'')))
           (py_int (dget fr ''exit_code'')) now t)\<lparr>wt_reading := False\<rparr>
      else if dget fr ''type'' = PStr ''error'' then
        (finish_terminal ''ERROR'' (py_str (dget_or fr ''code'' (PStr ''TERMINAL_WORKER_ERROR'')))
           None now t)\<lparr>wt_reading := False\<rparr>
      else reader_failed ''TERMINAL_PROTOCOL_ERROR'' now t)"

definition read_loop_step :: "received \<Rightarrow> instant \<Rightarrow> worker_terminal \<Rightarrow> worker_terminal" where
  "read_loop_step r now t =
     (if \<not> wt_reading t then t
      else case r of
        Received fr \<Rightarrow> read_frame fr now t
      | ReceiveFailed (TerminalServiceError code) \<Rightarrow> reader_failed code now t
      | ReceiveFailed _ \<Rightarrow> t\<lparr>wt_reading := False\<rparr>
      | SocketFailed \<Rightarrow> reader_failed ''TERMINAL_WORKER_EOF'' now t)"

definition send_input :: "(pyval \<Rightarrow> bytes) \<Rightarrow> bool \<Rightarrow> bytes \<Rightarrow> worker_terminal \<Rightarrow> bytes result" where
  "send_input dumps sent data t =
     (if data = [] \<or> 8 * 1024 < length data
      then Inl (TerminalServiceError ''TERMINAL_INPUT_REJECTED'')
      else if wt_state t \<noteq> ''RUNNING'' then Inl (TerminalServiceError ''TERMINAL_NOT_RUNNING'')
      else send_frame dumps sent
        (PDict [(''type'', PStr ''input''), (''data_b64'', PStr (b64_encode data))]))"

definition resize :: "(pyval \<Rightarrow> bytes) \<Rightarrow> bool \<Rightarrow> int \<Rightarrow> int \<Rightarrow> worker_terminal \<Rightarrow> bytes result" where
  "resize dumps sent cols rows t =
     (if wt_state t \<noteq> ''RUNNING'' then Inl (TerminalServiceError ''TERMINAL_NOT_RUNNING'')
      else send_frame dumps sent
        (PDict [(''type'', PStr ''resize''), (''cols'', PInt cols), (''rows'', PInt rows)]))"

definition request_close :: "(pyval \<Rightarrow> bytes) \<Rightarrow> bool \<Rightarrow> instant \<Rightarrow> worker_terminal \<Rightarrow> worker_terminal" where
  "request_close dumps sent now t =
     (if wt_state t \<in> set [''CLOSED'', ''ERROR'', ''CLOSING''] then t
      else let closing = t\<lparr>wt_state := ''CLOSING''\<rparr> in
        case send_frame dumps sent (PDict [(''type'', PStr ''close'')]) of
          Inl (TerminalServiceError _) \<Rightarrow> finish_terminal ''CLOSED'' ''CLIENT_CLOSED'' None now closing
        | _ \<Rightarrow> closing)"

text \<open>
  \<open>output\<close>: the position is checked on entry, then the call waits while it is at the end of a
  live terminal, and the answer is cut from the chunks the terminal has when the wait is over.
\<close>

definition output_expired :: "nat \<Rightarrow> worker_terminal \<Rightarrow> bool" where
  "output_expired cursor t \<longleftrightarrow> cursor < wt_buffer_start t \<or> wt_cursor t < cursor"

definition must_wait :: "nat \<Rightarrow> worker_terminal \<Rightarrow> bool" where
  "must_wait cursor t \<longleftrightarrow> cursor = wt_cursor t \<and> wt_state t \<in> set [''RUNNING'', ''CLOSING'']"

fun cut_chunks :: "nat \<Rightarrow> (nat \<times> bytes) list \<Rightarrow> nat \<Rightarrow> bytes" where
  "cut_chunks cursor [] taken = []"
| "cut_chunks cursor ((start, chunk) # chunks) taken =
     (if start + length chunk \<le> cursor then cut_chunks cursor chunks taken
      else let available = drop (cursor - start) chunk;
               n = min (length available) (OUTPUT_RESPONSE_BYTES - taken)
           in if n = 0 then []
              else take n available @
                (if OUTPUT_RESPONSE_BYTES \<le> taken + n then []
                 else cut_chunks cursor chunks (taken + n)))"

record output_answer =
  oa_data_b64 :: string
  oa_cursor :: nat
  oa_state :: string
  oa_reason :: "string option"
  oa_exit_code :: "int option"

definition read_output :: "nat \<Rightarrow> worker_terminal \<Rightarrow> worker_terminal \<Rightarrow> output_answer result" where
  "read_output cursor at_entry t =
     (if output_expired cursor at_entry
      then Inl (TerminalServiceError ''TERMINAL_OUTPUT_CURSOR_EXPIRED'')
      else let out = cut_chunks cursor (wt_chunks t) 0 in
        Inr \<lparr>oa_data_b64 = b64_encode out, oa_cursor = cursor + length out, oa_state = wt_state t,
             oa_reason = wt_reason t, oa_exit_code = wt_exit_code t\<rparr>)"

subsection \<open>The buffer refines the output stream\<close>

text \<open>
  The abstract terminal is the whole output \<open>S\<close> since the start. The buffer holds a suffix of it,
  cut into chunks that follow one another, at most \<open>OUTPUT_BUFFER_BYTES\<close> long and, once anything
  has been dropped, at most one chunk short of that.
\<close>

definition MAX_CHUNK :: nat where
  "MAX_CHUNK = 16 * 1024"

fun chunk_layout :: "nat \<Rightarrow> (nat \<times> bytes) list \<Rightarrow> bool" where
  "chunk_layout pos [] \<longleftrightarrow> True"
| "chunk_layout pos ((start, chunk) # chunks) \<longleftrightarrow>
     start = pos \<and> chunk \<noteq> [] \<and> length chunk \<le> MAX_CHUNK \<and> chunk_layout (pos + length chunk) chunks"

definition holds_suffix :: "bytes \<Rightarrow> (nat \<times> bytes) list \<Rightarrow> nat \<Rightarrow> nat \<Rightarrow> bool" where
  "holds_suffix S chunks buffered start \<longleftrightarrow>
     start \<le> length S \<and> chunk_layout start chunks \<and> concat (map snd chunks) = drop start S \<and>
     buffered = length S - start \<and> (start = 0 \<or> OUTPUT_BUFFER_BYTES < buffered + MAX_CHUNK)"

definition buffer_of :: "bytes \<Rightarrow> worker_terminal \<Rightarrow> bool" where
  "buffer_of S t \<longleftrightarrow> wt_cursor t = length S \<and>
     holds_suffix S (wt_chunks t) (wt_buffer_bytes t) (wt_buffer_start t) \<and>
     wt_buffer_bytes t \<le> OUTPUT_BUFFER_BYTES"

lemma chunk_layout_append:
  "chunk_layout pos (xs @ ys) \<longleftrightarrow>
   chunk_layout pos xs \<and> chunk_layout (pos + length (concat (map snd xs))) ys"
  by (induction pos xs rule: chunk_layout.induct) (auto simp: add.assoc)

lemma evict_suffix:
  assumes "holds_suffix S chunks buffered start"
    and "evict OUTPUT_BUFFER_BYTES chunks buffered start = (chunks', buffered', start')"
  shows "holds_suffix S chunks' buffered' start' \<and> buffered' \<le> OUTPUT_BUFFER_BYTES"
  using assms
proof (induction OUTPUT_BUFFER_BYTES chunks buffered start rule: evict.induct)
  case (1 buffered start)
  then show ?case by (auto simp: holds_suffix_def OUTPUT_BUFFER_BYTES_def)
next
  case (2 old_start old chunks buffered start)
  show ?case
  proof (cases "OUTPUT_BUFFER_BYTES < buffered")
    case True
    from "2.prems"(1) have *: "old_start = start" "old \<noteq> []" "length old \<le> MAX_CHUNK"
      "chunk_layout (start + length old) chunks" "old @ concat (map snd chunks) = drop start S"
      "buffered = length S - start" "start \<le> length S"
      by (auto simp: holds_suffix_def)
    from *(5) have "concat (map snd chunks) = drop (length old) (drop start S)"
      by (metis append_eq_conv_conj)
    moreover have "start + length old \<le> length S"
      using arg_cong [OF *(5), of length] *(7) by simp
    ultimately have "holds_suffix S chunks (buffered - length old) (old_start + length old)"
      using * True by (auto simp: holds_suffix_def add.commute)
    with True "2.prems"(2) show ?thesis by (intro "2.hyps") auto
  next
    case False
    with "2.prems" show ?thesis by auto
  qed
qed

lemma append_output_buffer:
  assumes "buffer_of S t" and "out \<noteq> []" and "length out \<le> MAX_CHUNK"
  shows "buffer_of (S @ out) (append_output out t)"
proof -
  obtain chunks buffered start where e: "evict OUTPUT_BUFFER_BYTES (wt_chunks t @ [(wt_cursor t, out)])
      (wt_buffer_bytes t + length out) (wt_buffer_start t) = (chunks, buffered, start)"
    by (metis prod_cases3)
  have "holds_suffix (S @ out) (wt_chunks t @ [(wt_cursor t, out)])
      (wt_buffer_bytes t + length out) (wt_buffer_start t)"
    using assms by (auto simp: buffer_of_def holds_suffix_def chunk_layout_append)
  from evict_suffix [OF this e]
  have "holds_suffix (S @ out) chunks buffered start" "buffered \<le> OUTPUT_BUFFER_BYTES" by auto
  moreover have "append_output out t = t\<lparr>wt_chunks := chunks, wt_cursor := wt_cursor t + length out,
      wt_buffer_bytes := buffered, wt_buffer_start := start\<rparr>"
    by (simp add: append_output_def e)
  ultimately show ?thesis using assms(1) by (simp add: buffer_of_def)
qed

lemma buffer_of_state [simp]:
  "buffer_of S (t\<lparr>wt_state := a\<rparr>) = buffer_of S t" "buffer_of S (t\<lparr>wt_reading := r\<rparr>) = buffer_of S t"
  "buffer_of S (finish_terminal st re ec now t) = buffer_of S t"
  by (simp_all add: buffer_of_def finish_terminal_def)

lemma take_in_two:
  "a \<noteq> [] \<Longrightarrow> (if min (length a) m = 0 then []
     else take (min (length a) m) a @ (if m \<le> min (length a) m then [] else take (m - length a) rest)) =
   take m (a @ rest)"
  by (auto simp: min_def)

lemma cut_chunks_take:
  "chunk_layout pos chunks \<Longrightarrow> taken \<le> OUTPUT_RESPONSE_BYTES \<Longrightarrow>
   cut_chunks cursor chunks taken =
     take (OUTPUT_RESPONSE_BYTES - taken) (drop (cursor - pos) (concat (map snd chunks)))"
proof (induction cursor chunks taken arbitrary: pos rule: cut_chunks.induct)
  case (2 cursor start chunk chunks taken)
  then have pos: "start = pos" "chunk \<noteq> []" "chunk_layout (pos + length chunk) chunks" by auto
  show ?case
  proof (cases "start + length chunk \<le> cursor")
    case True
    with "2.IH"(1) [OF True pos(3) "2.prems"(2)] pos show ?thesis by simp
  next
    case False
    let ?a = "drop (cursor - start) chunk" and ?m = "OUTPUT_RESPONSE_BYTES - taken"
    let ?n = "min (length ?a) ?m" and ?rest = "concat (map snd chunks)"
    have "0 < length chunk" using pos(2) by simp
    then have "cursor - start < length chunk" using False by linarith
    then have a: "?a \<noteq> []" "cursor - (pos + length chunk) = 0" using False pos(1) by auto
    have m: "OUTPUT_RESPONSE_BYTES \<le> taken + ?n \<longleftrightarrow> ?m \<le> ?n" by linarith
    have later: "cut_chunks cursor chunks (taken + ?n) = take (?m - length ?a) ?rest"
      if "\<not> ?m \<le> ?n" and "?n \<noteq> 0"
    proof -
      have "?n = length ?a" "taken + ?n \<le> OUTPUT_RESPONSE_BYTES" using that m by linarith+
      with "2.IH"(2) [OF False refl refl that(2) _ pos(3)] that(1) m a(2) show ?thesis by simp
    qed
    have "cut_chunks cursor ((start, chunk) # chunks) taken =
        (if ?n = 0 then [] else take ?n ?a @ (if ?m \<le> ?n then [] else take (?m - length ?a) ?rest))"
      using later m False by (simp only: cut_chunks.simps Let_def if_False split: if_split) blast
    also have "... = take ?m (?a @ ?rest)" by (rule take_in_two [OF a(1)])
    also have "?a @ ?rest = drop (cursor - pos) (concat (map snd ((start, chunk) # chunks)))"
      using a(2) pos(1) by simp
    finally show ?thesis .
  qed
qed simp

text \<open>The answer of a poll, on the abstract stream.\<close>

lemma cut_chunks_stream:
  assumes "buffer_of S t"
  shows "cut_chunks cursor (wt_chunks t) 0 =
    take OUTPUT_RESPONSE_BYTES (drop (max cursor (wt_buffer_start t)) S)"
proof -
  have *: "chunk_layout (wt_buffer_start t) (wt_chunks t)"
    "concat (map snd (wt_chunks t)) = drop (wt_buffer_start t) S"
    using assms by (auto simp: buffer_of_def holds_suffix_def)
  have "(cursor - wt_buffer_start t) + wt_buffer_start t = max cursor (wt_buffer_start t)" by simp
  with cut_chunks_take [OF *(1), of 0 cursor] *(2) show ?thesis by simp
qed

lemma lagging_not_expired:
  assumes "buffer_of S t" and "cursor \<le> length S"
    and "length S - cursor \<le> OUTPUT_BUFFER_BYTES - MAX_CHUNK"
  shows "\<not> output_expired cursor t"
  using assms by (auto simp: buffer_of_def holds_suffix_def output_expired_def
      OUTPUT_BUFFER_BYTES_def MAX_CHUNK_def)

subsection \<open>Runs of a terminal and its browser\<close>

text \<open>
  A run interleaves the reader thread, requests to close and the polls of one browser, which
  starts at position 0 and passes back the position of the last answer. \<open>entry\<close> is the terminal
  as the poll found it, before it waited.
\<close>

definition emitted :: "received \<Rightarrow> worker_terminal \<Rightarrow> bytes" where
  "emitted r t =
     (case r of Received fr \<Rightarrow>
        if wt_reading t \<and> dget fr ''type'' = PStr ''output'' \<and> dict_keys fr = {''type'', ''data_b64''}
        then (case output_of_frame fr of None \<Rightarrow> [] | Some out \<Rightarrow> out) else []
      | _ \<Rightarrow> [])"

inductive terminal_run :: "pyval \<Rightarrow> bytes \<Rightarrow> worker_terminal \<Rightarrow> nat \<Rightarrow> bytes \<Rightarrow> bool" for ready where
  opened: "terminal_run ready [] (new_terminal ready) 0 []"
| reader: "terminal_run ready S t cursor got \<Longrightarrow>
    terminal_run ready (S @ emitted r t) (read_loop_step r now t) cursor got"
| closing: "terminal_run ready S t cursor got \<Longrightarrow>
    terminal_run ready S (request_close dumps sent now t) cursor got"
| poll: "terminal_run ready S t cursor got \<Longrightarrow> read_output cursor entry t = Inr answer \<Longrightarrow>
    \<not> output_expired cursor t \<Longrightarrow> b64_decode (oa_data_b64 answer) = Some out \<Longrightarrow>
    terminal_run ready S t (oa_cursor answer) (got @ out)"

lemma reader_failed_buffer [simp]: "buffer_of S (reader_failed code now t) = buffer_of S t"
  by (simp add: reader_failed_def Let_def)

lemma request_close_buffer [simp]: "buffer_of S (request_close dumps sent now t) = buffer_of S t"
  by (auto simp: request_close_def Let_def split: sum.splits exn.splits)

lemma output_of_frame_bounds:
  "output_of_frame fr = Some out \<Longrightarrow> out \<noteq> [] \<and> length out \<le> MAX_CHUNK"
  by (auto simp: output_of_frame_def MAX_CHUNK_def split: pyval.splits if_splits option.splits)

lemma read_loop_step_buffer:
  assumes "buffer_of S t"
  shows "buffer_of (S @ emitted r t) (read_loop_step r now t)"
proof (cases "\<exists>fr out. r = Received fr \<and> wt_reading t \<and> dget fr ''type'' = PStr ''output'' \<and>
    dict_keys fr = {''type'', ''data_b64''} \<and> output_of_frame fr = Some out")
  case True
  then obtain fr out where "emitted r t = out" "read_loop_step r now t = append_output out t"
    "output_of_frame fr = Some out"
    by (auto simp: emitted_def read_loop_step_def read_frame_def)
  then show ?thesis using append_output_buffer [OF assms] output_of_frame_bounds by simp
next
  case False
  then have "emitted r t = []" by (auto simp: emitted_def split: received.splits option.splits)
  moreover have "buffer_of S (read_loop_step r now t)"
    using False assms
    by (cases r) (auto simp: read_loop_step_def read_frame_def split: option.splits exn.splits)
  ultimately show ?thesis by simp
qed

lemma new_terminal_buffer: "buffer_of [] (new_terminal ready)"
  by (simp add: buffer_of_def new_terminal_def holds_suffix_def)

lemma terminal_run_buffer: "terminal_run ready S t cursor got \<Longrightarrow> buffer_of S t"
  by (induction rule: terminal_run.induct) (auto intro: new_terminal_buffer read_loop_step_buffer)

lemma read_output_stream:
  assumes "buffer_of S t" and "\<not> output_expired cursor entry"
  shows "\<exists>answer. read_output cursor entry t = Inr answer \<and>
    b64_decode (oa_data_b64 answer) = Some (take OUTPUT_RESPONSE_BYTES (drop (max cursor (wt_buffer_start t)) S)) \<and>
    oa_cursor answer = cursor + min OUTPUT_RESPONSE_BYTES (length S - max cursor (wt_buffer_start t))"
  using assms(2) by (simp add: read_output_def cut_chunks_stream [OF assms(1)] min.commute)

lemma terminal_run_prefix:
  "terminal_run ready S t cursor got \<Longrightarrow> got = take cursor S \<and> cursor \<le> length S"
proof (induction rule: terminal_run.induct)
  case (poll S t cursor got entry answer out)
  have b: "buffer_of S t" using poll.hyps(1) by (rule terminal_run_buffer)
  have "\<not> output_expired cursor entry" using poll.hyps(2) by (auto simp: read_output_def split: if_splits)
  from read_output_stream [OF b this] poll.hyps(2,4)
  have out: "out = take OUTPUT_RESPONSE_BYTES (drop (max cursor (wt_buffer_start t)) S)"
    "oa_cursor answer = cursor + min OUTPUT_RESPONSE_BYTES (length S - max cursor (wt_buffer_start t))"
    by auto
  have "max cursor (wt_buffer_start t) = cursor" using poll.hyps(3) by (simp add: output_expired_def)
  with out poll.IH show ?case by (auto simp: take_add min_def)
qed auto

subsection \<open>Properties of the output\<close>


text \<open>
  The position is checked only before the wait: when more output than the buffer holds
  arrives before the waiting poll resumes, the answer skips the dropped bytes, and the position
  it returns is not the position of what it delivered.
\<close>

theorem waiting_poll_skips_output:
  assumes "terminal_run ready S t cursor got" and "\<not> output_expired cursor entry"
    and "cursor < wt_buffer_start t"
  shows "\<exists>answer. read_output cursor entry t = Inr answer \<and>
    b64_decode (oa_data_b64 answer) = Some (take OUTPUT_RESPONSE_BYTES (drop (wt_buffer_start t) S)) \<and>
    oa_cursor answer < wt_buffer_start t + min OUTPUT_RESPONSE_BYTES (length S - wt_buffer_start t)"
  using read_output_stream [OF terminal_run_buffer [OF assms(1)] assms(2)] assms(3)
  by (auto simp: max_def)

lemma length_sextets_exact: "3 * length (sextets ns) \<le> 4 * length ns + 2"
  by (induction ns rule: sextets.induct) auto

definition output_frame :: "bytes \<Rightarrow> pyval" where
  "output_frame out = PDict [(''type'', PStr ''output''), (''data_b64'', PStr (b64_encode out))]"

lemma output_frame_accepted:
  assumes "out \<noteq> []" and "length out \<le> MAX_CHUNK"
  shows "output_of_frame (output_frame out) = Some out"
proof -
  have "length (b64_encode out) \<le> length (sextets (map unat out)) + 2"
    using mod_less_divisor [of 3 "3 - length out mod 3"] by (simp add: b64_encode_def del: mod_less_divisor)
  moreover have "3 * length (sextets (map unat out)) \<le> 4 * (16 * 1024) + 2"
    using length_sextets_exact [of "map unat out"] assms(2) by (simp add: MAX_CHUNK_def)
  ultimately have "length (b64_encode out) \<le> 24 * 1024" by linarith
  then show ?thesis using assms by (simp add: output_of_frame_def output_frame_def MAX_CHUNK_def)
qed

lemma output_frame_emitted:
  assumes "out \<noteq> []" and "length out \<le> MAX_CHUNK" and "wt_reading t"
  shows "emitted (Received (output_frame out)) t = out"
    and "read_loop_step (Received (output_frame out)) now t = append_output out t"
proof -
  have "dget (output_frame out) ''type'' = PStr ''output''"
    "dict_keys (output_frame out) = {''type'', ''data_b64''}"
    by (simp_all add: output_frame_def dict_keys_def)
  then show "emitted (Received (output_frame out)) t = out"
    "read_loop_step (Received (output_frame out)) now t = append_output out t"
    using output_frame_accepted [OF assms(1,2)] assms(3)
    by (simp_all add: emitted_def read_loop_step_def read_frame_def)
qed

lemma append_output_reading [simp]: "wt_reading (append_output out t) = wt_reading t"
  by (simp add: append_output_def split: prod.splits)

lemma concat_replicate_snoc: "concat (replicate n xs) @ xs = concat (replicate (Suc n) xs)"
  by (induction n) auto

lemma length_concat_replicate: "length (concat (replicate n xs)) = n * length xs"
  by (induction n) auto

text \<open>A container that floods its terminal with full chunks.\<close>

lemma flood_run:
  "\<exists>t. terminal_run ready (concat (replicate n (replicate MAX_CHUNK 0))) t 0 [] \<and> wt_reading t"
proof (induction n)
  case 0
  have "wt_reading (new_terminal ready)" by (simp add: new_terminal_def)
  then show ?case using terminal_run.opened [of ready] by auto
next
  case (Suc n)
  then obtain t where t: "terminal_run ready (concat (replicate n (replicate MAX_CHUNK 0))) t 0 []"
    "wt_reading t" by blast
  let ?out = "replicate MAX_CHUNK (0 :: byte)"
  have "?out \<noteq> []" "length ?out \<le> MAX_CHUNK" by (simp_all add: MAX_CHUNK_def)
  note step = output_frame_emitted [OF this t(2)]
  have "terminal_run ready (concat (replicate n ?out) @ ?out) (append_output ?out t) 0 []"
    using terminal_run.reader [OF t(1), of "Received (output_frame ?out)" 0] by (simp only: step)
  then have "terminal_run ready (concat (replicate (Suc n) ?out)) (append_output ?out t) 0 []"
    by (simp only: concat_replicate_snoc)
  moreover have "wt_reading (append_output ?out t)" using t(2) by simp
  ultimately show ?case by blast
qed


theorem waiting_poll_skips_output_witness:
  "\<exists>S t answer. terminal_run PNone S t 0 [] \<and>
    read_output 0 (new_terminal PNone) t = Inr answer \<and>
    b64_decode (oa_data_b64 answer) = Some (take OUTPUT_RESPONSE_BYTES (drop (wt_buffer_start t) S)) \<and>
    0 < wt_buffer_start t"
proof -
  obtain t where run: "terminal_run PNone (concat (replicate 65 (replicate MAX_CHUNK 0))) t 0 []"
    using flood_run by blast
  let ?S = "concat (replicate 65 (replicate MAX_CHUNK (0 :: byte)))"
  have "length ?S = 65 * MAX_CHUNK" by (simp only: length_concat_replicate length_replicate)
  then have "OUTPUT_BUFFER_BYTES < length ?S" by (simp add: OUTPUT_BUFFER_BYTES_def MAX_CHUNK_def)
  moreover have "length ?S - wt_buffer_start t \<le> OUTPUT_BUFFER_BYTES"
    using terminal_run_buffer [OF run] unfolding buffer_of_def holds_suffix_def by metis
  ultimately have "0 < wt_buffer_start t" by linarith
  moreover have "\<not> output_expired 0 (new_terminal PNone)"
    by (simp add: output_expired_def new_terminal_def)
  ultimately show ?thesis using waiting_poll_skips_output [OF run] run by blast
qed

end
