(* ===== verification/Terminal_Registry.thy ===== *)
theory Terminal_Registry
  imports Terminal_Service
begin

section \<open>The registry of terminals\<close>

text \<open>
  The class \<open>TerminalRegistry\<close> of \<open>terminal_service.py\<close>: opening a terminal under the limits per
  identity and for the node, ownership, closing, and the entry an ended terminal leaves in its
  operation and in the audit trail. The dictionary of records is an association list in insertion
  order. \<open>open\<close> takes its lock three times: to count and reserve, to give the reservation back once
  the worker has answered, and to enter the record; each is a definition of its own, and the step
  relation interleaves them as threads do.
\<close>

subsection \<open>Connecting to the worker\<close>

text \<open>\<open>None\<close> stands for an \<open>OSError\<close> of the socket; \<open>payload[k]\<close> is present in every payload the
routes build.\<close>

definition terminal_envelope :: "uuid \<Rightarrow> pyval \<Rightarrow> string \<Rightarrow> string \<Rightarrow> pyval" where
  "terminal_envelope request_id payload requested_by idempotency_key = PDict
     [(''protocol_version'', PInt 1), (''request_id'', PStr request_id),
      (''operation_type'', PStr ''self.container.terminal''), (''payload'', payload),
      (''requested_by'', PStr requested_by), (''approved_by'', PStr requested_by),
      (''idempotency_key'', PStr idempotency_key), (''dry_run'', PBool False)]"

definition open_worker :: "(pyval \<Rightarrow> bytes) \<Rightarrow> (bytes \<Rightarrow> json_outcome) \<Rightarrow> peer \<Rightarrow> uuid \<Rightarrow> pyval \<Rightarrow>
    string \<Rightarrow> string \<Rightarrow> worker_terminal result" where
  "open_worker dumps loads peer request_id payload requested_by idempotency_key =
     (case send_frame dumps True (terminal_envelope request_id payload requested_by idempotency_key) of
        Inl e \<Rightarrow> Inl e
      | Inr sent \<Rightarrow>
        (case peer sent of None \<Rightarrow> Inl (TerminalServiceError ''TERMINAL_WORKER_UNAVAILABLE'')
         | Some conn \<Rightarrow>
          (case receive_frame loads conn of Inl e \<Rightarrow> Inl e
           | Inr (ready, _) \<Rightarrow>
             if dget ready ''status'' \<noteq> PStr ''READY'' \<or> dget ready ''type'' \<noteq> PStr ''ready''
             then Inl (TerminalServiceError
               (py_str (dget_or (dget_or ready ''error'' (PDict [])) ''code'' (PStr ''TERMINAL_START_FAILED''))))
             else if dget ready ''request_id'' \<noteq> PStr request_id \<or>
                dget ready ''handler'' \<noteq> PStr ''self.container.terminal'' \<or>
                dget ready ''container'' \<noteq> dget payload ''name'' \<or>
                dget ready ''username'' \<noteq> dget payload ''username'' \<or>
                dget ready ''uid'' \<noteq> dget payload ''uid'' \<or> dget ready ''gid'' \<noteq> dget payload ''gid'' \<or>
                dget ready ''gpu'' \<noteq> dget payload ''expected_gpu'' \<or>
                dget ready ''host_access'' \<noteq> PStr ''DISABLED''
             then Inl (TerminalServiceError ''TERMINAL_BINDING_REJECTED'')
             else Inr (new_terminal ready))))"

subsection \<open>Records and the three blocks of \<open>open\<close>\<close>

record terminal_record =
  tr_id :: uuid
  tr_owner_managed_user_id :: uuid
  tr_portal_user_id :: uuid
  tr_portal_session_id :: uuid
  tr_operation_id :: uuid
  tr_container_id :: uuid
  tr_container_name :: string
  tr_actor :: string
  tr_actor_role :: string
  tr_source_ip :: string
  tr_user_agent :: string
  tr_created_at :: instant
  tr_expires_at :: instant
  tr_worker :: worker_terminal
  tr_finalized :: bool

record terminal_registry =
  reg_records :: "(uuid \<times> terminal_record) list"
  reg_opening_by_owner :: "uuid \<rightharpoonup> nat"
  reg_opening_total :: int

definition new_registry :: terminal_registry where
  "new_registry = \<lparr>reg_records = [], reg_opening_by_owner = Map.empty, reg_opening_total = 0\<rparr>"

definition is_live :: "worker_terminal \<Rightarrow> bool" where
  "is_live t \<longleftrightarrow> wt_state t \<in> set [''RUNNING'', ''CLOSING'']"

definition prune_locked :: "instant \<Rightarrow> terminal_registry \<Rightarrow> terminal_registry" where
  "prune_locked now reg = reg\<lparr>reg_records := filter (\<lambda>(_, r).
     \<not> (case wt_ended_monotonic (tr_worker r) of None \<Rightarrow> False
        | Some ended \<Rightarrow> ENDED_SESSION_RETENTION < now - ended)) (reg_records reg)\<rparr>"

definition live_for_owner :: "uuid \<Rightarrow> terminal_registry \<Rightarrow> nat" where
  "live_for_owner owner reg = length (filter (\<lambda>(_, r).
     tr_owner_managed_user_id r = owner \<and> is_live (tr_worker r)) (reg_records reg))"

definition live_global :: "terminal_registry \<Rightarrow> nat" where
  "live_global reg = length (filter (\<lambda>(_, r). is_live (tr_worker r)) (reg_records reg))"

definition opening_for :: "uuid \<Rightarrow> terminal_registry \<Rightarrow> nat" where
  "opening_for owner reg = (case reg_opening_by_owner reg owner of None \<Rightarrow> 0 | Some n \<Rightarrow> n)"

definition reserve_opening :: "uuid \<Rightarrow> instant \<Rightarrow> (terminal_registry, unit) action" where
  "reserve_opening owner now reg =
     (let reg = prune_locked now reg in
      if MAX_TERMINALS_PER_MANAGED_USER \<le> live_for_owner owner reg + opening_for owner reg
      then (Inl (TerminalServiceError ''TERMINAL_LIMIT_REACHED''), reg)
      else if int MAX_TERMINALS_GLOBAL \<le> int (live_global reg) + reg_opening_total reg
      then (Inl (TerminalServiceError ''TERMINAL_LIMIT_REACHED''), reg)
      else (Inr (), reg\<lparr>reg_opening_by_owner :=
                 (reg_opening_by_owner reg)(owner \<mapsto> opening_for owner reg + 1),
               reg_opening_total := reg_opening_total reg + 1\<rparr>))"

definition release_opening :: "uuid \<Rightarrow> terminal_registry \<Rightarrow> terminal_registry" where
  "release_opening owner reg =
     (let remaining = (case reg_opening_by_owner reg owner of None \<Rightarrow> 1 | Some n \<Rightarrow> n) - 1 in
      reg\<lparr>reg_opening_by_owner := (if remaining \<noteq> 0
              then (reg_opening_by_owner reg)(owner \<mapsto> remaining)
              else (reg_opening_by_owner reg)(owner := None)),
           reg_opening_total := reg_opening_total reg - 1\<rparr>)"

definition enter_record :: "terminal_record \<Rightarrow> terminal_registry \<Rightarrow> terminal_registry" where
  "enter_record r reg = reg\<lparr>reg_records := assoc_put (reg_records reg) (tr_id r) r\<rparr>"

record open_request =
  opn_payload :: pyval
  opn_owner_managed_user_id :: uuid
  opn_portal_user_id :: uuid
  opn_portal_session_id :: uuid
  opn_operation_id :: uuid
  opn_container_id :: uuid
  opn_container_name :: string
  opn_actor :: string
  opn_actor_role :: string
  opn_source_ip :: string
  opn_user_agent :: string

text \<open>\<open>int(value)\<close> of the worker's answer, and \<open>datetime.fromisoformat(str(value))\<close> of the payload.\<close>

definition int_of_value :: "pyval \<Rightarrow> int option" where
  "int_of_value v = (case v of PStr s \<Rightarrow> int_of_text s | _ \<Rightarrow> py_int v)"

definition new_record :: "uuid \<Rightarrow> instant \<Rightarrow> open_request \<Rightarrow> worker_terminal \<Rightarrow> terminal_record result" where
  "new_record new_id now q worker =
     (case int_of_value (dget_or (wt_ready worker) ''max_duration_seconds'' (PInt 3600)) of
        None \<Rightarrow> Inl (ValueError ''max_duration_seconds'')
      | Some max_duration \<Rightarrow>
        (case dget (opn_payload q) ''lease_expires_at'' of
          PTime lease_expiry \<Rightarrow> Inr
            \<lparr>tr_id = new_id, tr_owner_managed_user_id = opn_owner_managed_user_id q,
             tr_portal_user_id = opn_portal_user_id q, tr_portal_session_id = opn_portal_session_id q,
             tr_operation_id = opn_operation_id q, tr_container_id = opn_container_id q,
             tr_container_name = opn_container_name q, tr_actor = opn_actor q,
             tr_actor_role = opn_actor_role q, tr_source_ip = opn_source_ip q,
             tr_user_agent = opn_user_agent q, tr_created_at = now,
             tr_expires_at = min lease_expiry (now + seconds max_duration), tr_worker = worker,
             tr_finalized = False\<rparr>
        | _ \<Rightarrow> Inl (ValueError ''lease_expires_at'')))"

text \<open>\<open>open\<close> when no other thread runs in between; \<open>connect\<close> is \<open>WorkerTerminal.open\<close>.\<close>

definition open_terminal :: "worker_terminal result \<Rightarrow> uuid \<Rightarrow> instant \<Rightarrow> instant \<Rightarrow> open_request \<Rightarrow>
    (terminal_registry, terminal_record) action" where
  "open_terminal connect new_id monotonic now q reg =
     (case reserve_opening (opn_owner_managed_user_id q) monotonic reg of
        (Inl e, reg) \<Rightarrow> (Inl e, reg)
      | (Inr _, reg) \<Rightarrow>
        (let reg = release_opening (opn_owner_managed_user_id q) reg in
         case connect of Inl e \<Rightarrow> (Inl e, reg)
         | Inr worker \<Rightarrow>
           (case new_record new_id now q worker of Inl e \<Rightarrow> (Inl e, reg)
            | Inr r \<Rightarrow> (Inr r, enter_record r reg))))"

subsection \<open>Ownership and closing\<close>

definition owned :: "uuid \<Rightarrow> uuid \<Rightarrow> uuid \<Rightarrow> instant \<Rightarrow> (terminal_registry, terminal_record) action" where
  "owned terminal_id owner_managed_user_id portal_session_id now reg =
     (let reg = prune_locked now reg in
      case map_of (reg_records reg) terminal_id of
        None \<Rightarrow> (Inl (TerminalServiceError ''TERMINAL_NOT_FOUND''), reg)
      | Some r \<Rightarrow>
          if tr_owner_managed_user_id r \<noteq> owner_managed_user_id \<or>
             tr_portal_session_id r \<noteq> portal_session_id
          then (Inl (TerminalServiceError ''TERMINAL_NOT_FOUND''), reg) else (Inr r, reg))"

definition close_records :: "(pyval \<Rightarrow> bytes) \<Rightarrow> (uuid \<Rightarrow> bool) \<Rightarrow> instant \<Rightarrow> (terminal_record \<Rightarrow> bool) \<Rightarrow>
    terminal_registry \<Rightarrow> terminal_registry" where
  "close_records dumps sent now chosen reg = reg\<lparr>reg_records := map (\<lambda>(k, r).
     (k, if chosen r then r\<lparr>tr_worker := request_close dumps (sent k) now (tr_worker r)\<rparr> else r))
     (reg_records reg)\<rparr>"

definition close_for_portal_session :: "(pyval \<Rightarrow> bytes) \<Rightarrow> (uuid \<Rightarrow> bool) \<Rightarrow> instant \<Rightarrow> uuid \<Rightarrow>
    terminal_registry \<Rightarrow> terminal_registry" where
  "close_for_portal_session dumps sent now portal_session_id =
     close_records dumps sent now (\<lambda>r. tr_portal_session_id r = portal_session_id)"

definition close_for_user :: "(pyval \<Rightarrow> bytes) \<Rightarrow> (uuid \<Rightarrow> bool) \<Rightarrow> instant \<Rightarrow> uuid \<Rightarrow> uuid option \<Rightarrow>
    terminal_registry \<Rightarrow> terminal_registry" where
  "close_for_user dumps sent now portal_user_id except_session_id =
     close_records dumps sent now (\<lambda>r. tr_portal_user_id r = portal_user_id \<and>
       Some (tr_portal_session_id r) \<noteq> except_session_id)"

subsection \<open>The end of a terminal\<close>

definition or_text :: "string option \<Rightarrow> string \<Rightarrow> string" where
  "or_text s dflt = (case s of None \<Rightarrow> dflt | Some t \<Rightarrow> if t = [] then dflt else t)"

definition finalize_terminal :: "(string \<Rightarrow> string) \<Rightarrow> uuid \<Rightarrow> instant \<Rightarrow> instant \<Rightarrow> terminal_record \<Rightarrow>
    portal_db \<Rightarrow> terminal_record \<times> portal_db" where
  "finalize_terminal digest audit_id finished_at audit_at r db =
     (if tr_finalized r then (r, db)
      else let r' = r\<lparr>tr_finalized := True\<rparr>; worker = tr_worker r in
       case get_operation db (tr_operation_id r) of None \<Rightarrow> (r', db)
       | Some operation \<Rightarrow>
         if oper_status operation \<noteq> OP_RUNNING then (r', db)
         else let failed = (wt_state worker = ''ERROR'');
                  reason = or_text (wt_reason worker) ''UNKNOWN'';
                  db = modify_operation (tr_operation_id r) (\<lambda>x. x\<lparr>
                    oper_status := (if failed then OP_FAILED else OP_SUCCEEDED),
                    oper_finished_at := Some finished_at,
                    oper_result_summary := Some (''Container web terminal closed: '' @ reason),
                    oper_error_code := (if failed
                      then Some (take 64 (or_text (wt_reason worker) ''TERMINAL_ERROR'')) else None)\<rparr>) db
              in (r', record_audit digest audit_id audit_at
                \<lparr>ac_event_type = ''SELF_CONTAINER_TERMINAL_CLOSED'', ac_actor = tr_actor r,
                 ac_actor_role = tr_actor_role r, ac_source_ip = tr_source_ip r,
                 ac_user_agent = tr_user_agent r, ac_object_type = ''container'',
                 ac_object_id = tr_container_id r, ac_result = (if failed then ''FAILED'' else ''SUCCESS''),
                 ac_metadata = PDict [(''terminal_session_id'', PStr (tr_id r)),
                   (''reason'', PStr reason), (''exit_code'', opt_val PInt (wt_exit_code worker)),
                   (''container'', PStr (tr_container_name r)),
                   (''gpu'', dget_or (wt_ready worker) ''gpu'' (PStr ''UNKNOWN'')),
                   (''host_access'', PStr ''DISABLED''), (''input_logged'', PBool False)],
                 ac_operation_id = Some (tr_operation_id r)\<rparr> db))"

subsection \<open>Threads that open terminals\<close>

text \<open>
  The registry with the threads inside \<open>open\<close>: those that have reserved and are connecting
  (their owners), and those that have given the reservation back and have not entered their
  record yet. When \<open>serial\<close> holds, no thread reserves while another stands in that gap. A record
  of the registry may change by anything that does not bring a terminal back to life.
\<close>

record opening_state =
  ops_reg :: terminal_registry
  ops_opening :: "uuid list"
  ops_gap :: "terminal_record list"

inductive registry_run :: "bool \<Rightarrow> opening_state \<Rightarrow> bool" for serial where
  start: "registry_run serial \<lparr>ops_reg = new_registry, ops_opening = [], ops_gap = []\<rparr>"
| reserved: "registry_run serial s \<Longrightarrow> (serial \<longrightarrow> ops_gap s = []) \<Longrightarrow>
    reserve_opening owner now (ops_reg s) = (Inr (), reg) \<Longrightarrow>
    registry_run serial (s\<lparr>ops_reg := reg, ops_opening := owner # ops_opening s\<rparr>)"
| refused: "registry_run serial s \<Longrightarrow> reserve_opening owner now (ops_reg s) = (Inl e, reg) \<Longrightarrow>
    registry_run serial (s\<lparr>ops_reg := reg\<rparr>)"
| failed: "registry_run serial s \<Longrightarrow> owner \<in> set (ops_opening s) \<Longrightarrow>
    registry_run serial (s\<lparr>ops_reg := release_opening owner (ops_reg s),
      ops_opening := remove1 owner (ops_opening s)\<rparr>)"
| connected: "registry_run serial s \<Longrightarrow> tr_owner_managed_user_id r \<in> set (ops_opening s) \<Longrightarrow>
    registry_run serial (s\<lparr>ops_reg := release_opening (tr_owner_managed_user_id r) (ops_reg s),
      ops_opening := remove1 (tr_owner_managed_user_id r) (ops_opening s), ops_gap := r # ops_gap s\<rparr>)"
| entered: "registry_run serial s \<Longrightarrow> r \<in> set (ops_gap s) \<Longrightarrow>
    tr_id r \<notin> fst ` set (reg_records (ops_reg s)) \<Longrightarrow>
    registry_run serial (s\<lparr>ops_reg := enter_record r (ops_reg s), ops_gap := remove1 r (ops_gap s)\<rparr>)"
| worker: "registry_run serial s \<Longrightarrow> (\<And>r. is_live (tr_worker (f r)) \<Longrightarrow> is_live (tr_worker r)) \<Longrightarrow>
    (\<And>r. tr_owner_managed_user_id (f r) = tr_owner_managed_user_id r) \<Longrightarrow>
    registry_run serial (s\<lparr>ops_reg := (ops_reg s)\<lparr>reg_records :=
      map (\<lambda>(k, r). (k, f r)) (reg_records (ops_reg s))\<rparr>\<rparr>)"

definition owner_is :: "uuid \<Rightarrow> terminal_record \<Rightarrow> bool" where
  "owner_is owner r \<longleftrightarrow> tr_owner_managed_user_id r = owner"

text \<open>What the counters of the registry mean.\<close>

definition counters_exact :: "opening_state \<Rightarrow> bool" where
  "counters_exact s \<longleftrightarrow>
     (\<forall>owner. reg_opening_by_owner (ops_reg s) owner =
        (if count_list (ops_opening s) owner = 0 then None else Some (count_list (ops_opening s) owner))) \<and>
     reg_opening_total (ops_reg s) = int (length (ops_opening s))"

definition within_limits :: "opening_state \<Rightarrow> bool" where
  "within_limits s \<longleftrightarrow>
     (\<forall>owner. live_for_owner owner (ops_reg s) + count_list (ops_opening s) owner +
        length (filter (owner_is owner) (ops_gap s)) \<le> MAX_TERMINALS_PER_MANAGED_USER) \<and>
     live_global (ops_reg s) + length (ops_opening s) + length (ops_gap s) \<le> MAX_TERMINALS_GLOBAL"

lemma count_remove1: "x \<in> set xs \<Longrightarrow> count_list (remove1 x xs) y = count_list xs y - (if x = y then 1 else 0)"
  by (induction xs) (auto simp: count_list_0_iff)

lemma length_remove1_mem:
  "x \<in> set xs \<Longrightarrow> length (remove1 x xs) + 1 = length xs"
  "x \<in> set xs \<Longrightarrow> int (length (remove1 x xs)) = int (length xs) - 1"
  by (induction xs) (auto simp: of_nat_diff)

lemma count_mem_pos: "x \<in> set xs \<Longrightarrow> 0 < count_list xs x"
  by (induction xs) auto

lemma prune_counts:
  "live_for_owner owner (prune_locked now reg) \<le> live_for_owner owner reg"
  "live_global (prune_locked now reg) \<le> live_global reg"
  "reg_opening_by_owner (prune_locked now reg) = reg_opening_by_owner reg"
  "reg_opening_total (prune_locked now reg) = reg_opening_total reg"
proof -
  have "length (filter p (filter q xs)) \<le> length (filter p xs)" for p q and xs :: "'a list"
    by (induction xs) auto
  then show "live_for_owner owner (prune_locked now reg) \<le> live_for_owner owner reg"
    "live_global (prune_locked now reg) \<le> live_global reg"
    by (simp_all add: prune_locked_def live_for_owner_def live_global_def)
qed (simp_all add: prune_locked_def)

lemma worker_change_counts:
  assumes "\<And>r. is_live (tr_worker (f r)) \<Longrightarrow> is_live (tr_worker r)"
    and "\<And>r. tr_owner_managed_user_id (f r) = tr_owner_managed_user_id r"
  shows "live_for_owner owner (reg\<lparr>reg_records := map (\<lambda>(k, r). (k, f r)) (reg_records reg)\<rparr>) \<le>
      live_for_owner owner reg"
    and "live_global (reg\<lparr>reg_records := map (\<lambda>(k, r). (k, f r)) (reg_records reg)\<rparr>) \<le> live_global reg"
proof -
  have "length (filter (\<lambda>(_, r). p r) (map (\<lambda>(k, r). (k, f r)) xs)) \<le> length (filter (\<lambda>(_, r). q r) xs)"
    if "\<And>r. p (f r) \<Longrightarrow> q r" for p q and xs :: "(uuid \<times> terminal_record) list"
    using that by (induction xs) auto
  from this [of "\<lambda>r. tr_owner_managed_user_id r = owner \<and> is_live (tr_worker r)"
      "\<lambda>r. tr_owner_managed_user_id r = owner \<and> is_live (tr_worker r)"]
    this [of "\<lambda>r. is_live (tr_worker r)" "\<lambda>r. is_live (tr_worker r)"]
  show "live_for_owner owner (reg\<lparr>reg_records := map (\<lambda>(k, r). (k, f r)) (reg_records reg)\<rparr>) \<le>
      live_for_owner owner reg"
    and "live_global (reg\<lparr>reg_records := map (\<lambda>(k, r). (k, f r)) (reg_records reg)\<rparr>) \<le> live_global reg"
    using assms by (simp_all add: live_for_owner_def live_global_def)
qed

lemma enter_counts:
  assumes "tr_id r \<notin> fst ` set (reg_records reg)"
  shows "live_for_owner owner (enter_record r reg) \<le>
      live_for_owner owner reg + (if owner_is owner r then 1 else 0)"
    and "live_global (enter_record r reg) \<le> live_global reg + 1"
  using assms
  by (simp_all add: enter_record_def assoc_put_new live_for_owner_def live_global_def owner_is_def)

lemma reserve_opening_InrD:
  assumes "reserve_opening owner now reg = (Inr (), reg')"
  shows "live_for_owner owner (prune_locked now reg) + opening_for owner reg < MAX_TERMINALS_PER_MANAGED_USER"
    and "int (live_global (prune_locked now reg)) + reg_opening_total reg < int MAX_TERMINALS_GLOBAL"
    and "reg' = (prune_locked now reg)\<lparr>reg_opening_by_owner :=
      (reg_opening_by_owner reg)(owner \<mapsto> opening_for owner reg + 1),
      reg_opening_total := reg_opening_total reg + 1\<rparr>"
  using assms
  by (auto simp: reserve_opening_def Let_def opening_for_def prune_counts split: if_splits)

lemma reserve_opening_InlD:
  "reserve_opening owner now reg = (Inl e, reg') \<Longrightarrow> reg' = prune_locked now reg"
  by (auto simp: reserve_opening_def Let_def split: if_splits)

lemma opening_updates [simp]:
  "live_for_owner owner (reg\<lparr>reg_opening_by_owner := m, reg_opening_total := n\<rparr>) = live_for_owner owner reg"
  "live_global (reg\<lparr>reg_opening_by_owner := m, reg_opening_total := n\<rparr>) = live_global reg"
  by (simp_all add: live_for_owner_def live_global_def)

lemma release_counts [simp]:
  "live_for_owner owner (release_opening o' reg) = live_for_owner owner reg"
  "live_global (release_opening o' reg) = live_global reg"
  by (simp_all add: release_opening_def Let_def live_for_owner_def live_global_def)

lemma release_exact:
  assumes "counters_exact s" and "owner \<in> set (ops_opening s)"
  shows "counters_exact (s\<lparr>ops_reg := release_opening owner (ops_reg s),
    ops_opening := remove1 owner (ops_opening s)\<rparr>)"
proof -
  have "0 < count_list (ops_opening s) owner" using count_mem_pos [OF assms(2)] .
  then have "reg_opening_by_owner (ops_reg s) owner = Some (count_list (ops_opening s) owner)"
    using assms(1) by (simp add: counters_exact_def)
  then show ?thesis
    using assms by (auto simp: counters_exact_def release_opening_def Let_def count_remove1
        length_remove1_mem(2))
qed

lemma counters_run: "registry_run serial s \<Longrightarrow> counters_exact s"
proof (induction rule: registry_run.induct)
  case start
  then show ?case by (simp add: counters_exact_def new_registry_def)
next
  case (reserved s owner now reg)
  have "opening_for owner (ops_reg s) = count_list (ops_opening s) owner"
    using reserved.IH by (simp add: counters_exact_def opening_for_def)
  with reserved.IH reserve_opening_InrD(3) [OF reserved.hyps(3)] show ?case
    by (simp add: counters_exact_def)
next
  case (refused s owner now e reg)
  with reserve_opening_InlD [OF refused.hyps(2)] show ?case
    by (simp add: counters_exact_def prune_counts)
next
  case (failed s owner)
  then show ?case by (intro release_exact)
next
  case (connected s r)
  then show ?case
    using release_exact [of s "tr_owner_managed_user_id r"] by (simp add: counters_exact_def)
qed (simp_all add: counters_exact_def enter_record_def)

lemma within_limits_mono:
  assumes "within_limits s"
    and "\<And>owner. live_for_owner owner (ops_reg s') + count_list (ops_opening s') owner +
        length (filter (owner_is owner) (ops_gap s')) \<le>
      live_for_owner owner (ops_reg s) + count_list (ops_opening s) owner +
        length (filter (owner_is owner) (ops_gap s))"
    and "live_global (ops_reg s') + length (ops_opening s') + length (ops_gap s') \<le>
      live_global (ops_reg s) + length (ops_opening s) + length (ops_gap s)"
  shows "within_limits s'"
  using assms unfolding within_limits_def by (meson le_trans)

lemma filter_remove1:
  "x \<in> set xs \<Longrightarrow> length (filter p (remove1 x xs)) + (if p x then 1 else 0) = length (filter p xs)"
  by (induction xs) auto

lemma limits_run: "registry_run True s \<Longrightarrow> within_limits s"
proof (induction rule: registry_run.induct)
  case start
  then show ?case by (simp add: within_limits_def live_for_owner_def live_global_def new_registry_def)
next
  case (reserved s owner now reg)
  note d = reserve_opening_InrD [OF reserved.hyps(3)]
  have exact: "opening_for owner (ops_reg s) = count_list (ops_opening s) owner"
    "reg_opening_total (ops_reg s) = int (length (ops_opening s))"
    using counters_run [OF reserved.hyps(1)] by (auto simp: counters_exact_def opening_for_def)
  have "ops_gap s = []" using reserved.hyps(2) by simp
  moreover have "live_for_owner o' (prune_locked now (ops_reg s)) + count_list (owner # ops_opening s) o'
      \<le> MAX_TERMINALS_PER_MANAGED_USER" for o'
  proof (cases "o' = owner")
    case True
    with d(1) exact(1) show ?thesis by simp
  next
    case False
    have "live_for_owner o' (ops_reg s) + count_list (ops_opening s) o' \<le> MAX_TERMINALS_PER_MANAGED_USER"
      using reserved.IH unfolding within_limits_def by (meson add_leD1)
    with False prune_counts(1) [of o' now "ops_reg s"] show ?thesis by simp
  qed
  ultimately show ?case using d(2) exact(2) by (simp add: within_limits_def d(3))
next
  case (refused s owner now e reg)
  show ?case
    by (rule within_limits_mono [OF refused.IH])
      (use reserve_opening_InlD [OF refused.hyps(2)] prune_counts in simp_all)
next
  case (failed s owner)
  show ?case
    by (rule within_limits_mono [OF failed.IH])
      (use failed.hyps(2) in \<open>simp_all add: count_remove1 length_remove1\<close>)
next
  case (connected s r)
  let ?o = "tr_owner_managed_user_id r"
  have "0 < count_list (ops_opening s) ?o" using count_mem_pos [OF connected.hyps(2)] .
  moreover have "0 < length (ops_opening s)" using connected.hyps(2) by (cases "ops_opening s") auto
  ultimately show ?case
    by (intro within_limits_mono [OF connected.IH])
      (use connected.hyps(2) in \<open>auto simp: count_remove1 length_remove1 owner_is_def\<close>)
next
  case (entered s r)
  have gap: "length (remove1 r (ops_gap s)) + 1 = length (ops_gap s)"
    using entered.hyps(2) by (rule length_remove1_mem(1))
  note enter = enter_counts [OF entered.hyps(3)]
  show ?case
  proof (rule within_limits_mono [OF entered.IH])
    fix owner
    show "live_for_owner owner (ops_reg (s\<lparr>ops_reg := enter_record r (ops_reg s), ops_gap := remove1 r (ops_gap s)\<rparr>)) +
        count_list (ops_opening (s\<lparr>ops_reg := enter_record r (ops_reg s), ops_gap := remove1 r (ops_gap s)\<rparr>)) owner +
        length (filter (owner_is owner) (ops_gap (s\<lparr>ops_reg := enter_record r (ops_reg s), ops_gap := remove1 r (ops_gap s)\<rparr>))) \<le>
      live_for_owner owner (ops_reg s) + count_list (ops_opening s) owner +
        length (filter (owner_is owner) (ops_gap s))"
      using enter(1) [of owner] filter_remove1 [OF entered.hyps(2), of "owner_is owner"] by simp
  qed (use enter(2) gap in simp)
next
  case (worker s f)
  note counts = worker_change_counts [of f, OF worker.hyps(2,3)]
  show ?case
    by (rule within_limits_mono [OF worker.IH]) (use counts in simp_all)
qed

subsection \<open>Properties\<close>

text \<open>
  The limits hold as long as a thread does not reserve while another stands between giving
  its reservation back and entering its record: in every state of every such run, an identity has
  at most two live terminals and reservations together, the node at most eight, and the counters
  of the registry are the numbers of reservations.
\<close>

theorem terminal_limits:
  assumes "registry_run True s"
  shows "counters_exact s \<and>
    live_for_owner owner (ops_reg s) + opening_for owner (ops_reg s) \<le> MAX_TERMINALS_PER_MANAGED_USER \<and>
    int (live_global (ops_reg s)) + reg_opening_total (ops_reg s) \<le> int MAX_TERMINALS_GLOBAL"
proof -
  note exact = counters_run [OF assms]
  have o: "opening_for owner (ops_reg s) = count_list (ops_opening s) owner"
    and t: "reg_opening_total (ops_reg s) = int (length (ops_opening s))"
    using exact by (simp_all add: counters_exact_def opening_for_def)
  from limits_run [OF assms] have
    l: "live_for_owner owner (ops_reg s) + count_list (ops_opening s) owner \<le> MAX_TERMINALS_PER_MANAGED_USER"
      "live_global (ops_reg s) + length (ops_opening s) \<le> MAX_TERMINALS_GLOBAL"
    unfolding within_limits_def by (meson add_leD1)+
  from l(2) have "int (live_global (ops_reg s)) + int (length (ops_opening s)) \<le> int MAX_TERMINALS_GLOBAL"
    by (simp flip: of_nat_add)
  with exact l(1) o t show ?thesis by simp
qed

definition sample_terminal :: "uuid \<Rightarrow> nat \<Rightarrow> terminal_record" where
  "sample_terminal owner i = \<lparr>tr_id = digits_nat i, tr_owner_managed_user_id = owner,
     tr_portal_user_id = ''u1'', tr_portal_session_id = ''s1'', tr_operation_id = ''op1'',
     tr_container_id = ''c1'', tr_container_name = ''dev'', tr_actor = ''alice'',
     tr_actor_role = ''user'', tr_source_ip = [], tr_user_agent = [], tr_created_at = 0,
     tr_expires_at = 0, tr_worker = new_terminal PNone, tr_finalized = False\<rparr>"

lemma sample_terminal_simps [simp]:
  "tr_id (sample_terminal owner i) = digits_nat i"
  "tr_owner_managed_user_id (sample_terminal owner i) = owner"
  "is_live (tr_worker (sample_terminal owner i))"
  by (simp_all add: sample_terminal_def is_live_def new_terminal_def)

lemma reserve_new:
  "reserve_opening owner now new_registry =
    (Inr (), new_registry\<lparr>reg_opening_by_owner := Map.empty(owner \<mapsto> 1), reg_opening_total := 1\<rparr>)"
  by (simp add: reserve_opening_def Let_def prune_locked_def new_registry_def live_for_owner_def
      live_global_def opening_for_def MAX_TERMINALS_PER_MANAGED_USER_def MAX_TERMINALS_GLOBAL_def)

lemma release_new:
  "release_opening owner (new_registry\<lparr>reg_opening_by_owner := Map.empty(owner \<mapsto> 1),
     reg_opening_total := 1\<rparr>) = new_registry"
  by (simp add: release_opening_def Let_def new_registry_def)

lemma gap_run:
  "registry_run False \<lparr>ops_reg = new_registry, ops_opening = [],
     ops_gap = map (sample_terminal owner) (rev [0..<n])\<rparr>"
proof (induction n)
  case 0
  then show ?case using registry_run.start by simp
next
  case (Suc n)
  let ?s = "\<lparr>ops_reg = new_registry, ops_opening = [], ops_gap = map (sample_terminal owner) (rev [0..<n])\<rparr>"
  have "registry_run False (?s\<lparr>ops_reg := new_registry\<lparr>reg_opening_by_owner := Map.empty(owner \<mapsto> 1),
      reg_opening_total := 1\<rparr>, ops_opening := [owner]\<rparr>)"
    using registry_run.reserved [OF Suc, of owner 0] by (simp add: reserve_new)
  from registry_run.connected [OF this, of "sample_terminal owner n"] show ?case
    by (simp add: release_new [unfolded One_nat_def])
qed

lemma enter_live:
  assumes "tr_id r \<notin> fst ` set (reg_records reg)" and "is_live (tr_worker r)" and "owner_is owner r"
  shows "live_for_owner owner (enter_record r reg) = live_for_owner owner reg + 1"
  using assms by (simp add: enter_record_def assoc_put_new live_for_owner_def owner_is_def)

lemma enter_gap:
  assumes "registry_run False s" and "distinct (map tr_id (ops_gap s))"
    and "\<And>r. r \<in> set (ops_gap s) \<Longrightarrow> is_live (tr_worker r) \<and> owner_is owner r \<and>
      tr_id r \<notin> fst ` set (reg_records (ops_reg s))"
  shows "\<exists>s'. registry_run False s' \<and> ops_gap s' = [] \<and> ops_opening s' = ops_opening s \<and>
    live_for_owner owner (ops_reg s') = live_for_owner owner (ops_reg s) + length (ops_gap s)"
  using assms
proof (induction "ops_gap s" arbitrary: s)
  case Nil
  then show ?case by (intro exI [of _ s]) simp
next
  case (Cons r gap)
  have r: "r \<in> set (ops_gap s)" using Cons.hyps(2) by (metis list.set_intros(1))
  let ?s = "s\<lparr>ops_reg := enter_record r (ops_reg s), ops_gap := remove1 r (ops_gap s)\<rparr>"
  note fresh = Cons.prems(3) [OF r]
  have gap: "ops_gap ?s = gap" by (simp flip: Cons.hyps(2))
  have run: "registry_run False ?s" using registry_run.entered [OF Cons.prems(1) r] fresh by simp
  have "distinct (map tr_id (r # gap))" using Cons.prems(2) Cons.hyps(2) by simp
  then have d: "distinct (map tr_id (ops_gap ?s))" "tr_id r \<notin> tr_id ` set gap"
    unfolding gap by simp_all
  have "is_live (tr_worker x) \<and> owner_is owner x \<and> tr_id x \<notin> fst ` set (reg_records (ops_reg ?s))"
    if "x \<in> set (ops_gap ?s)" for x
  proof -
    have "x \<in> set gap" using that gap by simp
    then have "x \<in> set (ops_gap s)" using Cons.hyps(2) by (metis list.set_intros(2))
    moreover have "tr_id x \<noteq> tr_id r" using d(2) \<open>x \<in> set gap\<close> by (metis image_eqI)
    ultimately show ?thesis
      using Cons.prems(3) [of x] fresh by (simp add: enter_record_def assoc_put_new)
  qed
  from Cons.hyps(1) [OF gap [symmetric] run d(1) this] obtain s' where
    "registry_run False s'" "ops_gap s' = []" "ops_opening s' = ops_opening s"
    "live_for_owner owner (ops_reg s') = live_for_owner owner (ops_reg ?s) + length gap"
    using gap by auto
  moreover have "live_for_owner owner (ops_reg ?s) = live_for_owner owner (ops_reg s) + 1"
    using enter_live fresh by simp
  moreover have "length (ops_gap s) = Suc (length gap)" by (simp flip: Cons.hyps(2))
  ultimately show ?case by (intro exI [of _ s']) simp
qed

text \<open>
  Without that condition no limit holds: for every number there is a run of concurrent
  requests of one identity, each of which passes the limit check, that ends with that many live
  terminals in the registry.
\<close>

theorem terminal_limit_race:
  "\<exists>s. registry_run False s \<and> ops_opening s = [] \<and> ops_gap s = [] \<and>
    live_for_owner owner (ops_reg s) = n"
proof -
  let ?gap = "map (sample_terminal owner) (rev [0..<n])"
  have "inj_on (tr_id \<circ> sample_terminal owner) {0..<n}"
    by (rule inj_onI) (auto dest: digits_nat_inj)
  then have "distinct (map tr_id ?gap)" by (simp add: distinct_map)
  moreover have "is_live (tr_worker r) \<and> owner_is owner r \<and> tr_id r \<notin> fst ` set (reg_records new_registry)"
    if "r \<in> set ?gap" for r
    using that by (auto simp: owner_is_def new_registry_def)
  ultimately obtain s' where "registry_run False s'" "ops_gap s' = []" "ops_opening s' = []"
      "live_for_owner owner (ops_reg s') = live_for_owner owner new_registry + n"
    using enter_gap [OF gap_run [of owner n], of owner] by auto
  then show ?thesis by (auto simp: new_registry_def live_for_owner_def)
qed

theorem terminal_limits_witness:
  "\<exists>s. registry_run True s \<and> live_for_owner ''m1'' (ops_reg s) + opening_for ''m1'' (ops_reg s) \<le> 2 \<and>
    opening_for ''m1'' (ops_reg s) = 1"
proof -
  let ?s = "\<lparr>ops_reg = new_registry\<lparr>reg_opening_by_owner := Map.empty(''m1'' \<mapsto> 1), reg_opening_total := 1\<rparr>,
    ops_opening = [''m1''], ops_gap = []\<rparr>"
  have run: "registry_run True ?s"
    using registry_run.reserved [OF registry_run.start, of True "''m1''" 0] by (simp add: reserve_new)
  from terminal_limits [OF run, of "''m1''"]
  have "live_for_owner ''m1'' (ops_reg ?s) + opening_for ''m1'' (ops_reg ?s) \<le> 2"
    by (simp add: MAX_TERMINALS_PER_MANAGED_USER_def)
  moreover have "opening_for ''m1'' (ops_reg ?s) = 1" by (simp add: opening_for_def)
  ultimately show ?thesis using run by blast
qed

subsection \<open>The entry of an ended terminal\<close>

lemma get_operation_record_audit [simp]:
  "get_operation (record_audit digest i now c db) j = get_operation db j"
  by (simp add: get_operation_def)

lemma finalize_other_operations:
  "i \<noteq> tr_operation_id r \<Longrightarrow>
   get_operation (snd (finalize_terminal digest audit_id finished_at audit_at r db)) i = get_operation db i"
  by (simp add: finalize_terminal_def Let_def operation_store.lookup_modify_other split: option.split)

lemma finalize_settled:
  "get_operation db (tr_operation_id r) = Some x \<Longrightarrow> oper_status x \<noteq> OP_RUNNING \<Longrightarrow>
   snd (finalize_terminal digest audit_id finished_at audit_at r db) = db"
  by (simp add: finalize_terminal_def Let_def)

end
