(* ===== verification/Python_Values.thy ===== *)
theory Python_Values
  imports Security_Metadata
begin

section \<open>Comparing and reading Python values\<close>

text \<open>
  What the routes do with dictionaries and texts before they act: \<open>==\<close> on values, \<open>uuid.UUID\<close> on
  text, prefixes, and a list of guards of which the first that fails names the error. A float is its
  \<open>repr\<close>; it equals an integer when the \<open>repr\<close> is that integer with \<open>.0\<close> (floats of magnitude
  \<open>1e16\<close> and more, written with an exponent, equal no integer here).
\<close>

subsection \<open>Equality\<close>

definition num_of :: "pyval \<Rightarrow> int option" where
  "num_of v = (case v of PInt n \<Rightarrow> Some n | PBool b \<Rightarrow> Some (if b then 1 else 0)
     | PFloat s \<Rightarrow> if 2 \<le> length s \<and> drop (length s - 2) s = ''.0'' then int_of_text (take (length s - 2) s)
         else None
     | _ \<Rightarrow> None)"

fun py_eq :: "pyval \<Rightarrow> pyval \<Rightarrow> bool" where
  "py_eq (PList xs) (PList ys) = list_all2 py_eq xs ys"
| "py_eq (PTuple xs) (PTuple ys) = list_all2 py_eq xs ys"
| "py_eq (PDict kvs) (PDict kws) = (set (map fst kvs) = set (map fst kws) \<and>
     list_all (\<lambda>kv. list_all (\<lambda>kw. fst kv = fst kw \<longrightarrow> py_eq (snd kv) (snd kw)) kws) kvs)"
| "py_eq v w = (v = w \<or> (num_of v \<noteq> None \<and> num_of v = num_of w))"

lemma py_eq_PStr [simp]: "py_eq v (PStr s) \<longleftrightarrow> v = PStr s" "py_eq (PStr s) v \<longleftrightarrow> v = PStr s"
  by (cases v; auto simp: num_of_def)+

lemma py_eq_PInt [simp]: "py_eq v (PInt n) \<longleftrightarrow> num_of v = Some n"
  by (cases v) (auto simp: num_of_def)

lemma num_of_simps [simp]:
  "num_of (PInt n) = Some n" "num_of (PBool b) = Some (if b then 1 else 0)" "num_of PNone = None"
  "num_of (PStr s) = None" "num_of (PList xs) = None" "num_of (PDict kvs) = None"
  by (simp_all add: num_of_def)

text \<open>\<open>d.get(k) == v\<close>, and \<open>d.get(k) is v\<close> for a boolean.\<close>

definition has_eq :: "pyval \<Rightarrow> string \<Rightarrow> pyval \<Rightarrow> bool" where
  "has_eq d k v \<longleftrightarrow> py_eq (dget d k) v"

definition has_flag :: "pyval \<Rightarrow> string \<Rightarrow> bool \<Rightarrow> bool" where
  "has_flag d k b \<longleftrightarrow> dget d k = PBool b"

definition has_keys :: "pyval \<Rightarrow> string list \<Rightarrow> bool" where
  "has_keys d ks \<longleftrightarrow> list_ex (\<lambda>k. k \<in> set (map fst (dict_items d))) ks"

text \<open>\<open>isinstance(v, str)\<close>, and the text.\<close>

fun text_of :: "pyval \<Rightarrow> string option" where
  "text_of (PStr s) = Some s"
| "text_of (PTime t) = Some (isoformat t)"
| "text_of _ = None"

text \<open>What a \<open>for\<close> loop over a value visits; \<open>None\<close> stands for \<open>TypeError\<close>.\<close>

fun iter_values :: "pyval \<Rightarrow> pyval list option" where
  "iter_values (PList xs) = Some xs"
| "iter_values (PTuple xs) = Some xs"
| "iter_values (PDict kvs) = Some (map (PStr \<circ> fst) kvs)"
| "iter_values (PStr s) = Some (map (\<lambda>c. PStr [c]) s)"
| "iter_values (PTime t) = Some (map (\<lambda>c. PStr [c]) (isoformat t))"
| "iter_values _ = None"

definition starts_with :: "string \<Rightarrow> string \<Rightarrow> bool" where
  "starts_with s prefix \<longleftrightarrow> take (length prefix) s = prefix"

text \<open>\<open>v or default\<close> and \<open>bool(v)\<close>.\<close>

fun truthy :: "pyval \<Rightarrow> bool" where
  "truthy PNone = False"
| "truthy (PBool b) = b"
| "truthy (PInt n) = (n \<noteq> 0)"
| "truthy (PFloat s) = (list_ex (\<lambda>c. is_digit c \<and> c \<noteq> CHR ''0'') s)"
| "truthy (PStr s) = (s \<noteq> [])"
| "truthy (PTime t) = True"
| "truthy (PList xs) = (xs \<noteq> [])"
| "truthy (PTuple xs) = (xs \<noteq> [])"
| "truthy (PDict kvs) = (kvs \<noteq> [])"
| "truthy (POther s) = True"

subsection \<open>Guards\<close>

text \<open>The first condition that holds decides the exception.\<close>

fun refuse_if :: "(bool \<times> exn) list \<Rightarrow> exn option" where
  "refuse_if [] = None"
| "refuse_if ((b, e) # guards) = (if b then Some e else refuse_if guards)"

lemma refuse_if_None: "refuse_if guards = None \<longleftrightarrow> (\<forall>(b, e) \<in> set guards. \<not> b)"
  by (induction guards rule: refuse_if.induct) auto

lemma refuse_if_Some: "refuse_if guards = Some e \<Longrightarrow> e \<in> snd ` set guards"
  by (induction guards rule: refuse_if.induct) (auto split: if_splits)

text \<open>A loop that stops at the first element with an answer.\<close>

fun first_some :: "('a \<Rightarrow> 'b option) \<Rightarrow> 'a list \<Rightarrow> 'b option" where
  "first_some f [] = None"
| "first_some f (x # xs) = (case f x of None \<Rightarrow> first_some f xs | Some y \<Rightarrow> Some y)"

lemma first_some_None: "first_some f xs = None \<longleftrightarrow> (\<forall>x \<in> set xs. f x = None)"
  by (induction xs) (auto split: option.splits)

subsection \<open>\<open>uuid.UUID(text)\<close>\<close>

text \<open>
  The constructor removes \<open>urn:\<close> and \<open>uuid:\<close>, surrounding braces and all hyphens, wants 32 characters,
  and reads them with \<open>int(text, 16)\<close>, which allows white space, a sign, a prefix \<open>0x\<close> and single
  underscores. The result is the canonical text of the number.
\<close>

fun remove_all :: "string \<Rightarrow> string \<Rightarrow> string" where
  "remove_all sub [] = []"
| "remove_all sub (c # s) =
     (if sub \<noteq> [] \<and> take (length sub) (c # s) = sub then remove_all sub (drop (length sub - 1) s)
      else c # remove_all sub s)"

definition strip_braces :: "string \<Rightarrow> string" where
  "strip_braces s = (let out = dropWhile (\<lambda>c. c \<in> set ''{}'') in rev (out (rev (out s))))"

definition hex_value :: "char \<Rightarrow> nat option" where
  "hex_value c = (if is_digit c then Some (ord_of c - 48)
     else if 97 \<le> ord_of c \<and> ord_of c \<le> 102 then Some (ord_of c - 87)
     else if 65 \<le> ord_of c \<and> ord_of c \<le> 70 then Some (ord_of c - 55) else None)"

fun hex_groups :: "nat \<Rightarrow> bool \<Rightarrow> string \<Rightarrow> nat option" where
  "hex_groups n prev [] = (if prev then Some n else None)"
| "hex_groups n prev (c # s) =
     (case hex_value c of Some d \<Rightarrow> hex_groups (16 * n + d) True s
      | None \<Rightarrow> if c = CHR ''_'' \<and> prev then hex_groups n False s else None)"

definition int_base16 :: "string \<Rightarrow> int option" where
  "int_base16 text =
     (let t = strip text;
          neg = (t \<noteq> [] \<and> hd t = CHR ''-'');
          t = (if t \<noteq> [] \<and> hd t \<in> set ''+-'' then tl t else t);
          n = (if take 2 t \<in> set [''0x'', ''0X'']
               then let t = drop 2 t in hex_groups 0 False (if t \<noteq> [] \<and> hd t = CHR ''_'' then tl t else t)
               else hex_groups 0 False t)
      in map_option (\<lambda>n. if neg then - int n else int n) n)"

fun hex_text :: "nat \<Rightarrow> nat \<Rightarrow> string" where
  "hex_text 0 n = []"
| "hex_text (Suc w) n = hex_text w (n div 16) @ [hex_digit (n mod 16)]"

definition uuid_text :: "nat \<Rightarrow> uuid" where
  "uuid_text n = (let h = hex_text 32 n in
     take 8 h @ ''-'' @ take 4 (drop 8 h) @ ''-'' @ take 4 (drop 12 h) @ ''-'' @ take 4 (drop 16 h) @ ''-'' @
     drop 20 h)"

definition uuid_of :: "string \<Rightarrow> uuid option" where
  "uuid_of text =
     (let h = filter (\<lambda>c. c \<noteq> CHR ''-'') (strip_braces (remove_all ''uuid:'' (remove_all ''urn:'' text)))
      in if length h \<noteq> 32 then None
         else case int_base16 h of None \<Rightarrow> None
           | Some n \<Rightarrow> if n < 0 \<or> 2 ^ 128 \<le> n then None else Some (uuid_text (nat n)))"

end
