(* ===== verification/Operation_Payloads.thy ===== *)
theory Operation_Payloads
  imports Operation_Lifecycle Python_Values Portal_Store
begin

section \<open>The payloads of operations\<close>

text \<open>
  \<open>routes/operations.py\<close> and the models \<open>UserStagePayload\<close> and \<open>UserActivatePayload\<close> of
  \<open>schemas.py\<close>: which payload an operation may carry, and which answers of the worker count as the
  approved plan or its result. pydantic's lax conversion of a value to an integer and of a text to a
  UUID are the fields of a \<open>pydantic\<close> record; closed sets, ranges, patterns and forbidden extra
  fields are written out.
\<close>

record pydantic =
  lax_int :: "pyval \<Rightarrow> int option"
  lax_uuid :: "pyval \<Rightarrow> uuid option"

subsection \<open>Fixed plans\<close>

definition STAGE_PUBLIC_KEY_FIELDS :: "string list" where
  "STAGE_PUBLIC_KEY_FIELDS = [''public_key_file'', ''public_key_path'', ''public_key'',
     ''raw_public_key'', ''approved_ssh_key_record_ids'']"

definition FORBIDDEN_SECRET_OR_COMMAND_FIELDS :: "string list" where
  "FORBIDDEN_SECRET_OR_COMMAND_FIELDS = [''raw_private_key'', ''private_key'',
     ''private_key_password'', ''private_key_path'', ''password'', ''command'', ''argv'', ''path'']"

definition APPROVED_ORIGIN_PILOT_STAGE :: "(string \<times> pyval) list" where
  "APPROVED_ORIGIN_PILOT_STAGE = [(''username'', PStr ''origin-pilot''), (''uid'', PInt 20001),
     (''gid'', PInt 20001), (''project_id'', PInt 30001), (''ssh_port'', PInt 22023),
     (''quota_gb'', PInt 300), (''slurm_account'', PStr ''company''), (''slurm_qos'', PStr ''general''),
     (''max_gpus'', PInt 1), (''container_name'', PStr ''gpu-dev-origin-pilot''), (''cpus'', PInt 8),
     (''memory_gb'', PInt 32), (''pids_limit'', PInt 4096), (''gpu'', PStr ''none''),
     (''expected_state'', PStr ''DRAFT'')]"

definition PORTAL3E_FINAL_MANAGED_USER_ID :: uuid where
  "PORTAL3E_FINAL_MANAGED_USER_ID = ''3b95b4f0-95d9-444a-8f0b-46288195a807''"

definition PORTAL3E_FINAL_KEY_RECORD_ID :: uuid where
  "PORTAL3E_FINAL_KEY_RECORD_ID = ''7427da72-37b9-4ac2-8ada-2f0c83b7718e''"

definition PORTAL3E_FINAL_KEY_FINGERPRINT :: string where
  "PORTAL3E_FINAL_KEY_FINGERPRINT = ''SHA256:nek6vyEb3GT+UJAcY5y/8PgY4achF2ouNy+8C2JqUVc''"

definition PORTAL3E_FINAL_APPROVED_HOST :: string where
  "PORTAL3E_FINAL_APPROVED_HOST = ''10.82.36.1''"

definition PORTAL3E_FINAL_PUBLIC_ACCESS_HOST :: string where
  "PORTAL3E_FINAL_PUBLIC_ACCESS_HOST = ''20.10.10.3''"

definition PORTAL3F_APPROVAL_REFERENCE :: string where
  "PORTAL3F_APPROVAL_REFERENCE = ''portal3f-origin-pilot-first-acceptance-v1''"

definition PORTAL3F_IMAGE_REF :: string where
  "PORTAL3F_IMAGE_REF = ''nvcr.io#nvidia/cuda:13.2.0-base-ubuntu24.04@'' @
     ''sha256:36cccda4bebc3b0b1ebe1907ead8169cf144d45df890be871b36b304cf91145a''"

definition APPROVED_PORTAL3F_CLIENT_VALIDATION :: pyval where
  "APPROVED_PORTAL3F_CLIENT_VALIDATION = PDict
     [(''managed_user_id'', PStr PORTAL3E_FINAL_MANAGED_USER_ID), (''username'', PStr ''origin-pilot''),
      (''expected_compute_state'', PStr ''ACTIVE''), (''expected_ssh_key_state'', PStr ''INSTALLED''),
      (''key_record_id'', PStr PORTAL3E_FINAL_KEY_RECORD_ID),
      (''key_fingerprint'', PStr PORTAL3E_FINAL_KEY_FINGERPRINT),
      (''host_client_validation'', PStr ''PASS''), (''container_client_validation'', PStr ''PASS''),
      (''confirmation_source'', PStr ''USER_CONFIRMED_REAL_CLIENT_CONNECTIONS''),
      (''approval_reference'', PStr PORTAL3F_APPROVAL_REFERENCE)]"

definition APPROVED_PORTAL3F_PILOT_ACCEPTANCE :: pyval where
  "APPROVED_PORTAL3F_PILOT_ACCEPTANCE = PDict
     [(''managed_user_id'', PStr PORTAL3E_FINAL_MANAGED_USER_ID), (''username'', PStr ''origin-pilot''),
      (''node_name'', PStr ''sagsh100server''), (''partition'', PStr ''notebook''),
      (''account'', PStr ''company''), (''qos'', PStr ''general''), (''max_gpus'', PInt 1),
      (''container_name'', PStr ''gpu-dev-origin-pilot''), (''container_gpu'', PStr ''NONE''),
      (''image_ref'', PStr PORTAL3F_IMAGE_REF), (''expected_host_client_validation'', PStr ''PASS''),
      (''expected_container_client_validation'', PStr ''PASS''), (''final_node_state'', PStr ''DRAIN''),
      (''approval_reference'', PStr PORTAL3F_APPROVAL_REFERENCE)]"

definition APPROVED_PORTAL3G_PRODUCTION_PILOT :: pyval where
  "APPROVED_PORTAL3G_PRODUCTION_PILOT = PDict
     [(''managed_user_id'', PStr PORTAL3E_FINAL_MANAGED_USER_ID), (''username'', PStr ''origin-pilot''),
      (''node_name'', PStr ''sagsh100server''), (''mode'', PStr ''single-node''),
      (''managed_users'', PList [PStr ''origin-pilot'']), (''max_gpus'', PInt 1),
      (''client_validation_operation_id'', PStr ''a168cf96-c54d-4e68-b040-5516cae66518''),
      (''pilot_acceptance_operation_id'', PStr ''94399c95-1a17-47a1-bd41-43a0c242ccc1''),
      (''expected_node_state'', PStr ''DRAIN''), (''target_node_state'', PStr ''IDLE''),
      (''approval_reference'', PStr ''portal3g-single-user-production-pilot-v1'')]"

subsection \<open>The payload models\<close>

definition reference_re :: "string \<Rightarrow> bool" where
  "reference_re s \<longleftrightarrow> 8 \<le> length s \<and> length s \<le> 128 \<and> list_all (\<lambda>c. is_alnum c \<or> c \<in> set ''_.:-'') s"

definition only_keys :: "pyval \<Rightarrow> string list \<Rightarrow> bool" where
  "only_keys payload allowed \<longleftrightarrow> set (map fst (dict_items payload)) \<subseteq> set allowed"

text \<open>One field of a model: present unless it has a default, converted, and within its range.\<close>

definition text_in :: "(string \<Rightarrow> bool) \<Rightarrow> pyval \<Rightarrow> pyval option" where
  "text_in ok v = (case text_of v of Some s \<Rightarrow> if ok s then Some v else None | None \<Rightarrow> None)"

definition int_in :: "pydantic \<Rightarrow> int \<Rightarrow> int \<Rightarrow> pyval \<Rightarrow> pyval option" where
  "int_in pyd lo hi v = (case lax_int pyd v of None \<Rightarrow> None
     | Some n \<Rightarrow> if lo \<le> n \<and> n \<le> hi then Some (PInt n) else None)"

definition literal_int :: "int \<Rightarrow> pyval \<Rightarrow> pyval option" where
  "literal_int n v = (if v = PInt n then Some v else None)"

definition literal :: "string \<Rightarrow> pyval \<Rightarrow> pyval option" where
  "literal s v = (if v = PStr s then Some v else None)"

fun model_fields :: "(string \<times> (pyval \<Rightarrow> pyval option)) list \<Rightarrow> pyval \<Rightarrow> (string \<times> pyval) list option" where
  "model_fields [] payload = Some []"
| "model_fields ((k, conv) # rest) payload =
     (case map_of (dict_items payload) k of None \<Rightarrow> None
      | Some v \<Rightarrow> (case conv v of None \<Rightarrow> None
          | Some w \<Rightarrow> map_option ((#) (k, w)) (model_fields rest payload)))"

definition stage_fields :: "pydantic \<Rightarrow> (string \<times> (pyval \<Rightarrow> pyval option)) list" where
  "stage_fields pyd = [(''username'', literal ''origin-pilot''), (''uid'', int_in pyd 20000 60000),
     (''gid'', int_in pyd 20000 60000), (''project_id'', int_in pyd 30000 39999),
     (''ssh_port'', int_in pyd 1024 65535), (''quota_gb'', literal_int 300),
     (''slurm_account'', literal ''company''), (''slurm_qos'', literal ''general''),
     (''max_gpus'', literal_int 1), (''container_name'', literal ''gpu-dev-origin-pilot''),
     (''cpus'', literal_int 8), (''memory_gb'', literal_int 32), (''pids_limit'', literal_int 4096),
     (''gpu'', literal ''none''), (''expected_state'', literal ''DRAFT'')]"

text \<open>An optional field: absent and \<open>None\<close> are both left out by \<open>exclude_none\<close>.\<close>

definition optional_field :: "string \<Rightarrow> (pyval \<Rightarrow> pyval option) \<Rightarrow> pyval \<Rightarrow> (string \<times> pyval) list option" where
  "optional_field k conv payload =
     (if dget payload k = PNone then Some []
      else map_option (\<lambda>w. [(k, w)]) (conv (dget payload k)))"

definition stage_model :: "pydantic \<Rightarrow> pyval \<Rightarrow> (string \<times> pyval) list option" where
  "stage_model pyd payload =
     (if \<not> only_keys payload (map fst (stage_fields pyd) @ [''approval_reference'']) then None
      else case (model_fields (stage_fields pyd) payload,
                 optional_field ''approval_reference'' (text_in reference_re) payload) of
        (Some required, Some reference) \<Rightarrow> Some (required @ reference)
      | _ \<Rightarrow> None)"

definition uuid_field :: "pydantic \<Rightarrow> pyval \<Rightarrow> pyval option" where
  "uuid_field pyd v = map_option PStr (lax_uuid pyd v)"

definition uuid_list_field :: "pydantic \<Rightarrow> pyval \<Rightarrow> pyval option" where
  "uuid_list_field pyd v =
     (if \<not> is_list v \<or> length (list_items v) < 1 \<or> 5 < length (list_items v) then None
      else case those (map (lax_uuid pyd) (list_items v)) of None \<Rightarrow> None
        | Some ids \<Rightarrow> if distinct ids then Some (PList (map PStr ids)) else None)"

definition activate_model :: "pydantic \<Rightarrow> pyval \<Rightarrow> (string \<times> pyval) list option" where
  "activate_model pyd payload =
     (let required = [(''managed_user_id'', uuid_field pyd),
            (''approved_ssh_key_record_ids'', uuid_list_field pyd),
            (''expected_state'', literal ''STAGED''), (''approval_reference'', text_in reference_re)]
      in if \<not> only_keys payload (map fst required @ [''dry_run_operation_id'']) then None
         else case (model_fields required payload,
                    optional_field ''dry_run_operation_id'' (uuid_field pyd) payload) of
           (Some vs, Some dry_run) \<Rightarrow> Some (vs @ dry_run)
         | _ \<Rightarrow> None)"

subsection \<open>\<open>validate_operation_payload\<close>\<close>

definition payload_fields :: "(string \<times> string list) list" where
  "payload_fields = [(''user.plan'', [''username'']), (''user.suspend'', [''username'']),
     (''container.start'', [''name'']), (''container.stop'', [''name'']),
     (''container.restart'', [''name'']), (''container.rebuild'', [''name'']),
     (''slurm.drain'', [''node_name'']), (''slurm.resume'', [''node_name'']),
     (''job.cancel'', [''job_id'']), (''quota.update'', [''username'', ''quota_bytes'']),
     (''ssh_key.add'', [''username'', ''key_type'', ''fingerprint'', ''comment_summary'']),
     (''ssh_key.revoke'', [''username'', ''fingerprint''])]"

definition username_ok :: "string \<Rightarrow> pyval \<Rightarrow> bool" where
  "username_ok operation_type v = (case text_of v of
     Some username \<Rightarrow> safe_target_re username \<and>
       (operation_type = ''user.plan'' \<longrightarrow> casefold username = ''origin-pilot'') \<and>
       casefold username \<notin> set [''root'', ''origin-al'', ''codexops'']
   | None \<Rightarrow> False)"

definition name_ok :: "pyval \<Rightarrow> bool" where
  "name_ok v = (case text_of v of
     Some name \<Rightarrow> safe_target_re name \<and> (starts_with name ''gpu-dev-'' \<or> starts_with name ''h100-'')
   | None \<Rightarrow> False)"

definition int_between :: "int \<Rightarrow> int \<Rightarrow> pyval \<Rightarrow> bool" where
  "int_between lo hi v = (case py_int v of None \<Rightarrow> False | Some n \<Rightarrow> lo < n \<and> n \<le> hi)"

definition ssh_text_ok :: "pyval \<Rightarrow> bool" where
  "ssh_text_ok v = (case text_of v of
     Some s \<Rightarrow> s \<noteq> [] \<and> length s \<le> 255 \<and> \<not> contains ''PRIVATE KEY'' s | None \<Rightarrow> False)"

definition generic_payload :: "string \<Rightarrow> string list \<Rightarrow> pyval \<Rightarrow> pyval result" where
  "generic_payload operation_type allowed payload =
     (let wants = (\<lambda>k. k \<in> set allowed); ssh = [''key_type'', ''fingerprint'', ''comment_summary''] in
      case refuse_if
        [(wants ''username'' \<and> \<not> username_ok operation_type (dget payload ''username''),
          ValueError ''protected or invalid username''),
         (wants ''name'' \<and> \<not> name_ok (dget payload ''name''), ValueError ''invalid managed container name''),
         (wants ''node_name'' \<and> dget payload ''node_name'' \<noteq> PStr ''sagsh100server'',
          ValueError ''only the known single node is in scope''),
         (wants ''job_id'' \<and> \<not> int_between 0 (2 ^ 63 - 1) (dget payload ''job_id''),
          ValueError ''invalid job id''),
         (wants ''quota_bytes'' \<and> \<not> int_between 0 (10 * 1024 ^ 4) (dget payload ''quota_bytes''),
          ValueError ''invalid quota''),
         (list_ex (\<lambda>k. has_keys payload [k] \<and> \<not> ssh_text_ok (dget payload k)) ssh,
          ValueError ''invalid SSH metadata'')] of
        Some e \<Rightarrow> Inl e
      | None \<Rightarrow> Inr (PDict
          ((if wants ''username'' then [(''username'', PStr (casefold (py_str (dget payload ''username''))))] else []) @
           concat (map (\<lambda>k. if wants k then [(k, dget payload k)] else [])
             [''name'', ''node_name'', ''job_id'', ''quota_bytes'']) @
           concat (map (\<lambda>k. if has_keys payload [k] then [(k, dget payload k)] else []) ssh))))"

definition fixed_plan :: "string \<Rightarrow> string \<Rightarrow> pyval \<Rightarrow> pyval \<Rightarrow> pyval result" where
  "fixed_plan rejected mismatch expected payload =
     (if has_keys payload FORBIDDEN_SECRET_OR_COMMAND_FIELDS then Inl (OperationPayloadError rejected)
      else if \<not> py_eq payload expected then Inl (OperationPayloadError mismatch)
      else Inr expected)"

definition stage_payload :: "pydantic \<Rightarrow> pyval \<Rightarrow> pyval result" where
  "stage_payload pyd payload =
     (if has_keys payload STAGE_PUBLIC_KEY_FIELDS
      then Inl (OperationPayloadError ''PUBLIC_KEY_NOT_ALLOWED_DURING_STAGE'')
      else if has_keys payload FORBIDDEN_SECRET_OR_COMMAND_FIELDS
      then Inl (OperationPayloadError ''PAYLOAD_REJECTED'')
      else case stage_model pyd payload of None \<Rightarrow> Inl (OperationPayloadError ''STAGE_PAYLOAD_REJECTED'')
        | Some validated \<Rightarrow>
            if \<not> list_all (\<lambda>(k, v). has_eq (PDict validated) k v) APPROVED_ORIGIN_PILOT_STAGE
            then Inl (OperationPayloadError ''STAGE_PLAN_MISMATCH'') else Inr (PDict validated))"

definition activate_payload :: "pydantic \<Rightarrow> pyval \<Rightarrow> pyval result" where
  "activate_payload pyd payload =
     (let key_ids = dget payload ''approved_ssh_key_record_ids'' in
      if has_keys payload (filter (\<lambda>k. k \<noteq> ''approved_ssh_key_record_ids'') STAGE_PUBLIC_KEY_FIELDS)
      then Inl (OperationPayloadError ''ARBITRARY_PATH_REJECTED'')
      else if has_keys payload FORBIDDEN_SECRET_OR_COMMAND_FIELDS
      then Inl (OperationPayloadError ''PAYLOAD_REJECTED'')
      else if \<not> is_list key_ids \<or> list_items key_ids = []
      then Inl (OperationPayloadError ''PUBLIC_KEY_REQUIRED_FOR_ACTIVATION'')
      else case activate_model pyd payload of None \<Rightarrow> Inl (OperationPayloadError ''ACTIVATE_PAYLOAD_REJECTED'')
        | Some validated \<Rightarrow> Inr (PDict validated))"

definition validate_operation_payload :: "pydantic \<Rightarrow> string \<Rightarrow> pyval \<Rightarrow> pyval result" where
  "validate_operation_payload pyd operation_type payload =
     (if operation_type = ''slurm.production_pilot.start''
      then fixed_plan ''PORTAL3G_PAYLOAD_REJECTED'' ''PORTAL3G_PLAN_MISMATCH''
        APPROVED_PORTAL3G_PRODUCTION_PILOT payload
      else if operation_type = ''user.ssh_client_validation.record''
      then fixed_plan ''PORTAL3F_PAYLOAD_REJECTED'' ''PORTAL3F_PLAN_MISMATCH''
        APPROVED_PORTAL3F_CLIENT_VALIDATION payload
      else if operation_type = ''user.pilot.acceptance''
      then fixed_plan ''PORTAL3F_PAYLOAD_REJECTED'' ''PORTAL3F_PLAN_MISMATCH''
        APPROVED_PORTAL3F_PILOT_ACCEPTANCE payload
      else if operation_type = ''user.stage'' then stage_payload pyd payload
      else if operation_type = ''user.activate'' then activate_payload pyd payload
      else case map_of payload_fields operation_type of
        None \<Rightarrow> Inl (OperationPayloadError ''UNKNOWN_OPERATION'')
      | Some allowed \<Rightarrow>
          if \<not> only_keys payload allowed then Inl (OperationPayloadError ''PAYLOAD_REJECTED'')
          else generic_payload operation_type allowed payload)"

subsection \<open>The records an activation is bound to\<close>

definition key_refusal :: "portal_managed_user \<Rightarrow> portal_ssh_key \<Rightarrow> exn option" where
  "key_refusal managed record = refuse_if
     [(key_managed_user_id record \<noteq> mu_id managed, OperationPayloadError ''PUBLIC_KEY_RECORD_OWNER_MISMATCH''),
      (\<not> key_active record \<or> key_revoked_at record \<noteq> None \<or> key_state record \<noteq> ''VALIDATED'',
       OperationPayloadError ''PUBLIC_KEY_RECORD_NOT_ACTIVE''),
      (key_approved_by record = None \<or> key_approved_at record = None,
       OperationPayloadError ''PUBLIC_KEY_RECORD_NOT_APPROVED''),
      (key_validated_at record = None \<or> key_public_key record = None \<or>
       key_enrollment_operation_id record = None \<or>
       key_staging_file_name record \<noteq> Some (key_id record @ ''.pub'') \<or>
       key_content_sha256 record = None \<or> key_scope record \<notin> set [''HOST'', ''CONTAINER'', ''BOTH''] \<or>
       \<not> starts_with (key_fingerprint_sha256 record) ''SHA256:'',
       OperationPayloadError ''PUBLIC_KEY_RECORD_NOT_VALIDATED'')]"

definition on_host :: "portal_ssh_key \<Rightarrow> bool" where
  "on_host record \<longleftrightarrow> key_scope record \<in> set [''HOST'', ''BOTH'']"

definition on_container :: "portal_ssh_key \<Rightarrow> bool" where
  "on_container record \<longleftrightarrow> key_scope record \<in> set [''CONTAINER'', ''BOTH'']"

definition binding_ids :: "pyval \<Rightarrow> (uuid \<times> uuid list) option" where
  "binding_ids payload =
     (if \<not> has_keys payload [''managed_user_id''] \<or> \<not> has_keys payload [''approved_ssh_key_record_ids''] then None
      else case (uuid_of (py_str (dget payload ''managed_user_id'')),
                 iter_values (dget payload ''approved_ssh_key_record_ids'')) of
        (Some managed_id, Some vs) \<Rightarrow>
          map_option (Pair managed_id) (those (map (\<lambda>v. uuid_of (py_str v)) vs))
      | _ \<Rightarrow> None)"

definition staged_record_of :: "uuid \<Rightarrow> string \<Rightarrow> portal_managed_user \<Rightarrow> bool" where
  "staged_record_of owner_id target_id managed \<longleftrightarrow>
     mu_portal_user_id managed = owner_id \<and> mu_unix_username managed = target_id \<and>
     mu_onboarding_state managed = OB_STAGED \<and> mu_shell managed = ''/usr/sbin/nologin''"

definition validate_activate_database_bindings ::
    "portal_db \<Rightarrow> uuid \<Rightarrow> string \<Rightarrow> pyval \<Rightarrow> portal_ssh_key list result" where
  "validate_activate_database_bindings db owner_id target_id payload =
     (case binding_ids payload of None \<Rightarrow> Inl (OperationPayloadError ''ACTIVATE_PAYLOAD_REJECTED'')
      | Some (managed_id, key_ids) \<Rightarrow>
        (case get_managed db managed_id of
          None \<Rightarrow> Inl (OperationPayloadError ''USER_NOT_IN_STAGED_STATE'')
        | Some managed \<Rightarrow>
          if \<not> staged_record_of owner_id target_id managed
          then Inl (OperationPayloadError ''USER_NOT_IN_STAGED_STATE'')
          else
            let records = filter (\<lambda>r. key_id r \<in> set key_ids) (t_ssh_keys db);
                ordered = List.map_filter (get_ssh_key db) key_ids in
            if length (remdups (map key_id records)) \<noteq> length key_ids
            then Inl (OperationPayloadError ''PUBLIC_KEY_RECORD_NOT_FOUND'')
            else case first_some (key_refusal managed) ordered of Some e \<Rightarrow> Inl e
              | None \<Rightarrow>
                  if \<not> list_ex on_host ordered \<or> \<not> list_ex on_container ordered
                  then Inl (OperationPayloadError ''SSH_KEY_SCOPE_INCOMPLETE'') else Inr ordered))"

subsection \<open>The worker's answers\<close>

definition all_eq :: "pyval \<Rightarrow> (string \<times> pyval) list \<Rightarrow> bool" where
  "all_eq d expected \<longleftrightarrow> list_all (\<lambda>(k, v). has_eq d k v) expected"

definition all_flags :: "pyval \<Rightarrow> (string \<times> bool) list \<Rightarrow> bool" where
  "all_flags d expected \<longleftrightarrow> list_all (\<lambda>(k, b). has_flag d k b) expected"

definition str_opt :: "string option \<Rightarrow> string" where
  "str_opt v = (case v of None \<Rightarrow> ''None'' | Some s \<Rightarrow> s)"

definition key_observed :: "pyval list \<Rightarrow> portal_ssh_key \<Rightarrow> bool" where
  "key_observed observed record \<longleftrightarrow>
     (case map_of (rev (map (\<lambda>item. (py_str (dget item ''record_id''), item)) (filter is_dict observed)))
         (key_id record) of
        None \<Rightarrow> False
      | Some item \<Rightarrow> all_eq item
          [(''key_type'', PStr (key_key_type record)),
           (''fingerprint_sha256'', PStr (key_fingerprint_sha256 record)),
           (''content_sha256'', opt_val PStr (key_content_sha256 record)),
           (''scope'', PStr (key_scope record)),
           (''managed_user_id'', PStr (key_managed_user_id record)),
           (''operation_id'', PStr (str_opt (key_enrollment_operation_id record)))])"

definition keys_observed :: "portal_ssh_key list \<Rightarrow> pyval \<Rightarrow> bool" where
  "keys_observed records worker_result \<longleftrightarrow>
     (let observed = dget worker_result ''approved_ssh_keys'' in
      is_list observed \<and> length (list_items observed) = length records \<and>
      list_all (key_observed (list_items observed)) records)"

definition key_plan :: "portal_ssh_key list \<Rightarrow> pyval" where
  "key_plan records = PList (map (\<lambda>r. PDict [(''record_id'', PStr (key_id r)),
     (''fingerprint_sha256'', PStr (key_fingerprint_sha256 r))]) records)"

definition validate_activate_worker_result :: "portal_ssh_key list \<Rightarrow> pyval \<Rightarrow> unit result" where
  "validate_activate_worker_result records worker_result =
     (let policy = dget worker_result ''host_ssh_policy'' in
      if \<not> keys_observed records worker_result then Inl (OperationPayloadError ''PUBLIC_KEY_WORKER_MISMATCH'')
      else if \<not> (all_eq worker_result
            [(''host_authorized_keys_install'', PStr ''PLANNED''),
             (''container_authorized_keys_install'', PStr ''PLANNED''),
             (''host_authorized_keys_plan'', key_plan (filter on_host records)),
             (''container_authorized_keys_plan'', key_plan (filter on_container records)),
             (''activate_cli_contract'', PStr ''TARGET_SCOPED_ROOT_CONTROLLED_BUNDLES'')] \<and>
          has_flag worker_result ''execution_enabled'' False \<and> is_dict policy \<and>
          all_flags policy [(''pubkey_authentication'', True), (''password_authentication'', False),
            (''keyboard_interactive_authentication'', False)] \<and>
          all_eq policy [(''authentication_methods'', PList [PStr ''publickey'']), (''status'', PStr ''PASSING'')])
      then Inl (OperationPayloadError ''ACTIVATE_DRY_RUN_INCOMPLETE'') else Inr ())"

definition server_fingerprint_ok :: "pyval \<Rightarrow> bool" where
  "server_fingerprint_ok v = (case text_of v of
     Some s \<Rightarrow> starts_with s ''SHA256:'' \<and> length s \<le> 128 | None \<Rightarrow> False)"

definition ssh_state_verified :: "pyval \<Rightarrow> bool" where
  "ssh_state_verified activate \<longleftrightarrow>
     (let host_policy = dget activate ''host_ssh_policy''; container_policy = dget activate ''container_ssh_policy'';
          host_server = dget activate ''host_ssh_server''; container_server = dget activate ''container_ssh_server'';
          bind = dget container_server ''bind''; management = dget activate ''management_ssh_policy'' in
      is_dict host_policy \<and>
      all_flags host_policy [(''pubkey_authentication'', True), (''password_authentication'', False),
        (''keyboard_interactive_authentication'', False)] \<and>
      all_eq host_policy [(''authentication_methods'', PList [PStr ''publickey'']), (''status'', PStr ''PASSING'')] \<and>
      is_dict container_policy \<and>
      all_flags container_policy [(''pubkey_authentication'', True), (''password_authentication'', False),
        (''keyboard_interactive_authentication'', False)] \<and>
      all_eq container_policy [(''authentication_methods'', PStr ''publickey''), (''permit_root_login'', PStr ''no''),
        (''authorized_keys_file'', PStr ''.ssh/authorized_keys''), (''status'', PStr ''PASSING'')] \<and>
      is_dict host_server \<and>
      all_eq host_server [(''service_state'', PStr ''ACTIVE''), (''config_validation'', PStr ''PASSED''),
        (''approved_address'', PStr PORTAL3E_FINAL_APPROVED_HOST), (''port'', PInt 22),
        (''status'', PStr ''READY_FOR_CLIENT_VALIDATION'')] \<and>
      is_dict container_server \<and>
      all_eq container_server [(''service_state'', PStr ''ACTIVE''), (''internal_port'', PInt 22),
        (''status'', PStr ''READY_FOR_CLIENT_VALIDATION'')] \<and>
      is_dict bind \<and>
      all_eq bind [(''address'', PStr PORTAL3E_FINAL_PUBLIC_ACCESS_HOST), (''port'', PInt 22023),
        (''status'', PStr ''LISTENING'')] \<and>
      server_fingerprint_ok (dget activate ''host_server_fingerprint'') \<and>
      server_fingerprint_ok (dget activate ''container_server_fingerprint'') \<and>
      is_dict management \<and>
      all_eq management [(''origin-al'', PStr ''UNCHANGED''), (''codexops'', PStr ''UNCHANGED'')])"

definition resources_verified :: "pyval \<Rightarrow> bool" where
  "resources_verified activate \<longleftrightarrow>
     list_all (\<lambda>(k, expected). is_dict (dget activate k) \<and> all_eq (dget activate k) expected)
       [(''gpu_policy'', [(''unit'', PStr ''user-20001.slice''), (''device_policy'', PStr ''closed''),
           (''device_allow'', PList []), (''status'', PStr ''PASSING''), (''out_of_job_gpu'', PStr ''DENIED'')]),
        (''quota'', [(''project_id'', PInt 30001), (''hard_limit_gb'', PInt 300), (''enforcement'', PStr ''ON'')]),
        (''slurm'', [(''account'', PStr ''company''), (''qos'', PStr ''general''), (''max_gpus'', PInt 1),
           (''node_state'', PStr ''DRAIN''), (''queue'', PStr ''EMPTY'')]),
        (''container'', [(''name'', PStr ''gpu-dev-origin-pilot''), (''state'', PStr ''RUNNING''),
           (''gpu'', PStr ''NONE''), (''cpus'', PInt 8), (''memory_gb'', PInt 32), (''pids_limit'', PInt 4096),
           (''ssh_address'', PStr PORTAL3E_FINAL_PUBLIC_ACCESS_HOST), (''ssh_port'', PInt 22023)]),
        (''guard'', [(''status'', PStr ''PASSING''), (''managed_users'', PInt 1), (''users_verified'', PInt 1),
           (''nvidia_gpu_count'', PInt 4), (''slurm_gpu_count'', PInt 4)])]"

definition validate_activate_execution_result :: "portal_ssh_key list \<Rightarrow> pyval \<Rightarrow> pyval result" where
  "validate_activate_execution_result records worker_result =
     (let activate = dget worker_result ''activate'';
          prints = (\<lambda>rs. PList (map (PStr \<circ> key_fingerprint_sha256) rs)) in
      if \<not> keys_observed records worker_result then Inl (OperationPayloadError ''PUBLIC_KEY_WORKER_MISMATCH'')
      else if \<not> is_dict activate then Inl (OperationPayloadError ''ACTIVATE_RESULT_INCOMPLETE'')
      else if \<not> (has_eq worker_result ''handler'' (PStr ''user.activate'') \<and>
          has_flag worker_result ''execution_enabled'' True \<and>
          all_eq activate [(''username'', PStr ''origin-pilot''), (''uid'', PInt 20001), (''gid'', PInt 20001),
            (''onboarding_state'', PStr ''ACTIVE''), (''shell'', PStr ''/bin/bash''),
            (''password'', PStr ''LOCKED''), (''host_access'', PStr ''ENABLED''),
            (''ssh_key_state'', PStr ''INSTALLED''), (''host_authorized_keys'', PStr ''INSTALLED''),
            (''container_authorized_keys'', PStr ''INSTALLED''),
            (''host_key_fingerprints'', prints (filter on_host records)),
            (''container_key_fingerprints'', prints (filter on_container records))] \<and>
          ssh_state_verified activate \<and> resources_verified activate \<and>
          all_eq activate [(''host_ssh_client_validation'', PStr ''PENDING''),
            (''container_ssh_client_validation'', PStr ''PENDING'')])
      then Inl (OperationPayloadError ''ACTIVATE_RESULT_INCOMPLETE'')
      else Inr activate)"

definition validate_persisted_activate_execution_result :: "portal_ssh_key list \<Rightarrow> pyval \<Rightarrow> pyval result" where
  "validate_persisted_activate_execution_result records persisted_result =
     (let persisted_activate = dget persisted_result ''activate'' in
      if \<not> is_dict persisted_activate \<or> dget persisted_activate ''password'' \<noteq> PStr REDACTED
      then Inl (OperationPayloadError ''ACTIVATE_RESULT_INCOMPLETE'')
      else validate_activate_execution_result records (PDict (dict_put (dict_items persisted_result) ''activate''
        (PDict (dict_put (dict_items persisted_activate) ''password'' (PStr ''LOCKED''))))))"

end
