(* ===== verification/Operation_Execution.thy ===== *)
theory Operation_Execution
  imports Operation_Payloads Rbac
begin

section \<open>Executing approved operations\<close>

text \<open>
  The background half of \<open>routes/operations.py\<close>: \<open>execute_operation\<close> takes a queued operation
  through RUNNING to its end. It asks the worker for a dry run, except for two operations of the
  first production pilot that are recognised field by field: the real Stage, and the real Activate
  with its compensation. A run returns the requests it sent to the worker next to the database, so
  that what reaches the host can be stated. Every \<open>db.commit()\<close> inside a run is a name for the
  database there, and \<open>db.rollback()\<close> goes back to it. \<open>oe_ids\<close> supplies the identifiers of new rows,
  one argument per place that makes one; the readings of the clock in one call are one instant.
  Chinese summary texts are written in English.
\<close>

record op_env =
  oe_digest :: "string \<Rightarrow> string"
  oe_ids :: "nat \<Rightarrow> uuid"
  oe_now :: instant
  oe_pydantic :: pydantic

record operation_call =
  wr_operation_type :: string
  wr_payload :: pyval
  wr_requested_by :: string
  wr_approved_by :: "string option"
  wr_idempotency_key :: string
  wr_dry_run :: bool
  wr_timeout_seconds :: int

text \<open>The answer of \<open>call_worker\<close>: \<open>Inl code\<close> is a \<open>WorkerClientError\<close>.\<close>

type_synonym op_worker = "operation_call \<Rightarrow> string + pyval"

subsection \<open>Sequences of effects\<close>

fun run_actions :: "('db, unit) action list \<Rightarrow> ('db, unit) action" where
  "run_actions [] db = (Inr (), db)"
| "run_actions (act # acts) db =
     (case act db of (Inl e, db') \<Rightarrow> (Inl e, db') | (Inr _, db') \<Rightarrow> run_actions acts db')"

definition effect :: "('db \<Rightarrow> 'db) \<Rightarrow> ('db, unit) action" where
  "effect f db = (Inr (), f db)"

definition transition :: "op_env \<Rightarrow> nat \<Rightarrow> uuid \<Rightarrow> operation_status \<Rightarrow> string \<Rightarrow> (portal_db, unit) action" where
  "transition env slot i target message db =
     (case get_operation db i of None \<Rightarrow> (Inl (RuntimeError ''no operation''), db)
      | Some operation \<Rightarrow>
        if \<not> can_transition (oper_status operation) target
        then (Inl (RuntimeError ''invalid operation transition''), db)
        else (Inr (), add_operation_event
          \<lparr>oev_id = oe_ids env slot, oev_operation_id = i,
           oev_from_status = Some (status_value (oper_status operation)),
           oev_to_status = status_value target, oev_safe_message = take 1000 message,
           oev_created_at = oe_now env\<rparr>
          (modify_operation i (\<lambda>o'. o'\<lparr>oper_status := target\<rparr>) db)))"

definition set_operation :: "uuid \<Rightarrow> (portal_operation \<Rightarrow> portal_operation) \<Rightarrow> (portal_db, unit) action" where
  "set_operation i f = effect (modify_operation i f)"

text \<open>The entry for the host's socket that every execution leaves in the audit trail.\<close>

definition execution_audit :: "op_env \<Rightarrow> nat \<Rightarrow> string \<Rightarrow> string \<Rightarrow> uuid \<Rightarrow> string \<Rightarrow> pyval \<Rightarrow> (portal_db, unit) action" where
  "execution_audit env slot event actor i outcome metadata = effect (record_audit (oe_digest env) (oe_ids env slot)
     (oe_now env) \<lparr>ac_event_type = event, ac_actor = actor, ac_actor_role = ''platform_owner'',
       ac_source_ip = ''local-worker-socket'', ac_user_agent = ''h100-portal-api'',
       ac_object_type = ''operation'', ac_object_id = i, ac_result = outcome, ac_metadata = metadata,
       ac_operation_id = Some i\<rparr>)"

definition finish_event :: "op_env \<Rightarrow> nat \<Rightarrow> uuid \<Rightarrow> string \<Rightarrow> (portal_db, unit) action" where
  "finish_event env slot i message db =
     (let db = modify_operation i (\<lambda>o'. o'\<lparr>oper_finished_at := Some (oe_now env)\<rparr>) db;
          status = (case get_operation db i of None \<Rightarrow> [] | Some operation \<Rightarrow> status_value (oper_status operation)) in
      (Inr (), add_operation_event \<lparr>oev_id = oe_ids env slot, oev_operation_id = i, oev_from_status = Some status,
         oev_to_status = status, oev_safe_message = message, oev_created_at = oe_now env\<rparr> db))"

subsection \<open>The two approved writes\<close>

definition PORTAL3C_STAGE_IDEMPOTENCY_KEY :: string where
  "PORTAL3C_STAGE_IDEMPOTENCY_KEY = ''portal3b-r-origin-pilot-stage-v1''"

definition PORTAL3C_STAGE_APPROVAL_REFERENCE :: string where
  "PORTAL3C_STAGE_APPROVAL_REFERENCE = ''portal3b-r-lifecycle-revalidated''"

definition PORTAL3E_FINAL_APPROVAL_REFERENCE :: string where
  "PORTAL3E_FINAL_APPROVAL_REFERENCE = ''portal3e-final-origin-pilot-v1''"

definition PORTAL3E_FINAL_DRY_RUN_OPERATION_ID :: uuid where
  "PORTAL3E_FINAL_DRY_RUN_OPERATION_ID = ''f677d34a-4ef2-45ec-a323-99e4af148c0e''"

definition PORTAL3E_FINAL_IDEMPOTENCY_KEY :: string where
  "PORTAL3E_FINAL_IDEMPOTENCY_KEY = ''portal3e-final-origin-pilot-activate-v1''"

definition PORTAL3E_FINAL_ROLLBACK_IDEMPOTENCY_KEY :: string where
  "PORTAL3E_FINAL_ROLLBACK_IDEMPOTENCY_KEY = ''portal3e-final-origin-pilot-rollback-v1''"

text \<open>The requester and approver must be the one platform owner \<open>origin-al\<close>. \<open>approval_text\<close> is the
Chinese sentence the approval must quote.\<close>

definition pinned_operation :: "string \<Rightarrow> string \<Rightarrow> portal_operation \<Rightarrow> portal_user option \<Rightarrow> portal_user option \<Rightarrow> bool" where
  "pinned_operation kind key operation requester approver \<longleftrightarrow>
     oper_operation_type operation = kind \<and> oper_target_type operation = ''compute_identity'' \<and>
     oper_target_id operation = ''origin-pilot'' \<and> oper_idempotency_key operation = key \<and>
     (case (requester, approver) of
        (Some r, Some a) \<Rightarrow> user_id r = user_id a \<and> user_normalized_login r = ''origin-al'' \<and>
          user_normalized_login a = ''origin-al'' \<and> user_account_state r = AS_ACTIVE \<and>
          ''platform_owner'' \<in> set (map role_name (user_roles r))
      | _ \<Rightarrow> False)"

definition is_portal3c_real_stage ::
    "pydantic \<Rightarrow> portal_operation \<Rightarrow> portal_user option \<Rightarrow> portal_user option \<Rightarrow> bool" where
  "is_portal3c_real_stage pyd operation requester approver \<longleftrightarrow>
     pinned_operation ''user.stage'' PORTAL3C_STAGE_IDEMPOTENCY_KEY operation requester approver \<and>
     (case validate_operation_payload pyd ''user.stage'' (oper_validated_payload operation) of Inl _ \<Rightarrow> False
      | Inr validated \<Rightarrow> py_eq validated (oper_validated_payload operation) \<and>
          has_eq validated ''approval_reference'' (PStr PORTAL3C_STAGE_APPROVAL_REFERENCE))"

definition final_activate_payload :: pyval where
  "final_activate_payload = PDict [(''managed_user_id'', PStr PORTAL3E_FINAL_MANAGED_USER_ID),
     (''approved_ssh_key_record_ids'', PList [PStr PORTAL3E_FINAL_KEY_RECORD_ID]),
     (''expected_state'', PStr ''STAGED''), (''approval_reference'', PStr PORTAL3E_FINAL_APPROVAL_REFERENCE),
     (''dry_run_operation_id'', PStr PORTAL3E_FINAL_DRY_RUN_OPERATION_ID)]"

definition dry_run_payload :: pyval where
  "dry_run_payload = PDict [(''managed_user_id'', PStr PORTAL3E_FINAL_MANAGED_USER_ID),
     (''approved_ssh_key_record_ids'', PList [PStr PORTAL3E_FINAL_KEY_RECORD_ID]),
     (''expected_state'', PStr ''STAGED''), (''approval_reference'', PStr ''portal3e-r-host-ssh-policy-v1'')]"

definition approval_quotes :: "string \<Rightarrow> portal_db \<Rightarrow> uuid \<Rightarrow> uuid \<Rightarrow> bool" where
  "approval_quotes approval_text db i owner =
     (case scalar (\<lambda>a. oapp_operation_id a = i \<and> oapp_approver_id a = owner \<and> oapp_decision a = ''APPROVE'')
         (t_operation_approvals db) of
        None \<Rightarrow> False | Some a \<Rightarrow> oapp_safe_comment a = Some approval_text)"

definition reference_dry_run_ok :: "portal_db \<Rightarrow> uuid \<Rightarrow> bool" where
  "reference_dry_run_ok db owner =
     (case get_operation db PORTAL3E_FINAL_DRY_RUN_OPERATION_ID of None \<Rightarrow> False
      | Some dry_run \<Rightarrow>
          oper_operation_type dry_run = ''user.activate'' \<and> oper_target_type dry_run = ''compute_identity'' \<and>
          oper_target_id dry_run = ''origin-pilot'' \<and> oper_requested_by dry_run = owner \<and>
          oper_status dry_run = OP_DRAFT \<and> oper_approved_by dry_run = None \<and>
          py_eq (oper_validated_payload dry_run) dry_run_payload \<and>
          is_dict (oper_dry_run_result dry_run) \<and>
          all_eq (oper_dry_run_result dry_run)
            [(''status'', PStr ''DRY_RUN''), (''activate_status'', PStr ''READY'')] \<and>
          has_flag (oper_dry_run_result dry_run) ''execution_enabled'' False)"

definition is_portal3e_final_real_activate ::
    "pydantic \<Rightarrow> string \<Rightarrow> portal_db \<Rightarrow> portal_operation \<Rightarrow> portal_user option \<Rightarrow> portal_user option \<Rightarrow> bool" where
  "is_portal3e_final_real_activate pyd approval_text db operation requester approver \<longleftrightarrow>
     pinned_operation ''user.activate'' PORTAL3E_FINAL_IDEMPOTENCY_KEY operation requester approver \<and>
     user_unix_username (the requester) = Some ''origin-al'' \<and>
     (case validate_operation_payload pyd ''user.activate'' (oper_validated_payload operation) of Inl _ \<Rightarrow> False
      | Inr validated \<Rightarrow> py_eq validated final_activate_payload \<and>
          py_eq (oper_validated_payload operation) final_activate_payload) \<and>
     approval_quotes approval_text db (oper_id operation) (user_id (the requester)) \<and>
     reference_dry_run_ok db (user_id (the requester))"

subsection \<open>Persisting the real Stage\<close>

text \<open>The rows of a batch of audit entries by the worker, in the order of the loop.\<close>

fun worker_entries :: "op_env \<Rightarrow> nat \<Rightarrow> uuid \<Rightarrow> (string \<times> string \<times> pyval) list \<Rightarrow> portal_db \<Rightarrow> portal_db" where
  "worker_entries env slot i [] db = db"
| "worker_entries env slot i ((event, object, metadata) # entries) db =
     worker_entries env (Suc slot) i entries (record_audit (oe_digest env) (oe_ids env slot) (oe_now env)
       \<lparr>ac_event_type = event, ac_actor = ''h100-portal-worker'', ac_actor_role = ''root_worker'',
        ac_source_ip = ''local-worker-socket'', ac_user_agent = ''h100-portal-api'', ac_object_type = object,
        ac_object_id = ''origin-pilot'', ac_result = ''SUCCESS'', ac_metadata = metadata,
        ac_operation_id = Some i\<rparr> db)"

definition stage_identity_ok :: "pyval \<Rightarrow> bool" where
  "stage_identity_ok stage \<longleftrightarrow> all_eq stage
     [(''username'', PStr ''origin-pilot''), (''uid'', PInt 20001), (''gid'', PInt 20001),
      (''shell'', PStr ''/usr/sbin/nologin''), (''password'', PStr ''LOCKED''),
      (''host_access'', PStr ''DISABLED''), (''onboarding_state'', PStr ''STAGED''),
      (''ssh_key_state'', PStr ''REQUIRED_BEFORE_ACTIVATION'')]"

definition stage_resources_ok :: "pyval \<Rightarrow> bool" where
  "stage_resources_ok stage \<longleftrightarrow> list_all (\<lambda>(k, expected). all_eq (dget stage k) expected)
     [(''gpu_policy'', [(''unit'', PStr ''user-20001.slice''), (''device_policy'', PStr ''closed''),
         (''device_allow'', PList []), (''open_probe'', PStr ''DENIED''), (''cuda_context_probe'', PStr ''DENIED'')]),
      (''quota'', [(''project_id'', PInt 30001), (''hard_limit_gb'', PInt 300)]),
      (''slurm'', [(''account'', PStr ''company''), (''qos'', PStr ''general''), (''max_gpus'', PInt 1),
         (''node_state'', PStr ''DRAIN''), (''queue'', PStr ''EMPTY'')]),
      (''container'', [(''name'', PStr ''gpu-dev-origin-pilot''), (''state'', PStr ''STOPPED''),
         (''gpu'', PStr ''NONE''), (''cpus'', PInt 8), (''memory_gb'', PInt 32), (''pids_limit'', PInt 4096),
         (''ssh_port'', PInt 22023)]),
      (''guard'', [(''timer'', PStr ''ENABLED_ACTIVE''), (''status'', PStr ''PASSING'')])]"

definition stage_refusal :: "portal_user \<Rightarrow> pyval \<Rightarrow> exn option" where
  "stage_refusal owner worker_result =
     (let stage = dget worker_result ''stage'';
          img = py_str (dget_or (dget stage ''container'') ''image_digest'' (PStr [])) in refuse_if
       [(\<not> is_dict stage, RuntimeError ''Worker Stage response has no structured postcondition record''),
        (\<not> stage_identity_ok stage, RuntimeError ''Worker Stage identity result differs from approval''),
        (\<not> has_eq stage ''authorized_keys'' (PStr ''ABSENT''),
         RuntimeError ''Worker did not prove authorized_keys absence''),
        (\<not> list_all (\<lambda>k. is_dict (dget stage k)) [''gpu_policy'', ''quota'', ''slurm'', ''container'', ''guard''],
         RuntimeError ''Worker Stage resource result is incomplete''),
        (\<not> stage_resources_ok stage, RuntimeError ''Worker Stage resource result differs from approval''),
        (\<not> starts_with img ''sha256:'' \<or> 255 < length img,
         RuntimeError ''Worker did not return a fixed container image digest''),
        (user_unix_username owner \<noteq> Some ''origin-al'',
         RuntimeError ''Origin-al management mapping changed before Stage persistence'')])"

definition new_pilot :: "op_env \<Rightarrow> uuid \<Rightarrow> uuid \<Rightarrow> portal_managed_user" where
  "new_pilot env new_id owner_id = \<lparr>mu_id = new_id, mu_portal_user_id = owner_id,
     mu_unix_username = ''origin-pilot'', mu_uid = 20001, mu_gid = 20001, mu_shell = ''/usr/sbin/nologin'',
     mu_host_access_state = ''DISABLED'', mu_compute_environment_state = ''ACTIVE'',
     mu_host_access_revoked_at = None, mu_gpu_isolation_state = ''VERIFIED'',
     mu_slurm_account = Some ''company'', mu_slurm_qos = Some ''general'', mu_project_id = Some 30001,
     mu_quota_bytes = Some (300 * 1024 ^ 3), mu_lease_renewal_approval_required = True,
     mu_container_name = Some ''gpu-dev-origin-pilot'', mu_container_port = Some 22023,
     mu_onboarding_state = OB_STAGED, mu_ssh_key_state = ''REQUIRED_BEFORE_ACTIVATION'',
     mu_ssh_key_count = 0, mu_staged_at = Some (oe_now env), mu_compute_activated_at = None,
     mu_created_at = oe_now env, mu_updated_at = oe_now env\<rparr>"

definition restage :: "op_env \<Rightarrow> portal_managed_user \<Rightarrow> portal_managed_user" where
  "restage env m = m\<lparr>mu_shell := ''/usr/sbin/nologin'', mu_host_access_state := ''DISABLED'',
     mu_gpu_isolation_state := ''VERIFIED'', mu_slurm_account := Some ''company'',
     mu_slurm_qos := Some ''general'', mu_quota_bytes := Some (300 * 1024 ^ 3),
     mu_onboarding_state := OB_STAGED, mu_ssh_key_state := ''REQUIRED_BEFORE_ACTIVATION'',
     mu_ssh_key_count := 0, mu_compute_activated_at := None,
     mu_staged_at := (case mu_staged_at m of None \<Rightarrow> Some (oe_now env) | Some t \<Rightarrow> Some t),
     mu_updated_at := oe_now env\<rparr>"

definition pilot_identity :: "portal_managed_user \<Rightarrow> bool" where
  "pilot_identity m \<longleftrightarrow> mu_unix_username m = ''origin-pilot'' \<and> mu_uid m = 20001 \<and> mu_gid m = 20001 \<and>
     mu_project_id m = Some 30001 \<and> mu_container_name m = Some ''gpu-dev-origin-pilot'' \<and>
     mu_container_port m = Some 22023"

text \<open>The UNIQUE columns of a new managed user, which the flush checks.\<close>

definition managed_unique :: "portal_managed_user \<Rightarrow> portal_db \<Rightarrow> bool" where
  "managed_unique m db \<longleftrightarrow> list_all (\<lambda>x. mu_portal_user_id x \<noteq> mu_portal_user_id m \<and>
     mu_unix_username x \<noteq> mu_unix_username m \<and> mu_uid x \<noteq> mu_uid m \<and> mu_gid x \<noteq> mu_gid m \<and>
     (mu_project_id m = None \<or> mu_project_id x \<noteq> mu_project_id m) \<and>
     (mu_container_name m = None \<or> mu_container_name x \<noteq> mu_container_name m) \<and>
     (mu_container_port m = None \<or> mu_container_port x \<noteq> mu_container_port m)) (t_managed_users db)"

definition staged_managed :: "op_env \<Rightarrow> nat \<Rightarrow> uuid \<Rightarrow> (portal_db, portal_managed_user) action" where
  "staged_managed env slot owner_id db =
     (case scalar (\<lambda>m. mu_portal_user_id m = owner_id) (t_managed_users db) of
        None \<Rightarrow> (let m = new_pilot env (oe_ids env slot) owner_id in
          if \<not> managed_unique m db then (Inl (IntegrityError ''portal_managed_users''), db)
          else (Inr m, add_managed m db))
      | Some m \<Rightarrow>
          if \<not> pilot_identity m
          then (Inl (RuntimeError ''existing managed identity conflicts with Portal-3C approval''), db)
          else (Inr (restage env m), modify_managed (mu_id m) (restage env) db))"

definition stage_spec :: pyval where
  "stage_spec = PDict [(''cpus'', PInt 8), (''memory_gb'', PInt 32), (''pids_limit'', PInt 4096),
     (''gpu'', PStr ''NONE''), (''privileged'', PBool False), (''host_network'', PBool False),
     (''host_pid'', PBool False), (''host_ipc'', PBool False), (''docker_socket'', PBool False),
     (''password_authentication'', PBool False), (''root_login'', PBool False),
     (''authorized_keys'', PStr ''ABSENT''), (''guard'', PStr ''PASSING''),
     (''gpu_open_probe'', PStr ''DENIED''), (''cuda_context_probe'', PStr ''DENIED''), (''max_gpus'', PInt 1)]"

definition staged_container :: "op_env \<Rightarrow> nat \<Rightarrow> string \<Rightarrow> uuid \<Rightarrow> (portal_db, unit) action" where
  "staged_container env slot img managed_id db =
     (let port_taken = (\<lambda>own. list_ex (\<lambda>c. cont_ssh_port c = Some 22023 \<and> Some (cont_id c) \<noteq> own) (t_containers db)) in
      case scalar (\<lambda>c. cont_name c = ''gpu-dev-origin-pilot'') (t_containers db) of
        None \<Rightarrow>
          if port_taken None then (Inl (IntegrityError ''portal_containers.ssh_port''), db)
          else (Inr (), add_container \<lparr>cont_id = oe_ids env slot, cont_managed_user_id = managed_id,
            cont_owner_managed_user_id = managed_id, cont_name = ''gpu-dev-origin-pilot'',
            cont_image_digest = img, cont_ssh_port = Some 22023, cont_desired_state = ''STOPPED'',
            cont_observed_state = ''STOPPED'', cont_development_profile = ''STANDARD_8CPU_32GB'',
            cont_gpu_count = 0, cont_gpu_allocation_job_id = None, cont_gpu_allocation_uuid = None,
            cont_safe_spec = stage_spec, cont_created_at = oe_now env, cont_last_rebuilt_at = None\<rparr> db)
      | Some c \<Rightarrow>
          if cont_managed_user_id c \<noteq> managed_id
          then (Inl (RuntimeError ''existing container record belongs to another identity''), db)
          else if port_taken (Some (cont_id c)) then (Inl (IntegrityError ''portal_containers.ssh_port''), db)
          else (Inr (), modify_container (cont_id c) (\<lambda>c. c\<lparr>cont_managed_user_id := managed_id,
            cont_owner_managed_user_id := managed_id, cont_image_digest := img, cont_ssh_port := Some 22023,
            cont_desired_state := ''STOPPED'', cont_observed_state := ''STOPPED'',
            cont_safe_spec := stage_spec\<rparr>) db))"

definition stage_entries :: "(string \<times> string \<times> pyval) list" where
  "stage_entries =
     [(''user.stage.linux'', ''managed_user'', PDict [(''uid'', PInt 20001), (''gid'', PInt 20001), (''shell'', PStr ''nologin'')]),
      (''user.stage.gpu_policy'', ''gpu_policy'', PDict [(''unit'', PStr ''user-20001.slice''), (''verified'', PBool True)]),
      (''user.stage.gpu_self_test'', ''gpu_policy'', PDict [(''open'', PStr ''DENIED''), (''cuda'', PStr ''DENIED'')]),
      (''user.stage.quota'', ''xfs_project'', PDict [(''project_id'', PInt 30001), (''hard_limit_gb'', PInt 300)]),
      (''user.stage.slurm'', ''slurm_association'',
        PDict [(''account'', PStr ''company''), (''qos'', PStr ''general''), (''max_gpus'', PInt 1)]),
      (''user.stage.container'', ''container'',
        PDict [(''name'', PStr ''gpu-dev-origin-pilot''), (''state'', PStr ''STOPPED''), (''gpu'', PStr ''NONE'')]),
      (''user.stage.guard'', ''gpu_guard'', PDict [(''timer'', PStr ''ENABLED''), (''status'', PStr ''PASSING'')]),
      (''user.stage.completed'', ''managed_user'',
        PDict [(''state'', PStr ''STAGED''), (''ssh_key_state'', PStr ''REQUIRED_BEFORE_ACTIVATION'')])]"

text \<open>Slots 20 to 29 of the supply of identifiers.\<close>

definition persist_portal3c_staged_identity ::
    "op_env \<Rightarrow> portal_user \<Rightarrow> uuid \<Rightarrow> pyval \<Rightarrow> (portal_db, unit) action" where
  "persist_portal3c_staged_identity env owner i worker_result db =
     (case stage_refusal owner worker_result of Some e \<Rightarrow> (Inl e, db)
      | None \<Rightarrow>
        let img = py_str (dget_or (dget (dget worker_result ''stage'') ''container'') ''image_digest'' (PStr [])) in
        (case staged_managed env 20 (user_id owner) db of (Inl e, db1) \<Rightarrow> (Inl e, db1)
         | (Inr m, db1) \<Rightarrow> run_actions
             [staged_container env 21 img (mu_id m),
              effect (modify_user (user_id owner) (\<lambda>u. u\<lparr>user_resource_onboarding_state := OB_STAGED\<rparr>)),
              effect (worker_entries env 22 i stage_entries)] db1))"

subsection \<open>Persisting the real Activate\<close>

definition active_pilot_unchanged :: "portal_user \<Rightarrow> portal_managed_user \<Rightarrow> bool" where
  "active_pilot_unchanged owner m \<longleftrightarrow>
     mu_portal_user_id m = user_id owner \<and> mu_unix_username m = ''origin-pilot'' \<and> mu_uid m = 20001 \<and>
     mu_gid m = 20001 \<and> mu_shell m = ''/usr/sbin/nologin'' \<and> mu_onboarding_state m = OB_STAGED \<and>
     mu_ssh_key_state m \<in> set [''REQUIRED_BEFORE_ACTIVATION'', ''VALIDATED''] \<and> mu_project_id m = Some 30001 \<and>
     mu_quota_bytes m = Some (300 * 1024 ^ 3) \<and> mu_slurm_account m = Some ''company'' \<and>
     mu_slurm_qos m = Some ''general'' \<and> mu_container_name m = Some ''gpu-dev-origin-pilot'' \<and>
     mu_container_port m = Some 22023 \<and> user_unix_username owner = Some ''origin-al''"

definition approved_key_unchanged :: "portal_ssh_key list \<Rightarrow> bool" where
  "approved_key_unchanged records \<longleftrightarrow> (case records of
     [r] \<Rightarrow> key_id r = PORTAL3E_FINAL_KEY_RECORD_ID \<and>
       key_fingerprint_sha256 r = PORTAL3E_FINAL_KEY_FINGERPRINT \<and>
       key_key_type r = ''ssh-ed25519'' \<and> key_scope r = ''BOTH''
   | _ \<Rightarrow> False)"

definition activated_pilot :: "op_env \<Rightarrow> int \<Rightarrow> portal_managed_user \<Rightarrow> portal_managed_user" where
  "activated_pilot env keys m = m\<lparr>mu_shell := ''/bin/bash'', mu_host_access_state := ''ENABLED'',
     mu_gpu_isolation_state := ''VERIFIED'', mu_onboarding_state := OB_ACTIVE,
     mu_ssh_key_state := ''INSTALLED'', mu_ssh_key_count := keys,
     mu_compute_activated_at := Some (oe_now env), mu_updated_at := oe_now env\<rparr>"

definition active_spec :: "portal_ssh_key list \<Rightarrow> pyval \<Rightarrow> pyval" where
  "active_spec records activate = PDict [(''cpus'', PInt 8), (''memory_gb'', PInt 32), (''pids_limit'', PInt 4096),
     (''gpu'', PStr ''NONE''), (''privileged'', PBool False), (''host_network'', PBool False),
     (''host_pid'', PBool False), (''host_ipc'', PBool False), (''docker_socket'', PBool False),
     (''munge'', PBool False), (''password_authentication'', PBool False),
     (''keyboard_interactive_authentication'', PBool False), (''pubkey_authentication'', PBool True),
     (''authentication_methods'', PStr ''publickey''), (''root_login'', PBool False),
     (''authorized_keys'', PStr ''INSTALLED''), (''host_authorized_keys'', PStr ''INSTALLED''),
     (''container_authorized_keys'', PStr ''INSTALLED''),
     (''user_key_fingerprints'', PList (map (PStr \<circ> key_fingerprint_sha256) records)),
     (''host_server_fingerprint'', PStr (py_str (dget activate ''host_server_fingerprint''))),
     (''container_server_fingerprint'', PStr (py_str (dget activate ''container_server_fingerprint''))),
     (''approved_host'', PStr PORTAL3E_FINAL_PUBLIC_ACCESS_HOST), (''host_ssh_port'', PInt 22),
     (''container_ssh_port'', PInt 22023),
     (''container_ssh_bind'', PStr (PORTAL3E_FINAL_PUBLIC_ACCESS_HOST @ '':22023'')),
     (''host_ssh_server'', PStr ''READY_FOR_CLIENT_VALIDATION''),
     (''container_ssh_server'', PStr ''READY_FOR_CLIENT_VALIDATION''),
     (''host_ssh_client_validation'', PStr ''PENDING''), (''container_ssh_client_validation'', PStr ''PENDING''),
     (''host_ssh_policy'', dget activate ''host_ssh_policy''),
     (''container_ssh_policy'', dget activate ''container_ssh_policy''),
     (''guard'', PStr ''PASSING''), (''gpu_open_probe'', PStr ''DENIED''), (''cuda_context_probe'', PStr ''DENIED''),
     (''max_gpus'', PInt 1), (''slurm_node_state'', PStr ''DRAIN''), (''slurm_queue'', PStr ''EMPTY''),
     (''gpu_scheduling_available'', PBool False)]"

definition activate_entries :: "portal_ssh_key \<Rightarrow> pyval \<Rightarrow> (string \<times> string \<times> pyval) list" where
  "activate_entries record activate =
     (let install = PDict [(''key_record_id'', PStr (key_id record)),
            (''fingerprint'', PStr (key_fingerprint_sha256 record)), (''status'', PStr ''PASS'')];
          ready = (\<lambda>k. PDict [(''status'', PStr ''READY_FOR_CLIENT_VALIDATION''),
            (''fingerprint'', PStr (py_str (dget activate k)))]) in
      [(''user.activate.approval'', ''operation'', PDict [(''actor'', PStr ''Origin-al''),
          (''dry_run_operation_id'', PStr PORTAL3E_FINAL_DRY_RUN_OPERATION_ID)]),
       (''user.activate.host_key_install'', ''ssh_key'', install),
       (''user.activate.container_key_install'', ''ssh_key'', install),
       (''user.activate.shell'', ''managed_user'', PDict [(''from'', PStr ''nologin''), (''to'', PStr ''/bin/bash'')]),
       (''user.activate.container_start'', ''container'', PDict [(''state'', PStr ''RUNNING''), (''gpu'', PStr ''NONE''),
          (''bind'', PStr ''20.10.10.3:22023'')]),
       (''user.activate.host_ssh_server'', ''ssh_server'', ready ''host_server_fingerprint''),
       (''user.activate.container_ssh_server'', ''ssh_server'', ready ''container_server_fingerprint''),
       (''user.activate.completed'', ''managed_user'', PDict [(''state'', PStr ''ACTIVE''),
          (''client_validation'', PStr ''PENDING''), (''slurm_node'', PStr ''DRAIN'')])])"

definition persist_portal3e_activated_identity ::
    "op_env \<Rightarrow> portal_user \<Rightarrow> portal_operation \<Rightarrow> pyval \<Rightarrow> (portal_db, unit) action" where
  "persist_portal3e_activated_identity env owner operation worker_result db =
     (case validate_activate_database_bindings db (user_id owner) ''origin-pilot'' (oper_validated_payload operation) of
        Inl e \<Rightarrow> (Inl e, db)
      | Inr records \<Rightarrow>
        (case validate_activate_execution_result records worker_result of Inl e \<Rightarrow> (Inl e, db)
         | Inr activate \<Rightarrow>
           (case get_managed db PORTAL3E_FINAL_MANAGED_USER_ID of
              None \<Rightarrow> (Inl (RuntimeError ''Portal managed identity changed before Activate persistence''), db)
            | Some m \<Rightarrow>
              if \<not> active_pilot_unchanged owner m
              then (Inl (RuntimeError ''Portal managed identity changed before Activate persistence''), db)
              else case scalar (\<lambda>c. cont_managed_user_id c = mu_id m \<and> cont_name c = ''gpu-dev-origin-pilot'')
                  (t_containers db) of
                None \<Rightarrow> (Inl (RuntimeError ''Portal container binding changed before Activate persistence''), db)
              | Some c \<Rightarrow>
                if cont_ssh_port c \<noteq> Some 22023
                then (Inl (RuntimeError ''Portal container binding changed before Activate persistence''), db)
                else if \<not> approved_key_unchanged records
                then (Inl (RuntimeError ''Portal approved SSH key changed before Activate persistence''), db)
                else (Inr (), worker_entries env 22 (oper_id operation) (activate_entries (hd records) activate)
                  (modify_container (cont_id c) (\<lambda>c. c\<lparr>cont_desired_state := ''RUNNING'',
                      cont_observed_state := ''RUNNING'', cont_safe_spec := active_spec records activate\<rparr>)
                  (modify_user (user_id owner) (\<lambda>u. u\<lparr>user_resource_onboarding_state := OB_ACTIVE\<rparr>)
                  (modify_managed (mu_id m) (activated_pilot env (int (length records)))
                  (fold (\<lambda>r. modify_ssh_key (key_id r) (\<lambda>k. k\<lparr>key_state := ''INSTALLED'',
                      key_installed_at := Some (oe_now env)\<rparr>)) records db))))))))"

subsection \<open>The real Activate and its compensation\<close>

definition activate_request :: "portal_operation \<Rightarrow> portal_user \<Rightarrow> portal_user \<Rightarrow> operation_call" where
  "activate_request operation requester approver = \<lparr>wr_operation_type = ''user.activate'',
     wr_payload = oper_validated_payload operation, wr_requested_by = user_normalized_login requester,
     wr_approved_by = Some (user_normalized_login approver),
     wr_idempotency_key = oper_idempotency_key operation, wr_dry_run = False, wr_timeout_seconds = 360\<rparr>"

definition rollback_request :: operation_call where
  "rollback_request = \<lparr>wr_operation_type = ''user.activate.rollback'', wr_payload = final_activate_payload,
     wr_requested_by = ''origin-al'', wr_approved_by = Some ''origin-al'',
     wr_idempotency_key = PORTAL3E_FINAL_ROLLBACK_IDEMPOTENCY_KEY, wr_dry_run = False, wr_timeout_seconds = 240\<rparr>"

definition attempt_portal3e_activate_rollback :: "op_worker \<Rightarrow> pyval" where
  "attempt_portal3e_activate_rollback worker = (case worker rollback_request of Inr result \<Rightarrow> result
     | Inl code \<Rightarrow> PDict [(''status'', PStr ''ERROR''),
         (''error'', PDict [(''code'', PStr code), (''message'', PStr ''controlled Activate rollback unavailable'')]),
         (''rollback_status'', PStr ''REQUIRES_MANUAL_REVIEW'')])"

definition rolled_back :: "pyval \<Rightarrow> bool" where
  "rolled_back rollback \<longleftrightarrow> all_eq rollback [(''status'', PStr ''SUCCEEDED''), (''rollback_status'', PStr ''ROLLED_BACK'')]"

text \<open>Steps 3 and 4 of the identifiers are the transitions out of RUNNING, 6 the audit entry, 7 the event.\<close>

definition leave_running :: "op_env \<Rightarrow> uuid \<Rightarrow> bool \<Rightarrow> string \<Rightarrow> string \<Rightarrow> string \<Rightarrow> (portal_db, unit) action" where
  "leave_running env i back started verified failed = run_actions
     (if back then [transition env 3 i OP_ROLLING_BACK started, transition env 4 i OP_ROLLED_BACK verified]
      else [transition env 3 i OP_FAILED failed])"

definition compensate :: "op_env \<Rightarrow> op_worker \<Rightarrow> uuid \<Rightarrow> string \<Rightarrow> string \<Rightarrow> string \<Rightarrow> string \<times> string \<times> string \<Rightarrow>
    string \<times> string \<Rightarrow> (string \<times> pyval) list \<Rightarrow> (portal_db, unit) action" where
  "compensate env worker i actor event code messages summaries metadata =
     (let back = rolled_back (attempt_portal3e_activate_rollback worker);
          rollback = (if back then ''ROLLED_BACK'' else ''REQUIRES_MANUAL_REVIEW'') in run_actions
      [leave_running env i back (fst messages) (fst (snd messages)) (snd (snd messages)),
       set_operation i (\<lambda>o'. o'\<lparr>oper_rollback_status := Some rollback, oper_error_code := Some (take 64 code),
         oper_result_summary := Some (if back then fst summaries else snd summaries)\<rparr>),
       execution_audit env 6 event actor i ''FAILED'' (PDict (metadata @ [(''rollback'', PStr rollback)])),
       finish_event env 7 i ''Portal-3E-FINAL Worker execution recorded''])"

definition worker_unavailable :: "op_env \<Rightarrow> op_worker \<Rightarrow> uuid \<Rightarrow> string \<Rightarrow> string \<Rightarrow> (portal_db, unit) action" where
  "worker_unavailable env worker i actor code = compensate env worker i actor
     ''user.activate.worker_unavailable'' code
     (''Worker recovery started'', ''Worker recovery verified'', ''Worker unavailable during Activate'')
     (''Activate worker failed; rollback verified'', ''Activate worker failed; manual review'')
     [(''error_code'', PStr (take 64 code))]"

fun exn_text :: "exn \<Rightarrow> string" where
  "exn_text (RuntimeError s) = s"
| "exn_text (ValueError s) = s"
| "exn_text (OperationPayloadError s) = s"
| "exn_text (IntegrityError s) = ''database integrity constraint rejected Portal Activate state''"
| "exn_text e = []"

definition activate_rejected :: "op_env \<Rightarrow> uuid \<Rightarrow> string \<Rightarrow> pyval \<Rightarrow> (portal_db, unit) action" where
  "activate_rejected env i actor answer =
     (let status = take 32 (py_str (dget_or answer ''rollback_status'' (PStr [])));
          error = dget_or answer ''error'' (PDict []);
          code = take 64 (if is_dict error then py_str (dget_or error ''code'' (PStr ''ACTIVATE_WORKER_FAILED''))
            else ''ACTIVATE_WORKER_FAILED'');
          back = (status = ''ROLLED_BACK'') in run_actions
      [leave_running env i back ''Worker rollback recorded'' ''Worker rollback verified'' ''Worker rejected Activate'',
       set_operation i (\<lambda>o'. o'\<lparr>oper_rollback_status := (if status = [] then None else Some status),
         oper_error_code := Some code,
         oper_result_summary := Some (if back then ''Activate failed and STAGED was restored''
           else ''Activate failed before the write or during recovery''),
         oper_worker_execution_id := Some (take 64 (py_str (dget_or answer ''request_id'' (PStr ''worker''))))\<rparr>),
       execution_audit env 6 ''user.activate.failed'' actor i ''FAILED''
         (PDict [(''error_code'', PStr code), (''rollback'', PStr (if status = [] then ''NONE'' else status))]),
       finish_event env 7 i ''Portal-3E-FINAL Worker execution recorded''])"

definition activate_succeeded :: "op_env \<Rightarrow> portal_user \<Rightarrow> portal_operation \<Rightarrow> string \<Rightarrow> pyval \<Rightarrow> (portal_db, unit) action" where
  "activate_succeeded env requester operation actor answer =
     (let i = oper_id operation in run_actions
      [persist_portal3e_activated_identity env requester operation answer,
       set_operation i (\<lambda>o'. o'\<lparr>oper_dry_run_result := PDict (dict_update
         (dict_items (oper_dry_run_result o'))
         [(''referenced_dry_run_operation_id'', PStr PORTAL3E_FINAL_DRY_RUN_OPERATION_ID),
          (''execution_result'', safe_metadata answer []), (''activate_status'', PStr ''ACTIVE''),
          (''execution_enabled'', PBool True)])\<rparr>),
       transition env 3 i OP_SUCCEEDED ''origin-pilot Activate verified'',
       set_operation i (\<lambda>o'. o'\<lparr>oper_result_summary := Some ''origin-pilot is ACTIVE; keys installed'',
         oper_worker_execution_id := Some (take 64 (py_str (dget_or answer ''request_id'' (PStr ''worker'')))),
         oper_rollback_status := Some ''NOT_REQUIRED''\<rparr>),
       execution_audit env 6 ''worker.execute'' actor i ''SUCCESS''
         (PDict [(''operation_type'', PStr ''user.activate''),
           (''execution_mode'', PStr ''portal3e-final-real-activate''),
           (''client_validation'', PStr ''PENDING''), (''slurm_node'', PStr ''DRAIN'')]),
       finish_event env 7 i ''Portal-3E-FINAL Worker execution recorded''])"

text \<open>
  The detail of the audit entry is the text of the exception; of an \<open>OperationPayloadError\<close> the model
  keeps its code.

  The answer that cannot be persisted is compensated: the database is the one committed before the
  worker was called, where the operation is RUNNING.
\<close>

definition activate_unpersisted :: "op_env \<Rightarrow> op_worker \<Rightarrow> uuid \<Rightarrow> string \<Rightarrow> exn \<Rightarrow> (portal_db, unit) action" where
  "activate_unpersisted env worker i actor e = compensate env worker i actor
     ''portal.activate_persist_failed'' ''PORTAL_ACTIVATE_STATE_REJECTED''
     (''Portal persistence rollback'', ''Host rollback verified'', ''Portal persistence rejected'')
     (''Portal ACTIVE not persisted; host restored'', ''Portal ACTIVE not persisted; manual review'')
     [(''detail'', PStr (take 255 (exn_text e)))]"

definition execute_portal3e_final_activate :: "op_env \<Rightarrow> op_worker \<Rightarrow> portal_operation \<Rightarrow> portal_user \<Rightarrow>
    portal_user \<Rightarrow> string \<Rightarrow> portal_db \<Rightarrow> unit result \<times> operation_call list \<times> portal_db" where
  "execute_portal3e_final_activate env worker operation requester approver actor db =
     (let i = oper_id operation; request = activate_request operation requester approver in
      case run_actions [transition env 2 i OP_RUNNING ''Controlled Worker Activate started'',
          set_operation i (\<lambda>o'. o'\<lparr>oper_started_at := Some (oe_now env)\<rparr>)] db of
        (Inl e, _) \<Rightarrow> (Inl e, [], db)
      | (Inr _, running) \<Rightarrow>
        (case worker request of
           Inl code \<Rightarrow> (let (r, db') = worker_unavailable env worker i actor code running in
             (r, [request, rollback_request], db'))
         | Inr answer \<Rightarrow>
             if \<not> has_eq answer ''status'' (PStr ''SUCCEEDED'')
             then (let (r, db') = activate_rejected env i actor answer running in (r, [request], db'))
             else case activate_succeeded env requester operation actor answer running of
               (Inr _, db') \<Rightarrow> (Inr (), [request], db')
             | (Inl e, _) \<Rightarrow>
                 (let (r, db') = activate_unpersisted env worker i actor e running in
                  (r, [request, rollback_request], db'))))"

subsection \<open>\<open>execute_operation\<close>\<close>

definition final_activate_refused :: "op_env \<Rightarrow> uuid \<Rightarrow> (portal_db, unit) action" where
  "final_activate_refused env i = run_actions
     [transition env 2 i OP_RUNNING ''Activate approval binding check'',
      transition env 3 i OP_FAILED ''Activate approval binding rejected'',
      set_operation i (\<lambda>o'. o'\<lparr>oper_started_at := Some (oe_now env), oper_finished_at := Some (oe_now env),
        oper_error_code := Some ''ACTIVATE_APPROVAL_BINDING_REJECTED'',
        oper_result_summary := Some ''approval or dry-run binding changed; nothing was written''\<rparr>)]"

definition execution_request :: "bool \<Rightarrow> portal_operation \<Rightarrow> portal_user option \<Rightarrow> portal_user option \<Rightarrow> string \<Rightarrow>
    operation_call" where
  "execution_request real_stage operation requester approver actor =
     \<lparr>wr_operation_type = oper_operation_type operation, wr_payload = oper_validated_payload operation,
      wr_requested_by = (case requester of None \<Rightarrow> ''portal'' | Some u \<Rightarrow> user_normalized_login u),
      wr_approved_by = Some (case approver of None \<Rightarrow> actor | Some u \<Rightarrow> user_normalized_login u),
      wr_idempotency_key = oper_idempotency_key operation, wr_dry_run = (\<not> real_stage),
      wr_timeout_seconds = (if real_stage then 1830 else 30)\<rparr>"

definition stage_succeeded :: "op_env \<Rightarrow> portal_user \<Rightarrow> uuid \<Rightarrow> string \<Rightarrow> pyval \<Rightarrow> (portal_db, unit) action" where
  "stage_succeeded env owner i actor answer = run_actions
     [persist_portal3c_staged_identity env owner i answer,
      set_operation i (\<lambda>o'. o'\<lparr>oper_dry_run_result := PDict (dict_update (dict_items (oper_dry_run_result o'))
        [(''execution_result'', safe_metadata answer []), (''stage_status'', PStr ''STAGED''),
         (''execution_enabled'', PBool True)])\<rparr>),
      transition env 3 i OP_SUCCEEDED ''origin-pilot Stage verified'',
      set_operation i (\<lambda>o'. o'\<lparr>oper_result_summary := Some ''origin-pilot is STAGED; not activated'',
        oper_worker_execution_id := Some (take 64 (py_str (dget_or answer ''request_id'' (PStr ''worker''))))\<rparr>),
      execution_audit env 6 ''worker.execute'' actor i ''SUCCESS''
        (PDict [(''operation_type'', PStr ''user.stage''), (''execution_mode'', PStr ''real-stage'')])]"

definition dry_run_succeeded :: "op_env \<Rightarrow> portal_operation \<Rightarrow> string \<Rightarrow> pyval \<Rightarrow> (portal_db, unit) action" where
  "dry_run_succeeded env operation actor answer =
     (let i = oper_id operation in run_actions
      [set_operation i (\<lambda>o'. o'\<lparr>oper_dry_run_result := safe_metadata answer []\<rparr>),
       transition env 3 i OP_SUCCEEDED ''dry-run plan validated'',
       set_operation i (\<lambda>o'. o'\<lparr>oper_result_summary := Some ''dry-run plan passed; nothing was written'',
         oper_worker_execution_id := Some (take 64 (py_str (dget_or answer ''request_id'' (PStr ''dry-run''))))\<rparr>),
       execution_audit env 6 ''worker.execute'' actor i ''DRY_RUN''
         (PDict [(''operation_type'', PStr (oper_operation_type operation))])])"

text \<open>\<open>result.get("error", {}).get(...)\<close> raises \<open>AttributeError\<close> when the error is no dictionary; the
transitions before it are not committed then.\<close>

definition execution_rejected :: "op_env \<Rightarrow> bool \<Rightarrow> portal_operation \<Rightarrow> string \<Rightarrow> pyval \<Rightarrow> (portal_db, unit) action" where
  "execution_rejected env real_stage operation actor answer =
     (let i = oper_id operation;
          status = take 32 (py_str (dget_or answer ''rollback_status'' (PStr [])));
          error = dget_or answer ''error'' (PDict []) in run_actions
      [leave_running env i (real_stage \<and> status = ''ROLLED_BACK'') ''Worker rollback recorded''
         ''Worker rollback completed'' (if real_stage then ''Worker rejected Stage'' else ''Worker rejected dry-run''),
       (\<lambda>db. if is_dict error then (Inr (), db) else (Inl (AttributeError ''get''), db)),
       set_operation i (\<lambda>o'. o'\<lparr>oper_rollback_status := (if status = [] then None else Some status),
         oper_error_code := Some (take 64 (py_str (dget_or error ''code'' (PStr ''WORKER_FAILED'')))),
         oper_result_summary := Some (if real_stage then ''Stage failed; review rollback_status''
           else ''Worker did not write to the host'')\<rparr>),
       execution_audit env 6 (if real_stage then ''worker.stage_failed'' else ''worker.reject'') actor i ''DENIED''
         (PDict [(''operation_type'', PStr (oper_operation_type operation))])])"

definition execution_unavailable :: "op_env \<Rightarrow> bool \<Rightarrow> portal_operation \<Rightarrow> string \<Rightarrow> string \<Rightarrow> (portal_db, unit) action" where
  "execution_unavailable env real_stage operation actor code =
     (let i = oper_id operation in run_actions
      [transition env 3 i OP_FAILED ''Worker unavailable or rejected'',
       set_operation i (\<lambda>o'. o'\<lparr>oper_error_code := Some (take 64 code),
         oper_result_summary := Some (if real_stage then ''Worker connection failed; host state unknown''
           else ''controlled worker unavailable; nothing was written'')\<rparr>),
       execution_audit env 6 ''worker.reject'' actor i ''FAILED''
         (PDict [(''operation_type'', PStr (oper_operation_type operation)), (''error_code'', PStr (take 64 code))])])"

definition stage_unpersisted :: "op_env \<Rightarrow> portal_operation \<Rightarrow> string \<Rightarrow> exn \<Rightarrow> (portal_db, unit) action" where
  "stage_unpersisted env operation actor e =
     (let i = oper_id operation in run_actions
      [transition env 3 i OP_FAILED ''Portal Stage persistence rejected'',
       set_operation i (\<lambda>o'. o'\<lparr>oper_error_code := Some ''PORTAL_STAGE_STATE_REJECTED'',
         oper_rollback_status := Some ''REQUIRES_MANUAL_REVIEW'',
         oper_result_summary := Some ''Portal state not persisted after the worker answered; manual review''\<rparr>),
       execution_audit env 6 ''portal.stage_persist_failed'' actor i ''FAILED''
         (PDict [(''operation_type'', PStr (oper_operation_type operation)),
           (''detail'', PStr (case e of
              IntegrityError _ \<Rightarrow> ''database integrity constraint rejected Portal Stage state''
            | _ \<Rightarrow> take 255 (exn_text e)))])])"

definition execution_outcome :: "op_env \<Rightarrow> bool \<Rightarrow> portal_operation \<Rightarrow> portal_user option \<Rightarrow> string \<Rightarrow>
    string + pyval \<Rightarrow> (portal_db, unit) action" where
  "execution_outcome env real_stage operation requester actor answer running =
     (case answer of
        Inl code \<Rightarrow> execution_unavailable env real_stage operation actor code running
      | Inr result \<Rightarrow>
        (case (if real_stage \<and> has_eq result ''status'' (PStr ''SUCCEEDED'') \<and> requester \<noteq> None
               then stage_succeeded env (the requester) (oper_id operation) actor result running
               else if \<not> real_stage \<and> has_eq result ''status'' (PStr ''DRY_RUN'')
               then dry_run_succeeded env operation actor result running
               else execution_rejected env real_stage operation actor result running) of
           (Inl (RuntimeError m), _) \<Rightarrow> stage_unpersisted env operation actor (RuntimeError m) running
         | (Inl (IntegrityError m), _) \<Rightarrow> stage_unpersisted env operation actor (IntegrityError m) running
         | outcome \<Rightarrow> outcome))"

definition execute_controlled :: "op_env \<Rightarrow> op_worker \<Rightarrow> bool \<Rightarrow> portal_operation \<Rightarrow> portal_user option \<Rightarrow>
    portal_user option \<Rightarrow> string \<Rightarrow> portal_db \<Rightarrow> unit result \<times> operation_call list \<times> portal_db" where
  "execute_controlled env worker real_stage operation requester approver actor db =
     (let i = oper_id operation; request = execution_request real_stage operation requester approver actor in
      case run_actions
          [transition env 2 i OP_RUNNING
             (if real_stage then ''Controlled Worker Stage started'' else ''Worker dry-run started''),
           set_operation i (\<lambda>o'. o'\<lparr>oper_started_at := Some (oe_now env)\<rparr>)] db of
        (Inl e, _) \<Rightarrow> (Inl e, [], db)
      | (Inr _, running) \<Rightarrow>
          (case execution_outcome env real_stage operation requester actor (worker request) running of
             (Inl e, _) \<Rightarrow> (Inl e, [request], running)
           | (Inr _, db') \<Rightarrow>
               (Inr (), [request], snd (finish_event env 7 i ''Worker execution recorded'' db'))))"

definition execute_operation :: "op_env \<Rightarrow> op_worker \<Rightarrow> string \<Rightarrow> uuid \<Rightarrow> string \<Rightarrow> portal_db \<Rightarrow>
    unit result \<times> operation_call list \<times> portal_db" where
  "execute_operation env worker approval_text i actor db =
     (case get_operation db i of None \<Rightarrow> (Inr (), [], db)
      | Some operation \<Rightarrow>
        if oper_status operation \<noteq> OP_QUEUED then (Inr (), [], db)
        else
          let requester = get_user db (oper_requested_by operation);
              approver = (case oper_approved_by operation of None \<Rightarrow> None | Some a \<Rightarrow> get_user db a);
              real_stage = is_portal3c_real_stage (oe_pydantic env) operation requester approver in
          case (is_portal3e_final_real_activate (oe_pydantic env) approval_text db operation requester approver,
                requester, approver) of
            (True, Some r, Some a) \<Rightarrow> execute_portal3e_final_activate env worker operation r a actor db
          | _ \<Rightarrow>
            if oper_operation_type operation = ''user.activate'' \<and>
              oper_idempotency_key operation = PORTAL3E_FINAL_IDEMPOTENCY_KEY
            then (case final_activate_refused env i db of
                (Inl e, _) \<Rightarrow> (Inl e, [], db) | (Inr _, db') \<Rightarrow> (Inr (), [], db'))
            else execute_controlled env worker real_stage operation requester approver actor db)"

end
