(* ===== verification/Auth_Service.thy ===== *)
theory Auth_Service
  imports Rbac Python_Values Workspace_Contract
begin

section \<open>Sessions, bearer credentials and the rate limiter\<close>

text \<open>
  \<open>auth.py\<close>, \<open>delegated_auth.py\<close> and \<open>dependencies.py\<close>: who a request acts for. A request comes
  with a session cookie, with the bearer credential of a delegated test session, or with a CLI
  token; the three loaders return the context the routes work with, and
  \<open>permission_dependency\<close> decides whether that context may use a permission. \<open>digest\<close> is
  SHA-256 of a credential, random credentials are arguments, and the settings are a record. Comparing
  with \<open>compare_digest\<close> is equality; it raises \<open>TypeError\<close> for text outside ASCII, which the model
  leaves out.
\<close>

subsection \<open>Requests, settings and contexts\<close>

record http_request =
  hreq_cookies :: "(string \<times> string) list"
  hreq_headers :: "(string \<times> string) list"
  hreq_client_host :: "string option"
  hreq_path :: string
  hreq_query_params :: "string list"

record auth_settings =
  set_allowed_origins :: "string list"
  set_cookie_name :: string
  set_csrf_cookie_name :: string
  set_session_idle_minutes :: int
  set_session_absolute_hours :: int
  set_reauthentication_minutes :: int

definition default_settings :: auth_settings where
  "default_settings = \<lparr>set_allowed_origins = [''http://127.0.0.1:18080'', ''http://10.10.10.220:18080'',
       ''http://20.10.10.3:18080'', ''http://20.10.10.3'', ''https://20.10.10.3''],
     set_cookie_name = ''h100_session'', set_csrf_cookie_name = ''h100_csrf'',
     set_session_idle_minutes = 30, set_session_absolute_hours = 12,
     set_reauthentication_minutes = 10\<rparr>"

definition header :: "http_request \<Rightarrow> string \<Rightarrow> string option" where
  "header req name = map_of (hreq_headers req) name"

definition cookie :: "http_request \<Rightarrow> string \<Rightarrow> string option" where
  "cookie req name = map_of (hreq_cookies req) name"

record auth_context =
  ctx_user :: portal_user
  ctx_session :: "portal_session option"
  ctx_session_raw :: string
  ctx_actor_user :: "portal_user option"
  ctx_delegation :: "portal_delegated_test_session option"
  ctx_cli_token :: "portal_cli_token option"

definition ctx_actor :: "auth_context \<Rightarrow> portal_user" where
  "ctx_actor c = (case ctx_actor_user c of None \<Rightarrow> ctx_user c | Some u \<Rightarrow> u)"

definition delegated_scopes :: "auth_context \<Rightarrow> string list" where
  "delegated_scopes c = (case ctx_delegation c of None \<Rightarrow> []
     | Some d \<Rightarrow> map py_str (list_items (deleg_scopes d)))"

definition is_delegated :: "auth_context \<Rightarrow> bool" where
  "is_delegated c \<longleftrightarrow> ctx_delegation c \<noteq> None"

definition is_cli_token :: "auth_context \<Rightarrow> bool" where
  "is_cli_token c \<longleftrightarrow> ctx_cli_token c \<noteq> None"

definition auth_required :: exn where
  "auth_required = HTTPException 401 ''AUTH_REQUIRED''"

subsection \<open>The rate limiter\<close>

type_synonym limiter = "(string \<times> instant list) list"

definition limiter_events :: "string \<Rightarrow> limiter \<Rightarrow> instant list" where
  "limiter_events key st = (case map_of st key of None \<Rightarrow> [] | Some es \<Rightarrow> es)"

definition drop_empty_keys :: "limiter \<Rightarrow> limiter" where
  "drop_empty_keys st = filter (\<lambda>(k, es). \<not> (k \<in> set (map fst (take 512 st)) \<and> es = [])) st"

definition limiter_allowed :: "string \<Rightarrow> nat \<Rightarrow> int \<Rightarrow> instant \<Rightarrow> limiter \<Rightarrow> bool \<times> limiter" where
  "limiter_allowed key limit window_seconds now st =
     (let events = dropWhile (\<lambda>t. t \<le> now - seconds window_seconds) (limiter_events key st) in
      if limit \<le> length events then (False, assoc_put st key events)
      else let st = assoc_put st key (events @ [now]) in
        (True, if 4096 < length st then drop_empty_keys st else st))"

subsection \<open>Origins and CSRF\<close>

definition client_ip :: "http_request \<Rightarrow> string" where
  "client_ip req = take 64 (case hreq_client_host req of None \<Rightarrow> ''unknown'' | Some h \<Rightarrow> h)"

definition user_agent :: "http_request \<Rightarrow> string" where
  "user_agent req = take 512 (case header req ''user-agent'' of None \<Rightarrow> ''unknown'' | Some a \<Rightarrow> a)"

definition present :: "string option \<Rightarrow> bool" where
  "present v \<longleftrightarrow> v \<noteq> None \<and> v \<noteq> Some []"

definition ensure_allowed_origin :: "auth_settings \<Rightarrow> http_request \<Rightarrow> unit result" where
  "ensure_allowed_origin settings req =
     (let origin = header req ''origin''; referer = header req ''referer'' in
      if present origin
      then (if the origin \<notin> set (set_allowed_origins settings)
            then Inl (HTTPException 403 ''ORIGIN_REJECTED'') else Inr ())
      else if present referer \<and>
          list_ex (\<lambda>allowed. starts_with (the referer) (allowed @ ''/'')) (set_allowed_origins settings)
      then Inr ()
      else Inl (HTTPException 403 ''ORIGIN_REQUIRED''))"

definition csrf_pair :: "auth_settings \<Rightarrow> http_request \<Rightarrow> string option" where
  "csrf_pair settings req =
     (let c = cookie req (set_csrf_cookie_name settings); h = header req ''x-csrf-token'' in
      if present c \<and> present h \<and> c = h then h else None)"

definition require_preauth_csrf :: "(string \<Rightarrow> bool) \<Rightarrow> auth_settings \<Rightarrow> http_request \<Rightarrow> unit result" where
  "require_preauth_csrf validate settings req =
     (case ensure_allowed_origin settings req of Inl e \<Rightarrow> Inl e
      | Inr _ \<Rightarrow>
        (case csrf_pair settings req of None \<Rightarrow> Inl (HTTPException 403 ''CSRF_REJECTED'')
         | Some token \<Rightarrow> if validate token then Inr () else Inl (HTTPException 403 ''CSRF_REJECTED'')))"

definition require_session_csrf :: "(string \<Rightarrow> string) \<Rightarrow> auth_settings \<Rightarrow> http_request \<Rightarrow> auth_context \<Rightarrow>
    unit result" where
  "require_session_csrf digest settings req context =
     (if is_delegated context \<or> is_cli_token context
      then (if (case header req ''authorization'' of None \<Rightarrow> [] | Some a \<Rightarrow> a) \<noteq> ''Bearer '' @ ctx_session_raw context
            then Inl (HTTPException 403 ''BEARER_CREDENTIAL_REJECTED'') else Inr ())
      else case ensure_allowed_origin settings req of Inl e \<Rightarrow> Inl e
        | Inr _ \<Rightarrow>
          (case csrf_pair settings req of None \<Rightarrow> Inl (HTTPException 403 ''CSRF_REJECTED'')
           | Some token \<Rightarrow>
             (case ctx_session context of None \<Rightarrow> Inl (HTTPException 403 ''CSRF_REJECTED'')
              | Some session \<Rightarrow> if digest token \<noteq> sess_csrf_hash session
                  then Inl (HTTPException 403 ''CSRF_REJECTED'') else Inr ())))"

subsection \<open>Cookie sessions\<close>

definition create_session :: "(string \<Rightarrow> string) \<Rightarrow> auth_settings \<Rightarrow> uuid \<Rightarrow> instant \<Rightarrow> string \<Rightarrow> string \<Rightarrow>
    portal_user \<Rightarrow> http_request \<Rightarrow> portal_db \<Rightarrow> portal_session \<times> portal_db" where
  "create_session digest settings new_id now session_raw csrf_raw user req db =
     (let session = \<lparr>sess_id = new_id, sess_user_id = user_id user,
            sess_owner_managed_user_id = map_option mu_id
              (scalar (\<lambda>m. mu_portal_user_id m = user_id user) (t_managed_users db)),
            sess_session_hash = digest session_raw, sess_csrf_hash = digest csrf_raw,
            sess_source_ip = client_ip req,
            sess_user_agent_digest = digest_user_agent digest (user_agent req),
            sess_created_at = now, sess_last_seen_at = now,
            sess_idle_expires_at = now + seconds (60 * set_session_idle_minutes settings),
            sess_absolute_expires_at = now + seconds (3600 * set_session_absolute_hours settings),
            sess_reauthenticated_at = None, sess_revoked_at = None\<rparr>
      in (session, add_session session db))"

definition revoke_row :: "instant \<Rightarrow> portal_session \<Rightarrow> portal_session" where
  "revoke_row now s = s\<lparr>sess_revoked_at := Some now\<rparr>"

definition seen_row :: "auth_settings \<Rightarrow> instant \<Rightarrow> portal_session \<Rightarrow> portal_session" where
  "seen_row settings now s = s\<lparr>sess_last_seen_at := now,
     sess_idle_expires_at := now + seconds (60 * set_session_idle_minutes settings)\<rparr>"

definition load_context :: "(string \<Rightarrow> string) \<Rightarrow> auth_settings \<Rightarrow> instant \<Rightarrow> http_request \<Rightarrow>
    (portal_db, auth_context) action" where
  "load_context digest settings now req db =
     (case cookie req (set_cookie_name settings) of None \<Rightarrow> (Inl auth_required, db)
      | Some raw \<Rightarrow>
        if raw = [] \<or> 256 < length raw then (Inl auth_required, db)
        else case scalar (\<lambda>s. sess_session_hash s = digest raw \<and> sess_revoked_at s = None) (t_sessions db) of
          None \<Rightarrow> (Inl auth_required, db)
        | Some session \<Rightarrow>
            if sess_idle_expires_at session \<le> now \<or> sess_absolute_expires_at session \<le> now
            then (Inl auth_required, modify_session (sess_id session) (revoke_row now) db)
            else case get_user db (sess_user_id session) of
              None \<Rightarrow> (Inl auth_required, modify_session (sess_id session) (revoke_row now) db)
            | Some user \<Rightarrow>
                if user_account_state user \<noteq> AS_ACTIVE
                then (Inl auth_required, modify_session (sess_id session) (revoke_row now) db)
                else if user_password_state user = PS_RESET_REQUIRED \<and>
                  hreq_path req \<notin> set [''/api/v1/auth/me'', ''/api/v1/auth/password'', ''/api/v1/auth/logout'']
                then (Inl (HTTPException 428 ''PASSWORD_CHANGE_REQUIRED''), db)
                else (Inr \<lparr>ctx_user = user, ctx_session = Some (seen_row settings now session),
                        ctx_session_raw = raw, ctx_actor_user = None, ctx_delegation = None,
                        ctx_cli_token = None\<rparr>,
                      modify_session (sess_id session) (seen_row settings now) db))"

definition require_recent_reauthentication :: "auth_settings \<Rightarrow> instant \<Rightarrow> auth_context \<Rightarrow> unit result" where
  "require_recent_reauthentication settings now context =
     (let denied = Inl (HTTPException 428 ''REAUTH_REQUIRED'') in
      if is_delegated context then denied
      else case ctx_session context of None \<Rightarrow> denied
        | Some session \<Rightarrow>
          (case sess_reauthenticated_at session of None \<Rightarrow> denied
           | Some timestamp \<Rightarrow>
               if seconds (set_reauthentication_minutes settings * 60) < now - timestamp
               then denied else Inr ()))"

definition revoke_user_sessions :: "instant \<Rightarrow> uuid \<Rightarrow> uuid option \<Rightarrow> portal_db \<Rightarrow> nat \<times> portal_db" where
  "revoke_user_sessions now uid except_id db =
     (let chosen = (\<lambda>s. sess_user_id s = uid \<and> sess_revoked_at s = None \<and> Some (sess_id s) \<noteq> except_id)
      in (length (filter chosen (t_sessions db)),
          db\<lparr>t_sessions := update_where chosen (revoke_row now) (t_sessions db)\<rparr>))"

definition revoke_user_cli_tokens :: "instant \<Rightarrow> uuid \<Rightarrow> portal_db \<Rightarrow> nat \<times> portal_db" where
  "revoke_user_cli_tokens now uid db =
     (let chosen = (\<lambda>t. cli_user_id t = uid \<and> cli_revoked_at t = None)
      in (length (filter chosen (t_cli_tokens db)),
          db\<lparr>t_cli_tokens := update_where chosen (\<lambda>t. t\<lparr>cli_revoked_at := Some now\<rparr>) (t_cli_tokens db)\<rparr>))"

definition revoke_session :: "instant \<Rightarrow> uuid \<Rightarrow> portal_db \<Rightarrow> portal_db" where
  "revoke_session now sid db = modify_session sid (revoke_row now) db"

definition remove_expired_setup_tokens :: "instant \<Rightarrow> portal_db \<Rightarrow> portal_db" where
  "remove_expired_setup_tokens now db = db\<lparr>t_setup_tokens := update_where
     (\<lambda>t. ptok_expires_at t < now \<and> ptok_state t = TS_ACTIVE)
     (\<lambda>t. t\<lparr>ptok_state := TS_EXPIRED, ptok_challenge_hash := None, ptok_challenge_expires_at := None\<rparr>)
     (t_setup_tokens db)\<rparr>"

subsection \<open>Delegated test sessions\<close>

definition DELEGATED_CREDENTIAL_PREFIX :: string where
  "DELEGATED_CREDENTIAL_PREFIX = ''h100dts_''"

definition DELEGATED_TEST_MIN_TTL_SECONDS :: int where
  "DELEGATED_TEST_MIN_TTL_SECONDS = 600"

definition DELEGATED_TEST_MAX_TTL_SECONDS :: int where
  "DELEGATED_TEST_MAX_TTL_SECONDS = 900"

definition DELEGATED_TEST_SCOPES :: "string list" where
  "DELEGATED_TEST_SCOPES = [''self.jobs.submit'', ''self.jobs.read'', ''self.jobs.logs.read'',
     ''self.jobs.cancel'', ''self.container.read'']"

definition DELEGATED_PERMISSION_SCOPES :: "(string \<times> string) list" where
  "DELEGATED_PERMISSION_SCOPES =
     [(''self.jobs.submit'', ''self.jobs.submit''), (''self.jobs.read'', ''self.jobs.read''),
      (''self.jobs.cancel'', ''self.jobs.cancel''), (''self.container.read'', ''self.container.read''),
      (''self.environment.read'', ''self.container.read'')]"

definition bearer_credential :: "http_request \<Rightarrow> string \<Rightarrow> string option" where
  "bearer_credential req prefix =
     (let authorization = (case header req ''authorization'' of None \<Rightarrow> [] | Some a \<Rightarrow> a) in
      if \<not> starts_with authorization ''Bearer '' then None
      else let credential = drop 7 authorization in
        if length credential \<noteq> length prefix + 64 \<or> \<not> starts_with credential prefix then None
        else Some credential)"

fun is_text :: "pyval \<Rightarrow> bool" where
  "is_text (PStr _) = True"
| "is_text (PTime _) = True"
| "is_text _ = False"

definition scopes_valid :: "pyval \<Rightarrow> bool" where
  "scopes_valid scopes \<longleftrightarrow> is_list scopes \<and> list_items scopes \<noteq> [] \<and>
     list_all is_text (list_items scopes) \<and>
     list_all (\<lambda>s. py_str s \<in> set DELEGATED_TEST_SCOPES) (list_items scopes)"

definition load_delegated_context :: "(string \<Rightarrow> string) \<Rightarrow> instant \<Rightarrow> http_request \<Rightarrow>
    (portal_db, auth_context) action" where
  "load_delegated_context digest now req db =
     (case bearer_credential req DELEGATED_CREDENTIAL_PREFIX of None \<Rightarrow> (Inl auth_required, db)
      | Some credential \<Rightarrow>
        (case scalar (\<lambda>d. deleg_token_hash d = digest credential) (t_delegated_sessions db) of
          None \<Rightarrow> (Inl auth_required, db)
        | Some delegated \<Rightarrow>
          if deleg_revoked_at delegated \<noteq> None then (Inl auth_required, db)
          else if deleg_expires_at delegated \<le> now
          then (Inl (HTTPException 401 ''DELEGATED_TEST_SESSION_EXPIRED''), db)
          else case (get_user db (deleg_actor_user_id delegated),
                     get_user db (deleg_effective_user_id delegated)) of
            (Some actor, Some effective_user) \<Rightarrow>
              if user_account_state actor = AS_ACTIVE \<and> highest_role actor = ''platform_owner'' \<and>
                 user_account_state effective_user = AS_ACTIVE \<and>
                 role_names effective_user = [''user''] \<and> scopes_valid (deleg_scopes delegated)
              then let seen = (\<lambda>d. d\<lparr>deleg_last_seen_at := Some now\<rparr>) in
                (Inr \<lparr>ctx_user = effective_user, ctx_session = None, ctx_session_raw = credential,
                   ctx_actor_user = Some actor, ctx_delegation = Some (seen delegated),
                   ctx_cli_token = None\<rparr>,
                 modify_delegated_session (deleg_id delegated) seen db)
              else (Inl (HTTPException 401 ''DELEGATED_TEST_SESSION_INVALID''), db)
          | _ \<Rightarrow> (Inl (HTTPException 401 ''DELEGATED_TEST_SESSION_INVALID''), db)))"

text \<open>\<open>token\<close> is the random part of the credential.\<close>

definition issue_delegated_test_session :: "(string \<Rightarrow> string) \<Rightarrow> uuid \<Rightarrow> uuid \<Rightarrow> string \<Rightarrow> instant \<Rightarrow>
    portal_user \<Rightarrow> portal_user \<Rightarrow> string list \<Rightarrow> int \<Rightarrow> string \<Rightarrow> string \<Rightarrow>
    (portal_db, portal_delegated_test_session \<times> string) action" where
  "issue_delegated_test_session digest new_id audit_id token now actor effective_user scopes
       ttl_seconds source_ip agent db =
     (let normalized_scopes = sort (remdups scopes) in
      if user_account_state actor \<noteq> AS_ACTIVE \<or> highest_role actor \<noteq> ''platform_owner''
      then (Inl (DelegatedTestAuthError ''DELEGATED_TEST_ACTOR_DENIED''), db)
      else if user_id actor = user_id effective_user
      then (Inl (DelegatedTestAuthError ''DELEGATED_TEST_TARGET_DENIED''), db)
      else if user_account_state effective_user \<noteq> AS_ACTIVE \<or> role_names effective_user \<noteq> [''user''] \<or>
        scalar (\<lambda>m. mu_portal_user_id m = user_id effective_user) (t_managed_users db) = None
      then (Inl (DelegatedTestAuthError ''DELEGATED_TEST_TARGET_DENIED''), db)
      else if normalized_scopes = [] \<or> \<not> set normalized_scopes \<subseteq> set DELEGATED_TEST_SCOPES
      then (Inl (DelegatedTestAuthError ''DELEGATED_TEST_SCOPE_DENIED''), db)
      else if \<not> (DELEGATED_TEST_MIN_TTL_SECONDS \<le> ttl_seconds \<and> ttl_seconds \<le> DELEGATED_TEST_MAX_TTL_SECONDS)
      then (Inl (DelegatedTestAuthError ''DELEGATED_TEST_TTL_DENIED''), db)
      else let credential = DELEGATED_CREDENTIAL_PREFIX @ token;
               delegated = \<lparr>deleg_id = new_id, deleg_actor_user_id = user_id actor,
                 deleg_effective_user_id = user_id effective_user,
                 deleg_token_hash = digest credential, deleg_scopes = PList (map PStr normalized_scopes),
                 deleg_ttl_seconds = ttl_seconds, deleg_created_at = now,
                 deleg_expires_at = now + seconds ttl_seconds, deleg_last_seen_at = None,
                 deleg_revoked_at = None\<rparr>
        in (Inr (delegated, credential), record_audit digest audit_id now
             \<lparr>ac_event_type = ''DELEGATED_TEST_SESSION_CREATED'',
              ac_actor = user_normalized_login actor, ac_actor_role = ''platform_owner'',
              ac_source_ip = source_ip, ac_user_agent = agent,
              ac_object_type = ''delegated_test_session'', ac_object_id = new_id,
              ac_result = ''SUCCESS'',
              ac_metadata = PDict [(''actor_user'', PStr (user_normalized_login actor)),
                (''effective_user'', PStr (user_normalized_login effective_user)),
                (''scopes'', PList (map PStr normalized_scopes)), (''created_at'', PTime now),
                (''expires_at'', PTime (now + seconds ttl_seconds)),
                (''ttl_seconds'', PInt ttl_seconds)],
              ac_operation_id = None\<rparr> (add_delegated_session delegated db)))"

subsection \<open>CLI tokens\<close>

definition CLI_TOKEN_PREFIX :: string where
  "CLI_TOKEN_PREFIX = ''h100_cli_''"

definition CLI_TOKEN_PERMISSIONS :: "string list" where
  "CLI_TOKEN_PERMISSIONS = [''self.jobs.submit'', ''self.jobs.read'', ''self.jobs.cancel'']"

definition cli_denied_code :: "instant \<Rightarrow> portal_cli_token \<Rightarrow> portal_user option \<Rightarrow> string option" where
  "cli_denied_code now token user =
     (if cli_revoked_at token \<noteq> None then Some ''CLI_TOKEN_REVOKED''
      else if (case cli_expires_at token of None \<Rightarrow> False | Some e \<Rightarrow> e \<le> now)
      then Some ''CLI_TOKEN_EXPIRED''
      else case user of None \<Rightarrow> Some ''CLI_TOKEN_ACCOUNT_INACTIVE''
        | Some u \<Rightarrow>
            if user_account_state u \<noteq> AS_ACTIVE \<or> user_password_state u \<noteq> PS_SET \<or>
               role_names u \<noteq> [''user'']
            then Some ''CLI_TOKEN_ACCOUNT_INACTIVE'' else None)"

definition load_cli_token_context :: "(string \<Rightarrow> string) \<Rightarrow> uuid \<Rightarrow> instant \<Rightarrow> http_request \<Rightarrow>
    (portal_db, auth_context) action" where
  "load_cli_token_context digest audit_id now req db =
     (if ''token'' \<in> set (hreq_query_params req)
      then (Inl (HTTPException 400 ''CLI_TOKEN_QUERY_REJECTED''), db)
      else case bearer_credential req CLI_TOKEN_PREFIX of None \<Rightarrow> (Inl auth_required, db)
      | Some credential \<Rightarrow>
        (case scalar (\<lambda>t. cli_token_hash t = digest credential) (t_cli_tokens db) of
          None \<Rightarrow> (Inl auth_required, db)
        | Some token \<Rightarrow>
          let user = get_user db (cli_user_id token); denied = cli_denied_code now token user in
          (case (denied, user) of
            (None, Some u) \<Rightarrow>
              let used = (\<lambda>t. t\<lparr>cli_last_used_at := Some now\<rparr>) in
              (Inr \<lparr>ctx_user = u, ctx_session = None, ctx_session_raw = credential,
                 ctx_actor_user = None, ctx_delegation = None, ctx_cli_token = Some (used token)\<rparr>,
               modify_cli_token (cli_id token) used db)
          | (Some code, Some u) \<Rightarrow>
              (Inl (HTTPException 401 code), record_audit digest audit_id now
                \<lparr>ac_event_type = ''CLI_TOKEN_USE'', ac_actor = user_normalized_login u,
                 ac_actor_role = highest_role u, ac_source_ip = client_ip req,
                 ac_user_agent = user_agent req, ac_object_type = ''cli_token'',
                 ac_object_id = cli_id token, ac_result = ''DENIED'',
                 ac_metadata = PDict [(''reason'', PStr code), (''path'', PStr (hreq_path req))],
                 ac_operation_id = None\<rparr> db)
          | (Some code, None) \<Rightarrow> (Inl (HTTPException 401 code), db)
          | (None, None) \<Rightarrow> (Inl auth_required, db))))"

subsection \<open>The dependencies of the routes\<close>

definition request_auth_context :: "(string \<Rightarrow> string) \<Rightarrow> auth_settings \<Rightarrow> uuid \<Rightarrow> instant \<Rightarrow>
    http_request \<Rightarrow> (portal_db, auth_context) action" where
  "request_auth_context digest settings audit_id now req db =
     (case header req ''authorization'' of
        None \<Rightarrow> load_context digest settings now req db
      | Some authorization \<Rightarrow>
          if starts_with authorization (''Bearer '' @ CLI_TOKEN_PREFIX)
          then load_cli_token_context digest audit_id now req db
          else load_delegated_context digest now req db)"

definition require_delegated_scope :: "auth_context \<Rightarrow> string \<Rightarrow> unit result" where
  "require_delegated_scope context scope =
     (if is_delegated context \<and> scope \<notin> set (delegated_scopes context)
      then Inl (HTTPException 403 ''DELEGATED_SCOPE_DENIED'') else Inr ())"

definition check_permission :: "string \<Rightarrow> auth_context \<Rightarrow> auth_context result" where
  "check_permission permission context =
     (if is_cli_token context \<and> permission \<notin> set CLI_TOKEN_PERMISSIONS
      then Inl (HTTPException 403 ''CLI_TOKEN_SCOPE_DENIED'')
      else if is_delegated context \<and>
        (case map_of DELEGATED_PERMISSION_SCOPES permission of None \<Rightarrow> True
         | Some scope \<Rightarrow> scope \<notin> set (delegated_scopes context))
      then Inl (HTTPException 403 ''DELEGATED_SCOPE_DENIED'')
      else case require_permission (ctx_user context) permission of
        Inl e \<Rightarrow> Inl e | Inr _ \<Rightarrow> Inr context)"

definition permission_dependency :: "(string \<Rightarrow> string) \<Rightarrow> auth_settings \<Rightarrow> uuid \<Rightarrow> instant \<Rightarrow> string \<Rightarrow>
    http_request \<Rightarrow> (portal_db, auth_context) action" where
  "permission_dependency digest settings audit_id now permission req db =
     (case request_auth_context digest settings audit_id now req db of
        (Inl e, db1) \<Rightarrow> (Inl e, db1)
      | (Inr context, db1) \<Rightarrow> (check_permission permission context, db1))"

subsection \<open>What the loaders have checked\<close>

lemma load_context_InrD:
  assumes "load_context digest settings now req db = (Inr c, db')"
  obtains session user where "session \<in> set (t_sessions db)"
    "sess_session_hash session = digest (ctx_session_raw c)" "sess_revoked_at session = None"
    "now < sess_idle_expires_at session" "now < sess_absolute_expires_at session"
    "get_user db (sess_user_id session) = Some user" "user_account_state user = AS_ACTIVE"
    "c = \<lparr>ctx_user = user, ctx_session = Some (seen_row settings now session),
      ctx_session_raw = ctx_session_raw c, ctx_actor_user = None, ctx_delegation = None, ctx_cli_token = None\<rparr>"
    "db' = modify_session (sess_id session) (seen_row settings now) db"
proof -
  obtain raw where raw: "cookie req (set_cookie_name settings) = Some raw" "raw \<noteq> []" "length raw \<le> 256"
    using assms by (auto simp: load_context_def split: option.splits if_splits)
  obtain session where session: "scalar (\<lambda>s. sess_session_hash s = digest raw \<and> sess_revoked_at s = None)
      (t_sessions db) = Some session"
    using assms raw by (auto simp: load_context_def split: option.splits)
  have live: "now < sess_idle_expires_at session" "now < sess_absolute_expires_at session"
    using assms raw session by (auto simp: load_context_def split: if_splits)
  obtain user where user: "get_user db (sess_user_id session) = Some user" "user_account_state user = AS_ACTIVE"
    using assms raw session live by (auto simp: load_context_def split: option.splits if_splits)
  have c: "c = \<lparr>ctx_user = user, ctx_session = Some (seen_row settings now session), ctx_session_raw = raw,
      ctx_actor_user = None, ctx_delegation = None, ctx_cli_token = None\<rparr>"
    and db': "db' = modify_session (sess_id session) (seen_row settings now) db"
    using assms raw session live user by (auto simp: load_context_def split: if_splits)
  show ?thesis
    using that [of session user] scalar_SomeD [OF session] live user c db' by simp
qed

lemma cli_denied_code_None:
  "cli_denied_code now token user = None \<longleftrightarrow> cli_revoked_at token = None \<and>
    (case cli_expires_at token of None \<Rightarrow> True | Some e \<Rightarrow> now < e) \<and>
    (\<exists>u. user = Some u \<and> user_account_state u = AS_ACTIVE \<and> user_password_state u = PS_SET \<and>
      role_names u = [''user''])"
  by (auto simp: cli_denied_code_def split: option.splits)

lemma load_cli_token_context_InrD:
  assumes "load_cli_token_context digest audit_id now req db = (Inr c, db')"
  obtains token where "token \<in> set (t_cli_tokens db)" "cli_token_hash token = digest (ctx_session_raw c)"
    "get_user db (cli_user_id token) = Some (ctx_user c)" "cli_denied_code now token (Some (ctx_user c)) = None"
    "ctx_session c = None" "ctx_delegation c = None" "is_cli_token c"
proof -
  obtain credential where cr: "''token'' \<notin> set (hreq_query_params req)"
    "bearer_credential req CLI_TOKEN_PREFIX = Some credential"
    using assms by (auto simp: load_cli_token_context_def split: option.splits if_splits)
  obtain token where t: "scalar (\<lambda>t. cli_token_hash t = digest credential) (t_cli_tokens db) = Some token"
    using assms cr by (auto simp: load_cli_token_context_def split: option.splits)
  obtain u where u: "cli_denied_code now token (get_user db (cli_user_id token)) = None"
    "get_user db (cli_user_id token) = Some u"
    using assms cr t by (auto simp: load_cli_token_context_def Let_def split: option.splits)
  have "c = \<lparr>ctx_user = u, ctx_session = None, ctx_session_raw = credential, ctx_actor_user = None,
      ctx_delegation = None, ctx_cli_token = Some (token\<lparr>cli_last_used_at := Some now\<rparr>)\<rparr>"
    using assms cr t u by (simp add: load_cli_token_context_def Let_def)
  then show ?thesis
    using that [of token] scalar_SomeD [OF t] u by (simp add: is_cli_token_def)
qed

lemma load_delegated_context_InrD:
  assumes "load_delegated_context digest now req db = (Inr c, db')"
  obtains d actor where "d \<in> set (t_delegated_sessions db)" "deleg_token_hash d = digest (ctx_session_raw c)"
    "deleg_revoked_at d = None" "now < deleg_expires_at d"
    "get_user db (deleg_actor_user_id d) = Some actor" "user_account_state actor = AS_ACTIVE"
    "highest_role actor = ''platform_owner''" "get_user db (deleg_effective_user_id d) = Some (ctx_user c)"
    "user_account_state (ctx_user c) = AS_ACTIVE" "role_names (ctx_user c) = [''user'']"
    "scopes_valid (deleg_scopes d)" "ctx_actor_user c = Some actor" "ctx_session c = None"
    "ctx_cli_token c = None" "ctx_delegation c = Some (d\<lparr>deleg_last_seen_at := Some now\<rparr>)"
proof -
  obtain credential where cr: "bearer_credential req DELEGATED_CREDENTIAL_PREFIX = Some credential"
    using assms by (auto simp: load_delegated_context_def split: option.splits)
  obtain d where d: "scalar (\<lambda>d. deleg_token_hash d = digest credential) (t_delegated_sessions db) = Some d"
    using assms cr by (auto simp: load_delegated_context_def split: option.splits)
  have live: "deleg_revoked_at d = None" "now < deleg_expires_at d"
    using assms cr d by (auto simp: load_delegated_context_def split: if_splits)
  obtain actor u where au: "get_user db (deleg_actor_user_id d) = Some actor"
    "get_user db (deleg_effective_user_id d) = Some u"
    using assms cr d live by (auto simp: load_delegated_context_def split: option.splits)
  have ok: "user_account_state actor = AS_ACTIVE" "highest_role actor = ''platform_owner''"
    "user_account_state u = AS_ACTIVE" "role_names u = [''user'']" "scopes_valid (deleg_scopes d)"
    using assms cr d live au by (simp_all add: load_delegated_context_def split: if_splits)
  have "c = \<lparr>ctx_user = u, ctx_session = None, ctx_session_raw = credential, ctx_actor_user = Some actor,
      ctx_delegation = Some (d\<lparr>deleg_last_seen_at := Some now\<rparr>), ctx_cli_token = None\<rparr>"
    using assms cr d live au ok by (simp add: load_delegated_context_def Let_def)
  then show ?thesis
    using that [of d actor] scalar_SomeD [OF d] live au ok by simp
qed

lemma check_permission_InrD:
  assumes "check_permission permission c = Inr c'"
  shows "c' = c \<and> has_permission (ctx_user c) permission \<and>
    (is_cli_token c \<longrightarrow> permission \<in> set CLI_TOKEN_PERMISSIONS) \<and>
    (is_delegated c \<longrightarrow> (\<exists>scope. map_of DELEGATED_PERMISSION_SCOPES permission = Some scope \<and>
       scope \<in> set (delegated_scopes c)))"
  using assms
  by (auto simp: check_permission_def require_permission_def split: if_splits option.splits sum.splits)

lemma bearer_permissions_self_scoped:
  "p \<in> set CLI_TOKEN_PERMISSIONS \<Longrightarrow> self_scoped p"
  "map_of DELEGATED_PERMISSION_SCOPES p = Some scope \<Longrightarrow> self_scoped p"
  by (auto simp: CLI_TOKEN_PERMISSIONS_def DELEGATED_PERMISSION_SCOPES_def self_scoped_def split: if_splits)

subsection \<open>Properties of the contexts\<close>

text \<open>
  C9. A request that passes the permission check acts for an active user who has the permission,
  on exactly one of three grounds: a cookie session that is not revoked and within both its
  idle and its absolute limit; a CLI token that is not revoked or expired, of an ordinary
  user, for one of three job permissions; or a delegated session that is not revoked or expired, of
  an active platform owner for an ordinary user, whose scopes cover the permission. A bearer
  credential never reaches a permission outside the user's own resources.
\<close>

theorem authorized_request_sound:
  assumes "permission_dependency digest settings audit_id now permission req db = (Inr c, db')"
  shows "has_permission (ctx_user c) permission \<and> user_account_state (ctx_user c) = AS_ACTIVE \<and>
    ((\<exists>s \<in> set (t_sessions db). sess_session_hash s = digest (ctx_session_raw c) \<and>
        sess_revoked_at s = None \<and> now < sess_idle_expires_at s \<and> now < sess_absolute_expires_at s \<and>
        get_user db (sess_user_id s) = Some (ctx_user c) \<and> \<not> is_cli_token c \<and> \<not> is_delegated c) \<or>
     (\<exists>t \<in> set (t_cli_tokens db). cli_token_hash t = digest (ctx_session_raw c) \<and>
        cli_revoked_at t = None \<and> (case cli_expires_at t of None \<Rightarrow> True | Some e \<Rightarrow> now < e) \<and>
        get_user db (cli_user_id t) = Some (ctx_user c) \<and> role_names (ctx_user c) = [''user''] \<and>
        permission \<in> set CLI_TOKEN_PERMISSIONS \<and> self_scoped permission) \<or>
     (\<exists>d \<in> set (t_delegated_sessions db). \<exists>actor scope. deleg_token_hash d = digest (ctx_session_raw c) \<and>
        deleg_revoked_at d = None \<and> now < deleg_expires_at d \<and>
        get_user db (deleg_actor_user_id d) = Some actor \<and> user_account_state actor = AS_ACTIVE \<and>
        highest_role actor = ''platform_owner'' \<and>
        get_user db (deleg_effective_user_id d) = Some (ctx_user c) \<and> role_names (ctx_user c) = [''user''] \<and>
        map_of DELEGATED_PERMISSION_SCOPES permission = Some scope \<and>
        scope \<in> set (map py_str (list_items (deleg_scopes d))) \<and>
        self_scoped permission))"
proof -
  obtain db1 where load: "request_auth_context digest settings audit_id now req db = (Inr c, db1)"
    and "check_permission permission c = Inr c"
    using assms check_permission_InrD
    by (fastforce simp: permission_dependency_def split: prod.splits sum.splits)
  from check_permission_InrD [OF this(2)]
  have perm: "has_permission (ctx_user c) permission"
    "is_cli_token c \<Longrightarrow> permission \<in> set CLI_TOKEN_PERMISSIONS"
    "is_delegated c \<Longrightarrow> \<exists>scope. map_of DELEGATED_PERMISSION_SCOPES permission = Some scope \<and>
       scope \<in> set (delegated_scopes c)" by auto
  from load consider "load_context digest settings now req db = (Inr c, db1)"
    | "load_cli_token_context digest audit_id now req db = (Inr c, db1)"
    | "load_delegated_context digest now req db = (Inr c, db1)"
    by (auto simp: request_auth_context_def split: option.splits if_splits)
  then show ?thesis
  proof cases
    case 1
    then show ?thesis
    proof (rule load_context_InrD)
      fix session user
      assume a: "session \<in> set (t_sessions db)"
        "sess_session_hash session = digest (ctx_session_raw c)" "sess_revoked_at session = None"
        "now < sess_idle_expires_at session" "now < sess_absolute_expires_at session"
        "get_user db (sess_user_id session) = Some user" "user_account_state user = AS_ACTIVE"
        "c = \<lparr>ctx_user = user, ctx_session = Some (seen_row settings now session),
           ctx_session_raw = ctx_session_raw c, ctx_actor_user = None, ctx_delegation = None,
           ctx_cli_token = None\<rparr>"
      from arg_cong [OF a(8), of ctx_user] arg_cong [OF a(8), of ctx_cli_token]
        arg_cong [OF a(8), of ctx_delegation]
      have "ctx_user c = user" "\<not> is_cli_token c" "\<not> is_delegated c"
        by (simp_all add: is_cli_token_def is_delegated_def)
      with a perm(1) show ?thesis by blast
    qed
  next
    case 2
    then show ?thesis
    proof (rule load_cli_token_context_InrD)
      fix token
      assume a: "token \<in> set (t_cli_tokens db)" "cli_token_hash token = digest (ctx_session_raw c)"
        "get_user db (cli_user_id token) = Some (ctx_user c)"
        "cli_denied_code now token (Some (ctx_user c)) = None" "is_cli_token c"
      have "cli_revoked_at token = None" "case cli_expires_at token of None \<Rightarrow> True | Some e \<Rightarrow> now < e"
        "user_account_state (ctx_user c) = AS_ACTIVE" "role_names (ctx_user c) = [''user'']"
        using a(4) by (simp_all add: cli_denied_code_None)
      with a perm(1) perm(2) [OF a(5)] bearer_permissions_self_scoped(1) show ?thesis by blast
    qed
  next
    case 3
    then show ?thesis
    proof (rule load_delegated_context_InrD)
      fix d actor
      assume a: "d \<in> set (t_delegated_sessions db)" "deleg_token_hash d = digest (ctx_session_raw c)"
        "deleg_revoked_at d = None" "now < deleg_expires_at d"
        "get_user db (deleg_actor_user_id d) = Some actor" "user_account_state actor = AS_ACTIVE"
        "highest_role actor = ''platform_owner''" "get_user db (deleg_effective_user_id d) = Some (ctx_user c)"
        "user_account_state (ctx_user c) = AS_ACTIVE" "role_names (ctx_user c) = [''user'']"
        "ctx_delegation c = Some (d\<lparr>deleg_last_seen_at := Some now\<rparr>)"
      then have "is_delegated c" by (simp add: is_delegated_def)
      from perm(3) [OF this] obtain scope where
        scope: "map_of DELEGATED_PERMISSION_SCOPES permission = Some scope"
        "scope \<in> set (map py_str (list_items (deleg_scopes d)))"
        using a(11) by (auto simp: delegated_scopes_def)
      with a perm(1) bearer_permissions_self_scoped(2) show ?thesis by blast
    qed
  qed
qed

subsection \<open>The life of a session\<close>

text \<open>
  Everything that touches the session table, at instants that do not go back: a request that
  loads its context, a new session, a new authentication within one, and the revocations. Other
  tables change freely.
\<close>

inductive session_step :: "(string \<Rightarrow> string) \<Rightarrow> auth_settings \<Rightarrow> instant \<times> portal_db \<Rightarrow> instant \<times> portal_db \<Rightarrow> bool"
  for digest settings where
  load: "t \<le> now \<Longrightarrow> session_step digest settings (t, db) (now, snd (load_context digest settings now req db))"
| create: "t \<le> now \<Longrightarrow> i \<notin> sess_id ` set (t_sessions db) \<Longrightarrow>
    session_step digest settings (t, db) (now, snd (create_session digest settings i now raw csrf user req db))"
| reauthenticated: "t \<le> now \<Longrightarrow> session_step digest settings (t, db)
    (now, modify_session i (\<lambda>s. s\<lparr>sess_reauthenticated_at := Some now\<rparr>) db)"
| revoke_all: "t \<le> now \<Longrightarrow> session_step digest settings (t, db) (now, snd (revoke_user_sessions now uid except db))"
| revoke_one: "t \<le> now \<Longrightarrow> session_step digest settings (t, db) (now, revoke_session now i db)"
| other: "t \<le> now \<Longrightarrow> t_sessions db' = t_sessions db \<Longrightarrow> session_step digest settings (t, db) (now, db')"

inductive_cases session_stepE: "session_step digest settings (t, db) (t', db')"

definition dead_session :: "instant \<Rightarrow> portal_session \<Rightarrow> bool" where
  "dead_session t s \<longleftrightarrow> sess_revoked_at s \<noteq> None \<or> sess_idle_expires_at s \<le> t \<or> sess_absolute_expires_at s \<le> t"

definition sessions_distinct :: "portal_db \<Rightarrow> bool" where
  "sessions_distinct db \<longleftrightarrow> distinct (map sess_id (t_sessions db))"

lemma dead_session_later: "dead_session t s \<Longrightarrow> t \<le> t' \<Longrightarrow> dead_session t' s"
  by (auto simp: dead_session_def)

lemma row_updates_id [simp]: "sess_id (revoke_row now s) = sess_id s" "sess_id (seen_row settings now s) = sess_id s"
  by (simp_all add: revoke_row_def seen_row_def)

lemma dead_revoked [simp]: "dead_session t (revoke_row now s)"
  by (simp add: dead_session_def revoke_row_def)

text \<open>A load changes at most one session: it revokes it, or it marks a session that is not dead.\<close>

lemma load_context_cases:
  "(snd (load_context digest settings now req db) = db) \<or>
   (\<exists>s \<in> set (t_sessions db). snd (load_context digest settings now req db) =
      modify_session (sess_id s) (revoke_row now) db) \<or>
   (\<exists>s \<in> set (t_sessions db). \<not> dead_session now s \<and>
      snd (load_context digest settings now req db) = modify_session (sess_id s) (seen_row settings now) db)"
proof (cases "fst (load_context digest settings now req db)")
  case (Inr c)
  then obtain db' where "load_context digest settings now req db = (Inr c, db')" by (metis prod.collapse)
  then show ?thesis
    by (rule load_context_InrD) (auto simp: dead_session_def \<open>load_context digest settings now req db = (Inr c, db')\<close>)
next
  case (Inl e)
  then show ?thesis
    by (auto simp: load_context_def dest: scalar_SomeD split: option.splits if_splits)
qed

lemma get_session_member:
  "sessions_distinct db \<Longrightarrow> s \<in> set (t_sessions db) \<Longrightarrow> get_session db (sess_id s) = Some s"
proof -
  have "distinct (map sess_id rows) \<Longrightarrow> s \<in> set rows \<Longrightarrow> scalar (\<lambda>r. sess_id r = sess_id s) rows = Some s" for rows
    by (induction rows) (auto simp: rev_image_eqI)
  then show "sessions_distinct db \<Longrightarrow> s \<in> set (t_sessions db) \<Longrightarrow> get_session db (sess_id s) = Some s"
    by (simp add: sessions_distinct_def get_session_def)
qed

lemma map_id_modify_session:
  "(\<And>s. sess_id (f s) = sess_id s) \<Longrightarrow>
   map sess_id (t_sessions (modify_session i f db)) = map sess_id (t_sessions db)"
  by (simp add: modify_session_def map_update_where)

lemma session_step_distinct:
  "session_step digest settings (t, db) (t', db') \<Longrightarrow> sessions_distinct db \<Longrightarrow> sessions_distinct db'"
proof (erule session_stepE)
  fix req
  assume "sessions_distinct db" and "db' = snd (load_context digest settings t' req db)"
  with load_context_cases [of digest settings t' req db] show "sessions_distinct db'"
    by (auto simp: sessions_distinct_def map_id_modify_session)
next
  fix i raw csrf user req
  assume "sessions_distinct db" and "i \<notin> sess_id ` set (t_sessions db)"
    and "db' = snd (create_session digest settings i t' raw csrf user req db)"
  then show "sessions_distinct db'"
    by (simp add: sessions_distinct_def create_session_def Let_def add_session_def)
next
  fix uid except
  assume "sessions_distinct db" and "db' = snd (revoke_user_sessions t' uid except db)"
  then show "sessions_distinct db'"
    by (simp add: sessions_distinct_def revoke_user_sessions_def Let_def map_update_where)
qed (simp_all add: sessions_distinct_def revoke_session_def map_id_modify_session)

lemma session_step_dead:
  assumes "session_step digest settings (t, db) (t', db')" and "sessions_distinct db"
    and "get_session db i = Some s" and "dead_session t s"
  shows "\<exists>s'. get_session db' i = Some s' \<and> dead_session t' s'"
proof -
  have keep: "\<exists>s'. get_session (modify_session j f db) i = Some s' \<and> dead_session t' s'"
    if "t \<le> t'" "\<And>s. sess_id (f s) = sess_id s" "j = i \<Longrightarrow> dead_session t' (f s)" for j f
    using that assms(3,4) dead_session_later [OF assms(4)]
    by (auto simp: session_store.lookup_modify)
  from assms(1) show ?thesis
  proof (rule session_stepE)
    fix req
    assume le: "t \<le> t'" and db': "db' = snd (load_context digest settings t' req db)"
    from load_context_cases [of digest settings t' req db] show ?thesis
    proof (elim disjE bexE conjE)
      assume "snd (load_context digest settings t' req db) = db"
      with db' assms(3) dead_session_later [OF assms(4) le] show ?thesis by auto
    next
      fix x
      assume "snd (load_context digest settings t' req db) = modify_session (sess_id x) (revoke_row t') db"
      with db' keep [OF le, of "revoke_row t'" "sess_id x"] show ?thesis by simp
    next
      fix x
      assume x: "x \<in> set (t_sessions db)" "\<not> dead_session t' x"
        "snd (load_context digest settings t' req db) = modify_session (sess_id x) (seen_row settings t') db"
      have "sess_id x \<noteq> i"
        using get_session_member [OF assms(2) x(1)] assms(3,4) x(2) dead_session_later [OF assms(4) le] by auto
      with x(3) db' keep [OF le, of "seen_row settings t'" "sess_id x"] show ?thesis by simp
    qed
  next
    fix j raw csrf user req
    assume le: "t \<le> t'" and db': "db' = snd (create_session digest settings j t' raw csrf user req db)"
    then have "get_session db' i = Some s"
      using assms(3) by (simp add: create_session_def Let_def add_session_def get_session_def scalar_append)
    then show ?thesis using dead_session_later [OF assms(4) le] by blast
  next
    fix j
    assume le: "t \<le> t'" and db': "db' = modify_session j (\<lambda>s. s\<lparr>sess_reauthenticated_at := Some t'\<rparr>) db"
    have "dead_session t' (s\<lparr>sess_reauthenticated_at := Some t'\<rparr>)"
      using dead_session_later [OF assms(4) le] by (simp add: dead_session_def)
    with keep [OF le] db' show ?thesis by simp
  next
    fix uid except
    assume le: "t \<le> t'" and db': "db' = snd (revoke_user_sessions t' uid except db)"
    have "scalar (\<lambda>r. sess_id r = i) (update_where p (revoke_row t') rows) =
        map_option (\<lambda>r. if p r then revoke_row t' r else r) (scalar (\<lambda>r. sess_id r = i) rows)" for p rows
      by (induction rows) auto
    with db' assms(3) have "\<exists>p. get_session db' i = Some (if p s then revoke_row t' s else s)"
      by (auto simp: revoke_user_sessions_def Let_def get_session_def)
    then show ?thesis using dead_session_later [OF assms(4) le] by (metis dead_revoked)
  next
    fix j
    assume le: "t \<le> t'" and "db' = revoke_session t' j db"
    with keep [OF le, of "revoke_row t'" j] show ?thesis by (simp add: revoke_session_def)
  next
    assume le: "t \<le> t'" and "t_sessions db' = t_sessions db"
    with assms(3) have "get_session db' i = Some s" by (simp add: get_session_def)
    then show ?thesis using dead_session_later [OF assms(4) le] by blast
  qed
qed

text \<open>
  A dead session stays dead: once a session has been revoked, has been idle past its limit or
  has reached its absolute limit, no request is ever authenticated with it again, whatever requests,
  logins, new authentications and revocations come in between.
\<close>

theorem dead_session_never_loads:
  assumes "rtranclp (session_step digest settings) (t, db) (t', db')"
    and "sessions_distinct db" and "get_session db i = Some s" and "dead_session t s"
    and "t' \<le> now" and "load_context digest settings now req db' = (Inr c, db'')"
  shows "map_option sess_id (ctx_session c) \<noteq> Some i"
proof -
  have "sessions_distinct db' \<and> (\<exists>s'. get_session db' i = Some s' \<and> dead_session t' s')"
    using assms(1-4)
  proof (induction "(t', db')" arbitrary: t' db' rule: rtranclp_induct)
    case base
    then show ?case by blast
  next
    case (step y)
    obtain t1 db1 where y: "y = (t1, db1)" by (cases y)
    with step.hyps(3) [OF y] step.prems step.hyps(2) session_step_distinct session_step_dead
    show ?case by metis
  qed
  then obtain s' where d: "sessions_distinct db'" "get_session db' i = Some s'" "dead_session t' s'" by blast
  from assms(6) show ?thesis
  proof (rule load_context_InrD)
    fix session user
    assume a: "session \<in> set (t_sessions db')" "sess_revoked_at session = None"
      "now < sess_idle_expires_at session" "now < sess_absolute_expires_at session"
      "c = \<lparr>ctx_user = user, ctx_session = Some (seen_row settings now session),
         ctx_session_raw = ctx_session_raw c, ctx_actor_user = None, ctx_delegation = None,
         ctx_cli_token = None\<rparr>"
    have "sess_id session \<noteq> i"
      using get_session_member [OF d(1) a(1)] d(2,3) a(2-4) assms(5) by (auto simp: dead_session_def)
    with arg_cong [OF a(5), of ctx_session] show ?thesis by simp
  qed
qed

subsection \<open>Issuing a delegated session\<close>

lemma starts_with_append [simp]: "starts_with (p @ s) p"
  by (simp add: starts_with_def)

lemma bearer_credential_of:
  assumes "header req ''authorization'' = Some (''Bearer '' @ prefix @ token)" and "length token = 64"
  shows "bearer_credential req prefix = Some (prefix @ token)"
  using assms by (simp add: bearer_credential_def Let_def starts_with_def)

lemma scopes_valid_texts:
  "scopes_valid (PList (map PStr xs)) \<longleftrightarrow> xs \<noteq> [] \<and> set xs \<subseteq> set DELEGATED_TEST_SCOPES"
  by (auto simp: scopes_valid_def list_all_iff)

text \<open>
  C37. An issued delegated credential works exactly for its time: the session satisfies its CHECK
  constraints, and a request that presents the credential is the effective user's, on behalf of the
  actor and with the requested scopes, before the expiry, and is refused as expired from then on.
\<close>

theorem issued_credential_roundtrip:
  assumes "issue_delegated_test_session digest new_id audit_id token now actor effective scopes ttl ip agent db =
      (Inr (d, credential), db')"
    and "\<forall>x \<in> set (t_delegated_sessions db). deleg_token_hash x \<noteq> digest credential"
    and "length token = 64"
    and "get_user db (user_id actor) = Some actor" and "get_user db (user_id effective) = Some effective"
    and "header req ''authorization'' = Some (''Bearer '' @ credential)"
  shows "delegated_test_session_checks d \<and>
    (if t < now + seconds ttl
     then \<exists>c db''. load_delegated_context digest t req db' = (Inr c, db'') \<and> ctx_user c = effective \<and>
       ctx_actor c = actor \<and> set (delegated_scopes c) = set scopes
     else load_delegated_context digest t req db' =
       (Inl (HTTPException 401 ''DELEGATED_TEST_SESSION_EXPIRED''), db'))"
proof -
  let ?cred = "DELEGATED_CREDENTIAL_PREFIX @ token"
  let ?scopes = "sort (remdups scopes)"
  note issue = assms(1) [unfolded issue_delegated_test_session_def Let_def]
  have ok: "user_account_state actor = AS_ACTIVE" "highest_role actor = ''platform_owner''"
    "user_id actor \<noteq> user_id effective" "user_account_state effective = AS_ACTIVE"
    "role_names effective = [''user'']" "?scopes \<noteq> []" "set ?scopes \<subseteq> set DELEGATED_TEST_SCOPES"
    "600 \<le> ttl" "ttl \<le> 900"
    using issue by (auto simp: DELEGATED_TEST_MIN_TTL_SECONDS_def DELEGATED_TEST_MAX_TTL_SECONDS_def
        split: if_splits)
  have cred: "credential = ?cred" and d: "d = \<lparr>deleg_id = new_id, deleg_actor_user_id = user_id actor,
      deleg_effective_user_id = user_id effective, deleg_token_hash = digest ?cred,
      deleg_scopes = PList (map PStr ?scopes), deleg_ttl_seconds = ttl, deleg_created_at = now,
      deleg_expires_at = now + seconds ttl, deleg_last_seen_at = None, deleg_revoked_at = None\<rparr>"
    and tables: "t_delegated_sessions db' = t_delegated_sessions db @ [d]" "t_users db' = t_users db"
    using issue by (auto simp: add_delegated_session_def split: if_splits)
  have checks: "delegated_test_session_checks d"
    using ok by (simp add: d delegated_test_session_checks_def)
  have bearer: "bearer_credential req DELEGATED_CREDENTIAL_PREFIX = Some ?cred"
    using bearer_credential_of [of req DELEGATED_CREDENTIAL_PREFIX token] assms(3,6) cred by simp
  have "scalar (\<lambda>x. deleg_token_hash x = digest ?cred) (t_delegated_sessions db) = None"
    using assms(2) cred by (simp add: scalar_None_iff)
  then have found: "scalar (\<lambda>x. deleg_token_hash x = digest ?cred) (t_delegated_sessions db') = Some d"
    by (simp add: tables scalar_append d)
  have users: "get_user db' (user_id actor) = Some actor" "get_user db' (user_id effective) = Some effective"
    using assms(4,5) tables(2) by (simp_all add: get_user_def)
  have scopes: "scopes_valid (PList (map PStr ?scopes))" using ok(6,7) unfolding scopes_valid_texts by (simp only: simp_thms)
  show ?thesis
  proof (cases "t < now + seconds ttl")
    case True
    have "\<exists>c db''. load_delegated_context digest t req db' = (Inr c, db'') \<and> ctx_user c = effective \<and>
        ctx_actor c = actor \<and> set (delegated_scopes c) = set scopes"
      using True ok users scopes
      by (simp add: load_delegated_context_def bearer found) (simp add: d Let_def ctx_actor_def
          delegated_scopes_def image_image)
    with True checks show ?thesis by simp
  next
    case False
    have "load_delegated_context digest t req db' =
        (Inl (HTTPException 401 ''DELEGATED_TEST_SESSION_EXPIRED''), db')"
      using False by (simp add: load_delegated_context_def bearer found) (simp add: d)
    with False checks show ?thesis by simp
  qed
qed

subsection \<open>The rate limiter bounds every window\<close>

text \<open>
  Calls of the limiter by a clock that does not go back. \<open>admitted\<close> are the instants at which calls
  for one key were let through; other keys are called with any limits.
\<close>

inductive limiter_run :: "string \<Rightarrow> nat \<Rightarrow> int \<Rightarrow> limiter \<Rightarrow> instant list \<Rightarrow> instant \<Rightarrow> bool"
  for key limit window where
  start: "limiter_run key limit window [] [] t"
| admit: "limiter_run key limit window st admitted t \<Longrightarrow> t \<le> now \<Longrightarrow>
    limiter_allowed key limit window now st = (True, st') \<Longrightarrow>
    limiter_run key limit window st' (admitted @ [now]) now"
| refuse: "limiter_run key limit window st admitted t \<Longrightarrow> t \<le> now \<Longrightarrow>
    limiter_allowed key limit window now st = (False, st') \<Longrightarrow>
    limiter_run key limit window st' admitted now"
| other: "limiter_run key limit window st admitted t \<Longrightarrow> t \<le> now \<Longrightarrow> k \<noteq> key \<Longrightarrow>
    limiter_allowed k n w now st = (b, st') \<Longrightarrow> limiter_run key limit window st' admitted now"

lemma dropWhile_sorted:
  "sorted ts \<Longrightarrow> dropWhile (\<lambda>t. t \<le> (a :: int)) ts = filter (\<lambda>t. a < t) ts"
proof (induction ts)
  case (Cons u us)
  then show ?case by (cases "u \<le> a") (auto intro!: filter_True [symmetric])
qed simp

lemma limiter_events_put [simp]:
  "limiter_events k (assoc_put st k' es) = (if k = k' then es else limiter_events k st)"
  by (simp add: limiter_events_def)

definition limiter_distinct :: "limiter \<Rightarrow> bool" where
  "limiter_distinct st \<longleftrightarrow> distinct (map fst st)"

lemma limiter_distinct_put [simp]: "limiter_distinct st \<Longrightarrow> limiter_distinct (assoc_put st k es)"
  unfolding limiter_distinct_def
proof (induction st k es rule: assoc_put.induct)
  case (2 k' v' kvs k v)
  have "fst ` set (assoc_put kvs k v) = insert k (fst ` set kvs)" by simp
  with 2 show ?case by (auto simp del: keys_assoc_put)
qed simp

lemma limiter_events_drop [simp]: "limiter_distinct st \<Longrightarrow> limiter_events k (drop_empty_keys st) = limiter_events k st"
proof -
  have "distinct (map fst st) \<Longrightarrow>
      (case map_of (filter (\<lambda>(k, es). \<not> (k \<in> A \<and> es = [])) st) k of None \<Rightarrow> [] | Some es \<Rightarrow> es) =
      (case map_of st k of None \<Rightarrow> [] | Some es \<Rightarrow> es)" for A and st :: limiter
  proof (induction st)
    case (Cons x st)
    obtain k' es where x: "x = (k', es)" by (cases x)
    have "k' \<notin> fst ` set (filter (\<lambda>(k, es). \<not> (k \<in> A \<and> es = [])) st)" using Cons.prems x by auto
    then have "map_of (filter (\<lambda>(k, es). \<not> (k \<in> A \<and> es = [])) st) k' = None"
      by (simp add: map_of_eq_None_iff)
    with Cons x show ?case by auto
  qed simp
  then show "limiter_distinct st \<Longrightarrow> limiter_events k (drop_empty_keys st) = limiter_events k st"
    unfolding limiter_distinct_def limiter_events_def drop_empty_keys_def by blast
qed

lemma limiter_distinct_drop [simp]: "limiter_distinct st \<Longrightarrow> limiter_distinct (drop_empty_keys st)"
  by (simp add: limiter_distinct_def drop_empty_keys_def distinct_map_filter)

lemma limiter_allowed_events:
  assumes "limiter_distinct st" and "limiter_allowed k n w now st = (b, st')"
  defines "es \<equiv> dropWhile (\<lambda>t. t \<le> now - seconds w) (limiter_events k st)"
  shows "limiter_distinct st'" and "b \<longleftrightarrow> length es < n"
    and "limiter_events k st' = (if b then es @ [now] else es)"
    and "key \<noteq> k \<Longrightarrow> limiter_events key st' = limiter_events key st"
  using assms by (auto simp: limiter_allowed_def Let_def split: if_splits)

lemma limiter_allowed_recent:
  assumes "limiter_distinct st" and "limiter_allowed k n w now st = (b, st')"
    and "sorted admitted" and "a \<le> now"
    and "limiter_events k st = filter (\<lambda>u. a - seconds w < u) admitted"
  shows "b \<longleftrightarrow> length (filter (\<lambda>u. now - seconds w < u) admitted) < n"
    and "limiter_events k st' = filter (\<lambda>u. now - seconds w < u) admitted @ (if b then [now] else [])"
proof -
  have "dropWhile (\<lambda>t. t \<le> now - seconds w) (limiter_events k st) =
      filter (\<lambda>u. now - seconds w < u) (filter (\<lambda>u. a - seconds w < u) admitted)"
    using assms(3,5) by (simp add: dropWhile_sorted sorted_wrt_filter)
  also have "\<dots> = filter (\<lambda>u. now - seconds w < u) admitted"
    unfolding filter_filter using assms(4) by (intro filter_cong) auto
  finally show "b \<longleftrightarrow> length (filter (\<lambda>u. now - seconds w < u) admitted) < n"
    and "limiter_events k st' = filter (\<lambda>u. now - seconds w < u) admitted @ (if b then [now] else [])"
    using limiter_allowed_events(2,3) [OF assms(1,2)] by simp_all
qed

definition limiter_tracks :: "string \<Rightarrow> int \<Rightarrow> limiter \<Rightarrow> instant list \<Rightarrow> instant \<Rightarrow> bool" where
  "limiter_tracks key window st admitted t \<longleftrightarrow>
     limiter_distinct st \<and> sorted admitted \<and> (\<forall>u \<in> set admitted. u \<le> t) \<and>
     (\<exists>a \<le> t. limiter_events key st = filter (\<lambda>u. a - seconds window < u) admitted)"

lemma limiter_tracks_step:
  assumes "limiter_tracks key window st admitted t" and "t \<le> now" and "0 < window"
    and "limiter_allowed key limit window now st = (b, st')"
  shows "limiter_tracks key window st' (admitted @ (if b then [now] else [])) now"
proof -
  obtain a where a: "limiter_distinct st" "sorted admitted" "\<forall>u \<in> set admitted. u \<le> t" "a \<le> t"
    "limiter_events key st = filter (\<lambda>u. a - seconds window < u) admitted"
    using assms(1) unfolding limiter_tracks_def by blast
  have "limiter_events key st' = filter (\<lambda>u. now - seconds window < u) (admitted @ (if b then [now] else []))"
    using limiter_allowed_recent(2) [OF a(1) assms(4) a(2) _ a(5)] a(4) assms(2,3)
    by (simp add: seconds_def)
  moreover have "limiter_distinct st'" using limiter_allowed_events(1) [OF a(1) assms(4)] .
  moreover have "sorted (admitted @ (if b then [now] else []))"
    "\<forall>u \<in> set (admitted @ (if b then [now] else [])). u \<le> now"
    using a(2,3) assms(2) by (auto simp: sorted_append)
  ultimately show ?thesis unfolding limiter_tracks_def by blast
qed

lemma limiter_tracks_other:
  assumes "limiter_tracks key window st admitted t" and "t \<le> now" and "k \<noteq> key"
    and "limiter_allowed k n w now st = (b, st')"
  shows "limiter_tracks key window st' admitted now"
proof -
  have "limiter_distinct st" using assms(1) unfolding limiter_tracks_def by blast
  note after = limiter_allowed_events(1,4) [OF this assms(4)]
  show ?thesis using assms(1-3) after(1) after(2) [of key] unfolding limiter_tracks_def
    by (metis order_trans)
qed

lemma limiter_run_tracks:
  assumes "limiter_run key limit window st admitted t" and "0 < window"
  shows "limiter_tracks key window st admitted t"
  using assms
proof (induction rule: limiter_run.induct)
  case (start t)
  then show ?case by (auto simp: limiter_tracks_def limiter_distinct_def limiter_events_def)
next
  case (admit st admitted t now st')
  then show ?case using limiter_tracks_step [of key window st admitted t now limit True st'] by simp
next
  case (refuse st admitted t now st')
  then show ?case using limiter_tracks_step [of key window st admitted t now limit False st'] by simp
next
  case (other st admitted t now k n w b st')
  then show ?case using limiter_tracks_other by blast
qed

lemma length_filter_le_of_imp:
  "(\<And>u. u \<in> set us \<Longrightarrow> P u \<Longrightarrow> Q u) \<Longrightarrow> length (filter P us) \<le> length (filter Q us)"
  by (induction us) (auto intro: le_SucI)

text \<open>
  Whatever the calls for other keys, however calls are spread and whatever cleanups run in
  between, every window of the length of the rule holds at most the allowed number of admitted calls.
\<close>

theorem limiter_window_bound:
  assumes "limiter_run key limit window st admitted t" and "0 < window"
  shows "length (filter (\<lambda>u. x - seconds window < u \<and> u \<le> x) admitted) \<le> limit"
  using assms
proof (induction arbitrary: x rule: limiter_run.induct)
  case (admit st admitted t now st')
  note tracks = limiter_run_tracks [OF admit.hyps(1) admit.prems, unfolded limiter_tracks_def]
  show ?case
  proof (cases "now \<le> x")
    case False
    then show ?thesis using admit.IH [OF admit.prems] by simp
  next
    case True
    obtain a where a: "limiter_distinct st" "sorted admitted" "a \<le> now"
      "limiter_events key st = filter (\<lambda>u. a - seconds window < u) admitted"
      using tracks admit.hyps(2) by (meson order_trans)
    have "length (filter (\<lambda>u. x - seconds window < u \<and> u \<le> x) admitted)
        \<le> length (filter (\<lambda>u. now - seconds window < u) admitted)"
      using True by (auto intro!: length_filter_le_of_imp)
    also have "\<dots> < limit" using limiter_allowed_recent(1) [OF a(1) admit.hyps(3) a(2,3,4)] by simp
    finally show ?thesis by simp
  qed
qed simp_all

text \<open>
  The cleanup of the limiter removes keys without events, but a call leaves at least one event under
  its key whenever the limit is positive, so that no key is ever removed and the table only grows.
\<close>

definition limiter_full :: "limiter \<Rightarrow> bool" where
  "limiter_full st \<longleftrightarrow> list_all (\<lambda>(k, es). es \<noteq> []) st"

lemma limiter_full_put: "limiter_full st \<Longrightarrow> es \<noteq> [] \<Longrightarrow> limiter_full (assoc_put st k es)"
  unfolding limiter_full_def by (induction st k es rule: assoc_put.induct) auto

lemma limiter_full_drop: "limiter_full st \<Longrightarrow> drop_empty_keys st = st"
  by (auto simp: limiter_full_def drop_empty_keys_def list_all_iff intro!: filter_True)

lemma limiter_never_forgets:
  assumes "limiter_full st" and "0 < limit" and "limiter_allowed key limit window now st = (b, st')"
  shows "limiter_full st' \<and> fst ` set st' = insert key (fst ` set st)"
proof -
  let ?es = "dropWhile (\<lambda>t. t \<le> now - seconds window) (limiter_events key st)"
  define es where "es = (if limit \<le> length ?es then ?es else ?es @ [now])"
  have "es \<noteq> []"
  proof (cases "limit \<le> length ?es")
    case True
    with assms(2) have "0 < length ?es" by (rule less_le_trans)
    with True show ?thesis unfolding es_def by (simp only: if_True length_greater_0_conv simp_thms)
  qed (simp add: es_def)
  moreover have "st' = assoc_put st key es \<or> st' = drop_empty_keys (assoc_put st key es)"
    using assms(3) by (auto simp: es_def limiter_allowed_def Let_def split: if_splits)
  ultimately have es: "es \<noteq> []" "st' = assoc_put st key es \<or> st' = drop_empty_keys (assoc_put st key es)"
    by blast+
  have full: "limiter_full (assoc_put st key es)" using assms(1) es(1) by (rule limiter_full_put)
  have "st' = assoc_put st key es" using es(2) limiter_full_drop [OF full] by auto
  with full show ?thesis by simp
qed

subsection \<open>Concrete sessions\<close>

definition sample_session :: "uuid \<Rightarrow> string \<Rightarrow> instant option \<Rightarrow> portal_session" where
  "sample_session i hash revoked = \<lparr>sess_id = i, sess_user_id = ''u1'', sess_owner_managed_user_id = None,
     sess_session_hash = hash, sess_csrf_hash = ''c'', sess_source_ip = [], sess_user_agent_digest = [],
     sess_created_at = 0, sess_last_seen_at = 0, sess_idle_expires_at = 100, sess_absolute_expires_at = 200,
     sess_reauthenticated_at = None, sess_revoked_at = revoked\<rparr>"

definition sample_request :: http_request where
  "sample_request = \<lparr>hreq_cookies = [(''h100_session'', ''r'')], hreq_headers = [],
     hreq_client_host = None, hreq_path = ''/api/v1/jobs'', hreq_query_params = []\<rparr>"

definition sample_session_db :: portal_db where
  "sample_session_db = empty_db\<lparr>t_users := [sample_user ''user''],
     t_sessions := [sample_session ''s1'' ''q'' (Some 5), sample_session ''s2'' ''r'' None]\<rparr>"

lemmas sample_session_defs = sample_session_db_def sample_session_def sample_request_def empty_db_def
  default_settings_def

lemma sample_load:
  "\<exists>c db'. load_context (\<lambda>s. s) default_settings 10 sample_request sample_session_db = (Inr c, db') \<and>
     ctx_user c = sample_user ''user'' \<and> ctx_session_raw c = ''r'' \<and> ctx_cli_token c = None \<and>
     ctx_delegation c = None \<and> map_option sess_id (ctx_session c) = Some ''s2''"
  by (simp add: load_context_def sample_session_defs cookie_def get_user_def sample_user_def scalar_def
      auth_required_def seen_row_def)

theorem authorized_request_sound_witness:
  "\<exists>c :: auth_context. has_permission (ctx_user c) ''self.jobs.read'' \<and> ctx_session_raw c = ''r''"
proof -
  obtain c db' where c: "load_context (\<lambda>s. s) default_settings 10 sample_request sample_session_db = (Inr c, db')"
    "ctx_user c = sample_user ''user''" "ctx_session_raw c = ''r''" "ctx_cli_token c = None"
    "ctx_delegation c = None"
    using sample_load by blast
  have "has_permission (ctx_user c) ''self.jobs.read''"
    by (simp add: c sample_user_permission role_permissions_eval PERMISSIONS_def)
  then have "permission_dependency (\<lambda>s. s) default_settings [] 10 ''self.jobs.read'' sample_request
      sample_session_db = (Inr c, db')"
    using c by (simp add: permission_dependency_def request_auth_context_def header_def sample_request_def
        check_permission_def is_cli_token_def is_delegated_def require_permission_def)
  from authorized_request_sound [OF this] c(3) show ?thesis by blast
qed

theorem dead_session_never_loads_witness:
  "\<exists>c :: auth_context. map_option sess_id (ctx_session c) = Some ''s2'' \<and> map_option sess_id (ctx_session c) \<noteq> Some ''s1''"
proof -
  obtain c db' where c: "load_context (\<lambda>s. s) default_settings 10 sample_request sample_session_db = (Inr c, db')"
    "map_option sess_id (ctx_session c) = Some ''s2''"
    using sample_load by blast
  have "map_option sess_id (ctx_session c) \<noteq> Some ''s1''"
    by (rule dead_session_never_loads [OF rtranclp.rtrancl_refl [of _ "(7, sample_session_db)"] _ _ _ _ c(1),
          where s = "sample_session ''s1'' ''q'' (Some 5)"])
      (simp_all add: sample_session_defs sessions_distinct_def get_session_def scalar_def dead_session_def)
  with c(2) show ?thesis by blast
qed

theorem limiter_window_bound_witness:
  "length (filter (\<lambda>u. 9 - seconds 60 < u \<and> u \<le> 9) [3]) \<le> 1"
proof (rule limiter_window_bound)
  have "limiter_run ''k'' 1 60 [(''k'', [3])] ([] @ [3]) 3"
    by (rule limiter_run.admit [OF limiter_run.start [of _ _ _ 0]])
      (simp_all add: limiter_allowed_def limiter_events_def)
  then show "limiter_run ''k'' 1 60 [(''k'', [3])] [3] 3" by simp
qed simp

theorem issued_credential_roundtrip_witness:
  "\<exists>c db'' d db' credential. load_delegated_context (\<lambda>s. s) 5
     (sample_request\<lparr>hreq_headers := [(''authorization'', ''Bearer '' @ credential)]\<rparr>) db' = (Inr c, db'') \<and>
     delegated_test_session_checks d \<and> ctx_user c = sample_user ''user'' \<and>
     set (delegated_scopes c) = {''self.jobs.read''}"
proof -
  let ?owner = "(sample_user ''platform_owner'')\<lparr>user_id := ''u2''\<rparr>"
  let ?db = "empty_db\<lparr>t_users := [sample_user ''user'', ?owner], t_managed_users := [sample_managed\<lparr>mu_portal_user_id := ''u1''\<rparr>]\<rparr>"
  let ?token = "replicate 64 CHR ''a''"
  obtain d credential db' where issue: "issue_delegated_test_session (\<lambda>s. s) ''d1'' ''a1'' ?token 0 ?owner
      (sample_user ''user'') [''self.jobs.read''] 600 [] [] ?db = (Inr (d, credential), db')"
    by (simp add: issue_delegated_test_session_def sample_user_def highest_role_eq role_names_def
        scalar_def sample_managed_def DELEGATED_TEST_SCOPES_def DELEGATED_TEST_MIN_TTL_SECONDS_def
        DELEGATED_TEST_MAX_TTL_SECONDS_def Let_def)
  let ?req = "sample_request\<lparr>hreq_headers := [(''authorization'', ''Bearer '' @ credential)]\<rparr>"
  have fresh: "\<forall>x \<in> set (t_delegated_sessions ?db). deleg_token_hash x \<noteq> credential"
    by (simp add: empty_db_def)
  have users: "get_user ?db (user_id ?owner) = Some ?owner"
    "get_user ?db (user_id (sample_user ''user'')) = Some (sample_user ''user'')"
    by (simp_all add: get_user_def sample_user_def scalar_def)
  have head: "header ?req ''authorization'' = Some (''Bearer '' @ credential)" by (simp add: header_def)
  have "(5 :: int) < 0 + seconds 600" "length ?token = 64" by (simp_all add: seconds_def)
  with issued_credential_roundtrip [OF issue fresh _ users head, of 5]
  obtain c db'' where "load_delegated_context (\<lambda>s. s) 5 ?req db' = (Inr c, db'')"
    "ctx_user c = sample_user ''user''" "set (delegated_scopes c) = {''self.jobs.read''}"
    "delegated_test_session_checks d"
    by (auto simp only: if_True list.set)
  then show ?thesis by blast
qed

end
