(* ===== verification/Operation_Routes.thy ===== *)
theory Operation_Routes
  imports Operation_Execution Auth_Service
begin

section \<open>The operation routes\<close>

text \<open>
  The HTTP half of \<open>routes/operations.py\<close>: \<open>create_operation\<close>, \<open>submit_operation\<close> and
  \<open>approve_operation\<close>, each behind \<open>permission_dependency('operations.write')\<close>, which has produced the
  context they take. A request that ends in an exception before its commit leaves the database as it
  was. The branch of \<open>create_operation\<close> for an \<open>IntegrityError\<close> of a concurrent creation is not
  modelled. Chinese texts are written in English.
\<close>

record operation_create_request =
  ocr_operation_type :: string
  ocr_target_type :: string
  ocr_target_id :: string
  ocr_request_summary :: string
  ocr_payload :: pyval
  ocr_idempotency_key :: string

record approval_request =
  apr_decision :: string
  apr_confirmation :: string
  apr_comment :: "string option"

definition actor_roles :: "auth_context \<Rightarrow> string" where
  "actor_roles context = join ''/'' (sort (map role_name (user_roles (ctx_user context))))"

definition route_audit :: "op_env \<Rightarrow> nat \<Rightarrow> http_request \<Rightarrow> auth_context \<Rightarrow> string \<Rightarrow> string \<Rightarrow> string \<Rightarrow>
    string \<Rightarrow> pyval \<Rightarrow> uuid \<Rightarrow> (portal_db, unit) action" where
  "route_audit env slot req context event object_type object_id outcome metadata i =
     effect (record_audit (oe_digest env) (oe_ids env slot) (oe_now env)
       \<lparr>ac_event_type = event, ac_actor = user_normalized_login (ctx_user context),
        ac_actor_role = actor_roles context, ac_source_ip = client_ip req, ac_user_agent = user_agent req,
        ac_object_type = object_type, ac_object_id = object_id, ac_result = outcome, ac_metadata = metadata,
        ac_operation_id = Some i\<rparr>)"

subsection \<open>The checks of the portal on a user plan\<close>

definition portal_conflict :: "string \<Rightarrow> string \<Rightarrow> pyval" where
  "portal_conflict code message = PDict [(''code'', PStr code), (''message'', PStr message)]"

definition portal_check :: "string \<Rightarrow> bool \<Rightarrow> string \<Rightarrow> string \<Rightarrow> pyval" where
  "portal_check check ok pass fail = PDict [(''check'', PStr check),
     (''status'', PStr (if ok then ''PASS'' else ''FAIL'')), (''detail'', PStr (if ok then pass else fail))]"

definition candidate_taken :: "pyval \<Rightarrow> portal_managed_user option \<Rightarrow> portal_db \<Rightarrow> bool" where
  "candidate_taken plan managed db =
     list_ex (\<lambda>(field, key). case py_int (dget plan key) of None \<Rightarrow> False
         | Some n \<Rightarrow> (case scalar (\<lambda>m. field m = Some n) (t_managed_users db) of None \<Rightarrow> False
             | Some row \<Rightarrow> map_option mu_id managed \<noteq> Some (mu_id row)))
       [(\<lambda>m. Some (mu_uid m), ''proposed_uid''), (\<lambda>m. Some (mu_gid m), ''proposed_gid''),
        (mu_project_id, ''proposed_project_id''), (mu_container_port, ''proposed_ssh_port'')]"

definition retained_history :: "string \<Rightarrow> portal_db \<Rightarrow> bool" where
  "retained_history username db \<longleftrightarrow> scalar (\<lambda>a. aud_object_id a = username \<and>
     list_ex (\<lambda>w. contains w (casefold (aud_event_type a))) [''decommission'', ''depart'', ''delete''])
     (t_audit_events db) \<noteq> None"

definition enrich_user_plan_with_portal_state :: "pyval \<Rightarrow> portal_db \<Rightarrow> uuid \<Rightarrow> pyval result" where
  "enrich_user_plan_with_portal_state plan db requested_by =
     (case (iter_values (dget_or plan ''conflicts'' (PList [])),
            iter_values (dget_or plan ''validation_results'' (PList []))) of
        (Some cs, Some vs) \<Rightarrow>
          let username = py_str (dget_or plan ''proposed_username'' (PStr []));
              managed = scalar (\<lambda>m. mu_unix_username m = username) (t_managed_users db);
              login = scalar (\<lambda>u. user_normalized_login u = username) (t_users db);
              history = retained_history username db;
              conflicts = filter is_dict cs @
                (if managed \<noteq> None then [portal_conflict ''PORTAL_MANAGED_USER_CONFLICT'' ''managed identity exists''] else []) @
                (if login \<noteq> None then [portal_conflict ''PORTAL_LOGIN_CONFLICT'' ''login exists''] else []) @
                (if history then [portal_conflict ''RETAINED_IDENTITY_HISTORY'' ''retained history''] else []) @
                (if candidate_taken plan managed db
                 then [portal_conflict ''PORTAL_RESOURCE_RESERVATION_CONFLICT'' ''candidate is registered''] else []);
              checks = filter is_dict vs @
                [portal_check ''portal_managed_identity_absent'' (managed = None) ''only a plan'' ''managed identity exists'',
                 portal_check ''portal_login_name_available'' (login = None) ''login unused'' ''login exists'',
                 portal_check ''retained_identity_history_absent'' (\<not> history) ''no retained record'' ''retained record''];
              status = (if conflicts = [] \<and> has_eq plan ''plan_status'' (PStr ''READY'') then ''READY'' else ''CONFLICT'') in
          Inr (PDict (dict_update (dict_items plan)
            ([(''portal_database_checks'', PDict [(''requested_by'', PStr requested_by),
                (''managed_identity_created'', PBool False), (''candidate_values_reserved'', PBool False)]),
              (''validation_results'', PList checks), (''conflicts'', PList conflicts), (''plan_status'', PStr status)] @
             (if status \<noteq> ''READY''
              then [(''execution_blocked_reason'', PStr ''portal or host conflict; nothing was written'')] else []))))
      | _ \<Rightarrow> Inl (TypeError ''not iterable''))"

subsection \<open>Creating an operation\<close>

definition http_of :: "int \<Rightarrow> exn \<Rightarrow> exn" where
  "http_of status e = HTTPException status
     (case e of OperationPayloadError code \<Rightarrow> code | _ \<Rightarrow> ''PAYLOAD_REJECTED'')"

definition fixed_console_code :: "string \<Rightarrow> string option" where
  "fixed_console_code operation_type =
     (if operation_type \<in> set [''user.ssh_client_validation.record'', ''user.pilot.acceptance'']
      then Some ''PORTAL3F_FIXED_CONSOLE_ONLY''
      else if operation_type = ''slurm.production_pilot.start'' then Some ''PORTAL3G_FIXED_CONSOLE_ONLY'' else None)"

text \<open>Everything \<open>create_operation\<close> refuses before it looks for an earlier operation: the safe target,
the validated payload and the key records of an activation.\<close>

definition create_checks :: "pydantic \<Rightarrow> operation_create_request \<Rightarrow> auth_context \<Rightarrow> portal_db \<Rightarrow>
    (string \<times> pyval \<times> portal_ssh_key list) result" where
  "create_checks pyd body context db =
     (let kind = ocr_operation_type body in
      if kind \<notin> set WRITE_OPERATION_TYPES then Inl (HTTPException 422 ''OPERATION_NOT_WRITABLE'')
      else case fixed_console_code kind of Some code \<Rightarrow> Inl (HTTPException 409 code)
      | None \<Rightarrow>
        (case map_of OPERATION_PERMISSIONS kind of None \<Rightarrow> Inl (HTTPException 403 ''FORBIDDEN'')
         | Some permission \<Rightarrow>
           (case require_permission (ctx_user context) permission of Inl e \<Rightarrow> Inl e
            | Inr _ \<Rightarrow>
              (case safe_target (ocr_target_id body) of Inl e \<Rightarrow> Inl (http_of 422 e)
               | Inr target \<Rightarrow>
                 (case validate_operation_payload pyd kind (ocr_payload body) of Inl e \<Rightarrow> Inl (http_of 422 e)
                  | Inr validated \<Rightarrow>
                    if kind = ''user.plan'' \<and> target \<noteq> ''origin-pilot''
                    then Inl (HTTPException 422 ''PLAN_TARGET_REJECTED'')
                    else if kind \<in> set [''user.stage'', ''user.activate''] \<and> target \<noteq> ''origin-pilot''
                    then Inl (HTTPException 422 ''LIFECYCLE_TARGET_REJECTED'')
                    else if kind = ''user.activate''
                    then (case validate_activate_database_bindings db (user_id (ctx_user context)) target validated of
                        Inl e \<Rightarrow> Inl (http_of 409 e)
                      | Inr records \<Rightarrow> Inr (target, validated, records))
                    else Inr (target, validated, []))))))"

definition draft_operation :: "op_env \<Rightarrow> operation_create_request \<Rightarrow> auth_context \<Rightarrow>
    string \<times> pyval \<times> portal_ssh_key list \<Rightarrow> portal_operation" where
  "draft_operation env body context checked =
     (case checked of (target, validated, records) \<Rightarrow>
      \<lparr>oper_id = oe_ids env 0, oper_operation_type = ocr_operation_type body,
       oper_target_type = ocr_target_type body, oper_target_id = target,
       oper_requested_by = user_id (ctx_user context),
       oper_owner_managed_user_id = (case records of [] \<Rightarrow> None | r # _ \<Rightarrow> Some (key_managed_user_id r)),
       oper_approved_by = None, oper_request_summary = take 500 (ocr_request_summary body),
       oper_validated_payload = safe_metadata validated [], oper_idempotency_key = ocr_idempotency_key body,
       oper_risk_level = risk_for (ocr_operation_type body), oper_status = OP_DRAFT,
       oper_created_at = oe_now env, oper_approved_at = None, oper_started_at = None, oper_finished_at = None,
       oper_worker_execution_id = None, oper_dry_run_result = PNone, oper_result_summary = None,
       oper_error_code = None, oper_rollback_status = None, oper_related_report = None,
       oper_related_git_commit = None\<rparr>)"

definition planned_types :: "string list" where
  "planned_types = [''user.plan'', ''user.stage'', ''user.activate'']"

definition plan_request :: "operation_create_request \<Rightarrow> auth_context \<Rightarrow> pyval \<Rightarrow> operation_call" where
  "plan_request body context validated = \<lparr>wr_operation_type = ocr_operation_type body, wr_payload = validated,
     wr_requested_by = user_normalized_login (ctx_user context), wr_approved_by = None,
     wr_idempotency_key = ocr_idempotency_key body, wr_dry_run = True, wr_timeout_seconds = 25\<rparr>"

definition lifecycle_status :: "pyval \<Rightarrow> string \<Rightarrow> pyval" where
  "lifecycle_status plan dflt = dget_or plan ''plan_status'' (dget_or plan ''stage_status'' (PStr dflt))"

definition plan_recorded :: "pyval \<Rightarrow> string \<Rightarrow> portal_operation \<Rightarrow> portal_operation" where
  "plan_recorded plan kind o' =
     (let ready = py_eq (lifecycle_status plan ''READY'') (PStr ''READY'') in
      o'\<lparr>oper_dry_run_result := safe_metadata plan [],
        oper_result_summary := Some (kind @ (if ready then '' dry-run verified; nothing was written''
          else '' dry-run found conflicts; nothing was written'')),
        oper_error_code := (if ready then oper_error_code o' else Some ''PLAN_CONFLICT'')\<rparr>)"

text \<open>
  What the worker's plan writes into the row of a drafted operation, and the plan the audit entry
  reports; there is no entry when the worker cannot be reached.
\<close>

definition plan_effect :: "auth_context \<Rightarrow> operation_create_request \<Rightarrow> portal_ssh_key list \<Rightarrow> string + pyval \<Rightarrow>
    portal_db \<Rightarrow> ((portal_operation \<Rightarrow> portal_operation) \<times> pyval option) result" where
  "plan_effect context body records answer db =
     (let kind = ocr_operation_type body in
      case answer of
        Inl code \<Rightarrow> Inr (\<lambda>o'. o'\<lparr>oper_error_code := Some (take 64 code),
          oper_result_summary := Some ''controlled worker unavailable; nothing was written'',
          oper_dry_run_result := PDict [(''status'', PStr ''UNKNOWN''), (''plan_status'', PStr ''CONFLICT''),
            (''execution_enabled'', PBool False), (''conflicts'',
             PList [PDict [(''code'', PStr (take 64 code)), (''message'', PStr ''worker unavailable'')]])]\<rparr>, None)
      | Inr plan \<Rightarrow>
          if has_eq plan ''status'' (PStr ''DRY_RUN'')
          then (case (if kind = ''user.activate'' then validate_activate_worker_result records plan else Inr ()) of
              Inl e \<Rightarrow> Inl (http_of 409 e)
            | Inr _ \<Rightarrow>
              (case (if kind = ''user.plan''
                     then enrich_user_plan_with_portal_state plan db (user_id (ctx_user context)) else Inr plan) of
                 Inl e \<Rightarrow> Inl e
               | Inr plan \<Rightarrow> Inr (plan_recorded plan kind, Some plan)))
          else let error = dget_or plan ''error'' (PDict []) in
            if \<not> is_dict error then Inl (AttributeError ''get'')
            else Inr (\<lambda>o'. o'\<lparr>oper_dry_run_result := safe_metadata plan [],
                oper_error_code := Some (take 64 (py_str (dget_or error ''code'' (PStr ''WORKER_FAILED'')))),
                oper_result_summary := Some ''worker could not plan; nothing was written''\<rparr>, Some plan))"

definition plan_audit :: "op_env \<Rightarrow> http_request \<Rightarrow> auth_context \<Rightarrow> string \<Rightarrow> uuid \<Rightarrow> pyval option \<Rightarrow>
    (portal_db, unit) action" where
  "plan_audit env req context kind i plan = (case plan of None \<Rightarrow> effect (\<lambda>db. db)
     | Some plan \<Rightarrow> route_audit env 1 req context
         (if kind = ''user.plan'' then ''worker.plan'' else ''worker.dry_run'') ''compute_identity_plan''
         ''origin-pilot'' (if has_eq plan ''status'' (PStr ''DRY_RUN'') then ''DRY_RUN'' else ''FAILED'')
         (PDict [(''operation_type'', PStr kind), (''plan_status'', lifecycle_status plan ''UNKNOWN'')]) i)"

definition plan_draft :: "op_env \<Rightarrow> http_request \<Rightarrow> auth_context \<Rightarrow> operation_create_request \<Rightarrow>
    portal_ssh_key list \<Rightarrow> uuid \<Rightarrow> string + pyval \<Rightarrow> (portal_db, unit) action" where
  "plan_draft env req context body records i answer db =
     (case plan_effect context body records answer db of Inl e \<Rightarrow> (Inl e, db)
      | Inr (f, plan) \<Rightarrow> run_actions [set_operation i f,
          plan_audit env req context (ocr_operation_type body) i plan] db)"

definition draft_event :: "op_env \<Rightarrow> uuid \<Rightarrow> portal_operation_event" where
  "draft_event env i = \<lparr>oev_id = oe_ids env 2, oev_operation_id = i, oev_from_status = None,
     oev_to_status = status_value OP_DRAFT,
     oev_safe_message = ''Operation draft created; no host action executed'', oev_created_at = oe_now env\<rparr>"

definition draft_actions :: "op_env \<Rightarrow> op_worker \<Rightarrow> http_request \<Rightarrow> operation_create_request \<Rightarrow> auth_context \<Rightarrow>
    string \<times> pyval \<times> portal_ssh_key list \<Rightarrow> (portal_db, unit) action list" where
  "draft_actions env worker req body context checked =
     (let operation = draft_operation env body context checked; i = oper_id operation in
      [effect (add_operation operation),
       (if ocr_operation_type body \<in> set planned_types
        then plan_draft env req context body (snd (snd checked)) i
          (worker (plan_request body context (fst (snd checked))))
        else effect (\<lambda>db. db)),
       effect (add_operation_event (draft_event env i)),
       route_audit env 3 req context ''operation.draft'' ''operation'' i ''SUCCESS''
         (PDict [(''operation_type'', PStr (ocr_operation_type body)),
           (''target_type'', PStr (ocr_target_type body))]) i])"

definition create_operation :: "op_env \<Rightarrow> auth_settings \<Rightarrow> op_worker \<Rightarrow> http_request \<Rightarrow> operation_create_request \<Rightarrow>
    auth_context \<Rightarrow> portal_db \<Rightarrow> uuid result \<times> operation_call list \<times> portal_db" where
  "create_operation env settings worker req body context db =
     (case require_session_csrf (oe_digest env) settings req context of Inl e \<Rightarrow> (Inl e, [], db)
      | Inr _ \<Rightarrow>
        (case create_checks (oe_pydantic env) body context db of Inl e \<Rightarrow> (Inl e, [], db)
         | Inr checked \<Rightarrow>
           (case scalar (\<lambda>o'. oper_requested_by o' = user_id (ctx_user context) \<and>
                oper_idempotency_key o' = ocr_idempotency_key body) (t_operations db) of
              Some existing \<Rightarrow> (Inr (oper_id existing), [], db)
            | None \<Rightarrow>
              let calls = (if ocr_operation_type body \<in> set planned_types
                then [plan_request body context (fst (snd checked))] else []) in
              (case run_actions (draft_actions env worker req body context checked) db of
                 (Inl e, _) \<Rightarrow> (Inl e, calls, db)
               | (Inr _, db') \<Rightarrow> (Inr (oe_ids env 0), calls, db')))))"

subsection \<open>Submitting and deciding\<close>

definition named_operation :: "string \<Rightarrow> portal_db \<Rightarrow> portal_operation option" where
  "named_operation operation_id db = (case uuid_of operation_id of None \<Rightarrow> None | Some i \<Rightarrow> get_operation db i)"

definition reauthenticated_for :: "op_env \<Rightarrow> auth_settings \<Rightarrow> auth_context \<Rightarrow> portal_operation \<Rightarrow> unit result" where
  "reauthenticated_for env settings context operation =
     (if oper_operation_type operation \<in> set HIGH_RISK_OPERATION_TYPES
      then require_recent_reauthentication settings (oe_now env) context else Inr ())"

definition submit_operation :: "op_env \<Rightarrow> auth_settings \<Rightarrow> http_request \<Rightarrow> string \<Rightarrow> string \<Rightarrow> auth_context \<Rightarrow>
    (portal_db, uuid) action" where
  "submit_operation env settings req operation_id confirmation context db =
     (case require_session_csrf (oe_digest env) settings req context of Inl e \<Rightarrow> (Inl e, db)
      | Inr _ \<Rightarrow>
        (case named_operation operation_id db of None \<Rightarrow> (Inl (HTTPException 404 ''OPERATION_NOT_FOUND''), db)
         | Some operation \<Rightarrow>
           if oper_status operation \<noteq> OP_DRAFT then (Inl (HTTPException 409 ''INVALID_OPERATION_STATE''), db)
           else if oper_operation_type operation \<in> set [''user.stage'', ''user.activate'']
           then (Inl (HTTPException 409 ''LIFECYCLE_APPROVAL_GATE_CLOSED''), db)
           else if confirmation \<noteq> oper_target_id operation
           then (Inl (HTTPException 428 ''CONFIRMATION_REQUIRED''), db)
           else case reauthenticated_for env settings context operation of Inl e \<Rightarrow> (Inl e, db)
             | Inr _ \<Rightarrow>
               let i = oper_id operation in
               (case run_actions
                  [transition env 0 i OP_PENDING_APPROVAL ''submitted for dry-run approval'',
                   route_audit env 1 req context ''operation.submit'' ''operation'' i ''SUCCESS''
                     (PDict [(''operation_type'', PStr (oper_operation_type operation)),
                       (''execution_mode'', PStr ''dry-run'')]) i] db of
                  (Inl e, _) \<Rightarrow> (Inl e, db) | (Inr _, db') \<Rightarrow> (Inr i, db'))))"

definition approval_row :: "op_env \<Rightarrow> auth_context \<Rightarrow> approval_request \<Rightarrow> uuid \<Rightarrow> portal_operation_approval" where
  "approval_row env context body i = \<lparr>oapp_id = oe_ids env 0, oapp_operation_id = i,
     oapp_approver_id = user_id (ctx_user context), oapp_decision = apr_decision body,
     oapp_safe_comment = Some (take 500 (case apr_comment body of None \<Rightarrow> [] | Some c \<Rightarrow> c)),
     oapp_decided_at = oe_now env\<rparr>"

definition decided :: "op_env \<Rightarrow> auth_context \<Rightarrow> approval_request \<Rightarrow> uuid \<Rightarrow> (portal_db, unit) action" where
  "decided env context body i =
     (if apr_decision body = ''REJECT'' then transition env 1 i OP_CANCELLED ''approval rejected''
      else run_actions
        [set_operation i (\<lambda>o'. o'\<lparr>oper_approved_by := Some (user_id (ctx_user context)),
           oper_approved_at := Some (oe_now env)\<rparr>),
         transition env 1 i OP_APPROVED ''approval granted'',
         transition env 2 i OP_QUEUED ''queued for controlled Worker dry-run''])"

definition approve_operation :: "op_env \<Rightarrow> auth_settings \<Rightarrow> http_request \<Rightarrow> string \<Rightarrow> approval_request \<Rightarrow> auth_context \<Rightarrow>
    (portal_db, uuid) action" where
  "approve_operation env settings req operation_id body context db =
     (case require_session_csrf (oe_digest env) settings req context of Inl e \<Rightarrow> (Inl e, db)
      | Inr _ \<Rightarrow>
        (case named_operation operation_id db of None \<Rightarrow> (Inl (HTTPException 404 ''OPERATION_NOT_FOUND''), db)
         | Some operation \<Rightarrow>
           if oper_status operation \<noteq> OP_PENDING_APPROVAL
           then (Inl (HTTPException 409 ''INVALID_OPERATION_STATE''), db)
           else if apr_confirmation body \<noteq> oper_target_id operation
           then (Inl (HTTPException 428 ''CONFIRMATION_REQUIRED''), db)
           else case reauthenticated_for env settings context operation of Inl e \<Rightarrow> (Inl e, db)
             | Inr _ \<Rightarrow>
               let i = oper_id operation in
               (case run_actions
                  [effect (add_operation_approval (approval_row env context body i)),
                   decided env context body i,
                   route_audit env 3 req context ''operation.approval_simulation'' ''operation'' i
                     (apr_decision body) (PDict [(''decision'', PStr (apr_decision body)),
                       (''execution_mode'', PStr ''dry-run'')]) i] db of
                  (Inl e, _) \<Rightarrow> (Inl e, db) | (Inr _, db') \<Rightarrow> (Inr i, db'))))"

text \<open>The response queues \<open>execute_operation\<close> as a background task when the decision is not a rejection.\<close>

subsection \<open>Listing\<close>

text \<open>The newest 500 operations, without the internal steps, and of them 200; \<open>operation_response\<close> formats a row.\<close>

definition internal_step :: "portal_operation \<Rightarrow> bool" where
  "internal_step o1 \<longleftrightarrow> has_eq (oper_validated_payload o1) ''visibility'' (PStr ''INTERNAL_STEP'')"

definition list_operations :: "portal_db \<Rightarrow> portal_operation list" where
  "list_operations db = take 200 (filter (Not \<circ> internal_step)
     (take 500 (sort_key (\<lambda>o1. - oper_created_at o1) (t_operations db))))"

end
