(* ===== verification/Compute_Requests.thy ===== *)
theory Compute_Requests
  imports Operation_Routes Provision_Reconciliation
begin

section \<open>Compute requests: submission and review\<close>

text \<open>
  The first part of \<open>routes/compute_requests.py\<close>: what every route shares, and the routes by which a
  user asks for a compute environment and an administrator decides. \<open>compute_call\<close> holds what a
  request carries besides the database: the environment, the request, the context of the permission
  check, the worker, the version of the deployment, and the operation of the running orchestration
  (\<open>_ORCHESTRATION_OPERATION_ID\<close>). \<open>commit\<close> is \<open>db.commit()\<close> with the constraints of the tables these
  routes write (primary keys, UNIQUE and CHECK); a violation leaves the database as it was before. The row of the allocator lock has
  no other content than its version and is left out.
\<close>

record compute_call =
  cc_env :: op_env
  cc_settings :: auth_settings
  cc_request :: http_request
  cc_context :: auth_context
  cc_worker :: op_worker
  cc_version :: string
  cc_parent :: "uuid option"

definition cc_now :: "compute_call \<Rightarrow> instant" where
  "cc_now c = oe_now (cc_env c)"

definition cc_id :: "compute_call \<Rightarrow> nat \<Rightarrow> uuid" where
  "cc_id c slot = oe_ids (cc_env c) slot"

definition cc_user :: "compute_call \<Rightarrow> portal_user" where
  "cc_user c = ctx_user (cc_context c)"

definition cc_csrf :: "compute_call \<Rightarrow> unit result" where
  "cc_csrf c = require_session_csrf (oe_digest (cc_env c)) (cc_settings c) (cc_request c) (cc_context c)"

definition cc_recent :: "compute_call \<Rightarrow> unit result" where
  "cc_recent c = require_recent_reauthentication (cc_settings c) (cc_now c) (cc_context c)"

subsection \<open>Constants\<close>

definition STANDARD_STORAGE_BYTES :: int where
  "STANDARD_STORAGE_BYTES = 300 * 1024 ^ 3"

definition STANDARD_LEASE_SECONDS :: int where
  "STANDARD_LEASE_SECONDS = 96 * 60 * 60"

definition RESERVATION_LIFETIME :: instant where
  "RESERVATION_LIFETIME = seconds (24 * 60 * 60)"

definition PROTECTED_USERNAMES :: "string list" where
  "PROTECTED_USERNAMES = [''root'', ''origin-al'', ''codexops'']"

subsection \<open>The commit\<close>

definition present_values :: "('r \<Rightarrow> 'v option) \<Rightarrow> 'r list \<Rightarrow> 'v list" where
  "present_values f rows = List.map_filter f rows"

definition requests_constrained :: "portal_compute_resource_request list \<Rightarrow> bool" where
  "requests_constrained rows \<longleftrightarrow> list_all compute_resource_request_checks rows \<and> distinct (map crr_id rows) \<and>
     distinct (present_values (\<lambda>r. map_option (Pair (crr_portal_account_id r)) (crr_active_slot r)) rows)"

definition plans_constrained :: "portal_provision_plan list \<Rightarrow> bool" where
  "plans_constrained rows \<longleftrightarrow> list_all provision_plan_checks rows \<and> distinct (map plan_id rows) \<and>
     distinct (map (\<lambda>p. (plan_request_id p, plan_attempt_number p)) rows) \<and>
     distinct (present_values plan_previous_plan_id rows) \<and>
     distinct (present_values plan_failed_stage_operation_id rows) \<and>
     distinct (present_values plan_retry_authorization_operation_id rows)"

definition reservations_constrained :: "portal_resource_reservation list \<Rightarrow> bool" where
  "reservations_constrained rows \<longleftrightarrow> list_all resource_reservation_checks rows \<and> distinct (map resv_id rows) \<and>
     distinct (present_values resv_active_key rows) \<and>
     distinct (map (\<lambda>r. (resv_plan_id r, resv_resource_type r)) rows)"

definition operations_constrained :: "portal_operation list \<Rightarrow> bool" where
  "operations_constrained rows \<longleftrightarrow> distinct (map oper_id rows) \<and>
     distinct (map (\<lambda>o1. (oper_requested_by o1, oper_idempotency_key o1)) rows)"

definition identities_constrained :: "portal_managed_user list \<Rightarrow> bool" where
  "identities_constrained rows \<longleftrightarrow> list_all managed_user_checks rows \<and> distinct (map mu_id rows) \<and>
     distinct (map mu_portal_user_id rows) \<and>
     distinct (map mu_unix_username rows) \<and> distinct (map mu_uid rows) \<and> distinct (map mu_gid rows) \<and>
     distinct (present_values mu_project_id rows) \<and> distinct (present_values mu_container_name rows) \<and>
     distinct (present_values mu_container_port rows)"

definition environments_constrained :: "portal_container list \<Rightarrow> portal_storage_resource list \<Rightarrow> bool" where
  "environments_constrained cs ss \<longleftrightarrow> list_all container_checks cs \<and> distinct (map cont_id cs) \<and>
     distinct (map cont_name cs) \<and> distinct (present_values cont_ssh_port cs) \<and>
     list_all storage_resource_checks ss \<and> distinct (map stor_id ss) \<and>
     distinct (map stor_owner_managed_user_id ss) \<and> distinct (map stor_root_path ss)"

definition provision_constraints :: "portal_db \<Rightarrow> bool" where
  "provision_constraints db \<longleftrightarrow> requests_constrained (t_resource_requests db) \<and>
     plans_constrained (t_provision_plans db) \<and> reservations_constrained (t_reservations db) \<and>
     operations_constrained (t_operations db) \<and> identities_constrained (t_managed_users db) \<and>
     environments_constrained (t_containers db) (t_storage_resources db)"

definition commit :: "exn \<Rightarrow> 'a \<Rightarrow> portal_db \<Rightarrow> portal_db \<Rightarrow> 'a result \<times> portal_db" where
  "commit conflict answer before after =
     (if provision_constraints after then (Inr answer, after) else (Inl conflict, before))"

definition unhandled :: exn where
  "unhandled = IntegrityError ''constraint''"

subsection \<open>Entries and operations\<close>

definition request_id_of :: "string \<Rightarrow> uuid result" where
  "request_id_of text = (case uuid_of text of None \<Rightarrow> Inl (HTTPException 404 ''COMPUTE_REQUEST_NOT_FOUND'')
     | Some i \<Rightarrow> Inr i)"

definition compute_audit :: "compute_call \<Rightarrow> nat \<Rightarrow> string \<Rightarrow> string \<Rightarrow> string \<Rightarrow> string \<Rightarrow> pyval \<Rightarrow> uuid option \<Rightarrow>
    portal_db \<Rightarrow> portal_db" where
  "compute_audit c slot event object_type object_id outcome metadata operation =
     (case cc_parent c of
        Some parent \<Rightarrow>
          if operation \<noteq> Some parent
          then operation_event (cc_id c slot) (cc_now c) parent (Some OP_RUNNING) OP_RUNNING
            (take 1000 (''Internal step '' @ event @ '': '' @ outcome))
          else record_audit (oe_digest (cc_env c)) (cc_id c slot) (cc_now c)
            \<lparr>ac_event_type = event, ac_actor = user_normalized_login (cc_user c),
             ac_actor_role = highest_role (cc_user c), ac_source_ip = client_ip (cc_request c),
             ac_user_agent = user_agent (cc_request c), ac_object_type = object_type, ac_object_id = object_id,
             ac_result = outcome, ac_metadata = metadata, ac_operation_id = operation\<rparr>
      | None \<Rightarrow> record_audit (oe_digest (cc_env c)) (cc_id c slot) (cc_now c)
          \<lparr>ac_event_type = event, ac_actor = user_normalized_login (cc_user c),
           ac_actor_role = highest_role (cc_user c), ac_source_ip = client_ip (cc_request c),
           ac_user_agent = user_agent (cc_request c), ac_object_type = object_type, ac_object_id = object_id,
           ac_result = outcome, ac_metadata = metadata, ac_operation_id = operation\<rparr>)"

definition internal_payload :: "compute_call \<Rightarrow> (string \<times> pyval) list \<Rightarrow> pyval" where
  "internal_payload c payload = PDict (case cc_parent c of None \<Rightarrow> payload
     | Some parent \<Rightarrow> dict_update payload [(''parent_operation_id'', PStr parent),
         (''visibility'', PStr ''INTERNAL_STEP'')])"

text \<open>The completed operation a step leaves, and its first event; its identifier is in slot 0.\<close>

definition compute_operation :: "compute_call \<Rightarrow> string \<Rightarrow> uuid \<Rightarrow> string \<Rightarrow> string \<Rightarrow> (string \<times> pyval) list \<Rightarrow>
    string \<Rightarrow> risk_level \<Rightarrow> portal_operation" where
  "compute_operation c operation_type target key summary payload outcome risk =
     \<lparr>oper_id = cc_id c 0, oper_operation_type = operation_type, oper_target_type = ''compute_resource_request'',
      oper_target_id = target, oper_requested_by = user_id (cc_user c), oper_owner_managed_user_id = None,
      oper_approved_by = Some (user_id (cc_user c)), oper_request_summary = summary,
      oper_validated_payload = internal_payload c payload,
      oper_idempotency_key = operation_type @ '':'' @ key, oper_risk_level = risk, oper_status = OP_SUCCEEDED,
      oper_created_at = cc_now c, oper_approved_at = Some (cc_now c), oper_started_at = Some (cc_now c),
      oper_finished_at = Some (cc_now c), oper_worker_execution_id = None, oper_dry_run_result = PNone,
      oper_result_summary = Some outcome, oper_error_code = None, oper_rollback_status = None,
      oper_related_report = None, oper_related_git_commit = None\<rparr>"

definition add_compute_operation :: "compute_call \<Rightarrow> portal_operation \<Rightarrow> portal_db \<Rightarrow> portal_db" where
  "add_compute_operation c operation db =
     operation_event (cc_id c 1) (cc_now c) (oper_id operation) None (oper_status operation)
       (case oper_result_summary operation of None \<Rightarrow> ''Fixed compute request operation completed'' | Some s \<Rightarrow> s)
       (add_operation operation db)"

subsection \<open>Who may act on a request\<close>

definition owned_request :: "portal_db \<Rightarrow> uuid \<Rightarrow> uuid \<Rightarrow> portal_compute_resource_request result" where
  "owned_request db i owner =
     (case scalar (\<lambda>r. crr_id r = i \<and> crr_portal_account_id r = owner) (t_resource_requests db) of
        None \<Rightarrow> Inl (HTTPException 404 ''COMPUTE_REQUEST_NOT_FOUND'') | Some r \<Rightarrow> Inr r)"

definition admin_request :: "portal_db \<Rightarrow> uuid \<Rightarrow> portal_compute_resource_request result" where
  "admin_request db i = (case get_request db i of
     None \<Rightarrow> Inl (HTTPException 404 ''COMPUTE_REQUEST_NOT_FOUND'') | Some r \<Rightarrow> Inr r)"

definition deny_self_administration :: "portal_compute_resource_request \<Rightarrow> compute_call \<Rightarrow> exn option" where
  "deny_self_administration item c = refuse_if [(crr_portal_account_id item = user_id (cc_user c),
     HTTPException 403 ''COMPUTE_REQUEST_SELF_ADMINISTRATION_DENIED'')]"

definition assert_identity_only :: "portal_db \<Rightarrow> portal_user \<Rightarrow> exn option" where
  "assert_identity_only db account = refuse_if
     [(user_account_state account \<noteq> AS_ACTIVE \<or> user_password_state account \<noteq> PS_SET,
       HTTPException 409 ''PORTAL_ACCOUNT_NOT_READY''),
      (scalar (\<lambda>m. mu_portal_user_id m = user_id account) (t_managed_users db) \<noteq> None \<or>
         user_resource_onboarding_state account \<noteq> OB_NOT_ENROLLED,
       HTTPException 409 ''COMPUTE_ALREADY_PROVISIONED''),
      (scalar (\<lambda>m. mu_unix_username m = user_normalized_login account) (t_managed_users db) \<noteq> None,
       HTTPException 409 ''COMPUTE_USERNAME_CONFLICT''),
      (user_normalized_login account \<in> set PROTECTED_USERNAMES, HTTPException 409 ''COMPUTE_USERNAME_PROTECTED'')]"

text \<open>The request of a route for administrators: parsed, found, and not of the administrator himself.\<close>

definition administered_request :: "compute_call \<Rightarrow> string \<Rightarrow> portal_db \<Rightarrow> portal_compute_resource_request result" where
  "administered_request c text_id db =
     (case request_id_of text_id of Inl e \<Rightarrow> Inl e
      | Inr i \<Rightarrow> (case admin_request db i of Inl e \<Rightarrow> Inl e
        | Inr item \<Rightarrow> (case deny_self_administration item c of Some e \<Rightarrow> Inl e | None \<Rightarrow> Inr item)))"

definition applicant :: "portal_db \<Rightarrow> portal_compute_resource_request \<Rightarrow> portal_user result" where
  "applicant db item =
     (case get_user db (crr_portal_account_id item) of None \<Rightarrow> Inl (HTTPException 409 ''PORTAL_ACCOUNT_NOT_FOUND'')
      | Some account \<Rightarrow> (case assert_identity_only db account of Some e \<Rightarrow> Inl e | None \<Rightarrow> Inr account))"

subsection \<open>Submitting and withdrawing\<close>

record compute_request_create =
  rqc_gpu_max :: int
  rqc_storage_bytes :: int
  rqc_container_profile :: string
  rqc_lease_seconds :: int
  rqc_purpose :: string
  rqc_user_note :: "string option"
  rqc_idempotency_key :: string

definition new_request :: "compute_call \<Rightarrow> compute_request_create \<Rightarrow> portal_user \<Rightarrow> portal_compute_resource_request" where
  "new_request c body account =
     \<lparr>crr_id = cc_id c 10, crr_portal_account_id = user_id account, crr_requested_by = user_id account,
      crr_managed_user_id = None, crr_username = user_normalized_login account, crr_status = ''REQUESTED'',
      crr_active_slot = Some 1, crr_requested_gpu_max = rqc_gpu_max body,
      crr_requested_storage_bytes = rqc_storage_bytes body,
      crr_requested_container_profile = rqc_container_profile body,
      crr_requested_lease_seconds = rqc_lease_seconds body, crr_purpose = rqc_purpose body,
      crr_user_note = rqc_user_note body, crr_submitted_at = Some (cc_now c), crr_reviewed_at = None,
      crr_reviewed_by = None, crr_review_note = None, crr_approved_at = None, crr_rejected_at = None,
      crr_cancelled_at = None, crr_provision_plan_id = None, crr_created_at = cc_now c,
      crr_updated_at = cc_now c, crr_version = 1\<rparr>"

definition request_terms :: "portal_compute_resource_request \<Rightarrow> (string \<times> pyval) list" where
  "request_terms item = [(''gpu_max'', PInt (crr_requested_gpu_max item)),
     (''storage_bytes'', PInt (crr_requested_storage_bytes item)),
     (''container_profile'', PStr (crr_requested_container_profile item)),
     (''lease_seconds'', PInt (crr_requested_lease_seconds item))]"

definition submission_refusal :: "portal_db \<Rightarrow> portal_user \<Rightarrow> exn option" where
  "submission_refusal db account =
     (case assert_identity_only db account of Some e \<Rightarrow> Some e
      | None \<Rightarrow> refuse_if
          [(scalar (\<lambda>r. crr_portal_account_id r = user_id account \<and> crr_active_slot r = Some 1)
              (t_resource_requests db) \<noteq> None,
            HTTPException 409 ''ACTIVE_COMPUTE_REQUEST_EXISTS''),
           (scalar (\<lambda>r. crr_portal_account_id r = user_id account \<and> crr_status r = ''FAILED'' \<and>
              crr_approved_at r \<noteq> None) (t_resource_requests db) \<noteq> None,
            HTTPException 409 ''APPROVED_COMPUTE_REQUEST_RETRY_PENDING'')])"

definition submit_request :: "compute_call \<Rightarrow> compute_request_create \<Rightarrow> (portal_db, uuid) action" where
  "submit_request c body db =
     (case get_user db (user_id (cc_user c)) of
        None \<Rightarrow> (Inl (HTTPException 404 ''PORTAL_ACCOUNT_NOT_FOUND''), db)
      | Some account \<Rightarrow>
        (case submission_refusal db account of Some e \<Rightarrow> (Inl e, db)
         | None \<Rightarrow>
           let item = new_request c body account;
               operation = compute_operation c ''compute_resource_request.create'' (crr_id item)
                 (rqc_idempotency_key body) ''Ordinary user submitted own standard compute resource request''
                 [(''portal_account_id'', PStr (user_id account)), (''gpu_max'', PInt (rqc_gpu_max body)),
                  (''storage_bytes'', PInt STANDARD_STORAGE_BYTES),
                  (''container_profile'', PStr (crr_requested_container_profile item)),
                  (''lease_seconds'', PInt STANDARD_LEASE_SECONDS)]
                 ''Compute request entered REQUESTED; no infrastructure was created'' RISK_MEDIUM
           in commit (HTTPException 409 ''ACTIVE_COMPUTE_REQUEST_EXISTS'') (crr_id item) db
                (compute_audit c 2 ''COMPUTE_RESOURCE_REQUEST_CREATED'' ''compute_resource_request'' (crr_id item)
                   ''SUCCESS'' (PDict (request_terms item)) (Some (oper_id operation))
                   (add_compute_operation c operation (add_request item db)))))"

definition create_self_compute_request :: "compute_call \<Rightarrow> compute_request_create \<Rightarrow> limiter \<Rightarrow> portal_db \<Rightarrow>
    uuid result \<times> limiter \<times> portal_db" where
  "create_self_compute_request c body st db =
     (case cc_csrf c of Inl e \<Rightarrow> (Inl e, st, db)
      | Inr _ \<Rightarrow>
        (case limiter_allowed (''compute-request-ip:'' @ client_ip (cc_request c)) 30 300 (cc_now c) st of
           (False, st1) \<Rightarrow> (Inl (HTTPException 429 ''COMPUTE_REQUEST_RATE_LIMITED''), st1, db)
         | (True, st1) \<Rightarrow>
           (case limiter_allowed (''compute-request-account:'' @ user_id (cc_user c)) 10 300 (cc_now c) st1 of
              (False, st2) \<Rightarrow> (Inl (HTTPException 429 ''COMPUTE_REQUEST_RATE_LIMITED''), st2, db)
            | (True, st2) \<Rightarrow> (let (r, db') = submit_request c body db in (r, st2, db')))))"

definition cancel_self_compute_request :: "compute_call \<Rightarrow> string \<Rightarrow> string \<Rightarrow> (portal_db, uuid) action" where
  "cancel_self_compute_request c text_id key db =
     (case cc_csrf c of Inl e \<Rightarrow> (Inl e, db)
      | Inr _ \<Rightarrow>
        (case request_id_of text_id of Inl e \<Rightarrow> (Inl e, db)
         | Inr i \<Rightarrow>
           (case owned_request db i (user_id (cc_user c)) of Inl e \<Rightarrow> (Inl e, db)
            | Inr item \<Rightarrow>
              if crr_status item \<noteq> ''REQUESTED'' then (Inl (HTTPException 409 ''COMPUTE_REQUEST_NOT_CANCELLABLE''), db)
              else let operation = compute_operation c ''compute_resource_request.cancel'' (crr_id item) key
                     ''Ordinary user cancelled own pending compute request''
                     [(''portal_account_id'', PStr (crr_portal_account_id item)),
                      (''expected_state'', PStr ''REQUESTED'')]
                     ''Compute request cancelled; no infrastructure existed'' RISK_MEDIUM
                   in commit unhandled (crr_id item) db
                     (compute_audit c 2 ''COMPUTE_RESOURCE_REQUEST_CANCELLED'' ''compute_resource_request''
                        (crr_id item) ''SUCCESS'' (PDict []) (Some (oper_id operation))
                        (add_compute_operation c operation
                          (modify_request (crr_id item) (\<lambda>r. r\<lparr>crr_status := ''CANCELLED'', crr_active_slot := None,
                             crr_cancelled_at := Some (cc_now c), crr_updated_at := cc_now c\<rparr>) db))))))"

subsection \<open>Review\<close>

record compute_review =
  rev_decision :: string
  rev_note :: "string option"
  rev_idempotency_key :: string

definition reviewed :: "compute_call \<Rightarrow> compute_review \<Rightarrow> portal_compute_resource_request \<Rightarrow>
    portal_compute_resource_request" where
  "reviewed c body r =
     (let r = r\<lparr>crr_reviewed_at := Some (cc_now c), crr_reviewed_by := Some (user_id (cc_user c)),
            crr_review_note := rev_note body, crr_updated_at := cc_now c\<rparr> in
      if rev_decision body = ''APPROVE'' then r\<lparr>crr_status := ''APPROVED'', crr_approved_at := Some (cc_now c)\<rparr>
      else r\<lparr>crr_status := ''REJECTED'', crr_active_slot := None, crr_rejected_at := Some (cc_now c)\<rparr>)"

definition review_compute_request :: "compute_call \<Rightarrow> string \<Rightarrow> compute_review \<Rightarrow> (portal_db, uuid) action" where
  "review_compute_request c text_id body db =
     (case cc_csrf c of Inl e \<Rightarrow> (Inl e, db)
      | Inr _ \<Rightarrow>
        (case administered_request c text_id db of Inl e \<Rightarrow> (Inl e, db)
         | Inr item \<Rightarrow>
           if crr_status item \<notin> set [''REQUESTED'', ''UNDER_REVIEW'']
           then (Inl (HTTPException 409 ''COMPUTE_REQUEST_ALREADY_REVIEWED''), db)
           else case applicant db item of Inl e \<Rightarrow> (Inl e, db)
           | Inr account \<Rightarrow>
             let approve = (rev_decision body = ''APPROVE''); verb = casefold (rev_decision body);
                 operation = compute_operation c (''compute_resource_request.'' @ verb) (crr_id item)
                   (rev_idempotency_key body) (''Administrator '' @ verb @ ''d compute resource request'')
                   ((''portal_account_id'', PStr (crr_portal_account_id item)) #
                    (''decision'', PStr (rev_decision body)) # request_terms item)
                   (if approve then ''Request approved; no provisioning or lease activation performed''
                    else ''Request rejected; no infrastructure existed'') RISK_MEDIUM
             in commit unhandled (crr_id item) db
                  (compute_audit c 2
                     (if approve then ''COMPUTE_RESOURCE_REQUEST_APPROVED'' else ''COMPUTE_RESOURCE_REQUEST_REJECTED'')
                     ''compute_resource_request'' (crr_id item) ''SUCCESS''
                     (PDict [(''decision'', PStr (rev_decision body)), (''gpu_max'', PInt (crr_requested_gpu_max item))])
                     (Some (oper_id operation))
                     (add_compute_operation c operation (modify_request (crr_id item) (reviewed c body) db)))))"

end
