(* ===== verification/Compute_Planning.thy ===== *)
theory Compute_Planning
  imports Compute_Requests
begin

section \<open>Compute requests: the allocator's plan and its dry run\<close>

text \<open>
  \<open>create_provision_plan\<close> and \<open>dry_run_provision_plan\<close> of \<open>routes/compute_requests.py\<close>. Sessions run
  without autoflush: a query reads the database as it was last flushed, while rows already loaded show
  their new attributes. A route returns the calls it made besides its result; on an error the database
  is the one last committed. Reading a missing key of the worker's answer raises \<open>KeyError\<close>, shown here
  as \<open>TypeError\<close> like the conversion of what is no number.
\<close>

type_synonym 'a traced = "'a result \<times> operation_call list \<times> portal_db"
type_synonym 'a traced_action = "portal_db \<Rightarrow> 'a traced"

subsection \<open>The contract of a Stage\<close>

definition keys_exactly :: "pyval \<Rightarrow> string list \<Rightarrow> bool" where
  "keys_exactly d ks \<longleftrightarrow> is_dict d \<and> set (map fst (dict_items d)) = set ks"

definition lower_hex :: "nat \<Rightarrow> string \<Rightarrow> bool" where
  "lower_hex n s \<longleftrightarrow> length s = n \<and> list_all (\<lambda>c. is_digit c \<or> c \<in> set ''abcdef'') s"

definition hex_value_of :: "nat \<Rightarrow> pyval \<Rightarrow> bool" where
  "hex_value_of n v = (case text_of v of None \<Rightarrow> False | Some s \<Rightarrow> lower_hex n s)"

definition digest_value :: "pyval \<Rightarrow> bool" where
  "digest_value v = (case text_of v of None \<Rightarrow> False
     | Some s \<Rightarrow> starts_with s ''sha256:'' \<and> lower_hex 64 (drop 7 s))"

definition handler_ok :: "pyval \<Rightarrow> bool" where
  "handler_ok handler \<longleftrightarrow>
     keys_exactly handler [''identity'', ''deployed_path'', ''sha256'', ''integrity_status''] \<and>
     all_eq handler [(''identity'', PStr ''h100-provision-stage''),
       (''deployed_path'', PStr ''/usr/local/sbin/h100-provision-stage''), (''integrity_status'', PStr ''PASS'')] \<and>
     hex_value_of 64 (dget handler ''sha256'')"

definition argument_ok :: "int \<Rightarrow> string \<Rightarrow> pyval \<Rightarrow> bool" where
  "argument_ok index semantic_role argument \<longleftrightarrow>
     keys_exactly argument [''index'', ''semantic_role'', ''binding_status''] \<and>
     all_eq argument [(''index'', PInt index), (''semantic_role'', PStr semantic_role),
       (''binding_status'', PStr ''VALID'')]"

definition argv_ok :: "pyval \<Rightarrow> bool" where
  "argv_ok argv \<longleftrightarrow>
     keys_exactly argv [''version'', ''sha256'', ''shape_status'', ''shell_argument_count'',
       ''expected_shell_argument_count'', ''multi_digit_position_status'', ''argument_14'', ''argument_15''] \<and>
     all_eq argv [(''version'', PStr ''compute-provision-stage-argv-v2''), (''shape_status'', PStr ''PASS''),
       (''shell_argument_count'', PInt 15), (''expected_shell_argument_count'', PInt 15),
       (''multi_digit_position_status'', PStr ''PASS'')] \<and>
     hex_value_of 64 (dget argv ''sha256'') \<and>
     argument_ok 14 ''EXPLICIT_STAGE_CONFIRMATION_FLAG'' (dget argv ''argument_14'') \<and>
     argument_ok 15 ''CONFIRMED_TARGET_USERNAME'' (dget argv ''argument_15'')"

definition confirmation_ok :: "pyval \<Rightarrow> bool" where
  "confirmation_ok gate \<longleftrightarrow>
     keys_exactly gate [''identity'', ''validator_version'', ''validator_sha256'', ''status''] \<and>
     all_eq gate [(''identity'', PStr ''EXPLICIT_STAGE_CONFIRMATION_GATE''),
       (''validator_version'', PStr ''compute-provision-stage-confirmation-validator-v2''),
       (''status'', PStr ''PASS'')] \<and>
     hex_value_of 64 (dget gate ''validator_sha256'')"

definition OCI_ROOT :: string where
  "OCI_ROOT = ''/srv/gpu-platform/artifacts/oci/standard-dev-base/''"

text \<open>The path names the digest of the manifest, so the two patterns and the suffix fix it.\<close>

definition artifact_ok :: "pyval \<Rightarrow> pyval \<Rightarrow> bool" where
  "artifact_ok path digest = (case (text_of path, text_of digest) of
     (Some p, Some d) \<Rightarrow> digest_value digest \<and> p = OCI_ROOT @ drop 7 d @ ''/layout''
   | _ \<Rightarrow> False)"

definition image_ok :: "pyval \<Rightarrow> bool" where
  "image_ok img \<longleftrightarrow>
     keys_exactly img [''status'', ''validator_version'', ''source_type'', ''canonical_local_image_identity'',
       ''artifact_path'', ''manifest_digest'', ''platform'', ''effective_user'', ''source_reference'',
       ''source_build_version'', ''approved_deployment_version'', ''failure_code''] \<and>
     all_eq img [(''status'', PStr ''PASS''), (''validator_version'', PStr ''compute-provision-stage-local-image-v2''),
       (''source_type'', PStr ''LOCAL_OCI_LAYOUT''), (''platform'', PStr ''linux/amd64''),
       (''effective_user'', PStr ''root''),
       (''source_reference'', PStr ''h100-local/dev-container:ubuntu24.04-origin-pilot-20260804''),
       (''source_build_version'', PStr ''ubuntu24.04-origin-pilot-20260804'')] \<and>
     digest_value (dget img ''canonical_local_image_identity'') \<and>
     artifact_ok (dget img ''artifact_path'') (dget img ''manifest_digest'') \<and>
     hex_value_of 40 (dget img ''approved_deployment_version'') \<and> dget img ''failure_code'' = PNone"

definition ready_stage_contract :: "pyval \<Rightarrow> pyval option" where
  "ready_stage_contract result =
     (let contract = dget result ''stage_contract'' in
      if is_dict result \<and> has_eq contract ''status'' (PStr ''PASS'') \<and>
        keys_exactly contract [''status'', ''contract_sha256'', ''handler'', ''argv_contract'',
          ''confirmation_gate'', ''image_contract''] \<and>
        hex_value_of 64 (dget contract ''contract_sha256'') \<and> handler_ok (dget contract ''handler'') \<and>
        argv_ok (dget contract ''argv_contract'') \<and> confirmation_ok (dget contract ''confirmation_gate'') \<and>
        image_ok (dget contract ''image_contract'')
      then Some contract else None)"

definition contract_sha :: "pyval \<Rightarrow> pyval" where
  "contract_sha contract = dget contract ''contract_sha256''"

definition contract_image :: "pyval \<Rightarrow> pyval" where
  "contract_image contract = dget (dget contract ''image_contract'') ''canonical_local_image_identity''"

subsection \<open>Reservations\<close>

definition expire_one :: "instant \<Rightarrow> portal_resource_reservation \<Rightarrow> portal_db \<Rightarrow> portal_db" where
  "expire_one now r db =
     (let db1 = modify_reservation (resv_id r) (\<lambda>r. r\<lparr>resv_state := ''RELEASED'', resv_active_key := None,
            resv_released_at := Some now\<rparr>) db in
      case get_plan db1 (resv_plan_id r) of None \<Rightarrow> db1
      | Some plan \<Rightarrow>
          if plan_state plan \<in> set [''RESERVED'', ''READY_FOR_PROVISION'']
          then let db2 = modify_plan (plan_id plan) (\<lambda>p. p\<lparr>plan_state := ''EXPIRED''\<rparr>) db1 in
            (case get_request db2 (plan_request_id plan) of None \<Rightarrow> db2
             | Some item \<Rightarrow> if crr_status item = ''PROVISION_PLAN_READY''
                 then modify_request (crr_id item) (\<lambda>r. r\<lparr>crr_status := ''APPROVED''\<rparr>) db2 else db2)
          else db1)"

definition expire_reservations :: "instant \<Rightarrow> portal_db \<Rightarrow> portal_db" where
  "expire_reservations now db =
     fold (expire_one now)
       (filter (\<lambda>r. resv_state r = ''RESERVED'' \<and> resv_expires_at r \<le> now) (t_reservations db)) db"

definition active_values :: "portal_db \<Rightarrow> string \<Rightarrow> string list" where
  "active_values db kind = remdups
     (map resv_resource_value
        (filter (\<lambda>r. resv_active_key r \<noteq> None \<and> resv_resource_type r = kind) (t_reservations db)) @
      (if kind = ''UID'' then map (str_int \<circ> mu_uid) (t_managed_users db)
       else if kind = ''GID'' then map (str_int \<circ> mu_gid) (t_managed_users db)
       else if kind = ''PROJECT_ID'' then map str_int (present_values mu_project_id (t_managed_users db))
       else if kind = ''SSH_PORT'' then map str_int (present_values mu_container_port (t_managed_users db) @
         present_values cont_ssh_port (t_containers db))
       else if kind = ''CONTAINER_NAME''
       then filter (\<lambda>n. n \<noteq> []) (present_values mu_container_name (t_managed_users db)) @
         map cont_name (t_containers db)
       else []))"

definition sorted_ints :: "string list \<Rightarrow> pyval result" where
  "sorted_ints vs = (case those (map int_of_text vs) of None \<Rightarrow> Inl (ValueError ''invalid literal for int()'')
     | Some ns \<Rightarrow> Inr (PList (map PInt (sort ns))))"

definition exclusion_payload :: "portal_compute_resource_request \<Rightarrow> portal_db \<Rightarrow> pyval result" where
  "exclusion_payload item db =
     (case (sorted_ints (active_values db ''UID''), sorted_ints (active_values db ''GID''),
            sorted_ints (active_values db ''PROJECT_ID''), sorted_ints (active_values db ''SSH_PORT'')) of
        (Inr uids, Inr gids, Inr projects, Inr ports) \<Rightarrow> Inr (PDict
          [(''request_id'', PStr (crr_id item)), (''portal_account_id'', PStr (crr_portal_account_id item)),
           (''username'', PStr (crr_username item)), (''requested_gpu_max'', PInt (crr_requested_gpu_max item)),
           (''requested_storage_bytes'', PInt (crr_requested_storage_bytes item)),
           (''requested_container_profile'', PStr (crr_requested_container_profile item)),
           (''requested_lease_seconds'', PInt (crr_requested_lease_seconds item)),
           (''reserved_uids'', uids), (''reserved_gids'', gids), (''reserved_project_ids'', projects),
           (''reserved_ssh_ports'', ports),
           (''reserved_container_names'', PList (map PStr (sort (active_values db ''CONTAINER_NAME''))))])
      | _ \<Rightarrow> Inl (ValueError ''invalid literal for int()''))"

subsection \<open>Dry runs of the worker\<close>

definition dry_call :: "compute_call \<Rightarrow> string \<Rightarrow> pyval \<Rightarrow> string \<Rightarrow> operation_call" where
  "dry_call c operation_type payload key =
     \<lparr>wr_operation_type = operation_type, wr_payload = payload,
      wr_requested_by = user_normalized_login (cc_user c),
      wr_approved_by = Some (user_normalized_login (cc_user c)), wr_idempotency_key = key, wr_dry_run = True,
      wr_timeout_seconds = 90\<rparr>"

definition dry_run_answer :: "string + pyval \<Rightarrow> pyval result" where
  "dry_run_answer answer =
     (case answer of Inl code \<Rightarrow> Inl (HTTPException 503 code)
      | Inr result \<Rightarrow>
          if has_eq result ''status'' (PStr ''DRY_RUN'') then Inr result
          else Inl (HTTPException 409 (py_str (dget_or (dict_or_empty (dget result ''error'')) ''code''
            (PStr ''PROVISION_DRY_RUN_FAILED'')))))"

definition worker_dry_run :: "compute_call \<Rightarrow> string \<Rightarrow> pyval \<Rightarrow> string \<Rightarrow> pyval result" where
  "worker_dry_run c operation_type payload key = dry_run_answer (cc_worker c (dry_call c operation_type payload key))"

subsection \<open>The failed attempt a retry starts from\<close>

definition newest_operation :: "(portal_operation \<Rightarrow> bool) \<Rightarrow> portal_db \<Rightarrow> portal_operation option" where
  "newest_operation p db = scalar p (order_desc oper_created_at (t_operations db))"

definition rows_of_plan :: "uuid \<Rightarrow> portal_db \<Rightarrow> portal_resource_reservation list" where
  "rows_of_plan pid db = filter (\<lambda>r. resv_plan_id r = pid) (t_reservations db)"

definition released_attempt :: "portal_compute_resource_request \<Rightarrow> portal_provision_plan \<Rightarrow>
    portal_resource_reservation list \<Rightarrow> bool" where
  "released_attempt item plan rows \<longleftrightarrow>
     plan_request_id plan = crr_id item \<and> plan_portal_account_id plan = crr_portal_account_id item \<and>
     plan_state plan = ''FAILED'' \<and> length rows = 5 \<and>
     set (map (\<lambda>r. (resv_resource_type r, resv_resource_value r)) rows) = set (expected_values plan) \<and>
     list_all (\<lambda>r. resv_request_id r = crr_id item \<and>
       resv_portal_account_id r = crr_portal_account_id item \<and> released_row r) rows"

definition rolled_back_stage :: "portal_operation \<Rightarrow> bool" where
  "rolled_back_stage o1 \<longleftrightarrow> oper_rollback_status o1 \<in> set [Some ''NOT_REQUIRED'', Some ''ROLLED_BACK'']"

definition rolled_back_stage_retry :: "portal_db \<Rightarrow> portal_compute_resource_request \<Rightarrow>
    (portal_provision_plan \<times> portal_operation) result" where
  "rolled_back_stage_retry db item =
     (case (crr_provision_plan_id item, crr_managed_user_id item) of
        (Some pid, None) \<Rightarrow>
          (case (get_plan db pid, newest_operation (\<lambda>o1. oper_operation_type o1 = ''compute.provision.stage'' \<and>
              oper_target_id o1 = crr_id item) db) of
             (Some plan, Some failed) \<Rightarrow>
               let rows = rows_of_plan pid db; payload = oper_validated_payload failed in
               if (crr_status item = ''FAILED'' \<and> crr_active_slot item = None \<or>
                   crr_status item = ''RETRY_AUTHORIZED'' \<and> crr_active_slot item = Some 1) \<and>
                 released_attempt item plan rows \<and> plan_execution_enabled plan \<and>
                 oper_status failed = OP_FAILED \<and> rolled_back_stage failed \<and>
                 dget payload ''request_id'' = PStr (crr_id item) \<and> dget payload ''plan_id'' = PStr (plan_id plan) \<and>
                 py_dict_eq (dget payload ''reservation_ids'') (expected_ids rows)
               then Inr (plan, failed)
               else Inl (HTTPException 409 ''PROVISION_STAGE_RETRY_RECONCILIATION_REQUIRED'')
           | _ \<Rightarrow> Inl (HTTPException 409 ''PROVISION_STAGE_RETRY_RECONCILIATION_REQUIRED''))
      | _ \<Rightarrow> Inl (HTTPException 409 ''PROVISION_STAGE_RETRY_RECONCILIATION_REQUIRED''))"

definition lifecycle_types :: "string list" where
  "lifecycle_types = [''compute.provision.stage'', ''compute.provision'', ''compute.provision.retry'']"

definition attempt_failure_operation :: "portal_db \<Rightarrow> portal_compute_resource_request \<Rightarrow> uuid \<Rightarrow>
    portal_operation option" where
  "attempt_failure_operation db item pid = newest_operation
     (\<lambda>o1. oper_target_type o1 = ''compute_resource_request'' \<and> oper_target_id o1 = crr_id item \<and>
        oper_status o1 = OP_FAILED \<and> oper_operation_type o1 \<in> set lifecycle_types \<and>
        dget (oper_validated_payload o1) ''plan_id'' = PStr pid) db"

definition retryable_failed_attempt :: "portal_db \<Rightarrow> portal_compute_resource_request \<Rightarrow>
    (portal_provision_plan \<times> portal_operation) result" where
  "retryable_failed_attempt db item =
     (case (crr_provision_plan_id item, crr_managed_user_id item) of
        (Some pid, None) \<Rightarrow>
          (case (get_plan db pid, attempt_failure_operation db item pid) of
             (Some plan, Some failure) \<Rightarrow>
               if crr_status item \<in> set [''FAILED'', ''RETRY_AUTHORIZED''] \<and>
                 released_attempt item plan (rows_of_plan pid db) \<and> rolled_back_stage failure
               then Inr (plan, failure) else Inl (HTTPException 409 ''UNKNOWN_RESOURCE_STATE'')
           | _ \<Rightarrow> Inl (HTTPException 409 ''UNKNOWN_RESOURCE_STATE''))
      | _ \<Rightarrow> Inl (HTTPException 409 ''PROVISION_RETRY_NOT_ELIGIBLE''))"

definition authorized_retry_source :: "portal_db \<Rightarrow> portal_compute_resource_request \<Rightarrow>
    (portal_provision_plan \<times> portal_operation \<times> portal_operation) result" where
  "authorized_retry_source db item =
     (if crr_status item \<noteq> ''RETRY_AUTHORIZED'' then Inl (HTTPException 409 ''PROVISION_RETRY_NOT_AUTHORIZED'')
      else case rolled_back_stage_retry db item of Inl e \<Rightarrow> Inl e
      | Inr (plan, failed) \<Rightarrow>
        (case newest_operation (\<lambda>o1. oper_operation_type o1 = ''compute.provision.retry_authorize'' \<and>
            oper_target_id o1 = crr_id item \<and> oper_status o1 = OP_SUCCEEDED) db of
           None \<Rightarrow> Inl (HTTPException 409 ''PROVISION_RETRY_AUTHORIZATION_INVALID'')
         | Some authorization \<Rightarrow>
             let payload = oper_validated_payload authorization in
             if dget payload ''plan_id'' = PStr (plan_id plan) \<and>
               dget payload ''failed_stage_operation_id'' = PStr (oper_id failed) \<and>
               has_flag payload ''rollback_verified'' True \<and> has_flag payload ''root_cause_remediated'' True
             then Inr (plan, failed, authorization)
             else Inl (HTTPException 409 ''PROVISION_RETRY_AUTHORIZATION_INVALID'')))"

text \<open>Inside an orchestration the retry operation itself is the authorization.\<close>

definition orchestrated_retry_source :: "portal_db \<Rightarrow> portal_compute_resource_request \<Rightarrow> uuid \<Rightarrow>
    (portal_provision_plan \<times> portal_operation \<times> portal_operation) result" where
  "orchestrated_retry_source db item parent =
     (case retryable_failed_attempt db item of Inl e \<Rightarrow> Inl e
      | Inr (plan, failure) \<Rightarrow>
        (case get_operation db parent of None \<Rightarrow> Inl (HTTPException 409 ''PROVISION_RETRY_ORCHESTRATION_INVALID'')
         | Some authorization \<Rightarrow>
             let payload = oper_validated_payload authorization in
             if oper_operation_type authorization = ''compute.provision.retry'' \<and>
               oper_status authorization = OP_RUNNING \<and> dget payload ''failed_plan_id'' = PStr (plan_id plan) \<and>
               dget payload ''failed_operation_id'' = PStr (oper_id failure) \<and>
               has_flag payload ''rollback_verified'' True
             then Inr (plan, failure, authorization)
             else Inl (HTTPException 409 ''PROVISION_RETRY_ORCHESTRATION_INVALID'')))"

subsection \<open>Planning\<close>

record attempt_source =
  as_previous :: "portal_provision_plan option"
  as_failed :: "portal_operation option"
  as_authorization :: "portal_operation option"
  as_reason :: string

definition attempt_number :: "attempt_source \<Rightarrow> int" where
  "attempt_number source = (case as_previous source of None \<Rightarrow> 1 | Some p \<Rightarrow> plan_attempt_number p + 1)"

definition find_attempt_source :: "compute_call \<Rightarrow> portal_db \<Rightarrow> portal_compute_resource_request \<Rightarrow> attempt_source result" where
  "find_attempt_source c db item =
     (if crr_status item = ''RETRY_AUTHORIZED''
      then (case (case cc_parent c of None \<Rightarrow> authorized_retry_source db item
                  | Some parent \<Rightarrow> orchestrated_retry_source db item parent) of
          Inl e \<Rightarrow> Inl e
        | Inr (plan, failed, authorization) \<Rightarrow> Inr \<lparr>as_previous = Some plan, as_failed = Some failed,
            as_authorization = Some authorization, as_reason = ''STAGE_RETRY''\<rparr>)
      else if crr_status item = ''APPROVED''
      then (case crr_provision_plan_id item of
          None \<Rightarrow> Inr \<lparr>as_previous = None, as_failed = None, as_authorization = None, as_reason = ''INITIAL''\<rparr>
        | Some pid \<Rightarrow>
          (case get_plan db pid of
             None \<Rightarrow> Inl (HTTPException 409 ''PROVISION_ATTEMPT_LINEAGE_INVALID'')
           | Some plan \<Rightarrow>
               if plan_request_id plan = crr_id item \<and> plan_portal_account_id plan = crr_portal_account_id item \<and>
                 plan_state plan = ''EXPIRED''
               then Inr \<lparr>as_previous = Some plan, as_failed = None, as_authorization = None,
                 as_reason = ''RESERVATION_EXPIRED''\<rparr>
               else Inl (HTTPException 409 ''PROVISION_ATTEMPT_LINEAGE_INVALID'')))
      else Inl (HTTPException 409 ''COMPUTE_REQUEST_NOT_READY_FOR_PLAN''))"

text \<open>\<open>int(v)\<close>; the representation of a float with an exponent is refused.\<close>

definition int_of_pyval :: "pyval \<Rightarrow> int option" where
  "int_of_pyval v = (case v of PStr s \<Rightarrow> int_of_text s
     | PFloat s \<Rightarrow> int_of_text (takeWhile (\<lambda>ch. ch \<noteq> CHR ''.'') s) | _ \<Rightarrow> py_int v)"

record allocation =
  al_uid :: int
  al_gid :: int
  al_project_id :: int
  al_ssh_port :: int
  al_container_name :: string

definition allocation_of :: "pyval \<Rightarrow> allocation option" where
  "allocation_of worker =
     (case (int_of_pyval (dget worker ''proposed_uid''), int_of_pyval (dget worker ''proposed_gid''),
            int_of_pyval (dget worker ''proposed_project_id''), int_of_pyval (dget worker ''proposed_ssh_port'')) of
        (Some uid, Some gid, Some project, Some port) \<Rightarrow>
          if has_keys worker [''proposed_container_name'']
          then Some \<lparr>al_uid = uid, al_gid = gid, al_project_id = project, al_ssh_port = port,
            al_container_name = py_str (dget worker ''proposed_container_name'')\<rparr>
          else None
      | _ \<Rightarrow> None)"

definition lineage :: "attempt_source \<Rightarrow> (string \<times> pyval) list" where
  "lineage source = [(''previous_plan_id'', opt_val (PStr \<circ> plan_id) (as_previous source)),
     (''failed_stage_operation_id'', opt_val (PStr \<circ> oper_id) (as_failed source)),
     (''retry_authorization_operation_id'', opt_val (PStr \<circ> oper_id) (as_authorization source))]"

definition new_plan :: "compute_call \<Rightarrow> portal_compute_resource_request \<Rightarrow> attempt_source \<Rightarrow> pyval \<Rightarrow> allocation \<Rightarrow> int \<Rightarrow>
    portal_provision_plan" where
  "new_plan c item source worker al gpu =
     \<lparr>plan_id = cc_id c 20, plan_request_id = crr_id item, plan_attempt_number = attempt_number source,
      plan_attempt_reason = as_reason source, plan_previous_plan_id = map_option plan_id (as_previous source),
      plan_failed_stage_operation_id = map_option oper_id (as_failed source),
      plan_retry_authorization_operation_id = map_option oper_id (as_authorization source),
      plan_portal_account_id = crr_portal_account_id item, plan_state = ''RESERVED'',
      plan_username = crr_username item, plan_uid = al_uid al, plan_gid = al_gid al,
      plan_project_id = al_project_id al, plan_container_name = al_container_name al,
      plan_container_ssh_port = al_ssh_port al, plan_storage_bytes = STANDARD_STORAGE_BYTES,
      plan_container_profile = crr_requested_container_profile item, plan_container_cpus = 8,
      plan_container_memory_gb = 32, plan_container_pids_limit = 4096, plan_container_gpu = gpu,
      plan_slurm_account = ''company'', plan_slurm_qos = ''general'', plan_gpu_max = crr_requested_gpu_max item,
      plan_lease_seconds = STANDARD_LEASE_SECONDS, plan_lease_state = ''NOT_STARTED'',
      plan_host_ssh_enabled = False, plan_shell = ''/usr/sbin/nologin'', plan_password_state = ''LOCKED'',
      plan_execution_enabled = False, plan_reservation_expires_at = cc_now c + RESERVATION_LIFETIME,
      plan_allocator_result = PDict (dict_update (dict_items worker)
        ([(''attempt_number'', PInt (attempt_number source)), (''attempt_reason'', PStr (as_reason source))] @
         lineage source)),
      plan_dry_run_result = PNone, plan_dry_run_at = None, plan_created_by = user_id (cc_user c),
      plan_created_at = cc_now c, plan_updated_at = cc_now c, plan_version = 1\<rparr>"

definition new_reservation :: "compute_call \<Rightarrow> portal_provision_plan \<Rightarrow> nat \<Rightarrow> string \<times> string \<Rightarrow>
    portal_resource_reservation" where
  "new_reservation c plan n kv =
     \<lparr>resv_id = cc_id c (30 + n), resv_plan_id = plan_id plan, resv_request_id = plan_request_id plan,
      resv_portal_account_id = plan_portal_account_id plan, resv_resource_type = fst kv,
      resv_resource_value = snd kv, resv_active_key = Some (fst kv @ '':'' @ snd kv), resv_state = ''RESERVED'',
      resv_reserved_at = cc_now c, resv_expires_at = plan_reservation_expires_at plan, resv_consumed_at = None,
      resv_released_at = None\<rparr>"

definition new_reservations :: "compute_call \<Rightarrow> portal_provision_plan \<Rightarrow> portal_resource_reservation list" where
  "new_reservations c plan = map (\<lambda>(n, kv). new_reservation c plan n kv) (enumerate 0 (expected_values plan))"

text \<open>The running operation of the orchestration records what its steps found.\<close>

definition note_parent :: "compute_call \<Rightarrow> (string \<times> pyval) list \<Rightarrow> portal_db \<Rightarrow> (portal_db, unit) action" where
  "note_parent c facts seen db =
     (case cc_parent c of None \<Rightarrow> (Inr (), db)
      | Some parent \<Rightarrow>
        (case get_operation seen parent of
           None \<Rightarrow> (Inl (HTTPException 409 ''PROVISION_ORCHESTRATION_STATE_INVALID''), db)
         | Some operation \<Rightarrow>
             if oper_status operation \<noteq> OP_RUNNING
             then (Inl (HTTPException 409 ''PROVISION_ORCHESTRATION_STATE_INVALID''), db)
             else (Inr (), modify_operation parent (\<lambda>o1. o1\<lparr>oper_validated_payload :=
               PDict (dict_update (dict_items (oper_validated_payload o1)) facts)\<rparr>) db)))"

text \<open>
  The reservations of the new plan are added but not flushed when the orchestration asks for them, so
  the query it records finds none: it reads \<open>db1\<close>.
\<close>

definition plan_facts :: "portal_provision_plan \<Rightarrow> portal_db \<Rightarrow> (string \<times> pyval) list" where
  "plan_facts plan db1 = [(''plan_id'', PStr (plan_id plan)),
     (''attempt_number'', PInt (plan_attempt_number plan)),
     (''reservation_ids'', PDict (map (\<lambda>(k, v). (k, PStr v)) (expected_ids (rows_of_plan (plan_id plan) db1))))]"

definition plan_operation :: "compute_call \<Rightarrow> portal_compute_resource_request \<Rightarrow> attempt_source \<Rightarrow>
    portal_provision_plan \<Rightarrow> string \<Rightarrow> portal_operation" where
  "plan_operation c item source plan key = compute_operation c ''compute.provision.plan'' (crr_id item) key
     ''Allocator created a new immutable provision attempt''
     ([(''request_id'', PStr (crr_id item)), (''plan_id'', PStr (plan_id plan)),
       (''portal_account_id'', PStr (crr_portal_account_id item)),
       (''attempt_number'', PInt (plan_attempt_number plan)),
       (''attempt_reason'', PStr (plan_attempt_reason plan))] @ lineage source @
      [(''gpu_max'', PInt (plan_gpu_max plan)), (''storage_bytes'', PInt (plan_storage_bytes plan)),
       (''container_profile'', PStr (plan_container_profile plan)),
       (''lease_seconds'', PInt (plan_lease_seconds plan)), (''execution_enabled'', PBool False)])
     ''Fresh UID/GID/project/port/name reservation rows created; host unchanged'' RISK_MEDIUM"

definition plan_metadata :: "portal_compute_resource_request \<Rightarrow> attempt_source \<Rightarrow> portal_provision_plan \<Rightarrow> pyval" where
  "plan_metadata item source plan = PDict
     ([(''request_id'', PStr (crr_id item)), (''attempt_number'', PInt (plan_attempt_number plan)),
       (''attempt_reason'', PStr (plan_attempt_reason plan))] @ take 1 (lineage source) @
      [(''uid'', PInt (plan_uid plan)),
       (''gid'', PInt (plan_gid plan)), (''project_id'', PInt (plan_project_id plan)),
       (''ssh_port'', PInt (plan_container_ssh_port plan)), (''reservation_state'', PStr ''RESERVED''),
       (''execution_enabled'', PBool False)] @ drop 1 (lineage source))"

definition planned :: "portal_provision_plan \<Rightarrow> instant \<Rightarrow> portal_compute_resource_request \<Rightarrow>
    portal_compute_resource_request" where
  "planned plan now r = r\<lparr>crr_status := ''PROVISION_PLAN_READY'', crr_active_slot := Some 1,
     crr_provision_plan_id := Some (plan_id plan), crr_updated_at := now\<rparr>"

definition write_plan :: "compute_call \<Rightarrow> portal_compute_resource_request \<Rightarrow> attempt_source \<Rightarrow>
    portal_provision_plan \<Rightarrow> string \<Rightarrow> portal_db \<Rightarrow> (portal_db, string) action" where
  "write_plan c item source plan key before db1 =
     (if \<not> provision_constraints (add_plan plan db1) then (Inl unhandled, before)
      else case note_parent c (plan_facts plan db1) db1
         (fold add_reservation (new_reservations c plan) (add_plan plan db1)) of
        (Inl e, _) \<Rightarrow> (Inl e, before)
      | (Inr _, db2) \<Rightarrow>
          let operation = plan_operation c item source plan key in
          commit (HTTPException 409 ''RESOURCE_RESERVATION_CONFLICT'') ''RESERVED'' before
            (compute_audit c 2 ''PROVISION_PLAN_CREATED'' ''provision_plan'' (plan_id plan) ''SUCCESS''
               (plan_metadata item source plan) (Some (oper_id operation))
               (add_compute_operation c operation
                 (modify_request (crr_id item) (planned plan (cc_now c)) db2))))"

definition plan_key :: "portal_compute_resource_request \<Rightarrow> string \<Rightarrow> string" where
  "plan_key item key = ''compute-plan:'' @ crr_id item @ '':'' @ key"

text \<open>An existing plan is answered without a commit: \<open>db1\<close> is then only the state of the session.\<close>

definition allocate_plan :: "compute_call \<Rightarrow> portal_compute_resource_request \<Rightarrow> string \<Rightarrow> portal_db \<Rightarrow> string traced" where
  "allocate_plan c item key db =
     (let db1 = expire_reservations (cc_now c) db;
          item = (case get_request db1 (crr_id item) of None \<Rightarrow> item | Some r \<Rightarrow> r) in
      case (if crr_status item = ''PROVISION_PLAN_READY''
            then (case crr_provision_plan_id item of None \<Rightarrow> None | Some pid \<Rightarrow> get_plan db1 pid) else None) of
        Some existing \<Rightarrow>
          if plan_state existing \<in> set [''RESERVED'', ''READY_FOR_PROVISION'']
          then (Inr (plan_state existing), [], db1)
          else (Inl (HTTPException 409 ''COMPUTE_REQUEST_NOT_READY_FOR_PLAN''), [], db)
      | None \<Rightarrow>
        (case find_attempt_source c db1 item of Inl e \<Rightarrow> (Inl e, [], db)
         | Inr source \<Rightarrow>
           (case exclusion_payload item db of Inl e \<Rightarrow> (Inl e, [], db)
            | Inr payload \<Rightarrow>
              let calls = [dry_call c ''compute.provision.plan'' payload (plan_key item key)] in
              (case worker_dry_run c ''compute.provision.plan'' payload (plan_key item key) of
                 Inl e \<Rightarrow> (Inl e, calls, db)
               | Inr worker \<Rightarrow>
                   if \<not> has_eq worker ''plan_status'' (PStr ''READY'')
                   then (Inl (HTTPException 409 ''PROVISION_PLAN_CONFLICT''), calls, db)
                   else case (allocation_of worker, profile_gpu_count (crr_requested_container_profile item)) of
                     (Some al, Inr gpu) \<Rightarrow>
                       (case write_plan c item source (new_plan c item source worker al gpu) key db db1 of
                          (r, db') \<Rightarrow> (r, calls, db'))
                   | (None, _) \<Rightarrow> (Inl (TypeError ''int''), calls, db)
                   | (_, Inl e) \<Rightarrow> (Inl e, calls, db)))))"

definition plan_step :: "compute_call \<Rightarrow> string \<Rightarrow> string \<Rightarrow> portal_db \<Rightarrow> string traced" where
  "plan_step c text_id key db =
     (case cc_csrf c of Inl e \<Rightarrow> (Inl e, [], db)
      | Inr _ \<Rightarrow>
        (case administered_request c text_id db of Inl e \<Rightarrow> (Inl e, [], db)
         | Inr item \<Rightarrow>
           if crr_status item \<notin> set [''APPROVED'', ''RETRY_AUTHORIZED'', ''PROVISION_PLAN_READY'']
           then (Inl (HTTPException 409 ''COMPUTE_REQUEST_NOT_READY_FOR_PLAN''), [], db)
           else case applicant db item of Inl e \<Rightarrow> (Inl e, [], db)
           | Inr account \<Rightarrow>
             if user_normalized_login account \<noteq> crr_username item
             then (Inl (HTTPException 409 ''REQUEST_OWNER_BINDING_FAILED''), [], db)
             else allocate_plan c item key db))"

text \<open>As a route the session ends with the answer, and what was not committed is gone.\<close>

definition create_provision_plan :: "compute_call \<Rightarrow> string \<Rightarrow> string \<Rightarrow> portal_db \<Rightarrow> string traced" where
  "create_provision_plan c text_id key db =
     (case plan_step c text_id key db of
        (Inr answer, [], _) \<Rightarrow> (Inr answer, [], db)
      | outcome \<Rightarrow> outcome)"

subsection \<open>Dry run\<close>

definition plan_payload :: "portal_compute_resource_request \<Rightarrow> portal_provision_plan \<Rightarrow> (string \<times> pyval) list" where
  "plan_payload item plan = [(''request_id'', PStr (crr_id item)), (''plan_id'', PStr (plan_id plan)),
     (''portal_account_id'', PStr (crr_portal_account_id item)), (''username'', PStr (plan_username plan)),
     (''uid'', PInt (plan_uid plan)), (''gid'', PInt (plan_gid plan)), (''project_id'', PInt (plan_project_id plan)),
     (''ssh_port'', PInt (plan_container_ssh_port plan)), (''container_name'', PStr (plan_container_name plan)),
     (''storage_bytes'', PInt (plan_storage_bytes plan)), (''container_profile'', PStr (plan_container_profile plan)),
     (''container_cpus'', PInt (plan_container_cpus plan)),
     (''container_memory_gb'', PInt (plan_container_memory_gb plan)),
     (''container_pids_limit'', PInt (plan_container_pids_limit plan)),
     (''container_gpu'', PInt (plan_container_gpu plan)), (''slurm_account'', PStr (plan_slurm_account plan)),
     (''slurm_qos'', PStr (plan_slurm_qos plan)), (''gpu_max'', PInt (plan_gpu_max plan)),
     (''lease_seconds'', PInt (plan_lease_seconds plan)), (''lease_state'', PStr (plan_lease_state plan)),
     (''host_ssh'', PStr ''DISABLED''), (''shell'', PStr (plan_shell plan)),
     (''password_state'', PStr (plan_password_state plan)), (''execution_enabled'', PBool False)]"

definition bound_row :: "portal_compute_resource_request \<Rightarrow> portal_resource_reservation \<Rightarrow> bool" where
  "bound_row item r \<longleftrightarrow> resv_request_id r = crr_id item \<and>
     resv_portal_account_id r = crr_portal_account_id item \<and>
     resv_active_key r = Some (resv_resource_type r @ '':'' @ resv_resource_value r)"

definition bound_reservations :: "instant \<Rightarrow> portal_db \<Rightarrow> portal_compute_resource_request \<Rightarrow> portal_provision_plan \<Rightarrow>
    portal_resource_reservation list result" where
  "bound_reservations now db item plan =
     (let rows = filter (\<lambda>r. resv_state r = ''RESERVED'' \<and> resv_active_key r \<noteq> None) (rows_of_plan (plan_id plan) db) in
      if set (map (\<lambda>r. (resv_resource_type r, resv_resource_value r)) rows) = set (expected_values plan) \<and>
        list_all (\<lambda>r. bound_row item r \<and> now < resv_expires_at r) rows
      then Inr rows else Inl (HTTPException 409 ''RESOURCE_RESERVATION_BINDING_FAILED''))"

definition plan_binding :: "portal_compute_resource_request \<Rightarrow> portal_provision_plan \<Rightarrow> exn option" where
  "plan_binding item plan = refuse_if
     [(plan_request_id plan \<noteq> crr_id item \<or> plan_portal_account_id plan \<noteq> crr_portal_account_id item,
       HTTPException 409 ''PROVISION_PLAN_BINDING_FAILED'')]"

definition contract_facts :: "pyval \<Rightarrow> (string \<times> pyval) list" where
  "contract_facts contract = [(''canonical_execution_contract'', contract_sha contract),
     (''canonical_local_image_identity'', contract_image contract)]"

text \<open>The plan a dry run is for, and its operation under the same key.\<close>

definition dry_run_target :: "compute_call \<Rightarrow> string \<Rightarrow> portal_db \<Rightarrow>
    (portal_compute_resource_request \<times> portal_provision_plan) result" where
  "dry_run_target c text_id db =
     (case administered_request c text_id db of Inl e \<Rightarrow> Inl e
      | Inr item \<Rightarrow>
        (case (if crr_status item = ''PROVISION_PLAN_READY'' then crr_provision_plan_id item else None) of
           None \<Rightarrow> Inl (HTTPException 409 ''PROVISION_PLAN_NOT_READY'')
         | Some pid \<Rightarrow>
           (case get_plan db pid of None \<Rightarrow> Inl (HTTPException 409 ''PROVISION_PLAN_NOT_READY'')
            | Some plan \<Rightarrow>
                if plan_state plan \<notin> set [''RESERVED'', ''READY_FOR_PROVISION'']
                then Inl (HTTPException 409 ''PROVISION_PLAN_NOT_READY'')
                else case plan_binding item plan of Some e \<Rightarrow> Inl e
                | None \<Rightarrow> (case applicant db item of Inl e \<Rightarrow> Inl e | Inr _ \<Rightarrow> Inr (item, plan)))))"

definition earlier_dry_run :: "compute_call \<Rightarrow> portal_compute_resource_request \<Rightarrow> string \<Rightarrow> portal_db \<Rightarrow>
    portal_operation option" where
  "earlier_dry_run c item key db = scalar
     (\<lambda>o1. oper_requested_by o1 = user_id (cc_user c) \<and> oper_target_id o1 = crr_id item \<and>
        oper_operation_type o1 = ''compute.provision.dry_run'' \<and>
        oper_idempotency_key o1 = ''compute.provision.dry_run:'' @ key) (t_operations db)"

definition replay_dry_run :: "compute_call \<Rightarrow> portal_provision_plan \<Rightarrow> portal_operation \<Rightarrow> (portal_db, string) action" where
  "replay_dry_run c plan earlier db =
     (let payload = oper_validated_payload earlier in
      case ready_stage_contract (plan_dry_run_result plan) of
        None \<Rightarrow> (Inl (HTTPException 409 ''PROVISION_DRY_RUN_IDEMPOTENCY_CONFLICT''), db)
      | Some contract \<Rightarrow>
          if oper_status earlier = OP_SUCCEEDED \<and> dget payload ''plan_id'' = PStr (plan_id plan) \<and>
            py_eq (dget payload ''stage_contract_sha256'') (contract_sha contract)
          then (case note_parent c (contract_facts contract) db db of
              (Inl e, _) \<Rightarrow> (Inl e, db)
            | (Inr _, db') \<Rightarrow> if cc_parent c = None then (Inr ''READY_FOR_PROVISION'', db)
                else commit unhandled ''READY_FOR_PROVISION'' db db')
          else (Inl (HTTPException 409 ''PROVISION_DRY_RUN_IDEMPOTENCY_CONFLICT''), db))"

text \<open>A rejected dry run is recorded in the plan, and committed, before the error is raised.\<close>

definition record_rejected :: "compute_call \<Rightarrow> portal_provision_plan \<Rightarrow> pyval \<Rightarrow> string \<Rightarrow> (portal_db, string) action" where
  "record_rejected c plan worker code db =
     (case commit unhandled () db (modify_plan (plan_id plan)
          (\<lambda>p. p\<lparr>plan_dry_run_result := worker, plan_updated_at := cc_now c\<rparr>) db) of
        (Inl e, db') \<Rightarrow> (Inl e, db') | (Inr _, db') \<Rightarrow> (Inl (HTTPException 409 code), db'))"

definition accept_dry_run :: "compute_call \<Rightarrow> portal_compute_resource_request \<Rightarrow> portal_provision_plan \<Rightarrow> pyval \<Rightarrow>
    pyval \<Rightarrow> string \<Rightarrow> (portal_db, string) action" where
  "accept_dry_run c item plan worker contract key db =
     (case note_parent c (contract_facts contract) db
         (modify_plan (plan_id plan) (\<lambda>p. p\<lparr>plan_state := ''READY_FOR_PROVISION'', plan_dry_run_result := worker,
            plan_dry_run_at := Some (cc_now c), plan_updated_at := cc_now c\<rparr>) db) of
        (Inl e, _) \<Rightarrow> (Inl e, db)
      | (Inr _, db1) \<Rightarrow>
          let operation = (compute_operation c ''compute.provision.dry_run'' (crr_id item) key
                ''Worker revalidated the exact reserved plan without writes''
                [(''request_id'', PStr (crr_id item)), (''plan_id'', PStr (plan_id plan)),
                 (''portal_account_id'', PStr (crr_portal_account_id item)), (''execution_enabled'', PBool False),
                 (''stage_contract_sha256'', contract_sha contract)]
                ''READY_FOR_PROVISION; infrastructure side effects remained zero'' RISK_MEDIUM)
                \<lparr>oper_dry_run_result := worker\<rparr>
          in commit unhandled ''READY_FOR_PROVISION'' db
               (compute_audit c 2 ''PROVISION_DRY_RUN_COMPLETED'' ''provision_plan'' (plan_id plan) ''SUCCESS''
                  (PDict [(''request_id'', PStr (crr_id item)), (''dry_run_status'', PStr ''READY_FOR_PROVISION''),
                    (''execution_enabled'', PBool False), (''infrastructure_side_effects'', PStr ''NONE''),
                    (''lease_state'', PStr ''NOT_STARTED''), (''stage_contract_status'', PStr ''PASS''),
                    (''stage_contract_sha256'', contract_sha contract)])
                  (Some (oper_id operation)) (add_compute_operation c operation db1)))"

definition dry_run_key :: "portal_provision_plan \<Rightarrow> string \<Rightarrow> string" where
  "dry_run_key plan key = ''compute-dry-run:'' @ plan_id plan @ '':'' @ key"

definition judge_dry_run :: "compute_call \<Rightarrow> portal_compute_resource_request \<Rightarrow> portal_provision_plan \<Rightarrow> pyval \<Rightarrow>
    string \<Rightarrow> (portal_db, string) action" where
  "judge_dry_run c item plan worker key db =
     (if \<not> has_eq worker ''dry_run_status'' (PStr ''READY_FOR_PROVISION'')
      then record_rejected c plan worker ''PROVISION_DRY_RUN_CONFLICT'' db
      else case ready_stage_contract worker of
        None \<Rightarrow> record_rejected c plan worker ''PROVISION_DRY_RUN_CONTRACT_INCOMPLETE'' db
      | Some contract \<Rightarrow> accept_dry_run c item plan worker contract key db)"

definition dry_run_provision_plan :: "compute_call \<Rightarrow> string \<Rightarrow> string \<Rightarrow> portal_db \<Rightarrow> string traced" where
  "dry_run_provision_plan c text_id key db =
     (case cc_csrf c of Inl e \<Rightarrow> (Inl e, [], db)
      | Inr _ \<Rightarrow>
        (case dry_run_target c text_id db of Inl e \<Rightarrow> (Inl e, [], db)
         | Inr (item, plan) \<Rightarrow>
           (case (if plan_state plan = ''READY_FOR_PROVISION'' then earlier_dry_run c item key db else None) of
              Some earlier \<Rightarrow> (case replay_dry_run c plan earlier db of (r, db') \<Rightarrow> (r, [], db'))
            | None \<Rightarrow>
              if plan_reservation_expires_at plan \<le> cc_now c
              then (Inl (HTTPException 409 ''RESOURCE_RESERVATION_EXPIRED''), [], db)
              else case bound_reservations (cc_now c) db item plan of Inl e \<Rightarrow> (Inl e, [], db)
              | Inr _ \<Rightarrow>
                let payload = PDict (plan_payload item plan);
                    calls = [dry_call c ''compute.provision.dry_run'' payload (dry_run_key plan key)] in
                (case worker_dry_run c ''compute.provision.dry_run'' payload (dry_run_key plan key) of
                   Inl e \<Rightarrow> (Inl e, calls, db)
                 | Inr worker \<Rightarrow> (case judge_dry_run c item plan worker key db of (r, db') \<Rightarrow> (r, calls, db'))))))"

end
