(* ===== verification/Compute_Stage.thy ===== *)
theory Compute_Stage
  imports Compute_Planning
begin

section \<open>Compute requests: the real Stage\<close>

text \<open>
  \<open>provision_reserved_compute_environment\<close> of \<open>routes/compute_requests.py\<close>. The operation and the states
  \<open>PROVISIONING\<close> are committed before the worker is called; afterwards the rows are read again, the
  answer is judged, and the attempt ends staged or failed. A failed attempt releases its reservations
  only when the authoritative verification finds nothing left, and holds them otherwise.
\<close>

text \<open>The answer's \<open>status\<close> is always \<open>KEY_ENROLLMENT_PENDING\<close>.\<close>

record stage_answer =
  sa_operation_id :: "uuid option"
  sa_managed_user_id :: uuid
  sa_idempotent_replay :: bool

subsection \<open>Verification of what is left\<close>

definition update_rows :: "(portal_resource_reservation \<Rightarrow> portal_resource_reservation) \<Rightarrow>
    portal_resource_reservation list \<Rightarrow> portal_db \<Rightarrow> portal_db" where
  "update_rows f rows db = fold (\<lambda>i. modify_reservation i f) (map resv_id rows) db"

definition hold_row :: "portal_resource_reservation \<Rightarrow> portal_resource_reservation" where
  "hold_row r = r\<lparr>resv_state := ''FAILED_HOLD'',
     resv_active_key := Some (resv_resource_type r @ '':'' @ resv_resource_value r),
     resv_consumed_at := None, resv_released_at := None\<rparr>"

definition consume_row :: "instant \<Rightarrow> portal_resource_reservation \<Rightarrow> portal_resource_reservation" where
  "consume_row now r = r\<lparr>resv_state := ''CONSUMED'', resv_active_key := None, resv_consumed_at := Some now\<rparr>"

definition residue_worker :: "compute_call \<Rightarrow> worker" where
  "residue_worker c payload key = cc_worker c (dry_call c ''compute.provision.retry_verify'' payload key)"

definition verify_attempt :: "compute_call \<Rightarrow> portal_db \<Rightarrow> portal_compute_resource_request \<Rightarrow> portal_provision_plan \<Rightarrow>
    portal_operation \<Rightarrow> zero_residue_result" where
  "verify_attempt c db item plan operation =
     authoritative_zero_residue (residue_worker c) db item plan operation (cc_now c)"

definition verify_call :: "compute_call \<Rightarrow> portal_compute_resource_request \<Rightarrow> portal_provision_plan \<Rightarrow>
    portal_operation \<Rightarrow> operation_call" where
  "verify_call c item plan operation = dry_call c ''compute.provision.retry_verify''
     (verification_payload item plan operation) (reconcile_key operation (cc_now c))"

definition retained_resources :: "zero_residue_result \<Rightarrow> string list" where
  "retained_resources z =
     sort (remdups (zr_portal_residue z @ zr_host_residue z @ zr_unknown_resource_state z))"

definition texts :: "string list \<Rightarrow> pyval" where
  "texts xs = PList (map PStr xs)"

subsection \<open>An attempt that ends in doubt\<close>

definition fail_attempt :: "compute_call \<Rightarrow> portal_compute_resource_request \<Rightarrow> portal_provision_plan \<Rightarrow> portal_db \<Rightarrow>
    portal_db" where
  "fail_attempt c item plan db =
     modify_plan (plan_id plan) (\<lambda>p. p\<lparr>plan_state := ''FAILED'', plan_execution_enabled := True\<rparr>)
       (modify_request (crr_id item) (\<lambda>r. r\<lparr>crr_status := ''FAILED'', crr_active_slot := None,
          crr_updated_at := cc_now c\<rparr>) db)"

definition held_operation :: "compute_call \<Rightarrow> zero_residue_result \<Rightarrow> string \<Rightarrow> string \<Rightarrow> portal_operation \<Rightarrow> portal_operation" where
  "held_operation c z code summary o1 =
     (let verified = all_absent z; rollback = (if verified then ''ROLLED_BACK'' else ''REQUIRES_MANUAL_REVIEW'') in
      o1\<lparr>oper_status := OP_FAILED, oper_finished_at := Some (cc_now c), oper_error_code := Some (take 64 code),
        oper_rollback_status := Some rollback, oper_result_summary := Some (take 1000 summary),
        oper_dry_run_result := PDict
          [(''side_effect_classification'', PStr (if verified then ''PARTIAL_ROLLED_BACK'' else ''PARTIAL_UNKNOWN'')),
           (''rollback_status'', PStr rollback), (''last_successful_step'', PStr ''UNKNOWN''),
           (''first_failed_step'', PStr ''WORKER_RESPONSE_OR_PERSISTENCE''),
           (''failed_handler'', PStr ''compute.provision.stage''),
           (''retained_resources'', texts (if verified then [] else retained_resources z)),
           (''automatic_reconciliation'', evidence_of z (cc_now c))]\<rparr>)"

definition settle_rows :: "instant \<Rightarrow> bool \<Rightarrow> portal_resource_reservation list \<Rightarrow> portal_db \<Rightarrow> portal_db" where
  "settle_rows now verified rows db =
     (if verified then update_rows (release_row now) rows db
      else update_rows hold_row (filter (\<lambda>r. resv_state r = ''RESERVED'') rows) db)"

definition hold_uncertain_stage :: "compute_call \<Rightarrow> portal_compute_resource_request \<Rightarrow> portal_provision_plan \<Rightarrow>
    portal_operation \<Rightarrow> portal_resource_reservation list \<Rightarrow> string \<Rightarrow> string \<Rightarrow> portal_db \<Rightarrow> portal_db" where
  "hold_uncertain_stage c item plan operation rows code summary db =
     (let z = verify_attempt c db item plan operation; verified = all_absent z in
      compute_audit c 51 ''PROVISION_STAGE_RECONCILIATION_REQUIRED'' ''provision_plan'' (plan_id plan) ''FAILED''
        (PDict [(''request_id'', PStr (crr_id item)), (''error_code'', PStr (take 64 code)),
          (''rollback_status'', PStr (if verified then ''ROLLED_BACK'' else ''REQUIRES_MANUAL_REVIEW'')),
          (''reservation_state'', PStr (if verified then ''RELEASED'' else ''FAILED_HOLD'')),
          (''unknown_resource_state'', texts (zr_unknown_resource_state z)), (''approval_repeated'', PBool False)])
        (Some (oper_id operation))
        (operation_event (cc_id c 50) (cc_now c) (oper_id operation) (Some OP_RUNNING) OP_FAILED
          (if verified then ''Authoritative verifier proved zero residue; reservations released''
           else ''Resource state is unknown; reservations held for manual review'')
          (settle_rows (cc_now c) verified rows
            (modify_plan (plan_id plan) (\<lambda>p. p\<lparr>plan_updated_at := cc_now c\<rparr>)
              (fail_attempt c item plan
                (modify_operation (oper_id operation) (held_operation c z code summary) db))))))"

text \<open>The hold is committed, and then the error is raised.\<close>

definition end_in_doubt :: "compute_call \<Rightarrow> portal_compute_resource_request \<Rightarrow> portal_provision_plan \<Rightarrow>
    portal_operation \<Rightarrow> portal_resource_reservation list \<Rightarrow> int \<Rightarrow> string \<Rightarrow> string \<Rightarrow> stage_answer traced_action" where
  "end_in_doubt c item plan operation rows status code summary db =
     (case commit unhandled () db (hold_uncertain_stage c item plan operation rows code summary db) of
        (Inl e, db') \<Rightarrow> (Inl e, [verify_call c item plan operation], db')
      | (Inr _, db') \<Rightarrow> (Inl (HTTPException status code), [verify_call c item plan operation], db'))"

subsection \<open>Before the Stage\<close>

record stage_target =
  st_item :: portal_compute_resource_request
  st_plan :: portal_provision_plan
  st_contract :: pyval
  st_rows :: "portal_resource_reservation list"
  st_dry_run :: portal_operation

definition parent_contract_ok :: "compute_call \<Rightarrow> pyval \<Rightarrow> portal_db \<Rightarrow> bool" where
  "parent_contract_ok c contract db =
     (case cc_parent c of None \<Rightarrow> True
      | Some parent \<Rightarrow>
        (case get_operation db parent of None \<Rightarrow> False
         | Some operation \<Rightarrow>
             oper_status operation = OP_RUNNING \<and>
             dget (oper_validated_payload operation) ''deployment_version'' = PStr (cc_version c) \<and>
             py_eq (dget (oper_validated_payload operation) ''canonical_execution_contract'') (contract_sha contract) \<and>
             py_eq (dget (oper_validated_payload operation) ''canonical_local_image_identity'')
               (contract_image contract)))"

definition dry_run_evidence :: "portal_db \<Rightarrow> portal_compute_resource_request \<Rightarrow> portal_provision_plan \<Rightarrow> pyval \<Rightarrow>
    portal_operation option" where
  "dry_run_evidence db item plan contract =
     scalar (\<lambda>o1. dget (oper_validated_payload o1) ''plan_id'' = PStr (plan_id plan) \<and>
         py_eq (dget (oper_validated_payload o1) ''stage_contract_sha256'') (contract_sha contract) \<and>
         (case ready_stage_contract (oper_dry_run_result o1) of None \<Rightarrow> False
          | Some earlier \<Rightarrow> py_eq (contract_sha earlier) (contract_sha contract)))
       (order_desc (\<lambda>o1. case oper_finished_at o1 of None \<Rightarrow> 0 | Some t \<Rightarrow> t)
         (filter (\<lambda>o1. oper_operation_type o1 = ''compute.provision.dry_run'' \<and> oper_target_id o1 = crr_id item \<and>
            oper_status o1 = OP_SUCCEEDED) (t_operations db)))"

definition dry_run_done :: "portal_provision_plan \<Rightarrow> bool" where
  "dry_run_done plan \<longleftrightarrow> plan_state plan = ''READY_FOR_PROVISION'' \<and> plan_dry_run_at plan \<noteq> None \<and>
     has_eq (plan_dry_run_result plan) ''dry_run_status'' (PStr ''READY_FOR_PROVISION'')"

definition find_stage_target :: "compute_call \<Rightarrow> portal_compute_resource_request \<Rightarrow> portal_db \<Rightarrow> stage_target result" where
  "find_stage_target c item db =
     (case (if crr_status item = ''PROVISION_PLAN_READY'' then crr_provision_plan_id item else None) of
        None \<Rightarrow> Inl (HTTPException 409 ''PROVISION_PLAN_NOT_READY'')
      | Some pid \<Rightarrow>
        (case get_plan db pid of None \<Rightarrow> Inl (HTTPException 409 ''PROVISION_DRY_RUN_REQUIRED'')
         | Some plan \<Rightarrow>
             if \<not> dry_run_done plan then Inl (HTTPException 409 ''PROVISION_DRY_RUN_REQUIRED'')
             else case ready_stage_contract (plan_dry_run_result plan) of
               None \<Rightarrow> Inl (HTTPException 409 ''PROVISION_DRY_RUN_CONTRACT_INCOMPLETE'')
             | Some contract \<Rightarrow>
                 if \<not> parent_contract_ok c contract db
                 then Inl (HTTPException 409 ''PROVISION_RUNTIME_CONTRACT_MISMATCH'')
                 else case plan_binding item plan of Some e \<Rightarrow> Inl e
                 | None \<Rightarrow>
                   (case applicant db item of Inl e \<Rightarrow> Inl e
                    | Inr _ \<Rightarrow>
                        if plan_reservation_expires_at plan \<le> cc_now c
                        then Inl (HTTPException 409 ''RESOURCE_RESERVATION_EXPIRED'')
                        else case bound_reservations (cc_now c) db item plan of Inl e \<Rightarrow> Inl e
                        | Inr rows \<Rightarrow>
                          (case dry_run_evidence db item plan contract of
                             None \<Rightarrow> Inl (HTTPException 409 ''PROVISION_DRY_RUN_OPERATION_MISSING'')
                           | Some evidence \<Rightarrow>
                               if oper_finished_at evidence = None
                               then Inl (HTTPException 409 ''PROVISION_DRY_RUN_OPERATION_MISSING'')
                               else Inr \<lparr>st_item = item, st_plan = plan, st_contract = contract, st_rows = rows,
                                 st_dry_run = evidence\<rparr>))))"

definition stage_payload_of :: "compute_call \<Rightarrow> stage_target \<Rightarrow> (string \<times> pyval) list" where
  "stage_payload_of c t = dict_update (plan_payload (st_item t) (st_plan t))
     [(''stage_operation_id'', PStr (cc_id c 40)), (''dry_run_operation_id'', PStr (oper_id (st_dry_run t))),
      (''dry_run_stage_contract'', st_contract t),
      (''reservation_ids'', PDict (map (\<lambda>(k, v). (k, PStr v)) (rev (expected_ids (st_rows t))))),
      (''execution_enabled'', PBool True)]"

definition stage_operation :: "compute_call \<Rightarrow> stage_target \<Rightarrow> string \<Rightarrow> portal_operation" where
  "stage_operation c t key =
     \<lparr>oper_id = cc_id c 40, oper_operation_type = ''compute.provision.stage'',
      oper_target_type = ''compute_resource_request'', oper_target_id = crr_id (st_item t),
      oper_requested_by = user_id (cc_user c), oper_owner_managed_user_id = None,
      oper_approved_by = Some (user_id (cc_user c)),
      oper_request_summary = ''Stage exact reserved compute environment after administrator reauthentication'',
      oper_validated_payload = internal_payload c (stage_payload_of c t),
      oper_idempotency_key = ''compute.provision.stage:'' @ key, oper_risk_level = RISK_CRITICAL,
      oper_status = OP_RUNNING, oper_created_at = cc_now c, oper_approved_at = Some (cc_now c),
      oper_started_at = Some (cc_now c), oper_finished_at = None, oper_worker_execution_id = None,
      oper_dry_run_result = PNone, oper_result_summary = None, oper_error_code = None,
      oper_rollback_status = None, oper_related_report = None, oper_related_git_commit = None\<rparr>"

definition stage_call :: "compute_call \<Rightarrow> stage_target \<Rightarrow> operation_call" where
  "stage_call c t = \<lparr>wr_operation_type = ''compute.provision.stage'', wr_payload = PDict (stage_payload_of c t),
     wr_requested_by = user_normalized_login (cc_user c),
     wr_approved_by = Some (user_normalized_login (cc_user c)),
     wr_idempotency_key = ''compute-stage:'' @ cc_id c 40, wr_dry_run = False, wr_timeout_seconds = 1800\<rparr>"

definition start_stage :: "compute_call \<Rightarrow> stage_target \<Rightarrow> string \<Rightarrow> (portal_db, unit) action" where
  "start_stage c t key db =
     (let operation = stage_operation c t key; db1 = add_operation operation db in
      if \<not> provision_constraints db1 then (Inl unhandled, db)
      else commit (HTTPException 409 ''PROVISION_STAGE_OPERATION_CONFLICT'') () db
        (modify_plan (plan_id (st_plan t)) (\<lambda>p. p\<lparr>plan_state := ''PROVISIONING'', plan_execution_enabled := True,
           plan_updated_at := cc_now c\<rparr>)
          (modify_request (crr_id (st_item t)) (\<lambda>r. r\<lparr>crr_status := ''PROVISIONING'', crr_active_slot := Some 1,
             crr_updated_at := cc_now c\<rparr>)
            (operation_event (cc_id c 41) (cc_now c) (oper_id operation) None OP_RUNNING
               ''Reserved compute Stage dispatched to fixed Root Worker handler'' db1))))"

subsection \<open>A Stage the worker rejected\<close>

record stage_verdict =
  sv_classification :: string
  sv_rollback_status :: string
  sv_retained :: "string list"

definition judge_rejection :: "zero_residue_result \<Rightarrow> pyval \<Rightarrow> stage_verdict" where
  "judge_rejection z worker =
     (let claimed = py_str (dget_or worker ''side_effect_classification'' (PStr ''PARTIAL_UNKNOWN'')) in
      if all_absent z
      then (let classification = (if claimed = ''NO_SIDE_EFFECT'' then ''NO_SIDE_EFFECT'' else ''PARTIAL_ROLLED_BACK'') in
        \<lparr>sv_classification = classification,
         sv_rollback_status = (if classification = ''NO_SIDE_EFFECT'' then ''NOT_REQUIRED'' else ''ROLLED_BACK''),
         sv_retained = []\<rparr>)
      else \<lparr>sv_classification = (if zr_unknown_resource_state z \<noteq> [] \<or> zr_script_integrity z \<noteq> ''PASS''
          then ''PARTIAL_UNKNOWN'' else ''PARTIAL_ROLLBACK_FAILED''),
        sv_rollback_status = ''REQUIRES_MANUAL_REVIEW'', sv_retained = retained_resources z\<rparr>)"

definition releasable :: "stage_verdict \<Rightarrow> bool" where
  "releasable v \<longleftrightarrow> map_of [(''NO_SIDE_EFFECT'', ''NOT_REQUIRED''), (''PARTIAL_ROLLED_BACK'', ''ROLLED_BACK'')]
     (sv_classification v) = Some (sv_rollback_status v) \<and> sv_retained v = []"

definition rollback_steps_of :: "pyval \<Rightarrow> pyval" where
  "rollback_steps_of worker = (let raw = dget worker ''rollback_steps'' in
     if is_dict raw
     then PDict (dict_update [] (map (\<lambda>(k, v). (take 64 k, PStr (take 32 (py_str v))))
       (filter (\<lambda>(k, v). k \<noteq> [] \<and> list_all (\<lambda>ch. is_upper ch \<or> is_digit ch \<or> ch = CHR ''_'') k \<and>
          py_str v \<in> set [''SUCCEEDED'', ''FAILED'', ''BLOCKED'', ''NOT_REQUIRED''])
         (sort_key fst (dict_items raw)))))
     else PDict [])"

definition named_or :: "pyval \<Rightarrow> string \<Rightarrow> string \<Rightarrow> nat \<Rightarrow> pyval" where
  "named_or worker k dflt n = PStr (take n (py_str (dget_or worker k (PStr dflt))))"

definition rejected_operation :: "compute_call \<Rightarrow> zero_residue_result \<Rightarrow> pyval \<Rightarrow> portal_operation \<Rightarrow> portal_operation" where
  "rejected_operation c z worker o1 =
     (let v = judge_rejection z worker; error = dict_or_empty (dget worker ''error'') in
      o1\<lparr>oper_status := OP_FAILED, oper_finished_at := Some (cc_now c),
        oper_error_code := Some (take 64 (py_str (dget_or error ''code'' (PStr ''COMPUTE_STAGE_FAILED'')))),
        oper_rollback_status := Some (take 32 (sv_rollback_status v)),
        oper_result_summary := Some (take 1000
          (''Compute Stage failed closed; approval preserved; side effects classified '' @ sv_classification v)),
        oper_dry_run_result := PDict
          [(''side_effect_classification'', PStr (sv_classification v)),
           (''rollback_status'', PStr (sv_rollback_status v)),
           (''last_successful_step'', named_or worker ''last_successful_step'' ''UNKNOWN'' 128),
           (''first_failed_step'', named_or worker ''first_failed_step'' ''UNKNOWN'' 128),
           (''failed_handler'', named_or worker ''failed_handler'' ''compute.provision.stage'' 128),
           (''safe_error_message'', named_or error ''message'' ''Compute Stage failed'' 500),
           (''retained_resources'', texts (sv_retained v)), (''rollback_steps'', rollback_steps_of worker),
           (''stage_failure_code'', named_or worker ''stage_failure_code'' ''FIXED_STAGE_SCRIPT_FAILED'' 128),
           (''workspace_alias_failure_code'', (let a = dget worker ''workspace_alias_failure_code'' in
              if truthy a then PStr (take 128 (py_str a)) else PNone)),
           (''automatic_reconciliation'', evidence_of z (cc_now c))]\<rparr>)"

definition reject_stage :: "compute_call \<Rightarrow> portal_compute_resource_request \<Rightarrow> portal_provision_plan \<Rightarrow>
    portal_operation \<Rightarrow> portal_resource_reservation list \<Rightarrow> pyval \<Rightarrow> stage_answer traced_action" where
  "reject_stage c item plan operation rows worker db =
     (let z = verify_attempt c db item plan operation; v = judge_rejection z worker;
          failed = rejected_operation c z worker operation;
          code = (case oper_error_code failed of None \<Rightarrow> [] | Some s \<Rightarrow> s);
          db1 = compute_audit c 51 ''PROVISION_STAGE_FAILED'' ''provision_plan'' (plan_id plan) ''FAILED''
            (PDict [(''request_id'', PStr (crr_id item)), (''error_code'', PStr code),
              (''rollback_status'', opt_val PStr (oper_rollback_status failed)),
              (''side_effect_classification'', PStr (sv_classification v)),
              (''last_successful_step'', dget (oper_dry_run_result failed) ''last_successful_step''),
              (''first_failed_step'', dget (oper_dry_run_result failed) ''first_failed_step''),
              (''reservation_state'', PStr (if releasable v then ''RELEASED'' else ''FAILED_HOLD'')),
              (''approval_repeated'', PBool False)])
            (Some (oper_id operation))
            (operation_event (cc_id c 50) (cc_now c) (oper_id operation) (Some OP_RUNNING) OP_FAILED
              ''Compute Stage failed closed; no re-approval was created''
              (fail_attempt c item plan
                (update_rows (if releasable v then release_row (cc_now c) else hold_row) rows
                  (modify_operation (oper_id operation) (rejected_operation c z worker) db))))
      in case commit unhandled () db db1 of
           (Inl e, db') \<Rightarrow> (Inl e, [verify_call c item plan operation], db')
         | (Inr _, db') \<Rightarrow> (Inl (HTTPException 409 code), [verify_call c item plan operation], db'))"

subsection \<open>A Stage the worker completed\<close>

definition stage_identity_matches :: "portal_provision_plan \<Rightarrow> pyval \<Rightarrow> bool" where
  "stage_identity_matches plan stage \<longleftrightarrow> all_eq stage
     [(''username'', PStr (plan_username plan)), (''uid'', PInt (plan_uid plan)), (''gid'', PInt (plan_gid plan)),
      (''shell'', PStr ''/usr/sbin/nologin''), (''password'', PStr ''LOCKED''), (''host_ssh'', PStr ''DISABLED''),
      (''host_authorized_keys'', PStr ''ABSENT''), (''container_authorized_keys'', PStr ''ABSENT''),
      (''onboarding_state'', PStr ''STAGED''), (''ssh_key_state'', PStr ''REQUIRED_BEFORE_ACTIVATION'')]"

definition container_matches :: "portal_provision_plan \<Rightarrow> pyval \<Rightarrow> bool" where
  "container_matches plan container \<longleftrightarrow> is_dict container \<and> all_eq container
     [(''name'', PStr (plan_container_name plan)), (''state'', PStr ''STOPPED''), (''gpu'', PStr ''NONE''),
      (''ssh_port'', PInt (plan_container_ssh_port plan))]"

definition slurm_matches :: "portal_provision_plan \<Rightarrow> pyval \<Rightarrow> bool" where
  "slurm_matches plan slurm \<longleftrightarrow> is_dict slurm \<and> all_eq slurm
     [(''account'', PStr (plan_slurm_account plan)), (''qos'', PStr (plan_slurm_qos plan)),
      (''max_gpus'', PInt (plan_gpu_max plan)),
      (''max_tres'', PStr (''gres/gpu='' @ str_int (plan_gpu_max plan)))]"

definition isolation_matches :: "pyval \<Rightarrow> bool" where
  "isolation_matches stage \<longleftrightarrow>
     is_dict (dget stage ''lease'') \<and> has_eq stage ''lease''
       (PDict [(''state'', PStr ''NOT_STARTED''), (''starts_at'', PNone), (''expires_at'', PNone)]) \<and>
     is_dict (dget stage ''filesystem_isolation'') \<and> has_eq stage ''filesystem_isolation''
       (PDict [(''origin_pilot_to_target'', PStr ''DENIED''), (''target_to_origin_pilot'', PStr ''DENIED''),
         (''markers_removed'', PBool True)])"

text \<open>\<open>workspace_path\<close> raises for a UID out of range; it is reached once the container agrees.\<close>

definition stage_resources_match :: "portal_provision_plan \<Rightarrow> pyval \<Rightarrow> bool result" where
  "stage_resources_match plan stage =
     (if \<not> container_matches plan (dget stage ''container'') then Inr False
      else case workspace_path (plan_uid plan) of Inl e \<Rightarrow> Inl e
      | Inr path \<Rightarrow> Inr (all_eq stage [(''storage_path'', PStr (path_str path)),
            (''container_workspace'', PStr ''/workspace''),
            (''default_job_workdir'', PStr (path_str (path_join path ''projects'')))] \<and>
          slurm_matches plan (dget stage ''slurm'') \<and> isolation_matches stage))"

definition stage_image_digest :: "pyval \<Rightarrow> string" where
  "stage_image_digest stage = py_str (dget_or (dget stage ''container'') ''image_digest'' (PStr []))"

definition image_digest_ok :: "string \<Rightarrow> bool" where
  "image_digest_ok digest \<longleftrightarrow> starts_with digest ''sha256:'' \<and> length digest \<le> 255"

subsection \<open>What a completed Stage leaves in the Portal\<close>

definition staged_identity :: "compute_call \<Rightarrow> portal_user \<Rightarrow> portal_provision_plan \<Rightarrow> portal_managed_user" where
  "staged_identity c account plan =
     \<lparr>mu_id = cc_id c 60, mu_portal_user_id = user_id account, mu_unix_username = plan_username plan,
      mu_uid = plan_uid plan, mu_gid = plan_gid plan, mu_shell = ''/usr/sbin/nologin'',
      mu_host_access_state = ''DISABLED_BY_PLATFORM_POLICY'', mu_compute_environment_state = ''STAGED'',
      mu_host_access_revoked_at = None, mu_gpu_isolation_state = ''VERIFIED'',
      mu_slurm_account = Some (plan_slurm_account plan), mu_slurm_qos = Some (plan_slurm_qos plan),
      mu_project_id = Some (plan_project_id plan), mu_quota_bytes = Some (plan_storage_bytes plan),
      mu_lease_renewal_approval_required = True, mu_container_name = Some (plan_container_name plan),
      mu_container_port = Some (plan_container_ssh_port plan), mu_onboarding_state = OB_STAGED,
      mu_ssh_key_state = ''REQUIRED_BEFORE_ACTIVATION'', mu_ssh_key_count = 0,
      mu_staged_at = Some (cc_now c), mu_compute_activated_at = None, mu_created_at = cc_now c,
      mu_updated_at = cc_now c\<rparr>"

definition environment_spec :: "portal_provision_plan \<Rightarrow> pyval \<Rightarrow> pyval" where
  "environment_spec plan stage = PDict
     [(''cpus'', PInt 8), (''memory_gb'', PInt 32), (''pids_limit'', PInt 4096), (''gpu'', PStr ''NONE''),
      (''development_profile'', PStr (plan_container_profile plan)), (''privileged'', PBool False),
      (''host_network'', PBool False), (''host_pid'', PBool False), (''host_ipc'', PBool False),
      (''docker_socket'', PBool False), (''munge'', PBool False),
      (''container_sudo'', PStr ''CONTAINER_ROOT_NOPASSWD''), (''authorized_keys'', PStr ''ABSENT''),
      (''host_authorized_keys'', PStr ''ABSENT''), (''container_authorized_keys'', PStr ''ABSENT''),
      (''guard'', PStr ''PASSING''), (''gpu_open_probe'', PStr ''DENIED''), (''cuda_context_probe'', PStr ''DENIED''),
      (''filesystem_isolation'', dget stage ''filesystem_isolation''), (''max_gpus'', PInt (plan_gpu_max plan)),
      (''lease_state'', PStr ''NOT_STARTED''), (''provision_plan_id'', PStr (plan_id plan))]"

definition staged_environment :: "compute_call \<Rightarrow> portal_provision_plan \<Rightarrow> pyval \<Rightarrow> portal_container" where
  "staged_environment c plan stage =
     \<lparr>cont_id = cc_id c 61, cont_managed_user_id = cc_id c 60, cont_owner_managed_user_id = cc_id c 60,
      cont_name = plan_container_name plan, cont_image_digest = stage_image_digest stage,
      cont_ssh_port = Some (plan_container_ssh_port plan), cont_desired_state = ''STOPPED'',
      cont_observed_state = ''STOPPED'', cont_development_profile = plan_container_profile plan,
      cont_gpu_count = plan_container_gpu plan, cont_gpu_allocation_job_id = None,
      cont_gpu_allocation_uuid = None, cont_safe_spec = environment_spec plan stage,
      cont_created_at = cc_now c, cont_last_rebuilt_at = None\<rparr>"

definition staged_storage :: "compute_call \<Rightarrow> portal_provision_plan \<Rightarrow> posix_path \<Rightarrow> portal_storage_resource" where
  "staged_storage c plan path =
     \<lparr>stor_id = cc_id c 62, stor_owner_managed_user_id = cc_id c 60, stor_root_path = path_str path,
      stor_quota_bytes = plan_storage_bytes plan, stor_state = ''STAGED'', stor_created_at = cc_now c\<rparr>"

definition own_sessions :: "uuid \<Rightarrow> uuid \<Rightarrow> portal_db \<Rightarrow> portal_db" where
  "own_sessions account managed db = db\<lparr>t_sessions := update_where (\<lambda>s. sess_user_id s = account)
     (\<lambda>s. s\<lparr>sess_owner_managed_user_id := Some managed\<rparr>) (t_sessions db)\<rparr>"

definition stage_metadata :: "compute_call \<Rightarrow> portal_compute_resource_request \<Rightarrow> portal_provision_plan \<Rightarrow> pyval" where
  "stage_metadata c item plan = PDict
     [(''request_id'', PStr (crr_id item)), (''managed_user_id'', PStr (cc_id c 60)),
      (''uid'', PInt (plan_uid plan)), (''gid'', PInt (plan_gid plan)),
      (''project_id'', PInt (plan_project_id plan)), (''ssh_port'', PInt (plan_container_ssh_port plan)),
      (''container_state'', PStr ''STOPPED''), (''host_ssh'', PStr ''DISABLED''),
      (''lease_state'', PStr ''NOT_STARTED''), (''filesystem_isolation'', PStr ''DENIED_BOTH_DIRECTIONS''),
      (''reservation_state'', PStr ''CONSUMED''), (''approval_repeated'', PBool False)]"

definition stage_rows :: "compute_call \<Rightarrow> portal_user \<Rightarrow> portal_provision_plan \<Rightarrow> pyval \<Rightarrow> posix_path \<Rightarrow> portal_db \<Rightarrow>
    portal_db" where
  "stage_rows c account plan stage path db =
     modify_user (user_id account) (\<lambda>u. u\<lparr>user_unix_username := Some (plan_username plan),
         user_resource_onboarding_state := OB_STAGED\<rparr>)
       (add_storage (staged_storage c plan path)
         (add_container (staged_environment c plan stage) (add_managed (staged_identity c account plan) db)))"

definition stage_states :: "compute_call \<Rightarrow> portal_compute_resource_request \<Rightarrow> portal_provision_plan \<Rightarrow>
    portal_resource_reservation list \<Rightarrow> portal_db \<Rightarrow> portal_db" where
  "stage_states c item plan rows db =
     update_rows (consume_row (cc_now c)) rows
       (modify_plan (plan_id plan) (\<lambda>p. p\<lparr>plan_state := ''STAGED'', plan_execution_enabled := True,
          plan_updated_at := cc_now c\<rparr>)
         (modify_request (crr_id item) (\<lambda>r. r\<lparr>crr_managed_user_id := Some (cc_id c 60),
            crr_status := ''KEY_ENROLLMENT_PENDING'', crr_active_slot := None, crr_updated_at := cc_now c\<rparr>) db))"

definition completed_operation :: "compute_call \<Rightarrow> pyval \<Rightarrow> portal_operation \<Rightarrow> portal_operation" where
  "completed_operation c worker o1 = o1\<lparr>oper_owner_managed_user_id := Some (cc_id c 60),
     oper_status := OP_SUCCEEDED, oper_finished_at := Some (cc_now c),
     oper_worker_execution_id := Some (take 64 (py_str (dget_or worker ''request_id'' (PStr ''worker'')))),
     oper_result_summary := Some ''Compute environment STAGED; SSH key and activation remain pending''\<rparr>"

definition persisted_stage :: "compute_call \<Rightarrow> portal_compute_resource_request \<Rightarrow> portal_provision_plan \<Rightarrow>
    portal_operation \<Rightarrow> portal_resource_reservation list \<Rightarrow> portal_user \<Rightarrow> pyval \<Rightarrow> posix_path \<Rightarrow> portal_db \<Rightarrow>
    portal_db" where
  "persisted_stage c item plan operation rows account worker path db =
     compute_audit c 51 ''PROVISION_STAGE_COMPLETED'' ''provision_plan'' (plan_id plan) ''SUCCESS''
       (stage_metadata c item plan) (Some (oper_id operation))
       (operation_event (cc_id c 50) (cc_now c) (oper_id operation) (Some OP_RUNNING) OP_SUCCEEDED
         ''Reserved resources consumed; Lease remains NOT_STARTED''
         (modify_operation (oper_id operation) (completed_operation c worker)
           (own_sessions (user_id account) (cc_id c 60)
             (stage_states c item plan rows
               (stage_rows c account plan (dget worker ''stage'') path db)))))"

text \<open>
  The rows are written in one transaction. When it fails, the host has changed already: the attempt is
  held as in doubt.
\<close>

definition persist_stage :: "compute_call \<Rightarrow> portal_compute_resource_request \<Rightarrow> portal_provision_plan \<Rightarrow>
    portal_operation \<Rightarrow> portal_resource_reservation list \<Rightarrow> portal_user \<Rightarrow> pyval \<Rightarrow> posix_path \<Rightarrow>
    stage_answer traced_action" where
  "persist_stage c item plan operation rows account worker path db =
     (let after = persisted_stage c item plan operation rows account worker path db in
      if provision_constraints after
      then (Inr \<lparr>sa_operation_id = Some (oper_id operation), sa_managed_user_id = cc_id c 60,
              sa_idempotent_replay = truthy (dget_or worker ''idempotent_replay'' (PBool False))\<rparr>, [], after)
      else case commit unhandled () db (hold_uncertain_stage c item plan operation rows
          ''PROVISION_STAGE_PERSISTENCE_UNCERTAIN''
          ''Worker Stage succeeded but Portal persistence is incomplete; reconcile host truth'' db) of
        (Inl e, db') \<Rightarrow> (Inl e, [verify_call c item plan operation], db')
      | (Inr _, db') \<Rightarrow> (Inl (HTTPException 409 ''PROVISION_STAGE_RECONCILIATION_REQUIRED''),
          [verify_call c item plan operation], db'))"

definition judge_stage :: "compute_call \<Rightarrow> portal_compute_resource_request \<Rightarrow> portal_provision_plan \<Rightarrow>
    portal_operation \<Rightarrow> portal_resource_reservation list \<Rightarrow> portal_user \<Rightarrow> pyval \<Rightarrow> stage_answer traced_action" where
  "judge_stage c item plan operation rows account worker db =
     (let stage = dget worker ''stage''; doubt = end_in_doubt c item plan operation rows 409 in
      if \<not> is_dict stage
      then doubt ''COMPUTE_STAGE_RESULT_INVALID'' ''Worker reported success without a complete Stage result'' db
      else if \<not> stage_identity_matches plan stage
      then doubt ''COMPUTE_STAGE_RESULT_MISMATCH'' ''Worker Stage identity result differs from reserved plan'' db
      else case stage_resources_match plan stage of Inl e \<Rightarrow> (Inl e, [], db)
      | Inr False \<Rightarrow>
          doubt ''COMPUTE_STAGE_RESOURCE_MISMATCH'' ''Worker Stage resource result differs from reserved plan'' db
      | Inr True \<Rightarrow>
          if \<not> image_digest_ok (stage_image_digest stage)
          then doubt ''COMPUTE_STAGE_IMAGE_INVALID'' ''Worker Stage image identity is incomplete'' db
          else case workspace_path (plan_uid plan) of Inl e \<Rightarrow> (Inl e, [], db)
          | Inr path \<Rightarrow> persist_stage c item plan operation rows account worker path db)"

subsection \<open>After the worker's answer\<close>

text \<open>
  \<open>settle_stage\<close> is the second half of the route. It starts from the database as it is when the worker
  answers, which other requests may have changed since the Stage was dispatched.
\<close>

definition running_stage :: "compute_call \<Rightarrow> uuid \<Rightarrow> portal_db \<Rightarrow>
    (portal_compute_resource_request \<times> portal_provision_plan \<times> portal_operation) result" where
  "running_stage c i db =
     (case admin_request db i of Inl e \<Rightarrow> Inl e
      | Inr item \<Rightarrow>
        (case (case crr_provision_plan_id item of None \<Rightarrow> None | Some pid \<Rightarrow> get_plan db pid,
               get_operation db (cc_id c 40)) of
           (Some plan, Some operation) \<Rightarrow>
             if oper_status operation = OP_RUNNING then Inr (item, plan, operation)
             else Inl (HTTPException 409 ''PROVISION_STAGE_RECONCILIATION_REQUIRED'')
         | _ \<Rightarrow> Inl (HTTPException 409 ''PROVISION_STAGE_RECONCILIATION_REQUIRED'')))"

definition reserved_row :: "portal_compute_resource_request \<Rightarrow> portal_resource_reservation \<Rightarrow> bool" where
  "reserved_row item r \<longleftrightarrow> bound_row item r \<and> resv_state r = ''RESERVED''"

definition settle_stage :: "compute_call \<Rightarrow> uuid \<Rightarrow> string + pyval \<Rightarrow> stage_answer traced_action" where
  "settle_stage c i answer db =
     (case running_stage c i db of Inl e \<Rightarrow> (Inl e, [], db)
      | Inr (item, plan, operation) \<Rightarrow>
        let rows = rows_of_plan (plan_id plan) db in
        (case answer of
           Inl code \<Rightarrow> end_in_doubt c item plan operation rows 503 code
             ''Worker response is unknown; host truth must be reconciled before any retry'' db
         | Inr worker \<Rightarrow>
             if crr_status item \<noteq> ''PROVISIONING'' \<or> plan_state plan \<noteq> ''PROVISIONING'' \<or> \<not> plan_execution_enabled plan
             then (Inl (HTTPException 409 ''PROVISION_STAGE_RECONCILIATION_REQUIRED''), [], db)
             else case get_user db (crr_portal_account_id item) of
               None \<Rightarrow> (Inl (HTTPException 409 ''PORTAL_ACCOUNT_NOT_FOUND''), [], db)
             | Some account \<Rightarrow>
                 if length rows \<noteq> 5 \<or> \<not> list_all (reserved_row item) rows
                 then end_in_doubt c item plan operation rows 409 ''RESOURCE_RESERVATION_BINDING_FAILED''
                   ''Worker returned after reservation binding changed; reconcile host truth'' db
                 else if \<not> has_eq worker ''status'' (PStr ''SUCCEEDED'') \<or>
                   \<not> has_eq worker ''handler'' (PStr ''compute.provision.stage'')
                 then reject_stage c item plan operation rows worker db
                 else judge_stage c item plan operation rows account worker db))"

subsection \<open>The route\<close>

definition stage_replay :: "portal_compute_resource_request \<Rightarrow> uuid \<Rightarrow> portal_db \<Rightarrow> stage_answer result" where
  "stage_replay item owner db =
     (case (case crr_provision_plan_id item of None \<Rightarrow> None | Some pid \<Rightarrow> get_plan db pid,
            get_managed db owner) of
        (Some plan, Some managed) \<Rightarrow>
          if plan_state plan \<noteq> ''STAGED'' then Inl (HTTPException 409 ''PROVISION_STAGE_STATE_MISMATCH'')
          else Inr \<lparr>sa_operation_id = map_option oper_id (scalar (\<lambda>o1.
                oper_operation_type o1 = ''compute.provision.stage'' \<and> oper_target_id o1 = crr_id item \<and>
                oper_status o1 = OP_SUCCEEDED) (t_operations db)),
              sa_managed_user_id = mu_id managed, sa_idempotent_replay = True\<rparr>
      | _ \<Rightarrow> Inl (HTTPException 409 ''PROVISION_STAGE_STATE_MISMATCH''))"

definition execute_stage :: "compute_call \<Rightarrow> stage_target \<Rightarrow> string \<Rightarrow> stage_answer traced_action" where
  "execute_stage c t key db =
     (case start_stage c t key db of
        (Inl e, db') \<Rightarrow> (Inl e, [], db')
      | (Inr _, db') \<Rightarrow>
          (case settle_stage c (crr_id (st_item t)) (cc_worker c (stage_call c t)) db' of
             (r, calls, db'') \<Rightarrow> (r, stage_call c t # calls, db'')))"

definition provision_reserved_compute_environment :: "compute_call \<Rightarrow> string \<Rightarrow> string \<Rightarrow>
    stage_answer traced_action" where
  "provision_reserved_compute_environment c text_id key db =
     (case cc_csrf c of Inl e \<Rightarrow> (Inl e, [], db)
      | Inr _ \<Rightarrow>
        (case (if cc_parent c = None then cc_recent c else Inr ()) of Inl e \<Rightarrow> (Inl e, [], db)
         | Inr _ \<Rightarrow>
           (case administered_request c text_id db of Inl e \<Rightarrow> (Inl e, [], db)
            | Inr item \<Rightarrow>
              (case (crr_status item \<in> set [''STAGED'', ''KEY_ENROLLMENT_PENDING''], crr_managed_user_id item) of
                 (True, Some owner) \<Rightarrow> (stage_replay item owner db, [], db)
               | _ \<Rightarrow>
                 if crr_status item = ''PROVISIONING''
                 then (Inl (HTTPException 409 ''PROVISION_STAGE_IN_PROGRESS''), [], db)
                 else case find_stage_target c item db of Inl e \<Rightarrow> (Inl e, [], db)
                 | Inr t \<Rightarrow> execute_stage c t key db))))"

end
