(* ===== verification/Compute_Orchestration.thy ===== *)
theory Compute_Orchestration
  imports Compute_Stage
begin

section \<open>Compute requests: approval and retry in one action\<close>

text \<open>
  \<open>approve_and_provision\<close> and \<open>retry_provision\<close> of \<open>routes/compute_requests.py\<close>: one operation runs the
  plan, the dry run and the Stage as its steps and ends \<open>SUCCEEDED\<close> or \<open>FAILED\<close>. \<open>orchestration\<close> holds
  the request's \<open>compute_call\<close>, the environment of each step (its clock and new identifiers), the keys
  \<open>uuid.uuid5\<close> derives for the steps, and the display text of an error, which the failed operation keeps.
\<close>

record orchestration =
  or_call :: compute_call
  or_envs :: "nat \<Rightarrow> op_env"
  or_key :: "uuid \<Rightarrow> string \<Rightarrow> string"
  or_message :: "exn \<Rightarrow> string"

definition step_call :: "orchestration \<Rightarrow> uuid \<Rightarrow> nat \<Rightarrow> compute_call" where
  "step_call orc oid k = (or_call orc)\<lparr>cc_env := or_envs orc k, cc_parent := Some oid\<rparr>"

record orchestration_answer =
  oa_status :: string
  oa_operation_id :: uuid
  oa_idempotent_replay :: bool

definition orchestration_response :: "portal_operation \<Rightarrow> bool \<Rightarrow> orchestration_answer" where
  "orchestration_response operation replay =
     \<lparr>oa_status = (if oper_status operation = OP_RUNNING then ''PROVISIONING''
        else if oper_status operation = OP_SUCCEEDED then ''KEY_ENROLLMENT_PENDING'' else ''FAILED''),
      oa_operation_id = oper_id operation, oa_idempotent_replay = replay\<rparr>"

subsection \<open>The steps of the workflow\<close>

definition WORKFLOW_STEPS :: "string list" where
  "WORKFLOW_STEPS = [''PREPARING'', ''VALIDATING'', ''CREATING_ENVIRONMENT'', ''FINALIZING'']"

definition workflow_steps :: "portal_operation \<Rightarrow> (string \<times> pyval) list" where
  "workflow_steps operation =
     filter (\<lambda>(k, v). k \<in> set WORKFLOW_STEPS \<and>
         v \<in> set (map PStr [''PENDING'', ''RUNNING'', ''SUCCEEDED'', ''FAILED'']))
       (map (\<lambda>(k, v). (k, PStr (py_str v)))
         (dict_items (dget (oper_dry_run_result operation) ''workflow_steps'')))"

definition with_steps :: "(string \<times> pyval) list \<Rightarrow> (string \<times> pyval) list \<Rightarrow> portal_operation \<Rightarrow> portal_operation" where
  "with_steps steps facts o1 = o1\<lparr>oper_dry_run_result :=
     PDict (dict_update (dict_items (oper_dry_run_result o1)) ((''workflow_steps'', PDict steps) # facts))\<rparr>"

text \<open>\<open>before\<close> is the database last committed, \<open>db\<close> the state of the session.\<close>

definition set_workflow_step :: "compute_call \<Rightarrow> uuid \<Rightarrow> string \<Rightarrow> string \<Rightarrow> portal_db \<Rightarrow> portal_db \<Rightarrow>
    unit result \<times> portal_db" where
  "set_workflow_step c oid step state before db =
     (case get_operation db oid of
        None \<Rightarrow> (Inl (HTTPException 409 ''PROVISION_ORCHESTRATION_STATE_INVALID''), before)
      | Some operation \<Rightarrow>
          if oper_status operation \<noteq> OP_RUNNING
          then (Inl (HTTPException 409 ''PROVISION_ORCHESTRATION_STATE_INVALID''), before)
          else commit unhandled () before
            (operation_event (cc_id c 0) (cc_now c) oid (Some OP_RUNNING) OP_RUNNING (step @ '': '' @ state)
              (modify_operation oid (with_steps (dict_put (workflow_steps operation) step (PStr state)) []) db)))"

subsection \<open>The operation\<close>

definition active_orchestration :: "portal_db \<Rightarrow> portal_compute_resource_request \<Rightarrow> portal_operation option" where
  "active_orchestration db item = newest_operation
     (\<lambda>o1. oper_target_type o1 = ''compute_resource_request'' \<and> oper_target_id o1 = crr_id item \<and>
        oper_operation_type o1 \<in> set [''compute.provision'', ''compute.provision.retry''] \<and>
        oper_status o1 = OP_RUNNING) db"

definition orchestration_by_key :: "portal_db \<Rightarrow> compute_call \<Rightarrow> portal_compute_resource_request \<Rightarrow> string \<Rightarrow> string \<Rightarrow>
    portal_operation option" where
  "orchestration_by_key db c item operation_type key = scalar
     (\<lambda>o1. oper_requested_by o1 = user_id (cc_user c) \<and> oper_target_id o1 = crr_id item \<and>
        oper_operation_type o1 = operation_type \<and> oper_idempotency_key o1 = operation_type @ '':'' @ key)
     (t_operations db)"

definition new_orchestration_operation :: "compute_call \<Rightarrow> portal_compute_resource_request \<Rightarrow> string \<Rightarrow> string \<Rightarrow>
    (string \<times> pyval) list \<Rightarrow> string \<Rightarrow> portal_operation" where
  "new_orchestration_operation c item operation_type key payload summary =
     \<lparr>oper_id = cc_id c 0, oper_operation_type = operation_type, oper_target_type = ''compute_resource_request'',
      oper_target_id = crr_id item, oper_requested_by = user_id (cc_user c), oper_owner_managed_user_id = None,
      oper_approved_by = Some (user_id (cc_user c)), oper_request_summary = summary,
      oper_validated_payload = PDict (dict_update
        [(''request_id'', PStr (crr_id item)), (''portal_account_id'', PStr (crr_portal_account_id item)),
         (''deployment_version'', PStr (cc_version c))] payload),
      oper_idempotency_key = operation_type @ '':'' @ key, oper_risk_level = RISK_CRITICAL,
      oper_status = OP_RUNNING, oper_created_at = cc_now c, oper_approved_at = Some (cc_now c),
      oper_started_at = Some (cc_now c), oper_finished_at = None, oper_worker_execution_id = None,
      oper_dry_run_result = PDict [(''workflow_steps'', PDict (map (\<lambda>s. (s, PStr ''PENDING'')) WORKFLOW_STEPS))],
      oper_result_summary = None, oper_error_code = None, oper_rollback_status = Some ''NOT_REQUIRED'',
      oper_related_report = None, oper_related_git_commit = None\<rparr>"

definition add_orchestration :: "compute_call \<Rightarrow> portal_operation \<Rightarrow> portal_db \<Rightarrow> portal_db" where
  "add_orchestration c operation db =
     operation_event (cc_id c 1) (cc_now c) (oper_id operation) None OP_RUNNING
       ''Provision orchestration accepted; internal safety steps started'' (add_operation operation db)"

subsection \<open>The end of an orchestration\<close>

definition current_plan :: "portal_db \<Rightarrow> portal_compute_resource_request \<Rightarrow> portal_provision_plan option" where
  "current_plan db item = (case crr_provision_plan_id item of None \<Rightarrow> None | Some pid \<Rightarrow> get_plan db pid)"

text \<open>A plan whose Stage was never tried gives its reservations back.\<close>

definition release_unstarted :: "compute_call \<Rightarrow> portal_provision_plan \<Rightarrow> portal_db \<Rightarrow> portal_db" where
  "release_unstarted c plan db =
     modify_plan (plan_id plan) (\<lambda>p. p\<lparr>plan_state := ''FAILED'', plan_execution_enabled := False,
         plan_updated_at := cc_now c\<rparr>)
       (update_rows (release_row (cc_now c)) (filter (\<lambda>r. resv_state r = ''RESERVED'') (rows_of_plan (plan_id plan) db))
         db)"

definition failed_orchestration :: "compute_call \<Rightarrow> string \<Rightarrow> string \<Rightarrow> portal_operation option \<Rightarrow> portal_operation \<Rightarrow>
    portal_operation" where
  "failed_orchestration c code message failure o1 =
     (let rollback = (case failure of None \<Rightarrow> Some ''NOT_REQUIRED'' | Some f \<Rightarrow> oper_rollback_status f);
          evidence = (case failure of None \<Rightarrow> PDict [] | Some f \<Rightarrow> dict_or_empty (oper_dry_run_result f));
          steps = workflow_steps o1;
          running = map_option fst (scalar (\<lambda>(k, v). v = PStr ''RUNNING'') steps);
          steps = (case running of None \<Rightarrow> steps | Some k \<Rightarrow> dict_put steps k (PStr ''FAILED''))
      in with_steps steps
        [(''side_effect_classification'',
            dget_or evidence ''side_effect_classification'' (PStr ''NO_SIDE_EFFECT'')),
         (''rollback_status'', opt_val PStr rollback),
         (''first_failed_step'', dget_or evidence ''first_failed_step'' (opt_val PStr running)),
         (''last_successful_step'', dget evidence ''last_successful_step''),
         (''safe_error_message'', PStr (take 500 message)),
         (''automatic_reconciliation'', dget evidence ''automatic_reconciliation'')]
        (o1\<lparr>oper_status := OP_FAILED, oper_finished_at := Some (cc_now c),
          oper_error_code := Some (take 64 code), oper_rollback_status := rollback,
          oper_result_summary := Some (take 1000 message)\<rparr>))"

definition failure_of_attempt :: "portal_db \<Rightarrow> portal_compute_resource_request \<Rightarrow> portal_operation option" where
  "failure_of_attempt db item = (case current_plan db item of None \<Rightarrow> None
     | Some plan \<Rightarrow> attempt_failure_operation db item (plan_id plan))"

definition end_request :: "compute_call \<Rightarrow> portal_compute_resource_request \<Rightarrow> portal_db \<Rightarrow> portal_db" where
  "end_request c item db =
     (if crr_status item \<in> set [''FAILED'', ''KEY_ENROLLMENT_PENDING'', ''STAGED''] then db
      else modify_request (crr_id item) (\<lambda>r. r\<lparr>crr_status := ''FAILED'', crr_active_slot := None,
        crr_updated_at := cc_now c\<rparr>) db)"

definition failed_state :: "compute_call \<Rightarrow> portal_compute_resource_request \<Rightarrow> portal_operation \<Rightarrow> string \<Rightarrow> string \<Rightarrow>
    portal_db \<Rightarrow> portal_db" where
  "failed_state c item operation code message db =
     (let failure = failure_of_attempt db item;
          failed = failed_orchestration c code message failure operation;
          db1 = (case (failure, current_plan db item) of
              (None, Some plan) \<Rightarrow> if plan_state plan \<in> set [''RESERVED'', ''READY_FOR_PROVISION'']
                then release_unstarted c plan db else db
            | _ \<Rightarrow> db)
      in compute_audit c 51 ''COMPUTE_PROVISION_FAILED'' ''compute_resource_request'' (crr_id item) ''FAILED''
        (PDict [(''attempt_number'', opt_val (PInt \<circ> plan_attempt_number) (current_plan db item)),
          (''error_code'', PStr (take 64 code)),
          (''rollback_result'', PStr (if oper_rollback_status failed \<in> set [Some ''NOT_REQUIRED'', Some ''ROLLED_BACK'']
             then ''VERIFIED'' else ''MANUAL_REVIEW'')),
          (''deployment_version'', dget (oper_validated_payload operation) ''deployment_version'')])
        (Some (oper_id operation))
        (operation_event (cc_id c 50) (cc_now c) (oper_id operation) (Some OP_RUNNING) OP_FAILED
          ''Provision failed; automatic rollback convergence completed or failed closed''
          (modify_operation (oper_id operation) (failed_orchestration c code message failure)
            (end_request c item db1))))"

definition finalize_orchestration_failure :: "compute_call \<Rightarrow> uuid \<Rightarrow> uuid \<Rightarrow> string \<Rightarrow> string \<Rightarrow>
    (portal_db, orchestration_answer) action" where
  "finalize_orchestration_failure c i oid code message db =
     (case admin_request db i of Inl e \<Rightarrow> (Inl e, db)
      | Inr item \<Rightarrow>
        (case get_operation db oid of
           None \<Rightarrow> (Inl (HTTPException 409 ''PROVISION_ORCHESTRATION_STATE_INVALID''), db)
         | Some operation \<Rightarrow>
             if oper_status operation \<noteq> OP_RUNNING then (Inr (orchestration_response operation True), db)
             else commit unhandled
               (orchestration_response (operation\<lparr>oper_status := OP_FAILED\<rparr>) False) db
               (failed_state c item operation code message db)))"

definition succeeded_orchestration :: "compute_call \<Rightarrow> uuid \<Rightarrow> portal_operation \<Rightarrow> portal_operation" where
  "succeeded_orchestration c managed o1 =
     with_steps (dict_put (workflow_steps o1) ''FINALIZING'' (PStr ''SUCCEEDED''))
       [(''environment_checks'', PStr ''PASS''), (''image'', PStr ''PASS''), (''storage'', PStr ''PASS''),
        (''slurm'', PStr ''PASS''), (''gpu_policy'', PStr ''PASS'')]
       (o1\<lparr>oper_owner_managed_user_id := Some managed, oper_status := OP_SUCCEEDED,
         oper_finished_at := Some (cc_now c), oper_rollback_status := Some ''NOT_REQUIRED'',
         oper_result_summary := Some ''Compute environment STAGED; container key enrollment and Lease activation remain pending''\<rparr>)"

definition succeeded_state :: "compute_call \<Rightarrow> portal_compute_resource_request \<Rightarrow> portal_provision_plan \<Rightarrow> uuid \<Rightarrow>
    portal_operation \<Rightarrow> portal_db \<Rightarrow> portal_db" where
  "succeeded_state c item plan managed operation db =
     compute_audit c 51 ''COMPUTE_PROVISION_COMPLETED'' ''compute_resource_request'' (crr_id item) ''SUCCESS''
       (PDict [(''attempt_number'', PInt (plan_attempt_number plan)), (''result'', PStr ''STAGED''),
         (''deployment_version'', dget (oper_validated_payload operation) ''deployment_version''),
         (''rollback_result'', PStr ''NOT_REQUIRED'')])
       (Some (oper_id operation))
       (operation_event (cc_id c 50) (cc_now c) (oper_id operation) (Some OP_RUNNING) OP_SUCCEEDED
         ''Provision orchestration completed at STAGED''
         (modify_operation (oper_id operation) (succeeded_orchestration c managed) db))"

definition finalize_orchestration_success :: "compute_call \<Rightarrow> uuid \<Rightarrow> uuid \<Rightarrow>
    (portal_db, orchestration_answer) action" where
  "finalize_orchestration_success c i oid db =
     (case admin_request db i of Inl e \<Rightarrow> (Inl e, db)
      | Inr item \<Rightarrow>
        (case (get_operation db oid, current_plan db item, crr_managed_user_id item) of
           (Some operation, Some plan, Some managed) \<Rightarrow>
             if oper_status operation = OP_RUNNING \<and> plan_state plan = ''STAGED'' \<and>
               crr_status item = ''KEY_ENROLLMENT_PENDING''
             then commit unhandled (orchestration_response (operation\<lparr>oper_status := OP_SUCCEEDED\<rparr>) False) db
               (succeeded_state c item plan managed operation db)
             else (Inl (HTTPException 409 ''PROVISION_ORCHESTRATION_POSTCONDITION_FAILED''), db)
         | _ \<Rightarrow> (Inl (HTTPException 409 ''PROVISION_ORCHESTRATION_POSTCONDITION_FAILED''), db)))"

subsection \<open>Running it\<close>

text \<open>Actions in sequence; each leaves, on an error, the database last committed.\<close>

fun run_steps :: "unit traced_action list \<Rightarrow> unit traced_action" where
  "run_steps [] db = (Inr (), [], db)"
| "run_steps (a # actions) db =
     (case a db of
        (Inl e, calls, db') \<Rightarrow> (Inl e, calls, db')
      | (Inr _, calls, db') \<Rightarrow>
          (case run_steps actions db' of (r, calls', db'') \<Rightarrow> (r, calls @ calls', db'')))"

definition mark :: "orchestration \<Rightarrow> uuid \<Rightarrow> nat \<Rightarrow> string \<Rightarrow> string \<Rightarrow> unit traced_action" where
  "mark orc oid k step state db =
     (case set_workflow_step (step_call orc oid k) oid step state db db of (r, db') \<Rightarrow> (r, [], db'))"

text \<open>A plan that exists already leaves what the planning expired for the commit of the next mark.\<close>

definition prepare :: "orchestration \<Rightarrow> uuid \<Rightarrow> uuid \<Rightarrow> unit traced_action" where
  "prepare orc i oid db =
     (case plan_step (step_call orc oid 1) i (or_key orc oid ''allocate-and-reserve'') db of
        (Inl e, calls, db') \<Rightarrow> (Inl e, calls, db')
      | (Inr _, calls, db1) \<Rightarrow>
          (case set_workflow_step (step_call orc oid 2) oid ''PREPARING'' ''SUCCEEDED''
              (if calls = [] then db else db1) db1 of (r, db2) \<Rightarrow> (r, calls, db2)))"

definition validate_step :: "orchestration \<Rightarrow> uuid \<Rightarrow> uuid \<Rightarrow> unit traced_action" where
  "validate_step orc i oid db =
     (case dry_run_provision_plan (step_call orc oid 4) i (or_key orc oid ''automatic-dry-run'') db of
        (Inl e, calls, db') \<Rightarrow> (Inl e, calls, db') | (Inr _, calls, db') \<Rightarrow> (Inr (), calls, db'))"

definition create_step :: "orchestration \<Rightarrow> uuid \<Rightarrow> uuid \<Rightarrow> unit traced_action" where
  "create_step orc i oid db =
     (case provision_reserved_compute_environment (step_call orc oid 7) i (or_key orc oid ''automatic-stage'') db of
        (Inl e, calls, db') \<Rightarrow> (Inl e, calls, db') | (Inr _, calls, db') \<Rightarrow> (Inr (), calls, db'))"

definition orchestration_steps :: "orchestration \<Rightarrow> uuid \<Rightarrow> uuid \<Rightarrow> unit traced_action list" where
  "orchestration_steps orc i oid =
     [mark orc oid 0 ''PREPARING'' ''RUNNING'', prepare orc i oid, mark orc oid 3 ''VALIDATING'' ''RUNNING'',
      validate_step orc i oid, mark orc oid 5 ''VALIDATING'' ''SUCCEEDED'',
      mark orc oid 6 ''CREATING_ENVIRONMENT'' ''RUNNING'', create_step orc i oid,
      mark orc oid 8 ''CREATING_ENVIRONMENT'' ''SUCCEEDED'', mark orc oid 9 ''FINALIZING'' ''RUNNING'']"

definition end_of_error :: "orchestration \<Rightarrow> exn \<Rightarrow> string \<times> string" where
  "end_of_error orc e = (case e of HTTPException status code \<Rightarrow> (code, or_message orc e)
     | _ \<Rightarrow> (''PROVISION_ORCHESTRATION_FAILED'', ''Provision orchestration failed closed''))"

definition fail_orchestration :: "orchestration \<Rightarrow> uuid \<Rightarrow> uuid \<Rightarrow> exn \<Rightarrow> (portal_db, orchestration_answer) action" where
  "fail_orchestration orc i oid e db =
     (case end_of_error orc e of (code, message) \<Rightarrow>
        finalize_orchestration_failure (step_call orc oid 11) i oid code message db)"

definition run_workflow :: "orchestration \<Rightarrow> uuid \<Rightarrow> uuid \<Rightarrow> orchestration_answer traced_action" where
  "run_workflow orc i oid db =
     (case run_steps (orchestration_steps orc i oid) db of
        (Inl e, calls, db') \<Rightarrow> (case fail_orchestration orc i oid e db' of (r, db'') \<Rightarrow> (r, calls, db''))
      | (Inr _, calls, db') \<Rightarrow>
          (case finalize_orchestration_success (step_call orc oid 10) i oid db' of
             (Inl e, db'') \<Rightarrow> (case fail_orchestration orc i oid e db'' of (r, db3) \<Rightarrow> (r, calls, db3))
           | (Inr answer, db'') \<Rightarrow> (Inr answer, calls, db'')))"

definition run_provision_orchestration :: "orchestration \<Rightarrow> uuid \<Rightarrow> uuid \<Rightarrow> orchestration_answer traced_action" where
  "run_provision_orchestration orc i oid db =
     (case admin_request db i of Inl e \<Rightarrow> (Inl e, [], db)
      | Inr item \<Rightarrow>
        (case get_operation db oid of
           None \<Rightarrow> (Inl (HTTPException 409 ''PROVISION_ORCHESTRATION_STATE_INVALID''), [], db)
         | Some operation \<Rightarrow>
             if crr_status item \<in> set [''KEY_ENROLLMENT_PENDING'', ''STAGED'']
             then (case finalize_orchestration_success (step_call orc oid 10) i oid db of (r, db') \<Rightarrow> (r, [], db'))
             else if crr_status item = ''FAILED''
             then (case finalize_orchestration_failure (step_call orc oid 11) i oid ''PROVISION_FAILED''
                 ''Provision failed safely'' db of (r, db') \<Rightarrow> (r, [], db'))
             else if crr_status item = ''PROVISIONING''
             then (Inr (orchestration_response operation True), [], db)
             else run_workflow orc i oid db))"

subsection \<open>The two actions\<close>

text \<open>Both look for their earlier operation first, and for one that is running.\<close>

definition orchestrate :: "orchestration \<Rightarrow> string \<Rightarrow> string \<Rightarrow> string \<Rightarrow>
    (portal_compute_resource_request \<Rightarrow> portal_db \<Rightarrow> uuid result \<times> portal_db) \<Rightarrow>
    orchestration_answer traced_action" where
  "orchestrate orc operation_type text_id key begin_with db =
     (let c = or_call orc in
      case cc_csrf c of Inl e \<Rightarrow> (Inl e, [], db)
      | Inr _ \<Rightarrow>
        (case administered_request c text_id db of Inl e \<Rightarrow> (Inl e, [], db)
         | Inr item \<Rightarrow>
           (case orchestration_by_key db c item operation_type key of
              Some existing \<Rightarrow>
                if oper_status existing = OP_RUNNING
                then run_provision_orchestration orc (crr_id item) (oper_id existing) db
                else (Inr (orchestration_response existing True), [], db)
            | None \<Rightarrow>
              (case active_orchestration db item of
                 Some running \<Rightarrow> (Inr (orchestration_response running True), [], db)
               | None \<Rightarrow>
                 (case cc_recent c of Inl e \<Rightarrow> (Inl e, [], db)
                  | Inr _ \<Rightarrow>
                    (case begin_with item db of
                       (Inl e, db') \<Rightarrow> (Inl e, [], db')
                     | (Inr oid, db') \<Rightarrow> run_provision_orchestration orc (crr_id item) oid db'))))))"

definition approved_request :: "compute_call \<Rightarrow> string option \<Rightarrow> portal_compute_resource_request \<Rightarrow>
    portal_compute_resource_request" where
  "approved_request c note r = r\<lparr>crr_reviewed_at := Some (cc_now c), crr_reviewed_by := Some (user_id (cc_user c)),
     crr_review_note := note, crr_approved_at := Some (cc_now c), crr_status := ''APPROVED'',
     crr_active_slot := Some 1, crr_updated_at := cc_now c\<rparr>"

definition begin_approval :: "compute_call \<Rightarrow> string option \<Rightarrow> string \<Rightarrow> portal_compute_resource_request \<Rightarrow>
    (portal_db, uuid) action" where
  "begin_approval c note key item db =
     (if crr_status item \<notin> set [''REQUESTED'', ''UNDER_REVIEW'']
      then (Inl (HTTPException 409 ''COMPUTE_REQUEST_ALREADY_REVIEWED''), db)
      else case applicant db item of Inl e \<Rightarrow> (Inl e, db)
      | Inr _ \<Rightarrow>
        let operation = new_orchestration_operation c item ''compute.provision'' key
              [(''action'', PStr ''APPROVE_AND_PROVISION''), (''approval_repeated'', PBool False),
               (''review_note'', opt_val PStr note)]
              ''Administrator approved request and started fixed Provision orchestration'';
            db1 = add_orchestration c operation (modify_request (crr_id item) (approved_request c note) db)
        in if \<not> provision_constraints db1 then (Inl unhandled, db)
           else commit (HTTPException 409 ''PROVISION_ORCHESTRATION_CONFLICT'') (oper_id operation) db
             (compute_audit c 2 ''COMPUTE_PROVISION_STARTED'' ''compute_resource_request'' (crr_id item) ''SUCCESS''
               (PDict [(''action'', PStr ''APPROVE_AND_PROVISION''), (''approval_count'', PInt 1)])
               (Some (oper_id operation)) db1))"

definition approve_and_provision :: "orchestration \<Rightarrow> string \<Rightarrow> string option \<Rightarrow> string \<Rightarrow>
    orchestration_answer traced_action" where
  "approve_and_provision orc text_id note key =
     orchestrate orc ''compute.provision'' text_id key (begin_approval (or_call orc) note key)"

definition retry_payload :: "portal_provision_plan \<Rightarrow> portal_operation \<Rightarrow> string option \<Rightarrow> (string \<times> pyval) list" where
  "retry_payload plan failure note =
     [(''action'', PStr ''RETRY_PROVISION''), (''failed_plan_id'', PStr (plan_id plan)),
      (''failed_operation_id'', PStr (oper_id failure)),
      (''previous_attempt_number'', PInt (plan_attempt_number plan)),
      (''previous_error_code'', opt_val PStr (oper_error_code failure)),
      (''previous_failed_step'', dget (oper_dry_run_result failure) ''first_failed_step''),
      (''rollback_verified'', PBool True), (''approval_repeated'', PBool False),
      (''admin_note'', opt_val PStr note)]"

definition begin_retry :: "compute_call \<Rightarrow> string option \<Rightarrow> string \<Rightarrow> portal_compute_resource_request \<Rightarrow>
    (portal_db, uuid) action" where
  "begin_retry c note key item db =
     (if crr_status item \<noteq> ''FAILED'' then (Inl (HTTPException 409 ''PROVISION_RETRY_NOT_ELIGIBLE''), db)
      else case retryable_failed_attempt db item of Inl e \<Rightarrow> (Inl e, db)
      | Inr (plan, failure) \<Rightarrow>
        (case applicant db item of Inl e \<Rightarrow> (Inl e, db)
         | Inr _ \<Rightarrow>
           let operation = new_orchestration_operation c item ''compute.provision.retry'' key
                 (retry_payload plan failure note) ''Administrator started one complete fresh Provision retry'';
               db1 = add_orchestration c operation db
           in if \<not> provision_constraints db1 then (Inl unhandled, db)
              else commit (HTTPException 409 ''PROVISION_RETRY_CONFLICT'') (oper_id operation) db
                (compute_audit c 2 ''COMPUTE_PROVISION_RETRY_STARTED'' ''compute_resource_request'' (crr_id item)
                  ''SUCCESS''
                  (PDict [(''previous_attempt_number'', PInt (plan_attempt_number plan)),
                    (''rollback_result'', PStr ''VERIFIED''), (''approval_repeated'', PBool False)])
                  (Some (oper_id operation))
                  (modify_request (crr_id item) (\<lambda>r. r\<lparr>crr_status := ''RETRY_AUTHORIZED'',
                     crr_active_slot := Some 1, crr_updated_at := cc_now c\<rparr>) db1))))"

definition retry_provision :: "orchestration \<Rightarrow> string \<Rightarrow> string option \<Rightarrow> string \<Rightarrow>
    orchestration_answer traced_action" where
  "retry_provision orc text_id note key =
     orchestrate orc ''compute.provision.retry'' text_id key (begin_retry (or_call orc) note key)"

end
