(* ===== verification/Compute_Retry.thy ===== *)
theory Compute_Retry
  imports Compute_Orchestration
begin

section \<open>Compute requests: reconciliation and authorized retries\<close>

text \<open>
  The routes of \<open>routes/compute_requests.py\<close> by which an owner has a held attempt verified
  (\<open>reconcile_failed_provision\<close> and its readiness check) and an administrator authorizes a new attempt
  (\<open>authorize_provision_retry\<close>). Both ask the worker again and believe only an exact proof.
\<close>

definition assert_zero_compute_side_effects :: "portal_db \<Rightarrow> uuid \<Rightarrow> (string \<times> bool) list" where
  "assert_zero_compute_side_effects db account =
     (let ids = map mu_id (filter (\<lambda>m. mu_portal_user_id m = account) (t_managed_users db)) in
      [(''managed_user_absent'', ids = []),
       (''container_absent'', \<not> list_ex (\<lambda>c. cont_managed_user_id c \<in> set ids) (t_containers db)),
       (''storage_absent'', \<not> list_ex (\<lambda>s. stor_owner_managed_user_id s \<in> set ids) (t_storage_resources db)),
       (''lease_absent'', \<not> list_ex (\<lambda>l. lease_managed_user_id l \<in> set ids) (t_leases db))])"

definition failing_checks :: "portal_db \<Rightarrow> uuid \<Rightarrow> string list" where
  "failing_checks db account = sort (map fst (filter (\<lambda>(k, b). \<not> b) (assert_zero_compute_side_effects db account)))"

definition zero_residue_proved :: "pyval \<Rightarrow> bool" where
  "zero_residue_proved v \<longleftrightarrow> all_eq v
     [(''handler'', PStr ''compute.provision.retry_verify''),
      (''retry_verification_status'', PStr ''VERIFIED_ZERO_RESIDUE''), (''script_integrity'', PStr ''PASS''),
      (''resource_residue'', PList []), (''unknown_resource_state'', PList [])]"

definition verify_residue :: "compute_call \<Rightarrow> portal_compute_resource_request \<Rightarrow> portal_provision_plan \<Rightarrow>
    portal_operation \<Rightarrow> string \<Rightarrow> pyval result" where
  "verify_residue c item plan failed key =
     worker_dry_run c ''compute.provision.retry_verify'' (verification_payload item plan failed) key"

definition residue_call :: "compute_call \<Rightarrow> portal_compute_resource_request \<Rightarrow> portal_provision_plan \<Rightarrow>
    portal_operation \<Rightarrow> string \<Rightarrow> operation_call" where
  "residue_call c item plan failed key =
     dry_call c ''compute.provision.retry_verify'' (verification_payload item plan failed) key"

subsection \<open>Reconciling a held attempt\<close>

definition held_attempt :: "portal_compute_resource_request \<Rightarrow> portal_provision_plan \<Rightarrow> portal_operation \<Rightarrow>
    portal_resource_reservation list \<Rightarrow> bool" where
  "held_attempt item plan failed rows \<longleftrightarrow>
     crr_status item = ''FAILED'' \<and> crr_active_slot item = None \<and> plan_request_id plan = crr_id item \<and>
     plan_portal_account_id plan = crr_portal_account_id item \<and> plan_state plan = ''FAILED'' \<and>
     plan_execution_enabled plan \<and> oper_operation_type failed = ''compute.provision.stage'' \<and>
     oper_target_id failed = crr_id item \<and> oper_status failed = OP_FAILED \<and>
     oper_rollback_status failed = Some ''REQUIRES_MANUAL_REVIEW'' \<and>
     dget (oper_dry_run_result failed) ''side_effect_classification''
       \<in> set [PStr ''PARTIAL_UNKNOWN'', PStr ''PARTIAL_ROLLBACK_FAILED''] \<and>
     dget (oper_validated_payload failed) ''request_id'' = PStr (crr_id item) \<and>
     dget (oper_validated_payload failed) ''plan_id'' = PStr (plan_id plan) \<and>
     py_dict_eq (dget (oper_validated_payload failed) ''reservation_ids'') (expected_ids rows) \<and>
     length rows = 5 \<and>
     set (map (\<lambda>r. (resv_resource_type r, resv_resource_value r)) rows) = set (expected_values plan) \<and>
     list_all (\<lambda>r. resv_request_id r = crr_id item \<and> resv_portal_account_id r = crr_portal_account_id item \<and>
       held_row r) rows"

definition failed_stage_reconciliation_source :: "portal_db \<Rightarrow> portal_compute_resource_request \<Rightarrow> uuid \<Rightarrow> uuid \<Rightarrow>
    (portal_provision_plan \<times> portal_operation) result" where
  "failed_stage_reconciliation_source db item pid oid =
     (if crr_provision_plan_id item \<noteq> Some pid \<or> crr_managed_user_id item \<noteq> None
      then Inl (HTTPException 409 ''PROVISION_RECONCILIATION_BINDING_FAILED'')
      else case (get_plan db pid, get_operation db oid) of
        (Some plan, Some failed) \<Rightarrow>
          if held_attempt item plan failed (rows_of_plan pid db) then Inr (plan, failed)
          else Inl (HTTPException 409 ''PROVISION_RECONCILIATION_NOT_ELIGIBLE'')
      | _ \<Rightarrow> Inl (HTTPException 409 ''PROVISION_RECONCILIATION_NOT_ELIGIBLE''))"

text \<open>The read-only preview of the gate.\<close>

definition list_or_unknown :: "pyval \<Rightarrow> pyval" where
  "list_or_unknown v = (if is_list v then v else PList [PStr ''UNKNOWN''])"

definition readiness_view :: "compute_call \<Rightarrow> portal_db \<Rightarrow> portal_compute_resource_request \<Rightarrow> portal_provision_plan \<Rightarrow>
    portal_operation \<Rightarrow> pyval \<Rightarrow> pyval" where
  "readiness_view c db item plan failed v =
     (let residue = failing_checks db (crr_portal_account_id item) in PDict
      [(''status'', PStr (if residue = [] \<and> zero_residue_proved v then ''ZERO_VERIFIED'' else ''CONFLICT'')),
       (''checked_at'', PTime (cc_now c)), (''request_id'', PStr (crr_id item)),
       (''attempt_number'', PInt (plan_attempt_number plan)), (''plan_id'', PStr (plan_id plan)),
       (''failed_stage_operation_id'', PStr (oper_id failed)),
       (''rollback_status'', opt_val PStr (oper_rollback_status failed)),
       (''failed_hold_reservations'', PInt (int (length (rows_of_plan (plan_id plan) db)))),
       (''portal_residue'', PList (map PStr residue)),
       (''host_residue'', list_or_unknown (dget v ''resource_residue'')),
       (''unknown_resource_state'', list_or_unknown (dget v ''unknown_resource_state'')),
       (''script_integrity'', dget_or v ''script_integrity'' (PStr ''UNKNOWN'')),
       (''state_changed'', PBool False), (''attempt_created'', PBool False)])"

definition failed_provision_reconciliation_readiness :: "compute_call \<Rightarrow> string \<Rightarrow> uuid \<Rightarrow> uuid \<Rightarrow> portal_db \<Rightarrow>
    pyval result" where
  "failed_provision_reconciliation_readiness c text_id pid oid db =
     (case administered_request c text_id db of Inl e \<Rightarrow> Inl e
      | Inr item \<Rightarrow>
        (case failed_stage_reconciliation_source db item pid oid of Inl e \<Rightarrow> Inl e
         | Inr (plan, failed) \<Rightarrow>
           (case verify_residue c item plan failed (''compute-reconcile-readiness:'' @ oper_id failed) of
              Inl e \<Rightarrow> Inl e | Inr v \<Rightarrow> Inr (readiness_view c db item plan failed v))))"

record reconciliation_body =
  rec_idempotency_key :: string
  rec_plan_id :: uuid
  rec_failed_stage_operation_id :: uuid
  rec_review_note :: string

definition earlier_reconciliation :: "portal_compute_resource_request \<Rightarrow> string \<Rightarrow> portal_db \<Rightarrow> portal_operation option" where
  "earlier_reconciliation item key db = scalar
     (\<lambda>o1. oper_operation_type o1 = ''compute.provision.reconcile'' \<and> oper_target_id o1 = crr_id item \<and>
        oper_idempotency_key o1 = ''compute.provision.reconcile:'' @ key \<and> oper_status o1 = OP_SUCCEEDED)
     (t_operations db)"

definition initial_classification :: "portal_operation \<Rightarrow> string" where
  "initial_classification failed = take 64 (py_str (dget_or (dict_or_empty (oper_dry_run_result failed))
     ''side_effect_classification'' (PStr ''PARTIAL_UNKNOWN'')))"

definition reconcile_operation :: "compute_call \<Rightarrow> portal_compute_resource_request \<Rightarrow> portal_provision_plan \<Rightarrow>
    portal_operation \<Rightarrow> portal_resource_reservation list \<Rightarrow> reconciliation_body \<Rightarrow> portal_operation" where
  "reconcile_operation c item plan failed rows body =
     compute_operation c ''compute.provision.reconcile'' (crr_id item) (rec_idempotency_key body)
       ''Platform owner verified failed Provision rollback''
       [(''request_id'', PStr (crr_id item)), (''plan_id'', PStr (plan_id plan)),
        (''failed_stage_operation_id'', PStr (oper_id failed)),
        (''reservation_ids'', PDict (dict_update []
          (map (\<lambda>r. (resv_resource_type r, PStr (resv_id r))) (sort_key resv_resource_type rows)))),
        (''initial_classification'', PStr (initial_classification failed)),
        (''verified_classification'', PStr ''PARTIAL_ROLLED_BACK''), (''rollback_verified'', PBool True),
        (''portal_zero_residue'', PBool True), (''worker_zero_residue'', PBool True),
        (''script_integrity'', PStr ''PASS''), (''reservation_state'', PStr ''RELEASED''),
        (''review_note'', PStr (rec_review_note body)), (''approval_repeated'', PBool False),
        (''attempt_created'', PBool False)]
       ''Rollback verified from Portal and Root Worker zero-residue evidence; FAILED_HOLD reservations released; no retry attempt created''
       RISK_CRITICAL"

text \<open>\<open>rollback_status\<close> of the failed Stage is set after the flush of the new operation.\<close>

definition release_held :: "compute_call \<Rightarrow> portal_compute_resource_request \<Rightarrow> portal_provision_plan \<Rightarrow>
    portal_operation \<Rightarrow> reconciliation_body \<Rightarrow> (portal_db, uuid) action" where
  "release_held c item plan failed body db =
     (let rows = rows_of_plan (plan_id plan) db;
          operation = reconcile_operation c item plan failed rows body;
          db1 = add_compute_operation c operation db
      in if \<not> provision_constraints db1 then (Inl unhandled, db)
         else commit (HTTPException 409 ''PROVISION_RECONCILIATION_CONFLICT'') (oper_id operation) db
           (compute_audit c 2 ''COMPUTE_PROVISION_ROLLBACK_RECONCILED'' ''provision_plan'' (plan_id plan) ''SUCCESS''
             (PDict [(''request_id'', PStr (crr_id item)), (''failed_stage_operation_id'', PStr (oper_id failed)),
               (''initial_classification'', PStr (initial_classification failed)),
               (''verified_classification'', PStr ''PARTIAL_ROLLED_BACK''), (''rollback_verified'', PBool True),
               (''reservation_state'', PStr ''RELEASED''), (''approval_repeated'', PBool False),
               (''attempt_created'', PBool False)])
             (Some (oper_id operation))
             (update_rows (release_row (cc_now c)) rows
               (modify_operation (oper_id failed) (\<lambda>o1. o1\<lparr>oper_rollback_status := Some ''ROLLED_BACK''\<rparr>) db1))))"

definition reconcile_failed_provision :: "compute_call \<Rightarrow> string \<Rightarrow> reconciliation_body \<Rightarrow> uuid traced_action" where
  "reconcile_failed_provision c text_id body db =
     (case cc_csrf c of Inl e \<Rightarrow> (Inl e, [], db)
      | Inr _ \<Rightarrow>
        (case cc_recent c of Inl e \<Rightarrow> (Inl e, [], db)
         | Inr _ \<Rightarrow>
           (case administered_request c text_id db of Inl e \<Rightarrow> (Inl e, [], db)
            | Inr item \<Rightarrow>
              (case earlier_reconciliation item (rec_idempotency_key body) db of
                 Some existing \<Rightarrow>
                   if dget (oper_validated_payload existing) ''plan_id'' = PStr (rec_plan_id body) \<and>
                     dget (oper_validated_payload existing) ''failed_stage_operation_id'' =
                       PStr (rec_failed_stage_operation_id body)
                   then (Inr (oper_id existing), [], db)
                   else (Inl (HTTPException 409 ''PROVISION_RECONCILIATION_IDEMPOTENCY_CONFLICT''), [], db)
               | None \<Rightarrow>
                 (case failed_stage_reconciliation_source db item (rec_plan_id body)
                     (rec_failed_stage_operation_id body) of
                    Inl e \<Rightarrow> (Inl e, [], db)
                  | Inr (plan, failed) \<Rightarrow>
                    if failing_checks db (crr_portal_account_id item) \<noteq> []
                    then (Inl (HTTPException 409 ''PROVISION_RECONCILIATION_PORTAL_RESIDUE_DETECTED''), [], db)
                    else
                      let key = ''compute-reconcile-verify:'' @ oper_id failed @ '':'' @ rec_idempotency_key body;
                          calls = [residue_call c item plan failed key] in
                      (case verify_residue c item plan failed key of Inl e \<Rightarrow> (Inl e, calls, db)
                       | Inr v \<Rightarrow>
                           if \<not> zero_residue_proved v
                           then (Inl (HTTPException 409 ''PROVISION_RECONCILIATION_VERIFICATION_FAILED''), calls, db)
                           else case release_held c item plan failed body db of (r, db') \<Rightarrow> (r, calls, db')))))))"

subsection \<open>Authorizing a new attempt\<close>

record retry_authorization =
  ra_idempotency_key :: string
  ra_failure_classification :: string
  ra_safe_root_cause :: string
  ra_authorization_reason :: string
  ra_remediation_git_commit :: string

definition successful_reconciliation :: "portal_db \<Rightarrow> portal_compute_resource_request \<Rightarrow> portal_provision_plan \<Rightarrow>
    portal_operation \<Rightarrow> portal_operation option" where
  "successful_reconciliation db item plan failed =
     (case newest_operation (\<lambda>o1. oper_operation_type o1 = ''compute.provision.reconcile'' \<and>
         oper_target_id o1 = crr_id item \<and> oper_status o1 = OP_SUCCEEDED) db of
        None \<Rightarrow> None
      | Some reconciliation \<Rightarrow>
          let payload = oper_validated_payload reconciliation in
          if dget payload ''request_id'' = PStr (crr_id item) \<and> dget payload ''plan_id'' = PStr (plan_id plan) \<and>
            dget payload ''failed_stage_operation_id'' = PStr (oper_id failed) \<and>
            has_flag payload ''rollback_verified'' True \<and>
            dget payload ''verified_classification'' = PStr ''PARTIAL_ROLLED_BACK'' \<and>
            dget payload ''reservation_state'' = PStr ''RELEASED''
          then Some reconciliation else None)"

definition classification_accepted :: "portal_db \<Rightarrow> portal_compute_resource_request \<Rightarrow> portal_provision_plan \<Rightarrow>
    portal_operation \<Rightarrow> string \<Rightarrow> bool" where
  "classification_accepted db item plan failed claimed \<longleftrightarrow>
     (let recorded = dget (dict_or_empty (oper_dry_run_result failed)) ''side_effect_classification'' in
      recorded = PNone \<or> recorded = PStr claimed \<or>
      recorded \<in> set [PStr ''PARTIAL_UNKNOWN'', PStr ''PARTIAL_ROLLBACK_FAILED''] \<and>
      claimed = ''PARTIAL_ROLLED_BACK'' \<and> successful_reconciliation db item plan failed \<noteq> None)"

definition authorize_operation :: "compute_call \<Rightarrow> portal_compute_resource_request \<Rightarrow> portal_provision_plan \<Rightarrow>
    portal_operation \<Rightarrow> retry_authorization \<Rightarrow> portal_operation" where
  "authorize_operation c item plan failed body =
     compute_operation c ''compute.provision.retry_authorize'' (crr_id item) (ra_idempotency_key body)
       ''Administrator authorized a fresh attempt after verified rollback''
       [(''request_id'', PStr (crr_id item)), (''plan_id'', PStr (plan_id plan)),
        (''failed_stage_operation_id'', PStr (oper_id failed)),
        (''failure_classification'', PStr (ra_failure_classification body)),
        (''safe_root_cause'', PStr (ra_safe_root_cause body)),
        (''authorization_reason'', PStr (ra_authorization_reason body)),
        (''remediation_git_commit'', PStr (ra_remediation_git_commit body)), (''rollback_verified'', PBool True),
        (''root_cause_remediated'', PBool True), (''approval_repeated'', PBool False)]
       ''Retry authorized after live zero-residue and script-integrity verification; original approval preserved''
       RISK_MEDIUM"

definition grant_retry :: "compute_call \<Rightarrow> portal_compute_resource_request \<Rightarrow> portal_provision_plan \<Rightarrow>
    portal_operation \<Rightarrow> retry_authorization \<Rightarrow> (portal_db, uuid) action" where
  "grant_retry c item plan failed body db =
     (let operation = authorize_operation c item plan failed body; db1 = add_compute_operation c operation db in
      if \<not> provision_constraints db1 then (Inl unhandled, db)
      else commit (HTTPException 409 ''PROVISION_RETRY_AUTHORIZATION_CONFLICT'') (oper_id operation) db
        (compute_audit c 2 ''COMPUTE_PROVISION_RETRY_AUTHORIZED'' ''compute_resource_request'' (crr_id item) ''SUCCESS''
          (PDict [(''failed_plan_id'', PStr (plan_id plan)), (''failed_stage_operation_id'', PStr (oper_id failed)),
            (''failure_classification'', PStr (ra_failure_classification body)), (''rollback_verified'', PBool True),
            (''root_cause_remediated'', PBool True),
            (''remediation_git_commit'', PStr (ra_remediation_git_commit body)),
            (''approval_repeated'', PBool False)])
          (Some (oper_id operation))
          (modify_request (crr_id item) (\<lambda>r. r\<lparr>crr_status := ''RETRY_AUTHORIZED'', crr_active_slot := Some 1,
             crr_updated_at := cc_now c\<rparr>) db1)))"

definition verify_and_grant :: "compute_call \<Rightarrow> portal_compute_resource_request \<Rightarrow> retry_authorization \<Rightarrow>
    uuid traced_action" where
  "verify_and_grant c item body db =
     (case rolled_back_stage_retry db item of Inl e \<Rightarrow> (Inl e, [], db)
      | Inr (plan, failed) \<Rightarrow>
        (case applicant db item of Inl e \<Rightarrow> (Inl e, [], db)
         | Inr _ \<Rightarrow>
           if failing_checks db (crr_portal_account_id item) \<noteq> []
           then (Inl (HTTPException 409 ''PROVISION_RETRY_PORTAL_RESIDUE_DETECTED''), [], db)
           else if \<not> classification_accepted db item plan failed (ra_failure_classification body)
           then (Inl (HTTPException 409 ''PROVISION_RETRY_EVIDENCE_MISMATCH''), [], db)
           else
             let key = ''compute-retry-verify:'' @ oper_id failed @ '':'' @ ra_idempotency_key body;
                 calls = [residue_call c item plan failed key] in
             (case verify_residue c item plan failed key of Inl e \<Rightarrow> (Inl e, calls, db)
              | Inr v \<Rightarrow>
                  if \<not> zero_residue_proved v
                  then (Inl (HTTPException 409 ''PROVISION_RETRY_VERIFICATION_FAILED''), calls, db)
                  else case grant_retry c item plan failed body db of (r, db') \<Rightarrow> (r, calls, db'))))"

definition authorize_provision_retry :: "compute_call \<Rightarrow> string \<Rightarrow> retry_authorization \<Rightarrow> uuid traced_action" where
  "authorize_provision_retry c text_id body db =
     (case cc_csrf c of Inl e \<Rightarrow> (Inl e, [], db)
      | Inr _ \<Rightarrow>
        (case cc_recent c of Inl e \<Rightarrow> (Inl e, [], db)
         | Inr _ \<Rightarrow>
           (case administered_request c text_id db of Inl e \<Rightarrow> (Inl e, [], db)
            | Inr item \<Rightarrow>
              if crr_status item = ''RETRY_AUTHORIZED''
              then (case newest_operation (\<lambda>o1. oper_operation_type o1 = ''compute.provision.retry_authorize'' \<and>
                  oper_target_id o1 = crr_id item \<and> oper_status o1 = OP_SUCCEEDED) db of
                 None \<Rightarrow> (Inl (HTTPException 409 ''PROVISION_RETRY_AUTHORIZATION_INVALID''), [], db)
               | Some existing \<Rightarrow> (Inr (oper_id existing), [], db))
              else verify_and_grant c item body db)))"

end
