(* ===== verification/Operation_Runs.thy ===== *)
theory Operation_Runs
  imports Operation_Routes
begin

section \<open>Runs of the operation routes\<close>

text \<open>
  What holds of operations however the routes and the background executions interleave. The events
  of an operation record its history: \<open>trail\<close> reads it back, and every effect of an execution walks
  along the transition table and appends exactly what it walked. On top of this, the runs of
  the routes keep an invariant from which it follows that they never ask the worker for a write.
\<close>

subsection \<open>Effects that relate databases\<close>

locale effect_relation =
  fixes rel :: "'db \<Rightarrow> 'db \<Rightarrow> bool"
  assumes rel_refl: "rel db db"
    and rel_trans: "rel db1 db2 \<Longrightarrow> rel db2 db3 \<Longrightarrow> rel db1 db3"
begin

lemma run_actions_rel:
  "(\<And>act db. act \<in> set acts \<Longrightarrow> rel db (snd (act db))) \<Longrightarrow> rel db (snd (run_actions acts db))"
proof (induction acts arbitrary: db)
  case Nil
  then show ?case by (simp add: rel_refl)
next
  case (Cons act acts)
  have step: "rel db (snd (act db))" using Cons.prems by simp
  have "rel (snd (act db)) (snd (run_actions acts (snd (act db))))"
    using Cons.IH Cons.prems by simp
  with step have "rel db (snd (run_actions acts (snd (act db))))" by (rule rel_trans)
  with step show ?case by (cases "act db"; cases "fst (act db)") auto
qed

end

subsection \<open>The trail of an operation\<close>

definition trail :: "portal_db \<Rightarrow> uuid \<Rightarrow> string list" where
  "trail db i = map oev_to_status (filter (\<lambda>e. oev_operation_id e = i \<and>
     oev_from_status e \<noteq> Some (oev_to_status e)) (t_operation_events db))"

definition op_core :: "portal_operation \<Rightarrow> _" where
  "op_core o' = (oper_operation_type o', oper_target_type o', oper_target_id o', oper_requested_by o',
     oper_approved_by o', oper_validated_payload o', oper_idempotency_key o', oper_risk_level o')"

definition walked :: "portal_db \<Rightarrow> portal_db \<Rightarrow> uuid \<Rightarrow> portal_operation \<Rightarrow> portal_operation \<Rightarrow> bool" where
  "walked db db' i o1 o2 \<longleftrightarrow> op_core o2 = op_core o1 \<and>
     (\<exists>ss. legal_run can_transition (oper_status o1) ss \<and> oper_status o2 = last (oper_status o1 # ss) \<and>
        trail db' i = trail db i @ map status_value ss)"

definition walks :: "uuid \<Rightarrow> portal_db \<Rightarrow> portal_db \<Rightarrow> bool" where
  "walks i db db' \<longleftrightarrow>
     map oper_id (t_operations db') = map oper_id (t_operations db) \<and>
     t_operation_approvals db' = t_operation_approvals db \<and>
     set (map oev_operation_id (t_operation_events db')) \<subseteq> insert i (set (map oev_operation_id (t_operation_events db))) \<and>
     (\<forall>j. j \<noteq> i \<longrightarrow> get_operation db' j = get_operation db j \<and> trail db' j = trail db j) \<and>
     rel_option (walked db db' i) (get_operation db i) (get_operation db' i)"

lemma last_append_walk: "last (last (s # xs) # ys) = last (s # xs @ ys)"
  by (cases ys) auto

lemma walks_refl: "walks i db db"
proof -
  have "walked db db i o1 o1" for o1 unfolding walked_def by (intro conjI exI [of _ "[]"]) auto
  then show ?thesis by (auto simp: walks_def intro: option.rel_refl)
qed

lemma walked_trans: "walked db1 db2 i o1 o2 \<Longrightarrow> walked db2 db3 i o2 o3 \<Longrightarrow> walked db1 db3 i o1 o3"
proof -
  assume w: "walked db1 db2 i o1 o2" "walked db2 db3 i o2 o3"
  obtain xs where xs: "legal_run can_transition (oper_status o1) xs"
    "oper_status o2 = last (oper_status o1 # xs)" "trail db2 i = trail db1 i @ map status_value xs"
    using w(1) unfolding walked_def by blast
  obtain ys where ys: "legal_run can_transition (oper_status o2) ys"
    "oper_status o3 = last (oper_status o2 # ys)" "trail db3 i = trail db2 i @ map status_value ys"
    using w(2) unfolding walked_def by blast
  have "legal_run can_transition (oper_status o1) (xs @ ys)" using xs(1,2) ys(1) by (simp add: legal_run_append)
  moreover have "oper_status o3 = last (oper_status o1 # xs @ ys)"
    unfolding ys(2) xs(2) by (rule last_append_walk)
  moreover have "trail db3 i = trail db1 i @ map status_value (xs @ ys)" using xs(3) ys(3) by simp
  ultimately show ?thesis using w unfolding walked_def by (intro conjI exI [of _ "xs @ ys"]) simp_all
qed

lemma walks_trans:
  assumes "walks i db1 db2" and "walks i db2 db3"
  shows "walks i db1 db3"
proof -
  let ?ids = "\<lambda>db. set (map oev_operation_id (t_operation_events db))"
  have "?ids db2 \<subseteq> insert i (?ids db1)" "?ids db3 \<subseteq> insert i (?ids db2)"
    using assms by (simp_all only: walks_def)
  then have ids: "?ids db3 \<subseteq> insert i (?ids db1)" by blast
  have "rel_option (walked db1 db3 i) (get_operation db1 i) (get_operation db3 i)"
    using assms unfolding walks_def by (auto elim!: option.rel_cases intro: walked_trans)
  with ids show ?thesis using assms unfolding walks_def by presburger
qed

interpretation walk: effect_relation "walks i" for i
  by unfold_locales (rule walks_refl, erule (1) walks_trans)

subsection \<open>Every effect of an execution walks\<close>

text \<open>What leaves operations, approvals and events alone.\<close>

definition same_operations :: "portal_db \<Rightarrow> portal_db \<Rightarrow> bool" where
  "same_operations db db' \<longleftrightarrow> t_operations db' = t_operations db \<and>
     t_operation_approvals db' = t_operation_approvals db \<and> t_operation_events db' = t_operation_events db"

lemma walks_same: "same_operations db db' \<Longrightarrow> walks i db db'"
proof -
  assume same: "same_operations db db'"
  then have "\<And>j. get_operation db' j = get_operation db j" "\<And>j. trail db' j = trail db j"
    by (simp_all add: same_operations_def get_operation_def trail_def)
  moreover from this have "walked db db' i o1 o1" for o1
    unfolding walked_def by (intro conjI exI [of _ "[]"]) simp_all
  ultimately show ?thesis using same
    by (auto simp: walks_def same_operations_def intro: option.rel_refl)
qed

lemma same_operations_simps [simp]:
  "same_operations db db"
  "same_operations db (record_audit h n t c db') = same_operations db db'"
  "same_operations db (modify_user u f db') = same_operations db db'"
  "same_operations db (modify_managed m g db') = same_operations db db'"
  "same_operations db (modify_container k c' db') = same_operations db db'"
  "same_operations db (modify_ssh_key k k' db') = same_operations db db'"
  "same_operations db (add_managed mu db') = same_operations db db'"
  "same_operations db (add_container co db') = same_operations db db'"
  by (auto simp: same_operations_def row_simps record_audit_def)

lemma same_operations_entries [simp]:
  "same_operations db (worker_entries env slot i entries db') = same_operations db db'"
  by (induction env slot i entries db' rule: worker_entries.induct) auto

lemma same_operations_keys [simp]:
  "same_operations db (fold (\<lambda>r. modify_ssh_key (key_id r) g) rs db') = same_operations db db'"
  by (induction rs arbitrary: db') auto

lemma status_value_inj: "status_value s = status_value t \<Longrightarrow> s = t"
  by (cases s; cases t) auto

lemma can_transition_moves: "can_transition s t \<Longrightarrow> status_value s \<noteq> status_value t"
  using status_value_inj by (cases s) (auto simp: can_transition_def)

lemma get_modify_operation [simp]:
  "(\<And>o'. oper_id (f o') = oper_id o') \<Longrightarrow>
   get_operation (modify_operation i f db) j =
     (if i = j then map_option f (get_operation db j) else get_operation db j)"
  by (rule operation_store.lookup_modify)

lemma modify_operation_tables [simp]:
  "t_operation_approvals (modify_operation i f db) = t_operation_approvals db"
  "t_operation_events (modify_operation i f db) = t_operation_events db"
  "(\<And>o'. oper_id (f o') = oper_id o') \<Longrightarrow>
     map oper_id (t_operations (modify_operation i f db)) = map oper_id (t_operations db)"
  by (simp_all add: modify_operation_def map_update_where)

lemma add_event_tables [simp]:
  "get_operation (add_operation_event e db) j = get_operation db j"
  "t_operations (add_operation_event e db) = t_operations db"
  "t_operation_approvals (add_operation_event e db) = t_operation_approvals db"
  "t_operation_events (add_operation_event e db) = t_operation_events db @ [e]"
  by (simp_all add: add_operation_event_def get_operation_def)

lemma trail_simps [simp]:
  "trail (modify_operation i f db) j = trail db j"
  "trail (add_operation_event e db) j = trail db j @
     (if oev_operation_id e = j \<and> oev_from_status e \<noteq> Some (oev_to_status e) then [oev_to_status e] else [])"
  by (simp_all add: trail_def)

lemma walks_set_operation:
  assumes "\<And>o'. oper_id (f o') = oper_id o' \<and> op_core (f o') = op_core o' \<and> oper_status (f o') = oper_status o'"
  shows "walks i db (snd (set_operation i f db))"
proof -
  have "walked db (modify_operation i f db) i o1 (f o1)" for o1
    unfolding walked_def using assms by (intro conjI exI [of _ "[]"]) auto
  then show ?thesis using assms
    by (auto simp: set_operation_def effect_def walks_def rel_option_iff split: option.splits)
qed

lemma walks_transition: "walks i db (snd (transition env slot i target message db))"
proof (cases "get_operation db i")
  case None
  then show ?thesis by (simp add: transition_def walks_refl)
next
  case (Some o1)
  show ?thesis
  proof (cases "can_transition (oper_status o1) target")
    case True
    let ?db = "snd (transition env slot i target message db)"
    have "walked db ?db i o1 (o1\<lparr>oper_status := target\<rparr>)"
      unfolding walked_def using True can_transition_moves [OF True] Some
      by (intro conjI exI [of _ "[target]"]) (auto simp: transition_def op_core_def)
    with True Some show ?thesis
      by (auto simp: transition_def walks_def)
  qed (simp add: transition_def Some walks_refl)
qed

lemma walks_execution_audit: "walks i db (snd (execution_audit env slot event actor j outcome metadata db))"
  by (rule walks_same) (simp add: execution_audit_def effect_def)

lemma walks_finish_event: "walks i db (snd (finish_event env slot i message db))"
proof -
  have "walked db (snd (finish_event env slot i message db)) i o1
      (o1\<lparr>oper_finished_at := Some (oe_now env)\<rparr>)" for o1
    unfolding walked_def by (intro conjI exI [of _ "[]"]) (auto simp: finish_event_def Let_def op_core_def)
  then show ?thesis by (auto simp: finish_event_def walks_def rel_option_iff Let_def split: option.splits)
qed

interpretation same: effect_relation same_operations
  by unfold_locales (auto simp: same_operations_def)

lemma same_staged_managed: "same_operations db (snd (staged_managed env slot owner db))"
  by (auto simp: staged_managed_def Let_def split: option.splits)

lemma same_staged_container: "same_operations db (snd (staged_container env slot img m db))"
  by (auto simp: staged_container_def Let_def split: option.splits)

lemma same_persist_stage: "same_operations db (snd (persist_portal3c_staged_identity env owner j result db))"
proof (cases "stage_refusal owner result")
  case None
  let ?img = "py_str (dget_or (dget (dget result ''stage'') ''container'') ''image_digest'' (PStr []))"
  obtain r db1 where step: "staged_managed env 20 (user_id owner) db = (r, db1)" by fastforce
  have same1: "same_operations db db1" using same_staged_managed [of db env 20 "user_id owner"] step by simp
  show "same_operations db (snd (persist_portal3c_staged_identity env owner j result db))"
  proof (cases r)
    case (Inr m)
    have "same_operations db1 (snd (run_actions [staged_container env 21 ?img (mu_id m),
        effect (modify_user (user_id owner) (\<lambda>u. u\<lparr>user_resource_onboarding_state := OB_STAGED\<rparr>)),
        effect (worker_entries env 22 j stage_entries)] db1))"
      by (rule same.run_actions_rel) (auto simp: effect_def same_staged_container)
    then show ?thesis
      using same1 step Inr None same.rel_trans [OF same1] by (simp add: persist_portal3c_staged_identity_def)
  qed (simp add: persist_portal3c_staged_identity_def None step same1)
qed (simp add: persist_portal3c_staged_identity_def)

lemma same_persist_activate: "same_operations db (snd (persist_portal3e_activated_identity env owner j result db))"
  by (auto simp: persist_portal3e_activated_identity_def split: option.splits sum.splits)

lemmas walks_persist_stage = walks_same [OF same_persist_stage]
lemmas walks_persist_activate = walks_same [OF same_persist_activate]

lemmas walk_effects = walks_set_operation walks_transition walks_execution_audit walks_finish_event
  walks_persist_stage walks_persist_activate

text \<open>A step of the outcome reaches \<open>walks\<close> by one rule per list of actions.\<close>

lemma walks_leave_running: "walks i db (snd (leave_running env i back m1 m2 m3 db))"
  unfolding leave_running_def by (rule walk.run_actions_rel) (auto simp: walk_effects split: if_splits)

lemma walks_set_fields:
  "walks i db (snd (set_operation i (\<lambda>o'. o'\<lparr>oper_started_at := a\<rparr>) db))"
  "walks i db (snd (set_operation i (\<lambda>o'. o'\<lparr>oper_dry_run_result := r o'\<rparr>) db))"
  "walks i db (snd (set_operation i (\<lambda>o'. o'\<lparr>oper_result_summary := s', oper_worker_execution_id := w\<rparr>) db))"
  "walks i db (snd (set_operation i (\<lambda>o'. o'\<lparr>oper_result_summary := s', oper_worker_execution_id := w,
     oper_rollback_status := b\<rparr>) db))"
  "walks i db (snd (set_operation i (\<lambda>o'. o'\<lparr>oper_rollback_status := b, oper_error_code := c,
     oper_result_summary := s'\<rparr>) db))"
  "walks i db (snd (set_operation i (\<lambda>o'. o'\<lparr>oper_rollback_status := b, oper_error_code := c,
     oper_result_summary := s', oper_worker_execution_id := w\<rparr>) db))"
  "walks i db (snd (set_operation i (\<lambda>o'. o'\<lparr>oper_started_at := a, oper_finished_at := f, oper_error_code := c,
     oper_result_summary := s'\<rparr>) db))"
  "walks i db (snd (set_operation i (\<lambda>o'. o'\<lparr>oper_error_code := c, oper_result_summary := s'\<rparr>) db))"
  "walks i db (snd (set_operation i (\<lambda>o'. o'\<lparr>oper_error_code := c, oper_rollback_status := b,
     oper_result_summary := s'\<rparr>) db))"
  by (rule walks_set_operation; simp add: op_core_def)+

lemmas walk_steps = walks_transition walks_execution_audit walks_finish_event walks_persist_stage
  walks_persist_activate walks_leave_running walks_set_fields

lemma walks_compensate:
  "walks i db (snd (compensate env worker i actor event code messages summaries metadata db))"
  unfolding compensate_def Let_def by (rule walk.run_actions_rel) (auto simp: walk_steps)

lemma walks_outcomes:
  "walks i db (snd (worker_unavailable env worker i actor code db))"
  "walks i db (snd (activate_rejected env i actor answer db))"
  "oper_id operation = i \<Longrightarrow> walks i db (snd (activate_succeeded env owner operation actor answer db))"
  "walks i db (snd (activate_unpersisted env worker i actor e db))"
  "walks i db (snd (final_activate_refused env i db))"
  "walks i db (snd (stage_succeeded env owner i actor answer db))"
  "oper_id operation = i \<Longrightarrow> walks i db (snd (dry_run_succeeded env operation actor answer db))"
  "oper_id operation = i \<Longrightarrow> walks i db (snd (execution_rejected env real operation actor answer db))"
  "oper_id operation = i \<Longrightarrow> walks i db (snd (execution_unavailable env real operation actor code db))"
  "oper_id operation = i \<Longrightarrow> walks i db (snd (stage_unpersisted env operation actor e db))"
  unfolding worker_unavailable_def activate_unpersisted_def activate_rejected_def activate_succeeded_def
    final_activate_refused_def stage_succeeded_def dry_run_succeeded_def execution_rejected_def
    execution_unavailable_def stage_unpersisted_def Let_def
  by (rule walks_compensate | (rule walk.run_actions_rel, (auto simp: walk_steps walks_refl)[1]))+

lemma walks_outcome:
  assumes "oper_id operation = i"
  shows "walks i db (snd (execution_outcome env real operation requester actor answer db))"
proof (cases answer)
  case (Inl code)
  then show ?thesis using walks_outcomes(9) [OF assms] by (simp add: execution_outcome_def)
next
  case (Inr result)
  let ?inner = "if real \<and> has_eq result ''status'' (PStr ''SUCCEEDED'') \<and> requester \<noteq> None
      then stage_succeeded env (the requester) (oper_id operation) actor result db
      else if \<not> real \<and> has_eq result ''status'' (PStr ''DRY_RUN'') then dry_run_succeeded env operation actor result db
      else execution_rejected env real operation actor result db"
  have inner: "walks i db (snd ?inner)"
    using walks_outcomes(6,7,8) assms by simp
  obtain r db' where rd: "?inner = (r, db')" by fastforce
  have "snd (execution_outcome env real operation requester actor answer db) \<in>
      {db'} \<union> range (\<lambda>e. snd (stage_unpersisted env operation actor e db))"
    using rd by (cases r) (auto simp: execution_outcome_def Inr split: exn.splits)
  then show ?thesis using inner rd walks_outcomes(10) [OF assms] by auto
qed

lemma walks_started:
  "walks i db (snd (run_actions [transition env 2 i OP_RUNNING m,
     set_operation i (\<lambda>o'. o'\<lparr>oper_started_at := Some now\<rparr>)] db))"
  by (rule walk.run_actions_rel) (auto simp: walk_steps)

lemma walks_final_activate:
  assumes "execute_portal3e_final_activate env worker operation requester approver actor db = (r, calls, db')"
    and "oper_id operation = i"
  shows "walks i db db'"
proof -
  let ?start = "run_actions [transition env 2 i OP_RUNNING ''Controlled Worker Activate started'',
      set_operation i (\<lambda>o'. o'\<lparr>oper_started_at := Some (oe_now env)\<rparr>)] db"
  obtain r1 running where start: "?start = (r1, running)" by fastforce
  have walked: "walks i db running" using walks_started [of i db env] start by (metis snd_conv)
  have "db' = db \<or> db' \<in> range (\<lambda>code. snd (worker_unavailable env worker i actor code running)) \<or>
      db' \<in> range (\<lambda>a. snd (activate_rejected env i actor a running)) \<or>
      db' \<in> range (\<lambda>a. snd (activate_succeeded env requester operation actor a running)) \<or>
      db' \<in> range (\<lambda>e. snd (activate_unpersisted env worker i actor e running))"
    using assms start
    by (auto simp: execute_portal3e_final_activate_def Let_def image_iff
        split: sum.splits prod.splits if_splits) (metis snd_conv)+
  then have "walks i running db' \<or> db' = db"
    using walks_outcomes(1-4) assms(2) by auto
  then show ?thesis using walked walks_trans walks_refl by blast
qed

lemma walks_controlled:
  assumes "execute_controlled env worker real operation requester approver actor db = (r, calls, db')"
    and "oper_id operation = i"
  shows "walks i db db'"
proof -
  let ?m = "if real then ''Controlled Worker Stage started'' else ''Worker dry-run started''"
  obtain r1 running where start: "run_actions [transition env 2 i OP_RUNNING ?m,
      set_operation i (\<lambda>o'. o'\<lparr>oper_started_at := Some (oe_now env)\<rparr>)] db = (r1, running)" by fastforce
  have walked: "walks i db running" using walks_started [of i db env ?m] start by (metis snd_conv)
  let ?request = "execution_request real operation requester approver actor"
  obtain r2 db2 where outcome: "execution_outcome env real operation requester actor (worker ?request) running = (r2, db2)"
    by fastforce
  have "walks i running db2" using walks_outcome [OF assms(2)] outcome by (metis snd_conv)
  then have "walks i running (snd (finish_event env 7 i ''Worker execution recorded'' db2))"
    using walks_finish_event walks_trans by blast
  moreover have "db' \<in> {db, running, snd (finish_event env 7 i ''Worker execution recorded'' db2)}"
    using assms(1) start outcome assms(2) by (cases r1; cases r2) (auto simp: execute_controlled_def Let_def)
  ultimately show ?thesis using walked walks_refl walks_trans by blast
qed

text \<open>The three ways an execution of a queued operation can go.\<close>

lemma execute_operation_cases:
  assumes "execute_operation env worker quote i actor db = (r, calls, db')"
  obtains (unchanged) "calls = []" "db' = db"
    | (final) operation requester approver where "get_operation db i = Some operation"
        "oper_status operation = OP_QUEUED" "get_user db (oper_requested_by operation) = Some requester"
        "(case oper_approved_by operation of None \<Rightarrow> None | Some a \<Rightarrow> get_user db a) = Some approver"
        "is_portal3e_final_real_activate (oe_pydantic env) quote db operation (Some requester) (Some approver)"
        "execute_portal3e_final_activate env worker operation requester approver actor db = (r, calls, db')"
    | (refused) "calls = []" "db' = snd (final_activate_refused env i db)"
    | (controlled) operation requester approver where "get_operation db i = Some operation"
        "oper_status operation = OP_QUEUED" "requester = get_user db (oper_requested_by operation)"
        "approver = (case oper_approved_by operation of None \<Rightarrow> None | Some a \<Rightarrow> get_user db a)"
        "execute_controlled env worker (is_portal3c_real_stage (oe_pydantic env) operation requester approver)
           operation requester approver actor db = (r, calls, db')"
proof (cases "get_operation db i")
  case None
  then show ?thesis using assms unchanged by (simp add: execute_operation_def)
next
  case (Some operation)
  let ?requester = "get_user db (oper_requested_by operation)"
  let ?approver = "case oper_approved_by operation of None \<Rightarrow> None | Some a \<Rightarrow> get_user db a"
  let ?final = "is_portal3e_final_real_activate (oe_pydantic env) quote db operation ?requester ?approver"
  show ?thesis
  proof (cases "oper_status operation = OP_QUEUED")
    case False
    then show ?thesis using assms Some unchanged by (simp add: execute_operation_def)
  next
    case True
    show ?thesis
    proof (cases "?final \<and> ?requester \<noteq> None \<and> ?approver \<noteq> None")
      case both: True
      then obtain a b where ab: "?requester = Some a" "?approver = Some b" by blast
      then show ?thesis using assms Some True both final [of operation a b]
        by (simp add: execute_operation_def Let_def)
    next
      case False
      then have "(case (?final, ?requester, ?approver) of
          (True, Some r, Some a) \<Rightarrow> execute_portal3e_final_activate env worker operation r a actor db
        | _ \<Rightarrow> z) = z" for z
        by (auto split: option.splits bool.splits)
      then have "(r, calls, db') = (if oper_operation_type operation = ''user.activate'' \<and>
            oper_idempotency_key operation = PORTAL3E_FINAL_IDEMPOTENCY_KEY
          then (case final_activate_refused env i db of
              (Inl e, _) \<Rightarrow> (Inl e, [], db) | (Inr _, db') \<Rightarrow> (Inr (), [], db'))
          else execute_controlled env worker (is_portal3c_real_stage (oe_pydantic env) operation ?requester ?approver)
            operation ?requester ?approver actor db)"
        using assms Some True by (simp add: execute_operation_def Let_def)
      then show ?thesis using unchanged refused controlled [OF Some True refl refl]
        by (cases "final_activate_refused env i db") (auto split: if_splits sum.splits)
    qed
  qed
qed

lemma walks_execute:
  assumes "execute_operation env worker quote i actor db = (r, calls, db')"
  shows "walks i db db'"
  using assms
proof (cases rule: execute_operation_cases)
  case (final operation requester approver)
  then show ?thesis using walks_final_activate operation_store.lookup_pk by blast
next
  case (controlled operation requester approver)
  then show ?thesis using walks_controlled operation_store.lookup_pk by blast
qed (simp_all add: walks_refl walks_outcomes)

subsection \<open>Writes to the host are pinned\<close>

lemma py_eq_dict_lookup:
  assumes "py_eq (PDict kvs) w" and "map_of kvs k = Some v"
  shows "\<exists>v'. dget w k = v' \<and> py_eq v v'"
proof -
  obtain kws where w: "w = PDict kws" using assms(1) by (cases w) (auto simp: num_of_def)
  have v: "(k, v) \<in> set kvs" using assms(2) by (rule map_of_SomeD)
  have keys: "set (map fst kvs) = set (map fst kws)"
    and vals: "\<And>kv kw. kv \<in> set kvs \<Longrightarrow> kw \<in> set kws \<Longrightarrow> fst kv = fst kw \<Longrightarrow> py_eq (snd kv) (snd kw)"
    using assms(1) w by (simp_all add: list_all_iff)
  have "k \<in> set (map fst kws)" using v keys by force
  then obtain v' where v': "map_of kws k = Some v'" by (cases "map_of kws k") (auto simp: map_of_eq_None_iff)
  have "py_eq v v'" using vals [OF v map_of_SomeD [OF v']] by simp
  with w v' show ?thesis by (simp add: dget_def dget_or_def)
qed

lemma num_of_py_eq: "num_of v = Some n \<Longrightarrow> py_eq v w \<Longrightarrow> num_of w = Some n"
  by (cases v; cases w) (auto simp: num_of_def split: if_splits)

lemma has_eq_lookup:
  assumes "has_eq (PDict kvs) k w" and "w = PStr s \<or> w = PInt n"
  obtains v where "map_of kvs k = Some v" "py_eq v w"
  using assms by (cases "map_of kvs k") (auto simp: has_eq_def dget_def dget_or_def)

lemma py_eq_dict_text:
  assumes "py_eq (PDict kvs) w" and "has_eq (PDict kvs) k (PStr s)"
  shows "has_eq w k (PStr s)"
proof -
  obtain v where v: "map_of kvs k = Some v" "py_eq v (PStr s)"
    using has_eq_lookup [OF assms(2)] by blast
  then have "py_eq (PStr s) (dget w k)"
    using py_eq_dict_lookup [OF assms(1) v(1)] by (simp only: py_eq_PStr) blast
  then show ?thesis by (simp only: has_eq_def py_eq_PStr)
qed

lemma py_eq_dict_int:
  assumes "py_eq (PDict kvs) w" and "has_eq (PDict kvs) k (PInt n)"
  shows "has_eq w k (PInt n)"
proof -
  obtain v where v: "map_of kvs k = Some v" "py_eq v (PInt n)"
    using has_eq_lookup [OF assms(2)] by blast
  have "py_eq v (dget w k)" using py_eq_dict_lookup [OF assms(1) v(1)] by blast
  moreover have "num_of v = Some n" using v(2) by (simp only: py_eq_PInt)
  ultimately have "num_of (dget w k) = Some n" by (rule num_of_py_eq [rotated])
  then show ?thesis by (simp only: has_eq_def py_eq_PInt)
qed

lemma stage_plan_of:
  assumes "validate_operation_payload pyd ''user.stage'' payload = Inr validated"
    and "py_eq validated payload" and "has_eq validated ''approval_reference'' (PStr ref)"
  shows "all_eq payload (APPROVED_ORIGIN_PILOT_STAGE @ [(''approval_reference'', PStr ref)])"
proof -
  obtain kvs where v: "validated = PDict kvs" "all_eq (PDict kvs) APPROVED_ORIGIN_PILOT_STAGE"
    using assms(1) by (auto simp: validate_operation_payload_def stage_payload_def all_eq_def
        split: if_splits option.splits)
  have "has_eq payload k w" if "(k, w) \<in> set APPROVED_ORIGIN_PILOT_STAGE" for k w
  proof -
    have "has_eq (PDict kvs) k w" using v(2) that by (auto simp: all_eq_def list_all_iff)
    moreover have "(\<exists>n. w = PInt n) \<or> (\<exists>s. w = PStr s)"
      using that by (auto simp: APPROVED_ORIGIN_PILOT_STAGE_def)
    ultimately show ?thesis using assms(2) v(1) py_eq_dict_int py_eq_dict_text by blast
  qed
  moreover have "has_eq payload ''approval_reference'' (PStr ref)"
    using assms(2,3) v(1) py_eq_dict_text by blast
  ultimately show ?thesis by (auto simp: all_eq_def list_all_iff)
qed

lemma final_payload_refl: "py_eq final_activate_payload final_activate_payload"
  by (simp add: final_activate_payload_def)

lemma final_activate_calls:
  assumes "execute_portal3e_final_activate env worker operation requester approver actor db = (r, calls, db')"
    and "request \<in> set calls"
  shows "request = activate_request operation requester approver \<or> request = rollback_request"
  using assms by (auto simp: execute_portal3e_final_activate_def Let_def split: prod.splits sum.splits if_splits)

lemma controlled_calls:
  assumes "execute_controlled env worker real operation requester approver actor db = (r, calls, db')"
    and "request \<in> set calls"
  shows "request = execution_request real operation requester approver actor"
  using assms by (auto simp: execute_controlled_def Let_def split: prod.splits sum.splits)

text \<open>
  C5. The background execution asks the worker for a real write in two cases only, each pinned to
  its plan: a queued operation that the active platform owner \<open>origin-al\<close> requested and approved
  himself, whose stored payload equals the approved Stage plan in every field and quotes its approval
  reference; or the one Activate, and its rollback, with exactly the final payload and an approval
  that quotes the approval sentence. Every other request is a dry run.
\<close>

theorem real_execution_pinned:
  assumes "execute_operation env worker quote i actor db = (r, calls, db')"
    and "request \<in> set calls" and "\<not> wr_dry_run request"
  shows "\<exists>operation owner. get_operation db i = Some operation \<and> oper_status operation = OP_QUEUED \<and>
    get_user db (oper_requested_by operation) = Some owner \<and> oper_approved_by operation = Some (user_id owner) \<and>
    user_normalized_login owner = ''origin-al'' \<and> user_account_state owner = AS_ACTIVE \<and>
    ''platform_owner'' \<in> set (map role_name (user_roles owner)) \<and> wr_requested_by request = ''origin-al'' \<and>
    (oper_operation_type operation = ''user.stage'' \<and> wr_operation_type request = ''user.stage'' \<and>
       wr_payload request = oper_validated_payload operation \<and>
       all_eq (wr_payload request) (APPROVED_ORIGIN_PILOT_STAGE @
         [(''approval_reference'', PStr PORTAL3C_STAGE_APPROVAL_REFERENCE)]) \<or>
     oper_operation_type operation = ''user.activate'' \<and>
       wr_operation_type request \<in> {''user.activate'', ''user.activate.rollback''} \<and>
       py_eq (wr_payload request) final_activate_payload \<and> approval_quotes quote db i (user_id owner))"
  using assms(1)
proof (cases rule: execute_operation_cases)
  case (final operation requester approver)
  have approver: "oper_approved_by operation = Some (user_id approver)"
    using final(4) user_store.lookup_pk by (auto split: option.splits)
  have call: "request = activate_request operation requester approver \<or> request = rollback_request"
    using final_activate_calls [OF final(6) assms(2)] .
  have pin: "pinned_operation ''user.activate'' PORTAL3E_FINAL_IDEMPOTENCY_KEY operation (Some requester) (Some approver)"
    "py_eq (oper_validated_payload operation) final_activate_payload"
    "approval_quotes quote db (oper_id operation) (user_id requester)"
    using final(5) by (auto simp: is_portal3e_final_real_activate_def split: sum.splits)
  have "oper_id operation = i" using final(1) by (rule operation_store.lookup_pk)
  with pin final(1,2,3) approver call final_payload_refl show ?thesis
    by (intro exI [of _ operation] exI [of _ requester])
      (auto simp: pinned_operation_def activate_request_def rollback_request_def)
next
  case (controlled operation requester approver)
  let ?real = "is_portal3c_real_stage (oe_pydantic env) operation requester approver"
  have call: "request = execution_request ?real operation requester approver actor"
    using controlled_calls [OF controlled(5) assms(2)] .
  then have ?real using assms(3) by (simp add: execution_request_def)
  then obtain owner a validated where pin: "requester = Some owner" "approver = Some a"
    "pinned_operation ''user.stage'' PORTAL3C_STAGE_IDEMPOTENCY_KEY operation (Some owner) (Some a)"
    "validate_operation_payload (oe_pydantic env) ''user.stage'' (oper_validated_payload operation) = Inr validated"
    "py_eq validated (oper_validated_payload operation)"
    "has_eq validated ''approval_reference'' (PStr PORTAL3C_STAGE_APPROVAL_REFERENCE)"
    by (auto simp: is_portal3c_real_stage_def pinned_operation_def split: option.splits sum.splits)
  have approver: "oper_approved_by operation = Some (user_id a)"
    using controlled(4) pin(2) user_store.lookup_pk by (auto split: option.splits)
  have plan: "all_eq (oper_validated_payload operation) (APPROVED_ORIGIN_PILOT_STAGE @
      [(''approval_reference'', PStr PORTAL3C_STAGE_APPROVAL_REFERENCE)])"
    using stage_plan_of [OF pin(4-6)] .
  have owner: "get_user db (oper_requested_by operation) = Some owner" using controlled(3) pin(1) by simp
  show ?thesis using controlled(1,2) owner pin(1-3) approver plan call
    by (intro exI [of _ operation] exI [of _ owner])
      (auto simp: pinned_operation_def execution_request_def)
qed (use assms(2) in simp_all)

subsection \<open>The invariant of the runs\<close>

definition approved :: "portal_db \<Rightarrow> portal_operation \<Rightarrow> bool" where
  "approved db o1 \<longleftrightarrow> (\<exists>a \<in> set (t_operation_approvals db). oapp_operation_id a = oper_id o1 \<and>
     oapp_decision a \<noteq> ''REJECT'' \<and> oper_approved_by o1 = Some (oapp_approver_id a))"

definition operation_ok :: "portal_db \<Rightarrow> portal_operation \<Rightarrow> bool" where
  "operation_ok db o1 \<longleftrightarrow>
     (\<exists>ss. legal_run can_transition OP_DRAFT ss \<and> oper_status o1 = last (OP_DRAFT # ss) \<and>
        trail db (oper_id o1) = map status_value (OP_DRAFT # ss)) \<and>
     (\<not> before_approval (oper_status o1) \<longrightarrow> approved db o1) \<and>
     (oper_operation_type o1 \<in> {''user.stage'', ''user.activate''} \<longrightarrow> oper_status o1 = OP_DRAFT)"

definition operations_ok :: "portal_db \<Rightarrow> bool" where
  "operations_ok db \<longleftrightarrow> distinct (map oper_id (t_operations db)) \<and>
     set (map oev_operation_id (t_operation_events db)) \<subseteq> set (map oper_id (t_operations db)) \<and>
     (\<forall>i o1. get_operation db i = Some o1 \<longrightarrow> operation_ok db o1)"

inductive op_run :: "auth_settings \<Rightarrow> string \<Rightarrow> portal_db \<Rightarrow> operation_call list \<Rightarrow> bool"
  for settings quote where
  start: "t_operations db = [] \<Longrightarrow> t_operation_events db = [] \<Longrightarrow> op_run settings quote db []"
| create: "op_run settings quote db log \<Longrightarrow> oe_ids env 0 \<notin> oper_id ` set (t_operations db) \<Longrightarrow>
    create_operation env settings worker req body context db = (r, calls, db') \<Longrightarrow>
    op_run settings quote db' (log @ calls)"
| submit: "op_run settings quote db log \<Longrightarrow>
    submit_operation env settings req text_id confirmation context db = (r2, db') \<Longrightarrow> op_run settings quote db' log"
| approve: "op_run settings quote db log \<Longrightarrow>
    approve_operation env settings req text_id decision context db = (r2, db') \<Longrightarrow> op_run settings quote db' log"
| execute: "op_run settings quote db log \<Longrightarrow> execute_operation env worker quote i actor db = (r3, calls, db') \<Longrightarrow>
    op_run settings quote db' (log @ calls)"
| other: "op_run settings quote db log \<Longrightarrow> same_operations db db' \<Longrightarrow> op_run settings quote db' log"

lemma legal_run_extend:
  assumes "legal_run can_transition OP_DRAFT ss" and "legal_run can_transition (last (OP_DRAFT # ss)) ts"
  shows "legal_run can_transition OP_DRAFT (ss @ ts)" "last (last (OP_DRAFT # ss) # ts) = last (OP_DRAFT # ss @ ts)"
  using assms by (auto simp: legal_run_append last_append_walk)

lemma approved_core:
  "op_core o2 = op_core o1 \<Longrightarrow> oper_id o2 = oper_id o1 \<Longrightarrow> t_operation_approvals db' = t_operation_approvals db \<Longrightarrow>
   approved db' o2 = approved db o1"
  by (simp add: approved_def op_core_def)

lemma walks_operations_ok:
  assumes "walks i db db'" and "operations_ok db" and "get_operation db i = Some o1"
    and "\<And>o2. get_operation db' i = Some o2 \<Longrightarrow> op_core o2 = op_core o1 \<Longrightarrow>
      (before_approval (oper_status o2) \<or> approved db o1) \<and>
      (oper_operation_type o1 \<in> {''user.stage'', ''user.activate''} \<longrightarrow> oper_status o2 = OP_DRAFT)"
  shows "operations_ok db'"
proof -
  have ids: "map oper_id (t_operations db') = map oper_id (t_operations db)"
    and appr: "t_operation_approvals db' = t_operation_approvals db"
    and events: "set (map oev_operation_id (t_operation_events db')) \<subseteq>
      insert i (set (map oev_operation_id (t_operation_events db)))"
    and others: "\<And>j. j \<noteq> i \<Longrightarrow> get_operation db' j = get_operation db j \<and> trail db' j = trail db j"
    and own: "rel_option (walked db db' i) (get_operation db i) (get_operation db' i)"
    using assms(1) unfolding walks_def by blast+
  have "i \<in> set (map oper_id (t_operations db))"
    using assms(3) by (auto simp: get_operation_def dest!: scalar_SomeD)
  then have "set (map oev_operation_id (t_operation_events db')) \<subseteq> set (map oper_id (t_operations db'))"
    using events assms(2) unfolding operations_ok_def ids by blast
  moreover have "operation_ok db' o2" if get: "get_operation db' j = Some o2" for j o2
  proof (cases "j = i")
    case False
    then have "operation_ok db o2" using get others assms(2) by (simp add: operations_ok_def)
    moreover have "trail db' (oper_id o2) = trail db (oper_id o2)"
      using others [OF False] operation_store.lookup_pk [OF get] by simp
    ultimately show ?thesis by (simp add: operation_ok_def approved_def appr)
  next
    case True
    with own get assms(3) have w: "walked db db' i o1 o2" by simp
    have id1: "oper_id o1 = i" "oper_id o2 = i"
      using operation_store.lookup_pk assms(3) get True by blast+
    obtain ss where ss: "legal_run can_transition OP_DRAFT ss" "oper_status o1 = last (OP_DRAFT # ss)"
      "trail db i = map status_value (OP_DRAFT # ss)"
      using assms(2,3) id1 unfolding operations_ok_def operation_ok_def by metis
    obtain ts where ts: "legal_run can_transition (oper_status o1) ts" "oper_status o2 = last (oper_status o1 # ts)"
      "trail db' i = trail db i @ map status_value ts" and core: "op_core o2 = op_core o1"
      using w unfolding walked_def by blast
    note ext = legal_run_extend [OF ss(1) ts(1) [unfolded ss(2)]]
    have "\<exists>us. legal_run can_transition OP_DRAFT us \<and> oper_status o2 = last (OP_DRAFT # us) \<and>
        trail db' i = map status_value (OP_DRAFT # us)"
      using ext ss ts by (intro exI [of _ "ss @ ts"]) simp
    moreover have "approved db' o2 = approved db o1" using approved_core [OF core] id1 appr by simp
    moreover have "oper_operation_type o2 = oper_operation_type o1" using core by (simp add: op_core_def)
    ultimately show ?thesis using assms(4) [of o2] get True core id1 by (auto simp: operation_ok_def)
  qed
  ultimately show ?thesis using assms(2) unfolding operations_ok_def ids by blast
qed

lemma operations_ok_same: "operations_ok db \<Longrightarrow> same_operations db db' \<Longrightarrow> operations_ok db'"
  by (simp add: operations_ok_def operation_ok_def same_operations_def get_operation_def trail_def approved_def)

lemma execute_keeps:
  assumes "execute_operation env worker quote i actor db = (r, calls, db')" and "operations_ok db"
  shows "operations_ok db'" and "\<forall>request \<in> set calls. wr_dry_run request"
proof -
  show "operations_ok db'"
  proof (cases "\<exists>o1. get_operation db i = Some o1 \<and> oper_status o1 = OP_QUEUED")
    case True
    then obtain o1 where o1: "get_operation db i = Some o1" "oper_status o1 = OP_QUEUED" by blast
    then have "operation_ok db o1" using assms(2) by (simp add: operations_ok_def)
    then have "approved db o1 \<and> oper_operation_type o1 \<notin> {''user.stage'', ''user.activate''}"
      using o1(2) by (auto simp: operation_ok_def)
    then show ?thesis using walks_operations_ok [OF walks_execute [OF assms(1)] assms(2) o1(1)] by blast
  next
    case False
    then have "db' = db" using assms(1) by (auto simp: execute_operation_def split: option.splits)
    then show ?thesis using assms(2) by simp
  qed
  show "\<forall>request \<in> set calls. wr_dry_run request"
  proof (rule ballI, rule ccontr)
    fix request assume "request \<in> set calls" "\<not> wr_dry_run request"
    then obtain operation where op: "get_operation db i = Some operation" "oper_status operation = OP_QUEUED"
      "oper_operation_type operation \<in> {''user.stage'', ''user.activate''}"
      using real_execution_pinned [OF assms(1)] by blast
    have "operation_ok db operation" using op(1) assms(2) by (simp add: operations_ok_def)
    with op(2,3) show False by (auto simp: operation_ok_def)
  qed
qed

lemma named_operation_Some: "named_operation text_id db = Some o1 \<Longrightarrow> get_operation db (oper_id o1) = Some o1"
  by (auto simp: named_operation_def dest: operation_store.lookup_pk split: option.splits)

lemma same_route_audit: "same_operations db (snd (route_audit env slot req context event ot oi outcome metadata i db))"
  by (simp add: route_audit_def effect_def)

lemma route_audit_same:
  "route_audit env slot req context event ot oi outcome metadata i db = (r, db') \<Longrightarrow> same_operations db db'"
  by (auto simp: route_audit_def effect_def)

lemma walks_route_audit: "walks i db (snd (route_audit env slot req context event ot oi outcome metadata j db))"
  by (rule walks_same [OF same_route_audit])

lemma same_get: "same_operations db db' \<Longrightarrow> get_operation db' i = get_operation db i"
  by (simp add: same_operations_def get_operation_def)

lemma transition_ok:
  assumes "get_operation db i = Some o1" and "can_transition (oper_status o1) t"
  shows "fst (transition env slot i t m db) = Inr ()"
    and "get_operation (snd (transition env slot i t m db)) i = Some (o1\<lparr>oper_status := t\<rparr>)"
  using assms by (simp_all add: transition_def)

lemma submit_keeps:
  assumes "submit_operation env settings req text_id confirmation context db = (r, db')" and "operations_ok db"
  shows "operations_ok db'"
proof (cases "db' = db")
  case False
  let ?acts = "\<lambda>o1. [transition env 0 (oper_id o1) OP_PENDING_APPROVAL ''submitted for dry-run approval'',
      route_audit env 1 req context ''operation.submit'' ''operation'' (oper_id o1) ''SUCCESS''
        (PDict [(''operation_type'', PStr (oper_operation_type o1)), (''execution_mode'', PStr ''dry-run'')])
        (oper_id o1)]"
  from False assms(1) obtain o1 u where o1: "named_operation text_id db = Some o1" "oper_status o1 = OP_DRAFT"
    "oper_operation_type o1 \<notin> {''user.stage'', ''user.activate''}" "run_actions (?acts o1) db = (Inr u, db')"
    by (auto simp: submit_operation_def Let_def split: sum.splits option.splits if_splits prod.splits)
  have get: "get_operation db (oper_id o1) = Some o1" using o1(1) by (rule named_operation_Some)
  have "walks (oper_id o1) db (snd (run_actions (?acts o1) db))"
    by (rule walk.run_actions_rel) (auto simp: walks_transition walks_route_audit)
  then have walk: "walks (oper_id o1) db db'" using o1(4) by simp
  have can: "can_transition (oper_status o1) OP_PENDING_APPROVAL" by (simp add: o1(2) can_transition_def)
  have "get_operation db' (oper_id o1) = Some (o1\<lparr>oper_status := OP_PENDING_APPROVAL\<rparr>)"
    using o1(4) transition_ok [OF get can] same_get [OF same_route_audit]
    by (auto split: prod.splits sum.splits) (metis snd_conv)+
  then show ?thesis using walks_operations_ok [OF walk assms(2) get] o1(3) by auto
qed (use assms(2) in simp)

lemma add_approval_simps [simp]:
  "get_operation (add_operation_approval a db) i = get_operation db i"
  "trail (add_operation_approval a db) i = trail db i"
  "t_operations (add_operation_approval a db) = t_operations db"
  "t_operation_events (add_operation_approval a db) = t_operation_events db"
  "t_operation_approvals (add_operation_approval a db) = t_operation_approvals db @ [a]"
  by (simp_all add: add_operation_approval_def get_operation_def trail_def)

lemma approval_keeps:
  assumes "operations_ok db"
  shows "operations_ok (add_operation_approval a db)"
proof -
  have "approved db o1 \<Longrightarrow> approved (add_operation_approval a db) o1" for o1 by (auto simp: approved_def)
  then show ?thesis using assms by (auto simp: operations_ok_def operation_ok_def)
qed

lemma set_approver_keeps:
  assumes "operations_ok db" and "get_operation db i = Some o1" and "before_approval (oper_status o1)"
  shows "operations_ok (modify_operation i (\<lambda>o'. o'\<lparr>oper_approved_by := a, oper_approved_at := t\<rparr>) db)"
    (is "operations_ok ?db")
proof -
  have "operation_ok ?db o2" if get: "get_operation ?db j = Some o2" for j o2
  proof (cases "i = j")
    case False
    then have "operation_ok db o2" using get assms(1) by (simp add: operations_ok_def)
    then show ?thesis by (simp add: operation_ok_def approved_def)
  next
    case True
    then have o2: "o2 = o1\<lparr>oper_approved_by := a, oper_approved_at := t\<rparr>" using get assms(2) by simp
    have "operation_ok db o1" using assms(1,2) by (simp add: operations_ok_def)
    with o2 assms(3) show ?thesis by (auto simp: operation_ok_def)
  qed
  then show ?thesis using assms(1) by (simp add: operations_ok_def)
qed

lemma decided_keeps:
  assumes "operations_ok db" and "get_operation db i = Some o1" and "oper_status o1 = OP_PENDING_APPROVAL"
    and "\<exists>a \<in> set (t_operation_approvals db). oapp_operation_id a = i \<and> oapp_decision a = apr_decision body \<and>
      oapp_approver_id a = user_id (ctx_user context)"
    and "decided env context body i db = (Inr u, db')"
  shows "operations_ok db'"
proof (cases "apr_decision body = ''REJECT''")
  case True
  have step: "transition env 1 i OP_CANCELLED ''approval rejected'' db = (Inr u, db')"
    using assms(5) True by (simp add: decided_def)
  have walk: "walks i db db'" using walks_transition step by (metis snd_conv)
  have can: "can_transition (oper_status o1) OP_CANCELLED" by (simp add: assms(3) can_transition_def)
  have "operation_ok db o1" using assms(1,2) by (simp add: operations_ok_def)
  then have "oper_operation_type o1 \<notin> {''user.stage'', ''user.activate''}" using assms(3) by (auto simp: operation_ok_def)
  moreover have "get_operation db' i = Some (o1\<lparr>oper_status := OP_CANCELLED\<rparr>)"
    using transition_ok(2) [OF assms(2) can] step by (metis snd_conv)
  ultimately show ?thesis using walks_operations_ok [OF walk assms(1,2)] by auto
next
  case False
  let ?set = "\<lambda>o'. o'\<lparr>oper_approved_by := Some (user_id (ctx_user context)), oper_approved_at := Some (oe_now env)\<rparr>"
  let ?db = "modify_operation i ?set db"
  let ?acts = "[transition env 1 i OP_APPROVED ''approval granted'',
      transition env 2 i OP_QUEUED ''queued for controlled Worker dry-run'']"
  have "run_actions ?acts ?db = (Inr u, db')"
    using assms(5) False by (simp add: decided_def set_operation_def effect_def)
  moreover have "walks i ?db (snd (run_actions ?acts ?db))"
    by (rule walk.run_actions_rel) (auto simp: walks_transition)
  ultimately have walk: "walks i ?db db'" by simp
  have ok: "operations_ok ?db" using assms(1-3) by (intro set_approver_keeps) auto
  have get: "get_operation ?db i = Some (?set o1)" using assms(2) by simp
  have id: "oper_id o1 = i" using assms(2) by (rule operation_store.lookup_pk)
  have "approved ?db (?set o1)" using assms(4) False id by (auto simp: approved_def)
  moreover have "operation_ok db o1" using assms(1,2) by (simp add: operations_ok_def)
  then have "oper_operation_type o1 \<notin> {''user.stage'', ''user.activate''}" using assms(3) by (auto simp: operation_ok_def)
  ultimately show ?thesis using walks_operations_ok [OF walk ok get] by auto
qed

lemma approve_keeps:
  assumes "approve_operation env settings req text_id body context db = (r, db')" and "operations_ok db"
  shows "operations_ok db'"
proof (cases "db' = db")
  case False
  from False assms(1) obtain o1 u db2 where o1: "named_operation text_id db = Some o1"
    "oper_status o1 = OP_PENDING_APPROVAL"
    "decided env context body (oper_id o1) (add_operation_approval (approval_row env context body (oper_id o1)) db) = (Inr u, db2)"
    "same_operations db2 db'"
    by (auto simp: approve_operation_def Let_def effect_def dest!: route_audit_same
        split: sum.splits option.splits if_splits prod.splits)
  let ?db = "add_operation_approval (approval_row env context body (oper_id o1)) db"
  have get: "get_operation ?db (oper_id o1) = Some o1" using named_operation_Some [OF o1(1)] by simp
  have "operations_ok db2"
    using decided_keeps [OF approval_keeps [OF assms(2)] get o1(2) _ o1(3)] by (simp add: approval_row_def)
  then show ?thesis using operations_ok_same o1(4) by blast
qed (use assms(2) in simp)

text \<open>A draft gets its plan without an event, so it stays a draft.\<close>

interpretation events: effect_relation "\<lambda>db db'. t_operation_events db' = t_operation_events db"
  by unfold_locales auto

lemma plan_effect_fields:
  "plan_effect context body records answer db = Inr (f, plan) \<Longrightarrow>
   oper_id (f o1) = oper_id o1 \<and> op_core (f o1) = op_core o1 \<and> oper_status (f o1) = oper_status o1"
  by (auto simp: plan_effect_def Let_def op_core_def plan_recorded_def split: sum.splits if_splits)

lemma plan_draft_effects:
  "t_operation_events (snd (plan_draft env req context body records i answer db)) = t_operation_events db"
  "walks i db (snd (plan_draft env req context body records i answer db))"
proof -
  have audit: "same_operations db (snd (plan_audit env req context kind i plan db))" for db kind plan
    by (auto simp: plan_audit_def effect_def same_route_audit split: option.split)
  show "t_operation_events (snd (plan_draft env req context body records i answer db)) = t_operation_events db"
  proof (cases "plan_effect context body records answer db")
    case (Inr eff)
    obtain f plan where eff: "eff = (f, plan)" by (cases eff)
    have "t_operation_events (snd (run_actions [set_operation i f,
        plan_audit env req context (ocr_operation_type body) i plan] db)) = t_operation_events db"
      using audit by (intro events.run_actions_rel) (auto simp: set_operation_def effect_def same_operations_def)
    with Inr eff show ?thesis by (simp add: plan_draft_def del: run_actions.simps)
  qed (simp add: plan_draft_def)
  show "walks i db (snd (plan_draft env req context body records i answer db))"
  proof (cases "plan_effect context body records answer db")
    case (Inr eff)
    obtain f plan where eff: "eff = (f, plan)" by (cases eff)
    have "walks i db (snd (run_actions [set_operation i f,
        plan_audit env req context (ocr_operation_type body) i plan] db))"
      using audit plan_effect_fields [OF Inr [unfolded eff]]
      by (intro walk.run_actions_rel) (auto intro: walks_set_operation walks_same)
    with Inr eff show ?thesis by (simp add: plan_draft_def del: run_actions.simps)
  qed (simp add: plan_draft_def walks_refl)
qed

lemma add_operation_simps [simp]:
  "t_operations (add_operation o1 db) = t_operations db @ [o1]"
  "t_operation_events (add_operation o1 db) = t_operation_events db"
  "t_operation_approvals (add_operation o1 db) = t_operation_approvals db"
  "trail (add_operation o1 db) j = trail db j"
  "get_operation (add_operation o1 db) j =
     (case get_operation db j of None \<Rightarrow> if oper_id o1 = j then Some o1 else None | Some o2 \<Rightarrow> Some o2)"
  by (simp_all add: add_operation_def trail_def get_operation_def scalar_append split: option.split)

text \<open>The new operation, once its plan, its first event and its audit entry are written.\<close>

lemma drafted_keeps:
  assumes "operations_ok db" and "i \<notin> oper_id ` set (t_operations db)" and "oper_id o1 = i"
    and "oper_status o1 = OP_DRAFT"
    and "walks i (add_operation o1 db) db2" and "t_operation_events db2 = t_operation_events db"
    and "oev_operation_id e = i" and "oev_from_status e = None" and "oev_to_status e = status_value OP_DRAFT"
  shows "operations_ok (add_operation_event e db2)" (is "operations_ok ?db")
proof -
  have fresh: "get_operation db i = None"
    using assms(2) by (auto simp: get_operation_def scalar_None_iff)
  have ids: "map oper_id (t_operations db2) = map oper_id (t_operations db) @ [i]"
    and appr: "t_operation_approvals db2 = t_operation_approvals db"
    and others: "\<And>j. j \<noteq> i \<Longrightarrow> get_operation db2 j = get_operation db j \<and> trail db2 j = trail db j"
    and own: "rel_option (walked (add_operation o1 db) db2 i) (Some o1) (get_operation db2 i)"
    using assms(5) assms(3) fresh unfolding walks_def by (auto split: option.splits)
  have silent: "trail db i = []"
    using assms(1,2) by (force simp: trail_def operations_ok_def filter_empty_conv)
  have trails: "trail db2 j = trail db j" for j using assms(6) by (simp add: trail_def)
  have "operation_ok ?db o2" if get: "get_operation ?db j = Some o2" for j o2
  proof (cases "j = i")
    case False
    then have "get_operation db j = Some o2" "oper_id o2 = j"
      using get others operation_store.lookup_pk [of db j] by auto
    then have "operation_ok db o2" "oper_id o2 \<noteq> i" using assms(1) False by (auto simp: operations_ok_def)
    then show ?thesis using assms(7) trails appr by (auto simp: operation_ok_def approved_def)
  next
    case True
    have id2: "oper_id o2 = i" using get True operation_store.lookup_pk by fastforce
    obtain ss where ss: "oper_status o2 = last (OP_DRAFT # ss)" "trail db2 i = trail db i @ map status_value ss"
      using own get True assms(4) by (auto simp: walked_def)
    then have "ss = []" using trails [of i] by simp
    with ss(1) have "oper_status o2 = OP_DRAFT" by simp
    then show ?thesis using assms(7-9) trails silent id2
      by (auto simp: operation_ok_def intro!: exI [of _ "[]"])
  qed
  moreover have "distinct (map oper_id (t_operations ?db))"
    using assms(1,2) ids by (simp add: operations_ok_def)
  moreover have "set (map oev_operation_id (t_operation_events ?db)) \<subseteq> set (map oper_id (t_operations ?db))"
    using assms(1,6,7) by (auto simp: ids operations_ok_def simp del: set_map)
  ultimately show ?thesis by (simp add: operations_ok_def)
qed

lemma create_keeps:
  assumes "create_operation env settings worker req body context db = (r, calls, db')" and "operations_ok db"
    and "oe_ids env 0 \<notin> oper_id ` set (t_operations db)"
  shows "operations_ok db'" and "\<forall>request \<in> set calls. wr_dry_run request"
proof -
  show "\<forall>request \<in> set calls. wr_dry_run request"
    using assms(1) by (auto simp: create_operation_def Let_def plan_request_def
        split: sum.splits option.splits prod.splits if_splits)
  show "operations_ok db'"
  proof (cases "db' = db")
    case False
    let ?i = "oe_ids env 0"
    from False assms(1) obtain checked u where checked:
      "run_actions (draft_actions env worker req body context checked) db = (Inr u, db')"
      by (auto simp: create_operation_def Let_def split: sum.splits option.splits prod.splits if_splits)
    let ?o = "draft_operation env body context checked"
    have o1: "oper_id ?o = ?i" "oper_status ?o = OP_DRAFT" by (simp_all add: draft_operation_def split: prod.split)
    let ?mid = "if ocr_operation_type body \<in> set planned_types
        then plan_draft env req context body (snd (snd checked)) ?i
          (worker (plan_request body context (fst (snd checked)))) else effect (\<lambda>db. db)"
    have mid: "t_operation_events (snd (?mid db1)) = t_operation_events db1" "walks ?i db1 (snd (?mid db1))" for db1
      by (simp_all add: plan_draft_effects effect_def walks_refl)
    obtain db2 where db2: "db2 = snd (?mid (add_operation ?o db))"
      "same_operations (add_operation_event (draft_event env ?i) db2) db'"
      using checked by (auto simp: draft_actions_def Let_def effect_def o1 dest!: route_audit_same
          split: prod.splits sum.splits if_splits)
    have "operations_ok (add_operation_event (draft_event env ?i) db2)"
      by (rule drafted_keeps [OF assms(2,3) o1]) (use mid [of "add_operation ?o db"] in \<open>simp_all add: db2(1) draft_event_def\<close>)
    then show ?thesis using operations_ok_same db2(2) by blast
  qed (use assms(2) in simp)
qed

lemma op_run_keeps:
  "op_run settings quote db log \<Longrightarrow> operations_ok db \<and> (\<forall>request \<in> set log. wr_dry_run request)"
proof (induction rule: op_run.induct)
  case (start db)
  then show ?case by (simp add: operations_ok_def get_operation_def)
next
  case (create db log env worker req body ctx r calls db')
  then show ?case using create_keeps [OF create.hyps(3)] by auto
next
  case (execute db log env worker i actor r3 calls db')
  then show ?case using execute_keeps [OF execute.hyps(2)] by auto
qed (auto intro: submit_keeps approve_keeps operations_ok_same)

text \<open>
  C7. Along every run of the operation routes and their background executions, the events of each
  operation record a legal run of the transition table that starts as a draft and ends in the
  operation's status, and an operation that has left the states before its approval carries an
  approval by the user its row names.
\<close>

theorem operation_history_recorded:
  assumes "op_run settings quote db log" and "get_operation db i = Some o1"
  shows "\<exists>ss. legal_run can_transition OP_DRAFT ss \<and> oper_status o1 = last (OP_DRAFT # ss) \<and>
    trail db i = map status_value (OP_DRAFT # ss) \<and>
    (before_approval (oper_status o1) \<or> (\<exists>a \<in> set (t_operation_approvals db). oapp_operation_id a = i \<and>
       oapp_decision a \<noteq> ''REJECT'' \<and> oper_approved_by o1 = Some (oapp_approver_id a)))"
proof -
  have "operation_ok db o1" using op_run_keeps [OF assms(1)] assms(2) by (simp add: operations_ok_def)
  moreover have id: "oper_id o1 = i" using assms(2) by (rule operation_store.lookup_pk)
  ultimately obtain ss where "legal_run can_transition OP_DRAFT ss" "oper_status o1 = last (OP_DRAFT # ss)"
    "trail db i = map status_value (OP_DRAFT # ss)" and "\<not> before_approval (oper_status o1) \<longrightarrow> approved db o1"
    unfolding operation_ok_def by blast
  then show ?thesis unfolding approved_def id by blast
qed

text \<open>
  C27. No run of the operation routes ever writes to the host: whatever is created, submitted,
  approved and executed, every request the worker receives is a dry run, since the two operations
  that could be executed for real cannot be submitted.
\<close>

theorem routes_never_write:
  assumes "op_run settings quote db log" and "request \<in> set log"
  shows "wr_dry_run request"
  using op_run_keeps [OF assms(1)] assms(2) by blast

subsection \<open>Every execution settles\<close>

definition status_of :: "portal_db \<Rightarrow> uuid \<Rightarrow> operation_status option" where
  "status_of db i = map_option oper_status (get_operation db i)"

lemma run_actions_results [simp]:
  "fst (run_actions (act # acts) db) =
     (case fst (act db) of Inl e \<Rightarrow> Inl e | Inr _ \<Rightarrow> fst (run_actions acts (snd (act db))))"
  "snd (run_actions (act # acts) db) =
     (case fst (act db) of Inl e \<Rightarrow> snd (act db) | Inr _ \<Rightarrow> snd (run_actions acts (snd (act db))))"
  by (cases "act db"; simp split: sum.split)+

declare run_actions.simps(2) [simp del]

lemma get_operation_audit [simp]: "get_operation (record_audit h n t c db) i = get_operation db i"
  by (simp add: get_operation_def)

lemma status_of_effects [simp]:
  "fst (set_operation i f db) = Inr ()"
  "(\<And>o'. oper_id (f o') = oper_id o' \<and> oper_status (f o') = oper_status o') \<Longrightarrow>
     status_of (snd (set_operation i f db)) j = status_of db j"
  "fst (execution_audit env slot event actor k outcome metadata db) = Inr ()"
  "status_of (snd (execution_audit env slot event actor k outcome metadata db)) j = status_of db j"
  "fst (finish_event env slot k message db) = Inr ()"
  "status_of (snd (finish_event env slot k message db)) j = status_of db j"
  by (auto simp: status_of_def set_operation_def effect_def execution_audit_def finish_event_def Let_def
      option.map_comp comp_def)

lemma status_of_transition [simp]:
  "fst (transition env slot i t m db) = (case status_of db i of None \<Rightarrow> Inl (RuntimeError ''no operation'')
     | Some s \<Rightarrow> if can_transition s t then Inr () else Inl (RuntimeError ''invalid operation transition''))"
  "status_of (snd (transition env slot i t m db)) i = (case status_of db i of None \<Rightarrow> None
     | Some s \<Rightarrow> if can_transition s t then Some t else Some s)"
  by (auto simp: transition_def status_of_def split: option.splits)

lemma from_running [simp]:
  "can_transition OP_QUEUED OP_RUNNING" "can_transition OP_RUNNING OP_FAILED"
  "can_transition OP_RUNNING OP_SUCCEEDED" "can_transition OP_RUNNING OP_ROLLING_BACK"
  "can_transition OP_ROLLING_BACK OP_ROLLED_BACK"
  by (simp_all add: can_transition_def)

definition settled :: "portal_db \<Rightarrow> uuid \<Rightarrow> bool" where
  "settled db i \<longleftrightarrow> status_of db i \<in> Some ` {OP_SUCCEEDED, OP_FAILED, OP_ROLLED_BACK}"

lemma leave_running_settles [simp]:
  "status_of db i = Some OP_RUNNING \<Longrightarrow> fst (leave_running env i back m1 m2 m3 db) = Inr ()"
  "status_of db i = Some OP_RUNNING \<Longrightarrow>
     status_of (snd (leave_running env i back m1 m2 m3 db)) i = Some (if back then OP_ROLLED_BACK else OP_FAILED)"
  by (simp_all add: leave_running_def)

lemma compensate_settles:
  assumes "status_of db i = Some OP_RUNNING"
  shows "fst (compensate env worker i actor event code messages summaries metadata db) = Inr ()"
    and "settled (snd (compensate env worker i actor event code messages summaries metadata db)) i"
  using assms by (simp_all add: compensate_def Let_def settled_def)

lemma outcomes_settle:
  assumes "status_of db i = Some OP_RUNNING"
  shows "fst (activate_rejected env i actor answer db) = Inr ()"
    and "settled (snd (activate_rejected env i actor answer db)) i"
    and "oper_id operation = i \<Longrightarrow> fst (execution_unavailable env real operation actor code db) = Inr ()"
    and "oper_id operation = i \<Longrightarrow> settled (snd (execution_unavailable env real operation actor code db)) i"
    and "oper_id operation = i \<Longrightarrow> fst (stage_unpersisted env operation actor e db) = Inr ()"
    and "oper_id operation = i \<Longrightarrow> settled (snd (stage_unpersisted env operation actor e db)) i"
    and "oper_id operation = i \<Longrightarrow> fst (dry_run_succeeded env operation actor answer db) = Inr ()"
    and "oper_id operation = i \<Longrightarrow> settled (snd (dry_run_succeeded env operation actor answer db)) i"
  using assms
  by (simp_all add: activate_rejected_def execution_unavailable_def stage_unpersisted_def dry_run_succeeded_def
      Let_def settled_def)

text \<open>
  A worker that follows its protocol puts a dictionary under \<open>error\<close>, if it puts anything there.
\<close>

definition well_formed_answers :: "op_worker \<Rightarrow> bool" where
  "well_formed_answers worker \<longleftrightarrow>
     (\<forall>request answer. worker request = Inr answer \<longrightarrow> is_dict (dget_or answer ''error'' (PDict [])))"

lemma same_status: "same_operations db db' \<Longrightarrow> status_of db' i = status_of db i"
  by (simp add: status_of_def same_get)

lemmas persist_status [simp] = same_status [OF same_persist_stage] same_status [OF same_persist_activate]

lemma stage_refusal_errors: "stage_refusal owner result = Some e \<Longrightarrow> \<exists>m. e = RuntimeError m"
  unfolding stage_refusal_def Let_def by (drule refuse_if_Some) auto

lemma staged_errors:
  "fst (staged_managed env slot owner db) = Inl e \<Longrightarrow> (\<exists>m. e = RuntimeError m) \<or> (\<exists>m. e = IntegrityError m)"
  "fst (staged_container env slot img m db) = Inl e \<Longrightarrow> (\<exists>m. e = RuntimeError m) \<or> (\<exists>m. e = IntegrityError m)"
  by (auto simp: staged_managed_def staged_container_def Let_def split: option.splits if_splits)

lemma persist_stage_errors:
  assumes "fst (persist_portal3c_staged_identity env owner j result db) = Inl e"
  shows "(\<exists>m. e = RuntimeError m) \<or> (\<exists>m. e = IntegrityError m)"
proof (cases "stage_refusal owner result")
  case None
  obtain r db1 where step: "staged_managed env 20 (user_id owner) db = (r, db1)" by fastforce
  show ?thesis
  proof (cases r)
    case (Inr m)
    then show ?thesis using assms None step staged_errors(2)
      by (auto simp: persist_portal3c_staged_identity_def Let_def effect_def split: sum.splits)
  next
    case (Inl e')
    then have "fst (staged_managed env 20 (user_id owner) db) = Inl e"
      using assms None step by (simp add: persist_portal3c_staged_identity_def)
    then show ?thesis by (rule staged_errors(1))
  qed
qed (use assms stage_refusal_errors in \<open>auto simp: persist_portal3c_staged_identity_def\<close>)

lemma stage_succeeded_ends:
  assumes "status_of db i = Some OP_RUNNING"
  shows "fst (stage_succeeded env owner i actor answer db) = Inr () \<Longrightarrow>
      settled (snd (stage_succeeded env owner i actor answer db)) i"
    and "fst (stage_succeeded env owner i actor answer db) = Inl e \<Longrightarrow>
      (\<exists>m. e = RuntimeError m) \<or> (\<exists>m. e = IntegrityError m)"
proof -
  note [simp] = assms settled_def stage_succeeded_def
  show "fst (stage_succeeded env owner i actor answer db) = Inr () \<Longrightarrow>
      settled (snd (stage_succeeded env owner i actor answer db)) i"
    by (auto split: sum.splits)
  show "fst (stage_succeeded env owner i actor answer db) = Inl e \<Longrightarrow>
      (\<exists>m. e = RuntimeError m) \<or> (\<exists>m. e = IntegrityError m)"
    by (rule persist_stage_errors [of env owner i answer db]) (auto split: sum.splits)
qed

lemma activate_succeeded_ends:
  assumes "status_of db i = Some OP_RUNNING" and "oper_id operation = i"
    and "fst (activate_succeeded env owner operation actor answer db) = Inr ()"
  shows "settled (snd (activate_succeeded env owner operation actor answer db)) i"
  using assms by (auto simp: activate_succeeded_def Let_def settled_def split: sum.splits)

lemma execution_rejected_ends:
  assumes "status_of db i = Some OP_RUNNING" and "oper_id operation = i"
    and "is_dict (dget_or answer ''error'' (PDict []))"
  shows "fst (execution_rejected env real operation actor answer db) = Inr ()"
    and "settled (snd (execution_rejected env real operation actor answer db)) i"
  using assms by (simp_all add: execution_rejected_def Let_def settled_def)

lemma settled_finish: "settled (snd (finish_event env slot k m db)) i = settled db i"
  by (simp add: settled_def)

lemma execution_outcome_ends:
  assumes "status_of db i = Some OP_RUNNING" and "oper_id operation = i"
    and "\<And>result. answer = Inr result \<Longrightarrow> is_dict (dget_or result ''error'' (PDict []))"
  shows "fst (execution_outcome env real operation requester actor answer db) = Inr () \<and>
    settled (snd (execution_outcome env real operation requester actor answer db)) i"
proof (cases answer)
  case (Inl code)
  then show ?thesis using outcomes_settle(3,4) [OF assms(1,2)] by (simp add: execution_outcome_def)
next
  case (Inr result)
  let ?inner = "if real \<and> has_eq result ''status'' (PStr ''SUCCEEDED'') \<and> requester \<noteq> None
      then stage_succeeded env (the requester) (oper_id operation) actor result db
      else if \<not> real \<and> has_eq result ''status'' (PStr ''DRY_RUN'') then dry_run_succeeded env operation actor result db
      else execution_rejected env real operation actor result db"
  have inner: "fst ?inner = Inr () \<and> settled (snd ?inner) i \<or>
      (\<exists>m. fst ?inner = Inl (RuntimeError m)) \<or> (\<exists>m. fst ?inner = Inl (IntegrityError m))"
  proof (cases "real \<and> has_eq result ''status'' (PStr ''SUCCEEDED'') \<and> requester \<noteq> None")
    case True
    then show ?thesis
      unfolding if_P [OF True] assms(2)
      using stage_succeeded_ends [OF assms(1), of env "the requester" actor result]
      by (cases "fst (stage_succeeded env (the requester) i actor result db)") auto
  next
    case False
    show ?thesis
      unfolding if_not_P [OF False]
      using outcomes_settle(7,8) [OF assms(1,2)] execution_rejected_ends [OF assms(1,2) assms(3) [OF Inr]] by simp
  qed
  obtain r db' where rd: "?inner = (r, db')" by fastforce
  have outcome: "execution_outcome env real operation requester actor answer db =
      (case (r, db') of
         (Inl (RuntimeError m), _) \<Rightarrow> stage_unpersisted env operation actor (RuntimeError m) db
       | (Inl (IntegrityError m), _) \<Rightarrow> stage_unpersisted env operation actor (IntegrityError m) db
       | other \<Rightarrow> other)"
    unfolding execution_outcome_def Inr sum.case rd ..
  from inner show ?thesis
    unfolding outcome rd using outcomes_settle(5,6) [OF assms(1,2)] by auto
qed

lemma started:
  assumes "status_of db i = Some OP_QUEUED"
  obtains running where "run_actions [transition env 2 i OP_RUNNING m,
      set_operation i (\<lambda>o'. o'\<lparr>oper_started_at := Some (oe_now env)\<rparr>)] db = (Inr (), running)"
    and "status_of running i = Some OP_RUNNING"
proof (rule that)
  let ?run = "run_actions [transition env 2 i OP_RUNNING m,
      set_operation i (\<lambda>o'. o'\<lparr>oper_started_at := Some (oe_now env)\<rparr>)] db"
  show "?run = (Inr (), snd ?run)" using assms by (intro prod_eqI) simp_all
  show "status_of (snd ?run) i = Some OP_RUNNING" using assms by simp
qed

lemma final_activate_ends:
  assumes "status_of db i = Some OP_QUEUED" and "oper_id operation = i"
  shows "\<exists>calls db'. execute_portal3e_final_activate env worker operation requester approver actor db = (Inr (), calls, db') \<and>
    length calls \<le> 2 \<and> settled db' i"
proof -
  let ?request = "activate_request operation requester approver"
  obtain running where start: "run_actions [transition env 2 i OP_RUNNING ''Controlled Worker Activate started'',
      set_operation i (\<lambda>o'. o'\<lparr>oper_started_at := Some (oe_now env)\<rparr>)] db = (Inr (), running)"
    and status: "status_of running i = Some OP_RUNNING"
    using started [OF assms(1)] .
  note compensated = compensate_settles [OF status]
  show ?thesis
  proof (cases "worker ?request")
    case (Inl reason)
    then show ?thesis using start compensated assms(2)
      by (simp add: execute_portal3e_final_activate_def Let_def worker_unavailable_def split: prod.splits)
        (metis fst_conv snd_conv)
  next
    case (Inr answer)
    consider "\<not> has_eq answer ''status'' (PStr ''SUCCEEDED'')"
      | db' where "has_eq answer ''status'' (PStr ''SUCCEEDED'')"
          "activate_succeeded env requester operation actor answer running = (Inr (), db')"
      | e db' where "has_eq answer ''status'' (PStr ''SUCCEEDED'')"
          "activate_succeeded env requester operation actor answer running = (Inl e, db')"
      by (cases "activate_succeeded env requester operation actor answer running";
          cases "fst (activate_succeeded env requester operation actor answer running)") auto
    then show ?thesis
    proof cases
      case 1
      then show ?thesis using start Inr outcomes_settle(1,2) [OF status] assms(2)
        by (simp add: execute_portal3e_final_activate_def Let_def split: prod.splits) (metis fst_conv snd_conv)
    next
      case 2
      then show ?thesis
        using start Inr assms(2) activate_succeeded_ends [OF status assms(2), of env requester actor answer]
        by (simp add: execute_portal3e_final_activate_def Let_def)
    next
      case 3
      then show ?thesis using start Inr compensated assms(2)
        by (simp add: execute_portal3e_final_activate_def Let_def activate_unpersisted_def split: prod.splits)
          (metis fst_conv snd_conv)
    qed
  qed
qed

lemma final_refused_ends:
  assumes "status_of db i = Some OP_QUEUED"
  shows "fst (final_activate_refused env i db) = Inr ()" and "settled (snd (final_activate_refused env i db)) i"
  using assms by (simp_all add: final_activate_refused_def settled_def)

lemma controlled_ends:
  assumes "status_of db i = Some OP_QUEUED" and "oper_id operation = i" and "well_formed_answers worker"
  shows "\<exists>calls db'. execute_controlled env worker real operation requester approver actor db = (Inr (), calls, db') \<and>
    length calls \<le> 2 \<and> settled db' i"
proof -
  let ?request = "execution_request real operation requester approver actor"
  let ?m = "if real then ''Controlled Worker Stage started'' else ''Worker dry-run started''"
  obtain running where start: "run_actions [transition env 2 i OP_RUNNING ?m,
      set_operation i (\<lambda>o'. o'\<lparr>oper_started_at := Some (oe_now env)\<rparr>)] db = (Inr (), running)"
    and status: "status_of running i = Some OP_RUNNING"
    using started [OF assms(1)] .
  have outcome: "fst (execution_outcome env real operation requester actor (worker ?request) running) = Inr () \<and>
      settled (snd (execution_outcome env real operation requester actor (worker ?request) running)) i"
    by (rule execution_outcome_ends [OF status assms(2)]) (use assms(3) in \<open>auto simp: well_formed_answers_def\<close>)
  then obtain db2 where "execution_outcome env real operation requester actor (worker ?request) running = (Inr (), db2)"
    "settled db2 i" by (metis prod.collapse)
  then show ?thesis using start assms(2)
    by (simp add: execute_controlled_def Let_def settled_finish)
qed

lemma execute_twice: "settled db i \<Longrightarrow> execute_operation env worker quote i actor db = (Inr (), [], db)"
  by (auto simp: execute_operation_def settled_def status_of_def split: option.splits)

text \<open>
  C22. A queued operation is executed to an end: with a worker that answers by its protocol the
  execution returns without an exception, whatever the worker says, the operation is SUCCEEDED, FAILED
  or ROLLED_BACK afterwards and never left RUNNING, at most one request and its compensation are
  sent, and executing it again sends nothing and changes nothing.
\<close>

theorem execution_settles:
  assumes "get_operation db i = Some operation" and "oper_status operation = OP_QUEUED"
    and "well_formed_answers worker"
  shows "\<exists>calls db'. execute_operation env worker quote i actor db = (Inr (), calls, db') \<and>
    length calls \<le> 2 \<and> settled db' i \<and>
    execute_operation env' worker' quote i actor' db' = (Inr (), [], db')"
proof -
  let ?requester = "get_user db (oper_requested_by operation)"
  let ?approver = "case oper_approved_by operation of None \<Rightarrow> None | Some a \<Rightarrow> get_user db a"
  let ?final = "is_portal3e_final_real_activate (oe_pydantic env) quote db operation ?requester ?approver"
  have status: "status_of db i = Some OP_QUEUED" using assms by (simp add: status_of_def)
  have i: "oper_id operation = i" using assms(1) operation_store.lookup_pk by blast
  have "\<exists>calls db'. execute_operation env worker quote i actor db = (Inr (), calls, db') \<and>
      length calls \<le> 2 \<and> settled db' i"
  proof (cases "?final \<and> ?requester \<noteq> None \<and> ?approver \<noteq> None")
    case True
    then obtain a b where "?requester = Some a" "?approver = Some b" by blast
    then show ?thesis using True assms final_activate_ends [OF status i, of env worker a b actor]
      by (simp add: execute_operation_def Let_def)
  next
    case False
    then have skip: "(case (?final, ?requester, ?approver) of
        (True, Some r, Some a) \<Rightarrow> execute_portal3e_final_activate env worker operation r a actor db
      | _ \<Rightarrow> z) = z" for z
      by (auto split: option.splits bool.splits)
    have run: "execute_operation env worker quote i actor db =
        (if oper_operation_type operation = ''user.activate'' \<and>
            oper_idempotency_key operation = PORTAL3E_FINAL_IDEMPOTENCY_KEY
         then (case final_activate_refused env i db of
            (Inl e, _) \<Rightarrow> (Inl e, [], db) | (Inr _, db') \<Rightarrow> (Inr (), [], db'))
         else execute_controlled env worker (is_portal3c_real_stage (oe_pydantic env) operation ?requester ?approver)
            operation ?requester ?approver actor db)"
      using assms skip by (simp add: execute_operation_def Let_def)
    show ?thesis unfolding run
      using final_refused_ends [OF status, of env] controlled_ends [OF status i assms(3)]
      by (cases "final_activate_refused env i db") simp
  qed
  then show ?thesis using execute_twice by blast
qed

subsection \<open>Idempotent creation\<close>

definition row_key :: "portal_operation \<Rightarrow> uuid \<times> uuid \<times> string" where
  "row_key o1 = (oper_id o1, oper_requested_by o1, oper_idempotency_key o1)"

interpretation row_keys: effect_relation "\<lambda>db db'. map row_key (t_operations db') = map row_key (t_operations db)"
  by unfold_locales auto

lemma earlier_by_key:
  "map_option oper_id (scalar (\<lambda>o1. oper_requested_by o1 = u \<and> oper_idempotency_key o1 = k) operations) =
     map_option fst (scalar (\<lambda>(i, a, b). a = u \<and> b = k) (map row_key operations))"
  by (induction operations) (auto simp: row_key_def)

lemma row_keys_of_same: "same_operations db db' \<Longrightarrow> map row_key (t_operations db') = map row_key (t_operations db)"
  by (simp add: same_operations_def)

lemma row_keys_set:
  assumes "\<And>o1. oper_id (f o1) = oper_id o1 \<and> op_core (f o1) = op_core o1"
  shows "map row_key (t_operations (snd (set_operation i f db))) = map row_key (t_operations db)"
proof -
  have "row_key (f o1) = row_key o1" for o1 using assms [of o1] by (simp add: row_key_def op_core_def)
  then show ?thesis by (simp add: set_operation_def effect_def modify_operation_def map_update_where)
qed

lemma row_keys_plan:
  "map row_key (t_operations (snd (plan_draft env req context body records i answer db))) =
     map row_key (t_operations db)"
proof (cases "plan_effect context body records answer db")
  case (Inr eff)
  obtain f plan where eff: "eff = (f, plan)" by (cases eff)
  have audit: "same_operations db (snd (plan_audit env req context kind i plan db))" for db kind plan
    by (auto simp: plan_audit_def effect_def same_route_audit split: option.split)
  have "map row_key (t_operations (snd (run_actions [set_operation i f,
      plan_audit env req context (ocr_operation_type body) i plan] db))) = map row_key (t_operations db)"
    using plan_effect_fields [OF Inr [unfolded eff]] audit
    by (intro row_keys.run_actions_rel) (auto simp: row_keys_set row_keys_of_same)
  with Inr eff show ?thesis by (simp add: plan_draft_def del: run_actions_results)
qed (simp add: plan_draft_def)

lemma created_row_keys:
  assumes "run_actions (draft_actions env worker req body context checked) db = (r, db')" and "r = Inr u"
  shows "map row_key (t_operations db') = map row_key (t_operations db) @
    [(oe_ids env 0, user_id (ctx_user context), ocr_idempotency_key body)]"
proof -
  have key: "row_key (draft_operation env body context checked) =
      (oe_ids env 0, user_id (ctx_user context), ocr_idempotency_key body)"
    by (simp add: row_key_def draft_operation_def split: prod.split)
  have id: "oper_id (draft_operation env body context checked) = oe_ids env 0"
    by (simp add: draft_operation_def split: prod.split)
  have "map row_key (t_operations db') = map row_key (t_operations (add_operation (draft_operation env body context checked) db))"
    using assms by (auto simp: draft_actions_def Let_def effect_def id row_keys_plan
        row_keys_of_same [OF same_route_audit] dest!: arg_cong [of _ _ snd] split: sum.splits if_splits)
  then show ?thesis by (simp add: key)
qed

text \<open>
  Creating is idempotent in the requester's key: after a creation that was answered with an
  operation, a second creation by the same user with the same key calls no worker and changes nothing,
  and it answers with that operation unless it is refused; neither its operation type nor its payload
  are compared with those of the first.
\<close>

theorem create_operation_idempotent:
  assumes "create_operation env settings worker req body context db = (Inr i, calls, db')"
    and "user_id (ctx_user context') = user_id (ctx_user context)"
    and "ocr_idempotency_key body' = ocr_idempotency_key body"
  shows "\<exists>r. create_operation env' settings' worker' req' body' context' db' = (r, [], db') \<and>
    (r = Inr i \<or> (\<exists>e. r = Inl e))"
proof -
  let ?find = "\<lambda>db. map_option oper_id (scalar (\<lambda>o1. oper_requested_by o1 = user_id (ctx_user context) \<and>
      oper_idempotency_key o1 = ocr_idempotency_key body) (t_operations db))"
  have found: "?find db' = Some i"
  proof (cases "?find db")
    case (Some j)
    then show ?thesis using assms(1) by (auto simp: create_operation_def split: sum.splits)
  next
    case None
    with assms(1) obtain checked u where run: "run_actions (draft_actions env worker req body context checked) db = (Inr u, db')"
      and i: "i = oe_ids env 0"
      by (auto simp: create_operation_def Let_def split: sum.splits prod.splits)
    have none: "scalar (\<lambda>(j, a, b). a = user_id (ctx_user context) \<and> b = ocr_idempotency_key body)
        (map row_key (t_operations db)) = None"
      using None unfolding earlier_by_key by simp
    show ?thesis unfolding earlier_by_key created_row_keys [OF run refl] scalar_append none i by simp
  qed
  then obtain o1 where "scalar (\<lambda>o1. oper_requested_by o1 = user_id (ctx_user context') \<and>
      oper_idempotency_key o1 = ocr_idempotency_key body') (t_operations db') = Some o1" "oper_id o1 = i"
    using assms(2,3) by auto
  then show ?thesis by (simp add: create_operation_def split: sum.split)
qed

end
