(* ===== verification/Compute_Runs.thy ===== *)
theory Compute_Runs
  imports Compute_Retry Operation_Runs
begin

section \<open>Runs of the compute request routes\<close>

text \<open>
  What holds however the routes of \<open>routes/compute_requests.py\<close>, the answers of running Stages and the
  background reconciliation interleave. Every effect either keeps a request or moves it lawfully:
  \<open>lawful\<close> says so of the rows in a session, \<open>follows\<close> of a database that was committed, whose keys
  are unique.
\<close>

subsection \<open>Lawful changes\<close>

definition rightly_approved :: "portal_compute_resource_request \<Rightarrow> bool" where
  "rightly_approved r \<longleftrightarrow> crr_approved_at r \<noteq> None \<and>
     (\<exists>u. crr_reviewed_by r = Some u \<and> u \<noteq> crr_portal_account_id r)"

definition closed :: "portal_compute_resource_request \<Rightarrow> bool" where
  "closed r \<longleftrightarrow> crr_status r \<in> set [''REJECTED'', ''CANCELLED'']"

definition undecided :: "portal_compute_resource_request \<Rightarrow> bool" where
  "undecided r \<longleftrightarrow> crr_status r \<in> set [''DRAFT'', ''REQUESTED'', ''UNDER_REVIEW'']"

definition review_ok :: "portal_compute_resource_request \<Rightarrow> bool" where
  "review_ok r \<longleftrightarrow>
     (if undecided r \<or> closed r
      then crr_approved_at r = None \<and> crr_provision_plan_id r = None \<and>
        (crr_status r = ''REJECTED'' \<longrightarrow> crr_reviewed_by r \<notin> {None, Some (crr_portal_account_id r)})
      else rightly_approved r)"

definition orchestrates :: "portal_operation \<Rightarrow> bool" where
  "orchestrates o1 \<longleftrightarrow> oper_operation_type o1 \<in> set [''compute.provision'', ''compute.provision.retry'']"

definition sound_tables :: "portal_compute_resource_request list \<Rightarrow> portal_operation list \<Rightarrow> bool" where
  "sound_tables reqs ops \<longleftrightarrow> (\<forall>r \<in> set reqs. review_ok r) \<and>
     (\<forall>o1 \<in> set ops. orchestrates o1 \<longrightarrow> (\<exists>r \<in> set reqs. crr_id r = oper_target_id o1 \<and> rightly_approved r))"

definition keyed :: "portal_db \<Rightarrow> bool" where
  "keyed db \<longleftrightarrow> distinct (map crr_id (t_resource_requests db)) \<and> distinct (map oper_id (t_operations db))"

definition request_moves :: "portal_compute_resource_request \<Rightarrow> portal_compute_resource_request \<Rightarrow> bool" where
  "request_moves r r' \<longleftrightarrow> crr_portal_account_id r' = crr_portal_account_id r \<and>
     crr_username r' = crr_username r \<and> request_terms r' = request_terms r \<and> (closed r \<longrightarrow> r' = r) \<and>
     (rightly_approved r \<longrightarrow> rightly_approved r' \<and> crr_approved_at r' = crr_approved_at r \<and> crr_reviewed_by r' = crr_reviewed_by r)"

definition requests_move :: "portal_compute_resource_request list \<Rightarrow> portal_compute_resource_request list \<Rightarrow> bool" where
  "requests_move reqs reqs' \<longleftrightarrow>
     (\<forall>r \<in> set reqs. \<exists>r' \<in> set reqs'. crr_id r' = crr_id r \<and> request_moves r r')"

definition operation_key :: "portal_operation \<Rightarrow> uuid \<times> string \<times> string \<times> string \<times> uuid \<times> string" where
  "operation_key o1 = (oper_id o1, oper_operation_type o1, oper_target_type o1, oper_target_id o1,
     oper_requested_by o1, oper_idempotency_key o1)"

definition grows :: "('a \<Rightarrow> 'k) \<Rightarrow> 'a list \<Rightarrow> 'a list \<Rightarrow> bool" where
  "grows key xs ys \<longleftrightarrow> (\<exists>zs. map key ys = map key xs @ zs)"

definition lawful_tables :: "portal_compute_resource_request list \<Rightarrow> portal_operation list \<Rightarrow>
    portal_compute_resource_request list \<Rightarrow> portal_operation list \<Rightarrow> bool" where
  "lawful_tables reqs ops reqs' ops' \<longleftrightarrow>
     sound_tables reqs' ops' \<and> requests_move reqs reqs' \<and> grows operation_key ops ops'"

definition lawful :: "portal_db \<Rightarrow> portal_db \<Rightarrow> bool" where
  "lawful db db' \<longleftrightarrow> (sound_tables (t_resource_requests db) (t_operations db) \<longrightarrow>
     lawful_tables (t_resource_requests db) (t_operations db) (t_resource_requests db') (t_operations db'))"

definition sound :: "portal_db \<Rightarrow> bool" where
  "sound db \<longleftrightarrow> keyed db \<and> sound_tables (t_resource_requests db) (t_operations db)"

definition follows :: "portal_db \<Rightarrow> portal_db \<Rightarrow> bool" where
  "follows db db' \<longleftrightarrow> (sound db \<longrightarrow> keyed db' \<and> lawful db db')"

lemma request_moves_refl [simp]: "request_moves r r"
  by (simp add: request_moves_def)

lemma request_moves_trans: "request_moves r1 r2 \<Longrightarrow> request_moves r2 r3 \<Longrightarrow> request_moves r1 r3"
  by (auto simp: request_moves_def)

lemma requests_move_trans: "requests_move xs ys \<Longrightarrow> requests_move ys zs \<Longrightarrow> requests_move xs zs"
  unfolding requests_move_def by (metis request_moves_trans)

lemma requests_move_refl [simp]: "requests_move xs xs"
  unfolding requests_move_def by auto

lemma grows_refl [simp]: "grows key xs xs"
  by (simp add: grows_def)

lemma grows_trans: "grows key xs ys \<Longrightarrow> grows key ys zs \<Longrightarrow> grows key xs zs"
  unfolding grows_def by (metis append.assoc)

lemma lawful_refl [simp]: "lawful db db"
  by (simp add: lawful_def lawful_tables_def)

lemma lawful_trans: "lawful db1 db2 \<Longrightarrow> lawful db2 db3 \<Longrightarrow> lawful db1 db3"
  unfolding lawful_def lawful_tables_def using requests_move_trans grows_trans by blast

interpretation lawfully: effect_relation lawful
  by unfold_locales (rule lawful_refl, erule (1) lawful_trans)

lemma follows_refl [simp]: "follows db db"
  by (simp add: follows_def sound_def)

lemma follows_sound: "follows db db' \<Longrightarrow> sound db \<Longrightarrow> sound db'"
  by (auto simp: follows_def sound_def lawful_def lawful_tables_def)

lemma follows_trans: "follows db1 db2 \<Longrightarrow> follows db2 db3 \<Longrightarrow> follows db1 db3"
  using follows_sound lawful_trans unfolding follows_def by blast

interpretation followed: effect_relation follows
  by unfold_locales (rule follows_refl, erule (1) follows_trans)

lemma follows_run_steps:
  "(\<And>a db. a \<in> set actions \<Longrightarrow> follows db (snd (snd (a db)))) \<Longrightarrow> follows db (snd (snd (run_steps actions db)))"
proof (induction actions arbitrary: db)
  case (Cons a actions)
  obtain r calls db' where a: "a db = (r, calls, db')" by (cases "a db") auto
  have first: "follows db db'" using Cons.prems [of a db] a by simp
  have "follows db' (snd (snd (run_steps actions db')))" using Cons.IH Cons.prems by simp
  with first have "follows db (snd (snd (run_steps actions db')))" by (rule follows_trans)
  with first show ?case by (cases r) (auto simp: a split: prod.splits)
qed simp

subsection \<open>What leaves requests and operations alone\<close>

lemma lawful_cong:
  "t_resource_requests db2 = t_resource_requests db1 \<Longrightarrow> t_operations db2 = t_operations db1 \<Longrightarrow>
   lawful db db2 = lawful db db1"
  by (simp add: lawful_def)

lemma keyed_cong:
  "t_resource_requests db2 = t_resource_requests db1 \<Longrightarrow> t_operations db2 = t_operations db1 \<Longrightarrow>
   keyed db2 = keyed db1"
  by (simp add: keyed_def)

lemma update_rows_tables [simp]:
  "t_resource_requests (update_rows f rows db) = t_resource_requests db"
  "t_operations (update_rows f rows db) = t_operations db"
  "t_provision_plans (update_rows f rows db) = t_provision_plans db"
  "t_users (update_rows f rows db) = t_users db" "t_managed_users (update_rows f rows db) = t_managed_users db"
  unfolding update_rows_def by (induction rows arbitrary: db) (simp_all add: modify_reservation_def)

lemma audited_tables:
  "t_resource_requests (record_audit h n t call db) = t_resource_requests db"
  "t_operations (record_audit h n t call db) = t_operations db"
  by (simp_all add: record_audit_def add_audit_event_def)

lemma operation_event_tables:
  "t_resource_requests (operation_event n t i f s m db) = t_resource_requests db"
  "t_operations (operation_event n t i f s m db) = t_operations db"
  by (simp_all add: operation_event_def add_operation_event_def)

lemma compute_audit_tables:
  "t_resource_requests (compute_audit c n e ot oi out m op db) = t_resource_requests db"
  "t_operations (compute_audit c n e ot oi out m op db) = t_operations db"
  by (simp_all add: compute_audit_def audited_tables operation_event_tables split: option.split)

lemma add_reservations_tables [simp]:
  "t_resource_requests (fold add_reservation rows db) = t_resource_requests db"
  "t_operations (fold add_reservation rows db) = t_operations db"
  by (induction rows arbitrary: db) (simp_all add: add_reservation_def)

lemma lawful_simps [simp]:
  "lawful db (record_audit h n t call db') = lawful db db'"
  "lawful db (operation_event n t i f s m db') = lawful db db'"
  "lawful db (compute_audit c k e ot oi out md op db') = lawful db db'"
  "lawful db (modify_plan i pf db') = lawful db db'"
  "lawful db (modify_reservation i rf db') = lawful db db'"
  "lawful db (update_rows rf rows db') = lawful db db'"
  "lawful db (fold add_reservation rows db') = lawful db db'"
  "lawful db (add_plan p db') = lawful db db'"
  "lawful db (modify_user i uf db') = lawful db db'"
  "lawful db (add_managed mu db') = lawful db db'"
  "lawful db (add_container co db') = lawful db db'"
  "lawful db (add_storage st db') = lawful db db'"
  "lawful db (own_sessions u1 u2 db') = lawful db db'"
  by (rule lawful_cong; simp add: audited_tables operation_event_tables compute_audit_tables
    modify_plan_def modify_reservation_def add_plan_def modify_user_def add_managed_def add_container_def
    add_storage_def own_sessions_def)+

subsection \<open>Lawful effects\<close>

lemma requests_move_update:
  assumes "\<And>r. r \<in> set reqs \<Longrightarrow> crr_id r = i \<Longrightarrow> crr_id (f r) = crr_id r \<and> request_moves r (f r)"
  shows "requests_move reqs (update_where (\<lambda>r. crr_id r = i) f reqs)"
  unfolding requests_move_def set_update_where
proof
  fix r assume r: "r \<in> set reqs"
  show "\<exists>r' \<in> (\<lambda>r. if crr_id r = i then f r else r) ` set reqs. crr_id r' = crr_id r \<and> request_moves r r'"
    using assms [OF r] r by (intro bexI [of _ "if crr_id r = i then f r else r"]) auto
qed

lemma sound_tables_move:
  assumes "sound_tables reqs ops" and "requests_move reqs reqs'" and "\<And>r. r \<in> set reqs' \<Longrightarrow> review_ok r"
  shows "sound_tables reqs' ops"
  using assms unfolding sound_tables_def requests_move_def request_moves_def by metis

text \<open>A write to the rows of a request that keeps the review sound and moves it lawfully.\<close>

lemma lawful_modify_request:
  assumes db': "lawful db db'"
    and move: "\<And>r. r \<in> set (t_resource_requests db') \<Longrightarrow> crr_id r = i \<Longrightarrow> review_ok r \<Longrightarrow>
      crr_id (f r) = crr_id r \<and> request_moves r (f r) \<and> review_ok (f r)"
  shows "lawful db (modify_request i f db')"
proof -
  have "lawful db' (modify_request i f db')"
  proof (unfold lawful_def lawful_tables_def, intro impI conjI)
    assume sound: "sound_tables (t_resource_requests db') (t_operations db')"
    then have ok: "\<And>r. r \<in> set (t_resource_requests db') \<Longrightarrow> review_ok r" by (simp add: sound_tables_def)
    show moves: "requests_move (t_resource_requests db') (t_resource_requests (modify_request i f db'))"
      unfolding modify_request_def using requests_move_update [of "t_resource_requests db'" i f] move ok by simp
    show "grows operation_key (t_operations db') (t_operations (modify_request i f db'))"
      by (simp add: modify_request_def)
    have "\<And>r. r \<in> set (t_resource_requests (modify_request i f db')) \<Longrightarrow> review_ok r"
      using move ok by (auto simp: modify_request_def set_update_where split: if_splits)
    with sound moves have "sound_tables (t_resource_requests (modify_request i f db')) (t_operations db')"
      by (rule sound_tables_move)
    then show "sound_tables (t_resource_requests (modify_request i f db')) (t_operations (modify_request i f db'))"
      by (simp add: modify_request_def)
  qed
  with db' show ?thesis by (rule lawful_trans)
qed

lemma lawful_add_request:
  assumes "lawful db db'" and "review_ok r"
  shows "lawful db (add_request r db')"
proof -
  have "lawful db' (add_request r db')"
    using assms(2) unfolding lawful_def lawful_tables_def
    by (auto simp: add_request_def sound_tables_def requests_move_def)
  with assms(1) show ?thesis by (rule lawful_trans)
qed

lemma lawful_modify_operation:
  assumes "lawful db db'" and key: "\<And>o1. operation_key (f o1) = operation_key o1"
  shows "lawful db (modify_operation i f db')"
proof -
  have types: "oper_operation_type (f o1) = oper_operation_type o1" "oper_target_id (f o1) = oper_target_id o1" for o1
    using key [of o1] by (simp_all add: operation_key_def)
  have "lawful db' (modify_operation i f db')"
    unfolding lawful_def lawful_tables_def
    by (auto simp: modify_operation_def sound_tables_def grows_def orchestrates_def types map_update_where key
      set_update_where split: if_splits)
  with assms(1) show ?thesis by (rule lawful_trans)
qed

lemma lawful_add_operation:
  assumes "lawful db db'"
    and "orchestrates o1 \<Longrightarrow> \<exists>r \<in> set (t_resource_requests db'). crr_id r = oper_target_id o1 \<and> rightly_approved r"
  shows "lawful db (add_operation o1 db')"
proof -
  have "lawful db' (add_operation o1 db')"
    using assms(2) unfolding lawful_def lawful_tables_def
    by (auto simp: add_operation_def sound_tables_def grows_def)
  with assms(1) show ?thesis by (rule lawful_trans)
qed

lemma lawful_add_compute_operation:
  "lawful db db' \<Longrightarrow> \<not> orchestrates o1 \<Longrightarrow> lawful db (add_compute_operation c o1 db')"
  by (auto simp: add_compute_operation_def intro: lawful_add_operation)

lemma constrained_keyed: "provision_constraints db \<Longrightarrow> keyed db"
  by (simp add: provision_constraints_def requests_constrained_def operations_constrained_def keyed_def)

lemma follows_commit:
  assumes "sound before \<Longrightarrow> lawful before after"
  shows "follows before (snd (commit e a before after))"
  using assms constrained_keyed by (auto simp: commit_def follows_def sound_def)

subsection \<open>Requests and the operations about them\<close>

lemma unique_request:
  assumes "keyed db" and "get_request db i = Some item" and "r \<in> set (t_resource_requests db)" and "crr_id r = i"
  shows "r = item"
  using assms by (auto simp: keyed_def get_request_def distinct_map dest!: scalar_SomeD dest: inj_onD)

lemma found_request:
  "get_request db i = Some item \<Longrightarrow> item \<in> set (t_resource_requests db) \<and> crr_id item = i"
  by (auto simp: get_request_def dest: scalar_SomeD)

lemma sound_request: "sound db \<Longrightarrow> item \<in> set (t_resource_requests db) \<Longrightarrow> review_ok item"
  by (simp add: sound_def sound_tables_def)

lemma admin_request_found: "admin_request db i = Inr item \<longleftrightarrow> get_request db i = Some item"
  by (auto simp: admin_request_def split: option.splits)

lemma get_request_member:
  assumes "keyed db" and "item \<in> set (t_resource_requests db)"
  shows "get_request db (crr_id item) = Some item"
proof (cases "get_request db (crr_id item)")
  case None
  with assms(2) show ?thesis by (auto simp: get_request_def scalar_None_iff)
next
  case (Some r)
  from unique_request [OF assms(1) this assms(2)] have "item = r" by simp
  with Some show ?thesis by simp
qed

lemma owned_request_found:
  assumes "keyed db" and "owned_request db i u = Inr item"
  shows "get_request db (crr_id item) = Some item" "crr_portal_account_id item = u"
proof -
  have "item \<in> set (t_resource_requests db) \<and> crr_portal_account_id item = u"
    using assms(2) by (auto simp: owned_request_def split: option.splits dest!: scalar_SomeD)
  then show "get_request db (crr_id item) = Some item" "crr_portal_account_id item = u"
    using get_request_member [OF assms(1)] by blast+
qed

lemma administered_request_found:
  assumes "administered_request c i db = Inr item"
  shows "get_request db (crr_id item) = Some item" and "crr_portal_account_id item \<noteq> user_id (cc_user c)"
    and "uuid_of i = Some (crr_id item)"
  using assms
  by (auto simp: administered_request_def request_id_of_def admin_request_found deny_self_administration_def
    split: sum.splits option.splits if_splits dest: found_request)

text \<open>The write of one request of a sound database.\<close>

lemma lawful_one_request:
  assumes "sound db" and "get_request db i = Some item"
    and "lawful db db'" and "t_resource_requests db' = t_resource_requests db"
    and "crr_id (f item) = crr_id item" "request_moves item (f item)" "review_ok (f item)"
  shows "lawful db (modify_request i f db')"
proof (rule lawful_modify_request [OF assms(3)])
  fix r assume r: "r \<in> set (t_resource_requests db')" "crr_id r = i"
  have "keyed db" using assms(1) by (simp add: sound_def)
  from unique_request [OF this assms(2)] r have "r = item" by (simp add: assms(4))
  then show "crr_id (f r) = crr_id r \<and> request_moves r (f r) \<and> review_ok (f r)"
    using assms(5-7) by simp
qed

lemma compute_operation_plain [simp]:
  "oper_operation_type (compute_operation c ot i k s p out rk) = ot"
  by (simp add: compute_operation_def)

lemma lawful_entry:
  assumes "lawful db db'" and "ot \<notin> {''compute.provision'', ''compute.provision.retry''}"
  shows "lawful db (add_compute_operation c (compute_operation c ot i k s p out rk) db')"
  using assms by (intro lawful_add_compute_operation) (auto simp: orchestrates_def)

subsection \<open>Submission and review\<close>

lemma follows_submit: "follows db (snd (submit_request c body db))"
proof (cases "get_user db (user_id (cc_user c))")
  case None
  then show ?thesis by (simp add: submit_request_def)
next
  case (Some account)
  show ?thesis
  proof (cases "submission_refusal db account")
    case None
    have "review_ok (new_request c body account)"
      by (simp add: review_ok_def new_request_def undecided_def)
    then have "lawful db (add_request (new_request c body account) db)" by (rule lawful_add_request [OF lawful_refl])
    then show ?thesis unfolding submit_request_def Let_def
      by (simp add: Some None follows_commit lawful_entry)
  qed (simp add: submit_request_def Some)
qed

lemma follows_create: "follows db (snd (snd (create_self_compute_request c body st db)))"
  using follows_submit [of db c body]
  by (auto simp: create_self_compute_request_def split: sum.split prod.split bool.split)

lemma follows_cancel: "follows db (snd (cancel_self_compute_request c i key db))"
proof -
  have step: "lawful db (modify_request (crr_id item) (\<lambda>r. r\<lparr>crr_status := ''CANCELLED'', crr_active_slot := None,
      crr_cancelled_at := Some (cc_now c), crr_updated_at := cc_now c\<rparr>) db)"
    if "sound db" "owned_request db j u = Inr item" "crr_status item = ''REQUESTED''" for item j u
  proof -
    have found: "get_request db (crr_id item) = Some item"
      using owned_request_found(1) that(1,2) by (simp add: sound_def)
    have "review_ok item" using that(1) found by (auto dest: found_request intro: sound_request)
    then show ?thesis using that found
      by (intro lawful_one_request) (auto simp: review_ok_def undecided_def closed_def request_moves_def
        request_terms_def rightly_approved_def)
  qed
  show ?thesis unfolding cancel_self_compute_request_def Let_def
    by (auto split: sum.split intro!: follows_commit lawful_entry step)
qed

lemma follows_review: "follows db (snd (review_compute_request c i body db))"
proof -
  have step: "lawful db (modify_request (crr_id item) (reviewed c body) db)"
    if "sound db" "administered_request c i db = Inr item" "crr_status item \<in> set [''REQUESTED'', ''UNDER_REVIEW'']"
    for item
  proof -
    note found = administered_request_found [OF that(2)]
    have "review_ok item" using that(1) found(1) by (auto dest: found_request intro: sound_request)
    then show ?thesis using that found
      by (intro lawful_one_request) (auto simp: review_ok_def undecided_def closed_def request_moves_def
        request_terms_def rightly_approved_def reviewed_def Let_def)
  qed
  show ?thesis unfolding review_compute_request_def Let_def
    by (auto split: sum.split intro!: follows_commit lawful_entry step)
qed

subsection \<open>Planning\<close>

lemma follows_cong:
  "t_resource_requests db2 = t_resource_requests db1 \<Longrightarrow> t_operations db2 = t_operations db1 \<Longrightarrow>
   follows db db2 = follows db db1"
  by (simp add: follows_def lawful_cong [of db2 db1] keyed_cong [of db2 db1])

lemma follows_simps [simp]:
  "follows db (modify_plan i pf db') = follows db db'" "follows db (modify_reservation j rf db') = follows db db'"
  by (rule follows_cong; simp add: modify_plan_def modify_reservation_def)+

lemma follows_one_request:
  assumes "get_request db i = Some item" and "\<And>r. crr_id (f r) = crr_id r"
    and "sound db \<Longrightarrow> request_moves item (f item) \<and> review_ok (f item)"
  shows "follows db (modify_request i f db)"
  unfolding follows_def
proof (intro impI conjI)
  assume sound: "sound db"
  then show "keyed (modify_request i f db)"
    by (simp add: sound_def keyed_def modify_request_def map_update_where assms(2))
  show "lawful db (modify_request i f db)"
    using assms sound by (intro lawful_one_request [OF sound assms(1)]) auto
qed

lemma follows_expire_one: "follows db (expire_one now r db)"
proof (cases "get_plan (modify_reservation (resv_id r) (\<lambda>r. r\<lparr>resv_state := ''RELEASED'', resv_active_key := None,
    resv_released_at := Some now\<rparr>) db) (resv_plan_id r)")
  case (Some plan)
  let ?db2 = "modify_plan (plan_id plan) (\<lambda>p. p\<lparr>plan_state := ''EXPIRED''\<rparr>)
    (modify_reservation (resv_id r) (\<lambda>r. r\<lparr>resv_state := ''RELEASED'', resv_active_key := None,
      resv_released_at := Some now\<rparr>) db)"
  have base: "follows db ?db2" by simp
  have "follows ?db2 (modify_request (crr_id item) (\<lambda>r. r\<lparr>crr_status := ''APPROVED''\<rparr>) ?db2)"
    if "get_request ?db2 i = Some item" "crr_status item = ''PROVISION_PLAN_READY''" for i item
  proof (rule follows_one_request [of _ _ item])
    show "get_request ?db2 (crr_id item) = Some item" using that(1) found_request by blast
  next
    assume "sound ?db2"
    then have "review_ok item" using that(1) by (auto dest: found_request intro: sound_request)
    then show "request_moves item (item\<lparr>crr_status := ''APPROVED''\<rparr>) \<and>
        review_ok (item\<lparr>crr_status := ''APPROVED''\<rparr>)"
      using that(2) by (auto simp: review_ok_def undecided_def closed_def request_moves_def request_terms_def
        rightly_approved_def)
  qed simp
  from follows_trans [OF base this] show ?thesis
    unfolding expire_one_def Let_def by (auto simp: Some split: option.split)
qed (simp add: expire_one_def)

lemma follows_expire: "follows db (expire_reservations now db)"
proof -
  have "follows db (fold (expire_one now) rows db)" for rows
    by (induction rows arbitrary: db) (auto intro: follows_trans follows_expire_one)
  then show ?thesis by (simp add: expire_reservations_def)
qed

lemma note_parent_lawful:
  assumes "note_parent c facts seen db = (Inr u, db')"
  shows "lawful db db'" "t_resource_requests db' = t_resource_requests db"
  using assms by (auto simp: note_parent_def modify_operation_def split: option.splits if_splits
    intro!: lawful_modify_operation [unfolded modify_operation_def] simp: operation_key_def)

lemma granted_moves:
  assumes "review_ok r" and "crr_status r \<notin> set [''DRAFT'', ''REQUESTED'', ''UNDER_REVIEW'', ''REJECTED'', ''CANCELLED'']"
    and "f r = r\<lparr>crr_status := st, crr_active_slot := slot, crr_provision_plan_id := pid, crr_managed_user_id := m,
      crr_updated_at := t\<rparr>"
    and "st \<notin> set [''DRAFT'', ''REQUESTED'', ''UNDER_REVIEW'', ''REJECTED'', ''CANCELLED'']"
  shows "request_moves r (f r) \<and> review_ok (f r)"
  using assms by (auto simp: review_ok_def undecided_def closed_def request_moves_def request_terms_def rightly_approved_def)

lemma source_status:
  "find_attempt_source c db item = Inr source \<Longrightarrow> crr_status item \<in> set [''RETRY_AUTHORIZED'', ''APPROVED'']"
  by (auto simp: find_attempt_source_def split: if_splits)

lemma follows_write_plan:
  assumes base: "follows before db1" and found: "get_request db1 (crr_id item) = Some item"
    and status: "crr_status item \<in> set [''RETRY_AUTHORIZED'', ''APPROVED'']"
  shows "follows before (snd (write_plan c item source plan key before db1))"
proof (cases "note_parent c (plan_facts plan db1) db1 (fold add_reservation (new_reservations c plan) (add_plan plan db1))")
  case (Pair r db2)
  show ?thesis
  proof (cases r)
    case (Inr u)
    note noted = note_parent_lawful [OF Pair [unfolded Inr]]
    have "lawful before (modify_request (crr_id item) (planned plan (cc_now c)) db2)" if "sound before"
    proof -
      have db1: "sound db1" using base that by (rule follows_sound)
      have "lawful before db1" using base that by (simp add: follows_def)
      moreover have "lawful db1 (modify_request (crr_id item) (planned plan (cc_now c)) db2)"
      proof (rule lawful_one_request [OF db1 found])
        show "lawful db1 db2" using noted(1) by (rule lawful_trans [rotated]) simp
        show "t_resource_requests db2 = t_resource_requests db1" using noted(2) by (simp add: add_plan_def)
        have "review_ok item" using db1 found by (auto dest: found_request intro: sound_request)
        from granted_moves [OF this, where f = "planned plan (cc_now c)" and st = "''PROVISION_PLAN_READY''"
            and slot = "Some 1" and pid = "Some (plan_id plan)" and m = "crr_managed_user_id item"
            and t = "cc_now c"] status
        show "request_moves item (planned plan (cc_now c) item)" "review_ok (planned plan (cc_now c) item)"
          by (auto simp: planned_def)
      qed (simp add: planned_def)
      ultimately show ?thesis by (rule lawful_trans)
    qed
    then show ?thesis unfolding write_plan_def plan_operation_def Let_def
      by (simp add: Pair Inr follows_commit lawful_entry)
  qed (simp add: write_plan_def Pair)
qed

lemma follows_allocate:
  assumes found: "get_request db (crr_id item) = Some item"
  shows "follows db (snd (snd (allocate_plan c item key db)))"
proof (cases "sound db")
  case True
  define db1 where "db1 = expire_reservations (cc_now c) db"
  have base: "follows db db1" unfolding db1_def by (rule follows_expire)
  then have "requests_move (t_resource_requests db) (t_resource_requests db1)" and keyed: "keyed db1"
    using True by (auto simp: follows_def sound_def lawful_def lawful_tables_def)
  then obtain r where "r \<in> set (t_resource_requests db1)" "crr_id r = crr_id item"
    using found_request [OF found] unfolding requests_move_def by blast
  with get_request_member [OF keyed] have r: "get_request db1 (crr_id item) = Some r" "crr_id r = crr_id item"
    by force+
  have written: "follows db db'"
    if "write_plan c r source plan key db db1 = (x, db')" "find_attempt_source c db1 r = Inr source"
    for source plan x db'
    using base r source_status [OF that(2)] follows_write_plan [of db db1 r c source plan key] that(1) by simp
  show ?thesis unfolding allocate_plan_def Let_def
    by (auto simp: r base simp flip: db1_def split: option.split sum.split prod.split elim: written)
qed (simp add: follows_def)

lemma follows_plan_step: "follows db (snd (snd (plan_step c i key db)))"
  using follows_allocate administered_request_found(1)
  by (fastforce simp: plan_step_def split: sum.split)

lemma follows_create_plan: "follows db (snd (snd (create_provision_plan c i key db)))"
  using follows_plan_step [of db c i key]
  by (auto simp: create_provision_plan_def split: prod.split sum.split list.split)

subsection \<open>Dry run\<close>

lemma follows_replay: "follows db (snd (replay_dry_run c plan earlier db))"
  unfolding replay_dry_run_def Let_def
  by (auto split: option.split prod.split sum.split intro!: follows_commit dest: note_parent_lawful(1))

lemma follows_rejected: "follows db (snd (record_rejected c plan worker e db))"
  using follows_commit [of db "modify_plan (plan_id plan) (\<lambda>p. p\<lparr>plan_dry_run_result := worker, plan_updated_at := cc_now c\<rparr>) db"
      unhandled "()"]
  by (auto simp: record_rejected_def split: prod.split sum.split)

lemma follows_accept: "follows db (snd (accept_dry_run c item plan worker contract key db))"
proof (cases "note_parent c (contract_facts contract) db
    (modify_plan (plan_id plan) (\<lambda>p. p\<lparr>plan_state := ''READY_FOR_PROVISION'', plan_dry_run_result := worker,
       plan_dry_run_at := Some (cc_now c), plan_updated_at := cc_now c\<rparr>) db)")
  case (Pair r db1)
  show ?thesis
  proof (cases r)
    case (Inr u)
    have "lawful db db1" using note_parent_lawful(1) [OF Pair [unfolded Inr]] by (rule lawful_trans [rotated]) simp
    then show ?thesis unfolding accept_dry_run_def Let_def
      by (auto simp: Pair Inr orchestrates_def intro!: follows_commit lawful_add_compute_operation)
  qed (simp add: accept_dry_run_def Pair)
qed

lemma follows_judge: "follows db (snd (judge_dry_run c item plan worker key db))"
  unfolding judge_dry_run_def by (auto simp: follows_rejected follows_accept split: option.split)

lemma follows_result: "follows db (snd p) \<Longrightarrow> p = (r, db') \<Longrightarrow> follows db db'"
  by simp

lemma follows_dry_run: "follows db (snd (snd (dry_run_provision_plan c i key db)))"
  unfolding dry_run_provision_plan_def Let_def
  by (auto split: sum.split prod.split option.split
    elim: follows_result [OF follows_replay] follows_result [OF follows_judge])

subsection \<open>The Stage\<close>

text \<open>A request that has a plan was approved, so it may fail or be staged.\<close>

lemma planned_moves:
  assumes "sound db" and "get_request db (crr_id item) = Some item" and "crr_provision_plan_id item \<noteq> None"
    and "f item = item\<lparr>crr_status := st, crr_active_slot := slot, crr_provision_plan_id := pid,
      crr_managed_user_id := owner, crr_updated_at := t\<rparr>"
    and "st \<notin> set [''DRAFT'', ''REQUESTED'', ''UNDER_REVIEW'', ''REJECTED'', ''CANCELLED'']"
  shows "request_moves item (f item) \<and> review_ok (f item)"
proof -
  have ok: "review_ok item" using assms(1,2) by (auto dest: found_request intro: sound_request)
  with assms(3) have "crr_status item \<notin> set [''DRAFT'', ''REQUESTED'', ''UNDER_REVIEW'', ''REJECTED'', ''CANCELLED'']"
    by (auto simp: review_ok_def undecided_def closed_def)
  from granted_moves [where f = f, OF ok this assms(4,5)] show ?thesis .
qed

lemma lawful_fail_attempt:
  assumes "sound db" "get_request db (crr_id item) = Some item" "crr_provision_plan_id item \<noteq> None"
    and "lawful db db'" "t_resource_requests db' = t_resource_requests db"
  shows "lawful db (fail_attempt c item plan db')"
  using planned_moves [OF assms(1-3), where f = "\<lambda>r. r\<lparr>crr_status := ''FAILED'', crr_active_slot := None,
      crr_updated_at := cc_now c\<rparr>" and st = "''FAILED''" and slot = None and pid = "crr_provision_plan_id item"
      and owner = "crr_managed_user_id item" and t = "cc_now c"]
  by (auto simp: fail_attempt_def intro!: lawful_one_request [OF assms(1,2,4,5)])

lemma operation_key_stage [simp]:
  "operation_key (held_operation c z e m o1) = operation_key o1"
  "operation_key (rejected_operation c z worker o1) = operation_key o1"
  "operation_key (completed_operation c worker o1) = operation_key o1"
  by (simp_all add: operation_key_def held_operation_def rejected_operation_def completed_operation_def Let_def)

lemma modify_operation_requests [simp]:
  "t_resource_requests (modify_operation i f db) = t_resource_requests db"
  by (simp add: modify_operation_def)

lemma settle_rows_lawful [simp]: "lawful db (settle_rows now verified rows db') = lawful db db'"
  by (simp add: settle_rows_def)

lemma lawful_hold:
  assumes "sound db" "get_request db (crr_id item) = Some item" "crr_provision_plan_id item \<noteq> None"
  shows "lawful db (hold_uncertain_stage c item plan operation rows e m db)"
  unfolding hold_uncertain_stage_def Let_def
  by (simp add: lawful_fail_attempt [OF assms] lawful_modify_operation)

lemma follows_doubt:
  assumes "get_request db (crr_id item) = Some item" "crr_provision_plan_id item \<noteq> None"
  shows "follows db (snd (snd (end_in_doubt c item plan operation rows st e m db)))"
  using follows_commit [OF lawful_hold [OF _ assms], of unhandled "()" c plan operation rows e m]
  by (auto simp: end_in_doubt_def split: prod.split sum.split)

lemma follows_reject:
  assumes "get_request db (crr_id item) = Some item" "crr_provision_plan_id item \<noteq> None"
  shows "follows db (snd (snd (reject_stage c item plan operation rows worker db)))"
proof -
  have "lawful db (fail_attempt c item plan (update_rows rf rows (modify_operation (oper_id operation)
      (rejected_operation c z worker) db)))" if "sound db" for z rf
    by (rule lawful_fail_attempt [OF that assms]) (simp_all add: lawful_modify_operation)
  then show ?thesis unfolding reject_stage_def Let_def
    by (auto split: prod.split sum.split elim: follows_result [OF follows_commit, rotated])
qed

lemma stage_rows_tables [simp]:
  "lawful db (stage_rows c account plan stage path db') = lawful db db'"
  "t_resource_requests (stage_rows c account plan stage path db') = t_resource_requests db'"
  by (simp_all add: stage_rows_def) (simp add: modify_user_def add_storage_def add_container_def add_managed_def)

lemma follows_persist:
  assumes "get_request db (crr_id item) = Some item" "crr_provision_plan_id item \<noteq> None"
  shows "follows db (snd (snd (persist_stage c item plan operation rows account worker path db)))"
proof -
  have "follows db (persisted_stage c item plan operation rows account worker path db)"
    if ok: "provision_constraints (persisted_stage c item plan operation rows account worker path db)"
  proof -
    have "lawful db (persisted_stage c item plan operation rows account worker path db)" if sound: "sound db"
    proof -
      have "lawful db (stage_states c item plan rows (stage_rows c account plan (dget worker ''stage'') path db))"
        unfolding stage_states_def
        using planned_moves [OF sound assms, where f = "\<lambda>r. r\<lparr>crr_managed_user_id := Some (cc_id c 60),
            crr_status := ''KEY_ENROLLMENT_PENDING'', crr_active_slot := None, crr_updated_at := cc_now c\<rparr>"
            and st = "''KEY_ENROLLMENT_PENDING''" and slot = None and pid = "crr_provision_plan_id item"
            and owner = "Some (cc_id c 60)" and t = "cc_now c"]
        by (auto intro!: lawful_one_request [OF sound assms(1)])
      then show ?thesis unfolding persisted_stage_def by (simp add: lawful_modify_operation)
    qed
    with ok show ?thesis by (auto simp: follows_def constrained_keyed)
  qed
  then show ?thesis unfolding persist_stage_def Let_def
    using lawful_hold [OF _ assms]
    by (auto split: prod.split sum.split elim: follows_result [OF follows_commit, rotated])
qed

lemma running_stage_found:
  assumes "running_stage c i db = Inr (item, plan, operation)"
  shows "get_request db (crr_id item) = Some item" "crr_id item = i" "crr_provision_plan_id item = Some (plan_id plan)"
    "get_plan db (plan_id plan) = Some plan" "get_operation db (cc_id c 40) = Some operation"
    "oper_id operation = cc_id c 40" "oper_status operation = OP_RUNNING"
  using assms unfolding running_stage_def
  by (auto simp: admin_request_found split: sum.splits option.splits if_splits
    dest: found_request plan_store.lookup_pk operation_store.lookup_pk)

lemma follows_settle: "follows db (snd (snd (settle_stage c i answer db)))"
proof (cases "running_stage c i db")
  case (Inr found)
  obtain item plan operation where f: "found = (item, plan, operation)" by (cases found) auto
  note found = running_stage_found [OF Inr [unfolded f]]
  have item: "get_request db (crr_id item) = Some item" "crr_provision_plan_id item \<noteq> None"
    using found(1,3) by simp_all
  have "follows db (snd (snd (judge_stage c item plan operation rows account worker db)))" for rows account worker
    unfolding judge_stage_def Let_def
    by (auto simp: follows_doubt [OF item] follows_persist [OF item] split: sum.split bool.split)
  then show ?thesis unfolding settle_stage_def Let_def
    by (auto simp: Inr f follows_doubt [OF item] follows_reject [OF item] split: sum.split option.split)
qed (simp add: settle_stage_def)

lemma plan_found: "get_plan db i = Some plan \<Longrightarrow> get_plan db (plan_id plan) = Some plan \<and> plan_id plan = i"
  using plan_store.lookup_pk by blast

lemma find_stage_target_found:
  assumes "find_stage_target c item db = Inr t"
  shows "st_item t = item" "crr_status item = ''PROVISION_PLAN_READY''"
    "crr_provision_plan_id item = Some (plan_id (st_plan t))" "get_plan db (plan_id (st_plan t)) = Some (st_plan t)"
    "dry_run_done (st_plan t)" "ready_stage_contract (plan_dry_run_result (st_plan t)) = Some (st_contract t)"
    "parent_contract_ok c (st_contract t) db" "plan_binding item (st_plan t) = None"
    "bound_reservations (cc_now c) db item (st_plan t) = Inr (st_rows t)"
    "dry_run_evidence db item (st_plan t) (st_contract t) = Some (st_dry_run t)"
    "cc_now c < plan_reservation_expires_at (st_plan t)"
  using assms unfolding find_stage_target_def
  by (auto split: sum.splits option.splits if_splits simp: plan_found)

lemma stage_operation_key [simp]: "\<not> orchestrates (stage_operation c t key)"
  by (simp add: orchestrates_def stage_operation_def)

lemma add_operation_requests [simp]: "t_resource_requests (add_operation o1 db) = t_resource_requests db"
  by (simp add: add_operation_def)

lemma follows_start:
  assumes "find_stage_target c item db = Inr t" and "get_request db (crr_id item) = Some item"
  shows "follows db (snd (start_stage c t key db))"
proof -
  note target = find_stage_target_found [OF assms(1)]
  have "lawful db (modify_request (crr_id item) (\<lambda>r. r\<lparr>crr_status := ''PROVISIONING'', crr_active_slot := Some 1,
      crr_updated_at := cc_now c\<rparr>) (operation_event (cc_id c 41) (cc_now c) (oper_id (stage_operation c t key)) None
        OP_RUNNING m (add_operation (stage_operation c t key) db)))" if sound: "sound db" for m
    using planned_moves [OF sound assms(2), where f = "\<lambda>r. r\<lparr>crr_status := ''PROVISIONING'',
        crr_active_slot := Some 1, crr_updated_at := cc_now c\<rparr>" and st = "''PROVISIONING''" and slot = "Some 1"
        and pid = "crr_provision_plan_id item" and owner = "crr_managed_user_id item" and t = "cc_now c"] target(3)
    by (auto intro!: lawful_one_request [OF sound assms(2)] lawful_add_operation simp: operation_event_tables)
  then show ?thesis unfolding start_stage_def Let_def
    by (auto simp: target(1) intro!: follows_commit)
qed

lemma follows_execute_stage:
  assumes "find_stage_target c item db = Inr t" and "get_request db (crr_id item) = Some item"
  shows "follows db (snd (snd (execute_stage c t key db)))"
proof (cases "start_stage c t key db")
  case (Pair r db1)
  have start: "follows db db1" using follows_start [OF assms, of key] by (simp add: Pair)
  obtain r' calls db2 where settle:
    "settle_stage c (crr_id (st_item t)) (cc_worker c (stage_call c t)) db1 = (r', calls, db2)"
    by (cases "settle_stage c (crr_id (st_item t)) (cc_worker c (stage_call c t)) db1") auto
  have "follows db1 db2" using follows_settle [of db1] settle by (metis snd_conv)
  with start have "follows db db2" by (rule follows_trans)
  with start show ?thesis by (cases r) (simp_all add: execute_stage_def Pair settle)
qed

lemma follows_stage: "follows db (snd (snd (provision_reserved_compute_environment c i key db)))"
  unfolding provision_reserved_compute_environment_def
  by (auto split: sum.split option.split bool.split dest: administered_request_found(1)
    intro: follows_execute_stage)

subsection \<open>Orchestrations\<close>

definition orchestrated :: "portal_db \<Rightarrow> uuid \<Rightarrow> uuid \<Rightarrow> bool" where
  "orchestrated db i oid \<longleftrightarrow> (\<exists>o1. get_operation db oid = Some o1 \<and> orchestrates o1 \<and> oper_target_id o1 = i)"

lemma get_operation_member:
  assumes "keyed db" and "o1 \<in> set (t_operations db)"
  shows "get_operation db (oper_id o1) = Some o1"
proof (cases "get_operation db (oper_id o1)")
  case None
  with assms(2) show ?thesis by (auto simp: get_operation_def scalar_None_iff)
next
  case (Some o2)
  then have "o2 \<in> set (t_operations db)" "oper_id o2 = oper_id o1"
    by (auto simp: get_operation_def dest: scalar_SomeD)
  with assms have "o2 = o1" by (auto simp: keyed_def distinct_map dest: inj_onD)
  with Some show ?thesis by simp
qed

lemma grows_member:
  assumes "grows key xs ys" and "x \<in> set xs"
  shows "\<exists>y \<in> set ys. key y = key x"
proof -
  obtain zs where zs: "map key ys = map key xs @ zs" using assms(1) by (auto simp: grows_def)
  have "key x \<in> set (map key ys)" unfolding zs using assms(2) by simp
  then show ?thesis by auto
qed

lemma operation_key_fields:
  "operation_key o2 = operation_key o1 \<Longrightarrow> oper_id o2 = oper_id o1 \<and> orchestrates o2 = orchestrates o1 \<and>
     oper_target_id o2 = oper_target_id o1 \<and> oper_requested_by o2 = oper_requested_by o1 \<and>
     oper_operation_type o2 = oper_operation_type o1 \<and> oper_idempotency_key o2 = oper_idempotency_key o1"
  by (simp add: operation_key_def orchestrates_def)

lemma follows_grows:
  "follows db db' \<Longrightarrow> sound db \<Longrightarrow> grows operation_key (t_operations db) (t_operations db')"
  by (simp add: follows_def sound_def lawful_def lawful_tables_def)

lemma follows_operations:
  assumes "follows db db'" "sound db" "get_operation db i = Some o1"
  shows "\<exists>o2. get_operation db' i = Some o2 \<and> operation_key o2 = operation_key o1"
proof -
  have o1: "o1 \<in> set (t_operations db)" "oper_id o1 = i"
    using assms(3) by (auto simp: get_operation_def dest: scalar_SomeD)
  obtain o2 where o2: "o2 \<in> set (t_operations db')" "operation_key o2 = operation_key o1"
    using grows_member [OF follows_grows [OF assms(1,2)] o1(1)] by blast
  have "keyed db'" using follows_sound [OF assms(1,2)] by (simp add: sound_def)
  from get_operation_member [OF this o2(1)] have "get_operation db' i = Some o2"
    using operation_key_fields [OF o2(2)] o1(2) by simp
  with o2(2) show ?thesis by blast
qed

lemma follows_orchestrated:
  assumes "follows db db'" "sound db" "orchestrated db i oid"
  shows "orchestrated db' i oid"
proof -
  obtain o1 where o1: "get_operation db oid = Some o1" "orchestrates o1" "oper_target_id o1 = i"
    using assms(3) by (auto simp: orchestrated_def)
  obtain o2 where "get_operation db' oid = Some o2" "operation_key o2 = operation_key o1"
    using follows_operations [OF assms(1,2) o1(1)] by blast
  with operation_key_fields [of o2 o1] o1 show ?thesis by (auto simp: orchestrated_def)
qed

lemma orchestrated_approved:
  assumes "sound db" "orchestrated db i oid" "get_request db i = Some item"
  shows "rightly_approved item" "crr_status item \<notin> set [''DRAFT'', ''REQUESTED'', ''UNDER_REVIEW'', ''REJECTED'', ''CANCELLED'']"
proof -
  obtain o1 where "o1 \<in> set (t_operations db)" "orchestrates o1" "oper_target_id o1 = i"
    using assms(2) by (auto simp: orchestrated_def get_operation_def dest: scalar_SomeD)
  with assms(1) obtain r where "r \<in> set (t_resource_requests db)" "crr_id r = i" "rightly_approved r"
    by (auto simp: sound_def sound_tables_def)
  with assms(1,3) show approved: "rightly_approved item" using unique_request by (auto simp: sound_def)
  have "review_ok item" using assms(1,3) by (auto dest: found_request intro: sound_request)
  with approved show "crr_status item \<notin> set [''DRAFT'', ''REQUESTED'', ''UNDER_REVIEW'', ''REJECTED'', ''CANCELLED'']"
    by (auto simp: review_ok_def undecided_def closed_def rightly_approved_def)
qed

lemma operation_key_steps [simp]:
  "operation_key (with_steps steps facts o1) = operation_key o1"
  "operation_key (failed_orchestration c e m failure o1) = operation_key o1"
  "operation_key (succeeded_orchestration c owner o1) = operation_key o1"
  by (simp_all add: operation_key_def with_steps_def failed_orchestration_def succeeded_orchestration_def Let_def
    split: option.split)

lemma release_unstarted_lawful [simp]:
  "lawful db (release_unstarted c plan db') = lawful db db'"
  "t_resource_requests (release_unstarted c plan db') = t_resource_requests db'"
  by (simp_all add: release_unstarted_def) (simp add: modify_plan_def)

lemma lawful_end_request:
  assumes sound: "sound db" and item: "get_request db (crr_id item) = Some item"
    and orch: "orchestrated db (crr_id item) oid" and "lawful db db'" "t_resource_requests db' = t_resource_requests db"
  shows "lawful db (end_request c item db')"
proof -
  have "review_ok item" using sound item by (auto dest: found_request intro: sound_request)
  from granted_moves [OF this orchestrated_approved(2) [OF sound orch item], where f = "\<lambda>r. r\<lparr>crr_status := ''FAILED'',
      crr_active_slot := None, crr_updated_at := cc_now c\<rparr>" and st = "''FAILED''" and slot = None
      and pid = "crr_provision_plan_id item" and m = "crr_managed_user_id item" and t = "cc_now c"]
  show ?thesis using assms(4,5)
    by (auto simp: end_request_def intro!: lawful_one_request [OF sound item])
qed

lemma follows_failure:
  assumes orch: "orchestrated db i oid"
  shows "follows db (snd (finalize_orchestration_failure c i oid e m db))"
proof -
  have "lawful db (failed_state c item operation e m db)"
    if "sound db" "admin_request db i = Inr item" "get_operation db oid = Some operation" for item operation
  proof -
    have item: "get_request db (crr_id item) = Some item" "crr_id item = i"
      using that(2) by (auto simp: admin_request_found dest: found_request)
    have "lawful db (end_request c item (case (failure_of_attempt db item, current_plan db item) of
        (None, Some plan) \<Rightarrow> if plan_state plan \<in> set [''RESERVED'', ''READY_FOR_PROVISION'']
          then release_unstarted c plan db else db | _ \<Rightarrow> db))"
      using orch item by (intro lawful_end_request [OF that(1) item(1), of oid]) (auto split: option.split)
    then show ?thesis unfolding failed_state_def Let_def by (simp add: lawful_modify_operation)
  qed
  then show ?thesis unfolding finalize_orchestration_failure_def
    by (auto split: sum.split option.split intro!: follows_commit)
qed

lemma follows_success: "follows db (snd (finalize_orchestration_success c i oid db))"
  unfolding finalize_orchestration_success_def succeeded_state_def
  by (auto split: sum.split option.split intro!: follows_commit lawful_modify_operation)

lemma follows_set_step:
  assumes "follows before db"
  shows "follows before (snd (set_workflow_step c oid step state before db))"
proof -
  have "lawful before (modify_operation oid (with_steps steps []) db)" if "sound before" for steps
    using assms that by (intro lawful_modify_operation) (simp_all add: follows_def)
  then show ?thesis unfolding set_workflow_step_def
    by (auto split: option.split intro!: follows_commit)
qed

lemma follows_mark: "follows db (snd (snd (mark orc oid k step state db)))"
  unfolding mark_def by (auto split: prod.split elim: follows_result [OF follows_set_step [OF follows_refl]])

lemma follows_prepare: "follows db (snd (snd (prepare orc i oid db)))"
proof -
  obtain r calls db1 where plan: "plan_step (step_call orc oid 1) i (or_key orc oid ''allocate-and-reserve'') db = (r, calls, db1)"
    by (cases "plan_step (step_call orc oid 1) i (or_key orc oid ''allocate-and-reserve'') db") auto
  have base: "follows db db1" using follows_plan_step plan by (metis snd_conv)
  have "follows db (snd (set_workflow_step c oid step state (if calls = [] then db else db1) db1))" for c step state
  proof (cases "calls = []")
    case True
    then show ?thesis using follows_set_step [OF base] by simp
  next
    case False
    then show ?thesis using follows_trans [OF base follows_set_step [OF follows_refl]] by simp
  qed
  then have "follows db (snd (set_workflow_step (step_call orc oid 2) oid ''PREPARING'' ''SUCCEEDED''
      (if calls = [] then db else db1) db1))" .
  then show ?thesis unfolding prepare_def plan using base
    by (cases r; cases "set_workflow_step (step_call orc oid 2) oid ''PREPARING'' ''SUCCEEDED''
      (if calls = [] then db else db1) db1") (simp_all split del: if_split)
qed

lemma follows_traced: "follows db (snd (snd p)) \<Longrightarrow> p = (r, calls, db') \<Longrightarrow> follows db db'"
  by simp

lemma follows_orchestration_steps:
  "a \<in> set (orchestration_steps orc i oid) \<Longrightarrow> follows db (snd (snd (a db)))"
  by (auto simp: orchestration_steps_def follows_mark follows_prepare validate_step_def create_step_def
    split: prod.split sum.split elim: follows_traced [OF follows_dry_run] follows_traced [OF follows_stage])

lemma follows_fail:
  assumes "orchestrated db i oid"
  shows "follows db (snd (fail_orchestration orc i oid e db))"
  by (auto simp: fail_orchestration_def follows_failure [OF assms] split: prod.split)

lemma follows_workflow:
  assumes orch: "orchestrated db i oid"
  shows "follows db (snd (snd (run_workflow orc i oid db)))"
proof (cases "sound db")
  case True
  obtain r calls db1 where run: "run_steps (orchestration_steps orc i oid) db = (r, calls, db1)"
    by (cases "run_steps (orchestration_steps orc i oid) db") auto
  have base: "follows db db1"
    using follows_run_steps [of "orchestration_steps orc i oid" db] follows_orchestration_steps run by (metis snd_conv)
  note sound1 = follows_sound [OF base True]
  note orch1 = follows_orchestrated [OF base True orch]
  obtain r2 db2 where fin: "finalize_orchestration_success (step_call orc oid 10) i oid db1 = (r2, db2)"
    by (cases "finalize_orchestration_success (step_call orc oid 10) i oid db1") auto
  have next1: "follows db1 db2" using follows_success fin by (metis snd_conv)
  have fail1: "follows db (snd (fail_orchestration orc i oid e db1))" for e
    by (rule follows_trans [OF base follows_fail [OF orch1]])
  have fail2: "follows db (snd (fail_orchestration orc i oid e db2))" for e
    by (rule follows_trans [OF follows_trans [OF base next1] follows_fail])
      (rule follows_orchestrated [OF next1 sound1 orch1])
  show ?thesis unfolding run_workflow_def run fin
    using fail1 fail2 follows_trans [OF base next1] by (cases r; cases r2) (simp_all add: fin split_beta)
qed (simp add: follows_def)

lemma follows_run_orchestration:
  assumes "orchestrated db i oid"
  shows "follows db (snd (snd (run_provision_orchestration orc i oid db)))"
  unfolding run_provision_orchestration_def
  by (auto split: sum.split option.split prod.split simp: follows_workflow [OF assms]
    elim: follows_result [OF follows_success] follows_result [OF follows_failure [OF assms]])

subsection \<open>The two actions\<close>

text \<open>What the start of an orchestration guarantees: its operation is in the database.\<close>

definition starts :: "uuid \<Rightarrow> portal_db \<Rightarrow> uuid result \<times> portal_db \<Rightarrow> bool" where
  "starts i db outcome \<longleftrightarrow> follows db (snd outcome) \<and>
     (\<forall>oid. fst outcome = Inr oid \<longrightarrow> sound db \<longrightarrow> orchestrated (snd outcome) i oid)"

lemma new_orchestration_fields:
  assumes "ot \<in> {''compute.provision'', ''compute.provision.retry''}"
  shows "orchestrates (new_orchestration_operation c item ot key payload summary)"
    "oper_target_id (new_orchestration_operation c item ot key payload summary) = crr_id item"
  using assms by (auto simp: new_orchestration_operation_def orchestrates_def)

lemma starts_error [simp]: "starts i db (Inl e, db)"
  by (simp add: starts_def)

lemma starts_commit:
  assumes "sound db \<Longrightarrow> lawful db after" and "o1 \<in> set (t_operations after)" "orchestrates o1" "oper_target_id o1 = i"
  shows "starts i db (commit e (oper_id o1) db after)"
proof -
  have "orchestrated after i (oper_id o1)" if "provision_constraints after"
    using get_operation_member [OF constrained_keyed [OF that] assms(2)] assms(3,4)
    by (auto simp: orchestrated_def)
  moreover have "follows db (snd (commit e (oper_id o1) db after))" using assms(1) by (rule follows_commit)
  ultimately show ?thesis by (auto simp: starts_def commit_def)
qed

lemma begin_approval_starts:
  assumes found: "get_request db (crr_id item) = Some item" and other: "crr_portal_account_id item \<noteq> user_id (cc_user c)"
  shows "starts (crr_id item) db (begin_approval c note key item db)"
proof -
  let ?op = "new_orchestration_operation c item ''compute.provision'' key
    [(''action'', PStr ''APPROVE_AND_PROVISION''), (''approval_repeated'', PBool False), (''review_note'', opt_val PStr note)]
    ''Administrator approved request and started fixed Provision orchestration''"
  let ?db1 = "modify_request (crr_id item) (approved_request c note) db"
  have written: "starts (crr_id item) db (commit e (oper_id ?op) db (compute_audit c 2 ev ot oi out md op
      (add_orchestration c ?op ?db1)))"
    if status: "crr_status item \<in> set [''REQUESTED'', ''UNDER_REVIEW'']" for e ev ot oi out md op
  proof (rule starts_commit)
    show "?op \<in> set (t_operations (compute_audit c 2 ev ot oi out md op (add_orchestration c ?op ?db1)))"
      by (simp add: compute_audit_tables add_orchestration_def operation_event_tables add_operation_def)
    assume sound: "sound db"
    have "review_ok item" using sound found by (auto dest: found_request intro: sound_request)
    then have "lawful db ?db1" using status other
      by (intro lawful_one_request [OF sound found]) (auto simp: review_ok_def undecided_def closed_def
        request_moves_def request_terms_def rightly_approved_def approved_request_def)
    moreover have "\<exists>r \<in> set (t_resource_requests ?db1). crr_id r = crr_id item \<and> rightly_approved r"
    proof -
      have "get_request ?db1 (crr_id item) = Some (approved_request c note item)"
        by (rule request_store.lookup_modify_same [OF _ found]) (simp add: approved_request_def)
      from found_request [OF this] other show ?thesis
        by (intro bexI [of _ "approved_request c note item"]) (auto simp: rightly_approved_def approved_request_def)
    qed
    ultimately show "lawful db (compute_audit c 2 ev ot oi out md op (add_orchestration c ?op ?db1))"
      by (auto simp: add_orchestration_def new_orchestration_operation_def intro!: lawful_add_operation)
  qed (simp_all add: new_orchestration_operation_def orchestrates_def)
  show ?thesis unfolding begin_approval_def Let_def
    by (auto intro!: written split: sum.split)
qed

lemma begin_retry_starts:
  assumes found: "get_request db (crr_id item) = Some item"
  shows "starts (crr_id item) db (begin_retry c note key item db)"
proof -
  have written: "starts (crr_id item) db (commit e (oper_id o1) db (compute_audit c 2 ev ot oi out md op
      (modify_request (crr_id item) (\<lambda>r. r\<lparr>crr_status := ''RETRY_AUTHORIZED'', crr_active_slot := Some 1,
         crr_updated_at := cc_now c\<rparr>) (add_orchestration c o1 db))))"
    if status: "crr_status item = ''FAILED''" and o1: "orchestrates o1" "oper_target_id o1 = crr_id item"
    for e o1 ev ot oi out md op
  proof (rule starts_commit [OF _ _ o1])
    show "o1 \<in> set (t_operations (compute_audit c 2 ev ot oi out md op
      (modify_request (crr_id item) (\<lambda>r. r\<lparr>crr_status := ''RETRY_AUTHORIZED'', crr_active_slot := Some 1,
         crr_updated_at := cc_now c\<rparr>) (add_orchestration c o1 db))))"
      by (simp add: compute_audit_tables add_orchestration_def operation_event_tables add_operation_def
        modify_request_def)
    assume sound: "sound db"
    have ok: "review_ok item" using sound found by (auto dest: found_request intro: sound_request)
    then have "rightly_approved item" using status by (simp add: review_ok_def undecided_def closed_def)
    then have "lawful db (add_orchestration c o1 db)" using found_request [OF found] o1(2)
      by (auto simp: add_orchestration_def intro!: lawful_add_operation)
    then show "lawful db (compute_audit c 2 ev ot oi out md op
      (modify_request (crr_id item) (\<lambda>r. r\<lparr>crr_status := ''RETRY_AUTHORIZED'', crr_active_slot := Some 1,
         crr_updated_at := cc_now c\<rparr>) (add_orchestration c o1 db)))"
      using granted_moves [OF ok, where f = "\<lambda>r. r\<lparr>crr_status := ''RETRY_AUTHORIZED'', crr_active_slot := Some 1,
          crr_updated_at := cc_now c\<rparr>" and st = "''RETRY_AUTHORIZED''" and slot = "Some 1"
          and pid = "crr_provision_plan_id item" and m = "crr_managed_user_id item" and t = "cc_now c"] status
      by (auto intro!: lawful_one_request [OF sound found] simp: add_orchestration_def operation_event_tables)
  qed
  show ?thesis unfolding begin_retry_def Let_def
    by (auto simp: new_orchestration_fields intro!: written split: sum.split)
qed

lemma follows_orchestrate:
  assumes starts: "\<And>item. get_request db (crr_id item) = Some item \<Longrightarrow>
      crr_portal_account_id item \<noteq> user_id (cc_user (or_call orc)) \<Longrightarrow> starts (crr_id item) db (begin_with item db)"
    and ot: "ot \<in> {''compute.provision'', ''compute.provision.retry''}"
  shows "follows db (snd (snd (orchestrate orc ot i key begin_with db)))"
proof (cases "sound db")
  case True
  have existing: "orchestrated db (crr_id item) (oper_id o1)"
    if "orchestration_by_key db (or_call orc) item ot key = Some o1" for item o1
  proof -
    have "o1 \<in> set (t_operations db)" "oper_target_id o1 = crr_id item" "orchestrates o1"
      using that ot by (auto simp: orchestration_by_key_def orchestrates_def dest: scalar_SomeD)
    with get_operation_member [of db o1] True show ?thesis by (auto simp: orchestrated_def sound_def)
  qed
  have begun: "follows db db'" "r = Inr oid \<Longrightarrow> follows db (snd (snd (run_provision_orchestration orc (crr_id item) oid db')))"
    if "administered_request (or_call orc) i db = Inr item" "begin_with item db = (r, db')" for item r db' oid
  proof -
    have s: "starts (crr_id item) db (r, db')"
      using starts [OF administered_request_found(1,2) [OF that(1)]] that(2) by simp
    then show base: "follows db db'" by (simp add: starts_def)
    assume "r = Inr oid"
    with s True have "orchestrated db' (crr_id item) oid" by (simp add: starts_def)
    with base show "follows db (snd (snd (run_provision_orchestration orc (crr_id item) oid db')))"
      by (blast intro: follows_trans follows_run_orchestration)
  qed
  show ?thesis unfolding orchestrate_def Let_def
    by (auto split: sum.split option.split prod.split simp: existing follows_run_orchestration begun)
qed (simp add: follows_def)

lemma follows_approve: "follows db (snd (snd (approve_and_provision orc i note key db)))"
  unfolding approve_and_provision_def by (rule follows_orchestrate) (simp_all add: begin_approval_starts)

lemma follows_retry: "follows db (snd (snd (retry_provision orc i note key db)))"
  unfolding retry_provision_def by (rule follows_orchestrate) (simp_all add: begin_retry_starts)

subsection \<open>Reconciliation and authorization\<close>

lemma add_compute_operation_requests [simp]:
  "t_resource_requests (add_compute_operation c o1 db) = t_resource_requests db"
  by (simp add: add_compute_operation_def operation_event_tables)

lemma follows_release_held: "follows db (snd (release_held c item plan failed body db))"
  unfolding release_held_def reconcile_operation_def Let_def
  by (auto intro!: follows_commit lawful_entry lawful_modify_operation simp: operation_key_def)

lemma follows_reconcile_failed: "follows db (snd (snd (reconcile_failed_provision c i body db)))"
  unfolding reconcile_failed_provision_def Let_def
  by (auto split: sum.split option.split prod.split elim: follows_result [OF follows_release_held])

lemma follows_grant:
  assumes found: "get_request db (crr_id item) = Some item" and "crr_provision_plan_id item \<noteq> None"
  shows "follows db (snd (grant_retry c item plan failed body db))"
proof -
  have "lawful db (modify_request (crr_id item) (\<lambda>r. r\<lparr>crr_status := ''RETRY_AUTHORIZED'', crr_active_slot := Some 1,
      crr_updated_at := cc_now c\<rparr>) (add_compute_operation c (authorize_operation c item plan failed body) db))"
    if sound: "sound db"
    using planned_moves [OF sound assms, where f = "\<lambda>r. r\<lparr>crr_status := ''RETRY_AUTHORIZED'',
        crr_active_slot := Some 1, crr_updated_at := cc_now c\<rparr>" and st = "''RETRY_AUTHORIZED''" and slot = "Some 1"
        and pid = "crr_provision_plan_id item" and owner = "crr_managed_user_id item" and t = "cc_now c"]
    by (auto intro!: lawful_one_request [OF sound found] lawful_entry simp: authorize_operation_def)
  then show ?thesis unfolding grant_retry_def Let_def by (auto intro!: follows_commit)
qed

lemma rolled_back_plan: "rolled_back_stage_retry db item = Inr found \<Longrightarrow> crr_provision_plan_id item \<noteq> None"
  by (auto simp: rolled_back_stage_retry_def split: option.splits)

lemma follows_authorize: "follows db (snd (snd (authorize_provision_retry c i body db)))"
proof -
  have "follows db (snd (snd (verify_and_grant c item body db)))"
    if "administered_request c i db = Inr item" for item
    unfolding verify_and_grant_def Let_def using administered_request_found(1) [OF that]
    by (auto split: sum.split prod.split dest: rolled_back_plan elim!: follows_result [OF follows_grant, rotated -1])
  then show ?thesis unfolding authorize_provision_retry_def
    by (auto split: sum.split option.split)
qed

lemma follows_reconcile_plan: "follows db (snd (reconcile_plan env worker actor role db pid))"
proof -
  have touched: "follows db db'"
    if reqs: "t_resource_requests db' = t_resource_requests db"
      and ops: "t_operations db' = t_operations (modify_operation i f db)"
      and key: "\<And>o1. operation_key (f o1) = operation_key o1"
    for db' i f
  proof -
    have "lawful db (modify_operation i f db)" by (rule lawful_modify_operation [OF lawful_refl key])
    then have "lawful db db'" using lawful_cong [of db' "modify_operation i f db" db] reqs ops by simp
    moreover have "map oper_id (t_operations db') = map oper_id (t_operations db)"
      unfolding ops modify_operation_def using operation_key_fields [OF key] by (simp add: map_update_where)
    ultimately show ?thesis by (simp add: follows_def sound_def keyed_def reqs)
  qed
  show ?thesis unfolding reconcile_plan_def Let_def
    by (auto split: option.split intro!: touched simp: audited_tables operation_event_tables operation_key_def)
qed

subsection \<open>Runs\<close>

text \<open>
  The routes in any order, by any users; the background reconciliation; and a Stage in its two halves, so
  that anything may happen between its dispatch and the worker's answer.
\<close>

inductive compute_run :: "portal_db \<Rightarrow> portal_db \<Rightarrow> bool" for db0 where
  run_start: "compute_run db0 db0"
| run_create: "compute_run db0 db \<Longrightarrow> compute_run db0 (snd (snd (create_self_compute_request c body st db)))"
| run_cancel: "compute_run db0 db \<Longrightarrow> compute_run db0 (snd (cancel_self_compute_request c i key db))"
| run_review: "compute_run db0 db \<Longrightarrow> compute_run db0 (snd (review_compute_request c i review db))"
| run_plan: "compute_run db0 db \<Longrightarrow> compute_run db0 (snd (snd (create_provision_plan c i key db)))"
| run_dry_run: "compute_run db0 db \<Longrightarrow> compute_run db0 (snd (snd (dry_run_provision_plan c i key db)))"
| run_stage: "compute_run db0 db \<Longrightarrow> compute_run db0 (snd (snd (provision_reserved_compute_environment c i key db)))"
| run_dispatch: "compute_run db0 db \<Longrightarrow> find_stage_target c item db = Inr t \<Longrightarrow>
    get_request db (crr_id item) = Some item \<Longrightarrow> compute_run db0 (snd (start_stage c t key db))"
| run_answer: "compute_run db0 db \<Longrightarrow> compute_run db0 (snd (snd (settle_stage c i answer db)))"
| run_approve: "compute_run db0 db \<Longrightarrow> compute_run db0 (snd (snd (approve_and_provision orc i note key db)))"
| run_retry: "compute_run db0 db \<Longrightarrow> compute_run db0 (snd (snd (retry_provision orc i note key db)))"
| run_reconcile: "compute_run db0 db \<Longrightarrow> compute_run db0 (snd (snd (reconcile_failed_provision c i rbody db)))"
| run_authorize: "compute_run db0 db \<Longrightarrow> compute_run db0 (snd (snd (authorize_provision_retry c i abody db)))"
| run_background: "compute_run db0 db \<Longrightarrow> compute_run db0 (snd (reconcile_plan env worker actor role db pid))"

lemma compute_run_follows: "compute_run db0 db \<Longrightarrow> follows db0 db"
proof (induction rule: compute_run.induct)
  case (run_dispatch db c item t key)
  then show ?case by (blast intro: follows_trans follows_start)
qed (auto intro: follows_trans follows_create follows_cancel follows_review follows_create_plan follows_dry_run
    follows_stage follows_settle follows_approve follows_retry follows_reconcile_failed follows_authorize
    follows_reconcile_plan)

lemma compute_run_sound: "compute_run db0 db \<Longrightarrow> sound db0 \<Longrightarrow> sound db"
  using compute_run_follows follows_sound by blast

text \<open>
  C2. Every request that left review was decided by somebody other than its owner: when its status
  is past review and it was not cancelled, an approval by another user is recorded in it, and a rejected one names
  another user as the reviewer. No run of the routes changes a rejected or cancelled request, an approval
  once given, or the owner and the requested resources.
\<close>

theorem requests_decided_by_others:
  assumes "compute_run db0 db" and "sound db0"
  shows "(\<forall>r \<in> set (t_resource_requests db).
      (crr_status r \<in> set [''APPROVED'', ''RETRY_AUTHORIZED'', ''PROVISION_PLAN_READY'', ''PROVISIONING'', ''STAGED'',
         ''KEY_ENROLLMENT_PENDING'', ''ACTIVE'', ''FAILED''] \<longrightarrow> rightly_approved r) \<and>
      (crr_status r = ''REJECTED'' \<longrightarrow> crr_reviewed_by r \<notin> {None, Some (crr_portal_account_id r)})) \<and>
    (\<forall>r \<in> set (t_resource_requests db0). \<exists>r' \<in> set (t_resource_requests db). crr_id r' = crr_id r \<and>
      crr_portal_account_id r' = crr_portal_account_id r \<and> request_terms r' = request_terms r \<and>
      (closed r \<longrightarrow> r' = r) \<and>
      (rightly_approved r \<longrightarrow> crr_approved_at r' = crr_approved_at r \<and> crr_reviewed_by r' = crr_reviewed_by r))"
proof (intro conjI ballI)
  fix r assume r: "r \<in> set (t_resource_requests db)"
  have ok: "review_ok r" using compute_run_sound [OF assms] r by (rule sound_request)
  show "(crr_status r \<in> set [''APPROVED'', ''RETRY_AUTHORIZED'', ''PROVISION_PLAN_READY'', ''PROVISIONING'', ''STAGED'',
      ''KEY_ENROLLMENT_PENDING'', ''ACTIVE'', ''FAILED''] \<longrightarrow> rightly_approved r)"
    using ok by (auto simp: review_ok_def undecided_def closed_def)
  show "crr_status r = ''REJECTED'' \<longrightarrow> crr_reviewed_by r \<notin> {None, Some (crr_portal_account_id r)}"
    using ok by (auto simp: review_ok_def closed_def)
next
  fix r assume "r \<in> set (t_resource_requests db0)"
  moreover have "requests_move (t_resource_requests db0) (t_resource_requests db)"
    using compute_run_follows [OF assms(1)] assms(2)
    by (simp add: follows_def sound_def lawful_def lawful_tables_def)
  ultimately show "\<exists>r' \<in> set (t_resource_requests db). crr_id r' = crr_id r \<and>
      crr_portal_account_id r' = crr_portal_account_id r \<and> request_terms r' = request_terms r \<and>
      (closed r \<longrightarrow> r' = r) \<and>
      (rightly_approved r \<longrightarrow> crr_approved_at r' = crr_approved_at r \<and> crr_reviewed_by r' = crr_reviewed_by r)"
    unfolding requests_move_def request_moves_def by blast
qed

end
