(* ===== verification/Compute_Guarantees.thy ===== *)
theory Compute_Guarantees
  imports Compute_Runs
begin

section \<open>What a Stage may do, and how it ends\<close>

text \<open>
  The real Stage is the one call of these routes that writes to the host. This theory shows when it is
  sent, what each answer leaves in the Portal, and what a release of reservations rests on.
\<close>

subsection \<open>The rows of an attempt\<close>

lemma update_rows_table:
  assumes "\<And>r. resv_id (f r) = resv_id r" and "\<And>r. f (f r) = f r"
  shows "t_reservations (update_rows f rows db) =
    map (\<lambda>r. if resv_id r \<in> resv_id ` set rows then f r else r) (t_reservations db)"
  unfolding update_rows_def
  by (induction rows arbitrary: db) (auto simp: modify_reservation_def update_where_def assms)

lemma row_updates [simp]:
  "resv_id (hold_row r) = resv_id r" "hold_row (hold_row r) = hold_row r"
  "resv_id (consume_row now r) = resv_id r" "consume_row now (consume_row now r) = consume_row now r"
  "resv_plan_id (hold_row r) = resv_plan_id r" "resv_plan_id (consume_row now r) = resv_plan_id r"
  by (simp_all add: hold_row_def consume_row_def)

lemma reservation_tables [simp]:
  "t_reservations (record_audit h n t call db) = t_reservations db"
  "t_reservations (operation_event n t i f s m db) = t_reservations db"
  "t_reservations (compute_audit c k e ot oi out md op db) = t_reservations db"
  "t_reservations (modify_plan i pf db) = t_reservations db"
  "t_reservations (modify_request i qf db) = t_reservations db"
  "t_reservations (modify_operation i g db) = t_reservations db"
  "t_reservations (add_operation o1 db) = t_reservations db"
  "t_reservations (own_sessions u1 u2 db) = t_reservations db"
  "t_reservations (stage_rows c account plan stage path db) = t_reservations db"
  "t_reservations (fail_attempt c item plan db) = t_reservations db"
  by (simp_all add: record_audit_def add_audit_event_def operation_event_def add_operation_event_def compute_audit_def
    modify_plan_def modify_request_def modify_operation_def add_operation_def own_sessions_def stage_rows_def
    modify_user_def add_storage_def add_container_def add_managed_def fail_attempt_def split: option.split)

lemma plan_rows_ids:
  assumes "distinct (map resv_id (t_reservations db))" and "r \<in> set (t_reservations db)"
  shows "resv_id r \<in> resv_id ` set (rows_of_plan pid db) \<longleftrightarrow> resv_plan_id r = pid"
  using assms by (auto simp: rows_of_plan_def distinct_map dest: inj_onD)

lemma update_plan_rows:
  assumes "distinct (map resv_id (t_reservations db))"
    and "\<And>r. resv_id (f r) = resv_id r" "\<And>r. f (f r) = f r"
  shows "t_reservations (update_rows f (rows_of_plan pid db) db) =
    map (\<lambda>r. if resv_plan_id r = pid then f r else r) (t_reservations db)"
  unfolding update_rows_table [OF assms(2,3)]
  by (rule map_cong) (simp_all add: plan_rows_ids [OF assms(1)])

subsection \<open>The call\<close>

text \<open>
  The conditions under which a call that is no dry run may be sent: the request waits with its plan, which
  a dry run validated; the five reservations are the plan's, live and not expired; the contract is valid and a successful dry run of the
  plan recorded the same one; and the call names the plan's resources and carries the administrator's name.
\<close>

definition stage_call_allowed :: "compute_call \<Rightarrow> portal_db \<Rightarrow> operation_call \<Rightarrow> bool" where
  "stage_call_allowed c db call \<longleftrightarrow> (\<exists>item plan contract rows evidence.
     get_request db (crr_id item) = Some item \<and> crr_portal_account_id item \<noteq> user_id (cc_user c) \<and>
     crr_status item = ''PROVISION_PLAN_READY'' \<and> crr_provision_plan_id item = Some (plan_id plan) \<and>
     get_plan db (plan_id plan) = Some plan \<and> plan_request_id plan = crr_id item \<and>
     plan_portal_account_id plan = crr_portal_account_id item \<and> plan_state plan = ''READY_FOR_PROVISION'' \<and>
     ready_stage_contract (plan_dry_run_result plan) = Some contract \<and>
     evidence \<in> set (t_operations db) \<and> oper_operation_type evidence = ''compute.provision.dry_run'' \<and>
     oper_status evidence = OP_SUCCEEDED \<and>
     dget (oper_validated_payload evidence) ''plan_id'' = PStr (plan_id plan) \<and>
     py_eq (dget (oper_validated_payload evidence) ''stage_contract_sha256'') (contract_sha contract) \<and>
     set rows \<subseteq> set (t_reservations db) \<and>
     set (map (\<lambda>r. (resv_resource_type r, resv_resource_value r)) rows) = set (expected_values plan) \<and>
     (\<forall>r \<in> set rows. resv_plan_id r = plan_id plan \<and> resv_state r = ''RESERVED'' \<and>
        resv_active_key r = Some (resv_resource_type r @ '':'' @ resv_resource_value r) \<and> cc_now c < resv_expires_at r) \<and>
     wr_operation_type call = ''compute.provision.stage'' \<and>
     wr_approved_by call = Some (user_normalized_login (cc_user c)) \<and>
     dget (wr_payload call) ''request_id'' = PStr (crr_id item) \<and>
     dget (wr_payload call) ''plan_id'' = PStr (plan_id plan) \<and>
     dget (wr_payload call) ''username'' = PStr (plan_username plan) \<and>
     dget (wr_payload call) ''uid'' = PInt (plan_uid plan) \<and> dget (wr_payload call) ''gid'' = PInt (plan_gid plan) \<and>
     dget (wr_payload call) ''project_id'' = PInt (plan_project_id plan) \<and>
     dget (wr_payload call) ''ssh_port'' = PInt (plan_container_ssh_port plan) \<and>
     dget (wr_payload call) ''container_name'' = PStr (plan_container_name plan) \<and>
     dget (wr_payload call) ''dry_run_stage_contract'' = contract)"

lemma dget_dict_update:
  "dget (PDict (dict_update d new)) k = (if k \<in> fst ` set new then dget (PDict (rev new)) k else dget (PDict d) k)"
proof (induction d new rule: dict_update.induct)
  case (2 d k' v new)
  have app: "dget (PDict (xs @ ys)) k = (if k \<in> fst ` set xs then dget (PDict xs) k else dget (PDict ys) k)" for xs ys
    by (induction xs) (auto simp: rev_image_eqI)
  show ?case using 2 by (auto simp: app)
qed simp

lemma stage_payload_fields:
  "dget (PDict (stage_payload_of c t)) ''request_id'' = PStr (crr_id (st_item t))"
  "dget (PDict (stage_payload_of c t)) ''plan_id'' = PStr (plan_id (st_plan t))"
  "dget (PDict (stage_payload_of c t)) ''username'' = PStr (plan_username (st_plan t))"
  "dget (PDict (stage_payload_of c t)) ''uid'' = PInt (plan_uid (st_plan t))"
  "dget (PDict (stage_payload_of c t)) ''gid'' = PInt (plan_gid (st_plan t))"
  "dget (PDict (stage_payload_of c t)) ''project_id'' = PInt (plan_project_id (st_plan t))"
  "dget (PDict (stage_payload_of c t)) ''ssh_port'' = PInt (plan_container_ssh_port (st_plan t))"
  "dget (PDict (stage_payload_of c t)) ''container_name'' = PStr (plan_container_name (st_plan t))"
  "dget (PDict (stage_payload_of c t)) ''dry_run_stage_contract'' = st_contract t"
  by (simp_all add: stage_payload_of_def dget_dict_update plan_payload_def)

lemma target_allowed:
  assumes "find_stage_target c item db = Inr t" and "get_request db (crr_id item) = Some item"
    and "crr_portal_account_id item \<noteq> user_id (cc_user c)"
  shows "stage_call_allowed c db (stage_call c t)"
proof -
  note target = find_stage_target_found [OF assms(1)]
  obtain live where live: "live = filter (\<lambda>r. resv_state r = ''RESERVED'' \<and> resv_active_key r \<noteq> None)
      (rows_of_plan (plan_id (st_plan t)) db)"
    and bound: "set (map (\<lambda>r. (resv_resource_type r, resv_resource_value r)) live) = set (expected_values (st_plan t))"
      "list_all (\<lambda>r. bound_row item r \<and> cc_now c < resv_expires_at r) live" "st_rows t = live"
    using target(9) unfolding bound_reservations_def Let_def by (auto split: if_splits)
  have rows: "set (st_rows t) \<subseteq> set (t_reservations db)"
    "\<forall>r \<in> set (st_rows t). resv_plan_id r = plan_id (st_plan t) \<and> resv_state r = ''RESERVED'' \<and>
        resv_active_key r = Some (resv_resource_type r @ '':'' @ resv_resource_value r) \<and> cc_now c < resv_expires_at r"
    using bound(2) unfolding bound(3) by (auto simp: live rows_of_plan_def list_all_iff bound_row_def)
  have binding: "plan_request_id (st_plan t) = crr_id item" "plan_portal_account_id (st_plan t) = crr_portal_account_id item"
    using target(8) by (auto simp: plan_binding_def split: if_splits)
  have evidence: "st_dry_run t \<in> set (t_operations db)" "oper_operation_type (st_dry_run t) = ''compute.provision.dry_run''"
    "oper_status (st_dry_run t) = OP_SUCCEEDED"
    "dget (oper_validated_payload (st_dry_run t)) ''plan_id'' = PStr (plan_id (st_plan t))"
    "py_eq (dget (oper_validated_payload (st_dry_run t)) ''stage_contract_sha256'') (contract_sha (st_contract t))"
    using target(10) by (auto simp: dry_run_evidence_def dest!: scalar_SomeD split: option.splits)
  show ?thesis unfolding stage_call_allowed_def
    by (rule exI [of _ item], rule exI [of _ "st_plan t"], rule exI [of _ "st_contract t"],
        rule exI [of _ "st_rows t"], rule exI [of _ "st_dry_run t"])
      (use target rows bound(1) binding evidence assms in \<open>simp add: stage_call_def stage_payload_fields dry_run_done_def bound(3)\<close>)
qed

subsection \<open>Which routes send it\<close>

lemma dry_call_dry [simp]: "wr_dry_run (dry_call c ot payload key)"
  by (simp add: dry_call_def)

lemma verify_call_dry [simp]: "wr_dry_run (verify_call c item plan operation)"
  by (simp add: verify_call_def)

lemma allocate_plan_dry: "call \<in> set (fst (snd (allocate_plan c item key db))) \<Longrightarrow> wr_dry_run call"
  by (auto simp: allocate_plan_def Let_def split: option.splits sum.splits if_splits prod.splits)

lemma plan_step_dry: "call \<in> set (fst (snd (plan_step c i key db))) \<Longrightarrow> wr_dry_run call"
  by (auto simp: plan_step_def split: sum.splits if_splits dest: allocate_plan_dry)

lemma dry_run_dry: "call \<in> set (fst (snd (dry_run_provision_plan c i key db))) \<Longrightarrow> wr_dry_run call"
  by (auto simp: dry_run_provision_plan_def Let_def split: option.splits sum.splits if_splits prod.splits)

lemma doubt_dry: "call \<in> set (fst (snd (end_in_doubt c item plan operation rows st e m db))) \<Longrightarrow> wr_dry_run call"
  by (auto simp: end_in_doubt_def split: sum.splits prod.splits)

lemma persist_dry: "call \<in> set (fst (snd (persist_stage c item plan operation rows account worker path db))) \<Longrightarrow>
    wr_dry_run call"
  by (auto simp: persist_stage_def Let_def split: sum.splits prod.splits if_splits)

lemma judge_dry: "call \<in> set (fst (snd (judge_stage c item plan operation rows account worker db))) \<Longrightarrow> wr_dry_run call"
  by (auto simp: judge_stage_def Let_def split: sum.splits bool.splits if_splits dest: doubt_dry persist_dry)

lemma reject_dry: "call \<in> set (fst (snd (reject_stage c item plan operation rows worker db))) \<Longrightarrow> wr_dry_run call"
  by (auto simp: reject_stage_def Let_def split: sum.splits prod.splits)

lemma settle_dry: "call \<in> set (fst (snd (settle_stage c i answer db))) \<Longrightarrow> wr_dry_run call"
  by (auto simp: settle_stage_def Let_def split: sum.splits option.splits if_splits
    dest: doubt_dry reject_dry judge_dry)

lemma execute_stage_calls:
  assumes "call \<in> set (fst (snd (execute_stage c t key db)))" and "\<not> wr_dry_run call"
  shows "call = stage_call c t"
  using assms settle_dry [of call c "crr_id (st_item t)" "cc_worker c (stage_call c t)"]
  by (auto simp: execute_stage_def split: sum.splits prod.splits) (metis fst_conv snd_conv)

lemma stage_route_guarded:
  assumes "call \<in> set (fst (snd (provision_reserved_compute_environment c i key db)))" and "\<not> wr_dry_run call"
  shows "stage_call_allowed c db call"
proof -
  obtain item t where "administered_request c i db = Inr item" "find_stage_target c item db = Inr t"
    "call \<in> set (fst (snd (execute_stage c t key db)))"
    using assms(1) unfolding provision_reserved_compute_environment_def
    by (auto split: sum.splits option.splits bool.splits if_splits)
  with target_allowed administered_request_found(1,2) execute_stage_calls [OF _ assms(2)] show ?thesis
    by metis
qed

text \<open>A call of a sequence of steps was made by one of them, in a database the sequence reached.\<close>

lemma run_steps_calls:
  assumes "\<And>a db. a \<in> set actions \<Longrightarrow> follows db (snd (snd (a db)))"
    and "call \<in> set (fst (snd (run_steps actions db)))"
  shows "\<exists>a \<in> set actions. \<exists>db1. follows db db1 \<and> call \<in> set (fst (snd (a db1)))"
  using assms
proof (induction actions arbitrary: db)
  case (Cons a actions)
  obtain r calls db' where a: "a db = (r, calls, db')" by (cases "a db") auto
  have first: "follows db db'" using Cons.prems(1) [of a db] a by simp
  show ?case
  proof (cases "call \<in> set calls")
    case True
    then show ?thesis using a by (intro bexI [of _ a] exI [of _ db]) simp_all
  next
    case False
    then have "call \<in> set (fst (snd (run_steps actions db')))"
      using Cons.prems(2) by (cases r) (auto simp: a split: prod.splits)
    then obtain b db1 where "b \<in> set actions" "follows db' db1" "call \<in> set (fst (snd (b db1)))"
      using Cons.IH Cons.prems(1) by (metis list.set_intros(2))
    with first show ?thesis by (auto intro: follows_trans)
  qed
qed simp

lemma workflow_calls:
  assumes "call \<in> set (fst (snd (run_workflow orc i oid db)))" and "\<not> wr_dry_run call"
  shows "\<exists>db1. follows db db1 \<and> stage_call_allowed (step_call orc oid 7) db1 call"
proof -
  have "call \<in> set (fst (snd (run_steps (orchestration_steps orc i oid) db)))"
    using assms(1) by (auto simp: run_workflow_def split: sum.splits prod.splits)
  then obtain a db1 where a: "a \<in> set (orchestration_steps orc i oid)" "follows db db1" "call \<in> set (fst (snd (a db1)))"
    using run_steps_calls [of "orchestration_steps orc i oid" call db] follows_orchestration_steps by blast
  have plan: "wr_dry_run call" if "call \<in> set (fst (snd (prepare orc i oid db1)))"
    using that plan_step_dry [of call "step_call orc oid 1" i "or_key orc oid ''allocate-and-reserve''" db1]
    by (auto simp: prepare_def split: sum.splits prod.splits)
  have dry: "wr_dry_run call" if "call \<in> set (fst (snd (validate_step orc i oid db1)))"
    using that dry_run_dry [of call "step_call orc oid 4" i "or_key orc oid ''automatic-dry-run''" db1]
    by (auto simp: validate_step_def split: sum.splits prod.splits)
  have "stage_call_allowed (step_call orc oid 7) db1 call" if "call \<in> set (fst (snd (create_step orc i oid db1)))"
    using that stage_route_guarded [OF _ assms(2), of "step_call orc oid 7" i "or_key orc oid ''automatic-stage''" db1]
    by (auto simp: create_step_def split: sum.splits prod.splits)
  with a plan dry assms(2) show ?thesis
    by (auto simp: orchestration_steps_def mark_def split: prod.splits)
qed

lemma step_call_user [simp]: "cc_user (step_call orc oid k) = cc_user (or_call orc)"
  by (simp add: step_call_def cc_user_def)

lemma orchestrate_calls:
  assumes "call \<in> set (fst (snd (orchestrate orc ot i key begin_with db)))" and "\<not> wr_dry_run call"
    and "\<And>item. get_request db (crr_id item) = Some item \<Longrightarrow>
      crr_portal_account_id item \<noteq> user_id (cc_user (or_call orc)) \<Longrightarrow> starts (crr_id item) db (begin_with item db)"
  shows "\<exists>oid db1. follows db db1 \<and> stage_call_allowed (step_call orc oid 7) db1 call"
proof -
  have run: "\<exists>db1. follows db' db1 \<and> stage_call_allowed (step_call orc oid 7) db1 call"
    if "call \<in> set (fst (snd (run_provision_orchestration orc j oid db')))" for j oid db'
    using that workflow_calls [OF _ assms(2)]
    by (auto simp: run_provision_orchestration_def split: sum.splits option.splits if_splits prod.splits)
  obtain item where item: "administered_request (or_call orc) i db = Inr item"
    using assms(1) by (auto simp: orchestrate_def Let_def split: sum.splits)
  then consider (existing) oid where "call \<in> set (fst (snd (run_provision_orchestration orc (crr_id item) oid db)))"
    | (begun) oid db' where "begin_with item db = (Inr oid, db')"
      "call \<in> set (fst (snd (run_provision_orchestration orc (crr_id item) oid db')))"
    using assms(1) by (auto simp: orchestrate_def Let_def split: sum.splits option.splits if_splits prod.splits)
  then show ?thesis
  proof cases
    case existing
    then show ?thesis using run by blast
  next
    case begun
    have "follows db db'" using assms(3) [OF administered_request_found(1,2) [OF item]] begun(1) by (simp add: starts_def)
    with run [OF begun(2)] show ?thesis by (blast intro: follows_trans)
  qed
qed


subsection \<open>Reading rows after effects\<close>

lemma plan_tables:
  "t_provision_plans (record_audit h n t call db) = t_provision_plans db"
  "t_provision_plans (operation_event n t i f s m db) = t_provision_plans db"
  "t_provision_plans (compute_audit c k e ot oi out md op db) = t_provision_plans db"
  by (simp_all add: record_audit_def add_audit_event_def operation_event_def add_operation_event_def compute_audit_def
    split: option.split)

lemma settle_rows_tables [simp]:
  "t_resource_requests (settle_rows now verified rows db) = t_resource_requests db"
  "t_operations (settle_rows now verified rows db) = t_operations db"
  "t_provision_plans (settle_rows now verified rows db) = t_provision_plans db"
  by (simp_all add: settle_rows_def)

lemma get_through [simp]:
  "get_request (compute_audit c k e ot oi out md op db) j = get_request db j"
  "get_request (operation_event n t i f s m db) j = get_request db j"
  "get_request (settle_rows now verified rows db) j = get_request db j"
  "get_request (update_rows rf rows db) j = get_request db j" "get_request (modify_plan i pf db) j = get_request db j"
  "get_request (modify_operation i g db) j = get_request db j" "get_request (own_sessions u1 u2 db) j = get_request db j"
  "get_request (stage_rows c account plan stage path db) j = get_request db j"
  "get_plan (compute_audit c k e ot oi out md op db) j = get_plan db j"
  "get_plan (operation_event n t i f s m db) j = get_plan db j"
  "get_plan (settle_rows now verified rows db) j = get_plan db j"
  "get_plan (update_rows rf rows db) j = get_plan db j" "get_plan (modify_request i qf db) j = get_plan db j"
  "get_plan (modify_operation i g db) j = get_plan db j" "get_plan (own_sessions u1 u2 db) j = get_plan db j"
  "get_plan (stage_rows c account plan stage path db) j = get_plan db j"
  "get_operation (compute_audit c k e ot oi out md op db) j = get_operation db j"
  "get_operation (operation_event n t i f s m db) j = get_operation db j"
  "get_operation (settle_rows now verified rows db) j = get_operation db j"
  "get_operation (update_rows rf rows db) j = get_operation db j"
  "get_operation (modify_plan i pf db) j = get_operation db j"
  "get_operation (modify_request i qf db) j = get_operation db j"
  "get_operation (own_sessions u1 u2 db) j = get_operation db j"
  "get_operation (stage_rows c account plan stage path db) j = get_operation db j"
  by (simp_all add: get_request_def get_plan_def get_operation_def compute_audit_tables operation_event_tables plan_tables)
    (simp_all add: modify_plan_def modify_request_def modify_operation_def own_sessions_def stage_rows_def modify_user_def
      add_storage_def add_container_def add_managed_def)

lemmas lookups = request_store.lookup_modify plan_store.lookup_modify operation_store.lookup_modify

lemma commit_cases: "commit e a before after = (r, db') \<Longrightarrow>
    (r = Inl e \<and> db' = before) \<or> (r = Inr a \<and> db' = after \<and> provision_constraints after)"
  by (auto simp: commit_def split: if_splits)

subsection \<open>An attempt that fails\<close>

text \<open>No part of the attempt is in flight any more, and no reservation of it is taken for free.\<close>

definition attempt_closed :: "portal_db \<Rightarrow> uuid \<Rightarrow> uuid \<Rightarrow> uuid \<Rightarrow> bool" where
  "attempt_closed db i pid oid \<longleftrightarrow>
     (\<exists>r. get_request db i = Some r \<and> crr_status r = ''FAILED'' \<and> crr_active_slot r = None) \<and>
     (\<exists>p. get_plan db pid = Some p \<and> plan_state p = ''FAILED'') \<and>
     (\<exists>o1. get_operation db oid = Some o1 \<and> oper_status o1 = OP_FAILED \<and> oper_rollback_status o1 \<noteq> None) \<and>
     (\<forall>r \<in> set (t_reservations db). resv_plan_id r = pid \<longrightarrow> resv_state r \<noteq> ''RESERVED'')"

lemma update_rows_closed:
  assumes keep: "\<And>r. resv_id (f r) = resv_id r" "\<And>r. f (f r) = f r" "\<And>r. resv_state (f r) \<noteq> ''RESERVED''"
    and cover: "\<And>r. r \<in> set (t_reservations db) \<Longrightarrow> resv_plan_id r = pid \<Longrightarrow> resv_state r = ''RESERVED'' \<Longrightarrow> r \<in> set rows"
    and r: "r \<in> set (t_reservations (update_rows f rows db))" "resv_plan_id r = pid"
  shows "resv_state r \<noteq> ''RESERVED''"
proof -
  obtain r0 where r0: "r0 \<in> set (t_reservations db)" "r = (if resv_id r0 \<in> resv_id ` set rows then f r0 else r0)"
    using r(1) unfolding update_rows_table [OF keep(1,2)] by auto
  show ?thesis using r0 keep(3) cover [OF r0(1)] r(2) by (cases "resv_id r0 \<in> resv_id ` set rows") auto
qed

lemma settle_rows_closed:
  assumes "r \<in> set (t_reservations (settle_rows now verified (rows_of_plan pid db) db'))"
    and "t_reservations db' = t_reservations db" and "resv_plan_id r = pid"
  shows "resv_state r \<noteq> ''RESERVED''"
proof (cases verified)
  case True
  show ?thesis
    by (rule update_rows_closed [where f = "release_row now" and rows = "rows_of_plan pid db" and pid = pid])
      (use assms True in \<open>auto simp: settle_rows_def rows_of_plan_def release_row_def\<close>)
next
  case False
  show ?thesis
    by (rule update_rows_closed [where f = hold_row and pid = pid
          and rows = "filter (\<lambda>r. resv_state r = ''RESERVED'') (rows_of_plan pid db)"])
      (use assms False in \<open>auto simp: settle_rows_def rows_of_plan_def\<close>, simp add: hold_row_def)
qed

lemma hold_closed:
  assumes "running_stage c i db = Inr (item, plan, operation)"
  shows "attempt_closed (hold_uncertain_stage c item plan operation (rows_of_plan (plan_id plan) db) e m db)
    i (plan_id plan) (cc_id c 40)"
proof -
  note found = running_stage_found [OF assms]
  show ?thesis unfolding attempt_closed_def
  proof (intro conjI ballI impI)
    fix r assume r: "r \<in> set (t_reservations (hold_uncertain_stage c item plan operation (rows_of_plan (plan_id plan) db) e m db))"
      and pid: "resv_plan_id r = plan_id plan"
    from r show "resv_state r \<noteq> ''RESERVED''"
      unfolding hold_uncertain_stage_def Let_def reservation_tables
      by (rule settle_rows_closed) (simp_all add: pid)
  qed (use found in \<open>simp_all add: hold_uncertain_stage_def Let_def fail_attempt_def lookups held_operation_def\<close>)
qed

lemma reject_closed:
  assumes "running_stage c i db = Inr (item, plan, operation)"
    and "reject_stage c item plan operation (rows_of_plan (plan_id plan) db) worker db = (r, calls, db')"
  shows "r = Inl unhandled \<and> db' = db \<or> attempt_closed db' i (plan_id plan) (cc_id c 40)"
proof (cases "r = Inl unhandled \<and> db' = db")
  case False
  note found = running_stage_found [OF assms(1)]
  define z where "z = verify_attempt c db item plan operation"
  define rf where "rf = (if releasable (judge_rejection z worker) then release_row (cc_now c) else hold_row)"
  define failed where "failed = fail_attempt c item plan (update_rows rf (rows_of_plan (plan_id plan) db)
    (modify_operation (oper_id operation) (rejected_operation c z worker) db))"
  obtain c1 ev ot oi out md op1 c2 n t j fr to m where db': "db' = compute_audit c1 51 ev ot oi out md op1
      (operation_event n t j fr to m failed)"
    using assms(2) False unfolding reject_stage_def Let_def z_def [symmetric] rf_def [symmetric] failed_def [symmetric]
    by (auto split: prod.splits sum.splits dest!: commit_cases) blast+
  have rf: "\<And>r. resv_id (rf r) = resv_id r" "\<And>r. rf (rf r) = rf r" "\<And>r. resv_state (rf r) \<noteq> ''RESERVED''"
    by (auto simp: rf_def release_row_def hold_row_def)
  have "attempt_closed db' i (plan_id plan) (cc_id c 40)" unfolding attempt_closed_def
  proof (intro conjI ballI impI)
    fix r assume r: "r \<in> set (t_reservations db')" and pid: "resv_plan_id r = plan_id plan"
    have "r \<in> set (t_reservations (update_rows rf (rows_of_plan (plan_id plan) db)
        (modify_operation (oper_id operation) (rejected_operation c z worker) db)))"
      using r by (simp add: db' failed_def)
    then show "resv_state r \<noteq> ''RESERVED''"
      by (rule update_rows_closed [OF rf, rotated]) (use pid in \<open>auto simp: rows_of_plan_def\<close>)
  qed (use found in \<open>simp_all add: db' failed_def fail_attempt_def lookups rejected_operation_def Let_def\<close>)
  then show ?thesis ..
qed simp

lemma doubt_closed:
  assumes "running_stage c i db = Inr (item, plan, operation)"
    and "end_in_doubt c item plan operation (rows_of_plan (plan_id plan) db) st e m db = (r, calls, db')"
  shows "(\<exists>x. r = Inl x) \<and> (r = Inl unhandled \<and> db' = db \<or> attempt_closed db' i (plan_id plan) (cc_id c 40))"
  using assms(2) hold_closed [OF assms(1)]
  by (auto simp: end_in_doubt_def split: prod.splits sum.splits dest!: commit_cases)

lemma persist_closed:
  assumes "running_stage c i db = Inr (item, plan, operation)"
    and "persist_stage c item plan operation (rows_of_plan (plan_id plan) db) account worker path db = (Inl x, calls, db')"
  shows "x = unhandled \<and> db' = db \<or> attempt_closed db' i (plan_id plan) (cc_id c 40)"
  using assms(2) hold_closed [OF assms(1)]
  by (auto simp: persist_stage_def Let_def split: prod.splits sum.splits if_splits dest!: commit_cases)

lemma judge_closed:
  assumes "running_stage c i db = Inr (item, plan, operation)"
    and "judge_stage c item plan operation (rows_of_plan (plan_id plan) db) account worker db = (Inl x, calls, db')"
  shows "(x = unhandled \<or> workspace_path (plan_uid plan) = Inl x) \<and> db' = db \<or>
    attempt_closed db' i (plan_id plan) (cc_id c 40)"
proof -
  have match: "stage_resources_match plan (dget worker ''stage'') = Inl e \<Longrightarrow> workspace_path (plan_uid plan) = Inl e" for e
    by (auto simp: stage_resources_match_def split: if_splits sum.splits)
  have doubt: "end_in_doubt c item plan operation (rows_of_plan (plan_id plan) db) st e m db = (Inl x, calls, db') \<Longrightarrow>
      ?thesis" for st e m
    using doubt_closed [OF assms(1)] by blast
  have persist: "persist_stage c item plan operation (rows_of_plan (plan_id plan) db) account worker path db =
      (Inl x, calls, db') \<Longrightarrow> ?thesis" for path
    using persist_closed [OF assms(1)] by blast
  show ?thesis using assms(2) unfolding judge_stage_def Let_def
    by (auto split: sum.splits bool.splits if_splits dest: match doubt persist)
qed

text \<open>
  C14. When the answer of a Stage ends in an error the attempt is closed: the request, its plan and the
  operation are \<open>FAILED\<close>, the operation says how far it was rolled back, and no reservation of the plan
  is \<open>RESERVED\<close>, whatever the worker answered and whatever changed since the dispatch. The exceptions, which
  change nothing, are a request or plan that is no longer in its Stage, an account that is gone, a UID
  without a workspace, and a database that refuses the closing rows.
\<close>

theorem answered_stage_closes:
  assumes "running_stage c i db = Inr (item, plan, operation)"
    and "settle_stage c i answer db = (Inl e, calls, db')"
  shows "attempt_closed db' i (plan_id plan) (cc_id c 40) \<or>
    (db' = db \<and> (crr_status item \<noteq> ''PROVISIONING'' \<or> plan_state plan \<noteq> ''PROVISIONING'' \<or>
      \<not> plan_execution_enabled plan \<or> get_user db (crr_portal_account_id item) = None \<or>
      workspace_path (plan_uid plan) = Inl e \<or> e = IntegrityError ''constraint''))"
  using assms(2) doubt_closed [OF assms(1)] reject_closed [OF assms(1)] judge_closed [OF assms(1)]
  unfolding settle_stage_def Let_def assms(1) unhandled_def
  by (fastforce split: sum.splits option.splits if_splits)

subsection \<open>Releases\<close>

definition row_write :: "compute_call \<Rightarrow> bool \<Rightarrow> (portal_resource_reservation \<Rightarrow> portal_resource_reservation) \<Rightarrow> bool" where
  "row_write c verified f \<longleftrightarrow> f = consume_row (cc_now c) \<or> f = hold_row \<or> f = release_row (cc_now c) \<and> verified"

lemma row_write_keeps: "row_write c verified f \<Longrightarrow> resv_id (f r) = resv_id r \<and> f (f r) = f r"
  by (auto simp: row_write_def)

lemma update_rows_same:
  "row_write c verified f \<Longrightarrow> t_reservations db1 = t_reservations db \<Longrightarrow>
   t_reservations (update_rows f rows db1) = t_reservations (update_rows f rows db)"
  by (simp add: update_rows_table row_write_keeps)

definition rows_written :: "compute_call \<Rightarrow> bool \<Rightarrow> uuid \<Rightarrow> portal_db \<Rightarrow> portal_db \<Rightarrow> bool" where
  "rows_written c verified pid db db' \<longleftrightarrow> t_reservations db' = t_reservations db \<or>
     (\<exists>f rows. row_write c verified f \<and> set rows \<subseteq> set (rows_of_plan pid db) \<and>
        t_reservations db' = t_reservations (update_rows f rows db))"

lemma hold_written:
  "rows_written c (all_absent (verify_attempt c db item plan operation)) pid db
     (hold_uncertain_stage c item plan operation (rows_of_plan pid db) e m db)"
proof (cases "all_absent (verify_attempt c db item plan operation)")
  case True
  then show ?thesis unfolding rows_written_def
    by (intro disjI2 exI [of _ "release_row (cc_now c)"] exI [of _ "rows_of_plan pid db"])
      (auto simp: hold_uncertain_stage_def settle_rows_def row_write_def Let_def
        intro: update_rows_same [of c True "release_row (cc_now c)"])
next
  case False
  then show ?thesis unfolding rows_written_def
    by (intro disjI2 exI [of _ hold_row] exI [of _ "filter (\<lambda>r. resv_state r = ''RESERVED'') (rows_of_plan pid db)"])
      (auto simp: hold_uncertain_stage_def settle_rows_def row_write_def Let_def
        intro: update_rows_same [of c False hold_row])
qed

lemma written_same [simp]: "rows_written c verified pid db db"
  by (simp add: rows_written_def)

lemma doubt_written:
  "end_in_doubt c item plan operation (rows_of_plan pid db) st e m db = (r, calls, db') \<Longrightarrow>
   rows_written c (all_absent (verify_attempt c db item plan operation)) pid db db'"
  using hold_written by (auto simp: end_in_doubt_def split: prod.splits sum.splits dest!: commit_cases)

lemma releasable_absent: "releasable (judge_rejection z worker) \<Longrightarrow> all_absent z"
  by (auto simp: releasable_def judge_rejection_def Let_def split: if_splits)

lemma reject_written:
  assumes "reject_stage c item plan operation (rows_of_plan pid db) worker db = (r, calls, db')"
  shows "rows_written c (all_absent (verify_attempt c db item plan operation)) pid db db'"
proof -
  define z where "z = verify_attempt c db item plan operation"
  define rf where "rf = (if releasable (judge_rejection z worker) then release_row (cc_now c) else hold_row)"
  have rf: "row_write c (all_absent z) rf" using releasable_absent by (auto simp: rf_def row_write_def)
  have "t_reservations db' = t_reservations db \<or> t_reservations db' = t_reservations (update_rows rf (rows_of_plan pid db)
      (modify_operation (oper_id operation) (rejected_operation c z worker) db))"
    using assms unfolding reject_stage_def Let_def z_def [symmetric] rf_def [symmetric]
    by (auto split: prod.splits sum.splits dest!: commit_cases)
  then show ?thesis using rf update_rows_same [OF rf, of "modify_operation (oper_id operation)
      (rejected_operation c z worker) db" db] unfolding rows_written_def z_def by auto
qed

lemma persist_written:
  assumes "persist_stage c item plan operation (rows_of_plan pid db) account worker path db = (r, calls, db')"
  shows "rows_written c (all_absent (verify_attempt c db item plan operation)) pid db db'"
proof -
  have f: "row_write c v (consume_row (cc_now c))" for v by (simp add: row_write_def)
  have "t_reservations (persisted_stage c item plan operation (rows_of_plan pid db) account worker path db) =
      t_reservations (update_rows (consume_row (cc_now c)) (rows_of_plan pid db) db)"
    by (simp add: persisted_stage_def stage_states_def) (rule update_rows_same [OF f], simp)
  then have "rows_written c v pid db (persisted_stage c item plan operation (rows_of_plan pid db) account worker path db)"
    for v unfolding rows_written_def using f by blast
  then show ?thesis using assms hold_written
    by (auto simp: persist_stage_def Let_def split: prod.splits sum.splits if_splits dest!: commit_cases)
qed

lemma judge_written:
  "judge_stage c item plan operation (rows_of_plan pid db) account worker db = (r, calls, db') \<Longrightarrow>
   rows_written c (all_absent (verify_attempt c db item plan operation)) pid db db'"
  unfolding judge_stage_def Let_def
  by (auto split: sum.splits bool.splits if_splits dest: doubt_written persist_written)

lemma settle_written:
  assumes "running_stage c i db = Inr (item, plan, operation)" and "settle_stage c i answer db = (r, calls, db')"
  shows "rows_written c (all_absent (verify_attempt c db item plan operation)) (plan_id plan) db db'"
  using assms(2) unfolding settle_stage_def Let_def assms(1)
  by (auto split: sum.splits option.splits if_splits dest: doubt_written reject_written judge_written)

lemma absent_evidence:
  assumes "all_absent (verify_attempt c db item plan operation)"
  shows "portal_residue db (crr_portal_account_id item) = [] \<and>
    (\<exists>answer. cc_worker c (verify_call c item plan operation) = Inr answer \<and>
      dget answer ''retry_verification_status'' = PStr ''VERIFIED_ZERO_RESIDUE'' \<and>
      dget answer ''resource_residue'' = PList [] \<and> dget answer ''unknown_resource_state'' = PList [])"
proof -
  obtain answer where answer: "cc_worker c (verify_call c item plan operation) = Inr answer"
    using assms by (cases "cc_worker c (verify_call c item plan operation)")
      (auto simp: verify_attempt_def authoritative_zero_residue_def residue_worker_def verify_call_def Let_def
        all_absent_def)
  then have "all_absent (judge_residue (portal_residue db (crr_portal_account_id item)) answer)"
    using assms by (simp add: verify_attempt_def authoritative_zero_residue_def residue_worker_def verify_call_def)
  from judge_residue_absent [OF this] answer show ?thesis by simp
qed

text \<open>
  C4. A Stage gives a reservation back only with proof that nothing is left: when the settlement of an answer releases a
  row, the row is of the attempt's plan, the Portal holds no resource of the account,
  and the worker, asked once more, answered verified zero residue with empty lists. A claim
  in the Stage's own answer is never enough.
\<close>

theorem stage_release_needs_proof:
  assumes "distinct (map resv_id (t_reservations db))" and "settle_stage c i answer db = (r, calls, db')"
    and "row \<in> set (t_reservations db)" and "row' \<in> set (t_reservations db')" and "resv_id row' = resv_id row"
    and "resv_state row \<noteq> ''RELEASED''" and "resv_state row' = ''RELEASED''"
  shows "\<exists>item plan operation evidence. running_stage c i db = Inr (item, plan, operation) \<and>
    resv_plan_id row = plan_id plan \<and> portal_residue db (crr_portal_account_id item) = [] \<and>
    cc_worker c (verify_call c item plan operation) = Inr evidence \<and>
    dget evidence ''retry_verification_status'' = PStr ''VERIFIED_ZERO_RESIDUE'' \<and>
    dget evidence ''resource_residue'' = PList [] \<and> dget evidence ''unknown_resource_state'' = PList []"
proof -
  have same: "row2 = row" if "row2 \<in> set (t_reservations db)" "resv_id row2 = resv_id row" for row2
    using assms(1,3) that by (auto simp: distinct_map dest: inj_onD)
  have "row' \<noteq> row" using assms(6,7) by auto
  then have changed: "t_reservations db' \<noteq> t_reservations db" using same assms(4,5) by auto
  then obtain item plan operation where run: "running_stage c i db = Inr (item, plan, operation)"
    using assms(2) by (auto simp: settle_stage_def split: sum.splits)
  obtain f rows where f: "row_write c (all_absent (verify_attempt c db item plan operation)) f"
      "set rows \<subseteq> set (rows_of_plan (plan_id plan) db)" "t_reservations db' = t_reservations (update_rows f rows db)"
    using settle_written [OF run assms(2)] changed by (auto simp: rows_written_def)
  obtain row2 where row2: "row2 \<in> set (t_reservations db)" "row' = (if resv_id row2 \<in> resv_id ` set rows then f row2 else row2)"
    using assms(4) f(1) by (auto simp: f(3) update_rows_table row_write_keeps)
  have row: "row2 = row" using same row2 assms(5) f(1) by (auto simp: row_write_keeps split: if_splits)
  with row2 \<open>row' \<noteq> row\<close> have written: "row' = f row" "resv_id row \<in> resv_id ` set rows" by (auto split: if_splits)
  have "all_absent (verify_attempt c db item plan operation)"
    using f(1) assms(7) unfolding written(1) row_write_def by (auto simp: consume_row_def hold_row_def)
  moreover have "resv_plan_id row = plan_id plan"
  proof -
    obtain row3 where "row3 \<in> set rows" "resv_id row3 = resv_id row" using written(2) by auto
    with f(2) same [of row3] show ?thesis by (auto simp: rows_of_plan_def)
  qed
  ultimately show ?thesis using run absent_evidence by blast
qed

subsection \<open>Success\<close>

lemma persist_success:
  assumes "persist_stage c item plan operation rows account worker path db = (Inr a, calls, db')"
  shows "calls = [] \<and> sa_managed_user_id a = cc_id c 60 \<and> provision_constraints db' \<and>
    db' = persisted_stage c item plan operation rows account worker path db"
  using assms by (auto simp: persist_stage_def Let_def split: prod.splits sum.splits if_splits)

lemma settle_success:
  assumes "settle_stage c i answer db = (Inr a, calls, db')"
  obtains item plan operation worker account path where
    "running_stage c i db = Inr (item, plan, operation)" "answer = Inr worker"
    "crr_status item = ''PROVISIONING''" "get_user db (crr_portal_account_id item) = Some account"
    "length (rows_of_plan (plan_id plan) db) = 5" "list_all (reserved_row item) (rows_of_plan (plan_id plan) db)"
    "has_eq worker ''status'' (PStr ''SUCCEEDED'')" "stage_identity_matches plan (dget worker ''stage'')"
    "stage_resources_match plan (dget worker ''stage'') = Inr True"
    "image_digest_ok (stage_image_digest (dget worker ''stage''))" "workspace_path (plan_uid plan) = Inr path"
    "calls = []" "sa_managed_user_id a = cc_id c 60" "provision_constraints db'"
    "db' = persisted_stage c item plan operation (rows_of_plan (plan_id plan) db) account worker path db"
proof -
  obtain item plan operation where run: "running_stage c i db = Inr (item, plan, operation)"
    using assms by (auto simp: settle_stage_def split: sum.splits)
  have no: "end_in_doubt c item plan operation rs st e m db \<noteq> (Inr a, calls, db')"
    "reject_stage c item plan operation rs w db \<noteq> (Inr a, calls, db')" for rs st e m w
    by (auto simp: end_in_doubt_def reject_stage_def Let_def split: prod.splits sum.splits)
  obtain worker account where parts: "answer = Inr worker" "crr_status item = ''PROVISIONING''"
    "get_user db (crr_portal_account_id item) = Some account" "length (rows_of_plan (plan_id plan) db) = 5"
    "list_all (reserved_row item) (rows_of_plan (plan_id plan) db)" "has_eq worker ''status'' (PStr ''SUCCEEDED'')"
    "judge_stage c item plan operation (rows_of_plan (plan_id plan) db) account worker db = (Inr a, calls, db')"
    using assms unfolding settle_stage_def Let_def run
    by (auto simp: no split: sum.splits option.splits if_splits)
  obtain path where path: "stage_identity_matches plan (dget worker ''stage'')"
    "stage_resources_match plan (dget worker ''stage'') = Inr True"
    "image_digest_ok (stage_image_digest (dget worker ''stage''))" "workspace_path (plan_uid plan) = Inr path"
    "persist_stage c item plan operation (rows_of_plan (plan_id plan) db) account worker path db = (Inr a, calls, db')"
    using parts(7) unfolding judge_stage_def Let_def
    by (auto simp: no split: sum.splits bool.splits if_splits)
  show thesis by (rule that [OF run parts(1-6) path(1-4)]) (use persist_success [OF path(5)] in auto)
qed

lemma persisted_reads:
  assumes "get_request db (crr_id item) = Some item" "get_plan db (plan_id plan) = Some plan"
    "get_operation db (oper_id operation) = Some operation"
    and db': "db' = persisted_stage c item plan operation rows account worker path db"
  shows "get_request db' (crr_id item) = Some (item\<lparr>crr_managed_user_id := Some (cc_id c 60),
      crr_status := ''KEY_ENROLLMENT_PENDING'', crr_active_slot := None, crr_updated_at := cc_now c\<rparr>)"
    "get_plan db' (plan_id plan) = Some (plan\<lparr>plan_state := ''STAGED'', plan_execution_enabled := True,
      plan_updated_at := cc_now c\<rparr>)"
    "get_operation db' (oper_id operation) = Some (completed_operation c worker operation)"
  using assms(1-3) unfolding db' persisted_stage_def
  by (simp_all add: stage_states_def lookups completed_operation_def)

lemma managed_tables:
  "t_managed_users (compute_audit c k e ot oi out md op db) = t_managed_users db"
  "t_managed_users (operation_event n t i f s m db) = t_managed_users db"
  "t_managed_users (modify_operation i g db) = t_managed_users db"
  "t_managed_users (own_sessions u1 u2 db) = t_managed_users db"
  "t_managed_users (modify_plan i pf db) = t_managed_users db"
  "t_managed_users (modify_request i qf db) = t_managed_users db"
  by (simp_all add: compute_audit_def record_audit_def add_audit_event_def operation_event_def add_operation_event_def
    modify_operation_def own_sessions_def modify_plan_def modify_request_def split: option.split)

lemma persisted_identity:
  "t_managed_users (persisted_stage c item plan operation rows account worker path db) =
   t_managed_users db @ [staged_identity c account plan]"
  by (simp add: persisted_stage_def stage_states_def managed_tables)
    (simp add: stage_rows_def modify_user_def add_storage_def add_container_def add_managed_def)

lemma lease_tables:
  "t_leases (compute_audit c k e ot oi out md op db) = t_leases db"
  "t_leases (operation_event n t i f s m db) = t_leases db"
  "t_leases (modify_operation i g db) = t_leases db" "t_leases (own_sessions u1 u2 db) = t_leases db"
  "t_leases (modify_plan i pf db) = t_leases db" "t_leases (modify_request i qf db) = t_leases db"
  "t_leases (update_rows rf rows db) = t_leases db"
  by (simp_all add: compute_audit_def record_audit_def add_audit_event_def operation_event_def add_operation_event_def
    modify_operation_def own_sessions_def modify_plan_def modify_request_def split: option.split)
    (induction rows arbitrary: db; simp add: update_rows_def modify_reservation_def)

lemma persisted_leases: "t_leases (persisted_stage c item plan operation rows account worker path db) = t_leases db"
  by (simp add: persisted_stage_def stage_states_def lease_tables)
    (simp add: stage_rows_def modify_user_def add_storage_def add_container_def add_managed_def)

text \<open>
  C17. A Stage that is accepted leaves exactly the planned environment: the worker answered success for
  the plan's user name, UID, GID and container; the account owns one new identity with the plan's values and a UID
  nobody had; the request waits for its key, the plan is \<open>STAGED\<close>, the operation \<open>SUCCEEDED\<close>; all five
  reservations of the plan are consumed; and no lease has started.
\<close>

theorem stage_success_exact:
  assumes "settle_stage c i answer db = (Inr a, calls, db')"
  shows "\<exists>item plan operation worker identity. running_stage c i db = Inr (item, plan, operation) \<and>
    answer = Inr worker \<and> calls = [] \<and>
    all_eq (dget worker ''stage'') [(''username'', PStr (plan_username plan)), (''uid'', PInt (plan_uid plan)),
      (''gid'', PInt (plan_gid plan)), (''host_ssh'', PStr ''DISABLED'')] \<and>
    t_managed_users db' = t_managed_users db @ [identity] \<and> get_managed db' (sa_managed_user_id a) = Some identity \<and>
    mu_portal_user_id identity = crr_portal_account_id item \<and> mu_uid identity = plan_uid plan \<and>
    mu_gid identity = plan_gid plan \<and> mu_unix_username identity = plan_username plan \<and>
    mu_container_port identity = Some (plan_container_ssh_port plan) \<and>
    plan_uid plan \<notin> mu_uid ` set (t_managed_users db) \<and>
    (\<exists>r. get_request db' i = Some r \<and> crr_status r = ''KEY_ENROLLMENT_PENDING'' \<and>
      crr_managed_user_id r = Some (mu_id identity)) \<and>
    (\<exists>p. get_plan db' (plan_id plan) = Some p \<and> plan_state p = ''STAGED'') \<and>
    (\<exists>o1. get_operation db' (oper_id operation) = Some o1 \<and> oper_status o1 = OP_SUCCEEDED) \<and>
    length (rows_of_plan (plan_id plan) db') = 5 \<and>
    list_all (\<lambda>r. resv_state r = ''CONSUMED'' \<and> resv_active_key r = None) (rows_of_plan (plan_id plan) db') \<and>
    t_leases db' = t_leases db"
proof -
  obtain item plan operation worker account path where s:
    "running_stage c i db = Inr (item, plan, operation)" "answer = Inr worker"
    "crr_status item = ''PROVISIONING''" "get_user db (crr_portal_account_id item) = Some account"
    "length (rows_of_plan (plan_id plan) db) = 5" "list_all (reserved_row item) (rows_of_plan (plan_id plan) db)"
    "has_eq worker ''status'' (PStr ''SUCCEEDED'')" "stage_identity_matches plan (dget worker ''stage'')"
    "stage_resources_match plan (dget worker ''stage'') = Inr True"
    "image_digest_ok (stage_image_digest (dget worker ''stage''))" "workspace_path (plan_uid plan) = Inr path"
    "calls = []" "sa_managed_user_id a = cc_id c 60" "provision_constraints db'"
    "db' = persisted_stage c item plan operation (rows_of_plan (plan_id plan) db) account worker path db"
    by (rule settle_success [OF assms])
  note found = running_stage_found [OF s(1)]
  let ?identity = "staged_identity c account plan"
  have users: "t_managed_users db' = t_managed_users db @ [?identity]" by (simp add: s(15) persisted_identity)
  have unique: "identities_constrained (t_managed_users db @ [?identity])"
    using s(14) unfolding provision_constraints_def users by simp
  then have fresh: "mu_id ?identity \<notin> mu_id ` set (t_managed_users db)" "mu_uid ?identity \<notin> mu_uid ` set (t_managed_users db)"
    by (simp_all add: identities_constrained_def)
  have "scalar (\<lambda>m. mu_id m = cc_id c 60) (t_managed_users db) = None"
    using fresh(1) by (force simp: scalar_None_iff staged_identity_def)
  then have managed: "get_managed db' (sa_managed_user_id a) = Some ?identity"
    by (simp add: get_managed_def users scalar_append s(13) staged_identity_def)
  have reads: "get_operation db (oper_id operation) = Some operation" using found(5,6) by simp
  note after = persisted_reads [OF found(1,4) reads s(15)]
  have distinct: "distinct (map resv_id (t_reservations db'))"
    using s(14) by (simp add: provision_constraints_def reservations_constrained_def)
  have table: "t_reservations db' = t_reservations (update_rows (consume_row (cc_now c)) (rows_of_plan (plan_id plan) db) db)"
    unfolding s(15) by (simp add: persisted_stage_def stage_states_def)
      (rule update_rows_same [of c False], simp_all add: row_write_def)
  have "distinct (map resv_id (t_reservations db))"
    using distinct unfolding table by (simp add: update_rows_table comp_def if_distrib cong: if_cong)
  from update_plan_rows [OF this, of "consume_row (cc_now c)"]
  have rows: "t_reservations db' = map (\<lambda>r. if resv_plan_id r = plan_id plan then consume_row (cc_now c) r else r)
      (t_reservations db)" by (simp add: table)
  have mine: "rows_of_plan (plan_id plan) db' = map (consume_row (cc_now c)) (rows_of_plan (plan_id plan) db)"
    unfolding rows_of_plan_def rows by (induction "t_reservations db") (auto simp: filter_map comp_def)
  have account: "user_id account = crr_portal_account_id item" using s(4) user_store.lookup_pk by blast
  show ?thesis
    by (intro exI [of _ item] exI [of _ plan] exI [of _ operation] exI [of _ worker] exI [of _ ?identity])
      (use s found users managed fresh after mine account in
        \<open>simp add: stage_identity_matches_def all_eq_def staged_identity_def completed_operation_def persisted_leases
          list_all_iff consume_row_def\<close>)
qed

end
