(* ===== verification/Compute_Replays.thy ===== *)
theory Compute_Replays
  imports Compute_Guarantees
begin

section \<open>How orchestrations end, and what repeats them\<close>

text \<open>
  An orchestration answers with the operation as it is stored; its workflow ends the operation; asking again with the same key
  answers from the database. The last part shows the one case in which asking again does harm.
\<close>

lemma get_through_more [simp]:
  "get_operation (end_request c item db) j = get_operation db j"
  "get_operation (release_unstarted c plan db) j = get_operation db j"
  "get_operation (add_orchestration c o1 db) j = get_operation (add_operation o1 db) j"
  by (simp_all add: end_request_def release_unstarted_def add_orchestration_def)

lemma response_fields [simp]:
  "oa_status (orchestration_response o1 b) = ''PROVISIONING'' \<longleftrightarrow> oper_status o1 = OP_RUNNING"
  "oa_status (orchestration_response o1 b) = ''KEY_ENROLLMENT_PENDING'' \<longleftrightarrow> oper_status o1 = OP_SUCCEEDED"
  "oa_operation_id (orchestration_response o1 b) = oper_id o1"
  "oa_idempotent_replay (orchestration_response o1 b) = b"
  by (simp_all add: orchestration_response_def)

text \<open>The operation as it is stored, and the answer made from it.\<close>

definition answers :: "portal_db \<Rightarrow> uuid \<Rightarrow> orchestration_answer \<Rightarrow> bool" where
  "answers db oid a \<longleftrightarrow> (\<exists>o1 b. get_operation db oid = Some o1 \<and> a = orchestration_response o1 b)"

lemma answers_fields:
  assumes "answers db oid a"
  shows "oa_operation_id a = oid"
    "\<exists>o1. get_operation db oid = Some o1 \<and> oa_status a = (if oper_status o1 = OP_RUNNING then ''PROVISIONING''
      else if oper_status o1 = OP_SUCCEEDED then ''KEY_ENROLLMENT_PENDING'' else ''FAILED'')"
  using assms operation_store.lookup_pk by (auto simp: answers_def orchestration_response_def)

lemma answers_status:
  "answers db oid a \<Longrightarrow> get_operation db oid = Some o1 \<Longrightarrow>
   (oa_status a = ''PROVISIONING'') = (oper_status o1 = OP_RUNNING)"
  by (auto simp: answers_def)

lemma answersI:
  "get_operation db oid = Some o1 \<Longrightarrow> oper_id o2 = oper_id o1 \<Longrightarrow> oper_status o2 = oper_status o1 \<Longrightarrow>
   answers db oid (orchestration_response o2 b)"
  unfolding answers_def orchestration_response_def by (intro exI [of _ o1] exI [of _ b]) simp

definition settled_answer :: "portal_db \<Rightarrow> uuid \<Rightarrow> orchestration_answer result \<Rightarrow> bool" where
  "settled_answer db oid r \<longleftrightarrow> (case r of Inl e \<Rightarrow> e = IntegrityError ''constraint''
     | Inr a \<Rightarrow> answers db oid a \<and> oa_status a \<noteq> ''PROVISIONING'')"

lemma failed_orchestration_fields [simp]:
  "oper_id (failed_orchestration c e m failure o1) = oper_id o1"
  "oper_status (failed_orchestration c e m failure o1) = OP_FAILED"
  by (simp_all add: failed_orchestration_def with_steps_def Let_def)

lemma failed_operation_read:
  "get_operation db oid = Some operation \<Longrightarrow>
   get_operation (failed_state c item operation e m db) oid =
     Some (failed_orchestration c e m (failure_of_attempt db item) operation)"
  using operation_store.lookup_pk [of db oid operation]
  by (simp add: failed_state_def Let_def lookups split: option.split)

lemma failure_settles:
  assumes "get_request db i = Some item" and "get_operation db oid = Some operation"
    and "finalize_orchestration_failure c i oid e m db = (r, db')"
  shows "settled_answer db' oid r"
proof (cases "oper_status operation = OP_RUNNING")
  case False
  then show ?thesis using assms
    by (auto simp: finalize_orchestration_failure_def admin_request_def settled_answer_def intro!: answersI)
next
  case True
  have "r = Inl unhandled \<or> (r = Inr (orchestration_response (operation\<lparr>oper_status := OP_FAILED\<rparr>) False) \<and>
      db' = failed_state c item operation e m db)"
    using assms True by (auto simp: finalize_orchestration_failure_def admin_request_def dest!: commit_cases)
  then show ?thesis using failed_operation_read [OF assms(2)]
    by (auto simp: settled_answer_def unhandled_def intro!: answersI)
qed

lemma success_settles:
  assumes "get_operation db oid = Some operation"
    and "finalize_orchestration_success c i oid db = (Inr a, db')"
  shows "answers db' oid a" "oa_status a = ''KEY_ENROLLMENT_PENDING''"
    "\<exists>item plan. get_request db' i = Some item \<and> crr_status item = ''KEY_ENROLLMENT_PENDING'' \<and>
      crr_managed_user_id item \<noteq> None \<and> crr_provision_plan_id item = Some (plan_id plan) \<and>
      get_plan db' (plan_id plan) = Some plan \<and> plan_state plan = ''STAGED''"
proof -
  obtain item plan owner where parts: "get_request db i = Some item" "current_plan db item = Some plan"
    "crr_managed_user_id item = Some owner" "plan_state plan = ''STAGED''" "crr_status item = ''KEY_ENROLLMENT_PENDING''"
    and res: "a = orchestration_response (operation\<lparr>oper_status := OP_SUCCEEDED\<rparr>) False"
      "db' = succeeded_state c item plan owner operation db"
    using assms by (auto simp: finalize_orchestration_success_def admin_request_def split: option.splits if_splits
      dest!: commit_cases)
  note pk = operation_store.lookup_pk [OF assms(1)]
  have "get_operation db' oid = Some (succeeded_orchestration c owner operation)"
    using assms(1) pk by (simp add: res(2) succeeded_state_def lookups succeeded_orchestration_def with_steps_def)
  then show "answers db' oid a" "oa_status a = ''KEY_ENROLLMENT_PENDING''"
    by (auto simp: res(1) intro!: answersI) (simp_all add: succeeded_orchestration_def with_steps_def)
  have "crr_provision_plan_id item = Some (plan_id plan)" "get_plan db (plan_id plan) = Some plan"
    using parts(2) plan_store.lookup_pk by (auto simp: current_plan_def split: option.splits)
  with parts show "\<exists>item plan. get_request db' i = Some item \<and> crr_status item = ''KEY_ENROLLMENT_PENDING'' \<and>
      crr_managed_user_id item \<noteq> None \<and> crr_provision_plan_id item = Some (plan_id plan) \<and>
      get_plan db' (plan_id plan) = Some plan \<and> plan_state plan = ''STAGED''"
    by (intro exI [of _ item] exI [of _ plan]) (simp add: res(2) succeeded_state_def)
qed

lemma follows_request:
  assumes "follows db db'" "sound db" "get_request db i = Some item"
  shows "\<exists>item'. get_request db' i = Some item' \<and> request_moves item item'"
proof -
  have "requests_move (t_resource_requests db) (t_resource_requests db')"
    using assms(1,2) by (simp add: follows_def sound_def lawful_def lawful_tables_def)
  then obtain r where r: "r \<in> set (t_resource_requests db')" "crr_id r = crr_id item" "request_moves item r"
    using found_request [OF assms(3)] unfolding requests_move_def by blast
  have "keyed db'" using follows_sound [OF assms(1,2)] by (simp add: sound_def)
  from get_request_member [OF this r(1)] r found_request [OF assms(3)] show ?thesis by auto
qed

lemma workflow_settles:
  assumes "sound db" and "orchestrated db i oid" and "get_request db i \<noteq> None"
    and "run_workflow orc i oid db = (r, calls, db')"
  shows "settled_answer db' oid r \<and> (\<forall>a. r = Inr a \<longrightarrow>
    oa_status a = ''KEY_ENROLLMENT_PENDING'' \<longrightarrow> oa_idempotent_replay a \<or>
    (\<exists>item plan. get_request db' i = Some item \<and> crr_status item = ''KEY_ENROLLMENT_PENDING'' \<and>
      crr_managed_user_id item \<noteq> None \<and> crr_provision_plan_id item = Some (plan_id plan) \<and>
      get_plan db' (plan_id plan) = Some plan \<and> plan_state plan = ''STAGED''))"
proof -
  obtain item where item: "get_request db i = Some item" using assms(3) by blast
  have exists: "\<exists>item' o1. get_request db2 i = Some item' \<and> get_operation db2 oid = Some o1" if "follows db db2" for db2
    using follows_request [OF that assms(1) item] follows_orchestrated [OF that assms(1,2)]
    by (auto simp: orchestrated_def)
  have fresh: "oa_idempotent_replay a \<or> oa_status a \<noteq> ''KEY_ENROLLMENT_PENDING''"
    if "finalize_orchestration_failure c i oid e m db2 = (Inr a, db3)" for c e m db2 db3 a
    using that by (auto simp: finalize_orchestration_failure_def
      split: sum.splits option.splits if_splits dest!: commit_cases)
  have fail: "settled_answer db3 oid r2 \<and> (\<forall>a. r2 = Inr a \<longrightarrow> oa_idempotent_replay a \<or> oa_status a \<noteq> ''KEY_ENROLLMENT_PENDING'')"
    if "follows db db2" "fail_orchestration orc i oid e db2 = (r2, db3)" for e db2 r2 db3
    using exists [OF that(1)] that(2) fresh failure_settles
    by (fastforce simp: fail_orchestration_def split: prod.splits)
  obtain r1 calls1 db1 where run: "run_steps (orchestration_steps orc i oid) db = (r1, calls1, db1)"
    by (cases "run_steps (orchestration_steps orc i oid) db") auto
  have base: "follows db db1"
    using follows_run_steps [of "orchestration_steps orc i oid" db] follows_orchestration_steps run by (metis snd_conv)
  obtain r2 db2 where fin: "finalize_orchestration_success (step_call orc oid 10) i oid db1 = (r2, db2)"
    by (cases "finalize_orchestration_success (step_call orc oid 10) i oid db1") auto
  have next1: "follows db db2"
    using follows_trans [OF base] follows_success fin by (metis snd_conv)
  show ?thesis
  proof (cases r1)
    case (Inl e)
    then show ?thesis using fail [OF base] assms(4) by (fastforce simp: run_workflow_def run split: prod.splits)
  next
    case (Inr u)
    show ?thesis
    proof (cases r2)
      case (Inl e)
      with Inr show ?thesis using fail [OF next1] assms(4)
        by (fastforce simp: run_workflow_def run fin split: prod.splits)
    next
      case s: (Inr a)
      obtain o1 where "get_operation db1 oid = Some o1" using exists [OF base] by blast
      from success_settles [OF this fin [unfolded s]] Inr s assms(4) show ?thesis
        by (auto simp: run_workflow_def run fin settled_answer_def)
    qed
  qed
qed

text \<open>
  C20. A workflow that starts is brought to its end: whatever its steps do and the worker answers, the
  operation of the orchestration is no longer \<open>RUNNING\<close> when it returns, and the answer tells its stored status, except
  when the database refuses the closing rows. It is \<open>SUCCEEDED\<close> in a fresh
  answer only when the request waits for its key with a staged plan and an identity.
\<close>

theorem orchestration_settles:
  assumes "sound db" and "orchestrated db i oid" and "get_request db i \<noteq> None"
    and "run_workflow orc i oid db = (r, calls, db')"
  shows "settled_answer db' oid r \<and> (\<forall>a. r = Inr a \<longrightarrow>
    oa_status a = ''KEY_ENROLLMENT_PENDING'' \<longrightarrow> oa_idempotent_replay a \<or>
    (\<exists>item plan. get_request db' i = Some item \<and> crr_status item = ''KEY_ENROLLMENT_PENDING'' \<and>
      crr_managed_user_id item \<noteq> None \<and> crr_provision_plan_id item = Some (plan_id plan) \<and>
      get_plan db' (plan_id plan) = Some plan \<and> plan_state plan = ''STAGED''))"
  by (rule workflow_settles [OF assms])

subsection \<open>Asking again\<close>

lemma run_answers:
  assumes "sound db" and "orchestrated db i oid" and "run_provision_orchestration orc i oid db = (Inr a, calls, db')"
  shows "answers db' oid a"
proof -
  obtain item o1 where found: "get_request db i = Some item" "get_operation db oid = Some o1"
    using assms(2,3) by (auto simp: run_provision_orchestration_def admin_request_def orchestrated_def
      split: option.splits)
  have failed: "answers db3 oid a" if "finalize_orchestration_failure c i oid e m db = (Inr a, db3)" for c e m db3
    using failure_settles [OF found that] by (simp add: settled_answer_def)
  have stored: "answers db oid (orchestration_response o1 b)" for b using found(2) by (rule answersI) simp_all
  have workflow: "answers db' oid a" if "run_workflow orc i oid db = (Inr a, calls, db')"
    using workflow_settles [OF assms(1,2) _ that] found(1) by (simp add: settled_answer_def)
  show ?thesis using assms(3) stored
    by (auto simp: run_provision_orchestration_def admin_request_def found split: prod.splits if_splits
      intro: success_settles(1) [OF found(2)] failed workflow)
qed

text \<open>What finds an orchestration by its key looks at nothing that changes later.\<close>

lemma scalar_grows:
  assumes "grows key xs ys" and "\<And>x y. key x = key y \<Longrightarrow> P x = P y" and "scalar P xs = Some x"
  shows "\<exists>y. scalar P ys = Some y \<and> key y = key x"
  using assms
proof (induction xs arbitrary: ys)
  case (Cons x0 xs)
  obtain zs where "map key ys = map key (x0 # xs) @ zs" using Cons.prems(1) by (auto simp: grows_def)
  then obtain y0 ys0 where ys: "ys = y0 # ys0" "key y0 = key x0" "map key ys0 = map key xs @ zs"
    by (cases ys) auto
  have P: "P y0 = P x0" using Cons.prems(2) ys(2) .
  show ?case
  proof (cases "P x0")
    case True
    then show ?thesis using Cons.prems(3) ys(1,2) P by simp
  next
    case False
    then have "scalar P xs = Some x" using Cons.prems(3) by simp
    moreover have "grows key xs ys0" using ys(3) by (auto simp: grows_def)
    ultimately obtain y where "scalar P ys0 = Some y" "key y = key x"
      using Cons.IH [OF _ Cons.prems(2)] by blast
    with False P ys(1) show ?thesis by simp
  qed
qed simp

lemma by_key_grows:
  assumes "follows db db'" "sound db" "orchestration_by_key db c item ot key = Some o1"
    and "cc_user c' = cc_user c" "crr_id item' = crr_id item"
  shows "\<exists>o2. orchestration_by_key db' c' item' ot key = Some o2 \<and> oper_id o2 = oper_id o1"
proof -
  let ?P = "\<lambda>o1. oper_requested_by o1 = user_id (cc_user c) \<and> oper_target_id o1 = crr_id item \<and>
    oper_operation_type o1 = ot \<and> oper_idempotency_key o1 = ot @ '':'' @ key"
  have P: "?P x = ?P y" if "operation_key x = operation_key y" for x y
    using operation_key_fields [OF that] by simp
  have "scalar ?P (t_operations db) = Some o1" using assms(3) by (simp add: orchestration_by_key_def)
  from scalar_grows [OF follows_grows [OF assms(1,2)] P this] obtain o2
    where "scalar ?P (t_operations db') = Some o2" "operation_key o2 = operation_key o1" by blast
  with assms(4,5) operation_key_fields [of o2 o1] show ?thesis by (simp add: orchestration_by_key_def)
qed

lemma administered_again:
  assumes "follows db db'" "sound db" "administered_request c i db = Inr item" "cc_user c' = cc_user c"
  shows "\<exists>item'. administered_request c' i db' = Inr item' \<and> crr_id item' = crr_id item"
proof -
  note found = administered_request_found [OF assms(3)]
  obtain item' where "get_request db' (crr_id item) = Some item'" "request_moves item item'"
    using follows_request [OF assms(1,2) found(1)] by blast
  with found assms(4) show ?thesis
    by (auto simp: administered_request_def request_id_of_def admin_request_def deny_self_administration_def
      request_moves_def dest: found_request)
qed

lemma orchestrate_replayed:
  assumes sound: "sound db" and ot: "ot \<in> {''compute.provision'', ''compute.provision.retry''}"
    and begins: "\<And>item oid db1. get_request db (crr_id item) = Some item \<Longrightarrow>
      crr_portal_account_id item \<noteq> user_id (cc_user (or_call orc)) \<Longrightarrow> begin_with item db = (Inr oid, db1) \<Longrightarrow>
      starts (crr_id item) db (Inr oid, db1) \<and>
      (orchestration_by_key db (or_call orc) item ot key = None \<longrightarrow>
       (\<exists>o1. orchestration_by_key db1 (or_call orc) item ot key = Some o1 \<and> oper_id o1 = oid))"
    and run: "orchestrate orc ot i key begin_with db = (Inr a, calls, db')" "oa_status a \<noteq> ''PROVISIONING''"
    and again: "cc_user (or_call orc') = cc_user (or_call orc)" "cc_csrf (or_call orc') = Inr ()"
  shows "\<exists>a'. orchestrate orc' ot i key begin' db' = (Inr a', [], db') \<and> oa_operation_id a' = oa_operation_id a \<and>
    oa_status a' = oa_status a \<and> oa_idempotent_replay a'"
proof -
  obtain item where item: "administered_request (or_call orc) i db = Inr item" "cc_csrf (or_call orc) = Inr ()"
    using run(1) by (auto simp: orchestrate_def Let_def split: sum.splits)
  note found = administered_request_found [OF item(1)]
  have member: "orchestrated db1 (crr_id item) (oper_id o1) \<and> get_operation db1 (oper_id o1) = Some o1"
    if "sound db1" "orchestration_by_key db1 (or_call orc) item ot key = Some o1" for db1 o1
    using that ot get_operation_member [of db1 o1]
    by (auto simp: orchestration_by_key_def orchestrates_def orchestrated_def sound_def dest: scalar_SomeD)
  have ending: "\<exists>o1. orchestration_by_key db1 (or_call orc) item ot key = Some o1 \<and> follows db db1 \<and>
      follows db1 db' \<and> answers db' (oper_id o1) a"
    if "follows db db1" "orchestration_by_key db1 (or_call orc) item ot key = Some o1"
      "run_provision_orchestration orc (crr_id item) (oper_id o1) db1 = (Inr a, calls, db')" for db1 o1
  proof -
    note sound1 = follows_sound [OF that(1) sound]
    have "orchestrated db1 (crr_id item) (oper_id o1)" using member [OF sound1 that(2)] by simp
    from run_answers [OF sound1 this that(3)] follows_run_orchestration [OF this, of orc] that
    show ?thesis by simp
  qed
  have "\<exists>db1 o1. orchestration_by_key db1 (or_call orc) item ot key = Some o1 \<and> follows db db1 \<and>
      follows db1 db' \<and> answers db' (oper_id o1) a"
  proof (cases "orchestration_by_key db (or_call orc) item ot key")
    case (Some o1)
    show ?thesis
    proof (cases "oper_status o1 = OP_RUNNING")
      case True
      then have "run_provision_orchestration orc (crr_id item) (oper_id o1) db = (Inr a, calls, db')"
        using run(1) item Some by (simp add: orchestrate_def Let_def)
      from ending [OF follows_refl Some this] show ?thesis by blast
    next
      case False
      then have "a = orchestration_response o1 True" "db' = db"
        using run(1) item Some by (simp_all add: orchestrate_def Let_def)
      with member [OF sound Some] Some show ?thesis
        by (intro exI [of _ db] exI [of _ o1]) (auto intro: answersI)
    qed
  next
    case None
    have no_running: "active_orchestration db item = None"
    proof (cases "active_orchestration db item")
      case (Some o1)
      then have "a = orchestration_response o1 True" "oper_status o1 = OP_RUNNING"
        using run(1) item None by (auto simp: orchestrate_def Let_def active_orchestration_def newest_operation_def
          dest: scalar_SomeD)
      with run(2) show ?thesis by simp
    qed
    then obtain oid db1 where begun: "begin_with item db = (Inr oid, db1)"
      "run_provision_orchestration orc (crr_id item) oid db1 = (Inr a, calls, db')"
      using run(1) item None by (auto simp: orchestrate_def Let_def split: sum.splits prod.splits)
    from begins [OF found(1,2) begun(1)] None obtain o1 where
      "starts (crr_id item) db (Inr oid, db1)" "orchestration_by_key db1 (or_call orc) item ot key = Some o1"
      "oper_id o1 = oid" by blast
    with ending [of db1 o1] begun(2) show ?thesis by (auto simp: starts_def)
  qed
  then obtain db1 o1 where o1: "orchestration_by_key db1 (or_call orc) item ot key = Some o1" "follows db db1"
      "follows db1 db'" "answers db' (oper_id o1) a" by blast
  have sound': "sound db'" using follows_sound [OF o1(3) follows_sound [OF o1(2) sound]] .
  obtain item' where item': "administered_request (or_call orc') i db' = Inr item'" "crr_id item' = crr_id item"
    using administered_again [OF follows_trans [OF o1(2,3)] sound item(1) again(1)] by blast
  obtain o2 where o2: "orchestration_by_key db' (or_call orc') item' ot key = Some o2" "oper_id o2 = oper_id o1"
    using by_key_grows [OF o1(3) follows_sound [OF o1(2) sound] o1(1) again(1) item'(2)] by blast
  have "o2 \<in> set (t_operations db')" using o2(1) by (auto simp: orchestration_by_key_def dest: scalar_SomeD)
  then have stored: "get_operation db' (oper_id o1) = Some o2"
    using get_operation_member [of db' o2] sound' o2(2) by (simp add: sound_def)
  then have finished: "oper_status o2 \<noteq> OP_RUNNING" using answers_status [OF o1(4)] run(2) by blast
  have "orchestrate orc' ot i key begin' db' = (Inr (orchestration_response o2 True), [], db')"
    using item' o2(1) finished again(2) by (simp add: orchestrate_def Let_def)
  moreover have "oa_status (orchestration_response o2 True) = oa_status a" "oa_operation_id a = oper_id o1"
    using answers_fields [OF o1(4)] stored by (auto simp: orchestration_response_def)
  ultimately show ?thesis using o2(2) by simp
qed

lemma begin_approval_key:
  assumes "begin_approval c remark key item db = (Inr oid, db1)"
    and "orchestration_by_key db c item ''compute.provision'' key = None"
  shows "\<exists>o1. orchestration_by_key db1 c item ''compute.provision'' key = Some o1 \<and> oper_id o1 = oid"
proof -
  obtain o1 where o1: "t_operations db1 = t_operations db @ [o1]" "oper_id o1 = oid"
      "oper_requested_by o1 = user_id (cc_user c)" "oper_target_id o1 = crr_id item"
      "oper_operation_type o1 = ''compute.provision''" "oper_idempotency_key o1 = ''compute.provision'' @ '':'' @ key"
    using assms(1) by (auto simp: begin_approval_def Let_def compute_audit_tables add_orchestration_def
      operation_event_tables add_operation_def modify_request_def new_orchestration_operation_def
      split: sum.splits if_splits dest!: commit_cases)
  with assms(2) show ?thesis by (auto simp: orchestration_by_key_def scalar_append)
qed

text \<open>
  Approving again with the same key starts nothing: once the orchestration that an approval started, or joined under
  its key, has ended, the same administrator's repetition of the request, whatever note and environment
  come with it, sends the worker nothing, changes nothing and answers with the same operation and its
  final status, marked as a replay.
\<close>

theorem approval_replayed:
  assumes "sound db" and "approve_and_provision orc i remark key db = (Inr a, calls, db')"
    and "oa_status a \<noteq> ''PROVISIONING''"
    and "cc_user (or_call orc') = cc_user (or_call orc)" and "cc_csrf (or_call orc') = Inr ()"
  shows "\<exists>a'. approve_and_provision orc' i remark' key db' = (Inr a', [], db') \<and>
    oa_operation_id a' = oa_operation_id a \<and> oa_status a' = oa_status a \<and> oa_idempotent_replay a'"
  unfolding approve_and_provision_def
proof (rule orchestrate_replayed [OF assms(1) _ _ _ assms(3-5)])
  show "orchestrate orc ''compute.provision'' i key (begin_approval (or_call orc) remark key) db = (Inr a, calls, db')"
    using assms(2) by (simp add: approve_and_provision_def)
  fix item oid db1
  assume item: "get_request db (crr_id item) = Some item" "crr_portal_account_id item \<noteq> user_id (cc_user (or_call orc))"
    and begun: "begin_approval (or_call orc) remark key item db = (Inr oid, db1)"
  from begin_approval_starts [OF item, of remark key] begin_approval_key [OF begun] begun
  show "starts (crr_id item) db (Inr oid, db1) \<and>
      (orchestration_by_key db (or_call orc) item ''compute.provision'' key = None \<longrightarrow>
       (\<exists>o1. orchestration_by_key db1 (or_call orc) item ''compute.provision'' key = Some o1 \<and> oper_id o1 = oid))"
    by simp
qed simp

subsection \<open>An orchestration that was interrupted\<close>

lemma constraints_cong:
  assumes "t_resource_requests db2 = t_resource_requests db1" "t_provision_plans db2 = t_provision_plans db1"
    "t_reservations db2 = t_reservations db1" "t_operations db2 = t_operations db1"
    "t_managed_users db2 = t_managed_users db1" "t_containers db2 = t_containers db1"
    "t_storage_resources db2 = t_storage_resources db1"
  shows "provision_constraints db2 = provision_constraints db1"
  using assms by (simp add: provision_constraints_def)

lemma constraints_entries [simp]:
  "provision_constraints (compute_audit c k e ot oi out md op db) = provision_constraints db"
  "provision_constraints (operation_event n t i f s m db) = provision_constraints db"
  by (rule constraints_cong; simp add: compute_audit_def record_audit_def add_audit_event_def operation_event_def
    add_operation_event_def split: option.split)+

lemma constraints_operation:
  assumes "provision_constraints db" and key: "\<And>o1. operation_key (f o1) = operation_key o1"
  shows "provision_constraints (modify_operation i f db)"
proof -
  have "operations_constrained (t_operations (modify_operation i f db))"
    using assms(1) operation_key_fields [OF key]
    by (simp add: provision_constraints_def operations_constrained_def modify_operation_def map_update_where)
  with assms(1) show ?thesis by (simp add: provision_constraints_def modify_operation_def)
qed

lemma present_values_update:
  assumes "\<And>r. g (f r) = None" and "distinct (present_values g rows)"
  shows "distinct (present_values g (update_where p f rows))"
proof -
  have "set (present_values g (update_where p f rows)) \<subseteq> set (present_values g rows) \<and>
      distinct (present_values g (update_where p f rows))"
    using assms(2) unfolding present_values_def
    by (induction rows) (auto simp: List.map_filter_simps assms(1) split: option.splits)
  then show ?thesis by simp
qed

lemma constraints_failed_request:
  assumes "provision_constraints db"
  shows "provision_constraints (modify_request i (\<lambda>r. r\<lparr>crr_status := ''FAILED'', crr_active_slot := None,
    crr_updated_at := t\<rparr>) db)"
proof -
  let ?f = "\<lambda>r. r\<lparr>crr_status := ''FAILED'', crr_active_slot := None, crr_updated_at := t\<rparr>"
  have reqs: "requests_constrained (t_resource_requests db)" using assms by (simp add: provision_constraints_def)
  have checks: "compute_resource_request_checks (?f r)" if "compute_resource_request_checks r" for r
    using that by (simp add: compute_resource_request_checks_def in_flight_request_states_def)
  have "requests_constrained (update_where (\<lambda>r. crr_id r = i) ?f (t_resource_requests db))"
    using reqs checks unfolding requests_constrained_def
    by (auto simp: map_update_where list_all_iff set_update_where intro!: present_values_update)
  then show ?thesis using assms by (simp add: provision_constraints_def modify_request_def)
qed

lemma plan_step_refuses:
  assumes "get_request db (crr_id item) = Some item" and "crr_status item = ''ACTIVE''"
    and "uuid_of i = Some (crr_id item)"
  shows "\<exists>e. plan_step c i key db = (Inl e, [], db)"
  using assms by (auto simp: plan_step_def administered_request_def request_id_of_def admin_request_def
    split: sum.split option.split)

lemma commit_ok: "provision_constraints after \<Longrightarrow> commit e a before after = (Inr a, after)"
  by (simp add: commit_def)

text \<open>The first steps of a workflow for a request that is \<open>ACTIVE\<close> by now: it stops at the plan.\<close>

lemma workflow_refused:
  assumes ok: "provision_constraints db" and item: "get_request db (crr_id item) = Some item"
    and active: "crr_status item = ''ACTIVE''" and o1: "get_operation db oid = Some o1" "oper_status o1 = OP_RUNNING"
    and canonical: "uuid_of (crr_id item) = Some (crr_id item)"
  obtains e n t m f where "\<And>o2. operation_key (f o2) = operation_key o2 \<and> oper_status (f o2) = oper_status o2"
    and "run_steps (orchestration_steps orc (crr_id item) oid) db =
      (Inl e, [], operation_event n t oid (Some OP_RUNNING) OP_RUNNING m (modify_operation oid f db))"
proof -
  define f where "f = with_steps (dict_put (workflow_steps o1) ''PREPARING'' (PStr ''RUNNING'')) []"
  have f: "operation_key (f o2) = operation_key o2 \<and> oper_status (f o2) = oper_status o2" for o2
    by (simp add: f_def) (simp add: with_steps_def)
  define c where "c = step_call orc oid 0"
  define db1 where "db1 = operation_event (cc_id c 0) (cc_now c) oid (Some OP_RUNNING) OP_RUNNING
    ''PREPARING: RUNNING'' (modify_operation oid f db)"
  have "provision_constraints db1"
    unfolding db1_def using constraints_operation [OF ok, of f oid] f by simp
  then have marked: "mark orc oid 0 ''PREPARING'' ''RUNNING'' db = (Inr (), [], db1)"
    using o1 by (simp add: mark_def set_workflow_step_def commit_ok flip: f_def c_def db1_def)
  have "get_request db1 (crr_id item) = Some item" using item by (simp add: db1_def)
  from plan_step_refuses [OF this active canonical, of "step_call orc oid 1"] obtain e
    where e: "plan_step (step_call orc oid 1) (crr_id item) (or_key orc oid ''allocate-and-reserve'') db1 = (Inl e, [], db1)"
    by blast
  have "prepare orc (crr_id item) oid db1 = (Inl e, [], db1)" unfolding prepare_def e by simp
  then have "run_steps (orchestration_steps orc (crr_id item) oid) db = (Inl e, [], db1)"
    by (simp add: orchestration_steps_def marked)
  with f show thesis unfolding db1_def by (rule that)
qed

lemma request_canonical:
  assumes "administered_request c i db = Inr item" and "uuid_of (crr_id item) = Some (crr_id item)"
  shows "get_request db (crr_id item) = Some item" "uuid_of (crr_id item) = Some (crr_id item)"
  using administered_request_found(1) [OF assms(1)] assms(2) by simp_all

lemma failed_state_constrained:
  assumes "provision_constraints db" and "current_plan db item = Some plan" and "plan_state plan = ''STAGED''"
  shows "provision_constraints (failed_state c item operation e m db)"
proof -
  have "(case (failure_of_attempt db item, current_plan db item) of
      (None, Some plan) \<Rightarrow> if plan_state plan \<in> set [''RESERVED'', ''READY_FOR_PROVISION'']
        then release_unstarted c plan db else db | _ \<Rightarrow> db) = db"
    using assms(2,3) by (auto split: option.split)
  moreover have "provision_constraints (end_request c item db)"
    using assms(1) constraints_failed_request [of db "crr_id item" "cc_now c"] by (simp add: end_request_def)
  ultimately show ?thesis unfolding failed_state_def Let_def by (simp add: constraints_operation)
qed

lemma failed_state_request:
  assumes "current_plan db item = Some plan" "plan_state plan = ''STAGED''" "get_request db (crr_id item) = Some item"
    and "crr_status item = ''ACTIVE''"
  shows "get_request (failed_state c item operation e m db) (crr_id item) =
    Some (item\<lparr>crr_status := ''FAILED'', crr_active_slot := None, crr_updated_at := cc_now c\<rparr>)"
    "t_managed_users (failed_state c item operation e m db) = t_managed_users db"
  using assms by (auto simp: failed_state_def Let_def end_request_def lookups managed_tables split: option.split)

text \<open>
  C38. An interrupted approval, asked for again after the user has activated the environment, marks the working request
  as failed. When the approval's operation was left \<open>RUNNING\<close> (the process ended between the Stage and
  the end of the orchestration) and the request is \<open>ACTIVE\<close> by now, the repetition answers \<open>FAILED\<close> without asking the
  worker, sets the request to \<open>FAILED\<close> and takes it out of its active slot, while the identity and its environment go on.
\<close>

theorem replay_fails_active_request:
  assumes "provision_constraints db" and "cc_csrf (or_call orc) = Inr ()"
    and "administered_request (or_call orc) i db = Inr item" and "uuid_of (crr_id item) = Some (crr_id item)"
    and "crr_status item = ''ACTIVE''"
    and "current_plan db item = Some plan" and "plan_state plan = ''STAGED''"
    and "orchestration_by_key db (or_call orc) item ''compute.provision'' key = Some o1"
    and "oper_status o1 = OP_RUNNING"
  shows "\<exists>a db' r. approve_and_provision orc i remark key db = (Inr a, [], db') \<and> oa_status a = ''FAILED'' \<and>
    get_request db' (crr_id item) = Some r \<and> crr_status r = ''FAILED'' \<and> crr_active_slot r = None \<and>
    crr_managed_user_id r = crr_managed_user_id item \<and> t_managed_users db' = t_managed_users db"
proof -
  note item = request_canonical [OF assms(3,4)]
  have member: "o1 \<in> set (t_operations db)" using assms(8) by (auto simp: orchestration_by_key_def dest: scalar_SomeD)
  have stored: "get_operation db (oper_id o1) = Some o1"
    using get_operation_member [OF constrained_keyed [OF assms(1)] member] .
  obtain e n t m f where f: "\<And>o2. operation_key (f o2) = operation_key o2 \<and> oper_status (f o2) = oper_status o2"
    and run: "run_steps (orchestration_steps orc (crr_id item) (oper_id o1)) db =
      (Inl e, [], operation_event n t (oper_id o1) (Some OP_RUNNING) OP_RUNNING m (modify_operation (oper_id o1) f db))"
    using workflow_refused [OF assms(1) item(1) assms(5) stored assms(9) item(2)] by metis
  define db1 where "db1 = operation_event n t (oper_id o1) (Some OP_RUNNING) OP_RUNNING m (modify_operation (oper_id o1) f db)"
  have same_id: "oper_id (f o2) = oper_id o2" for o2 using f operation_key_fields by blast
  have db1: "provision_constraints db1" "get_request db1 (crr_id item) = Some item" "current_plan db1 item = Some plan"
    "get_operation db1 (oper_id o1) = Some (f o1)" "t_managed_users db1 = t_managed_users db"
    using constraints_operation [OF assms(1), of f] f item(1) assms(6) stored
    by (auto simp: db1_def current_plan_def lookups same_id managed_tables split: option.splits)
  define c where "c = step_call orc (oper_id o1) 11"
  obtain code message where code: "end_of_error orc e = (code, message)" by (cases "end_of_error orc e") auto
  define db2 where "db2 = failed_state c item (f o1) code message db1"
  have "provision_constraints db2"
    unfolding db2_def by (rule failed_state_constrained [OF db1(1,3) assms(7)])
  then have "fail_orchestration orc (crr_id item) (oper_id o1) e db1 =
      (Inr (orchestration_response ((f o1)\<lparr>oper_status := OP_FAILED\<rparr>) False), db2)"
    using db1(2,4) f assms(9)
    by (simp add: fail_orchestration_def code finalize_orchestration_failure_def admin_request_def commit_ok
      flip: c_def db2_def)
  then have "run_provision_orchestration orc (crr_id item) (oper_id o1) db =
      (Inr (orchestration_response ((f o1)\<lparr>oper_status := OP_FAILED\<rparr>) False), [], db2)"
    using item(1) stored assms(5)
    by (simp add: run_provision_orchestration_def admin_request_def run_workflow_def run flip: db1_def)
  then have "approve_and_provision orc i remark key db =
      (Inr (orchestration_response ((f o1)\<lparr>oper_status := OP_FAILED\<rparr>) False), [], db2)"
    using assms(2,3,8,9) by (simp add: approve_and_provision_def orchestrate_def)
  moreover have "get_request db2 (crr_id item) =
      Some (item\<lparr>crr_status := ''FAILED'', crr_active_slot := None, crr_updated_at := cc_now c\<rparr>)"
    "t_managed_users db2 = t_managed_users db"
    using failed_state_request [OF db1(3) assms(7) db1(2) assms(5)] db1(5) by (simp_all add: db2_def)
  ultimately show ?thesis by (simp add: orchestration_response_def)
qed

end
