(* ===== verification/Operation_Samples.thy ===== *)
theory Operation_Samples
  imports Operation_Runs
begin

section \<open>Concrete runs of the operation routes\<close>

text \<open>
  An owner, his request and his session, an operation he plans and the staged operation he approved: the
  inputs at which the properties of \<open>Operation_Runs\<close> are applied.
\<close>

definition sample_owner :: portal_user where
  "sample_owner = (sample_user ''platform_owner'')\<lparr>user_normalized_login := ''origin-al''\<rparr>"

definition sample_op_context :: auth_context where
  "sample_op_context = \<lparr>ctx_user = sample_owner, ctx_session = Some (sample_session ''s2'' ''r'' None),
     ctx_session_raw = ''r'', ctx_actor_user = None, ctx_delegation = None, ctx_cli_token = None\<rparr>"

definition sample_op_request :: http_request where
  "sample_op_request = sample_request\<lparr>hreq_cookies := [(''h100_csrf'', ''c'')],
     hreq_headers := [(''origin'', ''https://20.10.10.3''), (''x-csrf-token'', ''c'')]\<rparr>"

definition sample_op_env :: op_env where
  "sample_op_env = \<lparr>oe_digest = (\<lambda>s. s), oe_ids = (\<lambda>n. replicate n CHR ''i''), oe_now = 10,
     oe_pydantic = \<lparr>lax_int = py_int, lax_uuid = (\<lambda>_. None)\<rparr>\<rparr>"

definition sample_plan_body :: operation_create_request where
  "sample_plan_body = \<lparr>ocr_operation_type = ''user.plan'', ocr_target_type = ''compute_identity'',
     ocr_target_id = ''origin-pilot'', ocr_request_summary = ''plan'',
     ocr_payload = PDict [(''username'', PStr ''origin-pilot'')], ocr_idempotency_key = ''key-0001''\<rparr>"

definition sample_stage :: portal_operation where
  "sample_stage = (draft_operation sample_op_env (sample_plan_body\<lparr>ocr_operation_type := ''user.stage'',
       ocr_idempotency_key := PORTAL3C_STAGE_IDEMPOTENCY_KEY\<rparr>) sample_op_context (''origin-pilot'', PNone, []))
     \<lparr>oper_status := OP_QUEUED, oper_approved_by := Some ''u1'', oper_validated_payload :=
        PDict (APPROVED_ORIGIN_PILOT_STAGE @ [(''approval_reference'', PStr PORTAL3C_STAGE_APPROVAL_REFERENCE)])\<rparr>"

definition sample_stage_db :: portal_db where
  "sample_stage_db = empty_db\<lparr>t_users := [sample_owner], t_operations := [sample_stage]\<rparr>"

lemma sample_csrf: "require_session_csrf (\<lambda>s. s) default_settings sample_op_request sample_op_context = Inr ()"
  by (simp add: require_session_csrf_def is_delegated_def is_cli_token_def sample_op_context_def
      sample_op_request_def sample_request_def ensure_allowed_origin_def header_def present_def default_settings_def
      csrf_pair_def cookie_def sample_session_def Let_def)

lemma sample_checks: "create_checks (oe_pydantic sample_op_env) sample_plan_body sample_op_context empty_db =
    Inr (''origin-pilot'', PDict [(''username'', PStr ''origin-pilot'')], [])"
proof -
  have permitted: "require_permission sample_owner ''users.write'' = Inr ()"
    by (simp add: require_permission_def has_permission_iff sample_owner_def sample_user_def
        role_permissions_eval PERMISSIONS_def)
  have target: "safe_target ''origin-pilot'' = Inr ''origin-pilot''"
    by (simp add: safe_target_def safe_target_re_def is_alnum_def is_lower_def is_upper_def is_digit_def)
  have lower: "casefold ''origin-pilot'' = ''origin-pilot''" by (simp add: casefold_def fold_char_def is_upper_def)
  have plain: "safe_target_re ''origin-pilot''" using target by (simp add: safe_target_def split: if_splits)
  have payload: "validate_operation_payload pyd ''user.plan'' (PDict [(''username'', PStr ''origin-pilot'')]) =
      Inr (PDict [(''username'', PStr ''origin-pilot'')])" for pyd
    by (simp add: validate_operation_payload_def payload_fields_def only_keys_def generic_payload_def username_ok_def
        has_keys_def lower plain Let_def)
  show ?thesis
    by (simp add: create_checks_def sample_plan_body_def WRITE_OPERATION_TYPES_def fixed_console_code_def
        OPERATION_PERMISSIONS_def sample_op_context_def Let_def permitted target payload)
qed

lemma sample_created:
  "\<exists>db'. create_operation sample_op_env default_settings (\<lambda>_. Inl ''X'') sample_op_request sample_plan_body
     sample_op_context empty_db = (Inr [], [plan_request sample_plan_body sample_op_context
       (PDict [(''username'', PStr ''origin-pilot'')])], db') \<and> [] \<in> oper_id ` set (t_operations db')"
proof -
  have kind: "ocr_operation_type sample_plan_body = ''user.plan''" by (simp add: sample_plan_body_def)
  have digest: "oe_digest sample_op_env = (\<lambda>s. s)" by (simp add: sample_op_env_def)
  have id: "oe_ids sample_op_env 0 = []" and none: "t_operations empty_db = []"
    by (simp_all add: sample_op_env_def empty_db_def)
  let ?checked = "(''origin-pilot'', PDict [(''username'', PStr ''origin-pilot'')], [])"
  let ?acts = "draft_actions sample_op_env (\<lambda>_. Inl ''X'') sample_op_request sample_plan_body sample_op_context ?checked"
  have done_: "fst (effect f db) = Inr ()" "snd (effect f db) = f db" for f :: "portal_db \<Rightarrow> portal_db" and db
    by (simp_all add: effect_def)
  have "fst (run_actions ?acts empty_db) = Inr ()"
    by (simp add: draft_actions_def Let_def kind planned_types_def plan_draft_def plan_effect_def plan_audit_def
        route_audit_def done_)
  then obtain db' where ran: "run_actions ?acts empty_db = (Inr (), db')" by (metis prod.collapse)
  have "map row_key (t_operations db') = [([], user_id (ctx_user sample_op_context), ocr_idempotency_key sample_plan_body)]"
    using created_row_keys [OF ran refl] by (simp add: id none)
  then have "[] \<in> oper_id ` set (t_operations db')" by (auto simp: row_key_def)
  then show ?thesis
    by (simp add: create_operation_def digest sample_csrf sample_checks kind planned_types_def Let_def none id ran)
qed

lemma sample_stage_real: "is_portal3c_real_stage (oe_pydantic sample_op_env) sample_stage (Some sample_owner) (Some sample_owner)"
proof -
  let ?plan = "PDict (APPROVED_ORIGIN_PILOT_STAGE @ [(''approval_reference'', PStr PORTAL3C_STAGE_APPROVAL_REFERENCE)])"
  let ?pyd = "oe_pydantic sample_op_env"
  have int: "lax_int ?pyd (PInt n) = Some n" for n by (simp add: sample_op_env_def)
  have reference: "reference_re PORTAL3C_STAGE_APPROVAL_REFERENCE"
    by (simp add: reference_re_def PORTAL3C_STAGE_APPROVAL_REFERENCE_def is_alnum_def is_lower_def is_upper_def is_digit_def)
  have model: "stage_model ?pyd ?plan = Some (APPROVED_ORIGIN_PILOT_STAGE @
      [(''approval_reference'', PStr PORTAL3C_STAGE_APPROVAL_REFERENCE)])"
    by (simp add: stage_model_def stage_fields_def APPROVED_ORIGIN_PILOT_STAGE_def only_keys_def optional_field_def
        int_in_def literal_def literal_int_def text_in_def int reference)
  have valid: "validate_operation_payload ?pyd ''user.stage'' ?plan = Inr ?plan"
    by (simp add: validate_operation_payload_def stage_payload_def model)
      (simp add: APPROVED_ORIGIN_PILOT_STAGE_def STAGE_PUBLIC_KEY_FIELDS_def FORBIDDEN_SECRET_OR_COMMAND_FIELDS_def has_keys_def has_eq_def)
  have pinned: "pinned_operation ''user.stage'' PORTAL3C_STAGE_IDEMPOTENCY_KEY sample_stage (Some sample_owner) (Some sample_owner)"
    by (simp add: pinned_operation_def sample_stage_def draft_operation_def sample_plan_body_def sample_owner_def sample_user_def)
  have stored: "oper_validated_payload sample_stage = ?plan" by (simp add: sample_stage_def)
  have same: "py_eq ?plan ?plan" by (simp add: APPROVED_ORIGIN_PILOT_STAGE_def)
  have quoted: "has_eq ?plan ''approval_reference'' (PStr PORTAL3C_STAGE_APPROVAL_REFERENCE)"
    by (simp add: APPROVED_ORIGIN_PILOT_STAGE_def has_eq_def)
  show ?thesis unfolding is_portal3c_real_stage_def stored valid sum.case using pinned same quoted by blast
qed

lemma sample_stage_get: "get_operation sample_stage_db [] = Some sample_stage"
  by (simp add: get_operation_def sample_stage_db_def sample_stage_def draft_operation_def sample_op_env_def)

lemma sample_stage_queued: "oper_status sample_stage = OP_QUEUED"
  by (simp add: sample_stage_def)

theorem real_execution_pinned_witness:
  "\<exists>r calls db' request. execute_operation sample_op_env (\<lambda>_. Inl ''X'') [] [] ''a'' sample_stage_db = (r, calls, db') \<and>
     request \<in> set calls \<and> \<not> wr_dry_run request \<and> wr_requested_by request = ''origin-al''"
proof -
  let ?request = "execution_request True sample_stage (Some sample_owner) (Some sample_owner) ''a''"
  let ?run = "execute_operation sample_op_env (\<lambda>_. Inl ''X'') [] [] ''a'' sample_stage_db"
  have people: "get_user sample_stage_db (oper_requested_by sample_stage) = Some sample_owner"
    "oper_approved_by sample_stage = Some ''u1''" "get_user sample_stage_db ''u1'' = Some sample_owner"
    by (simp_all add: get_user_def sample_stage_db_def sample_stage_def draft_operation_def sample_op_context_def
        sample_owner_def sample_user_def)
  have kind: "oper_operation_type sample_stage = ''user.stage''"
    by (simp add: sample_stage_def draft_operation_def)
  have "\<not> is_portal3e_final_real_activate pyd quote db sample_stage r a" for pyd quote db r a
    by (simp add: is_portal3e_final_real_activate_def pinned_operation_def kind)
  then have run: "?run = execute_controlled sample_op_env (\<lambda>_. Inl ''X'') True sample_stage
      (Some sample_owner) (Some sample_owner) ''a'' sample_stage_db"
    by (simp add: execute_operation_def sample_stage_get sample_stage_queued people kind sample_stage_real Let_def)
  obtain r calls db' where step: "?run = (r, calls, db')" by (metis prod_cases3)
  have id: "oper_id sample_stage = []" by (simp add: sample_stage_def draft_operation_def sample_op_env_def)
  have "status_of sample_stage_db [] = Some OP_QUEUED"
    by (simp add: status_of_def sample_stage_get sample_stage_queued)
  then obtain running where "run_actions [transition sample_op_env 2 [] OP_RUNNING ''Controlled Worker Stage started'',
      set_operation [] (\<lambda>o'. o'\<lparr>oper_started_at := Some (oe_now sample_op_env)\<rparr>)] sample_stage_db = (Inr (), running)"
    by (rule started)
  then have "?request \<in> set calls"
    using step unfolding run
    by (auto simp: execute_controlled_def Let_def id split: prod.splits sum.splits)
  moreover have "\<not> wr_dry_run ?request" by (simp add: execution_request_def)
  moreover from real_execution_pinned [OF step calculation] have "wr_requested_by ?request = ''origin-al''" by blast
  ultimately show ?thesis using step by blast
qed

lemma sample_new_row: "oe_ids sample_op_env 0 \<notin> oper_id ` set (t_operations empty_db)"
  by (simp add: empty_db_def)

theorem operation_history_recorded_witness:
  "\<exists>db o1 ss. get_operation db [] = Some o1 \<and> legal_run can_transition OP_DRAFT ss \<and>
     trail db [] = map status_value (OP_DRAFT # ss)"
proof -
  let ?worker = "\<lambda>_ :: operation_call. Inl ''X'' :: string + pyval"
  let ?calls = "[plan_request sample_plan_body sample_op_context (PDict [(''username'', PStr ''origin-pilot'')])]"
  obtain db' where create: "create_operation sample_op_env default_settings ?worker sample_op_request
      sample_plan_body sample_op_context empty_db = (Inr [], ?calls, db')" and "[] \<in> oper_id ` set (t_operations db')"
    using sample_created by blast
  have start: "op_run default_settings [] empty_db []" by (rule op_run.start) (simp_all add: empty_db_def)
  have run: "op_run default_settings [] db' ([] @ ?calls)" by (rule op_run.create [OF start sample_new_row create])
  obtain o1 where "get_operation db' [] = Some o1"
    using \<open>[] \<in> oper_id ` set (t_operations db')\<close>
    by (cases "get_operation db' []") (auto simp: get_operation_def scalar_None_iff)
  with operation_history_recorded [OF run this] show ?thesis by blast
qed

theorem routes_never_write_witness:
  "wr_dry_run (plan_request sample_plan_body sample_op_context (PDict [(''username'', PStr ''origin-pilot'')]))"
proof -
  obtain db' where create: "create_operation sample_op_env default_settings (\<lambda>_. Inl ''X'') sample_op_request
      sample_plan_body sample_op_context empty_db = (Inr [], [plan_request sample_plan_body sample_op_context
        (PDict [(''username'', PStr ''origin-pilot'')])], db')"
    using sample_created by blast
  have start: "op_run default_settings [] empty_db []" by (rule op_run.start) (simp_all add: empty_db_def)
  show ?thesis
    by (rule routes_never_write [OF op_run.create [OF start sample_new_row create]]) simp
qed

theorem execution_settles_witness:
  "\<exists>calls db'. execute_operation sample_op_env (\<lambda>_. Inl ''X'') [] [] ''a'' sample_stage_db = (Inr (), calls, db') \<and>
     settled db' []"
proof -
  have "well_formed_answers (\<lambda>_. Inl ''X'')" by (simp add: well_formed_answers_def)
  from execution_settles [OF sample_stage_get sample_stage_queued this] show ?thesis by blast
qed

theorem create_operation_idempotent_witness:
  "\<exists>db r. create_operation sample_op_env default_settings (\<lambda>_. Inl ''Y'') sample_op_request
     (sample_plan_body\<lparr>ocr_request_summary := ''again''\<rparr>) sample_op_context db = (r, [], db) \<and>
     (r = Inr [] \<or> (\<exists>e. r = Inl e))"
proof -
  obtain calls db' where create: "create_operation sample_op_env default_settings (\<lambda>_. Inl ''X'') sample_op_request
      sample_plan_body sample_op_context empty_db = (Inr [], calls, db')"
    using sample_created by blast
  have "ocr_idempotency_key (sample_plan_body\<lparr>ocr_request_summary := ''again''\<rparr>) = ocr_idempotency_key sample_plan_body"
    by simp
  from create_operation_idempotent [OF create refl this] show ?thesis by blast
qed

end
