(* ===== verification/Compute_Samples.thy ===== *)
theory Compute_Samples
  imports Compute_Replays Operation_Samples
begin

section \<open>Concrete compute requests\<close>

text \<open>
  A request of the user Alice through its life: asked for, planned and validated by a dry run, with its
  Stage running, and active with an approval that was interrupted. The administrator is the owner of
  \<open>Operation_Samples\<close>, freshly reauthenticated.
\<close>

subsection \<open>The rows\<close>

definition ask_id :: uuid where
  "ask_id = ''00000000-0000-0000-0000-00000000000a''"

definition alice :: portal_user where
  "alice = (sample_user ''user'')\<lparr>user_id := ''u'', user_login_name := ''alice'', user_normalized_login := ''alice''\<rparr>"

definition asked :: portal_compute_resource_request where
  "asked = sample_item\<lparr>crr_id := ask_id, crr_status := ''REQUESTED'', crr_active_slot := Some 1,
     crr_provision_plan_id := None\<rparr>"

definition granted :: "string \<Rightarrow> portal_compute_resource_request" where
  "granted status = asked\<lparr>crr_status := status, crr_reviewed_by := Some ''u1'', crr_approved_at := Some 0,
     crr_provision_plan_id := Some ''P''\<rparr>"

definition ones :: "nat \<Rightarrow> pyval" where
  "ones n = PStr (replicate n CHR ''1'')"

definition contract_argument :: "int \<Rightarrow> string \<Rightarrow> pyval" where
  "contract_argument i semantic = PDict [(''index'', PInt i), (''semantic_role'', PStr semantic),
     (''binding_status'', PStr ''VALID'')]"

definition sample_contract :: pyval where
  "sample_contract = PDict
     [(''status'', PStr ''PASS''), (''contract_sha256'', ones 64),
      (''handler'', PDict [(''identity'', PStr ''h100-provision-stage''),
         (''deployed_path'', PStr ''/usr/local/sbin/h100-provision-stage''), (''sha256'', ones 64),
         (''integrity_status'', PStr ''PASS'')]),
      (''argv_contract'', PDict [(''version'', PStr ''compute-provision-stage-argv-v2''), (''sha256'', ones 64),
         (''shape_status'', PStr ''PASS''), (''shell_argument_count'', PInt 15),
         (''expected_shell_argument_count'', PInt 15), (''multi_digit_position_status'', PStr ''PASS''),
         (''argument_14'', contract_argument 14 ''EXPLICIT_STAGE_CONFIRMATION_FLAG''),
         (''argument_15'', contract_argument 15 ''CONFIRMED_TARGET_USERNAME'')]),
      (''confirmation_gate'', PDict [(''identity'', PStr ''EXPLICIT_STAGE_CONFIRMATION_GATE''),
         (''validator_version'', PStr ''compute-provision-stage-confirmation-validator-v2''),
         (''validator_sha256'', ones 64), (''status'', PStr ''PASS'')]),
      (''image_contract'', PDict [(''status'', PStr ''PASS''),
         (''validator_version'', PStr ''compute-provision-stage-local-image-v2''),
         (''source_type'', PStr ''LOCAL_OCI_LAYOUT''),
         (''canonical_local_image_identity'', PStr (''sha256:'' @ replicate 64 CHR ''2'')),
         (''artifact_path'', PStr (OCI_ROOT @ replicate 64 CHR ''3'' @ ''/layout'')),
         (''manifest_digest'', PStr (''sha256:'' @ replicate 64 CHR ''3'')), (''platform'', PStr ''linux/amd64''),
         (''effective_user'', PStr ''root''),
         (''source_reference'', PStr ''h100-local/dev-container:ubuntu24.04-origin-pilot-20260804''),
         (''source_build_version'', PStr ''ubuntu24.04-origin-pilot-20260804''),
         (''approved_deployment_version'', ones 40), (''failure_code'', PNone)])]"

definition dry_run_report :: pyval where
  "dry_run_report = PDict [(''dry_run_status'', PStr ''READY_FOR_PROVISION''), (''stage_contract'', sample_contract)]"

definition planned_as :: "string \<Rightarrow> bool \<Rightarrow> portal_provision_plan" where
  "planned_as state enabled = sample_plan\<lparr>plan_request_id := ask_id, plan_state := state,
     plan_execution_enabled := enabled, plan_reservation_expires_at := 100, plan_dry_run_at := Some 0,
     plan_dry_run_result := dry_run_report\<rparr>"

definition live_rows :: "portal_resource_reservation list" where
  "live_rows = map (\<lambda>r. r\<lparr>resv_request_id := ask_id, resv_state := ''RESERVED'', resv_expires_at := 100\<rparr>) sample_holds"

definition dry_run_done_operation :: portal_operation where
  "dry_run_done_operation = Provision_Reconciliation.sample_stage\<lparr>oper_id := ''D'',
     oper_operation_type := ''compute.provision.dry_run'', oper_target_id := ask_id, oper_idempotency_key := ''d'',
     oper_status := OP_SUCCEEDED, oper_dry_run_result := dry_run_report,
     oper_validated_payload := PDict [(''plan_id'', PStr ''P''), (''stage_contract_sha256'', ones 64)]\<rparr>"

definition request_db :: "portal_compute_resource_request \<Rightarrow> portal_operation list \<Rightarrow> portal_db" where
  "request_db item ops = empty_db\<lparr>t_users := [sample_owner, alice], t_resource_requests := [item],
     t_operations := ops\<rparr>"

definition ready_db :: portal_db where
  "ready_db = (request_db (granted ''PROVISION_PLAN_READY'') [dry_run_done_operation])
     \<lparr>t_provision_plans := [planned_as ''READY_FOR_PROVISION'' False], t_reservations := live_rows\<rparr>"

subsection \<open>The administrator's call\<close>

definition sample_admin_context :: auth_context where
  "sample_admin_context = sample_op_context\<lparr>ctx_session :=
     Some ((sample_session ''s2'' ''r'' None)\<lparr>sess_reauthenticated_at := Some 10\<rparr>)\<rparr>"

definition call_with :: "op_worker \<Rightarrow> compute_call" where
  "call_with worker = \<lparr>cc_env = sample_op_env, cc_settings = default_settings, cc_request = sample_op_request,
     cc_context = sample_admin_context, cc_worker = worker, cc_version = ''v'', cc_parent = None\<rparr>"

definition slot_id :: "nat \<Rightarrow> uuid" where
  "slot_id n = replicate n CHR ''i''"

lemma slot_ids [simp]: "slot_id k = slot_id l \<longleftrightarrow> k = l" "slot_id k \<noteq> ''D''" "''D'' \<noteq> slot_id k"
proof -
  show "slot_id k = slot_id l \<longleftrightarrow> k = l" by (auto simp: slot_id_def dest: arg_cong [where f = length])
  show "slot_id k \<noteq> ''D''" "''D'' \<noteq> slot_id k" by (cases k; simp add: slot_id_def)+
qed

lemma call_fields [simp]:
  "cc_now (call_with worker) = 10" "cc_id (call_with worker) n = slot_id n" "cc_worker (call_with worker) = worker"
  "cc_parent (call_with worker) = None" "user_id (cc_user (call_with worker)) = ''u1''"
  by (simp_all add: call_with_def cc_now_def cc_id_def cc_user_def sample_op_env_def slot_id_def sample_admin_context_def
    sample_op_context_def sample_owner_def sample_user_def)

lemma call_csrf [simp]: "cc_csrf (call_with worker) = Inr ()"
  by code_simp

lemma call_recent [simp]: "cc_recent (call_with worker) = Inr ()"
  by code_simp

lemma ask_uuid: "uuid_of ask_id = Some ask_id"
  by code_simp

lemma contract_ready: "ready_stage_contract dry_run_report = Some sample_contract"
  by code_simp

lemmas row_samples = granted_def asked_def sample_item_def planned_as_def sample_plan_def live_rows_def
  sample_holds_def sample_hold_def dry_run_done_operation_def Provision_Reconciliation.sample_stage_def

lemmas constrained_defs = requests_constrained_def plans_constrained_def
  reservations_constrained_def operations_constrained_def identities_constrained_def environments_constrained_def
  present_values_def compute_resource_request_checks_def provision_plan_checks_def
  resource_reservation_checks_def in_flight_request_states_def

lemmas effect_rows = modify_plan_def modify_request_def modify_operation_def
  modify_user_def own_sessions_def add_operation_def add_request_def add_plan_def add_storage_def
  add_container_def add_managed_def compute_audit_def record_audit_def add_audit_event_def operation_event_def
  add_operation_event_def update_where_def

lemma planned_id [simp]: "plan_id (planned_as state enabled) = ''P''"
  by (simp add: row_samples)

lemma granted_fields [simp]:
  "crr_id (granted status) = ask_id" "crr_id asked = ask_id" "crr_portal_account_id (granted status) = ''u''"
  "crr_portal_account_id asked = ''u''" "crr_status (granted status) = status"
  "crr_provision_plan_id (granted status) = Some ''P''" "crr_managed_user_id (granted status) = None"
  by (simp_all add: row_samples)

lemma request_db_tables [simp]:
  "t_users (request_db item ops) = [sample_owner, alice]" "t_resource_requests (request_db item ops) = [item]"
  "t_operations (request_db item ops) = ops" "t_provision_plans (request_db item ops) = []"
  "t_reservations (request_db item ops) = []" "t_managed_users (request_db item ops) = []"
  "t_containers (request_db item ops) = []" "t_storage_resources (request_db item ops) = []"
  "t_leases (request_db item ops) = []" "t_ssh_keys (request_db item ops) = []"
  by (simp_all add: request_db_def empty_db_def)

lemma no_rows [simp]: "identities_constrained []" "environments_constrained [] []" "plans_constrained []"
  "reservations_constrained []"
  by (simp_all add: constrained_defs)

lemma live_rows_constrained [simp]: "reservations_constrained live_rows"
  by (simp add: constrained_defs row_samples)

lemma ready_rows: "t_resource_requests ready_db = [granted ''PROVISION_PLAN_READY'']"
  "t_provision_plans ready_db = [planned_as ''READY_FOR_PROVISION'' False]" "t_reservations ready_db = live_rows"
  "t_operations ready_db = [dry_run_done_operation]" "t_users ready_db = [sample_owner, alice]"
  "t_managed_users ready_db = []" "t_containers ready_db = []" "t_storage_resources ready_db = []"
  by (simp_all add: ready_db_def)

lemma alice_may: "assert_identity_only db alice = None" if "t_managed_users db = []"
  using that by (simp add: assert_identity_only_def alice_def sample_user_def PROTECTED_USERNAMES_def)

lemma live_of_plan: "rows_of_plan ''P'' db = live_rows" if "t_reservations db = live_rows"
  using that by (simp add: rows_of_plan_def row_samples)

lemma live_filter: "filter (\<lambda>r. resv_state r = ''RESERVED'' \<and> (\<exists>y. resv_active_key r = Some y)) live_rows = live_rows"
  by (simp add: row_samples)

definition ready_target :: stage_target where
  "ready_target = \<lparr>st_item = granted ''PROVISION_PLAN_READY'', st_plan = planned_as ''READY_FOR_PROVISION'' False,
     st_contract = sample_contract, st_rows = live_rows, st_dry_run = dry_run_done_operation\<rparr>"

lemma ready_found: "find_stage_target (call_with worker) (granted ''PROVISION_PLAN_READY'') ready_db = Inr ready_target"
proof -
  let ?item = "granted ''PROVISION_PLAN_READY''" and ?plan = "planned_as ''READY_FOR_PROVISION'' False"
  have plan: "get_plan ready_db ''P'' = Some ?plan" by (simp add: get_plan_def ready_rows)
  have shape: "plan_dry_run_result ?plan = dry_run_report" "plan_reservation_expires_at ?plan = 100"
    by (simp_all add: planned_as_def)
  have done1: "dry_run_done ?plan" by (simp add: dry_run_done_def planned_as_def dry_run_report_def has_eq_def)
  have bound: "plan_binding ?item ?plan = None" by (simp add: plan_binding_def row_samples)
  have user: "applicant ready_db ?item = Inr alice"
    by (simp add: applicant_def get_user_def ready_rows alice_may)
      (simp add: alice_def sample_user_def sample_owner_def)
  have rows: "bound_reservations 10 ready_db ?item ?plan = Inr live_rows"
    by (simp add: bound_reservations_def live_of_plan ready_rows live_filter)
      (simp add: row_samples expected_values_def bound_row_def)
  have evidence: "dry_run_evidence ready_db ?item ?plan sample_contract = Some dry_run_done_operation"
    by (simp add: dry_run_evidence_def ready_rows order_desc_def)
      (simp add: dry_run_done_operation_def contract_ready contract_sha_def sample_contract_def ones_def)
  show ?thesis
    by (simp add: find_stage_target_def plan shape done1 contract_ready parent_contract_ok_def bound user rows evidence
      ready_target_def) (simp add: row_samples)
qed

text \<open>The Stage is dispatched whatever the worker will answer.\<close>

definition stage_of_alice :: portal_operation where
  "stage_of_alice = stage_operation (call_with (\<lambda>_. Inl ''UNREACHABLE'')) ready_target ''k1''"

lemma stage_of_alice_same: "stage_operation (call_with worker) ready_target ''k1'' = stage_of_alice"
  by (simp add: stage_of_alice_def stage_operation_def stage_payload_of_def internal_payload_def)

definition running_db :: portal_db where
  "running_db = (request_db (granted ''PROVISIONING'') [dry_run_done_operation, stage_of_alice])
     \<lparr>t_provision_plans := [planned_as ''PROVISIONING'' True], t_reservations := live_rows\<rparr>"

lemma running_rows: "t_resource_requests running_db = [granted ''PROVISIONING'']"
  "t_provision_plans running_db = [planned_as ''PROVISIONING'' True]" "t_reservations running_db = live_rows"
  "t_operations running_db = [dry_run_done_operation, stage_of_alice]" "t_users running_db = [sample_owner, alice]"
  "t_managed_users running_db = []" "t_containers running_db = []" "t_storage_resources running_db = []"
  by (simp_all add: running_db_def)

lemma stage_fields [simp]: "oper_id stage_of_alice = slot_id 40" "oper_status stage_of_alice = OP_RUNNING"
  by (simp_all add: stage_of_alice_def stage_operation_def)

lemma stage_dispatched:
  "call \<in> set (fst (snd (provision_reserved_compute_environment (call_with worker) ask_id ''k1'' ready_db)))"
  if "call = stage_call (call_with worker) ready_target"
proof -
  have item: "administered_request (call_with worker) ask_id ready_db = Inr (granted ''PROVISION_PLAN_READY'')"
    by (simp add: administered_request_def request_id_of_def ask_uuid admin_request_def get_request_def ready_rows
      deny_self_administration_def)
  have "fst (start_stage (call_with worker) ready_target ''k1'' ready_db) = Inr ()"
    by (simp add: start_stage_def Let_def stage_of_alice_same commit_def provision_constraints_def effect_rows ready_rows
        ready_target_def)
      (simp add: constrained_defs row_samples stage_of_alice_def stage_operation_def ask_id_def)
  then obtain db' where start: "start_stage (call_with worker) ready_target ''k1'' ready_db = (Inr (), db')"
    by (metis prod.collapse)
  show ?thesis
    by (simp add: provision_reserved_compute_environment_def item ready_found execute_stage_def start that split: prod.split)
qed

subsection \<open>Answers of the running Stage\<close>

lemma stage_running: "running_stage (call_with worker) ask_id running_db =
    Inr (granted ''PROVISIONING'', planned_as ''PROVISIONING'' True, stage_of_alice)"
  by (simp add: running_stage_def admin_request_def get_request_def get_plan_def get_operation_def running_rows)
    (simp add: dry_run_done_operation_def)

lemma closing_constrained: "provision_constraints db"
  if "t_resource_requests db = [r]" "t_provision_plans db = [p]"
    "map oper_id (t_operations db) = [i1, i2]" "map oper_idempotency_key (t_operations db) = [k1, k2]"
    "t_managed_users db = []" "t_containers db = []" "t_storage_resources db = []"
    "reservations_constrained (t_reservations db)" "compute_resource_request_checks r" "provision_plan_checks p"
    "i1 \<noteq> i2" "k1 \<noteq> k2"
  using that by (auto simp: provision_constraints_def map_eq_Cons_conv)
    (auto simp: constrained_defs map_filter_simps split: option.split)

lemma stage_key: "oper_idempotency_key stage_of_alice \<noteq> ''d''"
  by (simp add: stage_of_alice_def stage_operation_def)

lemma environment_tables [simp]:
  "t_containers (update_rows f rows db) = t_containers db"
  "t_storage_resources (update_rows f rows db) = t_storage_resources db"
  "t_containers (settle_rows now verified rows db) = t_containers db"
  "t_storage_resources (settle_rows now verified rows db) = t_storage_resources db"
  "t_managed_users (settle_rows now verified rows db) = t_managed_users db"
  by (simp_all add: settle_rows_def, simp_all add: update_rows_def)
    (induction rows arbitrary: db; simp add: modify_reservation_def)+

lemma updated_rows:
  assumes "t_reservations db = live_rows" and "\<And>r. resv_id (f r) = resv_id r" "\<And>r. f (f r) = f r"
  shows "t_reservations (update_rows f live_rows db) = map f live_rows"
  unfolding update_rows_table [OF assms(2,3)] assms(1) by (rule map_cong) simp_all

lemma live_reserved: "filter (\<lambda>r. resv_state r = ''RESERVED'') live_rows = live_rows"
  by (simp add: row_samples)

definition final_rows :: "bool \<Rightarrow> portal_resource_reservation list" where
  "final_rows verified = map (if verified then release_row 10 else hold_row) live_rows"

lemma settled_rows:
  "t_reservations db = live_rows \<Longrightarrow> t_reservations (settle_rows 10 verified live_rows db) = final_rows verified"
  by (simp add: settle_rows_def live_reserved final_rows_def updated_rows release_row_def)

lemma final_constrained: "reservations_constrained (final_rows verified)"
  by (cases verified) (simp_all add: final_rows_def constrained_defs row_samples release_row_def hold_row_def)

lemma doubt_answer:
  assumes "verified = all_absent (verify_attempt (call_with worker) running_db (granted ''PROVISIONING'')
      (planned_as ''PROVISIONING'' True) stage_of_alice)"
  obtains calls db' where "settle_stage (call_with worker) ask_id (Inl ''UNREACHABLE'') running_db =
      (Inl (HTTPException 503 ''UNREACHABLE''), calls, db')" "t_reservations db' = final_rows verified"
proof -
  let ?held = "hold_uncertain_stage (call_with worker) (granted ''PROVISIONING'') (planned_as ''PROVISIONING'' True)
    stage_of_alice live_rows ''UNREACHABLE'' ''Worker response is unknown; host truth must be reconciled before any retry'' running_db"
  have rows: "t_reservations ?held = final_rows verified"
    unfolding hold_uncertain_stage_def Let_def assms by (simp add: settled_rows running_rows)
  have tables: "t_resource_requests ?held = [(granted ''PROVISIONING'')\<lparr>crr_status := ''FAILED'', crr_active_slot := None,
        crr_updated_at := 10\<rparr>]"
    "t_provision_plans ?held = [(planned_as ''PROVISIONING'' True)\<lparr>plan_state := ''FAILED'', plan_updated_at := 10\<rparr>]"
    "map oper_id (t_operations ?held) = [''D'', slot_id 40]"
    "map oper_idempotency_key (t_operations ?held) = [''d'', oper_idempotency_key stage_of_alice]"
    "t_managed_users ?held = []" "t_containers ?held = []" "t_storage_resources ?held = []"
    by (simp_all add: hold_uncertain_stage_def Let_def fail_attempt_def effect_rows running_rows held_operation_def
        dry_run_done_operation_def) (simp add: planned_as_def)
  have "provision_constraints ?held"
    by (rule closing_constrained [OF tables]) (simp_all add: rows final_constrained stage_key [symmetric],
      simp_all add: constrained_defs row_samples)
  then show thesis using that rows
    by (simp add: settle_stage_def stage_running live_of_plan running_rows end_in_doubt_def commit_ok Let_def)
qed

subsection \<open>The properties\<close>

text \<open>A report of the worker that agrees with the plan.\<close>

definition staged_path :: posix_path where
  "staged_path = path_join WORKSPACE_ROOT (str_int 20001)"

definition staged_report :: pyval where
  "staged_report = PDict
     [(''username'', PStr ''alice''), (''uid'', PInt 20001), (''gid'', PInt 20001),
      (''shell'', PStr ''/usr/sbin/nologin''), (''password'', PStr ''LOCKED''), (''host_ssh'', PStr ''DISABLED''),
      (''host_authorized_keys'', PStr ''ABSENT''), (''container_authorized_keys'', PStr ''ABSENT''),
      (''onboarding_state'', PStr ''STAGED''), (''ssh_key_state'', PStr ''REQUIRED_BEFORE_ACTIVATION''),
      (''container'', PDict [(''name'', PStr ''gpu-dev-alice''), (''state'', PStr ''STOPPED''), (''gpu'', PStr ''NONE''),
         (''ssh_port'', PInt 22001), (''image_digest'', PStr ''sha256:1'')]),
      (''storage_path'', PStr (path_str staged_path)), (''container_workspace'', PStr ''/workspace''),
      (''default_job_workdir'', PStr (path_str (path_join staged_path ''projects''))),
      (''slurm'', PDict [(''account'', PStr ''a''), (''qos'', PStr ''q''), (''max_gpus'', PInt 0),
         (''max_tres'', PStr (''gres/gpu='' @ str_int 0))]),
      (''lease'', PDict [(''state'', PStr ''NOT_STARTED''), (''starts_at'', PNone), (''expires_at'', PNone)]),
      (''filesystem_isolation'', PDict [(''origin_pilot_to_target'', PStr ''DENIED''),
         (''target_to_origin_pilot'', PStr ''DENIED''), (''markers_removed'', PBool True)])]"

definition staged_answer :: pyval where
  "staged_answer = PDict [(''status'', PStr ''SUCCEEDED''), (''handler'', PStr ''compute.provision.stage''),
     (''stage'', staged_report)]"

lemma staged_workspace: "workspace_path (plan_uid (planned_as state enabled)) = Inr staged_path"
  by (simp add: workspace_path_def planned_as_def sample_plan_def managed_id_def MANAGED_UID_MIN_def MANAGED_UID_MAX_def
    staged_path_def)

lemma staged_accepted:
  "stage_identity_matches (planned_as state enabled) staged_report"
  "stage_resources_match (planned_as state enabled) staged_report = Inr True"
  "image_digest_ok (stage_image_digest staged_report)" "is_dict staged_report"
proof -
  show "stage_identity_matches (planned_as state enabled) staged_report" "is_dict staged_report"
    by (simp_all add: stage_identity_matches_def staged_report_def all_eq_def has_eq_def planned_as_def sample_plan_def)
  have container: "container_matches (planned_as state enabled) (dget staged_report ''container'')"
    "slurm_matches (planned_as state enabled) (dget staged_report ''slurm'')" "isolation_matches staged_report"
    by (simp_all add: container_matches_def slurm_matches_def isolation_matches_def staged_report_def all_eq_def
        has_eq_def planned_as_def sample_plan_def)
  show "stage_resources_match (planned_as state enabled) staged_report = Inr True"
    by (simp add: stage_resources_match_def container staged_workspace) (simp add: staged_report_def all_eq_def has_eq_def)
  show "image_digest_ok (stage_image_digest staged_report)"
    by (simp add: image_digest_ok_def stage_image_digest_def staged_report_def dget_or_def starts_with_def)
qed

theorem answered_stage_closes_witness:
  "\<exists>calls db'. settle_stage (call_with (\<lambda>_. Inl ''UNREACHABLE'')) ask_id (Inl ''UNREACHABLE'') running_db =
     (Inl (HTTPException 503 ''UNREACHABLE''), calls, db') \<and> attempt_closed db' ask_id ''P'' (slot_id 40)"
proof -
  obtain calls db' where settled: "settle_stage (call_with (\<lambda>_. Inl ''UNREACHABLE'')) ask_id (Inl ''UNREACHABLE'') running_db =
      (Inl (HTTPException 503 ''UNREACHABLE''), calls, db')"
    using doubt_answer [OF refl] by blast
  have path: "\<exists>p. workspace_path (plan_uid (planned_as ''PROVISIONING'' True)) = Inr p"
    by (simp add: workspace_path_def planned_as_def sample_plan_def managed_id_def MANAGED_UID_MIN_def MANAGED_UID_MAX_def)
  have alice: "get_user running_db ''u'' \<noteq> None"
    by (simp add: get_user_def running_rows) (simp add: alice_def sample_user_def sample_owner_def)
  have state: "plan_state (planned_as ''PROVISIONING'' True) = ''PROVISIONING''"
    "plan_execution_enabled (planned_as ''PROVISIONING'' True)" by (simp_all add: planned_as_def)
  from answered_stage_closes [OF stage_running settled] path alice state
  have "attempt_closed db' ask_id ''P'' (slot_id 40)" by auto
  with settled show ?thesis by blast
qed

lemma live_ids: "distinct (map resv_id live_rows)"
  by (simp add: row_samples)

theorem stage_release_needs_proof_witness:
  "\<exists>calls db'. settle_stage (call_with (\<lambda>_. Inr sample_zero)) ask_id (Inl ''UNREACHABLE'') running_db =
     (Inl (HTTPException 503 ''UNREACHABLE''), calls, db') \<and>
     release_row 10 (hd live_rows) \<in> set (t_reservations db') \<and>
     cc_worker (call_with (\<lambda>_. Inr sample_zero)) (verify_call (call_with (\<lambda>_. Inr sample_zero)) (granted ''PROVISIONING'')
       (planned_as ''PROVISIONING'' True) stage_of_alice) = Inr sample_zero \<and>
     dget sample_zero ''retry_verification_status'' = PStr ''VERIFIED_ZERO_RESIDUE''"
proof -
  let ?c = "call_with (\<lambda>_. Inr sample_zero)"
  have "all_absent (verify_attempt ?c running_db (granted ''PROVISIONING'') (planned_as ''PROVISIONING'' True) stage_of_alice)"
    by (simp add: verify_attempt_def authoritative_zero_residue_def residue_worker_def portal_residue_def running_rows
      judge_residue_def all_absent_def sample_zero_def residue_list_def dget_or_def Let_def)
      (simp add: running_db_def)
  then obtain calls db' where settled: "settle_stage ?c ask_id (Inl ''UNREACHABLE'') running_db =
      (Inl (HTTPException 503 ''UNREACHABLE''), calls, db')" and rows: "t_reservations db' = final_rows True"
    using doubt_answer [where worker = "\<lambda>_. Inr sample_zero" and verified = True] by auto
  have row: "hd live_rows \<in> set (t_reservations running_db)" "release_row 10 (hd live_rows) \<in> set (t_reservations db')"
    "resv_id (release_row 10 (hd live_rows)) = resv_id (hd live_rows)" "resv_state (hd live_rows) \<noteq> ''RELEASED''"
    "resv_state (release_row 10 (hd live_rows)) = ''RELEASED''"
    by (simp_all add: running_rows rows final_rows_def) (simp_all add: row_samples release_row_def)
  from stage_release_needs_proof [OF _ settled row] settled row(2) stage_running [of "\<lambda>_. Inr sample_zero"]
  show ?thesis by (simp add: running_rows live_ids)
qed

lemma success_answer:
  obtains db' where "settle_stage (call_with worker) ask_id (Inr staged_answer) running_db =
      (Inr \<lparr>sa_operation_id = Some (slot_id 40), sa_managed_user_id = slot_id 60, sa_idempotent_replay = False\<rparr>, [], db')"
proof -
  let ?after = "persisted_stage (call_with worker) (granted ''PROVISIONING'') (planned_as ''PROVISIONING'' True)
    stage_of_alice live_rows alice staged_answer staged_path running_db"
  let ?identity = "staged_identity (call_with worker) alice (planned_as ''PROVISIONING'' True)"
  let ?container = "staged_environment (call_with worker) (planned_as ''PROVISIONING'' True) (dget staged_answer ''stage'')"
  let ?storage = "staged_storage (call_with worker) (planned_as ''PROVISIONING'' True) staged_path"
  have rows: "t_reservations ?after = map (consume_row 10) live_rows"
    by (simp add: persisted_stage_def stage_states_def) (rule updated_rows; simp add: running_rows)
  have consumed: "reservations_constrained (map (consume_row 10) live_rows)"
    by (simp add: constrained_defs map_filter_simps row_samples consume_row_def)
  have tables: "t_resource_requests ?after = [(granted ''PROVISIONING'')\<lparr>crr_managed_user_id := Some (slot_id 60),
        crr_status := ''KEY_ENROLLMENT_PENDING'', crr_active_slot := None, crr_updated_at := 10\<rparr>]"
    "t_provision_plans ?after = [(planned_as ''PROVISIONING'' True)\<lparr>plan_state := ''STAGED'', plan_updated_at := 10\<rparr>]"
    "map oper_id (t_operations ?after) = [''D'', slot_id 40]"
    "map oper_idempotency_key (t_operations ?after) = [''d'', oper_idempotency_key stage_of_alice]"
    "t_managed_users ?after = [?identity]" "t_containers ?after = [?container]" "t_storage_resources ?after = [?storage]"
    by (simp_all add: persisted_stage_def stage_states_def stage_rows_def effect_rows running_rows completed_operation_def
        dry_run_done_operation_def) (simp add: planned_as_def)
  have environment: "identities_constrained [?identity]" "environments_constrained [?container] [?storage]"
    by (simp_all add: constrained_defs map_filter_simps staged_identity_def staged_environment_def staged_storage_def
        managed_user_checks_def container_checks_def storage_resource_checks_def planned_as_def sample_plan_def)
  have "provision_constraints ?after"
    using tables environment consumed unfolding provision_constraints_def rows
    by (auto simp: map_eq_Cons_conv operations_constrained_def stage_key [symmetric])
      (simp_all add: constrained_defs map_filter_simps row_samples)
  moreover have "get_user running_db ''u'' = Some alice"
    by (simp add: get_user_def running_rows) (simp add: alice_def sample_user_def sample_owner_def)
  moreover have "list_all (reserved_row (granted ''PROVISIONING'')) live_rows" "length live_rows = 5"
    by (simp_all add: reserved_row_def bound_row_def row_samples)
  moreover have "plan_state (planned_as ''PROVISIONING'' True) = ''PROVISIONING''"
    "plan_execution_enabled (planned_as ''PROVISIONING'' True)" by (simp_all add: planned_as_def)
  moreover have "has_eq staged_answer ''status'' (PStr ''SUCCEEDED'')" "dget staged_answer ''stage'' = staged_report"
    "has_eq staged_answer ''handler'' (PStr ''compute.provision.stage'')"
    "\<not> truthy (dget_or staged_answer ''idempotent_replay'' (PBool False))"
    by (simp_all add: staged_answer_def has_eq_def dget_or_def)
  ultimately show thesis using that
    by (simp add: settle_stage_def stage_running live_of_plan running_rows Let_def judge_stage_def staged_accepted
      staged_workspace persist_stage_def)
qed

theorem stage_success_exact_witness:
  "\<exists>a db' identity. settle_stage (call_with (\<lambda>_. Inl ''UNREACHABLE'')) ask_id (Inr staged_answer) running_db = (Inr a, [], db') \<and>
     get_managed db' (sa_managed_user_id a) = Some identity \<and> mu_portal_user_id identity = ''u'' \<and>
     length (rows_of_plan ''P'' db') = 5"
proof -
  obtain a db' where settled: "settle_stage (call_with (\<lambda>_. Inl ''UNREACHABLE'')) ask_id (Inr staged_answer) running_db =
      (Inr a, [], db')"
    by (rule success_answer [of "\<lambda>_. Inl ''UNREACHABLE''"]) blast
  from stage_success_exact [OF settled] settled stage_running [of "\<lambda>_. Inl ''UNREACHABLE''"] show ?thesis
    by auto
qed

subsection \<open>Routes and orchestrations\<close>

definition steps_of :: "op_worker \<Rightarrow> orchestration" where
  "steps_of worker = \<lparr>or_call = call_with worker, or_envs = (\<lambda>_. sample_op_env), or_key = (\<lambda>_ s. s),
     or_message = (\<lambda>_. ''failed'')\<rparr>"

lemma steps_call [simp]: "or_call (steps_of worker) = call_with worker"
  by (simp add: steps_of_def)

lemma granted_ok: "review_ok (granted status)" if "status \<notin> set [''DRAFT'', ''REQUESTED'', ''UNDER_REVIEW'', ''REJECTED'', ''CANCELLED'']"
  using that by (simp add: review_ok_def undecided_def closed_def rightly_approved_def row_samples)

lemma ready_sound: "sound ready_db"
  using granted_ok [of "''PROVISION_PLAN_READY''"]
  by (simp add: sound_def keyed_def sound_tables_def ready_rows orchestrates_def dry_run_done_operation_def)


definition approve_body :: compute_review where
  "approve_body = \<lparr>rev_decision = ''APPROVE'', rev_note = None, rev_idempotency_key = ''k0''\<rparr>"

lemma asked_approved:
  "crr_status ` set (t_resource_requests (snd (review_compute_request (call_with worker) ask_id approve_body
     (request_db asked [])))) = {''APPROVED''}"
proof -
  let ?db = "request_db asked []"
  have item: "administered_request (call_with worker) ask_id ?db = Inr asked"
    by (simp add: administered_request_def request_id_of_def ask_uuid admin_request_def get_request_def
      deny_self_administration_def)
  have user: "applicant ?db asked = Inr alice"
    by (simp add: applicant_def get_user_def alice_may) (simp add: alice_def sample_user_def sample_owner_def)
  have status: "crr_status asked = ''REQUESTED''" by (simp add: asked_def)
  have rows: "t_resource_requests (modify_request ask_id (reviewed (call_with worker) approve_body) ?db) =
      [reviewed (call_with worker) approve_body asked]"
    by (simp add: modify_request_def update_where_def)
  have "provision_constraints (compute_audit (call_with worker) 2 e t i out m op (add_compute_operation (call_with worker) o1
      (modify_request ask_id (reviewed (call_with worker) approve_body) ?db)))" for e t i out m op o1
    by (simp add: provision_constraints_def add_compute_operation_def effect_rows)
      (simp add: constrained_defs map_filter_simps reviewed_def approve_body_def row_samples)
  then show ?thesis
    by (simp add: review_compute_request_def item user status Let_def commit_ok compute_audit_tables add_compute_operation_def
      operation_event_tables add_operation_def rows) (simp add: reviewed_def approve_body_def)
qed

theorem requests_decided_by_others_witness:
  "\<exists>db. compute_run (request_db asked []) db \<and>
     (\<exists>r \<in> set (t_resource_requests db). crr_status r = ''APPROVED'' \<and> rightly_approved r)"
proof -
  let ?db = "snd (review_compute_request (call_with (\<lambda>_. Inl ''UNREACHABLE'')) ask_id approve_body (request_db asked []))"
  have run: "compute_run (request_db asked []) ?db" by (rule run_review [OF run_start])
  have "review_ok asked" by (simp add: review_ok_def undecided_def asked_def sample_item_def)
  then have sound: "sound (request_db asked [])" by (simp add: sound_def keyed_def sound_tables_def)
  have "''APPROVED'' \<in> crr_status ` set (t_resource_requests ?db)" unfolding asked_approved by (rule singletonI)
  then obtain r where r: "''APPROVED'' = crr_status r" "r \<in> set (t_resource_requests ?db)" by (rule imageE)
  have "rightly_approved r"
    by (rule requests_decided_by_others [OF run sound, THEN conjunct1, THEN bspec, OF r(2), THEN conjunct1, THEN mp])
      (simp flip: r(1))
  with r have "\<exists>r \<in> set (t_resource_requests ?db). crr_status r = ''APPROVED'' \<and> rightly_approved r" by metis
  with run show ?thesis by blast
qed

subsection \<open>An approval\<close>

definition approval_of_alice :: "operation_status \<Rightarrow> portal_operation" where
  "approval_of_alice status = (new_orchestration_operation (call_with (\<lambda>_. Inl ''UNREACHABLE'')) asked ''compute.provision'' ''k2''
     [] ''approved'')\<lparr>oper_status := status\<rparr>"

definition approval_db :: "operation_status \<Rightarrow> portal_db" where
  "approval_db status = (request_db ((granted ''ACTIVE'')\<lparr>crr_active_slot := None\<rparr>) [approval_of_alice status])
     \<lparr>t_provision_plans := [planned_as ''STAGED'' True]\<rparr>"

lemma approval_rows [simp]:
  "t_resource_requests (approval_db status) = [(granted ''ACTIVE'')\<lparr>crr_active_slot := None\<rparr>]"
  "t_provision_plans (approval_db status) = [planned_as ''STAGED'' True]" "t_operations (approval_db status) = [approval_of_alice status]"
  "t_reservations (approval_db status) = []" "t_managed_users (approval_db status) = []"
  "t_containers (approval_db status) = []" "t_storage_resources (approval_db status) = []"
  by (simp_all add: approval_db_def)

lemma approval_fields [simp]:
  "oper_id (approval_of_alice status) = slot_id 0" "oper_status (approval_of_alice status) = status"
  "oper_operation_type (approval_of_alice status) = ''compute.provision''" "oper_target_id (approval_of_alice status) = ask_id"
  "oper_requested_by (approval_of_alice status) = ''u1''" "oper_idempotency_key (approval_of_alice status) = ''compute.provision:k2''"
  by (simp_all add: approval_of_alice_def new_orchestration_operation_def)

lemma approval_sound: "sound (approval_db status)"
proof -
  have "review_ok ((granted ''ACTIVE'')\<lparr>crr_active_slot := None\<rparr>)" "rightly_approved ((granted ''ACTIVE'')\<lparr>crr_active_slot := None\<rparr>)"
    by (simp_all add: review_ok_def undecided_def closed_def rightly_approved_def row_samples)
  then show ?thesis by (simp add: sound_def keyed_def sound_tables_def)
qed

lemma approval_item: "administered_request (call_with worker) ask_id (approval_db status) =
    Inr ((granted ''ACTIVE'')\<lparr>crr_active_slot := None\<rparr>)"
  by (simp add: administered_request_def request_id_of_def ask_uuid admin_request_def get_request_def
    deny_self_administration_def)

lemma approval_found: "orchestration_by_key (approval_db status) (call_with worker) ((granted ''ACTIVE'')\<lparr>crr_active_slot := None\<rparr>)
    ''compute.provision'' ''k2'' = Some (approval_of_alice status)"
  by (simp add: orchestration_by_key_def)

theorem orchestration_settles_witness:
  "\<exists>r calls db'. run_workflow (steps_of (\<lambda>_. Inl ''UNREACHABLE'')) ask_id (slot_id 0) (approval_db OP_RUNNING) = (r, calls, db') \<and>
     settled_answer db' (slot_id 0) r"
proof -
  let ?orc = "steps_of (\<lambda>_. Inl ''UNREACHABLE'')"
  obtain r calls db' where run: "run_workflow ?orc ask_id (slot_id 0) (approval_db OP_RUNNING) = (r, calls, db')"
    by (metis prod_cases3)
  have "orchestrated (approval_db OP_RUNNING) ask_id (slot_id 0)" "get_request (approval_db OP_RUNNING) ask_id \<noteq> None"
    by (simp_all add: orchestrated_def get_operation_def orchestrates_def get_request_def)
  from orchestration_settles [OF approval_sound this run] run show ?thesis by blast
qed

theorem approval_replayed_witness:
  "\<exists>a. approve_and_provision (steps_of (\<lambda>_. Inr PNone)) ask_id (Some ''again'') ''k2'' (approval_db OP_FAILED) =
     (Inr a, [], approval_db OP_FAILED) \<and> oa_status a = ''FAILED'' \<and> oa_idempotent_replay a"
proof -
  have first: "approve_and_provision (steps_of (\<lambda>_. Inl ''UNREACHABLE'')) ask_id None ''k2'' (approval_db OP_FAILED) =
      (Inr (orchestration_response (approval_of_alice OP_FAILED) True), [], approval_db OP_FAILED)"
    by (simp add: approve_and_provision_def orchestrate_def Let_def approval_item approval_found)
  have ended: "oa_status (orchestration_response (approval_of_alice OP_FAILED) True) = ''FAILED''"
    by (simp add: orchestration_response_def)
  have "\<exists>a'. approve_and_provision (steps_of (\<lambda>_. Inr PNone)) ask_id (Some ''again'') ''k2'' (approval_db OP_FAILED) =
      (Inr a', [], approval_db OP_FAILED) \<and>
      oa_operation_id a' = oa_operation_id (orchestration_response (approval_of_alice OP_FAILED) True) \<and>
      oa_status a' = oa_status (orchestration_response (approval_of_alice OP_FAILED) True) \<and> oa_idempotent_replay a'"
    by (rule approval_replayed [OF approval_sound first]) (simp_all add: ended, simp add: call_with_def cc_user_def)
  with ended show ?thesis by auto
qed

theorem replay_fails_active_request_witness:
  "\<exists>a db' r. approve_and_provision (steps_of (\<lambda>_. Inl ''UNREACHABLE'')) ask_id None ''k2'' (approval_db OP_RUNNING) =
     (Inr a, [], db') \<and> oa_status a = ''FAILED'' \<and> get_request db' ask_id = Some r \<and> crr_status r = ''FAILED''"
proof -
  let ?item = "(granted ''ACTIVE'')\<lparr>crr_active_slot := None\<rparr>"
  have constrained: "provision_constraints (approval_db OP_RUNNING)"
    by (simp add: provision_constraints_def) (simp add: constrained_defs map_filter_simps row_samples)
  have plan: "current_plan (approval_db OP_RUNNING) ?item = Some (planned_as ''STAGED'' True)"
    by (simp add: current_plan_def get_plan_def)
  have state: "plan_state (planned_as ''STAGED'' True) = ''STAGED''" by (simp add: planned_as_def)
  have csrf: "cc_csrf (or_call (steps_of (\<lambda>_. Inl ''UNREACHABLE''))) = Inr ()" by simp
  have id: "uuid_of (crr_id ?item) = Some (crr_id ?item)" "crr_status ?item = ''ACTIVE''" by (simp_all add: ask_uuid)
  from replay_fails_active_request [OF constrained csrf _ id plan state, of ask_id "''k2''" "approval_of_alice OP_RUNNING" None]
  show ?thesis by (auto simp: approval_item approval_found)
qed

end
