(* ===== verification/Login_Routes.thy ===== *)
theory Login_Routes
  imports Auth_Service Operation_Execution Ssh_Keys Terminal_Registry
begin

section \<open>Login, passwords, CLI tokens and sessions\<close>

text \<open>
  \<open>routes/auth.py\<close>: every route of the router, with the request bodies of \<open>schemas.py\<close>. The state is
  the database with the table of password credentials (which no other service reads), the table of roles,
  the registry of web terminals that the routes close, and the rate limiter. Argon2 is a parameter:
  \<open>al_hash\<close> encodes a password and \<open>al_verify\<close> compares; the random tokens and the HMAC of the CSRF token
  are arguments as well. A route that raises before its commit leaves the database as it found it, since the session is
  closed without one; what it has committed before it raises is in the state it returns.
\<close>

subsection \<open>State, settings and one request\<close>

record portal_password_credential =
  cred_id :: uuid
  cred_user_id :: uuid
  cred_password_hash :: string
  cred_password_changed_at :: instant

record portal_accounts =
  pa_db :: portal_db
  pa_credentials :: "portal_password_credential list"
  pa_roles :: "portal_role list"
  pa_terminals :: terminal_registry
  pa_limiter :: limiter

record account_settings =
  as_session :: auth_settings
  as_secret_key :: string
  as_initial_password_setup_token_hours :: int
  as_password_reset_token_minutes :: int
  as_password_action_challenge_minutes :: int
  as_password_action_cookie_name :: string
  as_login_failures_before_lock :: int
  as_login_lock_minutes :: int
  as_public_access_host :: string

definition default_account_settings :: account_settings where
  "default_account_settings = \<lparr>as_session = default_settings,
     as_secret_key = ''development-only-change-me-000000000000'',
     as_initial_password_setup_token_hours = 24, as_password_reset_token_minutes = 30,
     as_password_action_challenge_minutes = 10, as_password_action_cookie_name = ''h100_password_action'',
     as_login_failures_before_lock = 5, as_login_lock_minutes = 15,
     as_public_access_host = ''20.10.10.3''\<rparr>"

record account_call =
  al_env :: op_env
  al_settings :: account_settings
  al_request :: http_request
  al_random :: "nat \<Rightarrow> string"
  al_hmac :: "string \<Rightarrow> string \<Rightarrow> string"
  al_hash :: "string \<Rightarrow> string"
  al_verify :: "string \<Rightarrow> string \<Rightarrow> bool"
  al_dumps :: "pyval \<Rightarrow> bytes"
  al_sent :: "uuid \<Rightarrow> bool"
  al_linux_user :: "string \<Rightarrow> bool"

definition al_now :: "account_call \<Rightarrow> instant" where
  "al_now c = oe_now (al_env c)"

definition al_id :: "account_call \<Rightarrow> nat \<Rightarrow> uuid" where
  "al_id c = oe_ids (al_env c)"

definition al_digest :: "account_call \<Rightarrow> string \<Rightarrow> string" where
  "al_digest c = oe_digest (al_env c)"

definition on_db :: "(portal_db \<Rightarrow> portal_db) \<Rightarrow> portal_accounts \<Rightarrow> portal_accounts" where
  "on_db f st = st\<lparr>pa_db := f (pa_db st)\<rparr>"

definition fresh_csrf :: "account_call \<Rightarrow> string" where
  "fresh_csrf c = signed_csrf_token (al_hmac c) (as_secret_key (al_settings c)) (al_now c div 1000000) (al_random c 1)"

definition preauth :: "account_call \<Rightarrow> unit result" where
  "preauth c = require_preauth_csrf
     (validate_signed_csrf (al_hmac c) (as_secret_key (al_settings c)) (al_now c div 1000000) 3600)
     (as_session (al_settings c)) (al_request c)"

definition session_csrf :: "account_call \<Rightarrow> auth_context \<Rightarrow> unit result" where
  "session_csrf c context = require_session_csrf (al_digest c) (as_session (al_settings c)) (al_request c) context"

definition open_session :: "account_call \<Rightarrow> uuid \<Rightarrow> portal_user \<Rightarrow> portal_db \<Rightarrow> portal_session \<times> portal_db" where
  "open_session c new_id user db = create_session (al_digest c) (as_session (al_settings c)) new_id (al_now c)
     (al_random c 0) (fresh_csrf c) user (al_request c) db"

definition close_user_terminals :: "account_call \<Rightarrow> uuid \<Rightarrow> uuid option \<Rightarrow> portal_accounts \<Rightarrow> portal_accounts" where
  "close_user_terminals c uid except st = st\<lparr>pa_terminals :=
     close_for_user (al_dumps c) (al_sent c) (al_now c) uid except (pa_terminals st)\<rparr>"

definition close_session_terminals :: "account_call \<Rightarrow> uuid \<Rightarrow> portal_accounts \<Rightarrow> portal_accounts" where
  "close_session_terminals c sid st = st\<lparr>pa_terminals :=
     close_for_portal_session (al_dumps c) (al_sent c) (al_now c) sid (pa_terminals st)\<rparr>"

definition credential_of :: "uuid \<Rightarrow> portal_accounts \<Rightarrow> portal_password_credential option" where
  "credential_of uid st = scalar (\<lambda>k. cred_user_id k = uid) (pa_credentials st)"

definition limited :: "account_call \<Rightarrow> string \<Rightarrow> nat \<Rightarrow> portal_accounts \<Rightarrow> bool \<times> portal_accounts" where
  "limited c key limit st = (case limiter_allowed key limit 300 (al_now c) (pa_limiter st) of
     (allowed, rest) \<Rightarrow> (allowed, st\<lparr>pa_limiter := rest\<rparr>))"

definition rate_limited :: exn where
  "rate_limited = HTTPException 429 ''RATE_LIMITED''"

definition auth_error :: exn where
  "auth_error = HTTPException 401 ''AUTHENTICATION_FAILED''"

text \<open>An entry of the audit trail; \<open>user_audit\<close> is one whose actor is a portal user.\<close>

definition account_audit :: "account_call \<Rightarrow> nat \<Rightarrow> string \<Rightarrow> string \<Rightarrow> string \<Rightarrow> string \<Rightarrow> string \<Rightarrow> string \<Rightarrow> pyval \<Rightarrow>
    uuid option \<Rightarrow> portal_db \<Rightarrow> portal_db" where
  "account_audit c slot event actor role object_type object_id outcome metadata operation =
     record_audit (al_digest c) (al_id c slot) (al_now c)
       \<lparr>ac_event_type = event, ac_actor = actor, ac_actor_role = role, ac_source_ip = client_ip (al_request c),
        ac_user_agent = user_agent (al_request c), ac_object_type = object_type, ac_object_id = object_id,
        ac_result = outcome, ac_metadata = metadata, ac_operation_id = operation\<rparr>"

definition user_audit :: "account_call \<Rightarrow> nat \<Rightarrow> string \<Rightarrow> portal_user \<Rightarrow> string \<Rightarrow> string \<Rightarrow> pyval \<Rightarrow> portal_db \<Rightarrow> portal_db" where
  "user_audit c slot event user object_type object_id metadata =
     account_audit c slot event (user_normalized_login user) (highest_role user) object_type object_id ''SUCCESS''
       metadata None"

definition record_session_created :: "account_call \<Rightarrow> nat \<Rightarrow> portal_user \<Rightarrow> portal_session \<Rightarrow> string \<Rightarrow> portal_db \<Rightarrow> portal_db" where
  "record_session_created c slot user session reason =
     user_audit c slot ''session.create'' user ''portal_session'' (sess_id session) (PDict [(''reason'', PStr reason)])"

text \<open>
  A route behind \<open>Depends(auth_context)\<close>: the cookie session is loaded first, and what loading
  writes (the idle limit, or a revocation) is committed before the route starts.
\<close>

definition as_user :: "account_call \<Rightarrow> (auth_context \<Rightarrow> (portal_accounts, 'a) action) \<Rightarrow> (portal_accounts, 'a) action" where
  "as_user c route st =
     (case load_context (al_digest c) (as_session (al_settings c)) (al_now c) (al_request c) (pa_db st) of
        (Inl e, db) \<Rightarrow> (Inl e, st\<lparr>pa_db := db\<rparr>)
      | (Inr context, db) \<Rightarrow> route context (st\<lparr>pa_db := db\<rparr>))"

subsection \<open>Request bodies and answers\<close>

definition length_in :: "nat \<Rightarrow> nat \<Rightarrow> string \<Rightarrow> bool" where
  "length_in lo hi text \<longleftrightarrow> lo \<le> length text \<and> length text \<le> hi"

record login_request =
  lr_username :: string
  lr_password :: string

definition login_request_ok :: "login_request \<Rightarrow> bool" where
  "login_request_ok body \<longleftrightarrow> length_in 1 64 (lr_username body) \<and> length_in 1 128 (lr_password body)"

definition exchange_request_ok :: "string \<Rightarrow> bool" where
  "exchange_request_ok token \<longleftrightarrow> length_in 32 256 token"

record setup_password_request =
  spr_password :: string
  spr_confirmation :: string

definition setup_password_request_ok :: "setup_password_request \<Rightarrow> bool" where
  "setup_password_request_ok body \<longleftrightarrow> length_in 14 128 (spr_password body) \<and>
     length_in 14 128 (spr_confirmation body) \<and> spr_password body = spr_confirmation body"

record change_password_request =
  cpr_current_password :: string
  cpr_new_password :: string
  cpr_confirmation :: string

definition change_password_request_ok :: "change_password_request \<Rightarrow> bool" where
  "change_password_request_ok body \<longleftrightarrow> length_in 1 128 (cpr_current_password body) \<and>
     length_in 14 128 (cpr_new_password body) \<and> length_in 14 128 (cpr_confirmation body) \<and>
     cpr_new_password body = cpr_confirmation body"

record cli_token_create_request =
  tcr_label :: string
  tcr_expires_in_days :: "int option"

text \<open>The validated body: an absent \<open>expires_in_days\<close> is 90, an explicit null is no expiry.\<close>

definition cli_token_create_request_of :: "string \<Rightarrow> int option option \<Rightarrow> cli_token_create_request option" where
  "cli_token_create_request_of label expires =
     (let days = (case expires of None \<Rightarrow> Some 90 | Some d \<Rightarrow> d); normalized = join '' '' (split_words label) in
      if \<not> length_in 1 64 label \<or> (case days of None \<Rightarrow> False | Some d \<Rightarrow> \<not> (1 \<le> d \<and> d \<le> 365)) \<or> normalized = []
      then None else Some \<lparr>tcr_label = normalized, tcr_expires_in_days = days\<rparr>)"

record user_response =
  ur_id :: uuid
  ur_login_name :: string
  ur_normalized_login :: string
  ur_display_name :: string
  ur_unix_username :: "string option"
  ur_account_state :: account_state
  ur_password_state :: password_state
  ur_resource_onboarding_state :: onboarding_state
  ur_created_at :: instant
  ur_activated_at :: "instant option"
  ur_last_login_at :: "instant option"
  ur_roles :: "(string \<times> string) list"

definition serialize_user :: "portal_user \<Rightarrow> user_response" where
  "serialize_user user = \<lparr>ur_id = user_id user, ur_login_name = user_login_name user,
     ur_normalized_login = user_normalized_login user, ur_display_name = user_display_name user,
     ur_unix_username = user_unix_username user, ur_account_state = user_account_state user,
     ur_password_state = user_password_state user,
     ur_resource_onboarding_state = user_resource_onboarding_state user, ur_created_at = user_created_at user,
     ur_activated_at = user_activated_at user, ur_last_login_at = user_last_login_at user,
     ur_roles = map (\<lambda>r. (role_name r, role_description r)) (user_roles user)\<rparr>"

text \<open>A cookie that an answer sets, or deletes with \<open>None\<close>; an answer that raises sets none.\<close>

type_synonym cookies_set = "(string \<times> string option) list"

definition set_session_cookies :: "account_call \<Rightarrow> cookies_set" where
  "set_session_cookies c = [(set_cookie_name (as_session (al_settings c)), Some (al_random c 0)),
     (set_csrf_cookie_name (as_session (al_settings c)), Some (fresh_csrf c))]"

definition clear_session_cookies :: "account_call \<Rightarrow> cookies_set" where
  "clear_session_cookies c = [(set_cookie_name (as_session (al_settings c)), None),
     (set_csrf_cookie_name (as_session (al_settings c)), None)]"

definition set_password_action_cookie :: "account_call \<Rightarrow> string \<Rightarrow> cookies_set" where
  "set_password_action_cookie c challenge = [(as_password_action_cookie_name (al_settings c), Some challenge)]"

definition clear_password_action_cookie :: "account_call \<Rightarrow> cookies_set" where
  "clear_password_action_cookie c = [(as_password_action_cookie_name (al_settings c), None)]"

definition csrf :: "account_call \<Rightarrow> string \<times> cookies_set" where
  "csrf c = (fresh_csrf c, [(set_csrf_cookie_name (as_session (al_settings c)), Some (fresh_csrf c))])"

subsection \<open>Login\<close>

definition failed_row :: "account_call \<Rightarrow> portal_user \<Rightarrow> portal_user" where
  "failed_row c u =
     (let u = u\<lparr>user_failed_login_count := user_failed_login_count u + 1\<rparr> in
      if as_login_failures_before_lock (al_settings c) \<le> user_failed_login_count u
      then u\<lparr>user_locked_until := Some (al_now c + seconds (60 * as_login_lock_minutes (al_settings c))),
        user_account_state := AS_LOCKED\<rparr>
      else u)"

definition auth_failure :: "account_call \<Rightarrow> portal_user option \<Rightarrow> string \<Rightarrow> portal_db \<Rightarrow> portal_db" where
  "auth_failure c user normalized db =
     (let reason = PDict [(''reason'', PStr ''invalid_credentials'')] in
      case user of
        Some u \<Rightarrow>
          let db = modify_user (user_id u) (failed_row c) db;
              db = (if as_login_failures_before_lock (al_settings c) \<le> user_failed_login_count u + 1
                then snd (revoke_user_cli_tokens (al_now c) (user_id u) db) else db)
          in account_audit c 0 ''login.failure'' normalized ''unknown'' ''portal_user'' (user_id u) ''DENIED'' reason
               None db
      | None \<Rightarrow> account_audit c 0 ''login.failure'' ''anonymous'' ''anonymous'' ''login'' ''unknown'' ''DENIED'' reason
          None db)"

definition DUMMY_HASH :: string where
  "DUMMY_HASH = ''$argon2id$v=19$m=65536,t=3,p=4$AAAAAAAAAAAAAAAAAAAAAA$AAAAAAAAAAAAAAAAAAAAAAAAAAAAAAAAAAAAAAAAAAA''"

text \<open>Whether the password is right, and the encoded hashes it was verified against, in order.\<close>

definition check_password :: "account_call \<Rightarrow> portal_password_credential option \<Rightarrow> string \<Rightarrow> bool \<times> string list" where
  "check_password c credential password =
     (let valid = (case credential of None \<Rightarrow> False | Some k \<Rightarrow> al_verify c (cred_password_hash k) password);
          verified = (case credential of None \<Rightarrow> [] | Some k \<Rightarrow> [cred_password_hash k])
      in (valid, if valid then verified else verified @ [DUMMY_HASH]))"

definition may_login :: "account_call \<Rightarrow> portal_user \<Rightarrow> bool" where
  "may_login c user \<longleftrightarrow> user_account_state user = AS_ACTIVE \<and>
     user_password_state user \<in> set [PS_SET, PS_RESET_REQUIRED] \<and>
     \<not> (case user_locked_until user of None \<Rightarrow> False | Some until \<Rightarrow> al_now c < until)"

definition signed_in_row :: "instant \<Rightarrow> portal_user \<Rightarrow> portal_user" where
  "signed_in_row now u = u\<lparr>user_failed_login_count := 0, user_locked_until := None, user_last_login_at := Some now\<rparr>"

definition login_name_of :: "login_request \<Rightarrow> string" where
  "login_name_of body = (case normalize_login (lr_username body) of Inl _ \<Rightarrow> ''invalid'' | Inr n \<Rightarrow> n)"

definition login_allowed :: "account_call \<Rightarrow> string \<Rightarrow> portal_accounts \<Rightarrow> bool \<times> portal_accounts" where
  "login_allowed c normalized st =
     (case limited c (''ip:'' @ client_ip (al_request c)) 30 st of
        (False, st) \<Rightarrow> (False, st)
      | (True, st) \<Rightarrow> limited c (''account:'' @ normalized) 10 st)"

text \<open>The session named by the cookie of the request ends with its terminals.\<close>

definition drop_old_session :: "account_call \<Rightarrow> portal_accounts \<Rightarrow> portal_accounts" where
  "drop_old_session c st =
     (case cookie (al_request c) (set_cookie_name (as_session (al_settings c))) of None \<Rightarrow> st
      | Some raw \<Rightarrow>
        if raw = [] then st
        else case scalar (\<lambda>s. sess_session_hash s = al_digest c raw) (t_sessions (pa_db st)) of
          None \<Rightarrow> st
        | Some old \<Rightarrow> close_session_terminals c (sess_id old)
            (on_db (revoke_session (al_now c) (sess_id old)) st))"

record login_answer =
  la_user :: user_response
  la_csrf_token :: "string option"
  la_ssh_enrollment :: pyval
  la_cookies :: cookies_set

definition sign_in :: "account_call \<Rightarrow> portal_user \<Rightarrow> portal_accounts \<Rightarrow> login_answer \<times> portal_accounts" where
  "sign_in c user st =
     (let user = signed_in_row (al_now c) user;
          st = drop_old_session c (on_db (modify_user (user_id user) (signed_in_row (al_now c))) st);
          (session, db) = open_session c (al_id c 0) user (pa_db st);
          db = record_session_created c 2 user session ''login''
            (user_audit c 1 ''login.success'' user ''portal_user'' (user_id user)
              (PDict [(''session_rotated'', PBool True)]) db)
      in (\<lparr>la_user = serialize_user user, la_csrf_token = Some (fresh_csrf c),
           la_ssh_enrollment = ssh_enrollment_status db user, la_cookies = set_session_cookies c\<rparr>,
          st\<lparr>pa_db := db\<rparr>))"

definition login :: "account_call \<Rightarrow> login_request \<Rightarrow> portal_accounts \<Rightarrow>
    login_answer result \<times> string list \<times> portal_accounts" where
  "login c body st =
     (case preauth c of Inl e \<Rightarrow> (Inl e, [], st)
      | Inr _ \<Rightarrow>
        let normalized = login_name_of body in
        (case login_allowed c normalized st of
           (False, st) \<Rightarrow> (Inl rate_limited, [], st)
         | (True, st) \<Rightarrow>
           let user = scalar (\<lambda>u. user_normalized_login u = normalized) (t_users (pa_db st));
               credential = (case user of None \<Rightarrow> None | Some u \<Rightarrow> credential_of (user_id u) st);
               (valid, verified) = check_password c credential (lr_password body) in
           if \<not> valid then (Inl auth_error, verified, on_db (auth_failure c user normalized) st)
           else case user of
             None \<Rightarrow> (Inl auth_error, verified, on_db (auth_failure c None normalized) st)
           | Some u \<Rightarrow>
             if \<not> may_login c u then (Inl auth_error, verified, on_db (auth_failure c (Some u) normalized) st)
             else let (answer, st) = sign_in c u st in (Inr answer, verified, st)))"

subsection \<open>Password action links\<close>

fun purpose_value :: "password_action_purpose \<Rightarrow> string" where
  "purpose_value PP_INITIAL_PASSWORD_SETUP = ''INITIAL_PASSWORD_SETUP''"
| "purpose_value PP_PASSWORD_RESET = ''PASSWORD_RESET''"

definition password_action_error :: "instant \<Rightarrow> portal_password_setup_token option \<Rightarrow> string" where
  "password_action_error now candidate =
     (case candidate of None \<Rightarrow> ''PASSWORD_ACTION_INVALID''
      | Some t \<Rightarrow>
        if ptok_used_at t \<noteq> None \<or> ptok_state t = TS_USED then ''PASSWORD_ACTION_USED''
        else if ptok_expires_at t \<le> now \<or> ptok_state t = TS_EXPIRED then ''PASSWORD_ACTION_EXPIRED''
        else if ptok_revoked_at t \<noteq> None \<or> ptok_state t = TS_REVOKED then ''PASSWORD_ACTION_REVOKED''
        else ''PASSWORD_ACTION_INVALID'')"

definition password_action_account_is_valid :: "portal_password_setup_token \<Rightarrow> portal_user \<Rightarrow> bool" where
  "password_action_account_is_valid candidate user =
     (if ptok_purpose candidate = PP_INITIAL_PASSWORD_SETUP
      then user_account_state user = AS_INVITED \<and> user_password_state user = PS_SETUP_REQUIRED
      else user_account_state user = AS_ACTIVE \<and> user_password_state user \<in> set [PS_SET, PS_RESET_REQUIRED])"

definition usable :: "instant \<Rightarrow> portal_password_setup_token \<Rightarrow> bool" where
  "usable now t \<longleftrightarrow> ptok_state t = TS_ACTIVE \<and> ptok_used_at t = None \<and> ptok_revoked_at t = None \<and>
     now < ptok_expires_at t"

definition expire_link :: "portal_password_setup_token \<Rightarrow> portal_password_setup_token" where
  "expire_link t = t\<lparr>ptok_state := TS_EXPIRED, ptok_challenge_hash := None, ptok_challenge_expires_at := None\<rparr>"

definition revoke_link :: "instant \<Rightarrow> portal_password_setup_token \<Rightarrow> portal_password_setup_token" where
  "revoke_link now t = t\<lparr>ptok_state := TS_REVOKED, ptok_revoked_at := Some now, ptok_challenge_hash := None,
     ptok_challenge_expires_at := None\<rparr>"

definition exchange_link :: "account_call \<Rightarrow> portal_password_setup_token \<Rightarrow> portal_password_setup_token" where
  "exchange_link c t = t\<lparr>ptok_challenge_hash := Some (al_digest c (al_random c 0)),
     ptok_challenge_expires_at := Some (min (ptok_expires_at t)
       (al_now c + seconds (60 * as_password_action_challenge_minutes (al_settings c)))),
     ptok_exchanged_at := Some (al_now c)\<rparr>"

text \<open>The link a digest names, and its user: both rows are read again by their keys to lock them.\<close>

definition linked :: "(portal_password_setup_token \<Rightarrow> bool) \<Rightarrow> portal_db \<Rightarrow>
    (portal_password_setup_token \<times> portal_user option) option" where
  "linked p db = (case scalar p (t_setup_tokens db) of None \<Rightarrow> None
     | Some t \<Rightarrow> map_option (\<lambda>candidate. (candidate, get_user db (ptok_user_id t))) (get_setup_token db (ptok_id t)))"

record exchange_answer =
  xa_purpose :: password_action_purpose
  xa_username :: string
  xa_display_name :: string
  xa_expires_at :: instant
  xa_cookies :: cookies_set

definition exchange_password_action :: "account_call \<Rightarrow> string \<Rightarrow> (portal_accounts, exchange_answer) action" where
  "exchange_password_action c token st =
     (case preauth c of Inl e \<Rightarrow> (Inl e, st)
      | Inr _ \<Rightarrow>
        (case limited c (''password-action-ip:'' @ client_ip (al_request c)) 30 st of
           (False, st) \<Rightarrow> (Inl rate_limited, st)
         | (True, st) \<Rightarrow>
           (case linked (\<lambda>t. ptok_token_hash t = al_digest c token) (pa_db st) of
              None \<Rightarrow> (Inl (HTTPException 400 (password_action_error (al_now c) None)), st)
            | Some (candidate, user) \<Rightarrow>
              if \<not> usable (al_now c) candidate
              then if ptok_state candidate = TS_ACTIVE \<and> ptok_expires_at candidate \<le> al_now c
                then (Inl (HTTPException 400 (password_action_error (al_now c) (Some (expire_link candidate)))),
                      on_db (modify_setup_token (ptok_id candidate) expire_link) st)
                else (Inl (HTTPException 400 (password_action_error (al_now c) (Some candidate))), st)
              else (case user of None \<Rightarrow> (Inl (HTTPException 400 ''PASSWORD_ACTION_INVALID''), st)
                | Some u \<Rightarrow>
                  if \<not> password_action_account_is_valid candidate u
                  then (Inl (HTTPException 400 ''PASSWORD_ACTION_INVALID''),
                        on_db (modify_setup_token (ptok_id candidate) (revoke_link (al_now c))) st)
                  else (Inr \<lparr>xa_purpose = ptok_purpose candidate, xa_username = user_login_name u,
                          xa_display_name = user_display_name u, xa_expires_at = ptok_expires_at candidate,
                          xa_cookies = set_password_action_cookie c (al_random c 0)\<rparr>,
                        on_db (\<lambda>db. account_audit c 0 ''PASSWORD_ACTION_LINK_EXCHANGED'' (user_normalized_login u)
                            ''anonymous'' ''password_action_token'' (ptok_id candidate) ''SUCCESS''
                            (PDict [(''purpose'', PStr (purpose_value (ptok_purpose candidate)))]) None
                            (modify_setup_token (ptok_id candidate) (exchange_link c) db)) st)))))"

subsection \<open>Setting a password\<close>

definition challenged :: "instant \<Rightarrow> portal_password_setup_token \<Rightarrow> bool" where
  "challenged now t \<longleftrightarrow> usable now t \<and>
     (case ptok_challenge_expires_at t of None \<Rightarrow> False | Some until \<Rightarrow> now < until)"

definition use_link :: "instant \<Rightarrow> portal_password_setup_token \<Rightarrow> portal_password_setup_token" where
  "use_link now t = t\<lparr>ptok_used_at := Some now, ptok_state := TS_USED, ptok_challenge_hash := None,
     ptok_challenge_expires_at := None\<rparr>"

definition other_active :: "portal_password_setup_token \<Rightarrow> uuid \<Rightarrow> portal_password_setup_token \<Rightarrow> bool" where
  "other_active candidate uid t \<longleftrightarrow> ptok_user_id t = uid \<and> ptok_id t \<noteq> ptok_id candidate \<and>
     ptok_state t = TS_ACTIVE \<and> ptok_used_at t = None"

definition store_password :: "account_call \<Rightarrow> uuid \<Rightarrow> string \<Rightarrow> portal_password_credential list \<Rightarrow>
    portal_password_credential list" where
  "store_password c uid password rows =
     (case scalar (\<lambda>k. cred_user_id k = uid) rows of
        None \<Rightarrow> rows @ [\<lparr>cred_id = al_id c 7, cred_user_id = uid, cred_password_hash = al_hash c password,
          cred_password_changed_at = al_now c\<rparr>]
      | Some k \<Rightarrow> update_where (\<lambda>r. cred_id r = cred_id k)
          (\<lambda>r. r\<lparr>cred_password_hash := al_hash c password, cred_password_changed_at := al_now c\<rparr>) rows)"

definition password_set_row :: "instant \<Rightarrow> password_action_purpose \<Rightarrow> portal_user \<Rightarrow> portal_user" where
  "password_set_row now purpose u =
     (let u = u\<lparr>user_password_state := PS_SET\<rparr> in
      if purpose = PP_INITIAL_PASSWORD_SETUP
      then u\<lparr>user_account_state := AS_ACTIVE,
        user_activated_at := (case user_activated_at u of None \<Rightarrow> Some now | Some t \<Rightarrow> Some t)\<rparr>
      else u)"

definition link_event :: "password_action_purpose \<Rightarrow> string \<Rightarrow> string" where
  "link_event purpose what = (if purpose = PP_INITIAL_PASSWORD_SETUP then ''PASSWORD_SETUP_LINK_''
     else ''PASSWORD_RESET_LINK_'') @ what"

definition revoked_links_audit :: "account_call \<Rightarrow> nat \<Rightarrow> password_action_purpose \<Rightarrow> nat \<Rightarrow> portal_user \<Rightarrow> portal_user \<Rightarrow>
    portal_db \<Rightarrow> portal_db" where
  "revoked_links_audit c slot purpose count actor target db =
     (if count = 0 then db
      else user_audit c slot (link_event purpose ''REVOKED'') actor ''portal_user'' (user_id target)
        (PDict [(''purpose'', PStr (purpose_value purpose)), (''revoked_count'', PInt (int count))]) db)"

text \<open>What a password set with a link leaves: the link used, every other one, session, CLI token and terminal ended.\<close>

definition password_rows :: "account_call \<Rightarrow> portal_password_setup_token \<Rightarrow> portal_user \<Rightarrow> string \<Rightarrow> portal_accounts \<Rightarrow>
    nat \<times> nat \<times> portal_accounts" where
  "password_rows c candidate user password st =
     (let now = al_now c;
          db = modify_setup_token (ptok_id candidate) (use_link now) (pa_db st);
          db = db\<lparr>t_setup_tokens := update_where (other_active candidate (user_id user)) (revoke_link now)
            (t_setup_tokens db)\<rparr>;
          db = modify_user (user_id user) (password_set_row now (ptok_purpose candidate)) db;
          (sessions, db) = revoke_user_sessions now (user_id user) None db;
          (tokens, db) = revoke_user_cli_tokens now (user_id user) db
      in (sessions, tokens, close_user_terminals c (user_id user) None
        (st\<lparr>pa_db := db, pa_credentials := store_password c (user_id user) password (pa_credentials st)\<rparr>)))"

record setup_answer =
  sa_user :: user_response
  sa_csrf_token :: "string option"
  sa_ssh_enrollment :: pyval
  sa_purpose :: password_action_purpose
  sa_requires_login :: bool
  sa_cookies :: cookies_set

definition password_was_set :: "account_call \<Rightarrow> portal_password_setup_token \<Rightarrow> portal_user \<Rightarrow> string \<Rightarrow> portal_accounts \<Rightarrow>
    setup_answer \<times> portal_accounts" where
  "password_was_set c candidate user password st =
     (let initial = (ptok_purpose candidate = PP_INITIAL_PASSWORD_SETUP);
          others = filter (other_active candidate (user_id user)) (t_setup_tokens (pa_db st));
          (sessions, tokens, st) = password_rows c candidate user password st;
          user = password_set_row (al_now c) (ptok_purpose candidate) user;
          (session, db) = (if initial then (case open_session c (al_id c 0) user (pa_db st) of
              (s, db) \<Rightarrow> (Some s, db)) else (None, pa_db st));
          count = (\<lambda>purpose. length (filter (\<lambda>t. ptok_purpose t = purpose) others));
          db = revoked_links_audit c 1 PP_INITIAL_PASSWORD_SETUP (count PP_INITIAL_PASSWORD_SETUP) user user db;
          db = revoked_links_audit c 2 PP_PASSWORD_RESET (count PP_PASSWORD_RESET) user user db;
          db = user_audit c 3 (if initial then ''PASSWORD_SETUP_COMPLETED'' else ''PASSWORD_RESET_COMPLETED'') user
            ''password_action_token'' (ptok_id candidate)
            (PDict [(''purpose'', PStr (purpose_value (ptok_purpose candidate))), (''single_use'', PBool True)]) db;
          db = (case session of
            Some s \<Rightarrow> record_session_created c 4 user s ''password_setup'' db
          | None \<Rightarrow> user_audit c 4 ''SESSION_REVOKED_AFTER_PASSWORD_RESET'' user ''portal_user'' (user_id user)
              (PDict [(''revoked_count'', PInt (int sessions)), (''revoked_cli_tokens'', PInt (int tokens)),
                (''requires_login'', PBool True)]) db)
      in (\<lparr>sa_user = serialize_user user, sa_csrf_token = (if initial then Some (fresh_csrf c) else None),
           sa_ssh_enrollment = ssh_enrollment_status db user, sa_purpose = ptok_purpose candidate,
           sa_requires_login = \<not> initial,
           sa_cookies = clear_password_action_cookie c @
             (if initial then set_session_cookies c else clear_session_cookies c)\<rparr>,
          st\<lparr>pa_db := db\<rparr>))"

definition challenge_cookie :: "account_call \<Rightarrow> string" where
  "challenge_cookie c = (case cookie (al_request c) (as_password_action_cookie_name (al_settings c)) of
     None \<Rightarrow> [] | Some raw \<Rightarrow> raw)"

definition weak_password :: exn where
  "weak_password = HTTPException 422 ''WEAK_PASSWORD''"

definition setup_password :: "account_call \<Rightarrow> setup_password_request \<Rightarrow> (portal_accounts, setup_answer) action" where
  "setup_password c body st =
     (case preauth c of Inl e \<Rightarrow> (Inl e, st)
      | Inr _ \<Rightarrow>
        (case linked (\<lambda>t. ptok_challenge_hash t = Some (al_digest c (challenge_cookie c))) (pa_db st) of
           None \<Rightarrow> (Inl (HTTPException 400 (password_action_error (al_now c) None)), st)
         | Some (candidate, user) \<Rightarrow>
           if challenge_cookie c = [] \<or> \<not> challenged (al_now c) candidate
           then (Inl (HTTPException 400 (password_action_error (al_now c) (Some candidate))), st)
           else (case user of None \<Rightarrow> (Inl (HTTPException 400 ''PASSWORD_ACTION_INVALID''), st)
             | Some u \<Rightarrow>
               if \<not> password_action_account_is_valid candidate u
               then (Inl (HTTPException 400 ''PASSWORD_ACTION_INVALID''),
                     on_db (modify_setup_token (ptok_id candidate) (revoke_link (al_now c))) st)
               else (case validate_password (spr_password body) (user_normalized_login u) of
                   Inl _ \<Rightarrow> (Inl weak_password, st)
                 | Inr _ \<Rightarrow> (case password_was_set c candidate u (spr_password body) st of
                     (answer, st) \<Rightarrow> (Inr answer, st))))))"

definition changed_password :: "account_call \<Rightarrow> auth_context \<Rightarrow> string \<Rightarrow> portal_accounts \<Rightarrow> portal_accounts" where
  "changed_password c context password st =
     (let user = (ctx_user context)\<lparr>user_password_state := PS_SET\<rparr>;
          db = modify_user (user_id user) (\<lambda>u. u\<lparr>user_password_state := PS_SET\<rparr>) (pa_db st);
          (sessions, db) = revoke_user_sessions (al_now c) (user_id user) None db;
          (tokens, db) = revoke_user_cli_tokens (al_now c) (user_id user) db;
          st = close_user_terminals c (user_id user) None
            (st\<lparr>pa_db := db, pa_credentials := store_password c (user_id user) password (pa_credentials st)\<rparr>);
          (session, db) = open_session c (al_id c 0) user (pa_db st);
          db = modify_session (sess_id session) (\<lambda>s. s\<lparr>sess_reauthenticated_at := Some (al_now c)\<rparr>) db;
          db = user_audit c 1 ''password.change'' user ''portal_user'' (user_id user)
            (PDict [(''all_previous_sessions_revoked'', PBool True), (''all_cli_tokens_revoked'', PBool True),
              (''revoked_cli_tokens'', PInt (int tokens)), (''session_rotated'', PBool True)]) db
      in st\<lparr>pa_db := record_session_created c 2 user session ''password_change'' db\<rparr>)"

definition change_password :: "account_call \<Rightarrow> change_password_request \<Rightarrow> auth_context \<Rightarrow>
    (portal_accounts, cookies_set) action" where
  "change_password c body context st =
     (case session_csrf c context of Inl e \<Rightarrow> (Inl e, st)
      | Inr _ \<Rightarrow>
        (case credential_of (user_id (ctx_user context)) st of None \<Rightarrow> (Inl auth_error, st)
         | Some k \<Rightarrow>
           if \<not> al_verify c (cred_password_hash k) (cpr_current_password body) then (Inl auth_error, st)
           else (case validate_password (cpr_new_password body) (user_normalized_login (ctx_user context)) of
               Inl _ \<Rightarrow> (Inl weak_password, st)
             | Inr _ \<Rightarrow> (Inr (set_session_cookies c), changed_password c context (cpr_new_password body) st))))"

subsection \<open>CLI tokens of an ordinary user\<close>

record cli_token_view =
  ctv_id :: uuid
  ctv_label :: string
  ctv_state :: string
  ctv_created_at :: instant
  ctv_expires_at :: "instant option"
  ctv_last_used_at :: "instant option"
  ctv_revoked_at :: "instant option"
  ctv_scopes :: "string list"
  ctv_owner_bound :: bool

definition cli_token_unexpired :: "instant \<Rightarrow> portal_cli_token \<Rightarrow> bool" where
  "cli_token_unexpired now t \<longleftrightarrow> (case cli_expires_at t of None \<Rightarrow> True | Some e \<Rightarrow> now < e)"

definition view_cli_token :: "instant \<Rightarrow> portal_cli_token \<Rightarrow> cli_token_view" where
  "view_cli_token now t = \<lparr>ctv_id = cli_id t, ctv_label = cli_label t,
     ctv_state = (if cli_revoked_at t \<noteq> None then ''REVOKED''
       else if \<not> cli_token_unexpired now t then ''EXPIRED'' else ''ACTIVE''),
     ctv_created_at = cli_created_at t, ctv_expires_at = cli_expires_at t, ctv_last_used_at = cli_last_used_at t,
     ctv_revoked_at = cli_revoked_at t,
     ctv_scopes = [''self.jobs.submit'', ''self.jobs.read'', ''self.jobs.cancel''], ctv_owner_bound = True\<rparr>"

definition require_ordinary_cli_token_owner :: "auth_context \<Rightarrow> unit result" where
  "require_ordinary_cli_token_owner context =
     (if role_names (ctx_user context) \<noteq> [''user''] then Inl (HTTPException 403 ''CLI_TOKEN_ORDINARY_USER_ONLY'')
      else Inr ())"

definition cli_tokens :: "account_call \<Rightarrow> auth_context \<Rightarrow> (portal_accounts, cli_token_view list) action" where
  "cli_tokens c context st =
     (case require_ordinary_cli_token_owner context of Inl e \<Rightarrow> (Inl e, st)
      | Inr _ \<Rightarrow> (Inr (map (view_cli_token (al_now c)) (take 50 (order_desc cli_created_at
          (filter (\<lambda>t. cli_user_id t = user_id (ctx_user context)) (t_cli_tokens (pa_db st)))))), st))"

definition new_cli_token :: "account_call \<Rightarrow> cli_token_create_request \<Rightarrow> uuid \<Rightarrow> portal_cli_token" where
  "new_cli_token c body uid = \<lparr>cli_id = al_id c 0, cli_user_id = uid,
     cli_token_hash = al_digest c (CLI_TOKEN_PREFIX @ al_random c 0), cli_label = tcr_label body,
     cli_created_at = al_now c,
     cli_expires_at = map_option (\<lambda>d. al_now c + seconds (86400 * d)) (tcr_expires_in_days body),
     cli_last_used_at = None, cli_revoked_at = None\<rparr>"

definition active_cli_tokens :: "instant \<Rightarrow> uuid \<Rightarrow> portal_db \<Rightarrow> nat" where
  "active_cli_tokens now uid db = length (filter (cli_token_unexpired now)
     (filter (\<lambda>t. cli_user_id t = uid \<and> cli_revoked_at t = None) (t_cli_tokens db)))"

definition create_cli_token :: "account_call \<Rightarrow> cli_token_create_request \<Rightarrow> auth_context \<Rightarrow>
    (portal_accounts, string \<times> cli_token_view) action" where
  "create_cli_token c body context st =
     (case session_csrf c context of Inl e \<Rightarrow> (Inl e, st)
      | Inr _ \<Rightarrow>
        (case require_recent_reauthentication (as_session (al_settings c)) (al_now c) context of Inl e \<Rightarrow> (Inl e, st)
         | Inr _ \<Rightarrow>
           (case require_ordinary_cli_token_owner context of Inl e \<Rightarrow> (Inl e, st)
            | Inr _ \<Rightarrow>
              let uid = user_id (ctx_user context) in
              (case limited c (''cli-token-create:'' @ uid) 10 st of
                 (False, st) \<Rightarrow> (Inl rate_limited, st)
               | (True, st) \<Rightarrow>
                 if 10 \<le> active_cli_tokens (al_now c) uid (pa_db st)
                 then (Inl (HTTPException 409 ''CLI_TOKEN_LIMIT_REACHED''), st)
                 else let token = new_cli_token c body uid in
                   (Inr (CLI_TOKEN_PREFIX @ al_random c 0, view_cli_token (al_now c) token),
                    on_db (\<lambda>db. account_audit c 1 ''CLI_TOKEN_CREATED'' (user_normalized_login (ctx_user context)) ''user''
                      ''cli_token'' (cli_id token) ''SUCCESS''
                      (PDict [(''label'', PStr (cli_label token)), (''expires_at'', opt_val PTime (cli_expires_at token)),
                        (''ordinary_user_only'', PBool True)]) None (add_cli_token token db)) st)))))"

definition end_cli_token :: "instant \<Rightarrow> portal_cli_token \<Rightarrow> portal_cli_token" where
  "end_cli_token now t = t\<lparr>cli_revoked_at := Some (case cli_revoked_at t of None \<Rightarrow> now | Some r \<Rightarrow> r)\<rparr>"

definition revoke_cli_token :: "account_call \<Rightarrow> uuid \<Rightarrow> auth_context \<Rightarrow> (portal_accounts, unit) action" where
  "revoke_cli_token c token_id context st =
     (case session_csrf c context of Inl e \<Rightarrow> (Inl e, st)
      | Inr _ \<Rightarrow>
        (case require_ordinary_cli_token_owner context of Inl e \<Rightarrow> (Inl e, st)
         | Inr _ \<Rightarrow>
           (case scalar (\<lambda>t. cli_id t = token_id \<and> cli_user_id t = user_id (ctx_user context)) (t_cli_tokens (pa_db st)) of
              None \<Rightarrow> (Inl (HTTPException 404 ''CLI_TOKEN_NOT_FOUND''), st)
            | Some t \<Rightarrow> (Inr (), on_db (\<lambda>db. account_audit c 0 ''CLI_TOKEN_REVOKED''
                (user_normalized_login (ctx_user context)) ''user'' ''cli_token'' (cli_id t) ''SUCCESS''
                (PDict [(''label'', PStr (cli_label t))]) None
                (modify_cli_token (cli_id t) (end_cli_token (al_now c)) db)) st))))"

subsection \<open>The sessions of a user\<close>

text \<open>A route that asserts that its context has a session fails otherwise; no handler catches that.\<close>

definition with_session :: "auth_context \<Rightarrow> (portal_session \<Rightarrow> (portal_accounts, 'a) action) \<Rightarrow>
    (portal_accounts, 'a) action" where
  "with_session context route st = (case ctx_session context of
     None \<Rightarrow> (Inl (RuntimeError ''AssertionError''), st) | Some session \<Rightarrow> route session st)"

record me_answer =
  me_user :: user_response
  me_role :: string
  me_ssh_enrollment :: pyval
  me_recent_auth_valid :: bool
  me_recent_auth_valid_until :: "instant option"

definition me :: "account_call \<Rightarrow> auth_context \<Rightarrow> (portal_accounts, me_answer) action" where
  "me c context = with_session context (\<lambda>session st.
     let until = map_option (\<lambda>t. t + seconds (60 * set_reauthentication_minutes (as_session (al_settings c))))
       (sess_reauthenticated_at session) in
     (Inr \<lparr>me_user = serialize_user (ctx_user context), me_role = highest_role (ctx_user context),
        me_ssh_enrollment = ssh_enrollment_status (pa_db st) (ctx_user context),
        me_recent_auth_valid = (case until of None \<Rightarrow> False | Some t \<Rightarrow> al_now c < t),
        me_recent_auth_valid_until = until\<rparr>, st))"

record session_view =
  sv_id :: uuid
  sv_created_at :: instant
  sv_last_seen_at :: instant
  sv_idle_expires_at :: instant
  sv_absolute_expires_at :: instant
  sv_current :: bool
  sv_source_ip :: string

definition session_response :: "portal_session \<Rightarrow> bool \<Rightarrow> session_view" where
  "session_response s current = \<lparr>sv_id = sess_id s, sv_created_at = sess_created_at s,
     sv_last_seen_at = sess_last_seen_at s, sv_idle_expires_at = sess_idle_expires_at s,
     sv_absolute_expires_at = sess_absolute_expires_at s, sv_current = current, sv_source_ip = sess_source_ip s\<rparr>"

definition sessions :: "account_call \<Rightarrow> auth_context \<Rightarrow> (portal_accounts, session_view list) action" where
  "sessions c context st =
     (let raw = (case cookie (al_request c) (set_cookie_name (as_session (al_settings c))) of
            None \<Rightarrow> [] | Some r \<Rightarrow> r) in
      (Inr (map (\<lambda>s. session_response s (sess_session_hash s = al_digest c raw)) (order_desc sess_created_at
         (filter (\<lambda>s. sess_user_id s = user_id (ctx_user context) \<and> sess_revoked_at s = None)
           (t_sessions (pa_db st))))), st))"

definition logout :: "account_call \<Rightarrow> auth_context \<Rightarrow> (portal_accounts, cookies_set) action" where
  "logout c context = with_session context (\<lambda>session st.
     (case session_csrf c context of Inl e \<Rightarrow> (Inl e, st)
      | Inr _ \<Rightarrow> (Inr (clear_session_cookies c),
          on_db (user_audit c 0 ''logout'' (ctx_user context) ''portal_user'' (user_id (ctx_user context)) PNone)
            (close_session_terminals c (sess_id session)
              (on_db (revoke_session (al_now c) (sess_id session)) st)))))"

definition reauthenticate :: "account_call \<Rightarrow> string \<Rightarrow> auth_context \<Rightarrow> (portal_accounts, unit) action" where
  "reauthenticate c password context = with_session context (\<lambda>session st.
     (case session_csrf c context of Inl e \<Rightarrow> (Inl e, st)
      | Inr _ \<Rightarrow>
        let user = ctx_user context in
        if \<not> (case credential_of (user_id user) st of None \<Rightarrow> False
            | Some k \<Rightarrow> al_verify c (cred_password_hash k) password)
        then (Inl auth_error, on_db (account_audit c 0 ''reauthentication.failure'' (user_normalized_login user)
          (highest_role user) ''portal_user'' (user_id user) ''DENIED'' PNone None) st)
        else (Inr (), on_db (\<lambda>db. user_audit c 0 ''reauthentication.success'' user ''portal_user'' (user_id user) PNone
          (modify_session (sess_id session) (\<lambda>s. s\<lparr>sess_reauthenticated_at := Some (al_now c)\<rparr>) db)) st)))"

definition session_not_found :: exn where
  "session_not_found = HTTPException 404 ''SESSION_NOT_FOUND''"

definition revoke_other_session :: "account_call \<Rightarrow> string \<Rightarrow> auth_context \<Rightarrow> (portal_accounts, cookies_set) action" where
  "revoke_other_session c session_id context = with_session context (\<lambda>session st.
     (case session_csrf c context of Inl e \<Rightarrow> (Inl e, st)
      | Inr _ \<Rightarrow>
        (case uuid_of session_id of None \<Rightarrow> (Inl session_not_found, st)
         | Some i \<Rightarrow>
           (case scalar (\<lambda>s. sess_id s = i \<and> sess_user_id s = user_id (ctx_user context) \<and> sess_revoked_at s = None)
               (t_sessions (pa_db st)) of
              None \<Rightarrow> (Inl session_not_found, st)
            | Some t \<Rightarrow> (Inr (if sess_id t = sess_id session then clear_session_cookies c else []),
                on_db (user_audit c 0 ''session.revoke'' (ctx_user context) ''portal_session'' (sess_id t) PNone)
                  (close_session_terminals c (sess_id t) (on_db (revoke_session (al_now c) (sess_id t)) st)))))))"

definition revoke_other_sessions :: "account_call \<Rightarrow> auth_context \<Rightarrow> (portal_accounts, nat) action" where
  "revoke_other_sessions c context = with_session context (\<lambda>session st.
     (case session_csrf c context of Inl e \<Rightarrow> (Inl e, st)
      | Inr _ \<Rightarrow>
        (case revoke_user_sessions (al_now c) (user_id (ctx_user context)) (Some (sess_id session)) (pa_db st) of
           (revoked, db) \<Rightarrow> (Inr revoked,
             on_db (user_audit c 0 ''session.revoke_others'' (ctx_user context) ''portal_user'' (user_id (ctx_user context))
               (PDict [(''revoked_count'', PInt (int revoked))]))
               (close_user_terminals c (user_id (ctx_user context)) (Some (sess_id session)) (st\<lparr>pa_db := db\<rparr>))))))"

end
