(* ===== verification/User_Routes.thy ===== *)
theory User_Routes
  imports Login_Routes Expiry_Service
begin

section \<open>Administration of the accounts\<close>

text \<open>
  \<open>routes/users.py\<close> and the console commands of \<open>cli.py\<close> that prepare the owner's account: an administrator
  invites a user with one role he may assign, issues the one-time link with which the user sets or resets his password, and
  says whether lease renewals need an approval. A route whose permission is checked by \<open>permission_dependency\<close> is
  wrapped in \<open>permitted\<close>. The views return the records and dictionaries the answers are rendered from.
\<close>

definition permitted :: "account_call \<Rightarrow> string \<Rightarrow> (auth_context \<Rightarrow> (portal_accounts, 'a) action) \<Rightarrow>
    (portal_accounts, 'a) action" where
  "permitted c permission route st =
     (case permission_dependency (al_digest c) (as_session (al_settings c)) (al_id c 9) (al_now c) permission
         (al_request c) (pa_db st) of
        (Inl e, db) \<Rightarrow> (Inl e, st\<lparr>pa_db := db\<rparr>)
      | (Inr context, db) \<Rightarrow> route context (st\<lparr>pa_db := db\<rparr>))"

definition user_not_found :: exn where
  "user_not_found = HTTPException 404 ''USER_NOT_FOUND''"

definition user_id_of :: "string \<Rightarrow> uuid result" where
  "user_id_of value = (case uuid_of value of None \<Rightarrow> Inl user_not_found | Some i \<Rightarrow> Inr i)"

definition named_user :: "string \<Rightarrow> portal_db \<Rightarrow> portal_user result" where
  "named_user value db = (case user_id_of value of Inl e \<Rightarrow> Inl e
     | Inr i \<Rightarrow> (case get_user db i of None \<Rightarrow> Inl user_not_found | Some u \<Rightarrow> Inr u))"

subsection \<open>Views\<close>

fun token_state_value :: "password_action_token_state \<Rightarrow> string" where
  "token_state_value TS_ACTIVE = ''ACTIVE''"
| "token_state_value TS_USED = ''USED''"
| "token_state_value TS_REVOKED = ''REVOKED''"
| "token_state_value TS_EXPIRED = ''EXPIRED''"

definition password_action_state :: "instant \<Rightarrow> portal_password_setup_token \<Rightarrow> string" where
  "password_action_state now t = (if ptok_state t = TS_ACTIVE \<and> ptok_expires_at t \<le> now
     then token_state_value TS_EXPIRED else token_state_value (ptok_state t))"

record password_action_view =
  pav_id :: uuid
  pav_purpose :: string
  pav_state :: string
  pav_created_at :: instant
  pav_expires_at :: instant
  pav_used_at :: "instant option"
  pav_revoked_at :: "instant option"
  pav_created_by :: "uuid option"

definition view_password_action :: "instant \<Rightarrow> portal_password_setup_token \<Rightarrow> password_action_view" where
  "view_password_action now t = \<lparr>pav_id = ptok_id t, pav_purpose = purpose_value (ptok_purpose t),
     pav_state = password_action_state now t, pav_created_at = ptok_created_at t, pav_expires_at = ptok_expires_at t,
     pav_used_at = ptok_used_at t, pav_revoked_at = ptok_revoked_at t, pav_created_by = ptok_created_by t\<rparr>"

definition password_action_views :: "instant \<Rightarrow> uuid \<Rightarrow> portal_db \<Rightarrow> password_action_view list" where
  "password_action_views now uid db = map (view_password_action now) (take 20 (order_desc ptok_created_at
     (filter (\<lambda>t. ptok_user_id t = uid) (t_setup_tokens db))))"

record compute_lifecycle =
  cl_lease_id :: uuid
  cl_owner :: string
  cl_starts_at :: instant
  cl_expires_at :: instant
  cl_time_expired :: bool
  cl_lease_state :: string

record admin_user =
  adm_user :: user_response
  adm_note :: "string option"
  adm_password_actions :: "password_action_view list"
  adm_compute_request :: "(uuid \<times> string \<times> int \<times> instant option) option"
  adm_compute_lifecycle :: "compute_lifecycle option"
  adm_renewal_approval_required :: bool

definition admin_user_payload :: "instant \<Rightarrow> portal_user \<Rightarrow> portal_db \<Rightarrow> admin_user" where
  "admin_user_payload now user db =
     (let asked = scalar (\<lambda>r. crr_portal_account_id r = user_id user)
            (order_desc crr_created_at (t_resource_requests db));
          managed = scalar (\<lambda>m. mu_portal_user_id m = user_id user) (t_managed_users db);
          lease = (case managed of None \<Rightarrow> None | Some m \<Rightarrow>
            scalar (\<lambda>l. lease_owner_managed_user_id l = mu_id m) (order_desc lease_expires_at (t_leases db)))
      in \<lparr>adm_user = serialize_user user, adm_note = user_note user,
          adm_password_actions = password_action_views now (user_id user) db,
          adm_compute_request = map_option (\<lambda>r. (crr_id r, crr_status r, crr_requested_gpu_max r, crr_submitted_at r)) asked,
          adm_compute_lifecycle = (case (managed, lease) of
            (Some m, Some l) \<Rightarrow> Some \<lparr>cl_lease_id = lease_id l, cl_owner = mu_unix_username m,
              cl_starts_at = lease_starts_at l, cl_expires_at = lease_expires_at l,
              cl_time_expired = (lease_expires_at l \<le> now), cl_lease_state = lease_state l\<rparr>
          | _ \<Rightarrow> None),
          adm_renewal_approval_required = (case managed of None \<Rightarrow> True
            | Some m \<Rightarrow> mu_lease_renewal_approval_required m)\<rparr>)"

text \<open>Values of the container's specification, under the names of the view.\<close>

definition spec_fields :: "(string \<times> string) list" where
  "spec_fields = [(''max_gpus'', ''max_gpus''), (''gpu_open_state'', ''gpu_open_probe''),
     (''cuda_context_state'', ''cuda_context_probe''), (''guard_state'', ''guard''), (''container_gpu'', ''gpu''),
     (''container_cpus'', ''cpus''), (''container_memory_gb'', ''memory_gb''), (''container_sudo'', ''container_sudo''),
     (''container_pids_limit'', ''pids_limit''), (''host_ssh_port'', ''host_ssh_port''),
     (''host_server_fingerprint'', ''host_server_fingerprint''),
     (''container_server_fingerprint'', ''container_server_fingerprint''), (''host_ssh_server'', ''host_ssh_server''),
     (''container_ssh_server'', ''container_ssh_server''),
     (''host_ssh_client_validation'', ''host_ssh_client_validation''),
     (''container_ssh_client_validation'', ''container_ssh_client_validation''),
     (''host_ssh_policy'', ''host_ssh_policy''), (''container_ssh_policy'', ''container_ssh_policy''),
     (''slurm_node_state'', ''slurm_node_state''), (''slurm_queue'', ''slurm_queue''),
     (''gpu_scheduling_available'', ''gpu_scheduling_available''),
     (''pilot_acceptance_status'', ''pilot_acceptance_status''),
     (''pilot_acceptance_operation_id'', ''pilot_acceptance_operation_id''),
     (''pilot_acceptance_accepted_at'', ''pilot_acceptance_accepted_at''), (''pilot_cpu_job_id'', ''pilot_cpu_job_id''),
     (''pilot_gpu_job_id'', ''pilot_gpu_job_id''), (''pilot_allocated_gpu_uuid'', ''pilot_allocated_gpu_uuid''),
     (''pilot_final_node_state'', ''pilot_final_node_state'')]"

definition resource_view :: "account_settings \<Rightarrow> portal_user \<Rightarrow> portal_managed_user option \<Rightarrow> portal_container option \<Rightarrow>
    pyval" where
  "resource_view settings user resource container =
     (case resource of
        None \<Rightarrow> PDict [(''unix_username'', opt_val PStr (user_unix_username user)),
          (''onboarding_state'', PStr (onboarding_value (user_resource_onboarding_state user))),
          (''gpu_isolation_state'', PStr ''NOT_APPLIED''), (''ssh_key_state'', PStr ''NOT_REQUIRED_FOR_STAGE''),
          (''ssh_key_count'', PInt 0), (''host_access_state'', PStr ''NOT_ACTIVATED'')]
      | Some m \<Rightarrow>
        let safe_spec = (case container of None \<Rightarrow> PDict [] | Some k \<Rightarrow> cont_safe_spec k) in
        PDict ([(''managed_user_id'', PStr (mu_id m)), (''unix_username'', PStr (mu_unix_username m)),
          (''uid'', PInt (mu_uid m)), (''gid'', PInt (mu_gid m)), (''shell'', PStr (mu_shell m)),
          (''host_access_state'', PStr (mu_host_access_state m)),
          (''compute_environment_state'', PStr (mu_compute_environment_state m)),
          (''gpu_isolation_state'', PStr (mu_gpu_isolation_state m)),
          (''onboarding_state'', PStr (onboarding_value (mu_onboarding_state m))),
          (''ssh_key_state'', PStr (mu_ssh_key_state m)), (''ssh_key_count'', PInt (mu_ssh_key_count m)),
          (''slurm_account'', opt_val PStr (mu_slurm_account m)), (''slurm_qos'', opt_val PStr (mu_slurm_qos m)),
          (''project_id'', opt_val PInt (mu_project_id m)), (''quota_bytes'', opt_val PInt (mu_quota_bytes m)),
          (''container_name'', opt_val PStr (mu_container_name m)),
          (''container_port'', opt_val PInt (mu_container_port m)),
          (''password_state'', PStr (if mu_onboarding_state m \<in> set [OB_STAGED, OB_ACTIVE] then ''LOCKED'' else ''UNKNOWN'')),
          (''authorized_keys_state'', dget_or safe_spec ''authorized_keys'' (PStr ''UNKNOWN'')),
          (''container_state'', opt_val (\<lambda>k. PStr (cont_observed_state k)) container),
          (''container_image_digest'', opt_val (\<lambda>k. PStr (cont_image_digest k)) container),
          (''approved_host'', PStr (as_public_access_host settings))]
          @ map (\<lambda>(name, key). (name, dget safe_spec key)) spec_fields))"

text \<open>
  The newest operation of the lifecycle of a compute identity. A succeeded operation has a \<open>finished_at\<close>, by
  which the succeeded Stages are sorted.
\<close>

definition lifecycle_operation :: "portal_managed_user option \<Rightarrow> string \<Rightarrow> portal_db \<Rightarrow> portal_operation option" where
  "lifecycle_operation managed compute_username db =
     (if map_option mu_onboarding_state managed = Some OB_STAGED
      then scalar (\<lambda>r. oper_operation_type r = ''user.stage'' \<and> oper_target_id r = compute_username \<and>
          oper_status r = OP_SUCCEEDED)
        (order_desc (\<lambda>r. case oper_finished_at r of None \<Rightarrow> 0 | Some t \<Rightarrow> t) (t_operations db))
      else scalar (\<lambda>r. oper_operation_type r \<in> set [''user.plan'', ''user.stage'', ''user.activate''] \<and>
          oper_target_id r = compute_username) (order_desc oper_created_at (t_operations db)))"

definition compute_plan_view :: "portal_user \<Rightarrow> portal_db \<Rightarrow> pyval" where
  "compute_plan_view user db =
     (let managed = scalar (\<lambda>m. mu_portal_user_id m = user_id user) (t_managed_users db);
          compute_username = (case managed of None \<Rightarrow> ''origin-pilot'' | Some m \<Rightarrow> mu_unix_username m);
          operation = lifecycle_operation managed compute_username db;
          activate = (case managed of None \<Rightarrow> None | Some m \<Rightarrow>
            if mu_onboarding_state m \<in> set [OB_STAGED, OB_ACTIVE]
            then scalar (\<lambda>r. oper_operation_type r = ''user.activate'' \<and> oper_target_id r = compute_username)
              (order_desc oper_created_at (t_operations db)) else None)
      in
      if user_normalized_login user \<noteq> ''origin-al'' \<and> managed = None
      then PDict [(''status'', PStr ''NOT_APPLICABLE''), (''compute_username'', PNone),
        (''draft_state'', PStr ''NOT_APPLICABLE''), (''ssh_key_status'', PStr ''NOT_APPLICABLE''), (''plan'', PNone)]
      else (case operation of
          None \<Rightarrow>
            (case managed of
               Some m \<Rightarrow> let state = PStr (onboarding_value (mu_onboarding_state m)) in
                 PDict [(''status'', state), (''compute_username'', PStr compute_username), (''draft_state'', state),
                   (''ssh_key_status'', PStr (mu_ssh_key_state m)), (''plan'', PNone), (''activate_dry_run'', PNone)]
             | None \<Rightarrow> PDict [(''status'', PStr ''NOT_CREATED''), (''compute_username'', PStr compute_username),
                 (''draft_state'', PStr ''DRAFT NOT CREATED''), (''ssh_key_status'', PStr ''NOT_REQUIRED_FOR_STAGE''),
                 (''plan'', PNone)])
        | Some operation \<Rightarrow>
            let state = map_option (\<lambda>m. onboarding_value (mu_onboarding_state m)) managed;
                staged = (state = Some ''STAGED'' \<or> state = Some ''ACTIVE'') in
            PDict [(''status'', PStr (if staged then the state
                else if oper_operation_type operation \<noteq> ''user.activate'' then ''DRAFT'' else ''ACTIVATE_DRAFT'')),
              (''compute_username'', PStr compute_username),
              (''draft_state'', PStr (if staged then the state else ''DRAFT'')),
              (''operation_id'', PStr (oper_id operation)),
              (''operation_status'', PStr (status_value (oper_status operation))),
              (''plan'', oper_dry_run_result operation), (''operation_type'', PStr (oper_operation_type operation)),
              (''ssh_key_status'', PStr (case (staged, managed) of (True, Some m) \<Rightarrow> mu_ssh_key_state m
                 | _ \<Rightarrow> if oper_operation_type operation \<in> set [''user.plan'', ''user.stage'']
                     then ''NOT_REQUIRED_FOR_STAGE'' else ''REQUIRED_FOR_ACTIVATION'')),
              (''result_summary'', opt_val PStr (oper_result_summary operation)),
              (''error_code'', opt_val PStr (oper_error_code operation)),
              (''activate_dry_run'', opt_val (\<lambda>a. PDict [(''operation_id'', PStr (oper_id a)),
                 (''status'', PStr (status_value (oper_status a))), (''plan'', oper_dry_run_result a),
                 (''result_summary'', opt_val PStr (oper_result_summary a)),
                 (''error_code'', opt_val PStr (oper_error_code a))]) activate)]))"

record listed_user =
  lu_item :: admin_user
  lu_linux_identity :: pyval
  lu_compute_onboarding :: pyval

definition listed :: "account_call \<Rightarrow> portal_user \<Rightarrow> portal_managed_user option \<Rightarrow> portal_container option \<Rightarrow> portal_db \<Rightarrow>
    listed_user" where
  "listed c user resource container db = \<lparr>lu_item = admin_user_payload (al_now c) user db,
     lu_linux_identity = resource_view (al_settings c) user resource container,
     lu_compute_onboarding = compute_plan_view user db\<rparr>"

text \<open>A dictionary built from rows keeps the last row of a key.\<close>

definition users :: "account_call \<Rightarrow> auth_context \<Rightarrow> (portal_accounts, listed_user list) action" where
  "users c context st =
     (let db = pa_db st in
      (Inr (map (\<lambda>user.
         let resource = scalar (\<lambda>m. mu_portal_user_id m = user_id user) (rev (t_managed_users db));
             container = (case resource of None \<Rightarrow> None
               | Some m \<Rightarrow> scalar (\<lambda>k. cont_managed_user_id k = mu_id m) (rev (t_containers db)))
         in listed c user resource container db) (order_asc user_created_at (t_users db))), st))"

datatype user_detail_answer = own_details user_response | administered listed_user

definition user_detail :: "account_call \<Rightarrow> string \<Rightarrow> auth_context \<Rightarrow> (portal_accounts, user_detail_answer) action" where
  "user_detail c value context st =
     (case named_user value (pa_db st) of Inl e \<Rightarrow> (Inl e, st)
      | Inr user \<Rightarrow>
        let db = pa_db st; own = (user_id user = user_id (ctx_user context)) in
        if \<not> own \<and> \<not> has_permission (ctx_user context) ''users.read'' then (Inl (HTTPException 403 ''FORBIDDEN''), st)
        else if own \<and> highest_role (ctx_user context) = ''user'' then (Inr (own_details (serialize_user user)), st)
        else let resource = scalar (\<lambda>m. mu_portal_user_id m = user_id user) (t_managed_users db);
                 container = (case resource of None \<Rightarrow> None
                   | Some m \<Rightarrow> scalar (\<lambda>k. cont_managed_user_id k = mu_id m) (t_containers db))
          in (Inr (administered (listed c user resource container db)), st))"

definition password_action_tokens :: "account_call \<Rightarrow> string \<Rightarrow> auth_context \<Rightarrow>
    (portal_accounts, password_action_view list) action" where
  "password_action_tokens c value context st =
     (case named_user value (pa_db st) of Inl e \<Rightarrow> (Inl e, st)
      | Inr user \<Rightarrow> (Inr (password_action_views (al_now c) (user_id user) (pa_db st)), st))"

subsection \<open>Inviting a user\<close>

record portal_user_create_request =
  puc_login_name :: string
  puc_display_name :: string
  puc_role :: string
  puc_note :: "string option"

definition role_pattern :: "string \<Rightarrow> bool" where
  "role_pattern s \<longleftrightarrow> (case s of [] \<Rightarrow> False
     | c # rest \<Rightarrow> is_lower c \<and> length_in 2 31 rest \<and> list_all (\<lambda>d. is_lower d \<or> d = CHR ''_'') rest)"

text \<open>The validated body: an absent role is \<open>user\<close>; names and notes are stripped.\<close>

definition portal_user_create_request_of :: "string \<Rightarrow> string \<Rightarrow> string option \<Rightarrow> string option \<Rightarrow>
    portal_user_create_request option" where
  "portal_user_create_request_of login_name display_name role note_text =
     (let role = (case role of None \<Rightarrow> ''user'' | Some r \<Rightarrow> r) in
      if \<not> length_in 1 64 login_name \<or> \<not> length_in 1 128 display_name \<or> \<not> role_pattern role \<or>
        (case note_text of None \<Rightarrow> False | Some n \<Rightarrow> 500 < length n) \<or> strip display_name = []
      then None
      else Some \<lparr>puc_login_name = login_name, puc_display_name = strip display_name, puc_role = role,
        puc_note = (case note_text of None \<Rightarrow> None | Some n \<Rightarrow> if strip n = [] then None else Some (strip n))\<rparr>)"

text \<open>The finished operation that records an action on an account; its identifier is in slot 5.\<close>

definition identity_operation :: "account_call \<Rightarrow> portal_user \<Rightarrow> string \<Rightarrow> portal_user \<Rightarrow> string \<Rightarrow> (string \<times> pyval) list \<Rightarrow>
    portal_operation" where
  "identity_operation c actor operation_type target summary payload =
     \<lparr>oper_id = al_id c 5, oper_operation_type = operation_type, oper_target_type = ''portal_user'',
      oper_target_id = user_id target, oper_requested_by = user_id actor, oper_owner_managed_user_id = None,
      oper_approved_by = Some (user_id actor), oper_request_summary = summary,
      oper_validated_payload = PDict payload, oper_idempotency_key = operation_type @ '':'' @ al_id c 6,
      oper_risk_level = RISK_MEDIUM, oper_status = OP_SUCCEEDED, oper_created_at = al_now c,
      oper_approved_at = Some (al_now c), oper_started_at = Some (al_now c), oper_finished_at = Some (al_now c),
      oper_worker_execution_id = None, oper_dry_run_result = PNone,
      oper_result_summary = Some ''Portal identity action completed; compute resources unchanged'',
      oper_error_code = None, oper_rollback_status = None, oper_related_report = None,
      oper_related_git_commit = None\<rparr>"

definition add_identity_operation :: "account_call \<Rightarrow> portal_operation \<Rightarrow> portal_db \<Rightarrow> portal_db" where
  "add_identity_operation c operation db = operation_event (al_id c 8) (al_now c) (oper_id operation) None OP_SUCCEEDED
     ''Fixed Portal identity operation completed'' (add_operation operation db)"

definition invited_user :: "account_call \<Rightarrow> portal_user_create_request \<Rightarrow> string \<Rightarrow> portal_role \<Rightarrow> portal_user" where
  "invited_user c body normalized role = \<lparr>user_id = al_id c 0, user_login_name = normalized,
     user_normalized_login = normalized, user_display_name = puc_display_name body, user_note = puc_note body,
     user_unix_username = None, user_account_state = AS_INVITED, user_password_state = PS_SETUP_REQUIRED,
     user_resource_onboarding_state = OB_NOT_ENROLLED, user_created_at = al_now c, user_activated_at = None,
     user_last_login_at = None, user_failed_login_count = 0, user_locked_until = None, user_roles = [role]\<rparr>"

definition add_user :: "portal_user \<Rightarrow> portal_db \<Rightarrow> portal_db" where
  "add_user u db = db\<lparr>t_users := t_users db @ [u]\<rparr>"

definition creation_refusal :: "account_call \<Rightarrow> portal_user_create_request \<Rightarrow> string \<Rightarrow> auth_context \<Rightarrow> portal_db \<Rightarrow>
    exn option" where
  "creation_refusal c body normalized context db =
     (if puc_role body \<notin> set (assignable_roles (ctx_user context))
      then Some (HTTPException 403 ''ROLE_NOT_ASSIGNABLE'')
      else if scalar (\<lambda>u. user_normalized_login u = normalized) (t_users db) \<noteq> None
      then Some (HTTPException 409 ''PORTAL_LOGIN_CONFLICT'')
      else if scalar (\<lambda>m. mu_unix_username m = normalized) (t_managed_users db) \<noteq> None
      then Some (HTTPException 409 ''COMPUTE_IDENTITY_CONFLICT'')
      else if al_linux_user c normalized then Some (HTTPException 409 ''LINUX_USERNAME_CONFLICT'')
      else None)"

definition created_facts :: "portal_user \<Rightarrow> string \<Rightarrow> (string \<times> pyval) list" where
  "created_facts user role = [(''normalized_login'', PStr (user_normalized_login user)), (''role'', PStr role),
     (''account_state'', PStr ''INVITED''), (''compute_identity'', PStr ''NOT_PROVISIONED'')]"

text \<open>The login is unique when the row is flushed, as the query before it has found none.\<close>

definition create_user :: "account_call \<Rightarrow> portal_user_create_request \<Rightarrow> auth_context \<Rightarrow>
    (portal_accounts, admin_user \<times> uuid) action" where
  "create_user c body context st =
     (case session_csrf c context of Inl e \<Rightarrow> (Inl e, st)
      | Inr _ \<Rightarrow>
        (case normalize_login (puc_login_name body) of Inl _ \<Rightarrow> (Inl (HTTPException 422 ''LOGIN_NAME_INVALID''), st)
         | Inr normalized \<Rightarrow>
           (case creation_refusal c body normalized context (pa_db st) of Some e \<Rightarrow> (Inl e, st)
            | None \<Rightarrow>
              (case scalar (\<lambda>r. role_name r = puc_role body) (pa_roles st) of
                 None \<Rightarrow> (Inl (HTTPException 422 ''ROLE_INVALID''), st)
               | Some role \<Rightarrow>
                 let actor = ctx_user context; user = invited_user c body normalized role;
                     operation = identity_operation c actor ''portal_user.create'' user
                       (''Create invited Portal account '' @ normalized)
                       ((''account_id'', PStr (user_id user)) # created_facts user (puc_role body));
                     db = account_audit c 1 ''PORTAL_USER_CREATED'' (user_normalized_login actor) (highest_role actor)
                       ''portal_user'' (user_id user) ''SUCCESS'' (PDict (created_facts user (puc_role body)))
                       (Some (oper_id operation)) (add_identity_operation c operation (add_user user (pa_db st)))
                 in (Inr (admin_user_payload (al_now c) user db, oper_id operation), st\<lparr>pa_db := db\<rparr>)))))"

subsection \<open>The renewal policy of an identity\<close>

definition update_lease_renewal_policy :: "account_call \<Rightarrow> string \<Rightarrow> bool \<Rightarrow> auth_context \<Rightarrow>
    (portal_accounts, string) action" where
  "update_lease_renewal_policy c value required context st =
     (case session_csrf c context of Inl e \<Rightarrow> (Inl e, st)
      | Inr _ \<Rightarrow>
        (case named_user value (pa_db st) of Inl e \<Rightarrow> (Inl e, st)
         | Inr user \<Rightarrow>
           (case scalar (\<lambda>m. mu_portal_user_id m = user_id user) (t_managed_users (pa_db st)) of
              None \<Rightarrow> (Inl (HTTPException 409 ''MANAGED_IDENTITY_NOT_FOUND''), st)
            | Some m \<Rightarrow>
              let previous = mu_lease_renewal_approval_required m;
                  renewals = length (filter (\<lambda>r. renew_owner_managed_user_id r = mu_id m \<and> renew_state r = ''REQUESTED'')
                    (t_renewal_requests (pa_db st)));
                  restores = length (filter (\<lambda>r. rest_owner_managed_user_id r = mu_id m \<and> rest_state r = ''REQUESTED'')
                    (t_restore_requests (pa_db st)))
              in (Inr (if previous \<noteq> required then ''UPDATED'' else ''UNCHANGED''),
                on_db (\<lambda>db. user_audit c 0 ''LEASE_RENEWAL_POLICY_UPDATED'' (ctx_user context) ''portal_managed_user'' (mu_id m)
                  (PDict [(''portal_user_id'', PStr (user_id user)), (''previous_approval_required'', PBool previous),
                    (''approval_required'', PBool required), (''pending_requests_unchanged'', PBool True),
                    (''policy_scope'', PStr ''LEASE_RENEWAL_AND_RESOURCE_RESTORE''),
                    (''pending_request_count'', PInt (int (renewals + restores))),
                    (''pending_renewal_request_count'', PInt (int renewals)),
                    (''pending_restore_request_count'', PInt (int restores))])
                  (modify_managed (mu_id m) (\<lambda>m. m\<lparr>mu_lease_renewal_approval_required := required\<rparr>) db)) st))))"

subsection \<open>One-time links\<close>

text \<open>The allowed origins are a set in the source; the list gives its elements an order.\<close>

definition rstrip_slash :: "string \<Rightarrow> string" where
  "rstrip_slash s = rev (dropWhile (\<lambda>x. x = CHR ''/'') (rev s))"

definition trusted_request_origin :: "account_call \<Rightarrow> string result" where
  "trusted_request_origin c =
     (let allowed = remdups (map rstrip_slash (set_allowed_origins (as_session (al_settings c))));
          origin = rstrip_slash (case header (al_request c) ''origin'' of None \<Rightarrow> [] | Some h \<Rightarrow> h);
          referer = (case header (al_request c) ''referer'' of None \<Rightarrow> [] | Some h \<Rightarrow> h) in
      if origin \<in> set allowed then Inr origin
      else case List.find (\<lambda>a. referer = a \<or> starts_with referer (a @ ''/'')) allowed of
        Some a \<Rightarrow> Inr a | None \<Rightarrow> Inl (HTTPException 400 ''PORTAL_ORIGIN_UNAVAILABLE''))"

definition link_refusal :: "password_action_purpose \<Rightarrow> portal_user \<Rightarrow> portal_password_credential option \<Rightarrow> exn option" where
  "link_refusal purpose target credential =
     (if purpose = PP_INITIAL_PASSWORD_SETUP
      then if user_account_state target \<noteq> AS_INVITED \<or> user_password_state target \<noteq> PS_SETUP_REQUIRED \<or> credential \<noteq> None
        then Some (HTTPException 409 ''INITIAL_SETUP_NOT_ALLOWED'') else None
      else if user_account_state target \<noteq> AS_ACTIVE \<or>
          user_password_state target \<notin> set [PS_SET, PS_RESET_REQUIRED] \<or> credential = None
        then Some (HTTPException 409 ''PASSWORD_RESET_NOT_ALLOWED'') else None)"

definition link_lifetime :: "account_settings \<Rightarrow> password_action_purpose \<Rightarrow> instant" where
  "link_lifetime settings purpose = (if purpose = PP_INITIAL_PASSWORD_SETUP
     then seconds (3600 * as_initial_password_setup_token_hours settings)
     else seconds (60 * as_password_reset_token_minutes settings))"

definition open_link :: "uuid \<Rightarrow> password_action_purpose \<Rightarrow> portal_password_setup_token \<Rightarrow> bool" where
  "open_link uid purpose t \<longleftrightarrow> ptok_user_id t = uid \<and> ptok_purpose t = purpose \<and> ptok_state t = TS_ACTIVE \<and>
     ptok_used_at t = None"

definition new_link :: "account_call \<Rightarrow> password_action_purpose \<Rightarrow> uuid \<Rightarrow> uuid \<Rightarrow> portal_password_setup_token" where
  "new_link c purpose target creator = \<lparr>ptok_id = al_id c 0, ptok_user_id = target,
     ptok_token_hash = al_digest c (al_random c 0), ptok_purpose = purpose, ptok_state = TS_ACTIVE,
     ptok_created_at = al_now c, ptok_expires_at = al_now c + link_lifetime (al_settings c) purpose,
     ptok_used_at = None, ptok_revoked_at = None, ptok_created_by = Some creator,
     ptok_request_ip_digest = Some (al_digest c (as_secret_key (al_settings c) @ '':'' @ client_ip (al_request c))),
     ptok_challenge_hash = None, ptok_challenge_expires_at = None, ptok_exchanged_at = None\<rparr>"

definition add_link :: "portal_password_setup_token \<Rightarrow> portal_db \<Rightarrow> portal_db" where
  "add_link t db = db\<lparr>t_setup_tokens := t_setup_tokens db @ [t]\<rparr>"

definition replace_links :: "account_call \<Rightarrow> password_action_purpose \<Rightarrow> portal_user \<Rightarrow> portal_user \<Rightarrow> portal_db \<Rightarrow> portal_db" where
  "replace_links c purpose actor target db =
     (let rows = filter (open_link (user_id target) purpose) (t_setup_tokens db); ids = map ptok_id rows;
          db = db\<lparr>t_setup_tokens := update_where (\<lambda>t. ptok_id t \<in> set ids) (revoke_link (al_now c)) (t_setup_tokens db)\<rparr>
      in add_link (new_link c purpose (user_id target) (user_id actor))
        (revoked_links_audit c 1 purpose (length rows) actor target db))"

record link_answer =
  lka_purpose :: password_action_purpose
  lka_setup_url :: string
  lka_expires_at :: instant
  lka_token :: password_action_view
  lka_operation_id :: uuid

definition create_password_action_link :: "account_call \<Rightarrow> password_action_purpose \<Rightarrow> string \<Rightarrow> auth_context \<Rightarrow>
    (portal_accounts, link_answer) action" where
  "create_password_action_link c purpose value context st =
     (case session_csrf c context of Inl e \<Rightarrow> (Inl e, st)
      | Inr _ \<Rightarrow>
        (case trusted_request_origin c of Inl e \<Rightarrow> (Inl e, st)
         | Inr origin \<Rightarrow>
           (case named_user value (pa_db st) of Inl e \<Rightarrow> (Inl e, st)
            | Inr target \<Rightarrow>
              (case link_refusal purpose target (credential_of (user_id target) st) of Some e \<Rightarrow> (Inl e, st)
               | None \<Rightarrow>
                 let actor = ctx_user context; token = new_link c purpose (user_id target) (user_id actor);
                     previous = length (filter (open_link (user_id target) purpose) (t_setup_tokens (pa_db st)));
                     facts = [(''account_id'', PStr (user_id target)), (''purpose'', PStr (purpose_value purpose)),
                       (''expires_at'', PTime (ptok_expires_at token)), (''one_time'', PBool True)];
                     operation = identity_operation c actor
                       (if purpose = PP_INITIAL_PASSWORD_SETUP then ''portal_user.password_setup_link.create''
                        else ''portal_user.password_reset_link.create'') target
                       (''Create one-time '' @ purpose_value purpose @ '' link for '' @ user_normalized_login target)
                       (facts @ [(''revoked_previous_count'', PInt (int previous))]);
                     db = account_audit c 2 (link_event purpose ''CREATED'') (user_normalized_login actor) (highest_role actor)
                       ''password_action_token'' (ptok_id token) ''SUCCESS'' (PDict facts) (Some (oper_id operation))
                       (add_identity_operation c operation (replace_links c purpose actor target (pa_db st)))
                 in (Inr \<lparr>lka_purpose = purpose,
                      lka_setup_url = origin @ ''/setup-password#token='' @ al_random c 0,
                      lka_expires_at = ptok_expires_at token, lka_token = view_password_action (al_now c) token,
                      lka_operation_id = oper_id operation\<rparr>, st\<lparr>pa_db := db\<rparr>)))))"

definition create_password_setup_link :: "account_call \<Rightarrow> string \<Rightarrow> auth_context \<Rightarrow> (portal_accounts, link_answer) action" where
  "create_password_setup_link c = create_password_action_link c PP_INITIAL_PASSWORD_SETUP"

definition create_password_reset_link :: "account_call \<Rightarrow> string \<Rightarrow> auth_context \<Rightarrow> (portal_accounts, link_answer) action" where
  "create_password_reset_link c = create_password_action_link c PP_PASSWORD_RESET"

subsection \<open>The console commands for the owner's account\<close>

text \<open>
  \<open>descriptions\<close> are the texts of \<open>ROLE_DESCRIPTIONS\<close>, \<open>role_ids\<close> the keys the database gives to new
  roles. Users share the row of a role, so that a changed role changes in every user.
\<close>

definition with_permissions :: "string \<Rightarrow> string list \<Rightarrow> portal_role \<Rightarrow> portal_role" where
  "with_permissions name permissions role = (if role_name role = name
     then role\<lparr>role_permissions := PList (map PStr (sort permissions))\<rparr> else role)"

definition ensure_role :: "account_call \<Rightarrow> (string \<Rightarrow> string) \<Rightarrow> (string \<Rightarrow> int) \<Rightarrow> string \<times> string list \<Rightarrow> portal_accounts \<Rightarrow>
    portal_accounts" where
  "ensure_role c descriptions role_ids row st =
     (case row of (name, permissions) \<Rightarrow>
        (case scalar (\<lambda>r. role_name r = name) (pa_roles st) of
           None \<Rightarrow> st\<lparr>pa_roles := pa_roles st @ [\<lparr>role_id = role_ids name, role_name = name,
             role_description = descriptions name, role_permissions = PList (map PStr (sort permissions)),
             role_created_at = al_now c\<rparr>]\<rparr>
         | Some _ \<Rightarrow> on_db (\<lambda>db. db\<lparr>t_users := map (\<lambda>u. u\<lparr>user_roles :=
               map (with_permissions name permissions) (user_roles u)\<rparr>) (t_users db)\<rparr>)
             (st\<lparr>pa_roles := map (with_permissions name permissions) (pa_roles st)\<rparr>)))"

definition ensure_roles :: "account_call \<Rightarrow> (string \<Rightarrow> string) \<Rightarrow> (string \<Rightarrow> int) \<Rightarrow> portal_accounts \<Rightarrow> portal_accounts" where
  "ensure_roles c descriptions role_ids st = foldl (\<lambda>st row. ensure_role c descriptions role_ids row st) st PERMISSIONS"

definition origin_al :: "account_call \<Rightarrow> portal_user" where
  "origin_al c = \<lparr>user_id = al_id c 0, user_login_name = ''Origin-al'', user_normalized_login = ''origin-al'',
     user_display_name = ''Origin-al'', user_note = None, user_unix_username = Some ''origin-al'',
     user_account_state = AS_INVITED, user_password_state = PS_SETUP_REQUIRED,
     user_resource_onboarding_state = OB_NOT_ENROLLED, user_created_at = al_now c, user_activated_at = None,
     user_last_login_at = None, user_failed_login_count = 0, user_locked_until = None, user_roles = []\<rparr>"

definition with_role :: "portal_role \<Rightarrow> portal_user \<Rightarrow> portal_user" where
  "with_role owner u = (if role_id owner \<in> role_id ` set (user_roles u) then u
     else u\<lparr>user_roles := user_roles u @ [owner]\<rparr>)"

definition ensure_origin_al_record :: "account_call \<Rightarrow> (string \<Rightarrow> string) \<Rightarrow> (string \<Rightarrow> int) \<Rightarrow>
    (portal_accounts, portal_user \<times> bool) action" where
  "ensure_origin_al_record c descriptions role_ids st0 =
     (let st = ensure_roles c descriptions role_ids st0;
          found = scalar (\<lambda>u. user_normalized_login u = ''origin-al'') (t_users (pa_db st));
          created = (found = None);
          user = (case found of None \<Rightarrow> origin_al c | Some u \<Rightarrow> u);
          st = (if created then on_db (add_user user) st else st) in
      if user_unix_username user \<noteq> Some ''origin-al''
      then (Inl (RuntimeError ''existing Origin-al account is mapped to a different Linux user''), st0)
      else case scalar (\<lambda>r. role_name r = ''platform_owner'') (pa_roles st) of
        None \<Rightarrow> (Inl (RuntimeError ''platform_owner role is missing''), st0)
      | Some owner \<Rightarrow>
        let user = with_role owner user; st = on_db (modify_user (user_id user) (with_role owner)) st in
        if user_account_state user = AS_DECOMMISSIONED
        then (Inl (RuntimeError ''Origin-al account is decommissioned''), st0)
        else (Inr (user, created), st))"

definition console_audit :: "account_call \<Rightarrow> string \<Rightarrow> portal_user \<Rightarrow> string \<times> pyval \<Rightarrow> portal_db \<Rightarrow> portal_db" where
  "console_audit c event user entry = record_audit (al_digest c) (al_id c 1) (al_now c)
     \<lparr>ac_event_type = event, ac_actor = ''local-bootstrap'', ac_actor_role = ''bootstrap'',
      ac_source_ip = ''local-console'', ac_user_agent = ''h100-portal-admin'', ac_object_type = ''portal_user'',
      ac_object_id = user_id user, ac_result = ''SUCCESS'', ac_metadata = PDict [entry], ac_operation_id = None\<rparr>"

definition prepare_origin_al :: "account_call \<Rightarrow> (string \<Rightarrow> string) \<Rightarrow> (string \<Rightarrow> int) \<Rightarrow> (portal_accounts, int) action" where
  "prepare_origin_al c descriptions role_ids st =
     (if \<not> al_linux_user c ''origin-al'' then (Inr 2, st)
      else case ensure_origin_al_record c descriptions role_ids st of
        (Inl e, _) \<Rightarrow> (Inl e, st)
      | (Inr (user, created), st) \<Rightarrow> (Inr 0, on_db (console_audit c ''portal_owner.prepare'' user
          (''record_action'', PStr (if created then ''created'' else ''verified''))) st))"

text \<open>The answer is the exit status and the token that is printed.\<close>

definition bootstrap_origin_al :: "account_call \<Rightarrow> (string \<Rightarrow> string) \<Rightarrow> (string \<Rightarrow> int) \<Rightarrow> bool \<Rightarrow>
    (portal_accounts, int \<times> string option) action" where
  "bootstrap_origin_al c descriptions role_ids reset st =
     (if \<not> al_linux_user c ''origin-al'' then (Inr (2, None), st)
      else case ensure_origin_al_record c descriptions role_ids st of
        (Inl e, _) \<Rightarrow> (Inl e, st)
      | (Inr (user, created), st) \<Rightarrow>
        if \<not> created \<and> \<not> reset then (Inr (0, None), st)
        else
          let db = (if reset then (pa_db st)\<lparr>t_setup_tokens := update_where
                  (\<lambda>t. ptok_user_id t = user_id user \<and> ptok_used_at t = None) (revoke_link (al_now c))
                  (t_setup_tokens (pa_db st))\<rparr> else pa_db st);
              token = (new_link c PP_INITIAL_PASSWORD_SETUP (user_id user) [])
                \<lparr>ptok_id := al_id c 2, ptok_created_by := None, ptok_request_ip_digest := None\<rparr>
          in (Inr (0, Some (al_random c 0)), st\<lparr>pa_db := console_audit c ''password.setup_link.issue'' user
            (''replaced_previous_link'', PBool reset) (add_link token db)\<rparr>))"

end
