(* ===== verification/Account_Effects.thy ===== *)
theory Account_Effects
  imports User_Routes
begin

section \<open>What the account routes may change\<close>

text \<open>
  Every route is either quiet, or it does one of the things the tables of the accounts allow in one step:
  \<open>user_moves\<close> says how the state, the password state and the counter of failures of a user may change,
  \<open>link_moves\<close> and \<open>token_moves\<close> how a one-time link and a CLI token may. The lemmas of this theory show it of
  each route; \<open>Account_Runs\<close> draws the conclusions over runs.
\<close>

named_theorems account_simps "tables that an effect leaves alone"

type_synonym user_core = "uuid \<times> string \<times> account_state \<times> password_state \<times> int"

definition user_core :: "portal_user \<Rightarrow> user_core" where
  "user_core u = (user_id u, user_normalized_login u, user_account_state u, user_password_state u,
     user_failed_login_count u)"

fun user_moves :: "int \<Rightarrow> uuid set \<Rightarrow> user_core \<Rightarrow> user_core \<Rightarrow> bool" where
  "user_moves limit entered (i, l, s, p, n) (i', l', s', p', n') \<longleftrightarrow> i' = i \<and> l' = l \<and>
     (s' = s \<and> p' = p \<and> n' = n \<or>
      s' = (if limit \<le> n + 1 then AS_LOCKED else s) \<and> p' = p \<and> n' = n + 1 \<or>
      i \<in> entered \<and> s = AS_ACTIVE \<and> s' = AS_ACTIVE \<and> p' = p \<and> n' = 0 \<or>
      s = AS_INVITED \<and> p = PS_SETUP_REQUIRED \<and> s' = AS_ACTIVE \<and> p' = PS_SET \<and> n' = n \<or>
      s = AS_ACTIVE \<and> s' = AS_ACTIVE \<and> p' = PS_SET \<and> n' = n)"

definition link_moves :: "portal_password_setup_token \<Rightarrow> portal_password_setup_token \<Rightarrow> bool" where
  "link_moves t t' \<longleftrightarrow> ptok_id t' = ptok_id t \<and> ptok_user_id t' = ptok_user_id t \<and>
     ptok_token_hash t' = ptok_token_hash t \<and> ptok_purpose t' = ptok_purpose t \<and>
     ptok_expires_at t' = ptok_expires_at t \<and> (ptok_state t' = TS_ACTIVE \<longrightarrow> ptok_state t = TS_ACTIVE) \<and>
     (ptok_used_at t' = None \<longrightarrow> ptok_used_at t = None) \<and> (ptok_revoked_at t' = None \<longrightarrow> ptok_revoked_at t = None)"

definition token_moves :: "portal_cli_token \<Rightarrow> portal_cli_token \<Rightarrow> bool" where
  "token_moves t t' \<longleftrightarrow> cli_id t' = cli_id t \<and> cli_user_id t' = cli_user_id t \<and>
     cli_expires_at t' = cli_expires_at t \<and> (cli_revoked_at t' = None \<longrightarrow> cli_revoked_at t = None)"

definition same_users :: "portal_db \<Rightarrow> portal_db \<Rightarrow> bool" where
  "same_users db db' \<longleftrightarrow> map user_core (t_users db') = map user_core (t_users db)"

definition users_follow :: "int \<Rightarrow> uuid set \<Rightarrow> portal_db \<Rightarrow> portal_db \<Rightarrow> bool" where
  "users_follow limit entered db db' \<longleftrightarrow> (\<exists>cs new. map user_core (t_users db') = cs @ new \<and>
     list_all2 (user_moves limit entered) (map user_core (t_users db)) cs \<and>
     (\<forall>k \<in> set new. \<exists>i l. k = (i, l, AS_INVITED, PS_SETUP_REQUIRED, 0)))"

definition links_follow :: "portal_db \<Rightarrow> portal_db \<Rightarrow> bool" where
  "links_follow db db' \<longleftrightarrow> (\<exists>ts new. t_setup_tokens db' = ts @ new \<and> list_all2 link_moves (t_setup_tokens db) ts)"

definition tokens_kept :: "portal_db \<Rightarrow> portal_db \<Rightarrow> bool" where
  "tokens_kept db db' \<longleftrightarrow> list_all2 token_moves (t_cli_tokens db) (t_cli_tokens db')"

definition tokens_follow :: "instant \<Rightarrow> portal_db \<Rightarrow> portal_db \<Rightarrow> bool" where
  "tokens_follow now db db' \<longleftrightarrow> tokens_kept db db' \<or>
     (\<exists>ts t. t_cli_tokens db' = ts @ [t] \<and> list_all2 token_moves (t_cli_tokens db) ts \<and>
       active_cli_tokens now (cli_user_id t) db' \<le> 10)"

definition follows_within :: "int \<Rightarrow> uuid set \<Rightarrow> instant \<Rightarrow> portal_db \<Rightarrow> portal_db \<Rightarrow> bool" where
  "follows_within limit entered now db db' \<longleftrightarrow> users_follow limit entered db db' \<and> links_follow db db' \<and> tokens_follow now db db'"

abbreviation follows_accounts :: "account_call \<Rightarrow> portal_db \<Rightarrow> portal_db \<Rightarrow> bool" where
  "follows_accounts c \<equiv> follows_within (as_login_failures_before_lock (al_settings c)) {} (al_now c)"

subsection \<open>The relations\<close>

lemma user_moves_refl [simp]: "user_moves limit entered k k"
  by (cases k) simp

lemma link_moves_refl [simp]: "link_moves t t"
  by (simp add: link_moves_def)

lemma link_moves_trans: "link_moves t t' \<Longrightarrow> link_moves t' t'' \<Longrightarrow> link_moves t t''"
  by (simp add: link_moves_def)

lemma token_moves_refl [simp]: "token_moves t t"
  by (simp add: token_moves_def)

lemma token_moves_trans: "token_moves t t' \<Longrightarrow> token_moves t' t'' \<Longrightarrow> token_moves t t''"
  by (simp add: token_moves_def)

lemma same_users_refl [simp]: "same_users db db"
  by (simp add: same_users_def)

lemma users_followI:
  "list_all2 (user_moves limit entered) (map user_core (t_users db)) cs \<Longrightarrow> map user_core (t_users db') = cs @ new \<Longrightarrow>
   (\<And>k. k \<in> set new \<Longrightarrow> \<exists>i l. k = (i, l, AS_INVITED, PS_SETUP_REQUIRED, 0)) \<Longrightarrow> users_follow limit entered db db'"
  unfolding users_follow_def by blast

lemma users_keptI:
  "list_all2 (user_moves limit entered) (map user_core (t_users db)) (map user_core (t_users db')) \<Longrightarrow> users_follow limit entered db db'"
  by (rule users_followI [where new = "[]"]) simp_all

lemma same_users_follow: "same_users db db' \<Longrightarrow> users_follow limit entered db db'"
  by (rule users_keptI) (simp_all add: same_users_def list_all2_refl)

lemma same_users_then: "same_users db db1 \<Longrightarrow> users_follow limit entered db1 db2 \<Longrightarrow> users_follow limit entered db db2"
  by (simp add: same_users_def users_follow_def)

lemma then_same_users: "users_follow limit entered db db1 \<Longrightarrow> same_users db1 db2 \<Longrightarrow> users_follow limit entered db db2"
  by (simp add: same_users_def users_follow_def)

lemma links_followI: "list_all2 link_moves (t_setup_tokens db) ts \<Longrightarrow> t_setup_tokens db' = ts @ new \<Longrightarrow> links_follow db db'"
  unfolding links_follow_def by blast

lemma links_kept: "list_all2 link_moves (t_setup_tokens db) (t_setup_tokens db') \<Longrightarrow> links_follow db db'"
  by (rule links_followI [where new = "[]"]) simp_all

lemma links_follow_refl [simp]: "links_follow db db"
  by (rule links_kept) (simp add: list_all2_refl)

lemma list_all2_link_trans:
  "list_all2 link_moves xs ys \<Longrightarrow> list_all2 link_moves ys zs \<Longrightarrow> list_all2 link_moves xs zs"
  by (erule list_all2_trans [rotated], assumption) (rule link_moves_trans)

lemma links_follow_trans: "links_follow db db1 \<Longrightarrow> links_follow db1 db2 \<Longrightarrow> links_follow db db2"
proof -
  assume "links_follow db db1" and "links_follow db1 db2"
  then obtain ts new ts' new' where a: "t_setup_tokens db1 = ts @ new" "list_all2 link_moves (t_setup_tokens db) ts"
    "t_setup_tokens db2 = ts' @ new'" "list_all2 link_moves (ts @ new) ts'"
    unfolding links_follow_def by auto
  from a(4) obtain us vs where "ts' = us @ vs" "list_all2 link_moves ts us"
    by (auto simp: list_all2_append1)
  with a(2) have "list_all2 link_moves (t_setup_tokens db) us" by (blast intro: list_all2_link_trans)
  with a(3) \<open>ts' = us @ vs\<close> show "links_follow db db2"
    unfolding links_follow_def by auto
qed

lemma tokens_kept_refl [simp]: "tokens_kept db db"
  by (simp add: tokens_kept_def list_all2_refl)

lemma tokens_kept_trans: "tokens_kept db db1 \<Longrightarrow> tokens_kept db1 db2 \<Longrightarrow> tokens_kept db db2"
  unfolding tokens_kept_def by (erule list_all2_trans [rotated], assumption) (rule token_moves_trans)

text \<open>The number of active tokens of a user does not grow while tokens only move and time passes.\<close>

lemma active_cli_tokens_mono:
  assumes "list_all2 token_moves rows rows'" and "now \<le> now'"
  shows "length (filter (cli_token_unexpired now') (filter (\<lambda>t. cli_user_id t = uid \<and> cli_revoked_at t = None) rows'))
    \<le> length (filter (cli_token_unexpired now) (filter (\<lambda>t. cli_user_id t = uid \<and> cli_revoked_at t = None) rows))"
  using assms(1)
proof (induction rule: list_all2_induct)
  case (Cons t rows t' rows')
  have "cli_user_id t' = uid \<and> cli_revoked_at t' = None \<and> cli_token_unexpired now' t' \<Longrightarrow>
      cli_user_id t = uid \<and> cli_revoked_at t = None \<and> cli_token_unexpired now t"
    using Cons.hyps(1) assms(2) by (auto simp: token_moves_def cli_token_unexpired_def split: option.splits)
  with Cons.IH show ?case by auto
qed simp

lemma tokens_kept_active: "tokens_kept db db' \<Longrightarrow> now \<le> now' \<Longrightarrow> active_cli_tokens now' uid db' \<le> active_cli_tokens now uid db"
  unfolding tokens_kept_def active_cli_tokens_def by (rule active_cli_tokens_mono)

lemma list_all2_token_trans:
  "list_all2 token_moves xs ys \<Longrightarrow> list_all2 token_moves ys zs \<Longrightarrow> list_all2 token_moves xs zs"
  by (erule list_all2_trans [rotated], assumption) (rule token_moves_trans)

lemma tokens_kept_then: "tokens_kept db db1 \<Longrightarrow> tokens_follow now db1 db2 \<Longrightarrow> tokens_follow now db db2"
  unfolding tokens_follow_def tokens_kept_def by (blast intro: list_all2_token_trans)

lemma then_tokens_kept: "tokens_follow now db db1 \<Longrightarrow> tokens_kept db1 db2 \<Longrightarrow> tokens_follow now db db2"
proof -
  assume k: "tokens_kept db1 db2" and f: "tokens_follow now db db1"
  from f consider "tokens_kept db db1" | ts t where "t_cli_tokens db1 = ts @ [t]"
      "list_all2 token_moves (t_cli_tokens db) ts" "active_cli_tokens now (cli_user_id t) db1 \<le> 10"
    unfolding tokens_follow_def by blast
  then show ?thesis
  proof cases
    case 1
    then show ?thesis unfolding tokens_follow_def using tokens_kept_trans [OF _ k] by blast
  next
    case 2
    obtain us u where u: "t_cli_tokens db2 = us @ [u]" "list_all2 token_moves ts us" "token_moves t u"
      using k 2(1) unfolding tokens_kept_def by (auto simp: list_all2_append1 list_all2_Cons1)
    have "active_cli_tokens now (cli_user_id u) db2 \<le> 10"
      using tokens_kept_active [OF k order_refl, of now "cli_user_id t"] 2(3) u(3) by (simp add: token_moves_def)
    then show ?thesis using u(1) list_all2_token_trans [OF 2(2) u(2)] unfolding tokens_follow_def by blast
  qed
qed

lemma tokens_kept_follow: "tokens_kept db db' \<Longrightarrow> tokens_follow now db db'"
  by (simp add: tokens_follow_def)

text \<open>A change that keeps all three tables may stand before and after any other.\<close>

definition quiet :: "portal_db \<Rightarrow> portal_db \<Rightarrow> bool" where
  "quiet db db' \<longleftrightarrow> same_users db db' \<and> links_follow db db' \<and> tokens_kept db db'"

lemma quiet_refl [simp]: "quiet db db"
  by (simp add: quiet_def)

lemma quiet_trans: "quiet db db1 \<Longrightarrow> quiet db1 db2 \<Longrightarrow> quiet db db2"
  unfolding quiet_def by (auto simp: same_users_def intro: links_follow_trans tokens_kept_trans)

lemma quiet_follows: "quiet db db' \<Longrightarrow> follows_within limit entered now db db'"
  by (simp add: quiet_def follows_within_def same_users_follow tokens_kept_follow)

lemma quiet_then: "quiet db db1 \<Longrightarrow> follows_within limit entered now db1 db2 \<Longrightarrow> follows_within limit entered now db db2"
  unfolding quiet_def follows_within_def
  by (blast intro: same_users_then links_follow_trans tokens_kept_then)

lemma then_quiet: "follows_within limit entered now db db1 \<Longrightarrow> quiet db1 db2 \<Longrightarrow> follows_within limit entered now db db2"
  unfolding quiet_def follows_within_def
  by (blast intro: then_same_users links_follow_trans then_tokens_kept)

text \<open>Both relations see the three tables only.\<close>

lemma quiet_cong:
  "t_users db' = t_users dx \<Longrightarrow> t_setup_tokens db' = t_setup_tokens dx \<Longrightarrow> t_cli_tokens db' = t_cli_tokens dx \<Longrightarrow>
   quiet db db' = quiet db dx"
  by (simp add: quiet_def same_users_def links_follow_def tokens_kept_def)

lemma follows_accounts_cong:
  "t_users db' = t_users db1 \<Longrightarrow> t_setup_tokens db' = t_setup_tokens db1 \<Longrightarrow> t_cli_tokens db' = t_cli_tokens db1 \<Longrightarrow>
   follows_within limit entered now db db' = follows_within limit entered now db db1"
  by (simp add: follows_within_def users_follow_def links_follow_def tokens_follow_def tokens_kept_def
      active_cli_tokens_def)

subsection \<open>Effects that leave the tables of the accounts alone\<close>

lemma audit_accounts [account_simps]:
  "t_users (record_audit h i n call db) = t_users db" "t_setup_tokens (record_audit h i n call db) = t_setup_tokens db"
  "t_cli_tokens (record_audit h i n call db) = t_cli_tokens db" "t_sessions (record_audit h i n call db) = t_sessions db"
  by (simp_all add: record_audit_def add_audit_event_def)

lemma account_audit_tables [account_simps]:
  "t_users (account_audit c n e a r ot oi out md op db) = t_users db"
  "t_setup_tokens (account_audit c n e a r ot oi out md op db) = t_setup_tokens db"
  "t_cli_tokens (account_audit c n e a r ot oi out md op db) = t_cli_tokens db"
  "t_sessions (account_audit c n e a r ot oi out md op db) = t_sessions db"
  by (simp_all add: account_audit_def account_simps)

lemma user_audit_tables [account_simps]:
  "t_users (user_audit c n e u ot oi md db) = t_users db"
  "t_setup_tokens (user_audit c n e u ot oi md db) = t_setup_tokens db"
  "t_cli_tokens (user_audit c n e u ot oi md db) = t_cli_tokens db"
  "t_sessions (user_audit c n e u ot oi md db) = t_sessions db"
  by (simp_all add: user_audit_def account_simps)

lemma record_session_tables [account_simps]:
  "t_users (record_session_created c n u s r db) = t_users db"
  "t_setup_tokens (record_session_created c n u s r db) = t_setup_tokens db"
  "t_cli_tokens (record_session_created c n u s r db) = t_cli_tokens db"
  "t_sessions (record_session_created c n u s r db) = t_sessions db"
  by (simp_all add: record_session_created_def account_simps)

lemma revoked_links_tables [account_simps]:
  "t_users (revoked_links_audit c n p k a t db) = t_users db"
  "t_setup_tokens (revoked_links_audit c n p k a t db) = t_setup_tokens db"
  "t_cli_tokens (revoked_links_audit c n p k a t db) = t_cli_tokens db"
  "t_sessions (revoked_links_audit c n p k a t db) = t_sessions db"
  by (simp_all add: revoked_links_audit_def account_simps)

lemma identity_operation_tables [account_simps]:
  "t_users (add_identity_operation c o1 db) = t_users db"
  "t_setup_tokens (add_identity_operation c o1 db) = t_setup_tokens db"
  "t_cli_tokens (add_identity_operation c o1 db) = t_cli_tokens db"
  "t_sessions (add_identity_operation c o1 db) = t_sessions db"
  by (simp_all add: add_identity_operation_def operation_event_def add_operation_event_def add_operation_def)

lemma console_audit_tables [account_simps]:
  "t_users (console_audit c e u x db) = t_users db" "t_setup_tokens (console_audit c e u x db) = t_setup_tokens db"
  "t_cli_tokens (console_audit c e u x db) = t_cli_tokens db" "t_sessions (console_audit c e u x db) = t_sessions db"
  by (simp_all add: console_audit_def account_simps)

lemma session_tables [account_simps]:
  "t_users (modify_session i f db) = t_users db" "t_setup_tokens (modify_session i f db) = t_setup_tokens db"
  "t_cli_tokens (modify_session i f db) = t_cli_tokens db"
  "t_users (revoke_session n i db) = t_users db" "t_setup_tokens (revoke_session n i db) = t_setup_tokens db"
  "t_cli_tokens (revoke_session n i db) = t_cli_tokens db"
  by (simp_all add: modify_session_def revoke_session_def)

lemma open_session_tables [account_simps]:
  "t_users (snd (open_session c i u db)) = t_users db" "t_setup_tokens (snd (open_session c i u db)) = t_setup_tokens db"
  "t_cli_tokens (snd (open_session c i u db)) = t_cli_tokens db"
  by (simp_all add: open_session_def create_session_def add_session_def Let_def)

lemma revoke_user_sessions_tables [account_simps]:
  "t_users (snd (revoke_user_sessions n i x db)) = t_users db"
  "t_setup_tokens (snd (revoke_user_sessions n i x db)) = t_setup_tokens db"
  "t_cli_tokens (snd (revoke_user_sessions n i x db)) = t_cli_tokens db"
  by (simp_all add: revoke_user_sessions_def Let_def)

lemma revoke_user_cli_tokens_tables [account_simps]:
  "t_users (snd (revoke_user_cli_tokens n i db)) = t_users db"
  "t_setup_tokens (snd (revoke_user_cli_tokens n i db)) = t_setup_tokens db"
  "t_sessions (snd (revoke_user_cli_tokens n i db)) = t_sessions db"
  by (simp_all add: revoke_user_cli_tokens_def Let_def)

lemma modify_user_tables [account_simps]:
  "t_setup_tokens (modify_user i f db) = t_setup_tokens db" "t_cli_tokens (modify_user i f db) = t_cli_tokens db"
  "t_sessions (modify_user i f db) = t_sessions db"
  by (simp_all add: modify_user_def)

lemma modify_setup_token_tables [account_simps]:
  "t_users (modify_setup_token i f db) = t_users db" "t_cli_tokens (modify_setup_token i f db) = t_cli_tokens db"
  "t_sessions (modify_setup_token i f db) = t_sessions db"
  by (simp_all add: modify_setup_token_def)

lemma account_parts [account_simps]:
  "pa_db (on_db f st) = f (pa_db st)" "pa_credentials (on_db f st) = pa_credentials st" "pa_roles (on_db f st) = pa_roles st"
  "pa_db (close_user_terminals c i x st) = pa_db st" "pa_credentials (close_user_terminals c i x st) = pa_credentials st"
  "pa_roles (close_user_terminals c i x st) = pa_roles st"
  "pa_db (close_session_terminals c i st) = pa_db st" "pa_credentials (close_session_terminals c i st) = pa_credentials st"
  "pa_roles (close_session_terminals c i st) = pa_roles st"
  "pa_db (snd (limited c k n st)) = pa_db st" "pa_credentials (snd (limited c k n st)) = pa_credentials st"
  by (simp_all add: on_db_def close_user_terminals_def close_session_terminals_def limited_def split: prod.split)

lemma quiet_audit [account_simps]:
  "quiet db (account_audit c n e a r ot oi out md op db') = quiet db db'"
  "quiet db (user_audit c n e u ot oi md db') = quiet db db'"
  "quiet db (record_session_created c n u s r db') = quiet db db'"
  "quiet db (revoked_links_audit c n p k u v db') = quiet db db'"
  "quiet db (console_audit c e u x db') = quiet db db'"
  "quiet db (modify_session i f db') = quiet db db'"
  "quiet db (revoke_session m i db') = quiet db db'"
  "quiet db (add_identity_operation c o1 db') = quiet db db'"
  by (rule quiet_cong; simp add: account_simps)+

lemma follows_audit [account_simps]:
  "follows_within limit entered now db (account_audit c' n e a r ot oi out md op db') = follows_within limit entered now db db'"
  "follows_within limit entered now db (user_audit c' n e u ot oi md db') = follows_within limit entered now db db'"
  "follows_within limit entered now db (record_session_created c' n u s r db') = follows_within limit entered now db db'"
  "follows_within limit entered now db (revoked_links_audit c' n p k u v db') = follows_within limit entered now db db'"
  "follows_within limit entered now db (console_audit c' e u x db') = follows_within limit entered now db db'"
  "follows_within limit entered now db (modify_session i f db') = follows_within limit entered now db db'"
  "follows_within limit entered now db (add_identity_operation c' o1 db') = follows_within limit entered now db db'"
  by (rule follows_accounts_cong; simp add: account_simps)+

lemma quiet_links: "(\<And>t. p t \<Longrightarrow> link_moves t (f t)) \<Longrightarrow> quiet db (db\<lparr>t_setup_tokens := update_where p f (t_setup_tokens db)\<rparr>)"
  by (auto simp: quiet_def same_users_def tokens_kept_def list_all2_refl intro!: links_kept list_all2_update_where)

lemma quiet_modify_link: "(\<And>t. ptok_id t = i \<Longrightarrow> link_moves t (f t)) \<Longrightarrow> quiet db (modify_setup_token i f db)"
  unfolding modify_setup_token_def by (rule quiet_links)

lemma quiet_tokens: "(\<And>t. p t \<Longrightarrow> token_moves t (f t)) \<Longrightarrow> quiet db (db\<lparr>t_cli_tokens := update_where p f (t_cli_tokens db)\<rparr>)"
  by (auto simp: quiet_def same_users_def tokens_kept_def list_all2_refl intro!: links_kept list_all2_update_where)

lemma quiet_modify_token: "(\<And>t. token_moves t (f t)) \<Longrightarrow> quiet db (modify_cli_token i f db)"
  unfolding modify_cli_token_def by (rule quiet_tokens)

lemma quiet_revoke_tokens: "quiet db (snd (revoke_user_cli_tokens now uid db))"
  unfolding revoke_user_cli_tokens_def Let_def snd_conv by (rule quiet_tokens) (simp add: token_moves_def)

lemma quiet_sessions: "quiet db (snd (revoke_user_sessions now uid x db))"
  by (subst quiet_cong [where dx = db]) (simp_all add: account_simps)

lemma quiet_open_session: "quiet db (snd (open_session c i u db))"
  by (subst quiet_cong [where dx = db]) (simp_all add: account_simps)

lemma link_moves_simps [simp]:
  "link_moves t (revoke_link now t)" "link_moves t (expire_link t)" "link_moves t (use_link now t)"
  "link_moves t (exchange_link c t)"
  by (simp_all add: link_moves_def revoke_link_def expire_link_def use_link_def exchange_link_def)

lemma quiet_load: "quiet db (snd (load_context digest settings now req db))"
  using load_context_cases [of digest settings now req db] by (auto simp: account_simps)

lemma quiet_load_cli: "quiet db (snd (load_cli_token_context digest i now req db))"
  unfolding load_cli_token_context_def Let_def
  by (auto simp: token_moves_def quiet_cong [OF audit_accounts(1-3)] intro!: quiet_modify_token split: option.split)

lemma quiet_load_delegated: "quiet db (snd (load_delegated_context digest now req db))"
proof -
  have "quiet db (modify_delegated_session i f db)" for i f
    by (subst quiet_cong [where dx = db]) (simp_all add: modify_delegated_session_def)
  then show ?thesis unfolding load_delegated_context_def Let_def by (auto split: option.split)
qed

lemma quiet_permission: "quiet db (snd (permission_dependency digest settings i now permission req db))"
  using quiet_load quiet_load_cli quiet_load_delegated
  by (auto simp: permission_dependency_def request_auth_context_def split: prod.split sum.split option.split
      simp flip: snd_conv) (metis snd_conv)+

subsection \<open>The routes\<close>

definition users_distinct :: "portal_db \<Rightarrow> bool" where
  "users_distinct db \<longleftrightarrow> distinct (map user_id (t_users db))"

text \<open>A change of the row of one user.\<close>

lemma follows_modify_user:
  assumes "\<And>u. u \<in> set (t_users db) \<Longrightarrow> user_id u = i \<Longrightarrow>
    user_moves (as_login_failures_before_lock (al_settings c)) entered (user_core u) (user_core (f u))"
  shows "follows_within (as_login_failures_before_lock (al_settings c)) entered (al_now c) db (modify_user i f db)"
proof -
  have "list_all2 (user_moves (as_login_failures_before_lock (al_settings c)) entered) (map user_core (t_users db))
      (map user_core (t_users (modify_user i f db)))"
    unfolding modify_user_def by (simp add: list_all2_map1 list_all2_map2 list_all2_update_where assms)
  then show ?thesis
    by (auto simp: follows_within_def account_simps tokens_follow_def tokens_kept_def list_all2_refl
        intro!: users_keptI links_kept)
qed

lemma user_row_unique:
  "users_distinct db \<Longrightarrow> u \<in> set (t_users db) \<Longrightarrow> v \<in> set (t_users db) \<Longrightarrow> user_id u = user_id v \<Longrightarrow> u = v"
  unfolding users_distinct_def by (metis distinct_map inj_onD)

lemma follows_modify_known:
  assumes "users_distinct db" and "u \<in> set (t_users db)"
    and "user_moves (as_login_failures_before_lock (al_settings c)) entered (user_core u) (user_core (f u))"
  shows "follows_within (as_login_failures_before_lock (al_settings c)) entered (al_now c) db (modify_user (user_id u) f db)"
  by (rule follows_modify_user) (use assms user_row_unique in blast)

lemma failed_moves: "user_moves (as_login_failures_before_lock (al_settings c)) entered (user_core u) (user_core (failed_row c u))"
  by (simp add: failed_row_def user_core_def Let_def)

lemma follows_auth_failure: "follows_accounts c db (auth_failure c user normalized db)"
proof (cases user)
  case None
  then show ?thesis by (simp add: auth_failure_def account_simps quiet_follows)
next
  case (Some u)
  have "follows_accounts c db (modify_user (user_id u) (failed_row c) db)"
    by (rule follows_modify_user) (rule failed_moves)
  then show ?thesis using then_quiet [OF _ quiet_revoke_tokens]
    by (auto simp: auth_failure_def Some Let_def account_simps)
qed

lemma quiet_drop_old: "quiet (pa_db st) (pa_db (drop_old_session c st))"
  by (auto simp: drop_old_session_def account_simps split: option.split)

lemma get_user_member: "get_user db i = Some u \<Longrightarrow> u \<in> set (t_users db) \<and> user_id u = i"
  unfolding get_user_def by (drule scalar_SomeD) simp

lemma signed_in_row_id: "user_id (signed_in_row now u) = user_id u"
  by (simp add: signed_in_row_def)

lemma follows_sign_in:
  assumes "users_distinct (pa_db st)" and "u \<in> set (t_users (pa_db st))" and "user_account_state u = AS_ACTIVE"
  shows "follows_within (as_login_failures_before_lock (al_settings c)) {user_id u} (al_now c) (pa_db st) (pa_db (snd (sign_in c u st)))"
proof -
  have "follows_within (as_login_failures_before_lock (al_settings c)) {user_id u} (al_now c) (pa_db st) (modify_user (user_id u) (signed_in_row (al_now c)) (pa_db st))"
    by (rule follows_modify_known [OF assms(1,2)]) (simp add: user_core_def signed_in_row_def assms(3))
  then have "follows_within (as_login_failures_before_lock (al_settings c)) {user_id u} (al_now c) (pa_db st) (pa_db (drop_old_session c
      (on_db (modify_user (user_id u) (signed_in_row (al_now c))) st)))"
    by (rule then_quiet) (use quiet_drop_old [of "on_db (modify_user (user_id u) (signed_in_row (al_now c))) st" c] in
      \<open>simp add: account_simps\<close>)
  then show ?thesis
    by (simp add: sign_in_def Let_def case_prod_beta account_simps signed_in_row_id)
      (erule then_quiet, rule quiet_open_session)
qed

lemma login_allowed_db [account_simps]: "pa_db (snd (login_allowed c n st)) = pa_db st"
  "pa_credentials (snd (login_allowed c n st)) = pa_credentials st"
  by (simp_all add: login_allowed_def limited_def split: prod.split bool.split)

lemma preauth_error: "preauth c = Inl e \<Longrightarrow> e \<noteq> auth_error"
  by (auto simp: preauth_def require_preauth_csrf_def ensure_allowed_origin_def auth_error_def Let_def
      split: if_splits sum.splits option.splits)

lemma login_cases:
  obtains "pa_db (snd (snd (login c body st))) = pa_db st" "\<exists>e. fst (login c body st) = Inl e \<and> e \<noteq> auth_error"
  | user where "snd (snd (login c body st)) = on_db (auth_failure c user (login_name_of body)) (snd (login_allowed c (login_name_of body) st))"
      "fst (login c body st) = Inl auth_error"
      "user = scalar (\<lambda>u. user_normalized_login u = login_name_of body) (t_users (pa_db st))"
  | u where "snd (snd (login c body st)) = snd (sign_in c u (snd (login_allowed c (login_name_of body) st)))"
      "fst (login c body st) = Inr (fst (sign_in c u (snd (login_allowed c (login_name_of body) st))))"
      "scalar (\<lambda>u. user_normalized_login u = login_name_of body) (t_users (pa_db st)) = Some u" "may_login c u"
      "\<exists>k. credential_of (user_id u) st = Some k \<and> al_verify c (cred_password_hash k) (lr_password body)"
proof (cases "preauth c")
  case (Inl e)
  then show ?thesis using that(1) preauth_error [OF Inl] by (simp add: login_def)
next
  case (Inr x)
  obtain ok st1 where allowed: "login_allowed c (login_name_of body) st = (ok, st1)" by fastforce
  have db: "pa_db st1 = pa_db st" "pa_credentials st1 = pa_credentials st"
    using login_allowed_db [of c "login_name_of body" st] by (simp_all add: allowed)
  let ?user = "scalar (\<lambda>u. user_normalized_login u = login_name_of body) (t_users (pa_db st))"
  show ?thesis
  proof (cases ok)
    case False
    then show ?thesis using that(1) Inr allowed db by (simp add: login_def rate_limited_def auth_error_def)
  next
    case True
    let ?credential = "case ?user of None \<Rightarrow> None | Some u \<Rightarrow> credential_of (user_id u) st"
    have cred: "credential_of i st1 = credential_of i st" for i by (simp add: credential_of_def db)
    show ?thesis
    proof (cases "fst (check_password c ?credential (lr_password body)) \<and> (\<exists>u. ?user = Some u \<and> may_login c u)")
      case False
      then have "snd (snd (login c body st)) = on_db (auth_failure c ?user (login_name_of body)) st1"
        "fst (login c body st) = Inl auth_error"
        by (auto simp: login_def Inr allowed True Let_def db cred split: prod.split option.splits)
      then show ?thesis using that(2) [of ?user] allowed by simp
    next
      case ok: True
      then obtain u where u: "?user = Some u" "may_login c u" by blast
      with ok have valid: "fst (check_password c (credential_of (user_id u) st) (lr_password body))" by simp
      have "login c body st = (Inr (fst (sign_in c u st1)), snd (check_password c (credential_of (user_id u) st)
          (lr_password body)), snd (sign_in c u st1))"
        using valid u by (auto simp: login_def Inr allowed True Let_def db cred split: prod.split)
      moreover have "\<exists>k. credential_of (user_id u) st = Some k \<and> al_verify c (cred_password_hash k) (lr_password body)"
        using valid by (auto simp: check_password_def Let_def split: option.splits)
      ultimately show ?thesis using that(3) [of u] u allowed by simp
    qed
  qed
qed

definition signed_in_by :: "account_call \<Rightarrow> login_request \<Rightarrow> portal_accounts \<Rightarrow> uuid set" where
  "signed_in_by c body st = (case fst (login c body st) of Inl _ \<Rightarrow> {} | Inr answer \<Rightarrow> {ur_id (la_user answer)})"

lemma user_moves_more: "user_moves limit {} k k' \<Longrightarrow> user_moves limit entered k k'"
  by (cases k; cases k') auto

lemma follows_more: "follows_within limit {} now db db' \<Longrightarrow> follows_within limit entered now db db'"
  unfolding follows_within_def users_follow_def
  by (blast intro: list_all2_mono [where P = "user_moves limit {}"] user_moves_more)

lemma follows_login:
  assumes "users_distinct (pa_db st)"
  shows "follows_within (as_login_failures_before_lock (al_settings c)) (signed_in_by c body st) (al_now c) (pa_db st)
    (pa_db (snd (snd (login c body st))))"
proof (rule login_cases [of c body st])
  assume "pa_db (snd (snd (login c body st))) = pa_db st"
  then show ?thesis by (simp add: quiet_follows)
next
  fix user
  assume "snd (snd (login c body st)) = on_db (auth_failure c user (login_name_of body)) (snd (login_allowed c (login_name_of body) st))"
  then show ?thesis by (simp add: account_simps follows_more [OF follows_auth_failure])
next
  fix u
  assume s: "snd (snd (login c body st)) = snd (sign_in c u (snd (login_allowed c (login_name_of body) st)))"
    and a: "fst (login c body st) = Inr (fst (sign_in c u (snd (login_allowed c (login_name_of body) st))))"
    and u: "scalar (\<lambda>u. user_normalized_login u = login_name_of body) (t_users (pa_db st)) = Some u" "may_login c u"
  let ?st = "snd (login_allowed c (login_name_of body) st)"
  have "signed_in_by c body st = {user_id u}"
    by (simp add: signed_in_by_def a sign_in_def Let_def case_prod_beta serialize_user_def signed_in_row_id)
  moreover have "follows_within (as_login_failures_before_lock (al_settings c)) {user_id u} (al_now c) (pa_db ?st) (pa_db (snd (sign_in c u ?st)))"
    by (rule follows_sign_in) (use assms scalar_SomeD [OF u(1)] u(2) in \<open>simp_all add: account_simps may_login_def\<close>)
  ultimately show ?thesis unfolding s by (simp add: account_simps)
qed

lemma follows_exchange: "follows_accounts c (pa_db st) (pa_db (snd (exchange_password_action c token st)))"
proof -
  have q: "quiet (pa_db st) (modify_setup_token i f (pa_db st))" if "\<And>t. link_moves t (f t)" for i f
    by (rule quiet_modify_link) (rule that)
  have l: "limited c k n st = (b, st') \<Longrightarrow> pa_db st' = pa_db st" for k n b st'
    using account_parts(10) [of c k n st] by simp
  show ?thesis
    by (rule quiet_follows)
      (auto simp: exchange_password_action_def account_simps intro!: q dest!: l split: sum.split prod.split bool.split option.split)
qed

text \<open>The user that a link belongs to is read by his key.\<close>

lemma linked_found:
  assumes "linked p db = Some (t, user)"
  shows "\<exists>t0 \<in> set (t_setup_tokens db). p t0 \<and> get_setup_token db (ptok_id t0) = Some t \<and>
    user = get_user db (ptok_user_id t0)"
  using assms by (auto simp: linked_def dest: scalar_SomeD split: option.splits)

lemma follows_password_rows:
  assumes "users_distinct (pa_db st)" and "u \<in> set (t_users (pa_db st))"
    and "password_action_account_is_valid t u"
  shows "follows_accounts c (pa_db st) (pa_db (snd (snd (password_rows c t u password st))))"
proof -
  let ?db1 = "modify_setup_token (ptok_id t) (use_link (al_now c)) (pa_db st)"
  let ?db2 = "?db1\<lparr>t_setup_tokens := update_where (other_active t (user_id u)) (revoke_link (al_now c)) (t_setup_tokens ?db1)\<rparr>"
  let ?f = "password_set_row (al_now c) (ptok_purpose t)"
  have "quiet (pa_db st) ?db2"
    by (rule quiet_trans [OF quiet_modify_link quiet_links]) simp_all
  moreover have "follows_accounts c ?db2 (modify_user (user_id u) ?f ?db2)"
    by (rule follows_modify_known)
      (use assms in \<open>auto simp: users_distinct_def account_simps password_set_row_def user_core_def Let_def
        password_action_account_is_valid_def split: if_splits option.split\<close>)
  ultimately have "follows_accounts c (pa_db st) (modify_user (user_id u) ?f ?db2)"
    by (rule quiet_then)
  from then_quiet [OF then_quiet [OF this quiet_sessions] quiet_revoke_tokens]
  show ?thesis by (simp add: password_rows_def Let_def case_prod_beta account_simps)
qed

lemma password_set_row_id [simp]: "user_id (password_set_row now p u) = user_id u"
  by (simp add: password_set_row_def Let_def)

lemma follows_password_was_set:
  assumes "users_distinct (pa_db st)" and "u \<in> set (t_users (pa_db st))"
    and "password_action_account_is_valid t u"
  shows "follows_accounts c (pa_db st) (pa_db (snd (password_was_set c t u password st)))"
proof -
  note rows = follows_password_rows [OF assms, of c password]
  show ?thesis
    using rows then_quiet [OF rows quiet_open_session]
    by (simp add: password_was_set_def Let_def case_prod_beta account_simps split: option.split)
qed

lemma setup_password_cases:
  obtains "quiet (pa_db st) (pa_db (snd (setup_password c body st)))" "\<exists>e. fst (setup_password c body st) = Inl e"
      "pa_credentials (snd (setup_password c body st)) = pa_credentials st"
  | t u where "setup_password c body st = (Inr (fst (password_was_set c t u (spr_password body) st)),
        snd (password_was_set c t u (spr_password body) st))"
      "linked (\<lambda>t. ptok_challenge_hash t = Some (al_digest c (challenge_cookie c))) (pa_db st) = Some (t, Some u)"
      "challenged (al_now c) t" "password_action_account_is_valid t u" "challenge_cookie c \<noteq> []"
      "validate_password (spr_password body) (user_normalized_login u) = Inr ()"
proof -
  have q: "quiet (pa_db st) (modify_setup_token i (revoke_link n) (pa_db st))" for i n
    by (rule quiet_modify_link) simp
  show ?thesis
  proof (cases "fst (setup_password c body st)")
    case (Inl e)
    have "quiet (pa_db st) (pa_db (snd (setup_password c body st)))"
      "pa_credentials (snd (setup_password c body st)) = pa_credentials st"
      using Inl by (auto simp: setup_password_def account_simps q split: sum.splits option.splits prod.splits if_splits)
    then show ?thesis using that(1) Inl by blast
  next
    case (Inr answer)
    then obtain t u where "linked (\<lambda>t. ptok_challenge_hash t = Some (al_digest c (challenge_cookie c))) (pa_db st) = Some (t, Some u)"
      "challenged (al_now c) t" "password_action_account_is_valid t u" "challenge_cookie c \<noteq> []"
      "validate_password (spr_password body) (user_normalized_login u) = Inr ()" "preauth c = Inr ()"
      by (auto simp: setup_password_def split: sum.splits option.splits prod.splits if_splits)
    then show ?thesis using that(2) [of t u] by (simp add: setup_password_def split: prod.split)
  qed
qed

lemma follows_setup_password:
  assumes "users_distinct (pa_db st)"
  shows "follows_accounts c (pa_db st) (pa_db (snd (setup_password c body st)))"
proof (rule setup_password_cases [of st c body])
  assume "quiet (pa_db st) (pa_db (snd (setup_password c body st)))"
  then show ?thesis by (rule quiet_follows)
next
  fix t u
  assume s: "setup_password c body st = (Inr (fst (password_was_set c t u (spr_password body) st)),
        snd (password_was_set c t u (spr_password body) st))"
    and l: "linked (\<lambda>t. ptok_challenge_hash t = Some (al_digest c (challenge_cookie c))) (pa_db st) = Some (t, Some u)"
    and v: "password_action_account_is_valid t u"
  have "u \<in> set (t_users (pa_db st))" using linked_found [OF l] by (metis get_user_member)
  from follows_password_was_set [OF assms this v, of c "spr_password body"] show ?thesis by (simp add: s)
qed

text \<open>What a route gets from its session: the user is active and among the rows.\<close>

definition loaded :: "auth_context \<Rightarrow> portal_db \<Rightarrow> bool" where
  "loaded context db \<longleftrightarrow> ctx_user context \<in> set (t_users db) \<and> user_account_state (ctx_user context) = AS_ACTIVE"

lemma load_context_loaded:
  assumes "load_context digest settings now req db = (Inr context, db')"
  shows "loaded context db' \<and> t_users db' = t_users db"
proof (rule load_context_InrD [OF assms])
  fix session user
  assume u: "get_user db (sess_user_id session) = Some user" "user_account_state user = AS_ACTIVE"
    and c: "context = \<lparr>ctx_user = user, ctx_session = Some (seen_row settings now session),
      ctx_session_raw = ctx_session_raw context, ctx_actor_user = None, ctx_delegation = None, ctx_cli_token = None\<rparr>"
    and db': "db' = modify_session (sess_id session) (seen_row settings now) db"
  from arg_cong [OF c, of ctx_user] have "ctx_user context = user" by simp
  then show ?thesis using u db' by (auto simp: loaded_def account_simps dest: get_user_member)
qed

lemma follows_changed_password:
  assumes "users_distinct (pa_db st)" and "loaded context (pa_db st)"
  shows "follows_accounts c (pa_db st) (pa_db (changed_password c context password st))"
proof -
  let ?u = "ctx_user context"
  let ?db1 = "modify_user (user_id ?u) (\<lambda>u. u\<lparr>user_password_state := PS_SET\<rparr>) (pa_db st)"
  have "follows_accounts c (pa_db st) ?db1"
    by (rule follows_modify_known) (use assms in \<open>simp_all add: loaded_def user_core_def\<close>)
  from then_quiet [OF then_quiet [OF then_quiet [OF this quiet_sessions] quiet_revoke_tokens] quiet_open_session]
  show ?thesis by (simp add: changed_password_def Let_def case_prod_beta account_simps)
qed

lemma follows_change_password:
  assumes "users_distinct (pa_db st)" and "loaded context (pa_db st)"
  shows "follows_accounts c (pa_db st) (pa_db (snd (change_password c body context st)))"
  using follows_changed_password [OF assms]
  by (auto simp: change_password_def quiet_follows split: sum.split option.split)

lemma follows_create_cli_token: "follows_accounts c (pa_db st) (pa_db (snd (create_cli_token c body context st)))"
proof -
  have l: "limited c k n st = (b, st') \<Longrightarrow> pa_db st' = pa_db st" for k n b st'
    using account_parts(10) [of c k n st] by simp
  have "follows_accounts c (pa_db st) (add_cli_token (new_cli_token c body uid) (pa_db st))"
    if "\<not> 10 \<le> active_cli_tokens (al_now c) uid (pa_db st)" for uid
  proof -
    have "active_cli_tokens (al_now c) uid (add_cli_token (new_cli_token c body uid) (pa_db st)) \<le> 10"
      using that by (simp add: active_cli_tokens_def add_cli_token_def)
    moreover have "cli_user_id (new_cli_token c body uid) = uid" by (simp add: new_cli_token_def)
    ultimately have "tokens_follow (al_now c) (pa_db st) (add_cli_token (new_cli_token c body uid) (pa_db st))"
      by (auto simp: tokens_follow_def add_cli_token_def list_all2_refl)
    moreover have "same_users (pa_db st) (add_cli_token t (pa_db st))" "links_follow (pa_db st) (add_cli_token t (pa_db st))" for t
      by (auto simp: same_users_def add_cli_token_def list_all2_refl intro!: links_kept)
    ultimately show ?thesis by (simp add: follows_within_def same_users_follow)
  qed
  then show ?thesis
    by (auto simp: create_cli_token_def quiet_follows Let_def account_simps dest!: l split: sum.split prod.split bool.split)
qed

lemma quiet_revoke_cli_token: "quiet (pa_db st) (pa_db (snd (revoke_cli_token c i context st)))"
  by (auto simp: revoke_cli_token_def account_simps end_cli_token_def token_moves_def intro!: quiet_modify_token
      split: sum.split option.split)

lemma quiet_logout: "quiet (pa_db st) (pa_db (snd (logout c context st)))"
  by (auto simp: logout_def with_session_def account_simps split: sum.split option.split)

lemma quiet_reauthenticate: "quiet (pa_db st) (pa_db (snd (reauthenticate c password context st)))"
  by (auto simp: reauthenticate_def with_session_def account_simps Let_def split: sum.split option.split)

lemma quiet_revoke_other: "quiet (pa_db st) (pa_db (snd (revoke_other_session c i context st)))"
  by (auto simp: revoke_other_session_def with_session_def account_simps split: sum.split option.split)

lemma quiet_revoke_others: "quiet (pa_db st) (pa_db (snd (revoke_other_sessions c context st)))"
  using quiet_sessions [of "pa_db st"]
  by (simp add: revoke_other_sessions_def with_session_def account_simps case_prod_beta split: sum.split option.split)

lemma follows_create_user: "follows_accounts c (pa_db st) (pa_db (snd (create_user c body context st)))"
proof -
  have "follows_accounts c (pa_db st) (add_user (invited_user c body n role) (pa_db st))" for n role
  proof -
    have "users_follow limit entered (pa_db st) (add_user (invited_user c body n role) (pa_db st))" for limit entered
      by (rule users_followI [where cs = "map user_core (t_users (pa_db st))"])
        (auto simp: add_user_def invited_user_def user_core_def list_all2_refl)
    then show ?thesis
      by (auto simp: follows_within_def add_user_def tokens_follow_def tokens_kept_def list_all2_refl intro!: links_kept)
  qed
  then show ?thesis
    by (auto simp: create_user_def quiet_follows Let_def account_simps split: sum.split option.split)
qed

lemma quiet_modify_managed: "quiet db (modify_managed i f db)"
  by (subst quiet_cong [where dx = db]) (simp_all add: modify_managed_def)

lemma quiet_policy: "quiet (pa_db st) (pa_db (snd (update_lease_renewal_policy c v required context st)))"
  by (auto simp: update_lease_renewal_policy_def Let_def account_simps quiet_modify_managed split: sum.split option.split)

lemma quiet_add_link: "quiet db (add_link t db)"
  by (auto simp: quiet_def same_users_def tokens_kept_def add_link_def list_all2_refl
      intro!: links_followI [where ts = "t_setup_tokens db" and new = "[t]"])

lemma quiet_replace_links: "quiet db (replace_links c purpose actor target db)"
proof -
  let ?db1 = "db\<lparr>t_setup_tokens := update_where (\<lambda>t. ptok_id t \<in> set (map ptok_id
    (filter (open_link (user_id target) purpose) (t_setup_tokens db)))) (revoke_link (al_now c)) (t_setup_tokens db)\<rparr>"
  have "quiet db ?db1" by (rule quiet_links) simp
  then have "quiet db (revoked_links_audit c 1 purpose (length (filter (open_link (user_id target) purpose)
      (t_setup_tokens db))) actor target ?db1)" by (simp only: account_simps)
  from quiet_trans [OF this quiet_add_link] show ?thesis by (simp add: replace_links_def Let_def)
qed

lemma quiet_create_link: "quiet (pa_db st) (pa_db (snd (create_password_action_link c purpose v context st)))"
  by (auto simp: create_password_action_link_def Let_def account_simps quiet_replace_links split: sum.split option.split)

text \<open>The console commands.\<close>

lemma user_core_roles [simp]: "user_core (u\<lparr>user_roles := rs\<rparr>) = user_core u" "user_core (with_role r u) = user_core u"
  by (simp_all add: user_core_def with_role_def)

lemma quiet_ensure_role: "quiet (pa_db st) (pa_db (ensure_role c d ids row st))"
  by (cases row) (auto simp: ensure_role_def account_simps quiet_def same_users_def tokens_kept_def list_all2_refl
      intro!: links_kept split: option.split)

lemma quiet_ensure_roles: "quiet (pa_db st) (pa_db (ensure_roles c d ids st))"
proof -
  have "quiet (pa_db st) (pa_db (foldl (\<lambda>st row. ensure_role c d ids row st) st rows))" for rows
    by (induction rows arbitrary: st) (auto intro: quiet_trans quiet_ensure_role)
  then show ?thesis by (simp add: ensure_roles_def)
qed

lemma follows_ensure_record:
  "follows_accounts c (pa_db st) (pa_db (snd (ensure_origin_al_record c d ids st)))"
proof -
  let ?st = "ensure_roles c d ids st"
  let ?found = "scalar (\<lambda>u. user_normalized_login u = ''origin-al'') (t_users (pa_db ?st))"
  let ?user = "case ?found of None \<Rightarrow> origin_al c | Some u \<Rightarrow> u"
  let ?st1 = "if ?found = None then on_db (add_user ?user) ?st else ?st"
  have added: "follows_accounts c db (add_user (origin_al c) db)" for db
  proof -
    have "users_follow limit entered db (add_user (origin_al c) db)" for limit entered
      by (rule users_followI [where cs = "map user_core (t_users db)"])
        (auto simp: add_user_def origin_al_def user_core_def list_all2_refl)
    then show ?thesis
      by (auto simp: follows_within_def add_user_def tokens_follow_def tokens_kept_def list_all2_refl intro!: links_kept)
  qed
  have "follows_accounts c (pa_db ?st) (pa_db ?st1)"
    by (auto simp: account_simps quiet_follows added split: option.split)
  with quiet_ensure_roles have one: "follows_accounts c (pa_db st) (pa_db ?st1)" by (rule quiet_then)
  have roles: "quiet db (modify_user i (with_role r) db)" for db i r
    by (auto simp: quiet_def same_users_def tokens_kept_def modify_user_def list_all2_refl map_update_where intro!: links_kept)
  have "\<exists>i r. snd (ensure_origin_al_record c d ids st) = st \<or>
      snd (ensure_origin_al_record c d ids st) = on_db (modify_user i (with_role r)) ?st1"
    unfolding ensure_origin_al_record_def Let_def by (auto split: option.split)
  then show ?thesis using then_quiet [OF one roles] by (auto simp: account_simps quiet_follows)
qed

lemma follows_prepare_record: "follows_accounts c (pa_db st) (pa_db (snd (prepare_origin_al c d ids st)))"
proof (cases "ensure_origin_al_record c d ids st")
  case (Pair r st')
  with follows_ensure_record [of c st d ids] show ?thesis
    by (auto simp: prepare_origin_al_def account_simps quiet_follows split: sum.split)
qed

lemma follows_bootstrap: "follows_accounts c (pa_db st) (pa_db (snd (bootstrap_origin_al c d ids reset st)))"
proof (cases "ensure_origin_al_record c d ids st")
  case (Pair r st')
  with follows_ensure_record [of c st d ids] have f: "follows_accounts c (pa_db st) (pa_db st')" by simp
  have "follows_accounts c (pa_db st) ((pa_db st')\<lparr>t_setup_tokens := update_where p (revoke_link n) (t_setup_tokens (pa_db st'))\<rparr>)"
    for p n by (rule then_quiet [OF f quiet_links]) simp
  then show ?thesis using f
    by (auto simp: bootstrap_origin_al_def Pair Let_def account_simps quiet_follows
        intro!: then_quiet [OF _ quiet_add_link] split: sum.split)
qed

end
