(* ===== verification/Account_Runs.thy ===== *)
theory Account_Runs
  imports Account_Effects
begin

section \<open>Runs of the account routes\<close>

text \<open>
  Requests to the account routes and console commands in any order, at instants that do not go back, interleaved with
  whatever the rest of the portal does that keeps logins, states, links and CLI tokens. A state that the database keeps
  satisfies its UNIQUE constraints: a request whose commit violates one is rolled back and is no step.
\<close>

datatype account_request =
    R_login login_request
  | R_exchange string
  | R_setup setup_password_request
  | R_change change_password_request
  | R_create_token cli_token_create_request
  | R_revoke_token uuid
  | R_logout
  | R_reauthenticate string
  | R_revoke_session string
  | R_revoke_others
  | R_read
  | R_create_user portal_user_create_request
  | R_policy string bool
  | R_link password_action_purpose string
  | R_prepare "string \<Rightarrow> string" "string \<Rightarrow> int"
  | R_bootstrap "string \<Rightarrow> string" "string \<Rightarrow> int" bool

fun serve :: "account_call \<Rightarrow> account_request \<Rightarrow> portal_accounts \<Rightarrow> portal_accounts" where
  "serve c (R_login body) st = snd (snd (login c body st))"
| "serve c (R_exchange token) st = snd (exchange_password_action c token st)"
| "serve c (R_setup body) st = snd (setup_password c body st)"
| "serve c (R_change body) st = snd (as_user c (change_password c body) st)"
| "serve c (R_create_token body) st = snd (as_user c (create_cli_token c body) st)"
| "serve c (R_revoke_token i) st = snd (as_user c (revoke_cli_token c i) st)"
| "serve c R_logout st = snd (as_user c (logout c) st)"
| "serve c (R_reauthenticate password) st = snd (as_user c (reauthenticate c password) st)"
| "serve c (R_revoke_session i) st = snd (as_user c (revoke_other_session c i) st)"
| "serve c R_revoke_others st = snd (as_user c (revoke_other_sessions c) st)"
| "serve c R_read st = snd (as_user c (me c) st)"
| "serve c (R_create_user body) st = snd (permitted c ''users.write'' (create_user c body) st)"
| "serve c (R_policy v required) st = snd (permitted c ''users.write'' (update_lease_renewal_policy c v required) st)"
| "serve c (R_link purpose v) st = snd (permitted c ''users.write'' (create_password_action_link c purpose v) st)"
| "serve c (R_prepare d ids) st = snd (prepare_origin_al c d ids st)"
| "serve c (R_bootstrap d ids reset) st = snd (bootstrap_origin_al c d ids reset st)"

definition accounts_constrained :: "portal_accounts \<Rightarrow> bool" where
  "accounts_constrained st \<longleftrightarrow> users_distinct (pa_db st) \<and>
     distinct (map user_normalized_login (t_users (pa_db st))) \<and> distinct (map ptok_id (t_setup_tokens (pa_db st))) \<and>
     distinct (map cred_user_id (pa_credentials st)) \<and> distinct (map cred_id (pa_credentials st))"

inductive accounts_run :: "account_settings \<Rightarrow> portal_accounts \<times> instant \<Rightarrow> portal_accounts \<times> instant \<Rightarrow> bool"
  for settings where
  start: "accounts_run settings (st, t) (st, t)"
| request: "accounts_run settings s (st, t) \<Longrightarrow> t \<le> al_now c \<Longrightarrow> al_settings c = settings \<Longrightarrow>
    accounts_constrained (serve c r st) \<Longrightarrow> accounts_run settings s (serve c r st, al_now c)"
| other: "accounts_run settings s (st, t) \<Longrightarrow> quiet (pa_db st) (pa_db st') \<Longrightarrow>
    pa_credentials st' = pa_credentials st \<Longrightarrow> accounts_constrained st' \<Longrightarrow> t \<le> t' \<Longrightarrow>
    accounts_run settings s (st', t')"

lemma follows_as_user:
  assumes "users_distinct (pa_db st)"
    and "\<And>context st'. users_distinct (pa_db st') \<Longrightarrow> loaded context (pa_db st') \<Longrightarrow>
      follows_accounts c (pa_db st') (pa_db (snd (route context st')))"
  shows "follows_accounts c (pa_db st) (pa_db (snd (as_user c route st)))"
proof (cases "load_context (al_digest c) (as_session (al_settings c)) (al_now c) (al_request c) (pa_db st)")
  case (Pair r db)
  with quiet_load have q: "quiet (pa_db st) db" by (metis snd_conv)
  show ?thesis
  proof (cases r)
    case (Inl e)
    then show ?thesis using Pair q by (simp add: as_user_def quiet_follows)
  next
    case (Inr ctx)
    from load_context_loaded [OF Pair [unfolded Inr]] assms(1)
    have "users_distinct db" "loaded ctx db" by (simp_all add: users_distinct_def)
    with assms(2) [of "st\<lparr>pa_db := db\<rparr>" ctx] q show ?thesis
      by (auto simp: as_user_def Pair Inr elim: quiet_then)
  qed
qed

lemma follows_permitted:
  assumes "\<And>context st'. follows_accounts c (pa_db st') (pa_db (snd (route context st')))"
  shows "follows_accounts c (pa_db st) (pa_db (snd (permitted c permission route st)))"
proof (cases "permission_dependency (al_digest c) (as_session (al_settings c)) (al_id c 9) (al_now c) permission
    (al_request c) (pa_db st)")
  case (Pair r db)
  with quiet_permission have q: "quiet (pa_db st) db" by (metis snd_conv)
  then show ?thesis using Pair assms [of "st\<lparr>pa_db := db\<rparr>"]
    by (cases r) (auto simp: permitted_def quiet_follows elim: quiet_then)
qed

lemma quiet_me: "quiet (pa_db st) (pa_db (snd (me c context st)))"
  by (simp add: me_def with_session_def Let_def split: option.split)

definition signs_in :: "account_call \<Rightarrow> account_request \<Rightarrow> portal_accounts \<Rightarrow> uuid set" where
  "signs_in c r st = (case r of R_login body \<Rightarrow> signed_in_by c body st | _ \<Rightarrow> {})"

text \<open>Every request changes the accounts lawfully.\<close>

lemma follows_serve:
  assumes "users_distinct (pa_db st)"
  shows "follows_within (as_login_failures_before_lock (al_settings c)) (signs_in c r st) (al_now c)
    (pa_db st) (pa_db (serve c r st))"
  by (cases r) (auto simp: assms signs_in_def follows_prepare_record follows_bootstrap follows_login
      intro: follows_exchange follows_setup_password follows_as_user [OF assms]
        follows_change_password follows_create_cli_token follows_permitted follows_create_user
        quiet_follows quiet_revoke_cli_token quiet_logout quiet_reauthenticate quiet_revoke_other
        quiet_revoke_others quiet_me quiet_policy quiet_create_link)

text \<open>Induction over a run: what every lawful change and the passing of time keep holds at its end.\<close>

lemma accounts_run_induct:
  assumes "accounts_run settings (st0, t0) (st, t)" and "accounts_constrained st0" and "P (pa_db st0) t0"
    and "\<And>db db' t t' entered. P db t \<Longrightarrow> users_distinct db \<Longrightarrow> distinct (map ptok_id (t_setup_tokens db)) \<Longrightarrow> t \<le> t' \<Longrightarrow>
      follows_within (as_login_failures_before_lock settings) entered t' db db' \<Longrightarrow> P db' t'"
  shows "P (pa_db st) t \<and> accounts_constrained st"
  using assms(1)
proof (induction "(st0, t0)" "(st, t)" arbitrary: st t rule: accounts_run.induct)
  case start
  then show ?case using assms(2,3) by simp
next
  case (request st t c r)
  then have "users_distinct (pa_db st)" "distinct (map ptok_id (t_setup_tokens (pa_db st)))"
    by (simp_all add: accounts_constrained_def)
  with request follows_serve [OF this(1), of c r] assms(4) show ?case by blast
next
  case (other st t st' t')
  then have "users_distinct (pa_db st)" "distinct (map ptok_id (t_setup_tokens (pa_db st)))"
    by (simp_all add: accounts_constrained_def)
  with other assms(4) quiet_follows show ?case by blast
qed

end
