(* ===== verification/Account_Guarantees.thy ===== *)
theory Account_Guarantees
  imports Account_Runs
begin

section \<open>What the account routes guarantee\<close>

text \<open>
  Who can change a password, what a changed password ends, how often a password can be guessed, how many CLI tokens
  a user can hold, and that an account that has been locked stays locked.
\<close>

subsection \<open>Rows along a run\<close>

lemma user_follows:
  assumes "users_follow limit entered db db'" and "u \<in> set (t_users db)"
  shows "\<exists>u' \<in> set (t_users db'). user_moves limit entered (user_core u) (user_core u')"
proof -
  obtain cs new where cs: "map user_core (t_users db') = cs @ new"
    "list_all2 (user_moves limit entered) (map user_core (t_users db)) cs"
    using assms(1) unfolding users_follow_def by blast
  obtain n where n: "n < length (t_users db)" "t_users db ! n = u" using assms(2) by (auto simp: in_set_conv_nth)
  then have "user_moves limit entered (user_core u) (cs ! n)" and "n < length cs"
    using cs(2) by (auto simp: list_all2_conv_all_nth)
  moreover from this have "cs ! n \<in> user_core ` set (t_users db')" using cs(1)
    by (metis list.set_map nth_mem set_append UnCI)
  ultimately show ?thesis by auto
qed

lemma user_follows_back:
  assumes "users_follow limit entered db db'" and "u' \<in> set (t_users db')"
  shows "(\<exists>u \<in> set (t_users db). user_moves limit entered (user_core u) (user_core u')) \<or>
    (user_account_state u' = AS_INVITED \<and> user_failed_login_count u' = 0)"
proof -
  obtain cs new where cs: "map user_core (t_users db') = cs @ new"
    "list_all2 (user_moves limit entered) (map user_core (t_users db)) cs"
    "\<forall>k \<in> set new. \<exists>i l. k = (i, l, AS_INVITED, PS_SETUP_REQUIRED, 0)"
    using assms(1) unfolding users_follow_def by blast
  have "user_core u' \<in> set cs \<union> set new" using assms(2) cs(1) by (metis image_eqI list.set_map set_append)
  then show ?thesis
  proof
    assume "user_core u' \<in> set cs"
    then obtain n where "n < length cs" "cs ! n = user_core u'" by (auto simp: in_set_conv_nth)
    with cs(2) have "n < length (t_users db)" "user_moves limit entered (user_core (t_users db ! n)) (user_core u')"
      by (auto simp: list_all2_conv_all_nth)
    then show ?thesis by (meson nth_mem)
  next
    assume "user_core u' \<in> set new"
    with cs(3) show ?thesis by (auto simp: user_core_def)
  qed
qed

lemma link_follows:
  assumes "links_follow db db'" and "t \<in> set (t_setup_tokens db)"
  shows "\<exists>t' \<in> set (t_setup_tokens db'). link_moves t t'"
proof -
  obtain ts new where ts: "t_setup_tokens db' = ts @ new" "list_all2 link_moves (t_setup_tokens db) ts"
    using assms(1) unfolding links_follow_def by blast
  obtain i where "i < length (t_setup_tokens db)" "t = t_setup_tokens db ! i"
    using assms(2) by (auto simp: in_set_conv_nth)
  with ts have "ts ! i \<in> set (t_setup_tokens db') \<and> link_moves t (ts ! i)" by (auto simp: list_all2_conv_all_nth)
  then show ?thesis by blast
qed

lemma core_fields:
  "user_moves limit entered (user_core u) (user_core u') \<Longrightarrow> user_id u' = user_id u \<and>
     user_normalized_login u' = user_normalized_login u"
  by (simp add: user_core_def)

lemma failed_core: "user_account_state u = AS_LOCKED \<Longrightarrow> user_moves limit entered (user_core u) (user_core u') \<Longrightarrow>
    user_account_state u' = AS_LOCKED"
  by (auto simp: user_core_def split: if_splits)

subsection \<open>A locked account\<close>

lemma locked_along_run:
  assumes "accounts_run settings (st0, t0) (st, t)" and "accounts_constrained st0"
    and "u \<in> set (t_users (pa_db st0))" and "user_account_state u = AS_LOCKED"
  shows "\<exists>u' \<in> set (t_users (pa_db st)). user_id u' = user_id u \<and>
    user_normalized_login u' = user_normalized_login u \<and> user_account_state u' = AS_LOCKED"
proof -
  let ?P = "\<lambda>db (t :: instant). \<exists>u' \<in> set (t_users db). user_id u' = user_id u \<and>
    user_normalized_login u' = user_normalized_login u \<and> user_account_state u' = AS_LOCKED"
  have "?P (pa_db st) t \<and> accounts_constrained st"
  proof (rule accounts_run_induct [where P = ?P, OF assms(1,2)])
    show "?P (pa_db st0) t0" using assms(3,4) by blast
  next
    fix db db' entered and t t' :: instant
    assume p: "?P db t" and f: "follows_within (as_login_failures_before_lock settings) entered t' db db'"
    from f have users: "users_follow (as_login_failures_before_lock settings) entered db db'"
      by (simp add: follows_within_def)
    from p obtain v where v: "v \<in> set (t_users db)" "user_id v = user_id u"
      "user_normalized_login v = user_normalized_login u" "user_account_state v = AS_LOCKED" by blast
    from user_follows [OF users v(1)] obtain v' where v': "v' \<in> set (t_users db')"
      "user_moves (as_login_failures_before_lock settings) entered (user_core v) (user_core v')" by blast
    from core_fields [OF v'(2)] failed_core [OF v(4) v'(2)] v v'(1) show "?P db' t'" by auto
  qed
  then show ?thesis by blast
qed

lemma accounts_run_constrained:
  "accounts_run settings (st0, t0) (st, t) \<Longrightarrow> accounts_constrained st0 \<Longrightarrow> accounts_constrained st"
  by (drule accounts_run_induct [where P = "\<lambda>_ _. True"]) simp_all

lemma login_unique:
  "accounts_constrained st \<Longrightarrow> u \<in> set (t_users (pa_db st)) \<Longrightarrow> v \<in> set (t_users (pa_db st)) \<Longrightarrow>
   user_normalized_login u = user_normalized_login v \<Longrightarrow> u = v"
  unfolding accounts_constrained_def by (metis distinct_map inj_onD)

lemma linked_user:
  assumes "linked p db = Some (t, Some u)"
  shows "u \<in> set (t_users db)"
  using linked_found [OF assms] by (metis get_user_member)

lemma link_issued:
  assumes "fst (create_password_action_link c purpose v ctx st) = Inr answer"
  shows "\<exists>target. named_user v (pa_db st) = Inr target \<and>
    link_refusal purpose target (credential_of (user_id target) st) = None"
  using assms by (auto simp: create_password_action_link_def split: sum.splits option.splits)

text \<open>
  C26. Once an account is locked, nothing unlocks it: after any run of the routes and console commands, and at any
  later time, no login of its user succeeds whatever password is given, no session of his loads, no link sets his password and
  none can be issued to him. The setting \<open>login_lock_minutes\<close>, and the date in \<open>locked_until\<close>, have no effect.
\<close>

theorem locked_for_good:
  assumes "accounts_run settings (st0, t0) (st, t)" and "accounts_constrained st0"
    and "u \<in> set (t_users (pa_db st0))" and "user_account_state u = AS_LOCKED"
  shows "(login_name_of body = user_normalized_login u \<longrightarrow> (\<exists>e. fst (login c body st) = Inl e)) \<and>
    (fst (load_context digest ses now req (pa_db st)) = Inr ctx \<longrightarrow> user_id (ctx_user ctx) \<noteq> user_id u) \<and>
    (fst (setup_password c new st) = Inr answer \<longrightarrow> ur_id (sa_user answer) \<noteq> user_id u) \<and>
    (uuid_of v = Some (user_id u) \<longrightarrow> (\<exists>e. fst (create_password_action_link c purpose v ctx st) = Inl e))"
proof -
  obtain u' where u': "u' \<in> set (t_users (pa_db st))" "user_id u' = user_id u"
    "user_normalized_login u' = user_normalized_login u" "user_account_state u' = AS_LOCKED"
    using locked_along_run [OF assms] by blast
  have con: "accounts_constrained st" by (rule accounts_run_constrained [OF assms(1,2)])
  then have dis: "users_distinct (pa_db st)" by (simp add: accounts_constrained_def)
  have state: "user_account_state w = AS_LOCKED" if "w \<in> set (t_users (pa_db st))" "user_id w = user_id u" for w
    using user_row_unique [OF dis u'(1) that(1)] u'(2,4) that(2) by auto
  have one: "\<exists>e. fst (login c body st) = Inl e" if n: "login_name_of body = user_normalized_login u"
  proof (rule login_cases [of c body st])
    fix w
    assume w: "scalar (\<lambda>u. user_normalized_login u = login_name_of body) (t_users (pa_db st)) = Some w" "may_login c w"
    from scalar_SomeD [OF w(1)] have "w = u'" using login_unique [OF con _ u'(1)] n u'(3) by auto
    with w(2) u'(4) show ?thesis by (simp add: may_login_def)
  qed blast+
  have two: "user_id (ctx_user ctx) \<noteq> user_id u" if l: "fst (load_context digest ses now req (pa_db st)) = Inr ctx"
  proof -
    obtain db where "load_context digest ses now req (pa_db st) = (Inr ctx, db)" using l by (metis prod.collapse)
    from load_context_loaded [OF this] state show ?thesis by (auto simp: loaded_def)
  qed
  have three: "ur_id (sa_user answer) \<noteq> user_id u" if s: "fst (setup_password c new st) = Inr answer"
  proof (rule setup_password_cases [of st c new])
    fix tk w
    assume a: "setup_password c new st = (Inr (fst (password_was_set c tk w (spr_password new) st)),
        snd (password_was_set c tk w (spr_password new) st))"
      and l: "linked (\<lambda>t. ptok_challenge_hash t = Some (al_digest c (challenge_cookie c))) (pa_db st) = Some (tk, Some w)"
      and v: "password_action_account_is_valid tk w"
    have "ur_id (sa_user answer) = user_id w"
      using s unfolding a by (auto simp: password_was_set_def Let_def case_prod_beta serialize_user_def)
    moreover have "user_account_state w \<noteq> AS_LOCKED" using v by (auto simp: password_action_account_is_valid_def split: if_splits)
    ultimately show ?thesis using state [OF linked_user [OF l]] by auto
  qed (use s in auto)
  have four: "\<exists>e. fst (create_password_action_link c purpose v ctx st) = Inl e" if v: "uuid_of v = Some (user_id u)"
  proof -
    have "link_refusal purpose w k \<noteq> None" if "named_user v (pa_db st) = Inr w" for w k
    proof -
      have "get_user (pa_db st) (user_id u) = Some w"
        using that v by (auto simp: named_user_def user_id_of_def split: option.splits)
      from get_user_member [OF this] state have "user_account_state w = AS_LOCKED" by blast
      then show ?thesis by (simp add: link_refusal_def)
    qed
    then show ?thesis using link_issued [of c purpose v ctx st]
      by (meson old.sum.exhaust)
  qed
  show ?thesis using one two three four by blast
qed

subsection \<open>Guessing passwords\<close>

text \<open>
  A run that counts the failed logins of one user since his last successful one; every other step of the run may
  come in between, as long as it does not sign him in.
\<close>

definition fails_login :: "account_call \<Rightarrow> account_request \<Rightarrow> portal_accounts \<Rightarrow> portal_user \<Rightarrow> bool" where
  "fails_login c r st user \<longleftrightarrow> (case r of
     R_login body \<Rightarrow> login_name_of body = user_normalized_login user \<and> fst (login c body st) = Inl auth_error | _ \<Rightarrow> False)"

inductive guess_run :: "account_settings \<Rightarrow> portal_user \<Rightarrow> portal_accounts \<Rightarrow> nat \<Rightarrow> bool" for settings user where
  fresh: "accounts_constrained st \<Longrightarrow> user \<in> set (t_users (pa_db st)) \<Longrightarrow>
    \<forall>u \<in> set (t_users (pa_db st)). 0 \<le> user_failed_login_count u \<and>
      (user_account_state u = AS_LOCKED \<or> user_failed_login_count u < as_login_failures_before_lock settings) \<Longrightarrow>
    guess_run settings user st 0"
| failed: "guess_run settings user st n \<Longrightarrow> al_settings c = settings \<Longrightarrow> fails_login c r st user \<Longrightarrow>
    accounts_constrained (serve c r st) \<Longrightarrow> guess_run settings user (serve c r st) (n + 1)"
| signed_in: "guess_run settings user st n \<Longrightarrow> al_settings c = settings \<Longrightarrow> user_id user \<in> signs_in c r st \<Longrightarrow>
    accounts_constrained (serve c r st) \<Longrightarrow> guess_run settings user (serve c r st) 0"
| request: "guess_run settings user st n \<Longrightarrow> al_settings c = settings \<Longrightarrow> user_id user \<notin> signs_in c r st \<Longrightarrow>
    accounts_constrained (serve c r st) \<Longrightarrow> guess_run settings user (serve c r st) n"
| other: "guess_run settings user st n \<Longrightarrow> quiet (pa_db st) (pa_db st') \<Longrightarrow> accounts_constrained st' \<Longrightarrow>
    guess_run settings user st' n"

definition counted :: "int \<Rightarrow> portal_user \<Rightarrow> bool" where
  "counted limit u \<longleftrightarrow> 0 \<le> user_failed_login_count u \<and>
     (user_account_state u = AS_LOCKED \<or> user_failed_login_count u < limit)"

lemma counted_moves:
  "counted limit u \<Longrightarrow> user_moves limit entered (user_core u) (user_core u') \<Longrightarrow> 0 < limit \<Longrightarrow> counted limit u'"
  by (auto simp: counted_def user_core_def split: if_splits)

lemma counted_follows:
  "users_follow limit entered db db' \<Longrightarrow> \<forall>u \<in> set (t_users db). counted limit u \<Longrightarrow> 0 < limit \<Longrightarrow>
   \<forall>u \<in> set (t_users db'). counted limit u"
  using user_follows_back counted_moves by (metis counted_def order_refl)

text \<open>Only a successful login lowers the counter of a user.\<close>

lemma counter_moves:
  "user_moves limit entered (user_core u) (user_core u') \<Longrightarrow> user_id u \<notin> entered \<Longrightarrow>
   user_failed_login_count u \<le> user_failed_login_count u'"
  by (auto simp: user_core_def)

lemma counter_follows:
  assumes "users_follow limit entered db db'" and "users_distinct db'" and "i \<notin> entered"
    and "\<exists>u \<in> set (t_users db). user_id u = i \<and> user_normalized_login u = l \<and> n \<le> user_failed_login_count u"
  shows "\<exists>u \<in> set (t_users db'). user_id u = i \<and> user_normalized_login u = l \<and> n \<le> user_failed_login_count u"
proof -
  from assms(4) obtain u where u: "u \<in> set (t_users db)" "user_id u = i" "user_normalized_login u = l"
    "n \<le> user_failed_login_count u" by blast
  from user_follows [OF assms(1) u(1)] obtain u' where "u' \<in> set (t_users db')"
    "user_moves limit entered (user_core u) (user_core u')" by blast
  with core_fields [OF this(2)] counter_moves [OF this(2)] u assms(3) show ?thesis by force
qed

lemma failed_login_counts:
  assumes "accounts_constrained st" and "fails_login c r st user"
    and "\<exists>u \<in> set (t_users (pa_db st)). user_id u = user_id user \<and>
      user_normalized_login u = user_normalized_login user \<and> int n \<le> user_failed_login_count u"
  shows "\<exists>u \<in> set (t_users (pa_db (serve c r st))). user_id u = user_id user \<and>
    user_normalized_login u = user_normalized_login user \<and> int (n + 1) \<le> user_failed_login_count u"
proof -
  obtain body where r: "r = R_login body" "login_name_of body = user_normalized_login user"
    "fst (login c body st) = Inl auth_error" using assms(2) by (auto simp: fails_login_def split: account_request.splits)
  from assms(3) obtain u where u: "u \<in> set (t_users (pa_db st))" "user_id u = user_id user"
    "user_normalized_login u = user_normalized_login user" "int n \<le> user_failed_login_count u" by blast
  have found: "scalar (\<lambda>u. user_normalized_login u = login_name_of body) (t_users (pa_db st)) = Some u"
  proof (cases "scalar (\<lambda>u. user_normalized_login u = login_name_of body) (t_users (pa_db st))")
    case None
    from scalar_NoneD [OF None u(1)] r(2) u(3) show ?thesis by simp
  next
    case (Some v)
    from scalar_SomeD [OF Some] login_unique [OF assms(1) _ u(1)] r(2) u(3) show ?thesis using Some by auto
  qed
  have s: "snd (snd (login c body st)) = on_db (auth_failure c (Some u) (login_name_of body))
      (snd (login_allowed c (login_name_of body) st))"
    by (rule login_cases [of c body st]) (use r(3) found in auto)
  have "failed_row c u \<in> set (t_users (pa_db (serve c r st)))"
    unfolding r(1) serve.simps s using u(1)
    by (auto simp: account_simps auth_failure_def Let_def modify_user_def set_update_where image_iff)
  moreover have "user_failed_login_count (failed_row c u) = user_failed_login_count u + 1"
    "user_id (failed_row c u) = user_id u" "user_normalized_login (failed_row c u) = user_normalized_login u"
    by (simp_all add: failed_row_def Let_def)
  ultimately show ?thesis using u by force
qed

text \<open>
  C25. However many requests are made, the password of a user who is not locked has been guessed wrongly fewer than
  \<open>login_failures_before_lock\<close> times since his last login: the failure that reaches the limit locks the account, in whatever
  state it was.
\<close>

theorem guesses_bounded:
  assumes "guess_run settings user st n" and "0 < as_login_failures_before_lock settings"
  shows "\<exists>u \<in> set (t_users (pa_db st)). user_id u = user_id user \<and> int n \<le> user_failed_login_count u \<and>
    (user_account_state u \<noteq> AS_LOCKED \<longrightarrow> int n < as_login_failures_before_lock settings)"
proof -
  let ?limit = "as_login_failures_before_lock settings"
  have "accounts_constrained st \<and> (\<forall>u \<in> set (t_users (pa_db st)). counted ?limit u) \<and>
      (\<exists>u \<in> set (t_users (pa_db st)). user_id u = user_id user \<and>
        user_normalized_login u = user_normalized_login user \<and> int n \<le> user_failed_login_count u)"
    using assms(1)
  proof (induction rule: guess_run.induct)
    case (fresh st)
    then show ?case by (auto simp: counted_def)
  next
    case (failed st n c r)
    then have dis: "users_distinct (pa_db st)" by (simp add: accounts_constrained_def)
    from follows_serve [OF dis, of c r] failed(2) have
      "users_follow ?limit (signs_in c r st) (pa_db st) (pa_db (serve c r st))" by (simp add: follows_within_def)
    from counted_follows [OF this] failed assms(2) failed_login_counts [of st c r user n]
    show ?case by blast
  next
    case (signed_in st n c r)
    then have dis: "users_distinct (pa_db st)" by (simp add: accounts_constrained_def)
    from follows_serve [OF dis, of c r] signed_in(2) have
      f: "users_follow ?limit (signs_in c r st) (pa_db st) (pa_db (serve c r st))" by (simp add: follows_within_def)
    from counted_follows [OF f] signed_in assms(2)
    have counted: "\<forall>u \<in> set (t_users (pa_db (serve c r st))). counted ?limit u" by blast
    from signed_in obtain u where u: "u \<in> set (t_users (pa_db st))" "user_id u = user_id user"
      "user_normalized_login u = user_normalized_login user" by blast
    from user_follows [OF f u(1)] obtain u' where "u' \<in> set (t_users (pa_db (serve c r st)))"
      "user_moves ?limit (signs_in c r st) (user_core u) (user_core u')" by blast
    with core_fields [OF this(2)] u counted signed_in(4) show ?case by (auto simp: counted_def)
  next
    case (request st n c r)
    then have dis: "users_distinct (pa_db st)" "users_distinct (pa_db (serve c r st))"
      by (simp_all add: accounts_constrained_def)
    from follows_serve [OF dis(1), of c r] request(2) have
      f: "users_follow ?limit (signs_in c r st) (pa_db st) (pa_db (serve c r st))" by (simp add: follows_within_def)
    from counted_follows [OF f] counter_follows [OF f dis(2) request(3)] request assms(2) show ?case by blast
  next
    case (other st n st')
    then have f: "users_follow ?limit {} (pa_db st) (pa_db st')" and dis: "users_distinct (pa_db st')"
      by (auto simp: quiet_def accounts_constrained_def intro: same_users_follow)
    from counted_follows [OF f] counter_follows [OF f dis, of "user_id user" "user_normalized_login user" "int n"] other
      assms(2) show ?case by blast
  qed
  then obtain u where u: "u \<in> set (t_users (pa_db st))" "user_id u = user_id user"
    "int n \<le> user_failed_login_count u" "counted ?limit u" by blast
  then have "user_account_state u \<noteq> AS_LOCKED \<longrightarrow> int n < ?limit" by (auto simp: counted_def)
  with u(1-3) show ?thesis by blast
qed

subsection \<open>CLI tokens\<close>

text \<open>
  C23. A user never holds more than ten CLI tokens that would still be accepted, whatever sequence of requests is made and whenever
  his tokens are counted.
\<close>

theorem cli_tokens_bounded:
  assumes "accounts_run settings (st0, t0) (st, t)" and "accounts_constrained st0"
    and "\<forall>uid. active_cli_tokens t0 uid (pa_db st0) \<le> 10"
  shows "t \<le> now \<longrightarrow> active_cli_tokens now uid (pa_db st) \<le> 10"
proof -
  let ?P = "\<lambda>db t. \<forall>uid. active_cli_tokens t uid db \<le> 10"
  have "?P (pa_db st) t \<and> accounts_constrained st"
  proof (rule accounts_run_induct [where P = ?P, OF assms])
    fix db db' entered and t t' :: instant
    assume p: "?P db t" and le: "t \<le> t'" and "follows_within (as_login_failures_before_lock settings) entered t' db db'"
    then have f: "tokens_follow t' db db'" by (simp add: follows_within_def)
    show "?P db' t'"
    proof
      fix uid
      from f consider "tokens_kept db db'" | ts k where "t_cli_tokens db' = ts @ [k]"
          "list_all2 token_moves (t_cli_tokens db) ts" "active_cli_tokens t' (cli_user_id k) db' \<le> 10"
        unfolding tokens_follow_def by blast
      then show "active_cli_tokens t' uid db' \<le> 10"
      proof cases
        case 1
        from tokens_kept_active [OF this le, of uid] p [rule_format, of uid] show ?thesis by (rule le_trans)
      next
        case 2
        show ?thesis
        proof (cases "cli_user_id k = uid")
          case False
          then have "active_cli_tokens t' uid db' = length (filter (cli_token_unexpired t')
              (filter (\<lambda>t. cli_user_id t = uid \<and> cli_revoked_at t = None) ts))" by (simp add: active_cli_tokens_def 2(1))
          also have "\<dots> \<le> active_cli_tokens t uid db"
            unfolding active_cli_tokens_def by (rule active_cli_tokens_mono [OF 2(2) le])
          also have "\<dots> \<le> 10" using p by blast
          finally show ?thesis .
        qed (use 2(3) in simp)
      qed
    qed
  qed
  then have now: "active_cli_tokens t uid (pa_db st) \<le> 10" by blast
  show ?thesis
  proof
    assume "t \<le> now"
    from tokens_kept_active [OF tokens_kept_refl this] now show "active_cli_tokens now uid (pa_db st) \<le> 10"
      by (rule le_trans)
  qed
qed

subsection \<open>Who changes a password\<close>

lemma store_password_other:
  assumes "distinct (map cred_id rows)" and "uid \<noteq> uid'"
  shows "scalar (\<lambda>k. cred_user_id k = uid) (store_password c uid' password rows) = scalar (\<lambda>k. cred_user_id k = uid) rows"
proof (cases "scalar (\<lambda>k. cred_user_id k = uid') rows")
  case None
  then show ?thesis using assms(2) by (simp add: store_password_def scalar_append split: option.split)
next
  case (Some k)
  have "cred_id r = cred_id k \<Longrightarrow> r \<in> set rows \<Longrightarrow> r = k" for r
    using assms(1) scalar_SomeD [OF Some] by (metis distinct_map inj_onD)
  then have other: "r \<in> set rows \<Longrightarrow> cred_id r = cred_id k \<Longrightarrow> cred_user_id r \<noteq> uid" for r
    using scalar_SomeD [OF Some] assms(2) by blast
  have "scalar (\<lambda>k. cred_user_id k = uid) (update_where (\<lambda>r. cred_id r = cred_id k) f rows) =
      scalar (\<lambda>k. cred_user_id k = uid) rows" if "\<And>r. cred_user_id (f r) = cred_user_id r" for f
    using other that by (induction rows) auto
  then show ?thesis by (simp add: store_password_def Some)
qed

lemma store_password_own:
  "\<exists>k. scalar (\<lambda>k. cred_user_id k = uid) (store_password c uid password rows) = Some k \<and>
     cred_password_hash k = al_hash c password"
proof (cases "scalar (\<lambda>k. cred_user_id k = uid) rows")
  case None
  then show ?thesis by (simp add: store_password_def scalar_append)
next
  case (Some k)
  have "scalar (\<lambda>k. cred_user_id k = uid) (update_where (\<lambda>r. cred_id r = cred_id k) f rows) = Some (f k)"
    if "\<And>r. cred_user_id (f r) = cred_user_id r" for f
    using Some that by (induction rows) (auto split: if_splits)
  then show ?thesis by (simp add: store_password_def Some)
qed

lemma quiet_credentials [account_simps]:
  "pa_credentials (snd (as_user c route st)) = pa_credentials st"
  if "\<And>ctx st'. pa_credentials (snd (route ctx st')) = pa_credentials st'"
  using that by (simp add: as_user_def split: prod.split sum.split)

lemma permitted_credentials [account_simps]:
  "pa_credentials (snd (permitted c permission route st)) = pa_credentials st"
  if "\<And>ctx st'. pa_credentials (snd (route ctx st')) = pa_credentials st'"
  using that by (simp add: permitted_def split: prod.split sum.split)

lemma limited_credentials: "limited c k n st = (b, st') \<Longrightarrow> pa_credentials st' = pa_credentials st"
  using account_parts(11) [of c k n st] by simp

lemma login_credentials [account_simps]: "pa_credentials (snd (snd (login c body st))) = pa_credentials st"
proof -
  have drop: "pa_credentials (drop_old_session c st) = pa_credentials st" for st
    by (simp add: drop_old_session_def account_simps split: option.split)
  have "pa_credentials (snd (sign_in c u st)) = pa_credentials st" for u st
    by (simp add: sign_in_def Let_def case_prod_beta account_simps drop)
  moreover have "login_allowed c n st = (b, st') \<Longrightarrow> pa_credentials st' = pa_credentials st" for n b st'
    using login_allowed_db(2) [of c n st] by simp
  ultimately show ?thesis
    by (auto simp: login_def Let_def account_simps case_prod_beta split: sum.split bool.split option.split prod.splits)
qed

lemma route_credentials [account_simps]:
  "pa_credentials (snd (exchange_password_action c token st)) = pa_credentials st"
  "pa_credentials (snd (create_cli_token c b ctx st)) = pa_credentials st"
  "pa_credentials (snd (revoke_cli_token c i ctx st)) = pa_credentials st"
  "pa_credentials (snd (logout c ctx st)) = pa_credentials st"
  "pa_credentials (snd (reauthenticate c p ctx st)) = pa_credentials st"
  "pa_credentials (snd (revoke_other_session c v ctx st)) = pa_credentials st"
  "pa_credentials (snd (revoke_other_sessions c ctx st)) = pa_credentials st"
  "pa_credentials (snd (me c ctx st)) = pa_credentials st"
  "pa_credentials (snd (create_user c ub ctx st)) = pa_credentials st"
  "pa_credentials (snd (update_lease_renewal_policy c v q ctx st)) = pa_credentials st"
  "pa_credentials (snd (create_password_action_link c purpose v ctx st)) = pa_credentials st"
  by (auto simp: exchange_password_action_def create_cli_token_def revoke_cli_token_def logout_def reauthenticate_def
      revoke_other_session_def revoke_other_sessions_def me_def create_user_def update_lease_renewal_policy_def
      create_password_action_link_def with_session_def Let_def account_simps case_prod_beta limited_credentials
      dest: limited_credentials split: sum.split option.split bool.split prod.splits)

lemma console_credentials [account_simps]:
  "pa_credentials (snd (prepare_origin_al c d ids st)) = pa_credentials st"
  "pa_credentials (snd (bootstrap_origin_al c d ids reset st)) = pa_credentials st"
proof -
  have one: "pa_credentials (ensure_role c d ids row st) = pa_credentials st" for row st
    by (cases row) (simp add: ensure_role_def account_simps split: option.split)
  have "pa_credentials (foldl (\<lambda>st row. ensure_role c d ids row st) st rows) = pa_credentials st" for rows st
    by (induction rows arbitrary: st) (simp_all add: one)
  then have "pa_credentials (snd (ensure_origin_al_record c d ids st)) = pa_credentials st" for st
    by (simp add: ensure_origin_al_record_def ensure_roles_def Let_def account_simps split: option.split)
  then have "ensure_origin_al_record c d ids st = (r, st') \<Longrightarrow> pa_credentials st' = pa_credentials st" for r st'
    by (metis snd_conv)
  then show "pa_credentials (snd (prepare_origin_al c d ids st)) = pa_credentials st"
    "pa_credentials (snd (bootstrap_origin_al c d ids reset st)) = pa_credentials st"
    by (auto simp: prepare_origin_al_def bootstrap_origin_al_def Let_def account_simps split: prod.split sum.split)
qed

lemma password_rows_credentials:
  "pa_credentials (snd (snd (password_rows c t u password st))) = store_password c (user_id u) password (pa_credentials st)"
  by (simp add: password_rows_def Let_def case_prod_beta account_simps)

lemma password_was_set_credentials:
  "pa_credentials (snd (password_was_set c t u password st)) = store_password c (user_id u) password (pa_credentials st)"
  by (simp add: password_was_set_def Let_def case_prod_beta password_rows_credentials)

lemma changed_password_credentials:
  "pa_credentials (changed_password c ctx password st) =
     store_password c (user_id (ctx_user ctx)) password (pa_credentials st)"
  by (simp add: changed_password_def Let_def case_prod_beta account_simps)

text \<open>
  C10. Whatever request is served, a user gets another password in two ways only: with the challenge of a link of his that
  is neither used, revoked nor expired and whose account is in the state the link was made for; or in a live session of
  his own, with a CSRF token and the password he has.
\<close>

theorem password_change_authorized:
  assumes "accounts_constrained st" and "credential_of uid (serve c r st) \<noteq> credential_of uid st"
  shows "(\<exists>body t u. r = R_setup body \<and>
      linked (\<lambda>t. ptok_challenge_hash t = Some (al_digest c (challenge_cookie c))) (pa_db st) = Some (t, Some u) \<and>
      user_id u = uid \<and> challenge_cookie c \<noteq> [] \<and> challenged (al_now c) t \<and> password_action_account_is_valid t u) \<or>
    (\<exists>body ctx db k. r = R_change body \<and> load_context (al_digest c) (as_session (al_settings c)) (al_now c)
        (al_request c) (pa_db st) = (Inr ctx, db) \<and> user_id (ctx_user ctx) = uid \<and> session_csrf c ctx = Inr () \<and>
      credential_of uid st = Some k \<and> al_verify c (cred_password_hash k) (cpr_current_password body))"
proof -
  have changed: "pa_credentials (serve c r st) \<noteq> pa_credentials st" using assms(2) by (auto simp: credential_of_def)
  have dis: "distinct (map cred_id (pa_credentials st))" using assms(1) by (simp add: accounts_constrained_def)
  from changed consider body where "r = R_setup body" | body where "r = R_change body"
    by (cases r) (auto simp: account_simps)
  then show ?thesis
  proof cases
    case (1 body)
    show ?thesis
    proof (rule setup_password_cases [of st c body])
      assume "pa_credentials (snd (setup_password c body st)) = pa_credentials st"
      with changed 1 show ?thesis by simp
    next
      fix t u
      assume s: "setup_password c body st = (Inr (fst (password_was_set c t u (spr_password body) st)),
          snd (password_was_set c t u (spr_password body) st))"
        and l: "linked (\<lambda>t. ptok_challenge_hash t = Some (al_digest c (challenge_cookie c))) (pa_db st) = Some (t, Some u)"
        "challenged (al_now c) t" "password_action_account_is_valid t u" "challenge_cookie c \<noteq> []"
      have "user_id u = uid"
      proof (rule ccontr)
        assume "user_id u \<noteq> uid"
        with store_password_other [OF dis] assms(2) show False
          by (simp add: 1 s credential_of_def password_was_set_credentials)
      qed
      with 1 l show ?thesis by blast
    qed
  next
    case (2 body)
    obtain r' db where load: "load_context (al_digest c) (as_session (al_settings c)) (al_now c) (al_request c) (pa_db st) = (r', db)"
      by fastforce
    then obtain ctx where ctx: "r' = Inr ctx" using changed 2 by (cases r') (simp_all add: as_user_def)
    have now: "serve c r st = snd (change_password c body ctx (st\<lparr>pa_db := db\<rparr>))" by (simp add: 2 as_user_def load ctx)
    have same: "credential_of i (st\<lparr>pa_db := db\<rparr>) = credential_of i st" for i by (simp add: credential_of_def)
    obtain k where k: "session_csrf c ctx = Inr ()" "credential_of (user_id (ctx_user ctx)) st = Some k"
      "al_verify c (cred_password_hash k) (cpr_current_password body)"
      "snd (change_password c body ctx (st\<lparr>pa_db := db\<rparr>)) = changed_password c ctx (cpr_new_password body) (st\<lparr>pa_db := db\<rparr>)"
      using changed unfolding now
      by (auto simp: change_password_def same split: sum.splits option.splits if_splits)
    have "user_id (ctx_user ctx) = uid"
    proof (rule ccontr)
      assume "user_id (ctx_user ctx) \<noteq> uid"
      with store_password_other [OF dis] assms(2) show False
        by (simp add: now k(4) credential_of_def changed_password_credentials)
    qed
    with 2 load ctx k show ?thesis by blast
  qed
qed

subsection \<open>What a new password ends\<close>

text \<open>Whatever a user had open before: his sessions but the one that is opened with the password, tokens and terminals.\<close>

definition access_ended :: "account_call \<Rightarrow> uuid \<Rightarrow> bool \<Rightarrow> portal_accounts \<Rightarrow> bool" where
  "access_ended c uid fresh_session st \<longleftrightarrow>
     (\<forall>s \<in> set (t_sessions (pa_db st)). sess_user_id s = uid \<and> sess_revoked_at s = None \<longrightarrow>
        fresh_session \<and> sess_id s = al_id c 0 \<and> sess_session_hash s = al_digest c (al_random c 0)) \<and>
     (\<forall>t \<in> set (t_cli_tokens (pa_db st)). cli_user_id t = uid \<longrightarrow> cli_revoked_at t \<noteq> None) \<and>
     (\<forall>r \<in> snd ` set (reg_records (pa_terminals st)). tr_portal_user_id r = uid \<longrightarrow>
        wt_state (tr_worker r) \<in> set [''CLOSED'', ''ERROR'', ''CLOSING''])"

lemma request_close_state: "wt_state (request_close dumps sent now t) \<in> set [''CLOSED'', ''ERROR'', ''CLOSING'']"
  by (auto simp: request_close_def finish_terminal_def Let_def split: sum.split exn.split)

lemma terminals_closed:
  assumes "r \<in> snd ` set (reg_records (close_for_user dumps sent now uid None reg))" and "tr_portal_user_id r = uid"
  shows "wt_state (tr_worker r) \<in> set [''CLOSED'', ''ERROR'', ''CLOSING'']"
proof -
  obtain k r0 where r: "r = (if tr_portal_user_id r0 = uid \<and> Some (tr_portal_session_id r0) \<noteq> None
      then r0\<lparr>tr_worker := request_close dumps (sent k) now (tr_worker r0)\<rparr> else r0)"
    using assms(1) by (auto simp: close_for_user_def close_records_def)
  show ?thesis
  proof (cases "tr_portal_user_id r0 = uid")
    case True
    then have "tr_worker r = request_close dumps (sent k) now (tr_worker r0)" using r by simp
    then show ?thesis by (simp only: request_close_state)
  next
    case False
    then have "r = r0" using r by simp
    with assms(2) False show ?thesis by simp
  qed
qed

lemma update_where_cases:
  assumes "r \<in> set (update_where p f rows)"
  obtains r0 where "r0 \<in> set rows" "r = (if p r0 then f r0 else r0)"
  using assms by (auto simp: set_update_where)

lemma sessions_revoked:
  assumes "s \<in> set (t_sessions (snd (revoke_user_sessions now uid None db)))" and "sess_user_id s = uid"
  shows "sess_revoked_at s \<noteq> None"
proof -
  from assms(1) have "s \<in> set (update_where (\<lambda>s. sess_user_id s = uid \<and> sess_revoked_at s = None \<and> Some (sess_id s) \<noteq> None)
      (revoke_row now) (t_sessions db))" by (simp add: revoke_user_sessions_def Let_def)
  then obtain s0 where "s = (if sess_user_id s0 = uid \<and> sess_revoked_at s0 = None \<and> Some (sess_id s0) \<noteq> None
      then revoke_row now s0 else s0)" by (rule update_where_cases)
  with assms(2) show ?thesis
    by (cases "sess_user_id s0 = uid"; cases "sess_revoked_at s0") (simp_all add: revoke_row_def)
qed

lemma tokens_revoked:
  assumes "t \<in> set (t_cli_tokens (snd (revoke_user_cli_tokens now uid db)))" and "cli_user_id t = uid"
  shows "cli_revoked_at t \<noteq> None"
proof -
  from assms(1) have "t \<in> set (update_where (\<lambda>t. cli_user_id t = uid \<and> cli_revoked_at t = None)
      (\<lambda>t. t\<lparr>cli_revoked_at := Some now\<rparr>) (t_cli_tokens db))" by (simp add: revoke_user_cli_tokens_def Let_def)
  then obtain t0 where "t = (if cli_user_id t0 = uid \<and> cli_revoked_at t0 = None then t0\<lparr>cli_revoked_at := Some now\<rparr> else t0)"
    by (rule update_where_cases)
  with assms(2) show ?thesis by (cases "cli_user_id t0 = uid"; cases "cli_revoked_at t0") simp_all
qed

lemma opened_session:
  "t_sessions (snd (open_session c i u db)) = t_sessions db @ [fst (open_session c i u db)]"
  "sess_id (fst (open_session c i u db)) = i"
  "sess_session_hash (fst (open_session c i u db)) = al_digest c (al_random c 0)"
  by (simp_all add: open_session_def create_session_def add_session_def Let_def)

lemma password_rows_ended: "access_ended c (user_id u) False (snd (snd (password_rows c t u password st)))"
proof -
  let ?st = "snd (snd (password_rows c t u password st))"
  have "\<exists>db. t_sessions (pa_db ?st) = t_sessions (snd (revoke_user_sessions (al_now c) (user_id u) None db))"
    "\<exists>db. t_cli_tokens (pa_db ?st) = t_cli_tokens (snd (revoke_user_cli_tokens (al_now c) (user_id u) db))"
    "\<exists>reg. pa_terminals ?st = close_for_user (al_dumps c) (al_sent c) (al_now c) (user_id u) None reg"
    by (auto simp: password_rows_def Let_def case_prod_beta account_simps close_user_terminals_def)
  then obtain db db' reg where now: "t_sessions (pa_db ?st) = t_sessions (snd (revoke_user_sessions (al_now c) (user_id u) None db))"
    "t_cli_tokens (pa_db ?st) = t_cli_tokens (snd (revoke_user_cli_tokens (al_now c) (user_id u) db'))"
    "pa_terminals ?st = close_for_user (al_dumps c) (al_sent c) (al_now c) (user_id u) None reg" by blast
  show ?thesis unfolding access_ended_def now using sessions_revoked tokens_revoked terminals_closed by blast
qed

lemma access_ended_opened:
  assumes "access_ended c uid False st"
    and "t_sessions (pa_db st') = t_sessions (pa_db st) @ [s]"
    and "sess_id s = al_id c 0" and "sess_session_hash s = al_digest c (al_random c 0)"
    and "t_cli_tokens (pa_db st') = t_cli_tokens (pa_db st)" and "pa_terminals st' = pa_terminals st"
  shows "access_ended c uid True st'"
  using assms unfolding access_ended_def by auto

lemma access_ended_cong:
  assumes "access_ended c uid fresh_session st" and "t_sessions (pa_db st') = t_sessions (pa_db st)"
    and "t_cli_tokens (pa_db st') = t_cli_tokens (pa_db st)" and "pa_terminals st' = pa_terminals st"
  shows "access_ended c uid fresh_session st'"
  using assms unfolding access_ended_def by simp

lemma password_was_set_ended:
  "access_ended c (user_id u) (ptok_purpose t = PP_INITIAL_PASSWORD_SETUP) (snd (password_was_set c t u password st))"
proof (cases "ptok_purpose t = PP_INITIAL_PASSWORD_SETUP")
  case True
  show ?thesis unfolding True simp_thms
    by (rule access_ended_opened [OF password_rows_ended [of c u t password st]])
      (auto simp: password_was_set_def True Let_def case_prod_beta account_simps opened_session)
next
  case False
  then have "t_sessions (pa_db (snd (password_was_set c t u password st))) = t_sessions (pa_db (snd (snd (password_rows c t u password st))))"
    "t_cli_tokens (pa_db (snd (password_was_set c t u password st))) = t_cli_tokens (pa_db (snd (snd (password_rows c t u password st))))"
    "pa_terminals (snd (password_was_set c t u password st)) = pa_terminals (snd (snd (password_rows c t u password st)))"
    by (simp_all add: password_was_set_def Let_def case_prod_beta account_simps)
  from access_ended_cong [OF password_rows_ended this] False show ?thesis by simp
qed

lemma changed_password_ended: "access_ended c (user_id (ctx_user ctx)) True (changed_password c ctx password st)"
proof -
  let ?uid = "user_id (ctx_user ctx)"
  define db0 where "db0 = modify_user ?uid (\<lambda>u. u\<lparr>user_password_state := PS_SET\<rparr>) (pa_db st)"
  define db1 where "db1 = snd (revoke_user_sessions (al_now c) ?uid None db0)"
  define st2 where "st2 = close_user_terminals c ?uid None (st\<lparr>pa_db := snd (revoke_user_cli_tokens (al_now c) ?uid db1),
    pa_credentials := store_password c ?uid password (pa_credentials st)\<rparr>)"
  have now: "t_sessions (pa_db st2) = t_sessions db1" "t_cli_tokens (pa_db st2) = t_cli_tokens (snd (revoke_user_cli_tokens (al_now c) ?uid db1))"
    "\<exists>reg. pa_terminals st2 = close_for_user (al_dumps c) (al_sent c) (al_now c) ?uid None reg"
    by (auto simp: st2_def account_simps close_user_terminals_def)
  then obtain reg where reg: "pa_terminals st2 = close_for_user (al_dumps c) (al_sent c) (al_now c) ?uid None reg" by blast
  have ended: "access_ended c ?uid False st2" unfolding access_ended_def now(1,2) reg
    using sessions_revoked [of _ "al_now c" ?uid db0, folded db1_def] tokens_revoked terminals_closed by blast
  let ?u = "(ctx_user ctx)\<lparr>user_password_state := PS_SET\<rparr>"
  define f where "f = (\<lambda>s. s\<lparr>sess_reauthenticated_at := Some (al_now c)\<rparr> :: portal_session)"
  have rows: "t_sessions (pa_db (changed_password c ctx password st)) =
      update_where (\<lambda>s. sess_id s = al_id c 0) f (t_sessions (pa_db st2) @ [fst (open_session c (al_id c 0) ?u (pa_db st2))])"
    "t_cli_tokens (pa_db (changed_password c ctx password st)) = t_cli_tokens (pa_db st2)"
    "pa_terminals (changed_password c ctx password st) = pa_terminals st2"
    by (simp_all add: changed_password_def Let_def case_prod_beta account_simps modify_session_def opened_session
        st2_def db1_def db0_def f_def)
  have "\<forall>s \<in> set (t_sessions (pa_db (changed_password c ctx password st))). sess_user_id s = ?uid \<and> sess_revoked_at s = None \<longrightarrow>
      sess_id s = al_id c 0 \<and> sess_session_hash s = al_digest c (al_random c 0)"
    using ended unfolding rows access_ended_def
    by (auto simp: set_update_where f_def opened_session split: if_splits)
  then show ?thesis using ended unfolding access_ended_def rows(2,3) by blast
qed


subsection \<open>Links\<close>

definition dead_link :: "portal_password_setup_token \<Rightarrow> bool" where
  "dead_link t \<longleftrightarrow> ptok_state t \<noteq> TS_ACTIVE \<or> ptok_used_at t \<noteq> None \<or> ptok_revoked_at t \<noteq> None"

lemma dead_link_moves: "dead_link t \<Longrightarrow> link_moves t t' \<Longrightarrow> dead_link t'"
  by (auto simp: dead_link_def link_moves_def)

lemma dead_along_run:
  assumes "accounts_run settings (st0, t0) (st, t)" and "accounts_constrained st0"
    and "k \<in> set (t_setup_tokens (pa_db st0))" and "dead_link k"
  shows "\<exists>k' \<in> set (t_setup_tokens (pa_db st)). ptok_id k' = ptok_id k \<and> dead_link k'"
proof -
  let ?P = "\<lambda>db (t :: instant). \<exists>k' \<in> set (t_setup_tokens db). ptok_id k' = ptok_id k \<and> dead_link k'"
  have "?P (pa_db st) t \<and> accounts_constrained st"
  proof (rule accounts_run_induct [where P = ?P, OF assms(1,2)])
    show "?P (pa_db st0) t0" using assms(3,4) by blast
  next
    fix db db' entered and t t' :: instant
    assume p: "?P db t" and "follows_within (as_login_failures_before_lock settings) entered t' db db'"
    then have f: "links_follow db db'" by (simp add: follows_within_def)
    from p obtain k1 where k1: "k1 \<in> set (t_setup_tokens db)" "ptok_id k1 = ptok_id k" "dead_link k1" by blast
    from link_follows [OF f k1(1)] dead_link_moves [OF k1(3)] k1(2) show "?P db' t'"
      by (metis link_moves_def)
  qed
  then show ?thesis by blast
qed

lemma link_unique:
  "accounts_constrained st \<Longrightarrow> k \<in> set (t_setup_tokens (pa_db st)) \<Longrightarrow> k' \<in> set (t_setup_tokens (pa_db st)) \<Longrightarrow>
   ptok_id k = ptok_id k' \<Longrightarrow> k = k'"
  unfolding accounts_constrained_def by (metis distinct_map inj_onD)

lemma linked_link:
  "linked p db = Some (t, user) \<Longrightarrow> t \<in> set (t_setup_tokens db)"
  using linked_found [of p db t user] by (auto simp: get_setup_token_def dest: scalar_SomeD)

lemma links_of_password_was_set:
  "t_setup_tokens (pa_db (snd (password_was_set c t u password st))) =
     update_where (other_active t (user_id u)) (revoke_link (al_now c))
       (update_where (\<lambda>r. ptok_id r = ptok_id t) (use_link (al_now c)) (t_setup_tokens (pa_db st)))"
  by (simp add: password_was_set_def password_rows_def Let_def case_prod_beta account_simps modify_setup_token_def)

lemma links_end:
  assumes "k \<in> set (t_setup_tokens (pa_db st))" and "ptok_user_id k = user_id u"
  shows "\<exists>k' \<in> set (t_setup_tokens (pa_db (snd (password_was_set c t u password st)))).
    ptok_id k' = ptok_id k \<and> dead_link k'"
proof -
  define k1 where "k1 = (if ptok_id k = ptok_id t then use_link (al_now c) k else k)"
  define k2 where "k2 = (if other_active t (user_id u) k1 then revoke_link (al_now c) k1 else k1)"
  have "k2 \<in> set (t_setup_tokens (pa_db (snd (password_was_set c t u password st))))"
    unfolding links_of_password_was_set set_update_where k2_def k1_def using assms(1) by blast
  moreover have "ptok_id k2 = ptok_id k" by (simp add: k2_def k1_def use_link_def revoke_link_def)
  moreover have "dead_link k2" using assms(2)
    by (simp add: k2_def k1_def dead_link_def other_active_def use_link_def revoke_link_def)
  ultimately show ?thesis by blast
qed

text \<open>
  C11. A one-time link works at most once, and not after another one: when a user's password has been set with a link, none of
  the links he had at that moment sets it again, whatever requests follow.
\<close>

theorem link_works_once:
  assumes "accounts_constrained st" and "fst (setup_password c body st) = Inr answer"
    and "accounts_constrained (snd (setup_password c body st))"
    and "accounts_run settings (snd (setup_password c body st), al_now c) (st', t)"
    and "k \<in> set (t_setup_tokens (pa_db st))" and "ptok_user_id k = ur_id (sa_user answer)"
  shows "(linked (\<lambda>t. ptok_token_hash t = al_digest c' token) (pa_db st') = Some (k1, user1) \<and> ptok_id k1 = ptok_id k \<longrightarrow>
      (\<exists>e. fst (exchange_password_action c' token st') = Inl e)) \<and>
    (linked (\<lambda>t. ptok_challenge_hash t = Some (al_digest c' (challenge_cookie c'))) (pa_db st') = Some (k2, user2) \<and>
      fst (setup_password c' body' st') = Inr answer' \<longrightarrow> ptok_id k2 \<noteq> ptok_id k)"
proof (rule setup_password_cases [of st c body])
  fix t u
  assume a: "setup_password c body st = (Inr (fst (password_was_set c t u (spr_password body) st)),
      snd (password_was_set c t u (spr_password body) st))"
  have uid: "ur_id (sa_user answer) = user_id u"
    using assms(2) a by (auto simp: password_was_set_def Let_def case_prod_beta serialize_user_def)
  obtain d1 where d1: "d1 \<in> set (t_setup_tokens (pa_db (snd (setup_password c body st))))" "ptok_id d1 = ptok_id k" "dead_link d1"
    using links_end [OF assms(5), of u c t "spr_password body"] assms(6) uid a by auto
  obtain d2 where d2: "d2 \<in> set (t_setup_tokens (pa_db st'))" "ptok_id d2 = ptok_id d1" "dead_link d2"
    using dead_along_run [OF assms(4,3) d1(1,3)] by blast
  have unusable: "\<not> usable now l" if "linked p (pa_db st') = Some (l, w)" "ptok_id l = ptok_id k" for p l w now
  proof -
    have "l = d2" using link_unique [OF accounts_run_constrained [OF assms(4,3)] linked_link [OF that(1)] d2(1)]
      d1(2) d2(2) that(2) by simp
    with d2(3) show ?thesis by (auto simp: usable_def dead_link_def)
  qed
  have one: "\<exists>e. fst (exchange_password_action c' token st') = Inl e"
    if l: "linked (\<lambda>t. ptok_token_hash t = al_digest c' token) (pa_db st') = Some (k1, user1)" "ptok_id k1 = ptok_id k"
  proof -
    have db: "limited c' key n st' = (b, s) \<Longrightarrow> pa_db s = pa_db st'" for key n b s
      using account_parts(10) [of c' key n st'] by simp
    show ?thesis using unusable [OF l]
      by (auto simp: exchange_password_action_def l(1) dest!: db split: sum.split prod.split bool.split)
  qed
  have two: "ptok_id k2 \<noteq> ptok_id k"
    if l: "linked (\<lambda>t. ptok_challenge_hash t = Some (al_digest c' (challenge_cookie c'))) (pa_db st') = Some (k2, user2)"
      and s: "fst (setup_password c' body' st') = Inr answer'"
  proof
    assume "ptok_id k2 = ptok_id k"
    from unusable [OF l this] s show False
      by (auto simp: setup_password_def l challenged_def split: sum.splits)
  qed
  show ?thesis using one two by blast
qed (use assms(2) in auto)

subsection \<open>The reset of the owner's link\<close>

text \<open>A user who has left the state in which he was invited never returns to it.\<close>

definition past_setup :: "portal_user \<Rightarrow> bool" where
  "past_setup u \<longleftrightarrow> user_account_state u \<noteq> AS_INVITED"

lemma past_setup_moves: "past_setup u \<Longrightarrow> user_moves limit entered (user_core u) (user_core u') \<Longrightarrow> past_setup u'"
  by (auto simp: past_setup_def user_core_def split: if_splits)

lemma past_setup_along_run:
  assumes "accounts_run settings (st0, t0) (st, t)" and "accounts_constrained st0"
    and "u \<in> set (t_users (pa_db st0))" and "past_setup u"
    and "k \<in> set (t_setup_tokens (pa_db st0))" and "ptok_user_id k = user_id u" and "ptok_purpose k = PP_INITIAL_PASSWORD_SETUP"
  shows "\<exists>u' \<in> set (t_users (pa_db st)). \<exists>k' \<in> set (t_setup_tokens (pa_db st)). user_id u' = user_id u \<and> past_setup u' \<and>
    ptok_id k' = ptok_id k \<and> ptok_user_id k' = user_id u \<and> ptok_purpose k' = PP_INITIAL_PASSWORD_SETUP"
proof -
  let ?P = "\<lambda>db (t :: instant). \<exists>u' \<in> set (t_users db). \<exists>k' \<in> set (t_setup_tokens db). user_id u' = user_id u \<and> past_setup u' \<and>
    ptok_id k' = ptok_id k \<and> ptok_user_id k' = user_id u \<and> ptok_purpose k' = PP_INITIAL_PASSWORD_SETUP"
  have "?P (pa_db st) t \<and> accounts_constrained st"
  proof (rule accounts_run_induct [where P = ?P, OF assms(1,2)])
    show "?P (pa_db st0) t0" using assms(3-7) by blast
  next
    fix db db' entered and t t' :: instant
    assume p: "?P db t" and "follows_within (as_login_failures_before_lock settings) entered t' db db'"
    then have f: "links_follow db db'" "users_follow (as_login_failures_before_lock settings) entered db db'"
      by (simp_all add: follows_within_def)
    from p obtain v l where v: "v \<in> set (t_users db)" "l \<in> set (t_setup_tokens db)" "user_id v = user_id u" "past_setup v"
      "ptok_id l = ptok_id k" "ptok_user_id l = user_id u" "ptok_purpose l = PP_INITIAL_PASSWORD_SETUP" by blast
    obtain v' where v': "v' \<in> set (t_users db')" "user_moves (as_login_failures_before_lock settings) entered (user_core v) (user_core v')"
      using user_follows [OF f(2) v(1)] by blast
    obtain l' where l': "l' \<in> set (t_setup_tokens db')" "link_moves l l'" using link_follows [OF f(1) v(2)] by blast
    have "user_id v' = user_id u" "past_setup v'" using core_fields [OF v'(2)] past_setup_moves [OF v(4) v'(2)] v(3) by auto
    moreover have "ptok_id l' = ptok_id k" "ptok_user_id l' = user_id u" "ptok_purpose l' = PP_INITIAL_PASSWORD_SETUP"
      using l'(2) v(5-7) by (auto simp: link_moves_def)
    ultimately show "?P db' t'" using v'(1) l'(1) by blast
  qed
  then show ?thesis by blast
qed

text \<open>
  C39. The console command \<open>bootstrap-origin-al --reset\<close> replaces the owner's links by a link for the initial setup. When
  the owner has set a password before, or has been locked, that link is refused whenever it is exchanged: the printed
  token never works, and the command does not give the account back.
\<close>

theorem reset_link_never_works:
  assumes "accounts_constrained st" and "accounts_constrained (snd (bootstrap_origin_al c d ids True st))"
    and "bootstrap_origin_al c d ids True st = (Inr (0, Some token), st1)"
    and "u \<in> set (t_users (pa_db st))" and "user_normalized_login u = ''origin-al''" and "user_account_state u \<noteq> AS_INVITED"
    and "accounts_run settings (st1, al_now c) (st', t)"
    and "linked (\<lambda>t. ptok_token_hash t = al_digest c' token') (pa_db st') = Some (k, user)" and "ptok_id k = al_id c 2"
  shows "\<exists>e. fst (exchange_password_action c' token' st') = Inl e"
proof -
  have dis: "users_distinct (pa_db st)" using assms(1) by (simp add: accounts_constrained_def)
  obtain owner created st0 where ensured: "ensure_origin_al_record c d ids st = (Inr (owner, created), st0)"
    using assms(3) by (auto simp: bootstrap_origin_al_def split: if_splits prod.splits sum.splits)
  have "follows_within (as_login_failures_before_lock (al_settings c)) {} (al_now c) (pa_db st) (pa_db st1)"
    using follows_bootstrap [of c st d ids True] assms(3) by simp
  then have users: "users_follow (as_login_failures_before_lock (al_settings c)) {} (pa_db st) (pa_db st1)"
    by (simp add: follows_within_def)
  obtain u1 where u1: "u1 \<in> set (t_users (pa_db st1))" "user_moves (as_login_failures_before_lock (al_settings c)) {} (user_core u) (user_core u1)"
    using user_follows [OF users assms(4)] by blast
  have past: "past_setup u1" "user_id u1 = user_id u" using past_setup_moves [OF _ u1(2)] core_fields [OF u1(2)] assms(6)
    by (simp_all add: past_setup_def)
  have owner: "user_id owner = user_id u"
  proof -
    have logins: "\<exists>w \<in> set (t_users (pa_db (ensure_roles c d ids st))). user_id w = user_id owner \<and> user_normalized_login w = ''origin-al''"
      if "scalar (\<lambda>u. user_normalized_login u = ''origin-al'') (t_users (pa_db (ensure_roles c d ids st))) \<noteq> None"
    proof -
      from that obtain w where w: "scalar (\<lambda>u. user_normalized_login u = ''origin-al'') (t_users (pa_db (ensure_roles c d ids st))) = Some w"
        by blast
      then have "user_id owner = user_id w" using ensured
        by (auto simp: ensure_origin_al_record_def Let_def with_role_def split: option.splits if_splits)
      with scalar_SomeD [OF w] show ?thesis by auto
    qed
    have same: "map user_core (t_users (pa_db (ensure_roles c d ids st))) = map user_core (t_users (pa_db st))"
      using quiet_ensure_roles [of st c d ids] by (simp add: quiet_def same_users_def)
    have "user_core u \<in> set (map user_core (t_users (pa_db (ensure_roles c d ids st))))" unfolding same using assms(4) by simp
    then obtain w where w: "w \<in> set (t_users (pa_db (ensure_roles c d ids st)))" "user_core w = user_core u" by auto
    then have "user_normalized_login w = ''origin-al''" using assms(5) by (simp add: user_core_def)
    with scalar_NoneD [OF _ w(1)] have "scalar (\<lambda>u. user_normalized_login u = ''origin-al'') (t_users (pa_db (ensure_roles c d ids st))) \<noteq> None"
      by blast
    from logins [OF this] obtain v where v: "v \<in> set (t_users (pa_db (ensure_roles c d ids st)))" "user_id v = user_id owner"
      "user_normalized_login v = ''origin-al''" by blast
    have "user_core v \<in> set (map user_core (t_users (pa_db st)))" unfolding same [symmetric] using v(1) by simp
    then obtain v0 where v0: "v0 \<in> set (t_users (pa_db st))" "user_core v0 = user_core v" by auto
    then have "v0 = u" using login_unique [OF assms(1) _ assms(4)] v(3) assms(5) by (simp add: user_core_def)
    with v0(2) v(2) show ?thesis by (simp add: user_core_def)
  qed
  define k0 where "k0 = (new_link c PP_INITIAL_PASSWORD_SETUP (user_id owner) [])\<lparr>ptok_id := al_id c 2, ptok_created_by := None,
    ptok_request_ip_digest := None\<rparr>"
  have "k0 \<in> set (t_setup_tokens (pa_db st1))" using assms(3) ensured
    by (auto simp: bootstrap_origin_al_def k0_def Let_def account_simps add_link_def split: if_splits)
  moreover have "ptok_user_id k0 = user_id u1" "ptok_purpose k0 = PP_INITIAL_PASSWORD_SETUP" "ptok_id k0 = al_id c 2"
    by (simp_all add: k0_def new_link_def owner past(2))
  moreover have con1: "accounts_constrained st1" using assms(2,3) by simp
  ultimately obtain u' k' where later: "u' \<in> set (t_users (pa_db st'))" "k' \<in> set (t_setup_tokens (pa_db st'))"
    "user_id u' = user_id u1" "past_setup u'" "ptok_id k' = al_id c 2" "ptok_user_id k' = user_id u1"
    "ptok_purpose k' = PP_INITIAL_PASSWORD_SETUP"
    using past_setup_along_run [OF assms(7) con1 u1(1) past(1)] by metis
  have con: "accounts_constrained st'" by (rule accounts_run_constrained [OF assms(7) con1])
  have "k = k'" using link_unique [OF con linked_link [OF assms(8)] later(2)] assms(9) later(5) by simp
  have invalid: "\<not> password_action_account_is_valid k w" if "user = Some w" for w
  proof -
    obtain k1 where k1: "k1 \<in> set (t_setup_tokens (pa_db st'))" "get_setup_token (pa_db st') (ptok_id k1) = Some k"
      "user = get_user (pa_db st') (ptok_user_id k1)" using linked_found [OF assms(8)] by blast
    have "ptok_id k = ptok_id k1" using k1(2) by (auto simp: get_setup_token_def dest: scalar_SomeD)
    then have "k1 = k" using link_unique [OF con k1(1) linked_link [OF assms(8)]] by simp
    then have "user_id w = user_id u'" "w \<in> set (t_users (pa_db st'))"
      using k1(3) that later(3,6) \<open>k = k'\<close> get_user_member [of "pa_db st'"] by metis+
    then have "w = u'" using user_row_unique [of "pa_db st'"] con later(1) by (simp add: accounts_constrained_def)
    then show ?thesis using later(4,7) \<open>k = k'\<close> by (simp add: password_action_account_is_valid_def past_setup_def)
  qed
  have l: "limited c' key n st' = (b, s) \<Longrightarrow> pa_db s = pa_db st'" for key n b s
    using account_parts(10) [of c' key n st'] by simp
  show ?thesis
    by (auto simp: exchange_password_action_def assms(8) invalid dest!: l split: sum.split prod.split bool.split option.split)
qed

subsection \<open>The cost of a failed login\<close>

text \<open>
  A login that fails verifies the password once when the account is unknown, and twice when it is known: the fixed
  verification that should hide whether an account exists is made in addition to the other one, so that the two answers take
  different times.
\<close>

theorem failed_login_reveals_account:
  assumes "preauth c = Inr ()" and "fst (login_allowed c (login_name_of body) st)"
  shows "(scalar (\<lambda>u. user_normalized_login u = login_name_of body) (t_users (pa_db st)) = None \<longrightarrow>
      fst (login c body st) = Inl auth_error \<and> length (fst (snd (login c body st))) = 1) \<and>
    (scalar (\<lambda>u. user_normalized_login u = login_name_of body) (t_users (pa_db st)) = Some u \<and>
      credential_of (user_id u) st = Some k \<and> \<not> al_verify c (cred_password_hash k) (lr_password body) \<longrightarrow>
      fst (login c body st) = Inl auth_error \<and> length (fst (snd (login c body st))) = 2)"
proof -
  obtain st1 where allowed: "login_allowed c (login_name_of body) st = (True, st1)"
    using assms(2) by (metis (full_types) prod.collapse)
  have db: "pa_db st1 = pa_db st" "credential_of i st1 = credential_of i st" for i
    using login_allowed_db [of c "login_name_of body" st] by (simp_all add: allowed credential_of_def)
  show ?thesis
    by (auto simp: login_def assms(1) allowed db check_password_def)
qed

end
