(* ===== verification/Account_Samples.thy ===== *)
theory Account_Samples
  imports Account_Guarantees
begin

section \<open>Concrete runs of the account routes\<close>

text \<open>
  An invited user with a link that he has exchanged, a user who is locked, and the requests at which the properties of
  \<open>Account_Guarantees\<close> are applied.
\<close>

definition sample_account_request :: http_request where
  "sample_account_request = \<lparr>hreq_cookies = [(''h100_csrf'', ''0.n.h''), (''h100_password_action'', ''x'')],
     hreq_headers = [(''origin'', ''https://20.10.10.3''), (''x-csrf-token'', ''0.n.h'')],
     hreq_client_host = None, hreq_path = ''/'', hreq_query_params = []\<rparr>"

definition account_sample :: account_call where
  "account_sample = \<lparr>al_env = \<lparr>oe_digest = (\<lambda>s. s), oe_ids = (\<lambda>n. replicate n CHR ''i''), oe_now = 10,
       oe_pydantic = \<lparr>lax_int = py_int, lax_uuid = (\<lambda>_. None)\<rparr>\<rparr>,
     al_settings = default_account_settings, al_request = sample_account_request, al_random = (\<lambda>n. replicate n CHR ''r''),
     al_hmac = (\<lambda>k m. ''h''), al_hash = (\<lambda>p. p), al_verify = (\<lambda>h p. h = p), al_dumps = (\<lambda>_. []),
     al_sent = (\<lambda>_. True), al_linux_user = (\<lambda>_. True)\<rparr>"

definition sample_body :: setup_password_request where
  "sample_body = \<lparr>spr_password = ''correct horse 1'', spr_confirmation = ''correct horse 1''\<rparr>"

definition invited :: portal_user where
  "invited = (sample_user ''user'')\<lparr>user_account_state := AS_INVITED, user_password_state := PS_SETUP_REQUIRED\<rparr>"

definition sample_link :: portal_password_setup_token where
  "sample_link = \<lparr>ptok_id = ''l1'', ptok_user_id = ''u1'', ptok_token_hash = ''token'',
     ptok_purpose = PP_INITIAL_PASSWORD_SETUP, ptok_state = TS_ACTIVE, ptok_created_at = 0, ptok_expires_at = 100,
     ptok_used_at = None, ptok_revoked_at = None, ptok_created_by = None, ptok_request_ip_digest = None,
     ptok_challenge_hash = Some ''x'', ptok_challenge_expires_at = Some 50, ptok_exchanged_at = Some 5\<rparr>"

definition accounts_of :: "portal_user \<Rightarrow> portal_password_setup_token list \<Rightarrow> portal_password_credential list \<Rightarrow> portal_accounts" where
  "accounts_of user links credentials = \<lparr>pa_db = empty_db\<lparr>t_users := [user], t_setup_tokens := links\<rparr>,
     pa_credentials = credentials, pa_roles = [], pa_terminals = new_registry, pa_limiter = []\<rparr>"

lemma accounts_of_tables [simp]:
  "t_users (pa_db (accounts_of u ls ks)) = [u]" "t_setup_tokens (pa_db (accounts_of u ls ks)) = ls"
  "t_cli_tokens (pa_db (accounts_of u ls ks)) = []" "t_sessions (pa_db (accounts_of u ls ks)) = []"
  "pa_credentials (accounts_of u ls ks) = ks" "pa_roles (accounts_of u ls ks) = []"
  "pa_limiter (accounts_of u ls ks) = []"
  by (simp_all add: accounts_of_def empty_db_def)

lemma accounts_of_constrained [simp]: "accounts_constrained (accounts_of u ls ks)"
  if "distinct (map ptok_id ls)" "distinct (map cred_user_id ks)" "distinct (map cred_id ks)"
  using that by (simp add: accounts_constrained_def users_distinct_def)

lemma account_sample_fields [simp]:
  "al_now account_sample = 10" "al_digest account_sample = (\<lambda>s. s)" "al_settings account_sample = default_account_settings"
  "al_id account_sample n = replicate n CHR ''i''" "al_random account_sample n = replicate n CHR ''r''"
  "al_hash account_sample = (\<lambda>p. p)" "al_verify account_sample = (\<lambda>h p. h = p)" "al_linux_user account_sample n'"
  "challenge_cookie account_sample = ''x''"
  by (simp_all add: account_sample_def al_now_def al_digest_def al_id_def challenge_cookie_def cookie_def
      sample_account_request_def default_account_settings_def)

lemma sample_preauth: "preauth account_sample = Inr ()"
proof -
  have "validate_signed_csrf (\<lambda>k m. ''h'') s 0 3600 ''0.n.h''" for s
    by (simp add: validate_signed_csrf_def cut_dot_def int_of_text_def strip_def is_space_def is_digit_def read_nat_def
        digit_val_def)
  then show ?thesis
    by (simp add: preauth_def require_preauth_csrf_def ensure_allowed_origin_def csrf_pair_def header_def cookie_def
        present_def account_sample_def sample_account_request_def default_account_settings_def default_settings_def al_now_def Let_def)
qed

lemma ops_login: "login_name_of \<lparr>lr_username = ''ops'', lr_password = p\<rparr> = ''ops''"
  by (simp add: login_name_of_def normalize_login_def strip_def casefold_def fold_char_def is_space_def is_upper_def
      login_re_def is_lower_def is_digit_def Let_def)

theorem locked_for_good_witness:
  "\<exists>e. fst (login account_sample \<lparr>lr_username = ''ops'', lr_password = ''right''\<rparr>
     (accounts_of ((sample_user ''user'')\<lparr>user_account_state := AS_LOCKED\<rparr>) []
       [\<lparr>cred_id = ''k'', cred_user_id = ''u1'', cred_password_hash = ''right'', cred_password_changed_at = 0\<rparr>])) = Inl e"
  using locked_for_good [OF accounts_run.start, of "accounts_of ((sample_user ''user'')\<lparr>user_account_state := AS_LOCKED\<rparr>) []
      [\<lparr>cred_id = ''k'', cred_user_id = ''u1'', cred_password_hash = ''right'', cred_password_changed_at = 0\<rparr>]"
      "(sample_user ''user'')\<lparr>user_account_state := AS_LOCKED\<rparr>" "\<lparr>lr_username = ''ops'', lr_password = ''right''\<rparr>" account_sample]
  by (simp add: ops_login sample_user_def)

lemma sample_allowed: "fst (login_allowed account_sample n (accounts_of u ls ks))"
  by (simp add: login_allowed_def limited_def limiter_allowed_def limiter_events_def Let_def split: if_splits)

theorem failed_login_reveals_account_witness:
  "length (fst (snd (login account_sample \<lparr>lr_username = ''ops'', lr_password = ''wrong''\<rparr>
     (accounts_of (sample_user ''user'') []
       [\<lparr>cred_id = ''k'', cred_user_id = ''u1'', cred_password_hash = ''right'', cred_password_changed_at = 0\<rparr>])))) = 2 \<and>
   length (fst (snd (login account_sample \<lparr>lr_username = ''ops'', lr_password = ''wrong''\<rparr>
     (accounts_of ((sample_user ''user'')\<lparr>user_normalized_login := ''abc''\<rparr>) [] [])))) = 1"
proof -
  let ?body = "\<lparr>lr_username = ''ops'', lr_password = ''wrong''\<rparr>"
  let ?k = "\<lparr>cred_id = ''k'', cred_user_id = ''u1'', cred_password_hash = ''right'', cred_password_changed_at = 0\<rparr>"
  let ?st = "accounts_of (sample_user ''user'') [] [?k]"
  let ?other = "accounts_of ((sample_user ''user'')\<lparr>user_normalized_login := ''abc''\<rparr>) [] []"
  have known: "length (fst (snd (login account_sample ?body ?st))) = 2"
    using failed_login_reveals_account [OF sample_preauth sample_allowed, of ?body "sample_user ''user''" "[]" "[?k]"
        "sample_user ''user''" ?k] by (simp add: ops_login credential_of_def sample_user_def)
  have "length (fst (snd (login account_sample ?body ?other))) = 1"
    using failed_login_reveals_account [OF sample_preauth sample_allowed, of ?body
        "(sample_user ''user'')\<lparr>user_normalized_login := ''abc''\<rparr>" "[]" "[]"] by (simp add: ops_login sample_user_def)
  with known show ?thesis by blast
qed

theorem cli_tokens_bounded_witness:
  "active_cli_tokens 20 ''u1'' (pa_db (accounts_of invited [] [])) \<le> 10"
  using cli_tokens_bounded [OF accounts_run.start [of default_account_settings "accounts_of invited [] []" 10], of 20 "''u1''"]
  by (simp add: active_cli_tokens_def)

subsection \<open>The invited user sets his password\<close>

lemma sample_linked: "linked (\<lambda>t. ptok_challenge_hash t = Some ''x'') (pa_db (accounts_of invited [sample_link] ks)) =
    Some (sample_link, Some invited)"
  by (simp add: linked_def get_setup_token_def get_user_def sample_link_def invited_def sample_user_def)

lemma sample_set:
  "setup_password account_sample sample_body (accounts_of invited [sample_link] []) =
     (Inr (fst (password_was_set account_sample sample_link invited ''correct horse 1'' (accounts_of invited [sample_link] []))),
      snd (password_was_set account_sample sample_link invited ''correct horse 1'' (accounts_of invited [sample_link] [])))"
proof -
  have strong: "validate_password ''correct horse 1'' (user_normalized_login invited) = Inr ()"
    by (simp add: validate_password_def strip_def is_space_def casefold_def fold_char_def is_upper_def invited_def
        sample_user_def WEAK_PASSWORDS_def)
  have challenged: "challenged 10 sample_link" by (simp add: challenged_def usable_def sample_link_def)
  have valid: "password_action_account_is_valid sample_link invited"
    by (simp add: password_action_account_is_valid_def sample_link_def invited_def)
  show ?thesis
    by (simp add: setup_password_def sample_preauth sample_linked challenged valid sample_body_def strong split: prod.split)
qed

lemma sample_was_set:
  "ur_id (sa_user (fst (password_was_set account_sample sample_link invited p st))) = ''u1''"
  "\<not> sa_requires_login (fst (password_was_set account_sample sample_link invited p st))"
  by (simp_all add: password_was_set_def Let_def case_prod_beta serialize_user_def sample_link_def)
    (simp add: invited_def sample_user_def)

definition after_setup :: portal_accounts where
  "after_setup = snd (password_was_set account_sample sample_link invited ''correct horse 1'' (accounts_of invited [sample_link] []))"

lemma after_setup_rows:
  "t_users (pa_db after_setup) = [password_set_row 10 PP_INITIAL_PASSWORD_SETUP invited]"
  "t_setup_tokens (pa_db after_setup) = [use_link 10 sample_link]"
  "pa_credentials after_setup = [\<lparr>cred_id = ''iiiiiii'', cred_user_id = ''u1'',
     cred_password_hash = ''correct horse 1'', cred_password_changed_at = 10\<rparr>]"
  "pa_limiter after_setup = []"
proof -
  have u: "user_id invited = ''u1''" by (simp add: invited_def sample_user_def)
  have l: "\<not> other_active sample_link uid (use_link 10 sample_link)" for uid by (simp add: other_active_def use_link_def)
  show "t_setup_tokens (pa_db after_setup) = [use_link 10 sample_link]"
    unfolding after_setup_def links_of_password_was_set by (simp add: l)
  show "pa_credentials after_setup = [\<lparr>cred_id = ''iiiiiii'', cred_user_id = ''u1'',
     cred_password_hash = ''correct horse 1'', cred_password_changed_at = 10\<rparr>]"
    by (simp add: after_setup_def password_was_set_credentials store_password_def u eval_nat_numeral)
  show "t_users (pa_db after_setup) = [password_set_row 10 PP_INITIAL_PASSWORD_SETUP invited]"
    by (simp add: after_setup_def password_was_set_def password_rows_def Let_def case_prod_beta account_simps modify_user_def)
      (simp add: sample_link_def)
  show "pa_limiter after_setup = []"
    by (simp add: after_setup_def password_was_set_def password_rows_def Let_def case_prod_beta close_user_terminals_def)
qed

lemma after_setup_constrained: "accounts_constrained after_setup"
  by (simp add: accounts_constrained_def users_distinct_def after_setup_rows)

theorem password_change_authorized_witness:
  "challenged 10 sample_link \<and> password_action_account_is_valid sample_link invited"
proof -
  let ?st = "accounts_of invited [sample_link] []"
  have "serve account_sample (R_setup sample_body) ?st = after_setup" by (simp add: sample_set after_setup_def)
  then have "credential_of ''u1'' (serve account_sample (R_setup sample_body) ?st) \<noteq> credential_of ''u1'' ?st"
    by (simp add: credential_of_def after_setup_rows)
  from password_change_authorized [OF _ this] show ?thesis by (simp add: sample_linked)
qed


theorem link_works_once_witness:
  "\<exists>e. fst (exchange_password_action account_sample ''token'' after_setup) = Inl e"
proof -
  let ?st = "accounts_of invited [sample_link] []"
  have now: "setup_password account_sample sample_body ?st =
      (Inr (fst (password_was_set account_sample sample_link invited ''correct horse 1'' ?st)), after_setup)"
    by (simp add: sample_set after_setup_def)
  have linked: "linked (\<lambda>t. ptok_token_hash t = ''token'') (pa_db after_setup) =
      Some (use_link 10 sample_link, Some (password_set_row 10 PP_INITIAL_PASSWORD_SETUP invited))"
    by (simp add: linked_def get_setup_token_def get_user_def after_setup_rows)
      (simp add: use_link_def sample_link_def invited_def sample_user_def)
  have run: "accounts_run default_account_settings (snd (setup_password account_sample sample_body ?st), al_now account_sample) (after_setup, 10)"
    unfolding now snd_conv account_sample_fields by (rule accounts_run.start)
  have rows: "sample_link \<in> set (t_setup_tokens (pa_db ?st))" "ptok_user_id sample_link = ''u1''"
    "ptok_id (use_link 10 sample_link) = ptok_id sample_link" by (simp_all add: sample_link_def use_link_def)
  have "accounts_constrained ?st" "fst (setup_password account_sample sample_body ?st) =
      Inr (fst (password_was_set account_sample sample_link invited ''correct horse 1'' ?st))"
    "accounts_constrained (snd (setup_password account_sample sample_body ?st))"
    by (simp_all add: now after_setup_constrained)
  from link_works_once [OF this run rows(1), of account_sample "''token''" "use_link 10 sample_link"] linked rows(2,3)
  show ?thesis by (simp add: sample_was_set)
qed

subsection \<open>Guessing\<close>

theorem guesses_bounded_witness:
  "\<exists>st :: portal_accounts. \<exists>u \<in> set (t_users (pa_db st)). user_id u = ''u1'' \<and> int 1 \<le> user_failed_login_count u \<and>
     (user_account_state u \<noteq> AS_LOCKED \<longrightarrow> int 1 < 5)"
proof -
  let ?st = "accounts_of (sample_user ''user'') [] []"
  let ?r = "R_login \<lparr>lr_username = ''ops'', lr_password = ''wrong''\<rparr>"
  have user: "scalar (\<lambda>u. user_normalized_login u = ''ops'') (t_users (pa_db ?st)) = Some (sample_user ''user'')"
    by (simp add: sample_user_def)
  obtain s where allowed: "login_allowed account_sample ''ops'' ?st = (True, s)"
    using sample_allowed [of "''ops''" "sample_user ''user''" "[]" "[]"] by (metis (full_types) prod.collapse)
  have db: "pa_db s = pa_db ?st" "pa_credentials s = []"
    using login_allowed_db [of account_sample "''ops''" ?st] by (simp_all add: allowed)
  have none: "credential_of uid s = None" for uid by (simp add: credential_of_def db)
  have fields: "user_normalized_login (sample_user ''user'') = ''ops''" "user_id (sample_user ''user'') = ''u1''"
    by (simp_all add: sample_user_def)
  have answer: "login account_sample \<lparr>lr_username = ''ops'', lr_password = ''wrong''\<rparr> ?st =
      (Inl auth_error, [DUMMY_HASH], on_db (auth_failure account_sample (Some (sample_user ''user'')) ''ops'') s)"
    by (simp add: login_def sample_preauth ops_login allowed check_password_def none db fields Let_def)
  have served: "serve account_sample ?r ?st = on_db (auth_failure account_sample (Some (sample_user ''user'')) ''ops'') s"
    by (simp add: answer)
  have fails: "fails_login account_sample ?r ?st (sample_user ''user'')"
    by (simp add: fails_login_def answer ops_login) (simp add: sample_user_def)
  have con: "accounts_constrained (serve account_sample ?r ?st)"
    unfolding served
    by (simp add: accounts_constrained_def users_distinct_def account_simps auth_failure_def modify_user_def db Let_def)
  have "guess_run default_account_settings (sample_user ''user'') ?st 0"
    by (rule guess_run.fresh) (simp_all add: sample_user_def default_account_settings_def)
  from guess_run.failed [OF this _ fails con]
  have run: "guess_run default_account_settings (sample_user ''user'') (serve account_sample ?r ?st) 1" by simp
  have "as_login_failures_before_lock default_account_settings = 5" "user_id (sample_user ''user'') = ''u1''"
    by (simp_all add: default_account_settings_def sample_user_def)
  with guesses_bounded [OF run] show ?thesis by (intro exI [of _ "serve account_sample ?r ?st"]) simp
qed

subsection \<open>The owner's reset\<close>

lemma new_roles:
  assumes "distinct (map fst rows)" and "\<forall>row \<in> set rows. fst row \<notin> role_name ` set (pa_roles st)"
  shows "pa_db (foldl (\<lambda>st row. ensure_role c d ids row st) st rows) = pa_db st \<and>
    role_name ` set (pa_roles (foldl (\<lambda>st row. ensure_role c d ids row st) st rows)) =
      role_name ` set (pa_roles st) \<union> fst ` set rows \<and>
    pa_credentials (foldl (\<lambda>st row. ensure_role c d ids row st) st rows) = pa_credentials st"
  using assms
proof (induction rows arbitrary: st)
  case (Cons row rows)
  obtain name ps where row: "row = (name, ps)" by (cases row)
  have "scalar (\<lambda>r. role_name r = name) (pa_roles st) = None"
    using Cons.prems(2) by (force simp: scalar_None_iff row)
  then have one: "pa_db (ensure_role c d ids row st) = pa_db st"
    "pa_credentials (ensure_role c d ids row st) = pa_credentials st"
    "role_name ` set (pa_roles (ensure_role c d ids row st)) = insert name (role_name ` set (pa_roles st))"
    by (auto simp: ensure_role_def row)
  have "\<forall>r \<in> set rows. fst r \<notin> role_name ` set (pa_roles (ensure_role c d ids row st))"
    using Cons.prems unfolding one(3) by (simp add: row) (metis image_eqI)
  from Cons.IH [OF _ this] Cons.prems(1) show ?case by (simp add: one) (simp add: row)
qed simp

lemma scalar_image:
  assumes "x \<in> f ` set rs"
  obtains r where "scalar (\<lambda>r. f r = x) rs = Some r"
  using assms by (cases "scalar (\<lambda>r. f r = x) rs") (auto simp: scalar_None_iff)

definition owner_row :: portal_user where
  "owner_row = (sample_user ''user'')\<lparr>user_normalized_login := ''origin-al'', user_unix_username := Some ''origin-al'',
     user_account_state := AS_LOCKED\<rparr>"

theorem reset_link_never_works_witness:
  "\<exists>st token st1. bootstrap_origin_al account_sample (\<lambda>n. n) (\<lambda>_. 7) True st = (Inr (0, Some token), st1) \<and>
     (\<exists>e. fst (exchange_password_action account_sample token st1) = Inl e)"
proof -
  let ?st = "accounts_of owner_row [] []"
  have names: "distinct (map fst PERMISSIONS)" "''platform_owner'' \<in> fst ` set PERMISSIONS"
    by (simp_all add: PERMISSIONS_def)
  obtain R where R: "ensure_roles account_sample (\<lambda>n. n) (\<lambda>_. 7) ?st = R" by blast
  have "\<forall>row \<in> set PERMISSIONS. fst row \<notin> role_name ` set (pa_roles ?st)" by simp
  note all = new_roles [OF names(1) this, of account_sample "\<lambda>n. n" "\<lambda>_. 7", folded ensure_roles_def]
  have roles: "pa_db R = pa_db ?st" "role_name ` set (pa_roles R) = fst ` set PERMISSIONS" "pa_credentials R = []"
    using all [unfolded R] by (simp_all only: accounts_of_tables list.set(1) image_empty Un_empty_left)
  have "''platform_owner'' \<in> role_name ` set (pa_roles R)" unfolding roles(2) by (rule names(2))
  then obtain owner where owner: "scalar (\<lambda>r. role_name r = ''platform_owner'') (pa_roles R) = Some owner"
    by (rule scalar_image)
  let ?user = "with_role owner owner_row"
  let ?updated = "on_db (modify_user ''u1'' (with_role owner)) R"
  have fields: "user_normalized_login owner_row = ''origin-al''" "user_id owner_row = ''u1''" "user_id ?user = ''u1''"
    "user_unix_username owner_row = Some ''origin-al''" "user_account_state ?user = AS_LOCKED"
    "user_normalized_login ?user = ''origin-al''"
    by (simp_all add: owner_row_def sample_user_def with_role_def)
  have ensured: "ensure_origin_al_record account_sample (\<lambda>n. n) (\<lambda>_. 7) ?st = (Inr (?user, False), ?updated)"
    by (simp add: ensure_origin_al_record_def Let_def R roles(1) owner fields)
  let ?k = "(new_link account_sample PP_INITIAL_PASSWORD_SETUP ''u1'' [])\<lparr>ptok_id := ''ii'', ptok_created_by := None,
    ptok_request_ip_digest := None\<rparr>"
  obtain st1 where boot: "bootstrap_origin_al account_sample (\<lambda>n. n) (\<lambda>_. 7) True ?st = (Inr (0, Some []), st1)"
    and rows: "t_users (pa_db st1) = [?user]" "t_setup_tokens (pa_db st1) = [?k]" "pa_credentials st1 = []"
    by (simp add: bootstrap_origin_al_def ensured account_simps add_link_def roles(1,3) modify_user_def fields eval_nat_numeral)
  have con: "accounts_constrained st1" by (simp add: accounts_constrained_def users_distinct_def rows)
  have linked: "linked (\<lambda>t. ptok_token_hash t = al_digest account_sample []) (pa_db st1) = Some (?k, Some ?user)"
    by (simp add: linked_def get_setup_token_def get_user_def rows new_link_def fields)
  have "accounts_constrained ?st" "accounts_constrained (snd (bootstrap_origin_al account_sample (\<lambda>n. n) (\<lambda>_. 7) True ?st))"
    by (simp_all add: boot con)
  moreover have "owner_row \<in> set (t_users (pa_db ?st))" "user_account_state owner_row \<noteq> AS_INVITED"
    "ptok_id ?k = al_id account_sample 2" by (simp_all add: owner_row_def eval_nat_numeral)
  ultimately have "\<exists>e. fst (exchange_password_action account_sample [] st1) = Inl e"
    using reset_link_never_works [OF _ _ boot _ fields(1) _ accounts_run.start linked] by blast
  with boot show ?thesis by blast
qed

end
