(* ===== verification/Ssh_Routes.thy ===== *)
theory Ssh_Routes
  imports Compute_Planning User_Routes
begin

section \<open>Enrolling and installing SSH keys\<close>

text \<open>
  \<open>routes/ssh_keys.py\<close>: the list of keys, the enrollment of one public key, and the synchronisation of new
  keys into the running container. The body of an enrollment is the raw JSON object, since the route looks for
  private material in it before it is validated; pydantic's conversion to a boolean is \<open>kc_lax_bool\<close>. A route
  returns the calls it made to the worker; \<open>commit_keys\<close> is \<open>db.commit()\<close> with the constraints of the tables
  written here, and an error leaves the database last committed. The identifiers in a payload are those the
  portal wrote itself with \<open>str\<close>, so reading them back gives the same identifiers. Chinese summary texts are
  written in English.
\<close>

record key_call =
  kc_env :: op_env
  kc_settings :: auth_settings
  kc_request :: http_request
  kc_context :: auth_context
  kc_worker :: op_worker
  kc_keygen :: keygen
  kc_sha256 :: "string \<Rightarrow> string"
  kc_lax_bool :: "pyval \<Rightarrow> bool option"
  kc_version :: string

definition kc_now :: "key_call \<Rightarrow> instant" where
  "kc_now c = oe_now (kc_env c)"

definition kc_id :: "key_call \<Rightarrow> nat \<Rightarrow> uuid" where
  "kc_id c = oe_ids (kc_env c)"

definition kc_user :: "key_call \<Rightarrow> portal_user" where
  "kc_user c = ctx_user (kc_context c)"

definition kc_csrf :: "key_call \<Rightarrow> unit result" where
  "kc_csrf c = require_session_csrf (oe_digest (kc_env c)) (kc_settings c) (kc_request c) (kc_context c)"

definition key_audit :: "key_call \<Rightarrow> nat \<Rightarrow> string \<Rightarrow> string \<Rightarrow> string \<Rightarrow> string \<Rightarrow> pyval \<Rightarrow> uuid option \<Rightarrow>
    portal_db \<Rightarrow> portal_db" where
  "key_audit c slot event object_type object_id outcome metadata operation =
     record_audit (oe_digest (kc_env c)) (kc_id c slot) (kc_now c)
       \<lparr>ac_event_type = event, ac_actor = user_normalized_login (kc_user c),
        ac_actor_role = highest_role (kc_user c), ac_source_ip = client_ip (kc_request c),
        ac_user_agent = user_agent (kc_request c), ac_object_type = object_type, ac_object_id = object_id,
        ac_result = outcome, ac_metadata = metadata, ac_operation_id = operation\<rparr>"

definition worker_call_of :: "key_call \<Rightarrow> string \<Rightarrow> pyval \<Rightarrow> string \<Rightarrow> int \<Rightarrow> operation_call" where
  "worker_call_of c operation_type payload key timeout =
     \<lparr>wr_operation_type = operation_type, wr_payload = payload,
      wr_requested_by = user_normalized_login (kc_user c),
      wr_approved_by = Some (user_normalized_login (kc_user c)), wr_idempotency_key = key, wr_dry_run = False,
      wr_timeout_seconds = timeout\<rparr>"

subsection \<open>The commit\<close>

definition keys_constrained :: "portal_ssh_key list \<Rightarrow> bool" where
  "keys_constrained rows \<longleftrightarrow> list_all ssh_key_checks rows \<and> distinct (map key_id rows) \<and>
     distinct (map key_fingerprint_sha256 rows) \<and> distinct (present_values key_staging_file_name rows)"

definition key_constraints :: "portal_db \<Rightarrow> bool" where
  "key_constraints db \<longleftrightarrow> keys_constrained (t_ssh_keys db) \<and> operations_constrained (t_operations db) \<and>
     identities_constrained (t_managed_users db)"

definition commit_keys :: "exn \<Rightarrow> 'a \<Rightarrow> portal_db \<Rightarrow> portal_db \<Rightarrow> 'a result \<times> portal_db" where
  "commit_keys conflict answer before after =
     (if key_constraints after then (Inr answer, after) else (Inl conflict, before))"

subsection \<open>Whose keys\<close>

definition target_user :: "key_call \<Rightarrow> string \<Rightarrow> bool \<Rightarrow> portal_db \<Rightarrow> portal_user result" where
  "target_user c v write db =
     (case user_id_of v of Inl e \<Rightarrow> Inl e
      | Inr i \<Rightarrow>
        (case get_user db i of None \<Rightarrow> Inl user_not_found
         | Some target \<Rightarrow>
           if user_id target \<noteq> user_id (kc_user c) \<and>
             \<not> has_permission (kc_user c) (if write then ''users.write'' else ''users.read'')
           then Inl (HTTPException 403 ''FORBIDDEN'') else Inr target))"

definition managed_user_of :: "portal_user \<Rightarrow> portal_db \<Rightarrow> portal_managed_user result" where
  "managed_user_of target db =
     (case scalar (\<lambda>m. mu_portal_user_id m = user_id target) (t_managed_users db) of
        None \<Rightarrow> Inl (HTTPException 409 ''COMPUTE_IDENTITY_NOT_FOUND'')
      | Some managed \<Rightarrow>
        if mu_onboarding_state managed \<notin> set [OB_STAGED, OB_ACTIVE]
        then Inl (HTTPException 409 ''COMPUTE_IDENTITY_NOT_STAGED'') else Inr managed)"

definition list_ssh_keys :: "key_call \<Rightarrow> string \<Rightarrow> portal_db \<Rightarrow> (pyval list \<times> nat \<times> pyval) result" where
  "list_ssh_keys c v db =
     (case target_user c v False db of Inl e \<Rightarrow> Inl e
      | Inr target \<Rightarrow>
        (case managed_user_of target db of Inl e \<Rightarrow> Inl e
         | Inr managed \<Rightarrow>
           let records = order_desc key_created_at
                 (filter (\<lambda>k. key_managed_user_id k = mu_id managed) (t_ssh_keys db))
           in Inr (map ssh_key_response records, length records, ssh_enrollment_status db target)))"

subsection \<open>What a request may not contain\<close>

definition FORBIDDEN_KEY_FIELDS :: "string list" where
  "FORBIDDEN_KEY_FIELDS = [''private_key'', ''raw_private_key'', ''private_key_password'', ''private_key_path'',
     ''password'']"

text \<open>The argument counts the levels that are still looked at: \<open>depth\<close> of the code is nine less it.\<close>

fun private_material :: "nat \<Rightarrow> pyval \<Rightarrow> bool" where
  "private_material 0 v = False"
| "private_material (Suc levels) v =
     (case v of
        PDict kvs \<Rightarrow> list_ex (\<lambda>k. casefold k \<in> set FORBIDDEN_KEY_FIELDS) (map fst kvs) \<or>
          list_ex (private_material levels) (map snd kvs)
      | PList xs \<Rightarrow> list_ex (private_material levels) (take 100 xs)
      | _ \<Rightarrow> contains_private_key_material v)"

definition private_material_in_request :: "pyval \<Rightarrow> bool" where
  "private_material_in_request v = private_material 9 v"

definition record_rejection :: "key_call \<Rightarrow> uuid \<Rightarrow> string \<Rightarrow> string \<Rightarrow> portal_db \<Rightarrow> portal_db" where
  "record_rejection c target event error_code = key_audit c 0 event ''ssh_public_key'' target ''DENIED''
     (PDict [(''error_code'', PStr error_code), (''body_stored'', PBool False)]) None"

subsection \<open>The enrollment request\<close>

record ssh_key_enroll_request =
  ske_key_type :: string
  ske_public_key :: string
  ske_comment :: string
  ske_scope :: string
  ske_generation_method :: string
  ske_client_fingerprint_sha256 :: "string option"

definition fingerprint_pattern :: "string \<Rightarrow> bool" where
  "fingerprint_pattern s \<longleftrightarrow> take 7 s = ''SHA256:'' \<and> drop 7 s \<noteq> [] \<and>
     list_all (\<lambda>c. is_upper c \<or> is_lower c \<or> is_digit c \<or> c \<in> set ''+/'') (drop 7 s)"

definition text_field :: "(string \<times> pyval) list \<Rightarrow> string \<Rightarrow> string option \<Rightarrow> string option" where
  "text_field body k absent = (case map_of body k of None \<Rightarrow> absent | Some v \<Rightarrow> text_of v)"

definition enroll_fields :: "string list" where
  "enroll_fields = [''key_type'', ''public_key'', ''comment'', ''scope'', ''generation_method'',
     ''client_fingerprint_sha256'', ''confirmed_private_key_saved'', ''confirmed_public_key'']"

definition enroll_request_of :: "(pyval \<Rightarrow> bool option) \<Rightarrow> (string \<times> pyval) list \<Rightarrow> ssh_key_enroll_request option" where
  "enroll_request_of lax body =
     (let flag = (\<lambda>k. case map_of body k of None \<Rightarrow> Some False | Some v \<Rightarrow> lax v);
          fingerprint = (case map_of body ''client_fingerprint_sha256'' of None \<Rightarrow> Some None
            | Some PNone \<Rightarrow> Some None | Some v \<Rightarrow> map_option Some (text_of v)) in
      case (text_field body ''key_type'' None, text_field body ''public_key'' None, text_field body ''comment'' (Some []),
          text_field body ''scope'' (Some ''BOTH''), text_field body ''generation_method'' None, fingerprint,
          flag ''confirmed_private_key_saved'', flag ''confirmed_public_key'') of
        (Some key_type, Some public_key, Some comment, Some scope, Some generation, Some client, Some saved,
         Some confirmed) \<Rightarrow>
          if list_all (\<lambda>k. k \<in> set enroll_fields) (map fst body) \<and> key_type \<in> set ALLOWED_KEY_TYPES \<and>
            length_in 32 (16 * 1024) public_key \<and> length comment \<le> 128 \<and>
            scope \<in> set [''HOST'', ''CONTAINER'', ''BOTH''] \<and>
            generation \<in> set [''BROWSER_GENERATED'', ''IMPORTED''] \<and>
            (case client of None \<Rightarrow> True | Some s \<Rightarrow> length_in 16 128 s \<and> fingerprint_pattern s) \<and>
            (if generation = ''BROWSER_GENERATED'' then saved else confirmed)
          then Some \<lparr>ske_key_type = key_type, ske_public_key = public_key, ske_comment = comment,
            ske_scope = scope, ske_generation_method = generation, ske_client_fingerprint_sha256 = client\<rparr>
          else None
      | _ \<Rightarrow> None)"

text \<open>
  A refusal is the error raised and, where the route records it before, the event and the code recorded.
\<close>

type_synonym refusal = "(string \<times> string) option \<times> exn"

definition recorded :: "string \<Rightarrow> int \<Rightarrow> string \<Rightarrow> refusal" where
  "recorded event status error_code = (Some (event, error_code), HTTPException status error_code)"

definition key_refusal :: "exn \<Rightarrow> refusal" where
  "key_refusal e = (case e of
     SshPublicKeyValidationError error_code \<Rightarrow> recorded
       (if error_code = ''SSH_PRIVATE_KEY_UPLOAD_REJECTED'' then ''SSH_PRIVATE_KEY_UPLOAD_REJECTED''
        else ''ssh_key.validation_rejected'') 422 error_code
   | _ \<Rightarrow> (None, e))"

definition enroll_body :: "key_call \<Rightarrow> (string \<times> pyval) list \<Rightarrow>
    refusal + ssh_key_enroll_request \<times> validated_ssh_public_key" where
  "enroll_body c body =
     (if private_material_in_request (PDict body)
      then Inl (recorded ''SSH_PRIVATE_KEY_UPLOAD_REJECTED'' 422 ''SSH_PRIVATE_KEY_UPLOAD_REJECTED'')
      else case enroll_request_of (kc_lax_bool c) body of
        None \<Rightarrow> Inl (recorded ''ssh_key.validation_rejected'' 422 ''SSH_KEY_ENROLLMENT_REJECTED'')
      | Some enrollment \<Rightarrow>
        (case validate_ssh_public_key (kc_keygen c) (kc_sha256 c) (ske_public_key enrollment)
            (ske_comment enrollment) of
           Inl e \<Rightarrow> Inl (key_refusal e)
         | Inr validated \<Rightarrow>
           if highest_role (kc_user c) = ''user'' \<and> ske_scope enrollment \<noteq> ''CONTAINER''
           then Inl (recorded ''ssh_key.scope_rejected'' 403 ''HOST_KEY_SCOPE_FORBIDDEN'')
           else if ske_key_type enrollment \<noteq> vk_key_type validated
           then Inl (recorded ''ssh_key.validation_rejected'' 422 ''SSH_PUBLIC_KEY_TYPE_MISMATCH'')
           else if ske_client_fingerprint_sha256 enrollment \<noteq> None \<and>
             ske_client_fingerprint_sha256 enrollment \<noteq> Some (vk_fingerprint_sha256 validated)
           then Inl (recorded ''ssh_key.validation_rejected'' 422 ''SSH_KEY_FINGERPRINT_MISMATCH'')
           else Inr (enrollment, validated)))"

definition counted_key :: "uuid \<Rightarrow> portal_ssh_key \<Rightarrow> bool" where
  "counted_key mid k \<longleftrightarrow> key_managed_user_id k = mid \<and> key_state k \<in> set [''VALIDATED'', ''INSTALLED''] \<and> key_active k"

definition active_key_count :: "uuid \<Rightarrow> portal_db \<Rightarrow> nat" where
  "active_key_count mid db = length (filter (counted_key mid) (t_ssh_keys db))"

definition enroll_checks :: "key_call \<Rightarrow> portal_user \<Rightarrow> (string \<times> pyval) list \<Rightarrow> portal_db \<Rightarrow>
    refusal + ssh_key_enroll_request \<times> validated_ssh_public_key \<times> portal_managed_user" where
  "enroll_checks c target body db =
     (case enroll_body c body of Inl r \<Rightarrow> Inl r
      | Inr (enrollment, validated) \<Rightarrow>
        (case managed_user_of target db of Inl e \<Rightarrow> Inl (None, e)
         | Inr managed \<Rightarrow>
           if mu_host_access_state managed = ''DISABLED_BY_PLATFORM_POLICY'' \<and> ske_scope enrollment \<noteq> ''CONTAINER''
           then Inl (recorded ''ssh_key.scope_rejected'' 403 ''HOST_KEY_SCOPE_FORBIDDEN'')
           else if 5 \<le> active_key_count (mu_id managed) db
           then Inl (None, HTTPException 409 ''SSH_KEY_LIMIT_REACHED'')
           else if scalar (\<lambda>k. key_fingerprint_sha256 k = vk_fingerprint_sha256 validated) (t_ssh_keys db) \<noteq> None
           then Inl (None, HTTPException 409 ''SSH_KEY_FINGERPRINT_CONFLICT'')
           else Inr (enrollment, validated, managed)))"

subsection \<open>Enrolling a key\<close>

text \<open>Slot 1 is the identifier of the new key, slot 2 that of its operation.\<close>

definition enroll_operation :: "key_call \<Rightarrow> ssh_key_enroll_request \<Rightarrow> validated_ssh_public_key \<Rightarrow> portal_managed_user \<Rightarrow>
    portal_operation" where
  "enroll_operation c enrollment validated managed =
     \<lparr>oper_id = kc_id c 2, oper_operation_type = ''ssh_key.enroll'', oper_target_type = ''ssh_public_key'',
      oper_target_id = kc_id c 1, oper_requested_by = user_id (kc_user c),
      oper_owner_managed_user_id = Some (mu_id managed), oper_approved_by = Some (user_id (kc_user c)),
      oper_request_summary = ''Enroll SSH public key for '' @ mu_unix_username managed,
      oper_validated_payload = PDict [(''record_id'', PStr (kc_id c 1)),
        (''managed_user_id'', PStr (mu_id managed)), (''username'', PStr (mu_unix_username managed)),
        (''key_type'', PStr (vk_key_type validated)),
        (''fingerprint_sha256'', PStr (vk_fingerprint_sha256 validated)),
        (''scope'', PStr (ske_scope enrollment)),
        (''generation_method'', PStr (ske_generation_method enrollment))],
      oper_idempotency_key = ''ssh-key-enroll:'' @ kc_id c 1, oper_risk_level = RISK_MEDIUM,
      oper_status = OP_RUNNING, oper_created_at = kc_now c, oper_approved_at = Some (kc_now c),
      oper_started_at = Some (kc_now c), oper_finished_at = None, oper_worker_execution_id = None,
      oper_dry_run_result = PNone, oper_result_summary = None, oper_error_code = None,
      oper_rollback_status = None, oper_related_report = None, oper_related_git_commit = None\<rparr>"

definition prepare_call :: "key_call \<Rightarrow> ssh_key_enroll_request \<Rightarrow> validated_ssh_public_key \<Rightarrow> portal_managed_user \<Rightarrow>
    operation_call" where
  "prepare_call c enrollment validated managed = worker_call_of c ''ssh_key.prepare''
     (PDict [(''record_id'', PStr (kc_id c 1)), (''operation_id'', PStr (kc_id c 2)),
       (''managed_user_id'', PStr (mu_id managed)), (''username'', PStr (mu_unix_username managed)),
       (''public_key'', PStr (vk_public_key validated)), (''key_type'', PStr (vk_key_type validated)),
       (''fingerprint_sha256'', PStr (vk_fingerprint_sha256 validated)),
       (''content_sha256'', PStr (vk_content_sha256 validated)), (''scope'', PStr (ske_scope enrollment))])
     (''ssh-key-enroll:'' @ kc_id c 1) 15"

definition discard_call :: "key_call \<Rightarrow> validated_ssh_public_key \<Rightarrow> operation_call" where
  "discard_call c validated = worker_call_of c ''ssh_key.discard''
     (PDict [(''record_id'', PStr (kc_id c 1)), (''operation_id'', PStr (kc_id c 2)),
       (''content_sha256'', PStr (vk_content_sha256 validated))]) (''ssh-key-discard:'' @ kc_id c 1) 10"

definition prepared_ok :: "key_call \<Rightarrow> validated_ssh_public_key \<Rightarrow> pyval \<Rightarrow> bool" where
  "prepared_ok c validated answer \<longleftrightarrow> has_eq answer ''status'' (PStr ''SUCCEEDED'') \<and>
     has_eq answer ''record_id'' (PStr (kc_id c 1)) \<and>
     has_eq answer ''fingerprint_sha256'' (PStr (vk_fingerprint_sha256 validated)) \<and>
     has_eq answer ''content_sha256'' (PStr (vk_content_sha256 validated))"

text \<open>\<open>str(answer.get("error", {}).get("code", default))\<close>, with the \<open>AttributeError\<close> of a value that is no dictionary.\<close>

definition answer_error_code :: "pyval \<Rightarrow> string \<Rightarrow> string result" where
  "answer_error_code answer absent =
     (let error = dget_or answer ''error'' (PDict []) in
      if is_dict error then Inr (py_str (dget_or error ''code'' (PStr absent))) else Inl (AttributeError ''get''))"

definition new_key :: "key_call \<Rightarrow> ssh_key_enroll_request \<Rightarrow> validated_ssh_public_key \<Rightarrow> portal_managed_user \<Rightarrow>
    portal_ssh_key" where
  "new_key c enrollment validated managed =
     \<lparr>key_id = kc_id c 1, key_managed_user_id = mu_id managed, key_owner_managed_user_id = mu_id managed,
      key_key_type = vk_key_type validated, key_fingerprint_sha256 = vk_fingerprint_sha256 validated,
      key_public_key = Some (vk_public_key validated), key_comment = vk_comment validated,
      key_scope = ske_scope enrollment, key_state = ''VALIDATED'', key_host_install_state = ''NOT_INSTALLED'',
      key_container_install_state = ''NOT_INSTALLED'',
      key_generation_method = ske_generation_method enrollment, key_created_by = user_id (kc_user c),
      key_enrollment_operation_id = Some (kc_id c 2), key_staging_file_name = Some (kc_id c 1 @ ''.pub''),
      key_content_sha256 = Some (vk_content_sha256 validated), key_approved_by = Some (user_id (kc_user c)),
      key_approved_at = Some (kc_now c), key_validated_at = Some (kc_now c), key_installed_at = None,
      key_active = True, key_created_at = kc_now c, key_revoked_at = None\<rparr>"

definition enrolled_owner :: "nat \<Rightarrow> portal_managed_user \<Rightarrow> portal_managed_user" where
  "enrolled_owner count m = m\<lparr>mu_ssh_key_count := int count,
     mu_ssh_key_state := (if mu_onboarding_state m = OB_STAGED then ''VALIDATED'' else ''INSTALLED'')\<rparr>"

definition enrolled_operation :: "key_call \<Rightarrow> pyval \<Rightarrow> portal_operation \<Rightarrow> portal_operation" where
  "enrolled_operation c answer o1 = o1\<lparr>oper_status := OP_SUCCEEDED, oper_finished_at := Some (kc_now c),
     oper_worker_execution_id := Some (take 64 (py_str (dget_or answer ''request_id'' (PStr ''worker'')))),
     oper_result_summary := Some ''SSH public key validated and written to root-owned staging; authorized_keys not installed''\<rparr>"

definition enrolled_db :: "key_call \<Rightarrow> ssh_key_enroll_request \<Rightarrow> validated_ssh_public_key \<Rightarrow> portal_managed_user \<Rightarrow>
    pyval \<Rightarrow> portal_db \<Rightarrow> portal_db" where
  "enrolled_db c enrollment validated managed answer db =
     (let record = new_key c enrollment validated managed;
          count = active_key_count (mu_id managed) db + 1;
          operation = enrolled_operation c answer (enroll_operation c enrollment validated managed);
          db = add_operation operation (add_ssh_key record db);
          db = modify_managed (mu_id managed) (enrolled_owner count) db;
          db = operation_event (kc_id c 3) (kc_now c) (kc_id c 2) (Some OP_RUNNING) OP_SUCCEEDED
            ''Public key validated and staged; private key was never received'' db
      in key_audit c 0 ''ssh_key.enrolled'' ''ssh_public_key'' (key_id record) ''SUCCESS''
           (PDict [(''managed_user_id'', PStr (mu_id managed)), (''key_type'', PStr (key_key_type record)),
             (''fingerprint_sha256'', PStr (key_fingerprint_sha256 record)), (''scope'', PStr (key_scope record)),
             (''generation_method'', PStr (key_generation_method record)),
             (''private_key_received'', PBool False)]) (Some (kc_id c 2)) db)"

definition store_prepared :: "key_call \<Rightarrow> ssh_key_enroll_request \<Rightarrow> validated_ssh_public_key \<Rightarrow> portal_managed_user \<Rightarrow>
    pyval \<Rightarrow> pyval traced_action" where
  "store_prepared c enrollment validated managed answer db =
     (let prepare = prepare_call c enrollment validated managed; discard = discard_call c validated in
      if \<not> prepared_ok c validated answer
      then (case answer_error_code answer ''SSH_KEY_PREPARE_FAILED'' of
          Inl e \<Rightarrow> (Inl e, [prepare, discard], db)
        | Inr error_code \<Rightarrow> (Inl (HTTPException 422 (take 64 error_code)), [prepare, discard], db))
      else case commit_keys (HTTPException 409 ''SSH_KEY_FINGERPRINT_CONFLICT'')
          (ssh_key_response (new_key c enrollment validated managed)) db
          (enrolled_db c enrollment validated managed answer db) of
        (Inl e, db) \<Rightarrow> (Inl e, [prepare, discard], db)
      | (Inr response, db) \<Rightarrow> (Inr response, [prepare], db))"

definition enroll_ssh_key :: "key_call \<Rightarrow> string \<Rightarrow> (string \<times> pyval) list \<Rightarrow> pyval traced_action" where
  "enroll_ssh_key c v body db =
     (case kc_csrf c of Inl e \<Rightarrow> (Inl e, [], db)
      | Inr _ \<Rightarrow>
        (case target_user c v True db of Inl e \<Rightarrow> (Inl e, [], db)
         | Inr target \<Rightarrow>
           (case enroll_checks c target body db of
              Inl (None, e) \<Rightarrow> (Inl e, [], db)
            | Inl (Some (event, error_code), e) \<Rightarrow> (Inl e, [], record_rejection c (user_id target) event error_code db)
            | Inr (enrollment, validated, managed) \<Rightarrow>
              if \<not> operations_constrained (t_operations db @ [enroll_operation c enrollment validated managed])
              then (Inl unhandled, [], db)
              else case kc_worker c (prepare_call c enrollment validated managed) of
                Inl error_code \<Rightarrow> (Inl (HTTPException 503 error_code),
                  [prepare_call c enrollment validated managed, discard_call c validated], db)
              | Inr answer \<Rightarrow> store_prepared c enrollment validated managed answer db)))"

end
