(* ===== verification/Ssh_Sync.thy ===== *)
theory Ssh_Sync
  imports Ssh_Routes
begin

section \<open>Installing new keys in the running container\<close>

text \<open>
  \<open>sync_active_container_ssh_keys\<close> of \<open>routes/ssh_keys.py\<close>. The rows it reads stay locked until it commits, and
  the operation it writes is only flushed before the worker is called: what an observer of the database sees is
  one step, from before the call to after its answer. A RUNNING row found under the key of the request is
  resumed with the payload stored in it.
\<close>

subsection \<open>The environment\<close>

definition environment_active :: "portal_managed_user \<Rightarrow> bool" where
  "environment_active managed \<longleftrightarrow> mu_onboarding_state managed = OB_ACTIVE \<and>
     mu_compute_environment_state managed = ''ACTIVE'' \<and>
     mu_host_access_state managed = ''DISABLED_BY_PLATFORM_POLICY'' \<and> mu_shell managed = ''/usr/sbin/nologin''"

definition runtime_ready :: "instant \<Rightarrow> portal_managed_user \<Rightarrow> portal_container \<Rightarrow> portal_compute_lease \<Rightarrow> bool" where
  "runtime_ready now managed container lease \<longleftrightarrow>
     Some (cont_name container) = mu_container_name managed \<and> cont_ssh_port container = mu_container_port managed \<and>
     cont_desired_state container = ''RUNNING'' \<and> cont_observed_state container = ''RUNNING'' \<and>
     cont_development_profile container \<in> set [CPU_DEVELOPMENT_PROFILE, GPU_DEVELOPMENT_PROFILE] \<and>
     lease_state lease \<in> set [''ACTIVE'', ''RENEWAL_WINDOW'', ''RENEWAL_PENDING''] \<and> now < lease_expires_at lease"

definition gpu_binding_complete :: "portal_container \<Rightarrow> bool" where
  "gpu_binding_complete container \<longleftrightarrow>
     (cont_gpu_allocation_job_id container = None) = (cont_gpu_allocation_uuid container = None) \<and>
     (cont_development_profile container = GPU_DEVELOPMENT_PROFILE \<or> cont_gpu_allocation_job_id container = None)"

record sync_target =
  sy_managed :: portal_managed_user
  sy_container :: portal_container
  sy_lease :: portal_compute_lease

definition find_sync_target :: "key_call \<Rightarrow> string \<Rightarrow> portal_db \<Rightarrow> sync_target result" where
  "find_sync_target c v db =
     (case target_user c v True db of Inl e \<Rightarrow> Inl e
      | Inr target \<Rightarrow>
        if user_id target \<noteq> user_id (kc_user c) then Inl (HTTPException 403 ''SSH_KEY_SYNC_OWNER_REQUIRED'')
        else (case managed_user_of target db of Inl e \<Rightarrow> Inl e
          | Inr managed \<Rightarrow>
            if \<not> environment_active managed then Inl (HTTPException 409 ''SSH_KEY_SYNC_ENVIRONMENT_NOT_ACTIVE'')
            else case (scalar (\<lambda>k. cont_managed_user_id k = mu_id managed \<and>
                  cont_owner_managed_user_id k = mu_id managed) (t_containers db),
                scalar (\<lambda>l. lease_owner_managed_user_id l = mu_id managed) (order_desc lease_starts_at (t_leases db))) of
              (Some container, Some lease) \<Rightarrow>
                if \<not> runtime_ready (kc_now c) managed container lease
                then Inl (HTTPException 409 ''SSH_KEY_SYNC_RUNTIME_NOT_READY'')
                else if \<not> gpu_binding_complete container
                then Inl (HTTPException 409 ''SSH_KEY_SYNC_GPU_BINDING_INCOMPLETE'')
                else Inr \<lparr>sy_managed = managed, sy_container = container, sy_lease = lease\<rparr>
            | _ \<Rightarrow> Inl (HTTPException 409 ''SSH_KEY_SYNC_RUNTIME_NOT_READY'')))"

subsection \<open>The set of keys\<close>

definition container_key_of :: "uuid \<Rightarrow> portal_ssh_key \<Rightarrow> bool" where
  "container_key_of mid k \<longleftrightarrow> key_managed_user_id k = mid \<and> key_owner_managed_user_id k = mid \<and> key_active k \<and>
     key_state k \<in> set [''VALIDATED'', ''INSTALLED''] \<and> key_scope k = ''CONTAINER''"

definition by_age :: "portal_ssh_key list \<Rightarrow> portal_ssh_key list" where
  "by_age rows = order_asc key_created_at (sort_key key_id rows)"

definition keys_to_sync :: "uuid \<Rightarrow> portal_db \<Rightarrow> portal_ssh_key list" where
  "keys_to_sync mid db = by_age (filter (container_key_of mid) (t_ssh_keys db))"

definition current_keys :: "portal_ssh_key list \<Rightarrow> portal_ssh_key list" where
  "current_keys keys = filter (\<lambda>k. key_state k = ''INSTALLED'' \<and> key_container_install_state k = ''INSTALLED'') keys"

definition key_set_ready :: "portal_ssh_key list \<Rightarrow> bool" where
  "key_set_ready keys \<longleftrightarrow> current_keys keys \<noteq> [] \<and> length (current_keys keys) < length keys \<and>
     take (length (current_keys keys)) keys = current_keys keys \<and>
     list_all (\<lambda>k. key_host_install_state k = ''NOT_INSTALLED'') keys"

subsection \<open>The operation\<close>

definition sync_key :: "sync_target \<Rightarrow> uuid \<Rightarrow> string" where
  "sync_key t key = ''ssh-key-sync:'' @ mu_id (sy_managed t) @ '':'' @ key"

definition sync_payload :: "key_call \<Rightarrow> sync_target \<Rightarrow> posix_path \<Rightarrow> portal_ssh_key list \<Rightarrow> pyval" where
  "sync_payload c t path keys =
     (let managed = sy_managed t; container = sy_container t; lease = sy_lease t; current = current_keys keys;
          texts = (\<lambda>f ks. PList (map (PStr \<circ> f) ks)) in
      PDict [(''sync_operation_id'', PStr (kc_id c 1)), (''managed_user_id'', PStr (mu_id managed)),
        (''owner_login'', PStr (user_normalized_login (kc_user c))), (''username'', PStr (mu_unix_username managed)),
        (''uid'', PInt (mu_uid managed)), (''gid'', PInt (mu_gid managed)),
        (''ssh_port'', opt_val PInt (mu_container_port managed)), (''container_name'', PStr (cont_name container)),
        (''workspace_path'', PStr (path_str path)),
        (''development_profile'', PStr (cont_development_profile container)),
        (''slurm_account'', opt_val PStr (mu_slurm_account managed)),
        (''slurm_qos'', opt_val PStr (mu_slurm_qos managed)), (''lease_id'', PStr (lease_id lease)),
        (''lease_expires_at'', PTime (lease_expires_at lease)),
        (''gpu_allocation_job_id'', opt_val PInt (cont_gpu_allocation_job_id container)),
        (''gpu_allocation_uuid'', opt_val PStr (cont_gpu_allocation_uuid container)),
        (''current_ssh_key_record_ids'', texts key_id current),
        (''current_ssh_key_fingerprints'', texts key_fingerprint_sha256 current),
        (''ssh_key_record_ids'', texts key_id keys),
        (''ssh_key_fingerprints'', texts key_fingerprint_sha256 keys),
        (''deployment_version'', PStr (kc_version c))])"

definition sync_operation :: "key_call \<Rightarrow> sync_target \<Rightarrow> uuid \<Rightarrow> portal_operation" where
  "sync_operation c t key =
     \<lparr>oper_id = kc_id c 1, oper_operation_type = ''ssh_key.sync_active_container'',
      oper_target_type = ''ssh_public_key_set'', oper_target_id = mu_id (sy_managed t),
      oper_requested_by = user_id (kc_user c), oper_owner_managed_user_id = Some (mu_id (sy_managed t)),
      oper_approved_by = Some (user_id (kc_user c)),
      oper_request_summary = ''Sync new container public keys for '' @ mu_unix_username (sy_managed t),
      oper_validated_payload = PDict [], oper_idempotency_key = sync_key t key,
      oper_risk_level = RISK_MEDIUM, oper_status = OP_RUNNING, oper_created_at = kc_now c,
      oper_approved_at = Some (kc_now c), oper_started_at = Some (kc_now c), oper_finished_at = None,
      oper_worker_execution_id = None, oper_dry_run_result = PNone, oper_result_summary = None,
      oper_error_code = None, oper_rollback_status = None, oper_related_report = None,
      oper_related_git_commit = None\<rparr>"

definition sync_call :: "key_call \<Rightarrow> portal_operation \<Rightarrow> operation_call" where
  "sync_call c operation = worker_call_of c ''ssh_key.sync_active_container'' (oper_validated_payload operation)
     (''ssh-key-sync:'' @ oper_id operation) 45"

subsection \<open>The answer of the worker\<close>

definition sync_answer_ok :: "sync_target \<Rightarrow> portal_operation \<Rightarrow> pyval \<Rightarrow> bool" where
  "sync_answer_ok t operation answer \<longleftrightarrow> has_eq answer ''status'' (PStr ''SUCCEEDED'') \<and>
     has_eq answer ''handler'' (PStr ''ssh_key.sync_active_container'') \<and>
     has_eq answer ''sync_operation_id'' (PStr (oper_id operation)) \<and>
     has_eq answer ''managed_user_id'' (PStr (mu_id (sy_managed t))) \<and>
     has_eq answer ''username'' (PStr (mu_unix_username (sy_managed t))) \<and>
     has_eq answer ''container_name'' (PStr (cont_name (sy_container t))) \<and>
     has_eq answer ''container_state'' (PStr ''RUNNING'') \<and>
     has_eq answer ''container_key_fingerprints'' (dget (oper_validated_payload operation) ''ssh_key_fingerprints'') \<and>
     has_eq answer ''host_authorized_keys'' (PStr ''ABSENT'')"

definition failed_sync :: "key_call \<Rightarrow> string \<Rightarrow> string \<Rightarrow> portal_operation \<Rightarrow> portal_operation" where
  "failed_sync c error_code rollback o1 = o1\<lparr>oper_status := OP_FAILED, oper_error_code := Some (take 64 error_code),
     oper_rollback_status := Some (take 32 rollback),
     oper_result_summary := Some ''Active Container SSH key sync failed closed'', oper_finished_at := Some (kc_now c)\<rparr>"

definition sync_failure :: "key_call \<Rightarrow> uuid \<Rightarrow> string \<Rightarrow> string \<Rightarrow> portal_db \<Rightarrow> portal_db" where
  "sync_failure c i error_code rollback db =
     (case get_operation db i of None \<Rightarrow> db
      | Some operation \<Rightarrow>
        if oper_status operation \<noteq> OP_RUNNING then db
        else key_audit c 0 ''ssh_key.active_container_sync_failed'' ''ssh_public_key_set''
            (str_opt (oper_owner_managed_user_id operation)) ''FAILED''
            (PDict [(''error_code'', PStr (take 64 error_code)), (''rollback_status'', PStr (take 32 rollback))]) (Some i)
          (operation_event (kc_id c 3) (kc_now c) i (Some OP_RUNNING) OP_FAILED
            ''Active Container SSH key sync failed closed''
            (modify_operation i (failed_sync c error_code rollback) db)))"

definition payload_texts :: "pyval \<Rightarrow> string \<Rightarrow> string list" where
  "payload_texts payload k = List.map_filter text_of (list_items (dget payload k))"

definition install_key :: "instant \<Rightarrow> portal_ssh_key \<Rightarrow> portal_ssh_key" where
  "install_key now k = k\<lparr>key_state := ''INSTALLED'', key_container_install_state := ''INSTALLED'',
     key_host_install_state := ''NOT_INSTALLED'',
     key_installed_at := (case key_installed_at k of None \<Rightarrow> Some now | Some t \<Rightarrow> Some t)\<rparr>"

definition key_still_installable :: "sync_target \<Rightarrow> portal_ssh_key \<Rightarrow> bool" where
  "key_still_installable t k \<longleftrightarrow> key_owner_managed_user_id k = mu_id (sy_managed t) \<and> key_active k \<and>
     key_state k \<in> set [''VALIDATED'', ''INSTALLED''] \<and> key_scope k = ''CONTAINER''"

definition succeeded_sync :: "key_call \<Rightarrow> pyval \<Rightarrow> portal_operation \<Rightarrow> portal_operation" where
  "succeeded_sync c answer o1 = o1\<lparr>oper_status := OP_SUCCEEDED, oper_finished_at := Some (kc_now c),
     oper_rollback_status := Some ''NOT_REQUIRED'',
     oper_worker_execution_id := Some (take 64 (py_str (dget_or answer ''worker_request_id'' (PStr ''worker'')))),
     oper_result_summary := Some ''Owner-approved keys installed in active Container''\<rparr>"

definition synced_db :: "key_call \<Rightarrow> sync_target \<Rightarrow> portal_operation \<Rightarrow> pyval \<Rightarrow> portal_db \<Rightarrow> portal_db" where
  "synced_db c t operation answer db =
     (let ids = payload_texts (oper_validated_payload operation) ''ssh_key_record_ids'';
          fingerprints = dget (oper_validated_payload operation) ''ssh_key_fingerprints'';
          db = db\<lparr>t_ssh_keys := update_where (\<lambda>k. key_id k \<in> set ids) (install_key (kc_now c)) (t_ssh_keys db)\<rparr>;
          db = modify_operation (oper_id operation) (succeeded_sync c answer) db;
          db = operation_event (kc_id c 3) (kc_now c) (oper_id operation) (Some OP_RUNNING) OP_SUCCEEDED
            ''Owner-approved active Container key set synchronized'' db
      in key_audit c 0 ''ssh_key.active_container_synced'' ''ssh_public_key_set'' (mu_id (sy_managed t)) ''SUCCESS''
           (PDict [(''fingerprints'', fingerprints), (''key_count'', PInt (int (length (list_items fingerprints)))),
             (''host_authorized_keys'', PStr ''ABSENT'')]) (Some (oper_id operation)) db)"

record sync_answer =
  sya_operation_id :: uuid
  sya_key_fingerprints :: pyval
  sya_idempotent_replay :: bool

text \<open>\<open>db1\<close> is the session with the RUNNING operation in it, \<open>db\<close> what is committed so far.\<close>

definition judge_sync :: "key_call \<Rightarrow> sync_target \<Rightarrow> portal_operation \<Rightarrow> portal_db \<Rightarrow> string + pyval \<Rightarrow>
    (portal_db, sync_answer) action" where
  "judge_sync c t operation db1 worker_answer db =
     (let i = oper_id operation;
          fail = (\<lambda>status error_code rollback. case commit_keys unhandled () db (sync_failure c i error_code rollback db1) of
            (Inl e, db) \<Rightarrow> (Inl e, db)
          | (Inr _, db) \<Rightarrow> (Inl (HTTPException status (take 64 error_code)), db)) in
      case worker_answer of
        Inl error_code \<Rightarrow> (case commit_keys unhandled () db (sync_failure c i error_code ''UNKNOWN'' db1) of
            (Inl e, db) \<Rightarrow> (Inl e, db) | (Inr _, db) \<Rightarrow> (Inl (HTTPException 503 error_code), db))
      | Inr answer \<Rightarrow>
        if \<not> sync_answer_ok t operation answer
        then (case answer_error_code answer ''SSH_KEY_SYNC_RESULT_INVALID'' of Inl e \<Rightarrow> (Inl e, db)
          | Inr error_code \<Rightarrow> fail 409 error_code (py_str (dget_or answer ''rollback_status'' (PStr ''UNKNOWN''))))
        else
          let ids = payload_texts (oper_validated_payload operation) ''ssh_key_record_ids'';
              persisted = by_age (filter (\<lambda>k. key_id k \<in> set ids) (t_ssh_keys db1)) in
          if map key_id persisted \<noteq> ids \<or> \<not> list_all (key_still_installable t) persisted
          then fail 409 ''SSH_KEY_SYNC_CONCURRENT_STATE_CHANGE'' ''NOT_REQUIRED''
          else commit_keys unhandled
            \<lparr>sya_operation_id = i, sya_key_fingerprints = dget (oper_validated_payload operation) ''ssh_key_fingerprints'',
             sya_idempotent_replay = truthy (dget_or answer ''idempotent_replay'' (PBool False))\<rparr>
            db (synced_db c t operation answer db1))"

definition begin_sync :: "key_call \<Rightarrow> sync_target \<Rightarrow> uuid \<Rightarrow> portal_ssh_key list \<Rightarrow> portal_db \<Rightarrow>
    (portal_operation \<times> portal_db) result" where
  "begin_sync c t key keys db =
     (if scalar (\<lambda>o1. oper_owner_managed_user_id o1 = Some (mu_id (sy_managed t)) \<and>
          oper_operation_type o1 = ''ssh_key.sync_active_container'' \<and> oper_status o1 = OP_RUNNING) (t_operations db) \<noteq> None
      then Inl (HTTPException 409 ''SSH_KEY_SYNC_IN_PROGRESS'')
      else if \<not> operations_constrained (t_operations db @ [sync_operation c t key]) then Inl unhandled
      else case workspace_path (mu_uid (sy_managed t)) of Inl e \<Rightarrow> Inl e
      | Inr path \<Rightarrow>
        let operation = (sync_operation c t key)\<lparr>oper_validated_payload := sync_payload c t path keys\<rparr> in
        Inr (operation, operation_event (kc_id c 2) (kc_now c) (oper_id operation) None OP_RUNNING
          ''Owner-bound active Container SSH key sync started'' (add_operation operation db)))"

definition execute_sync :: "key_call \<Rightarrow> sync_target \<Rightarrow> portal_operation \<Rightarrow> portal_db \<Rightarrow> sync_answer traced_action" where
  "execute_sync c t operation db1 db = (case judge_sync c t operation db1 (kc_worker c (sync_call c operation)) db of
     (answer, db) \<Rightarrow> (answer, [sync_call c operation], db))"

definition sync_active_container_ssh_keys :: "key_call \<Rightarrow> string \<Rightarrow> uuid \<Rightarrow> sync_answer traced_action" where
  "sync_active_container_ssh_keys c v key db =
     (case kc_csrf c of Inl e \<Rightarrow> (Inl e, [], db)
      | Inr _ \<Rightarrow>
        (case find_sync_target c v db of Inl e \<Rightarrow> (Inl e, [], db)
         | Inr t \<Rightarrow>
           let keys = keys_to_sync (mu_id (sy_managed t)) db;
               not_ready = HTTPException 409 ''SSH_KEY_SYNC_SET_NOT_READY'' in
           (case scalar (\<lambda>o1. oper_requested_by o1 = user_id (kc_user c) \<and> oper_idempotency_key o1 = sync_key t key)
               (t_operations db) of
              None \<Rightarrow>
                if \<not> key_set_ready keys then (Inl not_ready, [], db)
                else (case begin_sync c t key keys db of Inl e \<Rightarrow> (Inl e, [], db)
                  | Inr (operation, db1) \<Rightarrow> execute_sync c t operation db1 db)
            | Some operation \<Rightarrow>
              if oper_operation_type operation \<noteq> ''ssh_key.sync_active_container'' \<or>
                oper_owner_managed_user_id operation \<noteq> Some (mu_id (sy_managed t))
              then (Inl (HTTPException 409 ''IDEMPOTENCY_CONFLICT''), [], db)
              else if oper_status operation = OP_SUCCEEDED
              then (Inr \<lparr>sya_operation_id = oper_id operation,
                  sya_key_fingerprints = dget_or (oper_validated_payload operation) ''ssh_key_fingerprints'' (PList []),
                  sya_idempotent_replay = True\<rparr>, [], db)
              else if oper_status operation \<noteq> OP_RUNNING
              then (Inl (HTTPException 409 ''SSH_KEY_SYNC_RETRY_REQUIRED''), [], db)
              else if \<not> key_set_ready keys then (Inl not_ready, [], db)
              else execute_sync c t operation db db)))"

end
