(* ===== verification/Ssh_Guarantees.thy ===== *)
theory Ssh_Guarantees
  imports Ssh_Sync
begin

section \<open>What the key routes guarantee\<close>

text \<open>
  The properties of enrollment and synchronisation, over runs of both with the rest of the portal in between.
  \<open>key_moves\<close> says how a stored key may change: it keeps its identity and its content, and it never becomes
  active again.
\<close>

subsection \<open>Tables that an effect leaves alone\<close>

named_theorems key_simps "tables that an effect of the key routes leaves alone"

lemma audit_keeps [key_simps]:
  "t_ssh_keys (key_audit c n e ty i r m u db) = t_ssh_keys db"
  "t_operations (key_audit c n e ty i r m u db) = t_operations db"
  "t_managed_users (key_audit c n e ty i r m u db) = t_managed_users db"
  by (simp_all add: key_audit_def record_audit_def add_audit_event_def)

lemma event_keeps [key_simps]:
  "t_ssh_keys (operation_event i n j a b m db) = t_ssh_keys db"
  "t_operations (operation_event i n j a b m db) = t_operations db"
  "t_managed_users (operation_event i n j a b m db) = t_managed_users db"
  by (simp_all add: operation_event_def add_operation_event_def)

lemma rows_keep [key_simps]:
  "t_ssh_keys (modify_operation i f db) = t_ssh_keys db" "t_ssh_keys (modify_managed i g db) = t_ssh_keys db"
  "t_ssh_keys (add_operation r db) = t_ssh_keys db" "t_ssh_keys (add_ssh_key k db) = t_ssh_keys db @ [k]"
  "t_operations (modify_managed i g db) = t_operations db" "t_operations (add_ssh_key k db) = t_operations db"
  "t_operations (add_operation r db) = t_operations db @ [r]"
  by (simp_all add: row_simps)

lemma rejection_keeps [key_simps]:
  "t_ssh_keys (record_rejection c i e k db) = t_ssh_keys db" "t_operations (record_rejection c i e k db) = t_operations db"
  by (simp_all add: record_rejection_def key_simps)

lemma failure_keeps [key_simps]: "t_ssh_keys (sync_failure c i k r db) = t_ssh_keys db"
  by (simp add: sync_failure_def key_simps split: option.split)

subsection \<open>How a key changes\<close>

definition key_moves :: "portal_ssh_key \<Rightarrow> portal_ssh_key \<Rightarrow> bool" where
  "key_moves k k' \<longleftrightarrow> key_id k' = key_id k \<and> key_managed_user_id k' = key_managed_user_id k \<and>
     key_key_type k' = key_key_type k \<and> key_fingerprint_sha256 k' = key_fingerprint_sha256 k \<and>
     key_comment k' = key_comment k \<and> (key_active k' \<longrightarrow> key_active k) \<and>
     (key_state k' \<in> set [''VALIDATED'', ''INSTALLED''] \<longrightarrow> key_state k \<in> set [''VALIDATED'', ''INSTALLED''] \<and>
       key_public_key k' = key_public_key k \<and> key_content_sha256 k' = key_content_sha256 k)"

definition keys_kept :: "portal_db \<Rightarrow> portal_db \<Rightarrow> bool" where
  "keys_kept db db' \<longleftrightarrow> list_all2 key_moves (t_ssh_keys db) (t_ssh_keys db')"

text \<open>A key whose line is the canonical form of an approved blob, with its own fingerprint and digest.\<close>

definition key_line_ok :: "keygen \<Rightarrow> (string \<Rightarrow> string) \<Rightarrow> portal_ssh_key \<Rightarrow> bool" where
  "key_line_ok run sha256 k \<longleftrightarrow> (\<exists>blob line. approved_blob (key_key_type k) blob \<and>
     line = canonical_key (key_key_type k) blob (key_comment k) \<and> key_public_key k = Some line \<and>
     fingerprint_with_ssh_keygen run line = Inr (key_fingerprint_sha256 k) \<and>
     key_content_sha256 k = Some (sha256 (line @ [char_of (10 :: nat)])))"

definition key_sound :: "keygen \<Rightarrow> (string \<Rightarrow> string) \<Rightarrow> portal_ssh_key \<Rightarrow> bool" where
  "key_sound run sha256 k \<longleftrightarrow> ssh_key_checks k \<and> (key_state k = ''REVOKED'' \<or> key_line_ok run sha256 k)"

lemma key_moves_refl [simp]: "key_moves k k"
  by (simp add: key_moves_def)

lemma keys_kept_refl [simp]: "keys_kept db db"
  by (simp add: keys_kept_def list_all2_refl)

lemma keys_kept_same [simp]: "t_ssh_keys db' = t_ssh_keys db \<Longrightarrow> keys_kept db db'"
  by (simp add: keys_kept_def list_all2_refl)

lemma kept_count: "keys_kept db db' \<Longrightarrow> active_key_count mid db' \<le> active_key_count mid db"
  unfolding keys_kept_def active_key_count_def
  by (erule length_filter_list_all2) (auto simp: key_moves_def counted_key_def)

lemma moved_sound:
  assumes "key_moves k k'" and "key_sound run sha256 k" and "ssh_key_checks k'"
  shows "key_sound run sha256 k'"
proof (cases "key_state k' = ''REVOKED''")
  case False
  with assms(3) have "key_state k' \<in> set [''VALIDATED'', ''INSTALLED'']" by (auto simp: ssh_key_checks_def)
  with assms(1,2) show ?thesis using assms(3) by (auto simp: key_sound_def key_moves_def key_line_ok_def)
qed (simp add: key_sound_def assms(3))

lemma kept_sound:
  assumes "keys_kept db db'" and "\<forall>k \<in> set (t_ssh_keys db). key_sound run sha256 k"
    and "keys_constrained (t_ssh_keys db')"
  shows "\<forall>k \<in> set (t_ssh_keys db'). key_sound run sha256 k"
proof
  fix k' assume k': "k' \<in> set (t_ssh_keys db')"
  with assms(1) obtain k where "k \<in> set (t_ssh_keys db)" "key_moves k k'"
    unfolding keys_kept_def by (metis list_all2_conv_all_nth in_set_conv_nth)
  moreover have "ssh_key_checks k'" using assms(3) k' by (auto simp: keys_constrained_def list_all_iff)
  ultimately show "key_sound run sha256 k'" using assms(2) moved_sound by blast
qed

subsection \<open>Enrollment\<close>

lemma enroll_body_validated:
  assumes "enroll_body c body = Inr (enrollment, validated)"
  shows "validate_ssh_public_key (kc_keygen c) (kc_sha256 c) (ske_public_key enrollment) (ske_comment enrollment) =
      Inr validated" "\<not> private_material_in_request (PDict body)"
  using assms by (auto simp: enroll_body_def split: if_splits option.splits sum.splits)

lemma enroll_checksD:
  assumes "enroll_checks c target body db = Inr (enrollment, validated, managed)"
  shows "enroll_body c body = Inr (enrollment, validated)" "active_key_count (mu_id managed) db < 5"
    "managed_user_of target db = Inr managed"
  using assms by (auto simp: enroll_checks_def split: if_splits sum.splits)

text \<open>How an enrollment ends: nothing but a recorded refusal, a discarded preparation, or the stored key.\<close>

lemma enroll_cases:
  assumes "enroll_ssh_key c v body db = (answer, calls, db')"
  obtains (refused) e where "answer = Inl e" "calls = []" "db' = db"
  | (rejected) e target event error_code where "answer = Inl e" "calls = []"
      "db' = record_rejection c target event error_code db"
  | (discarded) e enrollment validated managed where "answer = Inl e" "db' = db"
      "calls = [prepare_call c enrollment validated managed, discard_call c validated]"
      "enroll_body c body = Inr (enrollment, validated)"
  | (stored) target enrollment validated managed reply where "answer = Inr (ssh_key_response (new_key c enrollment validated managed))"
      "calls = [prepare_call c enrollment validated managed]"
      "enroll_checks c target body db = Inr (enrollment, validated, managed)"
      "db' = enrolled_db c enrollment validated managed reply db" "key_constraints db'"
      "prepared_ok c validated reply"
proof -
  consider e where "kc_csrf c = Inl e" | e where "target_user c v True db = Inl e" "kc_csrf c = Inr ()"
    | target where "kc_csrf c = Inr ()" "target_user c v True db = Inr target"
    by (cases "kc_csrf c"; cases "target_user c v True db") auto
  then show thesis
  proof cases
    case 3
    note go = assms [unfolded enroll_ssh_key_def 3 sum.case]
    show ?thesis
    proof (cases "enroll_checks c target body db")
      case (Inl r)
      then show ?thesis using go rejected refused by (cases r; cases "fst r") auto
    next
      case (Inr x)
      obtain enrollment validated managed where x: "x = (enrollment, validated, managed)" by (cases x)
      note body = enroll_checksD(1) [OF Inr [unfolded x]]
      show ?thesis
      proof (cases "operations_constrained (t_operations db @ [enroll_operation c enrollment validated managed])")
        case True
        show ?thesis
        proof (cases "kc_worker c (prepare_call c enrollment validated managed)")
          case (Inl error_code)
          then show ?thesis using go Inr x True body discarded by auto
        next
          case (Inr reply)
          have stp: "store_prepared c enrollment validated managed reply db = (answer, calls, db')"
            using go \<open>enroll_checks c target body db = Inr x\<close> x True Inr by simp
          show ?thesis
          proof (cases "prepared_ok c validated reply \<and> key_constraints (enrolled_db c enrollment validated managed reply db)")
            case True
            then show ?thesis using stp stored \<open>enroll_checks c target body db = Inr x\<close> x
              by (auto simp: store_prepared_def commit_keys_def Let_def)
          next
            case False
            then show ?thesis using stp discarded body
              by (auto simp: store_prepared_def commit_keys_def Let_def split: sum.splits if_splits)
          qed
        qed
      qed (use go Inr x refused in auto)
    qed
  qed (use assms refused in \<open>auto simp: enroll_ssh_key_def\<close>)
qed

lemma enrolled_keys [key_simps]:
  "t_ssh_keys (enrolled_db c enrollment validated managed answer db) = t_ssh_keys db @ [new_key c enrollment validated managed]"
  by (simp add: enrolled_db_def Let_def key_simps)

lemma enrolled_operations [key_simps]:
  "t_operations (enrolled_db c enrollment validated managed answer db) =
    t_operations db @ [enrolled_operation c answer (enroll_operation c enrollment validated managed)]"
  by (simp add: enrolled_db_def Let_def key_simps)

lemma new_key_line:
  assumes "enroll_body c body = Inr (enrollment, validated)"
  shows "key_line_ok (kc_keygen c) (kc_sha256 c) (new_key c enrollment validated managed)"
  using validate_InrD [OF enroll_body_validated(1) [OF assms]] unfolding key_line_ok_def new_key_def
  by auto

lemma sound_new_key:
  assumes "enroll_body c body = Inr (enrollment, validated)" and "key_constraints (enrolled_db c enrollment validated managed reply db)"
  shows "key_sound (kc_keygen c) (kc_sha256 c) (new_key c enrollment validated managed)"
  using new_key_line [OF assms(1)] assms(2) by (simp add: key_sound_def key_constraints_def keys_constrained_def key_simps)

lemma enrolled_count:
  "active_key_count mid (enrolled_db c enrollment validated managed reply db) =
    active_key_count mid db + (if mid = mu_id managed then 1 else 0)"
  by (simp add: active_key_count_def key_simps counted_key_def new_key_def)

subsection \<open>Synchronisation\<close>

lemma sync_cases:
  assumes "sync_active_container_ssh_keys c v key db = (answer, calls, db')"
  obtains (idle) "calls = []" "db' = db"
  | (fresh) t operation db1 where "find_sync_target c v db = Inr t"
      "key_set_ready (keys_to_sync (mu_id (sy_managed t)) db)"
      "begin_sync c t key (keys_to_sync (mu_id (sy_managed t)) db) db = Inr (operation, db1)"
      "calls = [sync_call c operation]"
      "judge_sync c t operation db1 (kc_worker c (sync_call c operation)) db = (answer, db')"
  | (resumed) t operation where "find_sync_target c v db = Inr t" "operation \<in> set (t_operations db)"
      "oper_operation_type operation = ''ssh_key.sync_active_container''" "oper_status operation = OP_RUNNING"
      "judge_sync c t operation db (kc_worker c (sync_call c operation)) db = (answer, db')"
proof -
  consider e where "kc_csrf c = Inl e" | e where "find_sync_target c v db = Inl e" "kc_csrf c = Inr ()"
    | t where "kc_csrf c = Inr ()" "find_sync_target c v db = Inr t"
    by (cases "kc_csrf c"; cases "find_sync_target c v db") auto
  then show thesis
  proof cases
    case 3
    let ?keys = "keys_to_sync (mu_id (sy_managed t)) db"
    note go = assms [unfolded sync_active_container_ssh_keys_def 3 sum.case Let_def]
    show ?thesis
    proof (cases "scalar (\<lambda>o1. oper_requested_by o1 = user_id (kc_user c) \<and> oper_idempotency_key o1 = sync_key t key)
        (t_operations db)")
      case None
      show ?thesis
      proof (cases "key_set_ready ?keys")
        case True
        show ?thesis
        proof (cases "begin_sync c t key ?keys db")
          case (Inr r)
          obtain operation db1 where r: "r = (operation, db1)" by (cases r)
          obtain verdict db2 where j: "judge_sync c t operation db1 (kc_worker c (sync_call c operation)) db = (verdict, db2)"
            by fastforce
          then have "answer = verdict" "calls = [sync_call c operation]" "db' = db2"
            using go by (simp_all add: None True Inr r execute_sync_def)
          with j True Inr r 3(2) show ?thesis using fresh by blast
        qed (use go None True idle in simp)
      qed (use go None idle in simp)
    next
      case (Some operation)
      from scalar_SomeD [OF Some] have o1: "operation \<in> set (t_operations db)" by (rule conjunct1)
      show ?thesis
      proof (cases "oper_operation_type operation = ''ssh_key.sync_active_container'' \<and> oper_status operation = OP_RUNNING \<and>
          oper_owner_managed_user_id operation = Some (mu_id (sy_managed t)) \<and> key_set_ready ?keys")
        case True
        obtain verdict db2 where j: "judge_sync c t operation db (kc_worker c (sync_call c operation)) db = (verdict, db2)"
          by fastforce
        then have "answer = verdict" "db' = db2" using go by (simp_all add: Some True execute_sync_def)
        with j True o1 3(2) show ?thesis using resumed by blast
      qed (use go Some idle in \<open>simp split: if_splits\<close>)
    qed
  qed (use assms idle in \<open>auto simp: sync_active_container_ssh_keys_def\<close>)
qed

lemma commit_keys_cases:
  assumes "commit_keys e a before after = (answer, db')"
  obtains "answer = Inl e" "db' = before" | "answer = Inr a" "db' = after" "key_constraints after"
  using assms by (auto simp: commit_keys_def split: if_splits)

lemma judge_sync_cases:
  assumes "judge_sync c t operation db1 worker_answer db = (answer, db')"
  obtains (unchanged) e where "answer = Inl e" "db' = db"
  | (failed) e error_code rollback where "answer = Inl e" "key_constraints db'"
      "db' = sync_failure c (oper_id operation) error_code rollback db1"
  | (synced) a reply where "answer = Inr a" "db' = synced_db c t operation reply db1" "key_constraints db'"
      "worker_answer = Inr reply" "sync_answer_ok t operation reply"
      "\<forall>k \<in> set (t_ssh_keys db1). key_id k \<in> set (payload_texts (oper_validated_payload operation) ''ssh_key_record_ids'') \<longrightarrow>
        key_still_installable t k"
proof (cases worker_answer)
  case (Inl error_code)
  then show thesis using assms unchanged failed
    by (auto simp: judge_sync_def commit_keys_def Let_def split: if_splits)
next
  case (Inr reply)
  let ?ids = "payload_texts (oper_validated_payload operation) ''ssh_key_record_ids''"
  let ?persisted = "by_age (filter (\<lambda>k. key_id k \<in> set ?ids) (t_ssh_keys db1))"
  show thesis
  proof (cases "sync_answer_ok t operation reply \<and> map key_id ?persisted = ?ids \<and> list_all (key_still_installable t) ?persisted")
    case True
    then have "\<forall>k \<in> set (t_ssh_keys db1). key_id k \<in> set ?ids \<longrightarrow> key_still_installable t k"
      by (auto simp: list_all_iff by_age_def)
    with True show thesis using assms Inr unchanged synced
      by (auto simp: judge_sync_def commit_keys_def Let_def split: if_splits)
  next
    case False
    then show thesis using assms Inr unchanged failed
      by (auto simp: judge_sync_def commit_keys_def Let_def split: if_splits sum.splits)
  qed
qed

lemma begin_syncD:
  assumes "begin_sync c t key keys db = Inr (operation, db1)"
  obtains path where "operation = (sync_operation c t key)\<lparr>oper_validated_payload := sync_payload c t path keys\<rparr>"
    "t_ssh_keys db1 = t_ssh_keys db" "t_operations db1 = t_operations db @ [operation]"
    "workspace_path (mu_uid (sy_managed t)) = Inr path" "distinct (map oper_id (t_operations db1))"
  using assms by (auto simp: begin_sync_def Let_def key_simps operations_constrained_def sync_operation_def
      split: if_splits sum.splits)

lemma synced_tables [key_simps]:
  "t_ssh_keys (synced_db c t operation reply db) = update_where
    (\<lambda>k. key_id k \<in> set (payload_texts (oper_validated_payload operation) ''ssh_key_record_ids''))
    (install_key (kc_now c)) (t_ssh_keys db)"
  "t_operations (synced_db c t operation reply db) =
    update_where (\<lambda>o1. oper_id o1 = oper_id operation) (succeeded_sync c reply) (t_operations db)"
  by (simp_all add: synced_db_def Let_def key_simps modify_operation_def)

lemma judged_kept:
  assumes "judge_sync c t operation db1 worker_answer db = (answer, db')" and "t_ssh_keys db1 = t_ssh_keys db"
  shows "keys_kept db db'"
  using assms(1)
proof (cases rule: judge_sync_cases)
  case (synced a reply)
  have "key_moves k (install_key (kc_now c) k)" if "key_still_installable t k" for k
    using that by (auto simp: key_moves_def install_key_def key_still_installable_def)
  with synced(6) show ?thesis unfolding keys_kept_def synced(2) key_simps assms(2)
    by (intro list_all2_update_where) auto
qed (simp_all add: key_simps assms(2))

lemma sync_kept:
  assumes "sync_active_container_ssh_keys c v key db = (answer, calls, db')"
  shows "keys_kept db db'"
  using assms
proof (cases rule: sync_cases)
  case (fresh t operation db1)
  from fresh(3) have "t_ssh_keys db1 = t_ssh_keys db" by (rule begin_syncD)
  with fresh(5) show ?thesis by (rule judged_kept)
next
  case (resumed t operation)
  from resumed(5) show ?thesis by (rule judged_kept) simp
qed simp

lemma judged_constrained:
  assumes "judge_sync c t operation db1 worker_answer db = (answer, db')" and "t_ssh_keys db1 = t_ssh_keys db"
    and "keys_constrained (t_ssh_keys db)"
  shows "keys_constrained (t_ssh_keys db')"
  using assms(1)
  by (cases rule: judge_sync_cases) (use assms(2,3) in \<open>simp_all add: key_simps key_constraints_def\<close>)

lemma sync_constrained:
  assumes "sync_active_container_ssh_keys c v key db = (answer, calls, db')" and "keys_constrained (t_ssh_keys db)"
  shows "keys_constrained (t_ssh_keys db')"
  using assms(1)
proof (cases rule: sync_cases)
  case (fresh t operation db1)
  from fresh(3) have "t_ssh_keys db1 = t_ssh_keys db" by (rule begin_syncD)
  with fresh(5) show ?thesis using assms(2) by (rule judged_constrained)
next
  case (resumed t operation)
  from resumed(5) show ?thesis using assms(2) by (rule judged_constrained [OF _ refl])
qed (simp add: assms(2))

lemma find_sync_targetD:
  assumes "find_sync_target c v db = Inr t"
  shows "sy_managed t \<in> set (t_managed_users db)" "mu_portal_user_id (sy_managed t) = user_id (kc_user c)"
    "environment_active (sy_managed t)" "runtime_ready (kc_now c) (sy_managed t) (sy_container t) (sy_lease t)"
    "cont_owner_managed_user_id (sy_container t) = mu_id (sy_managed t)"
    "lease_owner_managed_user_id (sy_lease t) = mu_id (sy_managed t)" "gpu_binding_complete (sy_container t)"
proof -
  obtain target managed container lease where
    "target_user c v True db = Inr target" "user_id target = user_id (kc_user c)"
    and m: "managed_user_of target db = Inr managed" and "environment_active managed"
    and k: "scalar (\<lambda>k. cont_managed_user_id k = mu_id managed \<and> cont_owner_managed_user_id k = mu_id managed)
        (t_containers db) = Some container"
    and l: "scalar (\<lambda>l. lease_owner_managed_user_id l = mu_id managed) (order_desc lease_starts_at (t_leases db)) = Some lease"
    and "runtime_ready (kc_now c) managed container lease" "gpu_binding_complete container"
    and "t = \<lparr>sy_managed = managed, sy_container = container, sy_lease = lease\<rparr>"
    using assms by (auto simp: find_sync_target_def split: sum.splits if_splits option.splits)
  moreover from m have "scalar (\<lambda>m. mu_portal_user_id m = user_id target) (t_managed_users db) = Some managed"
    by (auto simp: managed_user_of_def split: option.splits if_splits)
  ultimately show "sy_managed t \<in> set (t_managed_users db)" "mu_portal_user_id (sy_managed t) = user_id (kc_user c)"
    "environment_active (sy_managed t)" "runtime_ready (kc_now c) (sy_managed t) (sy_container t) (sy_lease t)"
    "cont_owner_managed_user_id (sy_container t) = mu_id (sy_managed t)"
    "lease_owner_managed_user_id (sy_lease t) = mu_id (sy_managed t)" "gpu_binding_complete (sy_container t)"
    using scalar_SomeD [OF k] scalar_SomeD [OF l] by (auto dest: scalar_SomeD)
qed

lemma payload_ids:
  "payload_texts (sync_payload c t path keys) ''ssh_key_record_ids'' = map key_id keys"
  "payload_texts (sync_payload c t path keys) ''ssh_key_fingerprints'' = map key_fingerprint_sha256 keys"
  "dget (sync_payload c t path keys) ''username'' = PStr (mu_unix_username (sy_managed t))"
  by (simp_all add: payload_texts_def sync_payload_def Let_def dget_def dget_or_def List.map_filter_def comp_def)

lemma update_where_cong:
  "(\<And>r. r \<in> set rows \<Longrightarrow> p r = q r) \<Longrightarrow> update_where p f rows = update_where q f rows"
  by (induction rows) auto

lemma named_by_id:
  assumes "distinct (map key_id rows)" and "k \<in> set rows"
  shows "key_id k \<in> set (map key_id (by_age (filter p rows))) \<longleftrightarrow> p k"
  using assms by (auto simp: by_age_def distinct_map inj_on_def)

subsection \<open>Running synchronisations\<close>

lemma surjective_triple: "x = (fst x, fst (snd x), snd (snd x))"
  by simp

definition running_sync :: "portal_operation \<Rightarrow> bool" where
  "running_sync o1 \<longleftrightarrow> oper_operation_type o1 = ''ssh_key.sync_active_container'' \<and> oper_status o1 = OP_RUNNING"

definition no_running_sync :: "portal_db \<Rightarrow> bool" where
  "no_running_sync db \<longleftrightarrow> list_all (\<lambda>o1. \<not> running_sync o1) (t_operations db)"

lemma no_running_sync_filter: "no_running_sync db \<longleftrightarrow> filter running_sync (t_operations db) = []"
  by (simp add: no_running_sync_def list_all_iff filter_empty_conv)

lemma ended_operation:
  assumes "list_all (\<lambda>o1. \<not> running_sync o1) os" and "\<And>o1. \<not> running_sync (f o1)"
  shows "list_all (\<lambda>o1. \<not> running_sync o1) (update_where (\<lambda>o1. oper_id o1 = oper_id operation) f (os @ [operation]))"
  using assms by (auto simp: list_all_iff set_update_where)

lemma sync_ended:
  assumes "sync_active_container_ssh_keys c v key db = (answer, calls, db')" and "no_running_sync db"
  shows "no_running_sync db'"
  using assms(1)
proof (cases rule: sync_cases)
  case (fresh t operation db1)
  from fresh(3) obtain path where op: "operation = (sync_operation c t key)\<lparr>oper_validated_payload :=
      sync_payload c t path (keys_to_sync (mu_id (sy_managed t)) db)\<rparr>"
    and db1: "t_operations db1 = t_operations db @ [operation]" "distinct (map oper_id (t_operations db1))"
    by (rule begin_syncD)
  from db1(2) have "oper_id operation \<notin> oper_id ` set (t_operations db)" by (simp add: db1(1))
  then have "scalar (\<lambda>r. oper_id r = oper_id operation) (t_operations db) = None"
    unfolding scalar_None_iff by (metis image_eqI)
  then have found: "get_operation db1 (oper_id operation) = Some operation"
    by (simp add: get_operation_def db1(1) scalar_append)
  note ended = ended_operation [OF assms(2) [unfolded no_running_sync_def]]
  from fresh(5) show ?thesis
  proof (cases rule: judge_sync_cases)
    case (failed e error_code rollback)
    have "oper_status operation = OP_RUNNING" by (simp add: op sync_operation_def)
    then show ?thesis unfolding failed(3) no_running_sync_def
      by (simp add: sync_failure_def found key_simps modify_operation_def db1(1) del: update_where_append)
        (rule ended, simp add: failed_sync_def running_sync_def)
  next
    case (synced a reply)
    show ?thesis unfolding synced(2) no_running_sync_def key_simps db1(1)
      by (rule ended) (simp add: succeeded_sync_def running_sync_def)
  qed (simp add: assms(2))
next
  case (resumed t operation)
  then show ?thesis using assms(2) by (auto simp: no_running_sync_def list_all_iff running_sync_def)
qed (simp add: assms(2))

subsection \<open>Runs\<close>

datatype key_request = K_enroll string "(string \<times> pyval) list" | K_sync string uuid

fun serve_key :: "key_call \<Rightarrow> key_request \<Rightarrow> portal_db \<Rightarrow> portal_db" where
  "serve_key c (K_enroll v body) db = snd (snd (enroll_ssh_key c v body db))"
| "serve_key c (K_sync v key) db = snd (snd (sync_active_container_ssh_keys c v key db))"

text \<open>
  The two routes in any order, with whatever the rest of the portal does to keys in between: it stores none,
  activates none, and writes no operation of this type.
\<close>

inductive key_run :: "keygen \<Rightarrow> (string \<Rightarrow> string) \<Rightarrow> portal_db \<Rightarrow> portal_db \<Rightarrow> bool" for run sha256 db0 where
  start: "key_run run sha256 db0 db0"
| request: "key_run run sha256 db0 db \<Longrightarrow> kc_keygen c = run \<Longrightarrow> kc_sha256 c = sha256 \<Longrightarrow>
    key_run run sha256 db0 (serve_key c r db)"
| other: "key_run run sha256 db0 db \<Longrightarrow> keys_kept db db' \<Longrightarrow> keys_constrained (t_ssh_keys db') \<Longrightarrow>
    filter running_sync (t_operations db') = filter running_sync (t_operations db) \<Longrightarrow> key_run run sha256 db0 db'"

text \<open>A request keeps the keys, or it stores one that passed every check.\<close>

lemma serve_key_cases:
  obtains (kept) "keys_kept db (serve_key c r db)"
      "keys_constrained (t_ssh_keys db) \<Longrightarrow> keys_constrained (t_ssh_keys (serve_key c r db))"
  | (stored) target enrollment validated managed body reply where
      "enroll_checks c target body db = Inr (enrollment, validated, managed)"
      "serve_key c r db = enrolled_db c enrollment validated managed reply db" "key_constraints (serve_key c r db)"
proof (cases r)
  case (K_enroll v body)
  obtain answer calls db' where e: "enroll_ssh_key c v body db = (answer, calls, db')" by (metis prod_cases3)
  then have [simp]: "serve_key c r db = db'" by (simp add: K_enroll)
  from e show thesis
    by (cases rule: enroll_cases) (use kept stored in \<open>auto simp: key_simps\<close>)
next
  case (K_sync v key)
  obtain answer calls db' where e: "sync_active_container_ssh_keys c v key db = (answer, calls, db')" by (metis prod_cases3)
  then have "serve_key c r db = db'" by (simp add: K_sync)
  with sync_kept [OF e] sync_constrained [OF e] show thesis using kept by simp
qed

lemma enroll_operations:
  assumes "enroll_ssh_key c v body db = (answer, calls, db')" and "no_running_sync db"
  shows "no_running_sync db'"
  using assms(1)
  by (cases rule: enroll_cases) (use assms(2) in \<open>auto simp: no_running_sync_def key_simps running_sync_def
    enrolled_operation_def\<close>)

subsection \<open>The guarantees\<close>

text \<open>
  C24. A compute identity never has more than five active keys: whatever enrollments, synchronisations and changes
  by the rest of the portal follow each other, and for whatever answers of the worker.
\<close>

theorem active_keys_bounded:
  assumes "key_run run sha256 db0 db" and "active_key_count mid db0 \<le> 5"
  shows "active_key_count mid db \<le> 5"
  using assms(1)
proof induction
  case (request db c r)
  show ?case
  proof (cases rule: serve_key_cases [of db c r])
    case kept
    then show ?thesis using kept_count request.IH by (meson order_trans)
  next
    case (stored target enrollment validated managed body reply)
    with enroll_checksD(2) [OF stored(1)] request.IH show ?thesis by (simp add: enrolled_count)
  qed
next
  case (other db db')
  then show ?case using kept_count by (meson order_trans)
qed (rule assms(2))

text \<open>
  C21. The table of keys stays well formed over every run: each row satisfies the CHECK constraints, and the line of
  a key that is not revoked is the canonical form of a key blob of an approved type, stored with the fingerprint
  that \<open>ssh-keygen\<close> computes of that line and with its digest.
\<close>

theorem stored_keys_sound:
  assumes "key_run run sha256 db0 db" and "keys_constrained (t_ssh_keys db0)"
    and "\<forall>k \<in> set (t_ssh_keys db0). key_sound run sha256 k"
  shows "keys_constrained (t_ssh_keys db) \<and> (\<forall>k \<in> set (t_ssh_keys db). key_sound run sha256 k)"
  using assms(1)
proof induction
  case (request db c r)
  show ?case
  proof (cases rule: serve_key_cases [of db c r])
    case kept
    then show ?thesis using kept_sound request.IH by blast
  next
    case (stored target enrollment validated managed body reply)
    from sound_new_key [OF enroll_checksD(1) [OF stored(1)]] stored(2,3) request show ?thesis
      by (auto simp: key_simps key_constraints_def)
  qed
next
  case (other db db')
  then show ?case using kept_sound by blast
qed (use assms in blast)

text \<open>
  No synchronisation is ever left RUNNING in the database: the operation is committed only with its end. So the
  refusal of a second synchronisation in progress is never reached, and none is ever resumed.
\<close>

theorem no_sync_left_running:
  assumes "key_run run sha256 db0 db" and "no_running_sync db0"
  shows "no_running_sync db \<and> begin_sync c t key keys db \<noteq> Inl (HTTPException 409 ''SSH_KEY_SYNC_IN_PROGRESS'')"
proof -
  have none: "no_running_sync db"
    using assms(1)
  proof induction
    case (request db c r)
    then show ?case
      by (cases r) (auto intro: enroll_operations [OF surjective_triple] sync_ended [OF surjective_triple])
  next
    case (other db db')
    then show ?case by (simp add: no_running_sync_filter)
  qed (rule assms(2))
  moreover have "workspace_path uid \<noteq> Inl (HTTPException n e)" for uid n e
    by (simp add: workspace_path_def managed_id_def)
  ultimately show ?thesis
    by (auto simp: begin_sync_def no_running_sync_def running_sync_def list_all_iff scalar_None_iff unhandled_def Let_def
        split: sum.splits dest: scalar_SomeD)
qed

text \<open>
  C12. A synchronisation calls the worker for the caller's own active environment only, with a live lease, and names
  exactly his active container keys, of which those already installed come first. When it succeeds exactly these
  keys become INSTALLED; when it fails no key changes.
\<close>

theorem sync_installs_own_keys:
  assumes "sync_active_container_ssh_keys c v key db = (answer, calls, db')" and "calls \<noteq> []"
    and "no_running_sync db" and "keys_constrained (t_ssh_keys db)"
  shows "\<exists>managed container lease keys call. calls = [call] \<and> managed \<in> set (t_managed_users db) \<and>
    mu_portal_user_id managed = user_id (kc_user c) \<and> environment_active managed \<and>
    runtime_ready (kc_now c) managed container lease \<and> cont_owner_managed_user_id container = mu_id managed \<and>
    lease_owner_managed_user_id lease = mu_id managed \<and> key_set_ready keys \<and>
    set keys = {k \<in> set (t_ssh_keys db). container_key_of (mu_id managed) k} \<and>
    payload_texts (wr_payload call) ''ssh_key_record_ids'' = map key_id keys \<and>
    payload_texts (wr_payload call) ''ssh_key_fingerprints'' = map key_fingerprint_sha256 keys \<and>
    dget (wr_payload call) ''username'' = PStr (mu_unix_username managed) \<and>
    t_ssh_keys db' = (case answer of Inl _ \<Rightarrow> t_ssh_keys db
      | Inr _ \<Rightarrow> update_where (container_key_of (mu_id managed)) (install_key (kc_now c)) (t_ssh_keys db))"
  using assms(1)
proof (cases rule: sync_cases)
  case (fresh t operation db1)
  let ?keys = "keys_to_sync (mu_id (sy_managed t)) db"
  from fresh(3) obtain path where op: "operation = (sync_operation c t key)\<lparr>oper_validated_payload :=
      sync_payload c t path ?keys\<rparr>" and same: "t_ssh_keys db1 = t_ssh_keys db"
    by (rule begin_syncD)
  have payload: "wr_payload (sync_call c operation) = sync_payload c t path ?keys"
    "oper_validated_payload operation = sync_payload c t path ?keys"
    by (simp_all add: op sync_call_def worker_call_of_def)
  have "t_ssh_keys db' = (case answer of Inl _ \<Rightarrow> t_ssh_keys db
      | Inr _ \<Rightarrow> update_where (container_key_of (mu_id (sy_managed t))) (install_key (kc_now c)) (t_ssh_keys db))"
    using fresh(5)
  proof (cases rule: judge_sync_cases)
    case (synced a reply)
    have d: "distinct (map key_id (t_ssh_keys db))" using assms(4) by (simp add: keys_constrained_def)
    show ?thesis
      unfolding synced(1,2) synced_tables same payload payload_ids keys_to_sync_def sum.case
      by (rule update_where_cong) (rule named_by_id [OF d])
  qed (simp_all add: key_simps same)
  with fresh(2,4) find_sync_targetD [OF fresh(1)] show ?thesis
    by (intro exI [of _ "sy_managed t"] exI [of _ "sy_container t"] exI [of _ "sy_lease t"] exI [of _ ?keys]
        exI [of _ "sync_call c operation"]) (simp add: payload payload_ids keys_to_sync_def by_age_def)
next
  case (resumed t operation)
  with assms(3) show ?thesis by (auto simp: no_running_sync_def list_all_iff running_sync_def)
qed (use assms(2) in simp)

text \<open>
  C15. A request with private material in a field that is looked at fails before any call to the worker. An
  enrollment that fails stores nothing of the request: it leaves the database as it was, or with one entry of the audit trail that
  holds an error code only; and if the worker was asked to prepare the key, it is asked to discard it.
\<close>

theorem failed_enrollment_leaves_nothing:
  assumes "enroll_ssh_key c v body db = (answer, calls, db')"
  shows "(private_material_in_request (PDict body) \<longrightarrow> calls = [] \<and> (\<exists>e. answer = Inl e)) \<and>
    (\<forall>e. answer = Inl e \<longrightarrow>
      (db' = db \<or> (\<exists>target event error_code. db' = record_rejection c target event error_code db)) \<and>
      (calls = [] \<or> (\<exists>enrollment validated managed.
        calls = [prepare_call c enrollment validated managed, discard_call c validated])))"
  using assms
proof (cases rule: enroll_cases)
  case (discarded e enrollment validated managed)
  then show ?thesis using enroll_body_validated(2) by blast
next
  case (stored target enrollment validated managed reply)
  then show ?thesis using enroll_body_validated(2) [OF enroll_checksD(1)] by blast
qed blast+

end
