(* ===== verification/Ssh_Samples.thy ===== *)
theory Ssh_Samples
  imports Ssh_Guarantees Operation_Samples
begin

section \<open>Concrete requests to the key routes\<close>

text \<open>
  A user with a running environment, one installed key and one enrolled after it, and the calls at which the
  properties of \<open>Ssh_Guarantees\<close> are applied.
\<close>

definition key_owner_id :: uuid where
  "key_owner_id = ''00000000-0000-0000-0000-00000000000a''"

lemma key_owner_uuid: "uuid_of key_owner_id = Some key_owner_id"
  by code_simp

definition key_owner :: portal_user where
  "key_owner = (sample_user ''user'')\<lparr>user_id := key_owner_id, user_normalized_login := ''alice''\<rparr>"

definition stored_key :: "uuid \<Rightarrow> string \<Rightarrow> string \<Rightarrow> instant \<Rightarrow> portal_ssh_key" where
  "stored_key i state install created = \<lparr>key_id = i, key_managed_user_id = ''M'', key_owner_managed_user_id = ''M'',
     key_key_type = ''ssh-ed25519'', key_fingerprint_sha256 = ''SHA256:'' @ i, key_public_key = Some ''line'',
     key_comment = [], key_scope = ''CONTAINER'', key_state = state,
     key_host_install_state = ''NOT_INSTALLED'', key_container_install_state = install,
     key_generation_method = ''IMPORTED'', key_created_by = key_owner_id, key_enrollment_operation_id = Some i,
     key_staging_file_name = Some i, key_content_sha256 = Some i, key_approved_by = None,
     key_approved_at = None, key_validated_at = Some 0,
     key_installed_at = (if state = ''INSTALLED'' then Some 0 else None), key_active = True,
     key_created_at = created, key_revoked_at = None\<rparr>"

definition key_rows :: "portal_ssh_key list" where
  "key_rows = [stored_key ''k2'' ''VALIDATED'' ''NOT_INSTALLED'' 2, stored_key ''k1'' ''INSTALLED'' ''INSTALLED'' 1]"

definition keys_db :: portal_db where
  "keys_db = empty_db\<lparr>t_users := [key_owner], t_managed_users := [sample_managed\<lparr>mu_portal_user_id := key_owner_id\<rparr>],
     t_containers := [sample_container], t_leases := [sample_lease ''L1'' ''ACTIVE'' 0 86400 None],
     t_ssh_keys := key_rows\<rparr>"

definition key_sample :: key_call where
  "key_sample = \<lparr>kc_env = sample_op_env, kc_settings = default_settings, kc_request = sample_op_request,
     kc_context = sample_op_context\<lparr>ctx_user := key_owner\<rparr>, kc_worker = (\<lambda>_. Inl ''WORKER_UNAVAILABLE''),
     kc_keygen = sample_keygen, kc_sha256 = id, kc_lax_bool = (\<lambda>v. Some (truthy v)), kc_version = ''v''\<rparr>"

lemma key_csrf:
  "require_session_csrf (\<lambda>s. s) default_settings sample_op_request (sample_op_context\<lparr>ctx_user := key_owner\<rparr>) = Inr ()"
  by (simp add: require_session_csrf_def is_delegated_def is_cli_token_def sample_op_context_def
      sample_op_request_def sample_request_def ensure_allowed_origin_def header_def present_def default_settings_def
      csrf_pair_def cookie_def sample_session_def Let_def)

lemma key_sample_parts [simp]:
  "kc_csrf key_sample = Inr ()" "kc_user key_sample = key_owner" "kc_now key_sample = 10"
  "kc_id key_sample n = replicate n CHR ''i''" "kc_keygen key_sample = sample_keygen" "kc_sha256 key_sample = id"
  by (simp_all add: kc_csrf_def kc_user_def kc_now_def kc_id_def key_sample_def sample_op_env_def key_csrf)

lemma key_target: "target_user key_sample key_owner_id w keys_db = Inr key_owner"
  by (simp add: target_user_def user_id_of_def key_owner_uuid get_user_def keys_db_def key_owner_def)

lemma keys_db_constrained: "keys_constrained (t_ssh_keys keys_db)"
  by (simp add: keys_db_def keys_constrained_def key_rows_def stored_key_def ssh_key_checks_def present_values_def
      List.map_filter_def)

lemma keys_db_idle: "no_running_sync keys_db"
  by (simp add: no_running_sync_def keys_db_def empty_db_def)

definition key_body :: "(string \<times> pyval) list" where
  "key_body = [(''key_type'', PStr ''ssh-ed25519''), (''public_key'', PStr sample_ed25519), (''scope'', PStr ''CONTAINER''),
     (''generation_method'', PStr ''IMPORTED''), (''confirmed_public_key'', PBool True)]"

theorem active_keys_bounded_witness:
  "active_key_count ''M'' (serve_key key_sample (K_enroll key_owner_id key_body) keys_db) \<le> 5"
proof (rule active_keys_bounded)
  show "key_run sample_keygen id keys_db (serve_key key_sample (K_enroll key_owner_id key_body) keys_db)"
    by (rule key_run.request [OF key_run.start]) simp_all
  show "active_key_count ''M'' keys_db \<le> 5"
    by (simp add: active_key_count_def keys_db_def key_rows_def)
qed

text \<open>An enrollment into an empty table that the worker accepts.\<close>

definition first_key_db :: portal_db where
  "first_key_db = keys_db\<lparr>t_ssh_keys := []\<rparr>"

definition accepting :: key_call where
  "accepting = key_sample\<lparr>kc_worker := (\<lambda>_. Inr (PDict [(''status'', PStr ''SUCCEEDED''), (''record_id'', PStr ''i''),
     (''fingerprint_sha256'', PStr ''SHA256:q2Uw''), (''content_sha256'', PStr (sample_ed25519 @ [char_of (10 :: nat)]))]))\<rparr>"

theorem stored_keys_sound_witness:
  "list_all (key_sound sample_keygen id) (t_ssh_keys (serve_key accepting (K_enroll key_owner_id key_body) first_key_db))"
proof -
  have "key_run sample_keygen id first_key_db (serve_key accepting (K_enroll key_owner_id key_body) first_key_db)"
    by (rule key_run.request [OF key_run.start]) (simp_all add: accepting_def key_sample_def)
  from stored_keys_sound [OF this] show ?thesis
    by (simp add: list_all_iff first_key_db_def keys_constrained_def present_values_def List.map_filter_def)
qed

theorem no_sync_left_running_witness:
  "no_running_sync (serve_key key_sample (K_sync key_owner_id ''r'') keys_db)"
proof -
  have "key_run sample_keygen id keys_db (serve_key key_sample (K_sync key_owner_id ''r'') keys_db)"
    by (rule key_run.request [OF key_run.start]) simp_all
  from no_sync_left_running [OF this keys_db_idle] show ?thesis by (rule conjunct1)
qed

subsection \<open>A synchronisation\<close>

definition key_target_sample :: sync_target where
  "key_target_sample = \<lparr>sy_managed = sample_managed\<lparr>mu_portal_user_id := key_owner_id\<rparr>, sy_container = sample_container,
     sy_lease = sample_lease ''L1'' ''ACTIVE'' 0 86400 None\<rparr>"

lemma sample_find_target: "find_sync_target key_sample key_owner_id keys_db = Inr key_target_sample"
proof -
  have managed: "managed_user_of key_owner keys_db = Inr (sample_managed\<lparr>mu_portal_user_id := key_owner_id\<rparr>)"
    by (simp add: managed_user_of_def keys_db_def key_owner_def sample_managed_def)
  show ?thesis
    by (simp add: find_sync_target_def key_target managed)
      (simp add: keys_db_def environment_active_def runtime_ready_def gpu_binding_complete_def sample_managed_def
        sample_container_def sample_lease_def order_desc_def GPU_DEVELOPMENT_PROFILE_def key_target_sample_def seconds_def)
qed

lemma sample_keys: "keys_to_sync ''M'' keys_db = rev key_rows"
  by (simp add: keys_to_sync_def by_age_def order_asc_def keys_db_def key_rows_def container_key_of_def stored_key_def
      List_Lexorder.list_less_def)

lemma sample_ready: "key_set_ready (rev key_rows)"
  by (simp add: key_set_ready_def current_keys_def key_rows_def stored_key_def)

theorem sync_installs_own_keys_witness:
  "\<exists>answer call db'. sync_active_container_ssh_keys key_sample key_owner_id ''r'' keys_db = (answer, [call], db') \<and>
     set (payload_texts (wr_payload call) ''ssh_key_record_ids'') = {''k1'', ''k2''}"
proof -
  obtain answer calls db' where run: "sync_active_container_ssh_keys key_sample key_owner_id ''r'' keys_db = (answer, calls, db')"
    by (metis prod_cases3)
  have mid: "mu_id (sy_managed key_target_sample) = ''M''" "mu_uid (sy_managed key_target_sample) = 20001"
    by (simp_all add: key_target_sample_def sample_managed_def)
  have ops: "t_operations keys_db = []" by (simp add: keys_db_def empty_db_def)
  have "\<exists>operation db1. begin_sync key_sample key_target_sample ''r'' (rev key_rows) keys_db = Inr (operation, db1)"
    by (simp add: begin_sync_def mid ops sample_workspace_path operations_constrained_def Let_def)
  then have "calls \<noteq> []"
    using run by (auto simp: sync_active_container_ssh_keys_def sample_find_target mid sample_keys sample_ready ops
        execute_sync_def Let_def split: prod.splits)
  from sync_installs_own_keys [OF run this keys_db_idle keys_db_constrained] obtain managed keys call where
    call: "calls = [call]" and m: "managed \<in> set (t_managed_users keys_db)"
    and "set keys = {k \<in> set (t_ssh_keys keys_db). container_key_of (mu_id managed) k}"
    and ids: "payload_texts (wr_payload call) ''ssh_key_record_ids'' = map key_id keys"
    by blast
  moreover have "mu_id managed = ''M''" using m by (simp add: keys_db_def sample_managed_def)
  moreover have "list_all (container_key_of ''M'') key_rows"
    by (simp add: key_rows_def container_key_of_def stored_key_def)
  then have "{k \<in> set (t_ssh_keys keys_db). container_key_of ''M'' k} = set key_rows"
    by (auto simp: list_all_iff keys_db_def)
  ultimately have "set keys = set key_rows" by simp
  then have "set (payload_texts (wr_payload call) ''ssh_key_record_ids'') = {''k1'', ''k2''}"
    unfolding ids by (simp add: key_rows_def stored_key_def insert_commute)
  with run call show ?thesis by blast
qed

theorem failed_enrollment_leaves_nothing_witness:
  "fst (snd (enroll_ssh_key key_sample key_owner_id [(''Private_Key'', PStr ''x'')] keys_db)) = [] \<and>
   (\<exists>e. fst (enroll_ssh_key key_sample key_owner_id [(''Private_Key'', PStr ''x'')] keys_db) = Inl e)"
proof -
  have "private_material_in_request (PDict [(''Private_Key'', PStr ''x'')])"
    by code_simp
  with failed_enrollment_leaves_nothing [OF surjective_triple] show ?thesis by blast
qed

end
