(* ===== verification/Schema_Checks.thy ===== *)
theory Schema_Checks
  imports Operation_Execution Ssh_Sync
begin

section \<open>What the worker checks in a payload\<close>

text \<open>
  The first part of \<open>schemas.py\<close> of the root worker: the constants, the patterns, and the checks its
  validators share. A payload is the dictionary of a request. A validator is a list of guards, of which the
  first that holds names the error, followed by the fields of its result, read in order. The human text beside
  an error code is not modelled. A \<open>ValueError\<close> without a code is \<open>ValueError\<close>; \<open>TypeError\<close> is what
  Python raises for a list or dictionary looked up in a set.
\<close>

subsection \<open>Guards and results\<close>

definition refusing :: "(bool \<times> exn) list \<Rightarrow> 'a result \<Rightarrow> 'a result" where
  "refusing guards r = (case refuse_if guards of Some e \<Rightarrow> Inl e | None \<Rightarrow> r)"

definition and_then :: "'a result \<Rightarrow> ('a \<Rightarrow> 'b result) \<Rightarrow> 'b result" where
  "and_then r f = (case r of Inl e \<Rightarrow> Inl e | Inr x \<Rightarrow> f x)"

fun collect :: "(string \<times> pyval result) list \<Rightarrow> (string \<times> pyval) list result" where
  "collect [] = Inr []"
| "collect ((k, r) # fs) = (case r of Inl e \<Rightarrow> Inl e
     | Inr v \<Rightarrow> (case collect fs of Inl e \<Rightarrow> Inl e | Inr d \<Rightarrow> Inr ((k, v) # d)))"

abbreviation rejected :: "string \<Rightarrow> exn" where
  "rejected error_code \<equiv> PayloadValidationError error_code"

lemma refusing_Inr [simp]: "refusing guards r = Inr x \<longleftrightarrow> refuse_if guards = None \<and> r = Inr x"
  by (simp add: refusing_def split: option.split)

lemma refuse_if_append [simp]: "refuse_if (guards @ others) = None \<longleftrightarrow> refuse_if guards = None \<and> refuse_if others = None"
  by (induction guards rule: refuse_if.induct) auto

lemma no_refusal [simp]: "((if b then Some e else r) = None) \<longleftrightarrow> \<not> b \<and> r = None"
  by simp

lemma and_then_Inr [simp]: "and_then r f = Inr y \<longleftrightarrow> (\<exists>x. r = Inr x \<and> f x = Inr y)"
  by (cases r) (simp_all add: and_then_def)

lemma collect_Inr_Cons [simp]:
  "collect ((k, r) # fs) = Inr d \<longleftrightarrow> (\<exists>v d'. r = Inr v \<and> collect fs = Inr d' \<and> d = (k, v) # d')"
  by (cases r; cases "collect fs") auto

declare collect.simps(2) [simp del]

lemma collect_keys: "collect fs = Inr d \<Longrightarrow> map fst d = map fst fs"
  by (induction fs arbitrary: d) auto

type_synonym payload = "(string \<times> pyval) list"

definition keys_of :: "payload \<Rightarrow> string list" where
  "keys_of p = map fst p"

definition field :: "payload \<Rightarrow> string \<Rightarrow> pyval" where
  "field p k = dget (PDict p) k"

text \<open>\<open>set(payload) != fields\<close>, and \<open>set(payload) & fields\<close>.\<close>

definition exact_keys :: "payload \<Rightarrow> string list \<Rightarrow> bool" where
  "exact_keys p ks \<longleftrightarrow> set (keys_of p) = set ks"

definition any_key :: "payload \<Rightarrow> string list \<Rightarrow> bool" where
  "any_key p ks \<longleftrightarrow> list_ex (\<lambda>k. k \<in> set (keys_of p)) ks"

subsection \<open>Constants\<close>

definition WORKER_FORBIDDEN_FIELDS :: "string list" where
  "WORKER_FORBIDDEN_FIELDS = [''raw_private_key'', ''private_key'', ''private_key_password'',
     ''private_key_path'', ''password'', ''command'', ''argv'', ''path'']"

definition PROTECTED_HOST_USERS :: "string list" where
  "PROTECTED_HOST_USERS = [''root'', ''origin-al'', ''codexops'']"

definition PILOT_UID_MIN :: int where "PILOT_UID_MIN = 20000"

definition PILOT_UID_MAX :: int where "PILOT_UID_MAX = 60000"

definition PROJECT_ID_MIN :: int where "PROJECT_ID_MIN = 30000"

definition PROJECT_ID_MAX :: int where "PROJECT_ID_MAX = 39999"

definition PILOT_SSH_PORT_MIN :: int where "PILOT_SSH_PORT_MIN = 22023"

definition PILOT_SSH_PORT_MAX :: int where "PILOT_SSH_PORT_MAX = 22999"

definition STANDARD_COMPUTE_STORAGE_BYTES :: int where
  "STANDARD_COMPUTE_STORAGE_BYTES = 300 * 1024 ^ 3"

definition STANDARD_COMPUTE_LEASE_SECONDS :: int where
  "STANDARD_COMPUTE_LEASE_SECONDS = 96 * 60 * 60"

lemmas schema_constants = PILOT_UID_MIN_def PILOT_UID_MAX_def PROJECT_ID_MIN_def PROJECT_ID_MAX_def
  PILOT_SSH_PORT_MIN_def PILOT_SSH_PORT_MAX_def STANDARD_COMPUTE_STORAGE_BYTES_def
  STANDARD_COMPUTE_LEASE_SECONDS_def

subsection \<open>Texts\<close>

text \<open>
  \<open>not isinstance(v, str) or re.fullmatch(...) is None\<close> is the negation of \<open>text_matches\<close>. \<open>SAFE_USERNAME\<close>
  is the expression of login names and \<open>SAFE_IDENTIFIER\<close> that of target identifiers.
\<close>

definition text_matches :: "(string \<Rightarrow> bool) \<Rightarrow> pyval \<Rightarrow> bool" where
  "text_matches ok v = (case text_of v of None \<Rightarrow> False | Some s \<Rightarrow> ok s)"

definition safe_username :: "pyval \<Rightarrow> bool" where
  "safe_username v = text_matches login_re v"

definition safe_identifier :: "pyval \<Rightarrow> bool" where
  "safe_identifier v = text_matches safe_target_re v"

definition protected_name :: "string list \<Rightarrow> pyval \<Rightarrow> bool" where
  "protected_name names v \<longleftrightarrow> list_ex (\<lambda>n. v = PStr n) names"

definition gpu_uuid_re :: "string \<Rightarrow> bool" where
  "gpu_uuid_re s \<longleftrightarrow> starts_with s ''GPU-'' \<and> 36 \<le> length s \<and> length s \<le> 44 \<and>
     list_all (\<lambda>c. is_digit c \<or> c \<in> set ''abcdefABCDEF-'') (drop 4 s)"

definition deployment_version_ok :: "pyval \<Rightarrow> bool" where
  "deployment_version_ok v = text_matches (\<lambda>s. s = ''SOURCE_WORKTREE'' \<or> lower_hex 40 s) v"

text \<open>A lookup in a set of values: \<open>unhashable\<close> says that Python raises \<open>TypeError\<close> instead.\<close>

fun unhashable :: "pyval \<Rightarrow> bool" where
  "unhashable (PList xs) = True"
| "unhashable (PDict kvs) = True"
| "unhashable (PTuple xs) = list_ex unhashable xs"
| "unhashable _ = False"

definition in_values :: "pyval \<Rightarrow> pyval list \<Rightarrow> bool" where
  "in_values v vs \<longleftrightarrow> list_ex (py_eq v) vs"

definition one_of :: "pyval \<Rightarrow> string list \<Rightarrow> bool" where
  "one_of v names \<longleftrightarrow> list_ex (\<lambda>n. v = PStr n) names"

abbreviation unhashable_type :: exn where
  "unhashable_type \<equiv> TypeError ''unhashable type''"

subsection \<open>Numbers\<close>

definition is_bool :: "pyval \<Rightarrow> bool" where
  "is_bool v \<longleftrightarrow> v = PBool True \<or> v = PBool False"

text \<open>\<open>isinstance(v, int) and minimum <= v <= maximum\<close>, where a boolean is an integer.\<close>

definition int_within :: "int \<Rightarrow> int \<Rightarrow> pyval \<Rightarrow> bool" where
  "int_within minimum maximum v = (case py_int v of None \<Rightarrow> False | Some n \<Rightarrow> minimum \<le> n \<and> n \<le> maximum)"

definition plain_int_between :: "int \<Rightarrow> int \<Rightarrow> pyval \<Rightarrow> bool" where
  "plain_int_between minimum maximum v \<longleftrightarrow> \<not> is_bool v \<and> int_within minimum maximum v"

definition int_field :: "pyval \<Rightarrow> int" where
  "int_field v = (case py_int v of None \<Rightarrow> 0 | Some n \<Rightarrow> n)"

lemma plain_int_betweenD: "plain_int_between lo hi v \<Longrightarrow> \<exists>n. v = PInt n \<and> lo \<le> n \<and> n \<le> hi"
  by (cases v) (auto simp: plain_int_between_def int_within_def is_bool_def split: if_splits)

lemma plain_int_between_PInt [simp]: "plain_int_between lo hi (PInt n) \<longleftrightarrow> lo \<le> n \<and> n \<le> hi"
  by (simp add: plain_int_between_def int_within_def is_bool_def)

lemma int_field_PInt [simp]: "int_field (PInt n) = n"
  by (simp add: int_field_def)

subsection \<open>Identifiers\<close>

definition canonical_uuid :: "string \<Rightarrow> pyval \<Rightarrow> pyval result" where
  "canonical_uuid error_code v = (case text_of v of None \<Rightarrow> Inl (rejected error_code)
     | Some s \<Rightarrow> (case uuid_of s of None \<Rightarrow> Inl (rejected error_code) | Some i \<Rightarrow> Inr (PStr i)))"

definition canonical_id :: "pyval \<Rightarrow> pyval result" where
  "canonical_id v = canonical_uuid ''PAYLOAD_REJECTED'' v"

fun canonical_ids :: "pyval list \<Rightarrow> pyval list result" where
  "canonical_ids [] = Inr []"
| "canonical_ids (v # vs) = (case canonical_id v of Inl e \<Rightarrow> Inl e
     | Inr i \<Rightarrow> (case canonical_ids vs of Inl e \<Rightarrow> Inl e | Inr is \<Rightarrow> Inr (i # is)))"

text \<open>\<open>_managed_identity\<close>: the coordinates of a managed user.\<close>

definition identity_fields :: "payload \<Rightarrow> payload result" where
  "identity_fields p =
     (let username = field p ''username''; uid = field p ''uid''; gid = field p ''gid'' in
      refusing [(\<not> safe_username username \<or> protected_name (PROTECTED_HOST_USERS @ [''nobody'']) username \<or>
          \<not> plain_int_between PILOT_UID_MIN PILOT_UID_MAX uid \<or>
          \<not> plain_int_between PILOT_UID_MIN PILOT_UID_MAX gid, rejected ''RESOURCE_OWNERSHIP_REJECTED'')]
        (collect [(''managed_user_id'', canonical_id (field p ''managed_user_id'')), (''username'', Inr username),
          (''uid'', Inr uid), (''gid'', Inr gid)]))"

text \<open>\<open>_compute_request_identity\<close>: the coordinates of a compute request.\<close>

definition compute_request_identity :: "payload \<Rightarrow> payload result" where
  "compute_request_identity p =
     (let username = field p ''username'' in
      refusing [(\<not> safe_username username, rejected ''COMPUTE_PLAN_PAYLOAD_REJECTED''),
          (protected_name PROTECTED_HOST_USERS username, rejected ''COMPUTE_PLAN_PAYLOAD_REJECTED'')]
        (collect [(''request_id'', canonical_id (field p ''request_id'')),
          (''portal_account_id'', canonical_id (field p ''portal_account_id'')), (''username'', Inr username)]))"

text \<open>\<open>str(workspace_path(uid))\<close> and the container's name, of fields that passed the checks before.\<close>

definition container_of :: "pyval \<Rightarrow> pyval" where
  "container_of username = PStr (''gpu-dev-'' @ py_str username)"

definition workspace_of :: "pyval \<Rightarrow> pyval result" where
  "workspace_of uid = (case workspace_path (int_field uid) of Inl e \<Rightarrow> Inl e | Inr path \<Rightarrow> Inr (PStr (path_str path)))"

definition binding_of :: "payload \<Rightarrow> workspace_coordinates result" where
  "binding_of identity = workspace_binding (py_str (field identity ''username''))
     (int_field (field identity ''uid'')) (int_field (field identity ''gid'')) LEGACY_BIND_ALIAS"

subsection \<open>Development profiles and GPU allocations\<close>

definition known_profile :: "pyval \<Rightarrow> bool" where
  "known_profile v \<longleftrightarrow> one_of v [CPU_DEVELOPMENT_PROFILE, GPU_DEVELOPMENT_PROFILE]"

definition profile_gpus :: "pyval \<Rightarrow> pyval" where
  "profile_gpus v = (case profile_gpu_count (py_str v) of Inl _ \<Rightarrow> PNone | Inr n \<Rightarrow> PInt n)"

definition profile_guard :: "string \<Rightarrow> pyval \<Rightarrow> (bool \<times> exn) list" where
  "profile_guard error_code v = [(unhashable v, unhashable_type), (\<not> known_profile v, rejected error_code)]"

definition expected_gpu_of :: "pyval \<Rightarrow> pyval \<Rightarrow> pyval" where
  "expected_gpu_of job uuid = PStr (if job \<noteq> PNone \<and> uuid \<noteq> PNone then ''SLURM_ALLOCATED_1'' else ''NONE'')"

text \<open>The conditions on an allocation that is present: a GPU profile, a job number, a GPU's UUID.\<close>

definition allocation_ok :: "pyval \<Rightarrow> pyval \<Rightarrow> pyval \<Rightarrow> bool" where
  "allocation_ok profile job uuid \<longleftrightarrow> profile = PStr GPU_DEVELOPMENT_PROFILE \<and>
     plain_int_between 1 (2 ^ 63 - 1) job \<and> text_matches gpu_uuid_re uuid"

lemma known_profileD:
  "known_profile v \<Longrightarrow> v = PStr CPU_DEVELOPMENT_PROFILE \<or> v = PStr GPU_DEVELOPMENT_PROFILE"
  by (auto simp: known_profile_def one_of_def)

subsection \<open>Keys\<close>

definition key_fingerprint :: "pyval \<Rightarrow> bool" where
  "key_fingerprint v = text_matches fingerprint_pattern v"

definition fingerprints_ok :: "pyval \<Rightarrow> bool" where
  "fingerprints_ok v \<longleftrightarrow> is_list v \<and> list_all key_fingerprint (list_items v)"

definition sorted_texts :: "pyval list \<Rightarrow> pyval" where
  "sorted_texts vs = PList (map PStr (sort (List.map_filter text_of vs)))"

definition validated_key_fingerprints :: "pyval \<Rightarrow> pyval result" where
  "validated_key_fingerprints v = refusing
     [(\<not> is_list v \<or> \<not> (1 \<le> length (list_items v) \<and> length (list_items v) \<le> 5) \<or> \<not> fingerprints_ok v \<or>
       \<not> distinct (list_items v), rejected ''CONTAINER_KEY_BINDING_REJECTED'')]
     (Inr (sorted_texts (list_items v)))"

subsection \<open>Paths of a user\<close>

definition relative_user_path :: "pyval \<Rightarrow> pyval result" where
  "relative_user_path v = (case text_of v of None \<Rightarrow> Inl (rejected ''ARBITRARY_PATH_REJECTED'')
     | Some s \<Rightarrow> refusing
         [(\<not> (1 \<le> length s \<and> length s \<le> 255) \<or> char_of (0 :: nat) \<in> set s, rejected ''ARBITRARY_PATH_REJECTED''),
          (starts_with s ''/'' \<or> list_ex (\<lambda>part. part \<in> set ['''', ''.'', ''..'']) (split_on (CHR ''/'') s),
           rejected ''ARBITRARY_PATH_REJECTED'')] (Inr v))"

end
