(* ===== verification/Schema_Times.thy ===== *)
theory Schema_Times
  imports Schema_Checks
begin

section \<open>Timestamps in a payload\<close>

text \<open>
  \<open>datetime.fromisoformat\<close> and the two checks built on it. The reader knows the extended calendar form
  \<open>YYYY-MM-DD\<close>, a separator, \<open>HH[:MM[:SS[.f]]]\<close> and an offset; the basic and the week forms of ISO 8601,
  which no program here writes, are refused by it. A \<open>PTime\<close> is a text written by \<open>isoformat\<close>. One request
  is validated at one instant \<open>now\<close>.
\<close>

definition read_digits :: "nat \<Rightarrow> string \<Rightarrow> (int \<times> string) option" where
  "read_digits n s =
     (if n \<le> length s \<and> list_all is_digit (take n s) then Some (int (read_nat (take n s)), drop n s) else None)"

definition leap_year :: "int \<Rightarrow> bool" where
  "leap_year y \<longleftrightarrow> y mod 4 = 0 \<and> (y mod 100 \<noteq> 0 \<or> y mod 400 = 0)"

definition month_days :: "int \<Rightarrow> int \<Rightarrow> int" where
  "month_days y m = (if m = 2 then (if leap_year y then 29 else 28) else if m \<in> set [4, 6, 9, 11] then 30 else 31)"

definition days_of_civil :: "int \<Rightarrow> int \<Rightarrow> int \<Rightarrow> int" where
  "days_of_civil y m d =
     (let y = (if m \<le> 2 then y - 1 else y); yoe = y mod 400;
          doy = (153 * (if 2 < m then m - 3 else m + 9) + 2) div 5 + d - 1
      in y div 400 * 146097 + (yoe * 365 + yoe div 4 - yoe div 100 + doy) - 719468)"

definition date_fields :: "string \<Rightarrow> (int \<times> int \<times> int) option" where
  "date_fields s = (case read_digits 4 s of
     Some (y, c1 # s1) \<Rightarrow> (case read_digits 2 s1 of
       Some (m, c2 # s2) \<Rightarrow> (case read_digits 2 s2 of
         Some (d, []) \<Rightarrow> if c1 = CHR ''-'' \<and> c2 = CHR ''-'' \<and> 1 \<le> y \<and> 1 \<le> m \<and> m \<le> 12 \<and> 1 \<le> d \<and> d \<le> month_days y m
           then Some (y, m, d) else None
       | _ \<Rightarrow> None)
     | _ \<Rightarrow> None)
   | _ \<Rightarrow> None)"

definition fraction :: "string \<Rightarrow> int" where
  "fraction f = int (read_nat (take 6 (f @ ''000000'')))"

definition clock_fields :: "string \<Rightarrow> (int \<times> int \<times> int \<times> int) option" where
  "clock_fields s = (case read_digits 2 s of
     None \<Rightarrow> None
   | Some (h, []) \<Rightarrow> Some (h, 0, 0, 0)
   | Some (h, c1 # s1) \<Rightarrow> if c1 \<noteq> CHR '':'' then None else
     (case read_digits 2 s1 of
        None \<Rightarrow> None
      | Some (m, []) \<Rightarrow> Some (h, m, 0, 0)
      | Some (m, c2 # s2) \<Rightarrow> if c2 \<noteq> CHR '':'' then None else
        (case read_digits 2 s2 of
           None \<Rightarrow> None
         | Some (sec, []) \<Rightarrow> Some (h, m, sec, 0)
         | Some (sec, c3 # f) \<Rightarrow> if c3 \<in> set ''.,'' \<and> f \<noteq> [] \<and> list_all is_digit f
             then Some (h, m, sec, fraction f) else None)))"

definition clock_micros :: "int \<times> int \<times> int \<times> int \<Rightarrow> int" where
  "clock_micros t = (case t of (h, m, sec, us) \<Rightarrow> seconds (3600 * h + 60 * m + sec) + us)"

definition clock_ok :: "int \<times> int \<times> int \<times> int \<Rightarrow> bool" where
  "clock_ok t = (case t of (h, m, sec, us) \<Rightarrow> (h \<le> 23 \<and> m \<le> 59 \<and> sec \<le> 59) \<or> (h = 24 \<and> m = 0 \<and> sec = 0 \<and> us = 0))"

text \<open>The instant, and whether the text has an offset. Without one the instant is that of the local time.\<close>

definition datetime_of_text :: "string \<Rightarrow> (instant \<times> bool) option" where
  "datetime_of_text s = (case date_fields (take 10 s) of
     None \<Rightarrow> None
   | Some (y, m, d) \<Rightarrow>
     let day = seconds (86400 * days_of_civil y m d); time = drop 11 s;
         clock = takeWhile (\<lambda>c. c \<notin> set ''+-'') time; offset = dropWhile (\<lambda>c. c \<notin> set ''+-'') time in
     if time = [] then Some (day, False)
     else case clock_fields clock of None \<Rightarrow> None
       | Some t \<Rightarrow> if \<not> clock_ok t then None
         else case offset of [] \<Rightarrow> Some (day + clock_micros t, False)
           | sign # z \<Rightarrow> (case clock_fields z of None \<Rightarrow> None
             | Some (h, mi, sec, us) \<Rightarrow> if 23 < h \<or> 59 < mi \<or> 59 < sec then None
               else Some (day + clock_micros t -
                 (if sign = CHR ''-'' then - 1 else 1) * clock_micros (h, mi, sec, us), True)))"

definition replace_z :: "string \<Rightarrow> string" where
  "replace_z s = concat (map (\<lambda>c. if c = CHR ''Z'' then ''+00:00'' else [c]) s)"

text \<open>\<open>datetime.fromisoformat(str(v).replace("Z", "+00:00"))\<close>.\<close>

definition iso_time :: "pyval \<Rightarrow> (instant \<times> bool) option" where
  "iso_time v = (case v of PTime t \<Rightarrow> Some (t, True) | _ \<Rightarrow> datetime_of_text (replace_z (py_str v)))"

lemma iso_time_PTime [simp]: "iso_time (PTime t) = Some (t, True)"
  by (simp add: iso_time_def)

text \<open>\<open>astimezone(UTC)\<close>: an offset may carry an instant out of the years 1 to 9999.\<close>

definition EARLIEST :: instant where
  "EARLIEST = seconds (86400 * days_of_civil 1 1 1)"

definition LATEST :: instant where
  "LATEST = seconds (86400 * days_of_civil 10000 1 1) - 1"

definition as_utc :: "instant \<Rightarrow> instant result" where
  "as_utc t = (if EARLIEST \<le> t \<and> t \<le> LATEST then Inr t else Inl (OverflowError ''date value out of range''))"

definition short_text :: "pyval \<Rightarrow> bool" where
  "short_text v = text_matches (\<lambda>s. length s \<le> 64) v"

text \<open>
  A text of at most 64 characters that is a timestamp with an offset, as \<open>_validate_restore_rollback\<close> and others
  read one; \<open>naive\<close> is the code for a timestamp without offset.
\<close>

definition aware_time :: "string \<Rightarrow> string \<Rightarrow> pyval \<Rightarrow> instant result" where
  "aware_time refused naive v = refusing [(\<not> short_text v, rejected refused)]
     (case iso_time v of None \<Rightarrow> Inl (rejected refused)
      | Some (t, aware) \<Rightarrow> if \<not> aware then Inl (rejected naive) else as_utc t)"

definition future_timestamp :: "instant \<Rightarrow> pyval \<Rightarrow> instant result" where
  "future_timestamp now v = and_then (aware_time ''PAYLOAD_REJECTED'' ''LEASE_INACTIVE'' v)
     (\<lambda>t. if t \<le> now then Inl (rejected ''LEASE_INACTIVE'') else Inr t)"

text \<open>A window of at least one second and at most the length of a standard lease.\<close>

definition lease_window :: "instant \<Rightarrow> instant \<Rightarrow> bool" where
  "lease_window starts expires \<longleftrightarrow>
     seconds 1 \<le> expires - starts \<and> expires - starts \<le> seconds STANDARD_COMPUTE_LEASE_SECONDS"

lemma aware_time_PTime:
  "aware_time refused naive (PTime t) = Inr u \<longleftrightarrow> u = t \<and> length (isoformat t) \<le> 64 \<and> EARLIEST \<le> t \<and> t \<le> LATEST"
  by (auto simp: aware_time_def short_text_def text_matches_def as_utc_def)

lemma future_timestampD: "future_timestamp now v = Inr t \<Longrightarrow> now < t"
  by (auto simp: future_timestamp_def split: if_splits)

end
