(* ===== verification/Resource_Schemas.thy ===== *)
theory Resource_Schemas
  imports Schema_Times
begin

section \<open>Schemas of the operations on a managed environment\<close>

text \<open>
  The validators in \<open>schemas.py\<close> of the operations on a container, a terminal, a recycled environment and its
  restoration, and on a user's storage. All begin with the coordinates of the managed identity, from which the
  name of the container and the workspace are derived.
\<close>

definition target_expected :: "string \<Rightarrow> pyval \<Rightarrow> pyval \<Rightarrow> pyval \<Rightarrow> pyval \<Rightarrow> payload" where
  "target_expected name username workspace profile gpu =
     [(name, container_of username), (''workspace_path'', workspace), (''container_gpu'', profile_gpus profile),
      (''slurm_account'', PStr ''company''), (''slurm_qos'', PStr ''general''), (''expected_gpu'', gpu)]"

definition fields_equal :: "payload \<Rightarrow> payload \<Rightarrow> bool" where
  "fields_equal p expected \<longleftrightarrow> list_all (\<lambda>(name, v). py_eq (field p name) v) expected"

definition target_result :: "string \<Rightarrow> pyval \<Rightarrow> pyval \<Rightarrow> pyval \<Rightarrow> pyval \<Rightarrow> pyval \<Rightarrow> payload" where
  "target_result name username workspace profile job uuid =
     [(name, container_of username), (''workspace_path'', workspace), (''development_profile'', profile),
      (''container_gpu'', profile_gpus profile), (''gpu_allocation_job_id'', job), (''gpu_allocation_uuid'', uuid),
      (''slurm_account'', PStr ''company''), (''slurm_qos'', PStr ''general'')]"

definition half_allocated :: "pyval \<Rightarrow> pyval \<Rightarrow> bool" where
  "half_allocated job uuid \<longleftrightarrow> (job = PNone) \<noteq> (uuid = PNone)"

definition host_disabled :: "payload \<Rightarrow> bool" where
  "host_disabled p \<longleftrightarrow> field p ''host_access'' = PStr ''DISABLED_BY_PLATFORM_POLICY''"

subsection \<open>Start, stop and restart\<close>

definition lifecycle_fields :: "string list" where
  "lifecycle_fields = [''managed_user_id'', ''username'', ''uid'', ''gid'', ''name'', ''workspace_path'',
     ''development_profile'', ''container_gpu'', ''gpu_allocation_job_id'', ''gpu_allocation_uuid'',
     ''slurm_account'', ''slurm_qos'', ''lease_id'', ''lease_starts_at'', ''lease_expires_at'', ''expected_gpu'']"

definition lifecycle_lease :: "instant \<Rightarrow> bool \<Rightarrow> payload \<Rightarrow> payload result" where
  "lifecycle_lease now require_active p =
     (let lease = field p ''lease_id''; starts = field p ''lease_starts_at''; expires = field p ''lease_expires_at'';
          e = ''PAYLOAD_REJECTED'' in
      if lease = PNone \<and> starts = PNone \<and> expires = PNone
      then Inr [(''lease_id'', PNone), (''lease_starts_at'', PNone), (''lease_expires_at'', PNone)]
      else and_then (canonical_id lease) (\<lambda>i.
        and_then (aware_time e e starts) (\<lambda>start.
        and_then (if require_active then future_timestamp now expires else aware_time e e expires) (\<lambda>expiry.
        refusing [(\<not> lease_window start expiry, rejected e)]
          (Inr [(''lease_id'', i), (''lease_starts_at'', PTime start), (''lease_expires_at'', PTime expiry)])))))"

definition validate_container_lifecycle :: "instant \<Rightarrow> bool \<Rightarrow> payload \<Rightarrow> payload result" where
  "validate_container_lifecycle now require_active p =
     (let profile = field p ''development_profile''; job = field p ''gpu_allocation_job_id'';
          uuid = field p ''gpu_allocation_uuid''; gpu = expected_gpu_of job uuid in
      refusing [(\<not> exact_keys p lifecycle_fields, rejected ''CONTAINER_TARGET_REJECTED'')]
      (and_then (identity_fields p) (\<lambda>identity.
       and_then (workspace_of (field identity ''uid'')) (\<lambda>workspace.
       refusing (profile_guard ''CONTAINER_PROFILE_REJECTED'' profile @
          [(\<not> fields_equal p (target_expected ''name'' (field identity ''username'') workspace profile gpu),
            rejected ''CONTAINER_TARGET_REJECTED''),
           (half_allocated job uuid, rejected ''GPU_ALLOCATION_BINDING_REJECTED''),
           (job \<noteq> PNone \<and> \<not> allocation_ok profile job uuid, rejected ''GPU_ALLOCATION_BINDING_REJECTED'')])
       (and_then (lifecycle_lease now require_active p) (\<lambda>lease.
        Inr (identity @ target_result ''name'' (field identity ''username'') workspace profile job uuid @
          [(''expected_gpu'', gpu)] @ lease)))))))"

subsection \<open>Upgrade to a GPU profile\<close>

definition upgrade_fields :: "bool \<Rightarrow> string list" where
  "upgrade_fields rollback = [''operation_id'', ''managed_user_id'', ''username'', ''uid'', ''gid'', ''name'',
     ''workspace_path'', ''compute_environment_state'', ''expected_container_state'', ''lease_id'',
     ''lease_starts_at'', ''lease_expires_at'', ''slurm_account'', ''slurm_qos'', ''expected_key_fingerprints''] @
     (if rollback then [''backup_sha256'', ''was_running''] else [])"

definition upgrade_target :: "pyval \<Rightarrow> pyval \<Rightarrow> payload" where
  "upgrade_target username workspace = [(''name'', container_of username), (''workspace_path'', workspace)]"

definition slurm_policy :: payload where
  "slurm_policy = [(''slurm_account'', PStr ''company''), (''slurm_qos'', PStr ''general'')]"

definition upgrade_window :: "instant \<Rightarrow> payload \<Rightarrow> (instant \<times> instant) result" where
  "upgrade_window now p =
     (let starts = field p ''lease_starts_at''; expires = field p ''lease_expires_at'';
          environment = field p ''compute_environment_state''; e = rejected ''GPU_PROFILE_UPGRADE_LEASE_REJECTED'' in
      if text_of starts = None \<or> text_of expires = None then Inl e
      else case (iso_time starts, iso_time expires) of
        (Some (start, True), Some (expiry, True)) \<Rightarrow> refusing [(\<not> lease_window start expiry, e)]
          (and_then (as_utc expiry) (\<lambda>expiry.
           refusing [(environment = PStr ''ACTIVE'' \<and> expiry \<le> now, e),
             (environment = PStr ''RECYCLED'' \<and> now < expiry, e)] (Inr (start, expiry))))
      | _ \<Rightarrow> Inl e)"

definition upgrade_rollback :: "payload \<Rightarrow> payload result" where
  "upgrade_rollback p = refusing [(\<not> text_matches (lower_hex 64) (field p ''backup_sha256'') \<or>
       \<not> is_bool (field p ''was_running''), rejected ''GPU_PROFILE_UPGRADE_ROLLBACK_REJECTED'')]
     (Inr [(''backup_sha256'', field p ''backup_sha256''), (''was_running'', field p ''was_running'')])"

definition validate_gpu_profile_upgrade :: "instant \<Rightarrow> bool \<Rightarrow> payload \<Rightarrow> payload result" where
  "validate_gpu_profile_upgrade now rollback p =
     (let environment = field p ''compute_environment_state''; state = field p ''expected_container_state'';
          e = rejected ''GPU_PROFILE_UPGRADE_TARGET_REJECTED'' in
      refusing [(\<not> exact_keys p (upgrade_fields rollback) \<or> any_key p WORKER_FORBIDDEN_FIELDS,
         rejected ''GPU_PROFILE_UPGRADE_PAYLOAD_REJECTED'')]
      (and_then (identity_fields p) (\<lambda>identity.
       and_then (workspace_of (field identity ''uid'')) (\<lambda>workspace.
       refusing [(\<not> fields_equal p (upgrade_target (field identity ''username'') workspace), e),
         (unhashable environment, unhashable_type), (\<not> one_of environment [''ACTIVE'', ''RECYCLED''], e),
         (unhashable state, unhashable_type),
         (\<not> one_of state [''RUNNING'', ''STOPPED''] \<or>
          (environment = PStr ''RECYCLED'' \<and> state \<noteq> PStr ''STOPPED'') \<or> \<not> fields_equal p slurm_policy, e)]
       (and_then (upgrade_window now p) (\<lambda>(start, expiry).
        and_then (collect [(''operation_id'', canonical_id (field p ''operation_id'')),
          (''name'', Inr (container_of (field identity ''username''))), (''workspace_path'', Inr workspace),
          (''compute_environment_state'', Inr environment), (''expected_container_state'', Inr state),
          (''lease_id'', canonical_id (field p ''lease_id'')),
          (''lease_starts_at'', and_then (as_utc start) (\<lambda>t. Inr (PTime t))),
          (''lease_expires_at'', Inr (PTime expiry)), (''slurm_account'', Inr (PStr ''company'')),
          (''slurm_qos'', Inr (PStr ''general'')),
          (''expected_key_fingerprints'', validated_key_fingerprints (field p ''expected_key_fingerprints''))])
        (\<lambda>upgrade. and_then (if rollback then upgrade_rollback p else Inr []) (\<lambda>evidence.
          Inr (identity @ upgrade @ evidence)))))))))"

subsection \<open>Terminal\<close>

definition terminal_fields :: "string list" where
  "terminal_fields = [''managed_user_id'', ''username'', ''uid'', ''gid'', ''name'', ''workspace_path'',
     ''development_profile'', ''container_gpu'', ''gpu_allocation_job_id'', ''gpu_allocation_uuid'',
     ''slurm_account'', ''slurm_qos'', ''lease_id'', ''lease_expires_at'', ''expected_gpu'', ''host_access'',
     ''expected_key_fingerprints'', ''cols'', ''rows'']"

definition target_guard :: "string \<Rightarrow> payload \<Rightarrow> string \<Rightarrow> pyval \<Rightarrow> pyval \<Rightarrow> bool \<times> exn" where
  "target_guard error_code p name username workspace =
     (let profile = field p ''development_profile''; job = field p ''gpu_allocation_job_id'';
          uuid = field p ''gpu_allocation_uuid'' in
      (\<not> fields_equal p (target_expected name username workspace profile (expected_gpu_of job uuid)) \<or>
       half_allocated job uuid \<or> (job \<noteq> PNone \<and> \<not> allocation_ok profile job uuid) \<or> \<not> host_disabled p,
       rejected error_code))"

definition target_of :: "payload \<Rightarrow> string \<Rightarrow> pyval \<Rightarrow> pyval \<Rightarrow> payload" where
  "target_of p name username workspace = target_result name username workspace (field p ''development_profile'')
     (field p ''gpu_allocation_job_id'') (field p ''gpu_allocation_uuid'')"

definition gpu_of :: "payload \<Rightarrow> pyval" where
  "gpu_of p = expected_gpu_of (field p ''gpu_allocation_job_id'') (field p ''gpu_allocation_uuid'')"

abbreviation time_field :: "instant result \<Rightarrow> pyval result" where
  "time_field r \<equiv> and_then r (\<lambda>t. Inr (PTime t))"

abbreviation host_field :: "string \<times> pyval result" where
  "host_field \<equiv> (''host_access'', Inr (PStr ''DISABLED_BY_PLATFORM_POLICY''))"

abbreviation fingerprints_field :: "payload \<Rightarrow> string \<times> pyval result" where
  "fingerprints_field p \<equiv>
     (''expected_key_fingerprints'', validated_key_fingerprints (field p ''expected_key_fingerprints''))"

definition validate_container_terminal :: "instant \<Rightarrow> payload \<Rightarrow> payload result" where
  "validate_container_terminal now p =
     refusing [(\<not> exact_keys p terminal_fields \<or> any_key p WORKER_FORBIDDEN_FIELDS,
        rejected ''TERMINAL_TARGET_REJECTED'')]
     (and_then (identity_fields p) (\<lambda>identity.
      and_then (workspace_of (field identity ''uid'')) (\<lambda>workspace.
      refusing (profile_guard ''TERMINAL_TARGET_REJECTED'' (field p ''development_profile'') @
        [target_guard ''TERMINAL_TARGET_REJECTED'' p ''name'' (field identity ''username'') workspace,
         (\<not> int_within 20 300 (field p ''cols''), rejected ''TERMINAL_SIZE_REJECTED''),
         (\<not> int_within 5 120 (field p ''rows''), rejected ''TERMINAL_SIZE_REJECTED'')])
      (and_then (collect [(''lease_id'', canonical_id (field p ''lease_id'')),
         (''lease_expires_at'', time_field (future_timestamp now (field p ''lease_expires_at''))),
         (''expected_gpu'', Inr (gpu_of p)), host_field, fingerprints_field p,
         (''cols'', Inr (field p ''cols'')), (''rows'', Inr (field p ''rows''))])
       (\<lambda>rest. Inr (identity @ target_of p ''name'' (field identity ''username'') workspace @ rest))))))"

subsection \<open>Restore\<close>

definition restore_fields :: "string list" where
  "restore_fields = [''restore_request_id'', ''recycle_lease_id'', ''recycle_lease_starts_at'',
     ''recycle_lease_expires_at'', ''managed_user_id'', ''username'', ''uid'', ''gid'', ''container_name'',
     ''workspace_path'', ''development_profile'', ''container_gpu'', ''gpu_allocation_job_id'',
     ''gpu_allocation_uuid'', ''slurm_account'', ''slurm_qos'', ''lease_id'', ''lease_starts_at'',
     ''lease_expires_at'', ''expected_gpu'', ''host_access'', ''expected_key_fingerprints'']"

text \<open>The window of the recycled lease: both texts are parsed before either is converted.\<close>

definition recycled_window :: "instant \<Rightarrow> payload \<Rightarrow> (instant \<times> instant) result" where
  "recycled_window now p =
     (let starts = field p ''recycle_lease_starts_at''; expires = field p ''recycle_lease_expires_at'';
          e = rejected ''RESTORE_PAYLOAD_REJECTED'' in
      if \<not> short_text starts \<or> \<not> short_text expires then Inl e
      else case (iso_time starts, iso_time expires) of
        (Some (start, True), Some (expiry, True)) \<Rightarrow>
          and_then (as_utc expiry) (\<lambda>expiry. and_then (as_utc start) (\<lambda>start.
            refusing [(\<not> lease_window start expiry \<or> now < expiry, e)] (Inr (start, expiry))))
      | _ \<Rightarrow> Inl e)"

definition validate_restore :: "instant \<Rightarrow> payload \<Rightarrow> payload result" where
  "validate_restore now p =
     (let profile = field p ''development_profile''; e = ''RESTORE_PAYLOAD_REJECTED'' in
      refusing [(\<not> exact_keys p restore_fields, rejected e)]
      (and_then (identity_fields p) (\<lambda>identity.
       and_then (workspace_of (field identity ''uid'')) (\<lambda>workspace.
       let username = field identity ''username'' in
       refusing (profile_guard e profile @
         [(\<not> fields_equal p (target_expected ''container_name'' username workspace profile (PStr ''NONE'')) \<or>
           field p ''gpu_allocation_job_id'' \<noteq> PNone \<or> field p ''gpu_allocation_uuid'' \<noteq> PNone \<or>
           \<not> host_disabled p, rejected e)])
       (and_then (aware_time e e (field p ''lease_starts_at'')) (\<lambda>start.
        and_then (future_timestamp now (field p ''lease_expires_at'')) (\<lambda>expiry.
        refusing [(\<not> lease_window start expiry, rejected e)]
        (and_then (recycled_window now p) (\<lambda>(recycle_start, recycle_expiry).
         and_then (collect ([(''restore_request_id'', canonical_id (field p ''restore_request_id''))] @
            map (\<lambda>(name, v). (name, Inr v)) (target_result ''container_name'' username workspace profile PNone PNone) @
            [(''recycle_lease_id'', canonical_id (field p ''recycle_lease_id'')),
             (''recycle_lease_starts_at'', Inr (PTime recycle_start)),
             (''recycle_lease_expires_at'', Inr (PTime recycle_expiry)),
             (''lease_id'', canonical_id (field p ''lease_id'')), (''lease_starts_at'', Inr (PTime start)),
             (''lease_expires_at'', Inr (PTime expiry)), (''expected_gpu'', Inr (PStr ''NONE'')), host_field,
             fingerprints_field p])) (\<lambda>rest. Inr (identity @ rest)))))))))))"

subsection \<open>Recycle\<close>

definition recycle_fields :: "string list" where
  "recycle_fields = [''lease_id'', ''managed_user_id'', ''username'', ''uid'', ''gid'', ''container_name'',
     ''workspace_path'', ''development_profile'', ''container_gpu'', ''gpu_allocation_job_id'',
     ''gpu_allocation_uuid'', ''slurm_account'', ''slurm_qos'', ''expires_at'', ''expected_gpu'', ''host_access'',
     ''expected_key_fingerprints'']"

definition validate_recycle :: "instant \<Rightarrow> payload \<Rightarrow> payload result" where
  "validate_recycle now p =
     (let e = ''RECYCLE_PAYLOAD_REJECTED'' in
      refusing [(\<not> exact_keys p recycle_fields, rejected e)]
      (and_then (identity_fields p) (\<lambda>identity.
       and_then (workspace_of (field identity ''uid'')) (\<lambda>workspace.
       refusing (profile_guard e (field p ''development_profile'') @
         [target_guard e p ''container_name'' (field identity ''username'') workspace])
       (and_then (aware_time e ''LEASE_NOT_EXPIRED'' (field p ''expires_at'')) (\<lambda>expiry.
        refusing [(now < expiry, rejected ''LEASE_NOT_EXPIRED'')]
        (and_then (collect ([(''lease_id'', canonical_id (field p ''lease_id''))] @
           map (\<lambda>(name, v). (name, Inr v)) (target_of p ''container_name'' (field identity ''username'') workspace) @
           [(''expires_at'', Inr (PTime expiry)), (''expected_gpu'', Inr (gpu_of p)), host_field,
            fingerprints_field p])) (\<lambda>rest. Inr (identity @ rest)))))))))"

subsection \<open>Rollback of a restoration\<close>

definition restore_rollback_fields :: "string list" where
  "restore_rollback_fields = [''restore_request_id'', ''attempted_lease_id'', ''attempted_lease_starts_at'',
     ''attempted_lease_expires_at'', ''recycle_lease_id'', ''recycle_lease_starts_at'',
     ''recycle_lease_expires_at'', ''managed_user_id'', ''username'', ''uid'', ''gid'', ''container_name'',
     ''workspace_path'', ''development_profile'', ''container_gpu'', ''gpu_allocation_job_id'',
     ''gpu_allocation_uuid'', ''slurm_account'', ''slurm_qos'', ''expected_gpu'', ''host_access'',
     ''expected_key_fingerprints'']"

definition validate_restore_rollback :: "instant \<Rightarrow> payload \<Rightarrow> payload result" where
  "validate_restore_rollback now p =
     (let e = ''RESTORE_ROLLBACK_PAYLOAD_REJECTED''; time = (\<lambda>name. aware_time e e (field p name)) in
      refusing [(\<not> exact_keys p restore_rollback_fields, rejected e)]
      (and_then (identity_fields p) (\<lambda>identity.
       and_then (workspace_of (field identity ''uid'')) (\<lambda>workspace.
       refusing (profile_guard e (field p ''development_profile'') @
         [target_guard e p ''container_name'' (field identity ''username'') workspace])
       (and_then (time ''attempted_lease_starts_at'') (\<lambda>attempted_start.
        and_then (time ''attempted_lease_expires_at'') (\<lambda>attempted_expiry.
        and_then (time ''recycle_lease_starts_at'') (\<lambda>recycle_start.
        and_then (time ''recycle_lease_expires_at'') (\<lambda>recycle_expiry.
        refusing [(\<not> lease_window attempted_start attempted_expiry \<or> attempted_expiry \<le> now \<or>
            \<not> lease_window recycle_start recycle_expiry \<or> now < recycle_expiry, rejected e)]
        (and_then (collect ([(''restore_request_id'', canonical_id (field p ''restore_request_id'')),
            (''attempted_lease_id'', canonical_id (field p ''attempted_lease_id'')),
            (''attempted_lease_starts_at'', Inr (PTime attempted_start)),
            (''attempted_lease_expires_at'', Inr (PTime attempted_expiry)),
            (''recycle_lease_id'', canonical_id (field p ''recycle_lease_id'')),
            (''recycle_lease_starts_at'', Inr (PTime recycle_start)),
            (''recycle_lease_expires_at'', Inr (PTime recycle_expiry))] @
           map (\<lambda>(name, v). (name, Inr v)) (target_of p ''container_name'' (field identity ''username'') workspace) @
           [(''expected_gpu'', Inr (gpu_of p)), host_field, fingerprints_field p]))
          (\<lambda>rest. Inr (identity @ rest))))))))))))"

subsection \<open>Host access of the pilot\<close>

definition PORTAL3F_KEY_FINGERPRINT :: string where
  "PORTAL3F_KEY_FINGERPRINT = ''SHA256:nek6vyEb3GT+UJAcY5y/8PgY4achF2ouNy+8C2JqUVc''"

definition host_revoke_fields :: "string list" where
  "host_revoke_fields = [''managed_user_id'', ''username'', ''uid'', ''gid'', ''key_record_id'',
     ''key_fingerprint'', ''container_name'', ''expected_scope'']"

definition validate_host_revoke :: "payload \<Rightarrow> payload result" where
  "validate_host_revoke p =
     refusing [(\<not> exact_keys p host_revoke_fields, rejected ''HOST_REVOKE_PAYLOAD_REJECTED'')]
     (and_then (identity_fields p) (\<lambda>identity.
      refusing [(field identity ''username'' \<noteq> PStr ''origin-pilot'' \<or>
         field p ''container_name'' \<noteq> PStr ''gpu-dev-origin-pilot'' \<or> field p ''expected_scope'' \<noteq> PStr ''BOTH'' \<or>
         field p ''key_fingerprint'' \<noteq> PStr PORTAL3F_KEY_FINGERPRINT, rejected ''HOST_REVOKE_PAYLOAD_REJECTED'')]
      (and_then (collect [(''key_record_id'', canonical_id (field p ''key_record_id'')),
         (''key_fingerprint'', Inr (field p ''key_fingerprint'')),
         (''container_name'', Inr (PStr ''gpu-dev-origin-pilot'')), (''expected_scope'', Inr (PStr ''BOTH''))])
       (\<lambda>rest. Inr (identity @ rest)))))"

subsection \<open>Storage\<close>

text \<open>\<open>self.storage.read\<close> and \<open>self.workspace.check\<close> differ in two error codes.\<close>

definition storage_fields :: "string list" where
  "storage_fields = [''managed_user_id'', ''username'', ''uid'', ''gid'', ''workspace_path'', ''quota_root'',
     ''project_id'', ''quota_bytes'']"

definition quota_guard :: "string \<Rightarrow> payload \<Rightarrow> bool \<times> exn" where
  "quota_guard error_code p = (\<not> plain_int_between PROJECT_ID_MIN PROJECT_ID_MAX (field p ''project_id'') \<or>
     \<not> py_eq (field p ''quota_bytes'') (PInt STANDARD_COMPUTE_STORAGE_BYTES), rejected error_code)"

definition validate_storage :: "string \<Rightarrow> string \<Rightarrow> payload \<Rightarrow> payload result" where
  "validate_storage bad_fields bad_quota p =
     refusing [(\<not> exact_keys p storage_fields, rejected bad_fields)]
     (and_then (identity_fields p) (\<lambda>identity.
      and_then (binding_of identity) (\<lambda>binding.
      let workspace = PStr (path_str (wb_canonical_workspace binding)); root = PStr (path_str (wb_quota_root binding)) in
      refusing [(field p ''workspace_path'' \<noteq> workspace \<or> field p ''quota_root'' \<noteq> root,
          rejected ''WORKSPACE_BINDING_REJECTED''), quota_guard bad_quota p]
        (Inr (identity @ [(''workspace_path'', workspace), (''quota_root'', root),
           (''project_id'', field p ''project_id''), (''quota_bytes'', field p ''quota_bytes'')])))))"

end
