(* ===== verification/Provision_Schemas.thy ===== *)
theory Provision_Schemas
  imports Resource_Schemas
begin

section \<open>Schemas of the compute operations\<close>

text \<open>
  The validators of \<open>compute.provision.plan\<close>, \<open>compute.provision.dry_run\<close>, \<open>compute.provision.retry_verify\<close>,
  \<open>compute.provision.stage\<close> and \<open>compute.activate.self\<close> in \<open>schemas.py\<close>. The contract of a Stage is checked
  condition by condition in the order of the source.
\<close>

definition reserved_number_list :: "payload \<Rightarrow> string \<Rightarrow> int \<Rightarrow> int \<Rightarrow> pyval result" where
  "reserved_number_list p name minimum maximum =
     (let raw = field p name; items = list_items raw; e = rejected ''COMPUTE_PLAN_PAYLOAD_REJECTED'' in
      refusing [(\<not> is_list raw \<or> 4096 < length items, e),
          (\<not> list_all (int_within minimum maximum) items, e),
          (\<not> distinct (map int_field items), e)]
        (Inr (PList (map PInt (sort (map int_field items))))))"

definition gpu_max_guard :: "pyval \<Rightarrow> (bool \<times> exn) list" where
  "gpu_max_guard v = [(unhashable v, unhashable_type),
     (\<not> in_values v [PInt 0, PInt 1] \<or> is_bool v, rejected ''GPU_MAX_REJECTED'')]"

definition gpu_profile_guard :: "pyval \<Rightarrow> pyval \<Rightarrow> bool \<times> exn" where
  "gpu_profile_guard profile gpu_max = (profile = PStr GPU_DEVELOPMENT_PROFILE \<and> \<not> py_eq gpu_max (PInt 1),
     rejected ''GPU_PROFILE_ENTITLEMENT_REJECTED'')"

subsection \<open>Plan\<close>

definition plan_fields :: "string list" where
  "plan_fields = [''request_id'', ''portal_account_id'', ''username'', ''requested_gpu_max'',
     ''requested_storage_bytes'', ''requested_container_profile'', ''requested_lease_seconds'',
     ''reserved_uids'', ''reserved_gids'', ''reserved_project_ids'', ''reserved_ssh_ports'',
     ''reserved_container_names'']"

definition container_name_ok :: "pyval \<Rightarrow> bool" where
  "container_name_ok v \<longleftrightarrow> safe_identifier v \<and> text_matches (\<lambda>s. starts_with s ''gpu-dev-'') v"

definition validate_compute_provision_plan :: "payload \<Rightarrow> payload result" where
  "validate_compute_provision_plan p =
     (let gpu_max = field p ''requested_gpu_max''; profile = field p ''requested_container_profile'';
          names = field p ''reserved_container_names'';
          not_standard = rejected ''STANDARD_COMPUTE_PROFILE_REQUIRED'' in
      refusing [(\<not> exact_keys p plan_fields \<or> any_key p WORKER_FORBIDDEN_FIELDS,
          rejected ''COMPUTE_PLAN_PAYLOAD_REJECTED'')]
      (and_then (compute_request_identity p) (\<lambda>identity.
       refusing (gpu_max_guard gpu_max @
          [(\<not> py_eq (field p ''requested_storage_bytes'') (PInt STANDARD_COMPUTE_STORAGE_BYTES), not_standard)] @
          [(unhashable profile, unhashable_type),
           (\<not> known_profile profile \<or>
            \<not> py_eq (field p ''requested_lease_seconds'') (PInt STANDARD_COMPUTE_LEASE_SECONDS), not_standard)])
       (and_then (collect [(''requested_gpu_max'', Inr gpu_max),
          (''requested_storage_bytes'', Inr (PInt STANDARD_COMPUTE_STORAGE_BYTES)),
          (''requested_container_profile'', Inr profile),
          (''requested_lease_seconds'', Inr (PInt STANDARD_COMPUTE_LEASE_SECONDS)),
          (''reserved_uids'', reserved_number_list p ''reserved_uids'' PILOT_UID_MIN PILOT_UID_MAX),
          (''reserved_gids'', reserved_number_list p ''reserved_gids'' PILOT_UID_MIN PILOT_UID_MAX),
          (''reserved_project_ids'', reserved_number_list p ''reserved_project_ids'' PROJECT_ID_MIN PROJECT_ID_MAX),
          (''reserved_ssh_ports'',
             reserved_number_list p ''reserved_ssh_ports'' PILOT_SSH_PORT_MIN PILOT_SSH_PORT_MAX)]) (\<lambda>request.
       refusing [gpu_profile_guard profile gpu_max,
          (\<not> is_list names \<or> 4096 < length (list_items names) \<or> \<not> list_all container_name_ok (list_items names) \<or>
           \<not> distinct (list_items names), rejected ''COMPUTE_PLAN_PAYLOAD_REJECTED'')]
       (Inr (identity @ request @ [(''reserved_container_names'', sorted_texts (list_items names))])))))))"

subsection \<open>Dry run\<close>

definition dry_run_fields :: "string list" where
  "dry_run_fields = [''request_id'', ''plan_id'', ''portal_account_id'', ''username'', ''uid'', ''gid'',
     ''project_id'', ''ssh_port'', ''container_name'', ''storage_bytes'', ''container_profile'',
     ''container_cpus'', ''container_memory_gb'', ''container_pids_limit'', ''container_gpu'',
     ''slurm_account'', ''slurm_qos'', ''gpu_max'', ''lease_seconds'', ''lease_state'', ''host_ssh'',
     ''shell'', ''password_state'', ''execution_enabled'']"

definition fixed_policy :: "pyval \<Rightarrow> pyval \<Rightarrow> payload" where
  "fixed_policy username profile =
     [(''storage_bytes'', PInt STANDARD_COMPUTE_STORAGE_BYTES), (''container_cpus'', PInt 8),
      (''container_memory_gb'', PInt 32), (''container_pids_limit'', PInt 4096),
      (''container_profile'', profile), (''container_gpu'', profile_gpus profile),
      (''slurm_account'', PStr ''company''), (''slurm_qos'', PStr ''general''),
      (''lease_seconds'', PInt STANDARD_COMPUTE_LEASE_SECONDS), (''lease_state'', PStr ''NOT_STARTED''),
      (''host_ssh'', PStr ''DISABLED''), (''shell'', PStr ''/usr/sbin/nologin''),
      (''password_state'', PStr ''LOCKED''), (''execution_enabled'', PBool False),
      (''container_name'', container_of username)]"

text \<open>The number fields in the order of the loop, each with its range and the code of its refusal.\<close>

definition number_fields :: "string \<Rightarrow> payload \<Rightarrow> (bool \<times> exn) list" where
  "number_fields error_code p = map (\<lambda>(name, minimum, maximum).
       (\<not> plain_int_between minimum maximum (field p name), rejected error_code))
     [(''uid'', PILOT_UID_MIN, PILOT_UID_MAX), (''gid'', PILOT_UID_MIN, PILOT_UID_MAX),
      (''project_id'', PROJECT_ID_MIN, PROJECT_ID_MAX), (''ssh_port'', PILOT_SSH_PORT_MIN, PILOT_SSH_PORT_MAX)]"

definition numbers_of :: "payload \<Rightarrow> payload" where
  "numbers_of p = map (\<lambda>name. (name, field p name)) [''uid'', ''gid'', ''project_id'', ''ssh_port'']"

definition validate_compute_provision_dry_run :: "payload \<Rightarrow> payload result" where
  "validate_compute_provision_dry_run p =
     (let profile = field p ''container_profile''; gpu_max = field p ''gpu_max'' in
      refusing [(\<not> exact_keys p dry_run_fields \<or> any_key p WORKER_FORBIDDEN_FIELDS,
          rejected ''COMPUTE_DRY_RUN_PAYLOAD_REJECTED'')]
      (and_then (compute_request_identity p) (\<lambda>identity.
       and_then (collect [(''plan_id'', canonical_id (field p ''plan_id''))]) (\<lambda>plan.
       let expected = fixed_policy (field identity ''username'') profile in
       refusing (profile_guard ''COMPUTE_DRY_RUN_PLAN_MISMATCH'' profile @
           [(\<not> list_all (\<lambda>(name, v). py_eq (field p name) v) expected, rejected ''COMPUTE_DRY_RUN_PLAN_MISMATCH'')] @
           gpu_max_guard gpu_max @ [gpu_profile_guard profile gpu_max] @
           number_fields ''COMPUTE_DRY_RUN_PAYLOAD_REJECTED'' p)
         (Inr (identity @ plan @ numbers_of p @ expected @ [(''gpu_max'', gpu_max)]))))))"

subsection \<open>Verification before a retry\<close>

definition retry_verify_fields :: "string list" where
  "retry_verify_fields = [''request_id'', ''plan_id'', ''stage_operation_id'', ''portal_account_id'',
     ''username'', ''uid'', ''gid'', ''project_id'', ''ssh_port'', ''container_name'']"

definition validate_compute_provision_retry_verify :: "payload \<Rightarrow> payload result" where
  "validate_compute_provision_retry_verify p =
     refusing [(\<not> exact_keys p retry_verify_fields \<or> any_key p WORKER_FORBIDDEN_FIELDS,
          rejected ''COMPUTE_RETRY_VERIFY_PAYLOAD_REJECTED'')]
     (and_then (compute_request_identity p) (\<lambda>identity.
      and_then (collect [(''plan_id'', canonical_id (field p ''plan_id'')),
          (''stage_operation_id'', canonical_id (field p ''stage_operation_id''))]) (\<lambda>ids.
      refusing ((field p ''container_name'' \<noteq> container_of (field identity ''username''),
           rejected ''COMPUTE_RETRY_VERIFY_PAYLOAD_REJECTED'') #
           number_fields ''COMPUTE_RETRY_VERIFY_PAYLOAD_REJECTED'' p)
        (Inr (identity @ ids @ numbers_of p @ [(''container_name'', field p ''container_name'')])))))"

subsection \<open>The contract of a Stage\<close>

definition COMPUTE_STAGE_HANDLER_IDENTITY :: string where
  "COMPUTE_STAGE_HANDLER_IDENTITY = ''h100-provision-stage''"

definition COMPUTE_STAGE_HANDLER_PATH :: string where
  "COMPUTE_STAGE_HANDLER_PATH = ''/usr/local/sbin/h100-provision-stage''"

definition COMPUTE_STAGE_ARGV_CONTRACT_VERSION :: string where
  "COMPUTE_STAGE_ARGV_CONTRACT_VERSION = ''compute-provision-stage-argv-v2''"

definition COMPUTE_STAGE_CONFIRMATION_VALIDATOR_VERSION :: string where
  "COMPUTE_STAGE_CONFIRMATION_VALIDATOR_VERSION = ''compute-provision-stage-confirmation-validator-v2''"

definition COMPUTE_STAGE_IMAGE_VALIDATOR_VERSION :: string where
  "COMPUTE_STAGE_IMAGE_VALIDATOR_VERSION = ''compute-provision-stage-local-image-v2''"

lemmas stage_constants = COMPUTE_STAGE_HANDLER_IDENTITY_def COMPUTE_STAGE_HANDLER_PATH_def
  COMPUTE_STAGE_ARGV_CONTRACT_VERSION_def COMPUTE_STAGE_CONFIRMATION_VALIDATOR_VERSION_def
  COMPUTE_STAGE_IMAGE_VALIDATOR_VERSION_def

definition sha256_text :: "pyval \<Rightarrow> bool" where
  "sha256_text v = text_matches (lower_hex 64) v"

definition digest_text :: "pyval \<Rightarrow> bool" where
  "digest_text v = text_matches (\<lambda>s. starts_with s ''sha256:'' \<and> lower_hex 64 (drop 7 s)) v"

definition OCI_LAYOUT_ROOT :: string where
  "OCI_LAYOUT_ROOT = ''/srv/gpu-platform/artifacts/oci/standard-dev-base/''"

definition layout_path :: "pyval \<Rightarrow> bool" where
  "layout_path v = text_matches (\<lambda>s. starts_with s OCI_LAYOUT_ROOT \<and>
     (let rest = drop (length OCI_LAYOUT_ROOT) s in lower_hex 64 (take 64 rest) \<and> drop 64 rest = ''/layout'')) v"

definition ends_with :: "string \<Rightarrow> string \<Rightarrow> bool" where
  "ends_with s suffix \<longleftrightarrow> length suffix \<le> length s \<and> drop (length s - length suffix) s = suffix"

definition remove_prefix :: "string \<Rightarrow> string \<Rightarrow> string" where
  "remove_prefix s prefix = (if starts_with s prefix then drop (length prefix) s else s)"

text \<open>\<open>isinstance(v, dict) and set(v) == fields\<close> is \<open>keys_exactly v fields\<close>.\<close>

definition worker_handler_ok :: "pyval \<Rightarrow> bool" where
  "worker_handler_ok handler \<longleftrightarrow>
     keys_exactly handler [''identity'', ''deployed_path'', ''sha256'', ''integrity_status''] \<and>
     has_eq handler ''identity'' (PStr COMPUTE_STAGE_HANDLER_IDENTITY) \<and>
     has_eq handler ''deployed_path'' (PStr COMPUTE_STAGE_HANDLER_PATH) \<and>
     sha256_text (dget handler ''sha256'') \<and> has_eq handler ''integrity_status'' (PStr ''PASS'')"

definition worker_argv_ok :: "pyval \<Rightarrow> bool" where
  "worker_argv_ok argv \<longleftrightarrow>
     keys_exactly argv [''version'', ''sha256'', ''shape_status'', ''shell_argument_count'',
       ''expected_shell_argument_count'', ''multi_digit_position_status'', ''argument_14'', ''argument_15''] \<and>
     has_eq argv ''version'' (PStr COMPUTE_STAGE_ARGV_CONTRACT_VERSION) \<and>
     sha256_text (dget argv ''sha256'') \<and> has_eq argv ''shape_status'' (PStr ''PASS'') \<and>
     has_eq argv ''shell_argument_count'' (PInt 15) \<and> has_eq argv ''expected_shell_argument_count'' (PInt 15) \<and>
     has_eq argv ''multi_digit_position_status'' (PStr ''PASS'')"

definition worker_gate_ok :: "pyval \<Rightarrow> bool" where
  "worker_gate_ok gate \<longleftrightarrow>
     keys_exactly gate [''identity'', ''validator_version'', ''validator_sha256'', ''status''] \<and>
     has_eq gate ''identity'' (PStr ''EXPLICIT_STAGE_CONFIRMATION_GATE'') \<and>
     has_eq gate ''validator_version'' (PStr COMPUTE_STAGE_CONFIRMATION_VALIDATOR_VERSION) \<and>
     sha256_text (dget gate ''validator_sha256'') \<and> has_eq gate ''status'' (PStr ''PASS'')"

definition worker_image_ok :: "pyval \<Rightarrow> bool" where
  "worker_image_ok img \<longleftrightarrow>
     keys_exactly img [''status'', ''validator_version'', ''source_type'', ''canonical_local_image_identity'',
       ''artifact_path'', ''manifest_digest'', ''platform'', ''effective_user'', ''source_reference'',
       ''source_build_version'', ''approved_deployment_version'', ''failure_code''] \<and>
     has_eq img ''status'' (PStr ''PASS'') \<and>
     has_eq img ''validator_version'' (PStr COMPUTE_STAGE_IMAGE_VALIDATOR_VERSION) \<and>
     has_eq img ''source_type'' (PStr ''LOCAL_OCI_LAYOUT'') \<and>
     digest_text (dget img ''canonical_local_image_identity'') \<and> layout_path (dget img ''artifact_path'') \<and>
     digest_text (dget img ''manifest_digest'') \<and>
     ends_with (py_str (dget img ''artifact_path''))
       (''/'' @ remove_prefix (py_str (dget img ''manifest_digest'')) ''sha256:'' @ ''/layout'') \<and>
     has_eq img ''platform'' (PStr ''linux/amd64'') \<and> has_eq img ''effective_user'' (PStr ''root'') \<and>
     has_eq img ''source_reference'' (PStr ''h100-local/dev-container:ubuntu24.04-origin-pilot-20260804'') \<and>
     has_eq img ''source_build_version'' (PStr ''ubuntu24.04-origin-pilot-20260804'') \<and>
     text_matches (lower_hex 40) (dget img ''approved_deployment_version'') \<and> dget img ''failure_code'' = PNone"

definition worker_argument_ok :: "int \<Rightarrow> string \<Rightarrow> pyval \<Rightarrow> bool" where
  "worker_argument_ok index role argument \<longleftrightarrow>
     keys_exactly argument [''index'', ''semantic_role'', ''binding_status''] \<and>
     has_eq argument ''index'' (PInt index) \<and> has_eq argument ''semantic_role'' (PStr role) \<and>
     has_eq argument ''binding_status'' (PStr ''VALID'')"

text \<open>The answer lists the same values; only the order of the six keys may change.\<close>

definition stage_contract_fields :: "string list" where
  "stage_contract_fields = [''status'', ''contract_sha256'', ''handler'', ''argv_contract'',
     ''confirmation_gate'', ''image_contract'']"

definition validate_compute_stage_contract :: "pyval \<Rightarrow> pyval result" where
  "validate_compute_stage_contract v =
     (let argv = dget v ''argv_contract''; incomplete = rejected ''DRY_RUN_STAGE_CONTRACT_INCOMPLETE'' in
      refusing [(\<not> keys_exactly v stage_contract_fields, incomplete),
          (\<not> (has_eq v ''status'' (PStr ''PASS'') \<and> sha256_text (dget v ''contract_sha256'') \<and>
             worker_handler_ok (dget v ''handler'') \<and> worker_argv_ok argv \<and>
             worker_gate_ok (dget v ''confirmation_gate'') \<and> worker_image_ok (dget v ''image_contract'')), incomplete),
          (\<not> worker_argument_ok 14 ''EXPLICIT_STAGE_CONFIRMATION_FLAG'' (dget argv ''argument_14''), incomplete),
          (\<not> worker_argument_ok 15 ''CONFIRMED_TARGET_USERNAME'' (dget argv ''argument_15''), incomplete)]
        (Inr (PDict (map (\<lambda>k. (k, dget v k)) stage_contract_fields))))"

subsection \<open>Stage\<close>

definition stage_only_fields :: "string list" where
  "stage_only_fields = [''stage_operation_id'', ''dry_run_operation_id'', ''dry_run_stage_contract'', ''reservation_ids'']"

definition RESERVATION_KINDS :: "string list" where
  "RESERVATION_KINDS = [''CONTAINER_NAME'', ''GID'', ''PROJECT_ID'', ''SSH_PORT'', ''UID'']"

text \<open>The reservations are visited in the order of their names.\<close>

definition canonical_reservations :: "pyval \<Rightarrow> pyval result" where
  "canonical_reservations v =
     and_then (collect (map (\<lambda>kind. (kind, canonical_id (dget v kind))) RESERVATION_KINDS)) (\<lambda>ids. Inr (PDict ids))"

definition validate_compute_provision_stage :: "payload \<Rightarrow> payload result" where
  "validate_compute_provision_stage p =
     refusing [(\<not> any_key p [''dry_run_stage_contract''], rejected ''DRY_RUN_STAGE_CONTRACT_INCOMPLETE''),
         (\<not> exact_keys p (dry_run_fields @ stage_only_fields) \<or> any_key p WORKER_FORBIDDEN_FIELDS,
          rejected ''COMPUTE_STAGE_PAYLOAD_REJECTED'')]
     (and_then (validate_compute_provision_dry_run
         (dict_put (filter (\<lambda>kv. fst kv \<notin> set stage_only_fields) p) ''execution_enabled'' (PBool False))) (\<lambda>r.
      refusing [(field p ''execution_enabled'' \<noteq> PBool True, rejected ''COMPUTE_STAGE_EXECUTION_GATE_REJECTED''),
         (\<not> keys_exactly (field p ''reservation_ids'') RESERVATION_KINDS,
          rejected ''COMPUTE_STAGE_RESERVATION_REJECTED'')]
      (and_then (collect [(''stage_operation_id'', canonical_id (field p ''stage_operation_id'')),
          (''dry_run_operation_id'', canonical_id (field p ''dry_run_operation_id'')),
          (''dry_run_stage_contract'', validate_compute_stage_contract (field p ''dry_run_stage_contract'')),
          (''reservation_ids'', canonical_reservations (field p ''reservation_ids'')),
          (''execution_enabled'', Inr (PBool True))]) (\<lambda>new. Inr (dict_update r new)))))"

subsection \<open>Activation by the owner\<close>

definition activate_fields :: "string list" where
  "activate_fields = [''activation_operation_id'', ''managed_user_id'', ''portal_account_id'', ''owner_login'',
     ''request_id'', ''plan_id'', ''stage_operation_id'', ''dry_run_operation_id'', ''username'', ''uid'', ''gid'',
     ''project_id'', ''ssh_port'', ''container_name'', ''workspace_path'', ''development_profile'',
     ''container_gpu'', ''slurm_account'', ''slurm_qos'', ''ssh_key_record_ids'', ''ssh_key_fingerprints'',
     ''gpu_max'', ''lease_seconds'', ''expected_compute_state'', ''expected_container_state'',
     ''expected_host_access'', ''expected_shell'', ''expected_password_state'', ''expected_gpu'', ''lease_id'',
     ''deployment_version'']"

definition activation_owner_ok :: "payload \<Rightarrow> bool" where
  "activation_owner_ok p \<longleftrightarrow> safe_username (field p ''username'') \<and>
     \<not> protected_name (PROTECTED_HOST_USERS @ [''nobody'']) (field p ''username'') \<and>
     text_matches (\<lambda>s. s \<noteq> [] \<and> is_lower (hd s) \<and> length s \<le> 64 \<and>
       list_all (\<lambda>c. is_lower c \<or> is_digit c \<or> c = CHR ''-'') s) (field p ''owner_login'')"

definition activation_policy :: "pyval \<Rightarrow> pyval \<Rightarrow> payload" where
  "activation_policy username profile =
     [(''container_gpu'', profile_gpus profile), (''slurm_account'', PStr ''company''), (''slurm_qos'', PStr ''general'')]"

definition activation_states :: payload where
  "activation_states =
     [(''lease_seconds'', PInt STANDARD_COMPUTE_LEASE_SECONDS), (''expected_compute_state'', PStr ''STAGED''),
      (''expected_container_state'', PStr ''STOPPED''), (''expected_host_access'', PStr ''DISABLED_BY_PLATFORM_POLICY''),
      (''expected_shell'', PStr ''/usr/sbin/nologin''), (''expected_password_state'', PStr ''LOCKED''),
      (''expected_gpu'', PStr ''NONE'')]"

definition key_bindings_guard :: "string \<Rightarrow> pyval \<Rightarrow> pyval \<Rightarrow> bool \<times> exn" where
  "key_bindings_guard error_code ids fingerprints =
     (\<not> is_list ids \<or> \<not> (1 \<le> length (list_items ids) \<and> length (list_items ids) \<le> 5) \<or> \<not> is_list fingerprints \<or>
      length (list_items fingerprints) \<noteq> length (list_items ids) \<or> \<not> fingerprints_ok fingerprints, rejected error_code)"

text \<open>The identifiers in canonical form, and the fingerprints; neither list has a duplicate.\<close>

definition key_bindings :: "string \<Rightarrow> pyval \<Rightarrow> pyval \<Rightarrow> (pyval list \<times> pyval list) result" where
  "key_bindings error_code ids fingerprints =
     refusing [key_bindings_guard error_code ids fingerprints]
     (and_then (canonical_ids (list_items ids)) (\<lambda>canonical.
      refusing [(\<not> distinct canonical \<or> \<not> distinct (list_items fingerprints), rejected error_code)]
        (Inr (canonical, list_items fingerprints))))"

definition validate_compute_activate_self :: "payload \<Rightarrow> payload result" where
  "validate_compute_activate_self p =
     (let username = field p ''username''; uid = field p ''uid''; profile = field p ''development_profile'';
          gpu_max = field p ''gpu_max''; contract = rejected ''ACTIVATION_SECURITY_CONTRACT_REJECTED'' in
      refusing ([(\<not> exact_keys p activate_fields \<or> any_key p WORKER_FORBIDDEN_FIELDS,
           rejected ''ACTIVATION_PAYLOAD_REJECTED''),
          (\<not> activation_owner_ok p, rejected ''ACTIVATION_OWNER_REJECTED'')] @
          number_fields ''ACTIVATION_RESOURCE_BINDING_REJECTED'' p @
          profile_guard ''ACTIVATION_SECURITY_CONTRACT_REJECTED'' profile)
      (and_then (workspace_of uid) (\<lambda>workspace.
       refusing [(field p ''container_name'' \<noteq> container_of username \<or> field p ''workspace_path'' \<noteq> workspace \<or>
            \<not> fields_equal p (activation_policy username profile), contract),
          (unhashable gpu_max, unhashable_type),
          (\<not> in_values gpu_max [PInt 0, PInt 1] \<or> \<not> fields_equal p activation_states \<or>
           (profile = PStr GPU_DEVELOPMENT_PROFILE \<and> \<not> py_eq gpu_max (PInt 1)), contract)]
       (and_then (key_bindings ''ACTIVATION_KEY_BINDING_REJECTED'' (field p ''ssh_key_record_ids'')
          (field p ''ssh_key_fingerprints'')) (\<lambda>(canonical, fingerprints).
       refusing [(\<not> deployment_version_ok (field p ''deployment_version''),
           rejected ''ACTIVATION_RUNTIME_BINDING_REJECTED'')]
       (collect ([(''activation_operation_id'', canonical_id (field p ''activation_operation_id'')),
          (''managed_user_id'', canonical_id (field p ''managed_user_id'')),
          (''portal_account_id'', canonical_id (field p ''portal_account_id'')),
          (''owner_login'', Inr (field p ''owner_login'')), (''request_id'', canonical_id (field p ''request_id'')),
          (''plan_id'', canonical_id (field p ''plan_id'')),
          (''stage_operation_id'', canonical_id (field p ''stage_operation_id'')),
          (''dry_run_operation_id'', canonical_id (field p ''dry_run_operation_id'')),
          (''username'', Inr username)] @ map (\<lambda>(name, v). (name, Inr v)) (numbers_of p) @
          [(''container_name'', Inr (container_of username)), (''workspace_path'', Inr workspace),
          (''development_profile'', Inr profile)] @
          map (\<lambda>(name, v). (name, Inr v)) (activation_policy username profile) @
          [(''ssh_key_record_ids'', Inr (PList canonical)), (''ssh_key_fingerprints'', Inr (PList fingerprints)),
          (''gpu_max'', Inr (PInt (if py_eq gpu_max (PInt 1) then 1 else 0)))] @
          map (\<lambda>(name, v). (name, Inr v)) activation_states @
          [(''lease_id'', canonical_id (field p ''lease_id'')),
          (''deployment_version'', Inr (field p ''deployment_version''))])))))))"

end
