(* ===== verification/Job_Schemas.thy ===== *)
theory Job_Schemas
  imports Provision_Schemas
begin

section \<open>Schemas of the operations on jobs\<close>

text \<open>
  The validators of \<open>self.job.submit\<close> and of the operations that name one job, in \<open>schemas.py\<close>. The hash of a
  script is an argument. Each of the two approvals is a dictionary of six fields bound to the script's hash.
\<close>

record schema_env =
  se_now :: instant
  se_sha256 :: "string \<Rightarrow> string"

definition job_name_re :: "string \<Rightarrow> bool" where
  "job_name_re s \<longleftrightarrow> (case s of [] \<Rightarrow> False
     | c # rest \<Rightarrow> is_alnum c \<and> length rest \<le> 63 \<and> list_all (\<lambda>d. is_alnum d \<or> d \<in> set ''_.-'') rest)"

definition num_val :: "pyval \<Rightarrow> int" where
  "num_val v = (case num_of v of None \<Rightarrow> 0 | Some n \<Rightarrow> n)"

definition APPROVED_JOB_IMAGE :: string where
  "APPROVED_JOB_IMAGE = ''nvcr.io#nvidia/cuda:13.2.0-base-ubuntu24.04@'' @
     ''sha256:36cccda4bebc3b0b1ebe1907ead8169cf144d45df890be871b36b304cf91145a''"

subsection \<open>Approvals\<close>

definition reviewed_time :: "instant \<Rightarrow> string \<Rightarrow> pyval \<Rightarrow> instant result" where
  "reviewed_time now error_code v = (case iso_time v of
     Some (t, True) \<Rightarrow> and_then (as_utc t) (\<lambda>t. if now + seconds 60 < t then Inl (rejected error_code) else Inr t)
   | _ \<Rightarrow> Inl (rejected error_code))"

definition approval_result :: "instant \<Rightarrow> string \<Rightarrow> string \<Rightarrow> string \<Rightarrow> pyval \<Rightarrow> pyval result" where
  "approval_result now error_code requested approved approval =
     and_then (reviewed_time now error_code (dget approval ''reviewed_at'')) (\<lambda>t.
     and_then (collect [(''approval_id'', canonical_id (dget approval ''approval_id'')),
        (requested, Inr (dget approval requested)), (approved, Inr (dget approval approved)),
        (''script_sha256'', Inr (dget approval ''script_sha256'')),
        (''reviewed_by'', canonical_id (dget approval ''reviewed_by'')), (''reviewed_at'', Inr (PTime t))])
      (\<lambda>d. Inr (PDict d)))"

definition memory_approval :: "instant \<Rightarrow> payload \<Rightarrow> pyval result" where
  "memory_approval now p =
     (let approval = field p ''memory_approval''; memory = field p ''memory_mb'';
          requested = dget approval ''requested_memory_mb''; approved = dget approval ''approved_memory_mb'';
          code_of = ''MEMORY_APPROVAL_REJECTED''; e = rejected code_of in
      if approval = PNone then refusing [(32768 < int_field memory, e)] (Inr PNone)
      else refusing
        [(\<not> keys_exactly approval [''approval_id'', ''requested_memory_mb'', ''approved_memory_mb'',
             ''script_sha256'', ''reviewed_by'', ''reviewed_at''], e),
         (iso_time (dget approval ''reviewed_at'') = None, e),
         (\<not> plain_int_between 32769 486377 requested \<or> \<not> plain_int_between 256 (int_field requested) approved \<or>
          \<not> py_eq memory approved \<or> \<not> py_eq (dget approval ''script_sha256'') (field p ''script_sha256''), e)]
        (approval_result now code_of ''requested_memory_mb'' ''approved_memory_mb'' approval))"

definition gpu_approval :: "instant \<Rightarrow> payload \<Rightarrow> pyval result" where
  "gpu_approval now p =
     (let approval = field p ''gpu_approval''; gpus = field p ''gpu_count''; maximum = field p ''max_gpu'';
          requested = dget approval ''requested_gpu_count''; approved = dget approval ''approved_gpu_count'';
          limit = rejected ''GPU_LIMIT_EXCEEDED''; code_of = ''GPU_APPROVAL_REJECTED''; e = rejected code_of in
      refusing [(is_bool maximum \<or> is_bool gpus, limit), (unhashable maximum, unhashable_type),
        (\<not> in_values maximum [PInt 0, PInt 1], limit)]
      (if approval = PNone then refusing [(unhashable gpus, unhashable_type),
          (\<not> in_values gpus [PInt 0, PInt 1] \<or> num_val maximum < num_val gpus, limit)] (Inr PNone)
       else refusing
        [(\<not> keys_exactly approval [''approval_id'', ''requested_gpu_count'', ''approved_gpu_count'',
             ''script_sha256'', ''reviewed_by'', ''reviewed_at''], e),
         (iso_time (dget approval ''reviewed_at'') = None, e),
         (\<not> py_eq maximum (PInt 1) \<or> is_bool requested \<or> is_bool approved, e),
         (unhashable requested, unhashable_type),
         (\<not> in_values requested [PInt 2, PInt 3, PInt 4] \<or> \<not> int_within 1 (num_val requested) approved \<or>
          \<not> py_eq gpus approved \<or> \<not> py_eq (dget approval ''script_sha256'') (field p ''script_sha256''), e)]
        (approval_result now code_of ''requested_gpu_count'' ''approved_gpu_count'' approval)))"

subsection \<open>Submission\<close>

definition job_fields :: "string list" where
  "job_fields = [''portal_job_id'', ''managed_user_id'', ''lease_id'', ''username'', ''uid'', ''gid'',
     ''workspace_path'', ''quota_root'', ''home_source'', ''home_path'', ''project_id'', ''quota_bytes'', ''name'',
     ''script_relative_path'', ''script_content'', ''script_sha256'', ''workdir_scope'', ''workdir_relative_path'',
     ''stdout_relative_path'', ''stderr_relative_path'', ''cpus'', ''memory_mb'', ''gpu_count'',
     ''time_limit_seconds'', ''lease_deadline_at'', ''slurm_account'', ''slurm_qos'', ''max_gpu'',
     ''gpu_approval'', ''memory_approval'', ''image_ref'']"

definition storage_binding :: "workspace_coordinates \<Rightarrow> payload" where
  "storage_binding b = [(''workspace_path'', PStr (path_str (wb_canonical_workspace b))),
     (''quota_root'', PStr (path_str (wb_quota_root b))), (''home_source'', PStr (path_str (wb_canonical_home b))),
     (''home_path'', PStr (path_str (wb_compute_home b)))]"

definition script_ok :: "schema_env \<Rightarrow> payload \<Rightarrow> bool" where
  "script_ok env p = text_matches (\<lambda>s. s \<noteq> [] \<and> utf8_length s \<le> 8 * 1024 \<and> char_of (0 :: nat) \<notin> set s \<and>
     starts_with s ''#!'' \<and> text_matches (\<lambda>h. lower_hex 64 h \<and> se_sha256 env s = h) (field p ''script_sha256''))
     (field p ''script_content'')"

definition job_output :: "pyval \<Rightarrow> string \<Rightarrow> pyval" where
  "job_output job suffix = PStr (''outputs/'' @ py_str job @ suffix)"

definition job_script :: "pyval \<Rightarrow> pyval" where
  "job_script job = PStr (''.portal/job-scripts/'' @ py_str job @ ''.sh'')"

definition job_outputs :: "payload \<Rightarrow> pyval \<Rightarrow> payload result" where
  "job_outputs p job =
     and_then (collect [(''stdout_relative_path'', relative_user_path (field p ''stdout_relative_path'')),
         (''stderr_relative_path'', relative_user_path (field p ''stderr_relative_path''))]) (\<lambda>outputs.
       refusing [(outputs \<noteq> [(''stdout_relative_path'', job_output job ''.out''),
          (''stderr_relative_path'', job_output job ''.err'')], rejected ''JOB_OUTPUT_REJECTED'')] (Inr outputs))"

definition job_workdir :: "payload \<Rightarrow> pyval result" where
  "job_workdir p = (let v = field p ''workdir_relative_path'' in
     if v = PStr ''.'' then Inr (PStr ''.'') else relative_user_path v)"

definition job_qos :: "pyval \<Rightarrow> payload \<Rightarrow> pyval" where
  "job_qos approval p =
     PStr (if approval \<noteq> PNone \<and> 1 < num_val (field p ''gpu_count'') then ''portal-approved-multigpu'' else ''general'')"

definition job_result :: "payload \<Rightarrow> payload \<Rightarrow> workspace_coordinates \<Rightarrow> payload \<Rightarrow> pyval \<Rightarrow> pyval \<Rightarrow> instant \<Rightarrow>
    pyval \<Rightarrow> payload \<Rightarrow> pyval \<Rightarrow> payload" where
  "job_result p identity binding ids memory gpu deadline workdir outputs script =
     (let keep = map (\<lambda>name. (name, field p name)) in
      identity @ storage_binding binding @ keep [''project_id'', ''quota_bytes''] @ ids @
      [(''name'', field p ''name''), (''script_relative_path'', script)] @
      keep [''script_content'', ''script_sha256'', ''workdir_scope''] @ [(''workdir_relative_path'', workdir)] @ outputs @
      keep [''cpus'', ''memory_mb'', ''gpu_count'', ''time_limit_seconds''] @ [(''lease_deadline_at'', PTime deadline)] @
      keep [''slurm_account'', ''slurm_qos'', ''max_gpu''] @
      [(''gpu_approval'', gpu), (''memory_approval'', memory), (''image_ref'', field p ''image_ref'')])"

definition validate_self_job_submit :: "schema_env \<Rightarrow> payload \<Rightarrow> payload result" where
  "validate_self_job_submit env p =
     (let now = se_now env; e = rejected ''JOB_SPEC_REJECTED''; scope = field p ''workdir_scope'' in
      refusing [(\<not> exact_keys p job_fields, e)]
      (and_then (identity_fields p) (\<lambda>identity.
       and_then (binding_of identity) (\<lambda>binding.
       refusing [(\<not> fields_equal p (storage_binding binding), rejected ''USER_STORAGE_BINDING_REJECTED''),
          quota_guard ''STORAGE_QUOTA_REJECTED'' p]
       (and_then (collect [(''portal_job_id'', canonical_id (field p ''portal_job_id'')),
          (''lease_id'', canonical_id (field p ''lease_id''))]) (\<lambda>ids.
       let job = field ids ''portal_job_id'' in
       refusing [(\<not> text_matches job_name_re (field p ''name''), e), (\<not> plain_int_between 1 8 (field p ''cpus''), e),
          (\<not> plain_int_between 256 486377 (field p ''memory_mb''), e)]
       (and_then (memory_approval now p) (\<lambda>memory.
        and_then (gpu_approval now p) (\<lambda>gpu.
       refusing [(\<not> plain_int_between 60 345600 (field p ''time_limit_seconds''), e)]
       (and_then (future_timestamp now (field p ''lease_deadline_at'')) (\<lambda>deadline.
       refusing [(deadline - now < seconds (int_field (field p ''time_limit_seconds'')), rejected ''JOB_EXCEEDS_LEASE''),
          (field p ''image_ref'' \<noteq> PStr APPROVED_JOB_IMAGE, rejected ''IMAGE_NOT_APPROVED''),
          (\<not> script_ok env p, rejected ''JOB_SCRIPT_REJECTED''), (unhashable scope, unhashable_type),
          (\<not> one_of scope [''workspace'', ''home''], rejected ''ARBITRARY_PATH_REJECTED'')]
       (and_then (job_workdir p) (\<lambda>workdir.
       refusing [(field p ''slurm_account'' \<noteq> PStr ''company'' \<or> field p ''slurm_qos'' \<noteq> job_qos gpu p,
          rejected ''SLURM_ASSOCIATION_REJECTED'')]
       (and_then (job_outputs p job) (\<lambda>outputs.
        and_then (relative_user_path (field p ''script_relative_path'')) (\<lambda>script.
       refusing [(script \<noteq> job_script job, rejected ''JOB_SCRIPT_REJECTED'')]
       (Inr (job_result p identity binding ids memory gpu deadline workdir outputs script))))))))))))))))))"

subsection \<open>One job\<close>

definition job_target_fields :: "bool \<Rightarrow> string list" where
  "job_target_fields logs = [''portal_job_id'', ''managed_user_id'', ''username'', ''uid'', ''gid'', ''workspace_path''] @
     (if logs then [''stdout_relative_path'', ''stderr_relative_path''] else [''slurm_job_id''])"

text \<open>The number of a Slurm job may be a boolean: \<open>True\<close> is the integer 1.\<close>

definition validate_self_job_target :: "bool \<Rightarrow> payload \<Rightarrow> payload result" where
  "validate_self_job_target logs p =
     refusing [(\<not> exact_keys p (job_target_fields logs), rejected ''JOB_TARGET_REJECTED'')]
     (and_then (identity_fields p) (\<lambda>identity.
      and_then (workspace_of (field identity ''uid'')) (\<lambda>workspace.
      refusing [(field p ''workspace_path'' \<noteq> workspace, rejected ''WORKSPACE_BINDING_REJECTED'')]
      (and_then (canonical_id (field p ''portal_job_id'')) (\<lambda>job.
       and_then (if logs then job_outputs p job
         else refusing [(\<not> int_within 1 (2 ^ 63 - 1) (field p ''slurm_job_id''), rejected ''JOB_TARGET_REJECTED'')]
           (Inr [(''slurm_job_id'', field p ''slurm_job_id'')])) (\<lambda>rest.
       Inr (identity @ [(''workspace_path'', workspace), (''portal_job_id'', job)] @ rest)))))))"

end
