(* ===== verification/Worker_Schemas.thy ===== *)
theory Worker_Schemas
  imports Job_Schemas Worker_Frame
begin

section \<open>Requests to the worker\<close>

text \<open>
  The rest of \<open>schemas.py\<close>: the operations the worker knows, the model of a request, the schemas of the user and
  key operations, and \<open>validate_payload\<close>, which chooses the schema of an operation; then \<open>handle\<close> of
  \<open>handlers.py\<close>, which validates a request and chooses the function that serves it. Those functions act on the host
  and are not modelled: \<open>handle\<close> answers itself, or names the function it calls and the payload it gives it.
\<close>

subsection \<open>Operations\<close>

definition KNOWN_READS :: "string list" where
  "KNOWN_READS = [''platform.health.read'', ''gpu.list'', ''gpu.health.read'', ''slurm.node.read'', ''slurm.jobs.read'',
     ''slurm.accounts.read'', ''slurm.history.read'', ''containers.list'', ''containers.inspect'',
     ''storage.summary.read'', ''quotas.list'', ''systemd.failed.read'', ''monitoring.alerts.read'',
     ''monitoring.summary.read'', ''registry.status.read'', ''images.list'', ''gpu_isolation.status.read'',
     ''ssh.policy.read'', ''self.job.logs.read'', ''self.job.status.read'', ''self.storage.read'',
     ''self.workspace.check'', ''compute.provision.retry_verify'']"

definition KNOWN_WRITES :: "string list" where
  "KNOWN_WRITES = [''compute.activate.self'', ''compute.activate.self.rollback'', ''compute.provision.plan'',
     ''compute.provision.dry_run'', ''compute.provision.stage'', ''user.plan'', ''user.stage'', ''user.activate'',
     ''user.activate.rollback'', ''user.ssh_client_validation.record'', ''user.pilot.acceptance'', ''user.suspend'',
     ''container.start'', ''container.stop'', ''container.restart'', ''container.profile.upgrade_gpu'',
     ''container.profile.upgrade_gpu.rollback'', ''container.start_after_profile_upgrade'',
     ''container.stop_after_profile_upgrade'', ''container.rebuild'', ''slurm.drain'', ''slurm.resume'',
     ''slurm.production_pilot.start'', ''job.cancel'', ''quota.update'', ''ssh_key.add'', ''ssh_key.revoke'',
     ''ssh_key.prepare'', ''ssh_key.discard'', ''ssh_key.sync_active_container'', ''self.job.submit'',
     ''self.job.cancel'', ''lease.expire'', ''resource.recycle'', ''resource.restore'',
     ''resource.restore.rollback'', ''self.resource.restore'', ''host_access.revoke_managed_user'']"

definition KNOWN_STREAMS :: "string list" where
  "KNOWN_STREAMS = [''self.container.terminal'']"

subsection \<open>The request\<close>

text \<open>
  \<open>WorkerRequest\<close>. Two conversions are pydantic's own and are arguments: whether a value is the literal 1, and
  the reading of a boolean.
\<close>

record request_readers =
  literal_one :: "pyval \<Rightarrow> bool"
  lax_boolean :: "pyval \<Rightarrow> bool option"

definition request_id_re :: "string \<Rightarrow> bool" where
  "request_id_re s \<longleftrightarrow> length s = 36 \<and> list_all (\<lambda>c. is_digit c \<or> c \<in> set ''abcdefABCDEF-'') s"

definition actor_re :: "string \<Rightarrow> bool" where
  "actor_re s \<longleftrightarrow> (case s of [] \<Rightarrow> False
     | c # rest \<Rightarrow> is_lower c \<and> length rest \<le> 63 \<and> list_all (\<lambda>d. is_lower d \<or> is_digit d \<or> d = CHR ''-'') rest)"

definition request_fields :: "string list" where
  "request_fields = [''protocol_version'', ''request_id'', ''operation_type'', ''payload'', ''requested_by'',
     ''approved_by'', ''idempotency_key'', ''dry_run'']"

definition worker_request_of :: "request_readers \<Rightarrow> pyval \<Rightarrow> worker_request option" where
  "worker_request_of rd v =
     (let d = dict_items v; approved = (case map_of d ''approved_by'' of None \<Rightarrow> PNone | Some a \<Rightarrow> a);
          payload = (case map_of d ''payload'' of None \<Rightarrow> PDict [] | Some p \<Rightarrow> p);
          dry = (case map_of d ''dry_run'' of None \<Rightarrow> Some False | Some b \<Rightarrow> lax_boolean rd b) in
      case (text_of (dget v ''request_id''), text_of (dget v ''operation_type''), text_of (dget v ''requested_by''),
          text_of (dget v ''idempotency_key''), dry) of
        (Some request_id, Some operation, Some requested, Some key, Some dry_run) \<Rightarrow>
          if is_dict v \<and> list_all (\<lambda>k. k \<in> set request_fields) (map fst d) \<and>
            map_of d ''protocol_version'' \<noteq> None \<and> literal_one rd (dget v ''protocol_version'') \<and>
            request_id_re request_id \<and> 3 \<le> length operation \<and> length operation \<le> 64 \<and>
            operation \<in> set (KNOWN_READS @ KNOWN_WRITES @ KNOWN_STREAMS) \<and> is_dict payload \<and> actor_re requested \<and>
            (approved = PNone \<or> text_matches actor_re approved) \<and> reference_re key
          then Some \<lparr>wreq_request_id = request_id, wreq_operation_type = operation, wreq_payload = payload,
            wreq_requested_by = requested, wreq_approved_by = text_of approved, wreq_idempotency_key = key,
            wreq_dry_run = dry_run\<rparr>
          else None
      | _ \<Rightarrow> None)"

subsection \<open>Users\<close>

definition WORKER_STAGE_KEY_FIELDS :: "string list" where
  "WORKER_STAGE_KEY_FIELDS = [''public_key_file'', ''public_key_path'', ''public_key'', ''raw_public_key'',
     ''approved_ssh_key_record_ids'']"

definition APPROVED_STAGE_PAYLOAD :: payload where
  "APPROVED_STAGE_PAYLOAD = [(''username'', PStr ''origin-pilot''), (''uid'', PInt 20001), (''gid'', PInt 20001),
     (''project_id'', PInt 30001), (''ssh_port'', PInt 22023), (''quota_gb'', PInt 300),
     (''slurm_account'', PStr ''company''), (''slurm_qos'', PStr ''general''), (''max_gpus'', PInt 1),
     (''container_name'', PStr ''gpu-dev-origin-pilot''), (''cpus'', PInt 8), (''memory_gb'', PInt 32),
     (''pids_limit'', PInt 4096), (''gpu'', PStr ''none''), (''expected_state'', PStr ''DRAFT'')]"

definition folded_protected :: "pyval \<Rightarrow> bool" where
  "folded_protected v = text_matches (\<lambda>s. casefold s \<in> set PROTECTED_HOST_USERS) v"

definition validate_user_stage :: "bool \<Rightarrow> payload \<Rightarrow> payload result" where
  "validate_user_stage allow_legacy p =
     (let username = field p ''username''; reference = field p ''approval_reference''; e = rejected ''PAYLOAD_REJECTED'' in
      refusing [(any_key p WORKER_STAGE_KEY_FIELDS, rejected ''PUBLIC_KEY_NOT_ALLOWED_DURING_STAGE''),
        (any_key p WORKER_FORBIDDEN_FIELDS, e), (folded_protected username, e)]
      (if allow_legacy \<and> exact_keys p [''username'']
       then refusing [(\<not> safe_username username, e), (protected_name PROTECTED_HOST_USERS username, e)]
         (Inr [(''username'', username)])
       else refusing
         [(\<not> exact_keys p (map fst APPROVED_STAGE_PAYLOAD) \<and>
           \<not> exact_keys p (map fst APPROVED_STAGE_PAYLOAD @ [''approval_reference'']), rejected ''STAGE_PAYLOAD_REJECTED''),
          (reference \<noteq> PNone \<and> \<not> text_matches reference_re reference, rejected ''STAGE_PAYLOAD_REJECTED''),
          (\<not> fields_equal p APPROVED_STAGE_PAYLOAD, rejected ''STAGE_PLAN_MISMATCH'')]
         (Inr (APPROVED_STAGE_PAYLOAD @
           (if reference \<noteq> PNone then [(''approval_reference'', reference)] else [])))))"

definition activation_request_fields :: "string list" where
  "activation_request_fields = [''managed_user_id'', ''approved_ssh_key_record_ids'', ''expected_state'',
     ''approval_reference'']"

definition validate_user_activate :: "payload \<Rightarrow> payload result" where
  "validate_user_activate p =
     (let ids = field p ''approved_ssh_key_record_ids'' in
      refusing [(any_key p (filter (\<lambda>k. k \<noteq> ''approved_ssh_key_record_ids'') WORKER_STAGE_KEY_FIELDS),
           rejected ''ARBITRARY_PATH_REJECTED''),
         (any_key p WORKER_FORBIDDEN_FIELDS, rejected ''PAYLOAD_REJECTED''),
         (\<not> is_list ids \<or> list_items ids = [], rejected ''PUBLIC_KEY_REQUIRED_FOR_ACTIVATION''),
         (5 < length (list_items ids), rejected ''PAYLOAD_REJECTED''),
         (\<not> exact_keys p activation_request_fields \<and>
          \<not> exact_keys p (activation_request_fields @ [''dry_run_operation_id'']), rejected ''ACTIVATE_PAYLOAD_REJECTED'')]
      (and_then (canonical_ids (list_items ids)) (\<lambda>canonical.
       refusing [(\<not> distinct canonical, rejected ''PUBLIC_KEY_DUPLICATE''),
         (field p ''expected_state'' \<noteq> PStr ''STAGED'', rejected ''USER_NOT_IN_STAGED_STATE''),
         (\<not> text_matches reference_re (field p ''approval_reference''), rejected ''ACTIVATE_PAYLOAD_REJECTED'')]
       (collect ([(''managed_user_id'', canonical_id (field p ''managed_user_id'')),
          (''approved_ssh_key_record_ids'', Inr (PList canonical)), (''expected_state'', Inr (PStr ''STAGED'')),
          (''approval_reference'', Inr (field p ''approval_reference''))] @
          (if any_key p [''dry_run_operation_id'']
           then [(''dry_run_operation_id'', canonical_id (field p ''dry_run_operation_id''))] else []))))))"

subsection \<open>Keys\<close>

definition upper_text :: "string \<Rightarrow> string" where
  "upper_text s = map (\<lambda>c. if is_lower c then char_of (ord_of c - 32) else c) s"

definition private_key_marked :: "string \<Rightarrow> bool" where
  "private_key_marked s \<longleftrightarrow> contains ''PRIVATE KEY'' (upper_text s)"

definition prepare_fields :: "string list" where
  "prepare_fields = [''record_id'', ''operation_id'', ''managed_user_id'', ''username'', ''public_key'', ''key_type'',
     ''fingerprint_sha256'', ''content_sha256'', ''scope'']"

definition validate_ssh_key_prepare :: "payload \<Rightarrow> payload result" where
  "validate_ssh_key_prepare p =
     (let key = field p ''public_key''; kind = field p ''key_type''; username = field p ''username'';
          scope = field p ''scope''; e = rejected ''SSH_KEY_PREPARE_REJECTED'' in
      refusing [(any_key p WORKER_FORBIDDEN_FIELDS, rejected ''SSH_PRIVATE_KEY_UPLOAD_REJECTED''),
         (\<not> exact_keys p prepare_fields, e),
         (\<not> text_matches (\<lambda>s. 32 \<le> utf8_length s \<and> utf8_length s \<le> 16 * 1024) key, e),
         (text_matches private_key_marked key, rejected ''SSH_PRIVATE_KEY_UPLOAD_REJECTED''),
         (unhashable kind, unhashable_type),
         (\<not> one_of kind [''ssh-ed25519'', ''ecdsa-sha2-nistp256'', ''sk-ssh-ed25519@openssh.com''],
          rejected ''SSH_PUBLIC_KEY_TYPE_REJECTED''),
         (\<not> key_fingerprint (field p ''fingerprint_sha256''), e),
         (\<not> text_matches (lower_hex 64) (field p ''content_sha256''), e),
         (\<not> safe_username username \<or> protected_name (PROTECTED_HOST_USERS @ [''nobody'']) username, e),
         (unhashable scope, unhashable_type),
         (\<not> one_of scope [''HOST'', ''CONTAINER'', ''BOTH''] \<or>
          (username \<noteq> PStr ''origin-pilot'' \<and> scope \<noteq> PStr ''CONTAINER''), e)]
      (collect [(''record_id'', canonical_id (field p ''record_id'')),
         (''operation_id'', canonical_id (field p ''operation_id'')),
         (''managed_user_id'', canonical_id (field p ''managed_user_id'')), (''username'', Inr username),
         (''public_key'', Inr key), (''key_type'', Inr kind),
         (''fingerprint_sha256'', Inr (field p ''fingerprint_sha256'')),
         (''content_sha256'', Inr (field p ''content_sha256'')), (''scope'', Inr scope)]))"

definition validate_ssh_key_discard :: "payload \<Rightarrow> payload result" where
  "validate_ssh_key_discard p =
     refusing [(\<not> exact_keys p [''record_id'', ''operation_id'', ''content_sha256''], rejected ''SSH_KEY_DISCARD_REJECTED''),
        (\<not> text_matches (lower_hex 64) (field p ''content_sha256''), rejected ''SSH_KEY_DISCARD_REJECTED'')]
     (collect [(''record_id'', canonical_id (field p ''record_id'')),
        (''operation_id'', canonical_id (field p ''operation_id'')),
        (''content_sha256'', Inr (field p ''content_sha256''))])"

definition sync_fields :: "string list" where
  "sync_fields = [''sync_operation_id'', ''managed_user_id'', ''owner_login'', ''username'', ''uid'', ''gid'',
     ''ssh_port'', ''container_name'', ''workspace_path'', ''development_profile'', ''slurm_account'', ''slurm_qos'',
     ''lease_id'', ''lease_expires_at'', ''gpu_allocation_job_id'', ''gpu_allocation_uuid'',
     ''current_ssh_key_record_ids'', ''current_ssh_key_fingerprints'', ''ssh_key_record_ids'',
     ''ssh_key_fingerprints'', ''deployment_version'']"

definition sync_identity_ok :: "payload \<Rightarrow> bool" where
  "sync_identity_ok p \<longleftrightarrow> safe_username (field p ''username'') \<and>
     \<not> protected_name (PROTECTED_HOST_USERS @ [''nobody'']) (field p ''username'') \<and>
     field p ''owner_login'' = field p ''username'' \<and>
     plain_int_between PILOT_UID_MIN PILOT_UID_MAX (field p ''uid'') \<and>
     plain_int_between PILOT_UID_MIN PILOT_UID_MAX (field p ''gid'') \<and>
     plain_int_between PILOT_SSH_PORT_MIN PILOT_SSH_PORT_MAX (field p ''ssh_port'')"

definition gpu_bound :: "pyval \<Rightarrow> pyval \<Rightarrow> bool" where
  "gpu_bound job uuid \<longleftrightarrow> \<not> is_bool job \<and> (case py_int job of None \<Rightarrow> False | Some n \<Rightarrow> 0 < n) \<and>
     text_matches gpu_uuid_re uuid"

definition validate_ssh_key_sync_active_container :: "payload \<Rightarrow> payload result" where
  "validate_ssh_key_sync_active_container p =
     (let username = field p ''username''; profile = field p ''development_profile'';
          job = field p ''gpu_allocation_job_id''; uuid = field p ''gpu_allocation_uuid'';
          unbound = (job = PNone \<and> uuid = PNone); binding = rejected ''SSH_KEY_SYNC_RESOURCE_BINDING_REJECTED'';
          keys = rejected ''SSH_KEY_SYNC_KEY_BINDING_REJECTED''; keep = (\<lambda>name. (name, Inr (field p name)));
          id_of = (\<lambda>name. (name, canonical_id (field p name)));
          key_set = (\<lambda>prefix. key_bindings ''SSH_KEY_SYNC_KEY_BINDING_REJECTED''
            (field p (prefix @ ''ssh_key_record_ids'')) (field p (prefix @ ''ssh_key_fingerprints''))) in
      refusing [(\<not> exact_keys p sync_fields \<or> any_key p WORKER_FORBIDDEN_FIELDS,
           rejected ''SSH_KEY_SYNC_PAYLOAD_REJECTED''),
         (\<not> sync_identity_ok p, binding), (unhashable profile, unhashable_type), (\<not> known_profile profile, binding)]
      (and_then (workspace_of (field p ''uid'')) (\<lambda>workspace.
       refusing [(field p ''container_name'' \<noteq> container_of username \<or> field p ''workspace_path'' \<noteq> workspace \<or>
          \<not> fields_equal p slurm_policy, binding)]
       (and_then (key_set ''current_'') (\<lambda>current. and_then (key_set []) (\<lambda>target.
        refusing [(length (fst target) \<le> length (fst current) \<or>
            take (length (fst current)) (fst target) \<noteq> fst current \<or>
            take (length (snd current)) (snd target) \<noteq> snd current, keys),
          (\<not> gpu_bound job uuid \<and> \<not> unbound \<or> (profile = PStr CPU_DEVELOPMENT_PROFILE \<and> \<not> unbound),
           rejected ''SSH_KEY_SYNC_GPU_BINDING_REJECTED''),
          (\<not> short_text (field p ''lease_expires_at''), rejected ''SSH_KEY_SYNC_LEASE_BINDING_REJECTED''),
          (\<not> deployment_version_ok (field p ''deployment_version''), rejected ''SSH_KEY_SYNC_RUNTIME_BINDING_REJECTED'')]
        (collect [id_of ''sync_operation_id'', id_of ''managed_user_id'', (''owner_login'', Inr username),
          keep ''username'', keep ''uid'', keep ''gid'', keep ''ssh_port'', (''container_name'', Inr (container_of username)),
          (''workspace_path'', Inr workspace), keep ''development_profile'', (''slurm_account'', Inr (PStr ''company'')),
          (''slurm_qos'', Inr (PStr ''general'')), id_of ''lease_id'', keep ''lease_expires_at'',
          keep ''gpu_allocation_job_id'', keep ''gpu_allocation_uuid'',
          (''current_ssh_key_record_ids'', Inr (PList (fst current))),
          (''current_ssh_key_fingerprints'', Inr (PList (snd current))),
          (''ssh_key_record_ids'', Inr (PList (fst target))), (''ssh_key_fingerprints'', Inr (PList (snd target))),
          keep ''deployment_version''])))))))"

end
