(* ===== verification/Worker_Dispatch.thy ===== *)
theory Worker_Dispatch
  imports Worker_Schemas
begin

section \<open>Which schema, and which handler\<close>

text \<open>
  \<open>validate_payload\<close> of \<open>schemas.py\<close> and \<open>handle\<close> of \<open>handlers.py\<close>. The functions that act on the host are not
  modelled: \<open>Calls f p\<close> says that the request is served by \<open>f\<close> with the validated payload \<open>p\<close>, \<open>Answered\<close> is an
  answer of \<open>handle\<close> itself (without the human text beside an error code), and \<open>Raises\<close> an exception that leaves it.
\<close>

subsection \<open>Fixed plans of the pilot\<close>

definition PORTAL3F_MANAGED_USER_ID :: uuid where
  "PORTAL3F_MANAGED_USER_ID = ''3b95b4f0-95d9-444a-8f0b-46288195a807''"

definition PORTAL3F_KEY_RECORD_ID :: uuid where
  "PORTAL3F_KEY_RECORD_ID = ''7427da72-37b9-4ac2-8ada-2f0c83b7718e''"

definition WORKER_PORTAL3F_REFERENCE :: string where
  "WORKER_PORTAL3F_REFERENCE = ''portal3f-origin-pilot-first-acceptance-v1''"

definition APPROVED_CLIENT_VALIDATION_PAYLOAD :: payload where
  "APPROVED_CLIENT_VALIDATION_PAYLOAD =
     [(''managed_user_id'', PStr PORTAL3F_MANAGED_USER_ID), (''username'', PStr ''origin-pilot''),
      (''expected_compute_state'', PStr ''ACTIVE''), (''expected_ssh_key_state'', PStr ''INSTALLED''),
      (''key_record_id'', PStr PORTAL3F_KEY_RECORD_ID), (''key_fingerprint'', PStr PORTAL3F_KEY_FINGERPRINT),
      (''host_client_validation'', PStr ''PASS''), (''container_client_validation'', PStr ''PASS''),
      (''confirmation_source'', PStr ''USER_CONFIRMED_REAL_CLIENT_CONNECTIONS''),
      (''approval_reference'', PStr WORKER_PORTAL3F_REFERENCE)]"

definition APPROVED_PILOT_ACCEPTANCE_PAYLOAD :: payload where
  "APPROVED_PILOT_ACCEPTANCE_PAYLOAD =
     [(''managed_user_id'', PStr PORTAL3F_MANAGED_USER_ID), (''username'', PStr ''origin-pilot''),
      (''node_name'', PStr ''sagsh100server''), (''partition'', PStr ''notebook''), (''account'', PStr ''company''),
      (''qos'', PStr ''general''), (''max_gpus'', PInt 1), (''container_name'', PStr ''gpu-dev-origin-pilot''),
      (''container_gpu'', PStr ''NONE''), (''image_ref'', PStr APPROVED_JOB_IMAGE),
      (''expected_host_client_validation'', PStr ''PASS''), (''expected_container_client_validation'', PStr ''PASS''),
      (''final_node_state'', PStr ''DRAIN''), (''approval_reference'', PStr WORKER_PORTAL3F_REFERENCE)]"

definition APPROVED_PRODUCTION_PILOT_PAYLOAD :: payload where
  "APPROVED_PRODUCTION_PILOT_PAYLOAD =
     [(''managed_user_id'', PStr PORTAL3F_MANAGED_USER_ID), (''username'', PStr ''origin-pilot''),
      (''node_name'', PStr ''sagsh100server''), (''mode'', PStr ''single-node''),
      (''managed_users'', PList [PStr ''origin-pilot'']), (''max_gpus'', PInt 1),
      (''client_validation_operation_id'', PStr ''a168cf96-c54d-4e68-b040-5516cae66518''),
      (''pilot_acceptance_operation_id'', PStr ''94399c95-1a17-47a1-bd41-43a0c242ccc1''),
      (''expected_node_state'', PStr ''DRAIN''), (''target_node_state'', PStr ''IDLE''),
      (''approval_reference'', PStr ''portal3g-single-user-production-pilot-v1'')]"

definition validate_fixed_payload :: "string \<Rightarrow> string \<Rightarrow> payload \<Rightarrow> payload \<Rightarrow> payload result" where
  "validate_fixed_payload forbidden mismatch expected p =
     refusing [(any_key p WORKER_FORBIDDEN_FIELDS, rejected forbidden),
        (\<not> py_eq (PDict p) (PDict expected), rejected mismatch)] (Inr expected)"

subsection \<open>Small schemas\<close>

text \<open>An error without a code is a plain \<open>ValueError\<close>.\<close>

definition validate_container_start :: "payload \<Rightarrow> payload result" where
  "validate_container_start p =
     (let name = field p ''name''; username = field p ''username'' in
      if exact_keys p [''name'']
      then refusing [(\<not> safe_identifier name, rejected ''PAYLOAD_REJECTED'')] (Inr [(''name'', name)])
      else refusing
        [(\<not> exact_keys p [''name'', ''username'', ''managed_user_id'', ''expected_compute_state'',
            ''expected_container_state'', ''expected_ssh_key_state''], rejected ''CONTAINER_START_PAYLOAD_REJECTED''),
         (\<not> safe_username username \<or> protected_name PROTECTED_HOST_USERS username \<or> name \<noteq> container_of username,
          rejected ''CONTAINER_OWNERSHIP_REJECTED''),
         (field p ''expected_compute_state'' \<noteq> PStr ''ACTIVE'' \<or> field p ''expected_container_state'' \<noteq> PStr ''STOPPED'' \<or>
          field p ''expected_ssh_key_state'' \<noteq> PStr ''INSTALLED'', rejected ''CONTAINER_START_STATE_REJECTED'')]
        (collect [(''name'', Inr name), (''username'', Inr username),
          (''managed_user_id'', canonical_id (field p ''managed_user_id'')),
          (''expected_compute_state'', Inr (PStr ''ACTIVE'')), (''expected_container_state'', Inr (PStr ''STOPPED'')),
          (''expected_ssh_key_state'', Inr (PStr ''INSTALLED''))]))"

definition one_name :: "payload \<Rightarrow> payload result" where
  "one_name p = refusing [(\<not> safe_identifier (field p ''name''), ValueError ''invalid container name'')]
     (Inr [(''name'', field p ''name'')])"

definition one_username :: "exn \<Rightarrow> exn \<Rightarrow> payload \<Rightarrow> payload result" where
  "one_username invalid protected p =
     refusing [(\<not> safe_username (field p ''username''), invalid),
        (protected_name PROTECTED_HOST_USERS (field p ''username''), protected)]
       (Inr [(''username'', field p ''username'')])"

definition validate_user_operation :: "string \<Rightarrow> payload \<Rightarrow> payload result" where
  "validate_user_operation operation_type p =
     (let e = rejected ''PAYLOAD_REJECTED'' in
      refusing [(\<not> safe_username (field p ''username''), e),
         (operation_type = ''user.plan'' \<and> field p ''username'' \<noteq> PStr ''origin-pilot'', e)] (one_username e e p))"

definition validate_quota :: "payload \<Rightarrow> payload result" where
  "validate_quota p =
     and_then (one_username (ValueError ''invalid username'') (ValueError ''protected username'') p) (\<lambda>user.
     refusing [(\<not> int_within 1 (10 * 1024 ^ 4) (field p ''quota_bytes''), ValueError ''invalid quota'')]
       (Inr (user @ [(''quota_bytes'', field p ''quota_bytes'')])))"

definition validate_node :: "payload \<Rightarrow> payload result" where
  "validate_node p =
     (let node = dget_or (PDict p) ''node_name'' (PStr ''sagsh100server'') in
      refusing [(node \<noteq> PStr ''sagsh100server'', ValueError ''invalid node name'')] (Inr [(''node_name'', node)]))"

definition validate_job_cancel :: "payload \<Rightarrow> payload result" where
  "validate_job_cancel p = refusing [(\<not> int_within 1 (2 ^ 63 - 1) (field p ''job_id''), ValueError ''invalid job id'')]
     (Inr [(''job_id'', field p ''job_id'')])"

subsection \<open>The schema of an operation\<close>

text \<open>The last operations are recognised by the prefix of their name; one that none describes has no parameters.\<close>

definition validate_by_prefix :: "string \<Rightarrow> payload \<Rightarrow> payload result" where
  "validate_by_prefix op p =
     (if starts_with op ''user.'' then validate_user_operation op p
      else if op = ''quota.update'' then validate_quota p
      else if starts_with op ''slurm.'' then validate_node p
      else if starts_with op ''container.'' then one_name p
      else if starts_with op ''ssh_key.''
      then one_username (ValueError ''invalid username'') (ValueError ''protected username'') p
      else Inr [])"

definition validate_rest :: "schema_env \<Rightarrow> string \<Rightarrow> bool \<Rightarrow> payload \<Rightarrow> payload result" where
  "validate_rest env op allow_legacy p =
     (if op \<in> set [''lease.expire'', ''resource.recycle''] then validate_recycle (se_now env) p
      else if op = ''host_access.revoke_managed_user'' then validate_host_revoke p
      else if op = ''job.cancel'' then validate_job_cancel p
      else if op = ''user.stage'' then validate_user_stage allow_legacy p
      else if op \<in> set [''user.activate'', ''user.activate.rollback''] then validate_user_activate p
      else if op = ''ssh_key.prepare'' then validate_ssh_key_prepare p
      else if op = ''ssh_key.discard'' then validate_ssh_key_discard p
      else if op = ''ssh_key.sync_active_container'' then validate_ssh_key_sync_active_container p
      else if op = ''container.start'' then validate_container_start p
      else if op = ''user.ssh_client_validation.record''
      then validate_fixed_payload ''PORTAL3F_PAYLOAD_REJECTED'' ''PORTAL3F_PLAN_MISMATCH'' APPROVED_CLIENT_VALIDATION_PAYLOAD p
      else if op = ''user.pilot.acceptance''
      then validate_fixed_payload ''PORTAL3F_PAYLOAD_REJECTED'' ''PORTAL3F_PLAN_MISMATCH'' APPROVED_PILOT_ACCEPTANCE_PAYLOAD p
      else if op = ''slurm.production_pilot.start''
      then validate_fixed_payload ''PORTAL3G_PAYLOAD_REJECTED'' ''PORTAL3G_PLAN_MISMATCH'' APPROVED_PRODUCTION_PILOT_PAYLOAD p
      else validate_by_prefix op p)"

definition container_actions :: "string list" where
  "container_actions = [''container.start'', ''container.stop'', ''container.restart'']"

definition validate_payload :: "schema_env \<Rightarrow> string \<Rightarrow> bool \<Rightarrow> payload \<Rightarrow> payload result" where
  "validate_payload env op allow_legacy p =
     (if op = ''compute.provision.plan'' then validate_compute_provision_plan p
      else if op = ''compute.provision.dry_run'' then validate_compute_provision_dry_run p
      else if op = ''compute.provision.retry_verify'' then validate_compute_provision_retry_verify p
      else if op = ''compute.provision.stage'' then validate_compute_provision_stage p
      else if op \<in> set [''compute.activate.self'', ''compute.activate.self.rollback''] then validate_compute_activate_self p
      else if op = ''containers.inspect'' then one_name p
      else if op = ''self.job.submit'' then validate_self_job_submit env p
      else if op = ''self.job.cancel'' then validate_self_job_target False p
      else if op = ''self.job.logs.read'' then validate_self_job_target True p
      else if op = ''self.job.status.read'' then validate_self_job_target False p
      else if op = ''self.storage.read'' then validate_storage ''STORAGE_TARGET_REJECTED'' ''STORAGE_QUOTA_REJECTED'' p
      else if op = ''self.workspace.check''
      then validate_storage ''WORKSPACE_CHECK_TARGET_REJECTED'' ''WORKSPACE_QUOTA_REJECTED'' p
      else if op = ''self.container.terminal'' then validate_container_terminal (se_now env) p
      else if op \<in> set container_actions \<and> any_key p [''uid'']
      then validate_container_lifecycle (se_now env) (op \<noteq> ''container.stop'') p
      else if op = ''container.profile.upgrade_gpu'' then validate_gpu_profile_upgrade (se_now env) False p
      else if op = ''container.profile.upgrade_gpu.rollback'' then validate_gpu_profile_upgrade (se_now env) True p
      else if op = ''container.start_after_profile_upgrade'' then validate_container_lifecycle (se_now env) True p
      else if op = ''container.stop_after_profile_upgrade'' then validate_container_lifecycle (se_now env) False p
      else if op \<in> set [''resource.restore'', ''self.resource.restore''] then validate_restore (se_now env) p
      else if op = ''resource.restore.rollback'' then validate_restore_rollback (se_now env) p
      else validate_rest env op allow_legacy p)"

subsection \<open>The handler of a request\<close>

datatype dispatched = Answered pyval | Calls string payload | Raises exn

definition error_answer :: "string \<Rightarrow> payload \<Rightarrow> dispatched" where
  "error_answer error_code extra =
     Answered (PDict ([(''status'', PStr ''ERROR''), (''error'', PDict [(''code'', PStr error_code)])] @ extra))"

definition stage_rejection :: payload where
  "stage_rejection = [(''side_effect_classification'', PStr ''NO_SIDE_EFFECT''),
     (''rollback_status'', PStr ''NOT_REQUIRED''), (''last_successful_step'', PStr ''NONE''),
     (''first_failed_step'', PStr ''WORKER_PAYLOAD_CONTRACT''), (''failed_handler'', PStr ''compute.provision.stage''),
     (''retained_resources'', PList [])]"

definition reject_payload :: "string \<Rightarrow> exn \<Rightarrow> dispatched" where
  "reject_payload op e =
     (let extra = (if op = ''compute.provision.stage'' then stage_rejection else []) in
      case e of PayloadValidationError error_code \<Rightarrow> error_answer error_code extra
      | ValueError _ \<Rightarrow> error_answer ''PAYLOAD_REJECTED'' extra
      | _ \<Rightarrow> Raises e)"

text \<open>The functions that change the host, by the operation they serve.\<close>

definition executors :: "(string \<times> string) list" where
  "executors = [(''container.profile.upgrade_gpu'', ''_execute_gpu_profile_upgrade''),
     (''container.profile.upgrade_gpu.rollback'', ''_execute_gpu_profile_upgrade_rollback''),
     (''container.start_after_profile_upgrade'', ''_execute_managed_container_lifecycle''),
     (''container.stop_after_profile_upgrade'', ''_execute_managed_container_lifecycle''),
     (''compute.activate.self'', ''_execute_self_compute_activation''),
     (''compute.activate.self.rollback'', ''_execute_self_compute_activation_rollback''),
     (''compute.provision.stage'', ''_execute_compute_provision_stage''),
     (''self.job.submit'', ''_execute_self_job_submit''), (''self.job.cancel'', ''_execute_self_job_cancel''),
     (''resource.restore'', ''_execute_resource_restore''), (''self.resource.restore'', ''_execute_resource_restore''),
     (''lease.expire'', ''_execute_resource_recycle''), (''resource.recycle'', ''_execute_resource_recycle''),
     (''resource.restore.rollback'', ''_execute_resource_recycle''),
     (''host_access.revoke_managed_user'', ''_execute_host_access_revoke''),
     (''user.stage'', ''_execute_origin_pilot_stage''), (''user.activate'', ''_execute_origin_pilot_activate''),
     (''user.activate.rollback'', ''_execute_origin_pilot_activate_rollback''),
     (''user.ssh_client_validation.record'', ''_execute_portal3f_client_validation''),
     (''user.pilot.acceptance'', ''_execute_portal3f_pilot_acceptance''),
     (''slurm.production_pilot.start'', ''_execute_portal3g_production_pilot''),
     (''slurm.drain'', ''_execute_portal3g_safety_drain''), (''ssh_key.prepare'', ''_prepare_ssh_key_record''),
     (''ssh_key.discard'', ''_discard_ssh_key_record''),
     (''ssh_key.sync_active_container'', ''_execute_active_container_key_sync'')]"

definition write_executor :: "string \<Rightarrow> payload \<Rightarrow> string option" where
  "write_executor op p =
     (if op \<in> set container_actions \<and> any_key p [''uid''] then Some ''_execute_managed_container_lifecycle''
      else case map_of executors op of Some f \<Rightarrow> Some f
      | None \<Rightarrow> if op = ''container.start'' \<and> \<not> exact_keys p [''name''] then Some ''_execute_managed_container_start''
          else None)"

definition readers :: "(string \<times> string \<times> bool) list" where
  "readers = [(''platform.health.read'', ''platform_health'', False), (''gpu.list'', ''gpu_list'', False),
     (''gpu.health.read'', ''gpu_health'', False), (''slurm.node.read'', ''slurm_node'', False),
     (''slurm.jobs.read'', ''slurm_jobs'', False), (''slurm.accounts.read'', ''slurm_accounts'', False),
     (''slurm.history.read'', ''slurm_history'', False), (''containers.list'', ''containers_list'', False),
     (''containers.inspect'', ''containers_inspect'', True), (''storage.summary.read'', ''storage_summary'', False),
     (''quotas.list'', ''quotas_list'', False), (''systemd.failed.read'', ''systemd_failed'', False),
     (''monitoring.alerts.read'', ''monitoring_alerts'', False),
     (''monitoring.summary.read'', ''monitoring_summary'', False), (''registry.status.read'', ''registry_status'', False),
     (''images.list'', ''images_list'', False), (''gpu_isolation.status.read'', ''gpu_isolation_status'', False),
     (''ssh.policy.read'', ''ssh_policy_status'', False), (''self.job.logs.read'', ''_self_job_logs'', True),
     (''self.job.status.read'', ''_self_job_status'', True), (''self.storage.read'', ''_self_storage'', True),
     (''self.workspace.check'', ''_self_workspace_check'', True)]"

definition serve_read :: "string \<Rightarrow> bool \<Rightarrow> payload \<Rightarrow> dispatched" where
  "serve_read op dry_run p =
     (if op = ''compute.provision.retry_verify''
      then (if \<not> dry_run then error_answer ''COMPUTE_RETRY_VERIFY_EXECUTION_REJECTED'' []
            else Calls ''_compute_retry_verification'' p)
      else case map_of readers op of Some (f, takes) \<Rightarrow> Calls f (if takes then p else [])
      | None \<Rightarrow> error_answer ''UNKNOWN_OPERATION'' [])"

definition legacy_stage :: "worker_request \<Rightarrow> bool" where
  "legacy_stage r \<longleftrightarrow> wreq_operation_type r = ''user.stage'' \<and> exact_keys (dict_items (wreq_payload r)) [''username'']"

definition dispatch :: "schema_env \<Rightarrow> worker_request \<Rightarrow> dispatched" where
  "dispatch env r =
     (let op = wreq_operation_type r in
      case validate_payload env op (legacy_stage r) (dict_items (wreq_payload r)) of
        Inl e \<Rightarrow> reject_payload op e
      | Inr p \<Rightarrow>
          if starts_with op ''self.'' \<and> field p ''username'' \<noteq> PStr (wreq_requested_by r)
          then error_answer ''RESOURCE_OWNERSHIP_REJECTED'' []
          else if op \<in> set KNOWN_WRITES
          then (if wreq_dry_run r then Calls ''dry_run_plan'' p
                else case write_executor op p of Some f \<Rightarrow> Calls f p
                  | None \<Rightarrow> error_answer ''WRITE_EXECUTION_DISABLED'' [])
          else serve_read op (wreq_dry_run r) p)"

end
