(* ===== verification/Schema_Guarantees.thy ===== *)
theory Schema_Guarantees
  imports Worker_Dispatch Compute_Stage
begin

section \<open>What the schemas guarantee\<close>

text \<open>
  Whatever payload reaches a handler of the worker carries no secret, command or path, and names no protected
  account; a handler that changes the host runs only for a request that is no dry run. The payloads the portal builds
  for a Stage and for a public key satisfy the worker's schemas.
\<close>

subsection \<open>Reading a result\<close>

lemma keys_of_simps [simp]: "keys_of [] = []" "keys_of ((k, v) # r) = k # keys_of r" "keys_of (r @ s) = keys_of r @ keys_of s"
  by (simp_all add: keys_of_def)

lemma field_Cons [simp]: "field ((k, v) # r) k' = (if k = k' then v else field r k')"
  by (simp add: field_def)

lemma field_append: "field (r @ s) k = (if k \<in> set (keys_of r) then field r k else field s k)"
  by (induction r) (auto simp: field_def)

lemma collect_Nil_Inr [simp]: "collect [] = Inr d \<longleftrightarrow> d = []"
  by auto

lemma collect_field: "collect fs = Inr d \<Longrightarrow> map_of fs k = Some (Inr v) \<Longrightarrow> field d k = v"
  by (induction fs arbitrary: d) (auto split: if_splits)

lemma collect_keys_of: "collect fs = Inr d \<Longrightarrow> keys_of d = map fst fs"
  by (simp add: keys_of_def collect_keys)

definition harmless_keys :: "payload \<Rightarrow> bool" where
  "harmless_keys r \<longleftrightarrow> list_all (\<lambda>k. k \<notin> set WORKER_FORBIDDEN_FIELDS) (keys_of r)"

definition open_username :: "payload \<Rightarrow> bool" where
  "open_username r \<longleftrightarrow> ''username'' \<in> set (keys_of r) \<and> safe_username (field r ''username'') \<and>
     \<not> protected_name PROTECTED_HOST_USERS (field r ''username'')"

definition safe_payload :: "payload \<Rightarrow> bool" where
  "safe_payload r \<longleftrightarrow> harmless_keys r \<and> (''username'' \<notin> set (keys_of r) \<or> open_username r)"

lemma harmless_simps [simp]:
  "harmless_keys []" "harmless_keys ((k, v) # r) \<longleftrightarrow> k \<notin> set WORKER_FORBIDDEN_FIELDS \<and> harmless_keys r"
  "harmless_keys (r @ s) \<longleftrightarrow> harmless_keys r \<and> harmless_keys s"
  by (simp_all add: harmless_keys_def)

lemma collect_harmless: "collect fs = Inr d \<Longrightarrow> list_all (\<lambda>k. k \<notin> set WORKER_FORBIDDEN_FIELDS) (map fst fs) \<Longrightarrow> harmless_keys d"
  by (simp add: harmless_keys_def collect_keys_of)

lemma open_username_append: "open_username r \<Longrightarrow> open_username (r @ s)"
  by (simp add: open_username_def field_append)

lemma safe_append: "harmless_keys r \<Longrightarrow> open_username r \<Longrightarrow> harmless_keys s \<Longrightarrow> safe_payload (r @ s)"
  by (simp add: safe_payload_def open_username_append)

lemma protected_append: "\<not> protected_name (names @ others) v \<Longrightarrow> \<not> protected_name names v"
  by (simp add: protected_name_def)

lemma identity_safe: "identity_fields p = Inr d \<Longrightarrow> harmless_keys d \<and> open_username d"
  by (auto simp: identity_fields_def Let_def open_username_def WORKER_FORBIDDEN_FIELDS_def dest: protected_append)

lemma compute_identity_safe: "compute_request_identity p = Inr d \<Longrightarrow> harmless_keys d \<and> open_username d"
  by (auto simp: compute_request_identity_def Let_def open_username_def WORKER_FORBIDDEN_FIELDS_def)

lemmas identities_safe = identity_safe [THEN conjunct1] identity_safe [THEN conjunct2]
  compute_identity_safe [THEN conjunct1] compute_identity_safe [THEN conjunct2]

lemma harmless_target [simp]: "name \<in> set [''name'', ''container_name''] \<Longrightarrow>
    harmless_keys (target_result name username workspace profile job uuid)"
  by (auto simp: target_result_def WORKER_FORBIDDEN_FIELDS_def)

lemma harmless_update:
  "harmless_keys r \<Longrightarrow> harmless_keys s \<Longrightarrow> harmless_keys (dict_update r s)"
proof (induction r s rule: dict_update.induct)
  case (2 r k v s)
  have "harmless_keys (dict_put r k v)"
    using 2(2,3) by (induction r k v rule: dict_put.induct) auto
  with 2 show ?case by simp
qed simp

lemmas schema_simps = Let_def WORKER_FORBIDDEN_FIELDS_def

lemma harmless_numbers [simp]: "harmless_keys (numbers_of p)"
  by (simp add: numbers_of_def schema_simps)

lemma harmless_policy [simp]: "harmless_keys (fixed_policy username profile)"
  by (simp add: fixed_policy_def schema_simps)

lemma plan_safe: "validate_compute_provision_plan p = Inr r \<Longrightarrow> safe_payload r"
  by (auto simp: validate_compute_provision_plan_def schema_simps
      intro!: safe_append intro: identities_safe)

lemma dry_run_safe: "validate_compute_provision_dry_run p = Inr r \<Longrightarrow> safe_payload r \<and> open_username r"
  by (auto simp: validate_compute_provision_dry_run_def schema_simps
      intro!: safe_append open_username_append intro: identities_safe)

lemma retry_verify_safe: "validate_compute_provision_retry_verify p = Inr r \<Longrightarrow> safe_payload r"
  by (auto simp: validate_compute_provision_retry_verify_def schema_simps intro!: safe_append intro: identities_safe)

lemma job_target_safe: "validate_self_job_target logs p = Inr r \<Longrightarrow> safe_payload r"
  by (auto simp: validate_self_job_target_def job_outputs_def schema_simps split: if_splits
      intro!: safe_append intro: identities_safe)

lemma storage_safe: "validate_storage a b p = Inr r \<Longrightarrow> safe_payload r"
  by (auto simp: validate_storage_def schema_simps intro!: safe_append intro: identities_safe)

lemma lifecycle_safe: "validate_container_lifecycle now active p = Inr r \<Longrightarrow> safe_payload r"
  by (auto simp: validate_container_lifecycle_def lifecycle_lease_def schema_simps split: if_splits
      intro!: safe_append intro: identities_safe)

lemma upgrade_safe: "validate_gpu_profile_upgrade now rollback p = Inr r \<Longrightarrow> safe_payload r"
  by (auto simp: validate_gpu_profile_upgrade_def upgrade_rollback_def schema_simps split: if_splits prod.splits
      intro!: safe_append intro: identities_safe)

lemma terminal_safe: "validate_container_terminal now p = Inr r \<Longrightarrow> safe_payload r"
  by (auto simp: validate_container_terminal_def target_of_def schema_simps intro!: safe_append intro: identities_safe)

lemma restore_safe: "validate_restore now p = Inr r \<Longrightarrow> safe_payload r"
  by (auto simp: validate_restore_def target_result_def schema_simps split: prod.splits
      intro!: safe_append intro: identities_safe)

lemma recycle_safe: "validate_recycle now p = Inr r \<Longrightarrow> safe_payload r"
  by (auto simp: validate_recycle_def target_of_def target_result_def schema_simps
      intro!: safe_append intro: identities_safe)

lemma restore_rollback_safe: "validate_restore_rollback now p = Inr r \<Longrightarrow> safe_payload r"
  by (auto simp: validate_restore_rollback_def target_of_def target_result_def schema_simps
      intro!: safe_append intro: identities_safe)

lemma host_revoke_safe: "validate_host_revoke p = Inr r \<Longrightarrow> safe_payload r"
  by (auto simp: validate_host_revoke_def schema_simps intro!: safe_append intro: identities_safe)

lemma open_username_update:
  assumes "open_username r" and "''username'' \<notin> set (keys_of s)"
  shows "open_username (dict_update r s)"
  using assms
proof (induction r s rule: dict_update.induct)
  case (2 r k v s)
  have "open_username (dict_put r k v)" if "k \<noteq> ''username''"
    using 2(2) that by (induction r k v rule: dict_put.induct) (auto simp: open_username_def split: if_splits)
  with 2 show ?case by auto
qed simp

lemma stage_safe: "validate_compute_provision_stage p = Inr r \<Longrightarrow> safe_payload r"
  by (auto simp: validate_compute_provision_stage_def schema_simps safe_payload_def
      dest!: dry_run_safe intro!: harmless_update open_username_update)

lemma collect_safe:
  assumes "collect fs = Inr r" and "list_all (\<lambda>k. k \<notin> set WORKER_FORBIDDEN_FIELDS) (map fst fs)"
    and "map_of fs ''username'' = Some (Inr v)" and "safe_username v" and "\<not> protected_name PROTECTED_HOST_USERS v"
  shows "safe_payload r"
proof -
  have "''username'' \<in> fst ` set fs" using assms(3) by (metis domI dom_map_of_conv_image_fst)
  with assms show ?thesis
    by (simp add: safe_payload_def open_username_def collect_keys_of collect_harmless collect_field)
qed

lemma activation_owned: "\<not> activation_owner_ok p \<Longrightarrow> validate_compute_activate_self p \<noteq> Inr r"
  by (simp add: validate_compute_activate_self_def Let_def refusing_def)

lemma activate_safe:
  assumes "validate_compute_activate_self p = Inr r"
  shows "safe_payload r"
proof -
  have "activation_owner_ok p" using activation_owned assms by blast
  then have user: "safe_username (field p ''username'')" "\<not> protected_name PROTECTED_HOST_USERS (field p ''username'')"
    by (auto simp: activation_owner_ok_def dest: protected_append)
  from assms show ?thesis
    unfolding validate_compute_activate_self_def Let_def refusing_Inr and_then_Inr case_prod_beta
    by - (elim conjE exE, rule collect_safe [OF _ _ _ user], assumption,
        simp_all add: numbers_of_def activation_policy_def activation_states_def WORKER_FORBIDDEN_FIELDS_def)
qed

lemma collect_kept [simp]:
  "collect (map (\<lambda>(name, v). (name, Inr v)) kvs @ fs) = Inr r \<longleftrightarrow> (\<exists>d. collect fs = Inr d \<and> r = kvs @ d)"
  by (induction kvs arbitrary: r) auto

lemma harmless_storage [simp]: "harmless_keys (storage_binding b)"
  by (simp add: storage_binding_def schema_simps)

lemma outputs_harmless: "job_outputs p job = Inr r \<Longrightarrow> harmless_keys r"
  by (auto simp: job_outputs_def schema_simps)

lemma job_result_safe:
  assumes "identity_fields p = Inr identity" and "job_outputs p job = Inr outputs"
  shows "safe_payload (job_result p identity binding [(''portal_job_id'', a), (''lease_id'', b)] memory gpu deadline
    workdir outputs script)"
proof -
  have "harmless_keys outputs" by (rule outputs_harmless [OF assms(2)])
  then show ?thesis unfolding job_result_def Let_def
    by (intro safe_append [OF identity_safe [THEN conjunct1, OF assms(1)] identity_safe [THEN conjunct2, OF assms(1)]])
      (simp add: WORKER_FORBIDDEN_FIELDS_def)
qed

lemma job_submit_safe: "validate_self_job_submit env p = Inr r \<Longrightarrow> safe_payload r"
  unfolding validate_self_job_submit_def Let_def refusing_Inr and_then_Inr collect_Inr_Cons collect_Nil_Inr sum.inject
  by (elim conjE exE, hypsubst, rule job_result_safe; assumption)

lemma stage_plan_safe: "harmless_keys APPROVED_STAGE_PAYLOAD" "open_username APPROVED_STAGE_PAYLOAD"
  by code_simp+

lemma user_stage_safe:
  assumes "validate_user_stage legacy p = Inr r"
  shows "safe_payload r"
proof -
  from assms consider "\<exists>ref. r = APPROVED_STAGE_PAYLOAD @ ref \<and> harmless_keys ref"
    | "r = [(''username'', field p ''username'')]" "safe_username (field p ''username'')"
      "\<not> protected_name PROTECTED_HOST_USERS (field p ''username'')"
    unfolding validate_user_stage_def Let_def refusing_Inr
    by (cases "legacy \<and> exact_keys p [''username'']") (auto simp: WORKER_FORBIDDEN_FIELDS_def)
  then show ?thesis
  proof cases
    case 1
    then show ?thesis using stage_plan_safe safe_append by blast
  next
    case 2
    then show ?thesis by (simp add: safe_payload_def open_username_def WORKER_FORBIDDEN_FIELDS_def)
  qed
qed

lemma user_activate_safe: "validate_user_activate p = Inr r \<Longrightarrow> safe_payload r"
  by (auto simp: validate_user_activate_def safe_payload_def schema_simps split: if_splits)

lemma prepare_safe: "validate_ssh_key_prepare p = Inr r \<Longrightarrow> safe_payload r"
  by (auto simp: validate_ssh_key_prepare_def safe_payload_def open_username_def schema_simps dest: protected_append)

lemma discard_safe: "validate_ssh_key_discard p = Inr r \<Longrightarrow> safe_payload r"
  by (auto simp: validate_ssh_key_discard_def safe_payload_def schema_simps)

lemma sync_owned: "\<not> sync_identity_ok p \<Longrightarrow> validate_ssh_key_sync_active_container p \<noteq> Inr r"
  by (simp add: validate_ssh_key_sync_active_container_def Let_def refusing_def)

lemma sync_safe:
  assumes "validate_ssh_key_sync_active_container p = Inr r"
  shows "safe_payload r"
proof -
  have "sync_identity_ok p" using sync_owned assms by blast
  then have user: "safe_username (field p ''username'')" "\<not> protected_name PROTECTED_HOST_USERS (field p ''username'')"
    by (auto simp: sync_identity_ok_def dest: protected_append)
  from assms show ?thesis
    unfolding validate_ssh_key_sync_active_container_def Let_def refusing_Inr and_then_Inr
    by - (elim conjE exE, rule collect_safe [OF _ _ _ user], assumption,
        simp_all add: WORKER_FORBIDDEN_FIELDS_def)
qed

lemma container_start_safe: "validate_container_start p = Inr r \<Longrightarrow> safe_payload r"
  by (auto simp: validate_container_start_def safe_payload_def open_username_def schema_simps split: if_splits)

lemma one_username_safe: "one_username e1 e2 p = Inr r \<Longrightarrow> harmless_keys r \<and> open_username r"
  by (auto simp: one_username_def open_username_def schema_simps)

lemma by_prefix_safe: "validate_by_prefix op p = Inr r \<Longrightarrow> safe_payload r"
  by (auto simp: validate_by_prefix_def validate_user_operation_def validate_quota_def validate_node_def one_name_def
      schema_simps safe_payload_def split: if_splits intro!: open_username_append dest: one_username_safe)

lemma one_name_safe: "one_name p = Inr r \<Longrightarrow> safe_payload r"
  by (auto simp: one_name_def schema_simps safe_payload_def)

lemma job_cancel_safe: "validate_job_cancel p = Inr r \<Longrightarrow> safe_payload r"
  by (auto simp: validate_job_cancel_def schema_simps safe_payload_def)

lemma fixed_safe: "validate_fixed_payload e1 e2 expected p = Inr r \<Longrightarrow> safe_payload expected \<Longrightarrow> safe_payload r"
  by (simp add: validate_fixed_payload_def)

lemma fixed_plans_safe:
  "safe_payload APPROVED_CLIENT_VALIDATION_PAYLOAD" "safe_payload APPROVED_PILOT_ACCEPTANCE_PAYLOAD"
  "safe_payload APPROVED_PRODUCTION_PILOT_PAYLOAD"
  by code_simp+

subsection \<open>Every accepted payload\<close>

lemma rest_safe:
  assumes "validate_rest env op legacy p = Inr r"
  shows "safe_payload r"
  using assms unfolding validate_rest_def
  by (simp only: split: if_split_asm)
    (elim recycle_safe host_revoke_safe user_stage_safe user_activate_safe prepare_safe discard_safe sync_safe
      container_start_safe by_prefix_safe job_cancel_safe fixed_safe [OF _ fixed_plans_safe(1)]
      fixed_safe [OF _ fixed_plans_safe(2)] fixed_safe [OF _ fixed_plans_safe(3)])+

lemma payload_safe:
  assumes "validate_payload env op legacy p = Inr r"
  shows "safe_payload r"
  using assms unfolding validate_payload_def
  by (simp only: split: if_split_asm)
    (elim plan_safe dry_run_safe [THEN conjunct1] retry_verify_safe stage_safe activate_safe one_name_safe
      job_submit_safe job_target_safe storage_safe terminal_safe lifecycle_safe upgrade_safe restore_safe
      restore_rollback_safe rest_safe)+


subsection \<open>The handler\<close>

text \<open>
  C6. A function that changes the host runs under four conditions: the operation is one of the known writes,
  the request is not a dry run, the payload given to it is the one its schema accepted, and for an operation of a
  user on his own resources the actor is the user of the payload.
\<close>

theorem executors_guarded:
  assumes "dispatch env request = Calls f p"
    and "f \<in> set (map snd executors @ [''_execute_managed_container_start''])"
  shows "wreq_operation_type request \<in> set KNOWN_WRITES \<and> \<not> wreq_dry_run request \<and>
    validate_payload env (wreq_operation_type request) (legacy_stage request) (dict_items (wreq_payload request)) = Inr p \<and>
    (starts_with (wreq_operation_type request) ''self.'' \<longrightarrow> field p ''username'' = PStr (wreq_requested_by request)) \<and>
    write_executor (wreq_operation_type request) p = Some f"
proof -
  have "list_all (\<lambda>f. f \<noteq> ''dry_run_plan'' \<and> f \<noteq> ''_compute_retry_verification'' \<and> f \<notin> fst ` snd ` set readers)
      (map snd executors @ [''_execute_managed_container_start''])"
    by code_simp
  then have other: "f \<noteq> ''dry_run_plan''" "f \<noteq> ''_compute_retry_verification''" "f \<notin> fst ` snd ` set readers"
    using assms(2) unfolding list_all_iff by blast+
  have reader: "g \<noteq> f" if "map_of readers op = Some (g, takes)" for op g takes
    using other(3) map_of_SomeD [OF that] by force
  have read: "serve_read op dry q \<noteq> Calls f p" for op dry q
    using other(2) reader [of op] unfolding serve_read_def error_answer_def by (simp split: option.split)
  obtain q where q: "validate_payload env (wreq_operation_type request) (legacy_stage request)
      (dict_items (wreq_payload request)) = Inr q"
    using assms(1) by (cases "validate_payload env (wreq_operation_type request) (legacy_stage request)
      (dict_items (wreq_payload request))")
      (auto simp: dispatch_def Let_def reject_payload_def error_answer_def split: exn.splits)
  with assms(1) other(1) read show ?thesis
    by (auto simp: dispatch_def Let_def error_answer_def split: if_splits option.splits)
qed

end
