(* ===== verification/Schema_Contracts.thy ===== *)
theory Schema_Contracts
  imports Schema_Guarantees Compute_Guarantees
begin

section \<open>The portal's payloads against the worker's schemas\<close>

text \<open>
  The portal and the worker check the contract of a Stage with code of their own; both accept the same contracts.
  The payload of a Stage, which the portal builds from a reserved plan, satisfies the worker's schema.
\<close>

subsection \<open>The contract of a Stage\<close>

lemma text_of_py_str: "text_of v = Some s \<Longrightarrow> py_str v = s"
  by (cases v) (auto simp: py_str_def)

lemma hex_agrees: "hex_value_of n v = text_matches (lower_hex n) v"
  by (simp add: hex_value_of_def text_matches_def)

lemma digest_agrees: "digest_value v = digest_text v"
  by (simp add: digest_value_def digest_text_def text_matches_def)

lemma root_agrees: "OCI_LAYOUT_ROOT = OCI_ROOT"
  by (simp add: OCI_LAYOUT_ROOT_def OCI_ROOT_def)

lemma layout_suffix:
  assumes "length h = 64" and "length h' = 64"
  shows "ends_with (OCI_ROOT @ h' @ ''/layout'') (''/'' @ h @ ''/layout'') \<longleftrightarrow> h = h'"
proof -
  have "ends_with (base @ ''/'' @ h' @ ''/layout'') (''/'' @ h @ ''/layout'') \<longleftrightarrow> h = h'" for base
    using assms by (auto simp: ends_with_def)
  moreover have "OCI_ROOT = ''/srv/gpu-platform/artifacts/oci/standard-dev-base'' @ ''/''"
    by (simp add: OCI_ROOT_def)
  ultimately show ?thesis by (metis append_assoc)
qed

lemma lower_hex_length: "lower_hex n s \<Longrightarrow> length s = n"
  by (simp add: lower_hex_def)

lemma layout_path_text:
  assumes "text_of p = Some s"
  shows "layout_path p \<longleftrightarrow> (\<exists>h. lower_hex 64 h \<and> s = OCI_ROOT @ h @ ''/layout'')"
proof
  assume "layout_path p"
  then have s: "take (length OCI_ROOT) s = OCI_ROOT" "lower_hex 64 (take 64 (drop (length OCI_ROOT) s))"
      "drop 64 (drop (length OCI_ROOT) s) = ''/layout''"
    using assms by (simp_all add: layout_path_def text_matches_def starts_with_def root_agrees Let_def)
  then have "s = OCI_ROOT @ take 64 (drop (length OCI_ROOT) s) @ ''/layout''"
    by (metis append_take_drop_id)
  with s(2) show "\<exists>h. lower_hex 64 h \<and> s = OCI_ROOT @ h @ ''/layout''" by blast
next
  assume "\<exists>h. lower_hex 64 h \<and> s = OCI_ROOT @ h @ ''/layout''"
  then obtain h where "lower_hex 64 h" "s = OCI_ROOT @ h @ ''/layout''" by blast
  then show "layout_path p" using assms lower_hex_length [of 64 h]
    by (simp add: layout_path_def text_matches_def starts_with_def root_agrees)
qed

lemma artifact_agrees:
  assumes "digest_text d"
  shows "layout_path p \<and> ends_with (py_str p) (''/'' @ remove_prefix (py_str d) ''sha256:'' @ ''/layout'') \<longleftrightarrow>
    artifact_ok p d"
proof -
  obtain ds where ds: "text_of d = Some ds" "starts_with ds ''sha256:''" "lower_hex 64 (drop 7 ds)"
    using assms by (auto simp: digest_text_def text_matches_def split: option.splits)
  have prefix: "remove_prefix (py_str d) ''sha256:'' = drop 7 ds"
    by (simp add: remove_prefix_def text_of_py_str [OF ds(1)] ds(2) eval_nat_numeral)
  show ?thesis
  proof (cases "text_of p")
    case None
    then show ?thesis by (simp add: layout_path_def text_matches_def artifact_ok_def)
  next
    case (Some s)
    show ?thesis
      unfolding layout_path_text [OF Some] prefix text_of_py_str [OF Some]
      using layout_suffix [OF lower_hex_length [OF ds(3)]] ds assms Some
      by (auto simp: artifact_ok_def digest_agrees dest: lower_hex_length)
  qed
qed

lemma image_agrees: "worker_image_ok img \<longleftrightarrow> image_ok img"
  unfolding worker_image_ok_def image_ok_def
  using artifact_agrees [of "dget img ''manifest_digest''" "dget img ''artifact_path''"]
  by (auto simp: all_eq_def hex_agrees digest_agrees stage_constants artifact_ok_def split: option.splits)

lemma parts_agree:
  "worker_handler_ok v = handler_ok v" "worker_gate_ok v = confirmation_ok v"
  "worker_argument_ok n role v = argument_ok n role v"
  by (auto simp: worker_handler_ok_def handler_ok_def worker_gate_ok_def confirmation_ok_def worker_argument_ok_def
      argument_ok_def all_eq_def hex_agrees sha256_text_def stage_constants)

lemma argv_agrees: "worker_argv_ok v \<and> worker_argument_ok 14 ''EXPLICIT_STAGE_CONFIRMATION_FLAG'' (dget v ''argument_14'') \<and>
    worker_argument_ok 15 ''CONFIRMED_TARGET_USERNAME'' (dget v ''argument_15'') \<longleftrightarrow> argv_ok v"
  by (auto simp: worker_argv_ok_def argv_ok_def parts_agree all_eq_def hex_agrees sha256_text_def stage_constants)

lemma contract_accepted: "(\<exists>r. validate_compute_stage_contract v = Inr r) \<longleftrightarrow>
    keys_exactly v stage_contract_fields \<and> has_eq v ''status'' (PStr ''PASS'') \<and>
    hex_value_of 64 (dget v ''contract_sha256'') \<and> handler_ok (dget v ''handler'') \<and>
    argv_ok (dget v ''argv_contract'') \<and> confirmation_ok (dget v ''confirmation_gate'') \<and>
    image_ok (dget v ''image_contract'')"
  unfolding validate_compute_stage_contract_def Let_def refusing_Inr argv_agrees [symmetric]
  by (auto simp: parts_agree image_agrees hex_agrees sha256_text_def)

text \<open>
  C19. The portal and the worker agree on what a valid Stage contract is: the portal takes a contract from the
  result of a dry run exactly when the worker's schema accepts that contract in the Stage that follows.
\<close>

theorem stage_contracts_agree:
  "ready_stage_contract (PDict kvs) = Some contract \<longleftrightarrow>
    contract = dget (PDict kvs) ''stage_contract'' \<and> (\<exists>r. validate_compute_stage_contract contract = Inr r)"
  unfolding contract_accepted by (auto simp: ready_stage_contract_def Let_def stage_contract_fields_def)

subsection \<open>The payload of a Stage\<close>

text \<open>
  What the worker's allocator proposed and the database does not check: the ranges of the numbers, the name of the
  container, the two Slurm names and the account.
\<close>

definition plan_sane :: "portal_provision_plan \<Rightarrow> bool" where
  "plan_sane plan \<longleftrightarrow> login_re (plan_username plan) \<and> plan_username plan \<notin> set PROTECTED_HOST_USERS \<and>
     plan_container_name plan = ''gpu-dev-'' @ plan_username plan \<and> plan_slurm_account plan = ''company'' \<and>
     plan_slurm_qos plan = ''general'' \<and>
     PILOT_UID_MIN \<le> plan_uid plan \<and> plan_uid plan \<le> PILOT_UID_MAX \<and>
     PILOT_UID_MIN \<le> plan_gid plan \<and> plan_gid plan \<le> PILOT_UID_MAX \<and>
     PROJECT_ID_MIN \<le> plan_project_id plan \<and> plan_project_id plan \<le> PROJECT_ID_MAX \<and>
     PILOT_SSH_PORT_MIN \<le> plan_container_ssh_port plan \<and> plan_container_ssh_port plan \<le> PILOT_SSH_PORT_MAX"

definition canonical_text :: "string \<Rightarrow> bool" where
  "canonical_text i \<longleftrightarrow> uuid_of i = Some i"

lemma canonical_id_text [simp]: "canonical_text i \<Longrightarrow> canonical_id (PStr i) = Inr (PStr i)"
  by (simp add: canonical_text_def canonical_id_def canonical_uuid_def)

lemma plan_keys [simp]: "keys_of (plan_payload item plan) = dry_run_fields"
  by (simp add: plan_payload_def dry_run_fields_def)

lemma plan_fields_allowed: "exact_keys (plan_payload item plan) dry_run_fields"
    "\<not> any_key (plan_payload item plan) WORKER_FORBIDDEN_FIELDS"
proof -
  show "exact_keys (plan_payload item plan) dry_run_fields" by (simp add: exact_keys_def)
  have "\<not> list_ex (\<lambda>k. k \<in> set dry_run_fields) WORKER_FORBIDDEN_FIELDS" by code_simp
  then show "\<not> any_key (plan_payload item plan) WORKER_FORBIDDEN_FIELDS" by (simp add: any_key_def)
qed

lemma refuse_if_Cons: "refuse_if (g # guards) = None \<longleftrightarrow> \<not> fst g \<and> refuse_if guards = None"
  by (cases g) simp

lemma checked_profile:
  assumes "provision_plan_checks plan"
  shows "known_profile (PStr (plan_container_profile plan))"
    "profile_gpus (PStr (plan_container_profile plan)) = PInt (plan_container_gpu plan)"
    "plan_gpu_max plan = 0 \<or> plan_gpu_max plan = 1"
    "plan_container_profile plan = GPU_DEVELOPMENT_PROFILE \<Longrightarrow> plan_gpu_max plan = 1"
proof -
  have gpu: "0 \<le> plan_gpu_max plan \<and> plan_gpu_max plan \<le> 1"
    using assms by (simp only: provision_plan_checks_def)
  have profile: "plan_container_profile plan = ''STANDARD_8CPU_32GB'' \<and> plan_container_gpu plan = 0 \<or>
      plan_container_profile plan = ''GPU_1_8CPU_32GB'' \<and> plan_container_gpu plan = 1 \<and> plan_gpu_max plan = 1"
    using assms by (simp only: provision_plan_checks_def)
  then show "known_profile (PStr (plan_container_profile plan))"
    "profile_gpus (PStr (plan_container_profile plan)) = PInt (plan_container_gpu plan)"
    by (elim disjE; simp add: known_profile_def one_of_def CPU_DEVELOPMENT_PROFILE_def
      GPU_DEVELOPMENT_PROFILE_def profile_gpus_def profile_gpu_count_def)+
  show "plan_gpu_max plan = 0 \<or> plan_gpu_max plan = 1" using gpu by arith
  show "plan_gpu_max plan = 1" if "plan_container_profile plan = GPU_DEVELOPMENT_PROFILE"
    using profile that by (elim disjE) (simp_all add: GPU_DEVELOPMENT_PROFILE_def)
qed

definition plan_accepted :: "portal_compute_resource_request \<Rightarrow> portal_provision_plan \<Rightarrow> payload" where
  "plan_accepted item plan = [(''request_id'', PStr (crr_id item)),
     (''portal_account_id'', PStr (crr_portal_account_id item)), (''username'', PStr (plan_username plan)),
     (''plan_id'', PStr (plan_id plan))] @ numbers_of (plan_payload item plan) @
     fixed_policy (PStr (plan_username plan)) (PStr (plan_container_profile plan)) @
     [(''gpu_max'', PInt (plan_gpu_max plan))]"

lemma plan_payload_accepted:
  assumes "provision_plan_checks plan" and "plan_sane plan"
    and "canonical_text (crr_id item)" "canonical_text (crr_portal_account_id item)" "canonical_text (plan_id plan)"
  shows "validate_compute_provision_dry_run (plan_payload item plan) = Inr (plan_accepted item plan)"
proof -
  have fields: "field (plan_payload item plan) ''request_id'' = PStr (crr_id item)"
    "field (plan_payload item plan) ''portal_account_id'' = PStr (crr_portal_account_id item)"
    "field (plan_payload item plan) ''username'' = PStr (plan_username plan)"
    "field (plan_payload item plan) ''plan_id'' = PStr (plan_id plan)"
    "field (plan_payload item plan) ''container_profile'' = PStr (plan_container_profile plan)"
    "field (plan_payload item plan) ''gpu_max'' = PInt (plan_gpu_max plan)"
    "field (plan_payload item plan) ''uid'' = PInt (plan_uid plan)"
    "field (plan_payload item plan) ''gid'' = PInt (plan_gid plan)"
    "field (plan_payload item plan) ''project_id'' = PInt (plan_project_id plan)"
    "field (plan_payload item plan) ''ssh_port'' = PInt (plan_container_ssh_port plan)"
    by (simp_all add: plan_payload_def)
  have user: "safe_username (PStr (plan_username plan))" "\<not> protected_name PROTECTED_HOST_USERS (PStr (plan_username plan))"
    using assms(2) by (auto simp: plan_sane_def safe_username_def text_matches_def protected_name_def list_ex_iff)
  have identity: "compute_request_identity (plan_payload item plan) = Inr [(''request_id'', PStr (crr_id item)),
     (''portal_account_id'', PStr (crr_portal_account_id item)), (''username'', PStr (plan_username plan))]"
    using assms(3,4) user by (simp add: compute_request_identity_def Let_def fields)
  have policy: "list_all (\<lambda>(name, v). py_eq (field (plan_payload item plan) name) v)
      (fixed_policy (PStr (plan_username plan)) (PStr (plan_container_profile plan)))"
    using assms(1,2) checked_profile(2) [OF assms(1)]
    by (simp add: fixed_policy_def plan_payload_def provision_plan_checks_def plan_sane_def schema_constants container_of_def)
  have numbers: "refuse_if (number_fields e (plan_payload item plan)) = None" for e
    using assms(2) by (simp add: number_fields_def fields plan_sane_def)
  have gpu: "refuse_if (gpu_max_guard (PInt (plan_gpu_max plan))) = None"
    using checked_profile(3) [OF assms(1)] by (auto simp: gpu_max_guard_def in_values_def is_bool_def)
  have entitled: "\<not> fst (gpu_profile_guard (PStr (plan_container_profile plan)) (PInt (plan_gpu_max plan)))"
    using checked_profile(4) [OF assms(1)] by (simp add: gpu_profile_guard_def)
  have profile: "refuse_if (profile_guard e (PStr (plan_container_profile plan))) = None" for e
    using checked_profile(1) [OF assms(1)] by (simp add: profile_guard_def)
  show ?thesis
    unfolding validate_compute_provision_dry_run_def Let_def refusing_Inr and_then_Inr
    using assms(5) identity policy numbers gpu entitled profile
    by (simp add: fields plan_fields_allowed plan_accepted_def refuse_if_Cons)
qed

lemma accepted_fields:
  assumes "provision_plan_checks plan" and "plan_sane plan"
  shows "list_all (\<lambda>k. field (plan_accepted item plan) k = field (plan_payload item plan) k) dry_run_fields"
  using assms(2) checked_profile(2) [OF assms(1)] assms(1)
  by (simp add: plan_accepted_def plan_payload_def numbers_of_def fixed_policy_def dry_run_fields_def plan_sane_def
      provision_plan_checks_def schema_constants container_of_def)

lemma accepted_keys: "keys_of (plan_accepted item plan) = [''request_id'', ''portal_account_id'', ''username'', ''plan_id'',
    ''uid'', ''gid'', ''project_id'', ''ssh_port'', ''storage_bytes'', ''container_cpus'', ''container_memory_gb'',
    ''container_pids_limit'', ''container_profile'', ''container_gpu'', ''slurm_account'', ''slurm_qos'',
    ''lease_seconds'', ''lease_state'', ''host_ssh'', ''shell'', ''password_state'', ''execution_enabled'',
    ''container_name'', ''gpu_max'']"
  by (simp add: plan_accepted_def numbers_of_def fixed_policy_def)

lemma stage_payload_dry_run:
  "dict_put (filter (\<lambda>kv. fst kv \<notin> set stage_only_fields) (stage_payload_of c t)) ''execution_enabled'' (PBool False) =
    plan_payload (st_item t) (st_plan t)"
  by (simp add: stage_payload_of_def plan_payload_def stage_only_fields_def)

lemma stage_keys: "keys_of (stage_payload_of c t) = dry_run_fields @ stage_only_fields"
  by (simp add: stage_payload_of_def plan_payload_def stage_only_fields_def dry_run_fields_def)

lemma reserved_kinds:
  assumes "set (map (\<lambda>r. (resv_resource_type r, resv_resource_value r)) rows) = set (expected_values plan)"
  shows "set (map fst (map (\<lambda>(k, v). (k, PStr v)) (rev (expected_ids rows)))) = set RESERVATION_KINDS"
proof -
  have "fst ` set (map (\<lambda>r. (resv_resource_type r, resv_resource_value r)) rows) = fst ` set (expected_values plan)"
    by (simp only: assms)
  then have "resv_resource_type ` set rows = {''UID'', ''GID'', ''PROJECT_ID'', ''SSH_PORT'', ''CONTAINER_NAME''}"
    by (simp add: expected_values_def image_image)
  then show ?thesis
    by (auto simp: expected_ids_def RESERVATION_KINDS_def image_image case_prod_beta)
qed

lemma reservation_texts:
  assumes "k \<in> resv_resource_type ` set rows"
  shows "\<exists>r \<in> set rows. dget (PDict (map (\<lambda>(k, v). (k, PStr v)) (rev (expected_ids rows)))) k = PStr (resv_id r)"
  using assms unfolding expected_ids_def by (induction rows) auto

lemma canonical_reservations_accepted:
  assumes "set (map (\<lambda>r. (resv_resource_type r, resv_resource_value r)) rows) = set (expected_values plan)"
    and "list_all canonical_text (map resv_id rows)"
  shows "\<exists>v. canonical_reservations (PDict (map (\<lambda>(k, v). (k, PStr v)) (rev (expected_ids rows)))) = Inr v"
proof -
  let ?d = "PDict (map (\<lambda>(k, v). (k, PStr v)) (rev (expected_ids rows)))"
  have kinds: "resv_resource_type ` set rows = set RESERVATION_KINDS"
    using reserved_kinds [OF assms(1)] by (simp add: expected_ids_def image_image case_prod_beta)
  have one: "canonical_id (dget ?d k) = Inr (dget ?d k)" if "k \<in> set RESERVATION_KINDS" for k
    using reservation_texts [of k rows] assms(2) that unfolding kinds by (auto simp: list_all_iff)
  have "collect (map (\<lambda>kind. (kind, canonical_id (dget ?d kind))) kinds) = Inr (map (\<lambda>kind. (kind, dget ?d kind)) kinds)"
    if "set kinds \<subseteq> set RESERVATION_KINDS" for kinds
    using that by (induction kinds) (simp_all add: one)
  then show ?thesis unfolding canonical_reservations_def by simp
qed

text \<open>
  What the portal has checked of a target, whatever the database: the constraints of the plan's row, the contract,
  and the five reservations. \<open>find_stage_target\<close> returns such targets only.
\<close>

definition checked_target :: "stage_target \<Rightarrow> bool" where
  "checked_target t \<longleftrightarrow> provision_plan_checks (st_plan t) \<and>
     ready_stage_contract (plan_dry_run_result (st_plan t)) = Some (st_contract t) \<and>
     set (map (\<lambda>r. (resv_resource_type r, resv_resource_value r)) (st_rows t)) = set (expected_values (st_plan t))"

lemma found_targets_checked:
  assumes "find_stage_target c item db = Inr t" and "provision_constraints db"
  shows "checked_target t"
proof -
  note target = find_stage_target_found [OF assms(1)]
  have "st_plan t \<in> set (t_provision_plans db)" using scalar_SomeD [OF target(4) [unfolded get_plan_def]] by simp
  then have "provision_plan_checks (st_plan t)"
    using assms(2) unfolding provision_constraints_def plans_constrained_def list_all_iff by blast
  moreover have "set (map (\<lambda>r. (resv_resource_type r, resv_resource_value r)) (st_rows t)) = set (expected_values (st_plan t))"
    using target(9) unfolding bound_reservations_def Let_def
    by (simp only: sum.inject sum.distinct split: if_split_asm)
  ultimately show ?thesis using target(6) by (simp add: checked_target_def)
qed

definition canonical_target :: "compute_call \<Rightarrow> stage_target \<Rightarrow> bool" where
  "canonical_target c t \<longleftrightarrow> list_all canonical_text ([crr_id (st_item t), crr_portal_account_id (st_item t),
     plan_id (st_plan t), cc_id c 40, oper_id (st_dry_run t)] @ map resv_id (st_rows t))"

lemma contract_taken:
  assumes "ready_stage_contract result = Some contract"
  shows "\<exists>r. validate_compute_stage_contract contract = Inr r"
  using assms unfolding contract_accepted by (auto simp: ready_stage_contract_def Let_def stage_contract_fields_def split: if_splits)

lemma stage_fields_sent:
  "field (stage_payload_of c t) ''execution_enabled'' = PBool True"
  "field (stage_payload_of c t) ''stage_operation_id'' = PStr (cc_id c 40)"
  "field (stage_payload_of c t) ''dry_run_operation_id'' = PStr (oper_id (st_dry_run t))"
  "field (stage_payload_of c t) ''dry_run_stage_contract'' = st_contract t"
  "field (stage_payload_of c t) ''reservation_ids'' = PDict (map (\<lambda>(k, v). (k, PStr v)) (rev (expected_ids (st_rows t))))"
  by (simp_all add: stage_payload_of_def plan_payload_def)

lemma stage_fields_allowed: "\<not> any_key (stage_payload_of c t) WORKER_FORBIDDEN_FIELDS"
    "any_key (stage_payload_of c t) [''dry_run_stage_contract'']"
proof -
  have "\<not> list_ex (\<lambda>k. k \<in> set (dry_run_fields @ stage_only_fields)) WORKER_FORBIDDEN_FIELDS" by code_simp
  then show "\<not> any_key (stage_payload_of c t) WORKER_FORBIDDEN_FIELDS" by (simp add: any_key_def stage_keys)
  show "any_key (stage_payload_of c t) [''dry_run_stage_contract'']"
    by (simp add: any_key_def stage_keys stage_only_fields_def)
qed

definition bound_fields :: "string list" where
  "bound_fields = [''request_id'', ''plan_id'', ''portal_account_id'', ''username'', ''uid'', ''gid'', ''project_id'',
     ''ssh_port'', ''container_name'', ''storage_bytes'', ''container_profile'', ''container_gpu'', ''gpu_max'']"

text \<open>
  C18. The worker accepts the Stage the portal sends: when the portal has checked a target, the values its allocator
  proposed are in range and the identifiers are canonical, the payload passes the worker's schema, and the
  payload the handler gets names the same request, plan, account, user, numbers, container and profile.
\<close>

theorem stage_payload_accepted:
  assumes "checked_target t" and "plan_sane (st_plan t)" and "canonical_target c t"
  shows "\<exists>r. validate_payload env ''compute.provision.stage'' legacy (stage_payload_of c t) = Inr r \<and>
    list_all (\<lambda>k. field r k = field (stage_payload_of c t) k) bound_fields"
proof -
  note ready = assms(1) [unfolded checked_target_def]
  have ids: "canonical_text (crr_id (st_item t))" "canonical_text (crr_portal_account_id (st_item t))"
      "canonical_text (plan_id (st_plan t))" "canonical_text (cc_id c 40)" "canonical_text (oper_id (st_dry_run t))"
      "list_all canonical_text (map resv_id (st_rows t))"
    using assms(3) by (simp_all add: canonical_target_def)
  obtain contract where contract: "validate_compute_stage_contract (st_contract t) = Inr contract"
    using contract_taken ready by blast
  obtain rows where rows: "canonical_reservations (field (stage_payload_of c t) ''reservation_ids'') = Inr rows"
    using canonical_reservations_accepted [OF _ ids(6)] ready unfolding stage_fields_sent by blast
  have kinds: "keys_exactly (field (stage_payload_of c t) ''reservation_ids'') RESERVATION_KINDS"
    using reserved_kinds [of "st_rows t" "st_plan t"] ready by (simp add: keys_exactly_def stage_fields_sent)
  define new where "new = [(''stage_operation_id'', PStr (cc_id c 40)), (''dry_run_operation_id'', PStr (oper_id (st_dry_run t))),
    (''dry_run_stage_contract'', contract), (''reservation_ids'', rows), (''execution_enabled'', PBool True)]"
  define r where "r = dict_update (plan_accepted (st_item t) (st_plan t)) new"
  have dry: "validate_compute_provision_dry_run (plan_payload (st_item t) (st_plan t)) =
      Inr (plan_accepted (st_item t) (st_plan t))"
    by (rule plan_payload_accepted) (use ready assms(2) ids in auto)
  have accepted: "validate_compute_provision_stage (stage_payload_of c t) = Inr r"
    unfolding validate_compute_provision_stage_def refusing_Inr and_then_Inr stage_payload_dry_run dry r_def new_def
    using ids contract rows kinds
    by (simp add: stage_fields_allowed stage_fields_sent exact_keys_def stage_keys)
  have kept: "field r k = field (plan_accepted (st_item t) (st_plan t)) k" if "k \<notin> set (keys_of new)" for k
    using that unfolding r_def field_def dget_dict_update by (simp add: keys_of_def)
  have sent: "field (stage_payload_of c t) k = field (plan_payload (st_item t) (st_plan t)) k" if "k \<notin> set (keys_of new)" for k
    using that unfolding field_def stage_payload_of_def dget_dict_update by (simp add: new_def)
  have bound: "k \<in> set dry_run_fields \<and> k \<notin> set (keys_of new)" if "k \<in> set bound_fields" for k
    using that unfolding bound_fields_def new_def dry_run_fields_def by auto
  have "list_all (\<lambda>k. field r k = field (stage_payload_of c t) k) bound_fields"
    using accepted_fields [of "st_plan t" "st_item t"] ready assms(2) bound kept sent by (auto simp: list_all_iff)
  with accepted show ?thesis by (auto simp: validate_payload_def)
qed

end
