(* ===== verification/Schema_Samples.thy ===== *)
theory Schema_Samples
  imports Schema_Contracts Compute_Samples
begin

section \<open>Concrete payloads\<close>

text \<open>
  The Stage of Alice's environment with a plan inside the worker's ranges, and the request that discards a
  public key, served on a host whose clock stands still.
\<close>

definition sample_schema_env :: schema_env where
  "sample_schema_env = \<lparr>se_now = 0, se_sha256 = (\<lambda>s. s)\<rparr>"

subsection \<open>A Stage\<close>

definition company_plan :: portal_provision_plan where
  "company_plan = (planned_as ''READY_FOR_PROVISION'' False)\<lparr>plan_id := ask_id, plan_portal_account_id := ask_id,
     plan_project_id := 30001, plan_container_ssh_port := 22023, plan_slurm_account := ''company'',
     plan_slurm_qos := ''general''\<rparr>"

definition company_target :: stage_target where
  "company_target = \<lparr>st_item = (granted ''PROVISION_PLAN_READY'')\<lparr>crr_portal_account_id := ask_id\<rparr>,
     st_plan = company_plan, st_contract = sample_contract,
     st_rows = map (\<lambda>(kind, v). sample_hold ask_id kind v) (expected_values company_plan),
     st_dry_run = dry_run_done_operation\<lparr>oper_id := ask_id\<rparr>\<rparr>"

definition company_call :: "op_worker \<Rightarrow> compute_call" where
  "company_call worker = (call_with worker)\<lparr>cc_env := sample_op_env\<lparr>oe_ids := \<lambda>_. ask_id\<rparr>\<rparr>"

lemma company_sane: "plan_sane company_plan"
  by code_simp

lemma company_checks: "provision_plan_checks company_plan"
  by (simp add: provision_plan_checks_def company_plan_def row_samples)

lemma company_checked: "checked_target company_target"
  using company_checks
  by (simp add: checked_target_def company_target_def contract_ready expected_values_def sample_hold_def)
    (simp add: company_plan_def planned_as_def contract_ready)

lemma company_canonical: "canonical_target (company_call worker) company_target"
  by (simp add: canonical_target_def canonical_text_def company_target_def company_call_def cc_id_def ask_uuid
      expected_values_def sample_hold_def) (simp add: company_plan_def ask_uuid)

theorem stage_payload_accepted_witness:
  "\<exists>r. validate_payload sample_schema_env ''compute.provision.stage'' False
     (stage_payload_of (company_call (\<lambda>_. Inl ''UNREACHABLE'')) company_target) = Inr r \<and>
     field r ''username'' = PStr ''alice''"
proof -
  obtain r where r: "validate_payload sample_schema_env ''compute.provision.stage'' False
      (stage_payload_of (company_call (\<lambda>_. Inl ''UNREACHABLE'')) company_target) = Inr r"
    and kept: "list_all (\<lambda>k. field r k =
      field (stage_payload_of (company_call (\<lambda>_. Inl ''UNREACHABLE'')) company_target) k) bound_fields"
    using stage_payload_accepted [OF _ _ company_canonical, of sample_schema_env False] company_checked company_sane
    by (auto simp: company_target_def)
  have "field r ''username'' = field (stage_payload_of (company_call (\<lambda>_. Inl ''UNREACHABLE'')) company_target) ''username''"
    using kept by (simp add: bound_fields_def)
  also have "\<dots> = PStr ''alice''"
    by (simp add: stage_payload_of_def plan_payload_def company_target_def company_plan_def row_samples)
  finally show ?thesis using r by blast
qed

lemma dry_run_accepted: "validate_payload sample_schema_env ''compute.provision.dry_run'' False
    (plan_payload (st_item company_target) company_plan) = Inr (plan_accepted (st_item company_target) company_plan)"
proof -
  have "validate_compute_provision_dry_run (plan_payload (st_item company_target) company_plan) =
      Inr (plan_accepted (st_item company_target) company_plan)"
    by (rule plan_payload_accepted [OF company_checks company_sane])
      (simp_all add: canonical_text_def company_target_def ask_uuid, simp add: company_plan_def ask_uuid)
  then show ?thesis by (simp add: validate_payload_def)
qed


subsection \<open>A key that is discarded\<close>

definition discard_request :: worker_request where
  "discard_request = \<lparr>wreq_request_id = ''r'', wreq_operation_type = ''ssh_key.discard'',
     wreq_payload = PDict [(''record_id'', PStr ask_id), (''operation_id'', PStr ask_id),
       (''content_sha256'', PStr (replicate 64 CHR ''1''))],
     wreq_requested_by = ''alice'', wreq_approved_by = None, wreq_idempotency_key = ''key'', wreq_dry_run = False\<rparr>"

lemma discard_served: "dispatch sample_schema_env discard_request =
    Calls ''_discard_ssh_key_record'' (dict_items (wreq_payload discard_request))"
  by code_simp

theorem executors_guarded_witness:
  "\<not> wreq_dry_run discard_request \<and>
   write_executor ''ssh_key.discard'' (dict_items (wreq_payload discard_request)) = Some ''_discard_ssh_key_record''"
proof -
  have "''_discard_ssh_key_record'' \<in> set (map snd executors @ [''_execute_managed_container_start''])"
    by code_simp
  from executors_guarded [OF discard_served this] show ?thesis
    by (simp add: discard_request_def)
qed

end
