(* ===== verification/Spec2Isabelle.thy ===== *)
theory Spec2Isabelle
  imports Provision_Reconciliation Ssh_Keys Terminal_Registry Compute_Samples Account_Samples Ssh_Samples Schema_Samples
begin

text \<open>
  This is a verification library for the portal of the Origin-Forge H100 node: the Python services
  under \<open>src/portal/apps\<close> that decide who may use the GPUs of one machine, for how long, and what
  the privileged worker is asked to do. Browsers and command line clients call the API process
  (\<open>apps/api\<close>); it keeps its state in one SQL database and sends privileged work over a Unix
  socket to the worker process (\<open>apps/worker\<close>), which runs as root.

  \<^bold>\<open>How the model is built.\<close> A service function becomes a definition with its name, over the
  database \<open>portal_db\<close> (\<open>Portal_Store\<close>): a record of tables, each the list of its rows
  (\<open>Portal_Models\<close>, one record per ORM class). A function that may raise returns
  \<open>exn + 'a\<close> and the database, so that what a failed call leaves behind is part of the
  model. The clock, new identifiers, random secrets, SHA-256, the worker and other programs
  are arguments. Time is an integer number of microseconds; a JSON value is a \<open>pyval\<close>.

  \<^bold>\<open>Theories and sources\<close> (paths under \<open>apps/api/src/h100_portal_api\<close> where no other is given):

  \<^item> \<open>Portal_Prelude\<close>: Python values, errors, queries over lists of rows, association lists.
  \<^item> \<open>Operation_Lifecycle\<close> (\<open>enums.py\<close>, \<open>operations.py\<close>): the catalogue of operations and
    the two transition tables; runs of an operation pass an approval before each execution.
  \<^item> \<open>Portal_Models\<close>, \<open>Portal_Store\<close> (\<open>models.py\<close>): rows, CHECK constraints, and the locale
    \<open>row_store\<close>, interpreted for every table with a primary key.
  \<^item> \<open>Rbac\<close> (\<open>rbac.py\<close>): roles, permissions, and their separation.
  \<^item> \<open>Security_Metadata\<close> (\<open>security.py\<close>, \<open>audit.py\<close>): validation, CSRF tokens, redaction, audit.
  \<^item> \<open>Lease_Service\<close> (\<open>lease_service.py\<close>): leases and renewals; the invariant of the lease tables
    over every run of operations, the chain walked by \<open>entitlement\<close>, what each decision does.
  \<^item> \<open>Workspace_Contract\<close> (\<open>apps/shared/.../workspace.py\<close>, \<open>workspace_service.py\<close>,
    \<open>self_resources.py\<close>): paths, storage ownership, resolution of a user's environment.
  \<^item> \<open>Expiry_Service\<close> (\<open>expiry_service.py\<close>): the periodic worker that ends leases and recycles
    their resources, with bounded retries.
  \<^item> \<open>Provision_Reconciliation\<close> (\<open>provision_reconciliation.py\<close>): releasing the reservations of a
    failed attempt on evidence that nothing is left.
  \<^item> \<open>Wire_Format\<close>, \<open>Ssh_Keys\<close> (\<open>ssh_keys.py\<close>), \<open>Worker_Frame\<close> (\<open>worker_client.py\<close>, and
    \<open>protocol.py\<close> and \<open>server.py\<close> of the worker): bytes, big-endian lengths, Base64, key blobs
    and the framed call, composed end to end over any chunking of both streams. The locale
    \<open>length_prefixed\<close> is the contract of a field and is interpreted for both formats.
  \<^item> \<open>Terminal_Service\<close>, \<open>Terminal_Registry\<close> (\<open>terminal_service.py\<close>): the output buffer of a web
    terminal as a refinement of the stream of all output, and the registry with its limits under
    interleaved threads.
  \<^item> \<open>Auth_Service\<close> (\<open>auth.py\<close>, \<open>delegated_auth.py\<close>, \<open>dependencies.py\<close>): cookie sessions, delegated
    sessions, CLI tokens, CSRF, the rate limiter, and the permission check of every route.
  \<^item> \<open>Python_Values\<close>, \<open>Operation_Payloads\<close>, \<open>Operation_Execution\<close>, \<open>Operation_Routes\<close>
    (\<open>routes/operations.py\<close>): the validation of an operation's payload, the background execution with
    what it persists and compensates, and the routes that create, submit and approve. An effect on the
    database is an action, run one after the other by \<open>run_actions\<close>. \<open>Operation_Runs\<close> proves that a
    write to the host is pinned to its approval, that events record legal runs, and that every
    execution settles; the locale \<open>effect_relation\<close> carries relations between databases over
    sequences of actions. \<open>Operation_Samples\<close> holds the concrete runs.
  \<^item> \<open>Compute_Requests\<close>, \<open>Compute_Planning\<close>, \<open>Compute_Stage\<close>, \<open>Compute_Orchestration\<close>,
    \<open>Compute_Retry\<close> (\<open>routes/compute_requests.py\<close>): how a user asks for an environment and an
    administrator grants it. Submission and review; the allocator's plan with its reservations and
    dry run; the real Stage in two halves, before and after the worker's answer; approval and retry as
    one workflow of steps; reconciliation and authorization of failed attempts. \<open>commit\<close> checks the
    constraints of the tables, so a refused transaction is an outcome. \<open>Compute_Runs\<close> proves an
    invariant of the review over every interleaving, with \<open>effect_relation\<close> interpreted for two
    relations; \<open>Compute_Guarantees\<close> when the host is written to, how each answer closes the attempt
    and what a release rests on; \<open>Compute_Replays\<close> that orchestrations end and are answered again
    without effects. \<open>Compute_Samples\<close> follows one request through its life.
  \<^item> \<open>Login_Routes\<close> (\<open>routes/auth.py\<close>), \<open>User_Routes\<close> (\<open>routes/users.py\<close>, the owner's bootstrap
    in \<open>cli.py\<close>): login with its lock, password links, password changes, CLI tokens, sessions, invitations.
    \<open>Account_Effects\<close> says how each request may move users, links and tokens; \<open>Account_Runs\<close> lifts
    that to runs of all account requests, from which \<open>Account_Guarantees\<close> bounds guesses and tokens,
    ties each new password to a proof of authority, and shows that links work once and locks never end.
    \<open>Account_Samples\<close> holds the concrete requests.
  \<^item> \<open>Ssh_Routes\<close>, \<open>Ssh_Sync\<close> (\<open>routes/ssh_keys.py\<close>): the enrollment of a public key with its
    preparation by the worker, and the installation of new keys in the running container.
    \<open>Ssh_Guarantees\<close> bounds the active keys, keeps the table well formed over every run, and says
    exactly which keys a synchronisation installs; \<open>Ssh_Samples\<close> holds the concrete requests.

  \<^item> \<open>Schema_Checks\<close>, \<open>Schema_Times\<close>, \<open>Resource_Schemas\<close>, \<open>Provision_Schemas\<close>, \<open>Job_Schemas\<close>,
    \<open>Worker_Schemas\<close>, \<open>Worker_Dispatch\<close> (\<open>schemas.py\<close> and \<open>handle\<close> in \<open>handlers.py\<close> of the worker): the
    schema of each operation as a list of guards with their error codes and the fields of its result, the
    request, and the choice of the function that serves it. \<open>Schema_Guarantees\<close> shows that no accepted
    payload names a secret, a command or a protected account, and under which conditions a function that
    changes the host runs; \<open>Schema_Contracts\<close> that portal and worker agree on a Stage, both on its contract
    and on its whole payload. \<open>Schema_Samples\<close> holds the concrete payloads.

  \<^bold>\<open>Bounds and fuel.\<close> \<open>chain_loop\<close> walks successors with the set of visited leases, as the code
  does, and stops at the first repetition; its termination measure is the number of leases not
  yet visited. \<open>recv_exact\<close> recurses on the chunks a socket returns. All other recursion
  is structural.

  \<^bold>\<open>Not modelled.\<close> Row locks, transaction isolation and database failures (a run is a sequence of
  committed calls, except in \<open>Terminal_Registry\<close>, where threads interleave); the HTTP framework and
  the serialisation of rows; the functions of the worker that run commands on the host (the dispatcher that chooses among them is
  modelled); the routes of \<open>self_service.py\<close> and \<open>activation.py\<close>, whose services and worker schemas are
  modelled; migrations, deployment scripts, tools for operators and clients.
\<close>

end
